(* ===== verification/Prelude.thy ===== *)
theory Prelude
  imports "HOL-Library.Word" "HOL-Library.Multiset"
begin

text \<open>
  Shared vocabulary of the development: the machine types of
  \<^verbatim>\<open>cryptoTools/Common/Defines.h\<close> (\<^verbatim>\<open>u8\<close> .. \<^verbatim>\<open>u64\<close>, \<^verbatim>\<open>block\<close>), errors as values,
  the exclusive-or sum over a list of indices that every component uses, and the byte
  view of a 128-bit block (the \<^verbatim>\<open>(u8 *)\<close> casts of the code, little endian).
\<close>

unbundle bit_operations_syntax

named_theorems byte_simps \<open>bytes and bits of blocks\<close>
named_theorems xsum_simps \<open>normalising exclusive-or sums\<close>

type_synonym u8 = "8 word"
type_synonym u16 = "16 word"
type_synonym u32 = "32 word"
type_synonym u64 = "64 word"
type_synonym block = "128 word"

text \<open>A C++ exception thrown by the code, with the message that tells the throws apart.\<close>

datatype err = Runtime_error string | Out_of_range string | Length_error string | Signal string

type_synonym 'a res = "err + 'a"

definition res_bind :: "'a res \<Rightarrow> ('a \<Rightarrow> 'b res) \<Rightarrow> 'b res" where
  "res_bind r f = (case r of Inl e \<Rightarrow> Inl e | Inr x \<Rightarrow> f x)"

lemma res_bind_simps [simp]:
  "res_bind (Inl e) f = Inl e"
  "res_bind (Inr x) f = f x"
  by (simp_all add: res_bind_def)

lemma res_bind_Inr_iff:
  "res_bind r f = Inr y \<longleftrightarrow> (\<exists>x. r = Inr x \<and> f x = Inr y)"
  by (cases r) auto

definition roundUpTo :: "nat \<Rightarrow> nat \<Rightarrow> nat" where
  "roundUpTo val step = ((val + step - 1) div step) * step"

lemma roundUpTo_ge: "0 < step \<Longrightarrow> val \<le> roundUpTo val step"
proof -
  assume s: "0 < step"
  have "val + step - 1 < step * ((val + step - 1) div step) + step"
    using s by (metis add_strict_left_mono mod_less_divisor mult_div_mod_eq)
  then show ?thesis using s by (simp add: roundUpTo_def mult.commute)
qed

lemma roundUpTo_less: "0 < step \<Longrightarrow> roundUpTo val step < val + step"
  unfolding roundUpTo_def
  by (metis Suc_diff_1 add_gr_0 div_times_less_eq_dividend le_imp_less_Suc)

lemma roundUpTo_dvd [simp]: "step dvd roundUpTo val step"
  by (simp add: roundUpTo_def)

subsection \<open>Exclusive-or sums\<close>

primrec xsum :: "('i \<Rightarrow> 'a::semiring_bit_operations) \<Rightarrow> 'i list \<Rightarrow> 'a" where
  "xsum f [] = 0"
| "xsum f (x # xs) = f x XOR xsum f xs"

lemma xsum_append [simp]: "xsum f (xs @ ys) = xsum f xs XOR xsum f ys"
  by (induction xs) (simp_all add: ac_simps)

lemma xsum_map [simp]: "xsum f (map g xs) = xsum (f \<circ> g) xs"
  by (induction xs) simp_all

lemma xsum_cong [fundef_cong]:
  "xs = ys \<Longrightarrow> (\<And>x. x \<in> set ys \<Longrightarrow> f x = g x) \<Longrightarrow> xsum f xs = xsum g ys"
  by (induction xs arbitrary: ys) auto

lemma xsum_xor [xsum_simps]: "xsum (\<lambda>i. f i XOR g i) xs = xsum f xs XOR xsum g xs"
  by (induction xs) (simp_all add: ac_simps)

lemma xsum_zero [simp]: "xsum (\<lambda>_. 0) xs = 0"
  by (induction xs) simp_all

lemma xsum_eq_zero: "(\<And>x. x \<in> set xs \<Longrightarrow> f x = 0) \<Longrightarrow> xsum f xs = 0"
  by (induction xs) simp_all

lemma bit_xor_distrib_and:
  "(a XOR b) AND m = (a AND m) XOR (b AND m)" for a b m :: "'a::semiring_bit_operations"
  by (rule bit_eqI) (auto simp: bit_simps)

lemma xsum_and [xsum_simps]: "xsum (\<lambda>i. f i AND m) xs = xsum f xs AND m"
  by (induction xs) (simp_all add: bit_xor_distrib_and)

lemma xsum_filter: "xsum f (filter P xs) = xsum (\<lambda>i. if P i then f i else 0) xs"
  by (induction xs) simp_all

lemma xsum_mset: "mset xs = mset ys \<Longrightarrow> xsum f xs = xsum f ys"
proof (induction xs arbitrary: ys)
  case Nil
  then show ?case by simp
next
  case (Cons x xs)
  then have "x \<in> set ys" by (metis list.set_intros(1) set_mset_mset)
  then obtain us vs where ys: "ys = us @ x # vs" by (meson split_list)
  with Cons.prems have "mset xs = mset (us @ vs)" by simp
  then have "xsum f xs = xsum f (us @ vs)" by (rule Cons.IH)
  then show ?case by (simp add: ys ac_simps)
qed

lemma xsum_concat: "xsum f (concat xss) = xsum (xsum f) xss"
  by (induction xss) simp_all

lemma xsum_swap: "xsum (\<lambda>i. xsum (f i) ys) xs = xsum (\<lambda>j. xsum (\<lambda>i. f i j) xs) ys"
  by (induction xs) (simp_all add: xsum_xor)

lemma xsum_fold: "fold (\<lambda>i a. a XOR f i) xs a = a XOR xsum f xs"
  by (induction xs arbitrary: a) (simp_all add: ac_simps)

lemma xsum_foldl: "foldl (\<lambda>a i. a XOR f i) a xs = a XOR xsum f xs"
  by (induction xs arbitrary: a) (simp_all add: ac_simps)

lemma bit_xsum: "bit (xsum f xs) n \<longleftrightarrow> odd (length (filter (\<lambda>i. bit (f i) n) xs))"
  by (induction xs) (auto simp: bit_simps)

lemma xsum_upt_Suc [simp]: "xsum f [0..<Suc n] = xsum f [0..<n] XOR f n"
  by simp

lemma upt_mult_concat:
  "[0..<n * k] = concat (map (\<lambda>i. map (\<lambda>j. i * k + j) [0..<k]) [0..<n])"
proof (induction n)
  case 0
  then show ?case by simp
next
  case (Suc n)
  have "[0..<Suc n * k] = [0..<n * k] @ [n * k..<n * k + k]"
    by (metis add.commute le_add1 mult_Suc upt_add_eq_append zero_le)
  also have "[n * k..<n * k + k] = map (\<lambda>j. n * k + j) [0..<k]"
    by (simp add: map_add_upt add.commute)
  finally show ?case using Suc by simp
qed

lemma xsum_upt_mult: "xsum f [0..<n * k] = xsum (\<lambda>i. xsum (\<lambda>j. f (i * k + j)) [0..<k]) [0..<n]"
  by (simp only: upt_mult_concat xsum_concat xsum_map o_def)

lemma xsum_upt_extend:
  "n \<le> m \<Longrightarrow> (\<And>i. n \<le> i \<Longrightarrow> i < m \<Longrightarrow> f i = 0) \<Longrightarrow> xsum f [0..<m] = xsum f [0..<n]"
proof -
  assume "n \<le> m" and z: "\<And>i. n \<le> i \<Longrightarrow> i < m \<Longrightarrow> f i = 0"
  then have "[0..<m] = [0..<n] @ [n..<m]" by (metis le0 le_add_diff_inverse upt_add_eq_append)
  moreover have "xsum f [n..<m] = 0" by (rule xsum_eq_zero) (simp add: z)
  ultimately show ?thesis by simp
qed

subsection \<open>The byte view of a block\<close>

definition block_byte :: "block \<Rightarrow> nat \<Rightarrow> u8" where
  "block_byte b i = ucast (drop_bit (8 * i) b)"

definition block_bytes :: "block \<Rightarrow> u8 list" where
  "block_bytes b = map (block_byte b) [0..<16]"

primrec bytes_block :: "u8 list \<Rightarrow> block" where
  "bytes_block [] = 0"
| "bytes_block (x # xs) = ucast x OR push_bit 8 (bytes_block xs)"

lemma bit_block_byte [byte_simps]: "bit (block_byte b i) n \<longleftrightarrow> n < 8 \<and> bit b (8 * i + n)"
  by (auto simp: block_byte_def bit_simps dest: bit_imp_le_length)

lemma length_block_bytes [simp]: "length (block_bytes b) = 16"
  by (simp add: block_bytes_def)

lemma nth_block_bytes [byte_simps]: "i < 16 \<Longrightarrow> block_bytes b ! i = block_byte b i"
  by (simp add: block_bytes_def)

lemma bit_bytes_block [byte_simps]:
  "bit (bytes_block bs) n \<longleftrightarrow> n < 128 \<and> n div 8 < length bs \<and> bit (bs ! (n div 8)) (n mod 8)"
proof (induction bs arbitrary: n)
  case Nil
  then show ?case by simp
next
  case (Cons b bs)
  show ?case
  proof (cases "n < 8")
    case True
    then show ?thesis by (simp add: bit_simps)
  next
    case False
    then have "n div 8 = Suc ((n - 8) div 8)" and "n mod 8 = (n - 8) mod 8"
      by (simp_all add: div_if mod_if)
    moreover have "\<not> bit b n" using False bit_imp_le_length[of b n] by auto
    ultimately show ?thesis using False
      by (auto simp: bit_simps Cons.IH)
  qed
qed

lemma bytes_block_block_bytes [simp]: "bytes_block (block_bytes b) = b"
proof (rule bit_word_eqI)
  fix n assume "n < LENGTH(128)"
  then have "n < 128" by simp
  then have "n div 8 < 16" by (simp add: less_mult_imp_div_less)
  then show "bit (bytes_block (block_bytes b)) n = bit b n"
    using \<open>n < 128\<close> by (simp add: byte_simps)
qed

lemma block_bytes_bytes_block [simp]:
  assumes "length bs = 16"
  shows "block_bytes (bytes_block bs) = bs"
proof (rule nth_equalityI)
  show "length (block_bytes (bytes_block bs)) = length bs" by (simp add: assms)
next
  fix i assume "i < length (block_bytes (bytes_block bs))"
  then have i: "i < 16" by simp
  show "block_bytes (bytes_block bs) ! i = bs ! i"
  proof (rule bit_word_eqI)
    fix n assume "n < LENGTH(8)"
    then have n: "n < 8" by simp
    then have "8 * i + n < 128" using i by simp
    moreover have "(8 * i + n) div 8 = i" and "(8 * i + n) mod 8 = n" using n by simp_all
    ultimately show "bit (block_bytes (bytes_block bs) ! i) n = bit (bs ! i) n"
      using i n assms by (simp add: byte_simps)
  qed
qed

text \<open>An array of blocks read as bytes, and bytes read as an array of \<open>n\<close> blocks.\<close>

definition blocks_bytes :: "block list \<Rightarrow> u8 list" where
  "blocks_bytes bs = concat (map block_bytes bs)"

primrec bytes_blocks :: "nat \<Rightarrow> u8 list \<Rightarrow> block list" where
  "bytes_blocks 0 bs = []"
| "bytes_blocks (Suc n) bs = bytes_block (take 16 bs) # bytes_blocks n (drop 16 bs)"

lemma length_blocks_bytes [simp]: "length (blocks_bytes bs) = 16 * length bs"
  by (induction bs) (simp_all add: blocks_bytes_def)

lemma length_bytes_blocks [simp]: "length (bytes_blocks n bs) = n"
  by (induction n arbitrary: bs) simp_all

lemma blocks_bytes_simps [simp]:
  "blocks_bytes [] = []"
  "blocks_bytes (b # bs) = block_bytes b @ blocks_bytes bs"
  by (simp_all add: blocks_bytes_def)

lemma bytes_blocks_inverse [simp]: "bytes_blocks (length bs) (blocks_bytes bs) = bs"
  by (induction bs) simp_all

lemma blocks_bytes_inverse [simp]:
  "length bs = 16 * n \<Longrightarrow> blocks_bytes (bytes_blocks n bs) = bs"
  by (induction n arbitrary: bs) simp_all

lemma nth_bytes_blocks [byte_simps]:
  "i < n \<Longrightarrow> bytes_blocks n bs ! i = bytes_block (take 16 (drop (16 * i) bs))"
proof (induction n arbitrary: i bs)
  case 0
  then show ?case by simp
next
  case (Suc n)
  show ?case
  proof (cases i)
    case 0
    then show ?thesis by simp
  next
    case (Suc j)
    with Suc.prems Suc.IH[of j "drop 16 bs"] show ?thesis
      by (simp add: add.commute)
  qed
qed

lemma nth_blocks_bytes [byte_simps]:
  "i < 16 * length bs \<Longrightarrow> blocks_bytes bs ! i = block_byte (bs ! (i div 16)) (i mod 16)"
proof (induction bs arbitrary: i)
  case Nil
  then show ?case by simp
next
  case (Cons b bs)
  show ?case
  proof (cases "i < 16")
    case True
    then show ?thesis by (simp add: nth_append byte_simps)
  next
    case False
    then have "i div 16 = Suc ((i - 16) div 16)" and "i mod 16 = (i - 16) mod 16"
      by (simp_all add: div_if mod_if)
    with False Cons.prems Cons.IH[of "i - 16"] show ?thesis
      by (simp add: nth_append)
  qed
qed

text \<open>\<^verbatim>\<open>memcpy(dst, src, n)\<close> on byte lists, \<open>n\<close> at most both lengths.\<close>

definition memcpy :: "u8 list \<Rightarrow> u8 list \<Rightarrow> nat \<Rightarrow> u8 list" where
  "memcpy dst src n = take n src @ drop n dst"

lemma length_memcpy [simp]:
  "n \<le> length src \<Longrightarrow> n \<le> length dst \<Longrightarrow> length (memcpy dst src n) = length dst"
  by (simp add: memcpy_def)

lemma nth_memcpy:
  "n \<le> length src \<Longrightarrow> n \<le> length dst \<Longrightarrow> i < length dst \<Longrightarrow>
   memcpy dst src n ! i = (if i < n then src ! i else dst ! i)"
  by (auto simp: memcpy_def nth_append)

subsection \<open>Integers in memory\<close>

definition bytes_le :: "u8 list \<Rightarrow> 'a::len word" where
  "bytes_le bs = foldr (\<lambda>b a. ucast b OR push_bit 8 a) bs 0"

definition word_bytes :: "nat \<Rightarrow> 'a::len word \<Rightarrow> u8 list" where
  "word_bytes n w = map (\<lambda>i. ucast (drop_bit (8 * i) w)) [0..<n]"

lemma bit_bytes_le:
  "bit (bytes_le bs :: 'a::len word) n \<longleftrightarrow>
   n < LENGTH('a) \<and> n div 8 < length bs \<and> bit (bs ! (n div 8)) (n mod 8)"
proof (induction bs arbitrary: n)
  case Nil
  then show ?case by (simp add: bytes_le_def)
next
  case (Cons b bs)
  have e: "bytes_le (b # bs) = (ucast b OR push_bit 8 (bytes_le bs) :: 'a word)"
    by (simp add: bytes_le_def)
  show ?case
  proof (cases "n < 8")
    case True
    then show ?thesis by (simp add: e bit_simps)
  next
    case False
    then have "n div 8 = Suc ((n - 8) div 8)" and "n mod 8 = (n - 8) mod 8"
      by (simp_all add: div_if mod_if)
    moreover have "\<not> bit b n" using False bit_imp_le_length[of b n] by auto
    ultimately show ?thesis using False by (auto simp: e bit_simps Cons.IH)
  qed
qed

lemma length_word_bytes [simp]: "length (word_bytes n w) = n"
  by (simp add: word_bytes_def)

lemma bytes_le_word_bytes:
  "LENGTH('a) = 8 * n \<Longrightarrow> bytes_le (word_bytes n w) = (w :: 'a::len word)"
proof (rule bit_word_eqI)
  fix i assume l: "LENGTH('a) = 8 * n" and i: "i < LENGTH('a)"
  then have "i div 8 < n" by (simp add: less_mult_imp_div_less mult.commute)
  then show "bit (bytes_le (word_bytes n w) :: 'a word) i = bit w i"
    using i l by (simp add: bit_bytes_le word_bytes_def bit_simps)
qed

text \<open>\<^verbatim>\<open>std::vector::resize(n, x)\<close>.\<close>

definition vec_resize :: "nat \<Rightarrow> 'a \<Rightarrow> 'a list \<Rightarrow> 'a list" where
  "vec_resize n x xs = take n xs @ replicate (n - length xs) x"

lemma length_vec_resize [simp]: "length (vec_resize n x xs) = n"
  by (simp add: vec_resize_def)

text \<open>
  Sixteen bytes written as one numeral whose digits stand in the order of the bytes: the way
  the generator matrices, sixteen bytes a line, are written down.
\<close>

definition line_bytes :: "block \<Rightarrow> u8 list" where
  "line_bytes w = rev (word_bytes 16 w)"

lemma length_line_bytes [simp]: "length (line_bytes w) = 16"
  by (simp add: line_bytes_def)

text \<open>Bit \<open>i\<close> of a byte array, the lowest bit of a byte first.\<close>

definition bit_at :: "u8 list \<Rightarrow> nat \<Rightarrow> bool" where
  "bit_at bs i = bit (bs ! (i div 8)) (i mod 8)"

end
