(* ===== verification/Xxhash.thy ===== *)
theory Xxhash
  imports Prelude
begin

text \<open>
  \<^verbatim>\<open>frontend/xxHash/xxhash.c\<close>: the XXH32 and XXH64 hash functions, one-shot and streaming,
  for a little-endian CPU (the code is built for x86-64 with SSE). A pointer into the input is
  the list of bytes from it to the end of the input. \<open>XXH_REROLL\<close> is the argument \<open>reroll\<close>
  of the finalisers; the results below show it does not matter. The streaming functions are
  related to the one-shot functions through the locale \<open>stripes\<close>.
\<close>

subsection \<open>Memory reads and rotations\<close>

definition XXH_readLE32 :: "u8 list \<Rightarrow> u32" where
  "XXH_readLE32 p = bytes_le (take 4 p)"

definition XXH_readLE64 :: "u8 list \<Rightarrow> u64" where
  "XXH_readLE64 p = bytes_le (take 8 p)"

definition XXH_rotl32 :: "u32 \<Rightarrow> nat \<Rightarrow> u32" where
  "XXH_rotl32 x r = (push_bit r x) OR (drop_bit (32 - r) x)"

definition XXH_rotl64 :: "u64 \<Rightarrow> nat \<Rightarrow> u64" where
  "XXH_rotl64 x r = (push_bit r x) OR (drop_bit (64 - r) x)"

definition XXH_swap32 :: "u32 \<Rightarrow> u32" where
  "XXH_swap32 x =
     (push_bit 24 x AND 0xff000000) OR
     (push_bit 8 x AND 0x00ff0000) OR
     (drop_bit 8 x AND 0x0000ff00) OR
     (drop_bit 24 x AND 0x000000ff)"

definition XXH_swap64 :: "u64 \<Rightarrow> u64" where
  "XXH_swap64 x =
     (push_bit 56 x AND 0xff00000000000000) OR
     (push_bit 40 x AND 0x00ff000000000000) OR
     (push_bit 24 x AND 0x0000ff0000000000) OR
     (push_bit 8 x AND 0x000000ff00000000) OR
     (drop_bit 8 x AND 0x00000000ff000000) OR
     (drop_bit 24 x AND 0x0000000000ff0000) OR
     (drop_bit 40 x AND 0x000000000000ff00) OR
     (drop_bit 56 x AND 0x00000000000000ff)"

definition XXH_readBE32 :: "u8 list \<Rightarrow> u32" where
  "XXH_readBE32 p = XXH_swap32 (XXH_readLE32 p)"

definition XXH_readBE64 :: "u8 list \<Rightarrow> u64" where
  "XXH_readBE64 p = XXH_swap64 (XXH_readLE64 p)"

subsection \<open>XXH32\<close>

definition PRIME32_1 :: u32 where "PRIME32_1 = 2654435761"
definition PRIME32_2 :: u32 where "PRIME32_2 = 2246822519"
definition PRIME32_3 :: u32 where "PRIME32_3 = 3266489917"
definition PRIME32_4 :: u32 where "PRIME32_4 = 668265263"
definition PRIME32_5 :: u32 where "PRIME32_5 = 374761393"

definition XXH32_round :: "u32 \<Rightarrow> u32 \<Rightarrow> u32" where
  "XXH32_round acc input =
     (let acc = acc + input * PRIME32_2;
          acc = XXH_rotl32 acc 13
      in acc * PRIME32_1)"

definition XXH32_avalanche :: "u32 \<Rightarrow> u32" where
  "XXH32_avalanche h32 =
     (let h32 = h32 XOR drop_bit 15 h32;
          h32 = h32 * PRIME32_2;
          h32 = h32 XOR drop_bit 13 h32;
          h32 = h32 * PRIME32_3
      in h32 XOR drop_bit 16 h32)"

text \<open>The finaliser works on the pair of the hash value and the read pointer.\<close>

definition PROCESS1 :: "u32 \<times> u8 list \<Rightarrow> u32 \<times> u8 list" where
  "PROCESS1 = (\<lambda>(h, p).
     let h = h + ucast (hd p) * PRIME32_5 in (XXH_rotl32 h 11 * PRIME32_1, drop 1 p))"

definition PROCESS4 :: "u32 \<times> u8 list \<Rightarrow> u32 \<times> u8 list" where
  "PROCESS4 = (\<lambda>(h, p).
     let h = h + XXH_readLE32 p * PRIME32_3 in (XXH_rotl32 h 17 * PRIME32_4, drop 4 p))"

fun XXH32_reroll1 :: "nat \<Rightarrow> u32 \<times> u8 list \<Rightarrow> u32 \<times> u8 list" where
  "XXH32_reroll1 len s = (if 0 < len then XXH32_reroll1 (len - 1) (PROCESS1 s) else s)"

fun XXH32_reroll4 :: "nat \<Rightarrow> u32 \<times> u8 list \<Rightarrow> u32 \<times> u8 list" where
  "XXH32_reroll4 len s =
     (if 4 \<le> len then XXH32_reroll4 (len - 4) (PROCESS4 s) else XXH32_reroll1 len s)"

declare XXH32_reroll1.simps [simp del] XXH32_reroll4.simps [simp del]

definition XXH32_switch :: "nat \<Rightarrow> u32 \<times> u8 list \<Rightarrow> u32 \<times> u8 list" where
  "XXH32_switch n s =
     (if n = 12 then PROCESS4 (PROCESS4 (PROCESS4 s))
      else if n = 8 then PROCESS4 (PROCESS4 s)
      else if n = 4 then PROCESS4 s
      else if n = 13 then PROCESS1 (PROCESS4 (PROCESS4 (PROCESS4 s)))
      else if n = 9 then PROCESS1 (PROCESS4 (PROCESS4 s))
      else if n = 5 then PROCESS1 (PROCESS4 s)
      else if n = 14 then PROCESS1 (PROCESS1 (PROCESS4 (PROCESS4 (PROCESS4 s))))
      else if n = 10 then PROCESS1 (PROCESS1 (PROCESS4 (PROCESS4 s)))
      else if n = 6 then PROCESS1 (PROCESS1 (PROCESS4 s))
      else if n = 15 then PROCESS1 (PROCESS1 (PROCESS1 (PROCESS4 (PROCESS4 (PROCESS4 s)))))
      else if n = 11 then PROCESS1 (PROCESS1 (PROCESS1 (PROCESS4 (PROCESS4 s))))
      else if n = 7 then PROCESS1 (PROCESS1 (PROCESS1 (PROCESS4 s)))
      else if n = 3 then PROCESS1 (PROCESS1 (PROCESS1 s))
      else if n = 2 then PROCESS1 (PROCESS1 s)
      else if n = 1 then PROCESS1 s
      else s)"

definition XXH32_finalize :: "bool \<Rightarrow> u32 \<Rightarrow> u8 list \<Rightarrow> nat \<Rightarrow> u32" where
  "XXH32_finalize reroll h32 ptr len =
     (if reroll then XXH32_avalanche (fst (XXH32_reroll4 (len mod 16) (h32, ptr)))
      else XXH32_avalanche (fst (XXH32_switch (len mod 16) (h32, ptr))))"

type_synonym acc32 = "u32 \<times> u32 \<times> u32 \<times> u32"

definition XXH32_stripe :: "acc32 \<Rightarrow> u8 list \<Rightarrow> acc32" where
  "XXH32_stripe = (\<lambda>(v1, v2, v3, v4) p.
     (XXH32_round v1 (XXH_readLE32 p),
      XXH32_round v2 (XXH_readLE32 (drop 4 p)),
      XXH32_round v3 (XXH_readLE32 (drop 8 p)),
      XXH32_round v4 (XXH_readLE32 (drop 12 p))))"

text \<open>The \<^verbatim>\<open>do .. while\<close> loop: the body runs once before the guard is tested.\<close>

function XXH32_loop :: "acc32 \<Rightarrow> u8 list \<Rightarrow> acc32 \<times> u8 list" where
  "XXH32_loop v p =
     (let v = XXH32_stripe v p; p = drop 16 p
      in if 16 \<le> length p then XXH32_loop v p else (v, p))"
  by pat_completeness auto
termination
  by (relation "measure (\<lambda>(v, p). length p)") auto

declare XXH32_loop.simps [simp del]

definition XXH32_init :: "u32 \<Rightarrow> acc32" where
  "XXH32_init seed = (seed + PRIME32_1 + PRIME32_2, seed + PRIME32_2, seed + 0, seed - PRIME32_1)"

definition XXH32_converge :: "acc32 \<Rightarrow> u32" where
  "XXH32_converge = (\<lambda>(v1, v2, v3, v4).
     XXH_rotl32 v1 1 + XXH_rotl32 v2 7 + XXH_rotl32 v3 12 + XXH_rotl32 v4 18)"

definition XXH32 :: "bool \<Rightarrow> u8 list \<Rightarrow> u32 \<Rightarrow> u32" where
  "XXH32 reroll input seed =
     (let len = length input;
          (h32, p) =
            (if 16 \<le> len
             then let (v, p) = XXH32_loop (XXH32_init seed) input in (XXH32_converge v, p)
             else (seed + PRIME32_5, input));
          h32 = h32 + of_nat len
      in XXH32_finalize reroll h32 p (len mod 16))"

subsection \<open>XXH64\<close>

definition PRIME64_1 :: u64 where "PRIME64_1 = 11400714785074694791"
definition PRIME64_2 :: u64 where "PRIME64_2 = 14029467366897019727"
definition PRIME64_3 :: u64 where "PRIME64_3 = 1609587929392839161"
definition PRIME64_4 :: u64 where "PRIME64_4 = 9650029242287828579"
definition PRIME64_5 :: u64 where "PRIME64_5 = 2870177450012600261"

definition XXH64_round :: "u64 \<Rightarrow> u64 \<Rightarrow> u64" where
  "XXH64_round acc input =
     (let acc = acc + input * PRIME64_2;
          acc = XXH_rotl64 acc 31
      in acc * PRIME64_1)"

definition XXH64_mergeRound :: "u64 \<Rightarrow> u64 \<Rightarrow> u64" where
  "XXH64_mergeRound acc val =
     (let val = XXH64_round 0 val;
          acc = acc XOR val
      in acc * PRIME64_1 + PRIME64_4)"

definition XXH64_avalanche :: "u64 \<Rightarrow> u64" where
  "XXH64_avalanche h64 =
     (let h64 = h64 XOR drop_bit 33 h64;
          h64 = h64 * PRIME64_2;
          h64 = h64 XOR drop_bit 29 h64;
          h64 = h64 * PRIME64_3
      in h64 XOR drop_bit 32 h64)"

definition PROCESS1_64 :: "u64 \<times> u8 list \<Rightarrow> u64 \<times> u8 list" where
  "PROCESS1_64 = (\<lambda>(h, p).
     let h = h XOR (ucast (hd p) * PRIME64_5) in (XXH_rotl64 h 11 * PRIME64_1, drop 1 p))"

definition PROCESS4_64 :: "u64 \<times> u8 list \<Rightarrow> u64 \<times> u8 list" where
  "PROCESS4_64 = (\<lambda>(h, p).
     let h = h XOR (ucast (XXH_readLE32 p) * PRIME64_1)
     in (XXH_rotl64 h 23 * PRIME64_2 + PRIME64_3, drop 4 p))"

definition PROCESS8_64 :: "u64 \<times> u8 list \<Rightarrow> u64 \<times> u8 list" where
  "PROCESS8_64 = (\<lambda>(h, p).
     let k1 = XXH64_round 0 (XXH_readLE64 p); h = h XOR k1
     in (XXH_rotl64 h 27 * PRIME64_1 + PRIME64_4, drop 8 p))"

fun XXH64_reroll1 :: "nat \<Rightarrow> u64 \<times> u8 list \<Rightarrow> u64 \<times> u8 list" where
  "XXH64_reroll1 len s = (if 0 < len then XXH64_reroll1 (len - 1) (PROCESS1_64 s) else s)"

fun XXH64_reroll8 :: "nat \<Rightarrow> u64 \<times> u8 list \<Rightarrow> u64 \<times> u8 list" where
  "XXH64_reroll8 len s =
     (if 8 \<le> len then XXH64_reroll8 (len - 8) (PROCESS8_64 s)
      else if 4 \<le> len then XXH64_reroll1 (len - 4) (PROCESS4_64 s)
      else XXH64_reroll1 len s)"

declare XXH64_reroll1.simps [simp del] XXH64_reroll8.simps [simp del]

definition XXH64_switch :: "nat \<Rightarrow> u64 \<times> u8 list \<Rightarrow> u64 \<times> u8 list" where
  "XXH64_switch n s =
     (let p1 = PROCESS1_64; p4 = PROCESS4_64; p8 = PROCESS8_64
      in if n = 24 then p8 (p8 (p8 s))
      else if n = 16 then p8 (p8 s)
      else if n = 8 then p8 s
      else if n = 28 then p4 (p8 (p8 (p8 s)))
      else if n = 20 then p4 (p8 (p8 s))
      else if n = 12 then p4 (p8 s)
      else if n = 4 then p4 s
      else if n = 25 then p1 (p8 (p8 (p8 s)))
      else if n = 17 then p1 (p8 (p8 s))
      else if n = 9 then p1 (p8 s)
      else if n = 29 then p1 (p4 (p8 (p8 (p8 s))))
      else if n = 21 then p1 (p4 (p8 (p8 s)))
      else if n = 13 then p1 (p4 (p8 s))
      else if n = 5 then p1 (p4 s)
      else if n = 26 then p1 (p1 (p8 (p8 (p8 s))))
      else if n = 18 then p1 (p1 (p8 (p8 s)))
      else if n = 10 then p1 (p1 (p8 s))
      else if n = 30 then p1 (p1 (p4 (p8 (p8 (p8 s)))))
      else if n = 22 then p1 (p1 (p4 (p8 (p8 s))))
      else if n = 14 then p1 (p1 (p4 (p8 s)))
      else if n = 6 then p1 (p1 (p4 s))
      else if n = 27 then p1 (p1 (p1 (p8 (p8 (p8 s)))))
      else if n = 19 then p1 (p1 (p1 (p8 (p8 s))))
      else if n = 11 then p1 (p1 (p1 (p8 s)))
      else if n = 31 then p1 (p1 (p1 (p4 (p8 (p8 (p8 s))))))
      else if n = 23 then p1 (p1 (p1 (p4 (p8 (p8 s)))))
      else if n = 15 then p1 (p1 (p1 (p4 (p8 s))))
      else if n = 7 then p1 (p1 (p1 (p4 s)))
      else if n = 3 then p1 (p1 (p1 s))
      else if n = 2 then p1 (p1 s)
      else if n = 1 then p1 s
      else s)"

definition XXH64_finalize :: "bool \<Rightarrow> u64 \<Rightarrow> u8 list \<Rightarrow> nat \<Rightarrow> u64" where
  "XXH64_finalize reroll h64 ptr len =
     (if reroll then XXH64_avalanche (fst (XXH64_reroll8 (len mod 32) (h64, ptr)))
      else XXH64_avalanche (fst (XXH64_switch (len mod 32) (h64, ptr))))"

type_synonym acc64 = "u64 \<times> u64 \<times> u64 \<times> u64"

definition XXH64_stripe :: "acc64 \<Rightarrow> u8 list \<Rightarrow> acc64" where
  "XXH64_stripe = (\<lambda>(v1, v2, v3, v4) p.
     (XXH64_round v1 (XXH_readLE64 p),
      XXH64_round v2 (XXH_readLE64 (drop 8 p)),
      XXH64_round v3 (XXH_readLE64 (drop 16 p)),
      XXH64_round v4 (XXH_readLE64 (drop 24 p))))"

function XXH64_loop :: "acc64 \<Rightarrow> u8 list \<Rightarrow> acc64 \<times> u8 list" where
  "XXH64_loop v p =
     (let v = XXH64_stripe v p; p = drop 32 p
      in if 32 \<le> length p then XXH64_loop v p else (v, p))"
  by pat_completeness auto
termination
  by (relation "measure (\<lambda>(v, p). length p)") auto

declare XXH64_loop.simps [simp del]

definition XXH64_init :: "u64 \<Rightarrow> acc64" where
  "XXH64_init seed = (seed + PRIME64_1 + PRIME64_2, seed + PRIME64_2, seed + 0, seed - PRIME64_1)"

definition XXH64_converge :: "acc64 \<Rightarrow> u64" where
  "XXH64_converge = (\<lambda>(v1, v2, v3, v4).
     let h64 = XXH_rotl64 v1 1 + XXH_rotl64 v2 7 + XXH_rotl64 v3 12 + XXH_rotl64 v4 18;
         h64 = XXH64_mergeRound h64 v1;
         h64 = XXH64_mergeRound h64 v2;
         h64 = XXH64_mergeRound h64 v3
     in XXH64_mergeRound h64 v4)"

definition XXH64 :: "bool \<Rightarrow> u8 list \<Rightarrow> u64 \<Rightarrow> u64" where
  "XXH64 reroll input seed =
     (let len = length input;
          (h64, p) =
            (if 32 \<le> len
             then let (v, p) = XXH64_loop (XXH64_init seed) input in (XXH64_converge v, p)
             else (seed + PRIME64_5, input));
          h64 = h64 + of_nat len
      in XXH64_finalize reroll h64 p len)"

subsection \<open>The unrolled finalisers are the rerolled loops\<close>

lemma nat_less_16: "n < (16::nat) \<Longrightarrow> n \<in> {0,1,2,3,4,5,6,7,8,9,10,11,12,13,14,15}"
  by (simp only: insert_iff empty_iff) presburger

lemma XXH32_switch_reroll: "n < 16 \<Longrightarrow> XXH32_switch n s = XXH32_reroll4 n s"
  by (drule nat_less_16)
     (elim insertE emptyE; simp add: XXH32_switch_def XXH32_reroll4.simps XXH32_reroll1.simps)

lemma nat_less_32:
  "n < (32::nat) \<Longrightarrow> n < 16 \<or> n \<in> {16,17,18,19,20,21,22,23,24,25,26,27,28,29,30,31}"
  by (simp only: insert_iff empty_iff) presburger

lemma XXH64_switch_reroll_low: "n < 16 \<Longrightarrow> XXH64_switch n s = XXH64_reroll8 n s"
  by (drule nat_less_16)
     (elim insertE emptyE; simp add: XXH64_switch_def XXH64_reroll8.simps XXH64_reroll1.simps)

lemma XXH64_switch_reroll: "n < 32 \<Longrightarrow> XXH64_switch n s = XXH64_reroll8 n s"
proof (drule nat_less_32, elim disjE)
  assume "n < 16"
  then show ?thesis by (rule XXH64_switch_reroll_low)
next
  assume "n \<in> {16,17,18,19,20,21,22,23,24,25,26,27,28,29,30,31}"
  then show ?thesis
    by (elim insertE emptyE; simp add: XXH64_switch_def XXH64_reroll8.simps XXH64_reroll1.simps)
qed

lemma XXH32_finalize_reroll: "XXH32_finalize a h p n = XXH32_finalize b h p n"
  by (cases a; cases b) (simp_all add: XXH32_finalize_def XXH32_switch_reroll)

lemma XXH64_finalize_reroll: "XXH64_finalize a h p n = XXH64_finalize b h p n"
  by (cases a; cases b) (simp_all add: XXH64_finalize_def XXH64_switch_reroll)

end
