(* ===== verification/Xxhash_Stream.thy ===== *)
theory Xxhash_Stream
  imports Xxhash
begin

text \<open>
  The streaming interface of \<^verbatim>\<open>frontend/xxHash/xxhash.c\<close> (\<open>reset\<close>, \<open>update\<close>, \<open>digest\<close>, for
  XXH32 and XXH64), its canonical representation, and the proof that hashing a message in any
  chunks gives the one-shot hash. The locale \<open>stripes\<close> holds the argument both widths share.
\<close>

subsection \<open>The locale: consuming whole stripes from a buffer\<close>

locale stripes =
  fixes W :: nat
    and stripe :: "'v \<Rightarrow> u8 list \<Rightarrow> 'v"
    and loop :: "'v \<Rightarrow> u8 list \<Rightarrow> 'v \<times> u8 list"
  assumes W_pos: "0 < W"
    and stripe_prefix: "W \<le> length p \<Longrightarrow> stripe v (p @ q) = stripe v p"
    and loop_unfold: "loop v p =
      (if W \<le> length (drop W p) then loop (stripe v p) (drop W p) else (stripe v p, drop W p))"
begin

definition consume :: "'v \<Rightarrow> u8 list \<Rightarrow> 'v \<times> u8 list" where
  "consume v p = (if W \<le> length p then loop v p else (v, p))"

lemma consume_short: "length p < W \<Longrightarrow> consume v p = (v, p)"
  by (simp add: consume_def)

lemma consume_long: "W \<le> length p \<Longrightarrow> consume v p = consume (stripe v p) (drop W p)"
  by (simp add: consume_def loop_unfold [of v p])

lemma loop_consume: "W \<le> length p \<Longrightarrow> loop v p = consume v p"
  by (simp add: consume_def)

lemma consume_rest: "length (snd (consume v p)) = length p mod W"
proof (induction "length p" arbitrary: v p rule: less_induct)
  case less
  show ?case
  proof (cases "W \<le> length p")
    case True
    with W_pos less[of "drop W p"] show ?thesis
      by (simp add: consume_long le_mod_geq)
  next
    case False
    then show ?thesis by (simp add: consume_short)
  qed
qed

lemma consume_append:
  "consume v (p @ q) = consume (fst (consume v p)) (snd (consume v p) @ q)"
proof (induction "length p" arbitrary: v p rule: less_induct)
  case less
  show ?case
  proof (cases "W \<le> length p")
    case True
    with W_pos have "consume v (p @ q) = consume (stripe v p) (drop W p @ q)"
      by (simp add: consume_long [of "p @ q"] stripe_prefix)
    also have "\<dots> = consume (fst (consume (stripe v p) (drop W p)))
        (snd (consume (stripe v p) (drop W p)) @ q)"
      using True W_pos by (intro less) simp
    also have "consume (stripe v p) (drop W p) = consume v p"
      using True by (simp add: consume_long)
    finally show ?thesis .
  next
    case False
    then show ?thesis by (simp add: consume_short)
  qed
qed

end

subsection \<open>XXH64\<close>

datatype XXH_errorcode = XXH_OK | XXH_ERROR

record XXH64_state =
  total_len :: u64
  vs :: acc64
  mem64 :: "u8 list"
  memsize :: nat

definition XXH64_reset :: "u64 \<Rightarrow> XXH_errorcode \<times> XXH64_state" where
  "XXH64_reset seed =
     (XXH_OK, \<lparr>total_len = 0, vs = XXH64_init seed, mem64 = replicate 32 0, memsize = 0\<rparr>)"

text \<open>\<open>None\<close> is the null input pointer.\<close>

definition XXH64_update ::
  "XXH64_state \<Rightarrow> u8 list option \<Rightarrow> XXH_errorcode \<times> XXH64_state" where
  "XXH64_update state input =
     (case input of
        None \<Rightarrow> (XXH_ERROR, state)
      | Some p \<Rightarrow>
          let len = length p;
              state = state\<lparr>total_len := total_len state + of_nat len\<rparr>
          in if memsize state + len < 32
             then (XXH_OK, state\<lparr>
                     mem64 := take (memsize state) (mem64 state) @ p @ drop (memsize state + len) (mem64 state),
                     memsize := memsize state + len\<rparr>)
             else
               let (state, p) =
                     (if 0 < memsize state
                      then let mem = take (memsize state) (mem64 state) @ take (32 - memsize state) p
                           in (state\<lparr>mem64 := mem, vs := XXH64_stripe (vs state) mem, memsize := 0\<rparr>,
                               drop (32 - memsize state) p)
                      else (state, p));
                   (state, p) =
                     (if 32 \<le> length p
                      then let (v, p) = XXH64_loop (vs state) p in (state\<lparr>vs := v\<rparr>, p)
                      else (state, p))
               in (XXH_OK,
                   if 0 < length p
                   then state\<lparr>mem64 := p @ drop (length p) (mem64 state), memsize := length p\<rparr>
                   else state))"

definition XXH64_digest :: "bool \<Rightarrow> XXH64_state \<Rightarrow> u64" where
  "XXH64_digest reroll state =
     (let h64 = (if 32 \<le> total_len state then XXH64_converge (vs state)
                 else fst (snd (snd (vs state))) + PRIME64_5);
          h64 = h64 + total_len state
      in XXH64_finalize reroll h64 (mem64 state) (unat (total_len state)))"

lemma bytes_le_cong: "take 8 p = take 8 q \<Longrightarrow> XXH_readLE64 p = XXH_readLE64 q"
  by (simp add: XXH_readLE64_def)

lemma XXH64_stripe_prefix: "32 \<le> length p \<Longrightarrow> XXH64_stripe v (p @ q) = XXH64_stripe v p"
  by (cases v) (simp add: XXH64_stripe_def XXH_readLE64_def)

interpretation s64: stripes 32 XXH64_stripe XXH64_loop
  by unfold_locales
     (simp_all add: XXH64_stripe_prefix, simp add: XXH64_loop.simps Let_def)

text \<open>The abstract value of a state: the accumulators and the pending bytes.\<close>

definition abs64 :: "XXH64_state \<Rightarrow> acc64 \<times> u8 list" where
  "abs64 s = (vs s, take (memsize s) (mem64 s))"

definition wf64 :: "XXH64_state \<Rightarrow> bool" where
  "wf64 s \<longleftrightarrow> length (mem64 s) = 32 \<and> memsize s < 32"

lemma XXH64_update_refines:
  fixes p :: "u8 list"
  assumes "wf64 s"
  defines "r \<equiv> XXH64_update s (Some p)"
  shows "wf64 (snd r) \<and> fst r = XXH_OK \<and>
    total_len (snd r) = total_len s + of_nat (length p) \<and>
    abs64 (snd r) = s64.consume (fst (abs64 s)) (snd (abs64 s) @ p)"
proof -
  let ?m = "memsize s" and ?buf = "take (memsize s) (mem64 s)"
  have m: "?m < 32" and l: "length (mem64 s) = 32" using assms by (simp_all add: wf64_def)
  show ?thesis
  proof (cases "?m + length p < 32")
    case True
    then show ?thesis using m l
      by (simp add: r_def XXH64_update_def Let_def wf64_def abs64_def s64.consume_short)
  next
    case False
    define n where "n = 32 - ?m"
    define v1 where "v1 = (if 0 < ?m then XXH64_stripe (vs s) (?buf @ take n p) else vs s)"
    define p1 where "p1 = (if 0 < ?m then drop n p else p)"
    have c1: "s64.consume v1 p1 = s64.consume (vs s) (?buf @ p)"
    proof (cases "0 < ?m")
      case True
      have "XXH64_stripe (vs s) (?buf @ p) = XXH64_stripe (vs s) (?buf @ take n p)"
        using XXH64_stripe_prefix [of "?buf @ take n p" "vs s" "drop n p"] False m l
        by (simp add: n_def)
      moreover have "drop 32 (?buf @ p) = drop n p" using l m by (simp add: n_def)
      ultimately show ?thesis using True False m l
        by (simp add: s64.consume_long [of "?buf @ p"] v1_def p1_def)
    next
      case False
      then show ?thesis by (simp add: v1_def p1_def)
    qed
    define v2 where "v2 = fst (s64.consume v1 p1)"
    define p2 where "p2 = snd (s64.consume v1 p1)"
    have p2: "length p2 < 32" by (simp add: p2_def s64.consume_rest)
    have pair: "(if 32 \<le> length p1 then XXH64_loop v1 p1 else (v1, p1)) = (v2, p2)"
      by (simp add: v2_def p2_def s64.consume_def)
    have "abs64 (snd r) = (v2, p2) \<and> wf64 (snd r) \<and> fst r = XXH_OK \<and>
        total_len (snd r) = total_len s + of_nat (length p)"
    proof (cases "32 \<le> length p1")
      case True
      with pair have "XXH64_loop v1 p1 = (v2, p2)" by simp
      with False True m l p2 show ?thesis
        by (cases "0 < ?m"; cases "p2 = []")
           (auto simp: r_def XXH64_update_def Let_def abs64_def wf64_def v1_def p1_def n_def)
    next
      case False
      with pair have "v2 = v1" and "p2 = p1" by simp_all
      with \<open>\<not> ?m + length p < 32\<close> False m l p2 show ?thesis
        by (cases "0 < ?m"; cases "p1 = []")
           (auto simp: r_def XXH64_update_def Let_def abs64_def wf64_def v1_def p1_def n_def)
    qed
    with c1 show ?thesis by (simp add: v2_def p2_def abs64_def)
  qed
qed

text \<open>Updating with a list of chunks.\<close>

definition XXH64_stream :: "u64 \<Rightarrow> u8 list list \<Rightarrow> XXH64_state" where
  "XXH64_stream seed chunks =
     fold (\<lambda>p s. snd (XXH64_update s (Some p))) chunks (snd (XXH64_reset seed))"

lemma XXH64_stream_abs:
  "wf64 (XXH64_stream seed chunks) \<and>
   total_len (XXH64_stream seed chunks) = of_nat (length (concat chunks)) \<and>
   abs64 (XXH64_stream seed chunks) = s64.consume (XXH64_init seed) (concat chunks)"
proof (induction chunks rule: rev_induct)
  case Nil
  show ?case
    by (simp add: XXH64_stream_def XXH64_reset_def wf64_def abs64_def s64.consume_short)
next
  case (snoc p chunks)
  from snoc.IH XXH64_update_refines [of "XXH64_stream seed chunks" p] show ?case
    by (simp add: XXH64_stream_def s64.consume_append [of _ "concat chunks"])
qed

lemma PROCESS64_prefix:
  "p \<noteq> [] \<Longrightarrow> PROCESS1_64 (h, p @ q) = (fst (PROCESS1_64 (h, p)), snd (PROCESS1_64 (h, p)) @ q)"
  "4 \<le> length p \<Longrightarrow> PROCESS4_64 (h, p @ q) = (fst (PROCESS4_64 (h, p)), snd (PROCESS4_64 (h, p)) @ q)"
  "8 \<le> length p \<Longrightarrow> PROCESS8_64 (h, p @ q) = (fst (PROCESS8_64 (h, p)), snd (PROCESS8_64 (h, p)) @ q)"
  by (simp_all add: PROCESS1_64_def PROCESS4_64_def PROCESS8_64_def Let_def
      XXH_readLE32_def XXH_readLE64_def Suc_le_eq)

lemma PROCESS64_length [simp]:
  "length (snd (PROCESS1_64 s)) = length (snd s) - 1"
  "length (snd (PROCESS4_64 s)) = length (snd s) - 4"
  "length (snd (PROCESS8_64 s)) = length (snd s) - 8"
  by (cases s; simp add: PROCESS1_64_def PROCESS4_64_def PROCESS8_64_def Let_def)+

lemma XXH64_reroll1_prefix:
  "n \<le> length p \<Longrightarrow> fst (XXH64_reroll1 n (h, p @ q)) = fst (XXH64_reroll1 n (h, p))"
proof (induction n arbitrary: h p)
  case 0
  then show ?case by (simp add: XXH64_reroll1.simps)
next
  case (Suc n)
  then have "p \<noteq> []" by auto
  with Suc.prems Suc.IH [of "snd (PROCESS1_64 (h, p))" "fst (PROCESS1_64 (h, p))"] show ?case
    by (simp add: XXH64_reroll1.simps [of "Suc n"] PROCESS64_prefix)
qed

lemma XXH64_reroll8_prefix:
  "n \<le> length p \<Longrightarrow> fst (XXH64_reroll8 n (h, p @ q)) = fst (XXH64_reroll8 n (h, p))"
proof (induction n arbitrary: h p rule: less_induct)
  case (less n)
  show ?case
  proof (cases "8 \<le> n")
    case True
    with less.prems less.IH [of "n - 8" "snd (PROCESS8_64 (h, p))" "fst (PROCESS8_64 (h, p))"]
    show ?thesis by (simp add: XXH64_reroll8.simps [of n] PROCESS64_prefix)
  next
    case False
    with less.prems XXH64_reroll1_prefix [of "n - 4" "snd (PROCESS4_64 (h, p))" "fst (PROCESS4_64 (h, p))"]
    show ?thesis
      by (simp add: XXH64_reroll8.simps [of n] PROCESS64_prefix XXH64_reroll1_prefix)
  qed
qed

lemma XXH64_finalize_prefix:
  "n mod 32 \<le> length p \<Longrightarrow> XXH64_finalize r h (p @ q) n = XXH64_finalize r' h p n"
  using XXH64_finalize_reroll [of r h "p @ q" n True] XXH64_finalize_reroll [of r' h p n True]
  by (simp add: XXH64_finalize_def XXH64_reroll8_prefix)

lemma XXH64_as_consume:
  "XXH64 reroll input seed =
     (let (v, p) = s64.consume (XXH64_init seed) input;
          h64 = (if 32 \<le> length input then XXH64_converge v else seed + PRIME64_5)
      in XXH64_finalize reroll (h64 + of_nat (length input)) p (length input))"
  by (auto simp: XXH64_def Let_def s64.consume_def split: prod.splits)

text \<open>
  C8: hashing with the streaming functions (\<open>XXH64_reset\<close>, any number of calls of
  \<open>XXH64_update\<close> with pieces of any length, \<open>XXH64_digest\<close>) gives the value of the one-shot
  function \<open>XXH64\<close> on the whole input, whichever finaliser is compiled in; for inputs of less
  than 2 to the 64 bytes, since the length is a 64-bit counter.
\<close>

theorem XXH64_stream_digest:
  assumes "length (concat chunks) < 2 ^ 64"
  shows "XXH64_digest reroll (XXH64_stream seed chunks) = XXH64 reroll (concat chunks) seed"
proof -
  let ?d = "concat chunks"
  define s where "s = XXH64_stream seed chunks"
  obtain v p where vp: "s64.consume (XXH64_init seed) ?d = (v, p)" by fastforce
  have wf: "wf64 s" and tot: "total_len s = of_nat (length ?d)" and ab: "abs64 s = (v, p)"
    using XXH64_stream_abs [of seed chunks] vp by (simp_all add: s_def)
  then have v: "vs s = v" and p: "p = take (memsize s) (mem64 s)" by (simp_all add: abs64_def)
  have un: "unat (total_len s) = length ?d" using assms tot by (simp add: unsigned_of_nat take_bit_nat_eq_self)
  have lp: "length p = length ?d mod 32"
    using s64.consume_rest [of "XXH64_init seed" ?d] vp by simp
  have ge: "32 \<le> total_len s \<longleftrightarrow> 32 \<le> length ?d"
    using un by (simp add: word_le_nat_alt)
  have short: "fst (snd (snd v)) = seed" if "length ?d < 32"
    using vp that by (simp add: s64.consume_short XXH64_init_def) auto
  have "mem64 s = p @ drop (memsize s) (mem64 s)" by (simp add: p)
  then have "XXH64_finalize reroll h (mem64 s) (length ?d) = XXH64_finalize reroll h p (length ?d)" for h
    using XXH64_finalize_prefix [of "length ?d" p reroll h "drop (memsize s) (mem64 s)" reroll] lp
    by simp
  then show ?thesis
    using short ge un by (simp add: XXH64_as_consume vp XXH64_digest_def s_def [symmetric] v tot)
qed

subsection \<open>XXH32\<close>

record XXH32_state =
  total_len_32 :: u32
  large_len :: bool
  vs32 :: acc32
  mem32 :: "u8 list"
  memsize32 :: nat

definition XXH32_reset :: "u32 \<Rightarrow> XXH_errorcode \<times> XXH32_state" where
  "XXH32_reset seed =
     (XXH_OK, \<lparr>total_len_32 = 0, large_len = False, vs32 = XXH32_init seed,
               mem32 = replicate 16 0, memsize32 = 0\<rparr>)"

definition XXH32_update ::
  "XXH32_state \<Rightarrow> u8 list option \<Rightarrow> XXH_errorcode \<times> XXH32_state" where
  "XXH32_update state input =
     (case input of
        None \<Rightarrow> (XXH_ERROR, state)
      | Some p \<Rightarrow>
          let len = length p;
              state = state\<lparr>total_len_32 := total_len_32 state + of_nat len\<rparr>;
              state = state\<lparr>large_len := large_len state \<or> 16 \<le> len \<or> 16 \<le> total_len_32 state\<rparr>
          in if memsize32 state + len < 16
             then (XXH_OK, state\<lparr>
                     mem32 := take (memsize32 state) (mem32 state) @ p @ drop (memsize32 state + len) (mem32 state),
                     memsize32 := memsize32 state + len\<rparr>)
             else
               let (state, p) =
                     (if 0 < memsize32 state
                      then let mem = take (memsize32 state) (mem32 state) @ take (16 - memsize32 state) p
                           in (state\<lparr>mem32 := mem, vs32 := XXH32_stripe (vs32 state) mem, memsize32 := 0\<rparr>,
                               drop (16 - memsize32 state) p)
                      else (state, p));
                   (state, p) =
                     (if 16 \<le> length p
                      then let (v, p) = XXH32_loop (vs32 state) p in (state\<lparr>vs32 := v\<rparr>, p)
                      else (state, p))
               in (XXH_OK,
                   if 0 < length p
                   then state\<lparr>mem32 := p @ drop (length p) (mem32 state), memsize32 := length p\<rparr>
                   else state))"

definition XXH32_digest :: "bool \<Rightarrow> XXH32_state \<Rightarrow> u32" where
  "XXH32_digest reroll state =
     (let h32 = (if large_len state then XXH32_converge (vs32 state)
                 else fst (snd (snd (vs32 state))) + PRIME32_5);
          h32 = h32 + total_len_32 state
      in XXH32_finalize reroll h32 (mem32 state) (memsize32 state))"

lemma XXH32_stripe_prefix: "16 \<le> length p \<Longrightarrow> XXH32_stripe v (p @ q) = XXH32_stripe v p"
  by (cases v) (simp add: XXH32_stripe_def XXH_readLE32_def)

interpretation s32: stripes 16 XXH32_stripe XXH32_loop
  by unfold_locales
     (simp_all add: XXH32_stripe_prefix, simp add: XXH32_loop.simps Let_def)

definition abs32 :: "XXH32_state \<Rightarrow> acc32 \<times> u8 list" where
  "abs32 s = (vs32 s, take (memsize32 s) (mem32 s))"

definition wf32 :: "XXH32_state \<Rightarrow> bool" where
  "wf32 s \<longleftrightarrow> length (mem32 s) = 16 \<and> memsize32 s < 16"

lemma XXH32_update_refines:
  fixes p :: "u8 list"
  assumes "wf32 s"
  defines "r \<equiv> XXH32_update s (Some p)"
  shows "wf32 (snd r) \<and> fst r = XXH_OK \<and>
    total_len_32 (snd r) = total_len_32 s + of_nat (length p) \<and>
    large_len (snd r) = (large_len s \<or> 16 \<le> length p \<or> 16 \<le> total_len_32 s + of_nat (length p)) \<and>
    abs32 (snd r) = s32.consume (fst (abs32 s)) (snd (abs32 s) @ p)"
proof -
  let ?m = "memsize32 s" and ?buf = "take (memsize32 s) (mem32 s)"
  have m: "?m < 16" and l: "length (mem32 s) = 16" using assms by (simp_all add: wf32_def)
  show ?thesis
  proof (cases "?m + length p < 16")
    case True
    then show ?thesis using m l
      by (simp add: r_def XXH32_update_def Let_def wf32_def abs32_def s32.consume_short)
  next
    case False
    define n where "n = 16 - ?m"
    define v1 where "v1 = (if 0 < ?m then XXH32_stripe (vs32 s) (?buf @ take n p) else vs32 s)"
    define p1 where "p1 = (if 0 < ?m then drop n p else p)"
    have c1: "s32.consume v1 p1 = s32.consume (vs32 s) (?buf @ p)"
    proof (cases "0 < ?m")
      case True
      have "XXH32_stripe (vs32 s) (?buf @ p) = XXH32_stripe (vs32 s) (?buf @ take n p)"
        using XXH32_stripe_prefix [of "?buf @ take n p" "vs32 s" "drop n p"] False m l
        by (simp add: n_def)
      moreover have "drop 16 (?buf @ p) = drop n p" using l m by (simp add: n_def)
      ultimately show ?thesis using True False m l
        by (simp add: s32.consume_long [of "?buf @ p"] v1_def p1_def)
    next
      case False
      then show ?thesis by (simp add: v1_def p1_def)
    qed
    define v2 where "v2 = fst (s32.consume v1 p1)"
    define p2 where "p2 = snd (s32.consume v1 p1)"
    have p2: "length p2 < 16" by (simp add: p2_def s32.consume_rest)
    have pair: "(if 16 \<le> length p1 then XXH32_loop v1 p1 else (v1, p1)) = (v2, p2)"
      by (simp add: v2_def p2_def s32.consume_def)
    have "abs32 (snd r) = (v2, p2) \<and> wf32 (snd r) \<and> fst r = XXH_OK \<and>
        total_len_32 (snd r) = total_len_32 s + of_nat (length p) \<and>
        large_len (snd r) = (large_len s \<or> 16 \<le> length p \<or> 16 \<le> total_len_32 s + of_nat (length p))"
    proof (cases "16 \<le> length p1")
      case True
      with pair have "XXH32_loop v1 p1 = (v2, p2)" by simp
      with False True m l p2 show ?thesis
        by (cases "0 < ?m"; cases "p2 = []")
           (auto simp: r_def XXH32_update_def Let_def abs32_def wf32_def v1_def p1_def n_def)
    next
      case False
      with pair have "v2 = v1" and "p2 = p1" by simp_all
      with \<open>\<not> ?m + length p < 16\<close> False m l p2 show ?thesis
        by (cases "0 < ?m"; cases "p1 = []")
           (auto simp: r_def XXH32_update_def Let_def abs32_def wf32_def v1_def p1_def n_def)
    qed
    with c1 show ?thesis by (simp add: v2_def p2_def abs32_def)
  qed
qed

definition XXH32_stream :: "u32 \<Rightarrow> u8 list list \<Rightarrow> XXH32_state" where
  "XXH32_stream seed chunks =
     fold (\<lambda>p s. snd (XXH32_update s (Some p))) chunks (snd (XXH32_reset seed))"

lemma le_16_of_nat: "a < 16 \<Longrightarrow> b < 16 \<Longrightarrow> (16 :: u32) \<le> of_nat a + of_nat b \<longleftrightarrow> 16 \<le> a + b"
proof -
  assume "a < 16" and "b < 16"
  then have "unat (of_nat (a + b) :: u32) = a + b"
    by (simp add: unsigned_of_nat take_bit_nat_eq_self del: of_nat_add)
  then show ?thesis by (simp add: word_le_nat_alt)
qed

lemma XXH32_stream_abs:
  "wf32 (XXH32_stream seed chunks) \<and>
   total_len_32 (XXH32_stream seed chunks) = of_nat (length (concat chunks)) \<and>
   (large_len (XXH32_stream seed chunks) \<longleftrightarrow> 16 \<le> length (concat chunks)) \<and>
   abs32 (XXH32_stream seed chunks) = s32.consume (XXH32_init seed) (concat chunks)"
proof (induction chunks rule: rev_induct)
  case Nil
  show ?case
    by (simp add: XXH32_stream_def XXH32_reset_def wf32_def abs32_def s32.consume_short)
next
  case (snoc p chunks)
  let ?n = "length (concat chunks)"
  have "?n < 16 \<Longrightarrow> length p < 16 \<Longrightarrow> (16 :: u32) \<le> of_nat ?n + of_nat (length p) \<longleftrightarrow> 16 \<le> ?n + length p"
    by (rule le_16_of_nat)
  then have "16 \<le> ?n \<or> 16 \<le> length p \<or> (16 :: u32) \<le> of_nat ?n + of_nat (length p)
      \<longleftrightarrow> 16 \<le> ?n + length p" by (cases "?n < 16"; cases "length p < 16") auto
  with snoc.IH XXH32_update_refines [of "XXH32_stream seed chunks" p] show ?case
    by (simp add: XXH32_stream_def s32.consume_append [of _ "concat chunks"])
qed

lemma PROCESS32_prefix:
  "p \<noteq> [] \<Longrightarrow> PROCESS1 (h, p @ q) = (fst (PROCESS1 (h, p)), snd (PROCESS1 (h, p)) @ q)"
  "4 \<le> length p \<Longrightarrow> PROCESS4 (h, p @ q) = (fst (PROCESS4 (h, p)), snd (PROCESS4 (h, p)) @ q)"
  by (simp_all add: PROCESS1_def PROCESS4_def Let_def XXH_readLE32_def Suc_le_eq)

lemma PROCESS32_length [simp]:
  "length (snd (PROCESS1 s)) = length (snd s) - 1"
  "length (snd (PROCESS4 s)) = length (snd s) - 4"
  by (cases s; simp add: PROCESS1_def PROCESS4_def Let_def)+

lemma XXH32_reroll1_prefix:
  "n \<le> length p \<Longrightarrow> fst (XXH32_reroll1 n (h, p @ q)) = fst (XXH32_reroll1 n (h, p))"
proof (induction n arbitrary: h p)
  case 0
  then show ?case by (simp add: XXH32_reroll1.simps)
next
  case (Suc n)
  then have "p \<noteq> []" by auto
  with Suc.prems Suc.IH [of "snd (PROCESS1 (h, p))" "fst (PROCESS1 (h, p))"] show ?case
    by (simp add: XXH32_reroll1.simps [of "Suc n"] PROCESS32_prefix)
qed

lemma XXH32_reroll4_prefix:
  "n \<le> length p \<Longrightarrow> fst (XXH32_reroll4 n (h, p @ q)) = fst (XXH32_reroll4 n (h, p))"
proof (induction n arbitrary: h p rule: less_induct)
  case (less n)
  show ?case
  proof (cases "4 \<le> n")
    case True
    with less.prems less.IH [of "n - 4" "snd (PROCESS4 (h, p))" "fst (PROCESS4 (h, p))"]
    show ?thesis by (simp add: XXH32_reroll4.simps [of n] PROCESS32_prefix)
  next
    case False
    with less.prems show ?thesis
      by (simp add: XXH32_reroll4.simps [of n] XXH32_reroll1_prefix)
  qed
qed

lemma XXH32_finalize_prefix:
  "n mod 16 \<le> length p \<Longrightarrow> XXH32_finalize r h (p @ q) n = XXH32_finalize r' h p n"
  using XXH32_finalize_reroll [of r h "p @ q" n True] XXH32_finalize_reroll [of r' h p n True]
  by (simp add: XXH32_finalize_def XXH32_reroll4_prefix)

lemma XXH32_as_consume:
  "XXH32 reroll input seed =
     (let (v, p) = s32.consume (XXH32_init seed) input;
          h32 = (if 16 \<le> length input then XXH32_converge v else seed + PRIME32_5)
      in XXH32_finalize reroll (h32 + of_nat (length input)) p (length input mod 16))"
  by (auto simp: XXH32_def Let_def s32.consume_def split: prod.splits)

text \<open>
  C27: the same for XXH32. The 32-bit length counter wraps around, and the separate flag
  \<open>large_len\<close> makes the result right for inputs of any length.
\<close>

theorem XXH32_stream_digest:
  "XXH32_digest reroll (XXH32_stream seed chunks) = XXH32 reroll (concat chunks) seed"
proof -
  let ?d = "concat chunks"
  define s where "s = XXH32_stream seed chunks"
  obtain v p where vp: "s32.consume (XXH32_init seed) ?d = (v, p)" by fastforce
  have wf: "wf32 s" and tot: "total_len_32 s = of_nat (length ?d)" and ab: "abs32 s = (v, p)"
    and large: "large_len s \<longleftrightarrow> 16 \<le> length ?d"
    using XXH32_stream_abs [of seed chunks] vp by (simp_all add: s_def)
  then have v: "vs32 s = v" and p: "p = take (memsize32 s) (mem32 s)" by (simp_all add: abs32_def)
  have lp: "length p = length ?d mod 16"
    using s32.consume_rest [of "XXH32_init seed" ?d] vp by simp
  have ms: "memsize32 s = length ?d mod 16" using lp p wf by (simp add: wf32_def)
  have short: "fst (snd (snd v)) = seed" if "length ?d < 16"
    using vp that by (simp add: s32.consume_short XXH32_init_def) auto
  have "mem32 s = p @ drop (memsize32 s) (mem32 s)" by (simp add: p)
  then have "XXH32_finalize reroll h (mem32 s) (length ?d mod 16) = XXH32_finalize reroll h p (length ?d mod 16)" for h
    using XXH32_finalize_prefix [of "length ?d mod 16" p reroll h "drop (memsize32 s) (mem32 s)" reroll] lp
    by simp
  then show ?thesis
    using short large ms by (simp add: XXH32_as_consume vp XXH32_digest_def s_def [symmetric] v tot)
qed

subsection \<open>Canonical representation\<close>

definition XXH32_canonicalFromHash :: "u32 \<Rightarrow> u8 list" where
  "XXH32_canonicalFromHash hash = word_bytes 4 (XXH_swap32 hash)"

definition XXH32_hashFromCanonical :: "u8 list \<Rightarrow> u32" where
  "XXH32_hashFromCanonical src = XXH_readBE32 src"

definition XXH64_canonicalFromHash :: "u64 \<Rightarrow> u8 list" where
  "XXH64_canonicalFromHash hash = word_bytes 8 (XXH_swap64 hash)"

definition XXH64_hashFromCanonical :: "u8 list \<Rightarrow> u64" where
  "XXH64_hashFromCanonical src = XXH_readBE64 src"

lemma upt_32: "[0..<32] = [0,1,2,3,4,5,6,7,8,9,10,11,12,13,14,15,16,17,18,19,20,21,22,23,24,25,26,27,28,29,
    30,31]"
  by code_simp

lemma upt_64: "[0..<64] = [0,1,2,3,4,5,6,7,8,9,10,11,12,13,14,15,16,17,18,19,20,21,22,23,24,25,26,27,28,29,
    30,31,32,33,34,35,36,37,38,39,40,41,42,43,44,45,46,47,48,49,50,51,52,53,54,55,56
    ,57,58,59,60,61,62,63]"
  by code_simp

lemma bit_XXH_swap32:
  assumes "n < 32"
  shows "bit (XXH_swap32 x) n = bit x (8 * (3 - n div 8) + n mod 8)"
proof -
  have "list_all (\<lambda>n. bit (XXH_swap32 x) n = bit x (8 * (3 - n div 8) + n mod 8)) [0..<32]"
    unfolding upt_32 by (simp add: XXH_swap32_def bit_simps, simp add: numeral_2_eq_2)
  with assms show ?thesis by (simp add: list_all_iff)
qed

lemma bit_XXH_swap64:
  assumes "n < 64"
  shows "bit (XXH_swap64 x) n = bit x (8 * (7 - n div 8) + n mod 8)"
proof -
  have "list_all (\<lambda>n. bit (XXH_swap64 x) n = bit x (8 * (7 - n div 8) + n mod 8)) [0..<64]"
    unfolding upt_64 by (simp add: XXH_swap64_def bit_simps, simp add: numeral_2_eq_2)
  with assms show ?thesis by (simp add: list_all_iff)
qed

lemma swap_index:
  assumes "n < 8 * (k + 1)"
  shows "8 * (k - n div 8) + n mod 8 < 8 * (k + 1)"
    and "8 * (k - (8 * (k - n div 8) + n mod 8) div 8) + (8 * (k - n div 8) + n mod 8) mod 8 = (n :: nat)"
proof -
  have "n div 8 \<le> k" using assms by (simp add: less_Suc_eq_le less_mult_imp_div_less mult.commute flip: Suc_eq_plus1)
  have "8 * (k - d) + r < 8 * (k + 1)" if "r < 8" for d r :: nat
    using that by (simp add: diff_mult_distrib2)
  then show "8 * (k - n div 8) + n mod 8 < 8 * (k + 1)" by simp
  show "8 * (k - (8 * (k - n div 8) + n mod 8) div 8) + (8 * (k - n div 8) + n mod 8) mod 8 = n"
    using \<open>n div 8 \<le> k\<close> by simp
qed

lemma XXH_swap32_swap32 [simp]: "XXH_swap32 (XXH_swap32 x) = x"
proof (rule bit_word_eqI)
  fix n assume "n < LENGTH(32)"
  then have "n < 8 * (3 + 1)" by simp
  from swap_index [OF this] this show "bit (XXH_swap32 (XXH_swap32 x)) n = bit x n"
    by (simp add: bit_XXH_swap32 del: div_mult_self1 div_mult_self2)
qed

lemma XXH_swap64_swap64 [simp]: "XXH_swap64 (XXH_swap64 x) = x"
proof (rule bit_word_eqI)
  fix n assume "n < LENGTH(64)"
  then have "n < 8 * (7 + 1)" by simp
  from swap_index [OF this] this show "bit (XXH_swap64 (XXH_swap64 x)) n = bit x n"
    by (simp add: bit_XXH_swap64)
qed

text \<open>
  The canonical (big-endian) representation of a 32-bit hash reads back as the hash.
\<close>

lemma XXH32_canonical:
  "XXH32_hashFromCanonical (XXH32_canonicalFromHash h) = h"
  by (simp add: XXH32_hashFromCanonical_def XXH32_canonicalFromHash_def XXH_readBE32_def
      XXH_readLE32_def bytes_le_word_bytes)

text \<open>
  The canonical (big-endian) representation of a 64-bit hash reads back as the hash.
\<close>

theorem XXH64_canonical:
  "XXH64_hashFromCanonical (XXH64_canonicalFromHash h) = h"
  by (simp add: XXH64_hashFromCanonical_def XXH64_canonicalFromHash_def XXH_readBE64_def
      XXH_readLE64_def bytes_le_word_bytes)

theorem XXH64_stream_digest_witness:
  "XXH64_digest False (XXH64_stream 1 [[1, 2, 3], [4], []]) = XXH64 False (concat [[1, 2, 3], [4], []]) 1"
  by (rule XXH64_stream_digest) simp

text \<open>
  The unrolled finaliser of XXH64 (the \<open>switch\<close> over the length) and the rerolled one give
  the same hash.
\<close>

theorem XXH64_reroll_irrelevant: "XXH64 True input seed = XXH64 False input seed"
  unfolding XXH64_def Let_def by (simp add: XXH64_finalize_reroll [of True _ _ _ False])

text \<open>
  The same for XXH32.
\<close>

lemma XXH32_reroll_irrelevant: "XXH32 True input seed = XXH32 False input seed"
  unfolding XXH32_def Let_def by (simp add: XXH32_finalize_reroll [of True _ _ _ False])

end
