(* ===== verification/Sse.thy ===== *)
theory Sse
  imports Prelude
begin

text \<open>
  The SSE instructions that the code uses through the intrinsics \<^verbatim>\<open>_mm_*\<close>, on 128-bit blocks,
  as the instruction set reference describes them. The AES instructions are in the theory of
  the cipher.
\<close>

definition mm_set1_epi64x :: "u64 \<Rightarrow> block" where
  "mm_set1_epi64x v = push_bit 64 (ucast v) OR ucast v"

definition mm_slli_epi64 :: "block \<Rightarrow> nat \<Rightarrow> block" where
  "mm_slli_epi64 b n =
     push_bit 64 (ucast (push_bit n (ucast (drop_bit 64 b) :: u64))) OR ucast (push_bit n (ucast b :: u64))"

text \<open>The shift of the whole register by bytes.\<close>

definition mm_slli_si128 :: "block \<Rightarrow> nat \<Rightarrow> block" where
  "mm_slli_si128 b n = push_bit (8 * n) b"

definition mm_srli_si128 :: "block \<Rightarrow> nat \<Rightarrow> block" where
  "mm_srli_si128 b n = drop_bit (8 * n) b"

text \<open>The top bits of the sixteen bytes.\<close>

definition mm_movemask_epi8 :: "block \<Rightarrow> u16" where
  "mm_movemask_epi8 b = xsum (\<lambda>i. if bit b (8 * i + 7) then push_bit i 1 else 0) [0..<16]"

text \<open>The four 32-bit lanes, lane 0 the lowest.\<close>

definition lane32 :: "block \<Rightarrow> nat \<Rightarrow> u32" where
  "lane32 b i = ucast (drop_bit (32 * i) b)"

definition lanes32 :: "u32 \<Rightarrow> u32 \<Rightarrow> u32 \<Rightarrow> u32 \<Rightarrow> block" where
  "lanes32 w0 w1 w2 w3 =
     ucast w0 OR push_bit 32 (ucast w1) OR push_bit 64 (ucast w2) OR push_bit 96 (ucast w3)"

text \<open>The two 64-bit lanes.\<close>

definition lane64 :: "block \<Rightarrow> nat \<Rightarrow> u64" where
  "lane64 b i = ucast (drop_bit (64 * i) b)"

definition lanes64 :: "u64 \<Rightarrow> u64 \<Rightarrow> block" where
  "lanes64 lo hi = ucast lo OR push_bit 64 (ucast hi)"

text \<open>\<^verbatim>\<open>_mm_shuffle_epi32(b, _MM_SHUFFLE(s3, s2, s1, s0))\<close>.\<close>

definition mm_shuffle_epi32 :: "block \<Rightarrow> nat \<Rightarrow> nat \<Rightarrow> nat \<Rightarrow> nat \<Rightarrow> block" where
  "mm_shuffle_epi32 b s3 s2 s1 s0 = lanes32 (lane32 b s0) (lane32 b s1) (lane32 b s2) (lane32 b s3)"

lemma bit_mm_slli_epi64 [byte_simps]:
  "bit (mm_slli_epi64 b n) k \<longleftrightarrow> k < 128 \<and> n \<le> k mod 64 \<and> bit b (k - n)"
proof (cases "k < 64")
  case True
  then show ?thesis by (auto simp: mm_slli_epi64_def bit_simps)
next
  case False
  show ?thesis
  proof (cases "k < 128")
    case True
    with False have "k mod 64 = k - 64" by (simp add: mod_if)
    with False True show ?thesis
      by (auto simp: mm_slli_epi64_def bit_simps add.commute)
  next
    case False
    then show ?thesis by (auto simp: mm_slli_epi64_def bit_simps)
  qed
qed

lemma bit_xsum_indicator:
  "bit (xsum (\<lambda>i. if P i then push_bit i 1 else 0) [0..<n] :: 'a::len word) k \<longleftrightarrow>
   k < n \<and> P k \<and> k < LENGTH('a)"
proof (induction n)
  case 0
  then show ?case by simp
next
  case (Suc n)
  then show ?case
    by (auto simp: bit_simps less_Suc_eq)
qed

lemma bit_mm_movemask_epi8 [byte_simps]:
  "bit (mm_movemask_epi8 b) k \<longleftrightarrow> k < 16 \<and> bit b (8 * k + 7)"
  by (auto simp: mm_movemask_epi8_def bit_xsum_indicator)

lemma bit_lanes64 [byte_simps]:
  "bit (lanes64 a b) k \<longleftrightarrow> (if k < 64 then bit a k else k < 128 \<and> bit b (k - 64))"
  by (auto simp: lanes64_def bit_simps dest: bit_imp_le_length)

lemma bit_lane64: "bit (lane64 b i) c \<longleftrightarrow> c < 64 \<and> bit b (64 * i + c)"
  by (auto simp: lane64_def bit_simps dest: bit_imp_le_length)

lemma bit_lanes32 [byte_simps]:
  "bit (lanes32 w0 w1 w2 w3) k \<longleftrightarrow> k < 128 \<and> bit ([w0, w1, w2, w3] ! (k div 32)) (k mod 32)"
proof (cases "k < 128")
  case True
  define q r where "q = k div 32" and "r = k mod 32"
  have k: "k = 32 * q + r" and r: "r < 32" by (simp_all add: q_def r_def)
  with True have "q < 4" by linarith
  then consider "q = 0" | "q = 1" | "q = 2" | "q = 3" by linarith
  then show ?thesis
    unfolding q_def [symmetric] r_def [symmetric]
    by cases (use r in \<open>auto simp: k lanes32_def bit_simps dest: bit_imp_le_length\<close>)
qed (auto simp: lanes32_def bit_simps)

lemma bit_lane32 [byte_simps]: "bit (lane32 b i) k \<longleftrightarrow> k < 32 \<and> bit b (32 * i + k)"
  by (auto simp: lane32_def bit_simps)

end
