(* ===== verification/Transpose.thy ===== *)
theory Transpose
  imports Sse
begin

text \<open>
  The bit matrix transposition of \<^verbatim>\<open>libOTe/libOTe/Tools/Tools.cpp\<close> for 128 rows of one block
  (\<open>sse_transpose128\<close>) and of eight blocks (\<open>sse_transpose128x1024\<close>), by squares of 16 x 16 bits:
  a square is loaded as two columns of bytes and written back a \<^verbatim>\<open>movemask\<close> at a time.
\<close>

subsection \<open>One block wide\<close>

text \<open>A column of 16-bit views: lane \<open>y\<close> of a row is replaced.\<close>

definition set_u16 :: "block \<Rightarrow> nat \<Rightarrow> u16 \<Rightarrow> block" where
  "set_u16 b y v = (b AND NOT (push_bit (16 * y) 0xFFFF)) OR push_bit (16 * y) (ucast v)"

definition sse_loadSubSquare :: "block list \<Rightarrow> nat \<Rightarrow> nat \<Rightarrow> block \<times> block" where
  "sse_loadSubSquare inn x y =
     (bytes_block (map (\<lambda>l. block_byte (inn ! (16 * x + l)) (2 * y)) [0..<16]),
      bytes_block (map (\<lambda>l. block_byte (inn ! (16 * x + l)) (2 * y + 1)) [0..<16]))"

definition transposeSubSquare_step ::
  "nat \<Rightarrow> nat \<Rightarrow> block list \<times> block \<times> block \<Rightarrow> nat \<Rightarrow> block list \<times> block \<times> block" where
  "transposeSubSquare_step x y = (\<lambda>(out, in0, in1) j.
     let out = out[16 * x + 7 - j := set_u16 (out ! (16 * x + 7 - j)) y (mm_movemask_epi8 in0)];
         out = out[16 * x + 15 - j := set_u16 (out ! (16 * x + 15 - j)) y (mm_movemask_epi8 in1)]
     in (out, mm_slli_epi64 in0 1, mm_slli_epi64 in1 1))"

definition sse_transposeSubSquare :: "block list \<Rightarrow> block \<times> block \<Rightarrow> nat \<Rightarrow> nat \<Rightarrow> block list" where
  "sse_transposeSubSquare out ab x y = fst (foldl (transposeSubSquare_step x y) (out, ab) [0..<8])"

definition transpose128_pair :: "nat \<Rightarrow> block list \<Rightarrow> nat \<Rightarrow> block list" where
  "transpose128_pair j M k =
     (let a = sse_loadSubSquare M k j;
          b = sse_loadSubSquare M j k;
          M = sse_transposeSubSquare M a j k
      in sse_transposeSubSquare M b k j)"

definition transpose128_row :: "block list \<Rightarrow> nat \<Rightarrow> block list" where
  "transpose128_row M j =
     foldl (transpose128_pair j) (sse_transposeSubSquare M (sse_loadSubSquare M j j) j j) [0..<j]"

definition sse_transpose128 :: "block list \<Rightarrow> block list" where
  "sse_transpose128 inOut = foldl transpose128_row inOut [0..<8]"

subsection \<open>Eight blocks wide\<close>

definition sse_loadSubSquarex :: "block list list \<Rightarrow> nat \<Rightarrow> nat \<Rightarrow> nat \<Rightarrow> block \<times> block" where
  "sse_loadSubSquarex inn x y i =
     (let byte = (\<lambda>r c. block_byte (inn ! r ! (c div 16)) (c mod 16))
      in (bytes_block (map (\<lambda>l. byte (x * 16 + l) (i * 16 + 2 * y)) [0..<16]),
          bytes_block (map (\<lambda>l. byte (x * 16 + l) (i * 16 + 2 * y + 1)) [0..<16])))"

text \<open>Lane \<open>c\<close> of the 64 sixteen-bit lanes of row \<open>r\<close>.\<close>

definition set_row_u16 :: "block list list \<Rightarrow> nat \<Rightarrow> nat \<Rightarrow> u16 \<Rightarrow> block list list" where
  "set_row_u16 out r c v =
     out[r := (out ! r)[c div 8 := set_u16 (out ! r ! (c div 8)) (c mod 8) v]]"

definition sse_transposeSubSquarex ::
  "block list list \<Rightarrow> block \<times> block \<Rightarrow> nat \<Rightarrow> nat \<Rightarrow> nat \<Rightarrow> block list list" where
  "sse_transposeSubSquarex out ab x y i =
     (let out = foldl (\<lambda>out s. set_row_u16 out (x * 16 + 7 - s) (i * 8 + y)
                   (mm_movemask_epi8 (mm_slli_epi64 (fst ab) s))) out [0..<8]
      in foldl (\<lambda>out s. set_row_u16 out (x * 16 + 15 - s) (i * 8 + y)
                   (mm_movemask_epi8 (mm_slli_epi64 (snd ab) s))) out [0..<8])"

definition transposex_pair :: "nat \<Rightarrow> nat \<Rightarrow> block list list \<Rightarrow> nat \<Rightarrow> block list list" where
  "transposex_pair i j M k =
     (let a = sse_loadSubSquarex M k j i;
          b = sse_loadSubSquarex M j k i;
          M = sse_transposeSubSquarex M a j k i
      in sse_transposeSubSquarex M b k j i)"

definition transposex_row :: "nat \<Rightarrow> block list list \<Rightarrow> nat \<Rightarrow> block list list" where
  "transposex_row i M j =
     foldl (transposex_pair i j) (sse_transposeSubSquarex M (sse_loadSubSquarex M j j i) j j i) [0..<j]"

definition sse_transpose128x1024 :: "block list list \<Rightarrow> block list list" where
  "sse_transpose128x1024 inOut = foldl (\<lambda>M i. foldl (transposex_row i) M [0..<8]) inOut [0..<8]"

subsection \<open>The bits of a step\<close>

lemma bit_mask_16: "bit (0xFFFF :: block) k \<longleftrightarrow> k < 16" "bit (0xFFFF :: int) k \<longleftrightarrow> k < 16"
proof -
  have "(0xFFFF :: block) = mask 16" "(0xFFFF :: int) = mask 16" by (simp_all add: mask_eq_exp_minus_1)
  then show "bit (0xFFFF :: block) k \<longleftrightarrow> k < 16" "bit (0xFFFF :: int) k \<longleftrightarrow> k < 16"
    by (simp_all only: bit_mask_iff) auto
qed

lemma bit_set_u16_lane:
  "t < 16 \<Longrightarrow> 16 * y + t < 128 \<Longrightarrow>
   bit (set_u16 b y' v) (16 * y + t) \<longleftrightarrow> (if y = y' then bit v t else bit b (16 * y + t))"
proof -
  assume t: "t < 16" and l: "16 * y + t < 128"
  show ?thesis
  proof (cases "y = y'")
    case True
    then show ?thesis using t l by (simp add: set_u16_def bit_simps bit_mask_16)
  next
    case False
    then have "16 * y + t < 16 * y' \<or> 16 \<le> 16 * y + t - 16 * y'" using t by linarith
    then have "\<not> (16 * y' \<le> 16 * y + t \<and> bit (0xFFFF :: block) (16 * y + t - 16 * y'))"
      and "\<not> (16 * y' \<le> 16 * y + t \<and> bit v (16 * y + t - 16 * y'))"
      using bit_imp_le_length [of v "16 * y + t - 16 * y'"] by (auto simp: bit_mask_16)
    then show ?thesis using False l unfolding set_u16_def by (simp add: bit_simps) blast
  qed
qed

lemma bit_set_u16 [byte_simps]:
  "c < 128 \<Longrightarrow> bit (set_u16 b y v) c \<longleftrightarrow> (if c div 16 = y then bit v (c mod 16) else bit b c)"
  using bit_set_u16_lane [of "c mod 16" "c div 16" b y v] by simp

lemma bit_load [byte_simps]:
  assumes "k < 128"
  shows "bit (fst (sse_loadSubSquare M x y)) k \<longleftrightarrow> bit (M ! (16 * x + k div 8)) (16 * y + k mod 8)"
    and "bit (snd (sse_loadSubSquare M x y)) k \<longleftrightarrow> bit (M ! (16 * x + k div 8)) (16 * y + 8 + k mod 8)"
proof -
  have "k div 8 < 16" using assms by (simp add: less_mult_imp_div_less)
  then show "bit (fst (sse_loadSubSquare M x y)) k \<longleftrightarrow> bit (M ! (16 * x + k div 8)) (16 * y + k mod 8)"
    and "bit (snd (sse_loadSubSquare M x y)) k \<longleftrightarrow> bit (M ! (16 * x + k div 8)) (16 * y + 8 + k mod 8)"
    using assms by (simp_all add: sse_loadSubSquare_def byte_simps algebra_simps)
qed

definition square_bit :: "block \<times> block \<Rightarrow> nat \<Rightarrow> nat \<Rightarrow> bool" where
  "square_bit ab r c = bit (if r mod 16 < 8 then fst ab else snd ab) (8 * (c mod 16) + r mod 8)"

lemma lane_unique: "t < 16 \<Longrightarrow> s < 16 \<Longrightarrow> 16 * q + t = 16 * x + s \<longleftrightarrow> q = x \<and> t = (s :: nat)"
proof -
  assume t: "t < 16" and s: "s < 16"
  have "16 * q + t = 16 * x + s \<Longrightarrow> q = x"
    using arg_cong [of "16 * q + t" "16 * x + s" "\<lambda>v. v div 16"] t s by simp
  then show ?thesis by auto
qed

lemma row_pair:
  assumes "n < (8 :: nat)"
  shows "r = 16 * x + 7 - n \<or> r = 16 * x + 15 - n \<longleftrightarrow> r div 16 = x \<and> r mod 8 = 7 - n"
proof -
  define q t m where "q = r div 16" and "t = r mod 16" and "m = 7 - n"
  have m: "16 * x + 7 - n = 16 * x + m" "16 * x + 15 - n = 16 * x + 8 + m" "m < 8"
    using assms by (simp_all add: m_def)
  have r: "r = 16 * q + t" and t: "t < 16" by (simp_all add: q_def t_def)
  have "r mod 8 = t mod 8" by (simp add: t_def mod_mod_cancel)
  also have "\<dots> = (if t < 8 then t else t - 8)" using t by (simp add: le_mod_geq)
  finally have r8: "r mod 8 = (if t < 8 then t else t - 8)" .
  have "16 * q + t = 16 * x + m \<longleftrightarrow> q = x \<and> t = m"
    using t m(3) by (intro lane_unique) simp_all
  moreover have "16 * q + t = 16 * x + 8 + m \<longleftrightarrow> q = x \<and> t = 8 + m"
    unfolding add.assoc using t m(3) by (intro lane_unique) simp_all
  moreover have "(if t < 8 then t else t - 8) = m \<longleftrightarrow> t = m \<or> t = 8 + m" using t m(3) by auto
  ultimately show ?thesis
    unfolding q_def [symmetric] m_def [symmetric] r8 m(1,2) unfolding r by blast
qed

lemma mod_64_pred: "1 \<le> k mod 64 \<Longrightarrow> (k - 1) mod 64 = k mod 64 - (1 :: nat)"
proof -
  assume "1 \<le> k mod 64"
  then obtain m where m: "k mod 64 = Suc m" using Suc_le_D [of 0 "k mod 64"] unfolding One_nat_def by blast
  then have "k = 64 * (k div 64) + Suc m" and "m < 64"
    using mult_div_mod_eq [of 64 k] mod_less_divisor [of 64 k] by simp_all
  then have "k - 1 = 64 * (k div 64) + m" by linarith
  then have "(k - 1) mod 64 = m" using \<open>m < 64\<close> by simp
  with m show ?thesis by simp
qed

text \<open>A register that was shifted \<open>n\<close> times by one.\<close>

definition shifted :: "nat \<Rightarrow> block \<Rightarrow> block \<Rightarrow> bool" where
  "shifted n v w \<longleftrightarrow> (\<forall>k. bit w k \<longleftrightarrow> k < 128 \<and> n \<le> k mod 64 \<and> bit v (k - n))"

lemma shifted_0: "shifted 0 v v"
  using bit_imp_le_length [of v] by (auto simp: shifted_def)

lemma shifted_Suc:
  assumes "shifted n v w"
  shows "shifted (Suc n) v (mm_slli_epi64 w 1)"
  unfolding shifted_def
proof
  fix k
  show "bit (mm_slli_epi64 w 1) k \<longleftrightarrow> k < 128 \<and> Suc n \<le> k mod 64 \<and> bit v (k - Suc n)"
  proof (cases "1 \<le> k mod 64")
    case True
    have e: "n \<le> k mod 64 - 1 \<longleftrightarrow> Suc n \<le> k mod 64" "k - 1 - n = k - Suc n"
      using True by linarith+
    have "bit w (k - 1) \<longleftrightarrow> k - 1 < 128 \<and> Suc n \<le> k mod 64 \<and> bit v (k - Suc n)"
      by (simp only: assms [unfolded shifted_def, rule_format] mod_64_pred [OF True] e)
    moreover have "k < 128 \<Longrightarrow> k - 1 < 128" by linarith
    ultimately show ?thesis using True unfolding bit_mm_slli_epi64 by blast
  next
    case False
    then show ?thesis by (simp add: bit_mm_slli_epi64)
  qed
qed

lemma movemask_shifted:
  assumes "shifted n v w" "n < 8" "t < 16"
  shows "bit (mm_movemask_epi8 w) t \<longleftrightarrow> bit v (8 * t + (7 - n))"
proof -
  have "(8 * t + 7) mod 64 = 8 * (t mod 8) + 7" using mod_mult2_eq [of "8 * t + 7" 8 8] by simp
  then show ?thesis using assms by (simp add: bit_mm_movemask_epi8 shifted_def)
qed

lemma transposeSubSquare_step_bits:
  assumes "shifted n (fst ab) a" "shifted n (snd ab) b" "n < 8" "x < 8" "length out = 128"
    and "transposeSubSquare_step x y (out, a, b) n = (out', a', b')"
  shows "shifted (Suc n) (fst ab) a' \<and> shifted (Suc n) (snd ab) b' \<and> length out' = 128 \<and>
    (\<forall>r < 128. \<forall>c < 128. bit (out' ! r) c \<longleftrightarrow>
      (if r div 16 = x \<and> r mod 8 = 7 - n \<and> c div 16 = y then square_bit ab r c else bit (out ! r) c))"
proof -
  let ?r1 = "16 * x + 7 - n" and ?r2 = "16 * x + 15 - n"
  have ne: "?r1 \<noteq> ?r2" "?r1 < 128" "?r2 < 128" using assms(3,4) by auto
  have e: "out' = out[?r1 := set_u16 (out ! ?r1) y (mm_movemask_epi8 a),
      ?r2 := set_u16 (out ! ?r2) y (mm_movemask_epi8 b)]"
    and ab: "a' = mm_slli_epi64 a 1" "b' = mm_slli_epi64 b 1"
    using assms(6) ne by (auto simp: transposeSubSquare_step_def Let_def)
  have "?r1 = 16 * x + (7 - n)" "?r2 = 16 * x + (15 - n)" using assms(3) by simp_all
  then have m: "?r1 mod 16 = 7 - n" "?r2 mod 16 = 15 - n" by (simp_all add: mod_less)
  have lt: "7 - n < 8" "\<not> 15 - n < 8" using assms(3) by simp_all
  have "bit (out' ! r) c \<longleftrightarrow>
      (if r div 16 = x \<and> r mod 8 = 7 - n \<and> c div 16 = y then square_bit ab r c else bit (out ! r) c)"
    if rc: "r < 128" "c < 128" for r c
  proof -
    consider "r = ?r1" | "r = ?r2" | "r \<noteq> ?r1" "r \<noteq> ?r2" by blast
    then show ?thesis
    proof cases
      case 1
      then show ?thesis
        using rc ne m lt row_pair [OF assms(3), of r x] assms(3,5) movemask_shifted [OF assms(1)]
        by (simp add: e bit_set_u16 square_bit_def)
    next
      case 2
      then show ?thesis
        using rc ne m lt row_pair [OF assms(3), of r x] assms(3,5) movemask_shifted [OF assms(2)]
        by (simp add: e bit_set_u16 square_bit_def)
    next
      case 3
      then show ?thesis using row_pair [OF assms(3), of r x] by (auto simp: e)
    qed
  qed
  then show ?thesis using shifted_Suc [OF assms(1)] shifted_Suc [OF assms(2)] assms(5) by (simp add: e ab)
qed

lemma transposeSubSquare_bits:
  assumes "x < 8" and "length out = 128"
  shows "length (sse_transposeSubSquare out ab x y) = 128 \<and>
    (\<forall>r < 128. \<forall>c < 128. bit (sse_transposeSubSquare out ab x y ! r) c \<longleftrightarrow>
      (if r div 16 = x \<and> c div 16 = y then square_bit ab r c else bit (out ! r) c))"
proof -
  have "\<exists>out' a b. foldl (transposeSubSquare_step x y) (out, ab) [0..<n] = (out', a, b) \<and>
      shifted n (fst ab) a \<and> shifted n (snd ab) b \<and> length out' = 128 \<and>
      (\<forall>r < 128. \<forall>c < 128. bit (out' ! r) c \<longleftrightarrow>
        (if r div 16 = x \<and> c div 16 = y \<and> 8 - n \<le> r mod 8 then square_bit ab r c else bit (out ! r) c))"
    if "n \<le> 8" for n
    using that
  proof (induction n)
    case 0
    have "(8 \<le> r mod 8) = False" for r :: nat by (simp add: not_le)
    then show ?case using assms(2) by (cases ab) (simp add: shifted_0)
  next
    case (Suc n)
    then obtain o1 a b where f: "foldl (transposeSubSquare_step x y) (out, ab) [0..<n] = (o1, a, b)"
      and s: "shifted n (fst ab) a" "shifted n (snd ab) b" "length o1 = 128"
      and o1: "\<forall>r < 128. \<forall>c < 128. bit (o1 ! r) c \<longleftrightarrow>
        (if r div 16 = x \<and> c div 16 = y \<and> 8 - n \<le> r mod 8 then square_bit ab r c else bit (out ! r) c)"
      by auto
    obtain o2 a' b' where t: "transposeSubSquare_step x y (o1, a, b) n = (o2, a', b')" by (metis prod_cases3)
    have f2: "foldl (transposeSubSquare_step x y) (out, ab) [0..<Suc n] = (o2, a', b')"
      by (simp only: upt_Suc foldl_append foldl_Cons foldl_Nil f le0 if_True t)
    have le: "7 - n \<le> r mod 8 \<longleftrightarrow> r mod 8 = 7 - n \<or> 8 - n \<le> r mod 8" for r :: nat
      using Suc.prems by auto
    from Suc.prems have "n < 8" by simp
    note b = transposeSubSquare_step_bits [OF s(1,2) this assms(1) s(3) t]
    show ?case
    proof (intro exI conjI)
      show "foldl (transposeSubSquare_step x y) (out, ab) [0..<Suc n] = (o2, a', b')" by (rule f2)
      show "\<forall>r < 128. \<forall>c < 128. bit (o2 ! r) c \<longleftrightarrow>
        (if r div 16 = x \<and> c div 16 = y \<and> 8 - Suc n \<le> r mod 8 then square_bit ab r c else bit (out ! r) c)"
        using b o1 by (auto simp: le)
    qed (use b in blast)+
  qed
  from this [of 8] show ?thesis by (auto simp: sse_transposeSubSquare_def)
qed

subsection \<open>Squares that are transposed\<close>

text \<open>\<open>M'\<close> is \<open>M\<close> with the squares of the set \<open>S\<close> replaced by the transposed ones.\<close>

definition transposed :: "(nat \<times> nat) set \<Rightarrow> block list \<Rightarrow> block list \<Rightarrow> bool" where
  "transposed S M M' \<longleftrightarrow> length M = 128 \<and> length M' = 128 \<and>
     (\<forall>r < 128. \<forall>c < 128. bit (M' ! r) c \<longleftrightarrow>
       (if (r div 16, c div 16) \<in> S then bit (M ! c) r else bit (M ! r) c))"

lemma transposed_refl: "length M = 128 \<Longrightarrow> transposed {} M M"
  by (simp add: transposed_def)

lemma transposed_trans:
  assumes "transposed S M M1" "transposed T M1 M2" "S \<inter> T = {}" "sym T"
  shows "transposed (S \<union> T) M M2"
  using assms unfolding transposed_def by (auto dest: symD)

lemma square_bit_load:
  assumes "r div 16 = y" "c div 16 = x" "r < 128" "c < 128"
  shows "square_bit (sse_loadSubSquare M x y) r c \<longleftrightarrow> bit (M ! c) r"
proof -
  define t where "t = r mod 16"
  have r: "r = 16 * y + t" and c: "16 * x + c mod 16 = c" and t: "t < 16"
    using assms by (auto simp: t_def)
  have "r mod 8 = t mod 8" by (simp add: t_def mod_mod_cancel)
  also have "\<dots> = (if t < 8 then t else t - 8)" using t by (simp add: le_mod_geq)
  finally have r8: "r mod 8 = (if t < 8 then t else t - 8)" .
  have k: "8 * (c mod 16) + r mod 8 < 128"
    using mod_less_divisor [of 16 c] mod_less_divisor [of 8 r] by linarith
  show ?thesis
    using t by (simp add: square_bit_def bit_load [OF k] c t_def [symmetric], simp only: r8) (auto simp: r)
qed

lemma transposed_square:
  assumes "y < 8" "x < 8" "length M = 128" "length out = 128"
  shows "length (sse_transposeSubSquare out (sse_loadSubSquare M x y) y x) = 128 \<and>
    (\<forall>r < 128. \<forall>c < 128. bit (sse_transposeSubSquare out (sse_loadSubSquare M x y) y x ! r) c \<longleftrightarrow>
      (if r div 16 = y \<and> c div 16 = x then bit (M ! c) r else bit (out ! r) c))"
  using transposeSubSquare_bits [OF assms(1,4), of "sse_loadSubSquare M x y" x] by (auto simp: square_bit_load)

lemma transposed_pair:
  assumes "k < j" "j < 8" "length M = 128"
  shows "transposed {(j, k), (k, j)} M (transpose128_pair j M k)"
proof -
  let ?M1 = "sse_transposeSubSquare M (sse_loadSubSquare M k j) j k"
  note 1 = transposed_square [of j k M M] and 2 = transposed_square [of k j M ?M1]
  have "k < 8" using assms by simp
  with 1 2 assms show ?thesis
    unfolding transposed_def transpose128_pair_def Let_def by auto
qed

lemma transposed_row:
  assumes "j < 8" "length M = 128"
  shows "transposed (insert (j, j) (\<Union>k < j. {(j, k), (k, j)})) M (transpose128_row M j)"
proof -
  let ?M0 = "sse_transposeSubSquare M (sse_loadSubSquare M j j) j j"
  have "transposed (insert (j, j) (\<Union>k < n. {(j, k), (k, j)})) M (foldl (transpose128_pair j) ?M0 [0..<n])"
    if "n \<le> j" for n
    using that
  proof (induction n)
    case 0
    then show ?case using transposed_square [of j j M M] assms by (auto simp: transposed_def)
  next
    case (Suc n)
    let ?M1 = "foldl (transpose128_pair j) ?M0 [0..<n]"
    from Suc have t: "transposed (insert (j, j) (\<Union>k < n. {(j, k), (k, j)})) M ?M1" by simp
    then have "length ?M1 = 128" by (simp add: transposed_def)
    from transposed_trans [OF t transposed_pair [OF _ assms(1) this, of n]] Suc.prems
    have "transposed (insert (j, j) (\<Union>k < n. {(j, k), (k, j)}) \<union> {(j, n), (n, j)}) M (transpose128_pair j ?M1 n)"
      by (auto simp: sym_def)
    moreover have "insert (j, j) (\<Union>k < n. {(j, k), (k, j)}) \<union> {(j, n), (n, j)} =
        insert (j, j) (\<Union>k < Suc n. {(j, k), (k, j)})"
      by (auto simp: less_Suc_eq)
    ultimately show ?case by simp
  qed
  from this [of j] show ?thesis by (simp add: transpose128_row_def)
qed

lemma transposed_all: "length M = 128 \<Longrightarrow> transposed ({..<8} \<times> {..<8}) M (sse_transpose128 M)"
proof -
  assume len: "length M = 128"
  have "transposed ({..<n} \<times> {..<n}) M (foldl transpose128_row M [0..<n])" if "n \<le> 8" for n
    using that
  proof (induction n)
    case 0
    then show ?case using len by (simp add: transposed_refl)
  next
    case (Suc n)
    let ?M1 = "foldl transpose128_row M [0..<n]" and ?T = "insert (n, n) (\<Union>k < n. {(n, k), (k, n)})"
    from Suc have t: "transposed ({..<n} \<times> {..<n}) M ?M1" by simp
    then have "length ?M1 = 128" by (simp add: transposed_def)
    then have "transposed ?T ?M1 (transpose128_row ?M1 n)" using Suc.prems by (intro transposed_row) auto
    then have "transposed ({..<n} \<times> {..<n} \<union> ?T) M (transpose128_row ?M1 n)"
      by (rule transposed_trans [OF t]) (auto simp: sym_def)
    moreover have "{..<n} \<times> {..<n} \<union> ?T = {..<Suc n} \<times> {..<Suc n}" by (auto simp: less_Suc_eq)
    ultimately show ?case by simp
  qed
  from this [of 8] show ?thesis by (simp add: sse_transpose128_def)
qed

lemma sse_transpose128_bits:
  assumes "length M = 128"
  shows "length (sse_transpose128 M) = 128"
    and "r < 128 \<Longrightarrow> c < 128 \<Longrightarrow> bit (sse_transpose128 M ! r) c \<longleftrightarrow> bit (M ! c) r"
  using transposed_all [OF assms] by (auto simp: transposed_def less_mult_imp_div_less)

subsection \<open>Eight blocks wide\<close>

text \<open>Block column \<open>i\<close> of the wide matrix; every step of the wide routine is one of the narrow one there.\<close>

definition column :: "block list list \<Rightarrow> nat \<Rightarrow> block list" where
  "column M i = map (\<lambda>row. row ! i) M"

definition wide :: "block list list \<Rightarrow> bool" where
  "wide M \<longleftrightarrow> length M = 128 \<and> (\<forall>row \<in> set M. length row = 8)"

lemma nth_column: "r < length M \<Longrightarrow> column M i ! r = M ! r ! i"
  by (simp add: column_def)

lemma wide_row: "wide M \<Longrightarrow> r < 128 \<Longrightarrow> length (M ! r) = 8"
  by (simp add: wide_def)

lemma load_column:
  assumes "wide M" "x < 8" "y < 8"
  shows "sse_loadSubSquarex M x y i = sse_loadSubSquare (column M i) x y"
proof -
  have d: "(i * 16 + 2 * y) div 16 = i" "(i * 16 + 2 * y) mod 16 = 2 * y"
    "(i * 16 + 2 * y + 1) div 16 = i" "(i * 16 + 2 * y + 1) mod 16 = 2 * y + 1"
    using assms(3) by (auto intro: div_nat_eqI simp: mod_less)
  have "M ! (x * 16 + l) ! i = column M i ! (16 * x + l)" if "l < 16" for l
    using that assms(1,2) by (simp add: nth_column wide_def mult.commute)
  then show ?thesis
    unfolding sse_loadSubSquarex_def sse_loadSubSquare_def Let_def d
    by (intro arg_cong2 [of _ _ _ _ Pair] arg_cong [of _ _ bytes_block] map_cong) simp_all
qed

lemma set_row_column:
  assumes "wide M" "r < 128" "y < 8" "i < 8"
  shows "wide (set_row_u16 M r (i * 8 + y) v)"
    and "column (set_row_u16 M r (i * 8 + y) v) i' =
      (if i' = i then (column M i)[r := set_u16 (column M i ! r) y v] else column M i')"
proof -
  have d: "(i * 8 + y) div 8 = i" "(i * 8 + y) mod 8 = y" using assms(3) by simp_all
  have l: "length M = 128" using assms(1) by (simp add: wide_def)
  show "wide (set_row_u16 M r (i * 8 + y) v)"
    using assms unfolding set_row_u16_def wide_def d all_set_conv_all_nth
    by (auto simp: nth_list_update)
  show "column (set_row_u16 M r (i * 8 + y) v) i' =
      (if i' = i then (column M i)[r := set_u16 (column M i ! r) y v] else column M i')"
    using assms(2,4) l wide_row [OF assms(1,2)] unfolding set_row_u16_def d
    by (auto simp: list_eq_iff_nth_eq column_def nth_list_update)
qed

lemma movemask_slli:
  assumes "s < 8" "t < 16"
  shows "bit (mm_movemask_epi8 (mm_slli_epi64 w s)) t \<longleftrightarrow> bit w (8 * t + (7 - s))"
proof -
  have "(8 * t + 7) mod 64 = 8 * (t mod 8) + 7" using mod_mult2_eq [of "8 * t + 7" 8 8] by simp
  then show ?thesis using assms by (simp add: byte_simps)
qed

lemma row_of_eighth: "s < 8 \<Longrightarrow> r = 8 * q + (7 - s) \<longleftrightarrow> r div 8 = q \<and> r mod 8 = 7 - (s :: nat)"
proof -
  assume "s < 8"
  then have "7 - s < 8" by simp
  then show ?thesis using mult_div_mod_eq [of 8 r] by (auto, metis)
qed

lemma half_rows:
  "r div 16 = x \<and> r mod 16 < 8 \<longleftrightarrow> r div 8 = 2 * (x :: nat)"
  "r div 16 = x \<and> \<not> r mod 16 < 8 \<longleftrightarrow> r div 8 = 2 * x + 1"
proof -
  define a b q t where "a = r div 8" and "b = r mod 8" and "q = r div 16" and "t = r mod 16"
  have e: "8 * a + b = 16 * q + t" and "b < 8" and "t < 16" by (simp_all add: a_def b_def q_def t_def)
  then have l: "t < 8 \<Longrightarrow> a = 2 * q" and h: "\<not> t < 8 \<Longrightarrow> a = 2 * q + 1" by linarith+
  have "q = x \<and> t < 8 \<longleftrightarrow> a = 2 * x" and "q = x \<and> \<not> t < 8 \<longleftrightarrow> a = 2 * x + 1"
    by (cases "t < 8"; use l h in \<open>simp; presburger\<close>)+
  then show "r div 16 = x \<and> r mod 16 < 8 \<longleftrightarrow> r div 8 = 2 * x"
    and "r div 16 = x \<and> \<not> r mod 16 < 8 \<longleftrightarrow> r div 8 = 2 * x + 1"
    by (simp_all add: a_def q_def t_def)
qed

text \<open>One of the two loops over the eight rows, \<open>q\<close> the group of rows.\<close>

definition wide_half :: "block list list \<Rightarrow> block \<Rightarrow> nat \<Rightarrow> nat \<Rightarrow> nat \<Rightarrow> nat \<Rightarrow> block list list" where
  "wide_half M w q y i n =
     foldl (\<lambda>out s. set_row_u16 out (8 * q + (7 - s)) (i * 8 + y) (mm_movemask_epi8 (mm_slli_epi64 w s))) M [0..<n]"

lemma wide_half_bits:
  assumes "wide M" "q < 16" "y < 8" "i < 8" "n \<le> 8"
  shows "wide (wide_half M w q y i n) \<and>
    (\<forall>i'. i' \<noteq> i \<longrightarrow> column (wide_half M w q y i n) i' = column M i') \<and>
    (\<forall>r < 128. \<forall>c < 128. bit (column (wide_half M w q y i n) i ! r) c \<longleftrightarrow>
      (if r div 8 = q \<and> c div 16 = y \<and> 8 - n \<le> r mod 8 then bit w (8 * (c mod 16) + r mod 8)
       else bit (column M i ! r) c))"
  using assms(5)
proof (induction n)
  case 0
  have "(8 \<le> r mod 8) = False" for r :: nat by (simp add: not_le)
  then show ?case using assms(1) by (simp add: wide_half_def)
next
  case (Suc n)
  define R where "R = 8 * q + (7 - n)"
  let ?M = "wide_half M w q y i n"
  have n: "n < 8" using Suc.prems by simp
  have w: "wide ?M" and o: "\<forall>i'. i' \<noteq> i \<longrightarrow> column ?M i' = column M i'" and R: "R < 128"
    and IH: "\<And>r c. r < 128 \<Longrightarrow> c < 128 \<Longrightarrow> bit (column ?M i ! r) c \<longleftrightarrow>
      (if r div 8 = q \<and> c div 16 = y \<and> 8 - n \<le> r mod 8 then bit w (8 * (c mod 16) + r mod 8)
       else bit (column M i ! r) c)"
    using Suc assms(2) by (auto simp: R_def)
  have which: "r = R \<longleftrightarrow> r div 8 = q \<and> r mod 8 = 7 - n" for r
    unfolding R_def by (rule row_of_eighth [OF n])
  have e: "wide_half M w q y i (Suc n) = set_row_u16 ?M R (i * 8 + y) (mm_movemask_epi8 (mm_slli_epi64 w n))"
    by (simp add: wide_half_def R_def)
  note set = set_row_column [OF w R assms(3,4)]
  have len: "length (column ?M i) = 128" using w by (simp add: column_def wide_def)
  have le: "8 - Suc n \<le> k \<longleftrightarrow> k = 7 - n \<or> 8 - n \<le> k" for k :: nat using n by auto
  have "bit (column (wide_half M w q y i (Suc n)) i ! r) c \<longleftrightarrow>
      (if r div 8 = q \<and> c div 16 = y \<and> 8 - Suc n \<le> r mod 8 then bit w (8 * (c mod 16) + r mod 8)
       else bit (column M i ! r) c)" if rc: "r < 128" "c < 128" for r c
  proof (cases "r = R")
    case True
    have "bit (column (wide_half M w q y i (Suc n)) i ! R) c \<longleftrightarrow>
        (if c div 16 = y then bit w (8 * (c mod 16) + (7 - n)) else bit (column ?M i ! R) c)"
      using rc(2) len R movemask_slli [OF n, of "c mod 16" w] by (simp add: e set(2) bit_set_u16)
    then show ?thesis using True which [of R] IH [OF R rc(2)] n unfolding le by simp
  next
    case False
    then show ?thesis using which [of r] IH [OF rc] unfolding e set(2) le by auto
  qed
  then show ?case using set(1) o by (simp add: e set(2))
qed

lemma transposeSubSquarex_halves:
  "sse_transposeSubSquarex M ab x y i =
    wide_half (wide_half M (fst ab) (2 * x) y i 8) (snd ab) (2 * x + 1) y i 8"
proof -
  have r: "x * 16 + 7 - s = 8 * (2 * x) + (7 - s)" "x * 16 + 15 - s = 8 * (2 * x + 1) + (7 - s)"
    if "s \<in> set [0..<8]" for s
    using that by auto
  show ?thesis
    unfolding sse_transposeSubSquarex_def wide_half_def Let_def
    by (intro foldl_cong refl) (simp_all only: r)
qed

lemma transposeSubSquarex_column:
  assumes "wide M" "x < 8" "y < 8" "i < 8"
  shows "wide (sse_transposeSubSquarex M ab x y i)"
    and "i' \<noteq> i \<Longrightarrow> column (sse_transposeSubSquarex M ab x y i) i' = column M i'"
    and "column (sse_transposeSubSquarex M ab x y i) i = sse_transposeSubSquare (column M i) ab x y"
proof -
  let ?M1 = "wide_half M (fst ab) (2 * x) y i 8"
  let ?M2 = "wide_half ?M1 (snd ab) (2 * x + 1) y i 8"
  have q: "2 * x < 16" "2 * x + 1 < 16" using assms(2) by simp_all
  note 1 = wide_half_bits [OF assms(1) q(1) assms(3,4) order_refl, of "fst ab"]
  then have w1: "wide ?M1" by blast
  note 2 = wide_half_bits [OF w1 q(2) assms(3,4) order_refl, of "snd ab"]
  show w2: "wide (sse_transposeSubSquarex M ab x y i)"
    and "i' \<noteq> i \<Longrightarrow> column (sse_transposeSubSquarex M ab x y i) i' = column M i'"
    using 1 2 by (simp_all add: transposeSubSquarex_halves)
  have len: "length (column M i) = 128" using assms(1) by (simp add: column_def wide_def)
  note narrow = transposeSubSquare_bits [OF assms(2) len, of ab y]
  have b: "bit (column ?M2 i ! r) c \<longleftrightarrow> bit (sse_transposeSubSquare (column M i) ab x y ! r) c"
    if rc: "r < 128" "c < 128" for r c
    using narrow 1 2 rc half_rows [of r x] by (auto simp: square_bit_def)
  show "column (sse_transposeSubSquarex M ab x y i) i = sse_transposeSubSquare (column M i) ab x y"
  proof (rule nth_equalityI)
    show l: "length (column (sse_transposeSubSquarex M ab x y i) i) = length (sse_transposeSubSquare (column M i) ab x y)"
      using narrow w2 by (simp add: column_def wide_def)
    fix r assume "r < length (column (sse_transposeSubSquarex M ab x y i) i)"
    then have "r < 128" using narrow l by simp
    then show "column (sse_transposeSubSquarex M ab x y i) i ! r = sse_transposeSubSquare (column M i) ab x y ! r"
      using b by (intro bit_word_eqI) (simp add: transposeSubSquarex_halves)
  qed
qed

text \<open>\<open>f\<close> works on column \<open>i\<close> the way \<open>g\<close> works on a narrow matrix, and leaves the other columns.\<close>

definition col_step :: "nat \<Rightarrow> (block list list \<Rightarrow> block list list) \<Rightarrow> (block list \<Rightarrow> block list) \<Rightarrow> bool" where
  "col_step i f g \<longleftrightarrow> (\<forall>M. wide M \<longrightarrow> wide (f M) \<and> column (f M) i = g (column M i) \<and>
     (\<forall>i'. i' \<noteq> i \<longrightarrow> column (f M) i' = column M i'))"

lemma col_step_foldl:
  "(\<And>x. x \<in> set xs \<Longrightarrow> col_step i (\<lambda>M. f M x) (\<lambda>m. g m x)) \<Longrightarrow>
   col_step i (\<lambda>M. foldl f M xs) (\<lambda>m. foldl g m xs)"
proof (induction xs)
  case Nil
  then show ?case by (simp add: col_step_def)
next
  case (Cons x xs)
  have "col_step i (\<lambda>M. f M x) (\<lambda>m. g m x)" "col_step i (\<lambda>M. foldl f M xs) (\<lambda>m. foldl g m xs)"
    using Cons by simp_all
  then show ?case unfolding col_step_def by simp
qed

lemma col_step_transpose:
  assumes "i < 8"
  shows "col_step i (\<lambda>M. foldl (transposex_row i) M [0..<8]) sse_transpose128"
proof -
  have pair: "col_step i (\<lambda>M. transposex_pair i j M k) (\<lambda>m. transpose128_pair j m k)" if "j < 8" "k < 8" for j k
    using that assms
    by (simp add: col_step_def transposex_pair_def transpose128_pair_def Let_def load_column
        transposeSubSquarex_column)
  have row: "col_step i (\<lambda>M. transposex_row i M j) (\<lambda>m. transpose128_row m j)" if j: "j < 8" for j
  proof -
    have "col_step i (\<lambda>M. sse_transposeSubSquarex M (sse_loadSubSquarex M j j i) j j i)
        (\<lambda>m. sse_transposeSubSquare m (sse_loadSubSquare m j j) j j)"
      using j assms by (simp add: col_step_def load_column transposeSubSquarex_column)
    moreover have "col_step i (\<lambda>M. foldl (transposex_pair i j) M [0..<j]) (\<lambda>m. foldl (transpose128_pair j) m [0..<j])"
      using j by (intro col_step_foldl pair) auto
    ultimately show ?thesis unfolding col_step_def transposex_row_def transpose128_row_def by simp
  qed
  show ?thesis unfolding sse_transpose128_def by (intro col_step_foldl row) auto
qed

lemma sse_transpose128x1024_columns:
  assumes "wide M"
  shows "wide (sse_transpose128x1024 M)"
    and "i < 8 \<Longrightarrow> column (sse_transpose128x1024 M) i = sse_transpose128 (column M i)"
proof -
  have "wide (foldl (\<lambda>M i. foldl (transposex_row i) M [0..<8]) M [0..<n]) \<and>
      (\<forall>i < 8. column (foldl (\<lambda>M i. foldl (transposex_row i) M [0..<8]) M [0..<n]) i =
        (if i < n then sse_transpose128 (column M i) else column M i))" if "n \<le> 8" for n
    using that
  proof (induction n)
    case 0
    then show ?case using assms by simp
  next
    case (Suc n)
    let ?M = "foldl (\<lambda>M i. foldl (transposex_row i) M [0..<8]) M [0..<n]"
    have e: "foldl (\<lambda>M i. foldl (transposex_row i) M [0..<8]) M [0..<Suc n] = foldl (transposex_row n) ?M [0..<8]"
      by (simp only: upt_Suc foldl_append foldl_Cons foldl_Nil le0 if_True)
    have "col_step n (\<lambda>M. foldl (transposex_row n) M [0..<8]) sse_transpose128"
      using Suc.prems by (intro col_step_transpose) simp
    with Suc show ?case unfolding e col_step_def by (auto simp: less_Suc_eq)
  qed
  from this [of 8] show "wide (sse_transpose128x1024 M)"
    and "i < 8 \<Longrightarrow> column (sse_transpose128x1024 M) i = sse_transpose128 (column M i)"
    by (simp_all add: sse_transpose128x1024_def)
qed

lemma sse_transpose128x1024_bits:
  assumes "wide M" "r < 128" "c < 128" "i < 8"
  shows "bit (sse_transpose128x1024 M ! r ! i) c \<longleftrightarrow> bit (M ! c ! i) r"
proof -
  have l: "length M = 128" "length (sse_transpose128x1024 M) = 128"
    using sse_transpose128x1024_columns(1) [OF assms(1)] assms(1) by (simp_all add: wide_def)
  have "bit (column (sse_transpose128x1024 M) i ! r) c \<longleftrightarrow> bit (column M i ! c) r"
    using sse_transpose128x1024_columns(2) [OF assms(1,4)] sse_transpose128_bits(2) [OF _ assms(2,3)] l
    by (simp add: column_def)
  then show ?thesis using l assms(2,3) by (simp add: nth_column)
qed

subsection \<open>Properties\<close>

text \<open>
  C12: the routine that the OT extension uses transposes each of the eight 128 x 128 bit
  matrices that lie side by side in its argument.
\<close>

theorem transpose128x1024_transposes:
  assumes "length inOut = 128" and "\<forall>row \<in> set inOut. length row = 8"
    and "r < 128" and "c < 128" and "i < 8"
  shows "bit (sse_transpose128x1024 inOut ! r ! i) c \<longleftrightarrow> bit (inOut ! c ! i) r"
  using assms by (intro sse_transpose128x1024_bits) (simp_all add: wide_def)

theorem transpose128x1024_transposes_witness:
  "bit (sse_transpose128x1024 (replicate 128 (replicate 8 6)) ! 2 ! 7) 100"
  by (subst transpose128x1024_transposes) (simp_all add: bit_simps)

text \<open>Transposing twice gives back the matrix.\<close>

theorem transpose128_involution:
  assumes "length inOut = 128"
  shows "sse_transpose128 (sse_transpose128 inOut) = inOut"
proof (rule nth_equalityI)
  have l: "length (sse_transpose128 inOut) = 128" by (rule sse_transpose128_bits [OF assms])
  show "length (sse_transpose128 (sse_transpose128 inOut)) = length inOut"
    using sse_transpose128_bits(1) [OF l] assms by simp
  fix r assume "r < length (sse_transpose128 (sse_transpose128 inOut))"
  then have r: "r < 128" using sse_transpose128_bits(1) [OF l] by simp
  show "sse_transpose128 (sse_transpose128 inOut) ! r = inOut ! r"
    by (rule bit_word_eqI) (simp add: sse_transpose128_bits(2) [OF l r] sse_transpose128_bits(2) [OF assms _ r])
qed

theorem transpose128_involution_witness:
  "sse_transpose128 (sse_transpose128 (replicate 128 5)) = replicate 128 5"
  by (rule transpose128_involution) simp

end
