(* ===== verification/Aes.thy ===== *)
theory Aes
  imports Sse
begin

text \<open>
  The cipher of \<^verbatim>\<open>cryptoTools/Crypto/AES.cpp\<close>, \<^verbatim>\<open>AES.h\<close>: the key schedule, the encryption of
  one block, of two, four, eight and sixteen interleaved, of counters, under several keys, and
  decryption. The instructions \<^verbatim>\<open>aesenc\<close>, \<^verbatim>\<open>aesenclast\<close>, \<^verbatim>\<open>aesdec\<close>, \<^verbatim>\<open>aesdeclast\<close>,
  \<^verbatim>\<open>aesimc\<close> and \<^verbatim>\<open>aeskeygenassist\<close> are written out as the instruction set reference has them.
\<close>

subsection \<open>The instructions\<close>

definition sbox :: "u8 list" where
  "sbox =
    [0x63, 0x7c, 0x77, 0x7b, 0xf2, 0x6b, 0x6f, 0xc5, 0x30, 0x01, 0x67, 0x2b, 0xfe, 0xd7, 0xab, 0x76,
     0xca, 0x82, 0xc9, 0x7d, 0xfa, 0x59, 0x47, 0xf0, 0xad, 0xd4, 0xa2, 0xaf, 0x9c, 0xa4, 0x72, 0xc0,
     0xb7, 0xfd, 0x93, 0x26, 0x36, 0x3f, 0xf7, 0xcc, 0x34, 0xa5, 0xe5, 0xf1, 0x71, 0xd8, 0x31, 0x15,
     0x04, 0xc7, 0x23, 0xc3, 0x18, 0x96, 0x05, 0x9a, 0x07, 0x12, 0x80, 0xe2, 0xeb, 0x27, 0xb2, 0x75,
     0x09, 0x83, 0x2c, 0x1a, 0x1b, 0x6e, 0x5a, 0xa0, 0x52, 0x3b, 0xd6, 0xb3, 0x29, 0xe3, 0x2f, 0x84,
     0x53, 0xd1, 0x00, 0xed, 0x20, 0xfc, 0xb1, 0x5b, 0x6a, 0xcb, 0xbe, 0x39, 0x4a, 0x4c, 0x58, 0xcf,
     0xd0, 0xef, 0xaa, 0xfb, 0x43, 0x4d, 0x33, 0x85, 0x45, 0xf9, 0x02, 0x7f, 0x50, 0x3c, 0x9f, 0xa8,
     0x51, 0xa3, 0x40, 0x8f, 0x92, 0x9d, 0x38, 0xf5, 0xbc, 0xb6, 0xda, 0x21, 0x10, 0xff, 0xf3, 0xd2,
     0xcd, 0x0c, 0x13, 0xec, 0x5f, 0x97, 0x44, 0x17, 0xc4, 0xa7, 0x7e, 0x3d, 0x64, 0x5d, 0x19, 0x73,
     0x60, 0x81, 0x4f, 0xdc, 0x22, 0x2a, 0x90, 0x88, 0x46, 0xee, 0xb8, 0x14, 0xde, 0x5e, 0x0b, 0xdb,
     0xe0, 0x32, 0x3a, 0x0a, 0x49, 0x06, 0x24, 0x5c, 0xc2, 0xd3, 0xac, 0x62, 0x91, 0x95, 0xe4, 0x79,
     0xe7, 0xc8, 0x37, 0x6d, 0x8d, 0xd5, 0x4e, 0xa9, 0x6c, 0x56, 0xf4, 0xea, 0x65, 0x7a, 0xae, 0x08,
     0xba, 0x78, 0x25, 0x2e, 0x1c, 0xa6, 0xb4, 0xc6, 0xe8, 0xdd, 0x74, 0x1f, 0x4b, 0xbd, 0x8b, 0x8a,
     0x70, 0x3e, 0xb5, 0x66, 0x48, 0x03, 0xf6, 0x0e, 0x61, 0x35, 0x57, 0xb9, 0x86, 0xc1, 0x1d, 0x9e,
     0xe1, 0xf8, 0x98, 0x11, 0x69, 0xd9, 0x8e, 0x94, 0x9b, 0x1e, 0x87, 0xe9, 0xce, 0x55, 0x28, 0xdf,
     0x8c, 0xa1, 0x89, 0x0d, 0xbf, 0xe6, 0x42, 0x68, 0x41, 0x99, 0x2d, 0x0f, 0xb0, 0x54, 0xbb, 0x16]"

definition inv_sbox :: "u8 list" where
  "inv_sbox =
    [0x52, 0x09, 0x6a, 0xd5, 0x30, 0x36, 0xa5, 0x38, 0xbf, 0x40, 0xa3, 0x9e, 0x81, 0xf3, 0xd7, 0xfb,
     0x7c, 0xe3, 0x39, 0x82, 0x9b, 0x2f, 0xff, 0x87, 0x34, 0x8e, 0x43, 0x44, 0xc4, 0xde, 0xe9, 0xcb,
     0x54, 0x7b, 0x94, 0x32, 0xa6, 0xc2, 0x23, 0x3d, 0xee, 0x4c, 0x95, 0x0b, 0x42, 0xfa, 0xc3, 0x4e,
     0x08, 0x2e, 0xa1, 0x66, 0x28, 0xd9, 0x24, 0xb2, 0x76, 0x5b, 0xa2, 0x49, 0x6d, 0x8b, 0xd1, 0x25,
     0x72, 0xf8, 0xf6, 0x64, 0x86, 0x68, 0x98, 0x16, 0xd4, 0xa4, 0x5c, 0xcc, 0x5d, 0x65, 0xb6, 0x92,
     0x6c, 0x70, 0x48, 0x50, 0xfd, 0xed, 0xb9, 0xda, 0x5e, 0x15, 0x46, 0x57, 0xa7, 0x8d, 0x9d, 0x84,
     0x90, 0xd8, 0xab, 0x00, 0x8c, 0xbc, 0xd3, 0x0a, 0xf7, 0xe4, 0x58, 0x05, 0xb8, 0xb3, 0x45, 0x06,
     0xd0, 0x2c, 0x1e, 0x8f, 0xca, 0x3f, 0x0f, 0x02, 0xc1, 0xaf, 0xbd, 0x03, 0x01, 0x13, 0x8a, 0x6b,
     0x3a, 0x91, 0x11, 0x41, 0x4f, 0x67, 0xdc, 0xea, 0x97, 0xf2, 0xcf, 0xce, 0xf0, 0xb4, 0xe6, 0x73,
     0x96, 0xac, 0x74, 0x22, 0xe7, 0xad, 0x35, 0x85, 0xe2, 0xf9, 0x37, 0xe8, 0x1c, 0x75, 0xdf, 0x6e,
     0x47, 0xf1, 0x1a, 0x71, 0x1d, 0x29, 0xc5, 0x89, 0x6f, 0xb7, 0x62, 0x0e, 0xaa, 0x18, 0xbe, 0x1b,
     0xfc, 0x56, 0x3e, 0x4b, 0xc6, 0xd2, 0x79, 0x20, 0x9a, 0xdb, 0xc0, 0xfe, 0x78, 0xcd, 0x5a, 0xf4,
     0x1f, 0xdd, 0xa8, 0x33, 0x88, 0x07, 0xc7, 0x31, 0xb1, 0x12, 0x10, 0x59, 0x27, 0x80, 0xec, 0x5f,
     0x60, 0x51, 0x7f, 0xa9, 0x19, 0xb5, 0x4a, 0x0d, 0x2d, 0xe5, 0x7a, 0x9f, 0x93, 0xc9, 0x9c, 0xef,
     0xa0, 0xe0, 0x3b, 0x4d, 0xae, 0x2a, 0xf5, 0xb0, 0xc8, 0xeb, 0xbb, 0x3c, 0x83, 0x53, 0x99, 0x61,
     0x17, 0x2b, 0x04, 0x7e, 0xba, 0x77, 0xd6, 0x26, 0xe1, 0x69, 0x14, 0x63, 0x55, 0x21, 0x0c, 0x7d]"

definition sub_byte :: "u8 \<Rightarrow> u8" where
  "sub_byte b = sbox ! unat b"

definition inv_sub_byte :: "u8 \<Rightarrow> u8" where
  "inv_sub_byte b = inv_sbox ! unat b"

text \<open>Multiplication by \<open>x\<close> modulo \<open>x^8 + x^4 + x^3 + x + 1\<close>.\<close>

definition xtime :: "u8 \<Rightarrow> u8" where
  "xtime b = push_bit 1 b XOR (if bit b 7 then 0x1b else 0)"

text \<open>A state is its sixteen bytes, byte \<open>4 c + r\<close> that of row \<open>r\<close> and column \<open>c\<close>.\<close>

definition shift_rows :: "u8 list \<Rightarrow> u8 list" where
  "shift_rows s = map (\<lambda>i. s ! ((i + 4 * (i mod 4)) mod 16)) [0..<16]"

definition inv_shift_rows :: "u8 list \<Rightarrow> u8 list" where
  "inv_shift_rows s = map (\<lambda>i. s ! ((i + 12 * (i mod 4)) mod 16)) [0..<16]"

definition mix_column :: "u8 \<Rightarrow> u8 \<Rightarrow> u8 \<Rightarrow> u8 \<Rightarrow> u8" where
  "mix_column a b c d = xtime a XOR (xtime b XOR b) XOR c XOR d"

definition inv_mix_column :: "u8 \<Rightarrow> u8 \<Rightarrow> u8 \<Rightarrow> u8 \<Rightarrow> u8" where
  "inv_mix_column a b c d =
     (xtime (xtime (xtime a)) XOR xtime (xtime a) XOR xtime a) XOR
     (xtime (xtime (xtime b)) XOR xtime b XOR b) XOR
     (xtime (xtime (xtime c)) XOR xtime (xtime c) XOR c) XOR
     (xtime (xtime (xtime d)) XOR d)"

definition columns_by :: "(u8 \<Rightarrow> u8 \<Rightarrow> u8 \<Rightarrow> u8 \<Rightarrow> u8) \<Rightarrow> u8 list \<Rightarrow> u8 list" where
  "columns_by f s = map (\<lambda>i. let c = 4 * (i div 4); r = i mod 4
     in f (s ! (c + r)) (s ! (c + (r + 1) mod 4)) (s ! (c + (r + 2) mod 4)) (s ! (c + (r + 3) mod 4))) [0..<16]"

definition mix_columns :: "u8 list \<Rightarrow> u8 list" where
  "mix_columns = columns_by mix_column"

definition inv_mix_columns :: "u8 list \<Rightarrow> u8 list" where
  "inv_mix_columns = columns_by inv_mix_column"

definition mm_aesenc_si128 :: "block \<Rightarrow> block \<Rightarrow> block" where
  "mm_aesenc_si128 s k = bytes_block (mix_columns (map sub_byte (shift_rows (block_bytes s)))) XOR k"

definition mm_aesenclast_si128 :: "block \<Rightarrow> block \<Rightarrow> block" where
  "mm_aesenclast_si128 s k = bytes_block (map sub_byte (shift_rows (block_bytes s))) XOR k"

definition mm_aesdec_si128 :: "block \<Rightarrow> block \<Rightarrow> block" where
  "mm_aesdec_si128 s k = bytes_block (inv_mix_columns (map inv_sub_byte (inv_shift_rows (block_bytes s)))) XOR k"

definition mm_aesdeclast_si128 :: "block \<Rightarrow> block \<Rightarrow> block" where
  "mm_aesdeclast_si128 s k = bytes_block (map inv_sub_byte (inv_shift_rows (block_bytes s))) XOR k"

definition mm_aesimc_si128 :: "block \<Rightarrow> block" where
  "mm_aesimc_si128 s = bytes_block (inv_mix_columns (block_bytes s))"

definition sub_word :: "u32 \<Rightarrow> u32" where
  "sub_word w = bytes_le (map sub_byte (word_bytes 4 w))"

definition rot_word :: "u32 \<Rightarrow> u32" where
  "rot_word w = drop_bit 8 w OR push_bit 24 w"

definition mm_aeskeygenassist_si128 :: "block \<Rightarrow> u8 \<Rightarrow> block" where
  "mm_aeskeygenassist_si128 s rcon =
     (let w1 = sub_word (lane32 s 1); w3 = sub_word (lane32 s 3)
      in lanes32 w1 (rot_word w1 XOR ucast rcon) w3 (rot_word w3 XOR ucast rcon))"

subsection \<open>The class \<open>AES\<close>: the eleven round keys\<close>

definition keyGenHelper :: "block \<Rightarrow> block \<Rightarrow> block" where
  "keyGenHelper key keyRcon =
     (let keyRcon = mm_shuffle_epi32 keyRcon 3 3 3 3;
          key = key XOR mm_slli_si128 key 4;
          key = key XOR mm_slli_si128 key 4;
          key = key XOR mm_slli_si128 key 4
      in key XOR keyRcon)"

definition rcons :: "u8 list" where
  "rcons = [0x01, 0x02, 0x04, 0x08, 0x10, 0x20, 0x40, 0x80, 0x1B, 0x36]"

definition setKey :: "block \<Rightarrow> block list" where
  "setKey userKey =
     foldl (\<lambda>ks rcon. ks @ [keyGenHelper (last ks) (mm_aeskeygenassist_si128 (last ks) rcon)]) [userKey] rcons"

definition ecbEncBlock :: "block list \<Rightarrow> block \<Rightarrow> block" where
  "ecbEncBlock mRoundKey plaintext =
     mm_aesenclast_si128
       (foldl (\<lambda>c r. mm_aesenc_si128 c (mRoundKey ! r)) (plaintext XOR mRoundKey ! 0) [1..<10]) (mRoundKey ! 10)"

text \<open>Several lanes a round at a time.\<close>

definition enc_lanes :: "block list \<Rightarrow> block list \<Rightarrow> block list" where
  "enc_lanes mRoundKey plaintexts =
     (let temp = map (\<lambda>p. p XOR mRoundKey ! 0) plaintexts;
          temp = foldl (\<lambda>temp r. map (\<lambda>t. mm_aesenc_si128 t (mRoundKey ! r)) temp) temp [1..<10]
      in map (\<lambda>t. mm_aesenclast_si128 t (mRoundKey ! 10)) temp)"

definition write_at :: "'a list \<Rightarrow> nat \<Rightarrow> 'a list \<Rightarrow> 'a list" where
  "write_at xs i ys = take i xs @ ys @ drop (i + length ys) xs"

definition ecbEncBlocks :: "block list \<Rightarrow> block list \<Rightarrow> nat \<Rightarrow> block list \<Rightarrow> block list" where
  "ecbEncBlocks mRoundKey plaintexts blockLength cyphertext =
     (let step = 8;
          len = blockLength - blockLength mod step;
          out = foldl (\<lambda>out s. write_at out (8 * s) (enc_lanes mRoundKey (map (\<lambda>t. plaintexts ! (8 * s + t)) [0..<8])))
                  cyphertext [0..<len div 8]
      in foldl (\<lambda>out idx. out[idx := ecbEncBlock mRoundKey (plaintexts ! idx)]) out [len..<blockLength])"

definition ecbEncTwoBlocks :: "block list \<Rightarrow> block list \<Rightarrow> block list \<Rightarrow> block list" where
  "ecbEncTwoBlocks mRoundKey plaintexts cyphertext =
     write_at cyphertext 0 (enc_lanes mRoundKey (map (\<lambda>t. plaintexts ! t) [0..<2]))"

definition ecbEncFourBlocks :: "block list \<Rightarrow> block list \<Rightarrow> block list \<Rightarrow> block list" where
  "ecbEncFourBlocks mRoundKey plaintexts cyphertext =
     write_at cyphertext 0 (enc_lanes mRoundKey (map (\<lambda>t. plaintexts ! t) [0..<4]))"

definition ecbEnc16Blocks :: "block list \<Rightarrow> block list \<Rightarrow> block list \<Rightarrow> block list" where
  "ecbEnc16Blocks mRoundKey plaintexts cyphertext =
     write_at cyphertext 0 (enc_lanes mRoundKey (map (\<lambda>t. plaintexts ! t) [0..<16]))"

text \<open>
  Counter mode. The local indices are of type \<^verbatim>\<open>i32\<close>: lengths are below \<open>2 ^ 31\<close>. The counter
  wraps around at \<open>2 ^ 64\<close>.
\<close>

definition ecbEncCounterMode :: "block list \<Rightarrow> u64 \<Rightarrow> nat \<Rightarrow> block list \<Rightarrow> block list" where
  "ecbEncCounterMode mRoundKey baseIdx blockLength cyphertext =
     (let step = 8;
          len = blockLength - blockLength mod step;
          (out, baseIdx) = foldl (\<lambda>(out, baseIdx) s.
              (write_at out (8 * s) (enc_lanes mRoundKey (map (\<lambda>t. mm_set1_epi64x (baseIdx + of_nat t)) [0..<8])),
               baseIdx + 8)) (cyphertext, baseIdx) [0..<len div 8];
          (out, baseIdx) = foldl (\<lambda>(out, baseIdx) idx.
              (out[idx := ecbEncBlock mRoundKey (mm_set1_epi64x baseIdx)], baseIdx + 1)) (out, baseIdx) [len..<blockLength]
      in out)"

subsection \<open>Several keys, and decryption\<close>

definition multi_setKeys :: "block list \<Rightarrow> block list list" where
  "multi_setKeys ks = map setKey ks"

definition ecbEncNBlocks :: "block list list \<Rightarrow> block list \<Rightarrow> block list" where
  "ecbEncNBlocks mAESs plaintext =
     (let n = length mAESs;
          c = map (\<lambda>i. plaintext ! i XOR mAESs ! i ! 0) [0..<n];
          c = foldl (\<lambda>c r. map (\<lambda>i. mm_aesenc_si128 (c ! i) (mAESs ! i ! r)) [0..<n]) c [1..<10]
      in map (\<lambda>i. mm_aesenclast_si128 (c ! i) (mAESs ! i ! 10)) [0..<n])"

definition dec_setKey :: "block \<Rightarrow> block list" where
  "dec_setKey userKey =
     (let v = setKey userKey
      in [v ! 10] @ map (\<lambda>i. mm_aesimc_si128 (v ! (10 - i))) [1..<10] @ [v ! 0])"

definition ecbDecBlock :: "block list \<Rightarrow> block \<Rightarrow> block" where
  "ecbDecBlock mRoundKey cyphertext =
     mm_aesdeclast_si128
       (foldl (\<lambda>p r. mm_aesdec_si128 p (mRoundKey ! r)) (cyphertext XOR mRoundKey ! 0) [1..<10]) (mRoundKey ! 10)"

end
