(* ===== verification/Aes_Correct.thy ===== *)
theory Aes_Correct
  imports Aes
begin

text \<open>
  What the cipher's routines compute: every interleaved routine encrypts block by block, counter
  mode encrypts the counters, and decryption inverts encryption. The bytes of the state are
  treated by columns, and \<open>xtime\<close> is linear.
\<close>

subsection \<open>Interleaved routines\<close>

lemma enc_lanes_map: "enc_lanes k ps = map (ecbEncBlock k) ps"
proof -
  have "foldl (\<lambda>temp r. map (\<lambda>t. mm_aesenc_si128 t (k ! r)) temp) (map f ps) rs =
      map (\<lambda>p. foldl (\<lambda>c r. mm_aesenc_si128 c (k ! r)) (f p) rs) ps" for f rs
    by (induction rs arbitrary: f) (simp_all add: o_def)
  then show ?thesis by (simp add: enc_lanes_def ecbEncBlock_def Let_def)
qed

lemma length_write_at [simp]: "i + length ys \<le> length xs \<Longrightarrow> length (write_at xs i ys) = length xs"
  by (simp add: write_at_def)

lemma write_at_prefix:
  "i + length ys \<le> length xs \<Longrightarrow> take (i + length ys) (write_at xs i ys) = take i xs @ ys"
  by (simp add: write_at_def)

text \<open>The first \<open>n\<close> elements are \<open>f 0, f 1, ..\<close>, the others those of \<open>xs\<close>.\<close>

definition filled :: "nat \<Rightarrow> (nat \<Rightarrow> 'a) \<Rightarrow> 'a list \<Rightarrow> 'a list" where
  "filled n f xs = map f [0..<n] @ drop n xs"

lemma filled_write_at:
  assumes "n + length ys \<le> length xs" and "\<And>i. i < length ys \<Longrightarrow> ys ! i = f (n + i)"
  shows "write_at (filled n f xs) n ys = filled (n + length ys) f xs"
  using assms by (intro nth_equalityI) (auto simp: write_at_def filled_def nth_append)

lemma filled_update:
  "n < length xs \<Longrightarrow> (filled n f xs)[n := f n] = filled (Suc n) f xs"
  by (intro nth_equalityI) (auto simp: filled_def nth_append nth_list_update)

lemma ecbEncBlocks_map:
  assumes "blockLength \<le> length cyphertext"
  shows "ecbEncBlocks k plaintexts blockLength cyphertext =
    filled blockLength (\<lambda>i. ecbEncBlock k (plaintexts ! i)) cyphertext"
proof -
  let ?f = "\<lambda>i. ecbEncBlock k (plaintexts ! i)"
  define q where "q = blockLength div 8"
  have len: "blockLength - blockLength mod 8 = 8 * q" "8 * q div 8 = q" "8 * q \<le> blockLength"
    by (simp_all add: q_def minus_mod_eq_mult_div)
  have a: "foldl (\<lambda>out s. write_at out (8 * s) (enc_lanes k (map (\<lambda>t. plaintexts ! (8 * s + t)) [0..<8])))
      cyphertext [0..<n] = filled (8 * n) ?f cyphertext" if "n \<le> q" for n
    using that
  proof (induction n)
    case 0
    then show ?case by (simp add: filled_def)
  next
    case (Suc n)
    then have "8 * n + 8 \<le> length cyphertext" using len(3) assms by linarith
    with Suc filled_write_at [of "8 * n" "enc_lanes k (map (\<lambda>t. plaintexts ! (8 * n + t)) [0..<8])" cyphertext ?f]
    show ?case by (simp add: enc_lanes_map del: upt_Suc) (simp add: enc_lanes_map add.commute)
  qed
  have b: "foldl (\<lambda>out idx. out[idx := ?f idx]) (filled m ?f cyphertext) [m..<blockLength] =
      filled blockLength ?f cyphertext" if "m \<le> blockLength" for m
    using that
  proof (induction "blockLength - m" arbitrary: m)
    case 0
    then show ?case by simp
  next
    case (Suc d)
    then show ?case using assms filled_update [of m cyphertext ?f] by (simp add: upt_conv_Cons)
  qed
  show ?thesis
    unfolding ecbEncBlocks_def Let_def len(1,2) a [OF order_refl] using b [OF len(3)] .
qed

lemma small_blocks_map:
  assumes "n \<le> length cyphertext"
  shows "write_at cyphertext 0 (enc_lanes k (map (\<lambda>t. plaintexts ! t) [0..<n])) =
    filled n (\<lambda>i. ecbEncBlock k (plaintexts ! i)) cyphertext"
  by (simp add: write_at_def filled_def enc_lanes_map)

lemma ecbEncCounterMode_map:
  assumes "blockLength \<le> length cyphertext"
  shows "ecbEncCounterMode k baseIdx blockLength cyphertext =
    filled blockLength (\<lambda>i. ecbEncBlock k (mm_set1_epi64x (baseIdx + of_nat i))) cyphertext"
proof -
  let ?f = "\<lambda>i. ecbEncBlock k (mm_set1_epi64x (baseIdx + of_nat i))"
  define q where "q = blockLength div 8"
  have len: "blockLength - blockLength mod 8 = 8 * q" "8 * q div 8 = q" "8 * q \<le> blockLength"
    by (simp_all add: q_def minus_mod_eq_mult_div)
  define step8 where "step8 = (\<lambda>(out, b) s. (write_at out (8 * s)
      (enc_lanes k (map (\<lambda>t. mm_set1_epi64x (b + of_nat t)) [0..<8])), b + 8 :: u64))"
  define step1 where "step1 = (\<lambda>(out, b) idx. (out[idx := ecbEncBlock k (mm_set1_epi64x b)], b + 1 :: u64))"
  have a: "foldl step8 (cyphertext, baseIdx) [0..<n] = (filled (8 * n) ?f cyphertext, baseIdx + of_nat (8 * n))"
    if "n \<le> q" for n
    using that
  proof (induction n)
    case 0
    then show ?case by (simp add: filled_def)
  next
    case (Suc n)
    let ?ys = "enc_lanes k (map (\<lambda>t. mm_set1_epi64x (baseIdx + of_nat (8 * n) + of_nat t)) [0..<8])"
    have ys: "length ?ys = 8" "i < 8 \<Longrightarrow> ?ys ! i = ?f (8 * n + i)" for i
      by (simp_all add: enc_lanes_map add.assoc del: upt_Suc)
    have "8 * n + 8 \<le> length cyphertext" using Suc.prems len(3) assms by linarith
    then have "write_at (filled (8 * n) ?f cyphertext) (8 * n) ?ys = filled (8 * n + 8) ?f cyphertext"
      using filled_write_at [of "8 * n" ?ys cyphertext ?f] ys by (simp del: upt_Suc)
    moreover have "foldl step8 (cyphertext, baseIdx) [0..<Suc n] =
        step8 (filled (8 * n) ?f cyphertext, baseIdx + of_nat (8 * n)) n"
      using Suc by (simp only: upt_Suc foldl_append foldl_Cons foldl_Nil le0 if_True)
    ultimately show ?case by (simp add: step8_def add.commute del: upt_Suc)
  qed
  have b: "fst (foldl step1 (filled m ?f cyphertext, baseIdx + of_nat m) [m..<blockLength]) =
      filled blockLength ?f cyphertext" if "m \<le> blockLength" for m
    using that
  proof (induction "blockLength - m" arbitrary: m)
    case 0
    then show ?case by simp
  next
    case (Suc d)
    then have "m < length cyphertext" and m: "m < blockLength" using assms by linarith+
    with filled_update [of m cyphertext ?f] Suc(1) [of "Suc m"] Suc(2,3) show ?case
      by (simp add: upt_conv_Cons step1_def add.assoc add.commute [of 1])
  qed
  show ?thesis
    unfolding ecbEncCounterMode_def Let_def len(1,2) step8_def [symmetric] step1_def [symmetric]
      a [OF order_refl] prod.case using b [OF len(3)] by (simp only: case_prod_beta)
qed

lemma ecbEncNBlocks_map:
  "ecbEncNBlocks ks ps = map (\<lambda>i. ecbEncBlock (ks ! i) (ps ! i)) [0..<length ks]"
proof -
  have "foldl (\<lambda>c r. map (\<lambda>i. mm_aesenc_si128 (c ! i) (ks ! i ! r)) [0..<n]) (map f [0..<n]) rs =
      map (\<lambda>i. foldl (\<lambda>c r. mm_aesenc_si128 c (ks ! i ! r)) (f i) rs) [0..<n]" for f rs n
  proof (induction rs arbitrary: f)
    case (Cons r rs)
    have "map (\<lambda>i. mm_aesenc_si128 (map f [0..<n] ! i) (ks ! i ! r)) [0..<n] =
        map (\<lambda>i. mm_aesenc_si128 (f i) (ks ! i ! r)) [0..<n]"
      by (rule map_cong) simp_all
    then show ?case using Cons [of "\<lambda>i. mm_aesenc_si128 (f i) (ks ! i ! r)"] by (simp only: foldl_Cons)
  qed simp
  then show ?thesis by (simp add: ecbEncNBlocks_def ecbEncBlock_def Let_def)
qed

subsection \<open>Decryption\<close>

lemma sbox_inverse: "list_all (\<lambda>i. inv_sbox ! unat (sbox ! i) = of_nat i) [0..<256]"
  by code_simp

lemma inv_sub_byte_sub_byte [simp]: "inv_sub_byte (sub_byte b) = b"
proof -
  have "unat b < 256" using unsigned_less [of b] by simp
  then show ?thesis using sbox_inverse by (simp add: sub_byte_def inv_sub_byte_def list_all_iff)
qed

lemma shift_rows_inverse:
  assumes "length s = 16"
  shows "inv_shift_rows (shift_rows s) = s"
proof -
  have idx: "list_all (\<lambda>i. ((i + 12 * (i mod 4)) mod 16 + 4 * ((i + 12 * (i mod 4)) mod 16 mod 4)) mod 16 = i) [0..<16]"
    by code_simp
  have "inv_shift_rows (shift_rows s) = map (\<lambda>i. s ! i) [0..<16]"
    unfolding inv_shift_rows_def shift_rows_def
    by (rule map_cong) (use idx in \<open>simp_all add: list_all_iff\<close>)
  then show ?thesis using map_nth [of s] assms by simp
qed

lemma xtime_xor: "xtime (a XOR b) = xtime a XOR xtime b"
  by (rule bit_word_eqI) (auto simp: xtime_def bit_simps)

lemma inv_mix_column_mix_column:
  "inv_mix_column (mix_column a b c d) (mix_column b c d a) (mix_column c d a b) (mix_column d a b c) = a"
  unfolding inv_mix_column_def mix_column_def by (simp add: xtime_xor ac_simps)

lemma nth_columns_by:
  "k < 4 \<Longrightarrow> q < 4 \<Longrightarrow> columns_by f s ! (4 * q + k) =
   f (s ! (4 * q + k)) (s ! (4 * q + (k + 1) mod 4)) (s ! (4 * q + (k + 2) mod 4)) (s ! (4 * q + (k + 3) mod 4))"
  by (simp add: columns_by_def Let_def)

lemma mix_columns_inverse:
  assumes "length s = 16"
  shows "inv_mix_columns (mix_columns s) = s"
proof (rule nth_equalityI)
  show "length (inv_mix_columns (mix_columns s)) = length s"
    by (simp add: inv_mix_columns_def columns_by_def assms)
  fix i assume "i < length (inv_mix_columns (mix_columns s))"
  then have "i < 16" by (simp add: inv_mix_columns_def columns_by_def)
  define q k where "q = i div 4" and "k = i mod 4"
  have i: "i = 4 * q + k" and q: "q < 4" and k: "k < 4"
    using \<open>i < 16\<close> by (simp_all add: q_def k_def less_mult_imp_div_less)
  have four: "k \<in> {0, 1, 2, 3}" using k by auto
  have w: "((k + 1) mod 4 + 1) mod 4 = (k + 2) mod 4" "((k + 1) mod 4 + 2) mod 4 = (k + 3) mod 4"
    "((k + 1) mod 4 + 3) mod 4 = k" "((k + 2) mod 4 + 1) mod 4 = (k + 3) mod 4"
    "((k + 2) mod 4 + 2) mod 4 = k" "((k + 2) mod 4 + 3) mod 4 = (k + 1) mod 4"
    "((k + 3) mod 4 + 1) mod 4 = k" "((k + 3) mod 4 + 2) mod 4 = (k + 1) mod 4"
    "((k + 3) mod 4 + 3) mod 4 = (k + 2) mod 4"
    using four by auto
  show "inv_mix_columns (mix_columns s) ! i = s ! i"
    unfolding inv_mix_columns_def mix_columns_def i
    by (simp only: nth_columns_by k q mod_less_divisor zero_less_numeral w inv_mix_column_mix_column)
qed

lemma length_state [simp]:
  "length (shift_rows s) = 16" "length (inv_shift_rows s) = 16" "length (mix_columns s) = 16"
  "length (inv_mix_columns s) = 16"
  by (simp_all add: shift_rows_def inv_shift_rows_def mix_columns_def inv_mix_columns_def columns_by_def)

lemma inv_shift_rows_map: "length s = 16 \<Longrightarrow> inv_shift_rows (map f s) = map f (inv_shift_rows s)"
  by (simp add: inv_shift_rows_def)

text \<open>The last round without its key.\<close>

definition sub_shift :: "block \<Rightarrow> block" where
  "sub_shift s = bytes_block (map sub_byte (shift_rows (block_bytes s)))"

lemma inv_mix_column_xor:
  "inv_mix_column (a XOR a') (b XOR b') (c XOR c') (d XOR d') = inv_mix_column a b c d XOR inv_mix_column a' b' c' d'"
  by (simp add: inv_mix_column_def xtime_xor ac_simps)

lemma inv_mix_columns_xor:
  assumes "length s = 16" "length t = 16"
  shows "inv_mix_columns (map2 (XOR) s t) = map2 (XOR) (inv_mix_columns s) (inv_mix_columns t)"
proof (rule nth_equalityI)
  fix i assume "i < length (inv_mix_columns (map2 (XOR) s t))"
  then have "i < 16" by simp
  define q k where "q = i div 4" and "k = i mod 4"
  have i: "i = 4 * q + k" and q: "q < 4" and k: "k < 4"
    using \<open>i < 16\<close> by (simp_all add: q_def k_def less_mult_imp_div_less)
  have m: "map2 (XOR) s t ! (4 * q + l) = s ! (4 * q + l) XOR t ! (4 * q + l)" if "l < 4" for l
  proof -
    have "4 * q + l < 16" using q that by linarith
    then show ?thesis using assms by simp
  qed
  have r: "map2 (XOR) (inv_mix_columns s) (inv_mix_columns t) ! i = inv_mix_columns s ! i XOR inv_mix_columns t ! i"
    using \<open>i < 16\<close> by simp
  have l: "(k + 1) mod 4 < 4" "(k + 2) mod 4 < 4" "(k + 3) mod 4 < 4" by simp_all
  show "inv_mix_columns (map2 (XOR) s t) ! i = map2 (XOR) (inv_mix_columns s) (inv_mix_columns t) ! i"
    unfolding r unfolding i inv_mix_columns_def nth_columns_by [OF k q] m [OF k] m [OF l(1)] m [OF l(2)]
      m [OF l(3)] inv_mix_column_xor ..
qed simp

lemma aesimc_xor: "mm_aesimc_si128 (a XOR b) = mm_aesimc_si128 a XOR mm_aesimc_si128 b"
proof -
  have x: "block_bytes (a XOR b) = map2 (XOR) (block_bytes a) (block_bytes b)" for a b
    by (rule nth_equalityI) (simp_all add: nth_block_bytes block_byte_def drop_bit_xor unsigned_xor_eq)
  have "block_bytes (mm_aesimc_si128 (a XOR b)) = block_bytes (mm_aesimc_si128 a XOR mm_aesimc_si128 b)"
    by (simp add: mm_aesimc_si128_def x inv_mix_columns_xor)
  then show ?thesis by (metis bytes_block_block_bytes)
qed

lemma aesdec_round: "mm_aesdec_si128 (sub_shift (mm_aesenc_si128 s k)) (mm_aesimc_si128 k) = sub_shift s"
proof -
  have d: "map inv_sub_byte (inv_shift_rows (map sub_byte (shift_rows t))) = t" if "length t = 16" for t
    using that by (simp add: inv_shift_rows_map shift_rows_inverse o_def)
  have "mm_aesdec_si128 (sub_shift t) k' = mm_aesimc_si128 t XOR k'" for t k'
    by (simp add: mm_aesdec_si128_def sub_shift_def mm_aesimc_si128_def d)
  then have "mm_aesdec_si128 (sub_shift (mm_aesenc_si128 s k)) (mm_aesimc_si128 k) =
      mm_aesimc_si128 (mm_aesenc_si128 s k XOR k)"
    by (simp add: aesimc_xor)
  also have "\<dots> = mm_aesimc_si128 (bytes_block (mix_columns (map sub_byte (shift_rows (block_bytes s)))))"
    by (simp add: mm_aesenc_si128_def xor.assoc)
  also have "\<dots> = sub_shift s"
    by (simp add: mm_aesimc_si128_def mix_columns_inverse sub_shift_def)
  finally show ?thesis .
qed

lemma aesdec_ends:
  "mm_aesenclast_si128 s k XOR k = sub_shift s"
  "mm_aesdeclast_si128 (sub_shift s) k = s XOR k"
  by (simp_all add: mm_aesenclast_si128_def mm_aesdeclast_si128_def sub_shift_def xor.assoc
      inv_shift_rows_map shift_rows_inverse o_def)

lemma upt_1_10: "[1..<10] = [1, 2, 3, 4, 5, 6, 7, 8, 9 :: nat]"
  by code_simp

lemma decrypt_encrypt:
  assumes "d = [v ! 10] @ map (\<lambda>i. mm_aesimc_si128 (v ! (10 - i))) [1..<10] @ [v ! 0]"
  shows "ecbDecBlock d (ecbEncBlock v p) = p"
  unfolding assms upt_1_10
  by (simp add: ecbDecBlock_def ecbEncBlock_def upt_1_10 [unfolded One_nat_def] aesdec_ends aesdec_round xor.assoc)

subsection \<open>Properties\<close>

text \<open>
  C34: each interleaved routine, whatever the number of lanes, encrypts its plaintexts one by one
  with the key, and leaves the rest of the output.
\<close>

theorem interleaved_encryption:
  assumes "blockLength \<le> length plaintexts" and "blockLength \<le> length cyphertext"
    and "16 \<le> length plaintexts" and "16 \<le> length cyphertext"
  shows "ecbEncBlocks k plaintexts blockLength cyphertext =
      map (ecbEncBlock k) (take blockLength plaintexts) @ drop blockLength cyphertext \<and>
    ecbEncTwoBlocks k plaintexts cyphertext = ecbEncBlocks k plaintexts 2 cyphertext \<and>
    ecbEncFourBlocks k plaintexts cyphertext = ecbEncBlocks k plaintexts 4 cyphertext \<and>
    ecbEnc16Blocks k plaintexts cyphertext = ecbEncBlocks k plaintexts 16 cyphertext"
proof -
  have "map (\<lambda>i. ecbEncBlock k (plaintexts ! i)) [0..<blockLength] = map (ecbEncBlock k) (take blockLength plaintexts)"
    using assms(1) by (simp add: list_eq_iff_nth_eq)
  with assms show ?thesis
    by (simp add: ecbEncBlocks_map filled_def ecbEncTwoBlocks_def ecbEncFourBlocks_def ecbEnc16Blocks_def
        small_blocks_map del: upt_Suc)
qed

theorem interleaved_encryption_witness:
  "ecbEncBlocks (setKey 1) (replicate 17 2) 17 (replicate 18 0) =
     replicate 17 (ecbEncBlock (setKey 1) 2) @ [0]"
  using interleaved_encryption [of 17 "replicate 17 2" "replicate 18 0" "setKey 1"]
  by (simp only: length_replicate) (simp add: numeral_eq_Suc)

text \<open>Counter mode encrypts the counters from \<open>baseIdx\<close> on, which wrap around at \<open>2 ^ 64\<close>.\<close>

theorem counter_mode:
  assumes "blockLength \<le> length cyphertext"
  shows "ecbEncCounterMode k baseIdx blockLength cyphertext =
    map (\<lambda>i. ecbEncBlock k (mm_set1_epi64x (baseIdx + of_nat i))) [0..<blockLength] @ drop blockLength cyphertext"
  using ecbEncCounterMode_map [OF assms] by (simp add: filled_def)

theorem counter_mode_witness:
  "ecbEncCounterMode (setKey 5) (- 1) 2 [0, 0, 7] =
    [ecbEncBlock (setKey 5) (- 1), ecbEncBlock (setKey 5) 0, 7]"
proof -
  have "mm_set1_epi64x (- 1) = - 1" by (simp add: mm_set1_epi64x_def) (code_simp)
  moreover have "mm_set1_epi64x 0 = 0" by (simp add: mm_set1_epi64x_def)
  ultimately show ?thesis using counter_mode [of 2 "[0, 0, 7]" "setKey 5" "- 1"] by (simp add: numeral_2_eq_2)
qed

text \<open>C35: \<open>AESDec\<close> with a key inverts \<open>AES\<close> with that key.\<close>

theorem decryption_inverts: "ecbDecBlock (dec_setKey key) (ecbEncBlock (setKey key) plaintext) = plaintext"
  by (rule decrypt_encrypt) (simp only: dec_setKey_def Let_def)

text \<open>Encrypting \<open>N\<close> blocks under \<open>N\<close> keys at once is encrypting each under its own.\<close>

theorem multi_key_encryption:
  "ecbEncNBlocks (multi_setKeys ks) plaintext = map (\<lambda>i. ecbEncBlock (setKey (ks ! i)) (plaintext ! i)) [0..<length ks]"
  unfolding ecbEncNBlocks_map multi_setKeys_def by (intro map_cong) simp_all

end
