(* ===== verification/Prng.thy ===== *)
theory Prng
  imports Aes_Correct
begin

text \<open>
  The pseudo random generator of \<^verbatim>\<open>cryptoTools/Crypto/PRNG.h\<close>, \<^verbatim>\<open>PRNG.cpp\<close>: a buffer of blocks
  of AES in counter mode, refilled when it is used up. What it hands out is one stream that
  neither the buffer size nor the sizes of the requests change.
\<close>

subsection \<open>The class\<close>

record prng =
  mBuffer :: "block list"
  mAes :: "block list"
  mBytesIdx :: nat
  mBlockIdx :: u64
  mBufferByteCapacity :: nat

definition unkeyed_prng :: prng where
  "unkeyed_prng = \<lparr>mBuffer = [], mAes = [], mBytesIdx = 0, mBlockIdx = 0, mBufferByteCapacity = 0\<rparr>"

definition refillBuffer :: "prng \<Rightarrow> prng res" where
  "refillBuffer g =
     (if length (mBuffer g) = 0 then Inl (Runtime_error ''PRNG has not been keyed'')
      else Inr (g\<lparr>mBuffer := ecbEncCounterMode (mAes g) (mBlockIdx g) (length (mBuffer g)) (mBuffer g),
                  mBlockIdx := mBlockIdx g + of_nat (length (mBuffer g)),
                  mBytesIdx := 0\<rparr>))"

definition SetSeed :: "block \<Rightarrow> nat \<Rightarrow> prng \<Rightarrow> prng res" where
  "SetSeed seed bufferSize g =
     (let g = g\<lparr>mAes := setKey seed, mBlockIdx := 0\<rparr>;
          g = (if length (mBuffer g) = 0
               then g\<lparr>mBuffer := vec_resize bufferSize 0 (mBuffer g), mBufferByteCapacity := 16 * bufferSize\<rparr>
               else g)
      in refillBuffer g)"

definition getSeed :: "prng \<Rightarrow> block res" where
  "getSeed g = (if length (mBuffer g) \<noteq> 0 then Inr (mAes g ! 0) else Inl (Runtime_error ''PRNG has not been keyed''))"

text \<open>
  \<open>get\<close> for \<open>lengthu8\<close> bytes. The loop runs for ever on a buffer of no capacity that is not
  empty: \<open>None\<close> is not returning.
\<close>

partial_function (option) prng_get :: "prng \<Rightarrow> nat \<Rightarrow> (u8 list \<times> prng) res option" where
  "prng_get g lengthu8 =
     (if lengthu8 = 0 then Some (Inr ([], g))
      else
        let step = min lengthu8 (mBufferByteCapacity g - mBytesIdx g);
            out = take step (drop (mBytesIdx g) (blocks_bytes (mBuffer g)));
            g = g\<lparr>mBytesIdx := mBytesIdx g + step\<rparr>
        in case (if mBytesIdx g = mBufferByteCapacity g then refillBuffer g else Inr g) of
             Inl e \<Rightarrow> Some (Inl e)
           | Inr g \<Rightarrow>
               Option.bind (prng_get g (lengthu8 - step))
                 (\<lambda>r. Some (res_bind r (\<lambda>(rest, g). Inr (out @ rest, g)))))"

definition getBit :: "prng \<Rightarrow> (bool \<times> prng) res option" where
  "getBit g =
     (case prng_get g 1 of None \<Rightarrow> None
      | Some (Inl e) \<Rightarrow> Some (Inl e)
      | Some (Inr (bs, g)) \<Rightarrow> Some (Inr (bit (hd bs) 0, g)))"

subsection \<open>The stream\<close>

text \<open>Byte \<open>j\<close> of the stream from byte \<open>o\<close> of the block with counter \<open>c\<close> on.\<close>

definition stream_byte :: "block list \<Rightarrow> u64 \<Rightarrow> nat \<Rightarrow> u8" where
  "stream_byte k c j = block_byte (ecbEncBlock k (mm_set1_epi64x (c + of_nat (j div 16)))) (j mod 16)"

text \<open>A keyed generator: its buffer holds the blocks that end at its counter.\<close>

definition prng_ok :: "prng \<Rightarrow> bool" where
  "prng_ok g \<longleftrightarrow> mBuffer g \<noteq> [] \<and> mBufferByteCapacity g = 16 * length (mBuffer g) \<and>
     mBytesIdx g < mBufferByteCapacity g \<and>
     mBuffer g = map (\<lambda>i. ecbEncBlock (mAes g) (mm_set1_epi64x (mBlockIdx g - of_nat (length (mBuffer g)) + of_nat i)))
       [0..<length (mBuffer g)]"

text \<open>The bytes a generator will hand out.\<close>

definition next_byte :: "prng \<Rightarrow> nat \<Rightarrow> u8" where
  "next_byte g j = stream_byte (mAes g) (mBlockIdx g - of_nat (length (mBuffer g))) (mBytesIdx g + j)"

lemma stream_byte_shift: "stream_byte k (c + of_nat n) j = stream_byte k c (16 * n + j)"
  by (simp add: stream_byte_def add.assoc)

lemma refill_ok:
  assumes "mBuffer g \<noteq> []" and "mBufferByteCapacity g = 16 * length (mBuffer g)"
  shows "\<exists>g'. refillBuffer g = Inr g' \<and> prng_ok g' \<and> mAes g' = mAes g \<and> length (mBuffer g') = length (mBuffer g) \<and>
    mBlockIdx g' = mBlockIdx g + of_nat (length (mBuffer g)) \<and> mBytesIdx g' = 0"
proof -
  have "ecbEncCounterMode (mAes g) (mBlockIdx g) (length (mBuffer g)) (mBuffer g) =
      map (\<lambda>i. ecbEncBlock (mAes g) (mm_set1_epi64x (mBlockIdx g + of_nat i))) [0..<length (mBuffer g)]"
    by (simp add: ecbEncCounterMode_map filled_def)
  with assms show ?thesis by (simp add: refillBuffer_def prng_ok_def)
qed

lemma buffer_byte:
  assumes "prng_ok g" "mBytesIdx g + j < mBufferByteCapacity g"
  shows "blocks_bytes (mBuffer g) ! (mBytesIdx g + j) = next_byte g j"
proof -
  define i where "i = mBytesIdx g + j"
  have i: "i < 16 * length (mBuffer g)" using assms by (simp add: prng_ok_def i_def)
  then have "i div 16 < length (mBuffer g)" by (simp add: less_mult_imp_div_less mult.commute)
  moreover have "mBuffer g ! (i div 16) =
      map (\<lambda>i. ecbEncBlock (mAes g) (mm_set1_epi64x (mBlockIdx g - of_nat (length (mBuffer g)) + of_nat i)))
        [0..<length (mBuffer g)] ! (i div 16)"
    using assms(1) unfolding prng_ok_def by metis
  ultimately show ?thesis
    unfolding i_def [symmetric] next_byte_def stream_byte_def using i by (simp add: nth_blocks_bytes)
qed

text \<open>
  One turn of the loop: what it copies are the next bytes, and what is left to come is the rest
  of the stream.
\<close>

lemma get_turn:
  assumes ok: "prng_ok g" and n: "0 < n"
  defines "s \<equiv> min n (mBufferByteCapacity g - mBytesIdx g)"
  defines "g1 \<equiv> g\<lparr>mBytesIdx := mBytesIdx g + s\<rparr>"
  shows "0 < s" and "take s (drop (mBytesIdx g) (blocks_bytes (mBuffer g))) = map (next_byte g) [0..<s]"
    and "\<exists>g2. (if mBytesIdx g1 = mBufferByteCapacity g1 then refillBuffer g1 else Inr g1) = Inr g2 \<and>
      prng_ok g2 \<and> (\<forall>j. next_byte g2 j = next_byte g (s + j))"
proof -
  have len: "length (blocks_bytes (mBuffer g)) = mBufferByteCapacity g" and lt: "mBytesIdx g < mBufferByteCapacity g"
    using ok by (simp_all add: prng_ok_def)
  show "0 < s" using lt n by (simp add: s_def)
  show "take s (drop (mBytesIdx g) (blocks_bytes (mBuffer g))) = map (next_byte g) [0..<s]"
  proof (rule nth_equalityI)
    show "length (take s (drop (mBytesIdx g) (blocks_bytes (mBuffer g)))) = length (map (next_byte g) [0..<s])"
      using len by (simp add: s_def min_def)
    fix i assume "i < length (take s (drop (mBytesIdx g) (blocks_bytes (mBuffer g))))"
    then have "i < s" "mBytesIdx g + i < mBufferByteCapacity g" using len by (simp, simp, linarith)
    then show "take s (drop (mBytesIdx g) (blocks_bytes (mBuffer g))) ! i = map (next_byte g) [0..<s] ! i"
      using buffer_byte [OF ok, of i] len by simp
  qed
  show "\<exists>g2. (if mBytesIdx g1 = mBufferByteCapacity g1 then refillBuffer g1 else Inr g1) = Inr g2 \<and>
      prng_ok g2 \<and> (\<forall>j. next_byte g2 j = next_byte g (s + j))"
  proof (cases "mBytesIdx g1 = mBufferByteCapacity g1")
    case True
    have b: "mBuffer g1 \<noteq> []" "mBufferByteCapacity g1 = 16 * length (mBuffer g1)"
      using ok by (simp_all add: prng_ok_def g1_def)
    from refill_ok [OF b] obtain g2 where g2: "refillBuffer g1 = Inr g2" "prng_ok g2" "mAes g2 = mAes g1"
      "length (mBuffer g2) = length (mBuffer g1)" "mBlockIdx g2 = mBlockIdx g1 + of_nat (length (mBuffer g1))"
      "mBytesIdx g2 = 0" by blast
    have "next_byte g2 j = next_byte g (s + j)" for j
    proof -
      have "next_byte g2 j = stream_byte (mAes g) (mBlockIdx g - of_nat (length (mBuffer g)) + of_nat (length (mBuffer g))) j"
        by (simp add: next_byte_def g2 g1_def)
      also have "\<dots> = stream_byte (mAes g) (mBlockIdx g - of_nat (length (mBuffer g))) (16 * length (mBuffer g) + j)"
        by (rule stream_byte_shift)
      also have "16 * length (mBuffer g) = mBytesIdx g + s" using True b(2) by (simp add: g1_def)
      finally show ?thesis by (simp add: next_byte_def add.assoc)
    qed
    with True g2 show ?thesis by simp
  next
    case False
    then have "prng_ok g1" using ok s_def by (auto simp: prng_ok_def g1_def)
    with False show ?thesis by (simp add: next_byte_def g1_def add.assoc)
  qed
qed

lemma prng_get_stream:
  "prng_ok g \<Longrightarrow> \<exists>g'. prng_get g n = Some (Inr (map (next_byte g) [0..<n], g')) \<and> prng_ok g' \<and>
    (\<forall>j. next_byte g' j = next_byte g (n + j))"
proof (induction n arbitrary: g rule: less_induct)
  case (less n)
  show ?case
  proof (cases "n = 0")
    case True
    then show ?thesis using less.prems by (subst prng_get.simps) simp
  next
    case False
    define s where "s = min n (mBufferByteCapacity g - mBytesIdx g)"
    note turn = get_turn [OF less.prems, of n, folded s_def]
    from False obtain g2 where
      g2: "(if mBytesIdx (g\<lparr>mBytesIdx := mBytesIdx g + s\<rparr>) = mBufferByteCapacity (g\<lparr>mBytesIdx := mBytesIdx g + s\<rparr>)
          then refillBuffer (g\<lparr>mBytesIdx := mBytesIdx g + s\<rparr>) else Inr (g\<lparr>mBytesIdx := mBytesIdx g + s\<rparr>)) = Inr g2"
      and ok2: "prng_ok g2" and nb: "\<And>j. next_byte g2 j = next_byte g (s + j)"
      using turn(3) by blast
    have s: "0 < s" "s \<le> n" using turn(1) False by (simp_all add: s_def)
    then obtain g' where g': "prng_get g2 (n - s) = Some (Inr (map (next_byte g2) [0..<n - s], g'))"
      "prng_ok g'" "\<And>j. next_byte g' j = next_byte g2 (n - s + j)"
      using less.IH [of "n - s" g2] ok2 by auto
    have "map (next_byte g) [0..<s] @ map (next_byte g2) [0..<n - s] = map (next_byte g) [0..<n]"
      using s by (intro nth_equalityI) (auto simp: nth_append nb)
    moreover have "prng_get g n = Some (Inr (map (next_byte g) [0..<s] @ map (next_byte g2) [0..<n - s], g'))"
      using False turn(2) by (subst prng_get.simps) (simp only: Let_def s_def [symmetric] g2, simp add: g'(1))
    ultimately show ?thesis using g'(2,3) nb s by simp
  qed
qed

lemma SetSeed_ok:
  assumes "0 < bufferSize" and "mBuffer g = [] \<or> mBufferByteCapacity g = 16 * length (mBuffer g)"
  shows "\<exists>g'. SetSeed seed bufferSize g = Inr g' \<and> prng_ok g' \<and>
    (\<forall>j. next_byte g' j = stream_byte (setKey seed) 0 j) \<and>
    mAes g' = setKey seed \<and> mBlockIdx g' = of_nat (if mBuffer g = [] then bufferSize else length (mBuffer g))"
proof -
  define g1 where "g1 = (if length (mBuffer (g\<lparr>mAes := setKey seed, mBlockIdx := 0\<rparr>)) = 0
     then g\<lparr>mAes := setKey seed, mBlockIdx := 0, mBuffer := vec_resize bufferSize 0 (mBuffer g), mBufferByteCapacity := 16 * bufferSize\<rparr>
     else g\<lparr>mAes := setKey seed, mBlockIdx := 0\<rparr>)"
  have "length (mBuffer g1) = (if mBuffer g = [] then bufferSize else length (mBuffer g))"
    by (simp add: g1_def)
  moreover have "mBuffer g1 \<noteq> []"
    using assms(1) by (auto simp: g1_def vec_resize_def)
  moreover have "mBufferByteCapacity g1 = 16 * length (mBuffer g1)"
    using assms by (auto simp: g1_def)
  moreover have "SetSeed seed bufferSize g = refillBuffer g1"
    by (simp add: SetSeed_def Let_def g1_def)
  moreover have "mAes g1 = setKey seed" "mBlockIdx g1 = 0" by (simp_all add: g1_def)
  ultimately show ?thesis using refill_ok [of g1] by (auto simp: next_byte_def)
qed

subsection \<open>Properties\<close>

text \<open>
  C14: a generator that was seeded hands out the stream of its seed, AES of the counters 0, 1, ..,
  whatever its buffer size and however the requests cut the stream; every request returns.
\<close>

theorem prng_stream:
  assumes "SetSeed seed bufferSize unkeyed_prng = Inr g" and "0 < bufferSize"
  shows "\<exists>g1 g2. prng_get g m = Some (Inr (map (stream_byte (setKey seed) 0) [0..<m], g1)) \<and>
    prng_get g1 n = Some (Inr (map (stream_byte (setKey seed) 0) [m..<m + n], g2))"
proof -
  have g: "prng_ok g" "next_byte g = stream_byte (setKey seed) 0"
    using SetSeed_ok [OF assms(2), of unkeyed_prng seed] assms(1) by (auto simp: unkeyed_prng_def fun_eq_iff)
  obtain g1 where g1: "prng_get g m = Some (Inr (map (next_byte g) [0..<m], g1))" "prng_ok g1"
    "\<And>j. next_byte g1 j = next_byte g (m + j)"
    using prng_get_stream [OF g(1)] by blast
  obtain g2 where g2: "prng_get g1 n = Some (Inr (map (next_byte g1) [0..<n], g2))"
    using prng_get_stream [OF g1(2)] by blast
  have "map (next_byte g1) [0..<n] = map (next_byte g) [m..<m + n]"
    by (rule nth_equalityI) (simp_all add: g1(3))
  with g1(1) g2 show ?thesis by (simp add: g(2))
qed

theorem prng_stream_witness:
  "\<exists>g g1 g2. SetSeed 7 1 unkeyed_prng = Inr g \<and>
    prng_get g 20 = Some (Inr (map (stream_byte (setKey 7) 0) [0..<20], g1)) \<and>
    prng_get g1 3 = Some (Inr (map (stream_byte (setKey 7) 0) [20..<20 + 3], g2))"
proof -
  obtain g where "SetSeed 7 1 unkeyed_prng = Inr g"
    using SetSeed_ok [of 1 unkeyed_prng 7] by (auto simp: unkeyed_prng_def)
  then show ?thesis using prng_stream [of 7 1 g 20 3] by auto
qed

text \<open>A generator that has no seed gives an error, on its seed and on every request.\<close>

theorem prng_unkeyed_errors:
  assumes "0 < n"
  shows "prng_get unkeyed_prng n = Some (Inl (Runtime_error ''PRNG has not been keyed'')) \<and>
    getSeed unkeyed_prng = Inl (Runtime_error ''PRNG has not been keyed'') \<and>
    refillBuffer unkeyed_prng = Inl (Runtime_error ''PRNG has not been keyed'')"
  using assms by (subst prng_get.simps) (simp add: unkeyed_prng_def refillBuffer_def getSeed_def)

theorem prng_unkeyed_errors_witness:
  "prng_get unkeyed_prng 1 = Some (Inl (Runtime_error ''PRNG has not been keyed''))"
  using prng_unkeyed_errors [of 1] by simp

end
