(* ===== verification/Matrix.thy ===== *)
theory Matrix
  imports Prelude
begin

text \<open>
  The class \<^verbatim>\<open>Matrix<block>\<close> (\<^verbatim>\<open>cryptoTools/Common/Matrix.h\<close>, \<^verbatim>\<open>MatrixView.h\<close>): an array that is
  allocated, the number of its elements that the view spans, and the number of columns.
\<close>

record matrix =
  mStore :: "block list"
  mSize :: nat
  mStride :: nat

definition empty_matrix :: matrix where
  "empty_matrix = \<lparr>mStore = [], mSize = 0, mStride = 0\<rparr>"

text \<open>
  \<open>resize\<close> with zeroed elements. When the allocated array is large enough, the call of
  \<^verbatim>\<open>memset\<close> is given the number of new elements as a number of bytes.
\<close>

definition zero_bytes :: "nat \<Rightarrow> nat \<Rightarrow> block list \<Rightarrow> block list" where
  "zero_bytes at n bs =
     take at bs @ bytes_blocks (length bs - at)
       (replicate n 0 @ drop n (blocks_bytes (drop at bs)))"

definition matrix_resize :: "nat \<Rightarrow> nat \<Rightarrow> matrix \<Rightarrow> matrix" where
  "matrix_resize rows columns M =
     (if length (mStore M) < rows * columns
      then let cap = rows * columns;
               old = take (mSize M) (mStore M)
           in M\<lparr>mStore := take cap old @ replicate (cap - length old) 0, mSize := cap, mStride := columns\<rparr>
      else let newSize = rows * columns;
               M = (if mSize M < newSize
                    then M\<lparr>mStore := zero_bytes (mSize M) (newSize - mSize M) (mStore M)\<rparr>
                    else M)
           in M\<lparr>mSize := newSize, mStride := columns\<rparr>)"

definition matrix_rows :: "matrix \<Rightarrow> nat" where
  "matrix_rows M = (if mStride M \<noteq> 0 then mSize M div mStride M else 0)"

text \<open>Assignment copies into the allocation that is there: assigning an empty matrix frees nothing.\<close>

definition matrix_assign :: "matrix \<Rightarrow> matrix \<Rightarrow> matrix" where
  "matrix_assign copy M =
     (let M = matrix_resize (matrix_rows copy) (mStride copy) M
      in M\<lparr>mStore := take (mSize copy) (mStore copy) @ drop (mSize copy) (mStore M)\<rparr>)"

text \<open>Row \<open>r\<close> of the view, and the elements from \<open>at\<close> on replaced.\<close>

definition matrix_row :: "matrix \<Rightarrow> nat \<Rightarrow> block list" where
  "matrix_row M r = take (mStride M) (drop (r * mStride M) (mStore M))"

definition matrix_set :: "nat \<Rightarrow> block \<Rightarrow> matrix \<Rightarrow> matrix" where
  "matrix_set i v M = M\<lparr>mStore := (mStore M)[i := v]\<rparr>"

subsection \<open>Fresh matrices\<close>

definition matrix_ok :: "matrix \<Rightarrow> bool" where
  "matrix_ok M \<longleftrightarrow> mSize M \<le> length (mStore M) \<and> (\<exists>rows. mSize M = rows * mStride M)"

lemma resize_fresh:
  "matrix_resize rows columns empty_matrix =
     \<lparr>mStore = replicate (rows * columns) 0, mSize = rows * columns, mStride = columns\<rparr>"
  by (cases "rows = 0 \<or> columns = 0") (auto simp: matrix_resize_def empty_matrix_def Let_def)

lemma matrix_set_simps [simp]:
  "mStride (matrix_set i v M) = mStride M" "mSize (matrix_set i v M) = mSize M"
  "length (mStore (matrix_set i v M)) = length (mStore M)"
  "mStore (matrix_set i v M) = (mStore M)[i := v]"
  by (simp_all add: matrix_set_def)

lemma matrix_resize_ok: "matrix_ok M \<Longrightarrow> matrix_ok (matrix_resize rows columns M)"
  by (auto simp: matrix_ok_def matrix_resize_def Let_def zero_bytes_def)

text \<open>A matrix that is emptied and resized has room for its elements.\<close>

lemma matrix_clear_resize:
  fixes rows columns :: nat
  assumes "matrix_ok M"
  defines "M' \<equiv> matrix_resize rows columns (matrix_assign empty_matrix M)"
  shows "matrix_ok M'" and "mStride M' = columns" and "mSize M' = rows * columns"
    and "rows * columns \<le> length (mStore M')"
proof -
  have "matrix_ok (matrix_assign empty_matrix M)"
    using matrix_resize_ok [OF assms(1), of 0 0]
    by (simp add: matrix_assign_def empty_matrix_def matrix_rows_def matrix_ok_def)
  then show "matrix_ok M'" unfolding M'_def by (rule matrix_resize_ok)
  show "mStride M' = columns" "mSize M' = rows * columns" "rows * columns \<le> length (mStore M')"
    using \<open>matrix_ok (matrix_assign empty_matrix M)\<close>
    by (auto simp: M'_def matrix_resize_def Let_def zero_bytes_def matrix_ok_def)
qed

lemma matrix_rows_clear [simp]:
  assumes "matrix_ok M" "0 < columns"
  shows "matrix_rows (matrix_resize rows columns (matrix_assign empty_matrix M)) = rows"
  using matrix_clear_resize(2,3) [OF assms(1)] assms(2) by (simp add: matrix_rows_def)

subsection \<open>Properties\<close>

lemma zero_bytes_bytes:
  assumes "at + n \<le> length bs"
  shows "length (zero_bytes at n bs) = length bs" and "blocks_bytes (zero_bytes at n bs) =
    take (16 * at) (blocks_bytes bs) @ replicate n 0 @ drop (16 * at + n) (blocks_bytes bs)"
proof -
  have cut: "blocks_bytes (take at bs) = take (16 * at) (blocks_bytes bs)"
    "blocks_bytes (drop at bs) = drop (16 * at) (blocks_bytes bs)"
  proof -
    have "blocks_bytes bs = blocks_bytes (take at bs) @ blocks_bytes (drop at bs)"
      by (metis append_take_drop_id blocks_bytes_def concat_append map_append)
    moreover have "length (blocks_bytes (take at bs)) = 16 * at" using assms by simp
    ultimately show "blocks_bytes (take at bs) = take (16 * at) (blocks_bytes bs)"
      "blocks_bytes (drop at bs) = drop (16 * at) (blocks_bytes bs)" by simp_all
  qed
  let ?r = "replicate n (0 :: u8) @ drop n (blocks_bytes (drop at bs))"
  have "length ?r = 16 * (length bs - at)" using assms by simp
  then have "blocks_bytes (bytes_blocks (length bs - at) ?r) = ?r" by (rule blocks_bytes_inverse)
  moreover have "blocks_bytes (xs @ ys) = blocks_bytes xs @ blocks_bytes ys" for xs ys
    by (simp add: blocks_bytes_def)
  ultimately show "blocks_bytes (zero_bytes at n bs) =
      take (16 * at) (blocks_bytes bs) @ replicate n 0 @ drop (16 * at + n) (blocks_bytes bs)"
    by (simp add: zero_bytes_def cut add.commute)
  show "length (zero_bytes at n bs) = length bs" using assms by (simp add: zero_bytes_def)
qed

text \<open>
  C36: resizing always keeps the view within the allocated array and a whole number of rows. A
  matrix that grows past its allocation keeps its elements and gets zeros after them. Within the
  allocation the array stays, and for each new element one byte is cleared and not one block:
  of the memory behind the old elements the first as many bytes as there are new elements.
\<close>

theorem matrix_resize_memory:
  assumes "matrix_ok M" and "M' = matrix_resize rows columns M"
  shows "matrix_ok M' \<and> mSize M' = rows * columns \<and> matrix_rows M' = (if columns = 0 then 0 else rows) \<and>
    (length (mStore M) < rows * columns \<longrightarrow>
      mStore M' = take (mSize M) (mStore M) @ replicate (rows * columns - mSize M) 0) \<and>
    (rows * columns \<le> length (mStore M) \<longrightarrow>
      length (mStore M') = length (mStore M) \<and>
      blocks_bytes (mStore M') = take (16 * mSize M) (blocks_bytes (mStore M)) @
        replicate (rows * columns - mSize M) 0 @
        drop (16 * mSize M + (rows * columns - mSize M)) (blocks_bytes (mStore M)))"
proof (intro conjI impI)
  show "matrix_ok M'" unfolding assms(2) by (rule matrix_resize_ok [OF assms(1)])
  have s: "mSize M' = rows * columns" "mStride M' = columns"
    by (simp_all add: assms(2) matrix_resize_def Let_def)
  then show "mSize M' = rows * columns" "matrix_rows M' = (if columns = 0 then 0 else rows)"
    by (simp_all add: matrix_rows_def)
  have len: "mSize M \<le> length (mStore M)" using assms(1) by (simp add: matrix_ok_def)
  then show "mStore M' = take (mSize M) (mStore M) @ replicate (rows * columns - mSize M) 0"
    if "length (mStore M) < rows * columns"
    using that by (simp add: assms(2) matrix_resize_def Let_def min_def)
  assume le: "rows * columns \<le> length (mStore M)"
  let ?n = "rows * columns - mSize M"
  have "mStore M' = (if mSize M < rows * columns then zero_bytes (mSize M) ?n (mStore M) else mStore M)"
    using le by (simp add: assms(2) matrix_resize_def Let_def)
  moreover have "mSize M + ?n \<le> length (mStore M)" using le len by linarith
  note Z = zero_bytes_bytes [OF this]
  ultimately show "length (mStore M') = length (mStore M)"
    "blocks_bytes (mStore M') = take (16 * mSize M) (blocks_bytes (mStore M)) @
      replicate ?n 0 @ drop (16 * mSize M + ?n) (blocks_bytes (mStore M))"
    using Z by simp_all
qed

text \<open>A fresh matrix, and one that grows again within its allocation by two blocks.\<close>

theorem matrix_resize_memory_witness:
  "mStore (matrix_resize 2 2 empty_matrix) = [0, 0, 0, 0] \<and>
   blocks_bytes (mStore (matrix_resize 3 1 \<lparr>mStore = [1, 2 ^ 24 - 1, 7], mSize = 1, mStride = 1\<rparr>)) =
     block_bytes 1 @ [0, 0, 0xFF] @ replicate 13 0 @ block_bytes 7"
proof
  have "matrix_ok empty_matrix" by (simp add: matrix_ok_def empty_matrix_def)
  from matrix_resize_memory [OF this refl, of 2 2] show "mStore (matrix_resize 2 2 empty_matrix) = [0, 0, 0, 0]"
    by (simp add: empty_matrix_def numeral_eq_Suc)
  let ?M = "\<lparr>mStore = [1, 2 ^ 24 - 1, 7], mSize = 1, mStride = 1\<rparr> :: matrix"
  have "matrix_ok ?M" by (simp add: matrix_ok_def)
  from matrix_resize_memory [OF this refl, of 3 1]
  have "blocks_bytes (mStore (matrix_resize 3 1 ?M)) =
      take 16 (blocks_bytes [1, 2 ^ 24 - 1, 7]) @ replicate 2 0 @ drop 18 (blocks_bytes [1, 2 ^ 24 - 1, 7])"
    by simp
  also have "\<dots> = block_bytes 1 @ [0, 0, 0xFF] @ replicate 13 0 @ block_bytes 7" by code_simp
  finally show "blocks_bytes (mStore (matrix_resize 3 1 ?M)) = block_bytes 1 @ [0, 0, 0xFF] @ replicate 13 0 @ block_bytes 7" .
qed

text \<open>
  Shrinking a matrix and growing it again within its allocation does not zero the elements
  that come back: of two blocks only the two lowest bytes of the first are cleared.
\<close>

theorem matrix_resize_stale:
  "mStore (matrix_resize 3 1 (matrix_resize 1 1
     (matrix_set 1 0xAAAAAA (matrix_set 2 7 (matrix_resize 3 1 empty_matrix))))) = [0, 0xAA0000, 7]"
  by (simp add: resize_fresh) code_simp

end
