(* ===== verification/Message_Channel.thy ===== *)
theory Message_Channel
  imports Prelude
begin

text \<open>
  The message channel between the two parties as its client sees it
  (\<^verbatim>\<open>cryptoTools/Network/Channel.h\<close>, \<^verbatim>\<open>IoBuffer.cpp\<close>): whole messages in order, a header that
  gives the length, and an error when the buffer of the receiver is not of that length. This is
  the specification of the channel that the models of the protocols use; \<open>Channel_Queue\<close> has the operation
  queues, handlers and headers of the code and shows that they refine it, as long as no buffer is
  written before it is sent. Waiting for a message that is not there is \<open>None\<close>, and so is a call that
  \<^verbatim>\<open>Expects\<close> stops.
\<close>

subsection \<open>The interface\<close>

text \<open>A first-in first-out channel: \<open>pending\<close> are the messages in flight, the oldest first.\<close>

locale message_channel =
  fixes send :: "'m \<Rightarrow> 'q \<Rightarrow> 'q option"
    and recv :: "nat \<Rightarrow> 'q \<Rightarrow> (('m \<times> 'q) res) option"
    and pending :: "'q \<Rightarrow> 'm list"
    and size_of :: "'m \<Rightarrow> nat"
    and sendable :: "'m \<Rightarrow> bool"
  assumes send_pending: "sendable m \<Longrightarrow> \<exists>q'. send m q = Some q' \<and> pending q' = pending q @ [m]"
    and recv_pending: "pending q = m # ms \<Longrightarrow> sendable m \<Longrightarrow>
      \<exists>q'. recv (size_of m) q = Some (Inr (m, q')) \<and> pending q' = ms"
    and recv_length: "recv n q = Some (Inr (m, q')) \<Longrightarrow> size_of m = n"

text \<open>A batch of messages is sent, and then received with buffers of given sizes.\<close>

primrec send_all :: "('m \<Rightarrow> 'q \<Rightarrow> 'q option) \<Rightarrow> 'm list \<Rightarrow> 'q \<Rightarrow> 'q option" where
  "send_all send [] q = Some q"
| "send_all send (m # ms) q = Option.bind (send m q) (send_all send ms)"

primrec recv_all :: "(nat \<Rightarrow> 'q \<Rightarrow> (('m \<times> 'q) res) option) \<Rightarrow> nat list \<Rightarrow> 'q \<Rightarrow> (('m list \<times> 'q) res) option" where
  "recv_all recv [] q = Some (Inr ([], q))"
| "recv_all recv (n # ns) q =
     Option.bind (recv n q) (\<lambda>r. case r of Inl e \<Rightarrow> Some (Inl e)
       | Inr (m, q) \<Rightarrow> map_option (\<lambda>r. res_bind r (\<lambda>(ms, q). Inr (m # ms, q))) (recv_all recv ns q))"

context message_channel
begin

lemma send_all_pending:
  "(\<And>m. m \<in> set ms \<Longrightarrow> sendable m) \<Longrightarrow>
   \<exists>q'. send_all send ms q = Some q' \<and> pending q' = pending q @ ms"
proof (induction ms arbitrary: q)
  case (Cons m ms)
  then obtain q1 where "send m q = Some q1" "pending q1 = pending q @ [m]" using send_pending by force
  with Cons.IH [of q1] Cons.prems show ?case by simp
qed simp

lemma recv_all_pending:
  "pending q = ms @ rest \<Longrightarrow> (\<And>m. m \<in> set ms \<Longrightarrow> sendable m) \<Longrightarrow>
   \<exists>q'. recv_all recv (map size_of ms) q = Some (Inr (ms, q')) \<and> pending q' = rest"
proof (induction ms arbitrary: q)
  case (Cons m ms)
  then obtain q1 where "recv (size_of m) q = Some (Inr (m, q1))" "pending q1 = ms @ rest"
    using recv_pending by force
  with Cons.IH [of q1] Cons.prems show ?case by auto
qed simp

text \<open>What is sent on an empty channel arrives, in order.\<close>

lemma delivers:
  assumes "\<And>m. m \<in> set ms \<Longrightarrow> sendable m" and "pending q = []"
  shows "\<exists>q' q''. send_all send ms q = Some q' \<and> recv_all recv (map size_of ms) q' = Some (Inr (ms, q'')) \<and>
    pending q'' = []"
proof -
  obtain q' where q': "send_all send ms q = Some q'" "pending q' = ms @ []"
    using send_all_pending [of ms q] assms by auto
  from recv_all_pending [OF q'(2) assms(1)] q'(1) show ?thesis by auto
qed

end

subsection \<open>The channel as a list of messages\<close>

type_synonym channel = "u8 list list"

text \<open>\<^verbatim>\<open>Expects(size - 1 < u32(-2))\<close>: neither empty nor of more than 32 bits of length.\<close>

definition sendable_size :: "nat \<Rightarrow> bool" where
  "sendable_size n \<longleftrightarrow> unat ((of_nat n :: u64) - 1) < 2 ^ 32 - 2"

definition asyncSend :: "u8 list \<Rightarrow> channel \<Rightarrow> channel option" where
  "asyncSend buff q = (if sendable_size (length buff) then Some (q @ [buff]) else None)"

definition channel_recv :: "nat \<Rightarrow> channel \<Rightarrow> ((u8 list \<times> channel) res) option" where
  "channel_recv n q =
     (if sendable_size n
      then case q of [] \<Rightarrow> None
           | m # q \<Rightarrow> Some (if length m \<noteq> n then Inl (Runtime_error ''Bad receive buffer size'') else Inr (m, q))
      else None)"

text \<open>
  Receiving into a \<open>ReceiveAtMost<block>\<close> of \<open>maxCount\<close> blocks: its \<open>resize\<close> fails when the message is
  not a whole number of blocks or too long.
\<close>

definition channel_recv_atMost :: "nat \<Rightarrow> channel \<Rightarrow> ((u8 list \<times> channel) res) option" where
  "channel_recv_atMost maxCount q =
     (case q of [] \<Rightarrow> None
      | m # q \<Rightarrow> Some (if length m mod 16 \<noteq> 0 \<or> maxCount < length m div 16
                      then Inl (Runtime_error ''Bad receive buffer size'') else Inr (m, q)))"

lemma sendable_size_iff: "n < 2 ^ 64 \<Longrightarrow> sendable_size n \<longleftrightarrow> 0 < n \<and> n < 2 ^ 32 - 1"
proof -
  assume n: "n < 2 ^ 64"
  show ?thesis
  proof (cases n)
    case 0
    have "unat ((of_nat 0 :: u64) - 1) = 18446744073709551615"
      by (simp add: unsigned_minus_1_eq_mask mask_eq_exp_minus_1)
    then show ?thesis using 0 by (simp add: sendable_size_def)
  next
    case (Suc k)
    then have "(of_nat n :: u64) - 1 = of_nat k" by simp
    then show ?thesis using n Suc by (simp add: sendable_size_def unat_of_nat)
  qed
qed

interpretation chan: message_channel asyncSend channel_recv "\<lambda>q. q" length "\<lambda>m. sendable_size (length m)"
  by unfold_locales (auto simp: asyncSend_def channel_recv_def split: list.splits if_splits)

subsection \<open>Properties\<close>

text \<open>
  The messages of a batch arrive complete and in the order they were sent, when the receiver
  asks for their lengths; no message may be empty or of \<open>2 ^ 32 - 1\<close> bytes or more.
\<close>

theorem batch_delivers:
  assumes "\<forall>m \<in> set ms. m \<noteq> [] \<and> length m < 2 ^ 32 - 1"
  shows "\<exists>q. send_all asyncSend ms [] = Some q \<and> recv_all channel_recv (map length ms) q = Some (Inr (ms, []))"
proof -
  have "sendable_size (length m)" if "m \<in> set ms" for m
  proof -
    have "length m < 2 ^ 32 - 1" "m \<noteq> []" using assms that by auto
    then show ?thesis using sendable_size_iff [of "length m"] by auto
  qed
  from chan.delivers [of ms "[]", OF this] show ?thesis by auto
qed

text \<open>A message that is not as long as the buffer of the receiver is an error, never cut or padded.\<close>

theorem channel_bad_size:
  assumes "sendable_size n" and "length m \<noteq> n"
  shows "channel_recv n (m # q) = Some (Inl (Runtime_error ''Bad receive buffer size''))"
  using assms by (simp add: channel_recv_def)

end
