(* ===== verification/Linear_Code.thy ===== *)
theory Linear_Code
  imports Prelude
begin

text \<open>
  The class \<^verbatim>\<open>LinearCode\<close> (\<^verbatim>\<open>libOTe/libOTe/Tools/LinearCode.cpp\<close>, \<^verbatim>\<open>.h\<close>): loading a generator
  matrix, the table of precomputed sub-codes, and the encoders, one per width of the codeword.
  A \<^verbatim>\<open>std::istream\<close> is the bytes that are left and the fail bit. The build defines
  \<^verbatim>\<open>NDEBUG\<close>, so the size checks of the debug build are not there.
\<close>

subsection \<open>State\<close>

record linear_code =
  mU8RowCount :: nat
  mPow2CodeSize :: nat
  mPlaintextU8Size :: nat
  mCodewordBitSize :: nat
  mG :: "block list"
  mG8 :: "block list"

definition sLinearCodePlainTextMaxSize :: nat where
  "sLinearCodePlainTextMaxSize = 64"

text \<open>Sizes are 64-bit integers: the two sums of 127 and of 7 wrap around.\<close>

definition codewordBlkSize :: "linear_code \<Rightarrow> nat" where
  "codewordBlkSize c = (mCodewordBitSize c + 127) mod 2 ^ 64 div 128"

text \<open>
  A number of blocks of zero, which the second sum gives for a codeword size of zero or of
  \<open>2 ^ 64 - 127\<close> and more, makes the division stop the process: \<open>generateMod8Table\<close>, the first to
  divide, has that as a result, and the codes that it returns have a size that is not zero.
\<close>

definition plaintextBitSize :: "linear_code \<Rightarrow> nat" where
  "plaintextBitSize c = length (mG c) div codewordBlkSize c"

definition plaintextBlkSize :: "linear_code \<Rightarrow> nat" where
  "plaintextBlkSize c = (plaintextBitSize c + 127) div 128"

definition codewordU8Size :: "linear_code \<Rightarrow> nat" where
  "codewordU8Size c = (mCodewordBitSize c + 7) mod 2 ^ 64 div 8"

subsection \<open>The table of sub-codes\<close>

text \<open>
  The values of \<^verbatim>\<open>g8Row\<close> for which the body of the inner loops runs, in order: the
  \<^verbatim>\<open>do .. while (g8Row % stride)\<close> and the loop around it, for the stride \<open>2 ^ gRow\<close>.
\<close>

function mod8_do :: "nat \<Rightarrow> nat \<Rightarrow> nat list" where
  "mod8_do gRow g8Row =
     g8Row # (if Suc g8Row mod 2 ^ gRow \<noteq> 0 then mod8_do gRow (Suc g8Row) else [])"
  by auto

termination
  by (relation "measure (\<lambda>(gRow, g8Row). 2 ^ gRow - g8Row mod 2 ^ gRow)")
     (auto simp: mod_Suc split: if_splits intro!: diff_less_mono2 mod_less_divisor)

declare mod8_do.simps [simp del]

function mod8_while :: "nat \<Rightarrow> nat \<Rightarrow> nat list" where
  "mod8_while gRow g8Row =
     (if g8Row < 256
      then let run = mod8_do gRow g8Row
           in run @ mod8_while gRow (g8Row + length run + 2 ^ gRow)
      else [])"
  by auto

termination
  by (relation "measure (\<lambda>(gRow, g8Row). 256 - g8Row)") (auto intro!: diff_less_mono2)

declare mod8_while.simps [simp del]

text \<open>The loop over \<^verbatim>\<open>wordIdx\<close>: \<open>n\<close> blocks of \<open>src\<close> into the table from \<open>base\<close> on.\<close>

definition xor_row :: "nat \<Rightarrow> block list \<Rightarrow> nat \<Rightarrow> block list \<Rightarrow> block list" where
  "xor_row base src n T = foldl (\<lambda>T w. T[base + w := T ! (base + w) XOR src ! w]) T [0..<n]"

definition pow2_code_size :: "nat \<Rightarrow> nat" where
  "pow2_code_size blk = (if blk = 3 then 4 else if blk = 5 \<or> blk = 6 \<or> blk = 7 then 8 else blk)"

definition mod8_block :: "linear_code \<Rightarrow> nat \<Rightarrow> block list \<Rightarrow> nat \<Rightarrow> block list" where
  "mod8_block c i T gRow =
     foldl (\<lambda>T g8Row.
         if i * 8 + gRow < plaintextBitSize c
         then xor_row (i * (mPow2CodeSize c * 256) + g8Row * mPow2CodeSize c)
                (drop ((i * 8 + gRow) * codewordBlkSize c) (mG c)) (codewordBlkSize c) T
         else T)
       T (mod8_while gRow (2 ^ gRow))"

definition generateMod8Table :: "linear_code \<Rightarrow> linear_code res" where
  "generateMod8Table c =
     (let c = c\<lparr>mPlaintextU8Size := (plaintextBitSize c + 7) div 8\<rparr>
      in if codewordBlkSize c = 0 then Inl (Signal ''SIGFPE'')
         else if sLinearCodePlainTextMaxSize < mPlaintextU8Size c
         then Inl (Runtime_error ''plaintext'')
         else
           let singleRowCount = plaintextBitSize c;
               mod8RowCount = (singleRowCount + 7) div 8;
               pipelinedMod8RowCount = roundUpTo mod8RowCount 8;
               c = c\<lparr>mPow2CodeSize := pow2_code_size (codewordBlkSize c)\<rparr>;
               sizePerMod8Row = mPow2CodeSize c * 256;
               yy = pipelinedMod8RowCount * sizePerMod8Row;
               c = c\<lparr>mU8RowCount := (plaintextBitSize c + 7) div 8\<rparr>;
               T = replicate yy 0;
               T = foldl (\<lambda>T i. foldl (mod8_block c i) T [0..<8]) T [0..<pipelinedMod8RowCount]
           in Inr (c\<lparr>mG8 := T\<rparr>))"

subsection \<open>Loading and writing\<close>

record istream =
  stream_bytes :: "u8 list"
  fail_bit :: bool

text \<open>\<^verbatim>\<open>in.read(dest, n)\<close> into the \<open>n\<close> bytes \<open>dest\<close>: a short read keeps what it got.\<close>

definition istream_read :: "u8 list \<Rightarrow> istream \<Rightarrow> u8 list \<times> istream" where
  "istream_read dest s =
     (if fail_bit s then (dest, s)
      else let n = length dest; got = take n (stream_bytes s)
           in (got @ drop (length got) dest,
               \<lparr>stream_bytes = drop n (stream_bytes s), fail_bit = length got < n\<rparr>))"

text \<open>
  \<^verbatim>\<open>max_size()\<close> of a vector of blocks: resizing it beyond throws. Up to there an allocation is taken
  to succeed; \<^verbatim>\<open>std::bad_alloc\<close> is not modelled.
\<close>

definition vector_max_size :: nat where
  "vector_max_size = 2 ^ 59 - 1"

definition loadBinFile :: "istream \<Rightarrow> linear_code \<Rightarrow> linear_code res" where
  "loadBinFile s c =
     (let (b, s) = istream_read (replicate 8 0) s;
          size = unat (bytes_le b :: u64);
          (b, s) = istream_read (word_bytes 8 (of_nat (mCodewordBitSize c) :: u64)) s;
          c = c\<lparr>mCodewordBitSize := unat (bytes_le b :: u64)\<rparr>
      in if mCodewordBitSize c = 0 then Inl (Runtime_error ''bad code'')
         else if vector_max_size < size then Inl (Length_error ''vector::_M_default_append'')
         else let g = vec_resize size 0 (mG c);
                  (b, s) = istream_read (blocks_bytes g) s
              in generateMod8Table (c\<lparr>mG := bytes_blocks size b\<rparr>))"

definition load :: "u8 list \<Rightarrow> linear_code \<Rightarrow> linear_code res" where
  "load data c = loadBinFile \<lparr>stream_bytes = data, fail_bit = False\<rparr> c"

definition writeBinFile :: "linear_code \<Rightarrow> u8 list" where
  "writeBinFile c =
     word_bytes 8 (of_nat (length (mG c)) :: u64) @
     word_bytes 8 (of_nat (mCodewordBitSize c) :: u64) @ blocks_bytes (mG c)"

text \<open>\<open>random\<close>: the blocks come from the generator.\<close>

definition random_code :: "(nat \<Rightarrow> block list) \<Rightarrow> nat \<Rightarrow> nat \<Rightarrow> linear_code \<Rightarrow> linear_code res" where
  "random_code prng_get inputSize outputSize c =
     (let c = c\<lparr>mCodewordBitSize := outputSize\<rparr>;
          size = inputSize * codewordBlkSize c mod 2 ^ 64
      in if vector_max_size < size then Inl (Length_error ''vector::_M_default_append'')
         else generateMod8Table (c\<lparr>mG := prng_get size\<rparr>))"

subsection \<open>Encoding\<close>

text \<open>
  The local array \<^verbatim>\<open>_byteView\<close> has 64 bytes, of which the plaintext sets the first; \<open>junk\<close> is
  what the others hold.
\<close>

definition byte_view :: "linear_code \<Rightarrow> u8 list \<Rightarrow> u8 list \<Rightarrow> u8 list" where
  "byte_view c junk input = take (mPlaintextU8Size c) input @ drop (mPlaintextU8Size c) junk"

text \<open>Case 1: eight sub-codes at a time, and the eight partial sums folded.\<close>

definition encode_1 :: "linear_code \<Rightarrow> u8 list \<Rightarrow> block list" where
  "encode_1 c byteView =
     (let codeSize = mPow2CodeSize c;
          rowSize = 256 * codeSize;
          kStep = rowSize * 8;
          w = foldl (\<lambda>w s. map (\<lambda>t. w ! t XOR
                  mG8 c ! (rowSize * t + s * kStep + unat (byteView ! (8 * s + t)) * codeSize)) [0..<8])
                (replicate 8 0) [0..<(mPlaintextU8Size c + 7) div 8];
          w = w[0 := w ! 0 XOR w ! 4, 1 := w ! 1 XOR w ! 5, 2 := w ! 2 XOR w ! 6, 3 := w ! 3 XOR w ! 7];
          w = w[0 := w ! 0 XOR w ! 2, 1 := w ! 1 XOR w ! 3]
      in w[0 := w ! 0 XOR w ! 1])"

text \<open>Case 2: four sub-codes of two blocks at a time.\<close>

definition encode_2 :: "linear_code \<Rightarrow> u8 list \<Rightarrow> block list" where
  "encode_2 c byteView =
     (let codeSize = mPow2CodeSize c;
          rowSize = 256 * codeSize;
          kStop = (length (mG8 c) div 8) * 8;
          kStep = rowSize * 4;
          w = foldl (\<lambda>w s. map (\<lambda>t. w ! t XOR
                  mG8 c ! (s * kStep + unat (byteView ! (4 * s + t div 2)) * codeSize + rowSize * (t div 2) + t mod 2))
                [0..<8]) (replicate 8 0) [0..<(kStop + kStep - 1) div kStep];
          w = w[0 := w ! 0 XOR w ! 4, 1 := w ! 1 XOR w ! 5, 2 := w ! 2 XOR w ! 6, 3 := w ! 3 XOR w ! 7]
      in w[0 := w ! 0 XOR w ! 2, 1 := w ! 1 XOR w ! 3])"

text \<open>Cases 3 and 4: two sub-codes of four blocks at a time.\<close>

definition encode_4 :: "linear_code \<Rightarrow> u8 list \<Rightarrow> block list" where
  "encode_4 c byteView =
     (let rowSize = 256 * mPow2CodeSize c;
          kStop = (length (mG8 c) div 8) * 8;
          kStep = rowSize * 2;
          w = foldl (\<lambda>w s. map (\<lambda>t. w ! t XOR
                  mG8 c ! (rowSize * (t div 4) + s * kStep + unat (byteView ! (2 * s + t div 4)) * 4 + t mod 4))
                [0..<8]) (replicate 8 0) [0..<(kStop + kStep - 1) div kStep]
      in w[0 := w ! 0 XOR w ! 4, 1 := w ! 1 XOR w ! 5, 2 := w ! 2 XOR w ! 6, 3 := w ! 3 XOR w ! 7])"

text \<open>Cases 5 to 8: one sub-code of eight blocks at a time.\<close>

definition encode_8 :: "linear_code \<Rightarrow> u8 list \<Rightarrow> block list" where
  "encode_8 c byteView =
     (let codeSize = mPow2CodeSize c;
          rowSize = 256 * codeSize;
          kStop = (length (mG8 c) div 8) * 8;
          kStep = rowSize * 1
      in foldl (\<lambda>w s. map (\<lambda>t. w ! t XOR
                  mG8 c ! (s * kStep + unat (byteView ! s) * codeSize + t)) [0..<8])
           (replicate 8 0) [0..<(kStop + kStep - 1) div kStep])"

text \<open>The general case: block \<open>j\<close> of the codeword, eight sub-codes at a time.\<close>

definition encode_block :: "linear_code \<Rightarrow> u8 list \<Rightarrow> nat \<Rightarrow> block list" where
  "encode_block c byteView j =
     (let codeSize = mPow2CodeSize c;
          rowSize = 256 * codeSize;
          rowSize8 = rowSize * 8;
          superRowCount = (mU8RowCount c + 7) div 8;
          w = foldl (\<lambda>w s. map (\<lambda>t. w ! t XOR
                  mG8 c ! (rowSize * t + j + s * rowSize8 + unat (byteView ! (8 * s + t)) * codeSize)) [0..<8])
                (replicate 8 0) [0..<superRowCount];
          w = w[0 := w ! 0 XOR w ! 1, 2 := w ! 2 XOR w ! 3, 4 := w ! 4 XOR w ! 5, 6 := w ! 6 XOR w ! 7];
          w = w[0 := w ! 0 XOR w ! 2, 4 := w ! 4 XOR w ! 6]
      in w[0 := w ! 0 XOR w ! 4])"

definition copy_at :: "u8 list \<Rightarrow> nat \<Rightarrow> u8 list \<Rightarrow> nat \<Rightarrow> u8 list" where
  "copy_at dst off src n = take off dst @ memcpy (drop off dst) src n"

definition encode_general :: "linear_code \<Rightarrow> u8 list \<Rightarrow> u8 list \<Rightarrow> u8 list" where
  "encode_general c byteView codeword =
     foldl (\<lambda>codeword j. copy_at codeword (16 * j) (blocks_bytes (encode_block c byteView j))
         (min 16 (codewordU8Size c - j * 16)))
       codeword [0..<mPow2CodeSize c]"

definition encode :: "linear_code \<Rightarrow> u8 list \<Rightarrow> u8 list \<Rightarrow> u8 list \<Rightarrow> u8 list" where
  "encode c junk input codeword =
     (let byteView = byte_view c junk input;
          codeSize = mPow2CodeSize c;
          out = (\<lambda>w. memcpy codeword (blocks_bytes w) (codewordU8Size c))
      in if codeSize = 1 then out (encode_1 c byteView)
         else if codeSize = 2 then out (encode_2 c byteView)
         else if codeSize = 3 \<or> codeSize = 4 then out (encode_4 c byteView)
         else if codeSize = 5 \<or> codeSize = 6 \<or> codeSize = 7 \<or> codeSize = 8 then out (encode_8 c byteView)
         else encode_general c byteView codeword)"

text \<open>
  \<open>encode_bch511\<close>: ten sub-codes of four blocks, unrolled. \<^verbatim>\<open>Expects\<close> stops the program when
  its condition fails: \<open>None\<close>.
\<close>

definition encode_bch511 :: "linear_code \<Rightarrow> u8 list \<Rightarrow> u8 list \<Rightarrow> u8 list option" where
  "encode_bch511 c input codeword =
     (if mPlaintextU8Size c = 10 \<and> mPow2CodeSize c = 4
      then let rowSize = 256 * 4;
               g = (\<lambda>i w. mG8 c ! (i * rowSize + unat (input ! i) * 4 + w));
               w = replicate 8 0;
               w = foldl (\<lambda>w p. map (\<lambda>t. w ! t XOR g (2 * p + t div 4) (t mod 4)) [0..<8]) w [0..<5];
               w = w[0 := w ! 0 XOR w ! 4, 1 := w ! 1 XOR w ! 5, 2 := w ! 2 XOR w ! 6, 3 := w ! 3 XOR w ! 7]
           in Some (memcpy codeword (blocks_bytes w) (codewordU8Size c))
      else None)"

end
