(* ===== verification/Linear_Code_Correct.thy ===== *)
theory Linear_Code_Correct
  imports Linear_Code
begin

text \<open>
  Correctness of \<^verbatim>\<open>LinearCode\<close>: the table holds the exclusive-or of the generator rows picked by
  the bits of a byte, every encoder computes the product of the plaintext with the generator
  matrix whatever the unset bytes of its local buffer hold, encoding is linear, and a written
  code is loaded back.
\<close>

subsection \<open>What the table holds\<close>

text \<open>The loops visit the row numbers whose bit \<open>gRow\<close> is set.\<close>

lemma div_block: "a * s \<le> v \<Longrightarrow> v < (a + 1) * s \<Longrightarrow> v div s = (a::nat)"
  by (intro div_nat_eqI) (simp_all add: algebra_simps)

lemma upt_split: "i \<le> j \<Longrightarrow> j \<le> k \<Longrightarrow> [i..<k] = [i..<j] @ [j..<k]"
  using upt_add_eq_append [of i j "k - j"] by simp

lemma mod8_do_eq: "a * 2 ^ gRow \<le> g \<Longrightarrow> g < (a + 1) * 2 ^ gRow \<Longrightarrow> mod8_do gRow g = [g..<(a + 1) * 2 ^ gRow]"
proof (induction gRow g rule: mod8_do.induct)
  case (1 gRow g)
  let ?s = "2 ^ gRow :: nat"
  show ?case
  proof (cases "Suc g = (a + 1) * ?s")
    case True
    then have "[g..<(a + 1) * ?s] = [g]" by (metis upt_rec lessI less_irrefl upt_conv_Nil order_refl)
    with True show ?thesis by (simp add: mod8_do.simps [of gRow g])
  next
    case False
    with 1 have l: "a * ?s \<le> Suc g" "Suc g < (a + 1) * ?s" by simp_all
    have "Suc g mod ?s \<noteq> 0"
    proof
      assume "Suc g mod ?s = 0"
      then have "Suc g = Suc g div ?s * ?s" by (metis dvd_div_mult_self dvd_eq_mod_eq_0)
      also have "Suc g div ?s = a" by (rule div_block [OF l])
      finally show False using 1 by simp
    qed
    with 1 l have "mod8_do gRow g = g # [Suc g..<(a + 1) * ?s]"
      by (simp add: mod8_do.simps [of gRow g])
    then show ?thesis using 1 by (simp only: upt_conv_Cons)
  qed
qed

lemma mod8_while_eq:
  "g = (2 * k + 1) * 2 ^ gRow \<Longrightarrow> gRow < 8 \<Longrightarrow>
   mod8_while gRow g = filter (\<lambda>v. bit v gRow) [2 * k * 2 ^ gRow..<256]"
proof (induction gRow g arbitrary: k rule: mod8_while.induct)
  case (1 gRow g)
  define s where "s = (2 ^ gRow :: nat)"
  define M where "M = (2 ^ (7 - gRow) :: nat)"
  have e: "256 = 2 * M * s" and s: "0 < s"
    using 1(3) by (simp_all add: s_def M_def flip: power_Suc power_add)
  have g: "g = (2 * k + 1) * s" using 1(2) by (simp add: s_def)
  have run: "mod8_do gRow g = [(2 * k + 1) * s..<(2 * k + 1 + 1) * s]"
    using mod8_do_eq [of "2 * k + 1" gRow g] s by (simp add: g s_def)
  show ?case
  proof (cases "g < 256")
    case False
    then have "2 * M \<le> 2 * k + 1" using s e g by (metis mult_le_cancel2 not_le)
    then have "M \<le> k" by linarith
    then have "256 \<le> 2 * k * s" unfolding e by (intro mult_le_mono) simp_all
    with False show ?thesis by (simp add: mod8_while.simps [of gRow g] s_def)
  next
    case True
    then have "2 * k + 1 < 2 * M" using e g by (metis mult_less_cancel2)
    then have "2 * k + 1 + 1 \<le> 2 * M" by linarith
    then have le: "(2 * k + 1 + 1) * s \<le> 256" unfolding e by (rule mult_le_mono1)
    have "[2 * k * s..<256] = [2 * k * s..<(2 * k + 1) * s] @ [(2 * k + 1) * s..<(2 * k + 1 + 1) * s] @
        [(2 * k + 1 + 1) * s..<256]"
      using le upt_split [of "2 * k * s" "(2 * k + 1) * s" 256]
        upt_split [of "(2 * k + 1) * s" "(2 * k + 1 + 1) * s" 256] by simp
    moreover have "filter (\<lambda>v. bit v gRow) [2 * k * s..<(2 * k + 1) * s] = []"
      using div_block [of "2 * k" s] by (intro filter_False) (auto simp: bit_iff_odd s_def)
    moreover have "filter (\<lambda>v. bit v gRow) [(2 * k + 1) * s..<(2 * k + 1 + 1) * s] =
        [(2 * k + 1) * s..<(2 * k + 1 + 1) * s]"
      using div_block [of "2 * k + 1" s] by (intro filter_True) (auto simp: bit_iff_odd s_def)
    moreover have "mod8_while gRow (g + length (mod8_do gRow g) + 2 ^ gRow) =
        filter (\<lambda>v. bit v gRow) [(2 * k + 1 + 1) * s..<256]"
      using 1(1) [OF True refl, of "k + 1"] 1(3) run by (simp add: g s_def algebra_simps)
    ultimately show ?thesis
      using True run by (simp add: mod8_while.simps [of gRow g] Let_def s_def)
  qed
qed

lemma mod8_visits: "gRow < 8 \<Longrightarrow> mod8_while gRow (2 ^ gRow) = filter (\<lambda>v. bit v gRow) [0..<256]"
  using mod8_while_eq [of "2 ^ gRow" 0 gRow] by simp

lemma length_xor_row [simp]: "length (xor_row base src n T) = length T"
  by (induction n) (simp_all add: xor_row_def)

lemma nth_xor_row:
  "j < length T \<Longrightarrow> base + n \<le> length T \<Longrightarrow>
   xor_row base src n T ! j = (if base \<le> j \<and> j < base + n then T ! j XOR src ! (j - base) else T ! j)"
proof (induction n arbitrary: j)
  case 0
  then show ?case by (auto simp: xor_row_def)
next
  case (Suc n)
  have s: "xor_row base src (Suc n) T =
      (xor_row base src n T)[base + n := xor_row base src n T ! (base + n) XOR src ! n]"
    by (simp add: xor_row_def)
  have "xor_row base src n T ! (base + n) = T ! (base + n)"
    using Suc.prems Suc.IH [of "base + n"] by simp
  with Suc show ?case unfolding s by (auto simp: nth_list_update less_Suc_eq)
qed

text \<open>Entry \<open>w\<close> of the sub-code of the byte value \<open>v\<close> at plaintext byte \<open>b\<close>.\<close>

definition tab_index :: "nat \<Rightarrow> nat \<Rightarrow> nat \<Rightarrow> nat \<Rightarrow> nat" where
  "tab_index p2 b v w = b * (p2 * 256) + v * p2 + w"

lemma tab_index_less:
  assumes "b < P" and "v < 256" and "w < p2"
  shows "tab_index p2 b v w < P * (p2 * 256)"
proof -
  have "v * p2 + w < 256 * p2"
    using assms by (metis add.commute add_mult_distrib mult.left_neutral Suc_le_eq le_less_trans
        mult_le_mono1 nat_add_left_cancel_less order_less_le_trans plus_1_eq_Suc)
  then have "tab_index p2 b v w < b * (p2 * 256) + p2 * 256"
    by (simp add: tab_index_def mult.commute)
  also have "\<dots> = (b + 1) * (p2 * 256)" by (simp add: algebra_simps)
  also have "\<dots> \<le> P * (p2 * 256)" using assms(1) by (intro mult_le_mono1) simp
  finally show ?thesis .
qed

lemma tab_index_range:
  assumes "v < 256" and "v' < 256" and "w < p2" and "blk \<le> p2"
  shows "i * (p2 * 256) + v * p2 \<le> tab_index p2 b v' w \<and>
      tab_index p2 b v' w < i * (p2 * 256) + v * p2 + blk \<longleftrightarrow> i = b \<and> v = v' \<and> w < blk"
    (is "?l \<longleftrightarrow> _")
proof
  assume l: ?l
  have e: "tab_index p2 b v' w = (b * 256 + v') * p2 + w" "i * (p2 * 256) + v * p2 = (i * 256 + v) * p2"
    by (simp_all add: tab_index_def algebra_simps)
  have "tab_index p2 b v' w div p2 = b * 256 + v'"
    unfolding e by (rule div_block) (use assms in simp_all)
  moreover have "tab_index p2 b v' w div p2 = i * 256 + v"
    by (rule div_block) (use l assms e in \<open>simp_all add: algebra_simps\<close>)
  ultimately have q: "b * 256 + v' = i * 256 + v" by simp
  then have i: "i = b"
    using arg_cong [OF q, of "\<lambda>x. x div 256"] assms(1,2) by simp
  with q have v: "v = v'" by simp
  have "tab_index p2 b v' w = i * (p2 * 256) + v * p2 + w" by (simp add: tab_index_def i v)
  with l have "w < blk" by linarith
  with i v show "i = b \<and> v = v' \<and> w < blk" by blast
qed (use assms in \<open>auto simp: tab_index_def\<close>)

lemma xor_rows_nth:
  assumes "distinct vs" and "set vs \<subseteq> {..<256}" and "v' < 256" and "w < p2" and "blk \<le> p2"
    and "b < P" and "i < P" and "length T = P * (p2 * 256)"
  shows "foldl (\<lambda>T v. xor_row (i * (p2 * 256) + v * p2) src blk T) T vs ! tab_index p2 b v' w =
    T ! tab_index p2 b v' w XOR (if i = b \<and> v' \<in> set vs \<and> w < blk then src ! w else 0)"
  using assms(1,2,8)
proof (induction vs arbitrary: T)
  case (Cons v vs)
  let ?j = "tab_index p2 b v' w" and ?base = "i * (p2 * 256) + v * p2"
  have v: "v < 256" using Cons.prems by simp
  have j: "?j < length T" using tab_index_less [OF assms(6,3,4)] Cons.prems(3) by simp
  have room: "?base + blk \<le> length T"
    using tab_index_less [OF assms(7) v, of "p2 - 1" p2] assms(4,5) Cons.prems(3)
    by (simp add: tab_index_def)
  have step: "xor_row ?base src blk T ! ?j = T ! ?j XOR (if i = b \<and> v = v' \<and> w < blk then src ! w else 0)"
  proof (cases "i = b \<and> v = v' \<and> w < blk")
    case True
    then show ?thesis using j room by (simp add: nth_xor_row tab_index_def)
  next
    case False
    with tab_index_range [OF v assms(3,4,5), of i b] show ?thesis
      by (simp only: nth_xor_row [OF j room] if_False xor.right_neutral)
  qed
  show ?case
    using Cons.IH [of "xor_row ?base src blk T"] Cons.prems step by (auto simp: ac_simps)
qed simp

lemma length_foldl_xor_row [simp]:
  "length (foldl (\<lambda>T v. xor_row (f v) src n T) T vs) = length T"
  by (induction vs arbitrary: T) simp_all

lemma foldl_ignore: "foldl (\<lambda>a x. a) a xs = a"
  by (induction xs) simp_all

lemma mod8_block_nth:
  assumes "v' < 256" and "w < mPow2CodeSize c" and "codewordBlkSize c \<le> mPow2CodeSize c"
    and "b < P" and "i < P" and "length T = P * (mPow2CodeSize c * 256)" and "gRow < 8"
  shows "mod8_block c i T gRow ! tab_index (mPow2CodeSize c) b v' w =
    T ! tab_index (mPow2CodeSize c) b v' w XOR
    (if i = b \<and> bit v' gRow \<and> w < codewordBlkSize c \<and> b * 8 + gRow < plaintextBitSize c
     then mG c ! ((b * 8 + gRow) * codewordBlkSize c + w) else 0)"
    and "length (mod8_block c i T gRow) = length T"
proof -
  let ?vs = "filter (\<lambda>v. bit v gRow) [0..<256]" and ?blk = "codewordBlkSize c"
  have src: "drop ((i * 8 + gRow) * ?blk) (mG c) ! w = mG c ! ((i * 8 + gRow) * ?blk + w)"
    if "i * 8 + gRow < plaintextBitSize c" "w < ?blk"
  proof -
    have "(i * 8 + gRow + 1) * ?blk \<le> plaintextBitSize c * ?blk" using that(1) by (intro mult_le_mono1) simp
    also have "\<dots> \<le> length (mG c)" by (simp add: plaintextBitSize_def)
    finally show ?thesis by (intro nth_drop) (use that(2) in \<open>simp add: algebra_simps\<close>)
  qed
  show "length (mod8_block c i T gRow) = length T"
    by (cases "i * 8 + gRow < plaintextBitSize c") (simp_all add: mod8_block_def foldl_ignore)
  show "mod8_block c i T gRow ! tab_index (mPow2CodeSize c) b v' w =
    T ! tab_index (mPow2CodeSize c) b v' w XOR
    (if i = b \<and> bit v' gRow \<and> w < codewordBlkSize c \<and> b * 8 + gRow < plaintextBitSize c
     then mG c ! ((b * 8 + gRow) * codewordBlkSize c + w) else 0)"
  proof (cases "i * 8 + gRow < plaintextBitSize c")
    case True
    have "mod8_block c i T gRow = foldl (\<lambda>T v. xor_row (i * (mPow2CodeSize c * 256) + v * mPow2CodeSize c)
        (drop ((i * 8 + gRow) * ?blk) (mG c)) ?blk T) T ?vs"
      using True by (simp add: mod8_block_def mod8_visits [OF assms(7)])
    moreover have "distinct ?vs" "set ?vs \<subseteq> {..<256}" by auto
    moreover have "v' \<in> set ?vs \<longleftrightarrow> bit v' gRow" using assms(1) by simp
    ultimately have "mod8_block c i T gRow ! tab_index (mPow2CodeSize c) b v' w =
        T ! tab_index (mPow2CodeSize c) b v' w XOR (if i = b \<and> bit v' gRow \<and> w < ?blk
          then drop ((i * 8 + gRow) * ?blk) (mG c) ! w else 0)"
      using xor_rows_nth [OF _ _ assms(1,2,3,4,5,6)] by simp
    also have "(if i = b \<and> bit v' gRow \<and> w < ?blk then drop ((i * 8 + gRow) * ?blk) (mG c) ! w else 0) =
        (if i = b \<and> bit v' gRow \<and> w < ?blk \<and> b * 8 + gRow < plaintextBitSize c
         then mG c ! ((b * 8 + gRow) * ?blk + w) else 0)"
      using src True by auto
    finally show ?thesis .
  next
    case False
    then have "mod8_block c i T gRow = T"
      by (simp add: mod8_block_def foldl_ignore)
    with False show ?thesis by auto
  qed
qed

lemma tab_index_inject:
  assumes "v < 256" and "v' < 256" and "w < p2" and "w' < p2" and "tab_index p2 b v w = tab_index p2 b' v' w'"
  shows "b = b' \<and> v = v' \<and> w = w'"
  using tab_index_range [of v v' w' p2 p2 b b'] assms by (auto simp: tab_index_def)

definition subcode :: "linear_code \<Rightarrow> nat \<Rightarrow> nat \<Rightarrow> nat \<Rightarrow> block" where
  "subcode c b v w =
     (if w < codewordBlkSize c
      then xsum (\<lambda>g. if bit v g \<and> b * 8 + g < plaintextBitSize c
                     then mG c ! ((b * 8 + g) * codewordBlkSize c + w) else 0) [0..<8]
      else 0)"

lemma length_mod8_block [simp]: "length (mod8_block c i T gRow) = length T"
  by (cases "i * 8 + gRow < plaintextBitSize c") (simp_all add: mod8_block_def foldl_ignore)

lemma length_foldl_same: "(\<And>T x. length (f T x) = length T) \<Longrightarrow> length (foldl f T xs) = length T"
  by (induction xs arbitrary: T) simp_all

lemma mod8_blocks_nth:
  assumes "v < 256" and "w < mPow2CodeSize c" and "codewordBlkSize c \<le> mPow2CodeSize c"
    and "b < P" and "i < P" and "n \<le> 8" and "length T = P * (mPow2CodeSize c * 256)"
  shows "foldl (mod8_block c i) T [0..<n] ! tab_index (mPow2CodeSize c) b v w =
    T ! tab_index (mPow2CodeSize c) b v w XOR
    (if i = b \<and> w < codewordBlkSize c
     then xsum (\<lambda>g. if bit v g \<and> b * 8 + g < plaintextBitSize c
                    then mG c ! ((b * 8 + g) * codewordBlkSize c + w) else 0) [0..<n] else 0)"
  using assms(6)
proof (induction n)
  case (Suc n)
  let ?T = "foldl (mod8_block c i) T [0..<n]"
  have l: "length ?T = P * (mPow2CodeSize c * 256)" by (simp add: length_foldl_same assms(7))
  note step = mod8_block_nth(1) [OF assms(1-5) l, of n]
  from Suc step show ?case by (auto simp: ac_simps)
qed simp

definition mod8_rows :: "linear_code \<Rightarrow> block list \<Rightarrow> nat \<Rightarrow> block list" where
  "mod8_rows c T i = foldl (mod8_block c i) T [0..<8]"

lemma length_mod8_rows [simp]: "length (mod8_rows c T i) = length T"
  by (simp add: mod8_rows_def length_foldl_same)

lemma mod8_table_nth:
  assumes "v < 256" and "w < mPow2CodeSize c" and "codewordBlkSize c \<le> mPow2CodeSize c"
    and "b < P" and "n \<le> P" and "length T = P * (mPow2CodeSize c * 256)"
  shows "foldl (mod8_rows c) T [0..<n] ! tab_index (mPow2CodeSize c) b v w =
    T ! tab_index (mPow2CodeSize c) b v w XOR (if b < n then subcode c b v w else 0)"
  using assms(5)
proof (induction n)
  case (Suc n)
  let ?T = "foldl (mod8_rows c) T [0..<n]"
  have l: "length ?T = P * (mPow2CodeSize c * 256)" by (simp add: length_foldl_same assms(6))
  have "mod8_rows c ?T n ! tab_index (mPow2CodeSize c) b v w =
      ?T ! tab_index (mPow2CodeSize c) b v w XOR (if n = b then subcode c b v w else 0)"
    using mod8_blocks_nth [OF assms(1-4) _ order_refl l, of n] Suc.prems
    unfolding mod8_rows_def [symmetric] by (simp only: subcode_def) auto
  with Suc show ?case by (auto simp: less_Suc_eq)
qed simp

text \<open>A code whose table is there.\<close>

definition code_ok :: "linear_code \<Rightarrow> bool" where
  "code_ok c \<longleftrightarrow>
     0 < mCodewordBitSize c \<and> mCodewordBitSize c + 127 < 2 ^ 64 \<and>
     mPow2CodeSize c = pow2_code_size (codewordBlkSize c) \<and>
     mPlaintextU8Size c = (plaintextBitSize c + 7) div 8 \<and> mU8RowCount c = mPlaintextU8Size c \<and>
     mPlaintextU8Size c \<le> 64 \<and>
     length (mG8 c) = roundUpTo (mPlaintextU8Size c) 8 * (mPow2CodeSize c * 256) \<and>
     (\<forall>b < roundUpTo (mPlaintextU8Size c) 8. \<forall>v < 256. \<forall>w < mPow2CodeSize c.
        mG8 c ! tab_index (mPow2CodeSize c) b v w = subcode c b v w)"

lemma pow2_code_size_ge: "blk \<le> pow2_code_size blk"
  by (simp add: pow2_code_size_def)

lemma sizes_update [simp]:
  "codewordBlkSize (c\<lparr>mPlaintextU8Size := x\<rparr>) = codewordBlkSize c"
  "codewordBlkSize (c\<lparr>mPow2CodeSize := x\<rparr>) = codewordBlkSize c"
  "codewordBlkSize (c\<lparr>mU8RowCount := x\<rparr>) = codewordBlkSize c"
  "codewordBlkSize (c\<lparr>mG8 := T\<rparr>) = codewordBlkSize c"
  "plaintextBitSize (c\<lparr>mPlaintextU8Size := x\<rparr>) = plaintextBitSize c"
  "plaintextBitSize (c\<lparr>mPow2CodeSize := x\<rparr>) = plaintextBitSize c"
  "plaintextBitSize (c\<lparr>mU8RowCount := x\<rparr>) = plaintextBitSize c"
  "plaintextBitSize (c\<lparr>mG8 := T\<rparr>) = plaintextBitSize c"
  by (simp_all add: codewordBlkSize_def plaintextBitSize_def)

lemma subcode_mG8 [simp]: "subcode (c\<lparr>mG8 := T\<rparr>) = subcode c"
  by (simp add: subcode_def fun_eq_iff cong: if_cong)

lemma generateMod8Table_ok:
  assumes "generateMod8Table c = Inr c'" and "0 < mCodewordBitSize c" and "mCodewordBitSize c + 127 < 2 ^ 64"
  shows "code_ok c' \<and> mG c' = mG c \<and> mCodewordBitSize c' = mCodewordBitSize c"
proof -
  define c1 where "c1 = c\<lparr>mPlaintextU8Size := (plaintextBitSize c + 7) div 8,
    mPow2CodeSize := pow2_code_size (codewordBlkSize c), mU8RowCount := (plaintextBitSize c + 7) div 8\<rparr>"
  define P where "P = roundUpTo ((plaintextBitSize c + 7) div 8) 8"
  define T where "T = foldl (mod8_rows c1) (replicate (P * (mPow2CodeSize c1 * 256)) 0) [0..<P]"
  have small: "(plaintextBitSize c + 7) div 8 \<le> 64" and c': "c' = c1\<lparr>mG8 := T\<rparr>"
    using assms(1)
    by (auto simp: generateMod8Table_def Let_def sLinearCodePlainTextMaxSize_def c1_def T_def P_def
        mod8_rows_def [abs_def] split: if_splits)
  have f: "codewordBlkSize c1 = codewordBlkSize c" "plaintextBitSize c1 = plaintextBitSize c"
    "mPow2CodeSize c1 = pow2_code_size (codewordBlkSize c)"
    by (simp_all add: c1_def)
  have "T ! tab_index (mPow2CodeSize c1) b v w = subcode c1 b v w"
    if "b < P" "v < 256" "w < mPow2CodeSize c1" for b v w
    using mod8_table_nth [OF that(2,3) _ that(1) order_refl,
        of "replicate (P * (mPow2CodeSize c1 * 256)) 0"] tab_index_less [OF that] that(1)
    by (simp add: T_def f pow2_code_size_ge)
  moreover have "length T = P * (mPow2CodeSize c1 * 256)"
    by (simp add: T_def length_foldl_same)
  ultimately show ?thesis
    using small assms(2,3) by (simp add: code_ok_def c' f P_def) (simp add: c1_def)
qed

subsection \<open>What encoding computes\<close>

text \<open>The product of the plaintext bits with the generator: block \<open>w\<close> of the codeword.\<close>

definition code_word :: "linear_code \<Rightarrow> u8 list \<Rightarrow> nat \<Rightarrow> block" where
  "code_word c input w =
     xsum (\<lambda>r. if bit_at input r then mG c ! (r * codewordBlkSize c + w) else 0) [0..<plaintextBitSize c]"

definition code_words :: "linear_code \<Rightarrow> u8 list \<Rightarrow> block list" where
  "code_words c input = map (code_word c input) [0..<codewordBlkSize c]"

lemma length_code_words [simp]: "length (code_words c input) = codewordBlkSize c"
  by (simp add: code_words_def)

lemma subcodes_sum:
  assumes ok: "code_ok c" and B: "mPlaintextU8Size c \<le> B"
    and same: "\<forall>b < mPlaintextU8Size c. bytes ! b = input ! b"
  shows "xsum (\<lambda>b. subcode c b (unat (bytes ! b)) w) [0..<B] =
    (if w < codewordBlkSize c then code_word c input w else 0)"
proof (cases "w < codewordBlkSize c")
  case False
  then show ?thesis by (simp add: subcode_def)
next
  case True
  let ?n = "plaintextBitSize c"
  define f where "f = (\<lambda>r. if bit_at bytes r \<and> r < ?n then mG c ! (r * codewordBlkSize c + w) else 0)"
  have "subcode c b (unat (bytes ! b)) w = xsum (\<lambda>g. f (b * 8 + g)) [0..<8]" for b
    using True by (auto simp: subcode_def f_def bit_at_def bit_simps intro!: xsum_cong)
  then have "xsum (\<lambda>b. subcode c b (unat (bytes ! b)) w) [0..<B] = xsum f [0..<B * 8]"
    by (simp only: xsum_upt_mult)
  also have "\<dots> = xsum f [0..<?n]"
    using ok B by (intro xsum_upt_extend) (simp_all add: f_def code_ok_def)
  also have "\<dots> = code_word c input w"
    unfolding code_word_def
  proof (rule xsum_cong [OF refl])
    fix r assume "r \<in> set [0..<?n]"
    then have "r div 8 < mPlaintextU8Size c" "r < ?n" using ok by (auto simp: code_ok_def)
    then show "f r = (if bit_at input r then mG c ! (r * codewordBlkSize c + w) else 0)"
      using same by (simp add: f_def bit_at_def)
  qed
  finally show ?thesis using True by simp
qed

text \<open>The partial sums of the encoders.\<close>

lemma foldl_xor_map:
  "foldl (\<lambda>w s. map (\<lambda>t. w ! t XOR F s t) [0..<8]) (replicate 8 0) [0..<n] =
   map (\<lambda>t. xsum (\<lambda>s. F s t) [0..<n]) [0..<8]"
proof (induction n)
  case 0
  show ?case by (simp only: foldl.simps upt_0 xsum.simps map_replicate_const) simp
next
  case (Suc n)
  then show ?case by simp
qed

lemma upt_8: "[0..<8] = [0, 1, 2, 3, 4, 5, 6, 7 :: nat]"
  by (simp add: upt_rec)

lemma xsum_2: "xsum f [0..<2] = f 0 XOR f (Suc 0)"
  by (simp add: upt_rec)

lemma upt_4: "[0..<4] = [0, 1, 2, 3 :: nat]"
  by (simp add: upt_rec)

lemma u8_less: "unat (v :: u8) < 256"
  using unsigned_less [of v] by simp

lemma code_ok_table:
  "code_ok c \<Longrightarrow> b < roundUpTo (mPlaintextU8Size c) 8 \<Longrightarrow> v < 256 \<Longrightarrow> w < mPow2CodeSize c \<Longrightarrow>
   mG8 c ! tab_index (mPow2CodeSize c) b v w = subcode c b v w"
  unfolding code_ok_def by blast

lemma tab_lookup:
  assumes "code_ok c" and "b < roundUpTo (mPlaintextU8Size c) 8" and "w < mPow2CodeSize c"
    and "i = b * (mPow2CodeSize c * 256) + unat (v :: u8) * mPow2CodeSize c + w"
  shows "mG8 c ! i = subcode c b (unat v) w"
  using code_ok_table [OF assms(1,2) u8_less [of v] assms(3)] by (simp add: assms(4) tab_index_def)

lemma round8: "roundUpTo n 8 = ((n + 7) div 8) * 8"
  by (simp add: roundUpTo_def)

definition byte_sum :: "linear_code \<Rightarrow> u8 list \<Rightarrow> nat \<Rightarrow> block" where
  "byte_sum c bytes w = xsum (\<lambda>b. subcode c b (unat (bytes ! b)) w) [0..<roundUpTo (mPlaintextU8Size c) 8]"

lemma xsum_strided:
  "xsum f [0..<n * k] = xsum (\<lambda>t. xsum (\<lambda>s. f (s * k + t)) [0..<n]) [0..<k]"
  by (simp only: xsum_upt_mult xsum_swap [of _ "[0..<k]"])

lemma foldl_xor_sums:
  assumes "\<And>s t. s < n \<Longrightarrow> t < 8 \<Longrightarrow> F s t = G s t"
  shows "foldl (\<lambda>w s. map (\<lambda>t. w ! t XOR F s t) [0..<8]) (replicate 8 0) [0..<n] =
    map (\<lambda>t. xsum (\<lambda>s. G s t) [0..<n]) [0..<8]"
  unfolding foldl_xor_map by (intro map_cong refl xsum_cong) (simp_all add: assms)

lemma encode_1_sum:
  assumes ok: "code_ok c" and p2: "mPow2CodeSize c = 1"
  shows "take 1 (encode_1 c bytes) = map (byte_sum c bytes) [0..<1]"
proof -
  define n where "n = (mPlaintextU8Size c + 7) div 8"
  define S where "S = (\<lambda>t. xsum (\<lambda>s. subcode c (s * 8 + t) (unat (bytes ! (s * 8 + t))) 0) [0..<n])"
  have m: "foldl (\<lambda>w s. map (\<lambda>t. w ! t XOR mG8 c ! (256 * mPow2CodeSize c * t +
      s * (256 * mPow2CodeSize c * 8) + unat (bytes ! (8 * s + t)) * mPow2CodeSize c)) [0..<8])
      (replicate 8 0) [0..<(mPlaintextU8Size c + 7) div 8] = map S [0..<8]"
    unfolding S_def n_def
    by (rule foldl_xor_sums)
       (auto simp: p2 round8 mult.commute intro!: tab_lookup [OF ok])
  have "byte_sum c bytes 0 = xsum S [0..<8]"
    by (simp only: byte_sum_def round8 n_def [symmetric] xsum_strided S_def)
  then show ?thesis
    unfolding encode_1_def Let_def m by (simp add: upt_8 ac_simps)
qed

lemma encode_2_sum:
  assumes ok: "code_ok c" and p2: "mPow2CodeSize c = 2"
  shows "take 2 (encode_2 c bytes) = map (byte_sum c bytes) [0..<2]"
proof -
  define n where "n = (mPlaintextU8Size c + 7) div 8 * 2"
  have P: "roundUpTo (mPlaintextU8Size c) 8 = n * 4" by (simp add: round8 n_def)
  have len: "length (mG8 c) = n * 4 * 512" using ok by (simp add: code_ok_def p2 P)
  have count: "(length (mG8 c) div 8 * 8 + 256 * mPow2CodeSize c * 4 - 1) div (256 * mPow2CodeSize c * 4) = n"
    unfolding len p2 by (rule div_nat_eqI) simp_all
  define S where "S = (\<lambda>t. xsum (\<lambda>s. subcode c (s * 4 + t div 2) (unat (bytes ! (s * 4 + t div 2))) (t mod 2)) [0..<n])"
  have m: "foldl (\<lambda>w s. map (\<lambda>t. w ! t XOR mG8 c ! (s * (256 * mPow2CodeSize c * 4) +
      unat (bytes ! (4 * s + t div 2)) * mPow2CodeSize c + 256 * mPow2CodeSize c * (t div 2) + t mod 2)) [0..<8])
      (replicate 8 0) [0..<n] = map S [0..<8]"
    unfolding S_def
    by (rule foldl_xor_sums)
       (auto simp: p2 P mult.commute intro!: tab_lookup [OF ok])
  have "byte_sum c bytes w = xsum (\<lambda>t. S (2 * t + w)) [0..<4]" if "w < 2" for w
    unfolding byte_sum_def P xsum_strided S_def using that by (intro xsum_cong refl) simp_all
  from this [of 0] this [of 1] show ?thesis
    unfolding encode_2_def Let_def count m by (simp add: upt_8 upt_rec ac_simps)
qed

lemma encode_4_sum:
  assumes ok: "code_ok c" and p2: "mPow2CodeSize c = 4"
  shows "take 4 (encode_4 c bytes) = map (byte_sum c bytes) [0..<4]"
proof -
  define n where "n = (mPlaintextU8Size c + 7) div 8 * 4"
  have P: "roundUpTo (mPlaintextU8Size c) 8 = n * 2" by (simp add: round8 n_def)
  have len: "length (mG8 c) = n * 2 * 1024" using ok by (simp add: code_ok_def p2 P)
  have count: "(length (mG8 c) div 8 * 8 + 256 * mPow2CodeSize c * 2 - 1) div (256 * mPow2CodeSize c * 2) = n"
    unfolding len p2 by (rule div_nat_eqI) simp_all
  define S where "S = (\<lambda>t. xsum (\<lambda>s. subcode c (s * 2 + t div 4) (unat (bytes ! (s * 2 + t div 4))) (t mod 4)) [0..<n])"
  have m: "foldl (\<lambda>w s. map (\<lambda>t. w ! t XOR mG8 c ! (256 * mPow2CodeSize c * (t div 4) +
      s * (256 * mPow2CodeSize c * 2) + unat (bytes ! (2 * s + t div 4)) * 4 + t mod 4)) [0..<8])
      (replicate 8 0) [0..<n] = map S [0..<8]"
    unfolding S_def
    by (rule foldl_xor_sums)
       (auto simp: p2 P mult.commute intro!: tab_lookup [OF ok])
  have "byte_sum c bytes w = xsum (\<lambda>t. S (4 * t + w)) [0..<2]" if "w < 4" for w
    unfolding byte_sum_def P xsum_strided S_def using that by (intro xsum_cong refl) simp_all
  then have b: "byte_sum c bytes 0 = S 0 XOR S 4" "byte_sum c bytes (Suc 0) = S (Suc 0) XOR S 5"
    "byte_sum c bytes 2 = S 2 XOR S 6" "byte_sum c bytes 3 = S 3 XOR S 7"
    by (simp_all add: xsum_2)
  have "encode_4 c bytes = [S 0 XOR S 4, S (Suc 0) XOR S 5, S 2 XOR S 6, S 3 XOR S 7, S 4, S 5, S 6, S 7]"
    unfolding encode_4_def Let_def count m by (simp add: upt_8)
  then show ?thesis by (simp add: upt_4 b)
qed

lemma encode_8_sum:
  assumes ok: "code_ok c" and p2: "mPow2CodeSize c = 8"
  shows "take 8 (encode_8 c bytes) = map (byte_sum c bytes) [0..<8]"
proof -
  define n where "n = roundUpTo (mPlaintextU8Size c) 8"
  have len: "length (mG8 c) = n * 2048" using ok by (simp add: code_ok_def p2 n_def)
  have count: "(length (mG8 c) div 8 * 8 + 256 * mPow2CodeSize c * 1 - 1) div (256 * mPow2CodeSize c * 1) = n"
    unfolding len p2 by (rule div_nat_eqI) simp_all
  have m: "foldl (\<lambda>w s. map (\<lambda>t. w ! t XOR mG8 c ! (s * (256 * mPow2CodeSize c * 1) +
      unat (bytes ! s) * mPow2CodeSize c + t)) [0..<8])
      (replicate 8 0) [0..<n] = map (\<lambda>t. xsum (\<lambda>s. subcode c s (unat (bytes ! s)) t) [0..<n]) [0..<8]"
    by (rule foldl_xor_sums)
       (auto simp: p2 n_def mult.commute intro!: tab_lookup [OF ok])
  show ?thesis
    unfolding encode_8_def Let_def count m by (simp add: byte_sum_def n_def)
qed

lemma encode_block_sum:
  assumes ok: "code_ok c" and j: "j < mPow2CodeSize c"
  shows "encode_block c bytes j ! 0 = byte_sum c bytes j" and "length (encode_block c bytes j) = 8"
proof -
  define n where "n = (mPlaintextU8Size c + 7) div 8"
  have count: "(mU8RowCount c + 7) div 8 = n" using ok by (simp add: code_ok_def n_def)
  have P: "roundUpTo (mPlaintextU8Size c) 8 = n * 8" by (simp add: round8 n_def)
  define S where "S = (\<lambda>t. xsum (\<lambda>s. subcode c (s * 8 + t) (unat (bytes ! (s * 8 + t))) j) [0..<n])"
  have m: "foldl (\<lambda>w s. map (\<lambda>t. w ! t XOR mG8 c ! (256 * mPow2CodeSize c * t + j +
      s * (256 * mPow2CodeSize c * 8) + unat (bytes ! (8 * s + t)) * mPow2CodeSize c)) [0..<8])
      (replicate 8 0) [0..<n] = map S [0..<8]"
    unfolding S_def
    by (rule foldl_xor_sums)
       (auto simp: P algebra_simps intro!: tab_lookup [OF ok _ j])
  have "byte_sum c bytes j = xsum S [0..<8]"
    by (simp only: byte_sum_def P xsum_strided S_def)
  then show "encode_block c bytes j ! 0 = byte_sum c bytes j"
    unfolding encode_block_def Let_def count m by (simp add: upt_8 ac_simps)
  show "length (encode_block c bytes j) = 8"
    unfolding encode_block_def Let_def count m by simp
qed

lemma blocks_bytes_append [simp]: "blocks_bytes (xs @ ys) = blocks_bytes xs @ blocks_bytes ys"
  by (induction xs) simp_all

lemma take_blocks_bytes: "blocks_bytes (take n w) = take (16 * n) (blocks_bytes w)"
  by (induction w arbitrary: n) (auto simp: take_Cons' algebra_simps)

lemma drop_blocks_bytes: "blocks_bytes (drop n w) = drop (16 * n) (blocks_bytes w)"
  by (induction w arbitrary: n) (auto simp: drop_Cons' algebra_simps)

lemma byte_sum_view:
  assumes "code_ok c" and "mPlaintextU8Size c \<le> length input"
  shows "byte_sum c (byte_view c junk input) w =
    (if w < codewordBlkSize c then code_word c input w else 0)"
  unfolding byte_sum_def using assms
  by (intro subcodes_sum) (auto simp: byte_view_def nth_append intro: roundUpTo_ge)

lemma code_sizes:
  assumes "code_ok c"
  shows "0 < codewordBlkSize c" and "codewordU8Size c \<le> 16 * codewordBlkSize c"
    and "16 * (codewordBlkSize c - 1) < codewordU8Size c"
proof -
  define m where "m = mCodewordBitSize c"
  have m: "0 < m" "m + 127 < 2 ^ 64" using assms by (simp_all add: code_ok_def m_def)
  then have e: "codewordBlkSize c = (m + 127) div 128" "codewordU8Size c = (m + 7) div 8"
    by (simp_all add: codewordBlkSize_def codewordU8Size_def m_def)
  show "0 < codewordBlkSize c" using m unfolding e by simp
  show "codewordU8Size c \<le> 16 * codewordBlkSize c" unfolding e by linarith
  show "16 * (codewordBlkSize c - 1) < codewordU8Size c" using m(1) unfolding e by linarith
qed

lemma out_words:
  assumes ok: "code_ok c" and len: "mPlaintextU8Size c \<le> length input"
    and w: "take (mPow2CodeSize c) w = map (byte_sum c (byte_view c junk input)) [0..<mPow2CodeSize c]"
  shows "memcpy codeword (blocks_bytes w) (codewordU8Size c) =
    memcpy codeword (blocks_bytes (code_words c input)) (codewordU8Size c)"
proof -
  have le: "codewordBlkSize c \<le> mPow2CodeSize c"
    using ok by (simp add: code_ok_def pow2_code_size_ge)
  have "take (codewordBlkSize c) w = take (codewordBlkSize c) (take (mPow2CodeSize c) w)"
    using le by (simp add: min_absorb1)
  also have "\<dots> = code_words c input"
    unfolding w code_words_def using le
    by (simp add: take_map byte_sum_view [OF ok len])
  finally have words: "take (codewordBlkSize c) w = code_words c input" .
  have "take (codewordU8Size c) (blocks_bytes w) =
      take (codewordU8Size c) (take (16 * codewordBlkSize c) (blocks_bytes w))"
    using code_sizes(2) [OF ok] by (simp add: min_absorb1)
  also have "\<dots> = take (codewordU8Size c) (blocks_bytes (code_words c input))"
    by (simp only: words flip: take_blocks_bytes)
  finally show ?thesis by (simp add: memcpy_def)
qed

lemma encode_general_words:
  assumes ok: "code_ok c" and len: "mPlaintextU8Size c \<le> length input"
    and p2: "mPow2CodeSize c = codewordBlkSize c" and room: "codewordU8Size c \<le> length codeword"
  shows "encode_general c (byte_view c junk input) codeword =
    memcpy codeword (blocks_bytes (code_words c input)) (codewordU8Size c)"
proof -
  let ?U = "codewordU8Size c" and ?full = "blocks_bytes (code_words c input)"
  let ?step = "\<lambda>cw j. copy_at cw (16 * j) (blocks_bytes (encode_block c (byte_view c junk input) j)) (min 16 (?U - j * 16))"
  have "foldl ?step codeword [0..<n] = memcpy codeword ?full (min (16 * n) ?U)"
    if "n \<le> codewordBlkSize c" for n
    using that
  proof (induction n)
    case 0
    then show ?case by (simp add: memcpy_def)
  next
    case (Suc n)
    have lt: "16 * n < ?U" using code_sizes(3) [OF ok] Suc.prems by linarith
    have fl: "length ?full = 16 * codewordBlkSize c" by simp
    let ?k = "min 16 (?U - n * 16)"
    let ?b = "encode_block c (byte_view c junk input) n"
    have "?b = code_word c input n # tl ?b"
      using encode_block_sum [OF ok, of n "byte_view c junk input"] Suc.prems p2
      by (cases ?b) (simp_all add: byte_sum_view [OF ok len])
    then have "take 16 (blocks_bytes ?b) = block_bytes (code_word c input n)"
      by (metis append_eq_conv_conj blocks_bytes_simps(2) length_block_bytes)
    also have "\<dots> = take 16 (drop (16 * n) ?full)"
    proof -
      have "drop n (code_words c input) = code_word c input n # drop (Suc n) (code_words c input)"
        using Suc.prems by (simp add: code_words_def flip: Cons_nth_drop_Suc)
      then show ?thesis
        by (simp flip: drop_blocks_bytes)
    qed
    finally have "take ?k (take 16 (blocks_bytes ?b)) = take ?k (take 16 (drop (16 * n) ?full))"
      by simp
    then have src: "take ?k (blocks_bytes ?b) = take ?k (drop (16 * n) ?full)"
      by (simp del: take_blocks_bytes)
    have "16 * n \<le> length codeword" using lt room by simp
    then have "copy_at (memcpy codeword ?full (16 * n)) (16 * n) (blocks_bytes ?b) ?k =
        take (16 * n) ?full @ take ?k (drop (16 * n) ?full) @ drop (16 * n + ?k) codeword"
      using Suc.prems fl by (simp add: copy_at_def memcpy_def src add.commute)
    also have "\<dots> = memcpy codeword ?full (16 * n + ?k)"
      by (simp add: memcpy_def take_add)
    also have "16 * n + ?k = min (16 * Suc n) ?U" using lt by (auto simp: min_def)
    finally show ?case using Suc lt by (simp add: min_def)
  qed
  from this [OF order_refl] code_sizes(2) [OF ok] show ?thesis
    by (simp add: encode_general_def p2 min_def)
qed

lemma pow2_code_size_cases:
  assumes "0 < blk"
  shows "pow2_code_size blk = 1 \<or> pow2_code_size blk = 2 \<or> pow2_code_size blk = 4 \<or>
    pow2_code_size blk = 8 \<or> pow2_code_size blk = blk \<and> 8 < blk"
proof (cases "8 < blk")
  case False
  with assms consider "blk = 1" | "blk = 2" | "blk = 3" | "blk = 4" | "blk = 5" | "blk = 6" | "blk = 7" | "blk = 8"
    by linarith
  then show ?thesis by cases (simp_all add: pow2_code_size_def)
qed (simp add: pow2_code_size_def)

lemma encode_words:
  assumes ok: "code_ok c" and len: "mPlaintextU8Size c \<le> length input"
    and room: "codewordU8Size c \<le> length codeword"
  shows "encode c junk input codeword =
    memcpy codeword (blocks_bytes (code_words c input)) (codewordU8Size c)"
proof -
  note out = out_words [OF ok len]
  have p2: "mPow2CodeSize c = pow2_code_size (codewordBlkSize c)" using ok by (simp add: code_ok_def)
  consider "mPow2CodeSize c = 1" | "mPow2CodeSize c = 2" | "mPow2CodeSize c = 4" | "mPow2CodeSize c = 8"
    | "mPow2CodeSize c = codewordBlkSize c" "8 < mPow2CodeSize c"
    using pow2_code_size_cases [OF code_sizes(1) [OF ok]] p2 by auto
  then show ?thesis
  proof cases
    case 1
    show ?thesis
      using out [unfolded 1, OF encode_1_sum [OF ok 1]]
      by (simp add: encode_def Let_def 1)
  next
    case 2
    show ?thesis
      using out [unfolded 2, OF encode_2_sum [OF ok 2]]
      by (simp add: encode_def Let_def 2)
  next
    case 3
    show ?thesis
      using out [unfolded 3, OF encode_4_sum [OF ok 3]]
      by (simp add: encode_def Let_def 3)
  next
    case 4
    show ?thesis
      using out [unfolded 4, OF encode_8_sum [OF ok 4]]
      by (simp add: encode_def Let_def 4)
  next
    case 5
    then show ?thesis
      using encode_general_words [OF ok len 5(1) room] by (simp add: encode_def Let_def)
  qed
qed

subsection \<open>The unrolled encoder\<close>

lemma encode_bch511_words:
  assumes ok: "code_ok c" and len: "10 \<le> length input" and sz: "mPlaintextU8Size c = 10"
    and p2: "mPow2CodeSize c = 4"
  shows "encode_bch511 c input codeword =
    Some (memcpy codeword (blocks_bytes (code_words c input)) (codewordU8Size c))"
proof -
  define S where "S = (\<lambda>t. xsum (\<lambda>p. subcode c (p * 2 + t div 4) (unat (input ! (p * 2 + t div 4))) (t mod 4)) [0..<5])"
  have P: "roundUpTo (mPlaintextU8Size c) 8 = 16" by (simp add: sz roundUpTo_def)
  have m: "foldl (\<lambda>w p. map (\<lambda>t. w ! t XOR mG8 c ! ((2 * p + t div 4) * (256 * 4) +
      unat (input ! (2 * p + t div 4)) * 4 + t mod 4)) [0..<8]) (replicate 8 0) [0..<5] = map S [0..<8]"
    unfolding S_def
    by (rule foldl_xor_sums) (auto simp: p2 P mult.commute intro!: tab_lookup [OF ok])
  have sum: "xsum (\<lambda>b. subcode c b (unat (input ! b)) w) [0..<10] =
      (if w < codewordBlkSize c then code_word c input w else 0)" for w
    by (rule subcodes_sum [OF ok]) (simp_all add: sz)
  have "xsum (\<lambda>b. subcode c b (unat (input ! b)) w) [0..<5 * 2] = xsum (\<lambda>t. S (4 * t + w)) [0..<2]" if "w < 4" for w
    unfolding xsum_strided S_def using that by (intro xsum_cong refl) simp_all
  then have b: "xsum (\<lambda>b. subcode c b (unat (input ! b)) w) [0..<10] = S w XOR S (4 + w)" if "w < 4" for w
    using that by (simp add: xsum_2)
  let ?w = "[S 0 XOR S 4, S (Suc 0) XOR S 5, S 2 XOR S 6, S 3 XOR S 7, S 4, S 5, S 6, S 7]"
  have e: "encode_bch511 c input codeword = Some (memcpy codeword (blocks_bytes ?w) (codewordU8Size c))"
    unfolding encode_bch511_def Let_def m by (simp add: sz p2 upt_8)
  have le: "codewordBlkSize c \<le> 4"
    using ok pow2_code_size_ge [of "codewordBlkSize c"] by (simp add: code_ok_def p2)
  have "map (\<lambda>w. S w XOR S (4 + w)) [0..<4] = map (\<lambda>w. if w < codewordBlkSize c then code_word c input w else 0) [0..<4]"
    by (rule map_cong) (simp_all add: sum flip: b)
  moreover have "take 4 ?w = map (\<lambda>w. S w XOR S (4 + w)) [0..<4]"
    by (simp add: upt_4)
  ultimately have "take (codewordBlkSize c) (take 4 ?w) = code_words c input"
    using le by (simp add: take_map code_words_def min_absorb1 del: take_Suc_Cons)
  then have w: "take (codewordBlkSize c) ?w = code_words c input"
    using le by (simp only: take_take min_absorb1)
  have "take (codewordU8Size c) (blocks_bytes ?w) =
      take (codewordU8Size c) (take (16 * codewordBlkSize c) (blocks_bytes ?w))"
    using code_sizes(2) [OF ok] by (simp only: take_take min_absorb1)
  also have "\<dots> = take (codewordU8Size c) (blocks_bytes (code_words c input))"
    by (simp only: w flip: take_blocks_bytes)
  finally show ?thesis by (simp only: e memcpy_def)
qed

subsection \<open>Linearity\<close>

lemma code_word_xor:
  assumes "length a = length b" and "plaintextBitSize c \<le> 8 * length a"
  shows "code_word c (map2 (XOR) a b) w = code_word c a w XOR code_word c b w"
proof -
  have "bit_at (map2 (XOR) a b) r \<longleftrightarrow> bit_at a r \<noteq> bit_at b r" if "r < plaintextBitSize c" for r
  proof -
    have "r div 8 < length a" using that assms(2) by linarith
    then show ?thesis using assms(1) by (simp add: bit_at_def bit_simps)
  qed
  then show ?thesis
    unfolding code_word_def xsum_xor [symmetric] by (intro xsum_cong refl) auto
qed

subsection \<open>Loading\<close>

lemma istream_read_enough:
  "length dest \<le> length bs \<Longrightarrow>
   istream_read dest \<lparr>stream_bytes = bs, fail_bit = False\<rparr> =
     (take (length dest) bs, \<lparr>stream_bytes = drop (length dest) bs, fail_bit = False\<rparr>)"
  by (simp add: istream_read_def Let_def)

lemma load_writeBinFile:
  assumes "length (mG c) \<le> vector_max_size" and "mCodewordBitSize c < 2 ^ 64" and "0 < mCodewordBitSize c"
  shows "load (writeBinFile c) c' =
    generateMod8Table (c'\<lparr>mCodewordBitSize := mCodewordBitSize c, mG := mG c\<rparr>)"
proof -
  let ?n = "word_bytes 8 (of_nat (length (mG c)) :: u64)" and ?b = "word_bytes 8 (of_nat (mCodewordBitSize c) :: u64)"
  have n: "unat (bytes_le ?n :: u64) = length (mG c)" and b: "unat (bytes_le ?b :: u64) = mCodewordBitSize c"
    using assms(1,2) by (simp_all add: bytes_le_word_bytes unat_of_nat vector_max_size_def)
  have "length (mG c) * 16 = 16 * length (vec_resize (length (mG c)) 0 (mG c'))" by simp
  then show ?thesis
    using assms(1,3)
    by (simp add: load_def loadBinFile_def writeBinFile_def istream_read_enough n b)
qed

end
