(* ===== verification/Mx_Codes_Short.thy ===== *)
theory Mx_Codes_Short
  imports Prelude
begin

text \<open>
  The generator matrices for 65 to 90 input bits (\<^verbatim>\<open>libPSI/Tools/mx_*_by_*.h\<close>), one block
  numeral for a line of sixteen bytes of the source, with the digits in the order of the line.
\<close>

definition mx65by448_part1 :: "block list" where
  "mx65by448_part1 =
    [0x0401000000000000c001000000000000,
     0x00ff00ff00ff00ff00ff00ff00ff00ff,
     0x00ff00ff00ff00ff00ff00ff00ff00ff,
     0x00ff00ff00ff00ff00ff00ff00ff00ff,
     0x00ff00ff00ff00ff0000000000000000,
     0xf0f0f0f0f0f0f0f0f0f0f0f0f0f0f0f0,
     0xf0f0f0f0f0f0f0f0f0f0f0f0f0f0f0f0,
     0xf0f0f0f0f0f0f0f0f0f0f0f0f0f0f0f0,
     0xf0f0f0f0f0f0f0f00000000000000000,
     0xcccccccccccccccccccccccccccccccc,
     0xcccccccccccccccccccccccccccccccc,
     0xcccccccccccccccccccccccccccccccc,
     0xcccccccccccccccc0000000000000000,
     0xaaaaaaaaaaaaaaaaaaaaaaaaaaaaaaaa,
     0xaaaaaaaaaaaaaaaaaaaaaaaaaaaaaaaa,
     0xaaaaaaaaaaaaaaaaaaaaaaaaaaaaaaaa,
     0xaaaaaaaaaaaaaaaa0000000000000000,
     0x69966996699669966996699669966996,
     0x69966996699669966996699669966996,
     0x69966996699669966996699669966996,
     0x69966996699669960000000000000000,
     0x0000f0f0ccccaaaa6996cc335a5aa55a,
     0x669933cc69693cc396960ff00f0fffff,
     0x33339999f00f3c3c6666c33ca5a59669,
     0xff00c3c355555aa50000000000000000,
     0x0000ccccaaaa6996cc335a5aa55a6699,
     0x33cc69693cc396960ff00f0fffff3333,
     0x9999f00f3c3c6666c33ca5a59669ff00,
     0xc3c355555aa555aa0000000000000000,
     0x0000aaaa6996cc335a5aa55a669933cc,
     0x69693cc396960ff00f0fffff33339999,
     0xf00f3c3c6666c33ca5a59669ff00c3c3,
     0x55555aa555aaaa550000000000000000,
     0x00006996cc335a5aa55a669933cc6969,
     0x3cc396960ff00f0fffff33339999f00f,
     0x3c3c6666c33ca5a59669ff00c3c35555,
     0x5aa555aaaa5599660000000000000000,
     0x0000cc335a5aa55a669933cc69693cc3,
     0x96960ff00f0fffff33339999f00f3c3c,
     0x6666c33ca5a59669ff00c3c355555aa5,
     0x55aaaa55996600ff0000000000000000,
     0x0000cccc69965a5a6699696996960f0f,
     0x3333f00f6666a5a5ff00555555aa9966,
     0xf0f0aaaacc33a55a33cc3cc30ff0ffff,
     0x99993c3cc33c96690000000000000000,
     0x0000aaaacc33a55a33cc3cc30ff0ffff,
     0x99993c3cc33c9669c3c35aa5aa5500ff,
     0xcccc69965a5a6699696996960f0f3333,
     0xf00f6666a5a5ff000000000000000000,
     0x000069965a5a6699696996960f0f3333,
     0xf00f6666a5a5ff00555555aa9966f0f0,
     0xaaaacc33a55a33cc3cc30ff0ffff9999,
     0x3c3cc33c9669c3c30000000000000000,
     0x0000cc33a55a33cc3cc30ff0ffff9999,
     0x3c3cc33c9669c3c35aa5aa5500ffcccc,
     0x69965a5a6699696996960f0f3333f00f,
     0x6666a5a5ff0055550000000000000000,
     0x00005a5a6699696996960f0f3333f00f,
     0x6666a5a5ff00555555aa9966f0f0aaaa,
     0xcc33a55a33cc3cc30ff0ffff99993c3c,
     0xc33c9669c3c35aa50000000000000000,
     0x0000aaaa5a5a33cc9696fffff00fc33c,
     0xff005aa59966cccccc3366993cc30f0f,
     0x9999666696695555aa55f0f06996a55a,
     0x69690ff033333c3c0000000000000000,
     0x00006996a55a69690ff033333c3ca5a5,
     0xc3c355aa00ffaaaa5a5a33cc9696ffff,
     0xf00fc33cff005aa59966cccccc336699,
     0x3cc30f0f999966660000000000000000,
     0x0000cc3366993cc30f0f999966669669,
     0x5555aa55f0f06996a55a69690ff03333,
     0x3c3ca5a5c3c355aa00ffaaaa5a5a33cc,
     0x9696fffff00fc33c0000000000000000,
     0x00005a5a33cc9696fffff00fc33cff00,
     0x5aa59966cccccc3366993cc30f0f9999,
     0x666696695555aa55f0f06996a55a6969,
     0x0ff033333c3ca5a50000000000000000,
     0x0000a55a69690ff033333c3ca5a5c3c3,
     0x55aa00ffaaaa5a5a33cc9696fffff00f,
     0xc33cff005aa59966cccccc3366993cc3,
     0x0f0f9999666696690000000000000000,
     0x000069966699969633336666ff0055aa,
     0xf0f0cc3333cc0ff09999c33cc3c3aa55,
     0xcccc5a5a69690f0ff00fa5a555559966,
     0xaaaaa55a3cc3ffff0000000000000000,
     0x0000cc3333cc0ff09999c33cc3c3aa55,
     0xcccc5a5a69690f0ff00fa5a555559966,
     0xaaaaa55a3cc3ffff3c3c96695aa500ff,
     0x69966699969633330000000000000000,
     0x00005a5a69690f0ff00fa5a555559966,
     0xaaaaa55a3cc3ffff3c3c96695aa500ff,
     0x69966699969633336666ff0055aaf0f0,
     0xcc3333cc0ff099990000000000000000,
     0x0000a55a3cc3ffff3c3c96695aa500ff,
     0x69966699969633336666ff0055aaf0f0,
     0xcc3333cc0ff09999c33cc3c3aa55cccc,
     0x5a5a69690f0ff00f0000000000000000,
     0x00006699969633336666ff0055aaf0f0,
     0xcc3333cc0ff09999c33cc3c3aa55cccc,
     0x5a5a69690f0ff00fa5a555559966aaaa,
     0xa55a3cc3ffff3c3c0000000000000000,
     0x0000cc336969ffff6666c3c399666996,
     0x33cc0f0f3c3cff00aa55aaaa66990ff0,
     0xf00f966955aacccca55a96969999a5a5,
     0x5aa5f0f05a5a3cc30000000000000000,
     0x00005a5a3cc33333c33c555500ffcc33,
     0x6969ffff6666c3c39966699633cc0f0f,
     0x3c3cff00aa55aaaa66990ff0f00f9669,
     0x55aacccca55a96960000000000000000,
     0x0000a55a96969999a5a55aa5f0f05a5a,
     0x3cc33333c33c555500ffcc336969ffff,
     0x6666c3c39966699633cc0f0f3c3cff00,
     0xaa55aaaa66990ff00000000000000000,
     0x000066990ff0f00f966955aacccca55a,
     0x96969999a5a55aa5f0f05a5a3cc33333,
     0xc33c555500ffcc336969ffff6666c3c3,
     0x9966699633cc0f0f0000000000000000,
     0x000033cc0f0f3c3cff00aa55aaaa6699,
     0x0ff0f00f966955aacccca55a96969999,
     0xa5a55aa5f0f05a5a3cc33333c33c5555,
     0x00ffcc336969ffff0000000000000000,
     0x00005a5a9696f00fff009966cc333cc3,
     0x99999669aa55699669693333a5a555aa,
     0xaaaa33ccffffc33c5aa5cccc66990f0f,
     0x66665555f0f0a55a0000000000000000,
     0x0000a55a0ff03c3cc3c300ff5a5a9696,
     0xf00fff009966cc333cc399999669aa55,
     0x699669693333a5a555aaaaaa33ccffff,
     0xc33c5aa5cccc66990000000000000000,
     0x000066990f0f66665555f0f0a55a0ff0,
     0x3c3cc3c300ff5a5a9696f00fff009966,
     0xcc333cc399999669aa55699669693333,
     0xa5a555aaaaaa33cc0000000000000000,
     0x000033ccffffc33c5aa5cccc66990f0f,
     0x66665555f0f0a55a0ff03c3cc3c300ff,
     0x5a5a9696f00fff009966cc333cc39999,
     0x9669aa55699669690000000000000000,
     0x000069693333a5a555aaaaaa33ccffff,
     0xc33c5aa5cccc66990f0f66665555f0f0,
     0xa55a0ff03c3cc3c300ff5a5a9696f00f,
     0xff009966cc333cc30000000000000000,
     0x0000a55a0f0fc33c55aa69963cc3f00f,
     0xc3c3f0f06699ffffa5a5aa55cc339696,
     0x3c3c5555cccc33cc3333966999665a5a,
     0x0ff066665aa5aaaa0000000000000000,
     0x00006699ffffa5a5aa55cc3396963c3c,
     0x5555cccc33cc3333966999665a5a0ff0,
     0x66665aa5aaaa69699999ff0000ffa55a]"

definition mx65by448_part2 :: "block list" where
  "mx65by448_part2 =
    [0x0f0fc33c55aa69960000000000000000,
     0x000033cc3333966999665a5a0ff06666,
     0x5aa5aaaa69699999ff0000ffa55a0f0f,
     0xc33c55aa69963cc3f00fc3c3f0f06699,
     0xffffa5a5aa55cc330000000000000000,
     0x000069699999ff0000ffa55a0f0fc33c,
     0x55aa69963cc3f00fc3c3f0f06699ffff,
     0xa5a5aa55cc3396963c3c5555cccc33cc,
     0x3333966999665a5a0000000000000000,
     0x00003cc3f00fc3c3f0f06699ffffa5a5,
     0xaa55cc3396963c3c5555cccc33cc3333,
     0x966999665a5a0ff066665aa5aaaa6969,
     0x9999ff0000ffa55a0000000000000000,
     0x000066993333ff00f0f033cc9999c3c3,
     0xcccc6969f00f5555aaaa3cc33c3c5aa5,
     0x69969696666655aacc330ff0c33caa55,
     0x5a5a0f0fa5a599660000000000000000,
     0x000033cc9999c3c3cccc6969f00f5555,
     0xaaaa3cc33c3c5aa569969696666655aa,
     0xcc330ff0c33caa555a5a0f0fa5a59966,
     0xa55affff966900ff0000000000000000,
     0x00006969f00f5555aaaa3cc33c3c5aa5,
     0x69969696666655aacc330ff0c33caa55,
     0x5a5a0f0fa5a59966a55affff966900ff,
     0x66993333ff00f0f00000000000000000,
     0x00003cc33c3c5aa569969696666655aa,
     0xcc330ff0c33caa555a5a0f0fa5a59966,
     0xa55affff966900ff66993333ff00f0f0,
     0x33cc9999c3c3cccc0000000000000000,
     0x00009696666655aacc330ff0c33caa55,
     0x5a5a0f0fa5a59966a55affff966900ff,
     0x66993333ff00f0f033cc9999c3c3cccc,
     0x6969f00f5555aaaa0000000000000000,
     0x000033ccf00f5aa5cc330f0f9669f0f0,
     0x69693c3c55aa5a5affffff00cccc3cc3,
     0x6666aa55a55a3333c3c3aaaa9696c33c,
     0x99666699999955550000000000000000,
     0x000069693c3c55aa5a5affffff00cccc,
     0x3cc36666aa55a55a3333c3c3aaaa9696,
     0xc33c996666999999555569960ff0a5a5,
     0x00ff33ccf00f5aa50000000000000000,
     0x00003cc36666aa55a55a3333c3c3aaaa,
     0x9696c33c996666999999555569960ff0,
     0xa5a500ff33ccf00f5aa5cc330f0f9669,
     0xf0f069693c3c55aa0000000000000000,
     0x00009696c33c99666699999955556996,
     0x0ff0a5a500ff33ccf00f5aa5cc330f0f,
     0x9669f0f069693c3c55aa5a5affffff00,
     0xcccc3cc36666aa550000000000000000,
     0x00000ff0a5a500ff33ccf00f5aa5cc33,
     0x0f0f9669f0f069693c3c55aa5a5affff,
     0xff00cccc3cc36666aa55a55a3333c3c3,
     0xaaaa9696c33c99660000000000000000,
     0x000069696666996633cc3c3caa556699,
     0xf00f55aaa55a99995aa55a5a33335555,
     0xcc33ffffc3c369960f0fff00aaaa0ff0,
     0x9669cccc9696a5a50000000000000000,
     0x00003cc3c33c00ff69696666996633cc,
     0x3c3caa556699f00f55aaa55a99995aa5,
     0x5a5a33335555cc33ffffc3c369960f0f,
     0xff00aaaa0ff096690000000000000000,
     0x00009696a5a5f0f03cc3c33c00ff6969,
     0x6666996633cc3c3caa556699f00f55aa,
     0xa55a99995aa55a5a33335555cc33ffff,
     0xc3c369960f0fff000000000000000000,
     0x00000ff09669cccc9696a5a5f0f03cc3,
     0xc33c00ff69696666996633cc3c3caa55,
     0x6699f00f55aaa55a99995aa55a5a3333,
     0x5555cc33ffffc3c30000000000000000,
     0x00000f0fff00aaaa0ff09669cccc9696,
     0xa5a5f0f03cc3c33c00ff696966669966,
     0x33cc3c3caa556699f00f55aaa55a9999,
     0x5aa55a5a333355550000000000000000,
     0x00003cc3a5a5cccc0ff0ff006996ffff,
     0x55555a5a999955aa66993c3c99666969,
     0xc33cf0f096969669aaaa0f0fc3c3cc33,
     0x33335aa5a55af00f0000000000000000,
     0x000096969669aaaa0f0fc3c3cc333333,
     0x5aa5a55af00faa5533cc666600ff3cc3,
     0xa5a5cccc0ff0ff006996ffff55555a5a,
     0x999955aa66993c3c0000000000000000,
     0x00000ff0ff006996ffff55555a5a9999,
     0x55aa66993c3c99666969c33cf0f09696,
     0x9669aaaa0f0fc3c3cc3333335aa5a55a,
     0xf00faa5533cc66660000000000000000,
     0x00000f0fc3c3cc3333335aa5a55af00f,
     0xaa5533cc666600ff3cc3a5a5cccc0ff0,
     0xff006996ffff55555a5a999955aa6699,
     0x3c3c99666969c33c0000000000000000,
     0x0000ffff55555a5a999955aa66993c3c,
     0x99666969c33cf0f096969669aaaa0f0f,
     0xc3c3cc3333335aa5a55af00faa5533cc,
     0x666600ff3cc3a5a50000000000000000,
     0x00009696ff00cc339999aa556969a5a5,
     0xaaaaffff5aa566996666f0f00ff0c3c3,
     0x5a5af00f99663cc396696996333355aa,
     0x33ccc33ccccc0f0f0000000000000000,
     0x00000ff0c3c35a5af00f99663cc39669,
     0x6996333355aa33ccc33ccccc0f0f5555,
     0xa55a3c3c00ff9696ff00cc339999aa55,
     0x6969a5a5aaaaffff0000000000000000,
     0x00000f0f5555a55a3c3c00ff9696ff00,
     0xcc339999aa556969a5a5aaaaffff5aa5,
     0x66996666f0f00ff0c3c35a5af00f9966,
     0x3cc39669699633330000000000000000,
     0x0000ffff5aa566996666f0f00ff0c3c3,
     0x5a5af00f99663cc396696996333355aa,
     0x33ccc33ccccc0f0f5555a55a3c3c00ff,
     0x9696ff00cc3399990000000000000000,
     0x0000333355aa33ccc33ccccc0f0f5555,
     0xa55a3c3c00ff9696ff00cc339999aa55,
     0x6969a5a5aaaaffff5aa566996666f0f0,
     0x0ff0c3c35a5af00f0000000000000000]"

definition mx65by448 :: "u8 list" where
  "mx65by448 = concat (map line_bytes (mx65by448_part1 @ mx65by448_part2))"

definition mx72by462_part1 :: "block list" where
  "mx72by462_part1 =
    [0x2001000000000000ce01000000000000,
     0xc0031ef080073ce0010f78c0031ef080,
     0x073ce0010f78c0031ef080073ce0010f,
     0x78c0031ef080073ce0010f78c0031ef0,
     0x80073ce0010f78c0031e000000000000,
     0xa0052d68410b5ad08216b4a0052d6841,
     0x0b5ad08216b4a0052d68410b5ad08216,
     0xb4a0052d68410b5ad08216b4a0052d68,
     0x410b5ad08216b4a0052d000000000000,
     0x908634a4210d6948431ad2908634a421,
     0x0d6948431ad2908634a4210d6948431a,
     0xd2908634a4210d6948431ad2908634a4,
     0x210d6948431ad2908634000000000000,
     0x0c6318c318c63086318c610c6318c318,
     0xc63086318c610c6318c318c63086318c,
     0x610c6318c318c63086318c610c6318c3,
     0x18c63086318c610c6318000000000000,
     0x0a55a84215aa50852a54a10a55a84215,
     0xaa50852a54a10a55a84215aa50852a54,
     0xa10a55a84215aa50852a54a10a55a842,
     0x15aa50852a54a10a5528000000000000,
     0x094e7082139ce0042738c1094e708213,
     0x9ce0042738c1094e7082139ce0042738,
     0xc1094e7082139ce0042738c1094e7082,
     0x139ce0042738c1094e30000000000000,
     0x00002da419a6d0049b6106f39bf2309e,
     0x576c66a822136acba97e6b0c0f1e58e2,
     0x0165e3b2e9263bd6af26d7b8a3fe47d6,
     0x949d3a7bff2cdf5a2805000000000000,
     0x008034c3149a6033cc607e531ec6f38a,
     0xcd0c5564426d39d56f8de1c1034b3ca0,
     0x6c5c36dd64c7fad5e41a77d4ffc89ab2,
     0x5367ef9fe55b0ba5e01f000000000000,
     0x00609842136c8619cc6fcac3785eb199,
     0xa18a4ca82da7faad313c78608907948d,
     0xcba69bec58bf9a5ce38efa1f595376ea,
     0xecfdb37c6ba114fcb329000000000000,
     0x00506882cd3083f94d7918cf2b363354,
     0x9109b5e554bf3586070f2cf180b271d9,
     0x74931deb57936bdc51ff236bca4e9dbd,
     0x7f966f2d94827f36fd34000000000000,
     0x0048b0196630bf290fe379c566862a32,
     0xa1b69ceab7c6f0e081251e50362e9b6e,
     0xb263fd6a728d3bea7f644dd9a9b3f7cf,
     0xf2ad8552f0cfa69f4e03000000000000,
     0x0030c30ce637e5613cafd8cc504526d4,
     0x9653fdd6181e3cb0c403cac665d34d76,
     0xac5f4dae7147fd8fac293b75f6fe59be,
     0xb5500afed9f4d369b01a000000000000,
     0x0080b442cd30bf61145b156ad32f3c2c,
     0x5136d38d35b9a3ce5aea7ea605fe7dda,
     0x6af5657541750c66ce0eac0aa0655882,
     0x6730e5e731231339ad31000000000000,
     0x006058826730e5e731231339ad310f1e,
     0xc0e5c97ed5b8ff50b6bdf35d0a9ba6e1,
     0xb550d51c5b2b073303bf19789056a819,
     0xe6378c62ab426dfa8507000000000000,
     0x0050a819e6378c62ab426dfa858725ca,
     0x66bab12677d4594bddcfb4c0bf4f5bad,
     0xbeac2ea88ec1ccd9815501b40c4bf00c,
     0xa6fc3c666422a735e601000000000000,
     0x0048f00ca6fc3c666422a735e6c103b8,
     0x3cd9af1af71fcab677be4b61d334bc16,
     0xaa9a636be56066e037030fd20a35c3fc,
     0x86516c55a84dbff0b004000000000000,
     0x0030c3fc86516c55a84dbff0b044d94c,
     0x37d6e48e3a6ba9fb9916f8f769abd597,
     0xd505d53198393bb02a809661099ec194,
     0x9fc78c4ce4b4c63c7800000000000000,
     0x0098c1949fc78c4ce4b4c63c78009727,
     0xfb55e3fe43d9f6ce77296c9a86d74255,
     0x736cad1ccc0cfc66e0415aa16698df30,
     0x8aad0ab5e9171e96281b000000000000,
     0x00609819a65cec4ce89707659b6c72ff,
     0x91ba7cf32f0df5d59c8e613630e031cc,
     0x0c532e7626f4cb83b24d36b9ff485dbe,
     0xf99786fa6a4ec7301b18000000000000,
     0x0050e80c86c10cb5d5d8125c1eab71b3,
     0x666f2dd8d46a502d68e538fb66d02a74,
     0x06c36086da6a6c092e8fd5b859b3b716,
     0x6c6a35a816b4729c7d33000000000000,
     0x0048f0fc9ea78a9cc2e301a6fbeaa895,
     0xfdb3527cfab5ac662b980d5c05482778,
     0x7ecf53454ee1f100d37d75d4cafe5929,
     0x3efd5a56b315cc06ae02000000000000,
     0x0030c3948b9d09fdf2a06c934dee3f52,
     0x976ffea5a1be9ad331cc06063c869961,
     0xcac5ce847e7950b6c926f71fa9cb37ff,
     0xd2505fcde9186603031e000000000000,
     0x0098c13098a1b61a5b82cb63356ed6ec,
     0xad059b5a0daa05ad1c67df0c5a85ce60,
     0x18cc505b8d2dc1e5b11a376bf6d6824d,
     0xad06d582568eb36f062d000000000000,
     0x0098dff3549153783cc0745f1db5b27f,
     0x568a4fbf96d56c05b381ab00e904cfef,
     0x79aac8293c1e60baaf8e5ad93f2bc5a7,
     0x5fcb6ab682d9c0558034000000000000,
     0x0050e8fc8aad3678946daca34e9d163e,
     0x5ddf82827960a04df0949991531e70f9,
     0xabffb07729d20055b6c2eccd9036c330,
     0x54a15f4b982eb959fb19000000000000,
     0x0048f0949991531e70f9abffb07729d2,
     0x0055b6c2eccd9036c33054a15f4b982e,
     0xb959fb19ffacc66a1d73b60a0c9bc1f3,
     0x3251e3074cd6b8cace37000000000000,
     0x0030c33054a15f4b982eb959fb19ffac,
     0xc66a1d73b60a0c9bc1f33251e3074cd6,
     0xb8caceb74d5fabb9ca1918780a9d5fb1,
     0xd5068fb28d75d4a9d302000000000000,
     0x0098c1f33251e3074cd6b8caceb74d5f,
     0xabb9ca1918780a9d5fb1d5068fb28d75,
     0xd4a9d3c2a7eb5b50300f0cb4099e3233,
     0x72ca032e7ff51ff62e05000000000000,
     0x00985fb1d5068fb28d75d4a9d3c2a7eb,
     0x5b50300f0cb4099e323372ca032e7ff5,
     0x1ff62e451aa0ca5698bd19d26618862a,
     0xf46b09d325376b3fe31f000000000000,
     0x0098323372ca032e7ff51ff62e451aa0,
     0xca5698bd19d26618862af46b09d32537,
     0x6b3fe39fd558ad63ce56816133785e26,
     0x6afc80c91a57d9f9b629000000000000,
     0x0048f03032010f2e2757d95a4803ab2b,
     0x373048cfa0d839b5c464476d6ffebdb6,
     0xa030ab8242a7ac8a1a97edab59cbf7a7,
     0xa1aa630383d60ccf531b000000000000,
     0x0030c3f3d4c603d3193775a5b09ae6c0,
     0xfc6686cd8f19fa7dc058fff1339bd697,
     0xad9c055e82879109787039b9cad6421a,
     0x585db981417a06c5ce29000000000000,
     0x009841b1736a89c98edadefc7b6d4161,
     0x5605854e5915352edb57b396ef4f4355,
     0xc70606ad199ea7361e98ceb8a92b85d5,
     0x3407e637336c7eccd02f000000000000,
     0x00981f33f4fb80b1fee36736ad2f5b39,
     0x0bbc040f2313f0e0727295ad8534b0ba,
     0x720383f40c8a9d534b4c76d4f6e6df6b,
     0x0b0ab32a2874caaaa831000000000000,
     0x0098b22a6a5cb6af662ddf9f86aa8e0d,
     0x0c5a333c4f6d3c309d7153570aab690e,
     0xcc6f66d8fc98a1df078cf51f3fb3697d,
     0xd9ca59e0257818998007000000000000,
     0x00184626e0c1e5e42a5b0b696075e506,
     0x06e919143ba79698eca8edcdbfd71614,
     0x665550e8945551e3b27d356bf9fe3454,
     0x756c60d09ae1796ae301000000000000,
     0x003043b1f55bb6e4a68e7ff5d5f1c018,
     0x36e54cf060b2ffc8771a340733e099a1,
     0xd8fa2d5b7253c7bffaea78600c9b7226]"

definition mx72by462_part2 :: "block list" where
  "mx72by462_part2 =
    [0x7830d97fe43b0d9a8319000000000000,
     0x009801336acc65e3dadba650addc9b15,
     0x3a0cb55962ac59d382d50aca59d0ce80,
     0x1935e6b271ed6d53a856eecd0a1d86da,
     0x2c31d6ac69c16a05e52c000000000000,
     0x00989f2ae061ba51ffecd3ac06731512,
     0xfcbc9c3ee0abca2ec56bd96a6048cf4f,
     0x15f030dda87ff6695683b90a097e5e4e,
     0x1ff0556597e2b56c3530000000000000,
     0x009872267830d97fe43b0d9a8319f0cc,
     0x506cfd962db9a9e35f7d753c30864d39,
     0x133c98ec3ff29d06cdc10c786628b67e,
     0xcb96dcd4f1afbe3a1e18000000000000,
     0x001886da2c31d6ac69c16a05e52c6867,
     0xc08c1a73d9b8f6b629542bf766850e43,
     0x6d96186bd6b460b5827216b43360468d,
     0xb96c5c7bdb14aa957b33000000000000,
     0x00785e4e1ff0556597e2b56c3530a4e7,
     0xa70a78986ed43ffb34abc15c85043f2f,
     0xa70ff8aab24bf15ab61a18d2f353053c,
     0x4c37ea9f7d9ad560ae02000000000000,
     0x0098812a78305665f30faa6006de0c54,
     0xc183b12a9b7f500533f066a00a1e8c55,
     0xd9fc832a9881370355f060accae61f54,
     0xc10cbc19a88207635536000000000000,
     0x00985f262cf1d5d4d994d53003edfc32,
     0x6189afa6cea6ac861968e797094b7c35,
     0x75366535cc403bbf4c58e2aba9b329ab,
     0x6106daf965c2125f4d1d000000000000,
     0x0098b2da1e905c7b7f5a739c85f494d5,
     0xf680e4dafbd39ae32ca4a7acb60724d7,
     0xde9fd61c67213d65b53d20b9f6feb4e6,
     0x380be929abed01c9b537000000000000,
     0x0018464ecb66dc9fa5a1a00666d83072,
     0x5a36e3fe2c0d053530c38691d3b219f7,
     0x676928a88119368c9c96cdb83f4b4341,
     0x0dccb061e4b46cc6fd19000000000000,
     0x00789e7eb93cea7c5b8dad0353e8f3f4,
     0xcbe551e7db6a6c1d98429fa75f2e8f3a,
     0xdf5663ebc014fa3cfd7279d4f9b61a5b,
     0x07a6d0e7e997cba3ce37000000000000,
     0x0028768d4df70f2dbc56c76f4e70b16b,
     0x6cba7f68e1b53a7e73828b5d63d3fd43,
     0x0bafd5f19b135cec1a9bee1f5a78ad8e,
     0xdf9ce062d7d874ffd002000000000000,
     0x00989fdaca366a2dd417cca09d724eb9,
     0xfc8f52401566901e867e4d9735feb19a,
     0xb30c7b5e8d27ab6c9b6acec00a2d363c,
     0xc69aba4f177460096606000000000000,
     0x0098724eb9fc8f52401566901e867e4d,
     0x9735feb19ab30c7b5e8d27ab6c9b6ace,
     0xc00a2d363cc69aba4f1774600966060f,
     0xbe6aef34b0f5cd665005000000000000,
     0x0018867e4d9735feb19ab30c7b5e8d27,
     0xab6c9b6acec00a2d363cc69aba4f1774,
     0x600966060fbe6aef34b0f5cd66508525,
     0x92fb33abe9b80a33c804000000000000,
     0x00785e8d27ab6c9b6acec00a2d363cc6,
     0x9aba4f1774600966060fbe6aef34b0f5,
     0xcd6650852592fb33abe9b80a33c8c403,
     0x8c9befd7560e78f3531b000000000000,
     0x0028363cc69aba4f1774600966060fbe,
     0x6aef34b0f5cd6650852592fb33abe9b8,
     0x0a33c8c4038c9befd7560e78f3535bd9,
     0x46ad85fa8219b453ce29000000000000,
     0x0060060fbe6aef34b0f5cd6650852592,
     0xfb33abe9b80a33c8c4038c9befd7560e,
     0x78f3535bd946ad85fa8219b453ce2997,
     0xff510aa8c20cd2c3d02f000000000000,
     0x0098b27e279bba34e8187853d6ef6453,
     0x97061d036fcafa9d6cead2a063e04d59,
     0xbf934d5d1a740cbc29eb77b2a94b838e,
     0x813765fd4e367569d031000000000000,
     0x0018468dc76a6fab550eb4c3a8f158ed,
     0x6db5ca817618351eabbdad5639d00ea3,
     0xc663b5b7d52a07da61d478acf6b65ae5,
     0x403b8c1a8fd5de56ab1c000000000000,
     0x00781e3cbefab3d78219d2cf83c7577f,
     0xf65a3043fa79f0f8eacf5e0b66483f0f,
     0x1e5ffdd96bc10ce9e7c1e3ab3f7b2d98,
     0x21fd3c787cf567af0533000000000000,
     0x0028360f929beffac28c61c5e64172f3,
     0x5d5f9831acd83c486ebeeb0b3386159b,
     0x07c9cd777d61c6b062f320b9f9ae2fcc,
     0x18566c1e2437dff58519000000000000,
     0x006086258cab05a87256a1ccb08471b5,
     0x0055ce2a94199630ae16a0ca598532c3,
     0x12c6d5025439ab506658c2b85a802a67,
     0x15ca0c4b18570b50e52c000000000000,
     0x0050c503465d0a561b38c1aa78c0a84b,
     0xc16a032758150f187529586de004abe2,
     0x01a32e05ab0d9c60553c60d4a560b581,
     0x13ac8a078cba14ac3630000000000000,
     0x0018063c92ab05560f6c06399dacbd5f,
     0x0b3385aaa26c59fbb48e41fb3c1e18b7,
     0x149a7bf3fcf43bd69fd597b309ce0497,
     0x959d86ca41bad8961835000000000000,
     0x00781e0f8c5b0acdbd797efa1debcfea,
     0xcbd9046782cbca4e43e5205d6c4b8c9a,
     0x7f05adc2946bfcd57c43d5c066509be9,
     0x52673530338c190ff807000000000000,
     0x0028b62546cdbf825661ca35fe6abea1,
     0x6a6033a8cd74a9b31a9819c68c07fcc3,
     0xa66c05de30e0915c2db07a6033c8e964,
     0xedfd5a9829541565cb1a000000000000,
     0x0060c603fe6153b6026f18f048ae1658,
     0x3db019e474b2f67e2dcc14aa8ab265ed,
     0xd33a06edf37860dc5268eecdf3d3ef58,
     0x7f565fce2638135c5636000000000000,
     0x005045d9b2f6691d83f6793c306e2934,
     0xf7e6f9e977ac3fab2f67139c092e2b3b,
     0x0d958374b12d316afe15b40a53aef157,
     0xf30d55039b416da64b1d000000000000,
     0x00c80497959d86ca41bad8961835ff0a,
     0x5a8529d7f8abf986aa81cda036d3a5ce,
     0x6a606618331ef00f9bb21578c3804772,
     0xb5c0ea81cd20a793b537000000000000,
     0x00789e25fef1e9ca314c155c4edd6b39,
     0x6b869c8e35dfac7ef394e1615cfeb115,
     0xb4c57e40d6d200668566c274f6aeaf81,
     0x67a0dfaf6a4173551806000000000000,
     0x0028f603b29606302b3413a6b3777d0d,
     0x3c03fd7e550b9aabc23078306a9bea18,
     0xd2cc289bb2ad06b304ab6db23f83eac0,
     0xe657e3e496a2a0c07b1e000000000000,
     0x006046d9946d359825586d93fd195407,
     0x36bf1a27b7140505def32cf18f4f578e,
     0x61aae072ea5ecb5933e474acf966f59b,
     0xa70c0fe3f28fada02d36000000000000,
     0x0050059753f75ace9a21a763cd37abdf,
     0x3c657818977f6c056db11f90b5348059,
     0xa199309dbdeb6be019e8f7ab5ad05c15,
     0x86c18351db54c7906606000000000000,
     0x00c884e9ec5d5f03cf40bf5fd582e6aa,
     0x300c1e8cdaa63a863433caa66cabc12c,
     0xc16a9beccfa03ab0f9d538b9a52828f0,
     0x9e67897f7cba720c5305000000000000,
     0x0050db647f06d581cdafc6c92d454181,
     0xf73c4bfce3d39563982ab89cbad772d6,
     0x0c391d6bbe59fde629c3c3b8fc632b68,
     0x8bfd80aca501cc0acd04000000000000]"

definition mx72by462 :: "u8 list" where
  "mx72by462 = concat (map line_bytes (mx72by462_part1 @ mx72by462_part2))"

definition mx84by495_part1 :: "block list" where
  "mx84by495_part1 =
    [0x5001000000000000ef01000000000000,
     0xc0031ef080073ce0010f78c0031ef080,
     0x073ce0010f78c0031ef080073ce0010f,
     0x78c0031ef080073ce0010f78c0031ef0,
     0x80073ce0010f78c0031ef080073c0000,
     0xa0052d68410b5ad08216b4a0052d6841,
     0x0b5ad08216b4a0052d68410b5ad08216,
     0xb4a0052d68410b5ad08216b4a0052d68,
     0x410b5ad08216b4a0052d68410b5a0000,
     0x908634a4210d6948431ad2908634a421,
     0x0d6948431ad2908634a4210d6948431a,
     0xd2908634a4210d6948431ad2908634a4,
     0x210d6948431ad2908634a4210d690000,
     0x0c6318c318c63086318c610c6318c318,
     0xc63086318c610c6318c318c63086318c,
     0x610c6318c318c63086318c610c6318c3,
     0x18c63086318c610c6318c318c6300000,
     0x0a55a84215aa50852a54a10a55a84215,
     0xaa50852a54a10a55a84215aa50852a54,
     0xa10a55a84215aa50852a54a10a55a842,
     0x15aa50852a54a10a55a84215aa500000,
     0x094e7082139ce0042738c1094e708213,
     0x9ce0042738c1094e7082139ce0042738,
     0xc1094e7082139ce0042738c1094e7082,
     0x139ce0042738c1094e7082139c600000,
     0x00002da419a6d0049b6106f39bf2309e,
     0x576c66a822136acba97e6b0c0f1e58e2,
     0x0165e3b2e9263bd6af26d7b8a3fe47d6,
     0x949d3a7bff2cdf5a2805ff6cfa690000,
     0x008034c3149a6033cc607e531ec6f38a,
     0xcd0c5564426d39d56f8de1c1034b3ca0,
     0x6c5c36dd64c7fad5e41a77d4ffc89ab2,
     0x5367ef9fe55b0ba5e09f4d3f9d060000,
     0x00609842136c8619cc6fcac3785eb199,
     0xa18a4ca82da7faad313c78608907948d,
     0xcba69bec58bf9a5ce38efa1f595376ea,
     0xecfdb37c6ba114fcb3e9a7d360350000,
     0x00506882cd3083f94d7918cf2b363354,
     0x9109b5e554bf3586070f2cf180b271d9,
     0x74931deb57936bdc51ff236bca4e9dbd,
     0x7f966f2d94827f36fd741aacf65a0000,
     0x0048b0196630bf290fe379c566862a32,
     0xa1b69ceab7c6f0e081251e50362e9b6e,
     0xb263fd6a728d3bea7f644dd9a9b3f7cf,
     0xf2ad8552f0cfa69f4e83d55e5b5f0000,
     0x0030c30ce637e5613cafd8cc504526d4,
     0x9653fdd6181e3cb0c403cac665d34d76,
     0xac5f4dae7147fd8fac293b75f6fe59be,
     0xb5500afed9f4d369b0da6beb0b550000,
     0x0080b442cd30bf61145b156ad32f3c2c,
     0x5136d38d35b9a3ce5aea7ea605fe7dda,
     0x6af5657541750c66ce0eac0aa0655882,
     0x6730e5e731231339ad310f1ec0650000,
     0x006058826730e5e731231339ad310f1e,
     0xc0e5c97ed5b8ff50b6bdf35d0a9ba6e1,
     0xb550d51c5b2b073303bf19789056a819,
     0xe6378c62ab426dfa858725ca663a0000,
     0x0050a819e6378c62ab426dfa858725ca,
     0x66bab12677d4594bddcfb4c0bf4f5bad,
     0xbeac2ea88ec1ccd9815501b40c4bf00c,
     0xa6fc3c666422a735e6c103b83c590000,
     0x0048f00ca6fc3c666422a735e6c103b8,
     0x3cd9af1af71fcab677be4b61d334bc16,
     0xaa9a636be56066e037030fd20a35c3fc,
     0x86516c55a84dbff0b044d94c37560000,
     0x0030c3fc86516c55a84dbff0b044d94c,
     0x37d6e48e3a6ba9fb9916f8f769abd597,
     0xd505d53198393bb02a809661099ec194,
     0x9fc78c4ce4b4c63c78009727fb550000,
     0x0098c1949fc78c4ce4b4c63c78009727,
     0xfb55e3fe43d9f6ce77296c9a86d74255,
     0x736cad1ccc0cfc66e0415aa16698df30,
     0x8aad0ab5e9171e96289be9c69a5c0000,
     0x00609819a65cec4ce89707659b6c72ff,
     0x91ba7cf32f0df5d59c8e613630e031cc,
     0x0c532e7626f4cb83b24d36b9ff485dbe,
     0xf99786fa6a4ec7301b18f01866060000,
     0x0050e80c86c10cb5d5d8125c1eab71b3,
     0x666f2dd8d46a502d68e538fb66d02a74,
     0x06c36086da6a6c092e8fd5b859b3b716,
     0x6c6a35a816b4729c7d3368153a030000,
     0x0048f0fc9ea78a9cc2e301a6fbeaa895,
     0xfdb3527cfab5ac662b980d5c05482778,
     0x7ecf53454ee1f100d37d75d4cafe5929,
     0x3efd5a56b315cc06ae02a4133c3f0000,
     0x0030c3948b9d09fdf2a06c934dee3f52,
     0x976ffea5a1be9ad331cc06063c869961,
     0xcac5ce847e7950b6c926f71fa9cb37ff,
     0xd2505fcde9186603031ec3cc30650000,
     0x0098c13098a1b61a5b82cb63356ed6ec,
     0xad059b5a0daa05ad1c67df0c5a85ce60,
     0x18cc505b8d2dc1e5b11a376bf6d6824d,
     0xad06d582568eb36f06ad4267300c0000,
     0x0098dff3549153783cc0745f1db5b27f,
     0x568a4fbf96d56c05b381ab00e904cfef,
     0x79aac8293c1e60baaf8e5ad93f2bc5a7,
     0x5fcb6ab682d9c055807482e7f73c0000,
     0x0050e8fc8aad3678946daca34e9d163e,
     0x5ddf82827960a04df0949991531e70f9,
     0xabffb07729d20055b6c2eccd9036c330,
     0x54a15f4b982eb959fb19ffacc66a0000,
     0x0048f0949991531e70f9abffb07729d2,
     0x0055b6c2eccd9036c33054a15f4b982e,
     0xb959fb19ffacc66a1d73b60a0c9bc1f3,
     0x3251e3074cd6b8caceb74d5fab390000,
     0x0030c33054a15f4b982eb959fb19ffac,
     0xc66a1d73b60a0c9bc1f33251e3074cd6,
     0xb8caceb74d5fabb9ca1918780a9d5fb1,
     0xd5068fb28d75d4a9d3c2a7eb5b500000,
     0x0098c1f33251e3074cd6b8caceb74d5f,
     0xabb9ca1918780a9d5fb1d5068fb28d75,
     0xd4a9d3c2a7eb5b50300f0cb4099e3233,
     0x72ca032e7ff51ff62e451aa0ca560000,
     0x00985fb1d5068fb28d75d4a9d3c2a7eb,
     0x5b50300f0cb4099e323372ca032e7ff5,
     0x1ff62e451aa0ca5698bd19d26618862a,
     0xf46b09d325376b3fe39fd558ad630000,
     0x0098323372ca032e7ff51ff62e451aa0,
     0xca5698bd19d26618862af46b09d32537,
     0x6b3fe39fd558ad63ce56816133785e26,
     0x6afc80c91a57d9f9b6e96b3557390000,
     0x0048f03032010f2e2757d95a4803ab2b,
     0x373048cfa0d839b5c464476d6ffebdb6,
     0xa030ab8242a7ac8a1a97edab59cbf7a7,
     0xa1aa630383d60ccf531b0f4c675c0000,
     0x0030c3f3d4c603d3193775a5b09ae6c0,
     0xfc6686cd8f19fa7dc058fff1339bd697,
     0xad9c055e82879109787039b9cad6421a,
     0x585db981417a06c5cea925263b6a0000,
     0x009841b1736a89c98edadefc7b6d4161,
     0x5605854e5915352edb57b396ef4f4355,
     0xc70606ad199ea7361e98ceb8a92b85d5,
     0x3407e637336c7eccd0ef03c6fa0f0000,
     0x00981f33f4fb80b1fee36736ad2f5b39,
     0x0bbc040f2313f0e0727295ad8534b0ba,
     0x720383f40c8a9d534b4c76d4f6e6df6b,
     0x0b0ab32a2874caaaa871d9be9a350000,
     0x0098b22a6a5cb6af662ddf9f86aa8e0d,
     0x0c5a333c4f6d3c309d7153570aab690e,
     0xcc6f66d8fc98a1df078cf51f3fb3697d,
     0xd9ca59e02578189980079793ab6c0000,
     0x00184626e0c1e5e42a5b0b696075e506,
     0x06e919143ba79698eca8edcdbfd71614,
     0x665550e8945551e3b27d356bf9fe3454,
     0x756c60d09ae1796ae381e98c9b3a0000,
     0x003043b1f55bb6e4a68e7ff5d5f1c018,
     0x36e54cf060b2ffc8771a340733e099a1,
     0xd8fa2d5b7253c7bffaea78600c9b7226]"

definition mx84by495_part2 :: "block list" where
  "mx84by495_part2 =
    [0x7830d97fe43b0d9a8319f0cc506c0000,
     0x009801336acc65e3dadba650addc9b15,
     0x3a0cb55962ac59d382d50aca59d0ce80,
     0x1935e6b271ed6d53a856eecd0a1d86da,
     0x2c31d6ac69c16a05e52c6867c00c0000,
     0x00989f2ae061ba51ffecd3ac06731512,
     0xfcbc9c3ee0abca2ec56bd96a6048cf4f,
     0x15f030dda87ff6695683b90a097e5e4e,
     0x1ff0556597e2b56c3530a4e7a70a0000,
     0x009872267830d97fe43b0d9a8319f0cc,
     0x506cfd962db9a9e35f7d753c30864d39,
     0x133c98ec3ff29d06cdc10c786628b67e,
     0xcb96dcd4f1afbe3a1e18c3a69c090000,
     0x001886da2c31d6ac69c16a05e52c6867,
     0xc08c1a73d9b8f6b629542bf766850e43,
     0x6d96186bd6b460b5827216b43360468d,
     0xb96c5c7bdb14aa957bb34287a1360000,
     0x00785e4e1ff0556597e2b56c3530a4e7,
     0xa70a78986ed43ffb34abc15c85043f2f,
     0xa70ff8aab24bf15ab61a18d2f353053c,
     0x4c37ea9f7d9ad560ae42829f97530000,
     0x0098812a78305665f30faa6006de0c54,
     0xc183b12a9b7f500533f066a00a1e8c55,
     0xd9fc832a9881370355f060accae61f54,
     0xc10cbc19a88207635536ffa00a660000,
     0x00985f262cf1d5d4d994d53003edfc32,
     0x6189afa6cea6ac861968e797094b7c35,
     0x75366535cc403bbf4c58e2aba9b329ab,
     0x6106daf965c2125f4d9d4d590d330000,
     0x0098b2da1e905c7b7f5a739c85f494d5,
     0xf680e4dafbd39ae32ca4a7acb60724d7,
     0xde9fd61c67213d65b53d20b9f6feb4e6,
     0x380be929abed01c9b5f7a735c7590000,
     0x0018464ecb66dc9fa5a1a00666d83072,
     0x5a36e3fe2c0d053530c38691d3b219f7,
     0x676928a88119368c9c96cdb83f4b4341,
     0x0dccb061e4b46cc6fd591a0a6a600000,
     0x00789e7eb93cea7c5b8dad0353e8f3f4,
     0xcbe551e7db6a6c1d98429fa75f2e8f3a,
     0xdf5663ebc014fa3cfd7279d4f9b61a5b,
     0x07a6d0e7e997cba3ceb7d5d83a300000,
     0x0028768d4df70f2dbc56c76f4e70b16b,
     0x6cba7f68e1b53a7e73828b5d63d3fd43,
     0x0bafd5f19b135cec1a9bee1f5a78ad8e,
     0xdf9ce062d7d874ffd0c26b75fc660000,
     0x00989fdaca366a2dd417cca09d724eb9,
     0xfc8f52401566901e867e4d9735feb19a,
     0xb30c7b5e8d27ab6c9b6acec00a2d363c,
     0xc69aba4f1774600966060fbe6a6f0000,
     0x0098724eb9fc8f52401566901e867e4d,
     0x9735feb19ab30c7b5e8d27ab6c9b6ace,
     0xc00a2d363cc69aba4f1774600966060f,
     0xbe6aef34b0f5cd6650852592fb330000,
     0x0018867e4d9735feb19ab30c7b5e8d27,
     0xab6c9b6acec00a2d363cc69aba4f1774,
     0x600966060fbe6aef34b0f5cd66508525,
     0x92fb33abe9b80a33c8c4038c9b6f0000,
     0x00785e8d27ab6c9b6acec00a2d363cc6,
     0x9aba4f1774600966060fbe6aef34b0f5,
     0xcd6650852592fb33abe9b80a33c8c403,
     0x8c9befd7560e78f3535bd946ad050000,
     0x0028363cc69aba4f1774600966060fbe,
     0x6aef34b0f5cd6650852592fb33abe9b8,
     0x0a33c8c4038c9befd7560e78f3535bd9,
     0x46ad85fa8219b453ce2997ff510a0000,
     0x0060060fbe6aef34b0f5cd6650852592,
     0xfb33abe9b80a33c8c4038c9befd7560e,
     0x78f3535bd946ad85fa8219b453ce2997,
     0xff510aa8c20cd2c3d0afe9b2c63f0000,
     0x0098b27e279bba34e8187853d6ef6453,
     0x97061d036fcafa9d6cead2a063e04d59,
     0xbf934d5d1a740cbc29eb77b2a94b838e,
     0x813765fd4e367569d031f0a6ac5f0000,
     0x0018468dc76a6fab550eb4c3a8f158ed,
     0x6db5ca817618351eabbdad5639d00ea3,
     0xc663b5b7d52a07da61d478acf6b65ae5,
     0x403b8c1a8fd5de56ab1c688751630000,
     0x00781e3cbefab3d78219d2cf83c7577f,
     0xf65a3043fa79f0f8eacf5e0b66483f0f,
     0x1e5ffdd96bc10ce9e7c1e3ab3f7b2d98,
     0x21fd3c787cf567af0533a49f070f0000,
     0x0028360f929beffac28c61c5e64172f3,
     0x5d5f9831acd83c486ebeeb0b3386159b,
     0x07c9cd777d61c6b062f320b9f9ae2fcc,
     0x18566c1e2437dff58519c38acd030000,
     0x006086258cab05a87256a1ccb08471b5,
     0x0055ce2a94199630ae16a0ca598532c3,
     0x12c6d5025439ab506658c2b85a802a67,
     0x15ca0c4b18570b50e5ac429961090000,
     0x0050c503465d0a561b38c1aa78c0a84b,
     0xc16a032758150f187529586de004abe2,
     0x01a32e05ab0d9c60553c60d4a560b581,
     0x13ac8a078cba14ac36708255f1000000,
     0x0018063c92ab05560f6c06399dacbd5f,
     0x0b3385aaa26c59fbb48e41fb3c1e18b7,
     0x149a7bf3fcf43bd69fd597b309ce0497,
     0x959d86ca41bad8961835ff0a5a050000,
     0x00781e0f8c5b0acdbd797efa1debcfea,
     0xcbd9046782cbca4e43e5205d6c4b8c9a,
     0x7f05adc2946bfcd57c43d5c066509be9,
     0x52673530338c190ff8874dd90a3c0000,
     0x0028b62546cdbf825661ca35fe6abea1,
     0x6a6033a8cd74a9b31a9819c68c07fcc3,
     0xa66c05de30e0915c2db07a6033c8e964,
     0xedfd5a9829541565cbdaa7750c5a0000,
     0x0060c603fe6153b6026f18f048ae1658,
     0x3db019e474b2f67e2dcc14aa8ab265ed,
     0xd33a06edf37860dc5268eecdf3d3ef58,
     0x7f565fce2638135c56761a2a07690000,
     0x005045d9b2f6691d83f6793c306e2934,
     0xf7e6f9e977ac3fab2f67139c092e2b3b,
     0x0d958374b12d316afe15b40a53aef157,
     0xf30d55039b416da64b9dd5c0cc300000,
     0x00c80497959d86ca41bad8961835ff0a,
     0x5a8529d7f8abf986aa81cda036d3a5ce,
     0x6a606618331ef00f9bb21578c3804772,
     0xb5c0ea81cd20a793b5f76b61a6500000,
     0x00789e25fef1e9ca314c155c4edd6b39,
     0x6b869c8e35dfac7ef394e1615cfeb115,
     0xb4c57e40d6d200668566c274f6aeaf81,
     0x67a0dfaf6a41735518060f466d530000,
     0x0028f603b29606302b3413a6b3777d0d,
     0x3c03fd7e550b9aabc23078306a9bea18,
     0xd2cc289bb2ad06b304ab6db23f83eac0,
     0xe657e3e496a2a0c07b9e25fef1690000,
     0x006046d9946d359825586d93fd195407,
     0x36bf1a27b7140505def32cf18f4f578e,
     0x61aae072ea5ecb5933e474acf966f59b,
     0xa70c0fe3f28fada02df603b296060000,
     0x0050059753f75ace9a21a763cd37abdf,
     0x3c657818977f6c056db11f90b5348059,
     0xa199309dbdeb6be019e8f7ab5ad05c15,
     0x86c18351db54c7906646d9946d350000,
     0x00c884e9ec5d5f03cf40bf5fd582e6aa,
     0x300c1e8cdaa63a863433caa66cabc12c,
     0xc16a9beccfa03ab0f9d538b9a52828f0,
     0x9e67897f7cba720c53059753f75a0000,
     0x0050db647f06d581cdafc6c92d454181,
     0xf73c4bfce3d39563982ab89cbad772d6,
     0x0c391d6bbe59fde629c3c3b8fc632b68,
     0x8bfd80aca501cc0acd84e9ec5d5f0000,
     0x002876d95257df814d9907ff4803cccc,
     0xa0dfe4f24fc70ccbc464f3ad39e015bb,
     0x6ca9abefc0a6cc837fa4016666d06f72,
     0xf9a763866562b2f9d61cf08a5d360000,
     0x00600697ed0dd5370fc31259b31a6767,
     0x5063e3dab4720a55db58b55050d03283,
     0xcbf686ea9b876189ac598db333a8b171]"

definition mx84by495_part3 :: "block list" where
  "mx84by495_part3 =
    [0x6d5a3985aa6dac5a28286899c1650000,
     0x005085e97ec6ea2a3cef01ca7ead81e7,
     0x078f517f1acc09cee9574bc15648abc2,
     0x743f6375159ef70065bfd6c0f383c7a8,
     0x3f0de604e7f4aba5602ba455613a0000,
     0x00c8c464f3ad39e015bb6ca9abefc0a6,
     0xcc837fa4016666d06f72f9a763866562,
     0xb2f9d61cf08a5db6d4d5776053e6c13f,
     0xd2003333e837b9fcd331c33231590000,
     0x0050db58b55050d03283cbf686ea9b87,
     0x6189ac598db333a8b1716d5a3985aa6d,
     0xac5a28286899c1657b43f5cdc3b044d6,
     0xacc6d919d4d8b836ad9c42d536560000,
     0x00c8e9574bc15648abc2743f6375159e,
     0xf70065bfd6c0f383c7a83f0de604e7f4,
     0xaba5602ba45561ba9fb1ba0acf7b80b2,
     0x5f6be0f9c163d49f06738273fa550000,
     0x006086e9f25d50486762aca5d0b14273,
     0x9a5c9b82d90c351e751a383b3f1e64ed,
     0xb5031bc6035207d52a149bcb3fd31c68,
     0x5531592db095616afb2aff2a97600000,
     0x0050c564b5c05686a9edabfcab5c82f5,
     0x6bdc4fc36c06f0f887d50c3c654b28bb,
     0xbe6f7e5ed9eccd6ae031c374f92e28a4,
     0x3331d652e858a1394dae4dc16c060000,
     0x00c8c4584ba16385e634b93605b3196a,
     0x3cea3470767e3cc8da6b07368c07a40e,
     0xaa552836977fa639d0aa62b25a602bc3,
     0xd4f655fe552ec1fa35eea76136030000,
     0x0050db57f957b904ebd7b89f86d90ce0,
     0xf10fab1978ca9650767ddffcbcb2d99b,
     0xd5c06386e9f25d50486762aca5d0b142,
     0x739a5c9b82d90c351e751a383b3f0000,
     0x00c869726d0a6633d478d469e0ecfc78,
     0x90b5d70e6c180f481d54ab506c2eff4c,
     0x73a055c564b5c05686a9edabfcab5c82,
     0xf56bdc4fc36c06f0f887d50c3c650000,
     0x00d0af713f0db319c0e31f5633f0942d,
     0xa1ecfabef97965b337ab81c70cd3e5bb,
     0xa090cec4584ba16385e634b93605b319,
     0x6a3cea3470767e3cc8da6b07360c0000]"

definition mx84by495 :: "u8 list" where
  "mx84by495 = concat (map line_bytes (mx84by495_part1 @ mx84by495_part2 @ mx84by495_part3))"

definition mx90by495_part1 :: "block list" where
  "mx90by495_part1 =
    [0x6801000000000000ef01000000000000,
     0xc0031ef080073ce0010f78c0031ef080,
     0x073ce0010f78c0031ef080073ce0010f,
     0x78c0031ef080073ce0010f78c0031ef0,
     0x80073ce0010f78c0031ef080073c0000,
     0xa0052d68410b5ad08216b4a0052d6841,
     0x0b5ad08216b4a0052d68410b5ad08216,
     0xb4a0052d68410b5ad08216b4a0052d68,
     0x410b5ad08216b4a0052d68410b5a0000,
     0x908634a4210d6948431ad2908634a421,
     0x0d6948431ad2908634a4210d6948431a,
     0xd2908634a4210d6948431ad2908634a4,
     0x210d6948431ad2908634a4210d690000,
     0x0c6318c318c63086318c610c6318c318,
     0xc63086318c610c6318c318c63086318c,
     0x610c6318c318c63086318c610c6318c3,
     0x18c63086318c610c6318c318c6300000,
     0x0a55a84215aa50852a54a10a55a84215,
     0xaa50852a54a10a55a84215aa50852a54,
     0xa10a55a84215aa50852a54a10a55a842,
     0x15aa50852a54a10a55a84215aa500000,
     0x094e7082139ce0042738c1094e708213,
     0x9ce0042738c1094e7082139ce0042738,
     0xc1094e7082139ce0042738c1094e7082,
     0x139ce0042738c1094e7082139c600000,
     0x00002da419a6d0049b6106f39bf2309e,
     0x576c66a822136acba97e6b0c0f1e58e2,
     0x0165e3b2e9263bd6af26d7b8a3fe47d6,
     0x949d3a7bff2cdf5a2805ff6cfa690000,
     0x008034c3149a6033cc607e531ec6f38a,
     0xcd0c5564426d39d56f8de1c1034b3ca0,
     0x6c5c36dd64c7fad5e41a77d4ffc89ab2,
     0x5367ef9fe55b0ba5e09f4d3f9d060000,
     0x00609842136c8619cc6fcac3785eb199,
     0xa18a4ca82da7faad313c78608907948d,
     0xcba69bec58bf9a5ce38efa1f595376ea,
     0xecfdb37c6ba114fcb3e9a7d360350000,
     0x00506882cd3083f94d7918cf2b363354,
     0x9109b5e554bf3586070f2cf180b271d9,
     0x74931deb57936bdc51ff236bca4e9dbd,
     0x7f966f2d94827f36fd741aacf65a0000,
     0x0048b0196630bf290fe379c566862a32,
     0xa1b69ceab7c6f0e081251e50362e9b6e,
     0xb263fd6a728d3bea7f644dd9a9b3f7cf,
     0xf2ad8552f0cfa69f4e83d55e5b5f0000,
     0x0030c30ce637e5613cafd8cc504526d4,
     0x9653fdd6181e3cb0c403cac665d34d76,
     0xac5f4dae7147fd8fac293b75f6fe59be,
     0xb5500afed9f4d369b0da6beb0b550000,
     0x0080b442cd30bf61145b156ad32f3c2c,
     0x5136d38d35b9a3ce5aea7ea605fe7dda,
     0x6af5657541750c66ce0eac0aa0655882,
     0x6730e5e731231339ad310f1ec0650000,
     0x006058826730e5e731231339ad310f1e,
     0xc0e5c97ed5b8ff50b6bdf35d0a9ba6e1,
     0xb550d51c5b2b073303bf19789056a819,
     0xe6378c62ab426dfa858725ca663a0000,
     0x0050a819e6378c62ab426dfa858725ca,
     0x66bab12677d4594bddcfb4c0bf4f5bad,
     0xbeac2ea88ec1ccd9815501b40c4bf00c,
     0xa6fc3c666422a735e6c103b83c590000,
     0x0048f00ca6fc3c666422a735e6c103b8,
     0x3cd9af1af71fcab677be4b61d334bc16,
     0xaa9a636be56066e037030fd20a35c3fc,
     0x86516c55a84dbff0b044d94c37560000,
     0x0030c3fc86516c55a84dbff0b044d94c,
     0x37d6e48e3a6ba9fb9916f8f769abd597,
     0xd505d53198393bb02a809661099ec194,
     0x9fc78c4ce4b4c63c78009727fb550000,
     0x0098c1949fc78c4ce4b4c63c78009727,
     0xfb55e3fe43d9f6ce77296c9a86d74255,
     0x736cad1ccc0cfc66e0415aa16698df30,
     0x8aad0ab5e9171e96289be9c69a5c0000,
     0x00609819a65cec4ce89707659b6c72ff,
     0x91ba7cf32f0df5d59c8e613630e031cc,
     0x0c532e7626f4cb83b24d36b9ff485dbe,
     0xf99786fa6a4ec7301b18f01866060000,
     0x0050e80c86c10cb5d5d8125c1eab71b3,
     0x666f2dd8d46a502d68e538fb66d02a74,
     0x06c36086da6a6c092e8fd5b859b3b716,
     0x6c6a35a816b4729c7d3368153a030000,
     0x0048f0fc9ea78a9cc2e301a6fbeaa895,
     0xfdb3527cfab5ac662b980d5c05482778,
     0x7ecf53454ee1f100d37d75d4cafe5929,
     0x3efd5a56b315cc06ae02a4133c3f0000,
     0x0030c3948b9d09fdf2a06c934dee3f52,
     0x976ffea5a1be9ad331cc06063c869961,
     0xcac5ce847e7950b6c926f71fa9cb37ff,
     0xd2505fcde9186603031ec3cc30650000,
     0x0098c13098a1b61a5b82cb63356ed6ec,
     0xad059b5a0daa05ad1c67df0c5a85ce60,
     0x18cc505b8d2dc1e5b11a376bf6d6824d,
     0xad06d582568eb36f06ad4267300c0000,
     0x0098dff3549153783cc0745f1db5b27f,
     0x568a4fbf96d56c05b381ab00e904cfef,
     0x79aac8293c1e60baaf8e5ad93f2bc5a7,
     0x5fcb6ab682d9c055807482e7f73c0000,
     0x0050e8fc8aad3678946daca34e9d163e,
     0x5ddf82827960a04df0949991531e70f9,
     0xabffb07729d20055b6c2eccd9036c330,
     0x54a15f4b982eb959fb19ffacc66a0000,
     0x0048f0949991531e70f9abffb07729d2,
     0x0055b6c2eccd9036c33054a15f4b982e,
     0xb959fb19ffacc66a1d73b60a0c9bc1f3,
     0x3251e3074cd6b8caceb74d5fab390000,
     0x0030c33054a15f4b982eb959fb19ffac,
     0xc66a1d73b60a0c9bc1f33251e3074cd6,
     0xb8caceb74d5fabb9ca1918780a9d5fb1,
     0xd5068fb28d75d4a9d3c2a7eb5b500000,
     0x0098c1f33251e3074cd6b8caceb74d5f,
     0xabb9ca1918780a9d5fb1d5068fb28d75,
     0xd4a9d3c2a7eb5b50300f0cb4099e3233,
     0x72ca032e7ff51ff62e451aa0ca560000,
     0x00985fb1d5068fb28d75d4a9d3c2a7eb,
     0x5b50300f0cb4099e323372ca032e7ff5,
     0x1ff62e451aa0ca5698bd19d26618862a,
     0xf46b09d325376b3fe39fd558ad630000,
     0x0098323372ca032e7ff51ff62e451aa0,
     0xca5698bd19d26618862af46b09d32537,
     0x6b3fe39fd558ad63ce56816133785e26,
     0x6afc80c91a57d9f9b6e96b3557390000,
     0x0048f03032010f2e2757d95a4803ab2b,
     0x373048cfa0d839b5c464476d6ffebdb6,
     0xa030ab8242a7ac8a1a97edab59cbf7a7,
     0xa1aa630383d60ccf531b0f4c675c0000,
     0x0030c3f3d4c603d3193775a5b09ae6c0,
     0xfc6686cd8f19fa7dc058fff1339bd697,
     0xad9c055e82879109787039b9cad6421a,
     0x585db981417a06c5cea925263b6a0000,
     0x009841b1736a89c98edadefc7b6d4161,
     0x5605854e5915352edb57b396ef4f4355,
     0xc70606ad199ea7361e98ceb8a92b85d5,
     0x3407e637336c7eccd0ef03c6fa0f0000,
     0x00981f33f4fb80b1fee36736ad2f5b39,
     0x0bbc040f2313f0e0727295ad8534b0ba,
     0x720383f40c8a9d534b4c76d4f6e6df6b,
     0x0b0ab32a2874caaaa871d9be9a350000,
     0x0098b22a6a5cb6af662ddf9f86aa8e0d,
     0x0c5a333c4f6d3c309d7153570aab690e,
     0xcc6f66d8fc98a1df078cf51f3fb3697d,
     0xd9ca59e02578189980079793ab6c0000,
     0x00184626e0c1e5e42a5b0b696075e506,
     0x06e919143ba79698eca8edcdbfd71614,
     0x665550e8945551e3b27d356bf9fe3454,
     0x756c60d09ae1796ae381e98c9b3a0000,
     0x003043b1f55bb6e4a68e7ff5d5f1c018,
     0x36e54cf060b2ffc8771a340733e099a1,
     0xd8fa2d5b7253c7bffaea78600c9b7226]"

definition mx90by495_part2 :: "block list" where
  "mx90by495_part2 =
    [0x7830d97fe43b0d9a8319f0cc506c0000,
     0x009801336acc65e3dadba650addc9b15,
     0x3a0cb55962ac59d382d50aca59d0ce80,
     0x1935e6b271ed6d53a856eecd0a1d86da,
     0x2c31d6ac69c16a05e52c6867c00c0000,
     0x00989f2ae061ba51ffecd3ac06731512,
     0xfcbc9c3ee0abca2ec56bd96a6048cf4f,
     0x15f030dda87ff6695683b90a097e5e4e,
     0x1ff0556597e2b56c3530a4e7a70a0000,
     0x009872267830d97fe43b0d9a8319f0cc,
     0x506cfd962db9a9e35f7d753c30864d39,
     0x133c98ec3ff29d06cdc10c786628b67e,
     0xcb96dcd4f1afbe3a1e18c3a69c090000,
     0x001886da2c31d6ac69c16a05e52c6867,
     0xc08c1a73d9b8f6b629542bf766850e43,
     0x6d96186bd6b460b5827216b43360468d,
     0xb96c5c7bdb14aa957bb34287a1360000,
     0x00785e4e1ff0556597e2b56c3530a4e7,
     0xa70a78986ed43ffb34abc15c85043f2f,
     0xa70ff8aab24bf15ab61a18d2f353053c,
     0x4c37ea9f7d9ad560ae42829f97530000,
     0x0098812a78305665f30faa6006de0c54,
     0xc183b12a9b7f500533f066a00a1e8c55,
     0xd9fc832a9881370355f060accae61f54,
     0xc10cbc19a88207635536ffa00a660000,
     0x00985f262cf1d5d4d994d53003edfc32,
     0x6189afa6cea6ac861968e797094b7c35,
     0x75366535cc403bbf4c58e2aba9b329ab,
     0x6106daf965c2125f4d9d4d590d330000,
     0x0098b2da1e905c7b7f5a739c85f494d5,
     0xf680e4dafbd39ae32ca4a7acb60724d7,
     0xde9fd61c67213d65b53d20b9f6feb4e6,
     0x380be929abed01c9b5f7a735c7590000,
     0x0018464ecb66dc9fa5a1a00666d83072,
     0x5a36e3fe2c0d053530c38691d3b219f7,
     0x676928a88119368c9c96cdb83f4b4341,
     0x0dccb061e4b46cc6fd591a0a6a600000,
     0x00789e7eb93cea7c5b8dad0353e8f3f4,
     0xcbe551e7db6a6c1d98429fa75f2e8f3a,
     0xdf5663ebc014fa3cfd7279d4f9b61a5b,
     0x07a6d0e7e997cba3ceb7d5d83a300000,
     0x0028768d4df70f2dbc56c76f4e70b16b,
     0x6cba7f68e1b53a7e73828b5d63d3fd43,
     0x0bafd5f19b135cec1a9bee1f5a78ad8e,
     0xdf9ce062d7d874ffd0c26b75fc660000,
     0x00989fdaca366a2dd417cca09d724eb9,
     0xfc8f52401566901e867e4d9735feb19a,
     0xb30c7b5e8d27ab6c9b6acec00a2d363c,
     0xc69aba4f1774600966060fbe6a6f0000,
     0x0098724eb9fc8f52401566901e867e4d,
     0x9735feb19ab30c7b5e8d27ab6c9b6ace,
     0xc00a2d363cc69aba4f1774600966060f,
     0xbe6aef34b0f5cd6650852592fb330000,
     0x0018867e4d9735feb19ab30c7b5e8d27,
     0xab6c9b6acec00a2d363cc69aba4f1774,
     0x600966060fbe6aef34b0f5cd66508525,
     0x92fb33abe9b80a33c8c4038c9b6f0000,
     0x00785e8d27ab6c9b6acec00a2d363cc6,
     0x9aba4f1774600966060fbe6aef34b0f5,
     0xcd6650852592fb33abe9b80a33c8c403,
     0x8c9befd7560e78f3535bd946ad050000,
     0x0028363cc69aba4f1774600966060fbe,
     0x6aef34b0f5cd6650852592fb33abe9b8,
     0x0a33c8c4038c9befd7560e78f3535bd9,
     0x46ad85fa8219b453ce2997ff510a0000,
     0x0060060fbe6aef34b0f5cd6650852592,
     0xfb33abe9b80a33c8c4038c9befd7560e,
     0x78f3535bd946ad85fa8219b453ce2997,
     0xff510aa8c20cd2c3d0afe9b2c63f0000,
     0x0098b27e279bba34e8187853d6ef6453,
     0x97061d036fcafa9d6cead2a063e04d59,
     0xbf934d5d1a740cbc29eb77b2a94b838e,
     0x813765fd4e367569d031f0a6ac5f0000,
     0x0018468dc76a6fab550eb4c3a8f158ed,
     0x6db5ca817618351eabbdad5639d00ea3,
     0xc663b5b7d52a07da61d478acf6b65ae5,
     0x403b8c1a8fd5de56ab1c688751630000,
     0x00781e3cbefab3d78219d2cf83c7577f,
     0xf65a3043fa79f0f8eacf5e0b66483f0f,
     0x1e5ffdd96bc10ce9e7c1e3ab3f7b2d98,
     0x21fd3c787cf567af0533a49f070f0000,
     0x0028360f929beffac28c61c5e64172f3,
     0x5d5f9831acd83c486ebeeb0b3386159b,
     0x07c9cd777d61c6b062f320b9f9ae2fcc,
     0x18566c1e2437dff58519c38acd030000,
     0x006086258cab05a87256a1ccb08471b5,
     0x0055ce2a94199630ae16a0ca598532c3,
     0x12c6d5025439ab506658c2b85a802a67,
     0x15ca0c4b18570b50e5ac429961090000,
     0x0050c503465d0a561b38c1aa78c0a84b,
     0xc16a032758150f187529586de004abe2,
     0x01a32e05ab0d9c60553c60d4a560b581,
     0x13ac8a078cba14ac36708255f1000000,
     0x0018063c92ab05560f6c06399dacbd5f,
     0x0b3385aaa26c59fbb48e41fb3c1e18b7,
     0x149a7bf3fcf43bd69fd597b309ce0497,
     0x959d86ca41bad8961835ff0a5a050000,
     0x00781e0f8c5b0acdbd797efa1debcfea,
     0xcbd9046782cbca4e43e5205d6c4b8c9a,
     0x7f05adc2946bfcd57c43d5c066509be9,
     0x52673530338c190ff8874dd90a3c0000,
     0x0028b62546cdbf825661ca35fe6abea1,
     0x6a6033a8cd74a9b31a9819c68c07fcc3,
     0xa66c05de30e0915c2db07a6033c8e964,
     0xedfd5a9829541565cbdaa7750c5a0000,
     0x0060c603fe6153b6026f18f048ae1658,
     0x3db019e474b2f67e2dcc14aa8ab265ed,
     0xd33a06edf37860dc5268eecdf3d3ef58,
     0x7f565fce2638135c56761a2a07690000,
     0x005045d9b2f6691d83f6793c306e2934,
     0xf7e6f9e977ac3fab2f67139c092e2b3b,
     0x0d958374b12d316afe15b40a53aef157,
     0xf30d55039b416da64b9dd5c0cc300000,
     0x00c80497959d86ca41bad8961835ff0a,
     0x5a8529d7f8abf986aa81cda036d3a5ce,
     0x6a606618331ef00f9bb21578c3804772,
     0xb5c0ea81cd20a793b5f76b61a6500000,
     0x00789e25fef1e9ca314c155c4edd6b39,
     0x6b869c8e35dfac7ef394e1615cfeb115,
     0xb4c57e40d6d200668566c274f6aeaf81,
     0x67a0dfaf6a41735518060f466d530000,
     0x0028f603b29606302b3413a6b3777d0d,
     0x3c03fd7e550b9aabc23078306a9bea18,
     0xd2cc289bb2ad06b304ab6db23f83eac0,
     0xe657e3e496a2a0c07b9e25fef1690000,
     0x006046d9946d359825586d93fd195407,
     0x36bf1a27b7140505def32cf18f4f578e,
     0x61aae072ea5ecb5933e474acf966f59b,
     0xa70c0fe3f28fada02df603b296060000,
     0x0050059753f75ace9a21a763cd37abdf,
     0x3c657818977f6c056db11f90b5348059,
     0xa199309dbdeb6be019e8f7ab5ad05c15,
     0x86c18351db54c7906646d9946d350000,
     0x00c884e9ec5d5f03cf40bf5fd582e6aa,
     0x300c1e8cdaa63a863433caa66cabc12c,
     0xc16a9beccfa03ab0f9d538b9a52828f0,
     0x9e67897f7cba720c53059753f75a0000,
     0x0050db647f06d581cdafc6c92d454181,
     0xf73c4bfce3d39563982ab89cbad772d6,
     0x0c391d6bbe59fde629c3c3b8fc632b68,
     0x8bfd80aca501cc0acd84e9ec5d5f0000,
     0x002876d95257df814d9907ff4803cccc,
     0xa0dfe4f24fc70ccbc464f3ad39e015bb,
     0x6ca9abefc0a6cc837fa4016666d06f72,
     0xf9a763866562b2f9d61cf08a5d360000,
     0x00600697ed0dd5370fc31259b31a6767,
     0x5063e3dab4720a55db58b55050d03283,
     0xcbf686ea9b876189ac598db333a8b171]"

definition mx90by495_part3 :: "block list" where
  "mx90by495_part3 =
    [0x6d5a3985aa6dac5a28286899c1650000,
     0x005085e97ec6ea2a3cef01ca7ead81e7,
     0x078f517f1acc09cee9574bc15648abc2,
     0x743f6375159ef70065bfd6c0f383c7a8,
     0x3f0de604e7f4aba5602ba455613a0000,
     0x00c8c464f3ad39e015bb6ca9abefc0a6,
     0xcc837fa4016666d06f72f9a763866562,
     0xb2f9d61cf08a5db6d4d5776053e6c13f,
     0xd2003333e837b9fcd331c33231590000,
     0x0050db58b55050d03283cbf686ea9b87,
     0x6189ac598db333a8b1716d5a3985aa6d,
     0xac5a28286899c1657b43f5cdc3b044d6,
     0xacc6d919d4d8b836ad9c42d536560000,
     0x00c8e9574bc15648abc2743f6375159e,
     0xf70065bfd6c0f383c7a83f0de604e7f4,
     0xaba5602ba45561ba9fb1ba0acf7b80b2,
     0x5f6be0f9c163d49f06738273fa550000,
     0x006086e9f25d50486762aca5d0b14273,
     0x9a5c9b82d90c351e751a383b3f1e64ed,
     0xb5031bc6035207d52a149bcb3fd31c68,
     0x5531592db095616afb2aff2a97600000,
     0x0050c564b5c05686a9edabfcab5c82f5,
     0x6bdc4fc36c06f0f887d50c3c654b28bb,
     0xbe6f7e5ed9eccd6ae031c374f92e28a4,
     0x3331d652e858a1394dae4dc16c060000,
     0x00c8c4584ba16385e634b93605b3196a,
     0x3cea3470767e3cc8da6b07368c07a40e,
     0xaa552836977fa639d0aa62b25a602bc3,
     0xd4f655fe552ec1fa35eea76136030000,
     0x0050db57f957b904ebd7b89f86d90ce0,
     0xf10fab1978ca9650767ddffcbcb2d99b,
     0xd5c06386e9f25d50486762aca5d0b142,
     0x739a5c9b82d90c351e751a383b3f0000,
     0x00c869726d0a6633d478d469e0ecfc78,
     0x90b5d70e6c180f481d54ab506c2eff4c,
     0x73a055c564b5c05686a9edabfcab5c82,
     0xf56bdc4fc36c06f0f887d50c3c650000,
     0x00d0af713f0db319c0e31f5633f0942d,
     0xa1ecfabef97965b337ab81c70cd3e5bb,
     0xa090cec4584ba16385e634b93605b319,
     0x6a3cea3470767e3cc8da6b07360c0000,
     0x0050c558f907e619f040d950059e2ac6,
     0xca3f30cf8007ca862af0543156fe8179,
     0x063c50365481a78ab1f20fcc33e081b2,
     0xa10a3c558c957f609e010f940d550000,
     0x00c8c4576d0ab3f9592275ac066d26be,
     0x6a5398cdcf12a963356833f1559bc26c,
     0x7e96481dab419b89afda1466f3b344ea,
     0x580dda4c7cd5a6309b9f2552c76a0000,
     0x00505b723fcdd9293fc0de9a83b4da92,
     0xfb69ce4ef901f6d61ca4d596dc4f7376,
     0xca0fb0b7e620adb6e47e9ab3537e80bd,
     0x350769b525f7d39c9df203ecad390000,
     0x00c8a971d360e06194ed670565584e8d,
     0x9b06030fa36c3f2b28c3726adc341878,
     0x1865fb5941199653e3a6c1c0c328dbcf,
     0x0acab09c1a370d061e46d97e56500000,
     0x00d0efa8ad36b0e77139df6c55a87e47,
     0x6db5813d8fcbf966ab42f53b6aab0dec,
     0x795cce375b15aadf515b6d60cfe372be,
     0xd9aa50fd8eda6a037b1e97f3cd560000,
     0x00a8f13f5efbe6629b4e0b3a4e708dff,
     0xf1da3717db745ad071826bfc8fd7beb9,
     0xd8a6d3828e135ce37fbcf6cdc5369d16,
     0x749ce01affe3b56f2eb6e9b4a0630000]"

definition mx90by495 :: "u8 list" where
  "mx90by495 = concat (map line_bytes (mx90by495_part1 @ mx90by495_part2 @ mx90by495_part3))"

end
