(* ===== verification/Mx_Codes_Medium.thy ===== *)
theory Mx_Codes_Medium
  imports Prelude
begin

text \<open>
  The generator matrices for 132 to 162 input bits (\<^verbatim>\<open>libPSI/Tools/mx_*_by_*.h\<close>), one block
  numeral for a line of sixteen bytes of the source, with the digits in the order of the line.
\<close>

definition mx132by583_part1 :: "block list" where
  "mx132by583_part1 =
    [0x94020000000000004702000000000000,
     0xc0031ef080073ce0010f78c0031ef080,
     0x073ce0010f78c0031ef080073ce0010f,
     0x78c0031ef080073ce0010f78c0031ef0,
     0x80073ce0010f78c0031ef080073ce001,
     0x0f78c0031ef080073c00000000000000,
     0xa0052d68410b5ad08216b4a0052d6841,
     0x0b5ad08216b4a0052d68410b5ad08216,
     0xb4a0052d68410b5ad08216b4a0052d68,
     0x410b5ad08216b4a0052d68410b5ad082,
     0x16b4a0052d68410b5a00000000000000,
     0x908634a4210d6948431ad2908634a421,
     0x0d6948431ad2908634a4210d6948431a,
     0xd2908634a4210d6948431ad2908634a4,
     0x210d6948431ad2908634a4210d694843,
     0x1ad2908634a4210d6900000000000000,
     0x0c6318c318c63086318c610c6318c318,
     0xc63086318c610c6318c318c63086318c,
     0x610c6318c318c63086318c610c6318c3,
     0x18c63086318c610c6318c318c6308631,
     0x8c610c6318c318c63000000000000000,
     0x0a55a84215aa50852a54a10a55a84215,
     0xaa50852a54a10a55a84215aa50852a54,
     0xa10a55a84215aa50852a54a10a55a842,
     0x15aa50852a54a10a55a84215aa50852a,
     0x54a10a55a84215aa5000000000000000,
     0x094e7082139ce0042738c1094e708213,
     0x9ce0042738c1094e7082139ce0042738,
     0xc1094e7082139ce0042738c1094e7082,
     0x139ce0042738c1094e7082139ce00427,
     0x38c1094e7082139c6000000000000000,
     0x00002da419a6d0049b6106f39bf2309e,
     0x576c66a822136acba97e6b0c0f1e58e2,
     0x0165e3b2e9263bd6af26d7b8a3fe47d6,
     0x949d3a7bff2cdf5a2805ff6cfae93458,
     0xedb5f5852aab35575000000000000000,
     0x008034c3149a6033cc607e531ec6f38a,
     0xcd0c5564426d39d56f8de1c1034b3ca0,
     0x6c5c36dd64c7fad5e41a77d4ffc89ab2,
     0x5367ef9fe55b0ba5e09f4d3f9d06abbd,
     0xb6be5065b5e60aca5600000000000000,
     0x00609842136c8619cc6fcac3785eb199,
     0xa18a4ca82da7faad313c78608907948d,
     0xcba69bec58bf9a5ce38efa1f595376ea,
     0xecfdb37c6ba114fcb3e9a7d360b5d7d6,
     0x17aaacd65c41d9aa6300000000000000,
     0x00506882cd3083f94d7918cf2b363354,
     0x9109b5e554bf3586070f2cf180b271d9,
     0x74931deb57936bdc51ff236bca4e9dbd,
     0x7f966f2d94827f36fd741aacf6dafa42,
     0x95d59a2b285b755c3900000000000000,
     0x0048b0196630bf290fe379c566862a32,
     0xa1b69ceab7c6f0e081251e50362e9b6e,
     0xb263fd6a728d3bea7f644dd9a9b3f7cf,
     0xf2ad8552f0cfa69f4e83d55e5b5fa8b2,
     0x5a730565ab8e2b076600000000000000,
     0x0030c30ce637e5613cafd8cc504526d4,
     0x9653fdd6181e3cb0c403cac665d34d76,
     0xac5f4dae7147fd8fac293b75f6fe59be,
     0xb5500afed9f4d369b0da6beb0b55566b,
     0xaea06cd571e5c00c3300000000000000,
     0x0080b442cd30bf61145b156ad32f3c2c,
     0x5136d38d35b9a3ce5aea7ea605fe7dda,
     0x6af5657541750c66ce0eac0aa0655882,
     0x6730e5e731231339ad310f1ec0e5c97e,
     0xd5b8ff50b6bdf35d0a00000000000000,
     0x006058826730e5e731231339ad310f1e,
     0xc0e5c97ed5b8ff50b6bdf35d0a9ba6e1,
     0xb550d51c5b2b073303bf19789056a819,
     0xe6378c62ab426dfa858725ca66bab126,
     0x77d4594bddcfb4c03f00000000000000,
     0x0050a819e6378c62ab426dfa858725ca,
     0x66bab12677d4594bddcfb4c0bf4f5bad,
     0xbeac2ea88ec1ccd9815501b40c4bf00c,
     0xa6fc3c666422a735e6c103b83cd9af1a,
     0xf71fcab677be4b615300000000000000,
     0x0048f00ca6fc3c666422a735e6c103b8,
     0x3cd9af1af71fcab677be4b61d334bc16,
     0xaa9a636be56066e037030fd20a35c3fc,
     0x86516c55a84dbff0b044d94c37d6e48e,
     0x3a6ba9fb9916f8f76900000000000000,
     0x0030c3fc86516c55a84dbff0b044d94c,
     0x37d6e48e3a6ba9fb9916f8f769abd597,
     0xd505d53198393bb02a809661099ec194,
     0x9fc78c4ce4b4c63c78009727fb55e3fe,
     0x43d9f6ce77296c9a0600000000000000,
     0x0098c1949fc78c4ce4b4c63c78009727,
     0xfb55e3fe43d9f6ce77296c9a86d74255,
     0x736cad1ccc0cfc66e0415aa16698df30,
     0x8aad0ab5e9171e96289be9c69adc5167,
     0x2d753fd302ff3e6d3500000000000000,
     0x00609819a65cec4ce89707659b6c72ff,
     0x91ba7cf32f0df5d59c8e613630e031cc,
     0x0c532e7626f4cb83b24d36b9ff485dbe,
     0xf99786fa6a4ec7301b18f01866862917,
     0x3b13fae541d9269b5c00000000000000,
     0x0050e80c86c10cb5d5d8125c1eab71b3,
     0x666f2dd8d46a502d68e538fb66d02a74,
     0x06c36086da6a6c092e8fd5b859b3b716,
     0x6c6a35a816b4729c7d3368153a836130,
     0x436d35b60497c76a5c00000000000000,
     0x0048f0fc9ea78a9cc2e301a6fbeaa895,
     0xfdb3527cfab5ac662b980d5c05482778,
     0x7ecf53454ee1f100d37d75d4cafe5929,
     0x3efd5a56b315cc06ae02a4133cbfe7a9,
     0x22a7f07880e9be3a6a00000000000000,
     0x0030c3948b9d09fdf2a06c934dee3f52,
     0x976ffea5a1be9ad331cc06063c869961,
     0xcac5ce847e7950b6c926f71fa9cb37ff,
     0xd2505fcde9186603031ec3cc30e56267,
     0x42bf3c28db6493fb0f00000000000000,
     0x0098c13098a1b61a5b82cb63356ed6ec,
     0xad059b5a0daa05ad1c67df0c5a85ce60,
     0x18cc505b8d2dc1e5b11a376bf6d6824d,
     0xad06d582568eb36f06ad4267300c66a8,
     0xadc696e0f2588d9b3500000000000000,
     0x0098dff3549153783cc0745f1db5b27f,
     0x568a4fbf96d56c05b381ab00e904cfef,
     0x79aac8293c1e60baaf8e5ad93f2bc5a7,
     0x5fcb6ab682d9c055807482e7f73c55e4,
     0x141e0f30dd5747ad6c00000000000000,
     0x0050e8fc8aad3678946daca34e9d163e,
     0x5ddf82827960a04df0949991531e70f9,
     0xabffb07729d20055b6c2eccd9036c330,
     0x54a15f4b982eb959fb19ffacc66a1d73,
     0xb60a0c9bc1f332516300000000000000,
     0x0048f0949991531e70f9abffb07729d2,
     0x0055b6c2eccd9036c33054a15f4b982e,
     0xb959fb19ffacc66a1d73b60a0c9bc1f3,
     0x3251e3074cd6b8caceb74d5fabb9ca19,
     0x18780a9d5fb1d5060f00000000000000,
     0x0030c33054a15f4b982eb959fb19ffac,
     0xc66a1d73b60a0c9bc1f33251e3074cd6,
     0xb8caceb74d5fabb9ca1918780a9d5fb1,
     0xd5068fb28d75d4a9d3c2a7eb5b50300f,
     0x0cb4099e323372ca0300000000000000,
     0x0098c1f33251e3074cd6b8caceb74d5f,
     0xabb9ca1918780a9d5fb1d5068fb28d75,
     0xd4a9d3c2a7eb5b50300f0cb4099e3233,
     0x72ca032e7ff51ff62e451aa0ca5698bd,
     0x19d26618862af46b0900000000000000,
     0x00985fb1d5068fb28d75d4a9d3c2a7eb,
     0x5b50300f0cb4099e323372ca032e7ff5,
     0x1ff62e451aa0ca5698bd19d26618862a,
     0xf46b09d325376b3fe39fd558ad63ce56,
     0x816133785e266afc0000000000000000,
     0x0098323372ca032e7ff51ff62e451aa0,
     0xca5698bd19d26618862af46b09d32537]"

definition mx132by583_part2 :: "block list" where
  "mx132by583_part2 =
    [0x6b3fe39fd558ad63ce56816133785e26,
     0x6afc80c91a57d9f9b6e96b3557390303,
     0x4fa1f32bb6dae0513600000000000000,
     0x0048f03032010f2e2757d95a4803ab2b,
     0x373048cfa0d839b5c464476d6ffebdb6,
     0xa030ab8242a7ac8a1a97edab59cbf7a7,
     0xa1aa630383d60ccf531b0f4c67dcd495,
     0xc26a9a03f39b19363f00000000000000,
     0x0030c3f3d4c603d3193775a5b09ae6c0,
     0xfc6686cd8f19fa7dc058fff1339bd697,
     0xad9c055e82879109787039b9cad6421a,
     0x585db981417a06c5cea925263b6a7bf3,
     0xefb505855915143a6500000000000000,
     0x009841b1736a89c98edadefc7b6d4161,
     0x5605854e5915352edb57b396ef4f4355,
     0xc70606ad199ea7361e98ceb8a92b85d5,
     0x3407e637336c7eccd0ef03c6fa8f9fd9,
     0xb4be6ce52cf0123c0c00000000000000,
     0x00981f33f4fb80b1fee36736ad2f5b39,
     0x0bbc040f2313f0e0727295ad8534b0ba,
     0x720383f40c8a9d534b4c76d4f6e6df6b,
     0x0b0ab32a2874caaaa871d9be9ab57c7f,
     0x1aaa3a363068cdf03c00000000000000,
     0x0098b22a6a5cb6af662ddf9f86aa8e0d,
     0x0c5a333c4f6d3c309d7153570aab690e,
     0xcc6f66d8fc98a1df078cf51f3fb3697d,
     0xd9ca59e02578189980079793ab6c2da4,
     0x81d5951b18a467506c00000000000000,
     0x00184626e0c1e5e42a5b0b696075e506,
     0x06e919143ba79698eca8edcdbfd71614,
     0x665550e8945551e3b27d356bf9fe3454,
     0x756c60d09ae1796ae381e98c9bba5258,
     0x4d73607e33c3e6c70c00000000000000,
     0x003043b1f55bb6e4a68e7ff5d5f1c018,
     0x36e54cf060b2ffc8771a340733e099a1,
     0xd8fa2d5b7253c7bffaea78600c9b7226,
     0x7830d97fe43b0d9a8319f0cc506cfd96,
     0x2db9a9e35f7d753c3000000000000000,
     0x009801336acc65e3dadba650addc9b15,
     0x3a0cb55962ac59d382d50aca59d0ce80,
     0x1935e6b271ed6d53a856eecd0a1d86da,
     0x2c31d6ac69c16a05e52c6867c08c1a73,
     0xd9b8f6b629542bf76600000000000000,
     0x00989f2ae061ba51ffecd3ac06731512,
     0xfcbc9c3ee0abca2ec56bd96a6048cf4f,
     0x15f030dda87ff6695683b90a097e5e4e,
     0x1ff0556597e2b56c3530a4e7a70a7898,
     0x6ed43ffb34abc15c0500000000000000,
     0x009872267830d97fe43b0d9a8319f0cc,
     0x506cfd962db9a9e35f7d753c30864d39,
     0x133c98ec3ff29d06cdc10c786628b67e,
     0xcb96dcd4f1afbe3a1e18c3a69c091e4c,
     0xf61ff94e83e660063c00000000000000,
     0x001886da2c31d6ac69c16a05e52c6867,
     0xc08c1a73d9b8f6b629542bf766850e43,
     0x6d96186bd6b460b5827216b43360468d,
     0xb96c5c7bdb14aa957bb34287a1364b8c,
     0x356b5ab05a41390b5a00000000000000,
     0x00785e4e1ff0556597e2b56c3530a4e7,
     0xa70a78986ed43ffb34abc15c85043f2f,
     0xa70ff8aab24bf15ab61a18d2f353053c,
     0x4c37ea9f7d9ad560ae42829f97d3077c,
     0x55d9a5782d5b0d0c6900000000000000,
     0x0098812a78305665f30faa6006de0c54,
     0xc183b12a9b7f500533f066a00a1e8c55,
     0xd9fc832a9881370355f060accae61f54,
     0xc10cbc19a88207635536ffa00a66e0cd,
     0x40153c18abb2f9075500000000000000,
     0x00985f262cf1d5d4d994d53003edfc32,
     0x6189afa6cea6ac861968e797094b7c35,
     0x75366535cc403bbf4c58e2aba9b329ab,
     0x6106daf965c2125f4d9d4d590d33d0ce,
     0x2f1396f86aea6cca6a00000000000000,
     0x0098b2da1e905c7b7f5a739c85f494d5,
     0xf680e4dafbd39ae32ca4a7acb60724d7,
     0xde9fd61c67213d65b53d20b9f6feb4e6,
     0x380be929abed01c9b5f7a735c759484f,
     0x596d0f48aebd3fad3900000000000000,
     0x0018464ecb66dc9fa5a1a00666d83072,
     0x5a36e3fe2c0d053530c38691d3b219f7,
     0x676928a88119368c9c96cdb83f4b4341,
     0x0dccb061e4b46cc6fd591a0a6a60860d,
     0x23a76533eecfd2505000000000000000,
     0x00789e7eb93cea7c5b8dad0353e8f3f4,
     0xcbe551e7db6a6c1d98429fa75f2e8f3a,
     0xdf5663ebc014fa3cfd7279d4f9b61a5b,
     0x07a6d0e7e997cba3ceb7d5d83a30853e,
     0x4fbf5c1e75beadc65600000000000000,
     0x0028768d4df70f2dbc56c76f4e70b16b,
     0x6cba7f68e1b53a7e73828b5d63d3fd43,
     0x0bafd5f19b135cec1a9bee1f5a78ad8e,
     0xdf9ce062d7d874ffd0c26b75fce60417,
     0xbbc6a6fb87165eab6300000000000000,
     0x00989fdaca366a2dd417cca09d724eb9,
     0xfc8f52401566901e867e4d9735feb19a,
     0xb30c7b5e8d27ab6c9b6acec00a2d363c,
     0xc69aba4f1774600966060fbe6aef34b0,
     0xf5cd6650852592fb3300000000000000,
     0x0098724eb9fc8f52401566901e867e4d,
     0x9735feb19ab30c7b5e8d27ab6c9b6ace,
     0xc00a2d363cc69aba4f1774600966060f,
     0xbe6aef34b0f5cd6650852592fb33abe9,
     0xb80a33c8c4038c9b6f00000000000000,
     0x0018867e4d9735feb19ab30c7b5e8d27,
     0xab6c9b6acec00a2d363cc69aba4f1774,
     0x600966060fbe6aef34b0f5cd66508525,
     0x92fb33abe9b80a33c8c4038c9befd756,
     0x0e78f3535bd946ad0500000000000000,
     0x00785e8d27ab6c9b6acec00a2d363cc6,
     0x9aba4f1774600966060fbe6aef34b0f5,
     0xcd6650852592fb33abe9b80a33c8c403,
     0x8c9befd7560e78f3535bd946ad85fa82,
     0x19b453ce2997ff510a00000000000000,
     0x0028363cc69aba4f1774600966060fbe,
     0x6aef34b0f5cd6650852592fb33abe9b8,
     0x0a33c8c4038c9befd7560e78f3535bd9,
     0x46ad85fa8219b453ce2997ff510aa8c2,
     0x0cd2c3d0afe9b2c63f00000000000000,
     0x0060060fbe6aef34b0f5cd6650852592,
     0xfb33abe9b80a33c8c4038c9befd7560e,
     0x78f3535bd946ad85fa8219b453ce2997,
     0xff510aa8c20cd2c3d0afe9b2c63f5673,
     0x9661cfabf164956d5300000000000000,
     0x0098b27e279bba34e8187853d6ef6453,
     0x97061d036fcafa9d6cead2a063e04d59,
     0xbf934d5d1a740cbc29eb77b2a94b838e,
     0x813765fd4e367569d031f0a6acdfc9a6,
     0x2e0d3a06de94f53b5900000000000000,
     0x0018468dc76a6fab550eb4c3a8f158ed,
     0x6db5ca817618351eabbdad5639d00ea3,
     0xc663b5b7d52a07da61d478acf6b65ae5,
     0x403b8c1a8fd5de56ab1c688751e3b1da,
     0xdb6a9503ed306a3c5600000000000000,
     0x00781e3cbefab3d78219d2cf83c7577f,
     0xf65a3043fa79f0f8eacf5e0b66483f0f,
     0x1e5ffdd96bc10ce9e7c1e3ab3f7b2d98,
     0x21fd3c787cf567af0533a49f078faffe,
     0xecb56086f4f3e0f15500000000000000,
     0x0028360f929beffac28c61c5e64172f3,
     0x5d5f9831acd83c486ebeeb0b3386159b,
     0x07c9cd777d61c6b062f320b9f9ae2fcc,
     0x18566c1e2437dff58519c38acd83e4e6,
     0xbbbe306358b179905c00000000000000,
     0x006086258cab05a87256a1ccb08471b5,
     0x0055ce2a94199630ae16a0ca598532c3,
     0x12c6d5025439ab506658c2b85a802a67,
     0x15ca0c4b18570b50e5ac42996109e36a,
     0x01aa9c5528332c615c00000000000000]"

definition mx132by583_part3 :: "block list" where
  "mx132by583_part3 =
    [0x0050c503465d0a561b38c1aa78c0a84b,
     0xc16a032758150f187529586de004abe2,
     0x01a32e05ab0d9c60553c60d4a560b581,
     0x13ac8a078cba14ac36708255f1805197,
     0x82d5064eb02a1e306a00000000000000,
     0x0018063c92ab05560f6c06399dacbd5f,
     0x0b3385aaa26c59fbb48e41fb3c1e18b7,
     0x149a7bf3fcf43bd69fd597b309ce0497,
     0x959d86ca41bad8961835ff0a5a8529d7,
     0xf8abf986aa81cda03600000000000000,
     0x00781e0f8c5b0acdbd797efa1debcfea,
     0xcbd9046782cbca4e43e5205d6c4b8c9a,
     0x7f05adc2946bfcd57c43d5c066509be9,
     0x52673530338c190ff8874dd90abc61c0,
     0x23b95a60f5c066905300000000000000,
     0x0028b62546cdbf825661ca35fe6abea1,
     0x6a6033a8cd74a9b31a9819c68c07fcc3,
     0xa66c05de30e0915c2db07a6033c8e964,
     0xedfd5a9829541565cbdaa7750cdae7f1,
     0xc0b8a5d0dc9be7a75f00000000000000,
     0x0060c603fe6153b6026f18f048ae1658,
     0x3db019e474b2f67e2dcc14aa8ab265ed,
     0xd33a06edf37860dc5268eecdf3d3ef58,
     0x7f565fce2638135c56761a2a07e9625b,
     0x62d4fc2b6815a65c6300000000000000,
     0x005045d9b2f6691d83f6793c306e2934,
     0xf7e6f9e977ac3fab2f67139c092e2b3b,
     0x0d958374b12d316afe15b40a53aef157,
     0xf30d55039b416da64b9dd5c0cc30663c,
     0xe01f36652bf086010f00000000000000,
     0x00c80497959d86ca41bad8961835ff0a,
     0x5a8529d7f8abf986aa81cda036d3a5ce,
     0x6a606618331ef00f9bb21578c3804772,
     0xb5c0ea81cd20a793b5f76b61a6505594,
     0x2d6b9fd631689fc70300000000000000,
     0x00789e25fef1e9ca314c155c4edd6b39,
     0x6b869c8e35dfac7ef394e1615cfeb115,
     0xb4c57e40d6d200668566c274f6aeaf81,
     0x67a0dfaf6a41735518060f466d531d43,
     0x9a196553b6d560966000000000000000,
     0x0028f603b29606302b3413a6b3777d0d,
     0x3c03fd7e550b9aabc23078306a9bea18,
     0xd2cc289bb2ad06b304ab6db23f83eac0,
     0xe657e3e496a2a0c07b9e25fef1e9ca31,
     0x4c155c4edd6b396b0600000000000000,
     0x006046d9946d359825586d93fd195407,
     0x36bf1a27b7140505def32cf18f4f578e,
     0x61aae072ea5ecb5933e474acf966f59b,
     0xa70c0fe3f28fada02df603b29606302b,
     0x3413a6b3777d0d3c0300000000000000,
     0x0050059753f75ace9a21a763cd37abdf,
     0x3c657818977f6c056db11f90b5348059,
     0xa199309dbdeb6be019e8f7ab5ad05c15,
     0x86c18351db54c7906646d9946d359825,
     0x586d93fd195407363f00000000000000,
     0x00c884e9ec5d5f03cf40bf5fd582e6aa,
     0x300c1e8cdaa63a863433caa66cabc12c,
     0xc16a9beccfa03ab0f9d538b9a52828f0,
     0x9e67897f7cba720c53059753f75ace9a,
     0x21a763cd37abdf3c6500000000000000,
     0x0050db647f06d581cdafc6c92d454181,
     0xf73c4bfce3d39563982ab89cbad772d6,
     0x0c391d6bbe59fde629c3c3b8fc632b68,
     0x8bfd80aca501cc0acd84e9ec5d5f03cf,
     0x40bf5fd582e6aa300c00000000000000,
     0x002876d95257df814d9907ff4803cccc,
     0xa0dfe4f24fc70ccbc464f3ad39e015bb,
     0x6ca9abefc0a6cc837fa4016666d06f72,
     0xf9a763866562b2f9d61cf08a5db6d4d5,
     0x776053e6c13fd2003300000000000000,
     0x00600697ed0dd5370fc31259b31a6767,
     0x5063e3dab4720a55db58b55050d03283,
     0xcbf686ea9b876189ac598db333a8b171,
     0x6d5a3985aa6dac5a28286899c1657b43,
     0xf5cdc3b044d6acc65900000000000000,
     0x005085e97ec6ea2a3cef01ca7ead81e7,
     0x078f517f1acc09cee9574bc15648abc2,
     0x743f6375159ef70065bfd6c0f383c7a8,
     0x3f0de604e7f4aba5602ba45561ba9fb1,
     0xba0acf7b80b25f6b6000000000000000,
     0x00c8c464f3ad39e015bb6ca9abefc0a6,
     0xcc837fa4016666d06f72f9a763866562,
     0xb2f9d61cf08a5db6d4d5776053e6c13f,
     0xd2003333e837b9fcd331c33231d97c6b,
     0x0e78c52e5beaea3b3000000000000000,
     0x0050db58b55050d03283cbf686ea9b87,
     0x6189ac598db333a8b1716d5a3985aa6d,
     0xac5a28286899c1657b43f5cdc3b044d6,
     0xacc6d919d4d8b836ad9c42d536562d14,
     0x14b4cce0b2bda1fa6600000000000000,
     0x00c8e9574bc15648abc2743f6375159e,
     0xf70065bfd6c0f383c7a83f0de604e7f4,
     0xaba5602ba45561ba9fb1ba0acf7b80b2,
     0x5f6be0f9c163d49f06738273fad552b0,
     0x15d2aa30ddcf585d0500000000000000,
     0x006086e9f25d50486762aca5d0b14273,
     0x9a5c9b82d90c351e751a383b3f1e64ed,
     0xb5031bc6035207d52a149bcb3fd31c68,
     0x5531592db095616afb2aff2a9760fd1a,
     0xf7d3309b013cfe613500000000000000,
     0x0050c564b5c05686a9edabfcab5c82f5,
     0x6bdc4fc36c06f0f887d50c3c654b28bb,
     0xbe6f7e5ed9eccd6ae031c374f92e28a4,
     0x3331d652e858a1394dae4dc16c861a8f,
     0x3a0d9c9d1f0fb2f65a00000000000000,
     0x00c8c4584ba16385e634b93605b3196a,
     0x3cea3470767e3cc8da6b07368c07a40e,
     0xaa552836977fa639d0aa62b25a602bc3,
     0xd4f655fe552ec1fa35eea761360378fc,
     0xc36a069eb225945d5f00000000000000,
     0x0050db57f957b904ebd7b89f86d90ce0,
     0xf10fab1978ca9650767ddffcbcb2d99b,
     0xd5c06386e9f25d50486762aca5d0b142,
     0x739a5c9b82d90c351e751a383b3f1e64,
     0xedb5031bc60352075500000000000000,
     0x00c869726d0a6633d478d469e0ecfc78,
     0x90b5d70e6c180f481d54ab506c2eff4c,
     0x73a055c564b5c05686a9edabfcab5c82,
     0xf56bdc4fc36c06f0f887d50c3c654b28,
     0xbbbe6f7e5ed9eccd6a00000000000000,
     0x00d0af713f0db319c0e31f5633f0942d,
     0xa1ecfabef97965b337ab81c70cd3e5bb,
     0xa090cec4584ba16385e634b93605b319,
     0x6a3cea3470767e3cc8da6b07368c07a4,
     0x0eaa552836977fa63900000000000000,
     0x0050c558f907e619f040d950059e2ac6,
     0xca3f30cf8007ca862af0543156fe8179,
     0x063c50365481a78ab1f20fcc33e081b2,
     0xa10a3c558c957f609e010f940d55e0a9,
     0x62acfc03f30c78a06c00000000000000,
     0x00c8c4576d0ab3f9592275ac066d26be,
     0x6a5398cdcf12a963356833f1559bc26c,
     0x7e96481dab419b89afda1466f3b344ea,
     0x580dda4c7cd5a6309b9f2552c76ad066,
     0xe2ab3685d9fc2c913a00000000000000,
     0x00505b723fcdd9293fc0de9a83b4da92,
     0xfb69ce4ef901f6d61ca4d596dc4f7376,
     0xca0fb0b7e620adb6e47e9ab3537e80bd,
     0x350769b525f7d39c9df203ecad3948ab,
     0x2db99fe6ec941f606f00000000000000,
     0x00c8a971d360e06194ed670565584e8d,
     0x9b06030fa36c3f2b28c3726adc341878,
     0x1865fb5941199653e3a6c1c0c328dbcf,
     0x0acab09c1a370d061e46d97e565086e5,
     0xd4b86930f030caf63300000000000000,
     0x00d0efa8ad36b0e77139df6c55a87e47,
     0x6db5813d8fcbf966ab42f53b6aab0dec,
     0x795cce375b15aadf515b6d60cfe372be]"

definition mx132by583_part4 :: "block list" where
  "mx132by583_part4 =
    [0xd9aa50fd8eda6a037b1e97f3cd5685ea,
     0x77d4561bd8f3b89c6f00000000000000,
     0x00a8f13f5efbe6629b4e0b3a4e708dff,
     0xf1da3717db745ad071826bfc8fd7beb9,
     0xd8a6d3828e135ce37fbcf6cdc5369d16,
     0x749ce01affe3b56f2eb6e9b4a0e304d7,
     0xf81faf7d73b14da70500000000000000,
     0x00c84472d330b0624f967f309b72d9f2,
     0xad6333f020759a63987eff515fe06522,
     0xb9691858b127cb3f984db96cf9d6b119,
     0x78903acd314cbfffa82ff03291dc340c,
     0xacd893e51fcca65c3600000000000000,
     0x00509b71adf666668cd5a69c1d0697b5,
     0x50b91958c2de0555688db30655d0aacd,
     0xb8567b3333c66a53ce0e83cb5aa8dc0c,
     0x2c61ef822ab4c659832a68d5665cabbd,
     0x991963b5296787c16500000000000000,
     0x00c8e9a85f5b05557cf5d3067e9ee94a,
     0x01e6f93de0676c4d303c94cd6a48e774,
     0xd4afad822abefa69033fcf74a500f3fc,
     0x1ef033b626181eca6635a4733aead756,
     0x41155ffdb4819f673a00000000000000,
     0x00d0ef3fea0bbc4c24370d032bf664f9,
     0x07b329972ddf3a36030f52a73986e9f7,
     0x1ff5055e26929b8681157bb2fc83d994,
     0xcb966f1d9b8107a9d31cc3f4fb8ffa02,
     0x2f13c94dc3c08a3d5900000000000000,
     0x00a871d6a00a5ab519d76a6f66c6586d,
     0xcad96170590b959b8125ec5d5085d638,
     0x6b5005adda8c6bb5373363ac36e5ec30,
     0xb8ac85cacdc012f62ea8426b9c35a882,
     0x566dc6b5da9b99315600000000000000,
     0x008087b2590de99c8efab55550c5573f,
     0x6de0e799ae14609edf037ec6d604c343,
     0xd9ac86744e47fdda2aa8e2ab9f36f0f3,
     0x4c570a30cfef013f636b82e1a16c5643,
     0x3aa7a37e6d1554f15500000000000000,
     0x0050dba8eb0bda9cfe03aa90d66fd658,
     0xcdb01a2b5b730a8547ea0a9a601ed89b,
     0xad66b0c4cf743c8307e4bb72f32b9b16,
     0xc03c652e970266c3301dff38fbbcc9da,
     0xd4c0c51eeba707c60c00000000000000,
     0x00c8e93fa00a69fd668dd50cabb1b235,
     0xa75078a4aea009e681bdd96a064bfc4c,
     0xc7337840be2b37bfb26901cc53e67229,
     0x60360cd3f18fb3cf9bac4d0d5cecb17e,
     0x7a60ccf86a1adeac0a00000000000000,
     0x00d06fd658cdb01a2b5b730a8547ea0a,
     0x9a601ed89bad66b0c4cf743c8307e4bb,
     0x72f32b9b16c03c652e970266c3301dff,
     0x38fbbcc9dad4c0c51eeba707c68cafa6,
     0xe1cdaa48aed5aa900900000000000000,
     0x00a8b1b235a75078a4aea009e681bdd9,
     0x6a064bfc4cc7337840be2b37bfb26901,
     0xcc53e6722960360cd3f18fb3cf9bac4d,
     0x0d5cecb17e7a60ccf86a1adeac8ae45a,
     0xad0a9930ee6b81a73600000000000000,
     0x008047ea0a9a601ed89bad66b0c4cf74,
     0x3c8307e4bb72f32b9b16c03c652e9702,
     0x66c3301dff38fbbcc9dad4c0c51eeba7,
     0x07c68cafa6e1cdaa48aed5aa9009e3be,
     0x16786a1b757d419b5300000000000000,
     0x00e081bdd96a064bfc4cc7337840be2b,
     0x37bfb26901cc53e6722960360cd3f18f,
     0xb3cf9bac4d0d5cecb17e7a60ccf86a1a,
     0xdeac8ae45aad0a9930ee6b81a7b651d7,
     0x17b439fd075421ad5f00000000000000,
     0x00c869d63497604be41bccc398eca7df,
     0x9c8951439561f0b0b78ee7c765fe1998,
     0x19c97d2d68f5abec829ae1015a80d9f3,
     0xc69a862aa8ed1fac56280f7e56b9299b,
     0xcea603538571eb0b6900000000000000,
     0x00d0afb20b6a8607680166cf1b6b1aaa,
     0xa0b67fb05aa13cf859e5a66c3a9b0e4c,
     0x15c6ad2fa46b9c3ab6cea06ca5e06cb1,
     0xbf6a35e0e5346b9a4bb025f20de6614c,
     0xf6d36fcec4a8a1ca3000000000000000,
     0x00a871ead83a83b29582b3c5feaad580,
     0x97d3ac692ec196c837988731d94fbf39,
     0x13a3862ac3e0616f1dcf8fcbfc333033,
     0x92fb5ad0ea57d90535c303b400b3e78d,
     0x350d5550db3f58ad5000000000000000,
     0x008087bd753c3f2ef3cfc0cc48ee6b41,
     0xab5f6517d40c0fd002cc9e37d6345441,
     0x6dff60b54279f0b3ca4dd974361d982a,
     0x8c5b5f48d738756c9d41d94ac1d9627f,
     0xd56ac0cb69d634976000000000000000,
     0x00e0c1cf2a3765d3d97460aa306e7d21,
     0x5de3d4b17506652b05678bfd55ab012f,
     0xa759d35c822d916f300f63b29f7e7326,
     0x460d5586c1c3de3a9e1f97f967606624,
     0xf7b5a0d5afb20b6a0600000000000000,
     0x00b044bec13c8cc97efacd9918355419,
     0x060f7beb787e5ce69f819991dcd78256,
     0xbfca2ea8191ea005983d6fac69a882da,
     0xfec16a85f2e067959bb2e96c3a305518,
     0xb7be90ae71ead83a0300000000000000,
     0x00d06fea743ce5c9a60178fa4d9d8ea7,
     0x3cd934004fbfa9d3f194279b06e0e937,
     0x753a9ef264d3003cfda64ec7539e6c1a,
     0x80a7dfd4e978ca934d03f0f49b3a1d4f,
     0x79b269009e7e53a76300000000000000,
     0x00a8b1bd2b378cb15a0db435b677e586,
     0x3156ab81b6c6f6aedc30c66a35d0d6d8,
     0xde951bc658ad06da1adbbb72c318abd5,
     0x405b637b576e1863b51a686b6cefca0d,
     0x63ac56036d8ded5d3900000000000000,
     0x0080c7cfc0fcbcafbe16d2f0f819989f,
     0xf7d5d7421a1e3f03f3f3befa5a48c3e3,
     0x67607ede575f0b6978fc0ccccffbea6b,
     0x210d8f9f81f9795f7d2da4e1f133303f,
     0xefabaf85343c7e066600000000000000,
     0x00e041be6156ece4d697613cc837cc8a,
     0x9ddcfa328c07f98659b1935b5f86f120,
     0xdf302b7672ebcb301ee41b66c54e6e7d,
     0x19c6837cc3acd8c9ad2fc378906f9815,
     0x3bb9f565180ff20d3300000000000000,
     0x00b0841638cb0ce34255a196d0026799,
     0x615ca82ad4125ae02c338c0b55855a42,
     0x0b9c658671a1aa504b6881b3cc302e54,
     0x156a092d709619c685aa422da105ce32,
     0xc3b85055a825b4c05900000000000000,
     0x007840290cac8a51b33ac10f28858155,
     0x316a5627f801a530b02a46cdea043fa0,
     0x140656c5a8599de00794c2c0aa1835ab,
     0x13fc8052185815a36675821f500a03ab,
     0x62d4ac4ef0034a616000000000000000,
     0x00a8f1cf60c68c516b6e06a64b0368e1,
     0x916fceaae21f059ddf64ad06691e68c1,
     0xc099c81a5ba73cd6d732cc12a51898da,
     0x94ade3617cb5be0a7d00ffde9cd3d455,
     0xee79c9856a82cb665300000000000000,
     0x008047be39ab8a7f14747e93b51aa479,
     0xa0050367226b6c9df2585fcb304b9462,
     0x606a53b68e87f1d5fa2af401fc7b734e,
     0x5357b9e72517aa092e9b4daba05f7b83,
     0xb9d8c665b519b8fc6900000000000000,
     0x00e081160c9c89acb175ca637d2dc32c,
     0x518a81a94dd93a1ec657ebabd007f0ef,
     0xcd394d5de59e975ca826b86c36ad827e,
     0xed0de6621b97d566e0f2a78157e39fc1,
     0x8c19a3d6dc0c4c970600000000000000,
     0x00b0442906a63665eb78185fadaf421f,
     0xc0bf37e73475957b5e72a19ae0b2d9b4,
     0x0afab537988b6d5c569b81cb9f065e8d,
     0x7f0633668c5a7333305d1a400b8f7c73,
     0x5615ff28e8fc266b3500000000000000,
     0x007800ffde9cd3d455ee79c9856a82cb]"

definition mx132by583_part5 :: "block list" where
  "mx132by583_part5 =
    [0x66d32ae8d7de602eb671596d062e7f1a,
     0x7835fe19cc98316acdcdc07469002d3c,
     0xf2cd5955fca3a0f39bacd520cd032d18,
     0x38135963eb94c7fa5a00000000000000,
     0x00289b4daba05f7b83b9d8c665b519b8,
     0xfc69e0d5f8673063c6a8353703d3a501,
     0xb4f0c8376755f18f82ce6fb25683340f,
     0xb460e04c648dad531eeb6b196689520c,
     0x4c6dcad6f130be5a5f00000000000000,
     0x008087160696537bc34c1559d3f1f38c,
     0xabb9f98db5be09e6721a206d09fe55a1,
     0xc6f936b0da52076666fc83adc3482eab,
     0x6730d9d72ab46c9f062d0f4af166fdfe,
     0x8cb3995076e58a3d6a00000000000000,
     0x00e04129deacdf9f713613caae5cb147,
     0x5dd0297f15aa66309dd518f6009b020f,
     0x1e5a18584eed0d3355644dc7cf33aee6,
     0xe637d6fa2698cb6980b425f857851ae7,
     0xdbc06a4b1d9899f10f00000000000000,
     0x00b004ffaa50e37c1b586da9033333fe,
     0xc1d6612497d53398ec6b155ab64f8396,
     0x07a578b37e7fc6d94c28bb72c51e7541,
     0xa7fc55a89ac1745663d8036c0a3c7868,
     0x616039b537cc54913500000000000000,
     0x0078804d81070f2d0c2ca7f686992ab2,
     0xa6e3e7195773f31b6b7d13cce53440da,
     0x12fcab428df36d60b5a50eccccf8075b,
     0x87915c56cf60b2af5568d93e0d5a1e94,
     0xe2cdfafd196733a16c00000000000000,
     0x0028dba741cb8352bc59bf3fe36c2694,
     0x5db9628fbaa053fe2a54cd603aab31ec,
     0x0136051e3cb430b09cda1b66aac89a8e,
     0x9f675ccdcd6facf54d3097d300694bf0,
     0xaf0a35ceb781d5963a00000000000000,
     0x00e0721a206d09fe55a1c6f936b0da52,
     0x076666fc83adc3482eab6730d9d72ab4,
     0x6c9f062d0f4af166fdfe8cb3995076e5,
     0x8a3dea824ef9ab503583e9acc6b007d8,
     0x1478f0d0c2c0726a6f00000000000000,
     0x00e001ff80c703fe018f07fc031e0ff8,
     0x073c1ef00f783ce01ff078c03fe0f180,
     0x7fc0e301ff80c703fe018f07fc031e0f,
     0xf8073c1ef00f783ce01ff078c03fe0f1,
     0x807fc0e301ff80c70300000000000000,
     0x00b0844d416b099b82d6123605ad256c,
     0x0a5a4bd814b496b029682d6153d05ac2,
     0xa6a0b5844d416b099b82d6123605ad25,
     0x6c0a5a4bd814b496b029682d6153d05a,
     0xc2a6a0b5844d416b0900000000000000,
     0x0078c0a721fd804f43fa019f86f4033e,
     0x0de9077c1ad20ff834a41ff069483fe0,
     0xd3907ec0a721fd804f43fa019f86f403,
     0x3e0de9077c1ad20ff834a41ff069483f,
     0xe0d3907ec0a721fd0000000000000000,
     0x00285b1a1856b63430ac6c696058d9d2,
     0xc0b0b2a58161654b03c3ca960686952d,
     0x0d0c2b5b1a1856b63430ac6c696058d9,
     0xd2c0b0b2a58161654b03c3ca96068695,
     0x2d0d0c2b5b1a18563600000000000000,
     0x00e0b2d514ca65ab2994cb56532897ad,
     0xa6502e5b4da15cb69a42b96c358572d9,
     0x6a0ae5b2d514ca65ab2994cb56532897,
     0xada6502e5b4da15cb69a42b96c358572,
     0xd96a0ae5b2d514ca6500000000000000,
     0x0030dd6b136cbad726d874af4db0e95e,
     0x9b60d3bd36c1a67b6d824df7da049bee,
     0xb50936dd6b136cbad726d874af4db0e9,
     0x5e9b60d3bd36c1a67b6d824df7da049b,
     0xeeb50936dd6b136c3a00000000000000]"

definition mx132by583 :: "u8 list" where
  "mx132by583 = concat (map line_bytes (mx132by583_part1 @ mx132by583_part2 @ mx132by583_part3 @ mx132by583_part4 @ mx132by583_part5))"

definition mx138by594_part1 :: "block list" where
  "mx138by594_part1 =
    [0xb2020000000000005202000000000000,
     0xc0031ef080073ce0010f78c0031ef080,
     0x073ce0010f78c0031ef080073ce0010f,
     0x78c0031ef080073ce0010f78c0031ef0,
     0x80073ce0010f78c0031ef080073ce001,
     0x0f78c0031ef080073ce0010000000000,
     0xa0052d68410b5ad08216b4a0052d6841,
     0x0b5ad08216b4a0052d68410b5ad08216,
     0xb4a0052d68410b5ad08216b4a0052d68,
     0x410b5ad08216b4a0052d68410b5ad082,
     0x16b4a0052d68410b5ad0020000000000,
     0x908634a4210d6948431ad2908634a421,
     0x0d6948431ad2908634a4210d6948431a,
     0xd2908634a4210d6948431ad2908634a4,
     0x210d6948431ad2908634a4210d694843,
     0x1ad2908634a4210d6948030000000000,
     0x0c6318c318c63086318c610c6318c318,
     0xc63086318c610c6318c318c63086318c,
     0x610c6318c318c63086318c610c6318c3,
     0x18c63086318c610c6318c318c6308631,
     0x8c610c6318c318c63086010000000000,
     0x0a55a84215aa50852a54a10a55a84215,
     0xaa50852a54a10a55a84215aa50852a54,
     0xa10a55a84215aa50852a54a10a55a842,
     0x15aa50852a54a10a55a84215aa50852a,
     0x54a10a55a84215aa5085020000000000,
     0x094e7082139ce0042738c1094e708213,
     0x9ce0042738c1094e7082139ce0042738,
     0xc1094e7082139ce0042738c1094e7082,
     0x139ce0042738c1094e7082139ce00427,
     0x38c1094e7082139ce004030000000000,
     0x00002da419a6d0049b6106f39bf2309e,
     0x576c66a822136acba97e6b0c0f1e58e2,
     0x0165e3b2e9263bd6af26d7b8a3fe47d6,
     0x949d3a7bff2cdf5a2805ff6cfae93458,
     0xedb5f5852aab355750b6020000000000,
     0x008034c3149a6033cc607e531ec6f38a,
     0xcd0c5564426d39d56f8de1c1034b3ca0,
     0x6c5c36dd64c7fad5e41a77d4ffc89ab2,
     0x5367ef9fe55b0ba5e09f4d3f9d06abbd,
     0xb6be5065b5e60aca561d030000000000,
     0x00609842136c8619cc6fcac3785eb199,
     0xa18a4ca82da7faad313c78608907948d,
     0xcba69bec58bf9a5ce38efa1f595376ea,
     0xecfdb37c6ba114fcb3e9a7d360b5d7d6,
     0x17aaacd65c41d9aae3ca010000000000,
     0x00506882cd3083f94d7918cf2b363354,
     0x9109b5e554bf3586070f2cf180b271d9,
     0x74931deb57936bdc51ff236bca4e9dbd,
     0x7f966f2d94827f36fd741aacf6dafa42,
     0x95d59a2b285b755c3930030000000000,
     0x0048b0196630bf290fe379c566862a32,
     0xa1b69ceab7c6f0e081251e50362e9b6e,
     0xb263fd6a728d3bea7f644dd9a9b3f7cf,
     0xf2ad8552f0cfa69f4e83d55e5b5fa8b2,
     0x5a730565ab8e2b076698010000000000,
     0x0030c30ce637e5613cafd8cc504526d4,
     0x9653fdd6181e3cb0c403cac665d34d76,
     0xac5f4dae7147fd8fac293b75f6fe59be,
     0xb5500afed9f4d369b0da6beb0b55566b,
     0xaea06cd571e5c00c33ce020000000000,
     0x0080b442cd30bf61145b156ad32f3c2c,
     0x5136d38d35b9a3ce5aea7ea605fe7dda,
     0x6af5657541750c66ce0eac0aa0655882,
     0x6730e5e731231339ad310f1ec0e5c97e,
     0xd5b8ff50b6bdf35d0a9b020000000000,
     0x006058826730e5e731231339ad310f1e,
     0xc0e5c97ed5b8ff50b6bdf35d0a9ba6e1,
     0xb550d51c5b2b073303bf19789056a819,
     0xe6378c62ab426dfa858725ca66bab126,
     0x77d4594bddcfb4c0bf4f030000000000,
     0x0050a819e6378c62ab426dfa858725ca,
     0x66bab12677d4594bddcfb4c0bf4f5bad,
     0xbeac2ea88ec1ccd9815501b40c4bf00c,
     0xa6fc3c666422a735e6c103b83cd9af1a,
     0xf71fcab677be4b61d334000000000000,
     0x0048f00ca6fc3c666422a735e6c103b8,
     0x3cd9af1af71fcab677be4b61d334bc16,
     0xaa9a636be56066e037030fd20a35c3fc,
     0x86516c55a84dbff0b044d94c37d6e48e,
     0x3a6ba9fb9916f8f769ab010000000000,
     0x0030c3fc86516c55a84dbff0b044d94c,
     0x37d6e48e3a6ba9fb9916f8f769abd597,
     0xd505d53198393bb02a809661099ec194,
     0x9fc78c4ce4b4c63c78009727fb55e3fe,
     0x43d9f6ce77296c9a86d7020000000000,
     0x0098c1949fc78c4ce4b4c63c78009727,
     0xfb55e3fe43d9f6ce77296c9a86d74255,
     0x736cad1ccc0cfc66e0415aa16698df30,
     0x8aad0ab5e9171e96289be9c69adc5167,
     0x2d753fd302ff3e6db5fa020000000000,
     0x00609819a65cec4ce89707659b6c72ff,
     0x91ba7cf32f0df5d59c8e613630e031cc,
     0x0c532e7626f4cb83b24d36b9ff485dbe,
     0xf99786fa6a4ec7301b18f01866862917,
     0x3b13fae541d9269bdc7f000000000000,
     0x0050e80c86c10cb5d5d8125c1eab71b3,
     0x666f2dd8d46a502d68e538fb66d02a74,
     0x06c36086da6a6c092e8fd5b859b3b716,
     0x6c6a35a816b4729c7d3368153a836130,
     0x436d35b60497c76adcac010000000000,
     0x0048f0fc9ea78a9cc2e301a6fbeaa895,
     0xfdb3527cfab5ac662b980d5c05482778,
     0x7ecf53454ee1f100d37d75d4cafe5929,
     0x3efd5a56b315cc06ae02a4133cbfe7a9,
     0x22a7f07880e9be3a6a65030000000000,
     0x0030c3948b9d09fdf2a06c934dee3f52,
     0x976ffea5a1be9ad331cc06063c869961,
     0xcac5ce847e7950b6c926f71fa9cb37ff,
     0xd2505fcde9186603031ec3cc30e56267,
     0x42bf3c28db6493fb8fd4010000000000,
     0x0098c13098a1b61a5b82cb63356ed6ec,
     0xad059b5a0daa05ad1c67df0c5a85ce60,
     0x18cc505b8d2dc1e5b11a376bf6d6824d,
     0xad06d582568eb36f06ad4267300c66a8,
     0xadc696e0f2588d9b357b030000000000,
     0x0098dff3549153783cc0745f1db5b27f,
     0x568a4fbf96d56c05b381ab00e904cfef,
     0x79aac8293c1e60baaf8e5ad93f2bc5a7,
     0x5fcb6ab682d9c055807482e7f73c55e4,
     0x141e0f30dd5747adec9f010000000000,
     0x0050e8fc8aad3678946daca34e9d163e,
     0x5ddf82827960a04df0949991531e70f9,
     0xabffb07729d20055b6c2eccd9036c330,
     0x54a15f4b982eb959fb19ffacc66a1d73,
     0xb60a0c9bc1f33251e307000000000000,
     0x0048f0949991531e70f9abffb07729d2,
     0x0055b6c2eccd9036c33054a15f4b982e,
     0xb959fb19ffacc66a1d73b60a0c9bc1f3,
     0x3251e3074cd6b8caceb74d5fabb9ca19,
     0x18780a9d5fb1d5068fb2010000000000,
     0x0030c33054a15f4b982eb959fb19ffac,
     0xc66a1d73b60a0c9bc1f33251e3074cd6,
     0xb8caceb74d5fabb9ca1918780a9d5fb1,
     0xd5068fb28d75d4a9d3c2a7eb5b50300f,
     0x0cb4099e323372ca032e030000000000,
     0x0098c1f33251e3074cd6b8caceb74d5f,
     0xabb9ca1918780a9d5fb1d5068fb28d75,
     0xd4a9d3c2a7eb5b50300f0cb4099e3233,
     0x72ca032e7ff51ff62e451aa0ca5698bd,
     0x19d26618862af46b09d3010000000000,
     0x00985fb1d5068fb28d75d4a9d3c2a7eb,
     0x5b50300f0cb4099e323372ca032e7ff5,
     0x1ff62e451aa0ca5698bd19d26618862a,
     0xf46b09d325376b3fe39fd558ad63ce56,
     0x816133785e266afc80c9020000000000,
     0x0098323372ca032e7ff51ff62e451aa0,
     0xca5698bd19d26618862af46b09d32537]"

definition mx138by594_part2 :: "block list" where
  "mx138by594_part2 =
    [0x6b3fe39fd558ad63ce56816133785e26,
     0x6afc80c91a57d9f9b6e96b3557390303,
     0x4fa1f32bb6dae051b6b1020000000000,
     0x0048f03032010f2e2757d95a4803ab2b,
     0x373048cfa0d839b5c464476d6ffebdb6,
     0xa030ab8242a7ac8a1a97edab59cbf7a7,
     0xa1aa630383d60ccf531b0f4c67dcd495,
     0xc26a9a03f39b19363f66000000000000,
     0x0030c3f3d4c603d3193775a5b09ae6c0,
     0xfc6686cd8f19fa7dc058fff1339bd697,
     0xad9c055e82879109787039b9cad6421a,
     0x585db981417a06c5cea925263b6a7bf3,
     0xefb505855915143a6555000000000000,
     0x009841b1736a89c98edadefc7b6d4161,
     0x5605854e5915352edb57b396ef4f4355,
     0xc70606ad199ea7361e98ceb8a92b85d5,
     0x3407e637336c7eccd0ef03c6fa8f9fd9,
     0xb4be6ce52cf0123c8c4c000000000000,
     0x00981f33f4fb80b1fee36736ad2f5b39,
     0x0bbc040f2313f0e0727295ad8534b0ba,
     0x720383f40c8a9d534b4c76d4f6e6df6b,
     0x0b0ab32a2874caaaa871d9be9ab57c7f,
     0x1aaa3a363068cdf03cb5010000000000,
     0x0098b22a6a5cb6af662ddf9f86aa8e0d,
     0x0c5a333c4f6d3c309d7153570aab690e,
     0xcc6f66d8fc98a1df078cf51f3fb3697d,
     0xd9ca59e02578189980079793ab6c2da4,
     0x81d5951b18a46750ec9c020000000000,
     0x00184626e0c1e5e42a5b0b696075e506,
     0x06e919143ba79698eca8edcdbfd71614,
     0x665550e8945551e3b27d356bf9fe3454,
     0x756c60d09ae1796ae381e98c9bba5258,
     0x4d73607e33c3e6c70cfd020000000000,
     0x003043b1f55bb6e4a68e7ff5d5f1c018,
     0x36e54cf060b2ffc8771a340733e099a1,
     0xd8fa2d5b7253c7bffaea78600c9b7226,
     0x7830d97fe43b0d9a8319f0cc506cfd96,
     0x2db9a9e35f7d753c3086010000000000,
     0x009801336acc65e3dadba650addc9b15,
     0x3a0cb55962ac59d382d50aca59d0ce80,
     0x1935e6b271ed6d53a856eecd0a1d86da,
     0x2c31d6ac69c16a05e52c6867c08c1a73,
     0xd9b8f6b629542bf76685020000000000,
     0x00989f2ae061ba51ffecd3ac06731512,
     0xfcbc9c3ee0abca2ec56bd96a6048cf4f,
     0x15f030dda87ff6695683b90a097e5e4e,
     0x1ff0556597e2b56c3530a4e7a70a7898,
     0x6ed43ffb34abc15c8504030000000000,
     0x009872267830d97fe43b0d9a8319f0cc,
     0x506cfd962db9a9e35f7d753c30864d39,
     0x133c98ec3ff29d06cdc10c786628b67e,
     0xcb96dcd4f1afbe3a1e18c3a69c091e4c,
     0xf61ff94e83e660063c33000000000000,
     0x001886da2c31d6ac69c16a05e52c6867,
     0xc08c1a73d9b8f6b629542bf766850e43,
     0x6d96186bd6b460b5827216b43360468d,
     0xb96c5c7bdb14aa957bb34287a1364b8c,
     0x356b5ab05a41390bda19000000000000,
     0x00785e4e1ff0556597e2b56c3530a4e7,
     0xa70a78986ed43ffb34abc15c85043f2f,
     0xa70ff8aab24bf15ab61a18d2f353053c,
     0x4c37ea9f7d9ad560ae42829f97d3077c,
     0x55d9a5782d5b0d0ce9f9010000000000,
     0x0098812a78305665f30faa6006de0c54,
     0xc183b12a9b7f500533f066a00a1e8c55,
     0xd9fc832a9881370355f060accae61f54,
     0xc10cbc19a88207635536ffa00a66e0cd,
     0x40153c18abb2f9075530030000000000,
     0x00985f262cf1d5d4d994d53003edfc32,
     0x6189afa6cea6ac861968e797094b7c35,
     0x75366535cc403bbf4c58e2aba9b329ab,
     0x6106daf965c2125f4d9d4d590d33d0ce,
     0x2f1396f86aea6cca6a98010000000000,
     0x0098b2da1e905c7b7f5a739c85f494d5,
     0xf680e4dafbd39ae32ca4a7acb60724d7,
     0xde9fd61c67213d65b53d20b9f6feb4e6,
     0x380be929abed01c9b5f7a735c759484f,
     0x596d0f48aebd3fad39ce020000000000,
     0x0018464ecb66dc9fa5a1a00666d83072,
     0x5a36e3fe2c0d053530c38691d3b219f7,
     0x676928a88119368c9c96cdb83f4b4341,
     0x0dccb061e4b46cc6fd591a0a6a60860d,
     0x23a76533eecfd2505003030000000000,
     0x00789e7eb93cea7c5b8dad0353e8f3f4,
     0xcbe551e7db6a6c1d98429fa75f2e8f3a,
     0xdf5663ebc014fa3cfd7279d4f9b61a5b,
     0x07a6d0e7e997cba3ceb7d5d83a30853e,
     0x4fbf5c1e75beadc6d681010000000000,
     0x0028768d4df70f2dbc56c76f4e70b16b,
     0x6cba7f68e1b53a7e73828b5d63d3fd43,
     0x0bafd5f19b135cec1a9bee1f5a78ad8e,
     0xdf9ce062d7d874ffd0c26b75fce60417,
     0xbbc6a6fb87165eabe337030000000000,
     0x00989fdaca366a2dd417cca09d724eb9,
     0xfc8f52401566901e867e4d9735feb19a,
     0xb30c7b5e8d27ab6c9b6acec00a2d363c,
     0xc69aba4f1774600966060fbe6aef34b0,
     0xf5cd6650852592fb33ab010000000000,
     0x0098724eb9fc8f52401566901e867e4d,
     0x9735feb19ab30c7b5e8d27ab6c9b6ace,
     0xc00a2d363cc69aba4f1774600966060f,
     0xbe6aef34b0f5cd6650852592fb33abe9,
     0xb80a33c8c4038c9befd7020000000000,
     0x0018867e4d9735feb19ab30c7b5e8d27,
     0xab6c9b6acec00a2d363cc69aba4f1774,
     0x600966060fbe6aef34b0f5cd66508525,
     0x92fb33abe9b80a33c8c4038c9befd756,
     0x0e78f3535bd946ad85fa020000000000,
     0x00785e8d27ab6c9b6acec00a2d363cc6,
     0x9aba4f1774600966060fbe6aef34b0f5,
     0xcd6650852592fb33abe9b80a33c8c403,
     0x8c9befd7560e78f3535bd946ad85fa82,
     0x19b453ce2997ff510aa8020000000000,
     0x0028363cc69aba4f1774600966060fbe,
     0x6aef34b0f5cd6650852592fb33abe9b8,
     0x0a33c8c4038c9befd7560e78f3535bd9,
     0x46ad85fa8219b453ce2997ff510aa8c2,
     0x0cd2c3d0afe9b2c63f56030000000000,
     0x0060060fbe6aef34b0f5cd6650852592,
     0xfb33abe9b80a33c8c4038c9befd7560e,
     0x78f3535bd946ad85fa8219b453ce2997,
     0xff510aa8c20cd2c3d0afe9b2c63f5673,
     0x9661cfabf164956d53cd010000000000,
     0x0098b27e279bba34e8187853d6ef6453,
     0x97061d036fcafa9d6cead2a063e04d59,
     0xbf934d5d1a740cbc29eb77b2a94b838e,
     0x813765fd4e367569d031f0a6acdfc9a6,
     0x2e0d3a06de94f53bd9d4010000000000,
     0x0018468dc76a6fab550eb4c3a8f158ed,
     0x6db5ca817618351eabbdad5639d00ea3,
     0xc663b5b7d52a07da61d478acf6b65ae5,
     0x403b8c1a8fd5de56ab1c688751e3b1da,
     0xdb6a9503ed306a3c567b030000000000,
     0x00781e3cbefab3d78219d2cf83c7577f,
     0xf65a3043fa79f0f8eacf5e0b66483f0f,
     0x1e5ffdd96bc10ce9e7c1e3ab3f7b2d98,
     0x21fd3c787cf567af0533a49f078faffe,
     0xecb56086f4f3e0f1d59f010000000000,
     0x0028360f929beffac28c61c5e64172f3,
     0x5d5f9831acd83c486ebeeb0b3386159b,
     0x07c9cd777d61c6b062f320b9f9ae2fcc,
     0x18566c1e2437dff58519c38acd83e4e6,
     0xbbbe306358b17990dc7c030000000000,
     0x006086258cab05a87256a1ccb08471b5,
     0x0055ce2a94199630ae16a0ca598532c3,
     0x12c6d5025439ab506658c2b85a802a67,
     0x15ca0c4b18570b50e5ac42996109e36a,
     0x01aa9c5528332c615c2d000000000000]"

definition mx138by594_part3 :: "block list" where
  "mx138by594_part3 =
    [0x0050c503465d0a561b38c1aa78c0a84b,
     0xc16a032758150f187529586de004abe2,
     0x01a32e05ab0d9c60553c60d4a560b581,
     0x13ac8a078cba14ac36708255f1805197,
     0x82d5064eb02a1e30ea52000000000000,
     0x0018063c92ab05560f6c06399dacbd5f,
     0x0b3385aaa26c59fbb48e41fb3c1e18b7,
     0x149a7bf3fcf43bd69fd597b309ce0497,
     0x959d86ca41bad8961835ff0a5a8529d7,
     0xf8abf986aa81cda036d3010000000000,
     0x00781e0f8c5b0acdbd797efa1debcfea,
     0xcbd9046782cbca4e43e5205d6c4b8c9a,
     0x7f05adc2946bfcd57c43d5c066509be9,
     0x52673530338c190ff8874dd90abc61c0,
     0x23b95a60f5c06690d3c9020000000000,
     0x0028b62546cdbf825661ca35fe6abea1,
     0x6a6033a8cd74a9b31a9819c68c07fcc3,
     0xa66c05de30e0915c2db07a6033c8e964,
     0xedfd5a9829541565cbdaa7750cdae7f1,
     0xc0b8a5d0dc9be7a7dfb1020000000000,
     0x0060c603fe6153b6026f18f048ae1658,
     0x3db019e474b2f67e2dcc14aa8ab265ed,
     0xd33a06edf37860dc5268eecdf3d3ef58,
     0x7f565fce2638135c56761a2a07e9625b,
     0x62d4fc2b6815a65ce3af020000000000,
     0x005045d9b2f6691d83f6793c306e2934,
     0xf7e6f9e977ac3fab2f67139c092e2b3b,
     0x0d958374b12d316afe15b40a53aef157,
     0xf30d55039b416da64b9dd5c0cc30663c,
     0xe01f36652bf086018fe4020000000000,
     0x00c80497959d86ca41bad8961835ff0a,
     0x5a8529d7f8abf986aa81cda036d3a5ce,
     0x6a606618331ef00f9bb21578c3804772,
     0xb5c0ea81cd20a793b5f76b61a6505594,
     0x2d6b9fd631689fc703e3020000000000,
     0x00789e25fef1e9ca314c155c4edd6b39,
     0x6b869c8e35dfac7ef394e1615cfeb115,
     0xb4c57e40d6d200668566c274f6aeaf81,
     0x67a0dfaf6a41735518060f466d531d43,
     0x9a196553b6d5609660b5010000000000,
     0x0028f603b29606302b3413a6b3777d0d,
     0x3c03fd7e550b9aabc23078306a9bea18,
     0xd2cc289bb2ad06b304ab6db23f83eac0,
     0xe657e3e496a2a0c07b9e25fef1e9ca31,
     0x4c155c4edd6b396b869c020000000000,
     0x006046d9946d359825586d93fd195407,
     0x36bf1a27b7140505def32cf18f4f578e,
     0x61aae072ea5ecb5933e474acf966f59b,
     0xa70c0fe3f28fada02df603b29606302b,
     0x3413a6b3777d0d3c03fd020000000000,
     0x0050059753f75ace9a21a763cd37abdf,
     0x3c657818977f6c056db11f90b5348059,
     0xa199309dbdeb6be019e8f7ab5ad05c15,
     0x86c18351db54c7906646d9946d359825,
     0x586d93fd19540736bf1a030000000000,
     0x00c884e9ec5d5f03cf40bf5fd582e6aa,
     0x300c1e8cdaa63a863433caa66cabc12c,
     0xc16a9beccfa03ab0f9d538b9a52828f0,
     0x9e67897f7cba720c53059753f75ace9a,
     0x21a763cd37abdf3c6578000000000000,
     0x0050db647f06d581cdafc6c92d454181,
     0xf73c4bfce3d39563982ab89cbad772d6,
     0x0c391d6bbe59fde629c3c3b8fc632b68,
     0x8bfd80aca501cc0acd84e9ec5d5f03cf,
     0x40bf5fd582e6aa300c1e000000000000,
     0x002876d95257df814d9907ff4803cccc,
     0xa0dfe4f24fc70ccbc464f3ad39e015bb,
     0x6ca9abefc0a6cc837fa4016666d06f72,
     0xf9a763866562b2f9d61cf08a5db6d4d5,
     0x776053e6c13fd2003333000000000000,
     0x00600697ed0dd5370fc31259b31a6767,
     0x5063e3dab4720a55db58b55050d03283,
     0xcbf686ea9b876189ac598db333a8b171,
     0x6d5a3985aa6dac5a28286899c1657b43,
     0xf5cdc3b044d6acc6d919000000000000,
     0x005085e97ec6ea2a3cef01ca7ead81e7,
     0x078f517f1acc09cee9574bc15648abc2,
     0x743f6375159ef70065bfd6c0f383c7a8,
     0x3f0de604e7f4aba5602ba45561ba9fb1,
     0xba0acf7b80b25f6be0f9010000000000,
     0x00c8c464f3ad39e015bb6ca9abefc0a6,
     0xcc837fa4016666d06f72f9a763866562,
     0xb2f9d61cf08a5db6d4d5776053e6c13f,
     0xd2003333e837b9fcd331c33231d97c6b,
     0x0e78c52e5beaea3bb029030000000000,
     0x0050db58b55050d03283cbf686ea9b87,
     0x6189ac598db333a8b1716d5a3985aa6d,
     0xac5a28286899c1657b43f5cdc3b044d6,
     0xacc6d919d4d8b836ad9c42d536562d14,
     0x14b4cce0b2bda1fae661000000000000,
     0x00c8e9574bc15648abc2743f6375159e,
     0xf70065bfd6c0f383c7a83f0de604e7f4,
     0xaba5602ba45561ba9fb1ba0acf7b80b2,
     0x5f6be0f9c163d49f06738273fad552b0,
     0x15d2aa30ddcf585d85e7010000000000,
     0x006086e9f25d50486762aca5d0b14273,
     0x9a5c9b82d90c351e751a383b3f1e64ed,
     0xb5031bc6035207d52a149bcb3fd31c68,
     0x5531592db095616afb2aff2a9760fd1a,
     0xf7d3309b013cfe613503030000000000,
     0x0050c564b5c05686a9edabfcab5c82f5,
     0x6bdc4fc36c06f0f887d50c3c654b28bb,
     0xbe6f7e5ed9eccd6ae031c374f92e28a4,
     0x3331d652e858a1394dae4dc16c861a8f,
     0x3a0d9c9d1f0fb2f6da81010000000000,
     0x00c8c4584ba16385e634b93605b3196a,
     0x3cea3470767e3cc8da6b07368c07a40e,
     0xaa552836977fa639d0aa62b25a602bc3,
     0xd4f655fe552ec1fa35eea761360378fc,
     0xc36a069eb225945ddf37030000000000,
     0x0050db57f957b904ebd7b89f86d90ce0,
     0xf10fab1978ca9650767ddffcbcb2d99b,
     0xd5c06386e9f25d50486762aca5d0b142,
     0x739a5c9b82d90c351e751a383b3f1e64,
     0xedb5031bc6035207d52a000000000000,
     0x00c869726d0a6633d478d469e0ecfc78,
     0x90b5d70e6c180f481d54ab506c2eff4c,
     0x73a055c564b5c05686a9edabfcab5c82,
     0xf56bdc4fc36c06f0f887d50c3c654b28,
     0xbbbe6f7e5ed9eccd6ae0010000000000,
     0x00d0af713f0db319c0e31f5633f0942d,
     0xa1ecfabef97965b337ab81c70cd3e5bb,
     0xa090cec4584ba16385e634b93605b319,
     0x6a3cea3470767e3cc8da6b07368c07a4,
     0x0eaa552836977fa639d0020000000000,
     0x0050c558f907e619f040d950059e2ac6,
     0xca3f30cf8007ca862af0543156fe8179,
     0x063c50365481a78ab1f20fcc33e081b2,
     0xa10a3c558c957f609e010f940d55e0a9,
     0x62acfc03f30c78a06ca8020000000000,
     0x00c8c4576d0ab3f9592275ac066d26be,
     0x6a5398cdcf12a963356833f1559bc26c,
     0x7e96481dab419b89afda1466f3b344ea,
     0x580dda4c7cd5a6309b9f2552c76ad066,
     0xe2ab3685d9fc2c913a56030000000000,
     0x00505b723fcdd9293fc0de9a83b4da92,
     0xfb69ce4ef901f6d61ca4d596dc4f7376,
     0xca0fb0b7e620adb6e47e9ab3537e80bd,
     0x350769b525f7d39c9df203ecad3948ab,
     0x2db99fe6ec941f606fcd010000000000,
     0x00c8a971d360e06194ed670565584e8d,
     0x9b06030fa36c3f2b28c3726adc341878,
     0x1865fb5941199653e3a6c1c0c328dbcf,
     0x0acab09c1a370d061e46d97e565086e5,
     0xd4b86930f030caf6b382020000000000,
     0x00d0efa8ad36b0e77139df6c55a87e47,
     0x6db5813d8fcbf966ab42f53b6aab0dec,
     0x795cce375b15aadf515b6d60cfe372be]"

definition mx138by594_part4 :: "block list" where
  "mx138by594_part4 =
    [0xd9aa50fd8eda6a037b1e97f3cd5685ea,
     0x77d4561bd8f3b89c6fb6020000000000,
     0x00a8f13f5efbe6629b4e0b3a4e708dff,
     0xf1da3717db745ad071826bfc8fd7beb9,
     0xd8a6d3828e135ce37fbcf6cdc5369d16,
     0x749ce01affe3b56f2eb6e9b4a0e304d7,
     0xf81faf7d73b14da7051d030000000000,
     0x00c84472d330b0624f967f309b72d9f2,
     0xad6333f020759a63987eff515fe06522,
     0xb9691858b127cb3f984db96cf9d6b119,
     0x78903acd314cbfffa82ff03291dc340c,
     0xacd893e51fcca65cb67c030000000000,
     0x00509b71adf666668cd5a69c1d0697b5,
     0x50b91958c2de0555688db30655d0aacd,
     0xb8567b3333c66a53ce0e83cb5aa8dc0c,
     0x2c61ef822ab4c659832a68d5665cabbd,
     0x991963b5296787c1652d000000000000,
     0x00c8e9a85f5b05557cf5d3067e9ee94a,
     0x01e6f93de0676c4d303c94cd6a48e774,
     0xd4afad822abefa69033fcf74a500f3fc,
     0x1ef033b626181eca6635a4733aead756,
     0x41155ffdb4819f67ba52000000000000,
     0x00d0ef3fea0bbc4c24370d032bf664f9,
     0x07b329972ddf3a36030f52a73986e9f7,
     0x1ff5055e26929b8681157bb2fc83d994,
     0xcb966f1d9b8107a9d31cc3f4fb8ffa02,
     0x2f13c94dc3c08a3d59fe010000000000,
     0x00a871d6a00a5ab519d76a6f66c6586d,
     0xcad96170590b959b8125ec5d5085d638,
     0x6b5005adda8c6bb5373363ac36e5ec30,
     0xb8ac85cacdc012f62ea8426b9c35a882,
     0x566dc6b5da9b9931569b020000000000,
     0x008087b2590de99c8efab55550c5573f,
     0x6de0e799ae14609edf037ec6d604c343,
     0xd9ac86744e47fdda2aa8e2ab9f36f0f3,
     0x4c570a30cfef013f636b82e1a16c5643,
     0x3aa7a37e6d1554f1d54f030000000000,
     0x0050dba8eb0bda9cfe03aa90d66fd658,
     0xcdb01a2b5b730a8547ea0a9a601ed89b,
     0xad66b0c4cf743c8307e4bb72f32b9b16,
     0xc03c652e970266c3301dff38fbbcc9da,
     0xd4c0c51eeba707c68caf020000000000,
     0x00c8e93fa00a69fd668dd50cabb1b235,
     0xa75078a4aea009e681bdd96a064bfc4c,
     0xc7337840be2b37bfb26901cc53e67229,
     0x60360cd3f18fb3cf9bac4d0d5cecb17e,
     0x7a60ccf86a1adeac8ae4020000000000,
     0x00d06fd658cdb01a2b5b730a8547ea0a,
     0x9a601ed89bad66b0c4cf743c8307e4bb,
     0x72f32b9b16c03c652e970266c3301dff,
     0x38fbbcc9dad4c0c51eeba707c68cafa6,
     0xe1cdaa48aed5aa9009e3020000000000,
     0x00a8b1b235a75078a4aea009e681bdd9,
     0x6a064bfc4cc7337840be2b37bfb26901,
     0xcc53e6722960360cd3f18fb3cf9bac4d,
     0x0d5cecb17e7a60ccf86a1adeac8ae45a,
     0xad0a9930ee6b81a7b651030000000000,
     0x008047ea0a9a601ed89bad66b0c4cf74,
     0x3c8307e4bb72f32b9b16c03c652e9702,
     0x66c3301dff38fbbcc9dad4c0c51eeba7,
     0x07c68cafa6e1cdaa48aed5aa9009e3be,
     0x16786a1b757d419bd37f000000000000,
     0x00e081bdd96a064bfc4cc7337840be2b,
     0x37bfb26901cc53e6722960360cd3f18f,
     0xb3cf9bac4d0d5cecb17e7a60ccf86a1a,
     0xdeac8ae45aad0a9930ee6b81a7b651d7,
     0x17b439fd075421addfac010000000000,
     0x00c869d63497604be41bccc398eca7df,
     0x9c8951439561f0b0b78ee7c765fe1998,
     0x19c97d2d68f5abec829ae1015a80d9f3,
     0xc69a862aa8ed1fac56280f7e56b9299b,
     0xcea603538571eb0be91a030000000000,
     0x00d0afb20b6a8607680166cf1b6b1aaa,
     0xa0b67fb05aa13cf859e5a66c3a9b0e4c,
     0x15c6ad2fa46b9c3ab6cea06ca5e06cb1,
     0xbf6a35e0e5346b9a4bb025f20de6614c,
     0xf6d36fcec4a8a1ca3078000000000000,
     0x00a871ead83a83b29582b3c5feaad580,
     0x97d3ac692ec196c837988731d94fbf39,
     0x13a3862ac3e0616f1dcf8fcbfc333033,
     0x92fb5ad0ea57d90535c303b400b3e78d,
     0x350d5550db3f58ad501e000000000000,
     0x008087bd753c3f2ef3cfc0cc48ee6b41,
     0xab5f6517d40c0fd002cc9e37d6345441,
     0x6dff60b54279f0b3ca4dd974361d982a,
     0x8c5b5f48d738756c9d41d94ac1d9627f,
     0xd56ac0cb69d63497604b000000000000,
     0x00e0c1cf2a3765d3d97460aa306e7d21,
     0x5de3d4b17506652b05678bfd55ab012f,
     0xa759d35c822d916f300f63b29f7e7326,
     0x460d5586c1c3de3a9e1f97f967606624,
     0xf7b5a0d5afb20b6a8607000000000000,
     0x00b044bec13c8cc97efacd9918355419,
     0x060f7beb787e5ce69f819991dcd78256,
     0xbfca2ea8191ea005983d6fac69a882da,
     0xfec16a85f2e067959bb2e96c3a305518,
     0xb7be90ae71ead83a83b2010000000000,
     0x00d06fea743ce5c9a60178fa4d9d8ea7,
     0x3cd934004fbfa9d3f194279b06e0e937,
     0x753a9ef264d3003cfda64ec7539e6c1a,
     0x80a7dfd4e978ca934d03f0f49b3a1d4f,
     0x79b269009e7e53a7e329030000000000,
     0x00a8b1bd2b378cb15a0db435b677e586,
     0x3156ab81b6c6f6aedc30c66a35d0d6d8,
     0xde951bc658ad06da1adbbb72c318abd5,
     0x405b637b576e1863b51a686b6cefca0d,
     0x63ac56036d8ded5db961000000000000,
     0x0080c7cfc0fcbcafbe16d2f0f819989f,
     0xf7d5d7421a1e3f03f3f3befa5a48c3e3,
     0x67607ede575f0b6978fc0ccccffbea6b,
     0x210d8f9f81f9795f7d2da4e1f133303f,
     0xefabaf85343c7e06e6e7010000000000,
     0x00e041be6156ece4d697613cc837cc8a,
     0x9ddcfa328c07f98659b1935b5f86f120,
     0xdf302b7672ebcb301ee41b66c54e6e7d,
     0x19c6837cc3acd8c9ad2fc378906f9815,
     0x3bb9f565180ff20db362030000000000,
     0x00b0841638cb0ce34255a196d0026799,
     0x615ca82ad4125ae02c338c0b55855a42,
     0x0b9c658671a1aa504b6881b3cc302e54,
     0x156a092d709619c685aa422da105ce32,
     0xc3b85055a825b4c05966000000000000,
     0x007840290cac8a51b33ac10f28858155,
     0x316a5627f801a530b02a46cdea043fa0,
     0x140656c5a8599de00794c2c0aa1835ab,
     0x13fc8052185815a36675821f500a03ab,
     0x62d4ac4ef0034a616055000000000000,
     0x00a8f1cf60c68c516b6e06a64b0368e1,
     0x916fceaae21f059ddf64ad06691e68c1,
     0xc099c81a5ba73cd6d732cc12a51898da,
     0x94ade3617cb5be0a7d00ffde9cd3d455,
     0xee79c9856a82cb66d32a000000000000,
     0x008047be39ab8a7f14747e93b51aa479,
     0xa0050367226b6c9df2585fcb304b9462,
     0x606a53b68e87f1d5fa2af401fc7b734e,
     0x5357b9e72517aa092e9b4daba05f7b83,
     0xb9d8c665b519b8fc69e0010000000000,
     0x00e081160c9c89acb175ca637d2dc32c,
     0x518a81a94dd93a1ec657ebabd007f0ef,
     0xcd394d5de59e975ca826b86c36ad827e,
     0xed0de6621b97d566e0f2a78157e39fc1,
     0x8c19a3d6dc0c4c9706d0020000000000,
     0x00b0442906a63665eb78185fadaf421f,
     0xc0bf37e73475957b5e72a19ae0b2d9b4,
     0x0afab537988b6d5c569b81cb9f065e8d,
     0x7f0633668c5a7333305d1a400b8f7c73,
     0x5615ff28e8fc266b3548030000000000,
     0x007800ffde9cd3d455ee79c9856a82cb]"

definition mx138by594_part5 :: "block list" where
  "mx138by594_part5 =
    [0x66d32ae8d7de602eb671596d062e7f1a,
     0x7835fe19cc98316acdcdc07469002d3c,
     0xf2cd5955fca3a0f39bacd520cd032d18,
     0x38135963eb94c7fa5a86010000000000,
     0x00289b4daba05f7b83b9d8c665b519b8,
     0xfc69e0d5f8673063c6a8353703d3a501,
     0xb4f0c8376755f18f82ce6fb25683340f,
     0xb460e04c648dad531eeb6b196689520c,
     0x4c6dcad6f130be5a5f85020000000000,
     0x008087160696537bc34c1559d3f1f38c,
     0xabb9f98db5be09e6721a206d09fe55a1,
     0xc6f936b0da52076666fc83adc3482eab,
     0x6730d9d72ab46c9f062d0f4af166fdfe,
     0x8cb3995076e58a3dea82020000000000,
     0x00e04129deacdf9f713613caae5cb147,
     0x5dd0297f15aa66309dd518f6009b020f,
     0x1e5a18584eed0d3355644dc7cf33aee6,
     0xe637d6fa2698cb6980b425f857851ae7,
     0xdbc06a4b1d9899f10fb6020000000000,
     0x00b004ffaa50e37c1b586da9033333fe,
     0xc1d6612497d53398ec6b155ab64f8396,
     0x07a578b37e7fc6d94c28bb72c51e7541,
     0xa7fc55a89ac1745663d8036c0a3c7868,
     0x616039b537cc5491351d030000000000,
     0x0078804d81070f2d0c2ca7f686992ab2,
     0xa6e3e7195773f31b6b7d13cce53440da,
     0x12fcab428df36d60b5a50eccccf8075b,
     0x87915c56cf60b2af5568d93e0d5a1e94,
     0xe2cdfafd196733a1ecca010000000000,
     0x0028dba741cb8352bc59bf3fe36c2694,
     0x5db9628fbaa053fe2a54cd603aab31ec,
     0x0136051e3cb430b09cda1b66aac89a8e,
     0x9f675ccdcd6facf54d3097d300694bf0,
     0xaf0a35ceb781d5963a30030000000000,
     0x00e0721a206d09fe55a1c6f936b0da52,
     0x076666fc83adc3482eab6730d9d72ab4,
     0x6c9f062d0f4af166fdfe8cb3995076e5,
     0x8a3dea824ef9ab503583e9acc6b007d8,
     0x1478f0d0c2c0726a6f98010000000000,
     0x00e001ff80c703fe018f07fc031e0ff8,
     0x073c1ef00f783ce01ff078c03fe0f180,
     0x7fc0e301ff80c703fe018f07fc031e0f,
     0xf8073c1ef00f783ce01ff078c03fe0f1,
     0x807fc0e301ff80c703fe010000000000,
     0x00b0844d416b099b82d6123605ad256c,
     0x0a5a4bd814b496b029682d6153d05ac2,
     0xa6a0b5844d416b099b82d6123605ad25,
     0x6c0a5a4bd814b496b029682d6153d05a,
     0xc2a6a0b5844d416b099b020000000000,
     0x0078c0a721fd804f43fa019f86f4033e,
     0x0de9077c1ad20ff834a41ff069483fe0,
     0xd3907ec0a721fd804f43fa019f86f403,
     0x3e0de9077c1ad20ff834a41ff069483f,
     0xe0d3907ec0a721fd804f030000000000,
     0x00285b1a1856b63430ac6c696058d9d2,
     0xc0b0b2a58161654b03c3ca960686952d,
     0x0d0c2b5b1a1856b63430ac6c696058d9,
     0xd2c0b0b2a58161654b03c3ca96068695,
     0x2d0d0c2b5b1a1856b634000000000000,
     0x00e0b2d514ca65ab2994cb56532897ad,
     0xa6502e5b4da15cb69a42b96c358572d9,
     0x6a0ae5b2d514ca65ab2994cb56532897,
     0xada6502e5b4da15cb69a42b96c358572,
     0xd96a0ae5b2d514ca65ab010000000000,
     0x0030dd6b136cbad726d874af4db0e95e,
     0x9b60d3bd36c1a67b6d824df7da049bee,
     0xb50936dd6b136cbad726d874af4db0e9,
     0x5e9b60d3bd36c1a67b6d824df7da049b,
     0xeeb50936dd6b136cbad7020000000000,
     0x00b0c4a719c6e5d79a61acac9eb271d9,
     0x5aecac813913f636b07eb550051ed814,
     0xd265b35a82270bd5f925b7a0cffb47e5,
     0x54913acee634df6f8607ff40fb803428,
     0xd474f59dc15735378c51030000000000,
     0x0078401a146abafacee0ab9a1bc6a875,
     0xcc0c65c34c6d3f1b588d4b013c4b7c9a,
     0x615c7ead19c6caea291b97adc5ce1a98,
     0x33616f03eb570b55e0814d215d36ab25,
     0x78b2509d5f720bfabc7f000000000000,
     0x00289bd5123c59a8ce2fb9057dde3f2a,
     0xa78ad47136a7f97e333cf807da07a441,
     0xa1a6abef0cbeaab9618c5ac7cc5036cc,
     0xd4f6b381d5b814c0b3c4a719c6e5d79a,
     0x61acac9eb271d95aecac010000000000,
     0x00e0f26bcd3056564fd9b86c2d76d6c0,
     0x9c097b1b58bf5aa8020f6c0ae9b2592d,
     0xc19385eafc925bd0e7fda372aa481d67,
     0x739aef37c3837fa07d401a146abaface,
     0xe0ab9a1bc6a875cc0c65030000000000,
     0x00305d7d67f055cd0d63d43a6686b261,
     0xa6b69f0dacc6a5009e253ecd302ebfd6,
     0x0c6365f5948dcbd662670dcc99b0b781,
     0xf5ab852af0c0a6902e9bd5123c59a8ce,
     0x2fb9057dde3f2aa78ad4010000000000,
     0x00982c54e797dc823eef1f955345ea38,
     0x9bd37cbf191efc03ed03d2a050d3d577,
     0x065fd5dc3046ad6366281b666afbd9c0,
     0x6a5c0ae059e2d30ce3f26bcd3056564f,
     0xd9b86c2d76d6c09c097b030000000000]"

definition mx138by594 :: "u8 list" where
  "mx138by594 = concat (map line_bytes (mx138by594_part1 @ mx138by594_part2 @ mx138by594_part3 @ mx138by594_part4 @ mx138by594_part5))"

definition mx144by605_part1 :: "block list" where
  "mx144by605_part1 =
    [0xd0020000000000005d02000000000000,
     0xc0031ef080073ce0010f78c0031ef080,
     0x073ce0010f78c0031ef080073ce0010f,
     0x78c0031ef080073ce0010f78c0031ef0,
     0x80073ce0010f78c0031ef080073ce001,
     0x0f78c0031ef080073ce0010f00000000,
     0xa0052d68410b5ad08216b4a0052d6841,
     0x0b5ad08216b4a0052d68410b5ad08216,
     0xb4a0052d68410b5ad08216b4a0052d68,
     0x410b5ad08216b4a0052d68410b5ad082,
     0x16b4a0052d68410b5ad0821600000000,
     0x908634a4210d6948431ad2908634a421,
     0x0d6948431ad2908634a4210d6948431a,
     0xd2908634a4210d6948431ad2908634a4,
     0x210d6948431ad2908634a4210d694843,
     0x1ad2908634a4210d6948431a00000000,
     0x0c6318c318c63086318c610c6318c318,
     0xc63086318c610c6318c318c63086318c,
     0x610c6318c318c63086318c610c6318c3,
     0x18c63086318c610c6318c318c6308631,
     0x8c610c6318c318c63086310c00000000,
     0x0a55a84215aa50852a54a10a55a84215,
     0xaa50852a54a10a55a84215aa50852a54,
     0xa10a55a84215aa50852a54a10a55a842,
     0x15aa50852a54a10a55a84215aa50852a,
     0x54a10a55a84215aa50852a1400000000,
     0x094e7082139ce0042738c1094e708213,
     0x9ce0042738c1094e7082139ce0042738,
     0xc1094e7082139ce0042738c1094e7082,
     0x139ce0042738c1094e7082139ce00427,
     0x38c1094e7082139ce004271800000000,
     0x00002da419a6d0049b6106f39bf2309e,
     0x576c66a822136acba97e6b0c0f1e58e2,
     0x0165e3b2e9263bd6af26d7b8a3fe47d6,
     0x949d3a7bff2cdf5a2805ff6cfae93458,
     0xedb5f5852aab355750b6ea1800000000,
     0x008034c3149a6033cc607e531ec6f38a,
     0xcd0c5564426d39d56f8de1c1034b3ca0,
     0x6c5c36dd64c7fad5e41a77d4ffc89ab2,
     0x5367ef9fe55b0ba5e09f4d3f9d06abbd,
     0xb6be5065b5e60aca561d570e00000000,
     0x00609842136c8619cc6fcac3785eb199,
     0xa18a4ca82da7faad313c78608907948d,
     0xcba69bec58bf9a5ce38efa1f595376ea,
     0xecfdb37c6ba114fcb3e9a7d360b5d7d6,
     0x17aaacd65c41d9aae3ca811900000000,
     0x00506882cd3083f94d7918cf2b363354,
     0x9109b5e554bf3586070f2cf180b271d9,
     0x74931deb57936bdc51ff236bca4e9dbd,
     0x7f966f2d94827f36fd741aacf6dafa42,
     0x95d59a2b285b755c3930c30c00000000,
     0x0048b0196630bf290fe379c566862a32,
     0xa1b69ceab7c6f0e081251e50362e9b6e,
     0xb263fd6a728d3bea7f644dd9a9b3f7cf,
     0xf2ad8552f0cfa69f4e83d55e5b5fa8b2,
     0x5a730565ab8e2b076698711600000000,
     0x0030c30ce637e5613cafd8cc504526d4,
     0x9653fdd6181e3cb0c403cac665d34d76,
     0xac5f4dae7147fd8fac293b75f6fe59be,
     0xb5500afed9f4d369b0da6beb0b55566b,
     0xaea06cd571e5c00c33ce1a1800000000,
     0x0080b442cd30bf61145b156ad32f3c2c,
     0x5136d38d35b9a3ce5aea7ea605fe7dda,
     0x6af5657541750c66ce0eac0aa0655882,
     0x6730e5e731231339ad310f1ec0e5c97e,
     0xd5b8ff50b6bdf35d0a9ba60100000000,
     0x006058826730e5e731231339ad310f1e,
     0xc0e5c97ed5b8ff50b6bdf35d0a9ba6e1,
     0xb550d51c5b2b073303bf19789056a819,
     0xe6378c62ab426dfa858725ca66bab126,
     0x77d4594bddcfb4c0bf4f5b0d00000000,
     0x0050a819e6378c62ab426dfa858725ca,
     0x66bab12677d4594bddcfb4c0bf4f5bad,
     0xbeac2ea88ec1ccd9815501b40c4bf00c,
     0xa6fc3c666422a735e6c103b83cd9af1a,
     0xf71fcab677be4b61d334bc1600000000,
     0x0048f00ca6fc3c666422a735e6c103b8,
     0x3cd9af1af71fcab677be4b61d334bc16,
     0xaa9a636be56066e037030fd20a35c3fc,
     0x86516c55a84dbff0b044d94c37d6e48e,
     0x3a6ba9fb9916f8f769abd51700000000,
     0x0030c3fc86516c55a84dbff0b044d94c,
     0x37d6e48e3a6ba9fb9916f8f769abd597,
     0xd505d53198393bb02a809661099ec194,
     0x9fc78c4ce4b4c63c78009727fb55e3fe,
     0x43d9f6ce77296c9a86d7421500000000,
     0x0098c1949fc78c4ce4b4c63c78009727,
     0xfb55e3fe43d9f6ce77296c9a86d74255,
     0x736cad1ccc0cfc66e0415aa16698df30,
     0x8aad0ab5e9171e96289be9c69adc5167,
     0x2d753fd302ff3e6db5fab21a00000000,
     0x00609819a65cec4ce89707659b6c72ff,
     0x91ba7cf32f0df5d59c8e613630e031cc,
     0x0c532e7626f4cb83b24d36b9ff485dbe,
     0xf99786fa6a4ec7301b18f01866862917,
     0x3b13fae541d9269bdc7fa40e00000000,
     0x0050e80c86c10cb5d5d8125c1eab71b3,
     0x666f2dd8d46a502d68e538fb66d02a74,
     0x06c36086da6a6c092e8fd5b859b3b716,
     0x6c6a35a816b4729c7d3368153a836130,
     0x436d35b60497c76adcacd91b00000000,
     0x0048f0fc9ea78a9cc2e301a6fbeaa895,
     0xfdb3527cfab5ac662b980d5c05482778,
     0x7ecf53454ee1f100d37d75d4cafe5929,
     0x3efd5a56b315cc06ae02a4133cbfe7a9,
     0x22a7f07880e9be3a6a65ff0c00000000,
     0x0030c3948b9d09fdf2a06c934dee3f52,
     0x976ffea5a1be9ad331cc06063c869961,
     0xcac5ce847e7950b6c926f71fa9cb37ff,
     0xd2505fcde9186603031ec3cc30e56267,
     0x42bf3c28db6493fb8fd4e51b00000000,
     0x0098c13098a1b61a5b82cb63356ed6ec,
     0xad059b5a0daa05ad1c67df0c5a85ce60,
     0x18cc505b8d2dc1e5b11a376bf6d6824d,
     0xad06d582568eb36f06ad4267300c66a8,
     0xadc696e0f2588d9b357b6b0100000000,
     0x0098dff3549153783cc0745f1db5b27f,
     0x568a4fbf96d56c05b381ab00e904cfef,
     0x79aac8293c1e60baaf8e5ad93f2bc5a7,
     0x5fcb6ab682d9c055807482e7f73c55e4,
     0x141e0f30dd5747adec9f950200000000,
     0x0050e8fc8aad3678946daca34e9d163e,
     0x5ddf82827960a04df0949991531e70f9,
     0xabffb07729d20055b6c2eccd9036c330,
     0x54a15f4b982eb959fb19ffacc66a1d73,
     0xb60a0c9bc1f33251e3074c1600000000,
     0x0048f0949991531e70f9abffb07729d2,
     0x0055b6c2eccd9036c33054a15f4b982e,
     0xb959fb19ffacc66a1d73b60a0c9bc1f3,
     0x3251e3074cd6b8caceb74d5fabb9ca19,
     0x18780a9d5fb1d5068fb28d1500000000,
     0x0030c33054a15f4b982eb959fb19ffac,
     0xc66a1d73b60a0c9bc1f33251e3074cd6,
     0xb8caceb74d5fabb9ca1918780a9d5fb1,
     0xd5068fb28d75d4a9d3c2a7eb5b50300f,
     0x0cb4099e323372ca032e7f1500000000,
     0x0098c1f33251e3074cd6b8caceb74d5f,
     0xabb9ca1918780a9d5fb1d5068fb28d75,
     0xd4a9d3c2a7eb5b50300f0cb4099e3233,
     0x72ca032e7ff51ff62e451aa0ca5698bd,
     0x19d26618862af46b09d3251700000000,
     0x00985fb1d5068fb28d75d4a9d3c2a7eb,
     0x5b50300f0cb4099e323372ca032e7ff5,
     0x1ff62e451aa0ca5698bd19d26618862a,
     0xf46b09d325376b3fe39fd558ad63ce56,
     0x816133785e266afc80c91a1700000000,
     0x0098323372ca032e7ff51ff62e451aa0,
     0xca5698bd19d26618862af46b09d32537]"

definition mx144by605_part2 :: "block list" where
  "mx144by605_part2 =
    [0x6b3fe39fd558ad63ce56816133785e26,
     0x6afc80c91a57d9f9b6e96b3557390303,
     0x4fa1f32bb6dae051b6b18e1a00000000,
     0x0048f03032010f2e2757d95a4803ab2b,
     0x373048cfa0d839b5c464476d6ffebdb6,
     0xa030ab8242a7ac8a1a97edab59cbf7a7,
     0xa1aa630383d60ccf531b0f4c67dcd495,
     0xc26a9a03f39b19363f66e81700000000,
     0x0030c3f3d4c603d3193775a5b09ae6c0,
     0xfc6686cd8f19fa7dc058fff1339bd697,
     0xad9c055e82879109787039b9cad6421a,
     0x585db981417a06c5cea925263b6a7bf3,
     0xefb505855915143a6555d41800000000,
     0x009841b1736a89c98edadefc7b6d4161,
     0x5605854e5915352edb57b396ef4f4355,
     0xc70606ad199ea7361e98ceb8a92b85d5,
     0x3407e637336c7eccd0ef03c6fa8f9fd9,
     0xb4be6ce52cf0123c8c4cc00300000000,
     0x00981f33f4fb80b1fee36736ad2f5b39,
     0x0bbc040f2313f0e0727295ad8534b0ba,
     0x720383f40c8a9d534b4c76d4f6e6df6b,
     0x0b0ab32a2874caaaa871d9be9ab57c7f,
     0x1aaa3a363068cdf03cb5f10000000000,
     0x0098b22a6a5cb6af662ddf9f86aa8e0d,
     0x0c5a333c4f6d3c309d7153570aab690e,
     0xcc6f66d8fc98a1df078cf51f3fb3697d,
     0xd9ca59e02578189980079793ab6c2da4,
     0x81d5951b18a46750ec9c5a0200000000,
     0x00184626e0c1e5e42a5b0b696075e506,
     0x06e919143ba79698eca8edcdbfd71614,
     0x665550e8945551e3b27d356bf9fe3454,
     0x756c60d09ae1796ae381e98c9bba5258,
     0x4d73607e33c3e6c70cfd3e0000000000,
     0x003043b1f55bb6e4a68e7ff5d5f1c018,
     0x36e54cf060b2ffc8771a340733e099a1,
     0xd8fa2d5b7253c7bffaea78600c9b7226,
     0x7830d97fe43b0d9a8319f0cc506cfd96,
     0x2db9a9e35f7d753c30864d1900000000,
     0x009801336acc65e3dadba650addc9b15,
     0x3a0cb55962ac59d382d50aca59d0ce80,
     0x1935e6b271ed6d53a856eecd0a1d86da,
     0x2c31d6ac69c16a05e52c6867c08c1a73,
     0xd9b8f6b629542bf766850e0300000000,
     0x00989f2ae061ba51ffecd3ac06731512,
     0xfcbc9c3ee0abca2ec56bd96a6048cf4f,
     0x15f030dda87ff6695683b90a097e5e4e,
     0x1ff0556597e2b56c3530a4e7a70a7898,
     0x6ed43ffb34abc15c85043f0f00000000,
     0x009872267830d97fe43b0d9a8319f0cc,
     0x506cfd962db9a9e35f7d753c30864d39,
     0x133c98ec3ff29d06cdc10c786628b67e,
     0xcb96dcd4f1afbe3a1e18c3a69c091e4c,
     0xf61ff94e83e660063c33141b00000000,
     0x001886da2c31d6ac69c16a05e52c6867,
     0xc08c1a73d9b8f6b629542bf766850e43,
     0x6d96186bd6b460b5827216b43360468d,
     0xb96c5c7bdb14aa957bb34287a1364b8c,
     0x356b5ab05a41390bda19300300000000,
     0x00785e4e1ff0556597e2b56c3530a4e7,
     0xa70a78986ed43ffb34abc15c85043f2f,
     0xa70ff8aab24bf15ab61a18d2f353053c,
     0x4c37ea9f7d9ad560ae42829f97d3077c,
     0x55d9a5782d5b0d0ce9f9a90200000000,
     0x0098812a78305665f30faa6006de0c54,
     0xc183b12a9b7f500533f066a00a1e8c55,
     0xd9fc832a9881370355f060accae61f54,
     0xc10cbc19a88207635536ffa00a66e0cd,
     0x40153c18abb2f9075530030f00000000,
     0x00985f262cf1d5d4d994d53003edfc32,
     0x6189afa6cea6ac861968e797094b7c35,
     0x75366535cc403bbf4c58e2aba9b329ab,
     0x6106daf965c2125f4d9d4d590d33d0ce,
     0x2f1396f86aea6cca6a98811600000000,
     0x0098b2da1e905c7b7f5a739c85f494d5,
     0xf680e4dafbd39ae32ca4a7acb60724d7,
     0xde9fd61c67213d65b53d20b9f6feb4e6,
     0x380be929abed01c9b5f7a735c759484f,
     0x596d0f48aebd3fad39ce421a00000000,
     0x0018464ecb66dc9fa5a1a00666d83072,
     0x5a36e3fe2c0d053530c38691d3b219f7,
     0x676928a88119368c9c96cdb83f4b4341,
     0x0dccb061e4b46cc6fd591a0a6a60860d,
     0x23a76533eecfd2505003330c00000000,
     0x00789e7eb93cea7c5b8dad0353e8f3f4,
     0xcbe551e7db6a6c1d98429fa75f2e8f3a,
     0xdf5663ebc014fa3cfd7279d4f9b61a5b,
     0x07a6d0e7e997cba3ceb7d5d83a30853e,
     0x4fbf5c1e75beadc6d681291400000000,
     0x0028768d4df70f2dbc56c76f4e70b16b,
     0x6cba7f68e1b53a7e73828b5d63d3fd43,
     0x0bafd5f19b135cec1a9bee1f5a78ad8e,
     0xdf9ce062d7d874ffd0c26b75fce60417,
     0xbbc6a6fb87165eabe337271800000000,
     0x00989fdaca366a2dd417cca09d724eb9,
     0xfc8f52401566901e867e4d9735feb19a,
     0xb30c7b5e8d27ab6c9b6acec00a2d363c,
     0xc69aba4f1774600966060fbe6aef34b0,
     0xf5cd6650852592fb33abe91800000000,
     0x0098724eb9fc8f52401566901e867e4d,
     0x9735feb19ab30c7b5e8d27ab6c9b6ace,
     0xc00a2d363cc69aba4f1774600966060f,
     0xbe6aef34b0f5cd6650852592fb33abe9,
     0xb80a33c8c4038c9befd7560e00000000,
     0x0018867e4d9735feb19ab30c7b5e8d27,
     0xab6c9b6acec00a2d363cc69aba4f1774,
     0x600966060fbe6aef34b0f5cd66508525,
     0x92fb33abe9b80a33c8c4038c9befd756,
     0x0e78f3535bd946ad85fa821900000000,
     0x00785e8d27ab6c9b6acec00a2d363cc6,
     0x9aba4f1774600966060fbe6aef34b0f5,
     0xcd6650852592fb33abe9b80a33c8c403,
     0x8c9befd7560e78f3535bd946ad85fa82,
     0x19b453ce2997ff510aa8c20c00000000,
     0x0028363cc69aba4f1774600966060fbe,
     0x6aef34b0f5cd6650852592fb33abe9b8,
     0x0a33c8c4038c9befd7560e78f3535bd9,
     0x46ad85fa8219b453ce2997ff510aa8c2,
     0x0cd2c3d0afe9b2c63f56731600000000,
     0x0060060fbe6aef34b0f5cd6650852592,
     0xfb33abe9b80a33c8c4038c9befd7560e,
     0x78f3535bd946ad85fa8219b453ce2997,
     0xff510aa8c20cd2c3d0afe9b2c63f5673,
     0x9661cfabf164956d53cd191800000000,
     0x0098b27e279bba34e8187853d6ef6453,
     0x97061d036fcafa9d6cead2a063e04d59,
     0xbf934d5d1a740cbc29eb77b2a94b838e,
     0x813765fd4e367569d031f0a6acdfc9a6,
     0x2e0d3a06de94f53bd9d4a50100000000,
     0x0018468dc76a6fab550eb4c3a8f158ed,
     0x6db5ca817618351eabbdad5639d00ea3,
     0xc663b5b7d52a07da61d478acf6b65ae5,
     0x403b8c1a8fd5de56ab1c688751e3b1da,
     0xdb6a9503ed306a3c567b5b0d00000000,
     0x00781e3cbefab3d78219d2cf83c7577f,
     0xf65a3043fa79f0f8eacf5e0b66483f0f,
     0x1e5ffdd96bc10ce9e7c1e3ab3f7b2d98,
     0x21fd3c787cf567af0533a49f078faffe,
     0xecb56086f4f3e0f1d59fbd1600000000,
     0x0028360f929beffac28c61c5e64172f3,
     0x5d5f9831acd83c486ebeeb0b3386159b,
     0x07c9cd777d61c6b062f320b9f9ae2fcc,
     0x18566c1e2437dff58519c38acd83e4e6,
     0xbbbe306358b17990dc7cd71700000000,
     0x006086258cab05a87256a1ccb08471b5,
     0x0055ce2a94199630ae16a0ca598532c3,
     0x12c6d5025439ab506658c2b85a802a67,
     0x15ca0c4b18570b50e5ac42996109e36a,
     0x01aa9c5528332c615c2d401500000000]"

definition mx144by605_part3 :: "block list" where
  "mx144by605_part3 =
    [0x0050c503465d0a561b38c1aa78c0a84b,
     0xc16a032758150f187529586de004abe2,
     0x01a32e05ab0d9c60553c60d4a560b581,
     0x13ac8a078cba14ac36708255f1805197,
     0x82d5064eb02a1e30ea52b01a00000000,
     0x0018063c92ab05560f6c06399dacbd5f,
     0x0b3385aaa26c59fbb48e41fb3c1e18b7,
     0x149a7bf3fcf43bd69fd597b309ce0497,
     0x959d86ca41bad8961835ff0a5a8529d7,
     0xf8abf986aa81cda036d3a50e00000000,
     0x00781e0f8c5b0acdbd797efa1debcfea,
     0xcbd9046782cbca4e43e5205d6c4b8c9a,
     0x7f05adc2946bfcd57c43d5c066509be9,
     0x52673530338c190ff8874dd90abc61c0,
     0x23b95a60f5c06690d3c9da1b00000000,
     0x0028b62546cdbf825661ca35fe6abea1,
     0x6a6033a8cd74a9b31a9819c68c07fcc3,
     0xa66c05de30e0915c2db07a6033c8e964,
     0xedfd5a9829541565cbdaa7750cdae7f1,
     0xc0b8a5d0dc9be7a7dfb1fe0c00000000,
     0x0060c603fe6153b6026f18f048ae1658,
     0x3db019e474b2f67e2dcc14aa8ab265ed,
     0xd33a06edf37860dc5268eecdf3d3ef58,
     0x7f565fce2638135c56761a2a07e9625b,
     0x62d4fc2b6815a65ce3afe61b00000000,
     0x005045d9b2f6691d83f6793c306e2934,
     0xf7e6f9e977ac3fab2f67139c092e2b3b,
     0x0d958374b12d316afe15b40a53aef157,
     0xf30d55039b416da64b9dd5c0cc30663c,
     0xe01f36652bf086018fe46a0100000000,
     0x00c80497959d86ca41bad8961835ff0a,
     0x5a8529d7f8abf986aa81cda036d3a5ce,
     0x6a606618331ef00f9bb21578c3804772,
     0xb5c0ea81cd20a793b5f76b61a6505594,
     0x2d6b9fd631689fc703e3960200000000,
     0x00789e25fef1e9ca314c155c4edd6b39,
     0x6b869c8e35dfac7ef394e1615cfeb115,
     0xb4c57e40d6d200668566c274f6aeaf81,
     0x67a0dfaf6a41735518060f466d531d43,
     0x9a196553b6d5609660b54d1600000000,
     0x0028f603b29606302b3413a6b3777d0d,
     0x3c03fd7e550b9aabc23078306a9bea18,
     0xd2cc289bb2ad06b304ab6db23f83eac0,
     0xe657e3e496a2a0c07b9e25fef1e9ca31,
     0x4c155c4edd6b396b869c8e1500000000,
     0x006046d9946d359825586d93fd195407,
     0x36bf1a27b7140505def32cf18f4f578e,
     0x61aae072ea5ecb5933e474acf966f59b,
     0xa70c0fe3f28fada02df603b29606302b,
     0x3413a6b3777d0d3c03fd7e1500000000,
     0x0050059753f75ace9a21a763cd37abdf,
     0x3c657818977f6c056db11f90b5348059,
     0xa199309dbdeb6be019e8f7ab5ad05c15,
     0x86c18351db54c7906646d9946d359825,
     0x586d93fd19540736bf1a271700000000,
     0x00c884e9ec5d5f03cf40bf5fd582e6aa,
     0x300c1e8cdaa63a863433caa66cabc12c,
     0xc16a9beccfa03ab0f9d538b9a52828f0,
     0x9e67897f7cba720c53059753f75ace9a,
     0x21a763cd37abdf3c6578181700000000,
     0x0050db647f06d581cdafc6c92d454181,
     0xf73c4bfce3d39563982ab89cbad772d6,
     0x0c391d6bbe59fde629c3c3b8fc632b68,
     0x8bfd80aca501cc0acd84e9ec5d5f03cf,
     0x40bf5fd582e6aa300c1e8c1a00000000,
     0x002876d95257df814d9907ff4803cccc,
     0xa0dfe4f24fc70ccbc464f3ad39e015bb,
     0x6ca9abefc0a6cc837fa4016666d06f72,
     0xf9a763866562b2f9d61cf08a5db6d4d5,
     0x776053e6c13fd2003333e81700000000,
     0x00600697ed0dd5370fc31259b31a6767,
     0x5063e3dab4720a55db58b55050d03283,
     0xcbf686ea9b876189ac598db333a8b171,
     0x6d5a3985aa6dac5a28286899c1657b43,
     0xf5cdc3b044d6acc6d919d41800000000,
     0x005085e97ec6ea2a3cef01ca7ead81e7,
     0x078f517f1acc09cee9574bc15648abc2,
     0x743f6375159ef70065bfd6c0f383c7a8,
     0x3f0de604e7f4aba5602ba45561ba9fb1,
     0xba0acf7b80b25f6be0f9c10300000000,
     0x00c8c464f3ad39e015bb6ca9abefc0a6,
     0xcc837fa4016666d06f72f9a763866562,
     0xb2f9d61cf08a5db6d4d5776053e6c13f,
     0xd2003333e837b9fcd331c33231d97c6b,
     0x0e78c52e5beaea3bb029f30000000000,
     0x0050db58b55050d03283cbf686ea9b87,
     0x6189ac598db333a8b1716d5a3985aa6d,
     0xac5a28286899c1657b43f5cdc3b044d6,
     0xacc6d919d4d8b836ad9c42d536562d14,
     0x14b4cce0b2bda1fae661580200000000,
     0x00c8e9574bc15648abc2743f6375159e,
     0xf70065bfd6c0f383c7a83f0de604e7f4,
     0xaba5602ba45561ba9fb1ba0acf7b80b2,
     0x5f6be0f9c163d49f06738273fad552b0,
     0x15d2aa30ddcf585d85e73d0000000000,
     0x006086e9f25d50486762aca5d0b14273,
     0x9a5c9b82d90c351e751a383b3f1e64ed,
     0xb5031bc6035207d52a149bcb3fd31c68,
     0x5531592db095616afb2aff2a9760fd1a,
     0xf7d3309b013cfe6135034f1900000000,
     0x0050c564b5c05686a9edabfcab5c82f5,
     0x6bdc4fc36c06f0f887d50c3c654b28bb,
     0xbe6f7e5ed9eccd6ae031c374f92e28a4,
     0x3331d652e858a1394dae4dc16c861a8f,
     0x3a0d9c9d1f0fb2f6da810d0300000000,
     0x00c8c4584ba16385e634b93605b3196a,
     0x3cea3470767e3cc8da6b07368c07a40e,
     0xaa552836977fa639d0aa62b25a602bc3,
     0xd4f655fe552ec1fa35eea761360378fc,
     0xc36a069eb225945ddf373f0f00000000,
     0x0050db57f957b904ebd7b89f86d90ce0,
     0xf10fab1978ca9650767ddffcbcb2d99b,
     0xd5c06386e9f25d50486762aca5d0b142,
     0x739a5c9b82d90c351e751a383b3f1e64,
     0xedb5031bc6035207d52a141b00000000,
     0x00c869726d0a6633d478d469e0ecfc78,
     0x90b5d70e6c180f481d54ab506c2eff4c,
     0x73a055c564b5c05686a9edabfcab5c82,
     0xf56bdc4fc36c06f0f887d50c3c654b28,
     0xbbbe6f7e5ed9eccd6ae0310300000000,
     0x00d0af713f0db319c0e31f5633f0942d,
     0xa1ecfabef97965b337ab81c70cd3e5bb,
     0xa090cec4584ba16385e634b93605b319,
     0x6a3cea3470767e3cc8da6b07368c07a4,
     0x0eaa552836977fa639d0aa0200000000,
     0x0050c558f907e619f040d950059e2ac6,
     0xca3f30cf8007ca862af0543156fe8179,
     0x063c50365481a78ab1f20fcc33e081b2,
     0xa10a3c558c957f609e010f940d55e0a9,
     0x62acfc03f30c78a06ca8020f00000000,
     0x00c8c4576d0ab3f9592275ac066d26be,
     0x6a5398cdcf12a963356833f1559bc26c,
     0x7e96481dab419b89afda1466f3b344ea,
     0x580dda4c7cd5a6309b9f2552c76ad066,
     0xe2ab3685d9fc2c913a56831600000000,
     0x00505b723fcdd9293fc0de9a83b4da92,
     0xfb69ce4ef901f6d61ca4d596dc4f7376,
     0xca0fb0b7e620adb6e47e9ab3537e80bd,
     0x350769b525f7d39c9df203ecad3948ab,
     0x2db99fe6ec941f606fcd411a00000000,
     0x00c8a971d360e06194ed670565584e8d,
     0x9b06030fa36c3f2b28c3726adc341878,
     0x1865fb5941199653e3a6c1c0c328dbcf,
     0x0acab09c1a370d061e46d97e565086e5,
     0xd4b86930f030caf6b382320c00000000,
     0x00d0efa8ad36b0e77139df6c55a87e47,
     0x6db5813d8fcbf966ab42f53b6aab0dec,
     0x795cce375b15aadf515b6d60cfe372be]"

definition mx144by605_part4 :: "block list" where
  "mx144by605_part4 =
    [0xd9aa50fd8eda6a037b1e97f3cd5685ea,
     0x77d4561bd8f3b89c6fb62a1400000000,
     0x00a8f13f5efbe6629b4e0b3a4e708dff,
     0xf1da3717db745ad071826bfc8fd7beb9,
     0xd8a6d3828e135ce37fbcf6cdc5369d16,
     0x749ce01affe3b56f2eb6e9b4a0e304d7,
     0xf81faf7d73b14da7051d271800000000,
     0x00c84472d330b0624f967f309b72d9f2,
     0xad6333f020759a63987eff515fe06522,
     0xb9691858b127cb3f984db96cf9d6b119,
     0x78903acd314cbfffa82ff03291dc340c,
     0xacd893e51fcca65cb67ceb1800000000,
     0x00509b71adf666668cd5a69c1d0697b5,
     0x50b91958c2de0555688db30655d0aacd,
     0xb8567b3333c66a53ce0e83cb5aa8dc0c,
     0x2c61ef822ab4c659832a68d5665cabbd,
     0x991963b5296787c1652d540e00000000,
     0x00c8e9a85f5b05557cf5d3067e9ee94a,
     0x01e6f93de0676c4d303c94cd6a48e774,
     0xd4afad822abefa69033fcf74a500f3fc,
     0x1ef033b626181eca6635a4733aead756,
     0x41155ffdb4819f67ba52801900000000,
     0x00d0ef3fea0bbc4c24370d032bf664f9,
     0x07b329972ddf3a36030f52a73986e9f7,
     0x1ff5055e26929b8681157bb2fc83d994,
     0xcb966f1d9b8107a9d31cc3f4fb8ffa02,
     0x2f13c94dc3c08a3d59fec10c00000000,
     0x00a871d6a00a5ab519d76a6f66c6586d,
     0xcad96170590b959b8125ec5d5085d638,
     0x6b5005adda8c6bb5373363ac36e5ec30,
     0xb8ac85cacdc012f62ea8426b9c35a882,
     0x566dc6b5da9b9931569b721600000000,
     0x008087b2590de99c8efab55550c5573f,
     0x6de0e799ae14609edf037ec6d604c343,
     0xd9ac86744e47fdda2aa8e2ab9f36f0f3,
     0x4c570a30cfef013f636b82e1a16c5643,
     0x3aa7a37e6d1554f1d54f1b1800000000,
     0x0050dba8eb0bda9cfe03aa90d66fd658,
     0xcdb01a2b5b730a8547ea0a9a601ed89b,
     0xad66b0c4cf743c8307e4bb72f32b9b16,
     0xc03c652e970266c3301dff38fbbcc9da,
     0xd4c0c51eeba707c68cafa60100000000,
     0x00c8e93fa00a69fd668dd50cabb1b235,
     0xa75078a4aea009e681bdd96a064bfc4c,
     0xc7337840be2b37bfb26901cc53e67229,
     0x60360cd3f18fb3cf9bac4d0d5cecb17e,
     0x7a60ccf86a1adeac8ae45a0d00000000,
     0x00d06fd658cdb01a2b5b730a8547ea0a,
     0x9a601ed89bad66b0c4cf743c8307e4bb,
     0x72f32b9b16c03c652e970266c3301dff,
     0x38fbbcc9dad4c0c51eeba707c68cafa6,
     0xe1cdaa48aed5aa9009e3be1600000000,
     0x00a8b1b235a75078a4aea009e681bdd9,
     0x6a064bfc4cc7337840be2b37bfb26901,
     0xcc53e6722960360cd3f18fb3cf9bac4d,
     0x0d5cecb17e7a60ccf86a1adeac8ae45a,
     0xad0a9930ee6b81a7b651d71700000000,
     0x008047ea0a9a601ed89bad66b0c4cf74,
     0x3c8307e4bb72f32b9b16c03c652e9702,
     0x66c3301dff38fbbcc9dad4c0c51eeba7,
     0x07c68cafa6e1cdaa48aed5aa9009e3be,
     0x16786a1b757d419bd37f401500000000,
     0x00e081bdd96a064bfc4cc7337840be2b,
     0x37bfb26901cc53e6722960360cd3f18f,
     0xb3cf9bac4d0d5cecb17e7a60ccf86a1a,
     0xdeac8ae45aad0a9930ee6b81a7b651d7,
     0x17b439fd075421addfacb11a00000000,
     0x00c869d63497604be41bccc398eca7df,
     0x9c8951439561f0b0b78ee7c765fe1998,
     0x19c97d2d68f5abec829ae1015a80d9f3,
     0xc69a862aa8ed1fac56280f7e56b9299b,
     0xcea603538571eb0be91aa70e00000000,
     0x00d0afb20b6a8607680166cf1b6b1aaa,
     0xa0b67fb05aa13cf859e5a66c3a9b0e4c,
     0x15c6ad2fa46b9c3ab6cea06ca5e06cb1,
     0xbf6a35e0e5346b9a4bb025f20de6614c,
     0xf6d36fcec4a8a1ca3078d81b00000000,
     0x00a871ead83a83b29582b3c5feaad580,
     0x97d3ac692ec196c837988731d94fbf39,
     0x13a3862ac3e0616f1dcf8fcbfc333033,
     0x92fb5ad0ea57d90535c303b400b3e78d,
     0x350d5550db3f58ad501efc0c00000000,
     0x008087bd753c3f2ef3cfc0cc48ee6b41,
     0xab5f6517d40c0fd002cc9e37d6345441,
     0x6dff60b54279f0b3ca4dd974361d982a,
     0x8c5b5f48d738756c9d41d94ac1d9627f,
     0xd56ac0cb69d63497604be41b00000000,
     0x00e0c1cf2a3765d3d97460aa306e7d21,
     0x5de3d4b17506652b05678bfd55ab012f,
     0xa759d35c822d916f300f63b29f7e7326,
     0x460d5586c1c3de3a9e1f97f967606624,
     0xf7b5a0d5afb20b6a8607680100000000,
     0x00b044bec13c8cc97efacd9918355419,
     0x060f7beb787e5ce69f819991dcd78256,
     0xbfca2ea8191ea005983d6fac69a882da,
     0xfec16a85f2e067959bb2e96c3a305518,
     0xb7be90ae71ead83a83b2950200000000,
     0x00d06fea743ce5c9a60178fa4d9d8ea7,
     0x3cd934004fbfa9d3f194279b06e0e937,
     0x753a9ef264d3003cfda64ec7539e6c1a,
     0x80a7dfd4e978ca934d03f0f49b3a1d4f,
     0x79b269009e7e53a7e3294f1600000000,
     0x00a8b1bd2b378cb15a0db435b677e586,
     0x3156ab81b6c6f6aedc30c66a35d0d6d8,
     0xde951bc658ad06da1adbbb72c318abd5,
     0x405b637b576e1863b51a686b6cefca0d,
     0x63ac56036d8ded5db9618c1500000000,
     0x0080c7cfc0fcbcafbe16d2f0f819989f,
     0xf7d5d7421a1e3f03f3f3befa5a48c3e3,
     0x67607ede575f0b6978fc0ccccffbea6b,
     0x210d8f9f81f9795f7d2da4e1f133303f,
     0xefabaf85343c7e06e6e77d1500000000,
     0x00e041be6156ece4d697613cc837cc8a,
     0x9ddcfa328c07f98659b1935b5f86f120,
     0xdf302b7672ebcb301ee41b66c54e6e7d,
     0x19c6837cc3acd8c9ad2fc378906f9815,
     0x3bb9f565180ff20db362271700000000,
     0x00b0841638cb0ce34255a196d0026799,
     0x615ca82ad4125ae02c338c0b55855a42,
     0x0b9c658671a1aa504b6881b3cc302e54,
     0x156a092d709619c685aa422da105ce32,
     0xc3b85055a825b4c05966181700000000,
     0x007840290cac8a51b33ac10f28858155,
     0x316a5627f801a530b02a46cdea043fa0,
     0x140656c5a8599de00794c2c0aa1835ab,
     0x13fc8052185815a36675821f500a03ab,
     0x62d4ac4ef0034a6160558c1a00000000,
     0x00a8f1cf60c68c516b6e06a64b0368e1,
     0x916fceaae21f059ddf64ad06691e68c1,
     0xc099c81a5ba73cd6d732cc12a51898da,
     0x94ade3617cb5be0a7d00ffde9cd3d455,
     0xee79c9856a82cb66d32ae81700000000,
     0x008047be39ab8a7f14747e93b51aa479,
     0xa0050367226b6c9df2585fcb304b9462,
     0x606a53b68e87f1d5fa2af401fc7b734e,
     0x5357b9e72517aa092e9b4daba05f7b83,
     0xb9d8c665b519b8fc69e0d51800000000,
     0x00e081160c9c89acb175ca637d2dc32c,
     0x518a81a94dd93a1ec657ebabd007f0ef,
     0xcd394d5de59e975ca826b86c36ad827e,
     0xed0de6621b97d566e0f2a78157e39fc1,
     0x8c19a3d6dc0c4c9706d0c20300000000,
     0x00b0442906a63665eb78185fadaf421f,
     0xc0bf37e73475957b5e72a19ae0b2d9b4,
     0x0afab537988b6d5c569b81cb9f065e8d,
     0x7f0633668c5a7333305d1a400b8f7c73,
     0x5615ff28e8fc266b3548f30000000000,
     0x007800ffde9cd3d455ee79c9856a82cb]"

definition mx144by605_part5 :: "block list" where
  "mx144by605_part5 =
    [0x66d32ae8d7de602eb671596d062e7f1a,
     0x7835fe19cc98316acdcdc07469002d3c,
     0xf2cd5955fca3a0f39bacd520cd032d18,
     0x38135963eb94c7fa5a86590200000000,
     0x00289b4daba05f7b83b9d8c665b519b8,
     0xfc69e0d5f8673063c6a8353703d3a501,
     0xb4f0c8376755f18f82ce6fb25683340f,
     0xb460e04c648dad531eeb6b196689520c,
     0x4c6dcad6f130be5a5f853e0000000000,
     0x008087160696537bc34c1559d3f1f38c,
     0xabb9f98db5be09e6721a206d09fe55a1,
     0xc6f936b0da52076666fc83adc3482eab,
     0x6730d9d72ab46c9f062d0f4af166fdfe,
     0x8cb3995076e58a3dea824e1900000000,
     0x00e04129deacdf9f713613caae5cb147,
     0x5dd0297f15aa66309dd518f6009b020f,
     0x1e5a18584eed0d3355644dc7cf33aee6,
     0xe637d6fa2698cb6980b425f857851ae7,
     0xdbc06a4b1d9899f10fb60e0300000000,
     0x00b004ffaa50e37c1b586da9033333fe,
     0xc1d6612497d53398ec6b155ab64f8396,
     0x07a578b37e7fc6d94c28bb72c51e7541,
     0xa7fc55a89ac1745663d8036c0a3c7868,
     0x616039b537cc5491351d3f0f00000000,
     0x0078804d81070f2d0c2ca7f686992ab2,
     0xa6e3e7195773f31b6b7d13cce53440da,
     0x12fcab428df36d60b5a50eccccf8075b,
     0x87915c56cf60b2af5568d93e0d5a1e94,
     0xe2cdfafd196733a1ecca151b00000000,
     0x0028dba741cb8352bc59bf3fe36c2694,
     0x5db9628fbaa053fe2a54cd603aab31ec,
     0x0136051e3cb430b09cda1b66aac89a8e,
     0x9f675ccdcd6facf54d3097d300694bf0,
     0xaf0a35ceb781d5963a30330300000000,
     0x00e0721a206d09fe55a1c6f936b0da52,
     0x076666fc83adc3482eab6730d9d72ab4,
     0x6c9f062d0f4af166fdfe8cb3995076e5,
     0x8a3dea824ef9ab503583e9acc6b007d8,
     0x1478f0d0c2c0726a6f98a90200000000,
     0x00e001ff80c703fe018f07fc031e0ff8,
     0x073c1ef00f783ce01ff078c03fe0f180,
     0x7fc0e301ff80c703fe018f07fc031e0f,
     0xf8073c1ef00f783ce01ff078c03fe0f1,
     0x807fc0e301ff80c703fe010f00000000,
     0x00b0844d416b099b82d6123605ad256c,
     0x0a5a4bd814b496b029682d6153d05ac2,
     0xa6a0b5844d416b099b82d6123605ad25,
     0x6c0a5a4bd814b496b029682d6153d05a,
     0xc2a6a0b5844d416b099b821600000000,
     0x0078c0a721fd804f43fa019f86f4033e,
     0x0de9077c1ad20ff834a41ff069483fe0,
     0xd3907ec0a721fd804f43fa019f86f403,
     0x3e0de9077c1ad20ff834a41ff069483f,
     0xe0d3907ec0a721fd804f431a00000000,
     0x00285b1a1856b63430ac6c696058d9d2,
     0xc0b0b2a58161654b03c3ca960686952d,
     0x0d0c2b5b1a1856b63430ac6c696058d9,
     0xd2c0b0b2a58161654b03c3ca96068695,
     0x2d0d0c2b5b1a1856b634300c00000000,
     0x00e0b2d514ca65ab2994cb56532897ad,
     0xa6502e5b4da15cb69a42b96c358572d9,
     0x6a0ae5b2d514ca65ab2994cb56532897,
     0xada6502e5b4da15cb69a42b96c358572,
     0xd96a0ae5b2d514ca65ab291400000000,
     0x0030dd6b136cbad726d874af4db0e95e,
     0x9b60d3bd36c1a67b6d824df7da049bee,
     0xb50936dd6b136cbad726d874af4db0e9,
     0x5e9b60d3bd36c1a67b6d824df7da049b,
     0xeeb50936dd6b136cbad7261800000000,
     0x00b0c4a719c6e5d79a61acac9eb271d9,
     0x5aecac813913f636b07eb550051ed814,
     0xd265b35a82270bd5f925b7a0cffb47e5,
     0x54913acee634df6f8607ff40fb803428,
     0xd474f59dc15735378c51eb1800000000,
     0x0078401a146abafacee0ab9a1bc6a875,
     0xcc0c65c34c6d3f1b588d4b013c4b7c9a,
     0x615c7ead19c6caea291b97adc5ce1a98,
     0x33616f03eb570b55e0814d215d36ab25,
     0x78b2509d5f720bfabc7f540e00000000,
     0x00289bd5123c59a8ce2fb9057dde3f2a,
     0xa78ad47136a7f97e333cf807da07a441,
     0xa1a6abef0cbeaab9618c5ac7cc5036cc,
     0xd4f6b381d5b814c0b3c4a719c6e5d79a,
     0x61acac9eb271d95aecac811900000000,
     0x00e0f26bcd3056564fd9b86c2d76d6c0,
     0x9c097b1b58bf5aa8020f6c0ae9b2592d,
     0xc19385eafc925bd0e7fda372aa481d67,
     0x739aef37c3837fa07d401a146abaface,
     0xe0ab9a1bc6a875cc0c65c30c00000000,
     0x00305d7d67f055cd0d63d43a6686b261,
     0xa6b69f0dacc6a5009e253ecd302ebfd6,
     0x0c6365f5948dcbd662670dcc99b0b781,
     0xf5ab852af0c0a6902e9bd5123c59a8ce,
     0x2fb9057dde3f2aa78ad4711600000000,
     0x00982c54e797dc823eef1f955345ea38,
     0x9bd37cbf191efc03ed03d2a050d3d577,
     0x065fd5dc3046ad6366281b666afbd9c0,
     0x6a5c0ae059e2d30ce3f26bcd3056564f,
     0xd9b86c2d76d6c09c097b1b1800000000,
     0x007880d5ccf0d582165bd99cd56f2940,
     0x5bb6d7ce20b96c6546ea0c5c63fe419a,
     0xcbf59d9f7175ac0a7b0f0c1e366598e9,
     0xa03ae551572e133f7b330f3eadd0c9b2,
     0x7a18ff00b3daf25d054ba40100000000,
     0x0028db6b67905cb632237506ae31ff20,
     0xcde5facecfb83a5685bd07060f9b32cc,
     0x74509df2a82b97899fbd99079f56e864,
     0x593d8c7f80596df9ae8225d290e0b16a,
     0xee795983594eb500bc07580d00000000,
     0x00e0727de7675c1dabc2de0383874d19,
     0x663aa84e79d495cbc4cfdecc834f2b74,
     0xb2ac1ec63fc0acb67c57c1126948f058,
     0x35f7bcacc12ca75a00de03ac6686af16,
     0xb4d8cae6ac7e4b01dab2bd1600000000,
     0x00301d54a73ceaca65e2676fe6c1a715,
     0x3a59560fe31f60565bbeab6089342478,
     0xac9a7b5ed66096532d00ef015633c357,
     0x0b5a6c657356bfa5006dd95e3b83e4b2,
     0x9519a933708df907692ed71700000000,
     0x00982cab87f10f30ab2ddf55b0441a12,
     0x3c56cd3d2f6b30cba91680f700ab99e1,
     0xab052db6b239abdf5280b66caf9d4172,
     0xd9ca8cd419b8c6fc833497eb3b3fe3ea,
     0x5815f61e183c6cca30d3411500000000,
     0x0018abe69e973598e5540bc07b80d5cc,
     0xf0d582165bd99cd56f29405bb6d7ce20,
     0xb96c6546ea0c5c63fe419acbf59d9f71,
     0x75ac0a7b0f0c1e366598e9a03ae55157,
     0x2e133f7b330f3eadd0c9b21a00000000]"

definition mx144by605 :: "u8 list" where
  "mx144by605 = concat (map line_bytes (mx144by605_part1 @ mx144by605_part2 @ mx144by605_part3 @ mx144by605_part4 @ mx144by605_part5))"

definition mx150by616_part1 :: "block list" where
  "mx150by616_part1 =
    [0xee020000000000006802000000000000,
     0xc0031ef080073ce0010f78c0031ef080,
     0x073ce0010f78c0031ef080073ce0010f,
     0x78c0031ef080073ce0010f78c0031ef0,
     0x80073ce0010f78c0031ef080073ce001,
     0x0f78c0031ef080073ce0010f78000000,
     0xa0052d68410b5ad08216b4a0052d6841,
     0x0b5ad08216b4a0052d68410b5ad08216,
     0xb4a0052d68410b5ad08216b4a0052d68,
     0x410b5ad08216b4a0052d68410b5ad082,
     0x16b4a0052d68410b5ad08216b4000000,
     0x908634a4210d6948431ad2908634a421,
     0x0d6948431ad2908634a4210d6948431a,
     0xd2908634a4210d6948431ad2908634a4,
     0x210d6948431ad2908634a4210d694843,
     0x1ad2908634a4210d6948431ad2000000,
     0x0c6318c318c63086318c610c6318c318,
     0xc63086318c610c6318c318c63086318c,
     0x610c6318c318c63086318c610c6318c3,
     0x18c63086318c610c6318c318c6308631,
     0x8c610c6318c318c63086318c61000000,
     0x0a55a84215aa50852a54a10a55a84215,
     0xaa50852a54a10a55a84215aa50852a54,
     0xa10a55a84215aa50852a54a10a55a842,
     0x15aa50852a54a10a55a84215aa50852a,
     0x54a10a55a84215aa50852a54a1000000,
     0x094e7082139ce0042738c1094e708213,
     0x9ce0042738c1094e7082139ce0042738,
     0xc1094e7082139ce0042738c1094e7082,
     0x139ce0042738c1094e7082139ce00427,
     0x38c1094e7082139ce0042738c1000000,
     0x00002da419a6d0049b6106f39bf2309e,
     0x576c66a822136acba97e6b0c0f1e58e2,
     0x0165e3b2e9263bd6af26d7b8a3fe47d6,
     0x949d3a7bff2cdf5a2805ff6cfae93458,
     0xedb5f5852aab355750b6eab872000000,
     0x008034c3149a6033cc607e531ec6f38a,
     0xcd0c5564426d39d56f8de1c1034b3ca0,
     0x6c5c36dd64c7fad5e41a77d4ffc89ab2,
     0x5367ef9fe55b0ba5e09f4d3f9d06abbd,
     0xb6be5065b5e60aca561d570ecc000000,
     0x00609842136c8619cc6fcac3785eb199,
     0xa18a4ca82da7faad313c78608907948d,
     0xcba69bec58bf9a5ce38efa1f595376ea,
     0xecfdb37c6ba114fcb3e9a7d360b5d7d6,
     0x17aaacd65c41d9aae3ca811966000000,
     0x00506882cd3083f94d7918cf2b363354,
     0x9109b5e554bf3586070f2cf180b271d9,
     0x74931deb57936bdc51ff236bca4e9dbd,
     0x7f966f2d94827f36fd741aacf6dafa42,
     0x95d59a2b285b755c3930c38cb3000000,
     0x0048b0196630bf290fe379c566862a32,
     0xa1b69ceab7c6f0e081251e50362e9b6e,
     0xb263fd6a728d3bea7f644dd9a9b3f7cf,
     0xf2ad8552f0cfa69f4e83d55e5b5fa8b2,
     0x5a730565ab8e2b07669871d6c0000000,
     0x0030c30ce637e5613cafd8cc504526d4,
     0x9653fdd6181e3cb0c403cac665d34d76,
     0xac5f4dae7147fd8fac293b75f6fe59be,
     0xb5500afed9f4d369b0da6beb0b55566b,
     0xaea06cd571e5c00c33ce1a7860000000,
     0x0080b442cd30bf61145b156ad32f3c2c,
     0x5136d38d35b9a3ce5aea7ea605fe7dda,
     0x6af5657541750c66ce0eac0aa0655882,
     0x6730e5e731231339ad310f1ec0e5c97e,
     0xd5b8ff50b6bdf35d0a9ba6e1b5000000,
     0x006058826730e5e731231339ad310f1e,
     0xc0e5c97ed5b8ff50b6bdf35d0a9ba6e1,
     0xb550d51c5b2b073303bf19789056a819,
     0xe6378c62ab426dfa858725ca66bab126,
     0x77d4594bddcfb4c0bf4f5badbe000000,
     0x0050a819e6378c62ab426dfa858725ca,
     0x66bab12677d4594bddcfb4c0bf4f5bad,
     0xbeac2ea88ec1ccd9815501b40c4bf00c,
     0xa6fc3c666422a735e6c103b83cd9af1a,
     0xf71fcab677be4b61d334bc16aa000000,
     0x0048f00ca6fc3c666422a735e6c103b8,
     0x3cd9af1af71fcab677be4b61d334bc16,
     0xaa9a636be56066e037030fd20a35c3fc,
     0x86516c55a84dbff0b044d94c37d6e48e,
     0x3a6ba9fb9916f8f769abd597d5000000,
     0x0030c3fc86516c55a84dbff0b044d94c,
     0x37d6e48e3a6ba9fb9916f8f769abd597,
     0xd505d53198393bb02a809661099ec194,
     0x9fc78c4ce4b4c63c78009727fb55e3fe,
     0x43d9f6ce77296c9a86d7425573000000,
     0x0098c1949fc78c4ce4b4c63c78009727,
     0xfb55e3fe43d9f6ce77296c9a86d74255,
     0x736cad1ccc0cfc66e0415aa16698df30,
     0x8aad0ab5e9171e96289be9c69adc5167,
     0x2d753fd302ff3e6db5fab2baa0000000,
     0x00609819a65cec4ce89707659b6c72ff,
     0x91ba7cf32f0df5d59c8e613630e031cc,
     0x0c532e7626f4cb83b24d36b9ff485dbe,
     0xf99786fa6a4ec7301b18f01866862917,
     0x3b13fae541d9269bdc7fa42edf000000,
     0x0050e80c86c10cb5d5d8125c1eab71b3,
     0x666f2dd8d46a502d68e538fb66d02a74,
     0x06c36086da6a6c092e8fd5b859b3b716,
     0x6c6a35a816b4729c7d3368153a836130,
     0x436d35b60497c76adcacd95b0b000000,
     0x0048f0fc9ea78a9cc2e301a6fbeaa895,
     0xfdb3527cfab5ac662b980d5c05482778,
     0x7ecf53454ee1f100d37d75d4cafe5929,
     0x3efd5a56b315cc06ae02a4133cbfe7a9,
     0x22a7f07880e9be3a6a65ffac14000000,
     0x0030c3948b9d09fdf2a06c934dee3f52,
     0x976ffea5a1be9ad331cc06063c869961,
     0xcac5ce847e7950b6c926f71fa9cb37ff,
     0xd2505fcde9186603031ec3cc30e56267,
     0x42bf3c28db6493fb8fd4e59b7f000000,
     0x0098c13098a1b61a5b82cb63356ed6ec,
     0xad059b5a0daa05ad1c67df0c5a85ce60,
     0x18cc505b8d2dc1e5b11a376bf6d6824d,
     0xad06d582568eb36f06ad4267300c66a8,
     0xadc696e0f2588d9b357b6bc1a6000000,
     0x0098dff3549153783cc0745f1db5b27f,
     0x568a4fbf96d56c05b381ab00e904cfef,
     0x79aac8293c1e60baaf8e5ad93f2bc5a7,
     0x5fcb6ab682d9c055807482e7f73c55e4,
     0x141e0f30dd5747adec9f95e2d3000000,
     0x0050e8fc8aad3678946daca34e9d163e,
     0x5ddf82827960a04df0949991531e70f9,
     0xabffb07729d20055b6c2eccd9036c330,
     0x54a15f4b982eb959fb19ffacc66a1d73,
     0xb60a0c9bc1f33251e3074cd6b8000000,
     0x0048f0949991531e70f9abffb07729d2,
     0x0055b6c2eccd9036c33054a15f4b982e,
     0xb959fb19ffacc66a1d73b60a0c9bc1f3,
     0x3251e3074cd6b8caceb74d5fabb9ca19,
     0x18780a9d5fb1d5068fb28d75d4000000,
     0x0030c33054a15f4b982eb959fb19ffac,
     0xc66a1d73b60a0c9bc1f33251e3074cd6,
     0xb8caceb74d5fabb9ca1918780a9d5fb1,
     0xd5068fb28d75d4a9d3c2a7eb5b50300f,
     0x0cb4099e323372ca032e7ff51f000000,
     0x0098c1f33251e3074cd6b8caceb74d5f,
     0xabb9ca1918780a9d5fb1d5068fb28d75,
     0xd4a9d3c2a7eb5b50300f0cb4099e3233,
     0x72ca032e7ff51ff62e451aa0ca5698bd,
     0x19d26618862af46b09d325376b000000,
     0x00985fb1d5068fb28d75d4a9d3c2a7eb,
     0x5b50300f0cb4099e323372ca032e7ff5,
     0x1ff62e451aa0ca5698bd19d26618862a,
     0xf46b09d325376b3fe39fd558ad63ce56,
     0x816133785e266afc80c91a57d9000000,
     0x0098323372ca032e7ff51ff62e451aa0,
     0xca5698bd19d26618862af46b09d32537]"

definition mx150by616_part2 :: "block list" where
  "mx150by616_part2 =
    [0x6b3fe39fd558ad63ce56816133785e26,
     0x6afc80c91a57d9f9b6e96b3557390303,
     0x4fa1f32bb6dae051b6b18e3a75000000,
     0x0048f03032010f2e2757d95a4803ab2b,
     0x373048cfa0d839b5c464476d6ffebdb6,
     0xa030ab8242a7ac8a1a97edab59cbf7a7,
     0xa1aa630383d60ccf531b0f4c67dcd495,
     0xc26a9a03f39b19363f66e8f701000000,
     0x0030c3f3d4c603d3193775a5b09ae6c0,
     0xfc6686cd8f19fa7dc058fff1339bd697,
     0xad9c055e82879109787039b9cad6421a,
     0x585db981417a06c5cea925263b6a7bf3,
     0xefb505855915143a6555d4b86c000000,
     0x009841b1736a89c98edadefc7b6d4161,
     0x5605854e5915352edb57b396ef4f4355,
     0xc70606ad199ea7361e98ceb8a92b85d5,
     0x3407e637336c7eccd0ef03c6fa8f9fd9,
     0xb4be6ce52cf0123c8c4cc083cb000000,
     0x00981f33f4fb80b1fee36736ad2f5b39,
     0x0bbc040f2313f0e0727295ad8534b0ba,
     0x720383f40c8a9d534b4c76d4f6e6df6b,
     0x0b0ab32a2874caaaa871d9be9ab57c7f,
     0x1aaa3a363068cdf03cb5f1c074000000,
     0x0098b22a6a5cb6af662ddf9f86aa8e0d,
     0x0c5a333c4f6d3c309d7153570aab690e,
     0xcc6f66d8fc98a1df078cf51f3fb3697d,
     0xd9ca59e02578189980079793ab6c2da4,
     0x81d5951b18a46750ec9c5a62b2000000,
     0x00184626e0c1e5e42a5b0b696075e506,
     0x06e919143ba79698eca8edcdbfd71614,
     0x665550e8945551e3b27d356bf9fe3454,
     0x756c60d09ae1796ae381e98c9bba5258,
     0x4d73607e33c3e6c70cfd3e60ac000000,
     0x003043b1f55bb6e4a68e7ff5d5f1c018,
     0x36e54cf060b2ffc8771a340733e099a1,
     0xd8fa2d5b7253c7bffaea78600c9b7226,
     0x7830d97fe43b0d9a8319f0cc506cfd96,
     0x2db9a9e35f7d753c30864d3913000000,
     0x009801336acc65e3dadba650addc9b15,
     0x3a0cb55962ac59d382d50aca59d0ce80,
     0x1935e6b271ed6d53a856eecd0a1d86da,
     0x2c31d6ac69c16a05e52c6867c08c1a73,
     0xd9b8f6b629542bf766850e436d000000,
     0x00989f2ae061ba51ffecd3ac06731512,
     0xfcbc9c3ee0abca2ec56bd96a6048cf4f,
     0x15f030dda87ff6695683b90a097e5e4e,
     0x1ff0556597e2b56c3530a4e7a70a7898,
     0x6ed43ffb34abc15c85043f2fa7000000,
     0x009872267830d97fe43b0d9a8319f0cc,
     0x506cfd962db9a9e35f7d753c30864d39,
     0x133c98ec3ff29d06cdc10c786628b67e,
     0xcb96dcd4f1afbe3a1e18c3a69c091e4c,
     0xf61ff94e83e660063c33145bbf000000,
     0x001886da2c31d6ac69c16a05e52c6867,
     0xc08c1a73d9b8f6b629542bf766850e43,
     0x6d96186bd6b460b5827216b43360468d,
     0xb96c5c7bdb14aa957bb34287a1364b8c,
     0x356b5ab05a41390bda1930a3c6000000,
     0x00785e4e1ff0556597e2b56c3530a4e7,
     0xa70a78986ed43ffb34abc15c85043f2f,
     0xa70ff8aab24bf15ab61a18d2f353053c,
     0x4c37ea9f7d9ad560ae42829f97d3077c,
     0x55d9a5782d5b0d0ce9f9a9021e000000,
     0x0098812a78305665f30faa6006de0c54,
     0xc183b12a9b7f500533f066a00a1e8c55,
     0xd9fc832a9881370355f060accae61f54,
     0xc10cbc19a88207635536ffa00a66e0cd,
     0x40153c18abb2f9075530036f06000000,
     0x00985f262cf1d5d4d994d53003edfc32,
     0x6189afa6cea6ac861968e797094b7c35,
     0x75366535cc403bbf4c58e2aba9b329ab,
     0x6106daf965c2125f4d9d4d590d33d0ce,
     0x2f1396f86aea6cca6a9881767e000000,
     0x0098b2da1e905c7b7f5a739c85f494d5,
     0xf680e4dafbd39ae32ca4a7acb60724d7,
     0xde9fd61c67213d65b53d20b9f6feb4e6,
     0x380be929abed01c9b5f7a735c759484f,
     0x596d0f48aebd3fad39ce427aca000000,
     0x0018464ecb66dc9fa5a1a00666d83072,
     0x5a36e3fe2c0d053530c38691d3b219f7,
     0x676928a88119368c9c96cdb83f4b4341,
     0x0dccb061e4b46cc6fd591a0a6a60860d,
     0x23a76533eecfd2505003336c18000000,
     0x00789e7eb93cea7c5b8dad0353e8f3f4,
     0xcbe551e7db6a6c1d98429fa75f2e8f3a,
     0xdf5663ebc014fa3cfd7279d4f9b61a5b,
     0x07a6d0e7e997cba3ceb7d5d83a30853e,
     0x4fbf5c1e75beadc6d68129f479000000,
     0x0028768d4df70f2dbc56c76f4e70b16b,
     0x6cba7f68e1b53a7e73828b5d63d3fd43,
     0x0bafd5f19b135cec1a9bee1f5a78ad8e,
     0xdf9ce062d7d874ffd0c26b75fce60417,
     0xbbc6a6fb87165eabe33727b8d8000000,
     0x00989fdaca366a2dd417cca09d724eb9,
     0xfc8f52401566901e867e4d9735feb19a,
     0xb30c7b5e8d27ab6c9b6acec00a2d363c,
     0xc69aba4f1774600966060fbe6aef34b0,
     0xf5cd6650852592fb33abe9b80a000000,
     0x0098724eb9fc8f52401566901e867e4d,
     0x9735feb19ab30c7b5e8d27ab6c9b6ace,
     0xc00a2d363cc69aba4f1774600966060f,
     0xbe6aef34b0f5cd6650852592fb33abe9,
     0xb80a33c8c4038c9befd7560e78000000,
     0x0018867e4d9735feb19ab30c7b5e8d27,
     0xab6c9b6acec00a2d363cc69aba4f1774,
     0x600966060fbe6aef34b0f5cd66508525,
     0x92fb33abe9b80a33c8c4038c9befd756,
     0x0e78f3535bd946ad85fa8219b4000000,
     0x00785e8d27ab6c9b6acec00a2d363cc6,
     0x9aba4f1774600966060fbe6aef34b0f5,
     0xcd6650852592fb33abe9b80a33c8c403,
     0x8c9befd7560e78f3535bd946ad85fa82,
     0x19b453ce2997ff510aa8c20cd2000000,
     0x0028363cc69aba4f1774600966060fbe,
     0x6aef34b0f5cd6650852592fb33abe9b8,
     0x0a33c8c4038c9befd7560e78f3535bd9,
     0x46ad85fa8219b453ce2997ff510aa8c2,
     0x0cd2c3d0afe9b2c63f56739661000000,
     0x0060060fbe6aef34b0f5cd6650852592,
     0xfb33abe9b80a33c8c4038c9befd7560e,
     0x78f3535bd946ad85fa8219b453ce2997,
     0xff510aa8c20cd2c3d0afe9b2c63f5673,
     0x9661cfabf164956d53cd1958a1000000,
     0x0098b27e279bba34e8187853d6ef6453,
     0x97061d036fcafa9d6cead2a063e04d59,
     0xbf934d5d1a740cbc29eb77b2a94b838e,
     0x813765fd4e367569d031f0a6acdfc9a6,
     0x2e0d3a06de94f53bd9d4a541c7000000,
     0x0018468dc76a6fab550eb4c3a8f158ed,
     0x6db5ca817618351eabbdad5639d00ea3,
     0xc663b5b7d52a07da61d478acf6b65ae5,
     0x403b8c1a8fd5de56ab1c688751e3b1da,
     0xdb6a9503ed306a3c567b5bad72000000,
     0x00781e3cbefab3d78219d2cf83c7577f,
     0xf65a3043fa79f0f8eacf5e0b66483f0f,
     0x1e5ffdd96bc10ce9e7c1e3ab3f7b2d98,
     0x21fd3c787cf567af0533a49f078faffe,
     0xecb56086f4f3e0f1d59fbd16cc000000,
     0x0028360f929beffac28c61c5e64172f3,
     0x5d5f9831acd83c486ebeeb0b3386159b,
     0x07c9cd777d61c6b062f320b9f9ae2fcc,
     0x18566c1e2437dff58519c38acd83e4e6,
     0xbbbe306358b17990dc7cd71766000000,
     0x006086258cab05a87256a1ccb08471b5,
     0x0055ce2a94199630ae16a0ca598532c3,
     0x12c6d5025439ab506658c2b85a802a67,
     0x15ca0c4b18570b50e5ac42996109e36a,
     0x01aa9c5528332c615c2d4095b3000000]"

definition mx150by616_part3 :: "block list" where
  "mx150by616_part3 =
    [0x0050c503465d0a561b38c1aa78c0a84b,
     0xc16a032758150f187529586de004abe2,
     0x01a32e05ab0d9c60553c60d4a560b581,
     0x13ac8a078cba14ac36708255f1805197,
     0x82d5064eb02a1e30ea52b0dac0000000,
     0x0018063c92ab05560f6c06399dacbd5f,
     0x0b3385aaa26c59fbb48e41fb3c1e18b7,
     0x149a7bf3fcf43bd69fd597b309ce0497,
     0x959d86ca41bad8961835ff0a5a8529d7,
     0xf8abf986aa81cda036d3a5ce6a000000,
     0x00781e0f8c5b0acdbd797efa1debcfea,
     0xcbd9046782cbca4e43e5205d6c4b8c9a,
     0x7f05adc2946bfcd57c43d5c066509be9,
     0x52673530338c190ff8874dd90abc61c0,
     0x23b95a60f5c06690d3c9dafbb5000000,
     0x0028b62546cdbf825661ca35fe6abea1,
     0x6a6033a8cd74a9b31a9819c68c07fcc3,
     0xa66c05de30e0915c2db07a6033c8e964,
     0xedfd5a9829541565cbdaa7750cdae7f1,
     0xc0b8a5d0dc9be7a7dfb1feacbe000000,
     0x0060c603fe6153b6026f18f048ae1658,
     0x3db019e474b2f67e2dcc14aa8ab265ed,
     0xd33a06edf37860dc5268eecdf3d3ef58,
     0x7f565fce2638135c56761a2a07e9625b,
     0x62d4fc2b6815a65ce3afe61baa000000,
     0x005045d9b2f6691d83f6793c306e2934,
     0xf7e6f9e977ac3fab2f67139c092e2b3b,
     0x0d958374b12d316afe15b40a53aef157,
     0xf30d55039b416da64b9dd5c0cc30663c,
     0xe01f36652bf086018fe46a81d5000000,
     0x00c80497959d86ca41bad8961835ff0a,
     0x5a8529d7f8abf986aa81cda036d3a5ce,
     0x6a606618331ef00f9bb21578c3804772,
     0xb5c0ea81cd20a793b5f76b61a6505594,
     0x2d6b9fd631689fc703e3964273000000,
     0x00789e25fef1e9ca314c155c4edd6b39,
     0x6b869c8e35dfac7ef394e1615cfeb115,
     0xb4c57e40d6d200668566c274f6aeaf81,
     0x67a0dfaf6a41735518060f466d531d43,
     0x9a196553b6d5609660b54df667000000,
     0x0028f603b29606302b3413a6b3777d0d,
     0x3c03fd7e550b9aabc23078306a9bea18,
     0xd2cc289bb2ad06b304ab6db23f83eac0,
     0xe657e3e496a2a0c07b9e25fef1e9ca31,
     0x4c155c4edd6b396b869c8e35df000000,
     0x006046d9946d359825586d93fd195407,
     0x36bf1a27b7140505def32cf18f4f578e,
     0x61aae072ea5ecb5933e474acf966f59b,
     0xa70c0fe3f28fada02df603b29606302b,
     0x3413a6b3777d0d3c03fd7e550b000000,
     0x0050059753f75ace9a21a763cd37abdf,
     0x3c657818977f6c056db11f90b5348059,
     0xa199309dbdeb6be019e8f7ab5ad05c15,
     0x86c18351db54c7906646d9946d359825,
     0x586d93fd19540736bf1a27b714000000,
     0x00c884e9ec5d5f03cf40bf5fd582e6aa,
     0x300c1e8cdaa63a863433caa66cabc12c,
     0xc16a9beccfa03ab0f9d538b9a52828f0,
     0x9e67897f7cba720c53059753f75ace9a,
     0x21a763cd37abdf3c657818977f000000,
     0x0050db647f06d581cdafc6c92d454181,
     0xf73c4bfce3d39563982ab89cbad772d6,
     0x0c391d6bbe59fde629c3c3b8fc632b68,
     0x8bfd80aca501cc0acd84e9ec5d5f03cf,
     0x40bf5fd582e6aa300c1e8cdaa6000000,
     0x002876d95257df814d9907ff4803cccc,
     0xa0dfe4f24fc70ccbc464f3ad39e015bb,
     0x6ca9abefc0a6cc837fa4016666d06f72,
     0xf9a763866562b2f9d61cf08a5db6d4d5,
     0x776053e6c13fd2003333e837b9000000,
     0x00600697ed0dd5370fc31259b31a6767,
     0x5063e3dab4720a55db58b55050d03283,
     0xcbf686ea9b876189ac598db333a8b171,
     0x6d5a3985aa6dac5a28286899c1657b43,
     0xf5cdc3b044d6acc6d919d4d8b8000000,
     0x005085e97ec6ea2a3cef01ca7ead81e7,
     0x078f517f1acc09cee9574bc15648abc2,
     0x743f6375159ef70065bfd6c0f383c7a8,
     0x3f0de604e7f4aba5602ba45561ba9fb1,
     0xba0acf7b80b25f6be0f9c163d4000000,
     0x00c8c464f3ad39e015bb6ca9abefc0a6,
     0xcc837fa4016666d06f72f9a763866562,
     0xb2f9d61cf08a5db6d4d5776053e6c13f,
     0xd2003333e837b9fcd331c33231d97c6b,
     0x0e78c52e5beaea3bb029f3e01f000000,
     0x0050db58b55050d03283cbf686ea9b87,
     0x6189ac598db333a8b1716d5a3985aa6d,
     0xac5a28286899c1657b43f5cdc3b044d6,
     0xacc6d919d4d8b836ad9c42d536562d14,
     0x14b4cce0b2bda1fae66158226b000000,
     0x00c8e9574bc15648abc2743f6375159e,
     0xf70065bfd6c0f383c7a83f0de604e7f4,
     0xaba5602ba45561ba9fb1ba0acf7b80b2,
     0x5f6be0f9c163d49f06738273fad552b0,
     0x15d2aa30ddcf585d85e73d40d9000000,
     0x006086e9f25d50486762aca5d0b14273,
     0x9a5c9b82d90c351e751a383b3f1e64ed,
     0xb5031bc6035207d52a149bcb3fd31c68,
     0x5531592db095616afb2aff2a9760fd1a,
     0xf7d3309b013cfe6135034fd912000000,
     0x0050c564b5c05686a9edabfcab5c82f5,
     0x6bdc4fc36c06f0f887d50c3c654b28bb,
     0xbe6f7e5ed9eccd6ae031c374f92e28a4,
     0x3331d652e858a1394dae4dc16c861a8f,
     0x3a0d9c9d1f0fb2f6da810de301000000,
     0x00c8c4584ba16385e634b93605b3196a,
     0x3cea3470767e3cc8da6b07368c07a40e,
     0xaa552836977fa639d0aa62b25a602bc3,
     0xd4f655fe552ec1fa35eea761360378fc,
     0xc36a069eb225945ddf373faf6c000000,
     0x0050db57f957b904ebd7b89f86d90ce0,
     0xf10fab1978ca9650767ddffcbcb2d99b,
     0xd5c06386e9f25d50486762aca5d0b142,
     0x739a5c9b82d90c351e751a383b3f1e64,
     0xedb5031bc6035207d52a149bcb000000,
     0x00c869726d0a6633d478d469e0ecfc78,
     0x90b5d70e6c180f481d54ab506c2eff4c,
     0x73a055c564b5c05686a9edabfcab5c82,
     0xf56bdc4fc36c06f0f887d50c3c654b28,
     0xbbbe6f7e5ed9eccd6ae031c374000000,
     0x00d0af713f0db319c0e31f5633f0942d,
     0xa1ecfabef97965b337ab81c70cd3e5bb,
     0xa090cec4584ba16385e634b93605b319,
     0x6a3cea3470767e3cc8da6b07368c07a4,
     0x0eaa552836977fa639d0aa62b2000000,
     0x0050c558f907e619f040d950059e2ac6,
     0xca3f30cf8007ca862af0543156fe8179,
     0x063c50365481a78ab1f20fcc33e081b2,
     0xa10a3c558c957f609e010f940d55e0a9,
     0x62acfc03f30c78a06ca8024f15000000,
     0x00c8c4576d0ab3f9592275ac066d26be,
     0x6a5398cdcf12a963356833f1559bc26c,
     0x7e96481dab419b89afda1466f3b344ea,
     0x580dda4c7cd5a6309b9f2552c76ad066,
     0xe2ab3685d9fc2c913a56833613000000,
     0x00505b723fcdd9293fc0de9a83b4da92,
     0xfb69ce4ef901f6d61ca4d596dc4f7376,
     0xca0fb0b7e620adb6e47e9ab3537e80bd,
     0x350769b525f7d39c9df203ecad3948ab,
     0x2db99fe6ec941f606fcd415a6d000000,
     0x00c8a971d360e06194ed670565584e8d,
     0x9b06030fa36c3f2b28c3726adc341878,
     0x1865fb5941199653e3a6c1c0c328dbcf,
     0x0acab09c1a370d061e46d97e565086e5,
     0xd4b86930f030caf6b382322ca7000000,
     0x00d0efa8ad36b0e77139df6c55a87e47,
     0x6db5813d8fcbf966ab42f53b6aab0dec,
     0x795cce375b15aadf515b6d60cfe372be]"

definition mx150by616_part4 :: "block list" where
  "mx150by616_part4 =
    [0xd9aa50fd8eda6a037b1e97f3cd5685ea,
     0x77d4561bd8f3b89c6fb62a54bf000000,
     0x00a8f13f5efbe6629b4e0b3a4e708dff,
     0xf1da3717db745ad071826bfc8fd7beb9,
     0xd8a6d3828e135ce37fbcf6cdc5369d16,
     0x749ce01affe3b56f2eb6e9b4a0e304d7,
     0xf81faf7d73b14da7051d27b8c6000000,
     0x00c84472d330b0624f967f309b72d9f2,
     0xad6333f020759a63987eff515fe06522,
     0xb9691858b127cb3f984db96cf9d6b119,
     0x78903acd314cbfffa82ff03291dc340c,
     0xacd893e51fcca65cb67cebd80c000000,
     0x00509b71adf666668cd5a69c1d0697b5,
     0x50b91958c2de0555688db30655d0aacd,
     0xb8567b3333c66a53ce0e83cb5aa8dc0c,
     0x2c61ef822ab4c659832a68d5665cabbd,
     0x991963b5296787c1652d546e06000000,
     0x00c8e9a85f5b05557cf5d3067e9ee94a,
     0x01e6f93de0676c4d303c94cd6a48e774,
     0xd4afad822abefa69033fcf74a500f3fc,
     0x1ef033b626181eca6635a4733aead756,
     0x41155ffdb4819f67ba5280797e000000,
     0x00d0ef3fea0bbc4c24370d032bf664f9,
     0x07b329972ddf3a36030f52a73986e9f7,
     0x1ff5055e26929b8681157bb2fc83d994,
     0xcb966f1d9b8107a9d31cc3f4fb8ffa02,
     0x2f13c94dc3c08a3d59fec16cca000000,
     0x00a871d6a00a5ab519d76a6f66c6586d,
     0xcad96170590b959b8125ec5d5085d638,
     0x6b5005adda8c6bb5373363ac36e5ec30,
     0xb8ac85cacdc012f62ea8426b9c35a882,
     0x566dc6b5da9b9931569b727618000000,
     0x008087b2590de99c8efab55550c5573f,
     0x6de0e799ae14609edf037ec6d604c343,
     0xd9ac86744e47fdda2aa8e2ab9f36f0f3,
     0x4c570a30cfef013f636b82e1a16c5643,
     0x3aa7a37e6d1554f1d54f1bf879000000,
     0x0050dba8eb0bda9cfe03aa90d66fd658,
     0xcdb01a2b5b730a8547ea0a9a601ed89b,
     0xad66b0c4cf743c8307e4bb72f32b9b16,
     0xc03c652e970266c3301dff38fbbcc9da,
     0xd4c0c51eeba707c68cafa6e1cd000000,
     0x00c8e93fa00a69fd668dd50cabb1b235,
     0xa75078a4aea009e681bdd96a064bfc4c,
     0xc7337840be2b37bfb26901cc53e67229,
     0x60360cd3f18fb3cf9bac4d0d5cecb17e,
     0x7a60ccf86a1adeac8ae45aad0a000000,
     0x00d06fd658cdb01a2b5b730a8547ea0a,
     0x9a601ed89bad66b0c4cf743c8307e4bb,
     0x72f32b9b16c03c652e970266c3301dff,
     0x38fbbcc9dad4c0c51eeba707c68cafa6,
     0xe1cdaa48aed5aa9009e3be1678000000,
     0x00a8b1b235a75078a4aea009e681bdd9,
     0x6a064bfc4cc7337840be2b37bfb26901,
     0xcc53e6722960360cd3f18fb3cf9bac4d,
     0x0d5cecb17e7a60ccf86a1adeac8ae45a,
     0xad0a9930ee6b81a7b651d717b4000000,
     0x008047ea0a9a601ed89bad66b0c4cf74,
     0x3c8307e4bb72f32b9b16c03c652e9702,
     0x66c3301dff38fbbcc9dad4c0c51eeba7,
     0x07c68cafa6e1cdaa48aed5aa9009e3be,
     0x16786a1b757d419bd37f4015d2000000,
     0x00e081bdd96a064bfc4cc7337840be2b,
     0x37bfb26901cc53e6722960360cd3f18f,
     0xb3cf9bac4d0d5cecb17e7a60ccf86a1a,
     0xdeac8ae45aad0a9930ee6b81a7b651d7,
     0x17b439fd075421addfacb19a61000000,
     0x00c869d63497604be41bccc398eca7df,
     0x9c8951439561f0b0b78ee7c765fe1998,
     0x19c97d2d68f5abec829ae1015a80d9f3,
     0xc69a862aa8ed1fac56280f7e56b9299b,
     0xcea603538571eb0be91aa78ead000000,
     0x00d0afb20b6a8607680166cf1b6b1aaa,
     0xa0b67fb05aa13cf859e5a66c3a9b0e4c,
     0x15c6ad2fa46b9c3ab6cea06ca5e06cb1,
     0xbf6a35e0e5346b9a4bb025f20de6614c,
     0xf6d36fcec4a8a1ca3078d85bc7000000,
     0x00a871ead83a83b29582b3c5feaad580,
     0x97d3ac692ec196c837988731d94fbf39,
     0x13a3862ac3e0616f1dcf8fcbfc333033,
     0x92fb5ad0ea57d90535c303b400b3e78d,
     0x350d5550db3f58ad501efcac72000000,
     0x008087bd753c3f2ef3cfc0cc48ee6b41,
     0xab5f6517d40c0fd002cc9e37d6345441,
     0x6dff60b54279f0b3ca4dd974361d982a,
     0x8c5b5f48d738756c9d41d94ac1d9627f,
     0xd56ac0cb69d63497604be41bcc000000,
     0x00e0c1cf2a3765d3d97460aa306e7d21,
     0x5de3d4b17506652b05678bfd55ab012f,
     0xa759d35c822d916f300f63b29f7e7326,
     0x460d5586c1c3de3a9e1f97f967606624,
     0xf7b5a0d5afb20b6a8607680166000000,
     0x00b044bec13c8cc97efacd9918355419,
     0x060f7beb787e5ce69f819991dcd78256,
     0xbfca2ea8191ea005983d6fac69a882da,
     0xfec16a85f2e067959bb2e96c3a305518,
     0xb7be90ae71ead83a83b29582b3000000,
     0x00d06fea743ce5c9a60178fa4d9d8ea7,
     0x3cd934004fbfa9d3f194279b06e0e937,
     0x753a9ef264d3003cfda64ec7539e6c1a,
     0x80a7dfd4e978ca934d03f0f49b3a1d4f,
     0x79b269009e7e53a7e3294f360d000000,
     0x00a8b1bd2b378cb15a0db435b677e586,
     0x3156ab81b6c6f6aedc30c66a35d0d6d8,
     0xde951bc658ad06da1adbbb72c318abd5,
     0x405b637b576e1863b51a686b6cefca0d,
     0x63ac56036d8ded5db9618cd56a000000,
     0x0080c7cfc0fcbcafbe16d2f0f819989f,
     0xf7d5d7421a1e3f03f3f3befa5a48c3e3,
     0x67607ede575f0b6978fc0ccccffbea6b,
     0x210d8f9f81f9795f7d2da4e1f133303f,
     0xefabaf85343c7e06e6e77df5b5000000,
     0x00e041be6156ece4d697613cc837cc8a,
     0x9ddcfa328c07f98659b1935b5f86f120,
     0xdf302b7672ebcb301ee41b66c54e6e7d,
     0x19c6837cc3acd8c9ad2fc378906f9815,
     0x3bb9f565180ff20db36227b7be000000,
     0x00b0841638cb0ce34255a196d0026799,
     0x615ca82ad4125ae02c338c0b55855a42,
     0x0b9c658671a1aa504b6881b3cc302e54,
     0x156a092d709619c685aa422da105ce32,
     0xc3b85055a825b4c059661817aa000000,
     0x007840290cac8a51b33ac10f28858155,
     0x316a5627f801a530b02a46cdea043fa0,
     0x140656c5a8599de00794c2c0aa1835ab,
     0x13fc8052185815a36675821f500a03ab,
     0x62d4ac4ef0034a6160558c9ad5000000,
     0x00a8f1cf60c68c516b6e06a64b0368e1,
     0x916fceaae21f059ddf64ad06691e68c1,
     0xc099c81a5ba73cd6d732cc12a51898da,
     0x94ade3617cb5be0a7d00ffde9cd3d455,
     0xee79c9856a82cb66d32ae8d7de000000,
     0x008047be39ab8a7f14747e93b51aa479,
     0xa0050367226b6c9df2585fcb304b9462,
     0x606a53b68e87f1d5fa2af401fc7b734e,
     0x5357b9e72517aa092e9b4daba05f7b83,
     0xb9d8c665b519b8fc69e0d5f867000000,
     0x00e081160c9c89acb175ca637d2dc32c,
     0x518a81a94dd93a1ec657ebabd007f0ef,
     0xcd394d5de59e975ca826b86c36ad827e,
     0xed0de6621b97d566e0f2a78157e39fc1,
     0x8c19a3d6dc0c4c9706d0c223df000000,
     0x00b0442906a63665eb78185fadaf421f,
     0xc0bf37e73475957b5e72a19ae0b2d9b4,
     0x0afab537988b6d5c569b81cb9f065e8d,
     0x7f0633668c5a7333305d1a400b8f7c73,
     0x5615ff28e8fc266b3548f3400b000000,
     0x007800ffde9cd3d455ee79c9856a82cb]"

definition mx150by616_part5 :: "block list" where
  "mx150by616_part5 =
    [0x66d32ae8d7de602eb671596d062e7f1a,
     0x7835fe19cc98316acdcdc07469002d3c,
     0xf2cd5955fca3a0f39bacd520cd032d18,
     0x38135963eb94c7fa5a8659a214000000,
     0x00289b4daba05f7b83b9d8c665b519b8,
     0xfc69e0d5f8673063c6a8353703d3a501,
     0xb4f0c8376755f18f82ce6fb25683340f,
     0xb460e04c648dad531eeb6b196689520c,
     0x4c6dcad6f130be5a5f853e807f000000,
     0x008087160696537bc34c1559d3f1f38c,
     0xabb9f98db5be09e6721a206d09fe55a1,
     0xc6f936b0da52076666fc83adc3482eab,
     0x6730d9d72ab46c9f062d0f4af166fdfe,
     0x8cb3995076e58a3dea824ef9ab000000,
     0x00e04129deacdf9f713613caae5cb147,
     0x5dd0297f15aa66309dd518f6009b020f,
     0x1e5a18584eed0d3355644dc7cf33aee6,
     0xe637d6fa2698cb6980b425f857851ae7,
     0xdbc06a4b1d9899f10fb60e23b9000000,
     0x00b004ffaa50e37c1b586da9033333fe,
     0xc1d6612497d53398ec6b155ab64f8396,
     0x07a578b37e7fc6d94c28bb72c51e7541,
     0xa7fc55a89ac1745663d8036c0a3c7868,
     0x616039b537cc5491351d3fcfb8000000,
     0x0078804d81070f2d0c2ca7f686992ab2,
     0xa6e3e7195773f31b6b7d13cce53440da,
     0x12fcab428df36d60b5a50eccccf8075b,
     0x87915c56cf60b2af5568d93e0d5a1e94,
     0xe2cdfafd196733a1ecca157bd4000000,
     0x0028dba741cb8352bc59bf3fe36c2694,
     0x5db9628fbaa053fe2a54cd603aab31ec,
     0x0136051e3cb430b09cda1b66aac89a8e,
     0x9f675ccdcd6facf54d3097d300694bf0,
     0xaf0a35ceb781d5963a3033e31f000000,
     0x00e0721a206d09fe55a1c6f936b0da52,
     0x076666fc83adc3482eab6730d9d72ab4,
     0x6c9f062d0f4af166fdfe8cb3995076e5,
     0x8a3dea824ef9ab503583e9acc6b007d8,
     0x1478f0d0c2c0726a6f98a9226b000000,
     0x00e001ff80c703fe018f07fc031e0ff8,
     0x073c1ef00f783ce01ff078c03fe0f180,
     0x7fc0e301ff80c703fe018f07fc031e0f,
     0xf8073c1ef00f783ce01ff078c03fe0f1,
     0x807fc0e301ff80c703fe018f07000000,
     0x00b0844d416b099b82d6123605ad256c,
     0x0a5a4bd814b496b029682d6153d05ac2,
     0xa6a0b5844d416b099b82d6123605ad25,
     0x6c0a5a4bd814b496b029682d6153d05a,
     0xc2a6a0b5844d416b099b82d612000000,
     0x0078c0a721fd804f43fa019f86f4033e,
     0x0de9077c1ad20ff834a41ff069483fe0,
     0xd3907ec0a721fd804f43fa019f86f403,
     0x3e0de9077c1ad20ff834a41ff069483f,
     0xe0d3907ec0a721fd804f43fa01000000,
     0x00285b1a1856b63430ac6c696058d9d2,
     0xc0b0b2a58161654b03c3ca960686952d,
     0x0d0c2b5b1a1856b63430ac6c696058d9,
     0xd2c0b0b2a58161654b03c3ca96068695,
     0x2d0d0c2b5b1a1856b63430ac6c000000,
     0x00e0b2d514ca65ab2994cb56532897ad,
     0xa6502e5b4da15cb69a42b96c358572d9,
     0x6a0ae5b2d514ca65ab2994cb56532897,
     0xada6502e5b4da15cb69a42b96c358572,
     0xd96a0ae5b2d514ca65ab2994cb000000,
     0x0030dd6b136cbad726d874af4db0e95e,
     0x9b60d3bd36c1a67b6d824df7da049bee,
     0xb50936dd6b136cbad726d874af4db0e9,
     0x5e9b60d3bd36c1a67b6d824df7da049b,
     0xeeb50936dd6b136cbad726d874000000,
     0x00b0c4a719c6e5d79a61acac9eb271d9,
     0x5aecac813913f636b07eb550051ed814,
     0xd265b35a82270bd5f925b7a0cffb47e5,
     0x54913acee634df6f8607ff40fb803428,
     0xd474f59dc15735378c51eb9819000000,
     0x0078401a146abafacee0ab9a1bc6a875,
     0xcc0c65c34c6d3f1b588d4b013c4b7c9a,
     0x615c7ead19c6caea291b97adc5ce1a98,
     0x33616f03eb570b55e0814d215d36ab25,
     0x78b2509d5f720bfabc7f544e15000000,
     0x00289bd5123c59a8ce2fb9057dde3f2a,
     0xa78ad47136a7f97e333cf807da07a441,
     0xa1a6abef0cbeaab9618c5ac7cc5036cc,
     0xd4f6b381d5b814c0b3c4a719c6e5d79a,
     0x61acac9eb271d95aecac813913000000,
     0x00e0f26bcd3056564fd9b86c2d76d6c0,
     0x9c097b1b58bf5aa8020f6c0ae9b2592d,
     0xc19385eafc925bd0e7fda372aa481d67,
     0x739aef37c3837fa07d401a146abaface,
     0xe0ab9a1bc6a875cc0c65c34c6d000000,
     0x00305d7d67f055cd0d63d43a6686b261,
     0xa6b69f0dacc6a5009e253ecd302ebfd6,
     0x0c6365f5948dcbd662670dcc99b0b781,
     0xf5ab852af0c0a6902e9bd5123c59a8ce,
     0x2fb9057dde3f2aa78ad47136a7000000,
     0x00982c54e797dc823eef1f955345ea38,
     0x9bd37cbf191efc03ed03d2a050d3d577,
     0x065fd5dc3046ad6366281b666afbd9c0,
     0x6a5c0ae059e2d30ce3f26bcd3056564f,
     0xd9b86c2d76d6c09c097b1b58bf000000,
     0x007880d5ccf0d582165bd99cd56f2940,
     0x5bb6d7ce20b96c6546ea0c5c63fe419a,
     0xcbf59d9f7175ac0a7b0f0c1e366598e9,
     0xa03ae551572e133f7b330f3eadd0c9b2,
     0x7a18ff00b3daf25d054ba421c1000000,
     0x0028db6b67905cb632237506ae31ff20,
     0xcde5facecfb83a5685bd07060f9b32cc,
     0x74509df2a82b97899fbd99079f56e864,
     0x593d8c7f80596df9ae8225d290e0b16a,
     0xee795983594eb500bc0758cd0c000000,
     0x00e0727de7675c1dabc2de0383874d19,
     0x663aa84e79d495cbc4cfdecc834f2b74,
     0xb2ac1ec63fc0acb67c57c1126948f058,
     0x35f7bcacc12ca75a00de03ac6686af16,
     0xb4d8cae6ac7e4b01dab2bd7606000000,
     0x00301d54a73ceaca65e2676fe6c1a715,
     0x3a59560fe31f60565bbeab6089342478,
     0xac9a7b5ed66096532d00ef015633c357,
     0x0b5a6c657356bfa5006dd95e3b83e4b2,
     0x9519a933708df907692ed7777e000000,
     0x00982cab87f10f30ab2ddf55b0441a12,
     0x3c56cd3d2f6b30cba91680f700ab99e1,
     0xab052db6b239abdf5280b66caf9d4172,
     0xd9ca8cd419b8c6fc833497eb3b3fe3ea,
     0x5815f61e183c6cca30d34175ca000000,
     0x0018abe69e973598e5540bc07b80d5cc,
     0xf0d582165bd99cd56f29405bb6d7ce20,
     0xb96c6546ea0c5c63fe419acbf59d9f71,
     0x75ac0a7b0f0c1e366598e9a03ae55157,
     0x2e133f7b330f3eadd0c9b27a18000000,
     0x00285b7da7fc0f98e9977f0c9bace68a,
     0x9dba81f1200d6648ae8e33916fe095ad,
     0xbe53fe07ccf4cb3f864d5673c54eddc0,
     0x789006332457c799c837f0ca56df29ff,
     0x0366fae51fc326abb962a76e60000000,
     0x00e03254879135ced6d8a60a1d6b4199,
     0x61ef375bc26a33306ee5d4a605d07219,
     0xaac3c81a676b6c53858eb5a0ccb0f79b,
     0x2d61b51918b7726ad30268b90cd56164,
     0x8db335b6a942c75a5066d8fbcd000000,
     0x00301dab9fa76c03c3e3d309fe2a5b55,
     0xf1b32a3ce0b5f31b3598735a0a489b8e,
     0xd5cf53b681e1f1e9047f95adaaf85915,
     0x1ef0daf98d1acc392d05a44dc7eae729,
     0xdbc0f0f87482bfca5655fcac0a000000,
     0x0098ace68a9dba81f1200d6648ae8e33,
     0x916fe095adbe53fe07ccf4cb3f864d56,
     0x73c54eddc0789006332457c799c837f0,
     0xca56df29ff0366fae51fc326abb962a7]"

definition mx150by616_part6 :: "block list" where
  "mx150by616_part6 =
    [0x6e603c48831992abe34ce41b78000000,
     0x00186b419961ef375bc26a33306ee5d4,
     0xa605d07219aac3c81a676b6c53858eb5,
     0xa0ccb0f79b2d61b51918b7726ad30268,
     0xb90cd561648db335b6a942c75a5066d8,
     0xfbcd96b0da0c8c5b39b56901b4000000,
     0x00f82a5b55f1b32a3ce0b5f31b359873,
     0x5a0a489b8ed5cf53b681e1f1e9047f95,
     0xadaaf859151ef0daf98d1acc392d05a4,
     0x4dc7eae729dbc0f0f87482bfca5655fc,
     0xac0a0f78edfc460de69c9602d2000000]"

definition mx150by616 :: "u8 list" where
  "mx150by616 = concat (map line_bytes (mx150by616_part1 @ mx150by616_part2 @ mx150by616_part3 @ mx150by616_part4 @ mx150by616_part5 @ mx150by616_part6))"

definition mx156by627_part1 :: "block list" where
  "mx156by627_part1 =
    [0x0c030000000000007302000000000000,
     0xc0031ef080073ce0010f78c0031ef080,
     0x073ce0010f78c0031ef080073ce0010f,
     0x78c0031ef080073ce0010f78c0031ef0,
     0x80073ce0010f78c0031ef080073ce001,
     0x0f78c0031ef080073ce0010f78c00300,
     0xa0052d68410b5ad08216b4a0052d6841,
     0x0b5ad08216b4a0052d68410b5ad08216,
     0xb4a0052d68410b5ad08216b4a0052d68,
     0x410b5ad08216b4a0052d68410b5ad082,
     0x16b4a0052d68410b5ad08216b4a00500,
     0x908634a4210d6948431ad2908634a421,
     0x0d6948431ad2908634a4210d6948431a,
     0xd2908634a4210d6948431ad2908634a4,
     0x210d6948431ad2908634a4210d694843,
     0x1ad2908634a4210d6948431ad2900600,
     0x0c6318c318c63086318c610c6318c318,
     0xc63086318c610c6318c318c63086318c,
     0x610c6318c318c63086318c610c6318c3,
     0x18c63086318c610c6318c318c6308631,
     0x8c610c6318c318c63086318c610c0300,
     0x0a55a84215aa50852a54a10a55a84215,
     0xaa50852a54a10a55a84215aa50852a54,
     0xa10a55a84215aa50852a54a10a55a842,
     0x15aa50852a54a10a55a84215aa50852a,
     0x54a10a55a84215aa50852a54a10a0500,
     0x094e7082139ce0042738c1094e708213,
     0x9ce0042738c1094e7082139ce0042738,
     0xc1094e7082139ce0042738c1094e7082,
     0x139ce0042738c1094e7082139ce00427,
     0x38c1094e7082139ce0042738c1090600,
     0x00002da419a6d0049b6106f39bf2309e,
     0x576c66a822136acba97e6b0c0f1e58e2,
     0x0165e3b2e9263bd6af26d7b8a3fe47d6,
     0x949d3a7bff2cdf5a2805ff6cfae93458,
     0xedb5f5852aab355750b6eab872600600,
     0x008034c3149a6033cc607e531ec6f38a,
     0xcd0c5564426d39d56f8de1c1034b3ca0,
     0x6c5c36dd64c7fad5e41a77d4ffc89ab2,
     0x5367ef9fe55b0ba5e09f4d3f9d06abbd,
     0xb6be5065b5e60aca561d570ecc300300,
     0x00609842136c8619cc6fcac3785eb199,
     0xa18a4ca82da7faad313c78608907948d,
     0xcba69bec58bf9a5ce38efa1f595376ea,
     0xecfdb37c6ba114fcb3e9a7d360b5d7d6,
     0x17aaacd65c41d9aae3ca8119669c0500,
     0x00506882cd3083f94d7918cf2b363354,
     0x9109b5e554bf3586070f2cf180b271d9,
     0x74931deb57936bdc51ff236bca4e9dbd,
     0x7f966f2d94827f36fd741aacf6dafa42,
     0x95d59a2b285b755c3930c38cb3060600,
     0x0048b0196630bf290fe379c566862a32,
     0xa1b69ceab7c6f0e081251e50362e9b6e,
     0xb263fd6a728d3bea7f644dd9a9b3f7cf,
     0xf2ad8552f0cfa69f4e83d55e5b5fa8b2,
     0x5a730565ab8e2b07669871d6c0030300,
     0x0030c30ce637e5613cafd8cc504526d4,
     0x9653fdd6181e3cb0c403cac665d34d76,
     0xac5f4dae7147fd8fac293b75f6fe59be,
     0xb5500afed9f4d369b0da6beb0b55566b,
     0xaea06cd571e5c00c33ce1a78606f0600,
     0x0080b442cd30bf61145b156ad32f3c2c,
     0x5136d38d35b9a3ce5aea7ea605fe7dda,
     0x6af5657541750c66ce0eac0aa0655882,
     0x6730e5e731231339ad310f1ec0e5c97e,
     0xd5b8ff50b6bdf35d0a9ba6e1b5500500,
     0x006058826730e5e731231339ad310f1e,
     0xc0e5c97ed5b8ff50b6bdf35d0a9ba6e1,
     0xb550d51c5b2b073303bf19789056a819,
     0xe6378c62ab426dfa858725ca66bab126,
     0x77d4594bddcfb4c0bf4f5badbeac0600,
     0x0050a819e6378c62ab426dfa858725ca,
     0x66bab12677d4594bddcfb4c0bf4f5bad,
     0xbeac2ea88ec1ccd9815501b40c4bf00c,
     0xa6fc3c666422a735e6c103b83cd9af1a,
     0xf71fcab677be4b61d334bc16aa9a0300,
     0x0048f00ca6fc3c666422a735e6c103b8,
     0x3cd9af1af71fcab677be4b61d334bc16,
     0xaa9a636be56066e037030fd20a35c3fc,
     0x86516c55a84dbff0b044d94c37d6e48e,
     0x3a6ba9fb9916f8f769abd597d5050500,
     0x0030c3fc86516c55a84dbff0b044d94c,
     0x37d6e48e3a6ba9fb9916f8f769abd597,
     0xd505d53198393bb02a809661099ec194,
     0x9fc78c4ce4b4c63c78009727fb55e3fe,
     0x43d9f6ce77296c9a86d74255736c0500,
     0x0098c1949fc78c4ce4b4c63c78009727,
     0xfb55e3fe43d9f6ce77296c9a86d74255,
     0x736cad1ccc0cfc66e0415aa16698df30,
     0x8aad0ab5e9171e96289be9c69adc5167,
     0x2d753fd302ff3e6db5fab2baa03a0600,
     0x00609819a65cec4ce89707659b6c72ff,
     0x91ba7cf32f0df5d59c8e613630e031cc,
     0x0c532e7626f4cb83b24d36b9ff485dbe,
     0xf99786fa6a4ec7301b18f01866862917,
     0x3b13fae541d9269bdc7fa42edffc0300,
     0x0050e80c86c10cb5d5d8125c1eab71b3,
     0x666f2dd8d46a502d68e538fb66d02a74,
     0x06c36086da6a6c092e8fd5b859b3b716,
     0x6c6a35a816b4729c7d3368153a836130,
     0x436d35b60497c76adcacd95b0b360500,
     0x0048f0fc9ea78a9cc2e301a6fbeaa895,
     0xfdb3527cfab5ac662b980d5c05482778,
     0x7ecf53454ee1f100d37d75d4cafe5929,
     0x3efd5a56b315cc06ae02a4133cbfe7a9,
     0x22a7f07880e9be3a6a65ffac149f0600,
     0x0030c3948b9d09fdf2a06c934dee3f52,
     0x976ffea5a1be9ad331cc06063c869961,
     0xcac5ce847e7950b6c926f71fa9cb37ff,
     0xd2505fcde9186603031ec3cc30e56267,
     0x42bf3c28db6493fb8fd4e59b7f690000,
     0x0098c13098a1b61a5b82cb63356ed6ec,
     0xad059b5a0daa05ad1c67df0c5a85ce60,
     0x18cc505b8d2dc1e5b11a376bf6d6824d,
     0xad06d582568eb36f06ad4267300c66a8,
     0xadc696e0f2588d9b357b6bc1a6560300,
     0x0098dff3549153783cc0745f1db5b27f,
     0x568a4fbf96d56c05b381ab00e904cfef,
     0x79aac8293c1e60baaf8e5ad93f2bc5a7,
     0x5fcb6ab682d9c055807482e7f73c55e4,
     0x141e0f30dd5747adec9f95e2d3af0500,
     0x0050e8fc8aad3678946daca34e9d163e,
     0x5ddf82827960a04df0949991531e70f9,
     0xabffb07729d20055b6c2eccd9036c330,
     0x54a15f4b982eb959fb19ffacc66a1d73,
     0xb60a0c9bc1f33251e3074cd6b8ca0600,
     0x0048f0949991531e70f9abffb07729d2,
     0x0055b6c2eccd9036c33054a15f4b982e,
     0xb959fb19ffacc66a1d73b60a0c9bc1f3,
     0x3251e3074cd6b8caceb74d5fabb9ca19,
     0x18780a9d5fb1d5068fb28d75d4a90300,
     0x0030c33054a15f4b982eb959fb19ffac,
     0xc66a1d73b60a0c9bc1f33251e3074cd6,
     0xb8caceb74d5fabb9ca1918780a9d5fb1,
     0xd5068fb28d75d4a9d3c2a7eb5b50300f,
     0x0cb4099e323372ca032e7ff51ff60600,
     0x0098c1f33251e3074cd6b8caceb74d5f,
     0xabb9ca1918780a9d5fb1d5068fb28d75,
     0xd4a9d3c2a7eb5b50300f0cb4099e3233,
     0x72ca032e7ff51ff62e451aa0ca5698bd,
     0x19d26618862af46b09d325376b3f0300,
     0x00985fb1d5068fb28d75d4a9d3c2a7eb,
     0x5b50300f0cb4099e323372ca032e7ff5,
     0x1ff62e451aa0ca5698bd19d26618862a,
     0xf46b09d325376b3fe39fd558ad63ce56,
     0x816133785e266afc80c91a57d9f90600,
     0x0098323372ca032e7ff51ff62e451aa0,
     0xca5698bd19d26618862af46b09d32537]"

definition mx156by627_part2 :: "block list" where
  "mx156by627_part2 =
    [0x6b3fe39fd558ad63ce56816133785e26,
     0x6afc80c91a57d9f9b6e96b3557390303,
     0x4fa1f32bb6dae051b6b18e3a755a0000,
     0x0048f03032010f2e2757d95a4803ab2b,
     0x373048cfa0d839b5c464476d6ffebdb6,
     0xa030ab8242a7ac8a1a97edab59cbf7a7,
     0xa1aa630383d60ccf531b0f4c67dcd495,
     0xc26a9a03f39b19363f66e8f701630500,
     0x0030c3f3d4c603d3193775a5b09ae6c0,
     0xfc6686cd8f19fa7dc058fff1339bd697,
     0xad9c055e82879109787039b9cad6421a,
     0x585db981417a06c5cea925263b6a7bf3,
     0xefb505855915143a6555d4b86c5f0500,
     0x009841b1736a89c98edadefc7b6d4161,
     0x5605854e5915352edb57b396ef4f4355,
     0xc70606ad199ea7361e98ceb8a92b85d5,
     0x3407e637336c7eccd0ef03c6fa8f9fd9,
     0xb4be6ce52cf0123c8c4cc083cbc90500,
     0x00981f33f4fb80b1fee36736ad2f5b39,
     0x0bbc040f2313f0e0727295ad8534b0ba,
     0x720383f40c8a9d534b4c76d4f6e6df6b,
     0x0b0ab32a2874caaaa871d9be9ab57c7f,
     0x1aaa3a363068cdf03cb5f1c074c60500,
     0x0098b22a6a5cb6af662ddf9f86aa8e0d,
     0x0c5a333c4f6d3c309d7153570aab690e,
     0xcc6f66d8fc98a1df078cf51f3fb3697d,
     0xd9ca59e02578189980079793ab6c2da4,
     0x81d5951b18a46750ec9c5a62b2a30600,
     0x00184626e0c1e5e42a5b0b696075e506,
     0x06e919143ba79698eca8edcdbfd71614,
     0x665550e8945551e3b27d356bf9fe3454,
     0x756c60d09ae1796ae381e98c9bba5258,
     0x4d73607e33c3e6c70cfd3e60acff0000,
     0x003043b1f55bb6e4a68e7ff5d5f1c018,
     0x36e54cf060b2ffc8771a340733e099a1,
     0xd8fa2d5b7253c7bffaea78600c9b7226,
     0x7830d97fe43b0d9a8319f0cc506cfd96,
     0x2db9a9e35f7d753c30864d39133c0000,
     0x009801336acc65e3dadba650addc9b15,
     0x3a0cb55962ac59d382d50aca59d0ce80,
     0x1935e6b271ed6d53a856eecd0a1d86da,
     0x2c31d6ac69c16a05e52c6867c08c1a73,
     0xd9b8f6b629542bf766850e436d960000,
     0x00989f2ae061ba51ffecd3ac06731512,
     0xfcbc9c3ee0abca2ec56bd96a6048cf4f,
     0x15f030dda87ff6695683b90a097e5e4e,
     0x1ff0556597e2b56c3530a4e7a70a7898,
     0x6ed43ffb34abc15c85043f2fa70f0000,
     0x009872267830d97fe43b0d9a8319f0cc,
     0x506cfd962db9a9e35f7d753c30864d39,
     0x133c98ec3ff29d06cdc10c786628b67e,
     0xcb96dcd4f1afbe3a1e18c3a69c091e4c,
     0xf61ff94e83e660063c33145bbf650300,
     0x001886da2c31d6ac69c16a05e52c6867,
     0xc08c1a73d9b8f6b629542bf766850e43,
     0x6d96186bd6b460b5827216b43360468d,
     0xb96c5c7bdb14aa957bb34287a1364b8c,
     0x356b5ab05a41390bda1930a3c65c0600,
     0x00785e4e1ff0556597e2b56c3530a4e7,
     0xa70a78986ed43ffb34abc15c85043f2f,
     0xa70ff8aab24bf15ab61a18d2f353053c,
     0x4c37ea9f7d9ad560ae42829f97d3077c,
     0x55d9a5782d5b0d0ce9f9a9021ea60300,
     0x0098812a78305665f30faa6006de0c54,
     0xc183b12a9b7f500533f066a00a1e8c55,
     0xd9fc832a9881370355f060accae61f54,
     0xc10cbc19a88207635536ffa00a66e0cd,
     0x40153c18abb2f9075530036f06aa0000,
     0x00985f262cf1d5d4d994d53003edfc32,
     0x6189afa6cea6ac861968e797094b7c35,
     0x75366535cc403bbf4c58e2aba9b329ab,
     0x6106daf965c2125f4d9d4d590d33d0ce,
     0x2f1396f86aea6cca6a9881767e990000,
     0x0098b2da1e905c7b7f5a739c85f494d5,
     0xf680e4dafbd39ae32ca4a7acb60724d7,
     0xde9fd61c67213d65b53d20b9f6feb4e6,
     0x380be929abed01c9b5f7a735c759484f,
     0x596d0f48aebd3fad39ce427aca6a0300,
     0x0018464ecb66dc9fa5a1a00666d83072,
     0x5a36e3fe2c0d053530c38691d3b219f7,
     0x676928a88119368c9c96cdb83f4b4341,
     0x0dccb061e4b46cc6fd591a0a6a60860d,
     0x23a76533eecfd2505003336c18390500,
     0x00789e7eb93cea7c5b8dad0353e8f3f4,
     0xcbe551e7db6a6c1d98429fa75f2e8f3a,
     0xdf5663ebc014fa3cfd7279d4f9b61a5b,
     0x07a6d0e7e997cba3ceb7d5d83a30853e,
     0x4fbf5c1e75beadc6d68129f479fa0500,
     0x0028768d4df70f2dbc56c76f4e70b16b,
     0x6cba7f68e1b53a7e73828b5d63d3fd43,
     0x0bafd5f19b135cec1a9bee1f5a78ad8e,
     0xdf9ce062d7d874ffd0c26b75fce60417,
     0xbbc6a6fb87165eabe33727b8d8350600,
     0x00989fdaca366a2dd417cca09d724eb9,
     0xfc8f52401566901e867e4d9735feb19a,
     0xb30c7b5e8d27ab6c9b6acec00a2d363c,
     0xc69aba4f1774600966060fbe6aef34b0,
     0xf5cd6650852592fb33abe9b80a330000,
     0x0098724eb9fc8f52401566901e867e4d,
     0x9735feb19ab30c7b5e8d27ab6c9b6ace,
     0xc00a2d363cc69aba4f1774600966060f,
     0xbe6aef34b0f5cd6650852592fb33abe9,
     0xb80a33c8c4038c9befd7560e78f30300,
     0x0018867e4d9735feb19ab30c7b5e8d27,
     0xab6c9b6acec00a2d363cc69aba4f1774,
     0x600966060fbe6aef34b0f5cd66508525,
     0x92fb33abe9b80a33c8c4038c9befd756,
     0x0e78f3535bd946ad85fa8219b4530600,
     0x00785e8d27ab6c9b6acec00a2d363cc6,
     0x9aba4f1774600966060fbe6aef34b0f5,
     0xcd6650852592fb33abe9b80a33c8c403,
     0x8c9befd7560e78f3535bd946ad85fa82,
     0x19b453ce2997ff510aa8c20cd2c30000,
     0x0028363cc69aba4f1774600966060fbe,
     0x6aef34b0f5cd6650852592fb33abe9b8,
     0x0a33c8c4038c9befd7560e78f3535bd9,
     0x46ad85fa8219b453ce2997ff510aa8c2,
     0x0cd2c3d0afe9b2c63f56739661cf0300,
     0x0060060fbe6aef34b0f5cd6650852592,
     0xfb33abe9b80a33c8c4038c9befd7560e,
     0x78f3535bd946ad85fa8219b453ce2997,
     0xff510aa8c20cd2c3d0afe9b2c63f5673,
     0x9661cfabf164956d53cd1958a1c50600,
     0x0098b27e279bba34e8187853d6ef6453,
     0x97061d036fcafa9d6cead2a063e04d59,
     0xbf934d5d1a740cbc29eb77b2a94b838e,
     0x813765fd4e367569d031f0a6acdfc9a6,
     0x2e0d3a06de94f53bd9d4a541c7c00300,
     0x0018468dc76a6fab550eb4c3a8f158ed,
     0x6db5ca817618351eabbdad5639d00ea3,
     0xc663b5b7d52a07da61d478acf6b65ae5,
     0x403b8c1a8fd5de56ab1c688751e3b1da,
     0xdb6a9503ed306a3c567b5bad72a00500,
     0x00781e3cbefab3d78219d2cf83c7577f,
     0xf65a3043fa79f0f8eacf5e0b66483f0f,
     0x1e5ffdd96bc10ce9e7c1e3ab3f7b2d98,
     0x21fd3c787cf567af0533a49f078faffe,
     0xecb56086f4f3e0f1d59fbd16cc900600,
     0x0028360f929beffac28c61c5e64172f3,
     0x5d5f9831acd83c486ebeeb0b3386159b,
     0x07c9cd777d61c6b062f320b9f9ae2fcc,
     0x18566c1e2437dff58519c38acd83e4e6,
     0xbbbe306358b17990dc7cd717660c0300,
     0x006086258cab05a87256a1ccb08471b5,
     0x0055ce2a94199630ae16a0ca598532c3,
     0x12c6d5025439ab506658c2b85a802a67,
     0x15ca0c4b18570b50e5ac42996109e36a,
     0x01aa9c5528332c615c2d4095b30a0500]"

definition mx156by627_part3 :: "block list" where
  "mx156by627_part3 =
    [0x0050c503465d0a561b38c1aa78c0a84b,
     0xc16a032758150f187529586de004abe2,
     0x01a32e05ab0d9c60553c60d4a560b581,
     0x13ac8a078cba14ac36708255f1805197,
     0x82d5064eb02a1e30ea52b0dac0090600,
     0x0018063c92ab05560f6c06399dacbd5f,
     0x0b3385aaa26c59fbb48e41fb3c1e18b7,
     0x149a7bf3fcf43bd69fd597b309ce0497,
     0x959d86ca41bad8961835ff0a5a8529d7,
     0xf8abf986aa81cda036d3a5ce6a600600,
     0x00781e0f8c5b0acdbd797efa1debcfea,
     0xcbd9046782cbca4e43e5205d6c4b8c9a,
     0x7f05adc2946bfcd57c43d5c066509be9,
     0x52673530338c190ff8874dd90abc61c0,
     0x23b95a60f5c06690d3c9dafbb5300300,
     0x0028b62546cdbf825661ca35fe6abea1,
     0x6a6033a8cd74a9b31a9819c68c07fcc3,
     0xa66c05de30e0915c2db07a6033c8e964,
     0xedfd5a9829541565cbdaa7750cdae7f1,
     0xc0b8a5d0dc9be7a7dfb1feacbe9c0500,
     0x0060c603fe6153b6026f18f048ae1658,
     0x3db019e474b2f67e2dcc14aa8ab265ed,
     0xd33a06edf37860dc5268eecdf3d3ef58,
     0x7f565fce2638135c56761a2a07e9625b,
     0x62d4fc2b6815a65ce3afe61baa060600,
     0x005045d9b2f6691d83f6793c306e2934,
     0xf7e6f9e977ac3fab2f67139c092e2b3b,
     0x0d958374b12d316afe15b40a53aef157,
     0xf30d55039b416da64b9dd5c0cc30663c,
     0xe01f36652bf086018fe46a81d5030300,
     0x00c80497959d86ca41bad8961835ff0a,
     0x5a8529d7f8abf986aa81cda036d3a5ce,
     0x6a606618331ef00f9bb21578c3804772,
     0xb5c0ea81cd20a793b5f76b61a6505594,
     0x2d6b9fd631689fc703e39642736f0600,
     0x00789e25fef1e9ca314c155c4edd6b39,
     0x6b869c8e35dfac7ef394e1615cfeb115,
     0xb4c57e40d6d200668566c274f6aeaf81,
     0x67a0dfaf6a41735518060f466d531d43,
     0x9a196553b6d5609660b54df667500500,
     0x0028f603b29606302b3413a6b3777d0d,
     0x3c03fd7e550b9aabc23078306a9bea18,
     0xd2cc289bb2ad06b304ab6db23f83eac0,
     0xe657e3e496a2a0c07b9e25fef1e9ca31,
     0x4c155c4edd6b396b869c8e35dfac0600,
     0x006046d9946d359825586d93fd195407,
     0x36bf1a27b7140505def32cf18f4f578e,
     0x61aae072ea5ecb5933e474acf966f59b,
     0xa70c0fe3f28fada02df603b29606302b,
     0x3413a6b3777d0d3c03fd7e550b9a0300,
     0x0050059753f75ace9a21a763cd37abdf,
     0x3c657818977f6c056db11f90b5348059,
     0xa199309dbdeb6be019e8f7ab5ad05c15,
     0x86c18351db54c7906646d9946d359825,
     0x586d93fd19540736bf1a27b714050500,
     0x00c884e9ec5d5f03cf40bf5fd582e6aa,
     0x300c1e8cdaa63a863433caa66cabc12c,
     0xc16a9beccfa03ab0f9d538b9a52828f0,
     0x9e67897f7cba720c53059753f75ace9a,
     0x21a763cd37abdf3c657818977f6c0500,
     0x0050db647f06d581cdafc6c92d454181,
     0xf73c4bfce3d39563982ab89cbad772d6,
     0x0c391d6bbe59fde629c3c3b8fc632b68,
     0x8bfd80aca501cc0acd84e9ec5d5f03cf,
     0x40bf5fd582e6aa300c1e8cdaa63a0600,
     0x002876d95257df814d9907ff4803cccc,
     0xa0dfe4f24fc70ccbc464f3ad39e015bb,
     0x6ca9abefc0a6cc837fa4016666d06f72,
     0xf9a763866562b2f9d61cf08a5db6d4d5,
     0x776053e6c13fd2003333e837b9fc0300,
     0x00600697ed0dd5370fc31259b31a6767,
     0x5063e3dab4720a55db58b55050d03283,
     0xcbf686ea9b876189ac598db333a8b171,
     0x6d5a3985aa6dac5a28286899c1657b43,
     0xf5cdc3b044d6acc6d919d4d8b8360500,
     0x005085e97ec6ea2a3cef01ca7ead81e7,
     0x078f517f1acc09cee9574bc15648abc2,
     0x743f6375159ef70065bfd6c0f383c7a8,
     0x3f0de604e7f4aba5602ba45561ba9fb1,
     0xba0acf7b80b25f6be0f9c163d49f0600,
     0x00c8c464f3ad39e015bb6ca9abefc0a6,
     0xcc837fa4016666d06f72f9a763866562,
     0xb2f9d61cf08a5db6d4d5776053e6c13f,
     0xd2003333e837b9fcd331c33231d97c6b,
     0x0e78c52e5beaea3bb029f3e01f690000,
     0x0050db58b55050d03283cbf686ea9b87,
     0x6189ac598db333a8b1716d5a3985aa6d,
     0xac5a28286899c1657b43f5cdc3b044d6,
     0xacc6d919d4d8b836ad9c42d536562d14,
     0x14b4cce0b2bda1fae66158226b560300,
     0x00c8e9574bc15648abc2743f6375159e,
     0xf70065bfd6c0f383c7a83f0de604e7f4,
     0xaba5602ba45561ba9fb1ba0acf7b80b2,
     0x5f6be0f9c163d49f06738273fad552b0,
     0x15d2aa30ddcf585d85e73d40d9af0500,
     0x006086e9f25d50486762aca5d0b14273,
     0x9a5c9b82d90c351e751a383b3f1e64ed,
     0xb5031bc6035207d52a149bcb3fd31c68,
     0x5531592db095616afb2aff2a9760fd1a,
     0xf7d3309b013cfe6135034fd912ca0600,
     0x0050c564b5c05686a9edabfcab5c82f5,
     0x6bdc4fc36c06f0f887d50c3c654b28bb,
     0xbe6f7e5ed9eccd6ae031c374f92e28a4,
     0x3331d652e858a1394dae4dc16c861a8f,
     0x3a0d9c9d1f0fb2f6da810de301a90300,
     0x00c8c4584ba16385e634b93605b3196a,
     0x3cea3470767e3cc8da6b07368c07a40e,
     0xaa552836977fa639d0aa62b25a602bc3,
     0xd4f655fe552ec1fa35eea761360378fc,
     0xc36a069eb225945ddf373faf6cf60600,
     0x0050db57f957b904ebd7b89f86d90ce0,
     0xf10fab1978ca9650767ddffcbcb2d99b,
     0xd5c06386e9f25d50486762aca5d0b142,
     0x739a5c9b82d90c351e751a383b3f1e64,
     0xedb5031bc6035207d52a149bcb3f0300,
     0x00c869726d0a6633d478d469e0ecfc78,
     0x90b5d70e6c180f481d54ab506c2eff4c,
     0x73a055c564b5c05686a9edabfcab5c82,
     0xf56bdc4fc36c06f0f887d50c3c654b28,
     0xbbbe6f7e5ed9eccd6ae031c374f90600,
     0x00d0af713f0db319c0e31f5633f0942d,
     0xa1ecfabef97965b337ab81c70cd3e5bb,
     0xa090cec4584ba16385e634b93605b319,
     0x6a3cea3470767e3cc8da6b07368c07a4,
     0x0eaa552836977fa639d0aa62b25a0000,
     0x0050c558f907e619f040d950059e2ac6,
     0xca3f30cf8007ca862af0543156fe8179,
     0x063c50365481a78ab1f20fcc33e081b2,
     0xa10a3c558c957f609e010f940d55e0a9,
     0x62acfc03f30c78a06ca8024f15630500,
     0x00c8c4576d0ab3f9592275ac066d26be,
     0x6a5398cdcf12a963356833f1559bc26c,
     0x7e96481dab419b89afda1466f3b344ea,
     0x580dda4c7cd5a6309b9f2552c76ad066,
     0xe2ab3685d9fc2c913a568336135f0500,
     0x00505b723fcdd9293fc0de9a83b4da92,
     0xfb69ce4ef901f6d61ca4d596dc4f7376,
     0xca0fb0b7e620adb6e47e9ab3537e80bd,
     0x350769b525f7d39c9df203ecad3948ab,
     0x2db99fe6ec941f606fcd415a6dc90500,
     0x00c8a971d360e06194ed670565584e8d,
     0x9b06030fa36c3f2b28c3726adc341878,
     0x1865fb5941199653e3a6c1c0c328dbcf,
     0x0acab09c1a370d061e46d97e565086e5,
     0xd4b86930f030caf6b382322ca7c60500,
     0x00d0efa8ad36b0e77139df6c55a87e47,
     0x6db5813d8fcbf966ab42f53b6aab0dec,
     0x795cce375b15aadf515b6d60cfe372be]"

definition mx156by627_part4 :: "block list" where
  "mx156by627_part4 =
    [0xd9aa50fd8eda6a037b1e97f3cd5685ea,
     0x77d4561bd8f3b89c6fb62a54bfa30600,
     0x00a8f13f5efbe6629b4e0b3a4e708dff,
     0xf1da3717db745ad071826bfc8fd7beb9,
     0xd8a6d3828e135ce37fbcf6cdc5369d16,
     0x749ce01affe3b56f2eb6e9b4a0e304d7,
     0xf81faf7d73b14da7051d27b8c6ff0000,
     0x00c84472d330b0624f967f309b72d9f2,
     0xad6333f020759a63987eff515fe06522,
     0xb9691858b127cb3f984db96cf9d6b119,
     0x78903acd314cbfffa82ff03291dc340c,
     0xacd893e51fcca65cb67cebd80c3c0000,
     0x00509b71adf666668cd5a69c1d0697b5,
     0x50b91958c2de0555688db30655d0aacd,
     0xb8567b3333c66a53ce0e83cb5aa8dc0c,
     0x2c61ef822ab4c659832a68d5665cabbd,
     0x991963b5296787c1652d546e06960000,
     0x00c8e9a85f5b05557cf5d3067e9ee94a,
     0x01e6f93de0676c4d303c94cd6a48e774,
     0xd4afad822abefa69033fcf74a500f3fc,
     0x1ef033b626181eca6635a4733aead756,
     0x41155ffdb4819f67ba5280797e0f0000,
     0x00d0ef3fea0bbc4c24370d032bf664f9,
     0x07b329972ddf3a36030f52a73986e9f7,
     0x1ff5055e26929b8681157bb2fc83d994,
     0xcb966f1d9b8107a9d31cc3f4fb8ffa02,
     0x2f13c94dc3c08a3d59fec16cca650300,
     0x00a871d6a00a5ab519d76a6f66c6586d,
     0xcad96170590b959b8125ec5d5085d638,
     0x6b5005adda8c6bb5373363ac36e5ec30,
     0xb8ac85cacdc012f62ea8426b9c35a882,
     0x566dc6b5da9b9931569b7276185c0600,
     0x008087b2590de99c8efab55550c5573f,
     0x6de0e799ae14609edf037ec6d604c343,
     0xd9ac86744e47fdda2aa8e2ab9f36f0f3,
     0x4c570a30cfef013f636b82e1a16c5643,
     0x3aa7a37e6d1554f1d54f1bf879a60300,
     0x0050dba8eb0bda9cfe03aa90d66fd658,
     0xcdb01a2b5b730a8547ea0a9a601ed89b,
     0xad66b0c4cf743c8307e4bb72f32b9b16,
     0xc03c652e970266c3301dff38fbbcc9da,
     0xd4c0c51eeba707c68cafa6e1cdaa0000,
     0x00c8e93fa00a69fd668dd50cabb1b235,
     0xa75078a4aea009e681bdd96a064bfc4c,
     0xc7337840be2b37bfb26901cc53e67229,
     0x60360cd3f18fb3cf9bac4d0d5cecb17e,
     0x7a60ccf86a1adeac8ae45aad0a990000,
     0x00d06fd658cdb01a2b5b730a8547ea0a,
     0x9a601ed89bad66b0c4cf743c8307e4bb,
     0x72f32b9b16c03c652e970266c3301dff,
     0x38fbbcc9dad4c0c51eeba707c68cafa6,
     0xe1cdaa48aed5aa9009e3be16786a0300,
     0x00a8b1b235a75078a4aea009e681bdd9,
     0x6a064bfc4cc7337840be2b37bfb26901,
     0xcc53e6722960360cd3f18fb3cf9bac4d,
     0x0d5cecb17e7a60ccf86a1adeac8ae45a,
     0xad0a9930ee6b81a7b651d717b4390500,
     0x008047ea0a9a601ed89bad66b0c4cf74,
     0x3c8307e4bb72f32b9b16c03c652e9702,
     0x66c3301dff38fbbcc9dad4c0c51eeba7,
     0x07c68cafa6e1cdaa48aed5aa9009e3be,
     0x16786a1b757d419bd37f4015d2fa0500,
     0x00e081bdd96a064bfc4cc7337840be2b,
     0x37bfb26901cc53e6722960360cd3f18f,
     0xb3cf9bac4d0d5cecb17e7a60ccf86a1a,
     0xdeac8ae45aad0a9930ee6b81a7b651d7,
     0x17b439fd075421addfacb19a61350600,
     0x00c869d63497604be41bccc398eca7df,
     0x9c8951439561f0b0b78ee7c765fe1998,
     0x19c97d2d68f5abec829ae1015a80d9f3,
     0xc69a862aa8ed1fac56280f7e56b9299b,
     0xcea603538571eb0be91aa78ead330000,
     0x00d0afb20b6a8607680166cf1b6b1aaa,
     0xa0b67fb05aa13cf859e5a66c3a9b0e4c,
     0x15c6ad2fa46b9c3ab6cea06ca5e06cb1,
     0xbf6a35e0e5346b9a4bb025f20de6614c,
     0xf6d36fcec4a8a1ca3078d85bc7f30300,
     0x00a871ead83a83b29582b3c5feaad580,
     0x97d3ac692ec196c837988731d94fbf39,
     0x13a3862ac3e0616f1dcf8fcbfc333033,
     0x92fb5ad0ea57d90535c303b400b3e78d,
     0x350d5550db3f58ad501efcac72530600,
     0x008087bd753c3f2ef3cfc0cc48ee6b41,
     0xab5f6517d40c0fd002cc9e37d6345441,
     0x6dff60b54279f0b3ca4dd974361d982a,
     0x8c5b5f48d738756c9d41d94ac1d9627f,
     0xd56ac0cb69d63497604be41bccc30000,
     0x00e0c1cf2a3765d3d97460aa306e7d21,
     0x5de3d4b17506652b05678bfd55ab012f,
     0xa759d35c822d916f300f63b29f7e7326,
     0x460d5586c1c3de3a9e1f97f967606624,
     0xf7b5a0d5afb20b6a8607680166cf0300,
     0x00b044bec13c8cc97efacd9918355419,
     0x060f7beb787e5ce69f819991dcd78256,
     0xbfca2ea8191ea005983d6fac69a882da,
     0xfec16a85f2e067959bb2e96c3a305518,
     0xb7be90ae71ead83a83b29582b3c50600,
     0x00d06fea743ce5c9a60178fa4d9d8ea7,
     0x3cd934004fbfa9d3f194279b06e0e937,
     0x753a9ef264d3003cfda64ec7539e6c1a,
     0x80a7dfd4e978ca934d03f0f49b3a1d4f,
     0x79b269009e7e53a7e3294f360dc00300,
     0x00a8b1bd2b378cb15a0db435b677e586,
     0x3156ab81b6c6f6aedc30c66a35d0d6d8,
     0xde951bc658ad06da1adbbb72c318abd5,
     0x405b637b576e1863b51a686b6cefca0d,
     0x63ac56036d8ded5db9618cd56aa00500,
     0x0080c7cfc0fcbcafbe16d2f0f819989f,
     0xf7d5d7421a1e3f03f3f3befa5a48c3e3,
     0x67607ede575f0b6978fc0ccccffbea6b,
     0x210d8f9f81f9795f7d2da4e1f133303f,
     0xefabaf85343c7e06e6e77df5b5900600,
     0x00e041be6156ece4d697613cc837cc8a,
     0x9ddcfa328c07f98659b1935b5f86f120,
     0xdf302b7672ebcb301ee41b66c54e6e7d,
     0x19c6837cc3acd8c9ad2fc378906f9815,
     0x3bb9f565180ff20db36227b7be0c0300,
     0x00b0841638cb0ce34255a196d0026799,
     0x615ca82ad4125ae02c338c0b55855a42,
     0x0b9c658671a1aa504b6881b3cc302e54,
     0x156a092d709619c685aa422da105ce32,
     0xc3b85055a825b4c059661817aa0a0500,
     0x007840290cac8a51b33ac10f28858155,
     0x316a5627f801a530b02a46cdea043fa0,
     0x140656c5a8599de00794c2c0aa1835ab,
     0x13fc8052185815a36675821f500a03ab,
     0x62d4ac4ef0034a6160558c9ad5090600,
     0x00a8f1cf60c68c516b6e06a64b0368e1,
     0x916fceaae21f059ddf64ad06691e68c1,
     0xc099c81a5ba73cd6d732cc12a51898da,
     0x94ade3617cb5be0a7d00ffde9cd3d455,
     0xee79c9856a82cb66d32ae8d7de600600,
     0x008047be39ab8a7f14747e93b51aa479,
     0xa0050367226b6c9df2585fcb304b9462,
     0x606a53b68e87f1d5fa2af401fc7b734e,
     0x5357b9e72517aa092e9b4daba05f7b83,
     0xb9d8c665b519b8fc69e0d5f867300300,
     0x00e081160c9c89acb175ca637d2dc32c,
     0x518a81a94dd93a1ec657ebabd007f0ef,
     0xcd394d5de59e975ca826b86c36ad827e,
     0xed0de6621b97d566e0f2a78157e39fc1,
     0x8c19a3d6dc0c4c9706d0c223df9c0500,
     0x00b0442906a63665eb78185fadaf421f,
     0xc0bf37e73475957b5e72a19ae0b2d9b4,
     0x0afab537988b6d5c569b81cb9f065e8d,
     0x7f0633668c5a7333305d1a400b8f7c73,
     0x5615ff28e8fc266b3548f3400b060600,
     0x007800ffde9cd3d455ee79c9856a82cb]"

definition mx156by627_part5 :: "block list" where
  "mx156by627_part5 =
    [0x66d32ae8d7de602eb671596d062e7f1a,
     0x7835fe19cc98316acdcdc07469002d3c,
     0xf2cd5955fca3a0f39bacd520cd032d18,
     0x38135963eb94c7fa5a8659a214030300,
     0x00289b4daba05f7b83b9d8c665b519b8,
     0xfc69e0d5f8673063c6a8353703d3a501,
     0xb4f0c8376755f18f82ce6fb25683340f,
     0xb460e04c648dad531eeb6b196689520c,
     0x4c6dcad6f130be5a5f853e807f6f0600,
     0x008087160696537bc34c1559d3f1f38c,
     0xabb9f98db5be09e6721a206d09fe55a1,
     0xc6f936b0da52076666fc83adc3482eab,
     0x6730d9d72ab46c9f062d0f4af166fdfe,
     0x8cb3995076e58a3dea824ef9ab500500,
     0x00e04129deacdf9f713613caae5cb147,
     0x5dd0297f15aa66309dd518f6009b020f,
     0x1e5a18584eed0d3355644dc7cf33aee6,
     0xe637d6fa2698cb6980b425f857851ae7,
     0xdbc06a4b1d9899f10fb60e23b9ac0600,
     0x00b004ffaa50e37c1b586da9033333fe,
     0xc1d6612497d53398ec6b155ab64f8396,
     0x07a578b37e7fc6d94c28bb72c51e7541,
     0xa7fc55a89ac1745663d8036c0a3c7868,
     0x616039b537cc5491351d3fcfb89a0300,
     0x0078804d81070f2d0c2ca7f686992ab2,
     0xa6e3e7195773f31b6b7d13cce53440da,
     0x12fcab428df36d60b5a50eccccf8075b,
     0x87915c56cf60b2af5568d93e0d5a1e94,
     0xe2cdfafd196733a1ecca157bd4050500,
     0x0028dba741cb8352bc59bf3fe36c2694,
     0x5db9628fbaa053fe2a54cd603aab31ec,
     0x0136051e3cb430b09cda1b66aac89a8e,
     0x9f675ccdcd6facf54d3097d300694bf0,
     0xaf0a35ceb781d5963a3033e31f6c0500,
     0x00e0721a206d09fe55a1c6f936b0da52,
     0x076666fc83adc3482eab6730d9d72ab4,
     0x6c9f062d0f4af166fdfe8cb3995076e5,
     0x8a3dea824ef9ab503583e9acc6b007d8,
     0x1478f0d0c2c0726a6f98a9226b3a0600,
     0x00e001ff80c703fe018f07fc031e0ff8,
     0x073c1ef00f783ce01ff078c03fe0f180,
     0x7fc0e301ff80c703fe018f07fc031e0f,
     0xf8073c1ef00f783ce01ff078c03fe0f1,
     0x807fc0e301ff80c703fe018f07fc0300,
     0x00b0844d416b099b82d6123605ad256c,
     0x0a5a4bd814b496b029682d6153d05ac2,
     0xa6a0b5844d416b099b82d6123605ad25,
     0x6c0a5a4bd814b496b029682d6153d05a,
     0xc2a6a0b5844d416b099b82d612360500,
     0x0078c0a721fd804f43fa019f86f4033e,
     0x0de9077c1ad20ff834a41ff069483fe0,
     0xd3907ec0a721fd804f43fa019f86f403,
     0x3e0de9077c1ad20ff834a41ff069483f,
     0xe0d3907ec0a721fd804f43fa019f0600,
     0x00285b1a1856b63430ac6c696058d9d2,
     0xc0b0b2a58161654b03c3ca960686952d,
     0x0d0c2b5b1a1856b63430ac6c696058d9,
     0xd2c0b0b2a58161654b03c3ca96068695,
     0x2d0d0c2b5b1a1856b63430ac6c690000,
     0x00e0b2d514ca65ab2994cb56532897ad,
     0xa6502e5b4da15cb69a42b96c358572d9,
     0x6a0ae5b2d514ca65ab2994cb56532897,
     0xada6502e5b4da15cb69a42b96c358572,
     0xd96a0ae5b2d514ca65ab2994cb560300,
     0x0030dd6b136cbad726d874af4db0e95e,
     0x9b60d3bd36c1a67b6d824df7da049bee,
     0xb50936dd6b136cbad726d874af4db0e9,
     0x5e9b60d3bd36c1a67b6d824df7da049b,
     0xeeb50936dd6b136cbad726d874af0500,
     0x00b0c4a719c6e5d79a61acac9eb271d9,
     0x5aecac813913f636b07eb550051ed814,
     0xd265b35a82270bd5f925b7a0cffb47e5,
     0x54913acee634df6f8607ff40fb803428,
     0xd474f59dc15735378c51eb9819ca0600,
     0x0078401a146abafacee0ab9a1bc6a875,
     0xcc0c65c34c6d3f1b588d4b013c4b7c9a,
     0x615c7ead19c6caea291b97adc5ce1a98,
     0x33616f03eb570b55e0814d215d36ab25,
     0x78b2509d5f720bfabc7f544e15a90300,
     0x00289bd5123c59a8ce2fb9057dde3f2a,
     0xa78ad47136a7f97e333cf807da07a441,
     0xa1a6abef0cbeaab9618c5ac7cc5036cc,
     0xd4f6b381d5b814c0b3c4a719c6e5d79a,
     0x61acac9eb271d95aecac813913f60600,
     0x00e0f26bcd3056564fd9b86c2d76d6c0,
     0x9c097b1b58bf5aa8020f6c0ae9b2592d,
     0xc19385eafc925bd0e7fda372aa481d67,
     0x739aef37c3837fa07d401a146abaface,
     0xe0ab9a1bc6a875cc0c65c34c6d3f0300,
     0x00305d7d67f055cd0d63d43a6686b261,
     0xa6b69f0dacc6a5009e253ecd302ebfd6,
     0x0c6365f5948dcbd662670dcc99b0b781,
     0xf5ab852af0c0a6902e9bd5123c59a8ce,
     0x2fb9057dde3f2aa78ad47136a7f90600,
     0x00982c54e797dc823eef1f955345ea38,
     0x9bd37cbf191efc03ed03d2a050d3d577,
     0x065fd5dc3046ad6366281b666afbd9c0,
     0x6a5c0ae059e2d30ce3f26bcd3056564f,
     0xd9b86c2d76d6c09c097b1b58bf5a0000,
     0x007880d5ccf0d582165bd99cd56f2940,
     0x5bb6d7ce20b96c6546ea0c5c63fe419a,
     0xcbf59d9f7175ac0a7b0f0c1e366598e9,
     0xa03ae551572e133f7b330f3eadd0c9b2,
     0x7a18ff00b3daf25d054ba421c1630500,
     0x0028db6b67905cb632237506ae31ff20,
     0xcde5facecfb83a5685bd07060f9b32cc,
     0x74509df2a82b97899fbd99079f56e864,
     0x593d8c7f80596df9ae8225d290e0b16a,
     0xee795983594eb500bc0758cd0c5f0500,
     0x00e0727de7675c1dabc2de0383874d19,
     0x663aa84e79d495cbc4cfdecc834f2b74,
     0xb2ac1ec63fc0acb67c57c1126948f058,
     0x35f7bcacc12ca75a00de03ac6686af16,
     0xb4d8cae6ac7e4b01dab2bd7606c90500,
     0x00301d54a73ceaca65e2676fe6c1a715,
     0x3a59560fe31f60565bbeab6089342478,
     0xac9a7b5ed66096532d00ef015633c357,
     0x0b5a6c657356bfa5006dd95e3b83e4b2,
     0x9519a933708df907692ed7777ec60500,
     0x00982cab87f10f30ab2ddf55b0441a12,
     0x3c56cd3d2f6b30cba91680f700ab99e1,
     0xab052db6b239abdf5280b66caf9d4172,
     0xd9ca8cd419b8c6fc833497eb3b3fe3ea,
     0x5815f61e183c6cca30d34175caa30600,
     0x0018abe69e973598e5540bc07b80d5cc,
     0xf0d582165bd99cd56f29405bb6d7ce20,
     0xb96c6546ea0c5c63fe419acbf59d9f71,
     0x75ac0a7b0f0c1e366598e9a03ae55157,
     0x2e133f7b330f3eadd0c9b27a18ff0000,
     0x00285b7da7fc0f98e9977f0c9bace68a,
     0x9dba81f1200d6648ae8e33916fe095ad,
     0xbe53fe07ccf4cb3f864d5673c54eddc0,
     0x789006332457c799c837f0ca56df29ff,
     0x0366fae51fc326abb962a76e603c0000,
     0x00e03254879135ced6d8a60a1d6b4199,
     0x61ef375bc26a33306ee5d4a605d07219,
     0xaac3c81a676b6c53858eb5a0ccb0f79b,
     0x2d61b51918b7726ad30268b90cd56164,
     0x8db335b6a942c75a5066d8fbcd960000,
     0x00301dab9fa76c03c3e3d309fe2a5b55,
     0xf1b32a3ce0b5f31b3598735a0a489b8e,
     0xd5cf53b681e1f1e9047f95adaaf85915,
     0x1ef0daf98d1acc392d05a44dc7eae729,
     0xdbc0f0f87482bfca5655fcac0a0f0000,
     0x0098ace68a9dba81f1200d6648ae8e33,
     0x916fe095adbe53fe07ccf4cb3f864d56,
     0x73c54eddc0789006332457c799c837f0,
     0xca56df29ff0366fae51fc326abb962a7]"

definition mx156by627_part6 :: "block list" where
  "mx156by627_part6 =
    [0x6e603c48831992abe34ce41b78650300,
     0x00186b419961ef375bc26a33306ee5d4,
     0xa605d07219aac3c81a676b6c53858eb5,
     0xa0ccb0f79b2d61b51918b7726ad30268,
     0xb90cd561648db335b6a942c75a5066d8,
     0xfbcd96b0da0c8c5b39b56901b45c0600,
     0x00f82a5b55f1b32a3ce0b5f31b359873,
     0x5a0a489b8ed5cf53b681e1f1e9047f95,
     0xadaaf859151ef0daf98d1acc392d05a4,
     0x4dc7eae729dbc0f0f87482bfca5655fc,
     0xac0a0f78edfc460de69c9602d2a60300,
     0x00e032ab8b6def2a940daacf4bdd9b1f,
     0x50df61287b609678ed94b366601e586d,
     0x7effe02c3cd2308351c3acc69f368371,
     0xc1ac5f9b2638b995cb29ff14fa551dab,
     0xad140c1b2b5b33a105484fb6a0aa0000,
     0x00309de698f133e07199d5c5b67715ca,
     0x06d5e7a5eecd0fa8ef30943d304bbc76,
     0xca5933300fac36bf7f70161e6998c1a8,
     0x6156e34f9bc1b860d6af4d139cdccae5,
     0x947f0afdaa8ed5560a868d95ad990000,
     0x00986c4155916fd09a4e73ccf819f0b8,
     0xccea62dbbb0a6583eaf352f7e607d477,
     0x18ca1e98255e3be5ac199807569bdf3f,
     0x380b8f34cc60d430abf1a7cd605c30eb,
     0xd7a6094e6ee572ca3f857e55c76a0300,
     0x00182b5b33a105484fb6a0aac837684d,
     0xa73966fc0c785c6675b1ed5d85b241f5,
     0x79a97bf303ea3b0c650fcc12af9d72d6,
     0x0ccc03abcdef1f9c85471a66306a98d5,
     0xf8d366302e98f56bd30427b772390500,
     0x00f8aa8ed5560a868d95ad99d002a427,
     0x5b5055e41bb4a6d31c337e063c2eb3ba,
     0xd8f6ae42d9a0fabcd4bdf901f51d86b2,
     0x076689d74e396b06e681d5e6f70fcec2,
     0x230d331835cc6afc69331817ccfa0500,
     0x00486ee572ca3f857e55c76a2b05c3c6,
     0xcad64c6801d2932da82af20d5ad3698e,
     0x193f031e97595d6c7b57a16c507d5eea,
     0xdefc80fa0e43d903b3c46ba79c3503f3,
     0xc06af3fb0767e19186198c1a66350600]"

definition mx156by627 :: "u8 list" where
  "mx156by627 = concat (map line_bytes (mx156by627_part1 @ mx156by627_part2 @ mx156by627_part3 @ mx156by627_part4 @ mx156by627_part5 @ mx156by627_part6))"

definition mx162by638_part1 :: "block list" where
  "mx162by638_part1 =
    [0x2a030000000000007e02000000000000,
     0xc0031ef080073ce0010f78c0031ef080,
     0x073ce0010f78c0031ef080073ce0010f,
     0x78c0031ef080073ce0010f78c0031ef0,
     0x80073ce0010f78c0031ef080073ce001,
     0x0f78c0031ef080073ce0010f78c0031e,
     0xa0052d68410b5ad08216b4a0052d6841,
     0x0b5ad08216b4a0052d68410b5ad08216,
     0xb4a0052d68410b5ad08216b4a0052d68,
     0x410b5ad08216b4a0052d68410b5ad082,
     0x16b4a0052d68410b5ad08216b4a0052d,
     0x908634a4210d6948431ad2908634a421,
     0x0d6948431ad2908634a4210d6948431a,
     0xd2908634a4210d6948431ad2908634a4,
     0x210d6948431ad2908634a4210d694843,
     0x1ad2908634a4210d6948431ad2908634,
     0x0c6318c318c63086318c610c6318c318,
     0xc63086318c610c6318c318c63086318c,
     0x610c6318c318c63086318c610c6318c3,
     0x18c63086318c610c6318c318c6308631,
     0x8c610c6318c318c63086318c610c6318,
     0x0a55a84215aa50852a54a10a55a84215,
     0xaa50852a54a10a55a84215aa50852a54,
     0xa10a55a84215aa50852a54a10a55a842,
     0x15aa50852a54a10a55a84215aa50852a,
     0x54a10a55a84215aa50852a54a10a5528,
     0x094e7082139ce0042738c1094e708213,
     0x9ce0042738c1094e7082139ce0042738,
     0xc1094e7082139ce0042738c1094e7082,
     0x139ce0042738c1094e7082139ce00427,
     0x38c1094e7082139ce0042738c1094e30,
     0x00002da419a6d0049b6106f39bf2309e,
     0x576c66a822136acba97e6b0c0f1e58e2,
     0x0165e3b2e9263bd6af26d7b8a3fe47d6,
     0x949d3a7bff2cdf5a2805ff6cfae93458,
     0xedb5f5852aab355750b6eab872608619,
     0x008034c3149a6033cc607e531ec6f38a,
     0xcd0c5564426d39d56f8de1c1034b3ca0,
     0x6c5c36dd64c7fad5e41a77d4ffc89ab2,
     0x5367ef9fe55b0ba5e09f4d3f9d06abbd,
     0xb6be5065b5e60aca561d570ecc30e32c,
     0x00609842136c8619cc6fcac3785eb199,
     0xa18a4ca82da7faad313c78608907948d,
     0xcba69bec58bf9a5ce38efa1f595376ea,
     0xecfdb37c6ba114fcb3e9a7d360b5d7d6,
     0x17aaacd65c41d9aae3ca8119669c3530,
     0x00506882cd3083f94d7918cf2b363354,
     0x9109b5e554bf3586070f2cf180b271d9,
     0x74931deb57936bdc51ff236bca4e9dbd,
     0x7f966f2d94827f36fd741aacf6dafa42,
     0x95d59a2b285b755c3930c38cb3061e18,
     0x0048b0196630bf290fe379c566862a32,
     0xa1b69ceab7c6f0e081251e50362e9b6e,
     0xb263fd6a728d3bea7f644dd9a9b3f7cf,
     0xf2ad8552f0cfa69f4e83d55e5b5fa8b2,
     0x5a730565ab8e2b07669871d6c0037b33,
     0x0030c30ce637e5613cafd8cc504526d4,
     0x9653fdd6181e3cb0c403cac665d34d76,
     0xac5f4dae7147fd8fac293b75f6fe59be,
     0xb5500afed9f4d369b0da6beb0b55566b,
     0xaea06cd571e5c00c33ce1a78606fae02,
     0x0080b442cd30bf61145b156ad32f3c2c,
     0x5136d38d35b9a3ce5aea7ea605fe7dda,
     0x6af5657541750c66ce0eac0aa0655882,
     0x6730e5e731231339ad310f1ec0e5c97e,
     0xd5b8ff50b6bdf35d0a9ba6e1b550d51c,
     0x006058826730e5e731231339ad310f1e,
     0xc0e5c97ed5b8ff50b6bdf35d0a9ba6e1,
     0xb550d51c5b2b073303bf19789056a819,
     0xe6378c62ab426dfa858725ca66bab126,
     0x77d4594bddcfb4c0bf4f5badbeac2e28,
     0x0050a819e6378c62ab426dfa858725ca,
     0x66bab12677d4594bddcfb4c0bf4f5bad,
     0xbeac2ea88ec1ccd9815501b40c4bf00c,
     0xa6fc3c666422a735e6c103b83cd9af1a,
     0xf71fcab677be4b61d334bc16aa9a632b,
     0x0048f00ca6fc3c666422a735e6c103b8,
     0x3cd9af1af71fcab677be4b61d334bc16,
     0xaa9a636be56066e037030fd20a35c3fc,
     0x86516c55a84dbff0b044d94c37d6e48e,
     0x3a6ba9fb9916f8f769abd597d505d531,
     0x0030c3fc86516c55a84dbff0b044d94c,
     0x37d6e48e3a6ba9fb9916f8f769abd597,
     0xd505d53198393bb02a809661099ec194,
     0x9fc78c4ce4b4c63c78009727fb55e3fe,
     0x43d9f6ce77296c9a86d74255736cad1c,
     0x0098c1949fc78c4ce4b4c63c78009727,
     0xfb55e3fe43d9f6ce77296c9a86d74255,
     0x736cad1ccc0cfc66e0415aa16698df30,
     0x8aad0ab5e9171e96289be9c69adc5167,
     0x2d753fd302ff3e6db5fab2baa03a0633,
     0x00609819a65cec4ce89707659b6c72ff,
     0x91ba7cf32f0df5d59c8e613630e031cc,
     0x0c532e7626f4cb83b24d36b9ff485dbe,
     0xf99786fa6a4ec7301b18f01866862917,
     0x3b13fae541d9269bdc7fa42edffc4b03,
     0x0050e80c86c10cb5d5d8125c1eab71b3,
     0x666f2dd8d46a502d68e538fb66d02a74,
     0x06c36086da6a6c092e8fd5b859b3b716,
     0x6c6a35a816b4729c7d3368153a836130,
     0x436d35b60497c76adcacd95b0b36b51a,
     0x0048f0fc9ea78a9cc2e301a6fbeaa895,
     0xfdb3527cfab5ac662b980d5c05482778,
     0x7ecf53454ee1f100d37d75d4cafe5929,
     0x3efd5a56b315cc06ae02a4133cbfe7a9,
     0x22a7f07880e9be3a6a65ffac149f7e2d,
     0x0030c3948b9d09fdf2a06c934dee3f52,
     0x976ffea5a1be9ad331cc06063c869961,
     0xcac5ce847e7950b6c926f71fa9cb37ff,
     0xd2505fcde9186603031ec3cc30e56267,
     0x42bf3c28db6493fb8fd4e59b7f69a82f,
     0x0098c13098a1b61a5b82cb63356ed6ec,
     0xad059b5a0daa05ad1c67df0c5a85ce60,
     0x18cc505b8d2dc1e5b11a376bf6d6824d,
     0xad06d582568eb36f06ad4267300c66a8,
     0xadc696e0f2588d9b357b6bc1a656832a,
     0x0098dff3549153783cc0745f1db5b27f,
     0x568a4fbf96d56c05b381ab00e904cfef,
     0x79aac8293c1e60baaf8e5ad93f2bc5a7,
     0x5fcb6ab682d9c055807482e7f73c55e4,
     0x141e0f30dd5747adec9f95e2d3af6535,
     0x0050e8fc8aad3678946daca34e9d163e,
     0x5ddf82827960a04df0949991531e70f9,
     0xabffb07729d20055b6c2eccd9036c330,
     0x54a15f4b982eb959fb19ffacc66a1d73,
     0xb60a0c9bc1f33251e3074cd6b8cace37,
     0x0048f0949991531e70f9abffb07729d2,
     0x0055b6c2eccd9036c33054a15f4b982e,
     0xb959fb19ffacc66a1d73b60a0c9bc1f3,
     0x3251e3074cd6b8caceb74d5fabb9ca19,
     0x18780a9d5fb1d5068fb28d75d4a9d302,
     0x0030c33054a15f4b982eb959fb19ffac,
     0xc66a1d73b60a0c9bc1f33251e3074cd6,
     0xb8caceb74d5fabb9ca1918780a9d5fb1,
     0xd5068fb28d75d4a9d3c2a7eb5b50300f,
     0x0cb4099e323372ca032e7ff51ff62e05,
     0x0098c1f33251e3074cd6b8caceb74d5f,
     0xabb9ca1918780a9d5fb1d5068fb28d75,
     0xd4a9d3c2a7eb5b50300f0cb4099e3233,
     0x72ca032e7ff51ff62e451aa0ca5698bd,
     0x19d26618862af46b09d325376b3fe31f,
     0x00985fb1d5068fb28d75d4a9d3c2a7eb,
     0x5b50300f0cb4099e323372ca032e7ff5,
     0x1ff62e451aa0ca5698bd19d26618862a,
     0xf46b09d325376b3fe39fd558ad63ce56,
     0x816133785e266afc80c91a57d9f9b629,
     0x0098323372ca032e7ff51ff62e451aa0,
     0xca5698bd19d26618862af46b09d32537]"

definition mx162by638_part2 :: "block list" where
  "mx162by638_part2 =
    [0x6b3fe39fd558ad63ce56816133785e26,
     0x6afc80c91a57d9f9b6e96b3557390303,
     0x4fa1f32bb6dae051b6b18e3a755af834,
     0x0048f03032010f2e2757d95a4803ab2b,
     0x373048cfa0d839b5c464476d6ffebdb6,
     0xa030ab8242a7ac8a1a97edab59cbf7a7,
     0xa1aa630383d60ccf531b0f4c67dcd495,
     0xc26a9a03f39b19363f66e8f70163fd07,
     0x0030c3f3d4c603d3193775a5b09ae6c0,
     0xfc6686cd8f19fa7dc058fff1339bd697,
     0xad9c055e82879109787039b9cad6421a,
     0x585db981417a06c5cea925263b6a7bf3,
     0xefb505855915143a6555d4b86c5fcd1a,
     0x009841b1736a89c98edadefc7b6d4161,
     0x5605854e5915352edb57b396ef4f4355,
     0xc70606ad199ea7361e98ceb8a92b85d5,
     0x3407e637336c7eccd0ef03c6fa8f9fd9,
     0xb4be6ce52cf0123c8c4cc083cbc95536,
     0x00981f33f4fb80b1fee36736ad2f5b39,
     0x0bbc040f2313f0e0727295ad8534b0ba,
     0x720383f40c8a9d534b4c76d4f6e6df6b,
     0x0b0ab32a2874caaaa871d9be9ab57c7f,
     0x1aaa3a363068cdf03cb5f1c074c64d1d,
     0x0098b22a6a5cb6af662ddf9f86aa8e0d,
     0x0c5a333c4f6d3c309d7153570aab690e,
     0xcc6f66d8fc98a1df078cf51f3fb3697d,
     0xd9ca59e02578189980079793ab6c2da4,
     0x81d5951b18a46750ec9c5a62b2a3b637,
     0x00184626e0c1e5e42a5b0b696075e506,
     0x06e919143ba79698eca8edcdbfd71614,
     0x665550e8945551e3b27d356bf9fe3454,
     0x756c60d09ae1796ae381e98c9bba5258,
     0x4d73607e33c3e6c70cfd3e60acfff819,
     0x003043b1f55bb6e4a68e7ff5d5f1c018,
     0x36e54cf060b2ffc8771a340733e099a1,
     0xd8fa2d5b7253c7bffaea78600c9b7226,
     0x7830d97fe43b0d9a8319f0cc506cfd96,
     0x2db9a9e35f7d753c30864d39133c982c,
     0x009801336acc65e3dadba650addc9b15,
     0x3a0cb55962ac59d382d50aca59d0ce80,
     0x1935e6b271ed6d53a856eecd0a1d86da,
     0x2c31d6ac69c16a05e52c6867c08c1a73,
     0xd9b8f6b629542bf766850e436d96182b,
     0x00989f2ae061ba51ffecd3ac06731512,
     0xfcbc9c3ee0abca2ec56bd96a6048cf4f,
     0x15f030dda87ff6695683b90a097e5e4e,
     0x1ff0556597e2b56c3530a4e7a70a7898,
     0x6ed43ffb34abc15c85043f2fa70ff82a,
     0x009872267830d97fe43b0d9a8319f0cc,
     0x506cfd962db9a9e35f7d753c30864d39,
     0x133c98ec3ff29d06cdc10c786628b67e,
     0xcb96dcd4f1afbe3a1e18c3a69c091e4c,
     0xf61ff94e83e660063c33145bbf654b2e,
     0x001886da2c31d6ac69c16a05e52c6867,
     0xc08c1a73d9b8f6b629542bf766850e43,
     0x6d96186bd6b460b5827216b43360468d,
     0xb96c5c7bdb14aa957bb34287a1364b8c,
     0x356b5ab05a41390bda1930a3c65c362e,
     0x00785e4e1ff0556597e2b56c3530a4e7,
     0xa70a78986ed43ffb34abc15c85043f2f,
     0xa70ff8aab24bf15ab61a18d2f353053c,
     0x4c37ea9f7d9ad560ae42829f97d3077c,
     0x55d9a5782d5b0d0ce9f9a9021ea61b35,
     0x0098812a78305665f30faa6006de0c54,
     0xc183b12a9b7f500533f066a00a1e8c55,
     0xd9fc832a9881370355f060accae61f54,
     0xc10cbc19a88207635536ffa00a66e0cd,
     0x40153c18abb2f9075530036f06aae001,
     0x00985f262cf1d5d4d994d53003edfc32,
     0x6189afa6cea6ac861968e797094b7c35,
     0x75366535cc403bbf4c58e2aba9b329ab,
     0x6106daf965c2125f4d9d4d590d33d0ce,
     0x2f1396f86aea6cca6a9881767e99b004,
     0x0098b2da1e905c7b7f5a739c85f494d5,
     0xf680e4dafbd39ae32ca4a7acb60724d7,
     0xde9fd61c67213d65b53d20b9f6feb4e6,
     0x380be929abed01c9b5f7a735c759484f,
     0x596d0f48aebd3fad39ce427aca6a7b00,
     0x0018464ecb66dc9fa5a1a00666d83072,
     0x5a36e3fe2c0d053530c38691d3b219f7,
     0x676928a88119368c9c96cdb83f4b4341,
     0x0dccb061e4b46cc6fd591a0a6a60860d,
     0x23a76533eecfd2505003336c18392d1b,
     0x00789e7eb93cea7c5b8dad0353e8f3f4,
     0xcbe551e7db6a6c1d98429fa75f2e8f3a,
     0xdf5663ebc014fa3cfd7279d4f9b61a5b,
     0x07a6d0e7e997cba3ceb7d5d83a30853e,
     0x4fbf5c1e75beadc6d68129f479fae532,
     0x0028768d4df70f2dbc56c76f4e70b16b,
     0x6cba7f68e1b53a7e73828b5d63d3fd43,
     0x0bafd5f19b135cec1a9bee1f5a78ad8e,
     0xdf9ce062d7d874ffd0c26b75fce60417,
     0xbbc6a6fb87165eabe33727b8d835361d,
     0x00989fdaca366a2dd417cca09d724eb9,
     0xfc8f52401566901e867e4d9735feb19a,
     0xb30c7b5e8d27ab6c9b6acec00a2d363c,
     0xc69aba4f1774600966060fbe6aef34b0,
     0xf5cd6650852592fb33abe9b80a33c804,
     0x0098724eb9fc8f52401566901e867e4d,
     0x9735feb19ab30c7b5e8d27ab6c9b6ace,
     0xc00a2d363cc69aba4f1774600966060f,
     0xbe6aef34b0f5cd6650852592fb33abe9,
     0xb80a33c8c4038c9befd7560e78f3531b,
     0x0018867e4d9735feb19ab30c7b5e8d27,
     0xab6c9b6acec00a2d363cc69aba4f1774,
     0x600966060fbe6aef34b0f5cd66508525,
     0x92fb33abe9b80a33c8c4038c9befd756,
     0x0e78f3535bd946ad85fa8219b453ce29,
     0x00785e8d27ab6c9b6acec00a2d363cc6,
     0x9aba4f1774600966060fbe6aef34b0f5,
     0xcd6650852592fb33abe9b80a33c8c403,
     0x8c9befd7560e78f3535bd946ad85fa82,
     0x19b453ce2997ff510aa8c20cd2c3d02f,
     0x0028363cc69aba4f1774600966060fbe,
     0x6aef34b0f5cd6650852592fb33abe9b8,
     0x0a33c8c4038c9befd7560e78f3535bd9,
     0x46ad85fa8219b453ce2997ff510aa8c2,
     0x0cd2c3d0afe9b2c63f56739661cfab31,
     0x0060060fbe6aef34b0f5cd6650852592,
     0xfb33abe9b80a33c8c4038c9befd7560e,
     0x78f3535bd946ad85fa8219b453ce2997,
     0xff510aa8c20cd2c3d0afe9b2c63f5673,
     0x9661cfabf164956d53cd1958a1c58607,
     0x0098b27e279bba34e8187853d6ef6453,
     0x97061d036fcafa9d6cead2a063e04d59,
     0xbf934d5d1a740cbc29eb77b2a94b838e,
     0x813765fd4e367569d031f0a6acdfc9a6,
     0x2e0d3a06de94f53bd9d4a541c7c09b32,
     0x0018468dc76a6fab550eb4c3a8f158ed,
     0x6db5ca817618351eabbdad5639d00ea3,
     0xc663b5b7d52a07da61d478acf6b65ae5,
     0x403b8c1a8fd5de56ab1c688751e3b1da,
     0xdb6a9503ed306a3c567b5bad72a01d06,
     0x00781e3cbefab3d78219d2cf83c7577f,
     0xf65a3043fa79f0f8eacf5e0b66483f0f,
     0x1e5ffdd96bc10ce9e7c1e3ab3f7b2d98,
     0x21fd3c787cf567af0533a49f078faffe,
     0xecb56086f4f3e0f1d59fbd16cc907e1e,
     0x0028360f929beffac28c61c5e64172f3,
     0x5d5f9831acd83c486ebeeb0b3386159b,
     0x07c9cd777d61c6b062f320b9f9ae2fcc,
     0x18566c1e2437dff58519c38acd83e4e6,
     0xbbbe306358b17990dc7cd717660c2b36,
     0x006086258cab05a87256a1ccb08471b5,
     0x0055ce2a94199630ae16a0ca598532c3,
     0x12c6d5025439ab506658c2b85a802a67,
     0x15ca0c4b18570b50e5ac42996109e36a,
     0x01aa9c5528332c615c2d4095b30a6506]"

definition mx162by638_part3 :: "block list" where
  "mx162by638_part3 =
    [0x0050c503465d0a561b38c1aa78c0a84b,
     0xc16a032758150f187529586de004abe2,
     0x01a32e05ab0d9c60553c60d4a560b581,
     0x13ac8a078cba14ac36708255f1805197,
     0x82d5064eb02a1e30ea52b0dac0095605,
     0x0018063c92ab05560f6c06399dacbd5f,
     0x0b3385aaa26c59fbb48e41fb3c1e18b7,
     0x149a7bf3fcf43bd69fd597b309ce0497,
     0x959d86ca41bad8961835ff0a5a8529d7,
     0xf8abf986aa81cda036d3a5ce6a606618,
     0x00781e0f8c5b0acdbd797efa1debcfea,
     0xcbd9046782cbca4e43e5205d6c4b8c9a,
     0x7f05adc2946bfcd57c43d5c066509be9,
     0x52673530338c190ff8874dd90abc61c0,
     0x23b95a60f5c06690d3c9dafbb5305328,
     0x0028b62546cdbf825661ca35fe6abea1,
     0x6a6033a8cd74a9b31a9819c68c07fcc3,
     0xa66c05de30e0915c2db07a6033c8e964,
     0xedfd5a9829541565cbdaa7750cdae7f1,
     0xc0b8a5d0dc9be7a7dfb1feacbe9c4d30,
     0x0060c603fe6153b6026f18f048ae1658,
     0x3db019e474b2f67e2dcc14aa8ab265ed,
     0xd33a06edf37860dc5268eecdf3d3ef58,
     0x7f565fce2638135c56761a2a07e9625b,
     0x62d4fc2b6815a65ce3afe61baa063603,
     0x005045d9b2f6691d83f6793c306e2934,
     0xf7e6f9e977ac3fab2f67139c092e2b3b,
     0x0d958374b12d316afe15b40a53aef157,
     0xf30d55039b416da64b9dd5c0cc30663c,
     0xe01f36652bf086018fe46a81d5039b01,
     0x00c80497959d86ca41bad8961835ff0a,
     0x5a8529d7f8abf986aa81cda036d3a5ce,
     0x6a606618331ef00f9bb21578c3804772,
     0xb5c0ea81cd20a793b5f76b61a6505594,
     0x2d6b9fd631689fc703e39642736f9e1f,
     0x00789e25fef1e9ca314c155c4edd6b39,
     0x6b869c8e35dfac7ef394e1615cfeb115,
     0xb4c57e40d6d200668566c274f6aeaf81,
     0x67a0dfaf6a41735518060f466d531d43,
     0x9a196553b6d5609660b54df667501d18,
     0x0028f603b29606302b3413a6b3777d0d,
     0x3c03fd7e550b9aabc23078306a9bea18,
     0xd2cc289bb2ad06b304ab6db23f83eac0,
     0xe657e3e496a2a0c07b9e25fef1e9ca31,
     0x4c155c4edd6b396b869c8e35dfac7e33,
     0x006046d9946d359825586d93fd195407,
     0x36bf1a27b7140505def32cf18f4f578e,
     0x61aae072ea5ecb5933e474acf966f59b,
     0xa70c0fe3f28fada02df603b29606302b,
     0x3413a6b3777d0d3c03fd7e550b9aab02,
     0x0050059753f75ace9a21a763cd37abdf,
     0x3c657818977f6c056db11f90b5348059,
     0xa199309dbdeb6be019e8f7ab5ad05c15,
     0x86c18351db54c7906646d9946d359825,
     0x586d93fd19540736bf1a27b71405051e,
     0x00c884e9ec5d5f03cf40bf5fd582e6aa,
     0x300c1e8cdaa63a863433caa66cabc12c,
     0xc16a9beccfa03ab0f9d538b9a52828f0,
     0x9e67897f7cba720c53059753f75ace9a,
     0x21a763cd37abdf3c657818977f6c052d,
     0x0050db647f06d581cdafc6c92d454181,
     0xf73c4bfce3d39563982ab89cbad772d6,
     0x0c391d6bbe59fde629c3c3b8fc632b68,
     0x8bfd80aca501cc0acd84e9ec5d5f03cf,
     0x40bf5fd582e6aa300c1e8cdaa63a8634,
     0x002876d95257df814d9907ff4803cccc,
     0xa0dfe4f24fc70ccbc464f3ad39e015bb,
     0x6ca9abefc0a6cc837fa4016666d06f72,
     0xf9a763866562b2f9d61cf08a5db6d4d5,
     0x776053e6c13fd2003333e837b9fcd331,
     0x00600697ed0dd5370fc31259b31a6767,
     0x5063e3dab4720a55db58b55050d03283,
     0xcbf686ea9b876189ac598db333a8b171,
     0x6d5a3985aa6dac5a28286899c1657b43,
     0xf5cdc3b044d6acc6d919d4d8b836ad1c,
     0x005085e97ec6ea2a3cef01ca7ead81e7,
     0x078f517f1acc09cee9574bc15648abc2,
     0x743f6375159ef70065bfd6c0f383c7a8,
     0x3f0de604e7f4aba5602ba45561ba9fb1,
     0xba0acf7b80b25f6be0f9c163d49f0633,
     0x00c8c464f3ad39e015bb6ca9abefc0a6,
     0xcc837fa4016666d06f72f9a763866562,
     0xb2f9d61cf08a5db6d4d5776053e6c13f,
     0xd2003333e837b9fcd331c33231d97c6b,
     0x0e78c52e5beaea3bb029f3e01f698019,
     0x0050db58b55050d03283cbf686ea9b87,
     0x6189ac598db333a8b1716d5a3985aa6d,
     0xac5a28286899c1657b43f5cdc3b044d6,
     0xacc6d919d4d8b836ad9c42d536562d14,
     0x14b4cce0b2bda1fae66158226b56e32c,
     0x00c8e9574bc15648abc2743f6375159e,
     0xf70065bfd6c0f383c7a83f0de604e7f4,
     0xaba5602ba45561ba9fb1ba0acf7b80b2,
     0x5f6be0f9c163d49f06738273fad552b0,
     0x15d2aa30ddcf585d85e73d40d9af3530,
     0x006086e9f25d50486762aca5d0b14273,
     0x9a5c9b82d90c351e751a383b3f1e64ed,
     0xb5031bc6035207d52a149bcb3fd31c68,
     0x5531592db095616afb2aff2a9760fd1a,
     0xf7d3309b013cfe6135034fd912caae2f,
     0x0050c564b5c05686a9edabfcab5c82f5,
     0x6bdc4fc36c06f0f887d50c3c654b28bb,
     0xbe6f7e5ed9eccd6ae031c374f92e28a4,
     0x3331d652e858a1394dae4dc16c861a8f,
     0x3a0d9c9d1f0fb2f6da810de301a9832a,
     0x00c8c4584ba16385e634b93605b3196a,
     0x3cea3470767e3cc8da6b07368c07a40e,
     0xaa552836977fa639d0aa62b25a602bc3,
     0xd4f655fe552ec1fa35eea761360378fc,
     0xc36a069eb225945ddf373faf6cf66635,
     0x0050db57f957b904ebd7b89f86d90ce0,
     0xf10fab1978ca9650767ddffcbcb2d99b,
     0xd5c06386e9f25d50486762aca5d0b142,
     0x739a5c9b82d90c351e751a383b3f1e64,
     0xedb5031bc6035207d52a149bcb3fd31c,
     0x00c869726d0a6633d478d469e0ecfc78,
     0x90b5d70e6c180f481d54ab506c2eff4c,
     0x73a055c564b5c05686a9edabfcab5c82,
     0xf56bdc4fc36c06f0f887d50c3c654b28,
     0xbbbe6f7e5ed9eccd6ae031c374f92e28,
     0x00d0af713f0db319c0e31f5633f0942d,
     0xa1ecfabef97965b337ab81c70cd3e5bb,
     0xa090cec4584ba16385e634b93605b319,
     0x6a3cea3470767e3cc8da6b07368c07a4,
     0x0eaa552836977fa639d0aa62b25a602b,
     0x0050c558f907e619f040d950059e2ac6,
     0xca3f30cf8007ca862af0543156fe8179,
     0x063c50365481a78ab1f20fcc33e081b2,
     0xa10a3c558c957f609e010f940d55e0a9,
     0x62acfc03f30c78a06ca8024f1563e51f,
     0x00c8c4576d0ab3f9592275ac066d26be,
     0x6a5398cdcf12a963356833f1559bc26c,
     0x7e96481dab419b89afda1466f3b344ea,
     0x580dda4c7cd5a6309b9f2552c76ad066,
     0xe2ab3685d9fc2c913a568336135fb529,
     0x00505b723fcdd9293fc0de9a83b4da92,
     0xfb69ce4ef901f6d61ca4d596dc4f7376,
     0xca0fb0b7e620adb6e47e9ab3537e80bd,
     0x350769b525f7d39c9df203ecad3948ab,
     0x2db99fe6ec941f606fcd415a6dc9fd34,
     0x00c8a971d360e06194ed670565584e8d,
     0x9b06030fa36c3f2b28c3726adc341878,
     0x1865fb5941199653e3a6c1c0c328dbcf,
     0x0acab09c1a370d061e46d97e565086e5,
     0xd4b86930f030caf6b382322ca7c64d03,
     0x00d0efa8ad36b0e77139df6c55a87e47,
     0x6db5813d8fcbf966ab42f53b6aab0dec,
     0x795cce375b15aadf515b6d60cfe372be]"

definition mx162by638_part4 :: "block list" where
  "mx162by638_part4 =
    [0xd9aa50fd8eda6a037b1e97f3cd5685ea,
     0x77d4561bd8f3b89c6fb62a54bfa3b61a,
     0x00a8f13f5efbe6629b4e0b3a4e708dff,
     0xf1da3717db745ad071826bfc8fd7beb9,
     0xd8a6d3828e135ce37fbcf6cdc5369d16,
     0x749ce01affe3b56f2eb6e9b4a0e304d7,
     0xf81faf7d73b14da7051d27b8c6ff782d,
     0x00c84472d330b0624f967f309b72d9f2,
     0xad6333f020759a63987eff515fe06522,
     0xb9691858b127cb3f984db96cf9d6b119,
     0x78903acd314cbfffa82ff03291dc340c,
     0xacd893e51fcca65cb67cebd80c3c481d,
     0x00509b71adf666668cd5a69c1d0697b5,
     0x50b91958c2de0555688db30655d0aacd,
     0xb8567b3333c66a53ce0e83cb5aa8dc0c,
     0x2c61ef822ab4c659832a68d5665cabbd,
     0x991963b5296787c1652d546e0696b037,
     0x00c8e9a85f5b05557cf5d3067e9ee94a,
     0x01e6f93de0676c4d303c94cd6a48e774,
     0xd4afad822abefa69033fcf74a500f3fc,
     0x1ef033b626181eca6635a4733aead756,
     0x41155ffdb4819f67ba5280797e0ff819,
     0x00d0ef3fea0bbc4c24370d032bf664f9,
     0x07b329972ddf3a36030f52a73986e9f7,
     0x1ff5055e26929b8681157bb2fc83d994,
     0xcb966f1d9b8107a9d31cc3f4fb8ffa02,
     0x2f13c94dc3c08a3d59fec16cca65cb37,
     0x00a871d6a00a5ab519d76a6f66c6586d,
     0xcad96170590b959b8125ec5d5085d638,
     0x6b5005adda8c6bb5373363ac36e5ec30,
     0xb8ac85cacdc012f62ea8426b9c35a882,
     0x566dc6b5da9b9931569b7276185cd602,
     0x008087b2590de99c8efab55550c5573f,
     0x6de0e799ae14609edf037ec6d604c343,
     0xd9ac86744e47fdda2aa8e2ab9f36f0f3,
     0x4c570a30cfef013f636b82e1a16c5643,
     0x3aa7a37e6d1554f1d54f1bf879a62b05,
     0x0050dba8eb0bda9cfe03aa90d66fd658,
     0xcdb01a2b5b730a8547ea0a9a601ed89b,
     0xad66b0c4cf743c8307e4bb72f32b9b16,
     0xc03c652e970266c3301dff38fbbcc9da,
     0xd4c0c51eeba707c68cafa6e1cdaa482e,
     0x00c8e93fa00a69fd668dd50cabb1b235,
     0xa75078a4aea009e681bdd96a064bfc4c,
     0xc7337840be2b37bfb26901cc53e67229,
     0x60360cd3f18fb3cf9bac4d0d5cecb17e,
     0x7a60ccf86a1adeac8ae45aad0a99302e,
     0x00d06fd658cdb01a2b5b730a8547ea0a,
     0x9a601ed89bad66b0c4cf743c8307e4bb,
     0x72f32b9b16c03c652e970266c3301dff,
     0x38fbbcc9dad4c0c51eeba707c68cafa6,
     0xe1cdaa48aed5aa9009e3be16786a1b35,
     0x00a8b1b235a75078a4aea009e681bdd9,
     0x6a064bfc4cc7337840be2b37bfb26901,
     0xcc53e6722960360cd3f18fb3cf9bac4d,
     0x0d5cecb17e7a60ccf86a1adeac8ae45a,
     0xad0a9930ee6b81a7b651d717b439fd07,
     0x008047ea0a9a601ed89bad66b0c4cf74,
     0x3c8307e4bb72f32b9b16c03c652e9702,
     0x66c3301dff38fbbcc9dad4c0c51eeba7,
     0x07c68cafa6e1cdaa48aed5aa9009e3be,
     0x16786a1b757d419bd37f4015d2facd1a,
     0x00e081bdd96a064bfc4cc7337840be2b,
     0x37bfb26901cc53e6722960360cd3f18f,
     0xb3cf9bac4d0d5cecb17e7a60ccf86a1a,
     0xdeac8ae45aad0a9930ee6b81a7b651d7,
     0x17b439fd075421addfacb19a61355636,
     0x00c869d63497604be41bccc398eca7df,
     0x9c8951439561f0b0b78ee7c765fe1998,
     0x19c97d2d68f5abec829ae1015a80d9f3,
     0xc69a862aa8ed1fac56280f7e56b9299b,
     0xcea603538571eb0be91aa78ead33281b,
     0x00d0afb20b6a8607680166cf1b6b1aaa,
     0xa0b67fb05aa13cf859e5a66c3a9b0e4c,
     0x15c6ad2fa46b9c3ab6cea06ca5e06cb1,
     0xbf6a35e0e5346b9a4bb025f20de6614c,
     0xf6d36fcec4a8a1ca3078d85bc7f3e332,
     0x00a871ead83a83b29582b3c5feaad580,
     0x97d3ac692ec196c837988731d94fbf39,
     0x13a3862ac3e0616f1dcf8fcbfc333033,
     0x92fb5ad0ea57d90535c303b400b3e78d,
     0x350d5550db3f58ad501efcac7253361d,
     0x008087bd753c3f2ef3cfc0cc48ee6b41,
     0xab5f6517d40c0fd002cc9e37d6345441,
     0x6dff60b54279f0b3ca4dd974361d982a,
     0x8c5b5f48d738756c9d41d94ac1d9627f,
     0xd56ac0cb69d63497604be41bccc3982c,
     0x00e0c1cf2a3765d3d97460aa306e7d21,
     0x5de3d4b17506652b05678bfd55ab012f,
     0xa759d35c822d916f300f63b29f7e7326,
     0x460d5586c1c3de3a9e1f97f967606624,
     0xf7b5a0d5afb20b6a8607680166cf1b2b,
     0x00b044bec13c8cc97efacd9918355419,
     0x060f7beb787e5ce69f819991dcd78256,
     0xbfca2ea8191ea005983d6fac69a882da,
     0xfec16a85f2e067959bb2e96c3a305518,
     0xb7be90ae71ead83a83b29582b3c5fe2a,
     0x00d06fea743ce5c9a60178fa4d9d8ea7,
     0x3cd934004fbfa9d3f194279b06e0e937,
     0x753a9ef264d3003cfda64ec7539e6c1a,
     0x80a7dfd4e978ca934d03f0f49b3a1d4f,
     0x79b269009e7e53a7e3294f360dc0d32f,
     0x00a8b1bd2b378cb15a0db435b677e586,
     0x3156ab81b6c6f6aedc30c66a35d0d6d8,
     0xde951bc658ad06da1adbbb72c318abd5,
     0x405b637b576e1863b51a686b6cefca0d,
     0x63ac56036d8ded5db9618cd56aa0ad31,
     0x0080c7cfc0fcbcafbe16d2f0f819989f,
     0xf7d5d7421a1e3f03f3f3befa5a48c3e3,
     0x67607ede575f0b6978fc0ccccffbea6b,
     0x210d8f9f81f9795f7d2da4e1f133303f,
     0xefabaf85343c7e06e6e77df5b5908607,
     0x00e041be6156ece4d697613cc837cc8a,
     0x9ddcfa328c07f98659b1935b5f86f120,
     0xdf302b7672ebcb301ee41b66c54e6e7d,
     0x19c6837cc3acd8c9ad2fc378906f9815,
     0x3bb9f565180ff20db36227b7be0ce301,
     0x00b0841638cb0ce34255a196d0026799,
     0x615ca82ad4125ae02c338c0b55855a42,
     0x0b9c658671a1aa504b6881b3cc302e54,
     0x156a092d709619c685aa422da105ce32,
     0xc3b85055a825b4c059661817aa0ab504,
     0x007840290cac8a51b33ac10f28858155,
     0x316a5627f801a530b02a46cdea043fa0,
     0x140656c5a8599de00794c2c0aa1835ab,
     0x13fc8052185815a36675821f500a03ab,
     0x62d4ac4ef0034a6160558c9ad5097e00,
     0x00a8f1cf60c68c516b6e06a64b0368e1,
     0x916fceaae21f059ddf64ad06691e68c1,
     0xc099c81a5ba73cd6d732cc12a51898da,
     0x94ade3617cb5be0a7d00ffde9cd3d455,
     0xee79c9856a82cb66d32ae8d7de602e36,
     0x008047be39ab8a7f14747e93b51aa479,
     0xa0050367226b6c9df2585fcb304b9462,
     0x606a53b68e87f1d5fa2af401fc7b734e,
     0x5357b9e72517aa092e9b4daba05f7b83,
     0xb9d8c665b519b8fc69e0d5f867306306,
     0x00e081160c9c89acb175ca637d2dc32c,
     0x518a81a94dd93a1ec657ebabd007f0ef,
     0xcd394d5de59e975ca826b86c36ad827e,
     0xed0de6621b97d566e0f2a78157e39fc1,
     0x8c19a3d6dc0c4c9706d0c223df9c5505,
     0x00b0442906a63665eb78185fadaf421f,
     0xc0bf37e73475957b5e72a19ae0b2d9b4,
     0x0afab537988b6d5c569b81cb9f065e8d,
     0x7f0633668c5a7333305d1a400b8f7c73,
     0x5615ff28e8fc266b3548f3400b06ce04,
     0x007800ffde9cd3d455ee79c9856a82cb]"

definition mx162by638_part5 :: "block list" where
  "mx162by638_part5 =
    [0x66d32ae8d7de602eb671596d062e7f1a,
     0x7835fe19cc98316acdcdc07469002d3c,
     0xf2cd5955fca3a0f39bacd520cd032d18,
     0x38135963eb94c7fa5a8659a21403531b,
     0x00289b4daba05f7b83b9d8c665b519b8,
     0xfc69e0d5f8673063c6a8353703d3a501,
     0xb4f0c8376755f18f82ce6fb25683340f,
     0xb460e04c648dad531eeb6b196689520c,
     0x4c6dcad6f130be5a5f853e807f6fce29,
     0x008087160696537bc34c1559d3f1f38c,
     0xabb9f98db5be09e6721a206d09fe55a1,
     0xc6f936b0da52076666fc83adc3482eab,
     0x6730d9d72ab46c9f062d0f4af166fdfe,
     0x8cb3995076e58a3dea824ef9ab503503,
     0x00e04129deacdf9f713613caae5cb147,
     0x5dd0297f15aa66309dd518f6009b020f,
     0x1e5a18584eed0d3355644dc7cf33aee6,
     0xe637d6fa2698cb6980b425f857851ae7,
     0xdbc06a4b1d9899f10fb60e23b9ac9e01,
     0x00b004ffaa50e37c1b586da9033333fe,
     0xc1d6612497d53398ec6b155ab64f8396,
     0x07a578b37e7fc6d94c28bb72c51e7541,
     0xa7fc55a89ac1745663d8036c0a3c7868,
     0x616039b537cc5491351d3fcfb89a9b1f,
     0x0078804d81070f2d0c2ca7f686992ab2,
     0xa6e3e7195773f31b6b7d13cce53440da,
     0x12fcab428df36d60b5a50eccccf8075b,
     0x87915c56cf60b2af5568d93e0d5a1e94,
     0xe2cdfafd196733a1ecca157bd4059d32,
     0x0028dba741cb8352bc59bf3fe36c2694,
     0x5db9628fbaa053fe2a54cd603aab31ec,
     0x0136051e3cb430b09cda1b66aac89a8e,
     0x9f675ccdcd6facf54d3097d300694bf0,
     0xaf0a35ceb781d5963a3033e31f6c1d06,
     0x00e0721a206d09fe55a1c6f936b0da52,
     0x076666fc83adc3482eab6730d9d72ab4,
     0x6c9f062d0f4af166fdfe8cb3995076e5,
     0x8a3dea824ef9ab503583e9acc6b007d8,
     0x1478f0d0c2c0726a6f98a9226b3a7e1e,
     0x00e001ff80c703fe018f07fc031e0ff8,
     0x073c1ef00f783ce01ff078c03fe0f180,
     0x7fc0e301ff80c703fe018f07fc031e0f,
     0xf8073c1ef00f783ce01ff078c03fe0f1,
     0x807fc0e301ff80c703fe018f07fc031e,
     0x00b0844d416b099b82d6123605ad256c,
     0x0a5a4bd814b496b029682d6153d05ac2,
     0xa6a0b5844d416b099b82d6123605ad25,
     0x6c0a5a4bd814b496b029682d6153d05a,
     0xc2a6a0b5844d416b099b82d61236052d,
     0x0078c0a721fd804f43fa019f86f4033e,
     0x0de9077c1ad20ff834a41ff069483fe0,
     0xd3907ec0a721fd804f43fa019f86f403,
     0x3e0de9077c1ad20ff834a41ff069483f,
     0xe0d3907ec0a721fd804f43fa019f8634,
     0x00285b1a1856b63430ac6c696058d9d2,
     0xc0b0b2a58161654b03c3ca960686952d,
     0x0d0c2b5b1a1856b63430ac6c696058d9,
     0xd2c0b0b2a58161654b03c3ca96068695,
     0x2d0d0c2b5b1a1856b63430ac6c696018,
     0x00e0b2d514ca65ab2994cb56532897ad,
     0xa6502e5b4da15cb69a42b96c358572d9,
     0x6a0ae5b2d514ca65ab2994cb56532897,
     0xada6502e5b4da15cb69a42b96c358572,
     0xd96a0ae5b2d514ca65ab2994cb565328,
     0x0030dd6b136cbad726d874af4db0e95e,
     0x9b60d3bd36c1a67b6d824df7da049bee,
     0xb50936dd6b136cbad726d874af4db0e9,
     0x5e9b60d3bd36c1a67b6d824df7da049b,
     0xeeb50936dd6b136cbad726d874af4d30,
     0x00b0c4a719c6e5d79a61acac9eb271d9,
     0x5aecac813913f636b07eb550051ed814,
     0xd265b35a82270bd5f925b7a0cffb47e5,
     0x54913acee634df6f8607ff40fb803428,
     0xd474f59dc15735378c51eb9819ca8619,
     0x0078401a146abafacee0ab9a1bc6a875,
     0xcc0c65c34c6d3f1b588d4b013c4b7c9a,
     0x615c7ead19c6caea291b97adc5ce1a98,
     0x33616f03eb570b55e0814d215d36ab25,
     0x78b2509d5f720bfabc7f544e15a9e32c,
     0x00289bd5123c59a8ce2fb9057dde3f2a,
     0xa78ad47136a7f97e333cf807da07a441,
     0xa1a6abef0cbeaab9618c5ac7cc5036cc,
     0xd4f6b381d5b814c0b3c4a719c6e5d79a,
     0x61acac9eb271d95aecac813913f63630,
     0x00e0f26bcd3056564fd9b86c2d76d6c0,
     0x9c097b1b58bf5aa8020f6c0ae9b2592d,
     0xc19385eafc925bd0e7fda372aa481d67,
     0x739aef37c3837fa07d401a146abaface,
     0xe0ab9a1bc6a875cc0c65c34c6d3f1b18,
     0x00305d7d67f055cd0d63d43a6686b261,
     0xa6b69f0dacc6a5009e253ecd302ebfd6,
     0x0c6365f5948dcbd662670dcc99b0b781,
     0xf5ab852af0c0a6902e9bd5123c59a8ce,
     0x2fb9057dde3f2aa78ad47136a7f97e33,
     0x00982c54e797dc823eef1f955345ea38,
     0x9bd37cbf191efc03ed03d2a050d3d577,
     0x065fd5dc3046ad6366281b666afbd9c0,
     0x6a5c0ae059e2d30ce3f26bcd3056564f,
     0xd9b86c2d76d6c09c097b1b58bf5aa802,
     0x007880d5ccf0d582165bd99cd56f2940,
     0x5bb6d7ce20b96c6546ea0c5c63fe419a,
     0xcbf59d9f7175ac0a7b0f0c1e366598e9,
     0xa03ae551572e133f7b330f3eadd0c9b2,
     0x7a18ff00b3daf25d054ba421c163d51c,
     0x0028db6b67905cb632237506ae31ff20,
     0xcde5facecfb83a5685bd07060f9b32cc,
     0x74509df2a82b97899fbd99079f56e864,
     0x593d8c7f80596df9ae8225d290e0b16a,
     0xee795983594eb500bc0758cd0c5f2d28,
     0x00e0727de7675c1dabc2de0383874d19,
     0x663aa84e79d495cbc4cfdecc834f2b74,
     0xb2ac1ec63fc0acb67c57c1126948f058,
     0x35f7bcacc12ca75a00de03ac6686af16,
     0xb4d8cae6ac7e4b01dab2bd7606c9652b,
     0x00301d54a73ceaca65e2676fe6c1a715,
     0x3a59560fe31f60565bbeab6089342478,
     0xac9a7b5ed66096532d00ef015633c357,
     0x0b5a6c657356bfa5006dd95e3b83e4b2,
     0x9519a933708df907692ed7777ec6d531,
     0x00982cab87f10f30ab2ddf55b0441a12,
     0x3c56cd3d2f6b30cba91680f700ab99e1,
     0xab052db6b239abdf5280b66caf9d4172,
     0xd9ca8cd419b8c6fc833497eb3b3fe3ea,
     0x5815f61e183c6cca30d34175caa3ae1c,
     0x0018abe69e973598e5540bc07b80d5cc,
     0xf0d582165bd99cd56f29405bb6d7ce20,
     0xb96c6546ea0c5c63fe419acbf59d9f71,
     0x75ac0a7b0f0c1e366598e9a03ae55157,
     0x2e133f7b330f3eadd0c9b27a18ff0033,
     0x00285b7da7fc0f98e9977f0c9bace68a,
     0x9dba81f1200d6648ae8e33916fe095ad,
     0xbe53fe07ccf4cb3f864d5673c54eddc0,
     0x789006332457c799c837f0ca56df29ff,
     0x0366fae51fc326abb962a76e603c4803,
     0x00e03254879135ced6d8a60a1d6b4199,
     0x61ef375bc26a33306ee5d4a605d07219,
     0xaac3c81a676b6c53858eb5a0ccb0f79b,
     0x2d61b51918b7726ad30268b90cd56164,
     0x8db335b6a942c75a5066d8fbcd96b01a,
     0x00301dab9fa76c03c3e3d309fe2a5b55,
     0xf1b32a3ce0b5f31b3598735a0a489b8e,
     0xd5cf53b681e1f1e9047f95adaaf85915,
     0x1ef0daf98d1acc392d05a44dc7eae729,
     0xdbc0f0f87482bfca5655fcac0a0f782d,
     0x0098ace68a9dba81f1200d6648ae8e33,
     0x916fe095adbe53fe07ccf4cb3f864d56,
     0x73c54eddc0789006332457c799c837f0,
     0xca56df29ff0366fae51fc326abb962a7]"

definition mx162by638_part6 :: "block list" where
  "mx162by638_part6 =
    [0x6e603c48831992abe34ce41b7865ab2f,
     0x00186b419961ef375bc26a33306ee5d4,
     0xa605d07219aac3c81a676b6c53858eb5,
     0xa0ccb0f79b2d61b51918b7726ad30268,
     0xb90cd561648db335b6a942c75a5066d8,
     0xfbcd96b0da0c8c5b39b56901b45c862a,
     0x00f82a5b55f1b32a3ce0b5f31b359873,
     0x5a0a489b8ed5cf53b681e1f1e9047f95,
     0xadaaf859151ef0daf98d1acc392d05a4,
     0x4dc7eae729dbc0f0f87482bfca5655fc,
     0xac0a0f78edfc460de69c9602d2a66335,
     0x00e032ab8b6def2a940daacf4bdd9b1f,
     0x50df61287b609678ed94b366601e586d,
     0x7effe02c3cd2308351c3acc69f368371,
     0xc1ac5f9b2638b995cb29ff14fa551dab,
     0xad140c1b2b5b33a105484fb6a0aac837,
     0x00309de698f133e07199d5c5b67715ca,
     0x06d5e7a5eecd0fa8ef30943d304bbc76,
     0xca5933300fac36bf7f70161e6998c1a8,
     0x6156e34f9bc1b860d6af4d139cdccae5,
     0x947f0afdaa8ed5560a868d95ad99d002,
     0x00986c4155916fd09a4e73ccf819f0b8,
     0xccea62dbbb0a6583eaf352f7e607d477,
     0x18ca1e98255e3be5ac199807569bdf3f,
     0x380b8f34cc60d430abf1a7cd605c30eb,
     0xd7a6094e6ee572ca3f857e55c76a2b05,
     0x00182b5b33a105484fb6a0aac837684d,
     0xa73966fc0c785c6675b1ed5d85b241f5,
     0x79a97bf303ea3b0c650fcc12af9d72d6,
     0x0ccc03abcdef1f9c85471a66306a98d5,
     0xf8d366302e98f56bd30427b77239e51f,
     0x00f8aa8ed5560a868d95ad99d002a427,
     0x5b5055e41bb4a6d31c337e063c2eb3ba,
     0xd8f6ae42d9a0fabcd4bdf901f51d86b2,
     0x076689d74e396b06e681d5e6f70fcec2,
     0x230d331835cc6afc69331817ccfab529,
     0x00486ee572ca3f857e55c76a2b05c3c6,
     0xcad64c6801d2932da82af20d5ad3698e,
     0x193f031e97595d6c7b57a16c507d5eea,
     0xdefc80fa0e43d903b3c46ba79c3503f3,
     0xc06af3fb0767e19186198c1a6635fe34,
     0x00305d4133510a852617cc354ec3fcb2,
     0x36b00740b5d83f03ed64d9aa36fe25d8,
     0xb8308387d5a6acec37978dd5ccc837a4,
     0xc7aae39cdad40ca3e62c0f5e3b8cd455,
     0x81cb9a53851618f6d5cae9f7d333f807,
     0x00982c5bd5c6bf041b1766f0b0da9495,
     0xfde6b2b19a19f986f458759c539b9a61,
     0xd49ce5c16b8791ba2a705973aad002c3,
     0xbe5a39fd7e7a06ff30b025eafb3c7b03,
     0xcf7405cd4429149a5c30d7380df3cb1a,
     0x0018ab8e736a53338c9ab33c78ed3052,
     0x57052e6b4e155a60d8572ba7df4fcfe0,
     0x1f06b6447d9f676fe099aea099288542,
     0x930be61aa7617e591bd803a05aec9f81,
     0x76b26c551bff126c5c98c1c36a535636,
     0x00f86ae5f4fbe919fcc3c096a8eff3ec,
     0x0d3cd3153413a5506872c15ce334cc2f,
     0x6b037b00548bfd33d04e96ad6ae35f82,
     0x8d0b3378586dcaca7e73d958cd8c7c43,
     0x7aac3acea94dcd306acef2e0b5c3481d,
     0x00482e986b9c86f9656d600f806ab17f,
     0x06dac9b2556dfc4bb07161060fab4d59,
     0xd96f2e1bab99916f488f55c739b5a919,
     0x46cd591ebc7618a9ab029735a70a2d30,
     0xecab95d3efa767f00f035ba2becfb337,
     0x00302ecce061b5292bfbcd65633533f2,
     0x0de9b1ea38a73635c3a839cb83d70e23,
     0x7555e0b2e654a105867db572fafdf40c,
     0xfe61604bd4f779f6069ee90a9a895228,
     0x34b960ae711ae697b5813d00aac5fe19]"

definition mx162by638 :: "u8 list" where
  "mx162by638 = concat (map line_bytes (mx162by638_part1 @ mx162by638_part2 @ mx162by638_part3 @ mx162by638_part4 @ mx162by638_part5 @ mx162by638_part6))"

end
