(* ===== verification/Mx_Codes_Long.thy ===== *)
theory Mx_Codes_Long
  imports Prelude
begin

text \<open>
  The generator matrices for 168 to 210 input bits (\<^verbatim>\<open>libPSI/Tools/mx_*_by_*.h\<close>), one block
  numeral for a line of sixteen bytes of the source, with the digits in the order of the line.
\<close>

definition mx168by649_part1 :: "block list" where
  "mx168by649_part1 =
    [0x2a030000000000007e02000000000000,
     0xc0031ef080073ce0010f78c0031ef080,
     0x073ce0010f78c0031ef080073ce0010f,
     0x78c0031ef080073ce0010f78c0031ef0,
     0x80073ce0010f78c0031ef080073ce001,
     0x0f78c0031ef080073ce0010f78c0031e,
     0xa0052d68410b5ad08216b4a0052d6841,
     0x0b5ad08216b4a0052d68410b5ad08216,
     0xb4a0052d68410b5ad08216b4a0052d68,
     0x410b5ad08216b4a0052d68410b5ad082,
     0x16b4a0052d68410b5ad08216b4a0052d,
     0x908634a4210d6948431ad2908634a421,
     0x0d6948431ad2908634a4210d6948431a,
     0xd2908634a4210d6948431ad2908634a4,
     0x210d6948431ad2908634a4210d694843,
     0x1ad2908634a4210d6948431ad2908634,
     0x0c6318c318c63086318c610c6318c318,
     0xc63086318c610c6318c318c63086318c,
     0x610c6318c318c63086318c610c6318c3,
     0x18c63086318c610c6318c318c6308631,
     0x8c610c6318c318c63086318c610c6318,
     0x0a55a84215aa50852a54a10a55a84215,
     0xaa50852a54a10a55a84215aa50852a54,
     0xa10a55a84215aa50852a54a10a55a842,
     0x15aa50852a54a10a55a84215aa50852a,
     0x54a10a55a84215aa50852a54a10a5528,
     0x094e7082139ce0042738c1094e708213,
     0x9ce0042738c1094e7082139ce0042738,
     0xc1094e7082139ce0042738c1094e7082,
     0x139ce0042738c1094e7082139ce00427,
     0x38c1094e7082139ce0042738c1094e30,
     0x00002da419a6d0049b6106f39bf2309e,
     0x576c66a822136acba97e6b0c0f1e58e2,
     0x0165e3b2e9263bd6af26d7b8a3fe47d6,
     0x949d3a7bff2cdf5a2805ff6cfae93458,
     0xedb5f5852aab355750b6eab872608619,
     0x008034c3149a6033cc607e531ec6f38a,
     0xcd0c5564426d39d56f8de1c1034b3ca0,
     0x6c5c36dd64c7fad5e41a77d4ffc89ab2,
     0x5367ef9fe55b0ba5e09f4d3f9d06abbd,
     0xb6be5065b5e60aca561d570ecc30e32c,
     0x00609842136c8619cc6fcac3785eb199,
     0xa18a4ca82da7faad313c78608907948d,
     0xcba69bec58bf9a5ce38efa1f595376ea,
     0xecfdb37c6ba114fcb3e9a7d360b5d7d6,
     0x17aaacd65c41d9aae3ca8119669c3530,
     0x00506882cd3083f94d7918cf2b363354,
     0x9109b5e554bf3586070f2cf180b271d9,
     0x74931deb57936bdc51ff236bca4e9dbd,
     0x7f966f2d94827f36fd741aacf6dafa42,
     0x95d59a2b285b755c3930c38cb3061e18,
     0x0048b0196630bf290fe379c566862a32,
     0xa1b69ceab7c6f0e081251e50362e9b6e,
     0xb263fd6a728d3bea7f644dd9a9b3f7cf,
     0xf2ad8552f0cfa69f4e83d55e5b5fa8b2,
     0x5a730565ab8e2b07669871d6c0037b33,
     0x0030c30ce637e5613cafd8cc504526d4,
     0x9653fdd6181e3cb0c403cac665d34d76,
     0xac5f4dae7147fd8fac293b75f6fe59be,
     0xb5500afed9f4d369b0da6beb0b55566b,
     0xaea06cd571e5c00c33ce1a78606fae02,
     0x0080b442cd30bf61145b156ad32f3c2c,
     0x5136d38d35b9a3ce5aea7ea605fe7dda,
     0x6af5657541750c66ce0eac0aa0655882,
     0x6730e5e731231339ad310f1ec0e5c97e,
     0xd5b8ff50b6bdf35d0a9ba6e1b550d51c,
     0x006058826730e5e731231339ad310f1e,
     0xc0e5c97ed5b8ff50b6bdf35d0a9ba6e1,
     0xb550d51c5b2b073303bf19789056a819,
     0xe6378c62ab426dfa858725ca66bab126,
     0x77d4594bddcfb4c0bf4f5badbeac2e28,
     0x0050a819e6378c62ab426dfa858725ca,
     0x66bab12677d4594bddcfb4c0bf4f5bad,
     0xbeac2ea88ec1ccd9815501b40c4bf00c,
     0xa6fc3c666422a735e6c103b83cd9af1a,
     0xf71fcab677be4b61d334bc16aa9a632b,
     0x0048f00ca6fc3c666422a735e6c103b8,
     0x3cd9af1af71fcab677be4b61d334bc16,
     0xaa9a636be56066e037030fd20a35c3fc,
     0x86516c55a84dbff0b044d94c37d6e48e,
     0x3a6ba9fb9916f8f769abd597d505d531,
     0x0030c3fc86516c55a84dbff0b044d94c,
     0x37d6e48e3a6ba9fb9916f8f769abd597,
     0xd505d53198393bb02a809661099ec194,
     0x9fc78c4ce4b4c63c78009727fb55e3fe,
     0x43d9f6ce77296c9a86d74255736cad1c,
     0x0098c1949fc78c4ce4b4c63c78009727,
     0xfb55e3fe43d9f6ce77296c9a86d74255,
     0x736cad1ccc0cfc66e0415aa16698df30,
     0x8aad0ab5e9171e96289be9c69adc5167,
     0x2d753fd302ff3e6db5fab2baa03a0633,
     0x00609819a65cec4ce89707659b6c72ff,
     0x91ba7cf32f0df5d59c8e613630e031cc,
     0x0c532e7626f4cb83b24d36b9ff485dbe,
     0xf99786fa6a4ec7301b18f01866862917,
     0x3b13fae541d9269bdc7fa42edffc4b03,
     0x0050e80c86c10cb5d5d8125c1eab71b3,
     0x666f2dd8d46a502d68e538fb66d02a74,
     0x06c36086da6a6c092e8fd5b859b3b716,
     0x6c6a35a816b4729c7d3368153a836130,
     0x436d35b60497c76adcacd95b0b36b51a,
     0x0048f0fc9ea78a9cc2e301a6fbeaa895,
     0xfdb3527cfab5ac662b980d5c05482778,
     0x7ecf53454ee1f100d37d75d4cafe5929,
     0x3efd5a56b315cc06ae02a4133cbfe7a9,
     0x22a7f07880e9be3a6a65ffac149f7e2d,
     0x0030c3948b9d09fdf2a06c934dee3f52,
     0x976ffea5a1be9ad331cc06063c869961,
     0xcac5ce847e7950b6c926f71fa9cb37ff,
     0xd2505fcde9186603031ec3cc30e56267,
     0x42bf3c28db6493fb8fd4e59b7f69a82f,
     0x0098c13098a1b61a5b82cb63356ed6ec,
     0xad059b5a0daa05ad1c67df0c5a85ce60,
     0x18cc505b8d2dc1e5b11a376bf6d6824d,
     0xad06d582568eb36f06ad4267300c66a8,
     0xadc696e0f2588d9b357b6bc1a656832a,
     0x0098dff3549153783cc0745f1db5b27f,
     0x568a4fbf96d56c05b381ab00e904cfef,
     0x79aac8293c1e60baaf8e5ad93f2bc5a7,
     0x5fcb6ab682d9c055807482e7f73c55e4,
     0x141e0f30dd5747adec9f95e2d3af6535,
     0x0050e8fc8aad3678946daca34e9d163e,
     0x5ddf82827960a04df0949991531e70f9,
     0xabffb07729d20055b6c2eccd9036c330,
     0x54a15f4b982eb959fb19ffacc66a1d73,
     0xb60a0c9bc1f33251e3074cd6b8cace37,
     0x0048f0949991531e70f9abffb07729d2,
     0x0055b6c2eccd9036c33054a15f4b982e,
     0xb959fb19ffacc66a1d73b60a0c9bc1f3,
     0x3251e3074cd6b8caceb74d5fabb9ca19,
     0x18780a9d5fb1d5068fb28d75d4a9d302,
     0x0030c33054a15f4b982eb959fb19ffac,
     0xc66a1d73b60a0c9bc1f33251e3074cd6,
     0xb8caceb74d5fabb9ca1918780a9d5fb1,
     0xd5068fb28d75d4a9d3c2a7eb5b50300f,
     0x0cb4099e323372ca032e7ff51ff62e05,
     0x0098c1f33251e3074cd6b8caceb74d5f,
     0xabb9ca1918780a9d5fb1d5068fb28d75,
     0xd4a9d3c2a7eb5b50300f0cb4099e3233,
     0x72ca032e7ff51ff62e451aa0ca5698bd,
     0x19d26618862af46b09d325376b3fe31f,
     0x00985fb1d5068fb28d75d4a9d3c2a7eb,
     0x5b50300f0cb4099e323372ca032e7ff5,
     0x1ff62e451aa0ca5698bd19d26618862a,
     0xf46b09d325376b3fe39fd558ad63ce56,
     0x816133785e266afc80c91a57d9f9b629,
     0x0098323372ca032e7ff51ff62e451aa0,
     0xca5698bd19d26618862af46b09d32537]"

definition mx168by649_part2 :: "block list" where
  "mx168by649_part2 =
    [0x6b3fe39fd558ad63ce56816133785e26,
     0x6afc80c91a57d9f9b6e96b3557390303,
     0x4fa1f32bb6dae051b6b18e3a755af834,
     0x0048f03032010f2e2757d95a4803ab2b,
     0x373048cfa0d839b5c464476d6ffebdb6,
     0xa030ab8242a7ac8a1a97edab59cbf7a7,
     0xa1aa630383d60ccf531b0f4c67dcd495,
     0xc26a9a03f39b19363f66e8f70163fd07,
     0x0030c3f3d4c603d3193775a5b09ae6c0,
     0xfc6686cd8f19fa7dc058fff1339bd697,
     0xad9c055e82879109787039b9cad6421a,
     0x585db981417a06c5cea925263b6a7bf3,
     0xefb505855915143a6555d4b86c5fcd1a,
     0x009841b1736a89c98edadefc7b6d4161,
     0x5605854e5915352edb57b396ef4f4355,
     0xc70606ad199ea7361e98ceb8a92b85d5,
     0x3407e637336c7eccd0ef03c6fa8f9fd9,
     0xb4be6ce52cf0123c8c4cc083cbc95536,
     0x00981f33f4fb80b1fee36736ad2f5b39,
     0x0bbc040f2313f0e0727295ad8534b0ba,
     0x720383f40c8a9d534b4c76d4f6e6df6b,
     0x0b0ab32a2874caaaa871d9be9ab57c7f,
     0x1aaa3a363068cdf03cb5f1c074c64d1d,
     0x0098b22a6a5cb6af662ddf9f86aa8e0d,
     0x0c5a333c4f6d3c309d7153570aab690e,
     0xcc6f66d8fc98a1df078cf51f3fb3697d,
     0xd9ca59e02578189980079793ab6c2da4,
     0x81d5951b18a46750ec9c5a62b2a3b637,
     0x00184626e0c1e5e42a5b0b696075e506,
     0x06e919143ba79698eca8edcdbfd71614,
     0x665550e8945551e3b27d356bf9fe3454,
     0x756c60d09ae1796ae381e98c9bba5258,
     0x4d73607e33c3e6c70cfd3e60acfff819,
     0x003043b1f55bb6e4a68e7ff5d5f1c018,
     0x36e54cf060b2ffc8771a340733e099a1,
     0xd8fa2d5b7253c7bffaea78600c9b7226,
     0x7830d97fe43b0d9a8319f0cc506cfd96,
     0x2db9a9e35f7d753c30864d39133c982c,
     0x009801336acc65e3dadba650addc9b15,
     0x3a0cb55962ac59d382d50aca59d0ce80,
     0x1935e6b271ed6d53a856eecd0a1d86da,
     0x2c31d6ac69c16a05e52c6867c08c1a73,
     0xd9b8f6b629542bf766850e436d96182b,
     0x00989f2ae061ba51ffecd3ac06731512,
     0xfcbc9c3ee0abca2ec56bd96a6048cf4f,
     0x15f030dda87ff6695683b90a097e5e4e,
     0x1ff0556597e2b56c3530a4e7a70a7898,
     0x6ed43ffb34abc15c85043f2fa70ff82a,
     0x009872267830d97fe43b0d9a8319f0cc,
     0x506cfd962db9a9e35f7d753c30864d39,
     0x133c98ec3ff29d06cdc10c786628b67e,
     0xcb96dcd4f1afbe3a1e18c3a69c091e4c,
     0xf61ff94e83e660063c33145bbf654b2e,
     0x001886da2c31d6ac69c16a05e52c6867,
     0xc08c1a73d9b8f6b629542bf766850e43,
     0x6d96186bd6b460b5827216b43360468d,
     0xb96c5c7bdb14aa957bb34287a1364b8c,
     0x356b5ab05a41390bda1930a3c65c362e,
     0x00785e4e1ff0556597e2b56c3530a4e7,
     0xa70a78986ed43ffb34abc15c85043f2f,
     0xa70ff8aab24bf15ab61a18d2f353053c,
     0x4c37ea9f7d9ad560ae42829f97d3077c,
     0x55d9a5782d5b0d0ce9f9a9021ea61b35,
     0x0098812a78305665f30faa6006de0c54,
     0xc183b12a9b7f500533f066a00a1e8c55,
     0xd9fc832a9881370355f060accae61f54,
     0xc10cbc19a88207635536ffa00a66e0cd,
     0x40153c18abb2f9075530036f06aae001,
     0x00985f262cf1d5d4d994d53003edfc32,
     0x6189afa6cea6ac861968e797094b7c35,
     0x75366535cc403bbf4c58e2aba9b329ab,
     0x6106daf965c2125f4d9d4d590d33d0ce,
     0x2f1396f86aea6cca6a9881767e99b004,
     0x0098b2da1e905c7b7f5a739c85f494d5,
     0xf680e4dafbd39ae32ca4a7acb60724d7,
     0xde9fd61c67213d65b53d20b9f6feb4e6,
     0x380be929abed01c9b5f7a735c759484f,
     0x596d0f48aebd3fad39ce427aca6a7b00,
     0x0018464ecb66dc9fa5a1a00666d83072,
     0x5a36e3fe2c0d053530c38691d3b219f7,
     0x676928a88119368c9c96cdb83f4b4341,
     0x0dccb061e4b46cc6fd591a0a6a60860d,
     0x23a76533eecfd2505003336c18392d1b,
     0x00789e7eb93cea7c5b8dad0353e8f3f4,
     0xcbe551e7db6a6c1d98429fa75f2e8f3a,
     0xdf5663ebc014fa3cfd7279d4f9b61a5b,
     0x07a6d0e7e997cba3ceb7d5d83a30853e,
     0x4fbf5c1e75beadc6d68129f479fae532,
     0x0028768d4df70f2dbc56c76f4e70b16b,
     0x6cba7f68e1b53a7e73828b5d63d3fd43,
     0x0bafd5f19b135cec1a9bee1f5a78ad8e,
     0xdf9ce062d7d874ffd0c26b75fce60417,
     0xbbc6a6fb87165eabe33727b8d835361d,
     0x00989fdaca366a2dd417cca09d724eb9,
     0xfc8f52401566901e867e4d9735feb19a,
     0xb30c7b5e8d27ab6c9b6acec00a2d363c,
     0xc69aba4f1774600966060fbe6aef34b0,
     0xf5cd6650852592fb33abe9b80a33c804,
     0x0098724eb9fc8f52401566901e867e4d,
     0x9735feb19ab30c7b5e8d27ab6c9b6ace,
     0xc00a2d363cc69aba4f1774600966060f,
     0xbe6aef34b0f5cd6650852592fb33abe9,
     0xb80a33c8c4038c9befd7560e78f3531b,
     0x0018867e4d9735feb19ab30c7b5e8d27,
     0xab6c9b6acec00a2d363cc69aba4f1774,
     0x600966060fbe6aef34b0f5cd66508525,
     0x92fb33abe9b80a33c8c4038c9befd756,
     0x0e78f3535bd946ad85fa8219b453ce29,
     0x00785e8d27ab6c9b6acec00a2d363cc6,
     0x9aba4f1774600966060fbe6aef34b0f5,
     0xcd6650852592fb33abe9b80a33c8c403,
     0x8c9befd7560e78f3535bd946ad85fa82,
     0x19b453ce2997ff510aa8c20cd2c3d02f,
     0x0028363cc69aba4f1774600966060fbe,
     0x6aef34b0f5cd6650852592fb33abe9b8,
     0x0a33c8c4038c9befd7560e78f3535bd9,
     0x46ad85fa8219b453ce2997ff510aa8c2,
     0x0cd2c3d0afe9b2c63f56739661cfab31,
     0x0060060fbe6aef34b0f5cd6650852592,
     0xfb33abe9b80a33c8c4038c9befd7560e,
     0x78f3535bd946ad85fa8219b453ce2997,
     0xff510aa8c20cd2c3d0afe9b2c63f5673,
     0x9661cfabf164956d53cd1958a1c58607,
     0x0098b27e279bba34e8187853d6ef6453,
     0x97061d036fcafa9d6cead2a063e04d59,
     0xbf934d5d1a740cbc29eb77b2a94b838e,
     0x813765fd4e367569d031f0a6acdfc9a6,
     0x2e0d3a06de94f53bd9d4a541c7c09b32,
     0x0018468dc76a6fab550eb4c3a8f158ed,
     0x6db5ca817618351eabbdad5639d00ea3,
     0xc663b5b7d52a07da61d478acf6b65ae5,
     0x403b8c1a8fd5de56ab1c688751e3b1da,
     0xdb6a9503ed306a3c567b5bad72a01d06,
     0x00781e3cbefab3d78219d2cf83c7577f,
     0xf65a3043fa79f0f8eacf5e0b66483f0f,
     0x1e5ffdd96bc10ce9e7c1e3ab3f7b2d98,
     0x21fd3c787cf567af0533a49f078faffe,
     0xecb56086f4f3e0f1d59fbd16cc907e1e,
     0x0028360f929beffac28c61c5e64172f3,
     0x5d5f9831acd83c486ebeeb0b3386159b,
     0x07c9cd777d61c6b062f320b9f9ae2fcc,
     0x18566c1e2437dff58519c38acd83e4e6,
     0xbbbe306358b17990dc7cd717660c2b36,
     0x006086258cab05a87256a1ccb08471b5,
     0x0055ce2a94199630ae16a0ca598532c3,
     0x12c6d5025439ab506658c2b85a802a67,
     0x15ca0c4b18570b50e5ac42996109e36a,
     0x01aa9c5528332c615c2d4095b30a6506]"

definition mx168by649_part3 :: "block list" where
  "mx168by649_part3 =
    [0x0050c503465d0a561b38c1aa78c0a84b,
     0xc16a032758150f187529586de004abe2,
     0x01a32e05ab0d9c60553c60d4a560b581,
     0x13ac8a078cba14ac36708255f1805197,
     0x82d5064eb02a1e30ea52b0dac0095605,
     0x0018063c92ab05560f6c06399dacbd5f,
     0x0b3385aaa26c59fbb48e41fb3c1e18b7,
     0x149a7bf3fcf43bd69fd597b309ce0497,
     0x959d86ca41bad8961835ff0a5a8529d7,
     0xf8abf986aa81cda036d3a5ce6a606618,
     0x00781e0f8c5b0acdbd797efa1debcfea,
     0xcbd9046782cbca4e43e5205d6c4b8c9a,
     0x7f05adc2946bfcd57c43d5c066509be9,
     0x52673530338c190ff8874dd90abc61c0,
     0x23b95a60f5c06690d3c9dafbb5305328,
     0x0028b62546cdbf825661ca35fe6abea1,
     0x6a6033a8cd74a9b31a9819c68c07fcc3,
     0xa66c05de30e0915c2db07a6033c8e964,
     0xedfd5a9829541565cbdaa7750cdae7f1,
     0xc0b8a5d0dc9be7a7dfb1feacbe9c4d30,
     0x0060c603fe6153b6026f18f048ae1658,
     0x3db019e474b2f67e2dcc14aa8ab265ed,
     0xd33a06edf37860dc5268eecdf3d3ef58,
     0x7f565fce2638135c56761a2a07e9625b,
     0x62d4fc2b6815a65ce3afe61baa063603,
     0x005045d9b2f6691d83f6793c306e2934,
     0xf7e6f9e977ac3fab2f67139c092e2b3b,
     0x0d958374b12d316afe15b40a53aef157,
     0xf30d55039b416da64b9dd5c0cc30663c,
     0xe01f36652bf086018fe46a81d5039b01,
     0x00c80497959d86ca41bad8961835ff0a,
     0x5a8529d7f8abf986aa81cda036d3a5ce,
     0x6a606618331ef00f9bb21578c3804772,
     0xb5c0ea81cd20a793b5f76b61a6505594,
     0x2d6b9fd631689fc703e39642736f9e1f,
     0x00789e25fef1e9ca314c155c4edd6b39,
     0x6b869c8e35dfac7ef394e1615cfeb115,
     0xb4c57e40d6d200668566c274f6aeaf81,
     0x67a0dfaf6a41735518060f466d531d43,
     0x9a196553b6d5609660b54df667501d18,
     0x0028f603b29606302b3413a6b3777d0d,
     0x3c03fd7e550b9aabc23078306a9bea18,
     0xd2cc289bb2ad06b304ab6db23f83eac0,
     0xe657e3e496a2a0c07b9e25fef1e9ca31,
     0x4c155c4edd6b396b869c8e35dfac7e33,
     0x006046d9946d359825586d93fd195407,
     0x36bf1a27b7140505def32cf18f4f578e,
     0x61aae072ea5ecb5933e474acf966f59b,
     0xa70c0fe3f28fada02df603b29606302b,
     0x3413a6b3777d0d3c03fd7e550b9aab02,
     0x0050059753f75ace9a21a763cd37abdf,
     0x3c657818977f6c056db11f90b5348059,
     0xa199309dbdeb6be019e8f7ab5ad05c15,
     0x86c18351db54c7906646d9946d359825,
     0x586d93fd19540736bf1a27b71405051e,
     0x00c884e9ec5d5f03cf40bf5fd582e6aa,
     0x300c1e8cdaa63a863433caa66cabc12c,
     0xc16a9beccfa03ab0f9d538b9a52828f0,
     0x9e67897f7cba720c53059753f75ace9a,
     0x21a763cd37abdf3c657818977f6c052d,
     0x0050db647f06d581cdafc6c92d454181,
     0xf73c4bfce3d39563982ab89cbad772d6,
     0x0c391d6bbe59fde629c3c3b8fc632b68,
     0x8bfd80aca501cc0acd84e9ec5d5f03cf,
     0x40bf5fd582e6aa300c1e8cdaa63a8634,
     0x002876d95257df814d9907ff4803cccc,
     0xa0dfe4f24fc70ccbc464f3ad39e015bb,
     0x6ca9abefc0a6cc837fa4016666d06f72,
     0xf9a763866562b2f9d61cf08a5db6d4d5,
     0x776053e6c13fd2003333e837b9fcd331,
     0x00600697ed0dd5370fc31259b31a6767,
     0x5063e3dab4720a55db58b55050d03283,
     0xcbf686ea9b876189ac598db333a8b171,
     0x6d5a3985aa6dac5a28286899c1657b43,
     0xf5cdc3b044d6acc6d919d4d8b836ad1c,
     0x005085e97ec6ea2a3cef01ca7ead81e7,
     0x078f517f1acc09cee9574bc15648abc2,
     0x743f6375159ef70065bfd6c0f383c7a8,
     0x3f0de604e7f4aba5602ba45561ba9fb1,
     0xba0acf7b80b25f6be0f9c163d49f0633,
     0x00c8c464f3ad39e015bb6ca9abefc0a6,
     0xcc837fa4016666d06f72f9a763866562,
     0xb2f9d61cf08a5db6d4d5776053e6c13f,
     0xd2003333e837b9fcd331c33231d97c6b,
     0x0e78c52e5beaea3bb029f3e01f698019,
     0x0050db58b55050d03283cbf686ea9b87,
     0x6189ac598db333a8b1716d5a3985aa6d,
     0xac5a28286899c1657b43f5cdc3b044d6,
     0xacc6d919d4d8b836ad9c42d536562d14,
     0x14b4cce0b2bda1fae66158226b56e32c,
     0x00c8e9574bc15648abc2743f6375159e,
     0xf70065bfd6c0f383c7a83f0de604e7f4,
     0xaba5602ba45561ba9fb1ba0acf7b80b2,
     0x5f6be0f9c163d49f06738273fad552b0,
     0x15d2aa30ddcf585d85e73d40d9af3530,
     0x006086e9f25d50486762aca5d0b14273,
     0x9a5c9b82d90c351e751a383b3f1e64ed,
     0xb5031bc6035207d52a149bcb3fd31c68,
     0x5531592db095616afb2aff2a9760fd1a,
     0xf7d3309b013cfe6135034fd912caae2f,
     0x0050c564b5c05686a9edabfcab5c82f5,
     0x6bdc4fc36c06f0f887d50c3c654b28bb,
     0xbe6f7e5ed9eccd6ae031c374f92e28a4,
     0x3331d652e858a1394dae4dc16c861a8f,
     0x3a0d9c9d1f0fb2f6da810de301a9832a,
     0x00c8c4584ba16385e634b93605b3196a,
     0x3cea3470767e3cc8da6b07368c07a40e,
     0xaa552836977fa639d0aa62b25a602bc3,
     0xd4f655fe552ec1fa35eea761360378fc,
     0xc36a069eb225945ddf373faf6cf66635,
     0x0050db57f957b904ebd7b89f86d90ce0,
     0xf10fab1978ca9650767ddffcbcb2d99b,
     0xd5c06386e9f25d50486762aca5d0b142,
     0x739a5c9b82d90c351e751a383b3f1e64,
     0xedb5031bc6035207d52a149bcb3fd31c,
     0x00c869726d0a6633d478d469e0ecfc78,
     0x90b5d70e6c180f481d54ab506c2eff4c,
     0x73a055c564b5c05686a9edabfcab5c82,
     0xf56bdc4fc36c06f0f887d50c3c654b28,
     0xbbbe6f7e5ed9eccd6ae031c374f92e28,
     0x00d0af713f0db319c0e31f5633f0942d,
     0xa1ecfabef97965b337ab81c70cd3e5bb,
     0xa090cec4584ba16385e634b93605b319,
     0x6a3cea3470767e3cc8da6b07368c07a4,
     0x0eaa552836977fa639d0aa62b25a602b,
     0x0050c558f907e619f040d950059e2ac6,
     0xca3f30cf8007ca862af0543156fe8179,
     0x063c50365481a78ab1f20fcc33e081b2,
     0xa10a3c558c957f609e010f940d55e0a9,
     0x62acfc03f30c78a06ca8024f1563e51f,
     0x00c8c4576d0ab3f9592275ac066d26be,
     0x6a5398cdcf12a963356833f1559bc26c,
     0x7e96481dab419b89afda1466f3b344ea,
     0x580dda4c7cd5a6309b9f2552c76ad066,
     0xe2ab3685d9fc2c913a568336135fb529,
     0x00505b723fcdd9293fc0de9a83b4da92,
     0xfb69ce4ef901f6d61ca4d596dc4f7376,
     0xca0fb0b7e620adb6e47e9ab3537e80bd,
     0x350769b525f7d39c9df203ecad3948ab,
     0x2db99fe6ec941f606fcd415a6dc9fd34,
     0x00c8a971d360e06194ed670565584e8d,
     0x9b06030fa36c3f2b28c3726adc341878,
     0x1865fb5941199653e3a6c1c0c328dbcf,
     0x0acab09c1a370d061e46d97e565086e5,
     0xd4b86930f030caf6b382322ca7c64d03,
     0x00d0efa8ad36b0e77139df6c55a87e47,
     0x6db5813d8fcbf966ab42f53b6aab0dec,
     0x795cce375b15aadf515b6d60cfe372be]"

definition mx168by649_part4 :: "block list" where
  "mx168by649_part4 =
    [0xd9aa50fd8eda6a037b1e97f3cd5685ea,
     0x77d4561bd8f3b89c6fb62a54bfa3b61a,
     0x00a8f13f5efbe6629b4e0b3a4e708dff,
     0xf1da3717db745ad071826bfc8fd7beb9,
     0xd8a6d3828e135ce37fbcf6cdc5369d16,
     0x749ce01affe3b56f2eb6e9b4a0e304d7,
     0xf81faf7d73b14da7051d27b8c6ff782d,
     0x00c84472d330b0624f967f309b72d9f2,
     0xad6333f020759a63987eff515fe06522,
     0xb9691858b127cb3f984db96cf9d6b119,
     0x78903acd314cbfffa82ff03291dc340c,
     0xacd893e51fcca65cb67cebd80c3c481d,
     0x00509b71adf666668cd5a69c1d0697b5,
     0x50b91958c2de0555688db30655d0aacd,
     0xb8567b3333c66a53ce0e83cb5aa8dc0c,
     0x2c61ef822ab4c659832a68d5665cabbd,
     0x991963b5296787c1652d546e0696b037,
     0x00c8e9a85f5b05557cf5d3067e9ee94a,
     0x01e6f93de0676c4d303c94cd6a48e774,
     0xd4afad822abefa69033fcf74a500f3fc,
     0x1ef033b626181eca6635a4733aead756,
     0x41155ffdb4819f67ba5280797e0ff819,
     0x00d0ef3fea0bbc4c24370d032bf664f9,
     0x07b329972ddf3a36030f52a73986e9f7,
     0x1ff5055e26929b8681157bb2fc83d994,
     0xcb966f1d9b8107a9d31cc3f4fb8ffa02,
     0x2f13c94dc3c08a3d59fec16cca65cb37,
     0x00a871d6a00a5ab519d76a6f66c6586d,
     0xcad96170590b959b8125ec5d5085d638,
     0x6b5005adda8c6bb5373363ac36e5ec30,
     0xb8ac85cacdc012f62ea8426b9c35a882,
     0x566dc6b5da9b9931569b7276185cd602,
     0x008087b2590de99c8efab55550c5573f,
     0x6de0e799ae14609edf037ec6d604c343,
     0xd9ac86744e47fdda2aa8e2ab9f36f0f3,
     0x4c570a30cfef013f636b82e1a16c5643,
     0x3aa7a37e6d1554f1d54f1bf879a62b05,
     0x0050dba8eb0bda9cfe03aa90d66fd658,
     0xcdb01a2b5b730a8547ea0a9a601ed89b,
     0xad66b0c4cf743c8307e4bb72f32b9b16,
     0xc03c652e970266c3301dff38fbbcc9da,
     0xd4c0c51eeba707c68cafa6e1cdaa482e,
     0x00c8e93fa00a69fd668dd50cabb1b235,
     0xa75078a4aea009e681bdd96a064bfc4c,
     0xc7337840be2b37bfb26901cc53e67229,
     0x60360cd3f18fb3cf9bac4d0d5cecb17e,
     0x7a60ccf86a1adeac8ae45aad0a99302e,
     0x00d06fd658cdb01a2b5b730a8547ea0a,
     0x9a601ed89bad66b0c4cf743c8307e4bb,
     0x72f32b9b16c03c652e970266c3301dff,
     0x38fbbcc9dad4c0c51eeba707c68cafa6,
     0xe1cdaa48aed5aa9009e3be16786a1b35,
     0x00a8b1b235a75078a4aea009e681bdd9,
     0x6a064bfc4cc7337840be2b37bfb26901,
     0xcc53e6722960360cd3f18fb3cf9bac4d,
     0x0d5cecb17e7a60ccf86a1adeac8ae45a,
     0xad0a9930ee6b81a7b651d717b439fd07,
     0x008047ea0a9a601ed89bad66b0c4cf74,
     0x3c8307e4bb72f32b9b16c03c652e9702,
     0x66c3301dff38fbbcc9dad4c0c51eeba7,
     0x07c68cafa6e1cdaa48aed5aa9009e3be,
     0x16786a1b757d419bd37f4015d2facd1a,
     0x00e081bdd96a064bfc4cc7337840be2b,
     0x37bfb26901cc53e6722960360cd3f18f,
     0xb3cf9bac4d0d5cecb17e7a60ccf86a1a,
     0xdeac8ae45aad0a9930ee6b81a7b651d7,
     0x17b439fd075421addfacb19a61355636,
     0x00c869d63497604be41bccc398eca7df,
     0x9c8951439561f0b0b78ee7c765fe1998,
     0x19c97d2d68f5abec829ae1015a80d9f3,
     0xc69a862aa8ed1fac56280f7e56b9299b,
     0xcea603538571eb0be91aa78ead33281b,
     0x00d0afb20b6a8607680166cf1b6b1aaa,
     0xa0b67fb05aa13cf859e5a66c3a9b0e4c,
     0x15c6ad2fa46b9c3ab6cea06ca5e06cb1,
     0xbf6a35e0e5346b9a4bb025f20de6614c,
     0xf6d36fcec4a8a1ca3078d85bc7f3e332,
     0x00a871ead83a83b29582b3c5feaad580,
     0x97d3ac692ec196c837988731d94fbf39,
     0x13a3862ac3e0616f1dcf8fcbfc333033,
     0x92fb5ad0ea57d90535c303b400b3e78d,
     0x350d5550db3f58ad501efcac7253361d,
     0x008087bd753c3f2ef3cfc0cc48ee6b41,
     0xab5f6517d40c0fd002cc9e37d6345441,
     0x6dff60b54279f0b3ca4dd974361d982a,
     0x8c5b5f48d738756c9d41d94ac1d9627f,
     0xd56ac0cb69d63497604be41bccc3982c,
     0x00e0c1cf2a3765d3d97460aa306e7d21,
     0x5de3d4b17506652b05678bfd55ab012f,
     0xa759d35c822d916f300f63b29f7e7326,
     0x460d5586c1c3de3a9e1f97f967606624,
     0xf7b5a0d5afb20b6a8607680166cf1b2b,
     0x00b044bec13c8cc97efacd9918355419,
     0x060f7beb787e5ce69f819991dcd78256,
     0xbfca2ea8191ea005983d6fac69a882da,
     0xfec16a85f2e067959bb2e96c3a305518,
     0xb7be90ae71ead83a83b29582b3c5fe2a,
     0x00d06fea743ce5c9a60178fa4d9d8ea7,
     0x3cd934004fbfa9d3f194279b06e0e937,
     0x753a9ef264d3003cfda64ec7539e6c1a,
     0x80a7dfd4e978ca934d03f0f49b3a1d4f,
     0x79b269009e7e53a7e3294f360dc0d32f,
     0x00a8b1bd2b378cb15a0db435b677e586,
     0x3156ab81b6c6f6aedc30c66a35d0d6d8,
     0xde951bc658ad06da1adbbb72c318abd5,
     0x405b637b576e1863b51a686b6cefca0d,
     0x63ac56036d8ded5db9618cd56aa0ad31,
     0x0080c7cfc0fcbcafbe16d2f0f819989f,
     0xf7d5d7421a1e3f03f3f3befa5a48c3e3,
     0x67607ede575f0b6978fc0ccccffbea6b,
     0x210d8f9f81f9795f7d2da4e1f133303f,
     0xefabaf85343c7e06e6e77df5b5908607,
     0x00e041be6156ece4d697613cc837cc8a,
     0x9ddcfa328c07f98659b1935b5f86f120,
     0xdf302b7672ebcb301ee41b66c54e6e7d,
     0x19c6837cc3acd8c9ad2fc378906f9815,
     0x3bb9f565180ff20db36227b7be0ce301,
     0x00b0841638cb0ce34255a196d0026799,
     0x615ca82ad4125ae02c338c0b55855a42,
     0x0b9c658671a1aa504b6881b3cc302e54,
     0x156a092d709619c685aa422da105ce32,
     0xc3b85055a825b4c059661817aa0ab504,
     0x007840290cac8a51b33ac10f28858155,
     0x316a5627f801a530b02a46cdea043fa0,
     0x140656c5a8599de00794c2c0aa1835ab,
     0x13fc8052185815a36675821f500a03ab,
     0x62d4ac4ef0034a6160558c9ad5097e00,
     0x00a8f1cf60c68c516b6e06a64b0368e1,
     0x916fceaae21f059ddf64ad06691e68c1,
     0xc099c81a5ba73cd6d732cc12a51898da,
     0x94ade3617cb5be0a7d00ffde9cd3d455,
     0xee79c9856a82cb66d32ae8d7de602e36,
     0x008047be39ab8a7f14747e93b51aa479,
     0xa0050367226b6c9df2585fcb304b9462,
     0x606a53b68e87f1d5fa2af401fc7b734e,
     0x5357b9e72517aa092e9b4daba05f7b83,
     0xb9d8c665b519b8fc69e0d5f867306306,
     0x00e081160c9c89acb175ca637d2dc32c,
     0x518a81a94dd93a1ec657ebabd007f0ef,
     0xcd394d5de59e975ca826b86c36ad827e,
     0xed0de6621b97d566e0f2a78157e39fc1,
     0x8c19a3d6dc0c4c9706d0c223df9c5505,
     0x00b0442906a63665eb78185fadaf421f,
     0xc0bf37e73475957b5e72a19ae0b2d9b4,
     0x0afab537988b6d5c569b81cb9f065e8d,
     0x7f0633668c5a7333305d1a400b8f7c73,
     0x5615ff28e8fc266b3548f3400b06ce04,
     0x007800ffde9cd3d455ee79c9856a82cb]"

definition mx168by649_part5 :: "block list" where
  "mx168by649_part5 =
    [0x66d32ae8d7de602eb671596d062e7f1a,
     0x7835fe19cc98316acdcdc07469002d3c,
     0xf2cd5955fca3a0f39bacd520cd032d18,
     0x38135963eb94c7fa5a8659a21403531b,
     0x00289b4daba05f7b83b9d8c665b519b8,
     0xfc69e0d5f8673063c6a8353703d3a501,
     0xb4f0c8376755f18f82ce6fb25683340f,
     0xb460e04c648dad531eeb6b196689520c,
     0x4c6dcad6f130be5a5f853e807f6fce29,
     0x008087160696537bc34c1559d3f1f38c,
     0xabb9f98db5be09e6721a206d09fe55a1,
     0xc6f936b0da52076666fc83adc3482eab,
     0x6730d9d72ab46c9f062d0f4af166fdfe,
     0x8cb3995076e58a3dea824ef9ab503503,
     0x00e04129deacdf9f713613caae5cb147,
     0x5dd0297f15aa66309dd518f6009b020f,
     0x1e5a18584eed0d3355644dc7cf33aee6,
     0xe637d6fa2698cb6980b425f857851ae7,
     0xdbc06a4b1d9899f10fb60e23b9ac9e01,
     0x00b004ffaa50e37c1b586da9033333fe,
     0xc1d6612497d53398ec6b155ab64f8396,
     0x07a578b37e7fc6d94c28bb72c51e7541,
     0xa7fc55a89ac1745663d8036c0a3c7868,
     0x616039b537cc5491351d3fcfb89a9b1f,
     0x0078804d81070f2d0c2ca7f686992ab2,
     0xa6e3e7195773f31b6b7d13cce53440da,
     0x12fcab428df36d60b5a50eccccf8075b,
     0x87915c56cf60b2af5568d93e0d5a1e94,
     0xe2cdfafd196733a1ecca157bd4059d32,
     0x0028dba741cb8352bc59bf3fe36c2694,
     0x5db9628fbaa053fe2a54cd603aab31ec,
     0x0136051e3cb430b09cda1b66aac89a8e,
     0x9f675ccdcd6facf54d3097d300694bf0,
     0xaf0a35ceb781d5963a3033e31f6c1d06,
     0x00e0721a206d09fe55a1c6f936b0da52,
     0x076666fc83adc3482eab6730d9d72ab4,
     0x6c9f062d0f4af166fdfe8cb3995076e5,
     0x8a3dea824ef9ab503583e9acc6b007d8,
     0x1478f0d0c2c0726a6f98a9226b3a7e1e,
     0x00e001ff80c703fe018f07fc031e0ff8,
     0x073c1ef00f783ce01ff078c03fe0f180,
     0x7fc0e301ff80c703fe018f07fc031e0f,
     0xf8073c1ef00f783ce01ff078c03fe0f1,
     0x807fc0e301ff80c703fe018f07fc031e,
     0x00b0844d416b099b82d6123605ad256c,
     0x0a5a4bd814b496b029682d6153d05ac2,
     0xa6a0b5844d416b099b82d6123605ad25,
     0x6c0a5a4bd814b496b029682d6153d05a,
     0xc2a6a0b5844d416b099b82d61236052d,
     0x0078c0a721fd804f43fa019f86f4033e,
     0x0de9077c1ad20ff834a41ff069483fe0,
     0xd3907ec0a721fd804f43fa019f86f403,
     0x3e0de9077c1ad20ff834a41ff069483f,
     0xe0d3907ec0a721fd804f43fa019f8634,
     0x00285b1a1856b63430ac6c696058d9d2,
     0xc0b0b2a58161654b03c3ca960686952d,
     0x0d0c2b5b1a1856b63430ac6c696058d9,
     0xd2c0b0b2a58161654b03c3ca96068695,
     0x2d0d0c2b5b1a1856b63430ac6c696018,
     0x00e0b2d514ca65ab2994cb56532897ad,
     0xa6502e5b4da15cb69a42b96c358572d9,
     0x6a0ae5b2d514ca65ab2994cb56532897,
     0xada6502e5b4da15cb69a42b96c358572,
     0xd96a0ae5b2d514ca65ab2994cb565328,
     0x0030dd6b136cbad726d874af4db0e95e,
     0x9b60d3bd36c1a67b6d824df7da049bee,
     0xb50936dd6b136cbad726d874af4db0e9,
     0x5e9b60d3bd36c1a67b6d824df7da049b,
     0xeeb50936dd6b136cbad726d874af4d30,
     0x00b0c4a719c6e5d79a61acac9eb271d9,
     0x5aecac813913f636b07eb550051ed814,
     0xd265b35a82270bd5f925b7a0cffb47e5,
     0x54913acee634df6f8607ff40fb803428,
     0xd474f59dc15735378c51eb9819ca8619,
     0x0078401a146abafacee0ab9a1bc6a875,
     0xcc0c65c34c6d3f1b588d4b013c4b7c9a,
     0x615c7ead19c6caea291b97adc5ce1a98,
     0x33616f03eb570b55e0814d215d36ab25,
     0x78b2509d5f720bfabc7f544e15a9e32c,
     0x00289bd5123c59a8ce2fb9057dde3f2a,
     0xa78ad47136a7f97e333cf807da07a441,
     0xa1a6abef0cbeaab9618c5ac7cc5036cc,
     0xd4f6b381d5b814c0b3c4a719c6e5d79a,
     0x61acac9eb271d95aecac813913f63630,
     0x00e0f26bcd3056564fd9b86c2d76d6c0,
     0x9c097b1b58bf5aa8020f6c0ae9b2592d,
     0xc19385eafc925bd0e7fda372aa481d67,
     0x739aef37c3837fa07d401a146abaface,
     0xe0ab9a1bc6a875cc0c65c34c6d3f1b18,
     0x00305d7d67f055cd0d63d43a6686b261,
     0xa6b69f0dacc6a5009e253ecd302ebfd6,
     0x0c6365f5948dcbd662670dcc99b0b781,
     0xf5ab852af0c0a6902e9bd5123c59a8ce,
     0x2fb9057dde3f2aa78ad47136a7f97e33,
     0x00982c54e797dc823eef1f955345ea38,
     0x9bd37cbf191efc03ed03d2a050d3d577,
     0x065fd5dc3046ad6366281b666afbd9c0,
     0x6a5c0ae059e2d30ce3f26bcd3056564f,
     0xd9b86c2d76d6c09c097b1b58bf5aa802,
     0x007880d5ccf0d582165bd99cd56f2940,
     0x5bb6d7ce20b96c6546ea0c5c63fe419a,
     0xcbf59d9f7175ac0a7b0f0c1e366598e9,
     0xa03ae551572e133f7b330f3eadd0c9b2,
     0x7a18ff00b3daf25d054ba421c163d51c,
     0x0028db6b67905cb632237506ae31ff20,
     0xcde5facecfb83a5685bd07060f9b32cc,
     0x74509df2a82b97899fbd99079f56e864,
     0x593d8c7f80596df9ae8225d290e0b16a,
     0xee795983594eb500bc0758cd0c5f2d28,
     0x00e0727de7675c1dabc2de0383874d19,
     0x663aa84e79d495cbc4cfdecc834f2b74,
     0xb2ac1ec63fc0acb67c57c1126948f058,
     0x35f7bcacc12ca75a00de03ac6686af16,
     0xb4d8cae6ac7e4b01dab2bd7606c9652b,
     0x00301d54a73ceaca65e2676fe6c1a715,
     0x3a59560fe31f60565bbeab6089342478,
     0xac9a7b5ed66096532d00ef015633c357,
     0x0b5a6c657356bfa5006dd95e3b83e4b2,
     0x9519a933708df907692ed7777ec6d531,
     0x00982cab87f10f30ab2ddf55b0441a12,
     0x3c56cd3d2f6b30cba91680f700ab99e1,
     0xab052db6b239abdf5280b66caf9d4172,
     0xd9ca8cd419b8c6fc833497eb3b3fe3ea,
     0x5815f61e183c6cca30d34175caa3ae1c,
     0x0018abe69e973598e5540bc07b80d5cc,
     0xf0d582165bd99cd56f29405bb6d7ce20,
     0xb96c6546ea0c5c63fe419acbf59d9f71,
     0x75ac0a7b0f0c1e366598e9a03ae55157,
     0x2e133f7b330f3eadd0c9b27a18ff0033,
     0x00285b7da7fc0f98e9977f0c9bace68a,
     0x9dba81f1200d6648ae8e33916fe095ad,
     0xbe53fe07ccf4cb3f864d5673c54eddc0,
     0x789006332457c799c837f0ca56df29ff,
     0x0366fae51fc326abb962a76e603c4803,
     0x00e03254879135ced6d8a60a1d6b4199,
     0x61ef375bc26a33306ee5d4a605d07219,
     0xaac3c81a676b6c53858eb5a0ccb0f79b,
     0x2d61b51918b7726ad30268b90cd56164,
     0x8db335b6a942c75a5066d8fbcd96b01a,
     0x00301dab9fa76c03c3e3d309fe2a5b55,
     0xf1b32a3ce0b5f31b3598735a0a489b8e,
     0xd5cf53b681e1f1e9047f95adaaf85915,
     0x1ef0daf98d1acc392d05a44dc7eae729,
     0xdbc0f0f87482bfca5655fcac0a0f782d,
     0x0098ace68a9dba81f1200d6648ae8e33,
     0x916fe095adbe53fe07ccf4cb3f864d56,
     0x73c54eddc0789006332457c799c837f0,
     0xca56df29ff0366fae51fc326abb962a7]"

definition mx168by649_part6 :: "block list" where
  "mx168by649_part6 =
    [0x6e603c48831992abe34ce41b7865ab2f,
     0x00186b419961ef375bc26a33306ee5d4,
     0xa605d07219aac3c81a676b6c53858eb5,
     0xa0ccb0f79b2d61b51918b7726ad30268,
     0xb90cd561648db335b6a942c75a5066d8,
     0xfbcd96b0da0c8c5b39b56901b45c862a,
     0x00f82a5b55f1b32a3ce0b5f31b359873,
     0x5a0a489b8ed5cf53b681e1f1e9047f95,
     0xadaaf859151ef0daf98d1acc392d05a4,
     0x4dc7eae729dbc0f0f87482bfca5655fc,
     0xac0a0f78edfc460de69c9602d2a66335,
     0x00e032ab8b6def2a940daacf4bdd9b1f,
     0x50df61287b609678ed94b366601e586d,
     0x7effe02c3cd2308351c3acc69f368371,
     0xc1ac5f9b2638b995cb29ff14fa551dab,
     0xad140c1b2b5b33a105484fb6a0aac837,
     0x00309de698f133e07199d5c5b67715ca,
     0x06d5e7a5eecd0fa8ef30943d304bbc76,
     0xca5933300fac36bf7f70161e6998c1a8,
     0x6156e34f9bc1b860d6af4d139cdccae5,
     0x947f0afdaa8ed5560a868d95ad99d002,
     0x00986c4155916fd09a4e73ccf819f0b8,
     0xccea62dbbb0a6583eaf352f7e607d477,
     0x18ca1e98255e3be5ac199807569bdf3f,
     0x380b8f34cc60d430abf1a7cd605c30eb,
     0xd7a6094e6ee572ca3f857e55c76a2b05,
     0x00182b5b33a105484fb6a0aac837684d,
     0xa73966fc0c785c6675b1ed5d85b241f5,
     0x79a97bf303ea3b0c650fcc12af9d72d6,
     0x0ccc03abcdef1f9c85471a66306a98d5,
     0xf8d366302e98f56bd30427b77239e51f,
     0x00f8aa8ed5560a868d95ad99d002a427,
     0x5b5055e41bb4a6d31c337e063c2eb3ba,
     0xd8f6ae42d9a0fabcd4bdf901f51d86b2,
     0x076689d74e396b06e681d5e6f70fcec2,
     0x230d331835cc6afc69331817ccfab529,
     0x00486ee572ca3f857e55c76a2b05c3c6,
     0xcad64c6801d2932da82af20d5ad3698e,
     0x193f031e97595d6c7b57a16c507d5eea,
     0xdefc80fa0e43d903b3c46ba79c3503f3,
     0xc06af3fb0767e19186198c1a6635fe34,
     0x00305d4133510a852617cc354ec3fcb2,
     0x36b00740b5d83f03ed64d9aa36fe25d8,
     0xb8308387d5a6acec37978dd5ccc837a4,
     0xc7aae39cdad40ca3e62c0f5e3b8cd455,
     0x81cb9a53851618f6d5cae9f7d333f807,
     0x00982c5bd5c6bf041b1766f0b0da9495,
     0xfde6b2b19a19f986f458759c539b9a61,
     0xd49ce5c16b8791ba2a705973aad002c3,
     0xbe5a39fd7e7a06ff30b025eafb3c7b03,
     0xcf7405cd4429149a5c30d7380df3cb1a,
     0x0018ab8e736a53338c9ab33c78ed3052,
     0x57052e6b4e155a60d8572ba7df4fcfe0,
     0x1f06b6447d9f676fe099aea099288542,
     0x930be61aa7617e591bd803a05aec9f81,
     0x76b26c551bff126c5c98c1c36a535636,
     0x00f86ae5f4fbe919fcc3c096a8eff3ec,
     0x0d3cd3153413a5506872c15ce334cc2f,
     0x6b037b00548bfd33d04e96ad6ae35f82,
     0x8d0b3378586dcaca7e73d958cd8c7c43,
     0x7aac3acea94dcd306acef2e0b5c3481d,
     0x00482e986b9c86f9656d600f806ab17f,
     0x06dac9b2556dfc4bb07161060fab4d59,
     0xd96f2e1bab99916f488f55c739b5a919,
     0x46cd591ebc7618a9ab029735a70a2d30,
     0xecab95d3efa767f00f035ba2becfb337,
     0x00302ecce061b5292bfbcd65633533f2,
     0x0de9b1ea38a73635c3a839cb83d70e23,
     0x7555e0b2e654a105867db572fafdf40c,
     0xfe61604bd4f779f6069ee90a9a895228,
     0x34b960ae711ae697b5813d00aac5fe19]"

definition mx168by649 :: "u8 list" where
  "mx168by649 = concat (map line_bytes (mx168by649_part1 @ mx168by649_part2 @ mx168by649_part3 @ mx168by649_part4 @ mx168by649_part5 @ mx168by649_part6))"

definition mx174by660_part1 :: "block list" where
  "mx174by660_part1 =
    [0x14040000000000009402000000000000,
     0xc0031ef080073ce0010f78c0031ef080,
     0x073ce0010f78c0031ef080073ce0010f,
     0x78c0031ef080073ce0010f78c0031ef0,
     0x80073ce0010f78c0031ef080073ce001,
     0x0f78c0031ef080073ce0010f78c0031e,
     0xf0800700000000000000000000000000,
     0xa0052d68410b5ad08216b4a0052d6841,
     0x0b5ad08216b4a0052d68410b5ad08216,
     0xb4a0052d68410b5ad08216b4a0052d68,
     0x410b5ad08216b4a0052d68410b5ad082,
     0x16b4a0052d68410b5ad08216b4a0052d,
     0x68410b00000000000000000000000000,
     0x908634a4210d6948431ad2908634a421,
     0x0d6948431ad2908634a4210d6948431a,
     0xd2908634a4210d6948431ad2908634a4,
     0x210d6948431ad2908634a4210d694843,
     0x1ad2908634a4210d6948431ad2908634,
     0xa4210d00000000000000000000000000,
     0x0c6318c318c63086318c610c6318c318,
     0xc63086318c610c6318c318c63086318c,
     0x610c6318c318c63086318c610c6318c3,
     0x18c63086318c610c6318c318c6308631,
     0x8c610c6318c318c63086318c610c6318,
     0xc3180600000000000000000000000000,
     0x0a55a84215aa50852a54a10a55a84215,
     0xaa50852a54a10a55a84215aa50852a54,
     0xa10a55a84215aa50852a54a10a55a842,
     0x15aa50852a54a10a55a84215aa50852a,
     0x54a10a55a84215aa50852a54a10a55a8,
     0x42150a00000000000000000000000000,
     0x094e7082139ce0042738c1094e708213,
     0x9ce0042738c1094e7082139ce0042738,
     0xc1094e7082139ce0042738c1094e7082,
     0x139ce0042738c1094e7082139ce00427,
     0x38c1094e7082139ce0042738c1094e70,
     0x82130c00000000000000000000000000,
     0x00002da419a6d0049b6106f39bf2309e,
     0x576c66a822136acba97e6b0c0f1e58e2,
     0x0165e3b2e9263bd6af26d7b8a3fe47d6,
     0x949d3a7bff2cdf5a2805ff6cfae93458,
     0xedb5f5852aab355750b6eab872608619,
     0x670d0c00000000000000000000000000,
     0x008034c3149a6033cc607e531ec6f38a,
     0xcd0c5564426d39d56f8de1c1034b3ca0,
     0x6c5c36dd64c7fad5e41a77d4ffc89ab2,
     0x5367ef9fe55b0ba5e09f4d3f9d06abbd,
     0xb6be5065b5e60aca561d570ecc30e3ac,
     0x81070600000000000000000000000000,
     0x00609842136c8619cc6fcac3785eb199,
     0xa18a4ca82da7faad313c78608907948d,
     0xcba69bec58bf9a5ce38efa1f595376ea,
     0xecfdb37c6ba114fcb3e9a7d360b5d7d6,
     0x17aaacd65c41d9aae3ca8119669c35f0,
     0xc0de0c00000000000000000000000000,
     0x00506882cd3083f94d7918cf2b363354,
     0x9109b5e554bf3586070f2cf180b271d9,
     0x74931deb57936bdc51ff236bca4e9dbd,
     0x7f966f2d94827f36fd741aacf6dafa42,
     0x95d59a2b285b755c3930c38cb3061ed8,
     0x9bab0000000000000000000000000000,
     0x0048b0196630bf290fe379c566862a32,
     0xa1b69ceab7c6f0e081251e50362e9b6e,
     0xb263fd6a728d3bea7f644dd9a9b3f7cf,
     0xf2ad8552f0cfa69f4e83d55e5b5fa8b2,
     0x5a730565ab8e2b07669871d6c0037b73,
     0x15800700000000000000000000000000,
     0x0030c30ce637e5613cafd8cc504526d4,
     0x9653fdd6181e3cb0c403cac665d34d76,
     0xac5f4dae7147fd8fac293b75f6fe59be,
     0xb5500afed9f4d369b0da6beb0b55566b,
     0xaea06cd571e5c00c33ce1a78606fae02,
     0xf0400b00000000000000000000000000,
     0x0080b442cd30bf61145b156ad32f3c2c,
     0x5136d38d35b9a3ce5aea7ea605fe7dda,
     0x6af5657541750c66ce0eac0aa0655882,
     0x6730e5e731231339ad310f1ec0e5c97e,
     0xd5b8ff50b6bdf35d0a9ba6e1b550d51c,
     0x5b2b0700000000000000000000000000,
     0x006058826730e5e731231339ad310f1e,
     0xc0e5c97ed5b8ff50b6bdf35d0a9ba6e1,
     0xb550d51c5b2b073303bf19789056a819,
     0xe6378c62ab426dfa858725ca66bab126,
     0x77d4594bddcfb4c0bf4f5badbeac2ea8,
     0x8ec10c00000000000000000000000000,
     0x0050a819e6378c62ab426dfa858725ca,
     0x66bab12677d4594bddcfb4c0bf4f5bad,
     0xbeac2ea88ec1ccd9815501b40c4bf00c,
     0xa6fc3c666422a735e6c103b83cd9af1a,
     0xf71fcab677be4b61d334bc16aa9a636b,
     0xe5600600000000000000000000000000,
     0x0048f00ca6fc3c666422a735e6c103b8,
     0x3cd9af1af71fcab677be4b61d334bc16,
     0xaa9a636be56066e037030fd20a35c3fc,
     0x86516c55a84dbff0b044d94c37d6e48e,
     0x3a6ba9fb9916f8f769abd597d505d531,
     0x98390b00000000000000000000000000,
     0x0030c3fc86516c55a84dbff0b044d94c,
     0x37d6e48e3a6ba9fb9916f8f769abd597,
     0xd505d53198393bb02a809661099ec194,
     0x9fc78c4ce4b4c63c78009727fb55e3fe,
     0x43d9f6ce77296c9a86d74255736cad1c,
     0xcc0c0c00000000000000000000000000,
     0x0098c1949fc78c4ce4b4c63c78009727,
     0xfb55e3fe43d9f6ce77296c9a86d74255,
     0x736cad1ccc0cfc66e0415aa16698df30,
     0x8aad0ab5e9171e96289be9c69adc5167,
     0x2d753fd302ff3e6db5fab2baa03a0633,
     0x67070600000000000000000000000000,
     0x00609819a65cec4ce89707659b6c72ff,
     0x91ba7cf32f0df5d59c8e613630e031cc,
     0x0c532e7626f4cb83b24d36b9ff485dbe,
     0xf99786fa6a4ec7301b18f01866862917,
     0x3b13fae541d9269bdc7fa42edffc4b43,
     0x7d350700000000000000000000000000,
     0x0050e80c86c10cb5d5d8125c1eab71b3,
     0x666f2dd8d46a502d68e538fb66d02a74,
     0x06c36086da6a6c092e8fd5b859b3b716,
     0x6c6a35a816b4729c7d3368153a836130,
     0x436d35b60497c76adcacd95b0b36b51a,
     0x540b0a00000000000000000000000000,
     0x0048f0fc9ea78a9cc2e301a6fbeaa895,
     0xfdb3527cfab5ac662b980d5c05482778,
     0x7ecf53454ee1f100d37d75d4cafe5929,
     0x3efd5a56b315cc06ae02a4133cbfe7a9,
     0x22a7f07880e9be3a6a65ffac149f7e2d,
     0xabd90a00000000000000000000000000,
     0x0030c3948b9d09fdf2a06c934dee3f52,
     0x976ffea5a1be9ad331cc06063c869961,
     0xcac5ce847e7950b6c926f71fa9cb37ff,
     0xd2505fcde9186603031ec3cc30e56267,
     0x42bf3c28db6493fb8fd4e59b7f69a8af,
     0xe6740c00000000000000000000000000,
     0x0098c13098a1b61a5b82cb63356ed6ec,
     0xad059b5a0daa05ad1c67df0c5a85ce60,
     0x18cc505b8d2dc1e5b11a376bf6d6824d,
     0xad06d582568eb36f06ad4267300c66a8,
     0xadc696e0f2588d9b357b6bc1a656836a,
     0x412b0700000000000000000000000000,
     0x0098dff3549153783cc0745f1db5b27f,
     0x568a4fbf96d56c05b381ab00e904cfef,
     0x79aac8293c1e60baaf8e5ad93f2bc5a7,
     0x5fcb6ab682d9c055807482e7f73c55e4,
     0x141e0f30dd5747adec9f95e2d3af6535,
     0x5bc10c00000000000000000000000000,
     0x0050e8fc8aad3678946daca34e9d163e,
     0x5ddf82827960a04df0949991531e70f9,
     0xabffb07729d20055b6c2eccd9036c330]"

definition mx174by660_part2 :: "block list" where
  "mx174by660_part2 =
    [0x54a15f4b982eb959fb19ffacc66a1d73,
     0xb60a0c9bc1f33251e3074cd6b8caceb7,
     0x4d5f0b00000000000000000000000000,
     0x0048f0949991531e70f9abffb07729d2,
     0x0055b6c2eccd9036c33054a15f4b982e,
     0xb959fb19ffacc66a1d73b60a0c9bc1f3,
     0x3251e3074cd6b8caceb74d5fabb9ca19,
     0x18780a9d5fb1d5068fb28d75d4a9d3c2,
     0xa7eb0b00000000000000000000000000,
     0x0030c33054a15f4b982eb959fb19ffac,
     0xc66a1d73b60a0c9bc1f33251e3074cd6,
     0xb8caceb74d5fabb9ca1918780a9d5fb1,
     0xd5068fb28d75d4a9d3c2a7eb5b50300f,
     0x0cb4099e323372ca032e7ff51ff62e45,
     0x1aa00a00000000000000000000000000,
     0x0098c1f33251e3074cd6b8caceb74d5f,
     0xabb9ca1918780a9d5fb1d5068fb28d75,
     0xd4a9d3c2a7eb5b50300f0cb4099e3233,
     0x72ca032e7ff51ff62e451aa0ca5698bd,
     0x19d26618862af46b09d325376b3fe39f,
     0xd5580d00000000000000000000000000,
     0x00985fb1d5068fb28d75d4a9d3c2a7eb,
     0x5b50300f0cb4099e323372ca032e7ff5,
     0x1ff62e451aa0ca5698bd19d26618862a,
     0xf46b09d325376b3fe39fd558ad63ce56,
     0x816133785e266afc80c91a57d9f9b6e9,
     0x6b350700000000000000000000000000,
     0x0098323372ca032e7ff51ff62e451aa0,
     0xca5698bd19d26618862af46b09d32537,
     0x6b3fe39fd558ad63ce56816133785e26,
     0x6afc80c91a57d9f9b6e96b3557390303,
     0x4fa1f32bb6dae051b6b18e3a755af874,
     0x7d0b0a00000000000000000000000000,
     0x0048f03032010f2e2757d95a4803ab2b,
     0x373048cfa0d839b5c464476d6ffebdb6,
     0xa030ab8242a7ac8a1a97edab59cbf7a7,
     0xa1aa630383d60ccf531b0f4c67dcd495,
     0xc26a9a03f39b19363f66e8f70163fdc7,
     0xcf6c0a00000000000000000000000000,
     0x0030c3f3d4c603d3193775a5b09ae6c0,
     0xfc6686cd8f19fa7dc058fff1339bd697,
     0xad9c055e82879109787039b9cad6421a,
     0x585db981417a06c5cea925263b6a7bf3,
     0xefb505855915143a6555d4b86c5fcd5a,
     0xbe3f0d00000000000000000000000000,
     0x009841b1736a89c98edadefc7b6d4161,
     0x5605854e5915352edb57b396ef4f4355,
     0xc70606ad199ea7361e98ceb8a92b85d5,
     0x3407e637336c7eccd0ef03c6fa8f9fd9,
     0xb4be6ce52cf0123c8c4cc083cbc955b6,
     0x16d20000000000000000000000000000,
     0x00981f33f4fb80b1fee36736ad2f5b39,
     0x0bbc040f2313f0e0727295ad8534b0ba,
     0x720383f40c8a9d534b4c76d4f6e6df6b,
     0x0b0ab32a2874caaaa871d9be9ab57c7f,
     0x1aaa3a363068cdf03cb5f1c074c64d5d,
     0x29ac0600000000000000000000000000,
     0x0098b22a6a5cb6af662ddf9f86aa8e0d,
     0x0c5a333c4f6d3c309d7153570aab690e,
     0xcc6f66d8fc98a1df078cf51f3fb3697d,
     0xd9ca59e02578189980079793ab6c2da4,
     0x81d5951b18a46750ec9c5a62b2a3b637,
     0xff5e0b00000000000000000000000000,
     0x00184626e0c1e5e42a5b0b696075e506,
     0x06e919143ba79698eca8edcdbfd71614,
     0x665550e8945551e3b27d356bf9fe3454,
     0x756c60d09ae1796ae381e98c9bba5258,
     0x4d73607e33c3e6c70cfd3e60acfff899,
     0x4deb0b00000000000000000000000000,
     0x003043b1f55bb6e4a68e7ff5d5f1c018,
     0x36e54cf060b2ffc8771a340733e099a1,
     0xd8fa2d5b7253c7bffaea78600c9b7226,
     0x7830d97fe43b0d9a8319f0cc506cfd96,
     0x2db9a9e35f7d753c30864d39133c98ec,
     0x3ff20d00000000000000000000000000,
     0x009801336acc65e3dadba650addc9b15,
     0x3a0cb55962ac59d382d50aca59d0ce80,
     0x1935e6b271ed6d53a856eecd0a1d86da,
     0x2c31d6ac69c16a05e52c6867c08c1a73,
     0xd9b8f6b629542bf766850e436d96186b,
     0xd6b40000000000000000000000000000,
     0x00989f2ae061ba51ffecd3ac06731512,
     0xfcbc9c3ee0abca2ec56bd96a6048cf4f,
     0x15f030dda87ff6695683b90a097e5e4e,
     0x1ff0556597e2b56c3530a4e7a70a7898,
     0x6ed43ffb34abc15c85043f2fa70ff8aa,
     0xb24b0100000000000000000000000000,
     0x009872267830d97fe43b0d9a8319f0cc,
     0x506cfd962db9a9e35f7d753c30864d39,
     0x133c98ec3ff29d06cdc10c786628b67e,
     0xcb96dcd4f1afbe3a1e18c3a69c091e4c,
     0xf61ff94e83e660063c33145bbf654b6e,
     0xeaf80700000000000000000000000000,
     0x001886da2c31d6ac69c16a05e52c6867,
     0xc08c1a73d9b8f6b629542bf766850e43,
     0x6d96186bd6b460b5827216b43360468d,
     0xb96c5c7bdb14aa957bb34287a1364b8c,
     0x356b5ab05a41390bda1930a3c65c36ae,
     0xbd6d0a00000000000000000000000000,
     0x00785e4e1ff0556597e2b56c3530a4e7,
     0xa70a78986ed43ffb34abc15c85043f2f,
     0xa70ff8aab24bf15ab61a18d2f353053c,
     0x4c37ea9f7d9ad560ae42829f97d3077c,
     0x55d9a5782d5b0d0ce9f9a9021ea61bf5,
     0xcf3e0d00000000000000000000000000,
     0x0098812a78305665f30faa6006de0c54,
     0xc183b12a9b7f500533f066a00a1e8c55,
     0xd9fc832a9881370355f060accae61f54,
     0xc10cbc19a88207635536ffa00a66e0cd,
     0x40153c18abb2f9075530036f06aae0c1,
     0x58950d00000000000000000000000000,
     0x00985f262cf1d5d4d994d53003edfc32,
     0x6189afa6cea6ac861968e797094b7c35,
     0x75366535cc403bbf4c58e2aba9b329ab,
     0x6106daf965c2125f4d9d4d590d33d0ce,
     0x2f1396f86aea6cca6a9881767e99b0c4,
     0x57530700000000000000000000000000,
     0x0098b2da1e905c7b7f5a739c85f494d5,
     0xf680e4dafbd39ae32ca4a7acb60724d7,
     0xde9fd61c67213d65b53d20b9f6feb4e6,
     0x380be929abed01c9b5f7a735c759484f,
     0x596d0f48aebd3fad39ce427aca6a7b40,
     0x72ed0d00000000000000000000000000,
     0x0018464ecb66dc9fa5a1a00666d83072,
     0x5a36e3fe2c0d053530c38691d3b219f7,
     0x676928a88119368c9c96cdb83f4b4341,
     0x0dccb061e4b46cc6fd591a0a6a60860d,
     0x23a76533eecfd2505003336c18392d9b,
     0x717f0600000000000000000000000000,
     0x00789e7eb93cea7c5b8dad0353e8f3f4,
     0xcbe551e7db6a6c1d98429fa75f2e8f3a,
     0xdf5663ebc014fa3cfd7279d4f9b61a5b,
     0x07a6d0e7e997cba3ceb7d5d83a30853e,
     0x4fbf5c1e75beadc6d68129f479fae5f2,
     0xa8f30d00000000000000000000000000,
     0x0028768d4df70f2dbc56c76f4e70b16b,
     0x6cba7f68e1b53a7e73828b5d63d3fd43,
     0x0bafd5f19b135cec1a9bee1f5a78ad8e,
     0xdf9ce062d7d874ffd0c26b75fce60417,
     0xbbc6a6fb87165eabe33727b8d83536dd,
     0x3fb40000000000000000000000000000,
     0x00989fdaca366a2dd417cca09d724eb9,
     0xfc8f52401566901e867e4d9735feb19a,
     0xb30c7b5e8d27ab6c9b6acec00a2d363c,
     0xc69aba4f1774600966060fbe6aef34b0,
     0xf5cd6650852592fb33abe9b80a33c8c4,
     0x038c0b00000000000000000000000000,
     0x0098724eb9fc8f52401566901e867e4d]"

definition mx174by660_part3 :: "block list" where
  "mx174by660_part3 =
    [0x9735feb19ab30c7b5e8d27ab6c9b6ace,
     0xc00a2d363cc69aba4f1774600966060f,
     0xbe6aef34b0f5cd6650852592fb33abe9,
     0xb80a33c8c4038c9befd7560e78f3535b,
     0xd9460d00000000000000000000000000,
     0x0018867e4d9735feb19ab30c7b5e8d27,
     0xab6c9b6acec00a2d363cc69aba4f1774,
     0x600966060fbe6aef34b0f5cd66508525,
     0x92fb33abe9b80a33c8c4038c9befd756,
     0x0e78f3535bd946ad85fa8219b453ce29,
     0x97ff0100000000000000000000000000,
     0x00785e8d27ab6c9b6acec00a2d363cc6,
     0x9aba4f1774600966060fbe6aef34b0f5,
     0xcd6650852592fb33abe9b80a33c8c403,
     0x8c9befd7560e78f3535bd946ad85fa82,
     0x19b453ce2997ff510aa8c20cd2c3d0af,
     0xe9b20600000000000000000000000000,
     0x0028363cc69aba4f1774600966060fbe,
     0x6aef34b0f5cd6650852592fb33abe9b8,
     0x0a33c8c4038c9befd7560e78f3535bd9,
     0x46ad85fa8219b453ce2997ff510aa8c2,
     0x0cd2c3d0afe9b2c63f56739661cfabf1,
     0x64950d00000000000000000000000000,
     0x0060060fbe6aef34b0f5cd6650852592,
     0xfb33abe9b80a33c8c4038c9befd7560e,
     0x78f3535bd946ad85fa8219b453ce2997,
     0xff510aa8c20cd2c3d0afe9b2c63f5673,
     0x9661cfabf164956d53cd1958a1c586c7,
     0x58530700000000000000000000000000,
     0x0098b27e279bba34e8187853d6ef6453,
     0x97061d036fcafa9d6cead2a063e04d59,
     0xbf934d5d1a740cbc29eb77b2a94b838e,
     0x813765fd4e367569d031f0a6acdfc9a6,
     0x2e0d3a06de94f53bd9d4a541c7c09bb2,
     0x7e270b00000000000000000000000000,
     0x0018468dc76a6fab550eb4c3a8f158ed,
     0x6db5ca817618351eabbdad5639d00ea3,
     0xc663b5b7d52a07da61d478acf6b65ae5,
     0x403b8c1a8fd5de56ab1c688751e3b1da,
     0xdb6a9503ed306a3c567b5bad72a01d46,
     0x8dc70a00000000000000000000000000,
     0x00781e3cbefab3d78219d2cf83c7577f,
     0xf65a3043fa79f0f8eacf5e0b66483f0f,
     0x1e5ffdd96bc10ce9e7c1e3ab3f7b2d98,
     0x21fd3c787cf567af0533a49f078faffe,
     0xecb56086f4f3e0f1d59fbd16cc907e1e,
     0x3cbe0a00000000000000000000000000,
     0x0028360f929beffac28c61c5e64172f3,
     0x5d5f9831acd83c486ebeeb0b3386159b,
     0x07c9cd777d61c6b062f320b9f9ae2fcc,
     0x18566c1e2437dff58519c38acd83e4e6,
     0xbbbe306358b17990dc7cd717660c2b36,
     0x0f920b00000000000000000000000000,
     0x006086258cab05a87256a1ccb08471b5,
     0x0055ce2a94199630ae16a0ca598532c3,
     0x12c6d5025439ab506658c2b85a802a67,
     0x15ca0c4b18570b50e5ac42996109e36a,
     0x01aa9c5528332c615c2d4095b30a6586,
     0x258c0b00000000000000000000000000,
     0x0050c503465d0a561b38c1aa78c0a84b,
     0xc16a032758150f187529586de004abe2,
     0x01a32e05ab0d9c60553c60d4a560b581,
     0x13ac8a078cba14ac36708255f1805197,
     0x82d5064eb02a1e30ea52b0dac00956c5,
     0x03460d00000000000000000000000000,
     0x0018063c92ab05560f6c06399dacbd5f,
     0x0b3385aaa26c59fbb48e41fb3c1e18b7,
     0x149a7bf3fcf43bd69fd597b309ce0497,
     0x959d86ca41bad8961835ff0a5a8529d7,
     0xf8abf986aa81cda036d3a5ce6a606618,
     0x331e0000000000000000000000000000,
     0x00781e0f8c5b0acdbd797efa1debcfea,
     0xcbd9046782cbca4e43e5205d6c4b8c9a,
     0x7f05adc2946bfcd57c43d5c066509be9,
     0x52673530338c190ff8874dd90abc61c0,
     0x23b95a60f5c06690d3c9dafbb53053a8,
     0x2aca0600000000000000000000000000,
     0x0028b62546cdbf825661ca35fe6abea1,
     0x6a6033a8cd74a9b31a9819c68c07fcc3,
     0xa66c05de30e0915c2db07a6033c8e964,
     0xedfd5a9829541565cbdaa7750cdae7f1,
     0xc0b8a5d0dc9be7a7dfb1feacbe9c4d70,
     0x26b80c00000000000000000000000000,
     0x0060c603fe6153b6026f18f048ae1658,
     0x3db019e474b2f67e2dcc14aa8ab265ed,
     0xd33a06edf37860dc5268eecdf3d3ef58,
     0x7f565fce2638135c56761a2a07e9625b,
     0x62d4fc2b6815a65ce3afe61baa063683,
     0xda4c0700000000000000000000000000,
     0x005045d9b2f6691d83f6793c306e2934,
     0xf7e6f9e977ac3fab2f67139c092e2b3b,
     0x0d958374b12d316afe15b40a53aef157,
     0xf30d55039b416da64b9dd5c0cc30663c,
     0xe01f36652bf086018fe46a81d5039b41,
     0x4e270b00000000000000000000000000,
     0x00c80497959d86ca41bad8961835ff0a,
     0x5a8529d7f8abf986aa81cda036d3a5ce,
     0x6a606618331ef00f9bb21578c3804772,
     0xb5c0ea81cd20a793b5f76b61a6505594,
     0x2d6b9fd631689fc703e39642736f9e9f,
     0x7ec70a00000000000000000000000000,
     0x00789e25fef1e9ca314c155c4edd6b39,
     0x6b869c8e35dfac7ef394e1615cfeb115,
     0xb4c57e40d6d200668566c274f6aeaf81,
     0x67a0dfaf6a41735518060f466d531d43,
     0x9a196553b6d5609660b54df667501dd8,
     0xfc6a0c00000000000000000000000000,
     0x0028f603b29606302b3413a6b3777d0d,
     0x3c03fd7e550b9aabc23078306a9bea18,
     0xd2cc289bb2ad06b304ab6db23f83eac0,
     0xe657e3e496a2a0c07b9e25fef1e9ca31,
     0x4c155c4edd6b396b869c8e35dfac7ef3,
     0x94e10100000000000000000000000000,
     0x006046d9946d359825586d93fd195407,
     0x36bf1a27b7140505def32cf18f4f578e,
     0x61aae072ea5ecb5933e474acf966f59b,
     0xa70c0fe3f28fada02df603b29606302b,
     0x3413a6b3777d0d3c03fd7e550b9aabc2,
     0x30780000000000000000000000000000,
     0x0050059753f75ace9a21a763cd37abdf,
     0x3c657818977f6c056db11f90b5348059,
     0xa199309dbdeb6be019e8f7ab5ad05c15,
     0x86c18351db54c7906646d9946d359825,
     0x586d93fd19540736bf1a27b7140505de,
     0xf32c0100000000000000000000000000,
     0x00c884e9ec5d5f03cf40bf5fd582e6aa,
     0x300c1e8cdaa63a863433caa66cabc12c,
     0xc16a9beccfa03ab0f9d538b9a52828f0,
     0x9e67897f7cba720c53059753f75ace9a,
     0x21a763cd37abdf3c657818977f6c056d,
     0xb11f0000000000000000000000000000,
     0x0050db647f06d581cdafc6c92d454181,
     0xf73c4bfce3d39563982ab89cbad772d6,
     0x0c391d6bbe59fde629c3c3b8fc632b68,
     0x8bfd80aca501cc0acd84e9ec5d5f03cf,
     0x40bf5fd582e6aa300c1e8cdaa63a8634,
     0x33ca0600000000000000000000000000,
     0x002876d95257df814d9907ff4803cccc,
     0xa0dfe4f24fc70ccbc464f3ad39e015bb,
     0x6ca9abefc0a6cc837fa4016666d06f72,
     0xf9a763866562b2f9d61cf08a5db6d4d5,
     0x776053e6c13fd2003333e837b9fcd331,
     0xc3320100000000000000000000000000,
     0x00600697ed0dd5370fc31259b31a6767,
     0x5063e3dab4720a55db58b55050d03283,
     0xcbf686ea9b876189ac598db333a8b171,
     0x6d5a3985aa6dac5a28286899c1657b43,
     0xf5cdc3b044d6acc6d919d4d8b836ad9c]"

definition mx174by660_part4 :: "block list" where
  "mx174by660_part4 =
    [0x42d50600000000000000000000000000,
     0x005085e97ec6ea2a3cef01ca7ead81e7,
     0x078f517f1acc09cee9574bc15648abc2,
     0x743f6375159ef70065bfd6c0f383c7a8,
     0x3f0de604e7f4aba5602ba45561ba9fb1,
     0xba0acf7b80b25f6be0f9c163d49f0673,
     0x82730a00000000000000000000000000,
     0x00c8c464f3ad39e015bb6ca9abefc0a6,
     0xcc837fa4016666d06f72f9a763866562,
     0xb2f9d61cf08a5db6d4d5776053e6c13f,
     0xd2003333e837b9fcd331c33231d97c6b,
     0x0e78c52e5beaea3bb029f3e01f698099,
     0x19f40b00000000000000000000000000,
     0x0050db58b55050d03283cbf686ea9b87,
     0x6189ac598db333a8b1716d5a3985aa6d,
     0xac5a28286899c1657b43f5cdc3b044d6,
     0xacc6d919d4d8b836ad9c42d536562d14,
     0x14b4cce0b2bda1fae66158226b56e3ec,
     0x0c6a0c00000000000000000000000000,
     0x00c8e9574bc15648abc2743f6375159e,
     0xf70065bfd6c0f383c7a83f0de604e7f4,
     0xaba5602ba45561ba9fb1ba0acf7b80b2,
     0x5f6be0f9c163d49f06738273fad552b0,
     0x15d2aa30ddcf585d85e73d40d9af35f0,
     0xfce00100000000000000000000000000,
     0x006086e9f25d50486762aca5d0b14273,
     0x9a5c9b82d90c351e751a383b3f1e64ed,
     0xb5031bc6035207d52a149bcb3fd31c68,
     0x5531592db095616afb2aff2a9760fd1a,
     0xf7d3309b013cfe6135034fd912caaeef,
     0x9b9f0700000000000000000000000000,
     0x0050c564b5c05686a9edabfcab5c82f5,
     0x6bdc4fc36c06f0f887d50c3c654b28bb,
     0xbe6f7e5ed9eccd6ae031c374f92e28a4,
     0x3331d652e858a1394dae4dc16c861a8f,
     0x3a0d9c9d1f0fb2f6da810de301a9836a,
     0x158a0d00000000000000000000000000,
     0x00c8c4584ba16385e634b93605b3196a,
     0x3cea3470767e3cc8da6b07368c07a40e,
     0xaa552836977fa639d0aa62b25a602bc3,
     0xd4f655fe552ec1fa35eea761360378fc,
     0xc36a069eb225945ddf373faf6cf66635,
     0xf0980100000000000000000000000000,
     0x0050db57f957b904ebd7b89f86d90ce0,
     0xf10fab1978ca9650767ddffcbcb2d99b,
     0xd5c06386e9f25d50486762aca5d0b142,
     0x739a5c9b82d90c351e751a383b3f1e64,
     0xedb5031bc6035207d52a149bcb3fd31c,
     0x68550100000000000000000000000000,
     0x00c869726d0a6633d478d469e0ecfc78,
     0x90b5d70e6c180f481d54ab506c2eff4c,
     0x73a055c564b5c05686a9edabfcab5c82,
     0xf56bdc4fc36c06f0f887d50c3c654b28,
     0xbbbe6f7e5ed9eccd6ae031c374f92e28,
     0xa4330100000000000000000000000000,
     0x00d0af713f0db319c0e31f5633f0942d,
     0xa1ecfabef97965b337ab81c70cd3e5bb,
     0xa090cec4584ba16385e634b93605b319,
     0x6a3cea3470767e3cc8da6b07368c07a4,
     0x0eaa552836977fa639d0aa62b25a602b,
     0xc3d40600000000000000000000000000,
     0x0050c558f907e619f040d950059e2ac6,
     0xca3f30cf8007ca862af0543156fe8179,
     0x063c50365481a78ab1f20fcc33e081b2,
     0xa10a3c558c957f609e010f940d55e0a9,
     0x62acfc03f30c78a06ca8024f1563e51f,
     0x98670000000000000000000000000000,
     0x00c8c4576d0ab3f9592275ac066d26be,
     0x6a5398cdcf12a963356833f1559bc26c,
     0x7e96481dab419b89afda1466f3b344ea,
     0x580dda4c7cd5a6309b9f2552c76ad066,
     0xe2ab3685d9fc2c913a568336135fb529,
     0xcce60700000000000000000000000000,
     0x00505b723fcdd9293fc0de9a83b4da92,
     0xfb69ce4ef901f6d61ca4d596dc4f7376,
     0xca0fb0b7e620adb6e47e9ab3537e80bd,
     0x350769b525f7d39c9df203ecad3948ab,
     0x2db99fe6ec941f606fcd415a6dc9fd34,
     0x67a70c00000000000000000000000000,
     0x00c8a971d360e06194ed670565584e8d,
     0x9b06030fa36c3f2b28c3726adc341878,
     0x1865fb5941199653e3a6c1c0c328dbcf,
     0x0acab09c1a370d061e46d97e565086e5,
     0xd4b86930f030caf6b382322ca7c64d83,
     0x81870100000000000000000000000000,
     0x00d0efa8ad36b0e77139df6c55a87e47,
     0x6db5813d8fcbf966ab42f53b6aab0dec,
     0x795cce375b15aadf515b6d60cfe372be,
     0xd9aa50fd8eda6a037b1e97f3cd5685ea,
     0x77d4561bd8f3b89c6fb62a54bfa3b6da,
     0xc09e0700000000000000000000000000,
     0x00a8f13f5efbe6629b4e0b3a4e708dff,
     0xf1da3717db745ad071826bfc8fd7beb9,
     0xd8a6d3828e135ce37fbcf6cdc5369d16,
     0x749ce01affe3b56f2eb6e9b4a0e304d7,
     0xf81faf7d73b14da7051d27b8c6ff78ed,
     0x9b8b0d00000000000000000000000000,
     0x00c84472d330b0624f967f309b72d9f2,
     0xad6333f020759a63987eff515fe06522,
     0xb9691858b127cb3f984db96cf9d6b119,
     0x78903acd314cbfffa82ff03291dc340c,
     0xacd893e51fcca65cb67cebd80c3c489d,
     0xe6180600000000000000000000000000,
     0x00509b71adf666668cd5a69c1d0697b5,
     0x50b91958c2de0555688db30655d0aacd,
     0xb8567b3333c66a53ce0e83cb5aa8dc0c,
     0x2c61ef822ab4c659832a68d5665cabbd,
     0x991963b5296787c1652d546e0696b077,
     0x41150a00000000000000000000000000,
     0x00c8e9a85f5b05557cf5d3067e9ee94a,
     0x01e6f93de0676c4d303c94cd6a48e774,
     0xd4afad822abefa69033fcf74a500f3fc,
     0x1ef033b626181eca6635a4733aead756,
     0x41155ffdb4819f67ba5280797e0ff819,
     0x5b130c00000000000000000000000000,
     0x00d0ef3fea0bbc4c24370d032bf664f9,
     0x07b329972ddf3a36030f52a73986e9f7,
     0x1ff5055e26929b8681157bb2fc83d994,
     0xcb966f1d9b8107a9d31cc3f4fb8ffa02,
     0x2f13c94dc3c08a3d59fec16cca65cbb7,
     0x8ecd0000000000000000000000000000,
     0x00a871d6a00a5ab519d76a6f66c6586d,
     0xcad96170590b959b8125ec5d5085d638,
     0x6b5005adda8c6bb5373363ac36e5ec30,
     0xb8ac85cacdc012f62ea8426b9c35a882,
     0x566dc6b5da9b9931569b7276185cd642,
     0xe5660000000000000000000000000000,
     0x008087b2590de99c8efab55550c5573f,
     0x6de0e799ae14609edf037ec6d604c343,
     0xd9ac86744e47fdda2aa8e2ab9f36f0f3,
     0x4c570a30cfef013f636b82e1a16c5643,
     0x3aa7a37e6d1554f1d54f1bf879a62b05,
     0x98e70700000000000000000000000000,
     0x0050dba8eb0bda9cfe03aa90d66fd658,
     0xcdb01a2b5b730a8547ea0a9a601ed89b,
     0xad66b0c4cf743c8307e4bb72f32b9b16,
     0xc03c652e970266c3301dff38fbbcc9da,
     0xd4c0c51eeba707c68cafa6e1cdaa48ae,
     0xd5aa0000000000000000000000000000,
     0x00c8e93fa00a69fd668dd50cabb1b235,
     0xa75078a4aea009e681bdd96a064bfc4c,
     0xc7337840be2b37bfb26901cc53e67229,
     0x60360cd3f18fb3cf9bac4d0d5cecb17e,
     0x7a60ccf86a1adeac8ae45aad0a9930ee,
     0x6b810700000000000000000000000000,
     0x00d06fd658cdb01a2b5b730a8547ea0a,
     0x9a601ed89bad66b0c4cf743c8307e4bb,
     0x72f32b9b16c03c652e970266c3301dff]"

definition mx174by660_part5 :: "block list" where
  "mx174by660_part5 =
    [0x38fbbcc9dad4c0c51eeba707c68cafa6,
     0xe1cdaa48aed5aa9009e3be16786a1b75,
     0x7d410b00000000000000000000000000,
     0x00a8b1b235a75078a4aea009e681bdd9,
     0x6a064bfc4cc7337840be2b37bfb26901,
     0xcc53e6722960360cd3f18fb3cf9bac4d,
     0x0d5cecb17e7a60ccf86a1adeac8ae45a,
     0xad0a9930ee6b81a7b651d717b439fd07,
     0x54210d00000000000000000000000000,
     0x008047ea0a9a601ed89bad66b0c4cf74,
     0x3c8307e4bb72f32b9b16c03c652e9702,
     0x66c3301dff38fbbcc9dad4c0c51eeba7,
     0x07c68cafa6e1cdaa48aed5aa9009e3be,
     0x16786a1b757d419bd37f4015d2facd1a,
     0xab190600000000000000000000000000,
     0x00e081bdd96a064bfc4cc7337840be2b,
     0x37bfb26901cc53e6722960360cd3f18f,
     0xb3cf9bac4d0d5cecb17e7a60ccf86a1a,
     0xdeac8ae45aad0a9930ee6b81a7b651d7,
     0x17b439fd075421addfacb19a613556b6,
     0xe6140a00000000000000000000000000,
     0x00c869d63497604be41bccc398eca7df,
     0x9c8951439561f0b0b78ee7c765fe1998,
     0x19c97d2d68f5abec829ae1015a80d9f3,
     0xc69a862aa8ed1fac56280f7e56b9299b,
     0xcea603538571eb0be91aa78ead33285b,
     0x29380b00000000000000000000000000,
     0x00d0afb20b6a8607680166cf1b6b1aaa,
     0xa0b67fb05aa13cf859e5a66c3a9b0e4c,
     0x15c6ad2fa46b9c3ab6cea06ca5e06cb1,
     0xbf6a35e0e5346b9a4bb025f20de6614c,
     0xf6d36fcec4a8a1ca3078d85bc7f3e332,
     0xff0c0c00000000000000000000000000,
     0x00a871ead83a83b29582b3c5feaad580,
     0x97d3ac692ec196c837988731d94fbf39,
     0x13a3862ac3e0616f1dcf8fcbfc333033,
     0x92fb5ad0ea57d90535c303b400b3e78d,
     0x350d5550db3f58ad501efcac7253369d,
     0x4d070600000000000000000000000000,
     0x008087bd753c3f2ef3cfc0cc48ee6b41,
     0xab5f6517d40c0fd002cc9e37d6345441,
     0x6dff60b54279f0b3ca4dd974361d982a,
     0x8c5b5f48d738756c9d41d94ac1d9627f,
     0xd56ac0cb69d63497604be41bccc398ec,
     0xa7df0c00000000000000000000000000,
     0x00e0c1cf2a3765d3d97460aa306e7d21,
     0x5de3d4b17506652b05678bfd55ab012f,
     0xa759d35c822d916f300f63b29f7e7326,
     0x460d5586c1c3de3a9e1f97f967606624,
     0xf7b5a0d5afb20b6a8607680166cf1b6b,
     0x1aaa0000000000000000000000000000,
     0x00b044bec13c8cc97efacd9918355419,
     0x060f7beb787e5ce69f819991dcd78256,
     0xbfca2ea8191ea005983d6fac69a882da,
     0xfec16a85f2e067959bb2e96c3a305518,
     0xb7be90ae71ead83a83b29582b3c5feaa,
     0xd5800700000000000000000000000000,
     0x00d06fea743ce5c9a60178fa4d9d8ea7,
     0x3cd934004fbfa9d3f194279b06e0e937,
     0x753a9ef264d3003cfda64ec7539e6c1a,
     0x80a7dfd4e978ca934d03f0f49b3a1d4f,
     0x79b269009e7e53a7e3294f360dc0d36f,
     0xea740c00000000000000000000000000,
     0x00a8b1bd2b378cb15a0db435b677e586,
     0x3156ab81b6c6f6aedc30c66a35d0d6d8,
     0xde951bc658ad06da1adbbb72c318abd5,
     0x405b637b576e1863b51a686b6cefca0d,
     0x63ac56036d8ded5db9618cd56aa0adb1,
     0xbd2b0700000000000000000000000000,
     0x0080c7cfc0fcbcafbe16d2f0f819989f,
     0xf7d5d7421a1e3f03f3f3befa5a48c3e3,
     0x67607ede575f0b6978fc0ccccffbea6b,
     0x210d8f9f81f9795f7d2da4e1f133303f,
     0xefabaf85343c7e06e6e77df5b59086c7,
     0xcfc00c00000000000000000000000000,
     0x00e041be6156ece4d697613cc837cc8a,
     0x9ddcfa328c07f98659b1935b5f86f120,
     0xdf302b7672ebcb301ee41b66c54e6e7d,
     0x19c6837cc3acd8c9ad2fc378906f9815,
     0x3bb9f565180ff20db36227b7be0ce341,
     0xbe610600000000000000000000000000,
     0x00b0841638cb0ce34255a196d0026799,
     0x615ca82ad4125ae02c338c0b55855a42,
     0x0b9c658671a1aa504b6881b3cc302e54,
     0x156a092d709619c685aa422da105ce32,
     0xc3b85055a825b4c059661817aa0ab584,
     0x16380b00000000000000000000000000,
     0x007840290cac8a51b33ac10f28858155,
     0x316a5627f801a530b02a46cdea043fa0,
     0x140656c5a8599de00794c2c0aa1835ab,
     0x13fc8052185815a36675821f500a03ab,
     0x62d4ac4ef0034a6160558c9ad5097e40,
     0x290c0c00000000000000000000000000,
     0x00a8f1cf60c68c516b6e06a64b0368e1,
     0x916fceaae21f059ddf64ad06691e68c1,
     0xc099c81a5ba73cd6d732cc12a51898da,
     0x94ade3617cb5be0a7d00ffde9cd3d455,
     0xee79c9856a82cb66d32ae8d7de602eb6,
     0x71590d00000000000000000000000000,
     0x008047be39ab8a7f14747e93b51aa479,
     0xa0050367226b6c9df2585fcb304b9462,
     0x606a53b68e87f1d5fa2af401fc7b734e,
     0x5357b9e72517aa092e9b4daba05f7b83,
     0xb9d8c665b519b8fc69e0d5f8673063c6,
     0xa8350700000000000000000000000000,
     0x00e081160c9c89acb175ca637d2dc32c,
     0x518a81a94dd93a1ec657ebabd007f0ef,
     0xcd394d5de59e975ca826b86c36ad827e,
     0xed0de6621b97d566e0f2a78157e39fc1,
     0x8c19a3d6dc0c4c9706d0c223df9c55c5,
     0x3f0a0a00000000000000000000000000,
     0x00b0442906a63665eb78185fadaf421f,
     0xc0bf37e73475957b5e72a19ae0b2d9b4,
     0x0afab537988b6d5c569b81cb9f065e8d,
     0x7f0633668c5a7333305d1a400b8f7c73,
     0x5615ff28e8fc266b3548f3400b06ce44,
     0xd6d80a00000000000000000000000000,
     0x007800ffde9cd3d455ee79c9856a82cb,
     0x66d32ae8d7de602eb671596d062e7f1a,
     0x7835fe19cc98316acdcdc07469002d3c,
     0xf2cd5955fca3a0f39bacd520cd032d18,
     0x38135963eb94c7fa5a8659a21403539b,
     0xb2750c00000000000000000000000000,
     0x00289b4daba05f7b83b9d8c665b519b8,
     0xfc69e0d5f8673063c6a8353703d3a501,
     0xb4f0c8376755f18f82ce6fb25683340f,
     0xb460e04c648dad531eeb6b196689520c,
     0x4c6dcad6f130be5a5f853e807f6fce69,
     0xea2a0700000000000000000000000000,
     0x008087160696537bc34c1559d3f1f38c,
     0xabb9f98db5be09e6721a206d09fe55a1,
     0xc6f936b0da52076666fc83adc3482eab,
     0x6730d9d72ab46c9f062d0f4af166fdfe,
     0x8cb3995076e58a3dea824ef9ab503583,
     0xe9ac0600000000000000000000000000,
     0x00e04129deacdf9f713613caae5cb147,
     0x5dd0297f15aa66309dd518f6009b020f,
     0x1e5a18584eed0d3355644dc7cf33aee6,
     0xe637d6fa2698cb6980b425f857851ae7,
     0xdbc06a4b1d9899f10fb60e23b9ac9ec1,
     0x645f0b00000000000000000000000000,
     0x00b004ffaa50e37c1b586da9033333fe,
     0xc1d6612497d53398ec6b155ab64f8396,
     0x07a578b37e7fc6d94c28bb72c51e7541,
     0xa7fc55a89ac1745663d8036c0a3c7868,
     0x616039b537cc5491351d3fcfb89a9bdf,
     0x58eb0b00000000000000000000000000,
     0x0078804d81070f2d0c2ca7f686992ab2]"

definition mx174by660_part6 :: "block list" where
  "mx174by660_part6 =
    [0xa6e3e7195773f31b6b7d13cce53440da,
     0x12fcab428df36d60b5a50eccccf8075b,
     0x87915c56cf60b2af5568d93e0d5a1e94,
     0xe2cdfafd196733a1ecca157bd4059df2,
     0x57a10a00000000000000000000000000,
     0x0028dba741cb8352bc59bf3fe36c2694,
     0x5db9628fbaa053fe2a54cd603aab31ec,
     0x0136051e3cb430b09cda1b66aac89a8e,
     0x9f675ccdcd6facf54d3097d300694bf0,
     0xaf0a35ceb781d5963a3033e31f6c1d46,
     0x72590d00000000000000000000000000,
     0x00e0721a206d09fe55a1c6f936b0da52,
     0x076666fc83adc3482eab6730d9d72ab4,
     0x6c9f062d0f4af166fdfe8cb3995076e5,
     0x8a3dea824ef9ab503583e9acc6b007d8,
     0x1478f0d0c2c0726a6f98a9226b3a7e9e,
     0x71350700000000000000000000000000,
     0x00e001ff80c703fe018f07fc031e0ff8,
     0x073c1ef00f783ce01ff078c03fe0f180,
     0x7fc0e301ff80c703fe018f07fc031e0f,
     0xf8073c1ef00f783ce01ff078c03fe0f1,
     0x807fc0e301ff80c703fe018f07fc031e,
     0x0ff80700000000000000000000000000,
     0x00b0844d416b099b82d6123605ad256c,
     0x0a5a4bd814b496b029682d6153d05ac2,
     0xa6a0b5844d416b099b82d6123605ad25,
     0x6c0a5a4bd814b496b029682d6153d05a,
     0xc2a6a0b5844d416b099b82d6123605ad,
     0x256c0a00000000000000000000000000,
     0x0078c0a721fd804f43fa019f86f4033e,
     0x0de9077c1ad20ff834a41ff069483fe0,
     0xd3907ec0a721fd804f43fa019f86f403,
     0x3e0de9077c1ad20ff834a41ff069483f,
     0xe0d3907ec0a721fd804f43fa019f86f4,
     0x033e0d00000000000000000000000000,
     0x00285b1a1856b63430ac6c696058d9d2,
     0xc0b0b2a58161654b03c3ca960686952d,
     0x0d0c2b5b1a1856b63430ac6c696058d9,
     0xd2c0b0b2a58161654b03c3ca96068695,
     0x2d0d0c2b5b1a1856b63430ac6c696058,
     0xd9d20000000000000000000000000000,
     0x00e0b2d514ca65ab2994cb56532897ad,
     0xa6502e5b4da15cb69a42b96c358572d9,
     0x6a0ae5b2d514ca65ab2994cb56532897,
     0xada6502e5b4da15cb69a42b96c358572,
     0xd96a0ae5b2d514ca65ab2994cb565328,
     0x97ad0600000000000000000000000000,
     0x0030dd6b136cbad726d874af4db0e95e,
     0x9b60d3bd36c1a67b6d824df7da049bee,
     0xb50936dd6b136cbad726d874af4db0e9,
     0x5e9b60d3bd36c1a67b6d824df7da049b,
     0xeeb50936dd6b136cbad726d874af4db0,
     0xe95e0b00000000000000000000000000,
     0x00b0c4a719c6e5d79a61acac9eb271d9,
     0x5aecac813913f636b07eb550051ed814,
     0xd265b35a82270bd5f925b7a0cffb47e5,
     0x54913acee634df6f8607ff40fb803428,
     0xd474f59dc15735378c51eb9819ca8699,
     0xda7e0600000000000000000000000000,
     0x0078401a146abafacee0ab9a1bc6a875,
     0xcc0c65c34c6d3f1b588d4b013c4b7c9a,
     0x615c7ead19c6caea291b97adc5ce1a98,
     0x33616f03eb570b55e0814d215d36ab25,
     0x78b2509d5f720bfabc7f544e15a9e36c,
     0x4ef30d00000000000000000000000000,
     0x00289bd5123c59a8ce2fb9057dde3f2a,
     0xa78ad47136a7f97e333cf807da07a441,
     0xa1a6abef0cbeaab9618c5ac7cc5036cc,
     0xd4f6b381d5b814c0b3c4a719c6e5d79a,
     0x61acac9eb271d95aecac813913f636b0,
     0x7eb50000000000000000000000000000,
     0x00e0f26bcd3056564fd9b86c2d76d6c0,
     0x9c097b1b58bf5aa8020f6c0ae9b2592d,
     0xc19385eafc925bd0e7fda372aa481d67,
     0x739aef37c3837fa07d401a146abaface,
     0xe0ab9a1bc6a875cc0c65c34c6d3f1b58,
     0x8d4b0100000000000000000000000000,
     0x00305d7d67f055cd0d63d43a6686b261,
     0xa6b69f0dacc6a5009e253ecd302ebfd6,
     0x0c6365f5948dcbd662670dcc99b0b781,
     0xf5ab852af0c0a6902e9bd5123c59a8ce,
     0x2fb9057dde3f2aa78ad47136a7f97e33,
     0x3cf80700000000000000000000000000,
     0x00982c54e797dc823eef1f955345ea38,
     0x9bd37cbf191efc03ed03d2a050d3d577,
     0x065fd5dc3046ad6366281b666afbd9c0,
     0x6a5c0ae059e2d30ce3f26bcd3056564f,
     0xd9b86c2d76d6c09c097b1b58bf5aa802,
     0x0f6c0a00000000000000000000000000,
     0x007880d5ccf0d582165bd99cd56f2940,
     0x5bb6d7ce20b96c6546ea0c5c63fe419a,
     0xcbf59d9f7175ac0a7b0f0c1e366598e9,
     0xa03ae551572e133f7b330f3eadd0c9b2,
     0x7a18ff00b3daf25d054ba421c163d5dc,
     0xf3b20600000000000000000000000000,
     0x0028db6b67905cb632237506ae31ff20,
     0xcde5facecfb83a5685bd07060f9b32cc,
     0x74509df2a82b97899fbd99079f56e864,
     0x593d8c7f80596df9ae8225d290e0b16a,
     0xee795983594eb500bc0758cd0c5f2d68,
     0xb1950d00000000000000000000000000,
     0x00e0727de7675c1dabc2de0383874d19,
     0x663aa84e79d495cbc4cfdecc834f2b74,
     0xb2ac1ec63fc0acb67c57c1126948f058,
     0x35f7bcacc12ca75a00de03ac6686af16,
     0xb4d8cae6ac7e4b01dab2bd7606c9652b,
     0x33520700000000000000000000000000,
     0x00301d54a73ceaca65e2676fe6c1a715,
     0x3a59560fe31f60565bbeab6089342478,
     0xac9a7b5ed66096532d00ef015633c357,
     0x0b5a6c657356bfa5006dd95e3b83e4b2,
     0x9519a933708df907692ed7777ec6d5b1,
     0x2aec0d00000000000000000000000000,
     0x00982cab87f10f30ab2ddf55b0441a12,
     0x3c56cd3d2f6b30cba91680f700ab99e1,
     0xab052db6b239abdf5280b66caf9d4172,
     0xd9ca8cd419b8c6fc833497eb3b3fe3ea,
     0x5815f61e183c6cca30d34175caa3ae5c,
     0x267e0600000000000000000000000000,
     0x0018abe69e973598e5540bc07b80d5cc,
     0xf0d582165bd99cd56f29405bb6d7ce20,
     0xb96c6546ea0c5c63fe419acbf59d9f71,
     0x75ac0a7b0f0c1e366598e9a03ae55157,
     0x2e133f7b330f3eadd0c9b27a18ff00b3,
     0xdaf20d00000000000000000000000000,
     0x00285b7da7fc0f98e9977f0c9bace68a,
     0x9dba81f1200d6648ae8e33916fe095ad,
     0xbe53fe07ccf4cb3f864d5673c54eddc0,
     0x789006332457c799c837f0ca56df29ff,
     0x0366fae51fc326abb962a76e603c4883,
     0x19920b00000000000000000000000000,
     0x00e03254879135ced6d8a60a1d6b4199,
     0x61ef375bc26a33306ee5d4a605d07219,
     0xaac3c81a676b6c53858eb5a0ccb0f79b,
     0x2d61b51918b7726ad30268b90cd56164,
     0x8db335b6a942c75a5066d8fbcd96b0da,
     0x0c8c0b00000000000000000000000000,
     0x00301dab9fa76c03c3e3d309fe2a5b55,
     0xf1b32a3ce0b5f31b3598735a0a489b8e,
     0xd5cf53b681e1f1e9047f95adaaf85915,
     0x1ef0daf98d1acc392d05a44dc7eae729,
     0xdbc0f0f87482bfca5655fcac0a0f78ed,
     0xfc460d00000000000000000000000000,
     0x0098ace68a9dba81f1200d6648ae8e33,
     0x916fe095adbe53fe07ccf4cb3f864d56,
     0x73c54eddc0789006332457c799c837f0,
     0xca56df29ff0366fae51fc326abb962a7,
     0x6e603c48831992abe34ce41b7865abef]"

definition mx174by660_part7 :: "block list" where
  "mx174by660_part7 =
    [0x94ff0100000000000000000000000000,
     0x00186b419961ef375bc26a33306ee5d4,
     0xa605d07219aac3c81a676b6c53858eb5,
     0xa0ccb0f79b2d61b51918b7726ad30268,
     0xb90cd561648db335b6a942c75a5066d8,
     0xfbcd96b0da0c8c5b39b56901b45c86ea,
     0x30b20600000000000000000000000000,
     0x00f82a5b55f1b32a3ce0b5f31b359873,
     0x5a0a489b8ed5cf53b681e1f1e9047f95,
     0xadaaf859151ef0daf98d1acc392d05a4,
     0x4dc7eae729dbc0f0f87482bfca5655fc,
     0xac0a0f78edfc460de69c9602d2a663f5,
     0xf3940d00000000000000000000000000,
     0x00e032ab8b6def2a940daacf4bdd9b1f,
     0x50df61287b609678ed94b366601e586d,
     0x7effe02c3cd2308351c3acc69f368371,
     0xc1ac5f9b2638b995cb29ff14fa551dab,
     0xad140c1b2b5b33a105484fb6a0aac837,
     0x684d0700000000000000000000000000,
     0x00309de698f133e07199d5c5b67715ca,
     0x06d5e7a5eecd0fa8ef30943d304bbc76,
     0xca5933300fac36bf7f70161e6998c1a8,
     0x6156e34f9bc1b860d6af4d139cdccae5,
     0x947f0afdaa8ed5560a868d95ad99d002,
     0xa4270b00000000000000000000000000,
     0x00986c4155916fd09a4e73ccf819f0b8,
     0xccea62dbbb0a6583eaf352f7e607d477,
     0x18ca1e98255e3be5ac199807569bdf3f,
     0x380b8f34cc60d430abf1a7cd605c30eb,
     0xd7a6094e6ee572ca3f857e55c76a2b05,
     0xc3c60a00000000000000000000000000,
     0x00182b5b33a105484fb6a0aac837684d,
     0xa73966fc0c785c6675b1ed5d85b241f5,
     0x79a97bf303ea3b0c650fcc12af9d72d6,
     0x0ccc03abcdef1f9c85471a66306a98d5,
     0xf8d366302e98f56bd30427b77239e59f,
     0x42bf0a00000000000000000000000000,
     0x00f8aa8ed5560a868d95ad99d002a427,
     0x5b5055e41bb4a6d31c337e063c2eb3ba,
     0xd8f6ae42d9a0fabcd4bdf901f51d86b2,
     0x076689d74e396b06e681d5e6f70fcec2,
     0x230d331835cc6afc69331817ccfab569,
     0x82930b00000000000000000000000000,
     0x00486ee572ca3f857e55c76a2b05c3c6,
     0xcad64c6801d2932da82af20d5ad3698e,
     0x193f031e97595d6c7b57a16c507d5eea,
     0xdefc80fa0e43d903b3c46ba79c3503f3,
     0xc06af3fb0767e19186198c1a6635feb4,
     0x198c0b00000000000000000000000000,
     0x00305d4133510a852617cc354ec3fcb2,
     0x36b00740b5d83f03ed64d9aa36fe25d8,
     0xb8308387d5a6acec37978dd5ccc837a4,
     0xc7aae39cdad40ca3e62c0f5e3b8cd455,
     0x81cb9a53851618f6d5cae9f7d333f887,
     0x812d0100000000000000000000000000,
     0x00982c5bd5c6bf041b1766f0b0da9495,
     0xfde6b2b19a19f986f458759c539b9a61,
     0xd49ce5c16b8791ba2a705973aad002c3,
     0xbe5a39fd7e7a06ff30b025eafb3c7b03,
     0xcf7405cd4429149a5c30d7380df3cbda,
     0xc01e0000000000000000000000000000,
     0x0018ab8e736a53338c9ab33c78ed3052,
     0x57052e6b4e155a60d8572ba7df4fcfe0,
     0x1f06b6447d9f676fe099aea099288542,
     0x930be61aa7617e591bd803a05aec9f81,
     0x76b26c551bff126c5c98c1c36a5356f6,
     0x9bcb0600000000000000000000000000,
     0x00f86ae5f4fbe919fcc3c096a8eff3ec,
     0x0d3cd3153413a5506872c15ce334cc2f,
     0x6b037b00548bfd33d04e96ad6ae35f82,
     0x8d0b3378586dcaca7e73d958cd8c7c43,
     0x7aac3acea94dcd306acef2e0b5c3485d,
     0x15b80c00000000000000000000000000,
     0x00482e986b9c86f9656d600f806ab17f,
     0x06dac9b2556dfc4bb07161060fab4d59,
     0xd96f2e1bab99916f488f55c739b5a919,
     0x46cd591ebc7618a9ab029735a70a2d30,
     0xecab95d3efa767f00f035ba2becfb337,
     0xf04c0700000000000000000000000000,
     0x00302ecce061b5292bfbcd65633533f2,
     0x0de9b1ea38a73635c3a839cb83d70e23,
     0x7555e0b2e654a105867db572fafdf40c,
     0xfe61604bd4f779f6069ee90a9a895228,
     0x34b960ae711ae697b5813d00aac5fe19,
     0x68270b00000000000000000000000000,
     0x0098ac8ef59b8629a70e7893d5b17ed3,
     0x30e5d4016fb23ad66f1aa69c3ae04d56,
     0xc7fa4dc3945307bcc9ea58bf699872ea,
     0x8037591deb370d534e1df026ab63fda6,
     0x61caa903de6475acdf344c3975c09bac,
     0x8ef50b00000000000000000000000000,
     0x00186be56a6cb561d81bb463ad5c8dad,
     0x360c7b8376ac95abb1d586616fd08eb5,
     0x7235b6da30ec0ddab156aec6561b86bd,
     0x413bd6cad5d86ac3b03768c75ab91a5b,
     0x6d18f606ed582b5763ab0dc3dea01d6b,
     0xe56a0c00000000000000000000000000,
     0x00f82a98e1f1dae7fd0cd25f05333c5e,
     0xfbbc9f41faab6086c76b9ff733487f15,
     0xccf078edf37e06e9af82191eaf7ddecf,
     0x20fd5530c3e3b5cffb19a4bf0a6678bc,
     0xf6793f83f457c10c8fd73eef6790fe2a,
     0x98e10100000000000000000000000000,
     0x00482ecc7850df62e79b61c985190fea,
     0x5bec7c332cb930e3417d8b9d6f862517,
     0x663ca86fb1f3cdb0e4c28c07f52d76be,
     0x19965c98f1a0bec5ce37c3920b331ed4,
     0xb7d8f966587261c683fa163bdf0c4b2e,
     0xcc780000000000000000000000000000,
     0x00302e672d0155666841a1c6e5ac25a0,
     0xca0c2d28d4b89cb5045499a105851a97,
     0xb396802a33b4a050e372d61250658616,
     0x146a5cce5a02aaccd082428dcb594b40,
     0x95195a50a871396b09a832430b0a352e,
     0x672d0100000000000000000000000000,
     0x0018b5811fc06a559422c1a336f00358,
     0xad8a522478d4067e00ab55518a048fda,
     0xc00f60b52a4a91e0511bf801ac564529,
     0x123c6a033f80d5aa284582476de007b0,
     0x5a15a548f0a80dfc0056aba214091eb5,
     0x811f0000000000000000000000000000,
     0x00182b9879005555f06f06ca06de58c1,
     0xcc03a8aa827f335036f0c60a661e4055,
     0x15fc9b81b281375630f300aaaae0df0c,
     0x940dbcb1829907505505ff66a06ce08d,
     0x15cc3c80aa2af8370365036fac60e601,
     0x54550100000000000000000000000000,
     0x00f82acc2cc1ea4cd8747ea903ed5761,
     0x66095667c2a6f34b1d68bf0a334bb03a,
     0x13369d5fea40fb55985982d599b0e9fc,
     0x5207daafc2cc12acce844de7973ad07e,
     0x1566966075266c3abfd481f6ab30b304,
     0xab330100000000000000000000000000,
     0x00482e671fa039b57d7acaf686747239,
     0xfb00cda9edd353b637a493cbd907684e,
     0x6d9f9eb2bd219d5cce3e40736afbf494,
     0xed0de9e472f6019a53dba7a76c6f4827,
     0x97b30fd09cda3e3d657b433ab99c7d80,
     0xe6d40600000000000000000000000000,
     0x0030ae81cb56d09ca661183f6398710d,
     0x5cb682e6340dc3f819c38c6be0b21534,
     0xa76918c6cf18665c0397ada0394dc330,
     0x7ec630e31ab86c05cd691a86f1338619,
     0xd7c0652b684ed3308c9f31ccb8062e5b,
     0x41730a00000000000000000000000000,
     0x0018f5c0b8cc56fd5aed79f956e8a807,
     0xc665b6ead76acfcbb742473d302eb355,
     0xbf567b5ebe153aea817199adfab5daf3]"

definition mx174by660_part8 :: "block list" where
  "mx174by660_part8 =
    [0xf2add0510f8ccb6cd5afd59e976f858e,
     0x7a605c66ab7eadf6bc7c2b74d403e332,
     0x5bf50b00000000000000000000000000,
     0x00f8c79b4da7e31abfb6d85a48f03fde,
     0x6c3a1dd7f8b5c5d64282fff166d3e9b8,
     0xc6af2db61612fc8f379b4ec7357e6db1,
     0xb590e07fbcd9743aaef16b8bad8504ff,
     0xe3cda6d3718d5f5b6c2d24f81f6f369d,
     0x8e6b0c00000000000000000000000000]"

definition mx174by660 :: "u8 list" where
  "mx174by660 = concat (map line_bytes (mx174by660_part1 @ mx174by660_part2 @ mx174by660_part3 @ mx174by660_part4 @ mx174by660_part5 @ mx174by660_part6 @ mx174by660_part7 @ mx174by660_part8))"

definition mx210by732_part1 :: "block list" where
  "mx210by732_part1 =
    [0xec04000000000000dc02000000000000,
     0x000ff0000ff0000ff0000ff0000ff000,
     0x0ff0000ff0000ff0000ff0000ff0000f,
     0xf0000ff0000ff0000ff0000ff0000ff0,
     0x000ff0000ff0000ff0000ff0000ff000,
     0x0ff0000ff0000ff0000ff0000ff0000f,
     0xf0000ff0000ff0000ff0000f00000000,
     0xc00cccc00cccc00cccc00cccc00cccc0,
     0x0cccc00cccc00cccc00cccc00cccc00c,
     0xccc00cccc00cccc00cccc00cccc00ccc,
     0xc00cccc00cccc00cccc00cccc00cccc0,
     0x0cccc00cccc00cccc00cccc00cccc00c,
     0xccc00cccc00cccc00cccc00c00000000,
     0xa00aaaa00aaaa00aaaa00aaaa00aaaa0,
     0x0aaaa00aaaa00aaaa00aaaa00aaaa00a,
     0xaaa00aaaa00aaaa00aaaa00aaaa00aaa,
     0xa00aaaa00aaaa00aaaa00aaaa00aaaa0,
     0x0aaaa00aaaa00aaaa00aaaa00aaaa00a,
     0xaaa00aaaa00aaaa00aaaa00a00000000,
     0x90066990066990066990066990066990,
     0x06699006699006699006699006699006,
     0x69900669900669900669900669900669,
     0x90066990066990066990066990066990,
     0x06699006699006699006699006699006,
     0x69900669900669900669900600000000,
     0x0cccc00cccc00cccc00cccc00cccc00c,
     0xccc00cccc00cccc00cccc00cccc00ccc,
     0xc00cccc00cccc00cccc00cccc00cccc0,
     0x0cccc00cccc00cccc00cccc00cccc00c,
     0xccc00cccc00cccc00cccc00cccc00ccc,
     0xc00cccc00cccc00cccc00c0c00000000,
     0x0aaaa00aaaa00aaaa00aaaa00aaaa00a,
     0xaaa00aaaa00aaaa00aaaa00aaaa00aaa,
     0xa00aaaa00aaaa00aaaa00aaaa00aaaa0,
     0x0aaaa00aaaa00aaaa00aaaa00aaaa00a,
     0xaaa00aaaa00aaaa00aaaa00aaaa00aaa,
     0xa00aaaa00aaaa00aaaa00a0a00000000,
     0x09966009966009966009966009966009,
     0x96600996600996600996600996600996,
     0x60099660099660099660099660099660,
     0x09966009966009966009966009966009,
     0x96600996600996600996600996600996,
     0x60099660099660099660090600000000,
     0x0000cca00a690caca009063c6006c39c,
     0x6a60039c5ca005a5aca6c905aa9c6900,
     0xfffc6ca39ff63ca399f90ca36ca90c55,
     0x6caa63956c5c639a9f3c6fc5af3a95a5,
     0xaf39c5a636f9c63ff6f6c35ff55a9355,
     0x500a95ac60090f3c60090f0000000000,
     0x0000aa90c6c00a9a60c0036630cca906,
     0x36c0c9055a50ca6a9a5ca0ca9906f0cf,
     0xcf36fa69cf339a99cf30ca96ca50c5a6,
     0x3a56c9c635a6f9c9f356fcaa5359fa9a,
     0x536c6a936ffc636f3ffc55af355905a5,
     0x50c90a96f0c00396f000c30f00000000,
     0x0000690caca009063c6006c39c6a6003,
     0x9c5ca005a5aca6c905aa9c6900fffc6c,
     0xa39ff63ca399f90ca36ca90c556caa63,
     0x956c5c639a9f3c6fc5af3a95a5af39c5,
     0xa636f9c63ff6f6c35ff55a9355500a95,
     0xac60090f3c60090f30fca90300000000,
     0x00c0c00a9a60c0036630cca90636c0c9,
     0x055a50ca6a9a5ca0ca9906f0cfcf36fa,
     0x69cf339a99cf30ca96ca50c5a63a56c9,
     0xc635a6f9c9f356fcaa5359fa9a536c6a,
     0x936ffc636f3ffc55af355905a550c90a,
     0x96f0c00396f000c39f3a900900000000,
     0x00a0a009063c6006c39c6a60039c5ca0,
     0x05a5aca6c905aa9c6900fffc6ca39ff6,
     0x3ca399f90ca36ca90c556caa63956c5c,
     0x639a9f3c6fc5af3a95a5af39c5a636f9,
     0xc63ff6f6c35ff55a9355500a95ac6009,
     0x0f3c60090f30fca90399cc0000000000,
     0x009060c0036630cca90636c0c9055a50,
     0xca6a9a5ca0ca9906f0cfcf36fa69cf33,
     0x9a99cf30ca96ca50c5a63a56c9c635a6,
     0xf9c9f356fcaa5359fa9a536c6a936ffc,
     0x636f3ffc55af355905a550c90a96f0c0,
     0x0396f000c39f3a90c90caa0000000000,
     0x00003c6006c39c6a60039c5ca005a5ac,
     0xa6c905aa9c6900fffc6ca39ff63ca399,
     0xf90ca36ca90c556caa63956c5c639a9f,
     0x3c6fc5af3a95a5af39c5a636f9c63ff6,
     0xf6c35ff55a9355500a95ac60090f3c60,
     0x090f30fca90399cca00a990000000000,
     0x0000aa0c9c6060c6a9030c5aac56a069,
     0xc0cf9f369a0c93ca6c5ac963caf3af5a,
     0xfac5966ff6f65593a55060c9030f903a,
     0xcc90096acc9533603a655305f36c536f,
     0x5939c30033a65c9c59acaf56333f963f,
     0x569c356aac590a655cafff0000000000,
     0x0000690a0a3c306c60c905a59aac9cf0,
     0x6fa3cf93f9ca06553a665cf969c553a9,
     0x396ac33f3ffc5a0595acf06009c30f99,
     0xaac0fc396a06553f653a69f6f5f5a533,
     0x6f9069cf6593aafa6c55636f5693cf9c,
     0x53c69a355aa0f5fa659fff0f00000000,
     0x00c0c00906669c3ac0a0c56a059a06fc,
     0xfc69a3c930a9cca6953ca63cffaaa55f,
     0x6cf9666f5f35590a05963cf000a9c30c,
     0x99a0c65c3903a653365530cf36f59695,
     0x330c3063cac599c5fa6a35f363f963c5,
     0x59a3c69aa550c6f5fa0f3f0300000000,
     0x00a0a0c003c306965c50aac9ca09ff36,
     0xfa3c99af6c50a563c6959f563c959aa3,
     0x36fcf3c3af5550c90a0f9630fc90a90a,
     0xcc9fa36650f553a693665f5f5f3af306,
     0x99f65c36a9aacf5635f66635f9cc3965,
     0xac59a3055aaf5ff6f9ff9f0900000000,
     0x00906060c6a9030c5aac56a069c0cf9f,
     0x369a0c93ca6c5ac963caf3af5afac596,
     0x6ff6f65593a55060c9030f903acc9009,
     0x6acc9533603a655305f36c536f5939c3,
     0x0033a65c9c59acaf56333f963f569c35,
     0x6aac590a655caffff0330f0f00000000,
     0x00003c306c60c905a59aac9cf06fa3cf,
     0x93f9ca06553a665cf969c553a9396ac3,
     0x3f3ffc5a0595acf06009c30f99aac0fc,
     0x396a06553f653a69f6f5f5a5336f9069,
     0xcf6593aafa6c55636f5693cf9c53c69a,
     0x355aa0f5fa659fffff99030300000000,
     0x0000669c3ac0a0c56a059a06fcfc69a3,
     0xc930a9cca6953ca63cffaaa55f6cf966,
     0x6f5f35590a05963cf000a9c30c99a0c6,
     0x5c3903a653365530cf36f59695330c30,
     0x63cac599c5fa6a35f363f963c559a3c6,
     0x9aa550c6f5fa0f3ff3f0090900000000,
     0x0000690906c3030ca5050aff9f96f9a9,
     0xac63636ac5a5af36f6f65a0a050f0f00,
     0x999990a333306555505f6f69903033a9,
     0x595c63f3f3cc9c9535a5a05ffff09909,
     0x09aa0a0a6606065a9a9c06363a9acac6,
     0xa6c6c5f353596cfcf355050500000000,
     0x00c0c0c0c3a9c9c56acac9cfcfc33050,
     0x55c9f9f9aa9a936f3f3c59c9ca03c3cf,
     0x0ccccf95555f36666f53333f0c5c569c,
     0x6c6535353956c6ca9a5a5faffffff000,
     0x0f690906c3030ca5050aff9f96f9a9ac,
     0x63636ac5a5af36f6f65a0a0500000000,
     0x00a0a0606660a0a5c96960a3a3a96c6c,
     0x6a5c3c3f95c5c63f5f5550606909a9a3,
     0x0a6a6c06a6a393f3fca59593f6a6acfa,
     0xfafa66969f53a3a605656c9f3f3330c0,
     0xccc0c0c3a9c9c56acac9cfcfc3305055,
     0xc9f9f9aa9a936f3f3c59c90a00000000,
     0x009060303cc0505aa0f0ff69999fca3a,
     0x36a6565cfa6a636fafa550f0f0009099,
     0x09393a03535605f5f596060933939ac5]"

definition mx210by732_part2 :: "block list" where
  "mx210by732_part2 =
    [0x35363fcfcc5959530afaf50f9f9990a0,
     0xaaa0606660a0a5c96960a3a3a96c6c6a,
     0x5c3c3f95c5c63f5f5550600900000000,
     0x00003c9c9a5caca69cfcfc3c0c035595,
     0x9c9fafaa39f9f6c39395ac3c30fcccc0,
     0xfc5c59f56563f63635f3c3c065c5c956,
     0x5653936365acaca9f5f5faff0f0ff090,
     0x9660303cc0505aa0f0ff69999fca3a36,
     0xa6565cfa6a636fafa550f00000000000,
     0x00006606065a9a9c06363a9acac6a6c6,
     0xc5f353596cfcf35505059696903aaaa0,
     0xc666603a3a39cf5f5a39696fcaaaafaf,
     0x6f66f939356a5a50c6f6f9330303cc0c,
     0x0c3c9c9a5caca69cfcfc3c0c0355959c,
     0x9fafaa39f9f6c39395ac3c0000000000,
     0x0000c3030ca5050aff9f96f9a9ac6363,
     0x6ac5a5af36f6f65a0a050f0f00999990,
     0xa333306555505f6f69903033a9595c63,
     0xf3f3cc9c9535a5a05ffff0990909aa0a,
     0x0a6606065a9a9c06363a9acac6a6c6c5,
     0xf353596cfcf355050596960000000000,
     0x00c0c06036c0ac96069fc6306c3aa6af,
     0x5a6cf6365960f900cca0c6335036f3fc,
     0x96c360ca596c3596cf59ac59c6fff0f0,
     0xc0aca0309c5c9a0cffcfa36c3a969f53,
     0xa9363f5c50f030fcaa90a355af93f535,
     0xf3693fa96cf566cf6cac5a0000000000,
     0x00a0a0309c5c9a0cffcfa36c3a969f53,
     0xa9363f5c50f030fcaa90a355af93f535,
     0xf3693fa96cf566cf6cac5aa05fff3f30,
     0xa09a609c0a5a05cacfa399ca95ccf3a5,
     0x9f6f5fa5503c903a99c095a653053655,
     0x3930539cfa3a3f63356aa50000000000,
     0x0090609c0a5a05cacfa399ca95ccf3a5,
     0x9f6f5fa5503c903a99c095a653053655,
     0x3930539cfa3a3f63356aa550af3f9390,
     0x90063c0606a5ca69a3990f55c665c59a,
     0xc33faf95ac960099cc6f065366f65f6a,
     0x905ca6fa3556933995355a0f00000000,
     0x00003c0606a5ca69a3990f55c665c59a,
     0xc33faf95ac960099cc6f065366f65f6a,
     0x905ca6fa3556933995355a6f9f9f09f0,
     0x0c0c6603cc6a69f0690cc3a663faaac5,
     0x666f9305960fc00c6a3c036533cf6f39,
     0x0ca69cc55663f99cc59a650c00000000,
     0x00006603cc6a69f0690cc3a663faaac5,
     0x666f9305960fc00c6a3c036533cf6f39,
     0x0ca69cc55663f99cc59a65fc0f0f0fcc,
     0x0a0ac3c9a5c9f0ff3ccaa663f939956a,
     0xf3c305050fc3af0a395af53a595f339f,
     0xf693ca566ff6ccc6aa05fa0500000000,
     0x0000c3c9a5c9f0ff3ccaa663f939956a,
     0xf3c305050fc3af0a395af53a595f339f,
     0xf693ca566ff6ccc6aa05faf5ff0303aa,
     0x09c6a9a055a0fc3c9aa95cc93c5ffaf9,
     0xf6550ac503a993095c693a5560539503,
     0x33c5a9aff33356a3560af50a00000000,
     0x00c0a9a055a0fc3c9aa95cc93c5ffaf9,
     0xf6550ac503a993095c693a5560539503,
     0x33c5a9aff33356a3560af5fa33090969,
     0xc0636050aa9c369af950655c56ac39fc,
     0xf35ac96a0990c9fc66306566ffa506c9,
     0x65aa5f6335995359a3f5f60900000000,
     0x00a0a09c0aa569f03ca96c5cafaa365f,
     0x95ac0fa00a5c3965f33cf330a3fa56f3,
     0xcca3a6f5ff3030900666c955a036ca30,
     0x3ac6f39a636f05c50390a9c6555f055f,
     0x3a0c93aaaf35c9595a50af9f09cc0966,
     0x60ac06ffa30955633a95f90600000000,
     0x00906006c66af03f9a5035a653996faf,
     0x0596c39f09665036f555395c96c56f36,
     0x565953c6ff9f900c0cc3a0a59c9fa66c,
     0x956cc5c5f6c30a6509cc90a3a663f66f,
     0x99f6c55963966faca5609f0f0faac033,
     0xc09acccf99cfa6f959fafc0300000000,
     0x00003c03acc9fc9cf96c9a9fa5cf3f93,
     0x050fa9c3fc33a093366590a6cc56f393,
     0x53aca95f3f03f00acaa9509a06cf93ca,
     0xc6f5aa6af355c9fa00aac0955336cf33,
     0x0f33aa6f35cf3c6a5aff0f0303696096,
     0x5c056aa30ca3633caf39f60600000000,
     0x000066c955a036ca303ac6f39a636f05,
     0xc50390a9c6555f055f3a0c93aaaf35c9,
     0x595a50af9f09cc096660ac06ffa30955,
     0x633a95f9f65a6039fc99600665535f95,
     0xc36559fc6663953565fcff09c9c0300c,
     0x5acaf969ca56c9565c6c3f0c00000000,
     0x0000c3a0a59c9fa66c956cc5c5f6c30a,
     0x6509cc90a3a663f66f99f6c55963966f,
     0xaca5609f0f0faac033c09acccf99cfa6,
     0xf959fafc3359f0903acc3f033a695306,
     0x69ca6c353f39c59afaf53300afa09c0a,
     0xa569f03ca96c5cafaa365f0500000000,
     0x00c0a9509a06cf93cac6f5aa6af355c9,
     0xfa00aac0955336cf330f33aa6f35cf3c,
     0x6a5aff0f03036960965c056aa30ca363,
     0x3caf39f656503c00996a5cf555f0a5c3,
     0x30a9fa5a939ca505f5fa99c09c6006c6,
     0x6af03f9a5035a653996faf0500000000,
     0x006060ac06ffa30955633a95f9f65a60,
     0x39fc99600665535f95c36559fc666395,
     0x3565fcff09c9c0300c5acaf969ca56c9,
     0x565c6c3fac5096c00c396a3a66ff9669,
     0x5f9c3566f9c65a0af6f9f0a00a3c03ac,
     0xc9fc9cf96c9a9fa5cf3f930500000000,
     0x009060035ca09f96ca635afaf6a6500f,
     0x90093350056f0933593c3f9c550aff90,
     0x900a6a609a6ca3ca665c53c93f056509,
     0xaa60063af9a569affa6f96535a609f03,
     0xc3c09cca6afccc3095fcaaf936593cc0,
     0x0c5c593636350cc56935630500000000,
     0x00003cc9a59ccf0355f9a9393f9cacc3,
     0xcffc556ff633cf656c5593c6aaf5ff0f,
     0xf00936c005fa69a93ca6a56f6f0af500,
     0x99300355f0963093c5f3c359a5f00f09,
     0xa9a006a6c936aa6cc63595fc535096a0,
     0x0a66a0935f9af6aaff66390500000000,
     0x000066a09506a3c9a63c5f6c5f0596a9,
     0xa3c6a633cf9563cafa6af9a356c63f03,
     0xccc0935ccaf93c50959f9af3c3c93afc,
     0xcc5ff5663ff35cc6563569ac5affff00,
     0x9f60035ca09f96ca635afaf6a6500f90,
     0x093350056f0933593c3f9c0500000000,
     0x0000c3500aff99af6356ac36af050f90,
     0x99a353565f0639a935f6cc59a35f9f09,
     0xaa60065a69309a6ccaf3c5f65560993a,
     0x6a6c3af35c39a6acaf963f6a65fc33c0,
     0x0c3cc9a59ccf0355f9a9393f9cacc3cf,
     0xfc556ff633cf656c5593c60a00000000,
     0x00c0a9acc6cf0c53c9af9a6f93c503cc,
     0xc095656353c3509c563356ac59af0f0f,
     0x69300ca5f09ff93a66c56af35af00099,
     0x393a65f56590935a63cf9c35faf599a0,
     0x0a66a09506a3c9a63c5f6c5f0596a9a3,
     0xc6a633cf9563cafa6af9a30600000000,
     0x0060609a6ca3ca665c53c93f056509aa,
     0x60063af9a569affa6f96535a609f03c3,
     0xc09cca6afccc3095fcaaf936593cc00c,
     0x5c593636350cc5693563c59af5faf090,
     0x06c3500aff99af6356ac36af050f9099,
     0xa353565f0639a935f6cc590300000000,
     0x0030c005fa69a93ca6a56f6f0af50099,
     0x300355f0963093c5f3c359a5f00f09a9,
     0xa006a6c936aa6cc63595fc535096a00a,
     0x66a0935f9af6aaff6639a505f639300c,
     0xcca9acc6cf0c53c9af9a6f93c503ccc0,
     0x95656353c3509c563356ac0900000000,
     0x00003ca005ff0c635ca5ffc36009995c]"

definition mx210by732_part3 :: "block list" where
  "mx210by732_part3 =
    [0xa9936fc965fafaccac699f099960c995,
     0x06995fc953696fc99a3a395a365f0a33,
     0x6c65f95953af03a3a003ac9ca3a963af,
     0xca3f0a35fc6a3c653695f6595c93a3a6,
     0x5f0fcfc00656a0cfc3a6560c00000000,
     0x00006650cacfca36a69af355f0c00c66,
     0x5005336fca3536565af00f000f3ca005,
     0xff0c635ca5ffc36009995ca9936fc965,
     0xfafaccac699f099960c99506995fc953,
     0x696fc99a3a395a365f0a336c65f95953,
     0xaf03a3a003ac9ca3a963af0a00000000,
     0x0000c3ac66a3a99c9fc5f65a3ca00a33,
     0x60f69533a9569353a5f0ffc00c6650ca,
     0xcfca36a69af355f0c00c665005336fca,
     0x3536565af00f000f3ca005ff0c635ca5,
     0xffc36009995ca9936fc965fafaccac69,
     0x9f099960c99506995fc9530900000000,
     0x00c0a99afc6950c5f36a335996900955,
     0x3fcf06599c6fc6595aff33a00ac3ac66,
     0xa3a99c9fc5f65a3ca00a3360f69533a9,
     0x569353a5f0ffc00c6650cacfca36a69a,
     0xf355f0c00c665005336fca3536565af0,
     0x0f000f3ca005ff0c635ca50f00000000,
     0x00606005fa3c6c6ac5f956500fc0fca6,
     0x535fc3a0faf363ac65fc9990c6a99afc,
     0x6950c5f36a3359969009553fcf06599c,
     0x6fc6595aff33a00ac3ac66a3a99c9fc5,
     0xf65a3ca00a3360f69533a9569353a5f0,
     0xffc00c6650cacfca36a69a0300000000,
     0x0030c0ca399a3af6aafca350c3afc653,
     0x6653699fc535396afaf5f00c6c6005fa,
     0x3c6c6ac5f956500fc0fca6535fc3a0fa,
     0xf363ac65fc9990c6a99afc6950c5f36a,
     0x3359969009553fcf06599c6fc6595aff,
     0x33a00ac3ac66a3a99c9fc50600000000,
     0x00905c6990f9953c95f696aca993a365,
     0xf3a530c356969f35f53a300a3ac0ca39,
     0x9a3af6aafca350c3afc6536653699fc5,
     0x35396afaf5f00c6c6005fa3c6c6ac5f9,
     0x56500fc0fca6535fc3a0faf363ac65fc,
     0x9990c6a99afc6950c5f36a0300000000,
     0x000066acf6696cfaaaf60696cc3003f3,
     0x3c0c596cf9acf90fc00cc39afc3c3a36,
     0x953f0c0faa50f5f595f66cf5cc5af0ff,
     0xa0caa9053a9a955cfa5fc50399603a36,
     0x0533fa3a56a5f033906660ca99f9c6a5,
     0x39af6509cc3f655fca65350600000000,
     0x0000c39afc3c3a36953f0c0faa50f5f5,
     0x95f66cf5cc5af0ffa0caa9053a9a955c,
     0xfa5fc50399603a360533fa3a56a5f033,
     0x906660ca99f9c6a539af6509cc3f655f,
     0xca653596535aff990c3cc069c030635a,
     0x6c93f5006a5c366f69ca560300000000,
     0x00c0a9053a9a955cfa5fc50399603a36,
     0x0533fa3a56a5f033906660ca99f9c6a5,
     0x39af6509cc3f655fca653596535aff99,
     0x0c3cc069c030635a6c93f5006a5c366f,
     0x69ca56c35965fcf00a9a5cf0af6cf9a9,
     0x360535fc39aa93333fa96f0600000000,
     0x006060ca99f9c6a539af6509cc3f655f,
     0xca653596535aff990c3cc069c030635a,
     0x6c93f5006a5c366f69ca56c35965fcf0,
     0x0a9a5cf0af6cf9a9360535fc39aa9333,
     0x3fa96f66acfa353009065afc9cca3c9f,
     0x6f0a953a5c590595539cf30300000000,
     0x0030c069c030635a6c93f5006a5c366f,
     0x69ca56c35965fcf00a9a5cf0af6cf9a9,
     0x360535fc39aa93333fa96f66acfa3530,
     0x09065afc9cca3c9f6f0a953a5c590595,
     0x539cf3336af59a90c003a5360a5556cc,
     0x3fc90a996660f606a9fa350900000000,
     0x00905cf0af6cf9a9360535fc39aa9333,
     0x3fa96f66acfa353009065afc9cca3c9f,
     0x6f0a953a5c590595539cf3336af59a90,
     0xc003a5360a5556cc3fc90a996660f606,
     0xa9fa359935f609f060c66a9fc6a6af6a,
     0x6f60c90c3330cfc390c5960f00000000,
     0x00005afc9cca3c9f6f0a953a5c590595,
     0x539cf3336af59a90c003a5360a5556cc,
     0x3fc90a996660f606a9fa359935f609f0,
     0x60c66a9fc6a6af6a6f60c90c3330cfc3,
     0x90c596cf9aff00cc30acc9cfa36353f9,
     0xc3f0a00a555f5f69cf56cf0c00000000,
     0x0000c3059af963aa360a059933505f30,
     0x53639ca55f0909669a3c9ac6556c0595,
     0x3a6630cf69afaf3955c603033cacf63c,
     0x95ac399335fc5c69f6c3c05663a5f50f,
     0x9f6050fa693a56faaff500395a050699,
     0xc5cf5c0a9fa9a0a065a36c0a00000000,
     0x00c0a9cac930f9996fc9ca0c556f535c,
     0x6635c65aaf000fc3059af963aa360a05,
     0x9933505f3053639ca55f0909669a3c9a,
     0xc6556c05953a6630cf69afaf3955c603,
     0x033cacf63c95ac399335fc5c69f6c3c0,
     0x5663a5f50f9f6050fa693a0600000000,
     0x00606069a06c3ccf3f60a90aa6f3a5a6,
     0xfc66a3669fc0cca9cac930f9996fc9ca,
     0x0c556f535c6635c65aaf000fc3059af9,
     0x63aa360a059933505f3053639ca55f09,
     0x09669a3c9ac6556c05953a6630cf69af,
     0xaf3955c603033cacf63c950c00000000,
     0x0030c0f09fca566c6ff0900953f69693,
     0x3a3f59f30fa06a6069a06c3ccf3f60a9,
     0x0aa6f3a5a6fc66a3669fc0cca9cac930,
     0xf9996fc9ca0c556f535c6635c65aaf00,
     0x0fc3059af963aa360a059933505f3053,
     0x639ca55f0909669a3c9ac60500000000,
     0x00905cfc0c55affac33cc0fc6533f3c5,
     0x5993acf9ff9036c0f09fca566c6ff090,
     0x0953f696933a3f59f30fa06a6069a06c,
     0x3ccf3f60a90aa6f3a5a6fc66a3669fc0,
     0xcca9cac930f9996fc9ca0c556f535c66,
     0x35c65aaf000fc3059af9630a00000000,
     0x00005a36caa653f95596a0c63a5939aa,
     0x6ff95af0330c9c5cfc0c55affac33cc0,
     0xfc6533f3c55993acf9ff9036c0f09fca,
     0x566c6ff0900953f696933a3f59f30fa0,
     0x6a6069a06c3ccf3f60a90aa6f3a5a6fc,
     0x66a3669fc0cca9cac930f90900000000,
     0x0000a59fa663a5ff5a0f90a355609059,
     0xfccca5f0990a0a5a36caa653f95596a0,
     0xc63a5939aa6ff95af0330c9c5cfc0c55,
     0xaffac33cc0fc6533f3c55993acf9ff90,
     0x36c0f09fca566c6ff0900953f696933a,
     0x3f59f30fa06a6069a06c3c0f00000000,
     0x00c0a96990caaffa550fc095f30c3356,
     0x336aff0069c965a33aa63905059955ff,
     0xa5935a935af09909c66aa339a6f90696,
     0x9950369593c56355c60909c3caa96c56,
     0xfcc39690a3669ff63566acf609aa03cc,
     0xcf6c5afa93953a336053a60c00000000,
     0x006060f00f5553f95ac36f06f5c5656f,
     0x9635ffcfc0a0f569955c6c0ac50ca6f3,
     0x96c569f9a5f0f0c0a3c9999f9ffc030f,
     0xccaf9306c95639a55f00cfa96990caaf,
     0xfa550fc095f30c3356336aff0069c965,
     0xa33aa63905059955ffa5930a00000000,
     0x0030c0fccca6a53f59a933033665caf3,
     0xc39a3fa3a050fa3cc6a536c9aa0a5336,
     0xf3aaffcc5a3f306056a00cc3f3f6c603,
     0x6a5c05c3a0af9c55afc06c60f00f5553,
     0xf95ac36f06f5c5656f9635ffcfc0a0f5,
     0x69955c6c0ac50ca6f396c50900000000,
     0x00905c36aa639a53509059f55f3aa935,
     0xa9059f9960ac369a639a6f6099096553,
     0x39593c56659c9030ac9cca66c53f6c09,
     0x396af6695f63c66a9fa03ac0fccca6a5,
     0x3f59a933033665caf3c39a3fa3a050fa]"

definition mx210by732_part4 :: "block list" where
  "mx210by732_part4 =
    [0x3cc6a536c9aa0a5336f3aa0f00000000,
     0x00005a9f56c9c5a650cc603a6f599c96,
     0x5f0a0f0f3c9a9cf9f9c93ff0c0fc3a69,
     0x906c9553fa05f09c9a06a9fcaa5ff500,
     0x5c39cf306335a3f60f90965c36aa639a,
     0x53509059f55f3aa935a9059f9960ac36,
     0x9a639a6f609909655339590c00000000,
     0x0000a5cf635c6a93acaa306533affacf,
     0xacf503036605ca303c6f6f3ca0c65530,
     0x0cfaca59f50acc0606ff503595af35fc,
     0x66505f5cf66659f3ff0c0c5a9f56c9c5,
     0xa650cc603a6f599c965f0a0f0f3c9a9c,
     0xf9f9c93ff0c0fc3a69906c0500000000,
     0x00c06aa339a6f906969950369593c563,
     0x55c60909c3caa96c56fcc39690a3669f,
     0xf63566acf609aa03cccf6c5afa93953a,
     0x336053a63c3facf9330a0aa5cf635c6a,
     0x93acaa306533affacfacf503036605ca,
     0x303c6f6f3ca0c655300cfa0a00000000,
     0x006060fcac63c596ac99a093c35063a3,
     0xf6ff0aca6a99cff33ffc00666053936a,
     0xf95a9f909c0aff6caa390aa50a656390,
     0xfa6aacffc0c0503a9af9696f96c095f5,
     0x65ca35590a0303c3690055a55f50cc30,
     0x6595c3569c659f90065acf0300000000,
     0x0030c0365ac96a0396cc5f05696f3559,
     0xf33309a6c90c63c55f35fc33f0a5c5f9,
     0xcc650cf006c6cf3a566cc99a093a390c,
     0x35366affafa0ac96f93cffc30f600636,
     0x35a996aff509c9a9f0cfa69aa350aa50,
     0x3606a9afc6fa0f0c0ca5a30900000000,
     0x00905c9f665cf9060f6a6cf630f366ac,
     0xf999c053a0caf6aaaf953a55ff96aa3f,
     0x56fa05cc036ca395ac3660c9fc5590f6,
     0x5693353f93609acc3056fc55c33f035f,
     0x5a9ccf5cc6006f60fcac63c596ac99a0,
     0x93c35063a3f6ff0aca6a990f00000000,
     0x00005acf33a6fcc303393acf5c363f5a,
     0xf0f060a69ca93c95930599a633f3599c,
     0x53f50aaac9f569c6956ff0a0c6660f33,
     0x6fc69a9f093c05aa6caffa5aa953f56f,
     0xa9fa63a55fc03cc0365ac96a0396cc5f,
     0x05696f3559f33309a6c90c0300000000,
     0x0000a5a3999ff666095c595fa65c93a5,
     0x3030309c065055fa05c50c5356396cc5,
     0x59f60969a0f53c63ca3f3c90a3f3cc65,
     0xf3a3050f0f66ca99ca53395990693a33,
     0x9fc53955afa09a5c9f665cf9060f6a6c,
     0xf630f366acf999c053a0ca0600000000,
     0x00c06a99cff33ffc00666053936af95a,
     0x9f909c0aff6caa390aa50a656390fa6a,
     0xacffc0c0503a9af9696f96c095f565ca,
     0x35590a0303c3690055a55f50cc306595,
     0xc3569c659f90065acf33a6fcc303393a,
     0xcf5c363f5af0f060a69ca90c00000000,
     0x00a0c90c63c55f35fc33f0a5c5f9cc65,
     0x0cf006c6cf3a566cc99a093a390c3536,
     0x6affafa0ac96f93cffc30f60063635a9,
     0x96aff509c9a9f0cfa69aa350aa503606,
     0xa9afc6fa0f0c0ca5a3999ff666095c59,
     0x5fa65c93a53030309c06500500000000,
     0x0030c09f36a6f6f60033f09659cc59ff,
     0xa0a09aac6c535950aaa09369ff665a30,
     0x309ccacf959c6f3cc09536559c6355af,
     0x9006a5996fc5af05995366903596359f,
     0x096669c0a6c506966a3ccfa66cf9650c,
     0xccc9f53cf9f9c3c35ff5330f00000000,
     0x00905ccf939f3f3cfc553ff36c65acff,
     0x9f60059acaa5af5099500530333fa590,
     0x900666a3c6c53f9660065faafa39659f,
     0x0ccc6a0cf3aa93c50c65330c56c39a0f,
     0x0fc3f0af636a030f395a5f93faccfa05,
     0xaaa0359a3cff55a9633a950300000000,
     0x00005aa3c9f35f953aa65339fa3a6a3f,
     0x033cca09559a93accc6ff65c56935a0f,
     0xf003fc69636a6f0f30036f99c59cf50f,
     0x0aaac9ca369505a50a3a99f66fa60503,
     0xc3a9fc5cc9f9c6035c6953c53956f50a,
     0x69509af956fc5a903965060900000000,
     0x0000a5996fc5af05995366903596359f,
     0x096669c0a6c506966a3ccfa66cf9650c,
     0xccc9f53cf9f9c3c35ff533cf56c6faff,
     0x0956a0a95cfa0a9509550033f3530a09,
     0x6960366a5cfc630966f0a5aa9f53f6c9,
     0xc0acc630af3a59cc5036c30000000000,
     0x00c06a0cf3aa93c50c65330c56c39a0f,
     0x0fc3f0af636a030f395a5f93faccfa05,
     0xaaa0359a3cff55a9633a95a3afa3f633,
     0xc0a39c50a539c9cafc66cf6535a9f500,
     0x3fc09f36a6f6f60033f09659cc59ffa0,
     0xa09aac6c535950aaa093690f00000000,
     0x00a0c9ca369505a50a3a99f66fa60503,
     0xc3a9fc5cc9f9c6035c6953c53956f50a,
     0x69509af956fc5a90396506596359f399,
     0x6096066c5a6c60a9c6f36cca965fc6c0,
     0x9c5ccf939f3f3cfc553ff36c65acff9f,
     0x60059acaa5af50995005300300000000,
     0x0050a0a95cfa0a9509550033f3530a09,
     0x6960366a5cfc630966f0a5aa9f53f6c9,
     0xc0acc630af3a59cc5036c36035acf9f0,
     0x300cff3aa636f090a3f535a9cfac5fa0,
     0x0a5aa3c9f35f953aa65339fa3a6a3f03,
     0x3cca09559a93accc6ff65c0600000000,
     0x00905ca369c593a50a55c06596af5f90,
     0xc66aca56fac9aac6f5559c39f50f09a6,
     0x9c6caa363c60066fc956a3f69930cccf,
     0xc6656fc36f3a0669355a909003fc3c3c,
     0xff5acca093305393650caa50ca3053a9,
     0x50cc3fcf933a56f6a9a0050a00000000,
     0x00005a99ffaa059509666fcacf5caf0c,
     0xacc9a9ac396099a336a5fa9cf5ffc093,
     0x063a966f96300333afaf59f3f09c6aa3,
     0x63fac3a93365c3f066a500f0c9359a56,
     0x3c59aa50055c66f9fa0569aca66ca59f,
     0xac6a5c5fc59953ff9060ca0900000000,
     0x0000a50c33950ac5fcf33ca963659f0a,
     0x5aa050556cf0c0955f9ac5c6fa336006,
     0xff95cc3f0f50f5955363ac393006f669,
     0xf9f955905936693f3f5a0fcca095f9af,
     0x5a509960f6a6fcccf5cac09a9cca9a03,
     0x96396a53aacf59ff0f3c690000000000,
     0x00c06aca56fac9aac6f5559c39f50f09,
     0xa69c6caa363c60066fc956a3f69930cc,
     0xcfc6656fc36f3a0669355a909003fc3c,
     0x3cff5acca093305393650caa50ca3053,
     0xa950cc3fcf933a56f6a9a0050a55c506,
     0x0f5cf9a5596cac3f0366f00f00000000,
     0x00a0c9a9ac396099a336a5fa9cf5ffc0,
     0x93063a966f96300333afaf59f3f09c6a,
     0xa363fac3a93365c3f066a500f0c9359a,
     0x563c59aa50055c66f9fa0569aca66ca5,
     0x9fac6a5c5fc59953ff9060cac9a66ac3,
     0x0366f0966c356a9f09c3fc0c00000000,
     0x0050a050556cf0c0955f9ac5c6fa3360,
     0x06ff95cc3f0f50f5955363ac393006f6,
     0x69f9f955905936693f3f5a0fcca095f9,
     0xaf5a509960f6a6fcccf5cac09a9cca9a,
     0x0396396a53aacf59ff0f3c69a063f966,
     0x093330f3fa9a350fcfa9360a00000000,
     0x00a09c6caa363c60066fc956a3f69930,
     0xcccfc6656fc36f3a0669355a909003fc,
     0x3c3cff5acca093305393650caa50ca30,
     0x53a950cc3fcf933a56f6a9a0050a55c5,
     0x060f5cf9a5596cac3f0366f05fc9fcf3,
     0x00555f3935c69a0363609f0600000000,
     0x00005a0c53fa60c9956fa9afac9990c9,
     0x95f95399ac39faa56c95350333c0a3f9,
     0xaa0aa5c63695c5a3f6f006f63c565c50]"

definition mx210by732_part5 :: "block list" where
  "mx210by732_part5 =
    [0xcc5f5faa6fac9fc9a99fc6f3939509f3,
     0x5c9c9cf533306ca3f9f95aaa60f6939a,
     0x53ff0f66fc3ca65fc50c550000000000,
     0x0000a5caa639f06006335f635a00f0a0,
     0xc530a50f965cf996faca9a09995c993f,
     0x95c99aa35fca56593330033c9aafaa50,
     0x6a6c53593c6a0f6f60cf63c505c5fcf5,
     0xa5fac6fa999cfa693c3f599930cfc5c9,
     0x593f03c3369a9fafa50a660f00000000,
     0x00c06aa95c6c3c3003956335a500cc50,
     0xaa6c9a030f6630f335a605000f5a0c53,
     0xfa60c9956fa9afac9990c995f95399ac,
     0x39faa56c95350333c0a3f9aa0aa5c636,
     0x95c5a3f6f006f63c565c50cc5f5faa6f,
     0xac9fc9a99fc6f3939509f30c00000000,
     0x00a0c950a5369650f506f9665a0faaac,
     0x96cac5c60333503956530ac00ca5caa6,
     0x39f06006335f635a00f0a0c530a50f96,
     0x5cf996faca9a09995c993f95c99aa35f,
     0xca56593330033c9aafaa506a6c53593c,
     0x6a0f6f60cf63c505c5fcf50500000000,
     0x0050a06c9a6f0f603ac3303f650c699a,
     0x0c556a6309556f906fa6f5a0ca6aa95c,
     0x6c3c3003956335a500cc50aa6c9a030f,
     0x6630f335a605000f5a0c53fa60c9956f,
     0xa9afac9990c995f95399ac39faa56c95,
     0x350333c0a3f9aa0aa5c6360500000000,
     0x00a09c3ac63fc33f65695f93fac5c005,
     0xcaa6f9f600a6330cf353c690a6c950a5,
     0x369650f506f9665a0faaac96cac5c603,
     0x33503956530ac00ca5caa639f0600633,
     0x5f635a00f0a0c530a50f965cf996faca,
     0x9a09995c993f95c99aa35f0a00000000,
     0x009006956c6fa953363063f9f5aaa0ca,
     0xa963fc33fc5396f635a95f0c5ca06c9a,
     0x6f0f603ac3303f650c699a0c556a6309,
     0x556f906fa6f5a0ca6aa95c6c3c300395,
     0x6335a500cc50aa6c9a030f6630f335a6,
     0x05000f5a0c53fa60c9956f0900000000,
     0x0000a5a9ac360f306530f3ccff006636,
     0xcaf305a5c65faaaf5a00ccac0655f936,
     0xfc65c36563f5ff30fc6956ac5039fa96,
     0x35560aa0aac96cca3fa9a393a69c533f,
     0xc3a9cff3aac9ca95336f355a0f6905aa,
     0x63f606995530a99cf599060600000000,
     0x00c06a50956fc35f365c3656ff0fc39f,
     0x66c50a95a36f5963a500aa9acca6fc93,
     0x3a3a69ca39f5339cfa3caf9aac5c39f3,
     0x56a3f59056a03a666f90590593ca599f,
     0x6960a3399560690695f36665ccc0ca59,
     0xc93fcc0c665f9cc6faf0030c00000000,
     0x00a0c96cca3fa9a393a69c533fc3a9cf,
     0xf3aac9ca95336f355a0f6905aa63f606,
     0x995530a99cf59906369a530996665039,
     0x6f56c60cac9c95fcc3cc60f6c569ac0f,
     0x3fc0995ffaf0300306393ffaa5a06960,
     0x5c5fa50af3acfaa33630c90500000000,
     0x0050a03a666f90590593ca599f6960a3,
     0x399560690695f36665ccc0ca59c93fcc,
     0x0c665f9cc6faf0039cf9a50f0f336090,
     0xf3a35f0a9a06c6f555aa30cfaa3f6a03,
     0x935c0ca3393c50f5c35093f59a60f03f,
     0xa6af9509f595c5599390a00500000000,
     0x00a09c95fcc3cc60f6c569ac0f3fc099,
     0x5ffaf0300306393ffaa5a069605c5fa5,
     0x0af3acfaa33630c9c5309ac303553f0c,
     0x3559af0906ff63fa5a99505f599c3509,
     0x095aca566c96603a696ff9f6093cfc9c,
     0x9f93c5fc36c556ac09f0500a00000000,
     0x009006c6f555aa30cfaa3f6a03935c0c,
     0xa3393c50f5c35093f59a60f03fa6af95,
     0x09f595c5599390a0a56cc56609a693f6,
     0x966f9fc0c3cff93959cc6f536cc59a00,
     0x0fa5a9ac360f306530f3ccff006636ca,
     0xf305a5c65faaaf5a00ccac0600000000,
     0x0000ff63fa5a99505f599c3509095aca,
     0x566c96603a696ff9f6093cfc9c9f93c5,
     0xfc36c556ac09f0509aca6af300530633,
     0xcffc0f6066a33c5f506afca5faaa05c0,
     0xcc6a50956fc35f365c3656ff0fc39f66,
     0xc50a95a36f5963a500aa9a0c00000000,
     0x00c06a6c6a6fcc30cf59cc9ac0acc93a,
     0xf6c3aa505f6ca505a05aa095fc559960,
     0x53fa5a0a90a69cc6f55accffa535a6f5,
     0x0c9c06633a596afc965653c60a0afff9,
     0x5950393af36fa65f09c6cf3caf505c59,
     0x39f353afc063a3569cac660000000000,
     0x00a0c93af6c3aa505f6ca505a05aa095,
     0xfc55996053fa5a0a90a69cc6f55accff,
     0xa535a6f50c9c06633a596afc965653c6,
     0x0a0afff95950393af36fa65f09c6cf3c,
     0xaf505c5939f353afc063a3569cac6660,
     0x9035699f60f669af0a96330000000000,
     0x0050a095fc55996053fa5a0a90a69cc6,
     0xf55accffa535a6f50c9c06633a596afc,
     0x965653c60a0afff95950393af36fa65f,
     0x09c6cf3caf505c5939f353afc063a356,
     0x9cac66609035699f60f669af0a963330,
     0x0c96ff0f30fc3c53090f550f00000000,
     0x00a09cc6f55accffa535a6f50c9c0663,
     0x3a596afc965653c60a0afff95950393a,
     0xf36fa65f09c6cf3caf505c5939f353af,
     0xc063a3569cac66609035699f60f669af,
     0x0a9633300c96ff0f30fc3c53090f559f,
     0xf6cffcff9c3a9aa5cf03a60300000000,
     0x009006633a596afc965653c60a0afff9,
     0x5950393af36fa65f09c6cf3caf505c59,
     0x39f353afc063a3569cac66609035699f,
     0x60f669af0a9633300c96ff0f30fc3c53,
     0x090f559ff6cffcff9c3a9aa5cf03a603,
     0x3363f5330696f99a6309530600000000,
     0x0000fff95950393af36fa65f09c6cf3c,
     0xaf505c5939f353afc063a3569cac6660,
     0x9035699f60f669af0a9633300c96ff0f,
     0x30fc3c53090f559ff6cffcff9c3a9aa5,
     0xcf03a6033363f5330696f99a630953c6,
     0x6539f59903cc30c5f600650300000000,
     0x00c0cf3caf505c5939f353afc063a356,
     0x9cac66609035699f60f669af0a963330,
     0x0c96ff0f30fc3c53090f559ff6cffcff,
     0x9c3a9aa5cf03a6033363f5330696f99a,
     0x630953c66539f59903cc30c5f6006563,
     0xca9cf5f0c9a56c6a33fc3a0900000000,
     0x00a0c995fc5a6a3cf3f3639f303c9a9a,
     0xf3003a599c5903cc056a5c9395a39553,
     0x93ffc0a9995f6cc35f05aacf9aa0aa9c,
     0x635a505c699096ffff06c6306a933a66,
     0x9fc55a006969909f0a6506c3f0cc3f33,
     0xc0ca966f9039cf6c550a0c0c00000000,
     0x0050a0c63559395a3935f90f9c9af9c5,
     0x36fc55a0faac09aaca39a605c5950669,
     0xf9ff6f600ca336a963f659ac05909606,
     0xf9a95066300ccffc3303ac6cf90699f3,
     0xcc56a5c0c0f0cff3c93a03693f569f99,
     0x5ca9cc3fcc505ffaaaf50a0a00000000,
     0x00a09c635a505c699096ffff06c6306a,
     0x933a669fc55a006969909f0a6506c3f0,
     0xcc3f33c0ca966f9039cf6c550a0c0cff,
     0x3c9fac3390f663f599c995cafcc30cf5,
     0xa5af5aafa0fc6cc56059f53093530f0f,
     0x5a50656faa60533556c6090600000000,
     0x009006f9a95066300ccffc3303ac6cf9,
     0x0699f3cc56a5c0c0f0cff3c93a03693f,
     0x569f995ca9cc3fcc505ffaaaf50acacf,
     0x560c96550f3339f5f0a00555f6a60a36,
     0x5563659c6036faaaf0603a5cc6590303,
     0xa56cfac399f0a556a35fc00300000000,
     0x0000ff3c9fac3390f663f599c995cafc]"

definition mx210by732_part6 :: "block list" where
  "mx210by732_part6 =
    [0xc30cf5a5af5aafa0fc6cc56059f53093,
     0x530f0f5a50656faa60533556c60966a3,
     0xaf0a0fa6c3659c353050caa63f9c095f,
     0x6a35fa053c9f36953c3065a66cac09c9,
     0x6a3af655ccff966f56af600600000000,
     0x00c0cf560c96550f3339f5f0a00555f6,
     0xa60a365563659c6036faaaf0603a5cc6,
     0x590303a56cfac399f0a556a35fc0f369,
     0x53c9035366cac69a90aca6635fc5fc6f,
     0xf966f50a66cf53fa965036933a6a00af,
     0xc995fc5a6a3cf3f3639f300c00000000,
     0x0060a3af0a0fa6c3659c353050caa63f,
     0x9c095f6a35fa053c9f36953c3065a66c,
     0xac09c96a3af655ccff966f56af60f63c,
     0xa56f096533a9a306f09a5cc9afa5c633,
     0x3f3ff609c3a3a9390fa093c59935c05c,
     0xa0c63559395a3935f90f9c0a00000000,
     0x0050a063aa503300339c95909a6c5c05,
     0x6506699f5303c36a953c595c390c63f5,
     0xf050aa63af95a306f9cc9f095a6cfa55,
     0x6a5c3996ff33c905553fccfc335f93ff,
     0x3fc0a96c6f99f096f3f30f06a66cfca3,
     0x0a5ffa66f6c9a90c936fcc0000000000,
     0x00a09cf999ac55cf65c60af0053aa60a,
     0x350330c35909a9c9c655506690f63935,
     0x30ac56c993c595c330560f0fa53af65a,
     0x396a90cffc99a0c5a65fa5c69563f93f,
     0x935c50f5c3cc3ff335f9ff039ccaf696,
     0x096f393fff6060cac63faa0000000000,
     0x0090063c0f96a663caa306ccca999fc9,
     0x5af55c66ac005fa063aa503300339c95,
     0x909a6c5c056506699f5303c36a953c59,
     0x5c390c63f5f050aa63af95a306f9cc9f,
     0x095a6cfa556a5c3996ff33c905553fcc,
     0xfc335f93ff3fc0a96c6f990000000000,
     0x0000ff560c0f5336a95903aa69c0f360,
     0x693aa63c6ac0ac9cf999ac55cf65c60a,
     0xf0053aa60a350330c35909a9c9c65550,
     0x6690f6393530ac56c993c595c330560f,
     0x0fa53af65a396a90cffc99a0c5a65fa5,
     0xc69563f93f935c50f5c3cc0f00000000,
     0x00c0cfafca0365539cac0969f06fc5f0,
     0x3065939a35a09a063c0f96a663caa306,
     0xccca999fc95af55c66ac005fa063aa50,
     0x3300339c95909a6c5c056506699f5303,
     0xc36a953c595c390c63f5f050aa63af95,
     0xa306f9cc9f095a6cfa556a0c00000000,
     0x0060a35369093aa9fa5ac0c0fcfcaa3c,
     0x5036c5c99a9006ff560c0f5336a95903,
     0xaa69c0f360693aa63c6ac0ac9cf999ac,
     0x55cf65c60af0053aa60a350330c35909,
     0xa9c9c655506690f6393530ac56c993c5,
     0x95c330560f0fa53af65a390a00000000,
     0x00f069a5ff005590c5a5a0a0363a9596,
     0xa093aaaf050ccccfafca0365539cac09,
     0x69f06fc5f03065939a35a09a063c0f96,
     0xa663caa306ccca999fc95af55c66ac00,
     0x5fa063aa503300339c95909a6c5c0565,
     0x06699f5303c36a953c595c0900000000,
     0x00a09c3c0f0f65a3faa59060cf536c90,
     0x69536ff60f030c555f95a3c390530959,
     0xa0f9099653569c5aa0a09fa639a9535f,
     0x56639f0696ca3facc606395603a3c963,
     0x9aaca633a9acc9c0365afac33fcf3556,
     0xaf9caa6cf6c6fc95f3cc0f0f00000000,
     0x00900656cc033a99c55a0f3ca3a936cc,
     0xf0a5f3f3ffc9c5a6afc59569cf5900af,
     0x9c3c0f0f65a3faa59060cf536c906953,
     0x6ff60f030c555f95a3c390530959a0f9,
     0x099653569c5aa0a09fa639a9535f5663,
     0x9f0696ca3facc6063956030300000000,
     0x0000ffaf6a0955c056650c66999f6faa,
     0xf09635f933a0a5639365063063acc09c,
     0x0656cc033a99c55a0f3ca3a936ccf0a5,
     0xf3f3ffc9c5a6afc59569cf5900af9c3c,
     0x0f0f65a3faa59060cf536c9069536ff6,
     0x0f030c555f95a3c39053090900000000,
     0x00c0cf53f90066afaffa05c30cc33f99,
     0x30f396ff99505ac90535035c366aa00a,
     0xffaf6a0955c056650c66999f6faaf096,
     0x35f933a0a5639365063063acc09c0656,
     0xcc033a99c55a0f3ca3a936ccf0a5f3f3,
     0xffc9c5a6afc59569cf59000f00000000,
     0x0060a3a53ffcf35c63f5caa9ca666fcc,
     0x5f39cffcf0ac665c0a55f5a69c3590c6,
     0xcf53f90066afaffa05c30cc33f9930f3,
     0x96ff99505ac90535035c366aa00affaf,
     0x6a0955c056650c66999f6faaf09635f9,
     0x33a0a5639365063063acc00c00000000,
     0x00f0699a933af56535f66960a9fcc36a,
     0x6c906335309a3ca6c96a3a93ca9a0c6c,
     0xa3a53ffcf35c63f5caa9ca666fcc5f39,
     0xcffcf0ac665c0a55f5a69c3590c6cf53,
     0xf90066afaffa05c30cc33f9930f396ff,
     0x99505ac90535035c366aa00a00000000,
     0x00f03cc5069936f566ff30c050f55539,
     0x3a0c399590059a9f603965c5a9050afa,
     0x699a933af56535f66960a9fcc36a6c90,
     0x6335309a3ca6c96a3a93ca9a0c6ca3a5,
     0x3ffcf35c63f5caa9ca666fcc5f39cffc,
     0xf0ac665c0a55f5a69c35900600000000,
     0x009006affa00f36c35ff905c3a565055,
     0x3fa95a9060a3996f995039639590ca69,
     0xc59660f635669f03cca6933503a6cc9a,
     0x0afa3c6aa30a33ffcc0353a03ccf0355,
     0xa0aff56a6050f55a66c06559c3c09f56,
     0x6cccf09696fff09a9c9ff00000000000,
     0x0000ff5339fcf5f566ff0f5a95ac50a6,
     0x539ca5003c99cf3fcc6f903905f069f0,
     0xaa0f30cf56f30fc9a5630555f593aa05,
     0x09369af9960995335609a99c566c0966,
     0x5f63f639c06c3a593360caaca9a0cfa3,
     0x36aa30f3cf3c3005caf33c0000000000,
     0x00c0cfa59f3a36353f3f03a5c695ac53,
     0xa6fa5a0f660c636f6a3c0c9c05ccf03f,
     0x95c35f5f6ff6ffa055c90a653ac5590a,
     0xc093f9fcc3fc069953009f06affa00f3,
     0x6c35ff905c3a5650553fa95a9060a399,
     0x6f995039639590ca69c5960000000000,
     0x0060a39a03995f5a939fc96a630a9665,
     0x93c5650cc3caf6c3399af6c60aaafc5c,
     0xfaa96353f3f333506a5cc93a65aaaff5,
     0x60c630f6a6c6c3c059c00cff5339fcf5,
     0xf566ff0f5a95ac50a6539ca5003c99cf,
     0x3fcc6f903905f069f0aa0f0000000000,
     0x00f069c5c60c6f69f90fafc9f9090f3a,
     0xc956fac5a9a9fc555c0933a3066936aa,
     0x3990f9a535f999ac36a6605936595cc6,
     0x30ac6c3f9ca3696faca0cacfa59f3a36,
     0x353f3f03a5c695ac53a6fa5a0f660c63,
     0x6f6a3c0c9c05ccf03f95c30f00000000,
     0x00f03c6aa30a33ffcc0353a03ccf0355,
     0xa0aff56a6050f55a66c06559c3c09f56,
     0x6cccf09696fff09a9c9ff0a0936ca55f,
     0x9c9aca5fc59530336a9066a39a03995f,
     0x5a939fc96a630a966593c5650cc3caf6,
     0xc3399af6c60aaafc5cfaa90300000000,
     0x00309af9960995335609a99c566c0966,
     0x5f63f639c06c3a593360caaca9a0cfa3,
     0x36aa30f3cf3c3005caf33c5005fa5aaf,
     0x060655af65065c96350cfc69c5c60c6f,
     0x69f90fafc9f9090f3ac956fac5a9a9fc,
     0x555c0933a3066936aa39900900000000,
     0x0000ffa50f996ff9cc09990653993a5f,
     0x6af903a39caf3afc3655930f5fa056fc,
     0x00f5353f9fa9c93c6f09f3fc663fc36a,
     0xf9c903666f35ff0fa5630a0f555063ff,
     0x005ac605963aa9aff6995c959cac65c3]"

definition mx210by732_part7 :: "block list" where
  "mx210by732_part7 =
    [0x56f53ac03aa6505396c5fa0500000000,
     0x00c0cf9ac30c333f56000fffa50f996f,
     0xf9cc09990653993a5f6af903a39caf3a,
     0xfc3655930f5fa056fc00f5353f9fa9c9,
     0x3c6f09f3fc663fc36af9c903666f35ff,
     0x0fa5630a0f555063ff005ac605963aa9,
     0xaff6995c959cac65c356f50a00000000,
     0x0060a3c5a60a959353c0cccf9ac30c33,
     0x3f56000fffa50f996ff9cc0999065399,
     0x3a5f6af903a39caf3afc3655930f5fa0,
     0x56fc00f5353f9fa9c93c6f09f3fc663f,
     0xc36af9c903666f35ff0fa5630a0f5550,
     0x63ff005ac605963aa9aff60900000000,
     0x00f0696a930906c959a06aa3c5a60a95,
     0x9353c0cccf9ac30c333f56000fffa50f,
     0x996ff9cc09990653993a5f6af903a39c,
     0xaf3afc3655930f5fa056fc00f5353f9f,
     0xa9c93c6f09f3fc663fc36af9c903666f,
     0x35ff0fa5630a0f555063ff0000000000,
     0x00f03cf9c6fcc360ac90f6696a930906,
     0xc959a06aa3c5a60a959353c0cccf9ac3,
     0x0c333f56000fffa50f996ff9cc099906,
     0x53993a5f6af903a39caf3afc3655930f,
     0x5fa056fc00f5353f9fa9c93c6f09f3fc,
     0x663fc36af9c903666f35ff0f00000000,
     0x00309afca3c6693f6a0cfc3cf9c6fcc3,
     0x60ac90f6696a930906c959a06aa3c5a6,
     0x0a959353c0cccf9ac30c333f56000fff,
     0xa50f996ff9cc09990653993a5f6af903,
     0xa39caf3afc3655930f5fa056fc00f535,
     0x3f9fa9c93c6f09f3fc663f0300000000,
     0x0090f9f696a33093350a3a9afca3c669,
     0x3f6a0cfc3cf9c6fcc360ac90f6696a93,
     0x0906c959a06aa3c5a60a959353c0cccf,
     0x9ac30c333f56000fffa50f996ff9cc09,
     0x990653993a5f6af903a39caf3afc3655,
     0x930f5fa056fc00f5353f9f0900000000,
     0x00c0cfc59609c3306a0a9af93f6c0693,
     0xaaf59ccaa60a5536fafa0f509a9f9650,
     0x5f3539306950facc50399c0569cfc33f,
     0x39ca655a0066a93c59a693c5f59a5cc6,
     0x050f66ff669f59a0af9a3a6f3956c06c,
     0xa36ac3fc699f3509c6305f0500000000,
     0x0060a36ac3fc699f3509c6305f3503c5,
     0x59c606a663c9aa9335f6ffacc6f30f60,
     0x53969f90f0af39aa6090c6cac0a3696f,
     0x5c69caa500c350555053c656f6095a63,
     0xca03f33c3f0faf9c530999339f53a0fa,
     0x69f9a6c630c39ac0a36caf0500000000,
     0x00f069f9a6c630c39ac0a36caf55f5aa,
     0xaf5f035cc960590556f3339a6cc5c3ff,
     0xa5cf0cf0fc5c6c99300ca3a6a099ffc3,
     0x6630a95acfa96caa5065a3afff00a5f9,
     0x6909f55593039306a5cf0c95c35990f6,
     0x3cfc93a35ca6056096ca930500000000,
     0x00f03cfc93a35ca6056096ca93653a59,
     0x5cafc9655cf060f66ff69905faaaa9f3,
     0x966305cc36aa36cc9ff65993600cf355,
     0x33509c656c603a96ac3a5963ffcf6a3c,
     0xff003665f90909ff9aa30a0669ac0c3c,
     0x9af6c695a65c0a300c55050500000000,
     0x00309af6c695a65c0a300c550535656c,
     0x659fa035a63c30cff3f3f0ca39959039,
     0xf33905aa9f966f6a0c33ac093ccaf65a,
     0x55affafa35c0950c965560353fa3c956,
     0x3cfc5ffacc00cfcfc59609c3306a0a9a,
     0xf93f6c0693aaf59ccaa60a0500000000,
     0x0090f93f6c0693aaf59ccaa60a5536fa,
     0xfa0f509a9f96505f3539306950facc50,
     0x399c0569cfc33f39ca655a0066a93c59,
     0xa693c5f59a5cc6050f66ff669f59a0af,
     0x9a3a6f3956c06ca36ac3fc699f3509c6,
     0x305f3503c559c606a663c90a00000000,
     0x00c0305f3503c559c606a663c9aa9335,
     0xf6ffacc6f30f6053969f90f0af39aa60,
     0x90c6cac0a3696f5c69caa500c3505550,
     0x53c656f6095a63ca03f33c3f0faf9c53,
     0x0999339f53a0fa69f9a6c630c39ac0a3,
     0x6caf55f5aaaf5f035cc9600900000000,
     0x0060a3f996a3a6acf50656c9f030cf35,
     0x9990fcac366acc65a5c0a93a0696663f,
     0x3f0303ffc5c6fc30a30530cca6c95a05,
     0x6ff6f069a0399990f6ac096650a5503a,
     0x69359fa99ca5af0ac39035c093ca0555,
     0x3635f633053a95cc6090a30600000000,
     0x00f069fcc395935ac6036c5c3c505f96,
     0x0ff0369a6f396aca5a6f60950c0ff35c,
     0x9309c9cf6aa3c65c560a9caa636069f6,
     0xf33330f05f6ccc0f335a00c36c9aac55,
     0xf0660f9f069a930969cf9a6006550aa5,
     0x9356f399ca59faaa300c590300000000,
     0x00f03cf66606c5a95fc935a6966053cf,
     0x0ccc9fc63f5c39a9653cc0c6c503f565,
     0xf9006fa3f996a3a6acf50656c9f030cf,
     0x359990fcac366acc65a5c0a93a069666,
     0x3f3f0303ffc5c6fc30a30530cca6c95a,
     0x056ff6f069a0399990f6ac0900000000,
     0x00309a3f3c03aa5fafa0959f0ff0a563,
     0x05aacf636f66509cfa955c636a0936f5,
     0xccc0fc69fcc395935ac6036c5c3c505f,
     0x960ff0369a6f396aca5a6f60950c0ff3,
     0x5c9309c9cf6aa3c65c560a9caa636069,
     0xf6f33330f05f6ccc0f335a0000000000,
     0x0090f95f55f5596c9f50caf3c3ff9639,
     0x0569a3f9c333a0faf50a5af9f9005f3a,
     0x56a0fa3cf66606c5a95fc935a6966053,
     0xcf0ccc9fc63f5c39a9653cc0c6c503f5,
     0x65f9006fa3f996a3a6acf50656c9f030,
     0xcf359990fcac366acc65a50000000000,
     0x00c030af653a6cf50fac66c5a933f39c,
     0xc5c099ff55559fc5f609a53c3ffc6f99,
     0x5390369a3f3c03aa5fafa0959f0ff0a5,
     0x6305aacf636f66509cfa955c636a0936,
     0xf5ccc0fc69fcc395935ac6036c5c3c50,
     0x5f960ff0369a6f396aca5a0f00000000,
     0x00a06c933565fafaff9afcaa905939c6,
     0xaaa00cf35aa6c356ffc06a569c3a33cf,
     0x590c9cf95f55f5596c9f50caf3c3ff96,
     0x390569a3f9c333a0faf50a5af9f9005f,
     0x3a56a0fa3cf66606c5a95fc935a69660,
     0x53cf0ccc9fc63f5c39a9650c00000000,
     0x00f069f6360359fc0f9a3c95aa90f65a,
     0xc0a995cc033635569096f9af356535f6,
     0x9969506c6a6cca659c5cf939fc336fac,
     0x0996ca0a5505f3939036ca3f66a0faf6,
     0xc96aafca0cc3c09a30ac63f0505fcf0c,
     0xaaa3f955a6a3af3fa39c9a0300000000,
     0x00f03c3f5cf56cf5ff055afa990033a5,
     0x6060c665095f9a530ccc3093553656f3,
     0xf0f0af36393aa9fa055a3c9f3a95336a,
     0xc00355c96af63509f09f666f3390c5ff,
     0xa0c953a90a69af059c5ac93c60536305,
     0x6999ff5a5356639f9906c50600000000,
     0x00309a5f653afafa33caa939cccf655a,
     0x3fc063fa006fc9590aaa6c05a5936f36,
     0x30fc9c6f5c599cf50aa5560c99069935,
     0x60c6a66039cf960fcccff3c355cf56ff,
     0x5fa0a59f0930530a06665c96f0a539c5,
     0xc00c33596563350f0fff6a0300000000,
     0x0090f9af356535f69969506c6a6cca65,
     0x9c5cf939fc336fac0996ca0a5505f393,
     0x9036ca3f66a0faf6c96aafca0cc3c09a,
     0x30ac63f0505fcf0caaa3f955a6a3af3f,
     0xa39c9ac3fc5ca6f5033ca60ff0969ca5,
     0xa0ca56503af96603c3cff90600000000,
     0x00c03093553656f3f0f0af36393aa9fa,
     0x055a3c9f3a95336ac00355c96af63509,
     0xf09f666f3390c5ffa0c953a90a69af05]"

definition mx210by732_part8 :: "block list" where
  "mx210by732_part8 =
    [0x9c5ac93c605363056999ff5a5356639f,
     0x9906c5a6c6a65cc6c9959fc33ff3c69a,
     0x60a9ac5055303f0969a3fc0300000000,
     0x00a06c05a5936f3630fc9c6f5c599cf5,
     0x0aa5560c9906993560c6a66039cf960f,
     0xcccff3c355cf56ff5fa0a59f0930530a,
     0x06665c96f0a539c5c00c33596563350f,
     0x0fff6a93a393aa5fa0c5f3a95339a306,
     0x3c5095ac665f9300ff69f60600000000,
     0x0090ca0a5505f3939036ca3f66a0faf6,
     0xc96aafca0cc3c09a30ac63f0505fcf0c,
     0xaaa3f955a6a3af3fa39c9ac3fc5ca6f5,
     0x033ca60ff0969ca5a0ca56503af96603,
     0xc3cff9c695c559af506ac59069905903,
     0x666c0a96f36cf9c0fc3c3f0c00000000,
     0x00f03c5f3565563330366a6f55afaf9f,
     0x09fff9660659fcffca596c395a9cf6a9,
     0xc9a5cffca6ac5f50faaaaa00335a9f5c,
     0x3c0f99c3a0050636a6c35f395903c395,
     0x6c096f69acc0c3a6f0605339a5a0a99c,
     0xacf3fccc90c630055505350900000000,
     0x00309aaf55366f96909ff6c3a653630f,
     0xcfcffc33036cf53369a0365ca9faff50,
     0xa09aa3c6935aafac369599c065650c5a,
     0x56cc0c695f0a039c9fa96390acc9a9c6,
     0xf500333f6a60a6633cf0a59c95605005,
     0x96f535560cac6c0a65f6960f00000000,
     0x0090f993a593f303f0cff35553663503,
     0x63a3f656f5fafa99f09f6f6690c5ffaf,
     0x9cc596a3c5699f9a5cfacc6fcafa05a5,
     0xafaa0a30a3f5c9c5f390390c5a606063,
     0x3afc959335305cc996f096c60a3c6c0a,
     0x0f3695530a9acac93acfcf0c00000000,
     0x00c0300555053509cca3f95a65f36609,
     0xf9693f6c3a35f6f0fccc3f33c0563f93,
     0x066ac395aaff0f05aa396a3ca9f5ca6a,
     0x5399095c56c6a065c5cc90f6a530c0f9,
     0x993a06c99a9c6a5c0f30f3a306663ac6,
     0x035fca5909065560595f630500000000,
     0x00a06c0a65f6960faa993f593a393f00,
     0xff3c5f3565563330366a6f55afaf9f09,
     0xfff9660659fcffca596c395a9cf6a9c9,
     0xa5cffca6ac5f50faaaaa00335a9f5c3c,
     0x0f99c3a0050636a6c35f395903c3956c,
     0x096f69acc0c3a6f06053390500000000,
     0x0090cac93acfcf0c690c5350555093c0,
     0x3c9aaf55366f96909ff6c3a653630fcf,
     0xcffc33036cf53369a0365ca9faff50a0,
     0x9aa3c6935aafac369599c065650c5a56,
     0xcc0c695f0a039c9fa96390acc9a9c6f5,
     0x00333f6a60a6633cf0a59c0500000000,
     0x00005560595f63c5c0caa650666ff9a0,
     0x9af993a593f303f0cff3555366350363,
     0xa3f656f5fafa99f09f6f6690c5ffaf9c,
     0xc596a3c5699f9a5cfacc6fcafa05a5af,
     0xaa0a30a3f5c9c5f390390c5a6060633a,
     0xfc959335305cc996f096c60a00000000,
     0x00309a935505960f69ca96acf5955309,
     0xc6a63cf096a306c3c635fc06a90503cc,
     0xf3cc0033650ca553c9fc936a9f055a6c,
     0x5c99c53f03fffc53f53536309ff65565,
     0x333fc09cf90565f6cfccc0a90c9636c5,
     0x59c0a3639630f359c3a9630a00000000,
     0x0090f90565f6cfccc0a90c9636c559c0,
     0xa3639630f359c3a9639a3ac3500ac965,
     0xc5aac065fac56aa5afc6c5f90fcaa936,
     0x66c0569fc9cff6663a569390cff35a3a,
     0x5993a0ca300a35cf63a5a050050f5f6a,
     0xac6056c90f5039ac6960f90900000000,
     0x00c0300a35cf63a5a050050f5f6aac60,
     0x56c90f5039ac6960f9099969aff5a0f5,
     0xaa9960caf5aac99a93a3aaffff69906f,
     0x33a0af0f6fa33f3c656f06f0a3395955,
     0x60f990a66cc95a5f3995606cca036f39,
     0x6a306c5cc36f905a30c03c0f00000000,
     0x00a06cc95a5f3995606cca036f396a30,
     0x6c5cc36f905a30c03ccf0c3053c6503a,
     0x95cc3fa9f659a0c5c69559fc33f0cf3f,
     0x555f6303f3695f5536f303cc995f5066,
     0xffcc0c9cca6069539c053c3a6609339f,
     0x359c3aa6a9330ca5905c560c00000000,
     0x0090ca6069539c053c3a6609339f359c,
     0x3aa6a9330ca5905c56ac0a5ca65fac56,
     0xfa6a5c9cffa09c6a63066cf599fc6c6f,
     0xa6633509f93cafa5933509aa0ca350f3,
     0x3c560a0a55f0f0a5c60a6695fc0095c3,
     0x9a06969f9099f65a0f5aaf0a00000000,
     0x000055f0f0a5c60a6695fc0095c39a06,
     0x969f9099f65a0f5aaf9a09a65caf9aac,
     0x3939aafaff9f06f93603fafaf036fac3,
     0x53f666003f9a935505960f69ca96acf5,
     0x955309c6a63cf096a306c3c635fc06a9,
     0x0503ccf3cc0033650ca5530900000000,
     0x00c0a63cf096a306c3c635fc06a90503,
     0xccf3cc0033650ca553c9fc936a9f055a,
     0x6c5c99c53f03fffc53f53536309ff655,
     0x65333fc09cf90565f6cfccc0a90c9636,
     0xc559c0a3639630f359c3a9639a3ac350,
     0x0ac965c5aac065fac56aa50f00000000,
     0x0090f90a555f9c0566c6953a695fc6ac,
     0xa6395cc9560fff69af5505cfaca06c6a,
     0x0995a305c9f5aacc5f9cff0ffff63665,
     0xf303aaca06965f3a6a9c9a9fccc065f5,
     0x5aa06a3303359690a35950f39c53c053,
     0xc9c33f0c5a0fa5a59fa3590c00000000,
     0x00c030c96a53c60ac3630a9930a35f9a,
     0x5c6c66a0af03f33c9365f66395603af6,
     0x0006590aa035956aacfa3fc3cf3f5c36,
     0x350969a90c0f6f993506c6f3aa60caf6,
     0xa99cf956f55603f099af50f5c5596066,
     0x5ca993f665cc6a9ac3956c0500000000,
     0x00a06c60f9a5a3c6a9f9c90c5c56af05,
     0xaa3633506309399a0535cf39053c953c,
     0xfcc3a0f5505afa399ac59f69a35fa593,
     0x96cfc050c50333cf9a036cc59930a9ff,
     0x9006fc633a6f06cc0c93ac3665ac303c,
     0xa6900933faa5c9c56606fa0a00000000,
     0x0090caf0f0965963603caf0aa66c9fca,
     0x996f556f35009ff90a555f9c0566c695,
     0x3a695fc6aca6395cc9560fff69af5505,
     0xcfaca06c6a0995a305c9f5aacc5f9cff,
     0x0ffff63665f303aaca06965f3a6a9c9a,
     0x9fccc065f55aa06a3303350600000000,
     0x0000553c30f3ac39c0569c0993fa0f69,
     0xc03fa6f366c0cc30c96a53c60ac3630a,
     0x9930a35f9a5c6c66a0af03f33c9365f6,
     0x6395603af60006590aa035956aacfa3f,
     0xc3cf3f5c36350969a90c0f6f993506c6,
     0xf3aa60caf6a99cf956f5560300000000,
     0x00c0a69650395a905cafcafcc5f9fff0,
     0x6f6f53363fa0aa6c60f9a5a3c6a9f9c9,
     0x0c5c56af05aa3633506309399a0535cf,
     0x39053c953cfcc3a0f5505afa399ac59f,
     0x69a35fa59396cfc050c50333cf9a036c,
     0xc59930a9ff9006fc633a6f0600000000,
     0x00a0630f6090a5005a53a9c6aaff33fc,
     0xfcc36553939096caf0f0965963603caf,
     0x0aa66c9fca996f556f35009ff90a555f,
     0x9c0566c6953a695fc6aca6395cc9560f,
     0xff69af5505cfaca06c6a0995a305c9f5,
     0xaacc5f9cff0ffff63665f30300000000,
     0x00c03060f996ac995c5399a36c3530a3,
     0xa95036356a0666c5ccaffa9ff9699335,
     0xcf9c05c3f9a90a93fafffcfc55553056,
     0xc0635c90c965f69906f6563696afa03a,
     0x36fc69af5f059a6fa6333f9006559660,
     0x905acf6ac536035603ccca0600000000,
     0x00a06cf030f35a005aa5cf95fa9a9099]"

definition mx210by732_part9 :: "block list" where
  "mx210by732_part9 =
    [0x9fac5f9a3503fcaa6a9cc50fff3c0555,
     0x5fc6caa93c9f09c5f93336fa5a669f53,
     0x6036a6cc60caff00ff3fac93cf9c6095,
     0x9c3a3053afcac93f5356930ccca60f30,
     0x0c65acc96a53f56f06aaa90c00000000,
     0x0090ca3c5039a500a59a63063506f00c,
     0x03966fc99ac9359539ca5603339a0a65,
     0x53a3666056ccfcaaff999f3659f3cc59,
     0x309c9faa30a9ffcfcf5f550563053cc6,
     0x05995c669f69606f6563f90aaa63c39f,
     0xf6fa55a0f9663af30369500500000000,
     0x0000559660905acf6ac536035603ccca,
     0x060f33af05a055fa5ca9af0999f9c9fa,
     0xa55933c0afaac659fcf0cf5350f565ac,
     0x9ccaf399509c3f63a3af65f639056663,
     0xca0ca6fc0ff0ffc33af9cc0956c9a903,
     0x33f5aa9cfc336535c9c06c0a00000000,
     0x00c0a60f300c65acc96a53f56f06aaa9,
     0xcc0395530a50aa3966506300cf3060f9,
     0x96ac995c5399a36c3530a3a95036356a,
     0x0666c5ccaffa9ff9699335cf9c05c3f9,
     0xa90a93fafffcfc55553056c0635c90c9,
     0x65f69906f6563696afa03a0600000000,
     0x00a063c39ff6fa55a0f9663af3036950,
     0x650906a9f5ac566c336035c0ac6cf030,
     0xf35a005aa5cf95fa9a90999fac5f9a35,
     0x03fcaa6a9cc50fff3c05555fc6caa93c,
     0x9f09c5f93336fa5a669f536036a6cc60,
     0xcaff00ff3fac93cf9c60950c00000000,
     0x0050c9a90333f5aa9cfc336535c9c06c,
     0xfa00c350c69aac3655ff66a09aca3c50,
     0x39a500a59a63063506f00c03966fc99a,
     0xc9359539ca5603339a0a6553a3666056,
     0xccfcaaff999f3659f3cc59309c9faa30,
     0xa9ffcfcf5f550563053cc60500000000,
     0x00a06c3c6090655ca0fc5336cf0c3c63,
     0xaa0ac5f999cfa3505fca9aa0a53933f0,
     0x6690c6a6c30f33f609ff5f65f69cc5a9,
     0x56acc66c95900c030f95a3f59a9c6f53,
     0x66f909665ccc30a93ff3690565535993,
     0x5ca56f065603aa50f500690f00000000,
     0x0090ca96300cfaa59cf6a693630566f9,
     0x9909aafff0a399ac6fa905505a6c553f,
     0x3f0cac63a9c365ffc0cfaf35cfc66a60,
     0xaf9aa3fa0af0cac6030659c605ca3f65,
     0xf3ccc033a6aa509c9ff93c0af5a5ac09,
     0x5a9a33036f06696c3afc300300000000,
     0x0000550f90f6f59a063f5c053905c33c,
     0xcffc593c30990f96335f0aaca636a653,
     0x930a5ac99069caff6fa393555fa336c0,
     0x53c9953506cca96c09c3a05fca696f3a,
     0x395660969f99a0fa0f3f9ac9fa965a00,
     0xa5c556f5f3c3c03a963a5c0600000000,
     0x00c0a6c30f33f609ff5f65f69cc5a956,
     0xacc66c95900c030f95a3f59a9c6f5366,
     0xf909665ccc30a93ff36905655359935c,
     0xa56f065603aa50f500695faf69f0c355,
     0x905330ccf3cc9fc50393f96039f3a5c0,
     0x6a6a633a35a9a0950c99a60c00000000,
     0x00a063a9c365ffc0cfaf35cfc66a60af,
     0x9aa3fa0af0cac6030659c605ca3f65f3,
     0xccc033a6aa509c9ff93c0af5a5ac095a,
     0x9a33036f06696c3afc30639ff0ff5566,
     0xcf599c6ac56acc5609c930f050395aaf,
     0xc9f93665969f60c6c50c930a00000000,
     0x0050c99069caff6fa393555fa336c053,
     0xc9953506cca96c09c3a05fca696f3a39,
     0x5660969f99a0fa0f3f9ac9fa965a00a5,
     0xc556f5f3c3c03a963a5cf60ffcfc5af3,
     0x6cac06f6aa39aaaf00af6c3c6090655c,
     0xa0fc5336cf0c3c63aa0ac50900000000,
     0x00605ccc30a93ff36905655359935ca5,
     0x6f065603aa50f500695faf69f0c35590,
     0x5330ccf3cc9fc50393f96039f3a5c06a,
     0x6a633a35a9a0950c99a6fcff363a59f5,
     0x356a033c955c5963c09cca96300cfaa5,
     0x9cf6a693630566f99909aa0f00000000]"

definition mx210by732 :: "u8 list" where
  "mx210by732 = concat (map line_bytes (mx210by732_part1 @ mx210by732_part2 @ mx210by732_part3 @ mx210by732_part4 @ mx210by732_part5 @ mx210by732_part6 @ mx210by732_part7 @ mx210by732_part8 @ mx210by732_part9))"

end
