(* ===== verification/Mx_Codes_Longest.thy ===== *)
theory Mx_Codes_Longest
  imports Prelude
begin

text \<open>
  The generator matrices for 217 to 238 input bits (\<^verbatim>\<open>libPSI/Tools/mx_*_by_*.h\<close>), one block
  numeral for a line of sixteen bytes of the source, with the digits in the order of the line.
\<close>

definition mx217by744_part1 :: "block list" where
  "mx217by744_part1 =
    [0x1605000000000000e802000000000000,
     0x000ff0000ff0000ff0000ff0000ff000,
     0x0ff0000ff0000ff0000ff0000ff0000f,
     0xf0000ff0000ff0000ff0000ff0000ff0,
     0x000ff0000ff0000ff0000ff0000ff000,
     0x0ff0000ff0000ff0000ff0000ff0000f,
     0xf0000ff0000ff0000ff0000ff0000000,
     0xc00cccc00cccc00cccc00cccc00cccc0,
     0x0cccc00cccc00cccc00cccc00cccc00c,
     0xccc00cccc00cccc00cccc00cccc00ccc,
     0xc00cccc00cccc00cccc00cccc00cccc0,
     0x0cccc00cccc00cccc00cccc00cccc00c,
     0xccc00cccc00cccc00cccc00ccc000000,
     0xa00aaaa00aaaa00aaaa00aaaa00aaaa0,
     0x0aaaa00aaaa00aaaa00aaaa00aaaa00a,
     0xaaa00aaaa00aaaa00aaaa00aaaa00aaa,
     0xa00aaaa00aaaa00aaaa00aaaa00aaaa0,
     0x0aaaa00aaaa00aaaa00aaaa00aaaa00a,
     0xaaa00aaaa00aaaa00aaaa00aaa000000,
     0x90066990066990066990066990066990,
     0x06699006699006699006699006699006,
     0x69900669900669900669900669900669,
     0x90066990066990066990066990066990,
     0x06699006699006699006699006699006,
     0x69900669900669900669900669000000,
     0x0cccc00cccc00cccc00cccc00cccc00c,
     0xccc00cccc00cccc00cccc00cccc00ccc,
     0xc00cccc00cccc00cccc00cccc00cccc0,
     0x0cccc00cccc00cccc00cccc00cccc00c,
     0xccc00cccc00cccc00cccc00cccc00ccc,
     0xc00cccc00cccc00cccc00cccc0000000,
     0x0aaaa00aaaa00aaaa00aaaa00aaaa00a,
     0xaaa00aaaa00aaaa00aaaa00aaaa00aaa,
     0xa00aaaa00aaaa00aaaa00aaaa00aaaa0,
     0x0aaaa00aaaa00aaaa00aaaa00aaaa00a,
     0xaaa00aaaa00aaaa00aaaa00aaaa00aaa,
     0xa00aaaa00aaaa00aaaa00aaaa0000000,
     0x09966009966009966009966009966009,
     0x96600996600996600996600996600996,
     0x60099660099660099660099660099660,
     0x09966009966009966009966009966009,
     0x96600996600996600996600996600996,
     0x60099660099660099660099660000000,
     0x0000cca00a690caca009063c6006c39c,
     0x6a60039c5ca005a5aca6c905aa9c6900,
     0xfffc6ca39ff63ca399f90ca36ca90c55,
     0x6caa63956c5c639a9f3c6fc5af3a95a5,
     0xaf39c5a636f9c63ff6f6c35ff55a9355,
     0x500a95ac60090f3c60090f30fc000000,
     0x0000aa90c6c00a9a60c0036630cca906,
     0x36c0c9055a50ca6a9a5ca0ca9906f0cf,
     0xcf36fa69cf339a99cf30ca96ca50c5a6,
     0x3a56c9c635a6f9c9f356fcaa5359fa9a,
     0x536c6a936ffc636f3ffc55af355905a5,
     0x50c90a96f0c00396f000c39f3a000000,
     0x0000690caca009063c6006c39c6a6003,
     0x9c5ca005a5aca6c905aa9c6900fffc6c,
     0xa39ff63ca399f90ca36ca90c556caa63,
     0x956c5c639a9f3c6fc5af3a95a5af39c5,
     0xa636f9c63ff6f6c35ff55a9355500a95,
     0xac60090f3c60090f30fca90399000000,
     0x00c0c00a9a60c0036630cca90636c0c9,
     0x055a50ca6a9a5ca0ca9906f0cfcf36fa,
     0x69cf339a99cf30ca96ca50c5a63a56c9,
     0xc635a6f9c9f356fcaa5359fa9a536c6a,
     0x936ffc636f3ffc55af355905a550c90a,
     0x96f0c00396f000c39f3a90c90c000000,
     0x00a0a009063c6006c39c6a60039c5ca0,
     0x05a5aca6c905aa9c6900fffc6ca39ff6,
     0x3ca399f90ca36ca90c556caa63956c5c,
     0x639a9f3c6fc5af3a95a5af39c5a636f9,
     0xc63ff6f6c35ff55a9355500a95ac6009,
     0x0f3c60090f30fca90399cca00a000000,
     0x009060c0036630cca90636c0c9055a50,
     0xca6a9a5ca0ca9906f0cfcf36fa69cf33,
     0x9a99cf30ca96ca50c5a63a56c9c635a6,
     0xf9c9f356fcaa5359fa9a536c6a936ffc,
     0x636f3ffc55af355905a550c90a96f0c0,
     0x0396f000c39f3a90c90caa9009000000,
     0x00003c6006c39c6a60039c5ca005a5ac,
     0xa6c905aa9c6900fffc6ca39ff63ca399,
     0xf90ca36ca90c556caa63956c5c639a9f,
     0x3c6fc5af3a95a5af39c5a636f9c63ff6,
     0xf6c35ff55a9355500a95ac60090f3c60,
     0x090f30fca90399cca00a99c0fc000000,
     0x0000aa0c9c6060c6a9030c5aac56a069,
     0xc0cf9f369a0c93ca6c5ac963caf3af5a,
     0xfac5966ff6f65593a55060c9030f903a,
     0xcc90096acc9533603a655305f36c536f,
     0x5939c30033a65c9c59acaf56333f963f,
     0x569c356aac590a655caffff033000000,
     0x0000690a0a3c306c60c905a59aac9cf0,
     0x6fa3cf93f9ca06553a665cf969c553a9,
     0x396ac33f3ffc5a0595acf06009c30f99,
     0xaac0fc396a06553f653a69f6f5f5a533,
     0x6f9069cf6593aafa6c55636f5693cf9c,
     0x53c69a355aa0f5fa659fffff99000000,
     0x00c0c00906669c3ac0a0c56a059a06fc,
     0xfc69a3c930a9cca6953ca63cffaaa55f,
     0x6cf9666f5f35590a05963cf000a9c30c,
     0x99a0c65c3903a653365530cf36f59695,
     0x330c3063cac599c5fa6a35f363f963c5,
     0x59a3c69aa550c6f5fa0f3ff3f0000000,
     0x00a0a0c003c306965c50aac9ca09ff36,
     0xfa3c99af6c50a563c6959f563c959aa3,
     0x36fcf3c3af5550c90a0f9630fc90a90a,
     0xcc9fa36650f553a693665f5f5f3af306,
     0x99f65c36a9aacf5635f66635f9cc3965,
     0xac59a3055aaf5ff6f9ff9f3930000000,
     0x00906060c6a9030c5aac56a069c0cf9f,
     0x369a0c93ca6c5ac963caf3af5afac596,
     0x6ff6f65593a55060c9030f903acc9009,
     0x6acc9533603a655305f36c536f5939c3,
     0x0033a65c9c59acaf56333f963f569c35,
     0x6aac590a655caffff0330f9f90000000,
     0x00003c306c60c905a59aac9cf06fa3cf,
     0x93f9ca06553a665cf969c553a9396ac3,
     0x3f3ffc5a0595acf06009c30f99aac0fc,
     0x396a06553f653a69f6f5f5a5336f9069,
     0xcf6593aafa6c55636f5693cf9c53c69a,
     0x355aa0f5fa659fffff990303f0000000,
     0x0000669c3ac0a0c56a059a06fcfc69a3,
     0xc930a9cca6953ca63cffaaa55f6cf966,
     0x6f5f35590a05963cf000a9c30c99a0c6,
     0x5c3903a653365530cf36f59695330c30,
     0x63cac599c5fa6a35f363f963c559a3c6,
     0x9aa550c6f5fa0f3ff3f00909cc000000,
     0x0000690906c3030ca5050aff9f96f9a9,
     0xac63636ac5a5af36f6f65a0a050f0f00,
     0x999990a333306555505f6f69903033a9,
     0x595c63f3f3cc9c9535a5a05ffff09909,
     0x09aa0a0a6606065a9a9c06363a9acac6,
     0xa6c6c5f353596cfcf355050596000000,
     0x00c0c0c0c3a9c9c56acac9cfcfc33050,
     0x55c9f9f9aa9a936f3f3c59c9ca03c3cf,
     0x0ccccf95555f36666f53333f0c5c569c,
     0x6c6535353956c6ca9a5a5faffffff000,
     0x0f690906c3030ca5050aff9f96f9a9ac,
     0x63636ac5a5af36f6f65a0a050f000000,
     0x00a0a0606660a0a5c96960a3a3a96c6c,
     0x6a5c3c3f95c5c63f5f5550606909a9a3,
     0x0a6a6c06a6a393f3fca59593f6a6acfa,
     0xfafa66969f53a3a605656c9f3f3330c0,
     0xccc0c0c3a9c9c56acac9cfcfc3305055,
     0xc9f9f9aa9a936f3f3c59c9ca03000000,
     0x009060303cc0505aa0f0ff69999fca3a,
     0x36a6565cfa6a636fafa550f0f0009099,
     0x09393a03535605f5f596060933939ac5]"

definition mx217by744_part2 :: "block list" where
  "mx217by744_part2 =
    [0x35363fcfcc5959530afaf50f9f9990a0,
     0xaaa0606660a0a5c96960a3a3a96c6c6a,
     0x5c3c3f95c5c63f5f5550606909000000,
     0x00003c9c9a5caca69cfcfc3c0c035595,
     0x9c9fafaa39f9f6c39395ac3c30fcccc0,
     0xfc5c59f56563f63635f3c3c065c5c956,
     0x5653936365acaca9f5f5faff0f0ff090,
     0x9660303cc0505aa0f0ff69999fca3a36,
     0xa6565cfa6a636fafa550f0f000000000,
     0x00006606065a9a9c06363a9acac6a6c6,
     0xc5f353596cfcf35505059696903aaaa0,
     0xc666603a3a39cf5f5a39696fcaaaafaf,
     0x6f66f939356a5a50c6f6f9330303cc0c,
     0x0c3c9c9a5caca69cfcfc3c0c0355959c,
     0x9fafaa39f9f6c39395ac3c30fc000000,
     0x0000c3030ca5050aff9f96f9a9ac6363,
     0x6ac5a5af36f6f65a0a050f0f00999990,
     0xa333306555505f6f69903033a9595c63,
     0xf3f3cc9c9535a5a05ffff0990909aa0a,
     0x0a6606065a9a9c06363a9acac6a6c6c5,
     0xf353596cfcf35505059696903a000000,
     0x00c0c06036c0ac96069fc6306c3aa6af,
     0x5a6cf6365960f900cca0c6335036f3fc,
     0x96c360ca596c3596cf59ac59c6fff0f0,
     0xc0aca0309c5c9a0cffcfa36c3a969f53,
     0xa9363f5c50f030fcaa90a355af93f535,
     0xf3693fa96cf566cf6cac5aa05f000000,
     0x00a0a0309c5c9a0cffcfa36c3a969f53,
     0xa9363f5c50f030fcaa90a355af93f535,
     0xf3693fa96cf566cf6cac5aa05fff3f30,
     0xa09a609c0a5a05cacfa399ca95ccf3a5,
     0x9f6f5fa5503c903a99c095a653053655,
     0x3930539cfa3a3f63356aa550af000000,
     0x0090609c0a5a05cacfa399ca95ccf3a5,
     0x9f6f5fa5503c903a99c095a653053655,
     0x3930539cfa3a3f63356aa550af3f9390,
     0x90063c0606a5ca69a3990f55c665c59a,
     0xc33faf95ac960099cc6f065366f65f6a,
     0x905ca6fa3556933995355a6f9f000000,
     0x00003c0606a5ca69a3990f55c665c59a,
     0xc33faf95ac960099cc6f065366f65f6a,
     0x905ca6fa3556933995355a6f9f9f09f0,
     0x0c0c6603cc6a69f0690cc3a663faaac5,
     0x666f9305960fc00c6a3c036533cf6f39,
     0x0ca69cc55663f99cc59a65fc0f000000,
     0x00006603cc6a69f0690cc3a663faaac5,
     0x666f9305960fc00c6a3c036533cf6f39,
     0x0ca69cc55663f99cc59a65fc0f0f0fcc,
     0x0a0ac3c9a5c9f0ff3ccaa663f939956a,
     0xf3c305050fc3af0a395af53a595f339f,
     0xf693ca566ff6ccc6aa05faf5ff000000,
     0x0000c3c9a5c9f0ff3ccaa663f939956a,
     0xf3c305050fc3af0a395af53a595f339f,
     0xf693ca566ff6ccc6aa05faf5ff0303aa,
     0x09c6a9a055a0fc3c9aa95cc93c5ffaf9,
     0xf6550ac503a993095c693a5560539503,
     0x33c5a9aff33356a3560af5fa33000000,
     0x00c0a9a055a0fc3c9aa95cc93c5ffaf9,
     0xf6550ac503a993095c693a5560539503,
     0x33c5a9aff33356a3560af5fa33090969,
     0xc0636050aa9c369af950655c56ac39fc,
     0xf35ac96a0990c9fc66306566ffa506c9,
     0x65aa5f6335995359a3f5f6f999000000,
     0x00a0a09c0aa569f03ca96c5cafaa365f,
     0x95ac0fa00a5c3965f33cf330a3fa56f3,
     0xcca3a6f5ff3030900666c955a036ca30,
     0x3ac6f39a636f05c50390a9c6555f055f,
     0x3a0c93aaaf35c9595a50af9f09cc0966,
     0x60ac06ffa30955633a95f9f65a000000,
     0x00906006c66af03f9a5035a653996faf,
     0x0596c39f09665036f555395c96c56f36,
     0x565953c6ff9f900c0cc3a0a59c9fa66c,
     0x956cc5c5f6c30a6509cc90a3a663f66f,
     0x99f6c55963966faca5609f0f0faac033,
     0xc09acccf99cfa6f959fafc3359000000,
     0x00003c03acc9fc9cf96c9a9fa5cf3f93,
     0x050fa9c3fc33a093366590a6cc56f393,
     0x53aca95f3f03f00acaa9509a06cf93ca,
     0xc6f5aa6af355c9fa00aac0955336cf33,
     0x0f33aa6f35cf3c6a5aff0f0303696096,
     0x5c056aa30ca3633caf39f65650000000,
     0x000066c955a036ca303ac6f39a636f05,
     0xc50390a9c6555f055f3a0c93aaaf35c9,
     0x595a50af9f09cc096660ac06ffa30955,
     0x633a95f9f65a6039fc99600665535f95,
     0xc36559fc6663953565fcff09c9c0300c,
     0x5acaf969ca56c9565c6c3fac50000000,
     0x0000c3a0a59c9fa66c956cc5c5f6c30a,
     0x6509cc90a3a663f66f99f6c55963966f,
     0xaca5609f0f0faac033c09acccf99cfa6,
     0xf959fafc3359f0903acc3f033a695306,
     0x69ca6c353f39c59afaf53300afa09c0a,
     0xa569f03ca96c5cafaa365f95ac000000,
     0x00c0a9509a06cf93cac6f5aa6af355c9,
     0xfa00aac0955336cf330f33aa6f35cf3c,
     0x6a5aff0f03036960965c056aa30ca363,
     0x3caf39f656503c00996a5cf555f0a5c3,
     0x30a9fa5a939ca505f5fa99c09c6006c6,
     0x6af03f9a5035a653996faf0596000000,
     0x006060ac06ffa30955633a95f9f65a60,
     0x39fc99600665535f95c36559fc666395,
     0x3565fcff09c9c0300c5acaf969ca56c9,
     0x565c6c3fac5096c00c396a3a66ff9669,
     0x5f9c3566f9c65a0af6f9f0a00a3c03ac,
     0xc9fc9cf96c9a9fa5cf3f93050f000000,
     0x009060035ca09f96ca635afaf6a6500f,
     0x90093350056f0933593c3f9c550aff90,
     0x900a6a609a6ca3ca665c53c93f056509,
     0xaa60063af9a569affa6f96535a609f03,
     0xc3c09cca6afccc3095fcaaf936593cc0,
     0x0c5c593636350cc5693563c59a000000,
     0x00003cc9a59ccf0355f9a9393f9cacc3,
     0xcffc556ff633cf656c5593c6aaf5ff0f,
     0xf00936c005fa69a93ca6a56f6f0af500,
     0x99300355f0963093c5f3c359a5f00f09,
     0xa9a006a6c936aa6cc63595fc535096a0,
     0x0a66a0935f9af6aaff6639a505000000,
     0x000066a09506a3c9a63c5f6c5f0596a9,
     0xa3c6a633cf9563cafa6af9a356c63f03,
     0xccc0935ccaf93c50959f9af3c3c93afc,
     0xcc5ff5663ff35cc6563569ac5affff00,
     0x9f60035ca09f96ca635afaf6a6500f90,
     0x093350056f0933593c3f9c550a000000,
     0x0000c3500aff99af6356ac36af050f90,
     0x99a353565f0639a935f6cc59a35f9f09,
     0xaa60065a69309a6ccaf3c5f65560993a,
     0x6a6c3af35c39a6acaf963f6a65fc33c0,
     0x0c3cc9a59ccf0355f9a9393f9cacc3cf,
     0xfc556ff633cf656c5593c6aaf5000000,
     0x00c0a9acc6cf0c53c9af9a6f93c503cc,
     0xc095656353c3509c563356ac59af0f0f,
     0x69300ca5f09ff93a66c56af35af00099,
     0x393a65f56590935a63cf9c35faf599a0,
     0x0a66a09506a3c9a63c5f6c5f0596a9a3,
     0xc6a633cf9563cafa6af9a356c6000000,
     0x0060609a6ca3ca665c53c93f056509aa,
     0x60063af9a569affa6f96535a609f03c3,
     0xc09cca6afccc3095fcaaf936593cc00c,
     0x5c593636350cc5693563c59af5faf090,
     0x06c3500aff99af6356ac36af050f9099,
     0xa353565f0639a935f6cc59a35f000000,
     0x0030c005fa69a93ca6a56f6f0af50099,
     0x300355f0963093c5f3c359a5f00f09a9,
     0xa006a6c936aa6cc63595fc535096a00a,
     0x66a0935f9af6aaff6639a505f639300c,
     0xcca9acc6cf0c53c9af9a6f93c503ccc0,
     0x95656353c3509c563356ac59af000000,
     0x00003ca005ff0c635ca5ffc36009995c]"

definition mx217by744_part3 :: "block list" where
  "mx217by744_part3 =
    [0xa9936fc965fafaccac699f099960c995,
     0x06995fc953696fc99a3a395a365f0a33,
     0x6c65f95953af03a3a003ac9ca3a963af,
     0xca3f0a35fc6a3c653695f6595c93a3a6,
     0x5f0fcfc00656a0cfc3a6569c6f000000,
     0x00006650cacfca36a69af355f0c00c66,
     0x5005336fca3536565af00f000f3ca005,
     0xff0c635ca5ffc36009995ca9936fc965,
     0xfafaccac699f099960c99506995fc953,
     0x696fc99a3a395a365f0a336c65f95953,
     0xaf03a3a003ac9ca3a963afca3f000000,
     0x0000c3ac66a3a99c9fc5f65a3ca00a33,
     0x60f69533a9569353a5f0ffc00c6650ca,
     0xcfca36a69af355f0c00c665005336fca,
     0x3536565af00f000f3ca005ff0c635ca5,
     0xffc36009995ca9936fc965fafaccac69,
     0x9f099960c99506995fc953696f000000,
     0x00c0a99afc6950c5f36a335996900955,
     0x3fcf06599c6fc6595aff33a00ac3ac66,
     0xa3a99c9fc5f65a3ca00a3360f69533a9,
     0x569353a5f0ffc00c6650cacfca36a69a,
     0xf355f0c00c665005336fca3536565af0,
     0x0f000f3ca005ff0c635ca5ffc3000000,
     0x00606005fa3c6c6ac5f956500fc0fca6,
     0x535fc3a0faf363ac65fc9990c6a99afc,
     0x6950c5f36a3359969009553fcf06599c,
     0x6fc6595aff33a00ac3ac66a3a99c9fc5,
     0xf65a3ca00a3360f69533a9569353a5f0,
     0xffc00c6650cacfca36a69af355000000,
     0x0030c0ca399a3af6aafca350c3afc653,
     0x6653699fc535396afaf5f00c6c6005fa,
     0x3c6c6ac5f956500fc0fca6535fc3a0fa,
     0xf363ac65fc9990c6a99afc6950c5f36a,
     0x3359969009553fcf06599c6fc6595aff,
     0x33a00ac3ac66a3a99c9fc5f65a000000,
     0x00905c6990f9953c95f696aca993a365,
     0xf3a530c356969f35f53a300a3ac0ca39,
     0x9a3af6aafca350c3afc6536653699fc5,
     0x35396afaf5f00c6c6005fa3c6c6ac5f9,
     0x56500fc0fca6535fc3a0faf363ac65fc,
     0x9990c6a99afc6950c5f36a3359000000,
     0x000066acf6696cfaaaf60696cc3003f3,
     0x3c0c596cf9acf90fc00cc39afc3c3a36,
     0x953f0c0faa50f5f595f66cf5cc5af0ff,
     0xa0caa9053a9a955cfa5fc50399603a36,
     0x0533fa3a56a5f033906660ca99f9c6a5,
     0x39af6509cc3f655fca65359653000000,
     0x0000c39afc3c3a36953f0c0faa50f5f5,
     0x95f66cf5cc5af0ffa0caa9053a9a955c,
     0xfa5fc50399603a360533fa3a56a5f033,
     0x906660ca99f9c6a539af6509cc3f655f,
     0xca653596535aff990c3cc069c030635a,
     0x6c93f5006a5c366f69ca56c359000000,
     0x00c0a9053a9a955cfa5fc50399603a36,
     0x0533fa3a56a5f033906660ca99f9c6a5,
     0x39af6509cc3f655fca653596535aff99,
     0x0c3cc069c030635a6c93f5006a5c366f,
     0x69ca56c35965fcf00a9a5cf0af6cf9a9,
     0x360535fc39aa93333fa96f66ac000000,
     0x006060ca99f9c6a539af6509cc3f655f,
     0xca653596535aff990c3cc069c030635a,
     0x6c93f5006a5c366f69ca56c35965fcf0,
     0x0a9a5cf0af6cf9a9360535fc39aa9333,
     0x3fa96f66acfa353009065afc9cca3c9f,
     0x6f0a953a5c590595539cf3336a000000,
     0x0030c069c030635a6c93f5006a5c366f,
     0x69ca56c35965fcf00a9a5cf0af6cf9a9,
     0x360535fc39aa93333fa96f66acfa3530,
     0x09065afc9cca3c9f6f0a953a5c590595,
     0x539cf3336af59a90c003a5360a5556cc,
     0x3fc90a996660f606a9fa359935000000,
     0x00905cf0af6cf9a9360535fc39aa9333,
     0x3fa96f66acfa353009065afc9cca3c9f,
     0x6f0a953a5c590595539cf3336af59a90,
     0xc003a5360a5556cc3fc90a996660f606,
     0xa9fa359935f609f060c66a9fc6a6af6a,
     0x6f60c90c3330cfc390c596cf9a000000,
     0x00005afc9cca3c9f6f0a953a5c590595,
     0x539cf3336af59a90c003a5360a5556cc,
     0x3fc90a996660f606a9fa359935f609f0,
     0x60c66a9fc6a6af6a6f60c90c3330cfc3,
     0x90c596cf9aff00cc30acc9cfa36353f9,
     0xc3f0a00a555f5f69cf56cfac05000000,
     0x0000c3059af963aa360a059933505f30,
     0x53639ca55f0909669a3c9ac6556c0595,
     0x3a6630cf69afaf3955c603033cacf63c,
     0x95ac399335fc5c69f6c3c05663a5f50f,
     0x9f6050fa693a56faaff500395a050699,
     0xc5cf5c0a9fa9a0a065a36c3a95000000,
     0x00c0a9cac930f9996fc9ca0c556f535c,
     0x6635c65aaf000fc3059af963aa360a05,
     0x9933505f3053639ca55f0909669a3c9a,
     0xc6556c05953a6630cf69afaf3955c603,
     0x033cacf63c95ac399335fc5c69f6c3c0,
     0x5663a5f50f9f6050fa693a56fa000000,
     0x00606069a06c3ccf3f60a90aa6f3a5a6,
     0xfc66a3669fc0cca9cac930f9996fc9ca,
     0x0c556f535c6635c65aaf000fc3059af9,
     0x63aa360a059933505f3053639ca55f09,
     0x09669a3c9ac6556c05953a6630cf69af,
     0xaf3955c603033cacf63c95ac39000000,
     0x0030c0f09fca566c6ff0900953f69693,
     0x3a3f59f30fa06a6069a06c3ccf3f60a9,
     0x0aa6f3a5a6fc66a3669fc0cca9cac930,
     0xf9996fc9ca0c556f535c6635c65aaf00,
     0x0fc3059af963aa360a059933505f3053,
     0x639ca55f0909669a3c9ac6556c000000,
     0x00905cfc0c55affac33cc0fc6533f3c5,
     0x5993acf9ff9036c0f09fca566c6ff090,
     0x0953f696933a3f59f30fa06a6069a06c,
     0x3ccf3f60a90aa6f3a5a6fc66a3669fc0,
     0xcca9cac930f9996fc9ca0c556f535c66,
     0x35c65aaf000fc3059af963aa36000000,
     0x00005a36caa653f95596a0c63a5939aa,
     0x6ff95af0330c9c5cfc0c55affac33cc0,
     0xfc6533f3c55993acf9ff9036c0f09fca,
     0x566c6ff0900953f696933a3f59f30fa0,
     0x6a6069a06c3ccf3f60a90aa6f3a5a6fc,
     0x66a3669fc0cca9cac930f9996f000000,
     0x0000a59fa663a5ff5a0f90a355609059,
     0xfccca5f0990a0a5a36caa653f95596a0,
     0xc63a5939aa6ff95af0330c9c5cfc0c55,
     0xaffac33cc0fc6533f3c55993acf9ff90,
     0x36c0f09fca566c6ff0900953f696933a,
     0x3f59f30fa06a6069a06c3ccf3f000000,
     0x00c0a96990caaffa550fc095f30c3356,
     0x336aff0069c965a33aa63905059955ff,
     0xa5935a935af09909c66aa339a6f90696,
     0x9950369593c56355c60909c3caa96c56,
     0xfcc39690a3669ff63566acf609aa03cc,
     0xcf6c5afa93953a336053a63c3f000000,
     0x006060f00f5553f95ac36f06f5c5656f,
     0x9635ffcfc0a0f569955c6c0ac50ca6f3,
     0x96c569f9a5f0f0c0a3c9999f9ffc030f,
     0xccaf9306c95639a55f00cfa96990caaf,
     0xfa550fc095f30c3356336aff0069c965,
     0xa33aa63905059955ffa5935a93000000,
     0x0030c0fccca6a53f59a933033665caf3,
     0xc39a3fa3a050fa3cc6a536c9aa0a5336,
     0xf3aaffcc5a3f306056a00cc3f3f6c603,
     0x6a5c05c3a0af9c55afc06c60f00f5553,
     0xf95ac36f06f5c5656f9635ffcfc0a0f5,
     0x69955c6c0ac50ca6f396c569f9000000,
     0x00905c36aa639a53509059f55f3aa935,
     0xa9059f9960ac369a639a6f6099096553,
     0x39593c56659c9030ac9cca66c53f6c09,
     0x396af6695f63c66a9fa03ac0fccca6a5,
     0x3f59a933033665caf3c39a3fa3a050fa]"

definition mx217by744_part4 :: "block list" where
  "mx217by744_part4 =
    [0x3cc6a536c9aa0a5336f3aaffcc000000,
     0x00005a9f56c9c5a650cc603a6f599c96,
     0x5f0a0f0f3c9a9cf9f9c93ff0c0fc3a69,
     0x906c9553fa05f09c9a06a9fcaa5ff500,
     0x5c39cf306335a3f60f90965c36aa639a,
     0x53509059f55f3aa935a9059f9960ac36,
     0x9a639a6f609909655339593c56000000,
     0x0000a5cf635c6a93acaa306533affacf,
     0xacf503036605ca303c6f6f3ca0c65530,
     0x0cfaca59f50acc0606ff503595af35fc,
     0x66505f5cf66659f3ff0c0c5a9f56c9c5,
     0xa650cc603a6f599c965f0a0f0f3c9a9c,
     0xf9f9c93ff0c0fc3a69906c9553000000,
     0x00c06aa339a6f906969950369593c563,
     0x55c60909c3caa96c56fcc39690a3669f,
     0xf63566acf609aa03cccf6c5afa93953a,
     0x336053a63c3facf9330a0aa5cf635c6a,
     0x93acaa306533affacfacf503036605ca,
     0x303c6f6f3ca0c655300cfaca59000000,
     0x006060fcac63c596ac99a093c35063a3,
     0xf6ff0aca6a99cff33ffc00666053936a,
     0xf95a9f909c0aff6caa390aa50a656390,
     0xfa6aacffc0c0503a9af9696f96c095f5,
     0x65ca35590a0303c3690055a55f50cc30,
     0x6595c3569c659f90065acf33a6000000,
     0x0030c0365ac96a0396cc5f05696f3559,
     0xf33309a6c90c63c55f35fc33f0a5c5f9,
     0xcc650cf006c6cf3a566cc99a093a390c,
     0x35366affafa0ac96f93cffc30f600636,
     0x35a996aff509c9a9f0cfa69aa350aa50,
     0x3606a9afc6fa0f0c0ca5a3999f000000,
     0x00905c9f665cf9060f6a6cf630f366ac,
     0xf999c053a0caf6aaaf953a55ff96aa3f,
     0x56fa05cc036ca395ac3660c9fc5590f6,
     0x5693353f93609acc3056fc55c33f035f,
     0x5a9ccf5cc6006f60fcac63c596ac99a0,
     0x93c35063a3f6ff0aca6a99cff3000000,
     0x00005acf33a6fcc303393acf5c363f5a,
     0xf0f060a69ca93c95930599a633f3599c,
     0x53f50aaac9f569c6956ff0a0c6660f33,
     0x6fc69a9f093c05aa6caffa5aa953f56f,
     0xa9fa63a55fc03cc0365ac96a0396cc5f,
     0x05696f3559f33309a6c90c63c5000000,
     0x0000a5a3999ff666095c595fa65c93a5,
     0x3030309c065055fa05c50c5356396cc5,
     0x59f60969a0f53c63ca3f3c90a3f3cc65,
     0xf3a3050f0f66ca99ca53395990693a33,
     0x9fc53955afa09a5c9f665cf9060f6a6c,
     0xf630f366acf999c053a0caf6aa000000,
     0x00c06a99cff33ffc00666053936af95a,
     0x9f909c0aff6caa390aa50a656390fa6a,
     0xacffc0c0503a9af9696f96c095f565ca,
     0x35590a0303c3690055a55f50cc306595,
     0xc3569c659f90065acf33a6fcc303393a,
     0xcf5c363f5af0f060a69ca93c95000000,
     0x00a0c90c63c55f35fc33f0a5c5f9cc65,
     0x0cf006c6cf3a566cc99a093a390c3536,
     0x6affafa0ac96f93cffc30f60063635a9,
     0x96aff509c9a9f0cfa69aa350aa503606,
     0xa9afc6fa0f0c0ca5a3999ff666095c59,
     0x5fa65c93a53030309c065055fa000000,
     0x0030c09f36a6f6f60033f09659cc59ff,
     0xa0a09aac6c535950aaa09369ff665a30,
     0x309ccacf959c6f3cc09536559c6355af,
     0x9006a5996fc5af05995366903596359f,
     0x096669c0a6c506966a3ccfa66cf9650c,
     0xccc9f53cf9f9c3c35ff533cf56000000,
     0x00905ccf939f3f3cfc553ff36c65acff,
     0x9f60059acaa5af5099500530333fa590,
     0x900666a3c6c53f9660065faafa39659f,
     0x0ccc6a0cf3aa93c50c65330c56c39a0f,
     0x0fc3f0af636a030f395a5f93faccfa05,
     0xaaa0359a3cff55a9633a95a3af000000,
     0x00005aa3c9f35f953aa65339fa3a6a3f,
     0x033cca09559a93accc6ff65c56935a0f,
     0xf003fc69636a6f0f30036f99c59cf50f,
     0x0aaac9ca369505a50a3a99f66fa60503,
     0xc3a9fc5cc9f9c6035c6953c53956f50a,
     0x69509af956fc5a903965065963000000,
     0x0000a5996fc5af05995366903596359f,
     0x096669c0a6c506966a3ccfa66cf9650c,
     0xccc9f53cf9f9c3c35ff533cf56c6faff,
     0x0956a0a95cfa0a9509550033f3530a09,
     0x6960366a5cfc630966f0a5aa9f53f6c9,
     0xc0acc630af3a59cc5036c36035000000,
     0x00c06a0cf3aa93c50c65330c56c39a0f,
     0x0fc3f0af636a030f395a5f93faccfa05,
     0xaaa0359a3cff55a9633a95a3afa3f633,
     0xc0a39c50a539c9cafc66cf6535a9f500,
     0x3fc09f36a6f6f60033f09659cc59ffa0,
     0xa09aac6c535950aaa09369ff66000000,
     0x00a0c9ca369505a50a3a99f66fa60503,
     0xc3a9fc5cc9f9c6035c6953c53956f50a,
     0x69509af956fc5a90396506596359f399,
     0x6096066c5a6c60a9c6f36cca965fc6c0,
     0x9c5ccf939f3f3cfc553ff36c65acff9f,
     0x60059acaa5af5099500530333f000000,
     0x0050a0a95cfa0a9509550033f3530a09,
     0x6960366a5cfc630966f0a5aa9f53f6c9,
     0xc0acc630af3a59cc5036c36035acf9f0,
     0x300cff3aa636f090a3f535a9cfac5fa0,
     0x0a5aa3c9f35f953aa65339fa3a6a3f03,
     0x3cca09559a93accc6ff65c5693000000,
     0x00905ca369c593a50a55c06596af5f90,
     0xc66aca56fac9aac6f5559c39f50f09a6,
     0x9c6caa363c60066fc956a3f69930cccf,
     0xc6656fc36f3a0669355a909003fc3c3c,
     0xff5acca093305393650caa50ca3053a9,
     0x50cc3fcf933a56f6a9a0050a55000000,
     0x00005a99ffaa059509666fcacf5caf0c,
     0xacc9a9ac396099a336a5fa9cf5ffc093,
     0x063a966f96300333afaf59f3f09c6aa3,
     0x63fac3a93365c3f066a500f0c9359a56,
     0x3c59aa50055c66f9fa0569aca66ca59f,
     0xac6a5c5fc59953ff9060cac9a6000000,
     0x0000a50c33950ac5fcf33ca963659f0a,
     0x5aa050556cf0c0955f9ac5c6fa336006,
     0xff95cc3f0f50f5955363ac393006f669,
     0xf9f955905936693f3f5a0fcca095f9af,
     0x5a509960f6a6fcccf5cac09a9cca9a03,
     0x96396a53aacf59ff0f3c69a063000000,
     0x00c06aca56fac9aac6f5559c39f50f09,
     0xa69c6caa363c60066fc956a3f69930cc,
     0xcfc6656fc36f3a0669355a909003fc3c,
     0x3cff5acca093305393650caa50ca3053,
     0xa950cc3fcf933a56f6a9a0050a55c506,
     0x0f5cf9a5596cac3f0366f05fc9000000,
     0x00a0c9a9ac396099a336a5fa9cf5ffc0,
     0x93063a966f96300333afaf59f3f09c6a,
     0xa363fac3a93365c3f066a500f0c9359a,
     0x563c59aa50055c66f9fa0569aca66ca5,
     0x9fac6a5c5fc59953ff9060cac9a66ac3,
     0x0366f0966c356a9f09c3fc6c5c000000,
     0x0050a050556cf0c0955f9ac5c6fa3360,
     0x06ff95cc3f0f50f5955363ac393006f6,
     0x69f9f955905936693f3f5a0fcca095f9,
     0xaf5a509960f6a6fcccf5cac09a9cca9a,
     0x0396396a53aacf59ff0f3c69a063f966,
     0x093330f3fa9a350fcfa9363aa6000000,
     0x00a09c6caa363c60066fc956a3f69930,
     0xcccfc6656fc36f3a0669355a909003fc,
     0x3c3cff5acca093305393650caa50ca30,
     0x53a950cc3fcf933a56f6a9a0050a55c5,
     0x060f5cf9a5596cac3f0366f05fc9fcf3,
     0x00555f3935c69a0363609f969f000000,
     0x00005a0c53fa60c9956fa9afac9990c9,
     0x95f95399ac39faa56c95350333c0a3f9,
     0xaa0aa5c63695c5a3f6f006f63c565c50]"

definition mx217by744_part5 :: "block list" where
  "mx217by744_part5 =
    [0xcc5f5faa6fac9fc9a99fc6f3939509f3,
     0x5c9c9cf533306ca3f9f95aaa60f6939a,
     0x53ff0f66fc3ca65fc50c5560ca000000,
     0x0000a5caa639f06006335f635a00f0a0,
     0xc530a50f965cf996faca9a09995c993f,
     0x95c99aa35fca56593330033c9aafaa50,
     0x6a6c53593c6a0f6f60cf63c505c5fcf5,
     0xa5fac6fa999cfa693c3f599930cfc5c9,
     0x593f03c3369a9fafa50a663fa9000000,
     0x00c06aa95c6c3c3003956335a500cc50,
     0xaa6c9a030f6630f335a605000f5a0c53,
     0xfa60c9956fa9afac9990c995f95399ac,
     0x39faa56c95350333c0a3f9aa0aa5c636,
     0x95c5a3f6f006f63c565c50cc5f5faa6f,
     0xac9fc9a99fc6f3939509f35c9c000000,
     0x00a0c950a5369650f506f9665a0faaac,
     0x96cac5c60333503956530ac00ca5caa6,
     0x39f06006335f635a00f0a0c530a50f96,
     0x5cf996faca9a09995c993f95c99aa35f,
     0xca56593330033c9aafaa506a6c53593c,
     0x6a0f6f60cf63c505c5fcf5a5fa000000,
     0x0050a06c9a6f0f603ac3303f650c699a,
     0x0c556a6309556f906fa6f5a0ca6aa95c,
     0x6c3c3003956335a500cc50aa6c9a030f,
     0x6630f335a605000f5a0c53fa60c9956f,
     0xa9afac9990c995f95399ac39faa56c95,
     0x350333c0a3f9aa0aa5c63695c5000000,
     0x00a09c3ac63fc33f65695f93fac5c005,
     0xcaa6f9f600a6330cf353c690a6c950a5,
     0x369650f506f9665a0faaac96cac5c603,
     0x33503956530ac00ca5caa639f0600633,
     0x5f635a00f0a0c530a50f965cf996faca,
     0x9a09995c993f95c99aa35fca56000000,
     0x009006956c6fa953363063f9f5aaa0ca,
     0xa963fc33fc5396f635a95f0c5ca06c9a,
     0x6f0f603ac3303f650c699a0c556a6309,
     0x556f906fa6f5a0ca6aa95c6c3c300395,
     0x6335a500cc50aa6c9a030f6630f335a6,
     0x05000f5a0c53fa60c9956fa9af000000,
     0x0000a5a9ac360f306530f3ccff006636,
     0xcaf305a5c65faaaf5a00ccac0655f936,
     0xfc65c36563f5ff30fc6956ac5039fa96,
     0x35560aa0aac96cca3fa9a393a69c533f,
     0xc3a9cff3aac9ca95336f355a0f6905aa,
     0x63f606995530a99cf59906369a000000,
     0x00c06a50956fc35f365c3656ff0fc39f,
     0x66c50a95a36f5963a500aa9acca6fc93,
     0x3a3a69ca39f5339cfa3caf9aac5c39f3,
     0x56a3f59056a03a666f90590593ca599f,
     0x6960a3399560690695f36665ccc0ca59,
     0xc93fcc0c665f9cc6faf0039cf9000000,
     0x00a0c96cca3fa9a393a69c533fc3a9cf,
     0xf3aac9ca95336f355a0f6905aa63f606,
     0x995530a99cf59906369a530996665039,
     0x6f56c60cac9c95fcc3cc60f6c569ac0f,
     0x3fc0995ffaf0300306393ffaa5a06960,
     0x5c5fa50af3acfaa33630c9c530000000,
     0x0050a03a666f90590593ca599f6960a3,
     0x399560690695f36665ccc0ca59c93fcc,
     0x0c665f9cc6faf0039cf9a50f0f336090,
     0xf3a35f0a9a06c6f555aa30cfaa3f6a03,
     0x935c0ca3393c50f5c35093f59a60f03f,
     0xa6af9509f595c5599390a0a56c000000,
     0x00a09c95fcc3cc60f6c569ac0f3fc099,
     0x5ffaf0300306393ffaa5a069605c5fa5,
     0x0af3acfaa33630c9c5309ac303553f0c,
     0x3559af0906ff63fa5a99505f599c3509,
     0x095aca566c96603a696ff9f6093cfc9c,
     0x9f93c5fc36c556ac09f0509aca000000,
     0x009006c6f555aa30cfaa3f6a03935c0c,
     0xa3393c50f5c35093f59a60f03fa6af95,
     0x09f595c5599390a0a56cc56609a693f6,
     0x966f9fc0c3cff93959cc6f536cc59a00,
     0x0fa5a9ac360f306530f3ccff006636ca,
     0xf305a5c65faaaf5a00ccac0655000000,
     0x0000ff63fa5a99505f599c3509095aca,
     0x566c96603a696ff9f6093cfc9c9f93c5,
     0xfc36c556ac09f0509aca6af300530633,
     0xcffc0f6066a33c5f506afca5faaa05c0,
     0xcc6a50956fc35f365c3656ff0fc39f66,
     0xc50a95a36f5963a500aa9acca6000000,
     0x00c06a6c6a6fcc30cf59cc9ac0acc93a,
     0xf6c3aa505f6ca505a05aa095fc559960,
     0x53fa5a0a90a69cc6f55accffa535a6f5,
     0x0c9c06633a596afc965653c60a0afff9,
     0x5950393af36fa65f09c6cf3caf505c59,
     0x39f353afc063a3569cac666090000000,
     0x00a0c93af6c3aa505f6ca505a05aa095,
     0xfc55996053fa5a0a90a69cc6f55accff,
     0xa535a6f50c9c06633a596afc965653c6,
     0x0a0afff95950393af36fa65f09c6cf3c,
     0xaf505c5939f353afc063a3569cac6660,
     0x9035699f60f669af0a9633300c000000,
     0x0050a095fc55996053fa5a0a90a69cc6,
     0xf55accffa535a6f50c9c06633a596afc,
     0x965653c60a0afff95950393af36fa65f,
     0x09c6cf3caf505c5939f353afc063a356,
     0x9cac66609035699f60f669af0a963330,
     0x0c96ff0f30fc3c53090f559ff6000000,
     0x00a09cc6f55accffa535a6f50c9c0663,
     0x3a596afc965653c60a0afff95950393a,
     0xf36fa65f09c6cf3caf505c5939f353af,
     0xc063a3569cac66609035699f60f669af,
     0x0a9633300c96ff0f30fc3c53090f559f,
     0xf6cffcff9c3a9aa5cf03a60333000000,
     0x009006633a596afc965653c60a0afff9,
     0x5950393af36fa65f09c6cf3caf505c59,
     0x39f353afc063a3569cac66609035699f,
     0x60f669af0a9633300c96ff0f30fc3c53,
     0x090f559ff6cffcff9c3a9aa5cf03a603,
     0x3363f5330696f99a630953c665000000,
     0x0000fff95950393af36fa65f09c6cf3c,
     0xaf505c5939f353afc063a3569cac6660,
     0x9035699f60f669af0a9633300c96ff0f,
     0x30fc3c53090f559ff6cffcff9c3a9aa5,
     0xcf03a6033363f5330696f99a630953c6,
     0x6539f59903cc30c5f6006563ca000000,
     0x00c0cf3caf505c5939f353afc063a356,
     0x9cac66609035699f60f669af0a963330,
     0x0c96ff0f30fc3c53090f559ff6cffcff,
     0x9c3a9aa5cf03a6033363f5330696f99a,
     0x630953c66539f59903cc30c5f6006563,
     0xca9cf5f0c9a56c6a33fc3a39a9000000,
     0x00a0c995fc5a6a3cf3f3639f303c9a9a,
     0xf3003a599c5903cc056a5c9395a39553,
     0x93ffc0a9995f6cc35f05aacf9aa0aa9c,
     0x635a505c699096ffff06c6306a933a66,
     0x9fc55a006969909f0a6506c3f0cc3f33,
     0xc0ca966f9039cf6c550a0c0cff000000,
     0x0050a0c63559395a3935f90f9c9af9c5,
     0x36fc55a0faac09aaca39a605c5950669,
     0xf9ff6f600ca336a963f659ac05909606,
     0xf9a95066300ccffc3303ac6cf90699f3,
     0xcc56a5c0c0f0cff3c93a03693f569f99,
     0x5ca9cc3fcc505ffaaaf50acacf000000,
     0x00a09c635a505c699096ffff06c6306a,
     0x933a669fc55a006969909f0a6506c3f0,
     0xcc3f33c0ca966f9039cf6c550a0c0cff,
     0x3c9fac3390f663f599c995cafcc30cf5,
     0xa5af5aafa0fc6cc56059f53093530f0f,
     0x5a50656faa60533556c60966a3000000,
     0x009006f9a95066300ccffc3303ac6cf9,
     0x0699f3cc56a5c0c0f0cff3c93a03693f,
     0x569f995ca9cc3fcc505ffaaaf50acacf,
     0x560c96550f3339f5f0a00555f6a60a36,
     0x5563659c6036faaaf0603a5cc6590303,
     0xa56cfac399f0a556a35fc0f369000000,
     0x0000ff3c9fac3390f663f599c995cafc]"

definition mx217by744_part6 :: "block list" where
  "mx217by744_part6 =
    [0xc30cf5a5af5aafa0fc6cc56059f53093,
     0x530f0f5a50656faa60533556c60966a3,
     0xaf0a0fa6c3659c353050caa63f9c095f,
     0x6a35fa053c9f36953c3065a66cac09c9,
     0x6a3af655ccff966f56af60f63c000000,
     0x00c0cf560c96550f3339f5f0a00555f6,
     0xa60a365563659c6036faaaf0603a5cc6,
     0x590303a56cfac399f0a556a35fc0f369,
     0x53c9035366cac69a90aca6635fc5fc6f,
     0xf966f50a66cf53fa965036933a6a00af,
     0xc995fc5a6a3cf3f3639f303c9a000000,
     0x0060a3af0a0fa6c3659c353050caa63f,
     0x9c095f6a35fa053c9f36953c3065a66c,
     0xac09c96a3af655ccff966f56af60f63c,
     0xa56f096533a9a306f09a5cc9afa5c633,
     0x3f3ff609c3a3a9390fa093c59935c05c,
     0xa0c63559395a3935f90f9c9af9000000,
     0x0050a063aa503300339c95909a6c5c05,
     0x6506699f5303c36a953c595c390c63f5,
     0xf050aa63af95a306f9cc9f095a6cfa55,
     0x6a5c3996ff33c905553fccfc335f93ff,
     0x3fc0a96c6f99f096f3f30f06a66cfca3,
     0x0a5ffa66f6c9a90c936fcc6053000000,
     0x00a09cf999ac55cf65c60af0053aa60a,
     0x350330c35909a9c9c655506690f63935,
     0x30ac56c993c595c330560f0fa53af65a,
     0x396a90cffc99a0c5a65fa5c69563f93f,
     0x935c50f5c3cc3ff335f9ff039ccaf696,
     0x096f393fff6060cac63faaf0a5000000,
     0x0090063c0f96a663caa306ccca999fc9,
     0x5af55c66ac005fa063aa503300339c95,
     0x909a6c5c056506699f5303c36a953c59,
     0x5c390c63f5f050aa63af95a306f9cc9f,
     0x095a6cfa556a5c3996ff33c905553fcc,
     0xfc335f93ff3fc0a96c6f99f096000000,
     0x0000ff560c0f5336a95903aa69c0f360,
     0x693aa63c6ac0ac9cf999ac55cf65c60a,
     0xf0053aa60a350330c35909a9c9c65550,
     0x6690f6393530ac56c993c595c330560f,
     0x0fa53af65a396a90cffc99a0c5a65fa5,
     0xc69563f93f935c50f5c3cc3ff3000000,
     0x00c0cfafca0365539cac0969f06fc5f0,
     0x3065939a35a09a063c0f96a663caa306,
     0xccca999fc95af55c66ac005fa063aa50,
     0x3300339c95909a6c5c056506699f5303,
     0xc36a953c595c390c63f5f050aa63af95,
     0xa306f9cc9f095a6cfa556a5c39000000,
     0x0060a35369093aa9fa5ac0c0fcfcaa3c,
     0x5036c5c99a9006ff560c0f5336a95903,
     0xaa69c0f360693aa63c6ac0ac9cf999ac,
     0x55cf65c60af0053aa60a350330c35909,
     0xa9c9c655506690f6393530ac56c993c5,
     0x95c330560f0fa53af65a396a90000000,
     0x00f069a5ff005590c5a5a0a0363a9596,
     0xa093aaaf050ccccfafca0365539cac09,
     0x69f06fc5f03065939a35a09a063c0f96,
     0xa663caa306ccca999fc95af55c66ac00,
     0x5fa063aa503300339c95909a6c5c0565,
     0x06699f5303c36a953c595c390c000000,
     0x00a09c3c0f0f65a3faa59060cf536c90,
     0x69536ff60f030c555f95a3c390530959,
     0xa0f9099653569c5aa0a09fa639a9535f,
     0x56639f0696ca3facc606395603a3c963,
     0x9aaca633a9acc9c0365afac33fcf3556,
     0xaf9caa6cf6c6fc95f3cc0fcf6a000000,
     0x00900656cc033a99c55a0f3ca3a936cc,
     0xf0a5f3f3ffc9c5a6afc59569cf5900af,
     0x9c3c0f0f65a3faa59060cf536c906953,
     0x6ff60f030c555f95a3c390530959a0f9,
     0x099653569c5aa0a09fa639a9535f5663,
     0x9f0696ca3facc606395603a3c9000000,
     0x0000ffaf6a0955c056650c66999f6faa,
     0xf09635f933a0a5639365063063acc09c,
     0x0656cc033a99c55a0f3ca3a936ccf0a5,
     0xf3f3ffc9c5a6afc59569cf5900af9c3c,
     0x0f0f65a3faa59060cf536c9069536ff6,
     0x0f030c555f95a3c390530959a0000000,
     0x00c0cf53f90066afaffa05c30cc33f99,
     0x30f396ff99505ac90535035c366aa00a,
     0xffaf6a0955c056650c66999f6faaf096,
     0x35f933a0a5639365063063acc09c0656,
     0xcc033a99c55a0f3ca3a936ccf0a5f3f3,
     0xffc9c5a6afc59569cf5900af9c000000,
     0x0060a3a53ffcf35c63f5caa9ca666fcc,
     0x5f39cffcf0ac665c0a55f5a69c3590c6,
     0xcf53f90066afaffa05c30cc33f9930f3,
     0x96ff99505ac90535035c366aa00affaf,
     0x6a0955c056650c66999f6faaf09635f9,
     0x33a0a5639365063063acc09c06000000,
     0x00f0699a933af56535f66960a9fcc36a,
     0x6c906335309a3ca6c96a3a93ca9a0c6c,
     0xa3a53ffcf35c63f5caa9ca666fcc5f39,
     0xcffcf0ac665c0a55f5a69c3590c6cf53,
     0xf90066afaffa05c30cc33f9930f396ff,
     0x99505ac90535035c366aa00aff000000,
     0x00f03cc5069936f566ff30c050f55539,
     0x3a0c399590059a9f603965c5a9050afa,
     0x699a933af56535f66960a9fcc36a6c90,
     0x6335309a3ca6c96a3a93ca9a0c6ca3a5,
     0x3ffcf35c63f5caa9ca666fcc5f39cffc,
     0xf0ac665c0a55f5a69c3590c6cf000000,
     0x009006affa00f36c35ff905c3a565055,
     0x3fa95a9060a3996f995039639590ca69,
     0xc59660f635669f03cca6933503a6cc9a,
     0x0afa3c6aa30a33ffcc0353a03ccf0355,
     0xa0aff56a6050f55a66c06559c3c09f56,
     0x6cccf09696fff09a9c9ff0a093000000,
     0x0000ff5339fcf5f566ff0f5a95ac50a6,
     0x539ca5003c99cf3fcc6f903905f069f0,
     0xaa0f30cf56f30fc9a5630555f593aa05,
     0x09369af9960995335609a99c566c0966,
     0x5f63f639c06c3a593360caaca9a0cfa3,
     0x36aa30f3cf3c3005caf33c5005000000,
     0x00c0cfa59f3a36353f3f03a5c695ac53,
     0xa6fa5a0f660c636f6a3c0c9c05ccf03f,
     0x95c35f5f6ff6ffa055c90a653ac5590a,
     0xc093f9fcc3fc069953009f06affa00f3,
     0x6c35ff905c3a5650553fa95a9060a399,
     0x6f995039639590ca69c59660f6000000,
     0x0060a39a03995f5a939fc96a630a9665,
     0x93c5650cc3caf6c3399af6c60aaafc5c,
     0xfaa96353f3f333506a5cc93a65aaaff5,
     0x60c630f6a6c6c3c059c00cff5339fcf5,
     0xf566ff0f5a95ac50a6539ca5003c99cf,
     0x3fcc6f903905f069f0aa0f30cf000000,
     0x00f069c5c60c6f69f90fafc9f9090f3a,
     0xc956fac5a9a9fc555c0933a3066936aa,
     0x3990f9a535f999ac36a6605936595cc6,
     0x30ac6c3f9ca3696faca0cacfa59f3a36,
     0x353f3f03a5c695ac53a6fa5a0f660c63,
     0x6f6a3c0c9c05ccf03f95c35f5f000000,
     0x00f03c6aa30a33ffcc0353a03ccf0355,
     0xa0aff56a6050f55a66c06559c3c09f56,
     0x6cccf09696fff09a9c9ff0a0936ca55f,
     0x9c9aca5fc59530336a9066a39a03995f,
     0x5a939fc96a630a966593c5650cc3caf6,
     0xc3399af6c60aaafc5cfaa96353000000,
     0x00309af9960995335609a99c566c0966,
     0x5f63f639c06c3a593360caaca9a0cfa3,
     0x36aa30f3cf3c3005caf33c5005fa5aaf,
     0x060655af65065c96350cfc69c5c60c6f,
     0x69f90fafc9f9090f3ac956fac5a9a9fc,
     0x555c0933a3066936aa3990f9a5000000,
     0x0000ffa50f996ff9cc09990653993a5f,
     0x6af903a39caf3afc3655930f5fa056fc,
     0x00f5353f9fa9c93c6f09f3fc663fc36a,
     0xf9c903666f35ff0fa5630a0f555063ff,
     0x005ac605963aa9aff6995c959cac65c3]"

definition mx217by744_part7 :: "block list" where
  "mx217by744_part7 =
    [0x56f53ac03aa6505396c5fa6560000000,
     0x00c0cf9ac30c333f56000fffa50f996f,
     0xf9cc09990653993a5f6af903a39caf3a,
     0xfc3655930f5fa056fc00f5353f9fa9c9,
     0x3c6f09f3fc663fc36af9c903666f35ff,
     0x0fa5630a0f555063ff005ac605963aa9,
     0xaff6995c959cac65c356f53ac0000000,
     0x0060a3c5a60a959353c0cccf9ac30c33,
     0x3f56000fffa50f996ff9cc0999065399,
     0x3a5f6af903a39caf3afc3655930f5fa0,
     0x56fc00f5353f9fa9c93c6f09f3fc663f,
     0xc36af9c903666f35ff0fa5630a0f5550,
     0x63ff005ac605963aa9aff6995c000000,
     0x00f0696a930906c959a06aa3c5a60a95,
     0x9353c0cccf9ac30c333f56000fffa50f,
     0x996ff9cc09990653993a5f6af903a39c,
     0xaf3afc3655930f5fa056fc00f5353f9f,
     0xa9c93c6f09f3fc663fc36af9c903666f,
     0x35ff0fa5630a0f555063ff005a000000,
     0x00f03cf9c6fcc360ac90f6696a930906,
     0xc959a06aa3c5a60a959353c0cccf9ac3,
     0x0c333f56000fffa50f996ff9cc099906,
     0x53993a5f6af903a39caf3afc3655930f,
     0x5fa056fc00f5353f9fa9c93c6f09f3fc,
     0x663fc36af9c903666f35ff0fa5000000,
     0x00309afca3c6693f6a0cfc3cf9c6fcc3,
     0x60ac90f6696a930906c959a06aa3c5a6,
     0x0a959353c0cccf9ac30c333f56000fff,
     0xa50f996ff9cc09990653993a5f6af903,
     0xa39caf3afc3655930f5fa056fc00f535,
     0x3f9fa9c93c6f09f3fc663fc36a000000,
     0x0090f9f696a33093350a3a9afca3c669,
     0x3f6a0cfc3cf9c6fcc360ac90f6696a93,
     0x0906c959a06aa3c5a60a959353c0cccf,
     0x9ac30c333f56000fffa50f996ff9cc09,
     0x990653993a5f6af903a39caf3afc3655,
     0x930f5fa056fc00f5353f9fa9c9000000,
     0x00c0cfc59609c3306a0a9af93f6c0693,
     0xaaf59ccaa60a5536fafa0f509a9f9650,
     0x5f3539306950facc50399c0569cfc33f,
     0x39ca655a0066a93c59a693c5f59a5cc6,
     0x050f66ff669f59a0af9a3a6f3956c06c,
     0xa36ac3fc699f3509c6305f3503000000,
     0x0060a36ac3fc699f3509c6305f3503c5,
     0x59c606a663c9aa9335f6ffacc6f30f60,
     0x53969f90f0af39aa6090c6cac0a3696f,
     0x5c69caa500c350555053c656f6095a63,
     0xca03f33c3f0faf9c530999339f53a0fa,
     0x69f9a6c630c39ac0a36caf55f5000000,
     0x00f069f9a6c630c39ac0a36caf55f5aa,
     0xaf5f035cc960590556f3339a6cc5c3ff,
     0xa5cf0cf0fc5c6c99300ca3a6a099ffc3,
     0x6630a95acfa96caa5065a3afff00a5f9,
     0x6909f55593039306a5cf0c95c35990f6,
     0x3cfc93a35ca6056096ca93653a000000,
     0x00f03cfc93a35ca6056096ca93653a59,
     0x5cafc9655cf060f66ff69905faaaa9f3,
     0x966305cc36aa36cc9ff65993600cf355,
     0x33509c656c603a96ac3a5963ffcf6a3c,
     0xff003665f90909ff9aa30a0669ac0c3c,
     0x9af6c695a65c0a300c55053565000000,
     0x00309af6c695a65c0a300c550535656c,
     0x659fa035a63c30cff3f3f0ca39959039,
     0xf33905aa9f966f6a0c33ac093ccaf65a,
     0x55affafa35c0950c965560353fa3c956,
     0x3cfc5ffacc00cfcfc59609c3306a0a9a,
     0xf93f6c0693aaf59ccaa60a5536000000,
     0x0090f93f6c0693aaf59ccaa60a5536fa,
     0xfa0f509a9f96505f3539306950facc50,
     0x399c0569cfc33f39ca655a0066a93c59,
     0xa693c5f59a5cc6050f66ff669f59a0af,
     0x9a3a6f3956c06ca36ac3fc699f3509c6,
     0x305f3503c559c606a663c9aa93000000,
     0x00c0305f3503c559c606a663c9aa9335,
     0xf6ffacc6f30f6053969f90f0af39aa60,
     0x90c6cac0a3696f5c69caa500c3505550,
     0x53c656f6095a63ca03f33c3f0faf9c53,
     0x0999339f53a0fa69f9a6c630c39ac0a3,
     0x6caf55f5aaaf5f035cc9605905000000,
     0x0060a3f996a3a6acf50656c9f030cf35,
     0x9990fcac366acc65a5c0a93a0696663f,
     0x3f0303ffc5c6fc30a30530cca6c95a05,
     0x6ff6f069a0399990f6ac096650a5503a,
     0x69359fa99ca5af0ac39035c093ca0555,
     0x3635f633053a95cc6090a39660000000,
     0x00f069fcc395935ac6036c5c3c505f96,
     0x0ff0369a6f396aca5a6f60950c0ff35c,
     0x9309c9cf6aa3c65c560a9caa636069f6,
     0xf33330f05f6ccc0f335a00c36c9aac55,
     0xf0660f9f069a930969cf9a6006550aa5,
     0x9356f399ca59faaa300c59033c000000,
     0x00f03cf66606c5a95fc935a6966053cf,
     0x0ccc9fc63f5c39a9653cc0c6c503f565,
     0xf9006fa3f996a3a6acf50656c9f030cf,
     0x359990fcac366acc65a5c0a93a069666,
     0x3f3f0303ffc5c6fc30a30530cca6c95a,
     0x056ff6f069a0399990f6ac0966000000,
     0x00309a3f3c03aa5fafa0959f0ff0a563,
     0x05aacf636f66509cfa955c636a0936f5,
     0xccc0fc69fcc395935ac6036c5c3c505f,
     0x960ff0369a6f396aca5a6f60950c0ff3,
     0x5c9309c9cf6aa3c65c560a9caa636069,
     0xf6f33330f05f6ccc0f335a00c3000000,
     0x0090f95f55f5596c9f50caf3c3ff9639,
     0x0569a3f9c333a0faf50a5af9f9005f3a,
     0x56a0fa3cf66606c5a95fc935a6966053,
     0xcf0ccc9fc63f5c39a9653cc0c6c503f5,
     0x65f9006fa3f996a3a6acf50656c9f030,
     0xcf359990fcac366acc65a5c0a9000000,
     0x00c030af653a6cf50fac66c5a933f39c,
     0xc5c099ff55559fc5f609a53c3ffc6f99,
     0x5390369a3f3c03aa5fafa0959f0ff0a5,
     0x6305aacf636f66509cfa955c636a0936,
     0xf5ccc0fc69fcc395935ac6036c5c3c50,
     0x5f960ff0369a6f396aca5a6f60000000,
     0x00a06c933565fafaff9afcaa905939c6,
     0xaaa00cf35aa6c356ffc06a569c3a33cf,
     0x590c9cf95f55f5596c9f50caf3c3ff96,
     0x390569a3f9c333a0faf50a5af9f9005f,
     0x3a56a0fa3cf66606c5a95fc935a69660,
     0x53cf0ccc9fc63f5c39a9653cc0000000,
     0x00f069f6360359fc0f9a3c95aa90f65a,
     0xc0a995cc033635569096f9af356535f6,
     0x9969506c6a6cca659c5cf939fc336fac,
     0x0996ca0a5505f3939036ca3f66a0faf6,
     0xc96aafca0cc3c09a30ac63f0505fcf0c,
     0xaaa3f955a6a3af3fa39c9ac3fc000000,
     0x00f03c3f5cf56cf5ff055afa990033a5,
     0x6060c665095f9a530ccc3093553656f3,
     0xf0f0af36393aa9fa055a3c9f3a95336a,
     0xc00355c96af63509f09f666f3390c5ff,
     0xa0c953a90a69af059c5ac93c60536305,
     0x6999ff5a5356639f9906c5a6c6000000,
     0x00309a5f653afafa33caa939cccf655a,
     0x3fc063fa006fc9590aaa6c05a5936f36,
     0x30fc9c6f5c599cf50aa5560c99069935,
     0x60c6a66039cf960fcccff3c355cf56ff,
     0x5fa0a59f0930530a06665c96f0a539c5,
     0xc00c33596563350f0fff6a93a3000000,
     0x0090f9af356535f69969506c6a6cca65,
     0x9c5cf939fc336fac0996ca0a5505f393,
     0x9036ca3f66a0faf6c96aafca0cc3c09a,
     0x30ac63f0505fcf0caaa3f955a6a3af3f,
     0xa39c9ac3fc5ca6f5033ca60ff0969ca5,
     0xa0ca56503af96603c3cff9c695000000,
     0x00c03093553656f3f0f0af36393aa9fa,
     0x055a3c9f3a95336ac00355c96af63509,
     0xf09f666f3390c5ffa0c953a90a69af05]"

definition mx217by744_part8 :: "block list" where
  "mx217by744_part8 =
    [0x9c5ac93c605363056999ff5a5356639f,
     0x9906c5a6c6a65cc6c9959fc33ff3c69a,
     0x60a9ac5055303f0969a3fc6306000000,
     0x00a06c05a5936f3630fc9c6f5c599cf5,
     0x0aa5560c9906993560c6a66039cf960f,
     0xcccff3c355cf56ff5fa0a59f0930530a,
     0x06665c96f0a539c5c00c33596563350f,
     0x0fff6a93a393aa5fa0c5f3a95339a306,
     0x3c5095ac665f9300ff69f63603000000,
     0x0090ca0a5505f3939036ca3f66a0faf6,
     0xc96aafca0cc3c09a30ac63f0505fcf0c,
     0xaaa3f955a6a3af3fa39c9ac3fc5ca6f5,
     0x033ca60ff0969ca5a0ca56503af96603,
     0xc3cff9c695c559af506ac59069905903,
     0x666c0a96f36cf9c0fc3c3f5cf5000000,
     0x00f03c5f3565563330366a6f55afaf9f,
     0x09fff9660659fcffca596c395a9cf6a9,
     0xc9a5cffca6ac5f50faaaaa00335a9f5c,
     0x3c0f99c3a0050636a6c35f395903c395,
     0x6c096f69acc0c3a6f0605339a5a0a99c,
     0xacf3fccc90c6300555053509cc000000,
     0x00309aaf55366f96909ff6c3a653630f,
     0xcfcffc33036cf53369a0365ca9faff50,
     0xa09aa3c6935aafac369599c065650c5a,
     0x56cc0c695f0a039c9fa96390acc9a9c6,
     0xf500333f6a60a6633cf0a59c95605005,
     0x96f535560cac6c0a65f6960faa000000,
     0x0090f993a593f303f0cff35553663503,
     0x63a3f656f5fafa99f09f6f6690c5ffaf,
     0x9cc596a3c5699f9a5cfacc6fcafa05a5,
     0xafaa0a30a3f5c9c5f390390c5a606063,
     0x3afc959335305cc996f096c60a3c6c0a,
     0x0f3695530a9acac93acfcf0c69000000,
     0x00c0300555053509cca3f95a65f36609,
     0xf9693f6c3a35f6f0fccc3f33c0563f93,
     0x066ac395aaff0f05aa396a3ca9f5ca6a,
     0x5399095c56c6a065c5cc90f6a530c0f9,
     0x993a06c99a9c6a5c0f30f3a306663ac6,
     0x035fca5909065560595f63c5c0000000,
     0x00a06c0a65f6960faa993f593a393f00,
     0xff3c5f3565563330366a6f55afaf9f09,
     0xfff9660659fcffca596c395a9cf6a9c9,
     0xa5cffca6ac5f50faaaaa00335a9f5c3c,
     0x0f99c3a0050636a6c35f395903c3956c,
     0x096f69acc0c3a6f0605339a5a0000000,
     0x0090cac93acfcf0c690c5350555093c0,
     0x3c9aaf55366f96909ff6c3a653630fcf,
     0xcffc33036cf53369a0365ca9faff50a0,
     0x9aa3c6935aafac369599c065650c5a56,
     0xcc0c695f0a039c9fa96390acc9a9c6f5,
     0x00333f6a60a6633cf0a59c9560000000,
     0x00005560595f63c5c0caa650666ff9a0,
     0x9af993a593f303f0cff3555366350363,
     0xa3f656f5fafa99f09f6f6690c5ffaf9c,
     0xc596a3c5699f9a5cfacc6fcafa05a5af,
     0xaa0a30a3f5c9c5f390390c5a6060633a,
     0xfc959335305cc996f096c60a3c000000,
     0x00309a935505960f69ca96acf5955309,
     0xc6a63cf096a306c3c635fc06a90503cc,
     0xf3cc0033650ca553c9fc936a9f055a6c,
     0x5c99c53f03fffc53f53536309ff65565,
     0x333fc09cf90565f6cfccc0a90c9636c5,
     0x59c0a3639630f359c3a9639a3a000000,
     0x0090f90565f6cfccc0a90c9636c559c0,
     0xa3639630f359c3a9639a3ac3500ac965,
     0xc5aac065fac56aa5afc6c5f90fcaa936,
     0x66c0569fc9cff6663a569390cff35a3a,
     0x5993a0ca300a35cf63a5a050050f5f6a,
     0xac6056c90f5039ac6960f90999000000,
     0x00c0300a35cf63a5a050050f5f6aac60,
     0x56c90f5039ac6960f9099969aff5a0f5,
     0xaa9960caf5aac99a93a3aaffff69906f,
     0x33a0af0f6fa33f3c656f06f0a3395955,
     0x60f990a66cc95a5f3995606cca036f39,
     0x6a306c5cc36f905a30c03ccf0c000000,
     0x00a06cc95a5f3995606cca036f396a30,
     0x6c5cc36f905a30c03ccf0c3053c6503a,
     0x95cc3fa9f659a0c5c69559fc33f0cf3f,
     0x555f6303f3695f5536f303cc995f5066,
     0xffcc0c9cca6069539c053c3a6609339f,
     0x359c3aa6a9330ca5905c56ac0a000000,
     0x0090ca6069539c053c3a6609339f359c,
     0x3aa6a9330ca5905c56ac0a5ca65fac56,
     0xfa6a5c9cffa09c6a63066cf599fc6c6f,
     0xa6633509f93cafa5933509aa0ca350f3,
     0x3c560a0a55f0f0a5c60a6695fc0095c3,
     0x9a06969f9099f65a0f5aaf9a09000000,
     0x000055f0f0a5c60a6695fc0095c39a06,
     0x969f9099f65a0f5aaf9a09a65caf9aac,
     0x3939aafaff9f06f93603fafaf036fac3,
     0x53f666003f9a935505960f69ca96acf5,
     0x955309c6a63cf096a306c3c635fc06a9,
     0x0503ccf3cc0033650ca553c9fc000000,
     0x00c0a63cf096a306c3c635fc06a90503,
     0xccf3cc0033650ca553c9fc936a9f055a,
     0x6c5c99c53f03fffc53f53536309ff655,
     0x65333fc09cf90565f6cfccc0a90c9636,
     0xc559c0a3639630f359c3a9639a3ac350,
     0x0ac965c5aac065fac56aa5afc6000000,
     0x0090f90a555f9c0566c6953a695fc6ac,
     0xa6395cc9560fff69af5505cfaca06c6a,
     0x0995a305c9f5aacc5f9cff0ffff63665,
     0xf303aaca06965f3a6a9c9a9fccc065f5,
     0x5aa06a3303359690a35950f39c53c053,
     0xc9c33f0c5a0fa5a59fa359fc99000000,
     0x00c030c96a53c60ac3630a9930a35f9a,
     0x5c6c66a0af03f33c9365f66395603af6,
     0x0006590aa035956aacfa3fc3cf3f5c36,
     0x350969a90c0f6f993506c6f3aa60caf6,
     0xa99cf956f55603f099af50f5c5596066,
     0x5ca993f665cc6a9ac3956cf5f0000000,
     0x00a06c60f9a5a3c6a9f9c90c5c56af05,
     0xaa3633506309399a0535cf39053c953c,
     0xfcc3a0f5505afa399ac59f69a35fa593,
     0x96cfc050c50333cf9a036cc59930a9ff,
     0x9006fc633a6f06cc0c93ac3665ac303c,
     0xa6900933faa5c9c56606fa3a30000000,
     0x0090caf0f0965963603caf0aa66c9fca,
     0x996f556f35009ff90a555f9c0566c695,
     0x3a695fc6aca6395cc9560fff69af5505,
     0xcfaca06c6a0995a305c9f5aacc5f9cff,
     0x0ffff63665f303aaca06965f3a6a9c9a,
     0x9fccc065f55aa06a3303359690000000,
     0x0000553c30f3ac39c0569c0993fa0f69,
     0xc03fa6f366c0cc30c96a53c60ac3630a,
     0x9930a35f9a5c6c66a0af03f33c9365f6,
     0x6395603af60006590aa035956aacfa3f,
     0xc3cf3f5c36350969a90c0f6f993506c6,
     0xf3aa60caf6a99cf956f55603f0000000,
     0x00c0a69650395a905cafcafcc5f9fff0,
     0x6f6f53363fa0aa6c60f9a5a3c6a9f9c9,
     0x0c5c56af05aa3633506309399a0535cf,
     0x39053c953cfcc3a0f5505afa399ac59f,
     0x69a35fa59396cfc050c50333cf9a036c,
     0xc59930a9ff9006fc633a6f06cc000000,
     0x00a0630f6090a5005a53a9c6aaff33fc,
     0xfcc36553939096caf0f0965963603caf,
     0x0aa66c9fca996f556f35009ff90a555f,
     0x9c0566c6953a695fc6aca6395cc9560f,
     0xff69af5505cfaca06c6a0995a305c9f5,
     0xaacc5f9cff0ffff63665f303aa000000,
     0x00c03060f996ac995c5399a36c3530a3,
     0xa95036356a0666c5ccaffa9ff9699335,
     0xcf9c05c3f9a90a93fafffcfc55553056,
     0xc0635c90c965f69906f6563696afa03a,
     0x36fc69af5f059a6fa6333f9006559660,
     0x905acf6ac536035603ccca060f000000,
     0x00a06cf030f35a005aa5cf95fa9a9099]"

definition mx217by744_part9 :: "block list" where
  "mx217by744_part9 =
    [0x9fac5f9a3503fcaa6a9cc50fff3c0555,
     0x5fc6caa93c9f09c5f93336fa5a669f53,
     0x6036a6cc60caff00ff3fac93cf9c6095,
     0x9c3a3053afcac93f5356930ccca60f30,
     0x0c65acc96a53f56f06aaa9cc03000000,
     0x0090ca3c5039a500a59a63063506f00c,
     0x03966fc99ac9359539ca5603339a0a65,
     0x53a3666056ccfcaaff999f3659f3cc59,
     0x309c9faa30a9ffcfcf5f550563053cc6,
     0x05995c669f69606f6563f90aaa63c39f,
     0xf6fa55a0f9663af30369506509000000,
     0x0000559660905acf6ac536035603ccca,
     0x060f33af05a055fa5ca9af0999f9c9fa,
     0xa55933c0afaac659fcf0cf5350f565ac,
     0x9ccaf399509c3f63a3af65f639056663,
     0xca0ca6fc0ff0ffc33af9cc0956c9a903,
     0x33f5aa9cfc336535c9c06cfa00000000,
     0x00c0a60f300c65acc96a53f56f06aaa9,
     0xcc0395530a50aa3966506300cf3060f9,
     0x96ac995c5399a36c3530a3a95036356a,
     0x0666c5ccaffa9ff9699335cf9c05c3f9,
     0xa90a93fafffcfc55553056c0635c90c9,
     0x65f69906f6563696afa03a36fc000000,
     0x00a063c39ff6fa55a0f9663af3036950,
     0x650906a9f5ac566c336035c0ac6cf030,
     0xf35a005aa5cf95fa9a90999fac5f9a35,
     0x03fcaa6a9cc50fff3c05555fc6caa93c,
     0x9f09c5f93336fa5a669f536036a6cc60,
     0xcaff00ff3fac93cf9c60959c3a000000,
     0x0050c9a90333f5aa9cfc336535c9c06c,
     0xfa00c350c69aac3655ff66a09aca3c50,
     0x39a500a59a63063506f00c03966fc99a,
     0xc9359539ca5603339a0a6553a3666056,
     0xccfcaaff999f3659f3cc59309c9faa30,
     0xa9ffcfcf5f550563053cc60599000000,
     0x00a06c3c6090655ca0fc5336cf0c3c63,
     0xaa0ac5f999cfa3505fca9aa0a53933f0,
     0x6690c6a6c30f33f609ff5f65f69cc5a9,
     0x56acc66c95900c030f95a3f59a9c6f53,
     0x66f909665ccc30a93ff3690565535993,
     0x5ca56f065603aa50f500695faf000000,
     0x0090ca96300cfaa59cf6a693630566f9,
     0x9909aafff0a399ac6fa905505a6c553f,
     0x3f0cac63a9c365ffc0cfaf35cfc66a60,
     0xaf9aa3fa0af0cac6030659c605ca3f65,
     0xf3ccc033a6aa509c9ff93c0af5a5ac09,
     0x5a9a33036f06696c3afc30639f000000,
     0x0000550f90f6f59a063f5c053905c33c,
     0xcffc593c30990f96335f0aaca636a653,
     0x930a5ac99069caff6fa393555fa336c0,
     0x53c9953506cca96c09c3a05fca696f3a,
     0x395660969f99a0fa0f3f9ac9fa965a00,
     0xa5c556f5f3c3c03a963a5cf60f000000,
     0x00c0a6c30f33f609ff5f65f69cc5a956,
     0xacc66c95900c030f95a3f59a9c6f5366,
     0xf909665ccc30a93ff36905655359935c,
     0xa56f065603aa50f500695faf69f0c355,
     0x905330ccf3cc9fc50393f96039f3a5c0,
     0x6a6a633a35a9a0950c99a6fcff000000,
     0x00a063a9c365ffc0cfaf35cfc66a60af,
     0x9aa3fa0af0cac6030659c605ca3f65f3,
     0xccc033a6aa509c9ff93c0af5a5ac095a,
     0x9a33036f06696c3afc30639ff0ff5566,
     0xcf599c6ac56acc5609c930f050395aaf,
     0xc9f93665969f60c6c50c93fa33000000,
     0x0050c99069caff6fa393555fa336c053,
     0xc9953506cca96c09c3a05fca696f3a39,
     0x5660969f99a0fa0f3f9ac9fa965a00a5,
     0xc556f5f3c3c03a963a5cf60ffcfc5af3,
     0x6cac06f6aa39aaaf00af6c3c6090655c,
     0xa0fc5336cf0c3c63aa0ac5f999000000,
     0x00605ccc30a93ff36905655359935ca5,
     0x6f065603aa50f500695faf69f0c35590,
     0x5330ccf3cc9fc50393f96039f3a5c06a,
     0x6a633a35a9a0950c99a6fcff363a59f5,
     0x356a033c955c5963c09cca96300cfaa5,
     0x9cf6a693630566f99909aafff0000000,
     0x0090ca0f0033ff60a305f5a55ac06af9,
     0x56366305c3569ca33506aa6c9a3aa6fc,
     0x33cf93ac33aff5056a6f55c059063695,
     0x66f0660c5cc9cc509c0f9ff9f06090fa,
     0x95065f35cfa3965c9a53f5359960639a,
     0x09599c90ca6609696f9ffc3c59000000,
     0x000055c3cf65ffff690af596a5a0c9fc,
     0xa39339c5a9afca955603693a069993fa,
     0x99a309969553c6caf9c3666fac035cfa,
     0x33303f0a6a5caaa0fa03c3303c300cf5,
     0x0affaf555f59035ac5663a960f3cf9c9,
     0xfc6c05f0a9fc0030f30f365a50000000,
     0x00c0a6a963ca3ff33cc93af35a5fa0f6,
     0x56059c65605369066fc6c095cc0cc5f9,
     0xf0990f0f06a95f69f055f33c6ac9a539,
     0x555f930936a69990c509a96c9690f6f6,
     0xc9cf936553ac09a56a3365cf0c663caf,
     0xc6fa0acc5035fc5cf6ff9fa650000000,
     0x00a0639039a99f399a60593965ac9c3f,
     0x6cf6c63ac0a53f03f3a3a0c6a50aaa3f,
     0x300cc303c350aff0ff5af59535a0556c,
     0xa663f9c0939fcccf56009fca0f0033ff,
     0x60a305f5a55ac06af956366305c3569c,
     0xa33506aa6c9a3aa6fc33cf93ac000000,
     0x0050c9cc509c0f9ff9f06090fa95065f,
     0x35cfa3965c9a53f5359960639a09599c,
     0x90ca6609696f9ffc3c5936c59a50aa36,
     0x53f6cc60c6f36aacafc00c55c3cf65ff,
     0xff690af596a5a0c9fca39339c5a9afca,
     0x955603693a069993fa99a30996000000,
     0x00605caaa0fa03c3303c300cf50affaf,
     0x555f59035ac5663a960f3cf9c9fc6c05,
     0xf0a9fc0030f30f365a505faa05ac966f,
     0x653356306cc5395a63a0caa6a963ca3f,
     0xf33cc93af35a5fa0f656059c65605369,
     0x066fc6c095cc0cc5f9f0990f0f000000,
     0x0030a69990c509a96c9690f6f6c9cf93,
     0x6553ac09a56a3365cf0c663cafc6fa0a,
     0xcc5035fc5cf6ff9fa6506f590a9acc3f,
     0x3a99539cfaaa5c693590a6639039a99f,
     0x399a60593965ac9c3f6cf6c63ac0a53f,
     0x03f3a3a0c6a50aaa3f300cc303000000]"

definition mx217by744 :: "u8 list" where
  "mx217by744 = concat (map line_bytes (mx217by744_part1 @ mx217by744_part2 @ mx217by744_part3 @ mx217by744_part4 @ mx217by744_part5 @ mx217by744_part6 @ mx217by744_part7 @ mx217by744_part8 @ mx217by744_part9))"

definition mx231by768_part1 :: "block list" where
  "mx231by768_part1 =
    [0x6a050000000000000003000000000000,
     0x000ff0000ff0000ff0000ff0000ff000,
     0x0ff0000ff0000ff0000ff0000ff0000f,
     0xf0000ff0000ff0000ff0000ff0000ff0,
     0x000ff0000ff0000ff0000ff0000ff000,
     0x0ff0000ff0000ff0000ff0000ff0000f,
     0xf0000ff0000ff0000ff0000ff0000ff0,
     0xc00cccc00cccc00cccc00cccc00cccc0,
     0x0cccc00cccc00cccc00cccc00cccc00c,
     0xccc00cccc00cccc00cccc00cccc00ccc,
     0xc00cccc00cccc00cccc00cccc00cccc0,
     0x0cccc00cccc00cccc00cccc00cccc00c,
     0xccc00cccc00cccc00cccc00cccc00ccc,
     0xa00aaaa00aaaa00aaaa00aaaa00aaaa0,
     0x0aaaa00aaaa00aaaa00aaaa00aaaa00a,
     0xaaa00aaaa00aaaa00aaaa00aaaa00aaa,
     0xa00aaaa00aaaa00aaaa00aaaa00aaaa0,
     0x0aaaa00aaaa00aaaa00aaaa00aaaa00a,
     0xaaa00aaaa00aaaa00aaaa00aaaa00aaa,
     0x90066990066990066990066990066990,
     0x06699006699006699006699006699006,
     0x69900669900669900669900669900669,
     0x90066990066990066990066990066990,
     0x06699006699006699006699006699006,
     0x69900669900669900669900669900669,
     0x0cccc00cccc00cccc00cccc00cccc00c,
     0xccc00cccc00cccc00cccc00cccc00ccc,
     0xc00cccc00cccc00cccc00cccc00cccc0,
     0x0cccc00cccc00cccc00cccc00cccc00c,
     0xccc00cccc00cccc00cccc00cccc00ccc,
     0xc00cccc00cccc00cccc00cccc00cccc0,
     0x0aaaa00aaaa00aaaa00aaaa00aaaa00a,
     0xaaa00aaaa00aaaa00aaaa00aaaa00aaa,
     0xa00aaaa00aaaa00aaaa00aaaa00aaaa0,
     0x0aaaa00aaaa00aaaa00aaaa00aaaa00a,
     0xaaa00aaaa00aaaa00aaaa00aaaa00aaa,
     0xa00aaaa00aaaa00aaaa00aaaa00aaaa0,
     0x09966009966009966009966009966009,
     0x96600996600996600996600996600996,
     0x60099660099660099660099660099660,
     0x09966009966009966009966009966009,
     0x96600996600996600996600996600996,
     0x60099660099660099660099660099660,
     0x0000cca00a690caca009063c6006c39c,
     0x6a60039c5ca005a5aca6c905aa9c6900,
     0xfffc6ca39ff63ca399f90ca36ca90c55,
     0x6caa63956c5c639a9f3c6fc5af3a95a5,
     0xaf39c5a636f9c63ff6f6c35ff55a9355,
     0x500a95ac60090f3c60090f30fca90399,
     0x0000aa90c6c00a9a60c0036630cca906,
     0x36c0c9055a50ca6a9a5ca0ca9906f0cf,
     0xcf36fa69cf339a99cf30ca96ca50c5a6,
     0x3a56c9c635a6f9c9f356fcaa5359fa9a,
     0x536c6a936ffc636f3ffc55af355905a5,
     0x50c90a96f0c00396f000c39f3a90c90c,
     0x0000690caca009063c6006c39c6a6003,
     0x9c5ca005a5aca6c905aa9c6900fffc6c,
     0xa39ff63ca399f90ca36ca90c556caa63,
     0x956c5c639a9f3c6fc5af3a95a5af39c5,
     0xa636f9c63ff6f6c35ff55a9355500a95,
     0xac60090f3c60090f30fca90399cca00a,
     0x00c0c00a9a60c0036630cca90636c0c9,
     0x055a50ca6a9a5ca0ca9906f0cfcf36fa,
     0x69cf339a99cf30ca96ca50c5a63a56c9,
     0xc635a6f9c9f356fcaa5359fa9a536c6a,
     0x936ffc636f3ffc55af355905a550c90a,
     0x96f0c00396f000c39f3a90c90caa9009,
     0x00a0a009063c6006c39c6a60039c5ca0,
     0x05a5aca6c905aa9c6900fffc6ca39ff6,
     0x3ca399f90ca36ca90c556caa63956c5c,
     0x639a9f3c6fc5af3a95a5af39c5a636f9,
     0xc63ff6f6c35ff55a9355500a95ac6009,
     0x0f3c60090f30fca90399cca00a99c0fc,
     0x009060c0036630cca90636c0c9055a50,
     0xca6a9a5ca0ca9906f0cfcf36fa69cf33,
     0x9a99cf30ca96ca50c5a63a56c9c635a6,
     0xf9c9f356fcaa5359fa9a536c6a936ffc,
     0x636f3ffc55af355905a550c90a96f0c0,
     0x0396f000c39f3a90c90caa9009ccafc6,
     0x00003c6006c39c6a60039c5ca005a5ac,
     0xa6c905aa9c6900fffc6ca39ff63ca399,
     0xf90ca36ca90c556caa63956c5c639a9f,
     0x3c6fc5af3a95a5af39c5a636f9c63ff6,
     0xf6c35ff55a9355500a95ac60090f3c60,
     0x090f30fca90399cca00a99c0fc6a9ca3,
     0x0000aa0c9c6060c6a9030c5aac56a069,
     0xc0cf9f369a0c93ca6c5ac963caf3af5a,
     0xfac5966ff6f65593a55060c9030f903a,
     0xcc90096acc9533603a655305f36c536f,
     0x5939c30033a65c9c59acaf56333f963f,
     0x569c356aac590a655caffff0330f9f90,
     0x0000690a0a3c306c60c905a59aac9cf0,
     0x6fa3cf93f9ca06553a665cf969c553a9,
     0x396ac33f3ffc5a0595acf06009c30f99,
     0xaac0fc396a06553f653a69f6f5f5a533,
     0x6f9069cf6593aafa6c55636f5693cf9c,
     0x53c69a355aa0f5fa659fffff990303f0,
     0x00c0c00906669c3ac0a0c56a059a06fc,
     0xfc69a3c930a9cca6953ca63cffaaa55f,
     0x6cf9666f5f35590a05963cf000a9c30c,
     0x99a0c65c3903a653365530cf36f59695,
     0x330c3063cac599c5fa6a35f363f963c5,
     0x59a3c69aa550c6f5fa0f3ff3f00909cc,
     0x00a0a0c003c306965c50aac9ca09ff36,
     0xfa3c99af6c50a563c6959f563c959aa3,
     0x36fcf3c3af5550c90a0f9630fc90a90a,
     0xcc9fa36650f553a693665f5f5f3af306,
     0x99f65c36a9aacf5635f66635f9cc3965,
     0xac59a3055aaf5ff6f9ff9f3930000faa,
     0x00906060c6a9030c5aac56a069c0cf9f,
     0x369a0c93ca6c5ac963caf3af5afac596,
     0x6ff6f65593a55060c9030f903acc9009,
     0x6acc9533603a655305f36c536f5939c3,
     0x0033a65c9c59acaf56333f963f569c35,
     0x6aac590a655caffff0330f9f90c00c69,
     0x00003c306c60c905a59aac9cf06fa3cf,
     0x93f9ca06553a665cf969c553a9396ac3,
     0x3f3ffc5a0595acf06009c30f99aac0fc,
     0x396a06553f653a69f6f5f5a5336f9069,
     0xcf6593aafa6c55636f5693cf9c53c69a,
     0x355aa0f5fa659fffff990303f0a0cac0,
     0x0000669c3ac0a0c56a059a06fcfc69a3,
     0xc930a9cca6953ca63cffaaa55f6cf966,
     0x6f5f35590a05963cf000a9c30c99a0c6,
     0x5c3903a653365530cf36f59695330c30,
     0x63cac599c5fa6a35f363f963c559a3c6,
     0x9aa550c6f5fa0f3ff3f00909cc90a6a0,
     0x0000690906c3030ca5050aff9f96f9a9,
     0xac63636ac5a5af36f6f65a0a050f0f00,
     0x999990a333306555505f6f69903033a9,
     0x595c63f3f3cc9c9535a5a05ffff09909,
     0x09aa0a0a6606065a9a9c06363a9acac6,
     0xa6c6c5f353596cfcf35505059696903a,
     0x00c0c0c0c3a9c9c56acac9cfcfc33050,
     0x55c9f9f9aa9a936f3f3c59c9ca03c3cf,
     0x0ccccf95555f36666f53333f0c5c569c,
     0x6c6535353956c6ca9a5a5faffffff000,
     0x0f690906c3030ca5050aff9f96f9a9ac,
     0x63636ac5a5af36f6f65a0a050f0f0099,
     0x00a0a0606660a0a5c96960a3a3a96c6c,
     0x6a5c3c3f95c5c63f5f5550606909a9a3,
     0x0a6a6c06a6a393f3fca59593f6a6acfa,
     0xfafa66969f53a3a605656c9f3f3330c0,
     0xccc0c0c3a9c9c56acac9cfcfc3305055,
     0xc9f9f9aa9a936f3f3c59c9ca03c3cf0c,
     0x009060303cc0505aa0f0ff69999fca3a,
     0x36a6565cfa6a636fafa550f0f0009099,
     0x09393a03535605f5f596060933939ac5]"

definition mx231by768_part2 :: "block list" where
  "mx231by768_part2 =
    [0x35363fcfcc5959530afaf50f9f9990a0,
     0xaaa0606660a0a5c96960a3a3a96c6c6a,
     0x5c3c3f95c5c63f5f5550606909a9a30a,
     0x00003c9c9a5caca69cfcfc3c0c035595,
     0x9c9fafaa39f9f6c39395ac3c30fcccc0,
     0xfc5c59f56563f63635f3c3c065c5c956,
     0x5653936365acaca9f5f5faff0f0ff090,
     0x9660303cc0505aa0f0ff69999fca3a36,
     0xa6565cfa6a636fafa550f0f000909909,
     0x00006606065a9a9c06363a9acac6a6c6,
     0xc5f353596cfcf35505059696903aaaa0,
     0xc666603a3a39cf5f5a39696fcaaaafaf,
     0x6f66f939356a5a50c6f6f9330303cc0c,
     0x0c3c9c9a5caca69cfcfc3c0c0355959c,
     0x9fafaa39f9f6c39395ac3c30fcccc0fc,
     0x0000c3030ca5050aff9f96f9a9ac6363,
     0x6ac5a5af36f6f65a0a050f0f00999990,
     0xa333306555505f6f69903033a9595c63,
     0xf3f3cc9c9535a5a05ffff0990909aa0a,
     0x0a6606065a9a9c06363a9acac6a6c6c5,
     0xf353596cfcf35505059696903aaaa0c6,
     0x00c0c06036c0ac96069fc6306c3aa6af,
     0x5a6cf6365960f900cca0c6335036f3fc,
     0x96c360ca596c3596cf59ac59c6fff0f0,
     0xc0aca0309c5c9a0cffcfa36c3a969f53,
     0xa9363f5c50f030fcaa90a355af93f535,
     0xf3693fa96cf566cf6cac5aa05fff3f30,
     0x00a0a0309c5c9a0cffcfa36c3a969f53,
     0xa9363f5c50f030fcaa90a355af93f535,
     0xf3693fa96cf566cf6cac5aa05fff3f30,
     0xa09a609c0a5a05cacfa399ca95ccf3a5,
     0x9f6f5fa5503c903a99c095a653053655,
     0x3930539cfa3a3f63356aa550af3f9390,
     0x0090609c0a5a05cacfa399ca95ccf3a5,
     0x9f6f5fa5503c903a99c095a653053655,
     0x3930539cfa3a3f63356aa550af3f9390,
     0x90063c0606a5ca69a3990f55c665c59a,
     0xc33faf95ac960099cc6f065366f65f6a,
     0x905ca6fa3556933995355a6f9f9f09f0,
     0x00003c0606a5ca69a3990f55c665c59a,
     0xc33faf95ac960099cc6f065366f65f6a,
     0x905ca6fa3556933995355a6f9f9f09f0,
     0x0c0c6603cc6a69f0690cc3a663faaac5,
     0x666f9305960fc00c6a3c036533cf6f39,
     0x0ca69cc55663f99cc59a65fc0f0f0fcc,
     0x00006603cc6a69f0690cc3a663faaac5,
     0x666f9305960fc00c6a3c036533cf6f39,
     0x0ca69cc55663f99cc59a65fc0f0f0fcc,
     0x0a0ac3c9a5c9f0ff3ccaa663f939956a,
     0xf3c305050fc3af0a395af53a595f339f,
     0xf693ca566ff6ccc6aa05faf5ff0303aa,
     0x0000c3c9a5c9f0ff3ccaa663f939956a,
     0xf3c305050fc3af0a395af53a595f339f,
     0xf693ca566ff6ccc6aa05faf5ff0303aa,
     0x09c6a9a055a0fc3c9aa95cc93c5ffaf9,
     0xf6550ac503a993095c693a5560539503,
     0x33c5a9aff33356a3560af5fa33090969,
     0x00c0a9a055a0fc3c9aa95cc93c5ffaf9,
     0xf6550ac503a993095c693a5560539503,
     0x33c5a9aff33356a3560af5fa33090969,
     0xc0636050aa9c369af950655c56ac39fc,
     0xf35ac96a0990c9fc66306566ffa506c9,
     0x65aa5f6335995359a3f5f6f99900cfc0,
     0x00a0a09c0aa569f03ca96c5cafaa365f,
     0x95ac0fa00a5c3965f33cf330a3fa56f3,
     0xcca3a6f5ff3030900666c955a036ca30,
     0x3ac6f39a636f05c50390a9c6555f055f,
     0x3a0c93aaaf35c9595a50af9f09cc0966,
     0x60ac06ffa30955633a95f9f65a6039fc,
     0x00906006c66af03f9a5035a653996faf,
     0x0596c39f09665036f555395c96c56f36,
     0x565953c6ff9f900c0cc3a0a59c9fa66c,
     0x956cc5c5f6c30a6509cc90a3a663f66f,
     0x99f6c55963966faca5609f0f0faac033,
     0xc09acccf99cfa6f959fafc3359f0903a,
     0x00003c03acc9fc9cf96c9a9fa5cf3f93,
     0x050fa9c3fc33a093366590a6cc56f393,
     0x53aca95f3f03f00acaa9509a06cf93ca,
     0xc6f5aa6af355c9fa00aac0955336cf33,
     0x0f33aa6f35cf3c6a5aff0f0303696096,
     0x5c056aa30ca3633caf39f656503c0099,
     0x000066c955a036ca303ac6f39a636f05,
     0xc50390a9c6555f055f3a0c93aaaf35c9,
     0x595a50af9f09cc096660ac06ffa30955,
     0x633a95f9f65a6039fc99600665535f95,
     0xc36559fc6663953565fcff09c9c0300c,
     0x5acaf969ca56c9565c6c3fac5096c00c,
     0x0000c3a0a59c9fa66c956cc5c5f6c30a,
     0x6509cc90a3a663f66f99f6c55963966f,
     0xaca5609f0f0faac033c09acccf99cfa6,
     0xf959fafc3359f0903acc3f033a695306,
     0x69ca6c353f39c59afaf53300afa09c0a,
     0xa569f03ca96c5cafaa365f95ac0fa00a,
     0x00c0a9509a06cf93cac6f5aa6af355c9,
     0xfa00aac0955336cf330f33aa6f35cf3c,
     0x6a5aff0f03036960965c056aa30ca363,
     0x3caf39f656503c00996a5cf555f0a5c3,
     0x30a9fa5a939ca505f5fa99c09c6006c6,
     0x6af03f9a5035a653996faf0596c39f09,
     0x006060ac06ffa30955633a95f9f65a60,
     0x39fc99600665535f95c36559fc666395,
     0x3565fcff09c9c0300c5acaf969ca56c9,
     0x565c6c3fac5096c00c396a3a66ff9669,
     0x5f9c3566f9c65a0af6f9f0a00a3c03ac,
     0xc9fc9cf96c9a9fa5cf3f93050fa9c3fc,
     0x009060035ca09f96ca635afaf6a6500f,
     0x90093350056f0933593c3f9c550aff90,
     0x900a6a609a6ca3ca665c53c93f056509,
     0xaa60063af9a569affa6f96535a609f03,
     0xc3c09cca6afccc3095fcaaf936593cc0,
     0x0c5c593636350cc5693563c59af5faf0,
     0x00003cc9a59ccf0355f9a9393f9cacc3,
     0xcffc556ff633cf656c5593c6aaf5ff0f,
     0xf00936c005fa69a93ca6a56f6f0af500,
     0x99300355f0963093c5f3c359a5f00f09,
     0xa9a006a6c936aa6cc63595fc535096a0,
     0x0a66a0935f9af6aaff6639a505f63930,
     0x000066a09506a3c9a63c5f6c5f0596a9,
     0xa3c6a633cf9563cafa6af9a356c63f03,
     0xccc0935ccaf93c50959f9af3c3c93afc,
     0xcc5ff5663ff35cc6563569ac5affff00,
     0x9f60035ca09f96ca635afaf6a6500f90,
     0x093350056f0933593c3f9c550aff9090,
     0x0000c3500aff99af6356ac36af050f90,
     0x99a353565f0639a935f6cc59a35f9f09,
     0xaa60065a69309a6ccaf3c5f65560993a,
     0x6a6c3af35c39a6acaf963f6a65fc33c0,
     0x0c3cc9a59ccf0355f9a9393f9cacc3cf,
     0xfc556ff633cf656c5593c6aaf5ff0ff0,
     0x00c0a9acc6cf0c53c9af9a6f93c503cc,
     0xc095656353c3509c563356ac59af0f0f,
     0x69300ca5f09ff93a66c56af35af00099,
     0x393a65f56590935a63cf9c35faf599a0,
     0x0a66a09506a3c9a63c5f6c5f0596a9a3,
     0xc6a633cf9563cafa6af9a356c63f03cc,
     0x0060609a6ca3ca665c53c93f056509aa,
     0x60063af9a569affa6f96535a609f03c3,
     0xc09cca6afccc3095fcaaf936593cc00c,
     0x5c593636350cc5693563c59af5faf090,
     0x06c3500aff99af6356ac36af050f9099,
     0xa353565f0639a935f6cc59a35f9f09aa,
     0x0030c005fa69a93ca6a56f6f0af50099,
     0x300355f0963093c5f3c359a5f00f09a9,
     0xa006a6c936aa6cc63595fc535096a00a,
     0x66a0935f9af6aaff6639a505f639300c,
     0xcca9acc6cf0c53c9af9a6f93c503ccc0,
     0x95656353c3509c563356ac59af0f0f69,
     0x00003ca005ff0c635ca5ffc36009995c]"

definition mx231by768_part3 :: "block list" where
  "mx231by768_part3 =
    [0xa9936fc965fafaccac699f099960c995,
     0x06995fc953696fc99a3a395a365f0a33,
     0x6c65f95953af03a3a003ac9ca3a963af,
     0xca3f0a35fc6a3c653695f6595c93a3a6,
     0x5f0fcfc00656a0cfc3a6569c6f05f500,
     0x00006650cacfca36a69af355f0c00c66,
     0x5005336fca3536565af00f000f3ca005,
     0xff0c635ca5ffc36009995ca9936fc965,
     0xfafaccac699f099960c99506995fc953,
     0x696fc99a3a395a365f0a336c65f95953,
     0xaf03a3a003ac9ca3a963afca3f0a35fc,
     0x0000c3ac66a3a99c9fc5f65a3ca00a33,
     0x60f69533a9569353a5f0ffc00c6650ca,
     0xcfca36a69af355f0c00c665005336fca,
     0x3536565af00f000f3ca005ff0c635ca5,
     0xffc36009995ca9936fc965fafaccac69,
     0x9f099960c99506995fc953696fc99a3a,
     0x00c0a99afc6950c5f36a335996900955,
     0x3fcf06599c6fc6595aff33a00ac3ac66,
     0xa3a99c9fc5f65a3ca00a3360f69533a9,
     0x569353a5f0ffc00c6650cacfca36a69a,
     0xf355f0c00c665005336fca3536565af0,
     0x0f000f3ca005ff0c635ca5ffc3600999,
     0x00606005fa3c6c6ac5f956500fc0fca6,
     0x535fc3a0faf363ac65fc9990c6a99afc,
     0x6950c5f36a3359969009553fcf06599c,
     0x6fc6595aff33a00ac3ac66a3a99c9fc5,
     0xf65a3ca00a3360f69533a9569353a5f0,
     0xffc00c6650cacfca36a69af355f0c00c,
     0x0030c0ca399a3af6aafca350c3afc653,
     0x6653699fc535396afaf5f00c6c6005fa,
     0x3c6c6ac5f956500fc0fca6535fc3a0fa,
     0xf363ac65fc9990c6a99afc6950c5f36a,
     0x3359969009553fcf06599c6fc6595aff,
     0x33a00ac3ac66a3a99c9fc5f65a3ca00a,
     0x00905c6990f9953c95f696aca993a365,
     0xf3a530c356969f35f53a300a3ac0ca39,
     0x9a3af6aafca350c3afc6536653699fc5,
     0x35396afaf5f00c6c6005fa3c6c6ac5f9,
     0x56500fc0fca6535fc3a0faf363ac65fc,
     0x9990c6a99afc6950c5f36a3359969009,
     0x000066acf6696cfaaaf60696cc3003f3,
     0x3c0c596cf9acf90fc00cc39afc3c3a36,
     0x953f0c0faa50f5f595f66cf5cc5af0ff,
     0xa0caa9053a9a955cfa5fc50399603a36,
     0x0533fa3a56a5f033906660ca99f9c6a5,
     0x39af6509cc3f655fca653596535aff99,
     0x0000c39afc3c3a36953f0c0faa50f5f5,
     0x95f66cf5cc5af0ffa0caa9053a9a955c,
     0xfa5fc50399603a360533fa3a56a5f033,
     0x906660ca99f9c6a539af6509cc3f655f,
     0xca653596535aff990c3cc069c030635a,
     0x6c93f5006a5c366f69ca56c35965fcf0,
     0x00c0a9053a9a955cfa5fc50399603a36,
     0x0533fa3a56a5f033906660ca99f9c6a5,
     0x39af6509cc3f655fca653596535aff99,
     0x0c3cc069c030635a6c93f5006a5c366f,
     0x69ca56c35965fcf00a9a5cf0af6cf9a9,
     0x360535fc39aa93333fa96f66acfa3530,
     0x006060ca99f9c6a539af6509cc3f655f,
     0xca653596535aff990c3cc069c030635a,
     0x6c93f5006a5c366f69ca56c35965fcf0,
     0x0a9a5cf0af6cf9a9360535fc39aa9333,
     0x3fa96f66acfa353009065afc9cca3c9f,
     0x6f0a953a5c590595539cf3336af59a90,
     0x0030c069c030635a6c93f5006a5c366f,
     0x69ca56c35965fcf00a9a5cf0af6cf9a9,
     0x360535fc39aa93333fa96f66acfa3530,
     0x09065afc9cca3c9f6f0a953a5c590595,
     0x539cf3336af59a90c003a5360a5556cc,
     0x3fc90a996660f606a9fa359935f609f0,
     0x00905cf0af6cf9a9360535fc39aa9333,
     0x3fa96f66acfa353009065afc9cca3c9f,
     0x6f0a953a5c590595539cf3336af59a90,
     0xc003a5360a5556cc3fc90a996660f606,
     0xa9fa359935f609f060c66a9fc6a6af6a,
     0x6f60c90c3330cfc390c596cf9aff00cc,
     0x00005afc9cca3c9f6f0a953a5c590595,
     0x539cf3336af59a90c003a5360a5556cc,
     0x3fc90a996660f606a9fa359935f609f0,
     0x60c66a9fc6a6af6a6f60c90c3330cfc3,
     0x90c596cf9aff00cc30acc9cfa36353f9,
     0xc3f0a00a555f5f69cf56cfac05ff0faa,
     0x0000c3059af963aa360a059933505f30,
     0x53639ca55f0909669a3c9ac6556c0595,
     0x3a6630cf69afaf3955c603033cacf63c,
     0x95ac399335fc5c69f6c3c05663a5f50f,
     0x9f6050fa693a56faaff500395a050699,
     0xc5cf5c0a9fa9a0a065a36c3a955f6509,
     0x00c0a9cac930f9996fc9ca0c556f535c,
     0x6635c65aaf000fc3059af963aa360a05,
     0x9933505f3053639ca55f0909669a3c9a,
     0xc6556c05953a6630cf69afaf3955c603,
     0x033cacf63c95ac399335fc5c69f6c3c0,
     0x5663a5f50f9f6050fa693a56faaff500,
     0x00606069a06c3ccf3f60a90aa6f3a5a6,
     0xfc66a3669fc0cca9cac930f9996fc9ca,
     0x0c556f535c6635c65aaf000fc3059af9,
     0x63aa360a059933505f3053639ca55f09,
     0x09669a3c9ac6556c05953a6630cf69af,
     0xaf3955c603033cacf63c95ac399335fc,
     0x0030c0f09fca566c6ff0900953f69693,
     0x3a3f59f30fa06a6069a06c3ccf3f60a9,
     0x0aa6f3a5a6fc66a3669fc0cca9cac930,
     0xf9996fc9ca0c556f535c6635c65aaf00,
     0x0fc3059af963aa360a059933505f3053,
     0x639ca55f0909669a3c9ac6556c05953a,
     0x00905cfc0c55affac33cc0fc6533f3c5,
     0x5993acf9ff9036c0f09fca566c6ff090,
     0x0953f696933a3f59f30fa06a6069a06c,
     0x3ccf3f60a90aa6f3a5a6fc66a3669fc0,
     0xcca9cac930f9996fc9ca0c556f535c66,
     0x35c65aaf000fc3059af963aa360a0599,
     0x00005a36caa653f95596a0c63a5939aa,
     0x6ff95af0330c9c5cfc0c55affac33cc0,
     0xfc6533f3c55993acf9ff9036c0f09fca,
     0x566c6ff0900953f696933a3f59f30fa0,
     0x6a6069a06c3ccf3f60a90aa6f3a5a6fc,
     0x66a3669fc0cca9cac930f9996fc9ca0c,
     0x0000a59fa663a5ff5a0f90a355609059,
     0xfccca5f0990a0a5a36caa653f95596a0,
     0xc63a5939aa6ff95af0330c9c5cfc0c55,
     0xaffac33cc0fc6533f3c55993acf9ff90,
     0x36c0f09fca566c6ff0900953f696933a,
     0x3f59f30fa06a6069a06c3ccf3f60a90a,
     0x00c0a96990caaffa550fc095f30c3356,
     0x336aff0069c965a33aa63905059955ff,
     0xa5935a935af09909c66aa339a6f90696,
     0x9950369593c56355c60909c3caa96c56,
     0xfcc39690a3669ff63566acf609aa03cc,
     0xcf6c5afa93953a336053a63c3facf933,
     0x006060f00f5553f95ac36f06f5c5656f,
     0x9635ffcfc0a0f569955c6c0ac50ca6f3,
     0x96c569f9a5f0f0c0a3c9999f9ffc030f,
     0xccaf9306c95639a55f00cfa96990caaf,
     0xfa550fc095f30c3356336aff0069c965,
     0xa33aa63905059955ffa5935a935af099,
     0x0030c0fccca6a53f59a933033665caf3,
     0xc39a3fa3a050fa3cc6a536c9aa0a5336,
     0xf3aaffcc5a3f306056a00cc3f3f6c603,
     0x6a5c05c3a0af9c55afc06c60f00f5553,
     0xf95ac36f06f5c5656f9635ffcfc0a0f5,
     0x69955c6c0ac50ca6f396c569f9a5f0f0,
     0x00905c36aa639a53509059f55f3aa935,
     0xa9059f9960ac369a639a6f6099096553,
     0x39593c56659c9030ac9cca66c53f6c09,
     0x396af6695f63c66a9fa03ac0fccca6a5,
     0x3f59a933033665caf3c39a3fa3a050fa]"

definition mx231by768_part4 :: "block list" where
  "mx231by768_part4 =
    [0x3cc6a536c9aa0a5336f3aaffcc5a3f30,
     0x00005a9f56c9c5a650cc603a6f599c96,
     0x5f0a0f0f3c9a9cf9f9c93ff0c0fc3a69,
     0x906c9553fa05f09c9a06a9fcaa5ff500,
     0x5c39cf306335a3f60f90965c36aa639a,
     0x53509059f55f3aa935a9059f9960ac36,
     0x9a639a6f609909655339593c56659c90,
     0x0000a5cf635c6a93acaa306533affacf,
     0xacf503036605ca303c6f6f3ca0c65530,
     0x0cfaca59f50acc0606ff503595af35fc,
     0x66505f5cf66659f3ff0c0c5a9f56c9c5,
     0xa650cc603a6f599c965f0a0f0f3c9a9c,
     0xf9f9c93ff0c0fc3a69906c9553fa05f0,
     0x00c06aa339a6f906969950369593c563,
     0x55c60909c3caa96c56fcc39690a3669f,
     0xf63566acf609aa03cccf6c5afa93953a,
     0x336053a63c3facf9330a0aa5cf635c6a,
     0x93acaa306533affacfacf503036605ca,
     0x303c6f6f3ca0c655300cfaca59f50acc,
     0x006060fcac63c596ac99a093c35063a3,
     0xf6ff0aca6a99cff33ffc00666053936a,
     0xf95a9f909c0aff6caa390aa50a656390,
     0xfa6aacffc0c0503a9af9696f96c095f5,
     0x65ca35590a0303c3690055a55f50cc30,
     0x6595c3569c659f90065acf33a6fcc303,
     0x0030c0365ac96a0396cc5f05696f3559,
     0xf33309a6c90c63c55f35fc33f0a5c5f9,
     0xcc650cf006c6cf3a566cc99a093a390c,
     0x35366affafa0ac96f93cffc30f600636,
     0x35a996aff509c9a9f0cfa69aa350aa50,
     0x3606a9afc6fa0f0c0ca5a3999ff66609,
     0x00905c9f665cf9060f6a6cf630f366ac,
     0xf999c053a0caf6aaaf953a55ff96aa3f,
     0x56fa05cc036ca395ac3660c9fc5590f6,
     0x5693353f93609acc3056fc55c33f035f,
     0x5a9ccf5cc6006f60fcac63c596ac99a0,
     0x93c35063a3f6ff0aca6a99cff33ffc00,
     0x00005acf33a6fcc303393acf5c363f5a,
     0xf0f060a69ca93c95930599a633f3599c,
     0x53f50aaac9f569c6956ff0a0c6660f33,
     0x6fc69a9f093c05aa6caffa5aa953f56f,
     0xa9fa63a55fc03cc0365ac96a0396cc5f,
     0x05696f3559f33309a6c90c63c55f35fc,
     0x0000a5a3999ff666095c595fa65c93a5,
     0x3030309c065055fa05c50c5356396cc5,
     0x59f60969a0f53c63ca3f3c90a3f3cc65,
     0xf3a3050f0f66ca99ca53395990693a33,
     0x9fc53955afa09a5c9f665cf9060f6a6c,
     0xf630f366acf999c053a0caf6aaaf953a,
     0x00c06a99cff33ffc00666053936af95a,
     0x9f909c0aff6caa390aa50a656390fa6a,
     0xacffc0c0503a9af9696f96c095f565ca,
     0x35590a0303c3690055a55f50cc306595,
     0xc3569c659f90065acf33a6fcc303393a,
     0xcf5c363f5af0f060a69ca93c95930599,
     0x00a0c90c63c55f35fc33f0a5c5f9cc65,
     0x0cf006c6cf3a566cc99a093a390c3536,
     0x6affafa0ac96f93cffc30f60063635a9,
     0x96aff509c9a9f0cfa69aa350aa503606,
     0xa9afc6fa0f0c0ca5a3999ff666095c59,
     0x5fa65c93a53030309c065055fa05c50c,
     0x0030c09f36a6f6f60033f09659cc59ff,
     0xa0a09aac6c535950aaa09369ff665a30,
     0x309ccacf959c6f3cc09536559c6355af,
     0x9006a5996fc5af05995366903596359f,
     0x096669c0a6c506966a3ccfa66cf9650c,
     0xccc9f53cf9f9c3c35ff533cf56c6faff,
     0x00905ccf939f3f3cfc553ff36c65acff,
     0x9f60059acaa5af5099500530333fa590,
     0x900666a3c6c53f9660065faafa39659f,
     0x0ccc6a0cf3aa93c50c65330c56c39a0f,
     0x0fc3f0af636a030f395a5f93faccfa05,
     0xaaa0359a3cff55a9633a95a3afa3f633,
     0x00005aa3c9f35f953aa65339fa3a6a3f,
     0x033cca09559a93accc6ff65c56935a0f,
     0xf003fc69636a6f0f30036f99c59cf50f,
     0x0aaac9ca369505a50a3a99f66fa60503,
     0xc3a9fc5cc9f9c6035c6953c53956f50a,
     0x69509af956fc5a90396506596359f399,
     0x0000a5996fc5af05995366903596359f,
     0x096669c0a6c506966a3ccfa66cf9650c,
     0xccc9f53cf9f9c3c35ff533cf56c6faff,
     0x0956a0a95cfa0a9509550033f3530a09,
     0x6960366a5cfc630966f0a5aa9f53f6c9,
     0xc0acc630af3a59cc5036c36035acf9f0,
     0x00c06a0cf3aa93c50c65330c56c39a0f,
     0x0fc3f0af636a030f395a5f93faccfa05,
     0xaaa0359a3cff55a9633a95a3afa3f633,
     0xc0a39c50a539c9cafc66cf6535a9f500,
     0x3fc09f36a6f6f60033f09659cc59ffa0,
     0xa09aac6c535950aaa09369ff665a3030,
     0x00a0c9ca369505a50a3a99f66fa60503,
     0xc3a9fc5cc9f9c6035c6953c53956f50a,
     0x69509af956fc5a90396506596359f399,
     0x6096066c5a6c60a9c6f36cca965fc6c0,
     0x9c5ccf939f3f3cfc553ff36c65acff9f,
     0x60059acaa5af5099500530333fa59090,
     0x0050a0a95cfa0a9509550033f3530a09,
     0x6960366a5cfc630966f0a5aa9f53f6c9,
     0xc0acc630af3a59cc5036c36035acf9f0,
     0x300cff3aa636f090a3f535a9cfac5fa0,
     0x0a5aa3c9f35f953aa65339fa3a6a3f03,
     0x3cca09559a93accc6ff65c56935a0ff0,
     0x00905ca369c593a50a55c06596af5f90,
     0xc66aca56fac9aac6f5559c39f50f09a6,
     0x9c6caa363c60066fc956a3f69930cccf,
     0xc6656fc36f3a0669355a909003fc3c3c,
     0xff5acca093305393650caa50ca3053a9,
     0x50cc3fcf933a56f6a9a0050a55c5060f,
     0x00005a99ffaa059509666fcacf5caf0c,
     0xacc9a9ac396099a336a5fa9cf5ffc093,
     0x063a966f96300333afaf59f3f09c6aa3,
     0x63fac3a93365c3f066a500f0c9359a56,
     0x3c59aa50055c66f9fa0569aca66ca59f,
     0xac6a5c5fc59953ff9060cac9a66ac303,
     0x0000a50c33950ac5fcf33ca963659f0a,
     0x5aa050556cf0c0955f9ac5c6fa336006,
     0xff95cc3f0f50f5955363ac393006f669,
     0xf9f955905936693f3f5a0fcca095f9af,
     0x5a509960f6a6fcccf5cac09a9cca9a03,
     0x96396a53aacf59ff0f3c69a063f96609,
     0x00c06aca56fac9aac6f5559c39f50f09,
     0xa69c6caa363c60066fc956a3f69930cc,
     0xcfc6656fc36f3a0669355a909003fc3c,
     0x3cff5acca093305393650caa50ca3053,
     0xa950cc3fcf933a56f6a9a0050a55c506,
     0x0f5cf9a5596cac3f0366f05fc9fcf300,
     0x00a0c9a9ac396099a336a5fa9cf5ffc0,
     0x93063a966f96300333afaf59f3f09c6a,
     0xa363fac3a93365c3f066a500f0c9359a,
     0x563c59aa50055c66f9fa0569aca66ca5,
     0x9fac6a5c5fc59953ff9060cac9a66ac3,
     0x0366f0966c356a9f09c3fc6c5cf636fc,
     0x0050a050556cf0c0955f9ac5c6fa3360,
     0x06ff95cc3f0f50f5955363ac393006f6,
     0x69f9f955905936693f3f5a0fcca095f9,
     0xaf5a509960f6a6fcccf5cac09a9cca9a,
     0x0396396a53aacf59ff0f3c69a063f966,
     0x093330f3fa9a350fcfa9363aa63f9c3a,
     0x00a09c6caa363c60066fc956a3f69930,
     0xcccfc6656fc36f3a0669355a909003fc,
     0x3c3cff5acca093305393650caa50ca30,
     0x53a950cc3fcf933a56f6a9a0050a55c5,
     0x060f5cf9a5596cac3f0366f05fc9fcf3,
     0x00555f3935c69a0363609f969f5f0599,
     0x00005a0c53fa60c9956fa9afac9990c9,
     0x95f95399ac39faa56c95350333c0a3f9,
     0xaa0aa5c63695c5a3f6f006f63c565c50]"

definition mx231by768_part5 :: "block list" where
  "mx231by768_part5 =
    [0xcc5f5faa6fac9fc9a99fc6f3939509f3,
     0x5c9c9cf533306ca3f9f95aaa60f6939a,
     0x53ff0f66fc3ca65fc50c5560ca63f50f,
     0x0000a5caa639f06006335f635a00f0a0,
     0xc530a50f965cf996faca9a09995c993f,
     0x95c99aa35fca56593330033c9aafaa50,
     0x6a6c53593c6a0f6f60cf63c505c5fcf5,
     0xa5fac6fa999cfa693c3f599930cfc5c9,
     0x593f03c3369a9fafa50a663fa939f5ff,
     0x00c06aa95c6c3c3003956335a500cc50,
     0xaa6c9a030f6630f335a605000f5a0c53,
     0xfa60c9956fa9afac9990c995f95399ac,
     0x39faa56c95350333c0a3f9aa0aa5c636,
     0x95c5a3f6f006f63c565c50cc5f5faa6f,
     0xac9fc9a99fc6f3939509f35c9c9cf533,
     0x00a0c950a5369650f506f9665a0faaac,
     0x96cac5c60333503956530ac00ca5caa6,
     0x39f06006335f635a00f0a0c530a50f96,
     0x5cf996faca9a09995c993f95c99aa35f,
     0xca56593330033c9aafaa506a6c53593c,
     0x6a0f6f60cf63c505c5fcf5a5fac6fa99,
     0x0050a06c9a6f0f603ac3303f650c699a,
     0x0c556a6309556f906fa6f5a0ca6aa95c,
     0x6c3c3003956335a500cc50aa6c9a030f,
     0x6630f335a605000f5a0c53fa60c9956f,
     0xa9afac9990c995f95399ac39faa56c95,
     0x350333c0a3f9aa0aa5c63695c5a3f6f0,
     0x00a09c3ac63fc33f65695f93fac5c005,
     0xcaa6f9f600a6330cf353c690a6c950a5,
     0x369650f506f9665a0faaac96cac5c603,
     0x33503956530ac00ca5caa639f0600633,
     0x5f635a00f0a0c530a50f965cf996faca,
     0x9a09995c993f95c99aa35fca56593330,
     0x009006956c6fa953363063f9f5aaa0ca,
     0xa963fc33fc5396f635a95f0c5ca06c9a,
     0x6f0f603ac3303f650c699a0c556a6309,
     0x556f906fa6f5a0ca6aa95c6c3c300395,
     0x6335a500cc50aa6c9a030f6630f335a6,
     0x05000f5a0c53fa60c9956fa9afac9990,
     0x0000a5a9ac360f306530f3ccff006636,
     0xcaf305a5c65faaaf5a00ccac0655f936,
     0xfc65c36563f5ff30fc6956ac5039fa96,
     0x35560aa0aac96cca3fa9a393a69c533f,
     0xc3a9cff3aac9ca95336f355a0f6905aa,
     0x63f606995530a99cf59906369a530996,
     0x00c06a50956fc35f365c3656ff0fc39f,
     0x66c50a95a36f5963a500aa9acca6fc93,
     0x3a3a69ca39f5339cfa3caf9aac5c39f3,
     0x56a3f59056a03a666f90590593ca599f,
     0x6960a3399560690695f36665ccc0ca59,
     0xc93fcc0c665f9cc6faf0039cf9a50f0f,
     0x00a0c96cca3fa9a393a69c533fc3a9cf,
     0xf3aac9ca95336f355a0f6905aa63f606,
     0x995530a99cf59906369a530996665039,
     0x6f56c60cac9c95fcc3cc60f6c569ac0f,
     0x3fc0995ffaf0300306393ffaa5a06960,
     0x5c5fa50af3acfaa33630c9c5309ac303,
     0x0050a03a666f90590593ca599f6960a3,
     0x399560690695f36665ccc0ca59c93fcc,
     0x0c665f9cc6faf0039cf9a50f0f336090,
     0xf3a35f0a9a06c6f555aa30cfaa3f6a03,
     0x935c0ca3393c50f5c35093f59a60f03f,
     0xa6af9509f595c5599390a0a56cc56609,
     0x00a09c95fcc3cc60f6c569ac0f3fc099,
     0x5ffaf0300306393ffaa5a069605c5fa5,
     0x0af3acfaa33630c9c5309ac303553f0c,
     0x3559af0906ff63fa5a99505f599c3509,
     0x095aca566c96603a696ff9f6093cfc9c,
     0x9f93c5fc36c556ac09f0509aca6af300,
     0x009006c6f555aa30cfaa3f6a03935c0c,
     0xa3393c50f5c35093f59a60f03fa6af95,
     0x09f595c5599390a0a56cc56609a693f6,
     0x966f9fc0c3cff93959cc6f536cc59a00,
     0x0fa5a9ac360f306530f3ccff006636ca,
     0xf305a5c65faaaf5a00ccac0655f936fc,
     0x0000ff63fa5a99505f599c3509095aca,
     0x566c96603a696ff9f6093cfc9c9f93c5,
     0xfc36c556ac09f0509aca6af300530633,
     0xcffc0f6066a33c5f506afca5faaa05c0,
     0xcc6a50956fc35f365c3656ff0fc39f66,
     0xc50a95a36f5963a500aa9acca6fc933a,
     0x00c06a6c6a6fcc30cf59cc9ac0acc93a,
     0xf6c3aa505f6ca505a05aa095fc559960,
     0x53fa5a0a90a69cc6f55accffa535a6f5,
     0x0c9c06633a596afc965653c60a0afff9,
     0x5950393af36fa65f09c6cf3caf505c59,
     0x39f353afc063a3569cac66609035699f,
     0x00a0c93af6c3aa505f6ca505a05aa095,
     0xfc55996053fa5a0a90a69cc6f55accff,
     0xa535a6f50c9c06633a596afc965653c6,
     0x0a0afff95950393af36fa65f09c6cf3c,
     0xaf505c5939f353afc063a3569cac6660,
     0x9035699f60f669af0a9633300c96ff0f,
     0x0050a095fc55996053fa5a0a90a69cc6,
     0xf55accffa535a6f50c9c06633a596afc,
     0x965653c60a0afff95950393af36fa65f,
     0x09c6cf3caf505c5939f353afc063a356,
     0x9cac66609035699f60f669af0a963330,
     0x0c96ff0f30fc3c53090f559ff6cffcff,
     0x00a09cc6f55accffa535a6f50c9c0663,
     0x3a596afc965653c60a0afff95950393a,
     0xf36fa65f09c6cf3caf505c5939f353af,
     0xc063a3569cac66609035699f60f669af,
     0x0a9633300c96ff0f30fc3c53090f559f,
     0xf6cffcff9c3a9aa5cf03a6033363f533,
     0x009006633a596afc965653c60a0afff9,
     0x5950393af36fa65f09c6cf3caf505c59,
     0x39f353afc063a3569cac66609035699f,
     0x60f669af0a9633300c96ff0f30fc3c53,
     0x090f559ff6cffcff9c3a9aa5cf03a603,
     0x3363f5330696f99a630953c66539f599,
     0x0000fff95950393af36fa65f09c6cf3c,
     0xaf505c5939f353afc063a3569cac6660,
     0x9035699f60f669af0a9633300c96ff0f,
     0x30fc3c53090f559ff6cffcff9c3a9aa5,
     0xcf03a6033363f5330696f99a630953c6,
     0x6539f59903cc30c5f6006563ca9cf5f0,
     0x00c0cf3caf505c5939f353afc063a356,
     0x9cac66609035699f60f669af0a963330,
     0x0c96ff0f30fc3c53090f559ff6cffcff,
     0x9c3a9aa5cf03a6033363f5330696f99a,
     0x630953c66539f59903cc30c5f6006563,
     0xca9cf5f0c9a56c6a33fc3a39a9c63a30,
     0x00a0c995fc5a6a3cf3f3639f303c9a9a,
     0xf3003a599c5903cc056a5c9395a39553,
     0x93ffc0a9995f6cc35f05aacf9aa0aa9c,
     0x635a505c699096ffff06c6306a933a66,
     0x9fc55a006969909f0a6506c3f0cc3f33,
     0xc0ca966f9039cf6c550a0c0cff3c9fac,
     0x0050a0c63559395a3935f90f9c9af9c5,
     0x36fc55a0faac09aaca39a605c5950669,
     0xf9ff6f600ca336a963f659ac05909606,
     0xf9a95066300ccffc3303ac6cf90699f3,
     0xcc56a5c0c0f0cff3c93a03693f569f99,
     0x5ca9cc3fcc505ffaaaf50acacf560c96,
     0x00a09c635a505c699096ffff06c6306a,
     0x933a669fc55a006969909f0a6506c3f0,
     0xcc3f33c0ca966f9039cf6c550a0c0cff,
     0x3c9fac3390f663f599c995cafcc30cf5,
     0xa5af5aafa0fc6cc56059f53093530f0f,
     0x5a50656faa60533556c60966a3af0a0f,
     0x009006f9a95066300ccffc3303ac6cf9,
     0x0699f3cc56a5c0c0f0cff3c93a03693f,
     0x569f995ca9cc3fcc505ffaaaf50acacf,
     0x560c96550f3339f5f0a00555f6a60a36,
     0x5563659c6036faaaf0603a5cc6590303,
     0xa56cfac399f0a556a35fc0f36953c903,
     0x0000ff3c9fac3390f663f599c995cafc]"

definition mx231by768_part6 :: "block list" where
  "mx231by768_part6 =
    [0xc30cf5a5af5aafa0fc6cc56059f53093,
     0x530f0f5a50656faa60533556c60966a3,
     0xaf0a0fa6c3659c353050caa63f9c095f,
     0x6a35fa053c9f36953c3065a66cac09c9,
     0x6a3af655ccff966f56af60f63ca56f09,
     0x00c0cf560c96550f3339f5f0a00555f6,
     0xa60a365563659c6036faaaf0603a5cc6,
     0x590303a56cfac399f0a556a35fc0f369,
     0x53c9035366cac69a90aca6635fc5fc6f,
     0xf966f50a66cf53fa965036933a6a00af,
     0xc995fc5a6a3cf3f3639f303c9a9af300,
     0x0060a3af0a0fa6c3659c353050caa63f,
     0x9c095f6a35fa053c9f36953c3065a66c,
     0xac09c96a3af655ccff966f56af60f63c,
     0xa56f096533a9a306f09a5cc9afa5c633,
     0x3f3ff609c3a3a9390fa093c59935c05c,
     0xa0c63559395a3935f90f9c9af9c536fc,
     0x0050a063aa503300339c95909a6c5c05,
     0x6506699f5303c36a953c595c390c63f5,
     0xf050aa63af95a306f9cc9f095a6cfa55,
     0x6a5c3996ff33c905553fccfc335f93ff,
     0x3fc0a96c6f99f096f3f30f06a66cfca3,
     0x0a5ffa66f6c9a90c936fcc60535653af,
     0x00a09cf999ac55cf65c60af0053aa60a,
     0x350330c35909a9c9c655506690f63935,
     0x30ac56c993c595c330560f0fa53af65a,
     0x396a90cffc99a0c5a65fa5c69563f93f,
     0x935c50f5c3cc3ff335f9ff039ccaf696,
     0x096f393fff6060cac63faaf0a56f669f,
     0x0090063c0f96a663caa306ccca999fc9,
     0x5af55c66ac005fa063aa503300339c95,
     0x909a6c5c056506699f5303c36a953c59,
     0x5c390c63f5f050aa63af95a306f9cc9f,
     0x095a6cfa556a5c3996ff33c905553fcc,
     0xfc335f93ff3fc0a96c6f99f096f3f30f,
     0x0000ff560c0f5336a95903aa69c0f360,
     0x693aa63c6ac0ac9cf999ac55cf65c60a,
     0xf0053aa60a350330c35909a9c9c65550,
     0x6690f6393530ac56c993c595c330560f,
     0x0fa53af65a396a90cffc99a0c5a65fa5,
     0xc69563f93f935c50f5c3cc3ff335f9ff,
     0x00c0cfafca0365539cac0969f06fc5f0,
     0x3065939a35a09a063c0f96a663caa306,
     0xccca999fc95af55c66ac005fa063aa50,
     0x3300339c95909a6c5c056506699f5303,
     0xc36a953c595c390c63f5f050aa63af95,
     0xa306f9cc9f095a6cfa556a5c3996ff33,
     0x0060a35369093aa9fa5ac0c0fcfcaa3c,
     0x5036c5c99a9006ff560c0f5336a95903,
     0xaa69c0f360693aa63c6ac0ac9cf999ac,
     0x55cf65c60af0053aa60a350330c35909,
     0xa9c9c655506690f6393530ac56c993c5,
     0x95c330560f0fa53af65a396a90cffc99,
     0x00f069a5ff005590c5a5a0a0363a9596,
     0xa093aaaf050ccccfafca0365539cac09,
     0x69f06fc5f03065939a35a09a063c0f96,
     0xa663caa306ccca999fc95af55c66ac00,
     0x5fa063aa503300339c95909a6c5c0565,
     0x06699f5303c36a953c595c390c63f5f0,
     0x00a09c3c0f0f65a3faa59060cf536c90,
     0x69536ff60f030c555f95a3c390530959,
     0xa0f9099653569c5aa0a09fa639a9535f,
     0x56639f0696ca3facc606395603a3c963,
     0x9aaca633a9acc9c0365afac33fcf3556,
     0xaf9caa6cf6c6fc95f3cc0fcf6ac6a550,
     0x00900656cc033a99c55a0f3ca3a936cc,
     0xf0a5f3f3ffc9c5a6afc59569cf5900af,
     0x9c3c0f0f65a3faa59060cf536c906953,
     0x6ff60f030c555f95a3c390530959a0f9,
     0x099653569c5aa0a09fa639a9535f5663,
     0x9f0696ca3facc606395603a3c9639aac,
     0x0000ffaf6a0955c056650c66999f6faa,
     0xf09635f933a0a5639365063063acc09c,
     0x0656cc033a99c55a0f3ca3a936ccf0a5,
     0xf3f3ffc9c5a6afc59569cf5900af9c3c,
     0x0f0f65a3faa59060cf536c9069536ff6,
     0x0f030c555f95a3c390530959a0f90996,
     0x00c0cf53f90066afaffa05c30cc33f99,
     0x30f396ff99505ac90535035c366aa00a,
     0xffaf6a0955c056650c66999f6faaf096,
     0x35f933a0a5639365063063acc09c0656,
     0xcc033a99c55a0f3ca3a936ccf0a5f3f3,
     0xffc9c5a6afc59569cf5900af9c3c0f0f,
     0x0060a3a53ffcf35c63f5caa9ca666fcc,
     0x5f39cffcf0ac665c0a55f5a69c3590c6,
     0xcf53f90066afaffa05c30cc33f9930f3,
     0x96ff99505ac90535035c366aa00affaf,
     0x6a0955c056650c66999f6faaf09635f9,
     0x33a0a5639365063063acc09c0656cc03,
     0x00f0699a933af56535f66960a9fcc36a,
     0x6c906335309a3ca6c96a3a93ca9a0c6c,
     0xa3a53ffcf35c63f5caa9ca666fcc5f39,
     0xcffcf0ac665c0a55f5a69c3590c6cf53,
     0xf90066afaffa05c30cc33f9930f396ff,
     0x99505ac90535035c366aa00affaf6a09,
     0x00f03cc5069936f566ff30c050f55539,
     0x3a0c399590059a9f603965c5a9050afa,
     0x699a933af56535f66960a9fcc36a6c90,
     0x6335309a3ca6c96a3a93ca9a0c6ca3a5,
     0x3ffcf35c63f5caa9ca666fcc5f39cffc,
     0xf0ac665c0a55f5a69c3590c6cf53f900,
     0x009006affa00f36c35ff905c3a565055,
     0x3fa95a9060a3996f995039639590ca69,
     0xc59660f635669f03cca6933503a6cc9a,
     0x0afa3c6aa30a33ffcc0353a03ccf0355,
     0xa0aff56a6050f55a66c06559c3c09f56,
     0x6cccf09696fff09a9c9ff0a0936ca55f,
     0x0000ff5339fcf5f566ff0f5a95ac50a6,
     0x539ca5003c99cf3fcc6f903905f069f0,
     0xaa0f30cf56f30fc9a5630555f593aa05,
     0x09369af9960995335609a99c566c0966,
     0x5f63f639c06c3a593360caaca9a0cfa3,
     0x36aa30f3cf3c3005caf33c5005fa5aaf,
     0x00c0cfa59f3a36353f3f03a5c695ac53,
     0xa6fa5a0f660c636f6a3c0c9c05ccf03f,
     0x95c35f5f6ff6ffa055c90a653ac5590a,
     0xc093f9fcc3fc069953009f06affa00f3,
     0x6c35ff905c3a5650553fa95a9060a399,
     0x6f995039639590ca69c59660f635669f,
     0x0060a39a03995f5a939fc96a630a9665,
     0x93c5650cc3caf6c3399af6c60aaafc5c,
     0xfaa96353f3f333506a5cc93a65aaaff5,
     0x60c630f6a6c6c3c059c00cff5339fcf5,
     0xf566ff0f5a95ac50a6539ca5003c99cf,
     0x3fcc6f903905f069f0aa0f30cf56f30f,
     0x00f069c5c60c6f69f90fafc9f9090f3a,
     0xc956fac5a9a9fc555c0933a3066936aa,
     0x3990f9a535f999ac36a6605936595cc6,
     0x30ac6c3f9ca3696faca0cacfa59f3a36,
     0x353f3f03a5c695ac53a6fa5a0f660c63,
     0x6f6a3c0c9c05ccf03f95c35f5f6ff6ff,
     0x00f03c6aa30a33ffcc0353a03ccf0355,
     0xa0aff56a6050f55a66c06559c3c09f56,
     0x6cccf09696fff09a9c9ff0a0936ca55f,
     0x9c9aca5fc59530336a9066a39a03995f,
     0x5a939fc96a630a966593c5650cc3caf6,
     0xc3399af6c60aaafc5cfaa96353f3f333,
     0x00309af9960995335609a99c566c0966,
     0x5f63f639c06c3a593360caaca9a0cfa3,
     0x36aa30f3cf3c3005caf33c5005fa5aaf,
     0x060655af65065c96350cfc69c5c60c6f,
     0x69f90fafc9f9090f3ac956fac5a9a9fc,
     0x555c0933a3066936aa3990f9a535f999,
     0x0000ffa50f996ff9cc09990653993a5f,
     0x6af903a39caf3afc3655930f5fa056fc,
     0x00f5353f9fa9c93c6f09f3fc663fc36a,
     0xf9c903666f35ff0fa5630a0f555063ff,
     0x005ac605963aa9aff6995c959cac65c3]"

definition mx231by768_part7 :: "block list" where
  "mx231by768_part7 =
    [0x56f53ac03aa6505396c5fa65606c5a50,
     0x00c0cf9ac30c333f56000fffa50f996f,
     0xf9cc09990653993a5f6af903a39caf3a,
     0xfc3655930f5fa056fc00f5353f9fa9c9,
     0x3c6f09f3fc663fc36af9c903666f35ff,
     0x0fa5630a0f555063ff005ac605963aa9,
     0xaff6995c959cac65c356f53ac03aa650,
     0x0060a3c5a60a959353c0cccf9ac30c33,
     0x3f56000fffa50f996ff9cc0999065399,
     0x3a5f6af903a39caf3afc3655930f5fa0,
     0x56fc00f5353f9fa9c93c6f09f3fc663f,
     0xc36af9c903666f35ff0fa5630a0f5550,
     0x63ff005ac605963aa9aff6995c959cac,
     0x00f0696a930906c959a06aa3c5a60a95,
     0x9353c0cccf9ac30c333f56000fffa50f,
     0x996ff9cc09990653993a5f6af903a39c,
     0xaf3afc3655930f5fa056fc00f5353f9f,
     0xa9c93c6f09f3fc663fc36af9c903666f,
     0x35ff0fa5630a0f555063ff005ac60596,
     0x00f03cf9c6fcc360ac90f6696a930906,
     0xc959a06aa3c5a60a959353c0cccf9ac3,
     0x0c333f56000fffa50f996ff9cc099906,
     0x53993a5f6af903a39caf3afc3655930f,
     0x5fa056fc00f5353f9fa9c93c6f09f3fc,
     0x663fc36af9c903666f35ff0fa5630a0f,
     0x00309afca3c6693f6a0cfc3cf9c6fcc3,
     0x60ac90f6696a930906c959a06aa3c5a6,
     0x0a959353c0cccf9ac30c333f56000fff,
     0xa50f996ff9cc09990653993a5f6af903,
     0xa39caf3afc3655930f5fa056fc00f535,
     0x3f9fa9c93c6f09f3fc663fc36af9c903,
     0x0090f9f696a33093350a3a9afca3c669,
     0x3f6a0cfc3cf9c6fcc360ac90f6696a93,
     0x0906c959a06aa3c5a60a959353c0cccf,
     0x9ac30c333f56000fffa50f996ff9cc09,
     0x990653993a5f6af903a39caf3afc3655,
     0x930f5fa056fc00f5353f9fa9c93c6f09,
     0x00c0cfc59609c3306a0a9af93f6c0693,
     0xaaf59ccaa60a5536fafa0f509a9f9650,
     0x5f3539306950facc50399c0569cfc33f,
     0x39ca655a0066a93c59a693c5f59a5cc6,
     0x050f66ff669f59a0af9a3a6f3956c06c,
     0xa36ac3fc699f3509c6305f3503c559c6,
     0x0060a36ac3fc699f3509c6305f3503c5,
     0x59c606a663c9aa9335f6ffacc6f30f60,
     0x53969f90f0af39aa6090c6cac0a3696f,
     0x5c69caa500c350555053c656f6095a63,
     0xca03f33c3f0faf9c530999339f53a0fa,
     0x69f9a6c630c39ac0a36caf55f5aaaf5f,
     0x00f069f9a6c630c39ac0a36caf55f5aa,
     0xaf5f035cc960590556f3339a6cc5c3ff,
     0xa5cf0cf0fc5c6c99300ca3a6a099ffc3,
     0x6630a95acfa96caa5065a3afff00a5f9,
     0x6909f55593039306a5cf0c95c35990f6,
     0x3cfc93a35ca6056096ca93653a595caf,
     0x00f03cfc93a35ca6056096ca93653a59,
     0x5cafc9655cf060f66ff69905faaaa9f3,
     0x966305cc36aa36cc9ff65993600cf355,
     0x33509c656c603a96ac3a5963ffcf6a3c,
     0xff003665f90909ff9aa30a0669ac0c3c,
     0x9af6c695a65c0a300c550535656c659f,
     0x00309af6c695a65c0a300c550535656c,
     0x659fa035a63c30cff3f3f0ca39959039,
     0xf33905aa9f966f6a0c33ac093ccaf65a,
     0x55affafa35c0950c965560353fa3c956,
     0x3cfc5ffacc00cfcfc59609c3306a0a9a,
     0xf93f6c0693aaf59ccaa60a5536fafa0f,
     0x0090f93f6c0693aaf59ccaa60a5536fa,
     0xfa0f509a9f96505f3539306950facc50,
     0x399c0569cfc33f39ca655a0066a93c59,
     0xa693c5f59a5cc6050f66ff669f59a0af,
     0x9a3a6f3956c06ca36ac3fc699f3509c6,
     0x305f3503c559c606a663c9aa9335f6ff,
     0x00c0305f3503c559c606a663c9aa9335,
     0xf6ffacc6f30f6053969f90f0af39aa60,
     0x90c6cac0a3696f5c69caa500c3505550,
     0x53c656f6095a63ca03f33c3f0faf9c53,
     0x0999339f53a0fa69f9a6c630c39ac0a3,
     0x6caf55f5aaaf5f035cc960590556f333,
     0x0060a3f996a3a6acf50656c9f030cf35,
     0x9990fcac366acc65a5c0a93a0696663f,
     0x3f0303ffc5c6fc30a30530cca6c95a05,
     0x6ff6f069a0399990f6ac096650a5503a,
     0x69359fa99ca5af0ac39035c093ca0555,
     0x3635f633053a95cc6090a39660ca3659,
     0x00f069fcc395935ac6036c5c3c505f96,
     0x0ff0369a6f396aca5a6f60950c0ff35c,
     0x9309c9cf6aa3c65c560a9caa636069f6,
     0xf33330f05f6ccc0f335a00c36c9aac55,
     0xf0660f9f069a930969cf9a6006550aa5,
     0x9356f399ca59faaa300c59033ca95c50,
     0x00f03cf66606c5a95fc935a6966053cf,
     0x0ccc9fc63f5c39a9653cc0c6c503f565,
     0xf9006fa3f996a3a6acf50656c9f030cf,
     0x359990fcac366acc65a5c0a93a069666,
     0x3f3f0303ffc5c6fc30a30530cca6c95a,
     0x056ff6f069a0399990f6ac096650a550,
     0x00309a3f3c03aa5fafa0959f0ff0a563,
     0x05aacf636f66509cfa955c636a0936f5,
     0xccc0fc69fcc395935ac6036c5c3c505f,
     0x960ff0369a6f396aca5a6f60950c0ff3,
     0x5c9309c9cf6aa3c65c560a9caa636069,
     0xf6f33330f05f6ccc0f335a00c36c9aac,
     0x0090f95f55f5596c9f50caf3c3ff9639,
     0x0569a3f9c333a0faf50a5af9f9005f3a,
     0x56a0fa3cf66606c5a95fc935a6966053,
     0xcf0ccc9fc63f5c39a9653cc0c6c503f5,
     0x65f9006fa3f996a3a6acf50656c9f030,
     0xcf359990fcac366acc65a5c0a93a0696,
     0x00c030af653a6cf50fac66c5a933f39c,
     0xc5c099ff55559fc5f609a53c3ffc6f99,
     0x5390369a3f3c03aa5fafa0959f0ff0a5,
     0x6305aacf636f66509cfa955c636a0936,
     0xf5ccc0fc69fcc395935ac6036c5c3c50,
     0x5f960ff0369a6f396aca5a6f60950c0f,
     0x00a06c933565fafaff9afcaa905939c6,
     0xaaa00cf35aa6c356ffc06a569c3a33cf,
     0x590c9cf95f55f5596c9f50caf3c3ff96,
     0x390569a3f9c333a0faf50a5af9f9005f,
     0x3a56a0fa3cf66606c5a95fc935a69660,
     0x53cf0ccc9fc63f5c39a9653cc0c6c503,
     0x00f069f6360359fc0f9a3c95aa90f65a,
     0xc0a995cc033635569096f9af356535f6,
     0x9969506c6a6cca659c5cf939fc336fac,
     0x0996ca0a5505f3939036ca3f66a0faf6,
     0xc96aafca0cc3c09a30ac63f0505fcf0c,
     0xaaa3f955a6a3af3fa39c9ac3fc5ca6f5,
     0x00f03c3f5cf56cf5ff055afa990033a5,
     0x6060c665095f9a530ccc3093553656f3,
     0xf0f0af36393aa9fa055a3c9f3a95336a,
     0xc00355c96af63509f09f666f3390c5ff,
     0xa0c953a90a69af059c5ac93c60536305,
     0x6999ff5a5356639f9906c5a6c6a65cc6,
     0x00309a5f653afafa33caa939cccf655a,
     0x3fc063fa006fc9590aaa6c05a5936f36,
     0x30fc9c6f5c599cf50aa5560c99069935,
     0x60c6a66039cf960fcccff3c355cf56ff,
     0x5fa0a59f0930530a06665c96f0a539c5,
     0xc00c33596563350f0fff6a93a393aa5f,
     0x0090f9af356535f69969506c6a6cca65,
     0x9c5cf939fc336fac0996ca0a5505f393,
     0x9036ca3f66a0faf6c96aafca0cc3c09a,
     0x30ac63f0505fcf0caaa3f955a6a3af3f,
     0xa39c9ac3fc5ca6f5033ca60ff0969ca5,
     0xa0ca56503af96603c3cff9c695c559af,
     0x00c03093553656f3f0f0af36393aa9fa,
     0x055a3c9f3a95336ac00355c96af63509,
     0xf09f666f3390c5ffa0c953a90a69af05]"

definition mx231by768_part8 :: "block list" where
  "mx231by768_part8 =
    [0x9c5ac93c605363056999ff5a5356639f,
     0x9906c5a6c6a65cc6c9959fc33ff3c69a,
     0x60a9ac5055303f0969a3fc6306aa6f9f,
     0x00a06c05a5936f3630fc9c6f5c599cf5,
     0x0aa5560c9906993560c6a66039cf960f,
     0xcccff3c355cf56ff5fa0a59f0930530a,
     0x06665c96f0a539c5c00c33596563350f,
     0x0fff6a93a393aa5fa0c5f3a95339a306,
     0x3c5095ac665f9300ff69f6360359fc0f,
     0x0090ca0a5505f3939036ca3f66a0faf6,
     0xc96aafca0cc3c09a30ac63f0505fcf0c,
     0xaaa3f955a6a3af3fa39c9ac3fc5ca6f5,
     0x033ca60ff0969ca5a0ca56503af96603,
     0xc3cff9c695c559af506ac59069905903,
     0x666c0a96f36cf9c0fc3c3f5cf56cf5ff,
     0x00f03c5f3565563330366a6f55afaf9f,
     0x09fff9660659fcffca596c395a9cf6a9,
     0xc9a5cffca6ac5f50faaaaa00335a9f5c,
     0x3c0f99c3a0050636a6c35f395903c395,
     0x6c096f69acc0c3a6f0605339a5a0a99c,
     0xacf3fccc90c6300555053509cca3f95a,
     0x00309aaf55366f96909ff6c3a653630f,
     0xcfcffc33036cf53369a0365ca9faff50,
     0xa09aa3c6935aafac369599c065650c5a,
     0x56cc0c695f0a039c9fa96390acc9a9c6,
     0xf500333f6a60a6633cf0a59c95605005,
     0x96f535560cac6c0a65f6960faa993f59,
     0x0090f993a593f303f0cff35553663503,
     0x63a3f656f5fafa99f09f6f6690c5ffaf,
     0x9cc596a3c5699f9a5cfacc6fcafa05a5,
     0xafaa0a30a3f5c9c5f390390c5a606063,
     0x3afc959335305cc996f096c60a3c6c0a,
     0x0f3695530a9acac93acfcf0c690c5350,
     0x00c0300555053509cca3f95a65f36609,
     0xf9693f6c3a35f6f0fccc3f33c0563f93,
     0x066ac395aaff0f05aa396a3ca9f5ca6a,
     0x5399095c56c6a065c5cc90f6a530c0f9,
     0x993a06c99a9c6a5c0f30f3a306663ac6,
     0x035fca5909065560595f63c5c0caa650,
     0x00a06c0a65f6960faa993f593a393f00,
     0xff3c5f3565563330366a6f55afaf9f09,
     0xfff9660659fcffca596c395a9cf6a9c9,
     0xa5cffca6ac5f50faaaaa00335a9f5c3c,
     0x0f99c3a0050636a6c35f395903c3956c,
     0x096f69acc0c3a6f0605339a5a0a99cac,
     0x0090cac93acfcf0c690c5350555093c0,
     0x3c9aaf55366f96909ff6c3a653630fcf,
     0xcffc33036cf53369a0365ca9faff50a0,
     0x9aa3c6935aafac369599c065650c5a56,
     0xcc0c695f0a039c9fa96390acc9a9c6f5,
     0x00333f6a60a6633cf0a59c9560500596,
     0x00005560595f63c5c0caa650666ff9a0,
     0x9af993a593f303f0cff3555366350363,
     0xa3f656f5fafa99f09f6f6690c5ffaf9c,
     0xc596a3c5699f9a5cfacc6fcafa05a5af,
     0xaa0a30a3f5c9c5f390390c5a6060633a,
     0xfc959335305cc996f096c60a3c6c0a0f,
     0x00309a935505960f69ca96acf5955309,
     0xc6a63cf096a306c3c635fc06a90503cc,
     0xf3cc0033650ca553c9fc936a9f055a6c,
     0x5c99c53f03fffc53f53536309ff65565,
     0x333fc09cf90565f6cfccc0a90c9636c5,
     0x59c0a3639630f359c3a9639a3ac3500a,
     0x0090f90565f6cfccc0a90c9636c559c0,
     0xa3639630f359c3a9639a3ac3500ac965,
     0xc5aac065fac56aa5afc6c5f90fcaa936,
     0x66c0569fc9cff6663a569390cff35a3a,
     0x5993a0ca300a35cf63a5a050050f5f6a,
     0xac6056c90f5039ac6960f9099969aff5,
     0x00c0300a35cf63a5a050050f5f6aac60,
     0x56c90f5039ac6960f9099969aff5a0f5,
     0xaa9960caf5aac99a93a3aaffff69906f,
     0x33a0af0f6fa33f3c656f06f0a3395955,
     0x60f990a66cc95a5f3995606cca036f39,
     0x6a306c5cc36f905a30c03ccf0c3053c6,
     0x00a06cc95a5f3995606cca036f396a30,
     0x6c5cc36f905a30c03ccf0c3053c6503a,
     0x95cc3fa9f659a0c5c69559fc33f0cf3f,
     0x555f6303f3695f5536f303cc995f5066,
     0xffcc0c9cca6069539c053c3a6609339f,
     0x359c3aa6a9330ca5905c56ac0a5ca65f,
     0x0090ca6069539c053c3a6609339f359c,
     0x3aa6a9330ca5905c56ac0a5ca65fac56,
     0xfa6a5c9cffa09c6a63066cf599fc6c6f,
     0xa6633509f93cafa5933509aa0ca350f3,
     0x3c560a0a55f0f0a5c60a6695fc0095c3,
     0x9a06969f9099f65a0f5aaf9a09a65caf,
     0x000055f0f0a5c60a6695fc0095c39a06,
     0x969f9099f65a0f5aaf9a09a65caf9aac,
     0x3939aafaff9f06f93603fafaf036fac3,
     0x53f666003f9a935505960f69ca96acf5,
     0x955309c6a63cf096a306c3c635fc06a9,
     0x0503ccf3cc0033650ca553c9fc936a9f,
     0x00c0a63cf096a306c3c635fc06a90503,
     0xccf3cc0033650ca553c9fc936a9f055a,
     0x6c5c99c53f03fffc53f53536309ff655,
     0x65333fc09cf90565f6cfccc0a90c9636,
     0xc559c0a3639630f359c3a9639a3ac350,
     0x0ac965c5aac065fac56aa5afc6c5f90f,
     0x0090f90a555f9c0566c6953a695fc6ac,
     0xa6395cc9560fff69af5505cfaca06c6a,
     0x0995a305c9f5aacc5f9cff0ffff63665,
     0xf303aaca06965f3a6a9c9a9fccc065f5,
     0x5aa06a3303359690a35950f39c53c053,
     0xc9c33f0c5a0fa5a59fa359fc9936fa55,
     0x00c030c96a53c60ac3630a9930a35f9a,
     0x5c6c66a0af03f33c9365f66395603af6,
     0x0006590aa035956aacfa3fc3cf3f5c36,
     0x350969a90c0f6f993506c6f3aa60caf6,
     0xa99cf956f55603f099af50f5c5596066,
     0x5ca993f665cc6a9ac3956cf5f09ff65a,
     0x00a06c60f9a5a3c6a9f9c90c5c56af05,
     0xaa3633506309399a0535cf39053c953c,
     0xfcc3a0f5505afa399ac59f69a35fa593,
     0x96cfc050c50333cf9a036cc59930a9ff,
     0x9006fc633a6f06cc0c93ac3665ac303c,
     0xa6900933faa5c9c56606fa3a30cf3359,
     0x0090caf0f0965963603caf0aa66c9fca,
     0x996f556f35009ff90a555f9c0566c695,
     0x3a695fc6aca6395cc9560fff69af5505,
     0xcfaca06c6a0995a305c9f5aacc5f9cff,
     0x0ffff63665f303aaca06965f3a6a9c9a,
     0x9fccc065f55aa06a3303359690a35950,
     0x0000553c30f3ac39c0569c0993fa0f69,
     0xc03fa6f366c0cc30c96a53c60ac3630a,
     0x9930a35f9a5c6c66a0af03f33c9365f6,
     0x6395603af60006590aa035956aacfa3f,
     0xc3cf3f5c36350969a90c0f6f993506c6,
     0xf3aa60caf6a99cf956f55603f099af50,
     0x00c0a69650395a905cafcafcc5f9fff0,
     0x6f6f53363fa0aa6c60f9a5a3c6a9f9c9,
     0x0c5c56af05aa3633506309399a0535cf,
     0x39053c953cfcc3a0f5505afa399ac59f,
     0x69a35fa59396cfc050c50333cf9a036c,
     0xc59930a9ff9006fc633a6f06cc0c93ac,
     0x00a0630f6090a5005a53a9c6aaff33fc,
     0xfcc36553939096caf0f0965963603caf,
     0x0aa66c9fca996f556f35009ff90a555f,
     0x9c0566c6953a695fc6aca6395cc9560f,
     0xff69af5505cfaca06c6a0995a305c9f5,
     0xaacc5f9cff0ffff63665f303aaca0696,
     0x00c03060f996ac995c5399a36c3530a3,
     0xa95036356a0666c5ccaffa9ff9699335,
     0xcf9c05c3f9a90a93fafffcfc55553056,
     0xc0635c90c965f69906f6563696afa03a,
     0x36fc69af5f059a6fa6333f9006559660,
     0x905acf6ac536035603ccca060f33af05,
     0x00a06cf030f35a005aa5cf95fa9a9099]"

definition mx231by768_part9 :: "block list" where
  "mx231by768_part9 =
    [0x9fac5f9a3503fcaa6a9cc50fff3c0555,
     0x5fc6caa93c9f09c5f93336fa5a669f53,
     0x6036a6cc60caff00ff3fac93cf9c6095,
     0x9c3a3053afcac93f5356930ccca60f30,
     0x0c65acc96a53f56f06aaa9cc0395530a,
     0x0090ca3c5039a500a59a63063506f00c,
     0x03966fc99ac9359539ca5603339a0a65,
     0x53a3666056ccfcaaff999f3659f3cc59,
     0x309c9faa30a9ffcfcf5f550563053cc6,
     0x05995c669f69606f6563f90aaa63c39f,
     0xf6fa55a0f9663af3036950650906a9f5,
     0x0000559660905acf6ac536035603ccca,
     0x060f33af05a055fa5ca9af0999f9c9fa,
     0xa55933c0afaac659fcf0cf5350f565ac,
     0x9ccaf399509c3f63a3af65f639056663,
     0xca0ca6fc0ff0ffc33af9cc0956c9a903,
     0x33f5aa9cfc336535c9c06cfa00c350c6,
     0x00c0a60f300c65acc96a53f56f06aaa9,
     0xcc0395530a50aa3966506300cf3060f9,
     0x96ac995c5399a36c3530a3a95036356a,
     0x0666c5ccaffa9ff9699335cf9c05c3f9,
     0xa90a93fafffcfc55553056c0635c90c9,
     0x65f69906f6563696afa03a36fc69af5f,
     0x00a063c39ff6fa55a0f9663af3036950,
     0x650906a9f5ac566c336035c0ac6cf030,
     0xf35a005aa5cf95fa9a90999fac5f9a35,
     0x03fcaa6a9cc50fff3c05555fc6caa93c,
     0x9f09c5f93336fa5a669f536036a6cc60,
     0xcaff00ff3fac93cf9c60959c3a3053af,
     0x0050c9a90333f5aa9cfc336535c9c06c,
     0xfa00c350c69aac3655ff66a09aca3c50,
     0x39a500a59a63063506f00c03966fc99a,
     0xc9359539ca5603339a0a6553a3666056,
     0xccfcaaff999f3659f3cc59309c9faa30,
     0xa9ffcfcf5f550563053cc605995c669f,
     0x00a06c3c6090655ca0fc5336cf0c3c63,
     0xaa0ac5f999cfa3505fca9aa0a53933f0,
     0x6690c6a6c30f33f609ff5f65f69cc5a9,
     0x56acc66c95900c030f95a3f59a9c6f53,
     0x66f909665ccc30a93ff3690565535993,
     0x5ca56f065603aa50f500695faf69f0c3,
     0x0090ca96300cfaa59cf6a693630566f9,
     0x9909aafff0a399ac6fa905505a6c553f,
     0x3f0cac63a9c365ffc0cfaf35cfc66a60,
     0xaf9aa3fa0af0cac6030659c605ca3f65,
     0xf3ccc033a6aa509c9ff93c0af5a5ac09,
     0x5a9a33036f06696c3afc30639ff0ff55,
     0x0000550f90f6f59a063f5c053905c33c,
     0xcffc593c30990f96335f0aaca636a653,
     0x930a5ac99069caff6fa393555fa336c0,
     0x53c9953506cca96c09c3a05fca696f3a,
     0x395660969f99a0fa0f3f9ac9fa965a00,
     0xa5c556f5f3c3c03a963a5cf60ffcfc5a,
     0x00c0a6c30f33f609ff5f65f69cc5a956,
     0xacc66c95900c030f95a3f59a9c6f5366,
     0xf909665ccc30a93ff36905655359935c,
     0xa56f065603aa50f500695faf69f0c355,
     0x905330ccf3cc9fc50393f96039f3a5c0,
     0x6a6a633a35a9a0950c99a6fcff363a59,
     0x00a063a9c365ffc0cfaf35cfc66a60af,
     0x9aa3fa0af0cac6030659c605ca3f65f3,
     0xccc033a6aa509c9ff93c0af5a5ac095a,
     0x9a33036f06696c3afc30639ff0ff5566,
     0xcf599c6ac56acc5609c930f050395aaf,
     0xc9f93665969f60c6c50c93fa339f5650,
     0x0050c99069caff6fa393555fa336c053,
     0xc9953506cca96c09c3a05fca696f3a39,
     0x5660969f99a0fa0f3f9ac9fa965a00a5,
     0xc556f5f3c3c03a963a5cf60ffcfc5af3,
     0x6cac06f6aa39aaaf00af6c3c6090655c,
     0xa0fc5336cf0c3c63aa0ac5f999cfa350,
     0x00605ccc30a93ff36905655359935ca5,
     0x6f065603aa50f500695faf69f0c35590,
     0x5330ccf3cc9fc50393f96039f3a5c06a,
     0x6a633a35a9a0950c99a6fcff363a59f5,
     0x356a033c955c5963c09cca96300cfaa5,
     0x9cf6a693630566f99909aafff0a399ac,
     0x0090ca0f0033ff60a305f5a55ac06af9,
     0x56366305c3569ca33506aa6c9a3aa6fc,
     0x33cf93ac33aff5056a6f55c059063695,
     0x66f0660c5cc9cc509c0f9ff9f06090fa,
     0x95065f35cfa3965c9a53f5359960639a,
     0x09599c90ca6609696f9ffc3c5936c59a,
     0x000055c3cf65ffff690af596a5a0c9fc,
     0xa39339c5a9afca955603693a069993fa,
     0x99a309969553c6caf9c3666fac035cfa,
     0x33303f0a6a5caaa0fa03c3303c300cf5,
     0x0affaf555f59035ac5663a960f3cf9c9,
     0xfc6c05f0a9fc0030f30f365a505faa05,
     0x00c0a6a963ca3ff33cc93af35a5fa0f6,
     0x56059c65605369066fc6c095cc0cc5f9,
     0xf0990f0f06a95f69f055f33c6ac9a539,
     0x555f930936a69990c509a96c9690f6f6,
     0xc9cf936553ac09a56a3365cf0c663caf,
     0xc6fa0acc5035fc5cf6ff9fa6506f590a,
     0x00a0639039a99f399a60593965ac9c3f,
     0x6cf6c63ac0a53f03f3a3a0c6a50aaa3f,
     0x300cc303c350aff0ff5af59535a0556c,
     0xa663f9c0939fcccf56009fca0f0033ff,
     0x60a305f5a55ac06af956366305c3569c,
     0xa33506aa6c9a3aa6fc33cf93ac33aff5,
     0x0050c9cc509c0f9ff9f06090fa95065f,
     0x35cfa3965c9a53f5359960639a09599c,
     0x90ca6609696f9ffc3c5936c59a50aa36,
     0x53f6cc60c6f36aacafc00c55c3cf65ff,
     0xff690af596a5a0c9fca39339c5a9afca,
     0x955603693a069993fa99a309969553c6,
     0x00605caaa0fa03c3303c300cf50affaf,
     0x555f59035ac5663a960f3cf9c9fc6c05,
     0xf0a9fc0030f30f365a505faa05ac966f,
     0x653356306cc5395a63a0caa6a963ca3f,
     0xf33cc93af35a5fa0f656059c65605369,
     0x066fc6c095cc0cc5f9f0990f0f06a95f,
     0x0030a69990c509a96c9690f6f6c9cf93,
     0x6553ac09a56a3365cf0c663cafc6fa0a,
     0xcc5035fc5cf6ff9fa6506f590a9acc3f,
     0x3a99539cfaaa5c693590a6639039a99f,
     0x399a60593965ac9c3f6cf6c63ac0a53f,
     0x03f3a3a0c6a50aaa3f300cc303c350af,
     0x000055a933a90fcf30960033ffff3c60,
     0x6990f5cacf05f5965aaf9c5f555facc9,
     0x6afc5305c69a5cc5366563c5a9533903,
     0x35093c3c9fa356c3c0c695096c05cc6c,
     0x0a99c53930caf6005cf633a3090fc360,
     0x9f36aa50335fc669f05a36a5059a6c6f,
     0x00c0a690599c03a36c0fc0653f339af0,
     0x300cf669a30a35f3659c06af65535aa0,
     0xc9f666f6a3065a6a5336396560a55ff5,
     0x960f6656cc956fa6a063cafcfa0aaa3a,
     0xc60caa9f90a93cfca6fc9999cf0369ff,
     0x0f9f96ac95a35ff03f595f5a0a05fac3,
     0x00a063cca0fa0999cac36fca9f99f93c,
     0x90f6fff069c95a39fa05ff93f5a5a550,
     0xa03f3ccf5903a5f9a6939c35c09a633a,
     0xcf0cc3af6a06f39360f9a9c635066995,
     0xac0a590cf050953a93faf00c630930f3,
     0xffcf03960659affc5c506fa9f5caf955,
     0x0050c9aa90c5000f55a933a90fcf3096,
     0x0033ffff3c606990f5cacf05f5965aaf,
     0x9c5f555facc96afc5305c69a5cc53665,
     0x63c5a953390335093c3c9fa356c3c0c6,
     0x95096c05cc6c0a99c53930caf6005cf6,
     0x33a3090fc3609f36aa50335fc669f05a,
     0x00605c99c056c0cca690599c03a36c0f,
     0xc0653f339af0300cf669a30a35f3659c,
     0x06af65535aa0c9f666f6a3065a6a5336,
     0x396560a55ff5960f6656cc956fa6a063,
     0xcafcfa0aaa3ac60caa9f90a93cfca6fc]"

definition mx231by768_part10 :: "block list" where
  "mx231by768_part10 =
    [0x9999cf0369ff0f9f96ac95a35ff03f59,
     0x0030a6ccafafa0aa63cca0fa0999cac3,
     0x6fca9f99f93c90f6fff069c95a39fa05,
     0xff93f5a5a550a03f3ccf5903a5f9a693,
     0x9c35c09a633acf0cc3af6a06f39360f9,
     0xa9c635066995ac0a590cf050953a93fa,
     0xf00c630930f3ffcf03960659affc5c50,
     0x00909f6a5c639056c9aa90c5000f55a9,
     0x33a90fcf30960033ffff3c606990f5ca,
     0xcf05f5965aaf9c5f555facc96afc5305,
     0xc69a5cc5366563c5a953390335093c3c,
     0x9fa356c3c0c695096c05cc6c0a99c539,
     0x30caf6005cf633a3090fc3609f36aa50,
     0x00c0a6cc90c5c0ac63aac056a05ac999,
     0xa0af90665ccc5f630c3ca66a6c350a9a,
     0x9f39fa6609c6f35c393fc063c5665093,
     0x60f6aa3360f9303c9555ffcc9c5afaa6,
     0x335606a639539653035c6c65c359c9a5,
     0x363a69aca0956f55306a50ca3f669f35,
     0x00a063aac056a05ac999a0af90665ccc,
     0x5f630c3ca66a6c350a9a9f39fa6609c6,
     0xf35c393fc063c566509360f6aa3360f9,
     0x303c9555ffcc9c5afaa6335606a63953,
     0x9653035c6c65c359c9a5363a69aca095,
     0x6f55306a50ca3f669f35ac666ff3cc9a,
     0x0050c999a0af90665ccc5f630c3ca66a,
     0x6c350a9a9f39fa6609c6f35c393fc063,
     0xc566509360f6aa3360f9303c9555ffcc,
     0x9c5afaa6335606a639539653035c6c65,
     0xc359c9a5363a69aca0956f55306a50ca,
     0x3f669f35ac666ff3cc9a9afcc3f5a505,
     0x00605ccc5f630c3ca66a6c350a9a9f39,
     0xfa6609c6f35c393fc063c566509360f6,
     0xaa3360f9303c9555ffcc9c5afaa63356,
     0x06a639539653035c6c65c359c9a5363a,
     0x69aca0956f55306a50ca3f669f35ac66,
     0x6ff3cc9a9afcc3f5a50505fa5536550a,
     0x0030a66a6c350a9a9f39fa6609c6f35c,
     0x393fc063c566509360f6aa3360f9303c,
     0x9555ffcc9c5afaa6335606a639539653,
     0x035c6c65c359c9a5363a69aca0956f55,
     0x306a50ca3f669f35ac666ff3cc9a9afc,
     0xc3f5a50505fa5536550acaf95a5faaf5,
     0x00909f39fa6609c6f35c393fc063c566,
     0x509360f6aa3360f9303c9555ffcc9c5a,
     0xfaa6335606a639539653035c6c65c359,
     0xc9a5363a69aca0956f55306a50ca3f66,
     0x9f35ac666ff3cc9a9afcc3f5a50505fa,
     0x5536550acaf95a5faaf56930596f59c6,
     0x00c0f35c393fc063c566509360f6aa33,
     0x60f9303c9555ffcc9c5afaa6335606a6,
     0x39539653035c6c65c359c9a5363a69ac,
     0xa0956f55306a50ca3f669f35ac666ff3,
     0xcc9a9afcc3f5a50505fa5536550acaf9,
     0x5a5faaf56930596f59c6f05f5033af5f]"

definition mx231by768 :: "u8 list" where
  "mx231by768 = concat (map line_bytes (mx231by768_part1 @ mx231by768_part2 @ mx231by768_part3 @ mx231by768_part4 @ mx231by768_part5 @ mx231by768_part6 @ mx231by768_part7 @ mx231by768_part8 @ mx231by768_part9 @ mx231by768_part10))"

definition mx238by776_part1 :: "block list" where
  "mx238by776_part1 =
    [0x82060000000000000803000000000000,
     0xc0c0c0c0c0c0c0c0c0c0c0c0c0c0c0c0,
     0xc0c0c0c0c0c0c0c0c0c0c0c0c0c0c0c0,
     0xc0c0c0c0c0c0c0c0c0c0c0c0c0c0c0c0,
     0xc0c0c0c0c0c0c0c0c0c0c0c0c0c0c0c0,
     0xc0c0c0c0c0c0c0c0c0c0c0c0c0c0c0c0,
     0xc0c0c0c0c0c0c0c0c0c0c0c0c0c0c0c0,
     0xc0000000000000000000000000000000,
     0xa0a0a0a0a0a0a0a0a0a0a0a0a0a0a0a0,
     0xa0a0a0a0a0a0a0a0a0a0a0a0a0a0a0a0,
     0xa0a0a0a0a0a0a0a0a0a0a0a0a0a0a0a0,
     0xa0a0a0a0a0a0a0a0a0a0a0a0a0a0a0a0,
     0xa0a0a0a0a0a0a0a0a0a0a0a0a0a0a0a0,
     0xa0a0a0a0a0a0a0a0a0a0a0a0a0a0a0a0,
     0xa0000000000000000000000000000000,
     0x90909090909090909090909090909090,
     0x90909090909090909090909090909090,
     0x90909090909090909090909090909090,
     0x90909090909090909090909090909090,
     0x90909090909090909090909090909090,
     0x90909090909090909090909090909090,
     0x90000000000000000000000000000000,
     0x88888888888888888888888888888888,
     0x88888888888888888888888888888888,
     0x88888888888888888888888888888888,
     0x88888888888888888888888888888888,
     0x88888888888888888888888888888888,
     0x88888888888888888888888888888888,
     0x88000000000000000000000000000000,
     0x84848484848484848484848484848484,
     0x84848484848484848484848484848484,
     0x84848484848484848484848484848484,
     0x84848484848484848484848484848484,
     0x84848484848484848484848484848484,
     0x84848484848484848484848484848484,
     0x84000000000000000000000000000000,
     0x82828282828282828282828282828282,
     0x82828282828282828282828282828282,
     0x82828282828282828282828282828282,
     0x82828282828282828282828282828282,
     0x82828282828282828282828282828282,
     0x82828282828282828282828282828282,
     0x82000000000000000000000000000000,
     0x81818181818181818181818181818181,
     0x81818181818181818181818181818181,
     0x81818181818181818181818181818181,
     0x81818181818181818181818181818181,
     0x81818181818181818181818181818181,
     0x81818181818181818181818181818181,
     0x81000000000000000000000000000000,
     0x00a090888482816030180c0603e15028,
     0x140a05e2b1783c1e0fe753c9442211e8,
     0xb49a8d6633f95c2e17eb55caa57239fc,
     0xbe9f6fd74bc54221f0b89c8e8763d148,
     0x241209e4b2996c361bed562bf55a2df6,
     0xbb7ddeaf77db4dc6a371d8ac968b65d2,
     0xa9000000000000000000000000000000,
     0x0090888482816030180c0603e1502814,
     0x0a05e2b1783c1e0fe753c9442211e8b4,
     0x9a8d6633f95c2e17eb55caa57239fcbe,
     0x9f6fd74bc54221f0b89c8e8763d14824,
     0x1209e4b2996c361bed562bf55a2df6bb,
     0x7ddeaf77db4dc6a371d8ac968b65d2a9,
     0x74000000000000000000000000000000,
     0x00888482816030180c0603e15028140a,
     0x05e2b1783c1e0fe753c9442211e8b49a,
     0x8d6633f95c2e17eb55caa57239fcbe9f,
     0x6fd74bc54221f0b89c8e8763d1482412,
     0x09e4b2996c361bed562bf55a2df6bb7d,
     0xdeaf77db4dc6a371d8ac968b65d2a974,
     0x3a000000000000000000000000000000,
     0x008482816030180c0603e15028140a05,
     0xe2b1783c1e0fe753c9442211e8b49a8d,
     0x6633f95c2e17eb55caa57239fcbe9f6f,
     0xd74bc54221f0b89c8e8763d148241209,
     0xe4b2996c361bed562bf55a2df6bb7dde,
     0xaf77db4dc6a371d8ac968b65d2a9743a,
     0x1d000000000000000000000000000000,
     0x0082816030180c0603e15028140a05e2,
     0xb1783c1e0fe753c9442211e8b49a8d66,
     0x33f95c2e17eb55caa57239fcbe9f6fd7,
     0x4bc54221f0b89c8e8763d148241209e4,
     0xb2996c361bed562bf55a2df6bb7ddeaf,
     0x77db4dc6a371d8ac968b65d2a9743a1d,
     0xee000000000000000000000000000000,
     0x00816030180c0603e15028140a05e2b1,
     0x783c1e0fe753c9442211e8b49a8d6633,
     0xf95c2e17eb55caa57239fcbe9f6fd74b,
     0xc54221f0b89c8e8763d148241209e4b2,
     0x996c361bed562bf55a2df6bb7ddeaf77,
     0xdb4dc6a371d8ac968b65d2a9743a1dee,
     0xb7000000000000000000000000000000,
     0x006030180c0603e15028140a05e2b178,
     0x3c1e0fe753c9442211e8b49a8d6633f9,
     0x5c2e17eb55caa57239fcbe9f6fd74bc5,
     0x4221f0b89c8e8763d148241209e4b299,
     0x6c361bed562bf55a2df6bb7ddeaf77db,
     0x4dc6a371d8ac968b65d2a9743a1deeb7,
     0x7b000000000000000000000000000000,
     0x00908481300c03501405b13c0f534411,
     0xb48d335c1755a539be6f4b42f09c87d1,
     0x2409b26c1b56f52dbbde774da3d89665,
     0xa93aee7b4ef3cc93d49535bd3f5f4741,
     0xa08882601806e1280ae2781ee7c922e8,
     0x9a66f92eebca72fc9fd7c521b88e6348,
     0x12000000000000000000000000000000,
     0x008882601806e1280ae2781ee7c922e8,
     0x9a66f92eebca72fc9fd7c521b88e6348,
     0x12e49936ed2b5af67dafdbc671ac8bd2,
     0x741db7dd2759a669aa6afa7effcfc3c0,
     0x908481300c03501405b13c0f534411b4,
     0x8d335c1755a539be6f4b42f09c87d124,
     0x09000000000000000000000000000000,
     0x008481300c03501405b13c0f534411b4,
     0x8d335c1755a539be6f4b42f09c87d124,
     0x09b26c1b56f52dbbde774da3d89665a9,
     0x3aee7b4ef3cc93d49535bd3f5f4741a0,
     0x8882601806e1280ae2781ee7c922e89a,
     0x66f92eebca72fc9fd7c521b88e634812,
     0xe4000000000000000000000000000000,
     0x0082601806e1280ae2781ee7c922e89a,
     0x66f92eebca72fc9fd7c521b88e634812,
     0xe49936ed2b5af67dafdbc671ac8bd274,
     0x1db7dd2759a669aa6afa7effcfc3c090,
     0x8481300c03501405b13c0f534411b48d,
     0x335c1755a539be6f4b42f09c87d12409,
     0xb2000000000000000000000000000000,
     0x0081300c03501405b13c0f534411b48d,
     0x335c1755a539be6f4b42f09c87d12409,
     0xb26c1b56f52dbbde774da3d89665a93a,
     0xee7b4ef3cc93d49535bd3f5f4741a088,
     0x82601806e1280ae2781ee7c922e89a66,
     0xf92eebca72fc9fd7c521b88e634812e4,
     0x99000000000000000000000000000000,
     0x00601806e1280ae2781ee7c922e89a66,
     0xf92eebca72fc9fd7c521b88e634812e4,
     0x9936ed2b5af67dafdbc671ac8bd2741d,
     0xb7dd2759a669aa6afa7effcfc3c09084,
     0x81300c03501405b13c0f534411b48d33,
     0x5c1755a539be6f4b42f09c87d12409b2,
     0x6c000000000000000000000000000000,
     0x00300c03501405b13c0f534411b48d33,
     0x5c1755a539be6f4b42f09c87d12409b2,
     0x6c1b56f52dbbde774da3d89665a93aee,
     0x7b4ef3cc93d49535bd3f5f4741a08882,
     0x601806e1280ae2781ee7c922e89a66f9,
     0x2eebca72fc9fd7c521b88e634812e499,
     0x36000000000000000000000000000000]"

definition mx238by776_part2 :: "block list" where
  "mx238by776_part2 =
    [0x00888118032805780fc9119a332e5572,
     0xbed742b8874809991b2b2d7d77c6d88b,
     0xa91d7b27cc6995fa3fcf419082300650,
     0x0ab11e5322b4665ceba5fc6fc5f08ed1,
     0x12b236565abbaf4d7196d23ab74e5993,
     0xaa357e5fc3a084600ce114e23ce744e8,
     0x8d000000000000000000000000000000,
     0x0084600ce114e23ce744e88df917ca39,
     0x9f4b219c6324e46cedf5f6dedba3ac65,
     0x74eeddf3a6d46abdff47c08881180328,
     0x05780fc9119a332e5572bed742b88748,
     0x09991b2b2d7d77c6d88ba91d7b27cc69,
     0x95fa3fcf4190823006500ab11e5322b4,
     0x66000000000000000000000000000000,
     0x00823006500ab11e5322b4665ceba5fc,
     0x6fc5f08ed112b236565abbaf4d7196d2,
     0x3ab74e5993aa357e5fc3a084600ce114,
     0xe23ce744e88df917ca399f4b219c6324,
     0xe46cedf5f6dedba3ac6574eeddf3a6d4,
     0x6abdff47c0888118032805780fc9119a,
     0x33000000000000000000000000000000,
     0x008118032805780fc9119a332e5572be,
     0xd742b8874809991b2b2d7d77c6d88ba9,
     0x1d7b27cc6995fa3fcf4190823006500a,
     0xb11e5322b4665ceba5fc6fc5f08ed112,
     0xb236565abbaf4d7196d23ab74e5993aa,
     0x357e5fc3a084600ce114e23ce744e88d,
     0xf9000000000000000000000000000000,
     0x00600ce114e23ce744e88df917ca399f,
     0x4b219c6324e46cedf5f6dedba3ac6574,
     0xeeddf3a6d46abdff47c0888118032805,
     0x780fc9119a332e5572bed742b8874809,
     0x991b2b2d7d77c6d88ba91d7b27cc6995,
     0xfa3fcf4190823006500ab11e5322b466,
     0x5c000000000000000000000000000000,
     0x003006500ab11e5322b4665ceba5fc6f,
     0xc5f08ed112b236565abbaf4d7196d23a,
     0xb74e5993aa357e5fc3a084600ce114e2,
     0x3ce744e88df917ca399f4b219c6324e4,
     0x6cedf5f6dedba3ac6574eeddf3a6d46a,
     0xbdff47c0888118032805780fc9119a33,
     0x2e000000000000000000000000000000,
     0x0018032805780fc9119a332e5572bed7,
     0x42b8874809991b2b2d7d77c6d88ba91d,
     0x7b27cc6995fa3fcf4190823006500ab1,
     0x1e5322b4665ceba5fc6fc5f08ed112b2,
     0x36565abbaf4d7196d23ab74e5993aa35,
     0x7e5fc3a084600ce114e23ce744e88df9,
     0x17000000000000000000000000000000,
     0x0084300314b10f44b43317a5be4bf087,
     0x24b21bf5bb77a396a9ee4eccd4353f47,
     0xa08218e10a78e7229af9eb729fc5b863,
     0x1299ed5a7ddb718b74b727a6aafaffc3,
     0x90810c50053c53118d5c55396f429cd1,
     0x096c562dde4dd8653a7bf39395bd5f41,
     0x88000000000000000000000000000000,
     0x008218e10a78e7229af9eb729fc5b863,
     0x1299ed5a7ddb718b74b727a6aafaffc3,
     0x90810c50053c53118d5c55396f429cd1,
     0x096c562dde4dd8653a7bf39395bd5f41,
     0x88600628e21ec9e8662ecafcd7218e48,
     0xe4362bf6afc6acd21ddd59696a7ecfc0,
     0x84000000000000000000000000000000,
     0x00810c50053c53118d5c55396f429cd1,
     0x096c562dde4dd8653a7bf39395bd5f41,
     0x88600628e21ec9e8662ecafcd7218e48,
     0xe4362bf6afc6acd21ddd59696a7ecfc0,
     0x84300314b10f44b43317a5be4bf08724,
     0xb21bf5bb77a396a9ee4eccd4353f47a0,
     0x82000000000000000000000000000000,
     0x00600628e21ec9e8662ecafcd7218e48,
     0xe4362bf6afc6acd21ddd59696a7ecfc0,
     0x84300314b10f44b43317a5be4bf08724,
     0xb21bf5bb77a396a9ee4eccd4353f47a0,
     0x8218e10a78e7229af9eb729fc5b86312,
     0x99ed5a7ddb718b74b727a6aafaffc390,
     0x81000000000000000000000000000000,
     0x00300314b10f44b43317a5be4bf08724,
     0xb21bf5bb77a396a9ee4eccd4353f47a0,
     0x8218e10a78e7229af9eb729fc5b86312,
     0x99ed5a7ddb718b74b727a6aafaffc390,
     0x810c50053c53118d5c55396f429cd109,
     0x6c562dde4dd8653a7bf39395bd5f4188,
     0x60000000000000000000000000000000,
     0x0018e10a78e7229af9eb729fc5b86312,
     0x99ed5a7ddb718b74b727a6aafaffc390,
     0x810c50053c53118d5c55396f429cd109,
     0x6c562dde4dd8653a7bf39395bd5f4188,
     0x600628e21ec9e8662ecafcd7218e48e4,
     0x362bf6afc6acd21ddd59696a7ecfc084,
     0x30000000000000000000000000000000,
     0x000c50053c53118d5c55396f429cd109,
     0x6c562dde4dd8653a7bf39395bd5f4188,
     0x600628e21ec9e8662ecafcd7218e48e4,
     0x362bf6afc6acd21ddd59696a7ecfc084,
     0x300314b10f44b43317a5be4bf08724b2,
     0x1bf5bb77a396a9ee4eccd4353f47a082,
     0x18000000000000000000000000000000,
     0x00820c28b1e7116617726f2187126c2b,
     0xbbdbd8d2ee27936a3fc38830e1051e44,
     0x9a5ccabec59c48b2ed2dafa38b3addcc,
     0xaabdcfa08106147853e833eb39d7f063,
     0x0936f57d4daca9b7f36935ff41841850,
     0xe20f228d2ea59f428e249956f6777165,
     0x1d000000000000000000000000000000,
     0x008106147853e833eb39d7f0630936f5,
     0x7d4daca9b7f36935ff41841850e20f22,
     0x8d2ea59f428e249956f67771651d4ea6,
     0x957e479060030a3cc9b4f955fc4bb8d1,
     0xe41b5adec696747b59d4fa5fc0820c28,
     0xb1e7116617726f2187126c2bbbdbd8d2,
     0xee000000000000000000000000000000,
     0x0060030a3cc9b4f955fc4bb8d1e41b5a,
     0xdec696747b59d4fa5fc0820c28b1e711,
     0x6617726f2187126c2bbbdbd8d2ee2793,
     0x6a3fc38830e1051e449a5ccabec59c48,
     0xb2ed2dafa38b3addccaabdcfa0810614,
     0x7853e833eb39d7f0630936f57d4daca9,
     0xb7000000000000000000000000000000,
     0x0030e1051e449a5ccabec59c48b2ed2d,
     0xafa38b3addccaabdcfa08106147853e8,
     0x33eb39d7f0630936f57d4daca9b7f369,
     0x35ff41841850e20f228d2ea59f428e24,
     0x9956f67771651d4ea6957e479060030a,
     0x3cc9b4f955fc4bb8d1e41b5adec69674,
     0x7b000000000000000000000000000000,
     0x001850e20f228d2ea59f428e249956f6,
     0x7771651d4ea6957e479060030a3cc9b4,
     0xf955fc4bb8d1e41b5adec696747b59d4,
     0xfa5fc0820c28b1e7116617726f218712,
     0x6c2bbbdbd8d2ee27936a3fc38830e105,
     0x1e449a5ccabec59c48b2ed2dafa38b3a,
     0xdd000000000000000000000000000000,
     0x000c28b1e7116617726f2187126c2bbb,
     0xdbd8d2ee27936a3fc38830e1051e449a,
     0x5ccabec59c48b2ed2dafa38b3addccaa,
     0xbdcfa08106147853e833eb39d7f06309,
     0x36f57d4daca9b7f36935ff41841850e2,
     0x0f228d2ea59f428e249956f67771651d,
     0x4e000000000000000000000000000000,
     0x0006147853e833eb39d7f0630936f57d,
     0x4daca9b7f36935ff41841850e20f228d,
     0x2ea59f428e249956f67771651d4ea695,
     0x7e479060030a3cc9b4f955fc4bb8d1e4,
     0x1b5adec696747b59d4fa5fc0820c28b1,
     0xe7116617726f2187126c2bbbdbd8d2ee,
     0x27000000000000000000000000000000,
     0x008103050f113355be4287091b2d77d8]"

definition mx238by776_part3 :: "block list" where
  "mx238by776_part3 =
    [0xa97bcc953f4182060a1e2266ebfcc58e,
     0x12365aaf71d2b759aa7ec3840c143c44,
     0x8d17394b9c246cf5dea365eef3d4bd47,
     0x88182878c99a2e72d7b848992b7dc68b,
     0x1d2769facf903050b153b45ca56ff0d1,
     0xb2000000000000000000000000000000,
     0x0060e1e2e7e8f9ca9f2163e4edf6dbac,
     0x74dda66affc08103050f113355be4287,
     0x091b2d77d8a97bcc953f4182060a1e22,
     0x66ebfcc58e12365aaf71d2b759aa7ec3,
     0x840c143c448d17394b9c246cf5dea365,
     0xeef3d4bd4788182878c99a2e72d7b848,
     0x99000000000000000000000000000000,
     0x003050b153b45ca56ff0d1b256bb4d96,
     0x3a4e93355fa060e1e2e7e8f9ca9f2163,
     0xe4edf6dbac74dda66affc08103050f11,
     0x3355be4287091b2d77d8a97bcc953f41,
     0x82060a1e2266ebfcc58e12365aaf71d2,
     0xb759aa7ec3840c143c448d17394b9c24,
     0x6c000000000000000000000000000000,
     0x00182878c99a2e72d7b848992b7dc68b,
     0x1d2769facf903050b153b45ca56ff0d1,
     0xb256bb4d963a4e93355fa060e1e2e7e8,
     0xf9ca9f2163e4edf6dbac74dda66affc0,
     0x8103050f113355be4287091b2d77d8a9,
     0x7bcc953f4182060a1e2266ebfcc58e12,
     0x36000000000000000000000000000000,
     0x000c143c448d17394b9c246cf5dea365,
     0xeef3d4bd4788182878c99a2e72d7b848,
     0x992b7dc68b1d2769facf903050b153b4,
     0x5ca56ff0d1b256bb4d963a4e93355fa0,
     0x60e1e2e7e8f9ca9f2163e4edf6dbac74,
     0xdda66affc08103050f113355be428709,
     0x1b000000000000000000000000000000,
     0x00060a1e2266ebfcc58e12365aaf71d2,
     0xb759aa7ec3840c143c448d17394b9c24,
     0x6cf5dea365eef3d4bd4788182878c99a,
     0x2e72d7b848992b7dc68b1d2769facf90,
     0x3050b153b45ca56ff0d1b256bb4d963a,
     0x4e93355fa060e1e2e7e8f9ca9f2163e4,
     0xed000000000000000000000000000000,
     0x0003050f113355be4287091b2d77d8a9,
     0x7bcc953f4182060a1e2266ebfcc58e12,
     0x365aaf71d2b759aa7ec3840c143c448d,
     0x17394b9c246cf5dea365eef3d4bd4788,
     0x182878c99a2e72d7b848992b7dc68b1d,
     0x2769facf903050b153b45ca56ff0d1b2,
     0x56000000000000000000000000000000,
     0x006050784466559ff0486c5a77ac3a27,
     0xd47e4181e1b1c98debbe21d199f5afd8,
     0x744e69bdc38203e2539a17fc4263b22b,
     0xde71a9dd93fa47840605e7b42e39c587,
     0xe4567da3d27ba635cf880c0a0fe85c72,
     0x4b8e09edbbc665b7cc6a5f9018141e11,
     0xf9000000000000000000000000000000,
     0x0030283c2233ca6fb824362ddb961df3,
     0xaa3fc06050784466559ff0486c5a77ac,
     0x3a27d47e4181e1b1c98debbe21d199f5,
     0xafd8744e69bdc38203e2539a17fc4263,
     0xb22bde71a9dd93fa47840605e7b42e39,
     0xc587e4567da3d27ba635cf880c0a0fe8,
     0x5c000000000000000000000000000000,
     0x0018141e11f9a5d79c121bf64d8bee59,
     0x95ffa030283c2233ca6fb824362ddb96,
     0x1df3aa3fc06050784466559ff0486c5a,
     0x77ac3a27d47e4181e1b1c98debbe21d1,
     0x99f5afd8744e69bdc38203e2539a17fc,
     0x4263b22bde71a9dd93fa47840605e7b4,
     0x2e000000000000000000000000000000,
     0x000c0a0fe85c724b8e09edbbc665b7cc,
     0x6a5f9018141e11f9a5d79c121bf64d8b,
     0xee5995ffa030283c2233ca6fb824362d,
     0xdb961df3aa3fc06050784466559ff048,
     0x6c5a77ac3a27d47e4181e1b1c98debbe,
     0x21d199f5afd8744e69bdc38203e2539a,
     0x17000000000000000000000000000000,
     0x000605e7b42e39c587e4567da3d27ba6,
     0x35cf880c0a0fe85c724b8e09edbbc665,
     0xb7cc6a5f9018141e11f9a5d79c121bf6,
     0x4d8bee5995ffa030283c2233ca6fb824,
     0x362ddb961df3aa3fc06050784466559f,
     0xf0486c5a77ac3a27d47e4181e1b1c98d,
     0xeb000000000000000000000000000000,
     0x0003e2539a17fc4263b22bde71a9dd93,
     0xfa47840605e7b42e39c587e4567da3d2,
     0x7ba635cf880c0a0fe85c724b8e09edbb,
     0xc665b7cc6a5f9018141e11f9a5d79c12,
     0x1bf64d8bee5995ffa030283c2233ca6f,
     0xb824362ddb961df3aa3fc06050784466,
     0x55000000000000000000000000000000,
     0x00e1b1c98debbe21d199f5afd8744e69,
     0xbdc38203e2539a17fc4263b22bde71a9,
     0xdd93fa47840605e7b42e39c587e4567d,
     0xa3d27ba635cf880c0a0fe85c724b8e09,
     0xedbbc665b7cc6a5f9018141e11f9a5d7,
     0x9c121bf64d8bee5995ffa030283c2233,
     0xca000000000000000000000000000000,
     0x0030140fb417bef0241bbba3a94ed43f,
     0xa0180ae79aeb9fb812ed7d717427aaff,
     0x900c05538d556f9c0956ded83af3955f,
     0x8806e2c966cad78ee42bafac1d596acf,
     0x8403b14433a54b87b2f57796eecc3547,
     0x82e17822f972c563995adb8bb7a6fac3,
     0x81000000000000000000000000000000,
     0x00180ae79aeb9fb812ed7d717427aaff,
     0x900c05538d556f9c0956ded83af3955f,
     0x8806e2c966cad78ee42bafac1d596acf,
     0x8403b14433a54b87b2f57796eecc3547,
     0x82e17822f972c563995adb8bb7a6fac3,
     0x81503c115c3942d16c2d4d657b93bd41,
     0x60000000000000000000000000000000,
     0x000c05538d556f9c0956ded83af3955f,
     0x8806e2c966cad78ee42bafac1d596acf,
     0x8403b14433a54b87b2f57796eecc3547,
     0x82e17822f972c563995adb8bb7a6fac3,
     0x81503c115c3942d16c2d4d657b93bd41,
     0x60281ee82efc214836f6c6d2dd697ec0,
     0x30000000000000000000000000000000,
     0x0006e2c966cad78ee42bafac1d596acf,
     0x8403b14433a54b87b2f57796eecc3547,
     0x82e17822f972c563995adb8bb7a6fac3,
     0x81503c115c3942d16c2d4d657b93bd41,
     0x60281ee82efc214836f6c6d2dd697ec0,
     0x30140fb417bef0241bbba3a94ed43fa0,
     0x18000000000000000000000000000000,
     0x0003b14433a54b87b2f57796eecc3547,
     0x82e17822f972c563995adb8bb7a6fac3,
     0x81503c115c3942d16c2d4d657b93bd41,
     0x60281ee82efc214836f6c6d2dd697ec0,
     0x30140fb417bef0241bbba3a94ed43fa0,
     0x180ae79aeb9fb812ed7d717427aaff90,
     0x0c000000000000000000000000000000,
     0x00e17822f972c563995adb8bb7a6fac3,
     0x81503c115c3942d16c2d4d657b93bd41,
     0x60281ee82efc214836f6c6d2dd697ec0,
     0x30140fb417bef0241bbba3a94ed43fa0,
     0x180ae79aeb9fb812ed7d717427aaff90,
     0x0c05538d556f9c0956ded83af3955f88,
     0x06000000000000000000000000000000,
     0x00503c115c3942d16c2d4d657b93bd41,
     0x60281ee82efc214836f6c6d2dd697ec0,
     0x30140fb417bef0241bbba3a94ed43fa0,
     0x180ae79aeb9fb812ed7d717427aaff90,
     0x0c05538d556f9c0956ded83af3955f88,
     0x06e2c966cad78ee42bafac1d596acf84,
     0x03000000000000000000000000000000,
     0x001805c9337242481b7dd81dccfa4130,
     0x0a5366a5c5d136bb713a5935c36014e7]"

definition mx238by776_part4 :: "block list" where
  "mx238by776_part4 =
    [0x8dca4b636cf6a374f36a4781280f9a55,
     0xd787992dc6a92795cf82501eb4eb6f8e,
     0xb25a4dd24eaa5f84e13ce8179f9ce4f5,
     0xdb65ddd4ff880378112ebeb8092b778b,
     0x7b000000000000000000000000000000,
     0x000ce244f9392124eddeaceea6bdc018,
     0x05c9337242481b7dd81dccfa41300a53,
     0x66a5c5d136bb713a5935c36014e78dca,
     0x4b636cf6a374f36a4781280f9a55d787,
     0x992dc6a92795cf82501eb4eb6f8eb25a,
     0x4dd24eaa5f84e13ce8179f9ce4f5db65,
     0xdd000000000000000000000000000000,
     0x0006b1225cfcf01256af96b7937ea00c,
     0xe244f9392124eddeaceea6bdc01805c9,
     0x337242481b7dd81dccfa41300a5366a5,
     0xc5d136bb713a5935c36014e78dca4b63,
     0x6cf6a374f36a4781280f9a55d787992d,
     0xc6a92795cf82501eb4eb6f8eb25a4dd2,
     0x4e000000000000000000000000000000,
     0x000378112ebeb8092b778b7b693f9006,
     0xb1225cfcf01256af96b7937ea00ce244,
     0xf9392124eddeaceea6bdc01805c93372,
     0x42481b7dd81dccfa41300a5366a5c5d1,
     0x36bb713a5935c36014e78dca4b636cf6,
     0xa374f36a4781280f9a55d787992dc6a9,
     0x27000000000000000000000000000000,
     0x00e13ce8179f9ce4f5db65ddd4ff8803,
     0x78112ebeb8092b778b7b693f9006b122,
     0x5cfcf01256af96b7937ea00ce244f939,
     0x2124eddeaceea6bdc01805c933724248,
     0x1b7dd81dccfa41300a5366a5c5d136bb,
     0x713a5935c36014e78dca4b636cf6a374,
     0xf3000000000000000000000000000000,
     0x00501eb4eb6f8eb25a4dd24eaa5f84e1,
     0x3ce8179f9ce4f5db65ddd4ff88037811,
     0x2ebeb8092b778b7b693f9006b1225cfc,
     0xf01256af96b7937ea00ce244f9392124,
     0xeddeaceea6bdc01805c9337242481b7d,
     0xd81dccfa41300a5366a5c5d136bb713a,
     0x59000000000000000000000000000000,
     0x00280f9a55d787992dc6a92795cf8250,
     0x1eb4eb6f8eb25a4dd24eaa5f84e13ce8,
     0x179f9ce4f5db65ddd4ff880378112ebe,
     0xb8092b778b7b693f9006b1225cfcf012,
     0x56af96b7937ea00ce244f9392124edde,
     0xaceea6bdc01805c9337242481b7dd81d,
     0xcc000000000000000000000000000000,
     0x000cb111176f876cbbd8ee933f88e11e,
     0x9acac548edaf8bddaacf8114533339f0,
     0x09f54da9f3354118e2222e9f8e99f671,
     0x1da67e90033cb4554bd11bde967bd45f,
     0x8228e7667221122bdbd2276ac3300544,
     0x5cbe9cb22da33accbda00678e8ebd763,
     0x36000000000000000000000000000000,
     0x000678e8ebd763367dacb769ff84500f,
     0x8da542245677654e9547600ac9f9fcb8,
     0xe45ac67459fac00cb111176f876cbbd8,
     0xee933f88e11e9acac548edaf8bddaacf,
     0x8114533339f009f54da9f3354118e222,
     0x2e9f8e99f6711da67e90033cb4554bd1,
     0x1b000000000000000000000000000000,
     0x00033cb4554bd11bde967bd45f8228e7,
     0x667221122bdbd2276ac33005445cbe9c,
     0xb22da33accbda00678e8ebd763367dac,
     0xb769ff84500f8da542245677654e9547,
     0x600ac9f9fcb8e45ac67459fac00cb111,
     0x176f876cbbd8ee933f88e11e9acac548,
     0xed000000000000000000000000000000,
     0x00e11e9acac548edaf8bddaacf811453,
     0x3339f009f54da9f3354118e2222e9f8e,
     0x99f6711da67e90033cb4554bd11bde96,
     0x7bd45f8228e7667221122bdbd2276ac3,
     0x3005445cbe9cb22da33accbda00678e8,
     0xebd763367dacb769ff84500f8da54224,
     0x56000000000000000000000000000000,
     0x00500f8da542245677654e9547600ac9,
     0xf9fcb8e45ac67459fac00cb111176f87,
     0x6cbbd8ee933f88e11e9acac548edaf8b,
     0xddaacf8114533339f009f54da9f33541,
     0x18e2222e9f8e99f6711da67e90033cb4,
     0x554bd11bde967bd45f8228e766722112,
     0x2b000000000000000000000000000000,
     0x0028e7667221122bdbd2276ac3300544,
     0x5cbe9cb22da33accbda00678e8ebd763,
     0x367dacb769ff84500f8da54224567765,
     0x4e9547600ac9f9fcb8e45ac67459fac0,
     0x0cb111176f876cbbd8ee933f88e11e9a,
     0xcac548edaf8bddaacf8114533339f009,
     0xf5000000000000000000000000000000,
     0x0014533339f009f54da9f3354118e222,
     0x2e9f8e99f6711da67e90033cb4554bd1,
     0x1bde967bd45f8228e7667221122bdbd2,
     0x276ac33005445cbe9cb22da33accbda0,
     0x0678e8ebd763367dacb769ff84500f8d,
     0xa542245677654e9547600ac9f9fcb8e4,
     0x5a000000000000000000000000000000,
     0x00063c9aa521095aa31d93ff8214c95c,
     0x9f8736de8b4e6a410c78b4ca4212f5c6,
     0x3aa63f842853f9be8e6c7d96dd95c318,
     0xb1e855c5242b4d74cc7e8850e733fc9c,
     0x99bbac7baa4730e211eb4b4856dba959,
     0xbd90e10f6639b8b2f6d8b7d4cf600522,
     0x17000000000000000000000000000000,
     0x00031e8d72f0e42d71ee695f810a442e,
     0x6f631baf652735c0063c9aa521095aa3,
     0x1d93ff8214c95c9f8736de8b4e6a410c,
     0x78b4ca4212f5c63aa63f842853f9be8e,
     0x6c7d96dd95c318b1e855c5242b4d74cc,
     0x7e8850e733fc9c99bbac7baa4730e211,
     0xeb000000000000000000000000000000,
     0x00e10f6639b8b2f6d8b7d4cf60052217,
     0xd7d1ed77d2f3faa0031e8d72f0e42d71,
     0xee695f810a442e6f631baf652735c006,
     0x3c9aa521095aa31d93ff8214c95c9f87,
     0x36de8b4e6a410c78b4ca4212f5c63aa6,
     0x3f842853f9be8e6c7d96dd95c318b1e8,
     0x55000000000000000000000000000000,
     0x0050e733fc9c99bbac7baa4730e211eb,
     0x4b4856dba959bd90e10f6639b8b2f6d8,
     0xb7d4cf60052217d7d1ed77d2f3faa003,
     0x1e8d72f0e42d71ee695f810a442e6f63,
     0x1baf652735c0063c9aa521095aa31d93,
     0xff8214c95c9f8736de8b4e6a410c78b4,
     0xca000000000000000000000000000000,
     0x002853f9be8e6c7d96dd95c318b1e855,
     0xc5242b4d74cc7e8850e733fc9c99bbac,
     0x7baa4730e211eb4b4856dba959bd90e1,
     0x0f6639b8b2f6d8b7d4cf60052217d7d1,
     0xed77d2f3faa0031e8d72f0e42d71ee69,
     0x5f810a442e6f631baf652735c0063c9a,
     0xa5000000000000000000000000000000,
     0x0014c95c9f8736de8b4e6a410c78b4ca,
     0x4212f5c63aa63f842853f9be8e6c7d96,
     0xdd95c318b1e855c5242b4d74cc7e8850,
     0xe733fc9c99bbac7baa4730e211eb4b48,
     0x56dba959bd90e10f6639b8b2f6d8b7d4,
     0xcf60052217d7d1ed77d2f3faa0031e8d,
     0x72000000000000000000000000000000,
     0x000a442e6f631baf652735c0063c9aa5,
     0x21095aa31d93ff8214c95c9f8736de8b,
     0x4e6a410c78b4ca4212f5c63aa63f8428,
     0x53f9be8e6c7d96dd95c318b1e855c524,
     0x2b4d74cc7e8850e733fc9c99bbac7baa,
     0x4730e211eb4b4856dba959bd90e10f66,
     0x39000000000000000000000000000000,
     0x00030f33be871b77a9cc3f820a22ebc5,
     0x125a71b7aac30c3c8d399c6cde65f3bd,
     0x8828c92ed7482bc61d69cf30b1b4a5f0]"

definition mx238by776_part5 :: "block list" where
  "mx238by776_part5 =
    [0xb2bb964e35a0e1e7f99f63eddb74a6ff,
     0x8105115542092dd87b9541061e66fc8e,
     0x36afd2597e841444174b24f5a3eed447,
     0x18000000000000000000000000000000,
     0x00e1e7f99f63eddb74a6ff8105115542,
     0x092dd87b9541061e66fc8e36afd2597e,
     0x841444174b24f5a3eed44718789a72b8,
     0x997d8b27fa9050535c6fd1564d3a935f,
     0x60e2e8ca21e4f6acdd6ac0030f33be87,
     0x1b77a9cc3f820a22ebc5125a71b7aac3,
     0x0c000000000000000000000000000000,
     0x0050535c6fd1564d3a935f60e2e8ca21,
     0xe4f6acdd6ac0030f33be871b77a9cc3f,
     0x820a22ebc5125a71b7aac30c3c8d399c,
     0x6cde65f3bd8828c92ed7482bc61d69cf,
     0x30b1b4a5f0b2bb964e35a0e1e7f99f63,
     0xeddb74a6ff8105115542092dd87b9541,
     0x06000000000000000000000000000000,
     0x0028c92ed7482bc61d69cf30b1b4a5f0,
     0xb2bb964e35a0e1e7f99f63eddb74a6ff,
     0x8105115542092dd87b9541061e66fc8e,
     0x36afd2597e841444174b24f5a3eed447,
     0x18789a72b8997d8b27fa9050535c6fd1,
     0x564d3a935f60e2e8ca21e4f6acdd6ac0,
     0x03000000000000000000000000000000,
     0x001444174b24f5a3eed44718789a72b8,
     0x997d8b27fa9050535c6fd1564d3a935f,
     0x60e2e8ca21e4f6acdd6ac0030f33be87,
     0x1b77a9cc3f820a22ebc5125a71b7aac3,
     0x0c3c8d399c6cde65f3bd8828c92ed748,
     0x2bc61d69cf30b1b4a5f0b2bb964e35a0,
     0xe1000000000000000000000000000000,
     0x000a22ebc5125a71b7aac30c3c8d399c,
     0x6cde65f3bd8828c92ed7482bc61d69cf,
     0x30b1b4a5f0b2bb964e35a0e1e7f99f63,
     0xeddb74a6ff8105115542092dd87b9541,
     0x061e66fc8e36afd2597e841444174b24,
     0xf5a3eed44718789a72b8997d8b27fa90,
     0x50000000000000000000000000000000,
     0x0005115542092dd87b9541061e66fc8e,
     0x36afd2597e841444174b24f5a3eed447,
     0x18789a72b8997d8b27fa9050535c6fd1,
     0x564d3a935f60e2e8ca21e4f6acdd6ac0,
     0x030f33be871b77a9cc3f820a22ebc512,
     0x5a71b7aac30c3c8d399c6cde65f3bd88,
     0x28000000000000000000000000000000,
     0x00e1532e4b122dac4efa8814225521b2,
     0x7d65593f81e2b4729c36777493cf183c,
     0x66be6356c6eeaa4103e75cd7245ad8dd,
     0x35902844eb42e4bb8bf37e8205e8a5b8,
     0x6cafa9a65f30788dfc87ed4d1dd4c306,
     0x0ff96f48f5717b6aa050c917c509f696,
     0x27000000000000000000000000000000,
     0x0050c917c509f69627bd840a11caf099,
     0xded2ccff60b19a398e1bdb3a69470c1e,
     0x339fd12ba3b795c0e1532e4b122dac4e,
     0xfa8814225521b27d65593f81e2b4729c,
     0x36777493cf183c66be6356c6eeaa4103,
     0xe75cd7245ad8dd35902844eb42e4bb8b,
     0xf3000000000000000000000000000000,
     0x002844eb42e4bb8bf37e8205e8a5b86c,
     0xafa9a65f30788dfc87ed4d1dd4c3060f,
     0xf96f48f5717b6aa050c917c509f69627,
     0xbd840a11caf099ded2ccff60b19a398e,
     0x1bdb3a69470c1e339fd12ba3b795c0e1,
     0x532e4b122dac4efa8814225521b27d65,
     0x59000000000000000000000000000000,
     0x0014225521b27d65593f81e2b4729c36,
     0x777493cf183c66be6356c6eeaa4103e7,
     0x5cd7245ad8dd35902844eb42e4bb8bf3,
     0x7e8205e8a5b86cafa9a65f30788dfc87,
     0xed4d1dd4c3060ff96f48f5717b6aa050,
     0xc917c509f69627bd840a11caf099ded2,
     0xcc000000000000000000000000000000,
     0x000a11caf099ded2ccff60b19a398e1b,
     0xdb3a69470c1e339fd12ba3b795c0e153,
     0x2e4b122dac4efa8814225521b27d6559,
     0x3f81e2b4729c36777493cf183c66be63,
     0x56c6eeaa4103e75cd7245ad8dd359028,
     0x44eb42e4bb8bf37e8205e8a5b86cafa9,
     0xa6000000000000000000000000000000,
     0x0005e8a5b86cafa9a65f30788dfc87ed,
     0x4d1dd4c3060ff96f48f5717b6aa050c9,
     0x17c509f69627bd840a11caf099ded2cc,
     0xff60b19a398e1bdb3a69470c1e339fd1,
     0x2ba3b795c0e1532e4b122dac4efa8814,
     0x225521b27d65593f81e2b4729c367774,
     0x93000000000000000000000000000000,
     0x00e2b4729c36777493cf183c66be6356,
     0xc6eeaa4103e75cd7245ad8dd35902844,
     0xeb42e4bb8bf37e8205e8a5b86cafa9a6,
     0x5f30788dfc87ed4d1dd4c3060ff96f48,
     0xf5717b6aa050c917c509f69627bd840a,
     0x11caf099ded2ccff60b19a398e1bdb3a,
     0x69000000000000000000000000000000,
     0x00504455f06c773ad441e1c9eb2199af,
     0x7469c303531742b2dea9934706e72ec5,
     0xe47dd2a6cf0c0f5c4b09bb65cc5f181e,
     0xf9d712f68b59ff303c336f242d96f33f,
     0x6078669f485aac277e81b18dbed1f5d8,
     0x4ebd82e29afc632b71ddfa8405b43987,
     0x56000000000000000000000000000000,
     0x002822cab836db1daac0504455f06c77,
     0x3ad441e1c9eb2199af7469c303531742,
     0xb2dea9934706e72ec5e47dd2a6cf0c0f,
     0x5c4b09bb65cc5f181ef9d712f68b59ff,
     0x303c336f242d96f33f6078669f485aac,
     0x277e81b18dbed1f5d84ebd82e29afc63,
     0x2b000000000000000000000000000000,
     0x001411a59c1b4dee95a02822cab836db,
     0x1daac0504455f06c773ad441e1c9eb21,
     0x99af7469c303531742b2dea9934706e7,
     0x2ec5e47dd2a6cf0c0f5c4b09bb65cc5f,
     0x181ef9d712f68b59ff303c336f242d96,
     0xf33f6078669f485aac277e81b18dbed1,
     0xf5000000000000000000000000000000,
     0x000ae8728eedc6b76a901411a59c1b4d,
     0xee95a02822cab836db1daac0504455f0,
     0x6c773ad441e1c9eb2199af7469c30353,
     0x1742b2dea9934706e72ec5e47dd2a6cf,
     0x0c0f5c4b09bb65cc5f181ef9d712f68b,
     0x59ff303c336f242d96f33f6078669f48,
     0x5a000000000000000000000000000000,
     0x0005b4398756a37b35880ae8728eedc6,
     0xb76a901411a59c1b4dee95a02822cab8,
     0x36db1daac0504455f06c773ad441e1c9,
     0xeb2199af7469c303531742b2dea99347,
     0x06e72ec5e47dd2a6cf0c0f5c4b09bb65,
     0xcc5f181ef9d712f68b59ff303c336f24,
     0x2d000000000000000000000000000000,
     0x00e29afc632b71ddfa8405b4398756a3,
     0x7b35880ae8728eedc6b76a901411a59c,
     0x1b4dee95a02822cab836db1daac05044,
     0x55f06c773ad441e1c9eb2199af7469c3,
     0x03531742b2dea9934706e72ec5e47dd2,
     0xa6cf0c0f5c4b09bb65cc5f181ef9d712,
     0xf6000000000000000000000000000000,
     0x00b18dbed1f5d84ebd82e29afc632b71,
     0xddfa8405b4398756a37b35880ae8728e,
     0xedc6b76a901411a59c1b4dee95a02822,
     0xcab836db1daac0504455f06c773ad441,
     0xe1c9eb2199af7469c303531742b2dea9,
     0x934706e72ec5e47dd2a6cf0c0f5c4b09,
     0xbb000000000000000000000000000000,
     0x00281172872bd8273f301e5cc5b2af3a,
     0xaaa014e83963f5acf3ff180f2e429977,
     0x1d95900ab4fcd15a96595f0ce717216c,
     0xdbee6a88059abe482d8bcccf0653ebf0]"

definition mx238by776_part6 :: "block list" where
  "mx238by776_part6 =
    [0x364db73584e28d9f24f665a64703c955,
     0xb81bc67bfa82b1666f12bbd293c3e144,
     0xca000000000000000000000000000000,
     0x0014e83963f5acf3ff180f2e4299771d,
     0x95900ab4fcd15a96595f0ce717216cdb,
     0xee6a88059abe482d8bcccf0653ebf036,
     0x4db73584e28d9f24f665a64703c955b8,
     0x1bc67bfa82b1666f12bbd293c3e144ca,
     0x9ceda3ddbd817833d7097da969415022,
     0xa5000000000000000000000000000000,
     0x000ab4fcd15a96595f0ce717216cdbee,
     0x6a88059abe482d8bcccf0653ebf0364d,
     0xb73584e28d9f24f665a64703c955b81b,
     0xc67bfa82b1666f12bbd293c3e144ca9c,
     0xeda3ddbd817833d7097da969415022a5,
     0x8e56714e7e603cf94be4de74d4c02811,
     0x72000000000000000000000000000000,
     0x00059abe482d8bcccf0653ebf0364db7,
     0x3584e28d9f24f665a64703c955b81bc6,
     0x7bfa82b1666f12bbd293c3e144ca9ced,
     0xa3ddbd817833d7097da969415022a58e,
     0x56714e7e603cf94be4de74d4c0281172,
     0x872bd8273f301e5cc5b2af3aaaa014e8,
     0x39000000000000000000000000000000,
     0x00e28d9f24f665a64703c955b81bc67b,
     0xfa82b1666f12bbd293c3e144ca9ceda3,
     0xddbd817833d7097da969415022a58e56,
     0x714e7e603cf94be4de74d4c028117287,
     0x2bd8273f301e5cc5b2af3aaaa014e839,
     0x63f5acf3ff180f2e4299771d95900ab4,
     0xfc000000000000000000000000000000,
     0x00b1666f12bbd293c3e144ca9ceda3dd,
     0xbd817833d7097da969415022a58e5671,
     0x4e7e603cf94be4de74d4c0281172872b,
     0xd8273f301e5cc5b2af3aaaa014e83963,
     0xf5acf3ff180f2e4299771d95900ab4fc,
     0xd15a96595f0ce717216cdbee6a88059a,
     0xbe000000000000000000000000000000,
     0x007833d7097da969415022a58e56714e,
     0x7e603cf94be4de74d4c0281172872bd8,
     0x273f301e5cc5b2af3aaaa014e83963f5,
     0xacf3ff180f2e4299771d95900ab4fcd1,
     0x5a96595f0ce717216cdbee6a88059abe,
     0x482d8bcccf0653ebf0364db73584e28d,
     0x9f000000000000000000000000000000,
     0x0014b4be24bba9d4a00a9a9f127d74aa,
     0x90058d6f09de3a9588e266d7e4af1d6a,
     0x84b1334bb277ee358278f9c599dbb7fa,
     0x813c5c426c4d7bbd601e2e2136c6dd7e,
     0x300f17f01ba34e3f18e7ebb8ed7127ff,
     0x0c53559c56d8f35f06c9ca8e2bac59cf,
     0x03000000000000000000000000000000,
     0x000a9a9f127d74aa90058d6f09de3a95,
     0x88e266d7e4af1d6a84b1334bb277ee35,
     0x8278f9c599dbb7fa813c5c426c4d7bbd,
     0x601e2e2136c6dd7e300f17f01ba34e3f,
     0x18e7ebb8ed7127ff0c53559c56d8f35f,
     0x06c9ca8e2bac59cf0344a587f596cc47,
     0xe1000000000000000000000000000000,
     0x00058d6f09de3a9588e266d7e4af1d6a,
     0x84b1334bb277ee358278f9c599dbb7fa,
     0x813c5c426c4d7bbd601e2e2136c6dd7e,
     0x300f17f01ba34e3f18e7ebb8ed7127ff,
     0x0c53559c56d8f35f06c9ca8e2bac59cf,
     0x0344a587f596cc47e12272635a8ba6c3,
     0x50000000000000000000000000000000,
     0x00e266d7e4af1d6a84b1334bb277ee35,
     0x8278f9c599dbb7fa813c5c426c4d7bbd,
     0x601e2e2136c6dd7e300f17f01ba34e3f,
     0x18e7ebb8ed7127ff0c53559c56d8f35f,
     0x06c9ca8e2bac59cf0344a587f596cc47,
     0xe12272635a8ba6c3501139d12d659341,
     0x28000000000000000000000000000000,
     0x00b1334bb277ee358278f9c599dbb7fa,
     0x813c5c426c4d7bbd601e2e2136c6dd7e,
     0x300f17f01ba34e3f18e7ebb8ed7127ff,
     0x0c53559c56d8f35f06c9ca8e2bac59cf,
     0x0344a587f596cc47e12272635a8ba6c3,
     0x501139d12d65934128e8fc48f6d269c0,
     0x14000000000000000000000000000000,
     0x0078f9c599dbb7fa813c5c426c4d7bbd,
     0x601e2e2136c6dd7e300f17f01ba34e3f,
     0x18e7ebb8ed7127ff0c53559c56d8f35f,
     0x06c9ca8e2bac59cf0344a587f596cc47,
     0xe12272635a8ba6c3501139d12d659341,
     0x28e8fc48f6d269c014b4be24bba9d4a0,
     0x0a000000000000000000000000000000,
     0x003c5c426c4d7bbd601e2e2136c6dd7e,
     0x300f17f01ba34e3f18e7ebb8ed7127ff,
     0x0c53559c56d8f35f06c9ca8e2bac59cf,
     0x0344a587f596cc47e12272635a8ba6c3,
     0x501139d12d65934128e8fc48f6d269c0,
     0x14b4be24bba9d4a00a9a9f127d74aa90,
     0x05000000000000000000000000000000,
     0x000a8dd7b2db7b7e1853ca875a6569a0,
     0x05664b994ddd3f0cc9a5632dd2d490e2,
     0x33c56cc64eff064472d1f6a9aa88b1f9,
     0x4236a3275f03223948bb749584785c21,
     0x1b71f3cfe111fc247d3a6a823c2ef0ed,
     0xd8594750e8be12de1d35811e17b856ac,
     0xcc000000000000000000000000000000,
     0x0005664b994ddd3f0cc9a5632dd2d490,
     0xe233c56cc64eff064472d1f6a9aa88b1,
     0xf94236a3275f03223948bb749584785c,
     0x211b71f3cfe111fc247d3a6a823c2ef0,
     0xedd8594750e8be12de1d35811e17b856,
     0xacccc328b49f09afeefa600feb9c2b96,
     0xa6000000000000000000000000000000,
     0x00e233c56cc64eff064472d1f6a9aa88,
     0xb1f94236a3275f03223948bb74958478,
     0x5c211b71f3cfe111fc247d3a6a823c2e,
     0xf0edd8594750e8be12de1d35811e17b8,
     0x56acccc328b49f09afeefa600feb9c2b,
     0x96a641149a6fe477b7bd30e7558ef58b,
     0x93000000000000000000000000000000,
     0x00b1f94236a3275f03223948bb749584,
     0x785c211b71f3cfe111fc247d3a6a823c,
     0x2ef0edd8594750e8be12de1d35811e17,
     0xb856acccc328b49f09afeefa600feb9c,
     0x2b96a641149a6fe477b7bd30e7558ef5,
     0x8b93c00a8dd7b2db7b7e1853ca875a65,
     0x69000000000000000000000000000000,
     0x00785c211b71f3cfe111fc247d3a6a82,
     0x3c2ef0edd8594750e8be12de1d35811e,
     0x17b856acccc328b49f09afeefa600feb,
     0x9c2b96a641149a6fe477b7bd30e7558e,
     0xf58b93c00a8dd7b2db7b7e1853ca875a,
     0x6569a005664b994ddd3f0cc9a5632dd2,
     0xd4000000000000000000000000000000,
     0x003c2ef0edd8594750e8be12de1d3581,
     0x1e17b856acccc328b49f09afeefa600f,
     0xeb9c2b96a641149a6fe477b7bd30e755,
     0x8ef58b93c00a8dd7b2db7b7e1853ca87,
     0x5a6569a005664b994ddd3f0cc9a5632d,
     0xd2d490e233c56cc64eff064472d1f6a9,
     0xaa000000000000000000000000000000,
     0x001e17b856acccc328b49f09afeefa60,
     0x0feb9c2b96a641149a6fe477b7bd30e7,
     0x558ef58b93c00a8dd7b2db7b7e1853ca,
     0x875a6569a005664b994ddd3f0cc9a563,
     0x2dd2d490e233c56cc64eff064472d1f6,
     0xa9aa88b1f94236a3275f03223948bb74,
     0x95000000000000000000000000000000,
     0x000533421bd8cc410a66c5367159c314,
     0x8d4b6ca3f347289ad799c627cf50b46f,
     0xb24d4e5fe1e89fe4dbddff0311be0977,
     0x7b3f0622fc12afb77e0c443924deeebd,
     0x18c972487d1dfa3053a5d1bb3a3560e7]"

definition mx238by776_part7 :: "block list" where
  "mx238by776_part7 =
    [0xca63f6746a810f55872da995821eeb8e,
     0x5a000000000000000000000000000000,
     0x00e2f921edaca6c00533421bd8cc410a,
     0x66c5367159c3148d4b6ca3f347289ad7,
     0x99c627cf50b46fb24d4e5fe1e89fe4db,
     0xddff0311be09777b3f0622fc12afb77e,
     0x0c443924deeebd18c972487d1dfa3053,
     0xa5d1bb3a3560e7ca63f6746a810f5587,
     0x2d000000000000000000000000000000,
     0x00b15cf0569693a0e2f921edaca6c005,
     0x33421bd8cc410a66c5367159c3148d4b,
     0x6ca3f347289ad799c627cf50b46fb24d,
     0x4e5fe1e89fe4dbddff0311be09777b3f,
     0x0622fc12afb77e0c443924deeebd18c9,
     0x72487d1dfa3053a5d1bb3a3560e7ca63,
     0xf6000000000000000000000000000000,
     0x00782eb82b8b6990b15cf0569693a0e2,
     0xf921edaca6c00533421bd8cc410a66c5,
     0x367159c3148d4b6ca3f347289ad799c6,
     0x27cf50b46fb24d4e5fe1e89fe4dbddff,
     0x0311be09777b3f0622fc12afb77e0c44,
     0x3924deeebd18c972487d1dfa3053a5d1,
     0xbb000000000000000000000000000000,
     0x003c179cf565d488782eb82b8b6990b1,
     0x5cf0569693a0e2f921edaca6c0053342,
     0x1bd8cc410a66c5367159c3148d4b6ca3,
     0xf347289ad799c627cf50b46fb24d4e5f,
     0xe1e89fe4dbddff0311be09777b3f0622,
     0xfc12afb77e0c443924deeebd18c97248,
     0x7d000000000000000000000000000000,
     0x001eeb8e5ad2aa843c179cf565d48878,
     0x2eb82b8b6990b15cf0569693a0e2f921,
     0xedaca6c00533421bd8cc410a66c53671,
     0x59c3148d4b6ca3f347289ad799c627cf,
     0x50b46fb24d4e5fe1e89fe4dbddff0311,
     0xbe09777b3f0622fc12afb77e0c443924,
     0xde000000000000000000000000000000,
     0x000f55872da995821eeb8e5ad2aa843c,
     0x179cf565d488782eb82b8b6990b15cf0,
     0x569693a0e2f921edaca6c00533421bd8,
     0xcc410a66c5367159c3148d4b6ca3f347,
     0x289ad799c627cf50b46fb24d4e5fe1e8,
     0x9fe4dbddff0311be09777b3f0622fc12,
     0xaf000000000000000000000000000000,
     0x00e25cb8f5d29581e7a548deb73f03e8,
     0x6f99a3594105f9f02b65aa820fcad17d,
     0xee7e06119fb2c6f3c30a3321568bd484,
     0x1e5563bb1dbd0c22bee44d2747146642,
     0xed9669883ceb87f63afa1844fc09db4e,
     0xcf288dc51bac939078178e2d743530c9,
     0x39000000000000000000000000000000,
     0x00b12e9c5aa96a60537224af7bffe1b4,
     0xd76c71ccc0e25cb8f5d29581e7a548de,
     0xb73f03e86f99a3594105f9f02b65aa82,
     0x0fcad17dee7e06119fb2c6f3c30a3321,
     0x568bd4841e5563bb1dbd0c22bee44d27,
     0x47146642ed9669883ceb87f63afa1844,
     0xfc000000000000000000000000000000,
     0x0078178e2d743530c9391277dd5f509a,
     0x4b36d8a6a0b12e9c5aa96a60537224af,
     0x7bffe1b4d76c71ccc0e25cb8f5d29581,
     0xe7a548deb73f03e86f99a3594105f9f0,
     0x2b65aa820fcad17dee7e06119fb2c6f3,
     0xc30a3321568bd4841e5563bb1dbd0c22,
     0xbe000000000000000000000000000000,
     0x003ceb87f63afa1844fc09db4ecf288d,
     0xc51bac939078178e2d743530c9391277,
     0xdd5f509a4b36d8a6a0b12e9c5aa96a60,
     0x537224af7bffe1b4d76c71ccc0e25cb8,
     0xf5d29581e7a548deb73f03e86f99a359,
     0x4105f9f02b65aa820fcad17dee7e0611,
     0x9f000000000000000000000000000000,
     0x001e5563bb1dbd0c22bee44d27471466,
     0x42ed9669883ceb87f63afa1844fc09db,
     0x4ecf288dc51bac939078178e2d743530,
     0xc9391277dd5f509a4b36d8a6a0b12e9c,
     0x5aa96a60537224af7bffe1b4d76c71cc,
     0xc0e25cb8f5d29581e7a548deb73f03e8,
     0x6f000000000000000000000000000000,
     0x000fcad17dee7e06119fb2c6f3c30a33,
     0x21568bd4841e5563bb1dbd0c22bee44d,
     0x2747146642ed9669883ceb87f63afa18,
     0x44fc09db4ecf288dc51bac939078178e,
     0x2d743530c9391277dd5f509a4b36d8a6,
     0xa0b12e9c5aa96a60537224af7bffe1b4,
     0xd7000000000000000000000000000000,
     0x00e7a548deb73f03e86f99a3594105f9,
     0xf02b65aa820fcad17dee7e06119fb2c6,
     0xf3c30a3321568bd4841e5563bb1dbd0c,
     0x22bee44d2747146642ed9669883ceb87,
     0xf63afa1844fc09db4ecf288dc51bac93,
     0x9078178e2d743530c9391277dd5f509a,
     0x4b000000000000000000000000000000,
     0x00b11787bbee3fe19ac5ed8baa815339,
     0x094df341e22e8ef61d7e03b44b1b96d4,
     0x82e77212db27c3055c9c2d3abd06e8d7,
     0x36ac69840fa524774e470af9b85a74fa,
     0x0c116f6cd893881eca48afddcf1433f0,
     0xf5a93518229f9971a6903c55d1de7b5f,
     0x28000000000000000000000000000000,
     0x0078eb637db7ff508d4256659560c9fc,
     0xe4c659c0b11787bbee3fe19ac5ed8baa,
     0x815339094df341e22e8ef61d7e03b44b,
     0x1b96d482e77212db27c3055c9c2d3abd,
     0x06e8d736ac69840fa524774e470af9b8,
     0x5a74fa0c116f6cd893881eca48afddcf,
     0x14000000000000000000000000000000,
     0x003c55d1de7b5f2866212bd26a3044be,
     0xb2a3cca078eb637db7ff508d42566595,
     0x60c9fce4c659c0b11787bbee3fe19ac5,
     0xed8baa815339094df341e22e8ef61d7e,
     0x03b44b1b96d482e77212db27c3055c9c,
     0x2d3abd06e8d736ac69840fa524774e47,
     0x0a000000000000000000000000000000,
     0x001eca48afddcf1433f0f5a93518229f,
     0x9971a6903c55d1de7b5f2866212bd26a,
     0x3044beb2a3cca078eb637db7ff508d42,
     0x56659560c9fce4c659c0b11787bbee3f,
     0xe19ac5ed8baa815339094df341e22e8e,
     0xf61d7e03b44b1b96d482e77212db27c3,
     0x05000000000000000000000000000000,
     0x000fa524774e470af9b85a74fa0c116f,
     0x6cd893881eca48afddcf1433f0f5a935,
     0x18229f9971a6903c55d1de7b5f286621,
     0x2bd26a3044beb2a3cca078eb637db7ff,
     0x508d4256659560c9fce4c659c0b11787,
     0xbbee3fe19ac5ed8baa815339094df341,
     0xe2000000000000000000000000000000,
     0x00e77212db27c3055c9c2d3abd06e8d7,
     0x36ac69840fa524774e470af9b85a74fa,
     0x0c116f6cd893881eca48afddcf1433f0,
     0xf5a93518229f9971a6903c55d1de7b5f,
     0x2866212bd26a3044beb2a3cca078eb63,
     0x7db7ff508d4256659560c9fce4c659c0,
     0xb1000000000000000000000000000000,
     0x005339094df341e22e8ef61d7e03b44b,
     0x1b96d482e77212db27c3055c9c2d3abd,
     0x06e8d736ac69840fa524774e470af9b8,
     0x5a74fa0c116f6cd893881eca48afddcf,
     0x1433f0f5a93518229f9971a6903c55d1,
     0xde7b5f2866212bd26a3044beb2a3cca0,
     0x78000000000000000000000000000000,
     0x00785548772741b1ebd1af4ec3e21763,
     0xdedd47052e877d7bcf0a5c8ebbb75f14,
     0xf99cf6eeff2833b82d1d3f5066f05a3a,
     0x7ee18d21f574bd039a422ba9fa06b4c5,
     0x56d2350ce84bed656a1811d71b8b9530,
     0x226f3696aa60449f6cacd481c9be99d8]"

definition mx238by776_part8 :: "block list" where
  "mx238by776_part8 =
    [0x69000000000000000000000000000000,
     0x003cca24dbf3c0785548772741b1ebd1,
     0xaf4ec3e21763dedd47052e877d7bcf0a,
     0x5c8ebbb75f14f99cf6eeff2833b82d1d,
     0x3f5066f05a3a7ee18d21f574bd039a42,
     0x2ba9fa06b4c556d2350ce84bed656a18,
     0x11d71b8b9530226f3696aa60449f6cac,
     0xd4000000000000000000000000000000,
     0x001ea5124d59a03cca24dbf3c0785548,
     0x772741b1ebd1af4ec3e21763dedd4705,
     0x2e877d7bcf0a5c8ebbb75f14f99cf6ee,
     0xff2833b82d1d3f5066f05a3a7ee18d21,
     0xf574bd039a422ba9fa06b4c556d2350c,
     0xe84bed656a1811d71b8b9530226f3696,
     0xaa000000000000000000000000000000,
     0x000f7209c6cc901ea5124d59a03cca24,
     0xdbf3c0785548772741b1ebd1af4ec3e2,
     0x1763dedd47052e877d7bcf0a5c8ebbb7,
     0x5f14f99cf6eeff2833b82d1d3f5066f0,
     0x5a3a7ee18d21f574bd039a422ba9fa06,
     0xb4c556d2350ce84bed656a1811d71b8b,
     0x95000000000000000000000000000000,
     0x00e739e4a3a6880f7209c6cc901ea512,
     0x4d59a03cca24dbf3c0785548772741b1,
     0xebd1af4ec3e21763dedd47052e877d7b,
     0xcf0a5c8ebbb75f14f99cf6eeff2833b8,
     0x2d1d3f5066f05a3a7ee18d21f574bd03,
     0x9a422ba9fa06b4c556d2350ce84bed65,
     0x6a000000000000000000000000000000,
     0x0053fcb2719384e739e4a3a6880f7209,
     0xc6cc901ea5124d59a03cca24dbf3c078,
     0x5548772741b1ebd1af4ec3e21763dedd,
     0x47052e877d7bcf0a5c8ebbb75f14f99c,
     0xf6eeff2833b82d1d3f5066f05a3a7ee1,
     0x8d21f574bd039a422ba9fa06b4c556d2,
     0x35000000000000000000000000000000,
     0x00c9be99d8698253fcb2719384e739e4,
     0xa3a6880f7209c6cc901ea5124d59a03c,
     0xca24dbf3c0785548772741b1ebd1af4e,
     0xc3e21763dedd47052e877d7bcf0a5c8e,
     0xbbb75f14f99cf6eeff2833b82d1d3f50,
     0x66f05a3a7ee18d21f574bd039a422ba9,
     0xfa000000000000000000000000000000,
     0x003ca509a39382c99f368b6a0cb442f5,
     0x3a3f28f98e7dddc3b155244dcc88e7fc,
     0x99acaa30114b56a9bde166b8f6b7cf05,
     0x17d177f3a01e72e4716981446f1b6535,
     0x069a215a1dff145c87de4e4178ca12c6,
     0xa68453be6c969518e8c52b747e50339c,
     0xbb000000000000000000000000000000,
     0x001e72e4716981446f1b6535069a215a,
     0x1dff145c87de4e4178ca12c6a68453be,
     0x6c969518e8c52b747e50339cbb7b47e2,
     0xeb48db59900f39b2d8d46022d7edd2fa,
     0x038df02dee5f0a2e63af27c03ca509a3,
     0x9382c99f368b6a0cb442f53a3f28f98e,
     0x7d000000000000000000000000000000,
     0x000f39b2d8d46022d7edd2fa038df02d,
     0xee5f0a2e63af27c03ca509a39382c99f,
     0x368b6a0cb442f53a3f28f98e7dddc3b1,
     0x55244dcc88e7fc99acaa30114b56a9bd,
     0xe166b8f6b7cf0517d177f3a01e72e471,
     0x6981446f1b6535069a215a1dff145c87,
     0xde000000000000000000000000000000,
     0x00e7fc99acaa30114b56a9bde166b8f6,
     0xb7cf0517d177f3a01e72e4716981446f,
     0x1b6535069a215a1dff145c87de4e4178,
     0xca12c6a68453be6c969518e8c52b747e,
     0x50339cbb7b47e2eb48db59900f39b2d8,
     0xd46022d7edd2fa038df02dee5f0a2e63,
     0xaf000000000000000000000000000000,
     0x0053be6c969518e8c52b747e50339cbb,
     0x7b47e2eb48db59900f39b2d8d46022d7,
     0xedd2fa038df02dee5f0a2e63af27c03c,
     0xa509a39382c99f368b6a0cb442f53a3f,
     0x28f98e7dddc3b155244dcc88e7fc99ac,
     0xaa30114b56a9bde166b8f6b7cf0517d1,
     0x77000000000000000000000000000000,
     0x00c99f368b6a0cb442f53a3f28f98e7d,
     0xddc3b155244dcc88e7fc99acaa30114b,
     0x56a9bde166b8f6b7cf0517d177f3a01e,
     0x72e4716981446f1b6535069a215a1dff,
     0x145c87de4e4178ca12c6a68453be6c96,
     0x9518e8c52b747e50339cbb7b47e2eb48,
     0xdb000000000000000000000000000000,
     0x00446f1b6535069a215a1dff145c87de,
     0x4e4178ca12c6a68453be6c969518e8c5,
     0x2b747e50339cbb7b47e2eb48db59900f,
     0x39b2d8d46022d7edd2fa038df02dee5f,
     0x0a2e63af27c03ca509a39382c99f368b,
     0x6a0cb442f53a3f28f98e7dddc3b15524,
     0x4d000000000000000000000000000000,
     0x001e3999966a068db8bbdd413c72b2ac,
     0x950c9af0f67bc378a5e4d8aa18b4212d,
     0xb747b1ca0971d430e8425aeecfe25512,
     0xa3696011c5f51d5f05eb24c69381224b,
     0x2b3aff0a17484da68244d756743f142e,
     0xd1dbcc84c96feda97e285c6377598853,
     0x9f000000000000000000000000000000,
     0x000ffc6c8b3503669c7d4ec01e399996,
     0x6a068db8bbdd413c72b2ac950c9af0f6,
     0x7bc378a5e4d8aa18b4212db747b1ca09,
     0x71d430e8425aeecfe25512a3696011c5,
     0xf51d5f05eb24c69381224b2b3aff0a17,
     0x484da68244d756743f142ed1dbcc84c9,
     0x6f000000000000000000000000000000,
     0x00e7be3665fae1338ede27a00ffc6c8b,
     0x3503669c7d4ec01e3999966a068db8bb,
     0xdd413c72b2ac950c9af0f67bc378a5e4,
     0xd8aa18b4212db747b1ca0971d430e842,
     0x5aeecfe25512a3696011c5f51d5f05eb,
     0x24c69381224b2b3aff0a17484da68244,
     0xd7000000000000000000000000000000,
     0x00539f1bd2bd50f987aff390e7be3665,
     0xfae1338ede27a00ffc6c8b3503669c7d,
     0x4ec01e3999966a068db8bbdd413c72b2,
     0xac950c9af0f67bc378a5e4d8aa18b421,
     0x2db747b1ca0971d430e8425aeecfe255,
     0x12a3696011c5f51d5f05eb24c6938122,
     0x4b000000000000000000000000000000,
     0x00c96feda97e285c63775988539f1bd2,
     0xbd50f987aff390e7be3665fae1338ede,
     0x27a00ffc6c8b3503669c7d4ec01e3999,
     0x966a068db8bbdd413c72b2ac950c9af0,
     0xf67bc378a5e4d8aa18b4212db747b1ca,
     0x0971d430e8425aeecfe25512a3696011,
     0xc5000000000000000000000000000000,
     0x0044d756743f142ed1dbcc84c96feda9,
     0x7e285c63775988539f1bd2bd50f987af,
     0xf390e7be3665fae1338ede27a00ffc6c,
     0x8b3503669c7d4ec01e3999966a068db8,
     0xbbdd413c72b2ac950c9af0f67bc378a5,
     0xe4d8aa18b4212db747b1ca0971d430e8,
     0x42000000000000000000000000000000,
     0x00224b2b3aff0a17484da68244d75674,
     0x3f142ed1dbcc84c96feda97e285c6377,
     0x5988539f1bd2bd50f987aff390e7be36,
     0x65fae1338ede27a00ffc6c8b3503669c,
     0x7d4ec01e3999966a068db8bbdd413c72,
     0xb2ac950c9af0f67bc378a5e4d8aa18b4,
     0x21000000000000000000000000000000,
     0x000fbe1ba93f0aeb1271aa0c8d9cdef3,
     0x88c9d72b1dcfb1a5b29635e1f963dba6,
     0x8111422d7b411efc36d27e141724a3d4,
     0x189ab87d2790536f563a5fe2cae4ac6a,
     0x03338777cc8222c55ab7c33c396c65bd,
     0x282e48c66930b4f0bb4ea0e79fed74ff,
     0x05000000000000000000000000000000]"

definition mx238by776_part9 :: "block list" where
  "mx238by776_part9 =
    [0x00e79fed74ff055509d89506668eaf59,
     0x84444bf5ee477872998bfa505cd14d93,
     0x60e821f6ddc00fbe1ba93f0aeb1271aa,
     0x0c8d9cdef388c9d72b1dcfb1a5b29635,
     0xe1f963dba68111422d7b411efc36d27e,
     0x141724a3d4189ab87d2790536f563a5f,
     0xe2000000000000000000000000000000,
     0x00536f563a5fe2cae4ac6a03338777cc,
     0x8222c55ab7c33c396c65bd282e48c669,
     0x30b4f0bb4ea0e79fed74ff055509d895,
     0x06668eaf5984444bf5ee477872998bfa,
     0x505cd14d9360e821f6ddc00fbe1ba93f,
     0x0aeb1271aa0c8d9cdef388c9d72b1dcf,
     0xb1000000000000000000000000000000,
     0x00c9d72b1dcfb1a5b29635e1f963dba6,
     0x8111422d7b411efc36d27e141724a3d4,
     0x189ab87d2790536f563a5fe2cae4ac6a,
     0x03338777cc8222c55ab7c33c396c65bd,
     0x282e48c66930b4f0bb4ea0e79fed74ff,
     0x055509d89506668eaf5984444bf5ee47,
     0x78000000000000000000000000000000,
     0x00444bf5ee477872998bfa505cd14d93,
     0x60e821f6ddc00fbe1ba93f0aeb1271aa,
     0x0c8d9cdef388c9d72b1dcfb1a5b29635,
     0xe1f963dba68111422d7b411efc36d27e,
     0x141724a3d4189ab87d2790536f563a5f,
     0xe2cae4ac6a03338777cc8222c55ab7c3,
     0x3c000000000000000000000000000000,
     0x0022c55ab7c33c396c65bd282e48c669,
     0x30b4f0bb4ea0e79fed74ff055509d895,
     0x06668eaf5984444bf5ee477872998bfa,
     0x505cd14d9360e821f6ddc00fbe1ba93f,
     0x0aeb1271aa0c8d9cdef388c9d72b1dcf,
     0xb1a5b29635e1f963dba68111422d7b41,
     0x1e000000000000000000000000000000,
     0x0011422d7b411efc36d27e141724a3d4,
     0x189ab87d2790536f563a5fe2cae4ac6a,
     0x03338777cc8222c55ab7c33c396c65bd,
     0x282e48c66930b4f0bb4ea0e79fed74ff,
     0x055509d89506668eaf5984444bf5ee47,
     0x7872998bfa505cd14d9360e821f6ddc0,
     0x0f000000000000000000000000000000,
     0x00e76f2beec31ebeed3acf783936a9ff,
     0xe2a599657e0a55e496fa281712d86ae1,
     0x5c48a3aa0633634d69188d8e77a660b4,
     0xb8de59821121bb278844c52ddda053d7,
     0xf5b7410f9f561d473cfc1b745fb1726c,
     0xd23f05cab28bbd14eb09ac35502e2471,
     0x95000000000000000000000000000000,
     0x0053d7f5b7410f9f561d473cfc1b745f,
     0xb1726cd23f05cab28bbd14eb09ac3550,
     0x2e24719503f9d1c6d40c6687db93309a,
     0x9cafcc81e8f07df3842242f64e90c94b,
     0x5a7bc0e76f2beec31ebeed3acf783936,
     0xa9ffe2a599657e0a55e496fa281712d8,
     0x6a000000000000000000000000000000,
     0x00c94b5a7bc0e76f2beec31ebeed3acf,
     0x783936a9ffe2a599657e0a55e496fa28,
     0x1712d86ae15c48a3aa0633634d69188d,
     0x8e77a660b4b8de59821121bb278844c5,
     0x2ddda053d7f5b7410f9f561d473cfc1b,
     0x745fb1726cd23f05cab28bbd14eb09ac,
     0x35000000000000000000000000000000,
     0x0044c52ddda053d7f5b7410f9f561d47,
     0x3cfc1b745fb1726cd23f05cab28bbd14,
     0xeb09ac35502e24719503f9d1c6d40c66,
     0x87db93309a9cafcc81e8f07df3842242,
     0xf64e90c94b5a7bc0e76f2beec31ebeed,
     0x3acf783936a9ffe2a599657e0a55e496,
     0xfa000000000000000000000000000000,
     0x002242f64e90c94b5a7bc0e76f2beec3,
     0x1ebeed3acf783936a9ffe2a599657e0a,
     0x55e496fa281712d86ae15c48a3aa0633,
     0x634d69188d8e77a660b4b8de59821121,
     0xbb278844c52ddda053d7f5b7410f9f56,
     0x1d473cfc1b745fb1726cd23f05cab28b,
     0xbd000000000000000000000000000000,
     0x001121bb278844c52ddda053d7f5b741,
     0x0f9f561d473cfc1b745fb1726cd23f05,
     0xcab28bbd14eb09ac35502e24719503f9,
     0xd1c6d40c6687db93309a9cafcc81e8f0,
     0x7df3842242f64e90c94b5a7bc0e76f2b,
     0xeec31ebeed3acf783936a9ffe2a59965,
     0x7e000000000000000000000000000000,
     0x00e8f07df3842242f64e90c94b5a7bc0,
     0xe76f2beec31ebeed3acf783936a9ffe2,
     0xa599657e0a55e496fa281712d86ae15c,
     0x48a3aa0633634d69188d8e77a660b4b8,
     0xde59821121bb278844c52ddda053d7f5,
     0xb7410f9f561d473cfc1b745fb1726cd2,
     0x3f000000000000000000000000000000,
     0x00534b2d4e8822217d5981b49c779318,
     0x6663c6aa035c24d83528ebe48b7e05a5,
     0x6ca95f78fced1dc30f6ff57ba0c9c5f6,
     0x278411f0decc609a8edb690c33d1a395,
     0xe12e12acfa1455b2653fe2723674cf3c,
     0xbe56ee41e7d75add904442bbf382e8b8,
     0xaf000000000000000000000000000000,
     0x00c9c5f6278411f0decc609a8edb690c,
     0x33d1a395e12e12acfa1455b2653fe272,
     0x3674cf3cbe56ee41e7d75add904442bb,
     0xf382e8b8afa6308d874dd406f948716a,
     0x50170996bd0aca99d2ffb1391b3a471e,
     0x9f2bb7c0534b2d4e8822217d5981b49c,
     0x77000000000000000000000000000000,
     0x004442bbf382e8b8afa6308d874dd406,
     0xf948716a50170996bd0aca99d2ffb139,
     0x1b3a471e9f2bb7c0534b2d4e8822217d,
     0x5981b49c7793186663c6aa035c24d835,
     0x28ebe48b7e05a56ca95f78fced1dc30f,
     0x6ff57ba0c9c5f6278411f0decc609a8e,
     0xdb000000000000000000000000000000,
     0x0022217d5981b49c7793186663c6aa03,
     0x5c24d83528ebe48b7e05a56ca95f78fc,
     0xed1dc30f6ff57ba0c9c5f6278411f0de,
     0xcc609a8edb690c33d1a395e12e12acfa,
     0x1455b2653fe2723674cf3cbe56ee41e7,
     0xd75add904442bbf382e8b8afa6308d87,
     0x4d000000000000000000000000000000,
     0x0011f0decc609a8edb690c33d1a395e1,
     0x2e12acfa1455b2653fe2723674cf3cbe,
     0x56ee41e7d75add904442bbf382e8b8af,
     0xa6308d874dd406f948716a50170996bd,
     0x0aca99d2ffb1391b3a471e9f2bb7c053,
     0x4b2d4e8822217d5981b49c7793186663,
     0xc6000000000000000000000000000000,
     0x00e8b8afa6308d874dd406f948716a50,
     0x170996bd0aca99d2ffb1391b3a471e9f,
     0x2bb7c0534b2d4e8822217d5981b49c77,
     0x93186663c6aa035c24d83528ebe48b7e,
     0x05a56ca95f78fced1dc30f6ff57ba0c9,
     0xc5f6278411f0decc609a8edb690c33d1,
     0xa3000000000000000000000000000000,
     0x00b49c7793186663c6aa035c24d83528,
     0xebe48b7e05a56ca95f78fced1dc30f6f,
     0xf57ba0c9c5f6278411f0decc609a8edb,
     0x690c33d1a395e12e12acfa1455b2653f,
     0xe2723674cf3cbe56ee41e7d75add9044,
     0x42bbf382e8b8afa6308d874dd406f948,
     0x71000000000000000000000000000000,
     0x00c9427dcc3066d1713514ca6c74470f,
     0xd72d2782b48e4daae117e465ff78be2b,
     0x7b9022f0af930cf924acbd05721b1d41,
     0x53c5bb59608d63a36a285599a9cf1e6f,
     0x5a4e84e89cdbd4032e098b3fb1fc56b7,
     0xa04421dea6183348d8fa0aa5363ac3e7,
     0x4b000000000000000000000000000000,
     0x004421dea6183348d8fa0aa5363ac3e7]"

definition mx238by776_part10 :: "block list" where
  "mx238by776_part10 =
    [0x4bf6f3819a87c69550ebb2d25f3c9ff5,
     0xdd8811b87769065c12967ee239edeec0,
     0xc9427dcc3066d1713514ca6c74470fd7,
     0x2d2782b48e4daae117e465ff78be2b7b,
     0x9022f0af930cf924acbd05721b1d4153,
     0xc5000000000000000000000000000000,
     0x0022f0af930cf924acbd05721b1d4153,
     0xc5bb59608d63a36a285599a9cf1e6f5a,
     0x4e84e89cdbd4032e098b3fb1fc56b7a0,
     0x4421dea6183348d8fa0aa5363ac3e74b,
     0xf6f3819a87c69550ebb2d25f3c9ff5dd,
     0x8811b87769065c12967ee239edeec0c9,
     0x42000000000000000000000000000000,
     0x0011b87769065c12967ee239edeec0c9,
     0x427dcc3066d1713514ca6c74470fd72d,
     0x2782b48e4daae117e465ff78be2b7b90,
     0x22f0af930cf924acbd05721b1d4153c5,
     0xbb59608d63a36a285599a9cf1e6f5a4e,
     0x84e89cdbd4032e098b3fb1fc56b7a044,
     0x21000000000000000000000000000000,
     0x00e89cdbd4032e098b3fb1fc56b7a044,
     0x21dea6183348d8fa0aa5363ac3e74bf6,
     0xf3819a87c69550ebb2d25f3c9ff5dd88,
     0x11b87769065c12967ee239edeec0c942,
     0x7dcc3066d1713514ca6c74470fd72d27,
     0x82b48e4daae117e465ff78be2b7b9022,
     0xf0000000000000000000000000000000,
     0x00b48e4daae117e465ff78be2b7b9022,
     0xf0af930cf924acbd05721b1d4153c5bb,
     0x59608d63a36a285599a9cf1e6f5a4e84,
     0xe89cdbd4032e098b3fb1fc56b7a04421,
     0xdea6183348d8fa0aa5363ac3e74bf6f3,
     0x819a87c69550ebb2d25f3c9ff5dd8811,
     0xb8000000000000000000000000000000,
     0x009a87c69550ebb2d25f3c9ff5dd8811,
     0xb87769065c12967ee239edeec0c9427d,
     0xcc3066d1713514ca6c74470fd72d2782,
     0xb48e4daae117e465ff78be2b7b9022f0,
     0xaf930cf924acbd05721b1d4153c5bb59,
     0x608d63a36a285599a9cf1e6f5a4e84e8,
     0x9c000000000000000000000000000000,
     0x0044f077d4e1eb9974c35342de93062e,
     0xe4d2cf0f4bbbcc18f9128bff3c6f2df3,
     0x606648ac7eb1bef54e829a6371fa0539,
     0x567b88e88ec66a14a51beea022b8dbaa,
     0x50556c3a41c921af690317b2a947e7c5,
     0x7da60c5c09655f1ed7f659303324963f,
     0x78000000000000000000000000000000,
     0x0022b8dbaa50556c3a41c921af690317,
     0xb2a947e7c57da60c5c09655f1ed7f659,
     0x303324963f789f5a27818dd1d8bde2fc,
     0x2bdd84b487a3350a72edb790119c4d95,
     0x28ca361dc044f077d4e1eb9974c35342,
     0xde93062ee4d2cf0f4bbbcc18f9128bff,
     0x3c000000000000000000000000000000,
     0x00119c4d9528ca361dc044f077d4e1eb,
     0x9974c35342de93062ee4d2cf0f4bbbcc,
     0x18f9128bff3c6f2df3606648ac7eb1be,
     0xf54e829a6371fa0539567b88e88ec66a,
     0x14a51beea022b8dbaa50556c3a41c921,
     0xaf690317b2a947e7c57da60c5c09655f,
     0x1e000000000000000000000000000000,
     0x00e88ec66a14a51beea022b8dbaa5055,
     0x6c3a41c921af690317b2a947e7c57da6,
     0x0c5c09655f1ed7f659303324963f789f,
     0x5a27818dd1d8bde2fc2bdd84b487a335,
     0x0a72edb790119c4d9528ca361dc044f0,
     0x77d4e1eb9974c35342de93062ee4d2cf,
     0x0f000000000000000000000000000000,
     0x00b487a3350a72edb790119c4d9528ca,
     0x361dc044f077d4e1eb9974c35342de93,
     0x062ee4d2cf0f4bbbcc18f9128bff3c6f,
     0x2df3606648ac7eb1bef54e829a6371fa,
     0x0539567b88e88ec66a14a51beea022b8,
     0xdbaa50556c3a41c921af690317b2a947,
     0xe7000000000000000000000000000000,
     0x009a6371fa0539567b88e88ec66a14a5,
     0x1beea022b8dbaa50556c3a41c921af69,
     0x0317b2a947e7c57da60c5c09655f1ed7,
     0xf659303324963f789f5a27818dd1d8bd,
     0xe2fc2bdd84b487a3350a72edb790119c,
     0x4d9528ca361dc044f077d4e1eb9974c3,
     0x53000000000000000000000000000000,
     0x008dd1d8bde2fc2bdd84b487a3350a72,
     0xedb790119c4d9528ca361dc044f077d4,
     0xe1eb9974c35342de93062ee4d2cf0f4b,
     0xbbcc18f9128bff3c6f2df3606648ac7e,
     0xb1bef54e829a6371fa0539567b88e88e,
     0xc66a14a51beea022b8dbaa50556c3a41,
     0xc9000000000000000000000000000000,
     0x00229cc63505fcf52760331265cfe742,
     0xafd450ca1bb788b463d87e786ff6cc0c,
     0x2eb2744144b84d6a0a392b4e8166248b,
     0x5f0fc5de69e15536ee90e88771bdb19f,
     0x2d59185ce4a9c3c9f0db95147256dd82,
     0x8d4896ff1e4b7d9303eb6c1da0118ea3,
     0xfa000000000000000000000000000000,
     0x00118ea3fae2be5af330f909d2475321,
     0x77aa28a5ed7b849ad1ac3f3cd7bba606,
     0x17993ac0229cc63505fcf52760331265,
     0xcfe742afd450ca1bb788b463d87e786f,
     0xf6cc0c2eb2744144b84d6a0a392b4e81,
     0x66248b5f0fc5de69e15536ee90e88771,
     0xbd000000000000000000000000000000,
     0x00e88771bdb19f2d59185ce4a9c3c9f0,
     0xdb95147256dd828d4896ff1e4b7d9303,
     0xeb6c1da0118ea3fae2be5af330f909d2,
     0x47532177aa28a5ed7b849ad1ac3f3cd7,
     0xbba60617993ac0229cc63505fcf52760,
     0x331265cfe742afd450ca1bb788b463d8,
     0x7e000000000000000000000000000000,
     0x00b463d87e786ff6cc0c2eb2744144b8,
     0x4d6a0a392b4e8166248b5f0fc5de69e1,
     0x5536ee90e88771bdb19f2d59185ce4a9,
     0xc3c9f0db95147256dd828d4896ff1e4b,
     0x7d9303eb6c1da0118ea3fae2be5af330,
     0xf909d247532177aa28a5ed7b849ad1ac,
     0x3f000000000000000000000000000000,
     0x009ad1ac3f3cd7bba60617993ac0229c,
     0xc63505fcf52760331265cfe742afd450,
     0xca1bb788b463d87e786ff6cc0c2eb274,
     0x4144b84d6a0a392b4e8166248b5f0fc5,
     0xde69e15536ee90e88771bdb19f2d5918,
     0x5ce4a9c3c9f0db95147256dd828d4896,
     0xff000000000000000000000000000000,
     0x008d4896ff1e4b7d9303eb6c1da0118e,
     0xa3fae2be5af330f909d247532177aa28,
     0xa5ed7b849ad1ac3f3cd7bba60617993a,
     0xc0229cc63505fcf52760331265cfe742,
     0xafd450ca1bb788b463d87e786ff6cc0c,
     0x2eb2744144b84d6a0a392b4e8166248b,
     0x5f000000000000000000000000000000,
     0x0066248b5f0fc5de69e15536ee90e887,
     0x71bdb19f2d59185ce4a9c3c9f0db9514,
     0x7256dd828d4896ff1e4b7d9303eb6c1d,
     0xa0118ea3fae2be5af330f909d2475321,
     0x77aa28a5ed7b849ad1ac3f3cd7bba606,
     0x17993ac0229cc63505fcf52760331265,
     0xcf000000000000000000000000000000,
     0x001187d83f1ec5afaa1439f5f3182e99,
     0x1d90b4d1965fe721db6a05be2dcc06eb,
     0x36b7848d246547c9b8c6fab16fbb93e1,
     0xcaeddd813309a941228e717e3c4bded4,
     0x28722b27305cb23aa0e863acff0f4277,
     0x950afc5a590c176cee889a488bcf53f0,
     0x4d000000000000000000000000000000,
     0x00e863acff0f4277950afc5a590c176c,
     0xee889a488bcf53f04d35e29ff6a60355]"

definition mx238by776_part11 :: "block list" where
  "mx238by776_part11 =
    [0x1b7b826612d2c3449ca3bd78d77d6950,
     0xa5564e60f9e474c01187d83f1ec5afaa,
     0x1439f5f3182e991d90b4d1965fe721db,
     0x6a05be2dcc06eb36b7848d246547c9b8,
     0xc6000000000000000000000000000000,
     0x00b4d1965fe721db6a05be2dcc06eb36,
     0xb7848d246547c9b8c6fab16fbb93e1ca,
     0xeddd813309a941228e717e3c4bded428,
     0x722b27305cb23aa0e863acff0f427795,
     0x0afc5a590c176cee889a488bcf53f04d,
     0x35e29ff6a603551b7b826612d2c3449c,
     0xa3000000000000000000000000000000,
     0x009a488bcf53f04d35e29ff6a603551b,
     0x7b826612d2c3449ca3bd78d77d6950a5,
     0x564e60f9e474c01187d83f1ec5afaa14,
     0x39f5f3182e991d90b4d1965fe721db6a,
     0x05be2dcc06eb36b7848d246547c9b8c6,
     0xfab16fbb93e1caeddd813309a941228e,
     0x71000000000000000000000000000000,
     0x008d246547c9b8c6fab16fbb93e1caed,
     0xdd813309a941228e717e3c4bded42872,
     0x2b27305cb23aa0e863acff0f4277950a,
     0xfc5a590c176cee889a488bcf53f04d35,
     0xe29ff6a603551b7b826612d2c3449ca3,
     0xbd78d77d6950a5564e60f9e474c01187,
     0xd8000000000000000000000000000000,
     0x006612d2c3449ca3bd78d77d6950a556,
     0x4e60f9e474c01187d83f1ec5afaa1439,
     0xf5f3182e991d90b4d1965fe721db6a05,
     0xbe2dcc06eb36b7848d246547c9b8c6fa,
     0xb16fbb93e1caeddd813309a941228e71,
     0x7e3c4bded428722b27305cb23aa0e863,
     0xac000000000000000000000000000000,
     0x003309a941228e717e3c4bded428722b,
     0x27305cb23aa0e863acff0f4277950afc,
     0x5a590c176cee889a488bcf53f04d35e2,
     0x9ff6a603551b7b826612d2c3449ca3bd,
     0x78d77d6950a5564e60f9e474c01187d8,
     0x3f1ec5afaa1439f5f3182e991d90b4d1,
     0x96000000000000000000000000000000,
     0x00e8d18b47448ed8ffe7f0c6bd3cc577,
     0x6ae26f7dd414fc2da6e1a52bf30ceb1b,
     0xdd605c99ee84660974a0b44865c32287,
     0xac5f53b8a37e1e42db35b1d7deaa0abe,
     0xf6935072f5590655ed4e302e6cb78233,
     0xe43a909a24d241116396cfc99c713f0f,
     0x21000000000000000000000000000000,
     0x00b44865c32287ac5f53b8a37e1e42db,
     0x35b1d7deaa0abef6935072f5590655ed,
     0x4e302e6cb78233e43a909a24d2411163,
     0x96cfc99c713f0f214dfa784baf95059f,
     0xbb6928395acc03ca56271817367b81f9,
     0xb21d888d12a9c0e8d18b47448ed8ffe7,
     0xf0000000000000000000000000000000,
     0x009a24d241116396cfc99c713f0f214d,
     0xfa784baf95059fbb6928395acc03ca56,
     0x271817367b81f9b21d888d12a9c0e8d1,
     0x8b47448ed8ffe7f0c6bd3cc5776ae26f,
     0x7dd414fc2da6e1a52bf30ceb1bdd605c,
     0x99ee84660974a0b44865c32287ac5f53,
     0xb8000000000000000000000000000000,
     0x008d12a9c0e8d18b47448ed8ffe7f0c6,
     0xbd3cc5776ae26f7dd414fc2da6e1a52b,
     0xf30ceb1bdd605c99ee84660974a0b448,
     0x65c32287ac5f53b8a37e1e42db35b1d7,
     0xdeaa0abef6935072f5590655ed4e302e,
     0x6cb78233e43a909a24d241116396cfc9,
     0x9c000000000000000000000000000000,
     0x00660974a0b44865c32287ac5f53b8a3,
     0x7e1e42db35b1d7deaa0abef6935072f5,
     0x590655ed4e302e6cb78233e43a909a24,
     0xd241116396cfc99c713f0f214dfa784b,
     0xaf95059fbb6928395acc03ca56271817,
     0x367b81f9b21d888d12a9c0e8d18b4744,
     0x8e000000000000000000000000000000,
     0x0033e43a909a24d241116396cfc99c71,
     0x3f0f214dfa784baf95059fbb6928395a,
     0xcc03ca56271817367b81f9b21d888d12,
     0xa9c0e8d18b47448ed8ffe7f0c6bd3cc5,
     0x776ae26f7dd414fc2da6e1a52bf30ceb,
     0x1bdd605c99ee84660974a0b44865c322,
     0x87000000000000000000000000000000,
     0x00f9b21d888d12a9c0e8d18b47448ed8,
     0xffe7f0c6bd3cc5776ae26f7dd414fc2d,
     0xa6e1a52bf30ceb1bdd605c99ee846609,
     0x74a0b44865c32287ac5f53b8a37e1e42,
     0xdb35b1d7deaa0abef6935072f5590655,
     0xed4e302e6cb78233e43a909a24d24111,
     0x63000000000000000000000000000000,
     0x00b424a9a09a1274908d093a8866e41d,
     0x8433b2ee82f999b7815c6c7b602e36dd,
     0x30171b4e18ebed270c5556f306ca2b59,
     0x03a5f5cce1725aa650392d9328fcf669,
     0x14bebbd40a9f7daa056fde95e2d7af6a,
     0xb14b773578c5dbfa3c424dbd1e21c67e,
     0x0f000000000000000000000000000000,
     0x009a1274908d093a8866e41d8433b2ee,
     0x82f999b7815c6c7b602e36dd30171b4e,
     0x18ebed270c5556f306ca2b5903a5f5cc,
     0xe1725aa650392d9328fcf66914bebbd4,
     0x0a9f7daa056fde95e2d7af6ab14b7735,
     0x78c5dbfa3c424dbd1e21c67e0ff0a33f,
     0xe7000000000000000000000000000000,
     0x008d093a8866e41d8433b2ee82f999b7,
     0x815c6c7b602e36dd30171b4e18ebed27,
     0x0c5556f306ca2b5903a5f5cce1725aa6,
     0x50392d9328fcf66914bebbd40a9f7daa,
     0x056fde95e2d7af6ab14b773578c5dbfa,
     0x3c424dbd1e21c67e0ff0a33fe7b871ff,
     0x53000000000000000000000000000000,
     0x0066e41d8433b2ee82f999b7815c6c7b,
     0x602e36dd30171b4e18ebed270c5556f3,
     0x06ca2b5903a5f5cce1725aa650392d93,
     0x28fcf66914bebbd40a9f7daa056fde95,
     0xe2d7af6ab14b773578c5dbfa3c424dbd,
     0x1e21c67e0ff0a33fe7b871ff539cd85f,
     0xc9000000000000000000000000000000,
     0x0033b2ee82f999b7815c6c7b602e36dd,
     0x30171b4e18ebed270c5556f306ca2b59,
     0x03a5f5cce1725aa650392d9328fcf669,
     0x14bebbd40a9f7daa056fde95e2d7af6a,
     0xb14b773578c5dbfa3c424dbd1e21c67e,
     0x0ff0a33fe7b871ff539cd85fc98eaccf,
     0x44000000000000000000000000000000,
     0x00f999b7815c6c7b602e36dd30171b4e,
     0x18ebed270c5556f306ca2b5903a5f5cc,
     0xe1725aa650392d9328fcf66914bebbd4,
     0x0a9f7daa056fde95e2d7af6ab14b7735,
     0x78c5dbfa3c424dbd1e21c67e0ff0a33f,
     0xe7b871ff539cd85fc98eaccf44879647,
     0x22000000000000000000000000000000,
     0x005c6c7b602e36dd30171b4e18ebed27,
     0x0c5556f306ca2b5903a5f5cce1725aa6,
     0x50392d9328fcf66914bebbd40a9f7daa,
     0x056fde95e2d7af6ab14b773578c5dbfa,
     0x3c424dbd1e21c67e0ff0a33fe7b871ff,
     0x539cd85fc98eaccf4487964722638bc3,
     0x11000000000000000000000000000000,
     0x009a091d825c364e0ccaf5a628be7d95,
     0xb1c54d7ee79cac471148a99066b2b760,
     0x17edf303722d690a6faf353c21a3ffc9,
     0x878b41b4123a84f96cdd18552bcc50fc,
     0xbbaae24bdbbd0fb8d8cf22d1d2a08de4,
     0xee812e1b2706a55a93149fde6a7842c6,
     0x3f000000000000000000000000000000,
     0x008de4ee812e1b2706a55a93149fde6a,
     0x7842c63f538e96c3e824748833997b30,
     0xeb5659e139f6d405d777fa1ef0715f44]"

definition mx238by776_part12 :: "block list" where
  "mx238by776_part12 =
    [0x6365c09a091d825c364e0ccaf5a628be,
     0x7d95b1c54d7ee79cac471148a99066b2,
     0xb76017edf303722d690a6faf353c21a3,
     0xff000000000000000000000000000000,
     0x0066b2b76017edf303722d690a6faf35,
     0x3c21a3ffc9878b41b4123a84f96cdd18,
     0x552bcc50fcbbaae24bdbbd0fb8d8cf22,
     0xd1d2a08de4ee812e1b2706a55a93149f,
     0xde6a7842c63f538e96c3e82474883399,
     0x7b30eb5659e139f6d405d777fa1ef071,
     0x5f000000000000000000000000000000,
     0x0033997b30eb5659e139f6d405d777fa,
     0x1ef0715f446365c09a091d825c364e0c,
     0xcaf5a628be7d95b1c54d7ee79cac4711,
     0x48a99066b2b76017edf303722d690a6f,
     0xaf353c21a3ffc9878b41b4123a84f96c,
     0xdd18552bcc50fcbbaae24bdbbd0fb8d8,
     0xcf000000000000000000000000000000,
     0x00f96cdd18552bcc50fcbbaae24bdbbd,
     0x0fb8d8cf22d1d2a08de4ee812e1b2706,
     0xa55a93149fde6a7842c63f538e96c3e8,
     0x24748833997b30eb5659e139f6d405d7,
     0x77fa1ef0715f446365c09a091d825c36,
     0x4e0ccaf5a628be7d95b1c54d7ee79cac,
     0x47000000000000000000000000000000,
     0x005c364e0ccaf5a628be7d95b1c54d7e,
     0xe79cac471148a99066b2b76017edf303,
     0x722d690a6faf353c21a3ffc9878b41b4,
     0x123a84f96cdd18552bcc50fcbbaae24b,
     0xdbbd0fb8d8cf22d1d2a08de4ee812e1b,
     0x2706a55a93149fde6a7842c63f538e96,
     0xc3000000000000000000000000000000,
     0x002e1b2706a55a93149fde6a7842c63f,
     0x538e96c3e824748833997b30eb5659e1,
     0x39f6d405d777fa1ef0715f446365c09a,
     0x091d825c364e0ccaf5a628be7d95b1c5,
     0x4d7ee79cac471148a99066b2b76017ed,
     0xf303722d690a6faf353c21a3ffc9878b,
     0x41000000000000000000000000000000]"

definition mx238by776 :: "u8 list" where
  "mx238by776 = concat (map line_bytes (mx238by776_part1 @ mx238by776_part2 @ mx238by776_part3 @ mx238by776_part4 @ mx238by776_part5 @ mx238by776_part6 @ mx238by776_part7 @ mx238by776_part8 @ mx238by776_part9 @ mx238by776_part10 @ mx238by776_part11 @ mx238by776_part12))"

end
