(* ===== verification/Code_Tables.thy ===== *)
theory Code_Tables
  imports Linear_Code_Correct Mx_Codes_Short Mx_Codes_Medium Mx_Codes_Long Mx_Codes_Longest
begin

text \<open>
  Which generator matrix is loaded for which input size: the chain of conditions that
  \<^verbatim>\<open>PrtyMOtReceiver::configure\<close>, \<^verbatim>\<open>PrtyMOtSender::configure\<close> and the constructor of
  \<^verbatim>\<open>ProtocolParty\<close> share, and what loading the matrices of \<^verbatim>\<open>libPSI/Tools\<close> gives.
\<close>

definition code_table :: "nat \<Rightarrow> u8 list option" where
  "code_table inputBitCount =
     (if inputBitCount = 65 then Some mx65by448
      else if inputBitCount = 72 then Some mx72by462
      else if inputBitCount = 84 then Some mx84by495
      else if inputBitCount = 90 then Some mx90by495
      else if inputBitCount = 132 then Some mx132by583
      else if inputBitCount = 138 then Some mx138by594
      else if inputBitCount = 144 then Some mx144by605
      else if inputBitCount = 150 then Some mx150by616
      else if inputBitCount = 156 then Some mx156by627
      else if inputBitCount = 162 then Some mx162by638
      else if inputBitCount = 168 then Some mx168by649
      else if inputBitCount = 174 then Some mx174by660
      else if inputBitCount = 210 then Some mx210by732
      else if inputBitCount = 217 then Some mx217by744
      else if inputBitCount = 231 then Some mx231by768
      else if inputBitCount = 238 then Some mx238by776
      else None)"

subsection \<open>Loading a table\<close>

lemma istream_read_8:
  "8 \<le> length bs \<Longrightarrow> length dest = 8 \<Longrightarrow>
   istream_read dest \<lparr>stream_bytes = bs, fail_bit = False\<rparr> =
     (take 8 bs, \<lparr>stream_bytes = drop 8 bs, fail_bit = False\<rparr>)"
  by (simp add: istream_read_enough)

lemma concat_lines: "concat (map line_bytes rows) = blocks_bytes (map (bytes_block \<circ> line_bytes) rows)"
  by (induction rows) simp_all

lemma load_table:
  fixes n cw :: nat
  assumes t: "t = concat (map line_bytes (h # rows))" and n: "length rows = n"
    and size: "bytes_le (take 8 (line_bytes h)) = (of_nat n :: u64)"
    and bits: "bytes_le (drop 8 (line_bytes h)) = (of_nat cw :: u64)"
    and small: "n < 2 ^ 59" "0 < cw" "cw + 127 < 2 ^ 64" "n div ((cw + 127) div 128) \<le> 512"
  shows "\<exists>c'. load t c = Inr c' \<and> code_ok c' \<and> mCodewordBitSize c' = cw \<and>
    mG c' = map (bytes_block \<circ> line_bytes) rows \<and> plaintextBitSize c' = n div ((cw + 127) div 128)"
proof -
  define c1 where "c1 = c\<lparr>mCodewordBitSize := cw, mG := map (bytes_block \<circ> line_bytes) rows\<rparr>"
  have b: "cw < 2 ^ 64" using small(3) by linarith
  have l: "n < 2 ^ 64" "n \<le> vector_max_size" using small(1) by (simp_all add: vector_max_size_def)
  have w: "codewordBlkSize c1 = (cw + 127) div 128" "plaintextBitSize c1 = n div ((cw + 127) div 128)"
    using small(3) by (simp_all add: codewordBlkSize_def plaintextBitSize_def c1_def n)
  have inv: "bytes_blocks n (blocks_bytes (map (bytes_block \<circ> line_bytes) rows)) =
      map (bytes_block \<circ> line_bytes) rows"
    using bytes_blocks_inverse [of "map (bytes_block \<circ> line_bytes) rows"] by (simp add: n)
  have "load t c = generateMod8Table c1"
    using n small(1,2) b l size bits
    by (simp add: load_def loadBinFile_def t istream_read_8 istream_read_enough concat_lines unat_of_nat c1_def inv del: map_map)
  moreover have "(plaintextBitSize c1 + 7) div 8 \<le> 64" "0 < codewordBlkSize c1"
    using small(2,4) unfolding w by linarith+
  then have "\<exists>c'. generateMod8Table c1 = Inr c'"
    by (simp add: generateMod8Table_def Let_def sLinearCodePlainTextMaxSize_def)
  then obtain c' where c': "generateMod8Table c1 = Inr c'" by blast
  moreover have "code_ok c' \<and> mG c' = mG c1 \<and> mCodewordBitSize c' = mCodewordBitSize c1"
    by (rule generateMod8Table_ok [OF c']) (use small in \<open>simp_all add: c1_def\<close>)
  ultimately show ?thesis using w by (simp add: plaintextBitSize_def codewordBlkSize_def c1_def)
qed

lemma table_rows:
  assumes "t = concat (map line_bytes (p @ q))" and "\<exists>r. p = h # r" and "length (p @ q) = Suc n"
  obtains rows where "t = concat (map line_bytes (h # rows))" and "length rows = n"
proof -
  from assms(2) obtain r where "p = h # r" by blast
  with assms(1,3) that [of "r @ q"] show ?thesis by simp
qed

subsection \<open>The tables\<close>

lemma mx65by448_part1_size [simp]: "length mx65by448_part1 = 148"
  by (simp add: mx65by448_part1_def)

lemma mx65by448_part2_size [simp]: "length mx65by448_part2 = 113"
  by (simp add: mx65by448_part2_def)

lemma mx65by448_part1_head: "\<exists>r. mx65by448_part1 = 0x0401000000000000c001000000000000 # r"
  by (simp add: mx65by448_part1_def)

lemma mx65by448_code:
  "\<exists>c'. load mx65by448 c = Inr c' \<and> code_ok c' \<and> mCodewordBitSize c' = 448 \<and> plaintextBitSize c' = 65"
proof -
  obtain rows where t: "mx65by448 = concat (map line_bytes (0x0401000000000000c001000000000000 # rows))" and n: "length rows = 260"
    by (rule table_rows [OF mx65by448_def mx65by448_part1_head, of 260]) simp_all
  have "bytes_le (take 8 (line_bytes 0x0401000000000000c001000000000000)) = (of_nat 260 :: u64)"
    and "bytes_le (drop 8 (line_bytes 0x0401000000000000c001000000000000)) = (of_nat 448 :: u64)"
    by code_simp+
  from load_table [OF t n this] show ?thesis by auto
qed

lemma mx72by462_part1_size [simp]: "length mx72by462_part1 = 148"
  by (simp add: mx72by462_part1_def)

lemma mx72by462_part2_size [simp]: "length mx72by462_part2 = 141"
  by (simp add: mx72by462_part2_def)

lemma mx72by462_part1_head: "\<exists>r. mx72by462_part1 = 0x2001000000000000ce01000000000000 # r"
  by (simp add: mx72by462_part1_def)

lemma mx72by462_code:
  "\<exists>c'. load mx72by462 c = Inr c' \<and> code_ok c' \<and> mCodewordBitSize c' = 462 \<and> plaintextBitSize c' = 72"
proof -
  obtain rows where t: "mx72by462 = concat (map line_bytes (0x2001000000000000ce01000000000000 # rows))" and n: "length rows = 288"
    by (rule table_rows [OF mx72by462_def mx72by462_part1_head, of 288]) simp_all
  have "bytes_le (take 8 (line_bytes 0x2001000000000000ce01000000000000)) = (of_nat 288 :: u64)"
    and "bytes_le (drop 8 (line_bytes 0x2001000000000000ce01000000000000)) = (of_nat 462 :: u64)"
    by code_simp+
  from load_table [OF t n this] show ?thesis by auto
qed

lemma mx84by495_part1_size [simp]: "length mx84by495_part1 = 148"
  by (simp add: mx84by495_part1_def)

lemma mx84by495_part2_size [simp]: "length mx84by495_part2 = 148"
  by (simp add: mx84by495_part2_def)

lemma mx84by495_part3_size [simp]: "length mx84by495_part3 = 41"
  by (simp add: mx84by495_part3_def)

lemma mx84by495_part1_head: "\<exists>r. mx84by495_part1 = 0x5001000000000000ef01000000000000 # r"
  by (simp add: mx84by495_part1_def)

lemma mx84by495_code:
  "\<exists>c'. load mx84by495 c = Inr c' \<and> code_ok c' \<and> mCodewordBitSize c' = 495 \<and> plaintextBitSize c' = 84"
proof -
  obtain rows where t: "mx84by495 = concat (map line_bytes (0x5001000000000000ef01000000000000 # rows))" and n: "length rows = 336"
    by (rule table_rows [OF mx84by495_def mx84by495_part1_head, of 336]) simp_all
  have "bytes_le (take 8 (line_bytes 0x5001000000000000ef01000000000000)) = (of_nat 336 :: u64)"
    and "bytes_le (drop 8 (line_bytes 0x5001000000000000ef01000000000000)) = (of_nat 495 :: u64)"
    by code_simp+
  from load_table [OF t n this] show ?thesis by auto
qed

lemma mx90by495_part1_size [simp]: "length mx90by495_part1 = 148"
  by (simp add: mx90by495_part1_def)

lemma mx90by495_part2_size [simp]: "length mx90by495_part2 = 148"
  by (simp add: mx90by495_part2_def)

lemma mx90by495_part3_size [simp]: "length mx90by495_part3 = 65"
  by (simp add: mx90by495_part3_def)

lemma mx90by495_part1_head: "\<exists>r. mx90by495_part1 = 0x6801000000000000ef01000000000000 # r"
  by (simp add: mx90by495_part1_def)

lemma mx90by495_code:
  "\<exists>c'. load mx90by495 c = Inr c' \<and> code_ok c' \<and> mCodewordBitSize c' = 495 \<and> plaintextBitSize c' = 90"
proof -
  obtain rows where t: "mx90by495 = concat (map line_bytes (0x6801000000000000ef01000000000000 # rows))" and n: "length rows = 360"
    by (rule table_rows [OF mx90by495_def mx90by495_part1_head, of 360]) simp_all
  have "bytes_le (take 8 (line_bytes 0x6801000000000000ef01000000000000)) = (of_nat 360 :: u64)"
    and "bytes_le (drop 8 (line_bytes 0x6801000000000000ef01000000000000)) = (of_nat 495 :: u64)"
    by code_simp+
  from load_table [OF t n this] show ?thesis by auto
qed

lemma mx132by583_part1_size [simp]: "length mx132by583_part1 = 148"
  by (simp add: mx132by583_part1_def)

lemma mx132by583_part2_size [simp]: "length mx132by583_part2 = 148"
  by (simp add: mx132by583_part2_def)

lemma mx132by583_part3_size [simp]: "length mx132by583_part3 = 148"
  by (simp add: mx132by583_part3_def)

lemma mx132by583_part4_size [simp]: "length mx132by583_part4 = 148"
  by (simp add: mx132by583_part4_def)

lemma mx132by583_part5_size [simp]: "length mx132by583_part5 = 69"
  by (simp add: mx132by583_part5_def)

lemma mx132by583_part1_head: "\<exists>r. mx132by583_part1 = 0x94020000000000004702000000000000 # r"
  by (simp add: mx132by583_part1_def)

lemma mx132by583_code:
  "\<exists>c'. load mx132by583 c = Inr c' \<and> code_ok c' \<and> mCodewordBitSize c' = 583 \<and> plaintextBitSize c' = 132"
proof -
  obtain rows where t: "mx132by583 = concat (map line_bytes (0x94020000000000004702000000000000 # rows))" and n: "length rows = 660"
    by (rule table_rows [OF mx132by583_def mx132by583_part1_head, of 660]) simp_all
  have "bytes_le (take 8 (line_bytes 0x94020000000000004702000000000000)) = (of_nat 660 :: u64)"
    and "bytes_le (drop 8 (line_bytes 0x94020000000000004702000000000000)) = (of_nat 583 :: u64)"
    by code_simp+
  from load_table [OF t n this] show ?thesis by auto
qed

lemma mx138by594_part1_size [simp]: "length mx138by594_part1 = 148"
  by (simp add: mx138by594_part1_def)

lemma mx138by594_part2_size [simp]: "length mx138by594_part2 = 148"
  by (simp add: mx138by594_part2_def)

lemma mx138by594_part3_size [simp]: "length mx138by594_part3 = 148"
  by (simp add: mx138by594_part3_def)

lemma mx138by594_part4_size [simp]: "length mx138by594_part4 = 148"
  by (simp add: mx138by594_part4_def)

lemma mx138by594_part5_size [simp]: "length mx138by594_part5 = 99"
  by (simp add: mx138by594_part5_def)

lemma mx138by594_part1_head: "\<exists>r. mx138by594_part1 = 0xb2020000000000005202000000000000 # r"
  by (simp add: mx138by594_part1_def)

lemma mx138by594_code:
  "\<exists>c'. load mx138by594 c = Inr c' \<and> code_ok c' \<and> mCodewordBitSize c' = 594 \<and> plaintextBitSize c' = 138"
proof -
  obtain rows where t: "mx138by594 = concat (map line_bytes (0xb2020000000000005202000000000000 # rows))" and n: "length rows = 690"
    by (rule table_rows [OF mx138by594_def mx138by594_part1_head, of 690]) simp_all
  have "bytes_le (take 8 (line_bytes 0xb2020000000000005202000000000000)) = (of_nat 690 :: u64)"
    and "bytes_le (drop 8 (line_bytes 0xb2020000000000005202000000000000)) = (of_nat 594 :: u64)"
    by code_simp+
  from load_table [OF t n this] show ?thesis by auto
qed

lemma mx144by605_part1_size [simp]: "length mx144by605_part1 = 148"
  by (simp add: mx144by605_part1_def)

lemma mx144by605_part2_size [simp]: "length mx144by605_part2 = 148"
  by (simp add: mx144by605_part2_def)

lemma mx144by605_part3_size [simp]: "length mx144by605_part3 = 148"
  by (simp add: mx144by605_part3_def)

lemma mx144by605_part4_size [simp]: "length mx144by605_part4 = 148"
  by (simp add: mx144by605_part4_def)

lemma mx144by605_part5_size [simp]: "length mx144by605_part5 = 129"
  by (simp add: mx144by605_part5_def)

lemma mx144by605_part1_head: "\<exists>r. mx144by605_part1 = 0xd0020000000000005d02000000000000 # r"
  by (simp add: mx144by605_part1_def)

lemma mx144by605_code:
  "\<exists>c'. load mx144by605 c = Inr c' \<and> code_ok c' \<and> mCodewordBitSize c' = 605 \<and> plaintextBitSize c' = 144"
proof -
  obtain rows where t: "mx144by605 = concat (map line_bytes (0xd0020000000000005d02000000000000 # rows))" and n: "length rows = 720"
    by (rule table_rows [OF mx144by605_def mx144by605_part1_head, of 720]) simp_all
  have "bytes_le (take 8 (line_bytes 0xd0020000000000005d02000000000000)) = (of_nat 720 :: u64)"
    and "bytes_le (drop 8 (line_bytes 0xd0020000000000005d02000000000000)) = (of_nat 605 :: u64)"
    by code_simp+
  from load_table [OF t n this] show ?thesis by auto
qed

lemma mx150by616_part1_size [simp]: "length mx150by616_part1 = 148"
  by (simp add: mx150by616_part1_def)

lemma mx150by616_part2_size [simp]: "length mx150by616_part2 = 148"
  by (simp add: mx150by616_part2_def)

lemma mx150by616_part3_size [simp]: "length mx150by616_part3 = 148"
  by (simp add: mx150by616_part3_def)

lemma mx150by616_part4_size [simp]: "length mx150by616_part4 = 148"
  by (simp add: mx150by616_part4_def)

lemma mx150by616_part5_size [simp]: "length mx150by616_part5 = 148"
  by (simp add: mx150by616_part5_def)

lemma mx150by616_part6_size [simp]: "length mx150by616_part6 = 11"
  by (simp add: mx150by616_part6_def)

lemma mx150by616_part1_head: "\<exists>r. mx150by616_part1 = 0xee020000000000006802000000000000 # r"
  by (simp add: mx150by616_part1_def)

lemma mx150by616_code:
  "\<exists>c'. load mx150by616 c = Inr c' \<and> code_ok c' \<and> mCodewordBitSize c' = 616 \<and> plaintextBitSize c' = 150"
proof -
  obtain rows where t: "mx150by616 = concat (map line_bytes (0xee020000000000006802000000000000 # rows))" and n: "length rows = 750"
    by (rule table_rows [OF mx150by616_def mx150by616_part1_head, of 750]) simp_all
  have "bytes_le (take 8 (line_bytes 0xee020000000000006802000000000000)) = (of_nat 750 :: u64)"
    and "bytes_le (drop 8 (line_bytes 0xee020000000000006802000000000000)) = (of_nat 616 :: u64)"
    by code_simp+
  from load_table [OF t n this] show ?thesis by auto
qed

lemma mx156by627_part1_size [simp]: "length mx156by627_part1 = 148"
  by (simp add: mx156by627_part1_def)

lemma mx156by627_part2_size [simp]: "length mx156by627_part2 = 148"
  by (simp add: mx156by627_part2_def)

lemma mx156by627_part3_size [simp]: "length mx156by627_part3 = 148"
  by (simp add: mx156by627_part3_def)

lemma mx156by627_part4_size [simp]: "length mx156by627_part4 = 148"
  by (simp add: mx156by627_part4_def)

lemma mx156by627_part5_size [simp]: "length mx156by627_part5 = 148"
  by (simp add: mx156by627_part5_def)

lemma mx156by627_part6_size [simp]: "length mx156by627_part6 = 41"
  by (simp add: mx156by627_part6_def)

lemma mx156by627_part1_head: "\<exists>r. mx156by627_part1 = 0x0c030000000000007302000000000000 # r"
  by (simp add: mx156by627_part1_def)

lemma mx156by627_code:
  "\<exists>c'. load mx156by627 c = Inr c' \<and> code_ok c' \<and> mCodewordBitSize c' = 627 \<and> plaintextBitSize c' = 156"
proof -
  obtain rows where t: "mx156by627 = concat (map line_bytes (0x0c030000000000007302000000000000 # rows))" and n: "length rows = 780"
    by (rule table_rows [OF mx156by627_def mx156by627_part1_head, of 780]) simp_all
  have "bytes_le (take 8 (line_bytes 0x0c030000000000007302000000000000)) = (of_nat 780 :: u64)"
    and "bytes_le (drop 8 (line_bytes 0x0c030000000000007302000000000000)) = (of_nat 627 :: u64)"
    by code_simp+
  from load_table [OF t n this] show ?thesis by auto
qed

lemma mx162by638_part1_size [simp]: "length mx162by638_part1 = 148"
  by (simp add: mx162by638_part1_def)

lemma mx162by638_part2_size [simp]: "length mx162by638_part2 = 148"
  by (simp add: mx162by638_part2_def)

lemma mx162by638_part3_size [simp]: "length mx162by638_part3 = 148"
  by (simp add: mx162by638_part3_def)

lemma mx162by638_part4_size [simp]: "length mx162by638_part4 = 148"
  by (simp add: mx162by638_part4_def)

lemma mx162by638_part5_size [simp]: "length mx162by638_part5 = 148"
  by (simp add: mx162by638_part5_def)

lemma mx162by638_part6_size [simp]: "length mx162by638_part6 = 71"
  by (simp add: mx162by638_part6_def)

lemma mx162by638_part1_head: "\<exists>r. mx162by638_part1 = 0x2a030000000000007e02000000000000 # r"
  by (simp add: mx162by638_part1_def)

lemma mx162by638_code:
  "\<exists>c'. load mx162by638 c = Inr c' \<and> code_ok c' \<and> mCodewordBitSize c' = 638 \<and> plaintextBitSize c' = 162"
proof -
  obtain rows where t: "mx162by638 = concat (map line_bytes (0x2a030000000000007e02000000000000 # rows))" and n: "length rows = 810"
    by (rule table_rows [OF mx162by638_def mx162by638_part1_head, of 810]) simp_all
  have "bytes_le (take 8 (line_bytes 0x2a030000000000007e02000000000000)) = (of_nat 810 :: u64)"
    and "bytes_le (drop 8 (line_bytes 0x2a030000000000007e02000000000000)) = (of_nat 638 :: u64)"
    by code_simp+
  from load_table [OF t n this] show ?thesis by auto
qed

lemma mx168by649_part1_size [simp]: "length mx168by649_part1 = 148"
  by (simp add: mx168by649_part1_def)

lemma mx168by649_part2_size [simp]: "length mx168by649_part2 = 148"
  by (simp add: mx168by649_part2_def)

lemma mx168by649_part3_size [simp]: "length mx168by649_part3 = 148"
  by (simp add: mx168by649_part3_def)

lemma mx168by649_part4_size [simp]: "length mx168by649_part4 = 148"
  by (simp add: mx168by649_part4_def)

lemma mx168by649_part5_size [simp]: "length mx168by649_part5 = 148"
  by (simp add: mx168by649_part5_def)

lemma mx168by649_part6_size [simp]: "length mx168by649_part6 = 71"
  by (simp add: mx168by649_part6_def)

lemma mx168by649_part1_head: "\<exists>r. mx168by649_part1 = 0x2a030000000000007e02000000000000 # r"
  by (simp add: mx168by649_part1_def)

lemma mx168by649_code:
  "\<exists>c'. load mx168by649 c = Inr c' \<and> code_ok c' \<and> mCodewordBitSize c' = 638 \<and> plaintextBitSize c' = 162"
proof -
  obtain rows where t: "mx168by649 = concat (map line_bytes (0x2a030000000000007e02000000000000 # rows))" and n: "length rows = 810"
    by (rule table_rows [OF mx168by649_def mx168by649_part1_head, of 810]) simp_all
  have "bytes_le (take 8 (line_bytes 0x2a030000000000007e02000000000000)) = (of_nat 810 :: u64)"
    and "bytes_le (drop 8 (line_bytes 0x2a030000000000007e02000000000000)) = (of_nat 638 :: u64)"
    by code_simp+
  from load_table [OF t n this] show ?thesis by auto
qed

lemma mx174by660_part1_size [simp]: "length mx174by660_part1 = 148"
  by (simp add: mx174by660_part1_def)

lemma mx174by660_part2_size [simp]: "length mx174by660_part2 = 148"
  by (simp add: mx174by660_part2_def)

lemma mx174by660_part3_size [simp]: "length mx174by660_part3 = 148"
  by (simp add: mx174by660_part3_def)

lemma mx174by660_part4_size [simp]: "length mx174by660_part4 = 148"
  by (simp add: mx174by660_part4_def)

lemma mx174by660_part5_size [simp]: "length mx174by660_part5 = 148"
  by (simp add: mx174by660_part5_def)

lemma mx174by660_part6_size [simp]: "length mx174by660_part6 = 148"
  by (simp add: mx174by660_part6_def)

lemma mx174by660_part7_size [simp]: "length mx174by660_part7 = 148"
  by (simp add: mx174by660_part7_def)

lemma mx174by660_part8_size [simp]: "length mx174by660_part8 = 9"
  by (simp add: mx174by660_part8_def)

lemma mx174by660_part1_head: "\<exists>r. mx174by660_part1 = 0x14040000000000009402000000000000 # r"
  by (simp add: mx174by660_part1_def)

lemma mx174by660_code:
  "\<exists>c'. load mx174by660 c = Inr c' \<and> code_ok c' \<and> mCodewordBitSize c' = 660 \<and> plaintextBitSize c' = 174"
proof -
  obtain rows where t: "mx174by660 = concat (map line_bytes (0x14040000000000009402000000000000 # rows))" and n: "length rows = 1044"
    by (rule table_rows [OF mx174by660_def mx174by660_part1_head, of 1044]) simp_all
  have "bytes_le (take 8 (line_bytes 0x14040000000000009402000000000000)) = (of_nat 1044 :: u64)"
    and "bytes_le (drop 8 (line_bytes 0x14040000000000009402000000000000)) = (of_nat 660 :: u64)"
    by code_simp+
  from load_table [OF t n this] show ?thesis by auto
qed

lemma mx210by732_part1_size [simp]: "length mx210by732_part1 = 148"
  by (simp add: mx210by732_part1_def)

lemma mx210by732_part2_size [simp]: "length mx210by732_part2 = 148"
  by (simp add: mx210by732_part2_def)

lemma mx210by732_part3_size [simp]: "length mx210by732_part3 = 148"
  by (simp add: mx210by732_part3_def)

lemma mx210by732_part4_size [simp]: "length mx210by732_part4 = 148"
  by (simp add: mx210by732_part4_def)

lemma mx210by732_part5_size [simp]: "length mx210by732_part5 = 148"
  by (simp add: mx210by732_part5_def)

lemma mx210by732_part6_size [simp]: "length mx210by732_part6 = 148"
  by (simp add: mx210by732_part6_def)

lemma mx210by732_part7_size [simp]: "length mx210by732_part7 = 148"
  by (simp add: mx210by732_part7_def)

lemma mx210by732_part8_size [simp]: "length mx210by732_part8 = 148"
  by (simp add: mx210by732_part8_def)

lemma mx210by732_part9_size [simp]: "length mx210by732_part9 = 77"
  by (simp add: mx210by732_part9_def)

lemma mx210by732_part1_head: "\<exists>r. mx210by732_part1 = 0xec04000000000000dc02000000000000 # r"
  by (simp add: mx210by732_part1_def)

lemma mx210by732_code:
  "\<exists>c'. load mx210by732 c = Inr c' \<and> code_ok c' \<and> mCodewordBitSize c' = 732 \<and> plaintextBitSize c' = 210"
proof -
  obtain rows where t: "mx210by732 = concat (map line_bytes (0xec04000000000000dc02000000000000 # rows))" and n: "length rows = 1260"
    by (rule table_rows [OF mx210by732_def mx210by732_part1_head, of 1260]) simp_all
  have "bytes_le (take 8 (line_bytes 0xec04000000000000dc02000000000000)) = (of_nat 1260 :: u64)"
    and "bytes_le (drop 8 (line_bytes 0xec04000000000000dc02000000000000)) = (of_nat 732 :: u64)"
    by code_simp+
  from load_table [OF t n this] show ?thesis by auto
qed

lemma mx217by744_part1_size [simp]: "length mx217by744_part1 = 148"
  by (simp add: mx217by744_part1_def)

lemma mx217by744_part2_size [simp]: "length mx217by744_part2 = 148"
  by (simp add: mx217by744_part2_def)

lemma mx217by744_part3_size [simp]: "length mx217by744_part3 = 148"
  by (simp add: mx217by744_part3_def)

lemma mx217by744_part4_size [simp]: "length mx217by744_part4 = 148"
  by (simp add: mx217by744_part4_def)

lemma mx217by744_part5_size [simp]: "length mx217by744_part5 = 148"
  by (simp add: mx217by744_part5_def)

lemma mx217by744_part6_size [simp]: "length mx217by744_part6 = 148"
  by (simp add: mx217by744_part6_def)

lemma mx217by744_part7_size [simp]: "length mx217by744_part7 = 148"
  by (simp add: mx217by744_part7_def)

lemma mx217by744_part8_size [simp]: "length mx217by744_part8 = 148"
  by (simp add: mx217by744_part8_def)

lemma mx217by744_part9_size [simp]: "length mx217by744_part9 = 119"
  by (simp add: mx217by744_part9_def)

lemma mx217by744_part1_head: "\<exists>r. mx217by744_part1 = 0x1605000000000000e802000000000000 # r"
  by (simp add: mx217by744_part1_def)

lemma mx217by744_code:
  "\<exists>c'. load mx217by744 c = Inr c' \<and> code_ok c' \<and> mCodewordBitSize c' = 744 \<and> plaintextBitSize c' = 217"
proof -
  obtain rows where t: "mx217by744 = concat (map line_bytes (0x1605000000000000e802000000000000 # rows))" and n: "length rows = 1302"
    by (rule table_rows [OF mx217by744_def mx217by744_part1_head, of 1302]) simp_all
  have "bytes_le (take 8 (line_bytes 0x1605000000000000e802000000000000)) = (of_nat 1302 :: u64)"
    and "bytes_le (drop 8 (line_bytes 0x1605000000000000e802000000000000)) = (of_nat 744 :: u64)"
    by code_simp+
  from load_table [OF t n this] show ?thesis by auto
qed

lemma mx231by768_part1_size [simp]: "length mx231by768_part1 = 148"
  by (simp add: mx231by768_part1_def)

lemma mx231by768_part2_size [simp]: "length mx231by768_part2 = 148"
  by (simp add: mx231by768_part2_def)

lemma mx231by768_part3_size [simp]: "length mx231by768_part3 = 148"
  by (simp add: mx231by768_part3_def)

lemma mx231by768_part4_size [simp]: "length mx231by768_part4 = 148"
  by (simp add: mx231by768_part4_def)

lemma mx231by768_part5_size [simp]: "length mx231by768_part5 = 148"
  by (simp add: mx231by768_part5_def)

lemma mx231by768_part6_size [simp]: "length mx231by768_part6 = 148"
  by (simp add: mx231by768_part6_def)

lemma mx231by768_part7_size [simp]: "length mx231by768_part7 = 148"
  by (simp add: mx231by768_part7_def)

lemma mx231by768_part8_size [simp]: "length mx231by768_part8 = 148"
  by (simp add: mx231by768_part8_def)

lemma mx231by768_part9_size [simp]: "length mx231by768_part9 = 148"
  by (simp add: mx231by768_part9_def)

lemma mx231by768_part10_size [simp]: "length mx231by768_part10 = 55"
  by (simp add: mx231by768_part10_def)

lemma mx231by768_part1_head: "\<exists>r. mx231by768_part1 = 0x6a050000000000000003000000000000 # r"
  by (simp add: mx231by768_part1_def)

lemma mx231by768_code:
  "\<exists>c'. load mx231by768 c = Inr c' \<and> code_ok c' \<and> mCodewordBitSize c' = 768 \<and> plaintextBitSize c' = 231"
proof -
  obtain rows where t: "mx231by768 = concat (map line_bytes (0x6a050000000000000003000000000000 # rows))" and n: "length rows = 1386"
    by (rule table_rows [OF mx231by768_def mx231by768_part1_head, of 1386]) simp_all
  have "bytes_le (take 8 (line_bytes 0x6a050000000000000003000000000000)) = (of_nat 1386 :: u64)"
    and "bytes_le (drop 8 (line_bytes 0x6a050000000000000003000000000000)) = (of_nat 768 :: u64)"
    by code_simp+
  from load_table [OF t n this] show ?thesis by auto
qed

lemma mx238by776_part1_size [simp]: "length mx238by776_part1 = 148"
  by (simp add: mx238by776_part1_def)

lemma mx238by776_part2_size [simp]: "length mx238by776_part2 = 148"
  by (simp add: mx238by776_part2_def)

lemma mx238by776_part3_size [simp]: "length mx238by776_part3 = 148"
  by (simp add: mx238by776_part3_def)

lemma mx238by776_part4_size [simp]: "length mx238by776_part4 = 148"
  by (simp add: mx238by776_part4_def)

lemma mx238by776_part5_size [simp]: "length mx238by776_part5 = 148"
  by (simp add: mx238by776_part5_def)

lemma mx238by776_part6_size [simp]: "length mx238by776_part6 = 148"
  by (simp add: mx238by776_part6_def)

lemma mx238by776_part7_size [simp]: "length mx238by776_part7 = 148"
  by (simp add: mx238by776_part7_def)

lemma mx238by776_part8_size [simp]: "length mx238by776_part8 = 148"
  by (simp add: mx238by776_part8_def)

lemma mx238by776_part9_size [simp]: "length mx238by776_part9 = 148"
  by (simp add: mx238by776_part9_def)

lemma mx238by776_part10_size [simp]: "length mx238by776_part10 = 148"
  by (simp add: mx238by776_part10_def)

lemma mx238by776_part11_size [simp]: "length mx238by776_part11 = 148"
  by (simp add: mx238by776_part11_def)

lemma mx238by776_part12_size [simp]: "length mx238by776_part12 = 39"
  by (simp add: mx238by776_part12_def)

lemma mx238by776_part1_head: "\<exists>r. mx238by776_part1 = 0x82060000000000000803000000000000 # r"
  by (simp add: mx238by776_part1_def)

lemma mx238by776_code:
  "\<exists>c'. load mx238by776 c = Inr c' \<and> code_ok c' \<and> mCodewordBitSize c' = 776 \<and> plaintextBitSize c' = 238"
proof -
  obtain rows where t: "mx238by776 = concat (map line_bytes (0x82060000000000000803000000000000 # rows))" and n: "length rows = 1666"
    by (rule table_rows [OF mx238by776_def mx238by776_part1_head, of 1666]) simp_all
  have "bytes_le (take 8 (line_bytes 0x82060000000000000803000000000000)) = (of_nat 1666 :: u64)"
    and "bytes_le (drop 8 (line_bytes 0x82060000000000000803000000000000)) = (of_nat 776 :: u64)"
    by code_simp+
  from load_table [OF t n this] show ?thesis by auto
qed

end
