(* ===== verification/Bit_Vector.thy ===== *)
theory Bit_Vector
  imports Prng
begin

text \<open>
  The packed bit vector and its iterator (\<^verbatim>\<open>cryptoTools/Common/BitVector.cpp\<close>, \<^verbatim>\<open>.h\<close>,
  \<^verbatim>\<open>BitIterator.h\<close>): the allocated bytes and the number of bits in use.
\<close>

subsection \<open>The class\<close>

record bit_vector =
  mData :: "u8 list"
  mNumBits :: nat

definition empty_bits :: bit_vector where
  "empty_bits = \<lparr>mData = [], mNumBits = 0\<rparr>"

definition sizeBytes :: "bit_vector \<Rightarrow> nat" where
  "sizeBytes v = (mNumBits v + 7) div 8"

definition bv_reset :: "nat \<Rightarrow> bit_vector \<Rightarrow> bit_vector" where
  "bv_reset new_nbits v =
     (let newSize = (new_nbits + 7) div 8
      in \<lparr>mData = (if length (mData v) < newSize then replicate newSize 0
                   else replicate newSize 0 @ drop newSize (mData v)),
          mNumBits = new_nbits\<rparr>)"

definition bv_resize :: "nat \<Rightarrow> bit_vector \<Rightarrow> bit_vector" where
  "bv_resize newSize v =
     (let new_nbytes = (newSize + 7) div 8
      in \<lparr>mData = (if length (mData v) < new_nbytes
                   then memcpy (replicate new_nbytes 0) (mData v) (sizeBytes v) else mData v),
          mNumBits = newSize\<rparr>)"

definition bv_reserve :: "nat \<Rightarrow> bit_vector \<Rightarrow> bit_vector" where
  "bv_reserve bits v = (bv_resize bits v)\<lparr>mNumBits := mNumBits v\<rparr>"

text \<open>A reference to bit \<open>idx\<close> is taken, then read or assigned.\<close>

definition bv_get :: "bit_vector \<Rightarrow> nat \<Rightarrow> u8 res" where
  "bv_get v idx =
     (if mNumBits v \<le> idx then Inl (Runtime_error ''rt error'')
      else Inr (drop_bit (idx mod 8) (mData v ! (idx div 8) AND push_bit (idx mod 8) 1)))"

definition ref_assign :: "u8 \<Rightarrow> nat \<Rightarrow> u8 \<Rightarrow> u8" where
  "ref_assign byte shift n = (if 0 < n then byte OR push_bit shift 1 else byte AND NOT (push_bit shift 1))"

definition bv_set :: "bit_vector \<Rightarrow> nat \<Rightarrow> u8 \<Rightarrow> bit_vector res" where
  "bv_set v idx n =
     (if mNumBits v \<le> idx then Inl (Runtime_error ''rt error'')
      else Inr (v\<lparr>mData := (mData v)[idx div 8 := ref_assign (mData v ! (idx div 8)) (idx mod 8) n]\<rparr>))"

definition append_bit :: "u8 list \<Rightarrow> nat \<Rightarrow> nat \<Rightarrow> bit_vector res \<Rightarrow> nat \<Rightarrow> bit_vector res" where
  "append_bit data bitIdx offset v i =
     res_bind v (\<lambda>v. bv_set v (bitIdx + i)
       (data ! ((offset + i) div 8) AND push_bit ((offset + i) mod 8) 1))"

definition bv_append :: "u8 list \<Rightarrow> nat \<Rightarrow> nat \<Rightarrow> bit_vector \<Rightarrow> bit_vector res" where
  "bv_append data len offset v =
     (let bitIdx = mNumBits v;
          destOffset = mNumBits v mod 8;
          destIdx = mNumBits v div 8;
          srcOffset = offset mod 8;
          srcIdx = offset div 8;
          byteLength = (len + 7) div 8;
          v = bv_resize (mNumBits v + len) v
      in if srcOffset \<noteq> 0 \<or> destOffset \<noteq> 0
         then foldl (append_bit data bitIdx offset) (Inr v) [0..<len]
         else Inr (v\<lparr>mData := take destIdx (mData v) @ take byteLength (drop srcIdx data) @
                              drop (destIdx + byteLength) (mData v)\<rparr>))"

definition bv_copy :: "bit_vector \<Rightarrow> nat \<Rightarrow> nat \<Rightarrow> bit_vector \<Rightarrow> bit_vector res" where
  "bv_copy src idx len v = bv_append (mData src) len idx (bv_resize 0 v)"

definition bv_assign_block :: "block \<Rightarrow> bit_vector \<Rightarrow> bit_vector" where
  "bv_assign_block b v = (let v = bv_reset 128 v in v\<lparr>mData := memcpy (mData v) (block_bytes b) (sizeBytes v)\<rparr>)"

definition bv_assign :: "bit_vector \<Rightarrow> bit_vector \<Rightarrow> bit_vector" where
  "bv_assign K v = (let v = bv_reset (mNumBits K) v in v\<lparr>mData := memcpy (mData v) (mData K) (sizeBytes v)\<rparr>)"

text \<open>The byte-wise operators, on the bytes in use.\<close>

definition bv_bytewise :: "(u8 \<Rightarrow> u8 \<Rightarrow> u8) \<Rightarrow> bit_vector \<Rightarrow> bit_vector \<Rightarrow> bit_vector" where
  "bv_bytewise f v A = v\<lparr>mData := foldl (\<lambda>d i. d[i := f (d ! i) (mData A ! i)]) (mData v) [0..<sizeBytes v]\<rparr>"

definition bv_and :: "bit_vector \<Rightarrow> bit_vector \<Rightarrow> bit_vector" where
  "bv_and = bv_bytewise (AND)"

definition bv_or :: "bit_vector \<Rightarrow> bit_vector \<Rightarrow> bit_vector" where
  "bv_or = bv_bytewise (OR)"

definition bv_xor :: "bit_vector \<Rightarrow> bit_vector \<Rightarrow> bit_vector res" where
  "bv_xor v A = (if mNumBits v \<noteq> mNumBits A then Inl (Runtime_error ''rt error'') else Inr (bv_bytewise (XOR) v A))"

definition bv_not :: "bit_vector \<Rightarrow> bit_vector" where
  "bv_not v = v\<lparr>mData := foldl (\<lambda>d i. d[i := NOT (mData v ! i)]) (mData v) [0..<sizeBytes v]\<rparr>"

definition fromString :: "string \<Rightarrow> bit_vector \<Rightarrow> bit_vector res" where
  "fromString data v =
     foldl (\<lambda>v i. res_bind v (\<lambda>v. bv_set v i (of_nat (of_char (data ! i)) - 48)))
       (Inr (bv_resize (length data) v)) [0..<length data]"

text \<open>\<open>equals\<close> of vectors of at least one bit.\<close>

definition bv_equals :: "bit_vector \<Rightarrow> bit_vector \<Rightarrow> bool" where
  "bv_equals v rhs =
     (if mNumBits v \<noteq> mNumBits rhs then False
      else let lastByte = sizeBytes v - 1
           in if \<exists>i \<in> set [0..<lastByte]. mData v ! i \<noteq> mData rhs ! i then False
              else let rem = mNumBits v mod 8;
                       mask = drop_bit (8 - rem) (0xFF :: u8)
                   in mData v ! lastByte AND mask = mData rhs ! lastByte AND mask)"

text \<open>The loop that sets the ones past the whole bytes; its index is unsigned and wraps below 0.\<close>

fun nChoosek_ones :: "nat \<Rightarrow> nat \<Rightarrow> bit_vector \<Rightarrow> bit_vector res" where
  "nChoosek_ones lo 0 v =
     (if lo \<le> 0 then res_bind (bv_set v 0 1) (\<lambda>v. bv_set v (2 ^ 64 - 1) 1) else Inr v)"
| "nChoosek_ones lo (Suc i) v =
     (if lo \<le> Suc i then res_bind (bv_set v (Suc i) 1) (nChoosek_ones lo i) else Inr v)"

definition nChoosek_swap :: "nat \<Rightarrow> (bit_vector \<times> prng) res option \<Rightarrow> nat \<Rightarrow> (bit_vector \<times> prng) res option" where
  "nChoosek_swap k st i =
     Option.bind st (\<lambda>st. case st of Inl e \<Rightarrow> Some (Inl e) | Inr (v, g) \<Rightarrow>
       Option.bind (prng_get g 8) (\<lambda>r. Some (res_bind r (\<lambda>(bs, g).
         let j = unat (bytes_le bs :: u64) mod i
         in if j < k
            then res_bind (bv_get v j) (\<lambda>b. res_bind (bv_set v j 0) (\<lambda>v. res_bind (bv_set v i b) (\<lambda>v. Inr (v, g))))
            else Inr (v, g)))))"

definition nChoosek :: "nat \<Rightarrow> nat \<Rightarrow> prng \<Rightarrow> bit_vector \<Rightarrow> (bit_vector \<times> prng) res option" where
  "nChoosek n k g v =
     (let v = bv_reset n v;
          v = v\<lparr>mData := replicate (k div 8) 0xFF @ drop (k div 8) (mData v)\<rparr>;
          lo = 4 * (k div 4);
          ones = (if k = 0 then bv_set v (2 ^ 64 - 1) 1 else nChoosek_ones lo (k - 1) v)
      in foldl (nChoosek_swap k) (Some (res_bind ones (\<lambda>v. Inr (v, g)))) [k..<n])"

function count_bits :: "u8 \<Rightarrow> nat" where
  "count_bits b = (if b \<noteq> 0 then Suc (count_bits (b AND (b - 1))) else 0)"
  by auto

termination
proof (relation "measure unat")
  fix b :: u8
  assume b: "b \<noteq> 0"
  then have "unat (b - 1) < unat b" by (metis unat_minus_one unat_gt_0 diff_less less_numeral_extra(1))
  moreover have "unat (b AND (b - 1)) \<le> unat (b - 1)"
    using word_and_le2 [of "b - 1" b] by (simp add: word_le_nat_alt and.commute)
  ultimately show "(b AND (b - 1), b) \<in> measure unat" by simp
qed simp

declare count_bits.simps [simp del]

definition hammingWeight :: "bit_vector \<Rightarrow> nat" where
  "hammingWeight v = sum_list (map (\<lambda>i. count_bits (mData v ! i)) [0..<sizeBytes v])"


definition parity :: "bit_vector \<Rightarrow> u8" where
  "parity v =
     (let lastByte = mNumBits v div 8;
          bit = foldl (\<lambda>bit i.
                  bit XOR (mData v ! i AND 1) XOR (drop_bit 1 (mData v ! i) AND 1)
                      XOR (drop_bit 2 (mData v ! i) AND 1) XOR (drop_bit 3 (mData v ! i) AND 1)
                      XOR (drop_bit 4 (mData v ! i) AND 1) XOR (drop_bit 5 (mData v ! i) AND 1)
                      XOR (drop_bit 6 (mData v ! i) AND 1) XOR (drop_bit 7 (mData v ! i) AND 1)) 0 [0..<lastByte]
      in foldl (\<lambda>bit i. bit XOR (drop_bit i (mData v ! lastByte) AND 1)) bit [0..<mNumBits v - lastByte * 8])"

definition pushBack :: "u8 \<Rightarrow> bit_vector \<Rightarrow> bit_vector res" where
  "pushBack b v =
     (let v = (if mNumBits v = length (mData v) * 8 then bv_reserve (mNumBits v * 2) v else v);
          v = bv_resize (mNumBits v + 1) v
      in bv_set v (mNumBits v - 1) b)"

definition bv_randomize :: "prng \<Rightarrow> bit_vector \<Rightarrow> (bit_vector \<times> prng) res option" where
  "bv_randomize g v =
     Option.bind (prng_get g (sizeBytes v)) (\<lambda>r.
       Some (res_bind r (\<lambda>(bs, g). Inr (v\<lparr>mData := memcpy (mData v) bs (sizeBytes v)\<rparr>, g))))"

subsection \<open>The bits of a vector\<close>

definition bits_ok :: "bit_vector \<Rightarrow> bool" where
  "bits_ok v \<longleftrightarrow> sizeBytes v \<le> length (mData v)"

lemma bit_byte_index:
  fixes b :: u8
  shows "j < 8 \<Longrightarrow> n < 8 \<Longrightarrow> bit (ref_assign b j x) n = (if n = j then 0 < x else bit b n)"
  by (auto simp: ref_assign_def bit_simps)

lemma div_mod_8_eq: "(i :: nat) div 8 = j div 8 \<Longrightarrow> i mod 8 = j mod 8 \<Longrightarrow> i = j"
  by (metis mult_div_mod_eq)

lemma bit_at_update:
  assumes "j div 8 < length bs"
  shows "bit_at (bs[j div 8 := ref_assign (bs ! (j div 8)) (j mod 8) x]) i =
    (if i = j then 0 < x else bit_at bs i)"
  using assms div_mod_8_eq [of i j]
  by (cases "i div 8 = j div 8") (auto simp: bit_at_def bit_byte_index)

lemma bits_ok_index: "bits_ok v \<Longrightarrow> i < mNumBits v \<Longrightarrow> i div 8 < length (mData v)"
  by (simp add: bits_ok_def sizeBytes_def less_mult_imp_div_less)

lemma bv_set_Inr:
  assumes "bits_ok v" and "i < mNumBits v"
  obtains w where "bv_set v i x = Inr w" "mNumBits w = mNumBits v" "length (mData w) = length (mData v)"
    "\<And>j. bit_at (mData w) j = (if j = i then 0 < x else bit_at (mData v) j)"
  using bit_at_update [OF bits_ok_index [OF assms], of x] assms by (auto simp: bv_set_def)

lemma bv_get_bit_at:
  "i < mNumBits v \<Longrightarrow> bv_get v i = Inr (of_bool (bit_at (mData v) i))"
  by (auto simp: bv_get_def bit_at_def bit_simps intro!: bit_word_eqI)

lemma bv_resize_facts:
  assumes "bits_ok v"
  shows "bits_ok (bv_resize n v)" and "mNumBits (bv_resize n v) = n"
    and "i < mNumBits v \<Longrightarrow> bit_at (mData (bv_resize n v)) i = bit_at (mData v) i"
  using assms bits_ok_index [OF assms, of i]
  by (auto simp: bits_ok_def bv_resize_def sizeBytes_def Let_def bit_at_def nth_memcpy less_mult_imp_div_less)

lemma byte_positive:
  fixes b :: u8
  shows "0 < b AND push_bit n 1 \<longleftrightarrow> n < 8 \<and> bit b n"
proof -
  have "bit (b AND push_bit n 1) i \<longleftrightarrow> i = n \<and> n < 8 \<and> bit b n" for i
    by (auto simp: bit_simps)
  then have "b AND push_bit n 1 = 0 \<longleftrightarrow> \<not> (n < 8 \<and> bit b n)"
    by (metis bit_0_eq bot_apply bot_bool_def bit_word_eqI)
  then show ?thesis by (metis word_gt_0)
qed

lemma byte_positive_at: "0 < data ! (i div 8) AND push_bit (i mod 8) (1 :: u8) \<longleftrightarrow> bit_at data i"
  by (simp only: byte_positive bit_at_def) simp

lemma append_bits_loop:
  assumes v: "bits_ok v" and n: "start + n \<le> mNumBits v"
  shows "\<exists>w. foldl (append_bit data start offset) (Inr v) [0..<n] = Inr w \<and> mNumBits w = mNumBits v \<and>
    length (mData w) = length (mData v) \<and>
    (\<forall>i. bit_at (mData w) i =
      (if start \<le> i \<and> i < start + n then bit_at data (offset + (i - start)) else bit_at (mData v) i))"
  using n
proof (induction n)
  case 0
  then show ?case by auto
next
  case (Suc n)
  then obtain w where w: "foldl (append_bit data start offset) (Inr v) [0..<n] = Inr w"
    "mNumBits w = mNumBits v" "length (mData w) = length (mData v)"
    and bits: "\<And>i. bit_at (mData w) i =
      (if start \<le> i \<and> i < start + n then bit_at data (offset + (i - start)) else bit_at (mData v) i)"
    by auto
  have ok: "bits_ok w" using v w by (simp add: bits_ok_def sizeBytes_def)
  obtain u where u: "bv_set w (start + n)
      (data ! ((offset + n) div 8) AND push_bit ((offset + n) mod 8) 1) = Inr u"
    "mNumBits u = mNumBits w" "length (mData u) = length (mData w)"
    and set: "\<And>j. bit_at (mData u) j =
      (if j = start + n then 0 < data ! ((offset + n) div 8) AND push_bit ((offset + n) mod 8) 1
       else bit_at (mData w) j)"
    using bv_set_Inr [OF ok, of "start + n"] Suc.prems w by (metis Suc_le_lessD add_Suc_right)
  note set = set [unfolded byte_positive_at]
  have "append_bit data start offset (Inr w) n = Inr u"
    by (simp only: append_bit_def res_bind_simps u(1))
  then have "foldl (append_bit data start offset) (Inr v) [0..<Suc n] = Inr u"
    by (simp only: upt_Suc foldl_append foldl_Cons foldl_Nil le0 if_True w(1))
  then show ?case
    using w u(2,3) bits set
    by (intro exI [of _ u]) (simp add: less_Suc_eq del: upt_Suc)
qed

text \<open>
  C39: appending \<open>len\<close> bits of a byte array from any bit offset leaves the bits of the vector as they
  were and puts the array's after them, both where the copy is byte-wise and where it goes bit by bit;
  no access is out of range.
\<close>

theorem append_bits:
  assumes "bits_ok v" and "(offset + len + 7) div 8 \<le> length data"
  shows "\<exists>w. bv_append data len offset v = Inr w \<and> bits_ok w \<and> mNumBits w = mNumBits v + len \<and>
    (\<forall>i < mNumBits v + len. bit_at (mData w) i =
      (if i < mNumBits v then bit_at (mData v) i else bit_at data (offset + (i - mNumBits v))))"
proof (cases "offset mod 8 \<noteq> 0 \<or> mNumBits v mod 8 \<noteq> 0")
  case True
  let ?v = "bv_resize (mNumBits v + len) v"
  note r = bv_resize_facts [OF assms(1), where n = "mNumBits v + len"]
  from append_bits_loop [OF r(1), of "mNumBits v" len data offset] r(2)
  obtain w where "foldl (append_bit data (mNumBits v) offset) (Inr ?v) [0..<len] = Inr w"
    "mNumBits w = mNumBits v + len" "length (mData w) = length (mData ?v)"
    "\<forall>i. bit_at (mData w) i = (if mNumBits v \<le> i \<and> i < mNumBits v + len
       then bit_at data (offset + (i - mNumBits v)) else bit_at (mData ?v) i)"
    by auto
  then show ?thesis
    using True r by (intro exI [of _ w]) (auto simp: bv_append_def Let_def bits_ok_def sizeBytes_def)
next
  case False
  then obtain d s where d: "mNumBits v = 8 * d" and s: "offset = 8 * s"
    by (metis mod_eq_0_iff_dvd dvdE)
  let ?v = "bv_resize (8 * d + len) v"
  note r = bv_resize_facts [OF assms(1), where n = "8 * d + len"]
  have len: "(8 * s + len + 7) div 8 = s + (len + 7) div 8" "(8 * d + len + 7) div 8 = d + (len + 7) div 8"
    by simp_all
  have size: "d + (len + 7) div 8 \<le> length (mData ?v)"
    using r(1,2) len by (simp add: bits_ok_def sizeBytes_def)
  let ?bs = "take d (mData ?v) @ take ((len + 7) div 8) (drop s data) @ drop (d + (len + 7) div 8) (mData ?v)"
  have "bit_at ?bs i = (if i < 8 * d then bit_at (mData v) i else bit_at data (8 * s + (i - 8 * d)))"
    if i: "i < 8 * d + len" for i
  proof (cases "i < 8 * d")
    case True
    then have "i div 8 < d" by (simp add: less_mult_imp_div_less mult.commute)
    then show ?thesis using True size r(3) [of i] d by (simp add: bit_at_def nth_append)
  next
    case False
    define j where "j = i - 8 * d"
    have j: "i = 8 * d + j" "j < len" using False i by (auto simp: j_def)
    have le: "(len + 7) div 8 \<le> length data - s" using assms(2) len s by simp
    have "j div 8 < (len + 7) div 8" using j(2) by (simp add: less_mult_imp_div_less)
    then show ?thesis
      using size le by (simp add: bit_at_def nth_append j s min_absorb2)
  qed
  then show ?thesis
    using False size assms(2) len r(1,2)
    by (auto simp: bv_append_def Let_def d s bits_ok_def sizeBytes_def)
qed

lemma append_bits_witness:
  "\<exists>w. bv_append [0xA5, 0x3C] 7 5 \<lparr>mData = [3], mNumBits = 3\<rparr> = Inr w \<and> bits_ok w \<and> mNumBits w = 10 \<and>
    (\<forall>i < 10. bit_at (mData w) i = (if i < 3 then bit_at [3] i else bit_at [0xA5, 0x3C] (5 + (i - 3))))"
  using append_bits [of "\<lparr>mData = [3], mNumBits = 3\<rparr>" 5 7 "[0xA5, 0x3C]"]
  unfolding bits_ok_def sizeBytes_def by (simp only: bit_vector.simps length_Cons list.size) simp

subsection \<open>Sampling positions\<close>

lemma nChoosek_swap_Inl: "foldl (nChoosek_swap k) (Some (Inl e)) xs = Some (Inl e)"
  by (induction xs) (simp_all add: nChoosek_swap_def)

lemma nChoosek_ones_wraps:
  "mNumBits v < 2 ^ 64 \<Longrightarrow> nChoosek_ones 0 i v = Inl (Runtime_error ''rt error'')"
proof (induction i arbitrary: v)
  case 0
  then show ?case by (simp add: bv_set_def)
next
  case (Suc i)
  then show ?case by (simp add: bv_set_def [of _ "Suc i"])
qed

text \<open>
  C40: a sample of \<open>k\<close> out of \<open>k\<close> positions should be all of them. For fewer than four the loop that
  sets the last ones runs past zero and throws, whatever \<open>n\<close> is; for five only one is chosen.
\<close>

theorem nChoosek_misses:
  assumes "n < 2 ^ 64" and "k < 4"
  shows "nChoosek n k g v = Some (Inl (Runtime_error ''rt error'')) \<and>
    (\<exists>w. nChoosek 5 5 g v = Some (Inr (w, g)) \<and> map (bit_at (mData w)) [0..<5] = [False, False, False, False, True])"
proof
  have "(if k = 0 then bv_set u (2 ^ 64 - 1) 1 else nChoosek_ones (4 * (k div 4)) (k - 1) u)
      = Inl (Runtime_error ''rt error'')" if "mNumBits u = n" for u
    using that assms nChoosek_ones_wraps [of u "k - 1"] by (simp add: bv_set_def)
  then show "nChoosek n k g v = Some (Inl (Runtime_error ''rt error''))"
    by (simp add: nChoosek_def Let_def bv_reset_def nChoosek_swap_Inl)
next
  have "nChoosek 5 5 g v = Some (Inr (\<lparr>mData = 16 # drop 1 (mData v), mNumBits = 5\<rparr>, g))"
  proof -
    have stop: "nChoosek_ones 4 3 = Inr" 
      using nChoosek_ones.simps(2) [of 4 2] by (simp add: fun_eq_iff eval_nat_numeral)
    have four: "nChoosek_ones 4 4 u = res_bind (bv_set u 4 1) Inr" for u
      using nChoosek_ones.simps(2) [of 4 3 u] by (simp add: stop)
    obtain bs where bs: "mData (bv_reset 5 v) = 0 # bs" "bs = drop 1 (mData v)" "mNumBits (bv_reset 5 v) = 5"
      by (auto simp: bv_reset_def)
    show ?thesis
      using bs by (simp add: nChoosek_def four bv_set_def ref_assign_def Let_def)
  qed
  then show "\<exists>w. nChoosek 5 5 g v = Some (Inr (w, g)) \<and>
      map (bit_at (mData w)) [0..<5] = [False, False, False, False, True]"
    by (auto simp: bit_at_def bit_simps upt_rec)
qed

lemma nChoosek_misses_witness:
  "nChoosek 10 3 unkeyed_prng empty_bits = Some (Inl (Runtime_error ''rt error'')) \<and>
   (\<exists>w. nChoosek 5 5 unkeyed_prng empty_bits = Some (Inr (w, unkeyed_prng)) \<and>
      map (bit_at (mData w)) [0..<5] = [False, False, False, False, True])"
  by (rule nChoosek_misses) simp_all

end
