(* ===== verification/Prty_Columns.thy ===== *)
theory Prty_Columns
  imports Transpose Prng Matrix Message_Channel Code_Tables Bit_Vector
begin

text \<open>
  What the receiver and the sender of the OT extension of \<^verbatim>\<open>libPSI/PRTY2\<close> share: the loop that
  expands the generators into columns of bits, 128 columns of 1024 bits at a time, transposes them
  and copies the rows into a matrix of blocks; and the bits it leaves there.
\<close>

subsection \<open>The loops\<close>

definition superBlkSize :: nat where
  "superBlkSize = 8"

text \<open>Column \<open>tIdx\<close> of the buffer \<open>t\<close> (128 columns of eight blocks) is drawn from a generator.\<close>

definition gen_column :: "nat \<Rightarrow> block list list \<Rightarrow> prng \<Rightarrow> block list list \<times> prng" where
  "gen_column tIdx t g =
     (t[tIdx := ecbEncCounterMode (mAes g) (mBlockIdx g) superBlkSize (t ! tIdx)],
      g\<lparr>mBlockIdx := mBlockIdx g + of_nat superBlkSize\<rparr>)"

text \<open>
  The rows \<open>doneIdx\<close> to \<open>stopIdx\<close> of the matrix are taken from the transposed buffer, in groups of
  128; \<open>start\<close> is where the first goes and \<open>step\<close> what the pointer advances for each.
\<close>

definition copy_group :: "nat \<Rightarrow> nat \<Rightarrow> nat \<Rightarrow> block list list \<Rightarrow> matrix \<Rightarrow> nat \<Rightarrow> matrix" where
  "copy_group start step n t M j =
     foldl (\<lambda>M k. matrix_set (start + step * (128 * j + k)) (t ! k ! j) M) M [0..<min 128 (n - 128 * j)]"

definition copy_rows :: "nat \<Rightarrow> nat \<Rightarrow> nat \<Rightarrow> nat \<Rightarrow> block list list \<Rightarrow> matrix \<Rightarrow> matrix" where
  "copy_rows start step doneIdx stopIdx t M =
     foldl (copy_group start step (stopIdx - doneIdx) t) M [0..<(stopIdx - doneIdx + 127) div 128]"

definition stop_idx :: "nat \<Rightarrow> nat \<Rightarrow> nat" where
  "stop_idx rows doneIdx = doneIdx + min (128 * superBlkSize) (rows - doneIdx)"

text \<open>The loop over the 128 columns of group \<open>i\<close>, over the groups, and over the super blocks.\<close>

definition gen_step :: "nat \<Rightarrow> block list list \<times> prng list \<Rightarrow> nat \<Rightarrow> block list list \<times> prng list" where
  "gen_step i st tIdx =
     (let colIdx = i * 128 + tIdx; (t, g) = gen_column tIdx (fst st) (snd st ! colIdx)
      in (t, (snd st)[colIdx := g]))"

definition gen_columns :: "nat \<Rightarrow> block list list \<times> prng list \<Rightarrow> block list list \<times> prng list" where
  "gen_columns i st = foldl (gen_step i) st [0..<128]"

definition expand_group :: "nat \<Rightarrow> nat \<Rightarrow> nat \<Rightarrow> block list list \<times> prng list \<times> matrix \<Rightarrow> nat \<Rightarrow>
    block list list \<times> prng list \<times> matrix" where
  "expand_group step doneIdx stopIdx st i =
     (let (t, gs, M) = st;
          (t, gs) = gen_columns i (t, gs);
          t = sse_transpose128x1024 t
      in (t, gs, copy_rows (mStride M * doneIdx + i) step doneIdx stopIdx t M))"

definition expand_super :: "nat \<Rightarrow> nat \<Rightarrow> nat \<Rightarrow> (block list list \<times> prng list \<times> matrix) \<times> nat \<Rightarrow>
    (block list list \<times> prng list \<times> matrix) \<times> nat" where
  "expand_super step rows numCols st =
     (let (st, doneIdx) = st; stopIdx = stop_idx rows doneIdx
      in (foldl (expand_group step doneIdx stopIdx) st [0..<numCols div 128], stopIdx))"

definition numSuperBlocks :: "nat \<Rightarrow> nat" where
  "numSuperBlocks rows = (rows div 128 + superBlkSize - 1) div superBlkSize"

definition expand_all :: "nat \<Rightarrow> nat \<Rightarrow> nat \<Rightarrow> block list list \<times> prng list \<times> matrix \<Rightarrow>
    block list list \<times> prng list \<times> matrix" where
  "expand_all step rows numCols st = fst ((expand_super step rows numCols ^^ numSuperBlocks rows) (st, 0))"

subsection \<open>The bits of a row\<close>

text \<open>Bit \<open>r\<close> of the column of a generator from its counter \<open>b\<close> on.\<close>

definition column_bit :: "block list \<Rightarrow> u64 \<Rightarrow> nat \<Rightarrow> bool" where
  "column_bit k b r = bit (ecbEncBlock k (mm_set1_epi64x (b + of_nat (r div 128)))) (r mod 128)"

text \<open>The rows below \<open>n\<close> of a matrix hold the columns of the generators \<open>gs\<close>.\<close>

definition expanded :: "prng list \<Rightarrow> nat \<Rightarrow> matrix \<Rightarrow> bool" where
  "expanded gs n M \<longleftrightarrow> (\<forall>r < n. \<forall>i < mStride M. \<forall>c < 128.
     bit (mStore M ! (mStride M * r + i)) c \<longleftrightarrow>
     column_bit (mAes (gs ! (128 * i + c))) (mBlockIdx (gs ! (128 * i + c))) r)"

text \<open>The generators after \<open>s\<close> super blocks.\<close>

definition advance :: "nat \<Rightarrow> prng \<Rightarrow> prng" where
  "advance s g = g\<lparr>mBlockIdx := mBlockIdx g + of_nat (8 * s)\<rparr>"

lemma advance_simps [simp]:
  "mAes (advance s g) = mAes g" "mBlockIdx (advance s g) = mBlockIdx g + of_nat (8 * s)"
  "advance 0 g = g" "advance (Suc 0) (advance s g) = advance (Suc s) g"
  by (simp_all add: advance_def add.assoc algebra_simps)

lemma gen_column_eq:
  assumes "length (t ! j) = 8"
  shows "gen_column j t g =
    (t[j := map (\<lambda>i. ecbEncBlock (mAes g) (mm_set1_epi64x (mBlockIdx g + of_nat i))) [0..<8]], advance 1 g)"
  using assms by (simp add: gen_column_def superBlkSize_def ecbEncCounterMode_map filled_def advance_def)

lemma gen_columns_loop:
  assumes "wide t" and "(i + 1) * 128 \<le> length gs" and "n \<le> 128"
  shows "\<exists>t' gs'. foldl (gen_step i) (t, gs) [0..<n] = (t', gs') \<and> wide t' \<and> length gs' = length gs \<and>
    (\<forall>c. gs' ! c = (if i * 128 \<le> c \<and> c < i * 128 + n then advance 1 (gs ! c) else gs ! c)) \<and>
    (\<forall>c < n. t' ! c = map (\<lambda>j. ecbEncBlock (mAes (gs ! (i * 128 + c)))
       (mm_set1_epi64x (mBlockIdx (gs ! (i * 128 + c)) + of_nat j))) [0..<8])"
  using assms(3)
proof (induction n)
  case 0
  then show ?case using assms(1) by auto
next
  case (Suc n)
  then obtain t' gs' where IH: "foldl (gen_step i) (t, gs) [0..<n] = (t', gs')" "wide t'" "length gs' = length gs"
    and g: "\<And>c. gs' ! c = (if i * 128 \<le> c \<and> c < i * 128 + n then advance 1 (gs ! c) else gs ! c)"
    and c: "\<And>c. c < n \<Longrightarrow> t' ! c = map (\<lambda>j. ecbEncBlock (mAes (gs ! (i * 128 + c)))
       (mm_set1_epi64x (mBlockIdx (gs ! (i * 128 + c)) + of_nat j))) [0..<8]"
    by (auto simp only: Suc_leD)
  have l: "length (t' ! n) = 8" "length t' = 128" "n < 128"
    using IH(2) Suc.prems by (simp_all add: wide_def)
  have gn: "gs' ! (i * 128 + n) = gs ! (i * 128 + n)" using g by simp
  let ?col = "map (\<lambda>j. ecbEncBlock (mAes (gs ! (i * 128 + n)))
       (mm_set1_epi64x (mBlockIdx (gs ! (i * 128 + n)) + of_nat j))) [0..<8]"
  have "foldl (gen_step i) (t, gs) [0..<Suc n] =
      (t'[n := ?col], gs'[i * 128 + n := advance 1 (gs ! (i * 128 + n))])"
    by (simp only: upt_Suc foldl_append foldl_Cons foldl_Nil le0 if_True IH(1) gen_step_def fst_conv snd_conv Let_def
        gen_column_eq [OF l(1)] gn case_prod_conv)
  moreover have "wide (t'[n := ?col])"
    using IH(2) set_update_subset_insert [of t' n ?col] by (auto simp: wide_def)
  moreover have "i * 128 + n < length gs" using assms(2) l(3) by simp
  ultimately show ?case
    using g c l(2,3) IH(3) by (auto simp: nth_list_update less_Suc_eq)
qed


lemma gen_columns_expand:
  assumes "wide t" and "(i + 1) * 128 \<le> length gs"
  obtains t' gs' where "gen_columns i (t, gs) = (t', gs')" and "wide t'" and "length gs' = length gs"
    and "\<And>c. gs' ! c = (if i * 128 \<le> c \<and> c < i * 128 + 128 then advance 1 (gs ! c) else gs ! c)"
    and "\<And>c j. c < 128 \<Longrightarrow> j < 8 \<Longrightarrow> t' ! c ! j = ecbEncBlock (mAes (gs ! (i * 128 + c)))
       (mm_set1_epi64x (mBlockIdx (gs ! (i * 128 + c)) + of_nat j))"
  using gen_columns_loop [OF assms order_refl] unfolding gen_columns_def by fastforce

lemma gen_columns_rows:
  assumes "wide t" and "(i + 1) * 128 \<le> length gs"
    and "\<And>c. c < 128 \<Longrightarrow> gs ! (i * 128 + c) = advance s (gs0 ! (i * 128 + c))"
    and "gen_columns i (t, gs) = (t', gs')" and "c < 128" and "q < 1024"
  shows "bit (sse_transpose128x1024 t' ! (q mod 128) ! (q div 128)) c \<longleftrightarrow>
    column_bit (mAes (gs0 ! (i * 128 + c))) (mBlockIdx (gs0 ! (i * 128 + c))) (1024 * s + q)"
proof -
  have w: "wide t'" and t: "\<And>c j. c < 128 \<Longrightarrow> j < 8 \<Longrightarrow> t' ! c ! j = ecbEncBlock (mAes (gs ! (i * 128 + c)))
       (mm_set1_epi64x (mBlockIdx (gs ! (i * 128 + c)) + of_nat j))"
    using gen_columns_expand [OF assms(1,2)] assms(4) by (metis prod.inject)+
  have q: "q div 128 < 8" "q mod 128 < 128" using assms(6) by auto
  have "(1024 * s + q) div 128 = 8 * s + q div 128" "(1024 * s + q) mod 128 = q mod 128"
    using div_mult_self2 [of 128 q "8 * s"] mod_mult_self2 [of q 128 "8 * s"] by (simp_all add: add.commute)
  then show ?thesis
    using sse_transpose128x1024_bits [OF w q(2) assms(5) q(1)] t [OF assms(5) q(1)] assms(3) [OF assms(5)]
    by (simp add: column_bit_def add.assoc)
qed

subsection \<open>Copying rows\<close>

lemma foldl_upt_add: "foldl f s [0..<a + b] = foldl (\<lambda>s k. f s (a + k)) (foldl f s [0..<a]) [0..<b]"
  by (induction b) (simp_all add: upt_Suc_append)

text \<open>A loop over groups of \<open>g\<close> is one loop.\<close>

lemma foldl_groups:
  assumes "0 < (g :: nat)"
  shows "foldl (\<lambda>s j. foldl (\<lambda>s k. f s (g * j + k)) s [0..<min g (n - g * j)]) s [0..<m] = foldl f s [0..<min n (g * m)]"
proof (induction m)
  case (Suc m)
  have "min n (g * Suc m) = (if n \<le> g * m then n else g * m + min g (n - g * m))" by auto
  then show ?case using Suc by (cases "n \<le> g * m") (simp_all add: foldl_upt_add min_def)
qed simp

lemma copy_rows_single:
  "copy_rows start step doneIdx stopIdx t M =
    foldl (\<lambda>M q. matrix_set (start + step * q) (t ! (q mod 128) ! (q div 128)) M) M [0..<stopIdx - doneIdx]"
proof -
  define n where "n = stopIdx - doneIdx"
  have group: "copy_group start step n t M j =
    foldl (\<lambda>M k. matrix_set (start + step * (128 * j + k)) (t ! ((128 * j + k) mod 128) ! ((128 * j + k) div 128)) M)
      M [0..<min 128 (n - 128 * j)]" for M j
    unfolding copy_group_def by (intro foldl_cong refl) simp
  have "min n (128 * ((n + 127) div 128)) = n" by linarith
  then show ?thesis
    unfolding copy_rows_def n_def [symmetric] group [abs_def]
    by (subst foldl_groups [where g = 128]) simp_all
qed

lemma copy_rows_store:
  fixes t :: "block list list"
  assumes "0 < step" and "\<And>q. q < stopIdx - doneIdx \<Longrightarrow> start + step * q < length (mStore M)"
  defines "M' \<equiv> copy_rows start step doneIdx stopIdx t M"
  shows "length (mStore M') = length (mStore M) \<and> mStride M' = mStride M \<and> mSize M' = mSize M"
    and "q < stopIdx - doneIdx \<Longrightarrow> mStore M' ! (start + step * q) = t ! (q mod 128) ! (q div 128)"
    and "(\<And>q. q < stopIdx - doneIdx \<Longrightarrow> p \<noteq> start + step * q) \<Longrightarrow> mStore M' ! p = mStore M ! p"
proof -
  let ?M = "\<lambda>m. foldl (\<lambda>M q. matrix_set (start + step * q) (t ! (q mod 128) ! (q div 128)) M) M [0..<m]"
  have frame: "length (mStore (?M m)) = length (mStore M) \<and> mStride (?M m) = mStride M \<and> mSize (?M m) = mSize M" for m
    by (induction m) simp_all
  have set: "\<forall>q < m. mStore (?M m) ! (start + step * q) = t ! (q mod 128) ! (q div 128)"
    if "m \<le> stopIdx - doneIdx" for m
    using that
  proof (induction m)
    case (Suc m)
    have "start + step * m < length (mStore (?M m))" using assms(2) [of m] Suc.prems frame by simp
    then show ?case using Suc assms(1) by (auto simp: nth_list_update less_Suc_eq)
  qed simp
  have keep: "mStore (?M m) ! p = mStore M ! p" if "\<And>q. q < m \<Longrightarrow> p \<noteq> start + step * q" for m
    using that
  proof (induction m)
    case (Suc m)
    have "start + step * m \<noteq> p" using Suc.prems [of m] by simp
    then show ?case using Suc by simp
  qed simp
  show "length (mStore M') = length (mStore M) \<and> mStride M' = mStride M \<and> mSize M' = mSize M"
    unfolding M'_def copy_rows_single by (rule frame)
  show "mStore M' ! (start + step * q) = t ! (q mod 128) ! (q div 128)" if "q < stopIdx - doneIdx"
    unfolding M'_def copy_rows_single using set [OF order_refl] that by blast
  show "mStore M' ! p = mStore M ! p" if "\<And>q. q < stopIdx - doneIdx \<Longrightarrow> p \<noteq> start + step * q"
    unfolding M'_def copy_rows_single by (rule keep) (rule that)
qed


subsection \<open>All super blocks\<close>

text \<open>The bits of block \<open>i\<close> of row \<open>r\<close>.\<close>

definition row_block :: "prng list \<Rightarrow> matrix \<Rightarrow> nat \<Rightarrow> nat \<Rightarrow> bool" where
  "row_block gs M r i \<longleftrightarrow> (\<forall>c < 128. bit (mStore M ! (mStride M * r + i)) c \<longleftrightarrow>
     column_bit (mAes (gs ! (128 * i + c))) (mBlockIdx (gs ! (128 * i + c))) r)"

lemma expanded_iff: "expanded gs n M \<longleftrightarrow> (\<forall>r < n. \<forall>i < mStride M. row_block gs M r i)"
  by (simp add: expanded_def row_block_def)

lemma stride_index:
  "i < W \<Longrightarrow> i' < (W :: nat) \<Longrightarrow> W * r + i = W * r' + i' \<longleftrightarrow> r = r' \<and> i = i'"
proof
  assume i: "i < W" "i' < W" and e: "W * r + i = W * r' + i'"
  then have "(W * r + i) div W = (W * r' + i') div W" "(W * r + i) mod W = (W * r' + i') mod W" by simp_all
  then show "r = r' \<and> i = i'" using i by simp
qed simp

text \<open>
  The state after \<open>i\<close> groups of super block \<open>s\<close>: the generators of these groups have advanced once
  more, and their blocks of the rows up to \<open>stopIdx\<close> are there.
\<close>

definition group_inv :: "prng list \<Rightarrow> matrix \<Rightarrow> nat \<Rightarrow> nat \<Rightarrow> nat \<Rightarrow> block list list \<times> prng list \<times> matrix \<Rightarrow> bool" where
  "group_inv gs0 M0 n s i st \<longleftrightarrow> (case st of (t, gs, M) \<Rightarrow>
     wide t \<and> length gs = length gs0 \<and>
     (\<forall>c < length gs0. gs ! c = advance (if c < 128 * i then Suc s else s) (gs0 ! c)) \<and>
     length (mStore M) = length (mStore M0) \<and> mStride M = mStride M0 \<and> mSize M = mSize M0 \<and>
     (\<forall>r < n. \<forall>k < mStride M. r < (if k < i then 1024 * s + 1024 else 1024 * s) \<longrightarrow> row_block gs0 M r k))"

lemma expand_group_inv:
  assumes inv: "group_inv gs0 M0 n s i st" and W: "W = mStride M0" "i < W"
    and len: "length gs0 = 128 * W" "W * n \<le> length (mStore M0)" and s: "1024 * s < n"
  shows "group_inv gs0 M0 n s (Suc i) (expand_group W (1024 * s) (stop_idx n (1024 * s)) st i)"
proof -
  obtain t gs M where st: "st = (t, gs, M)" by (cases st) auto
  have t: "wide t" and gs: "length gs = length gs0"
    and adv: "\<And>c. c < length gs0 \<Longrightarrow> gs ! c = advance (if c < 128 * i then Suc s else s) (gs0 ! c)"
    and M: "length (mStore M) = length (mStore M0)" "mStride M = W" "mSize M = mSize M0"
    and rows: "\<And>r k. r < n \<Longrightarrow> k < W \<Longrightarrow> r < (if k < i then 1024 * s + 1024 else 1024 * s) \<Longrightarrow> row_block gs0 M r k"
    using inv W(1) by (auto simp: group_inv_def st)
  have i: "(i + 1) * 128 \<le> length gs" using len(1) gs W(2) by simp
  obtain t' gs' where g: "gen_columns i (t, gs) = (t', gs')" "wide t'" "length gs' = length gs"
    "\<And>c. gs' ! c = (if i * 128 \<le> c \<and> c < i * 128 + 128 then advance 1 (gs ! c) else gs ! c)"
    by (rule gen_columns_expand [OF t i], rule that)
  have pre: "gs ! (i * 128 + c) = advance s (gs0 ! (i * 128 + c))" if "c < 128" for c
    using adv [of "i * 128 + c"] i gs that by simp
  define stop where "stop = stop_idx n (1024 * s)"
  have stop: "stop - 1024 * s = min 1024 (n - 1024 * s)" by (simp add: stop_def stop_idx_def superBlkSize_def)
  define start where "start = W * (1024 * s) + i"
  define M' where "M' = copy_rows start W (1024 * s) stop (sse_transpose128x1024 t') M"
  have W0: "0 < W" using W(2) by simp
  have pos: "start + W * q = W * (1024 * s + q) + i" for q by (simp add: start_def distrib_left)
  have bound: "start + W * q < length (mStore M)" if "q < stop - 1024 * s" for q
  proof -
    have "q < n - 1024 * s" using that stop by simp
    then have "Suc (1024 * s + q) \<le> n" by linarith
    then have "W * Suc (1024 * s + q) \<le> length (mStore M)" using len(2) M(1) by (metis mult_le_mono2 order_trans)
    then show ?thesis using W(2) unfolding pos by simp
  qed
  note C = copy_rows_store [where stopIdx = stop and doneIdx = "1024 * s" and t = "sse_transpose128x1024 t'",
      OF W0 bound, folded M'_def]
  have new: "row_block gs0 M' r i" if r: "r < n" "1024 * s \<le> r" "r < 1024 * s + 1024" for r
  proof -
    obtain q where q: "r = 1024 * s + q" using r(2) le_Suc_ex by blast
    then have "q < stop - 1024 * s" "q < 1024" using r stop by auto
    then show ?thesis
      using C(2) [of q] gen_columns_rows [OF t i pre g(1), of _ q] C(1) M(2)
      by (simp add: row_block_def q pos mult.commute [of i])
  qed
  have keep: "row_block gs0 M' r k \<longleftrightarrow> row_block gs0 M r k" if "k < W" "k \<noteq> i \<or> r < 1024 * s" for r k
  proof -
    have "W * r + k \<noteq> start + W * q" for q
      unfolding pos using stride_index [OF that(1) W(2)] that(2) by auto
    then have "mStore M' ! (W * r + k) = mStore M ! (W * r + k)" by (intro C(3)) auto
    then show ?thesis using C(1) M(2) by (simp add: row_block_def)
  qed
  have "row_block gs0 M' r k"
    if r: "r < n" "k < W" "r < (if k < Suc i then 1024 * s + 1024 else 1024 * s)" for r k
    using new [OF r(1)] keep [OF r(2), of r] rows [OF r(1,2)] r(3)
    by (cases "k = i"; cases "r < 1024 * s") (auto split: if_splits)
  moreover have "gs' ! c = advance (if c < 128 * Suc i then Suc s else s) (gs0 ! c)" if "c < length gs0" for c
    using adv [OF that] unfolding g(4) by auto
  moreover have "wide (sse_transpose128x1024 t')" by (rule sse_transpose128x1024_columns) (rule g(2))
  moreover have "expand_group W (1024 * s) stop st i = (sse_transpose128x1024 t', gs', M')"
    by (simp add: expand_group_def Let_def st g(1) M'_def start_def M(2))
  ultimately show ?thesis
    using C(1) M g(3) gs W(1) unfolding stop_def [symmetric] group_inv_def by simp
qed


definition super_inv :: "prng list \<Rightarrow> matrix \<Rightarrow> nat \<Rightarrow> nat \<Rightarrow> (block list list \<times> prng list \<times> matrix) \<times> nat \<Rightarrow> bool" where
  "super_inv gs0 M0 n s st \<longleftrightarrow> group_inv gs0 M0 n s 0 (fst st) \<and> snd st = min n (1024 * s)"

lemma expand_super_inv:
  assumes inv: "super_inv gs0 M0 n s st" and len: "length gs0 = 128 * mStride M0" "mStride M0 * n \<le> length (mStore M0)"
    and s: "1024 * s < n"
  shows "super_inv gs0 M0 n (Suc s) (expand_super (mStride M0) n (length gs0) st)"
proof -
  let ?W = "mStride M0"
  obtain x d where st: "st = (x, d)" by (cases st)
  have d: "d = 1024 * s" using inv s by (simp add: super_inv_def st)
  define stop where "stop = stop_idx n (1024 * s)"
  have groups: "group_inv gs0 M0 n s i (foldl (expand_group ?W (1024 * s) stop) x [0..<i])" if "i \<le> ?W" for i
    using that
  proof (induction i)
    case 0
    then show ?case using inv by (simp add: super_inv_def st)
  next
    case (Suc i)
    then show ?case
      using expand_group_inv [OF _ refl _ len s, of i "foldl (expand_group ?W (1024 * s) stop) x [0..<i]"]
      by (simp add: stop_def)
  qed
  have W: "length gs0 div 128 = ?W" using len(1) by simp
  have e: "expand_super ?W n (length gs0) st = (foldl (expand_group ?W (1024 * s) stop) x [0..<?W], stop)"
    by (simp add: expand_super_def st d stop_def W Let_def)
  have "group_inv gs0 M0 n (Suc s) 0 (foldl (expand_group ?W (1024 * s) stop) x [0..<?W])"
    using groups [OF order_refl] len(1) by (auto simp: group_inv_def)
  moreover have "stop = min n (1024 * Suc s)" using s by (simp add: stop_def stop_idx_def superBlkSize_def)
  ultimately show ?thesis by (simp add: super_inv_def e)
qed

text \<open>
  The whole expansion: every row holds the bits of the columns, and each generator has moved on by
  eight blocks for every super block.
\<close>

lemma expand_all_expanded:
  assumes "wide t" and "length gs = 128 * mStride M" and "mStride M * n \<le> length (mStore M)"
  obtains t' M' where "expand_all (mStride M) n (length gs) (t, gs, M) = (t', map (advance (numSuperBlocks n)) gs, M')"
    and "length (mStore M') = length (mStore M)" and "mStride M' = mStride M" and "mSize M' = mSize M"
    and "128 dvd n \<Longrightarrow> expanded gs n M'"
proof -
  have start: "super_inv gs M n 0 ((t, gs, M), 0)" using assms(1) by (auto simp: super_inv_def group_inv_def)
  have blocks: "super_inv gs M n s ((expand_super (mStride M) n (length gs) ^^ s) ((t, gs, M), 0))"
    if "s \<le> numSuperBlocks n" for s
    using that
  proof (induction s)
    case (Suc s)
    have "8 * s < n div 128" using Suc.prems by (simp add: numSuperBlocks_def superBlkSize_def)
    then have "1024 * s < n" by linarith
    then show ?case using expand_super_inv [OF _ assms(2,3)] Suc by simp
  qed (simp add: start)
  define st where "st = expand_all (mStride M) n (length gs) (t, gs, M)"
  obtain t' gs' M' where st': "st = (t', gs', M')" by (cases st) auto
  have inv: "group_inv gs M n (numSuperBlocks n) 0 (t', gs', M')"
    using blocks [OF order_refl] st' by (simp add: super_inv_def expand_all_def st_def)
  then have "gs' = map (advance (numSuperBlocks n)) gs"
    by (intro nth_equalityI) (auto simp: group_inv_def)
  moreover have "expanded gs n M'" if n: "128 dvd n"
  proof -
    obtain m where "n = 128 * m" using n by blast
    then have "n \<le> 1024 * numSuperBlocks n" by (simp add: numSuperBlocks_def superBlkSize_def)
    then show ?thesis using inv by (auto simp: group_inv_def expanded_iff)
  qed
  ultimately show ?thesis
    using that inv st' by (auto simp: group_inv_def st_def)
qed

end
