(* ===== verification/Linear_Code_Properties.thy ===== *)
theory Linear_Code_Properties
  imports Code_Tables
begin

text \<open>
  The properties of the linear codes: what loading establishes, that every encoder computes the
  product of the plaintext with the generator, and the matrices the protocol loads.
\<close>

subsection \<open>Loading\<close>

lemma load_code_ok:
  assumes "load data c = Inr c'" and "mCodewordBitSize c' + 127 < 2 ^ 64"
  shows "code_ok c'"
proof -
  obtain c1 where g: "generateMod8Table c1 = Inr c'" and "mCodewordBitSize c1 \<noteq> 0"
    using assms(1) by (auto simp: load_def loadBinFile_def Let_def split: prod.splits if_splits)
  moreover have "mCodewordBitSize c' = mCodewordBitSize c1"
    using g by (auto simp: generateMod8Table_def Let_def split: if_splits)
  ultimately show ?thesis using generateMod8Table_ok [OF g] assms(2) by simp
qed

lemma tab_index_surj:
  assumes "i < R * (P2 * 256)"
  shows "\<exists>b < R. \<exists>v < 256. \<exists>w < P2. i = tab_index P2 b v w"
proof (intro exI conjI)
  have p: "0 < P2 * 256" and p2: "0 < P2" using assms by (auto intro: gr0I)
  have l: "i mod (P2 * 256) < P2 * 256" using p by simp
  show "i div (P2 * 256) < R" using assms by (simp add: less_mult_imp_div_less)
  show "i mod (P2 * 256) div P2 < 256" using l by (simp add: less_mult_imp_div_less mult.commute)
  show "i mod (P2 * 256) mod P2 < P2" using p2 by simp
  show "i = tab_index P2 (i div (P2 * 256)) (i mod (P2 * 256) div P2) (i mod (P2 * 256) mod P2)"
    unfolding tab_index_def by (metis add.assoc div_mult_mod_eq)
qed

lemma code_ok_unique:
  assumes "code_ok c" "code_ok c'" "mG c = mG c'" "mCodewordBitSize c = mCodewordBitSize c'"
  shows "c = c'"
proof -
  have sz: "codewordBlkSize c = codewordBlkSize c'" "plaintextBitSize c = plaintextBitSize c'"
    using assms(3,4) by (simp_all add: codewordBlkSize_def plaintextBitSize_def)
  then have f: "mPow2CodeSize c = mPow2CodeSize c'" "mPlaintextU8Size c = mPlaintextU8Size c'"
    "mU8RowCount c = mU8RowCount c'" "length (mG8 c) = length (mG8 c')"
    using assms(1,2) by (simp_all add: code_ok_def)
  have sub: "subcode c = subcode c'"
    using assms(3) sz by (simp add: subcode_def fun_eq_iff cong: if_cong)
  have "mG8 c = mG8 c'"
  proof (rule nth_equalityI [OF f(4)])
    fix i assume "i < length (mG8 c)"
    then have "i < roundUpTo (mPlaintextU8Size c) 8 * (mPow2CodeSize c * 256)"
      using assms(1) by (simp add: code_ok_def)
    from tab_index_surj [OF this] show "mG8 c ! i = mG8 c' ! i"
      using assms(1,2) f sub by (auto simp: code_ok_def)
  qed
  with f assms(3,4) show ?thesis by simp
qed

lemma code_ok_generate:
  assumes "code_ok c"
  shows "generateMod8Table (c'\<lparr>mCodewordBitSize := mCodewordBitSize c, mG := mG c\<rparr>) = Inr c"
proof -
  let ?c = "c'\<lparr>mCodewordBitSize := mCodewordBitSize c, mG := mG c\<rparr>"
  have "plaintextBitSize ?c = plaintextBitSize c"
    by (simp add: plaintextBitSize_def codewordBlkSize_def)
  with assms have "(plaintextBitSize ?c + 7) div 8 \<le> 64" by (simp add: code_ok_def)
  moreover have "codewordBlkSize ?c \<noteq> 0" using assms by (auto simp: code_ok_def codewordBlkSize_def)
  ultimately obtain c2 where g: "generateMod8Table ?c = Inr c2"
    by (auto simp: generateMod8Table_def Let_def sLinearCodePlainTextMaxSize_def)
  have "code_ok c2 \<and> mG c2 = mG ?c \<and> mCodewordBitSize c2 = mCodewordBitSize ?c"
    by (rule generateMod8Table_ok [OF g]) (use assms in \<open>simp_all add: code_ok_def\<close>)
  then have "c2 = c" by (intro code_ok_unique [OF _ assms]) simp_all
  with g show ?thesis by simp
qed

text \<open>
  C29: writing a code with \<open>writeBinFile\<close> and loading the bytes gives back the very code, the
  table of sub-codes included, whatever the object held before; the bound on the generator is
  that of every vector.
\<close>

theorem load_writeBinFile_roundtrip:
  assumes "code_ok c" and "length (mG c) \<le> vector_max_size"
  shows "load (writeBinFile c) c' = Inr c"
proof -
  have "0 < mCodewordBitSize c" "mCodewordBitSize c < 2 ^ 64"
    using assms(1) unfolding code_ok_def by (blast, linarith)
  then show ?thesis using load_writeBinFile assms code_ok_generate by simp
qed

definition empty_code :: linear_code where
  "empty_code = \<lparr>mU8RowCount = 0, mPow2CodeSize = 0, mPlaintextU8Size = 0, mCodewordBitSize = 0,
     mG = [], mG8 = []\<rparr>"

theorem load_writeBinFile_roundtrip_witness:
  "\<exists>c. load mx65by448 empty_code = Inr c \<and> load (writeBinFile c) empty_code = Inr c"
proof -
  obtain c where c: "load mx65by448 empty_code = Inr c" "code_ok c"
    and s: "mCodewordBitSize c = 448" "plaintextBitSize c = 65"
    using mx65by448_code by blast
  have "length (mG c) div 4 = 65" using s by (simp add: plaintextBitSize_def codewordBlkSize_def)
  then have "length (mG c) \<le> vector_max_size" by (simp add: vector_max_size_def)
  then show ?thesis using load_writeBinFile_roundtrip c by blast
qed

text \<open>
  C30: what loading does with any file of at least sixteen bytes, by the number \<open>n\<close> of blocks and
  the size \<open>cw\<close> of a codeword in its header: a zero size is an error, more blocks than a vector can
  hold is one, a size so large that the number of blocks of a codeword wraps to zero stops the
  process by a division, and a plaintext of more than 64 bytes is an error. Any other file is
  taken, also one that is shorter than its header says; here \<open>n\<close> is limited to what an address
  space of 48 bits can hold.
\<close>

theorem load_result:
  assumes "16 \<le> length data"
    and "n = unat (bytes_le (take 8 data) :: u64)" and "cw = unat (bytes_le (take 8 (drop 8 data)) :: u64)"
    and "blk = (cw + 127) mod 2 ^ 64 div 128" and "bits = n div blk"
  shows "(cw = 0 \<longrightarrow> load data c = Inl (Runtime_error ''bad code'')) \<and>
    (cw \<noteq> 0 \<and> 2 ^ 59 \<le> n \<longrightarrow> load data c = Inl (Length_error ''vector::_M_default_append'')) \<and>
    (cw \<noteq> 0 \<and> n < 2 ^ 59 \<and> blk = 0 \<longrightarrow> load data c = Inl (Signal ''SIGFPE'')) \<and>
    (n < 2 ^ 59 \<and> blk \<noteq> 0 \<and> 64 < (bits + 7) div 8 \<longrightarrow> load data c = Inl (Runtime_error ''plaintext'')) \<and>
    (n < 2 ^ 44 \<and> blk \<noteq> 0 \<and> (bits + 7) div 8 \<le> 64 \<longrightarrow>
      (\<exists>c'. load data c = Inr c' \<and> mCodewordBitSize c' = cw \<and> length (mG c') = n \<and> plaintextBitSize c' = bits))"
proof -
  define g where "g = bytes_blocks n (fst (istream_read (blocks_bytes (vec_resize n 0 (mG c)))
    \<lparr>stream_bytes = drop 16 data, fail_bit = False\<rparr>))"
  let ?c = "c\<lparr>mCodewordBitSize := cw, mG := g\<rparr>"
  have b: "codewordBlkSize ?c = blk" "plaintextBitSize ?c = bits"
    by (simp_all add: plaintextBitSize_def codewordBlkSize_def g_def assms(4,5))
  have max: "vector_max_size < n \<longleftrightarrow> 2 ^ 59 \<le> n" by (auto simp: vector_max_size_def)
  have cw: "blk \<noteq> 0 \<Longrightarrow> cw \<noteq> 0" by (auto simp: assms(4))
  have L: "load data c = (if cw = 0 then Inl (Runtime_error ''bad code'')
      else if 2 ^ 59 \<le> n then Inl (Length_error ''vector::_M_default_append'') else generateMod8Table ?c)"
    using assms(1) unfolding max [symmetric]
    by (simp add: load_def loadBinFile_def istream_read_enough Let_def g_def assms(2,3) split: prod.splits)
  have S: "generateMod8Table ?c = Inl (Signal ''SIGFPE'')" if "blk = 0"
    using that by (simp add: generateMod8Table_def Let_def b)
  have P: "generateMod8Table ?c = Inl (Runtime_error ''plaintext'')" if "blk \<noteq> 0" "64 < (bits + 7) div 8"
    using that by (simp add: generateMod8Table_def Let_def b sLinearCodePlainTextMaxSize_def)
  have O: "\<exists>c'. generateMod8Table ?c = Inr c' \<and> mCodewordBitSize c' = cw \<and> length (mG c') = n \<and>
      plaintextBitSize c' = bits" if "blk \<noteq> 0" "(bits + 7) div 8 \<le> 64"
    using that b by (simp add: generateMod8Table_def Let_def sLinearCodePlainTextMaxSize_def g_def)
  show ?thesis
  proof (intro conjI impI; (elim conjE)?)
    assume "n < 2 ^ 44" "blk \<noteq> 0" "(bits + 7) div 8 \<le> 64"
    moreover from this have "load data c = generateMod8Table ?c" using L cw by simp
    ultimately show "\<exists>c'. load data c = Inr c' \<and> mCodewordBitSize c' = cw \<and> length (mG c') = n \<and>
        plaintextBitSize c' = bits" using O by simp
  qed (simp_all add: L S P cw)
qed

theorem load_result_witness:
  "load (replicate 16 0) empty_code = Inl (Runtime_error ''bad code'') \<and>
   load (replicate 8 0 @ replicate 8 0xFF) empty_code = Inl (Signal ''SIGFPE'') \<and>
   load (replicate 16 0xFF) empty_code = Inl (Length_error ''vector::_M_default_append'') \<and>
   load ([0, 4] @ replicate 6 0 @ [1] @ replicate 7 0) empty_code = Inl (Runtime_error ''plaintext'')"
proof (intro conjI)
  have a: "(0 :: nat) = unat (bytes_le (take 8 (drop 8 (replicate 16 0))) :: u64)" by code_simp
  show "load (replicate 16 0) empty_code = Inl (Runtime_error ''bad code'')"
    using load_result [OF _ refl a refl refl] by simp
  have M: "unat (0xFFFFFFFFFFFFFFFF :: u64) = 0xFFFFFFFFFFFFFFFF" by simp
  have "bytes_le (take 8 (replicate 8 0 @ replicate 8 0xFF)) = (0 :: u64)"
    and "bytes_le (take 8 (drop 8 (replicate 8 0 @ replicate 8 0xFF))) = (0xFFFFFFFFFFFFFFFF :: u64)"
    by code_simp+
  then have z: "0 = unat (bytes_le (take 8 (replicate 8 0 @ replicate 8 0xFF)) :: u64)"
    and m: "0xFFFFFFFFFFFFFFFF = unat (bytes_le (take 8 (drop 8 (replicate 8 0 @ replicate 8 0xFF))) :: u64)"
    by (simp_all only: M unsigned_0)
  show "load (replicate 8 0 @ replicate 8 0xFF) empty_code = Inl (Signal ''SIGFPE'')"
    using load_result [OF _ z m refl refl, of empty_code] by simp
  have "bytes_le (take 8 (replicate 16 0xFF)) = (0xFFFFFFFFFFFFFFFF :: u64)"
    and "bytes_le (take 8 (drop 8 (replicate 16 0xFF))) = (0xFFFFFFFFFFFFFFFF :: u64)"
    by code_simp+
  then have f: "0xFFFFFFFFFFFFFFFF = unat (bytes_le (take 8 (replicate 16 0xFF)) :: u64)"
    and f': "0xFFFFFFFFFFFFFFFF = unat (bytes_le (take 8 (drop 8 (replicate 16 0xFF))) :: u64)"
    by (simp_all only: M)
  show "load (replicate 16 0xFF) empty_code = Inl (Length_error ''vector::_M_default_append'')"
    using load_result [OF _ f f' refl refl, of empty_code] by simp
  have n: "(1024 :: nat) = unat (bytes_le (take 8 ([0, 4] @ replicate 6 0 @ [1] @ replicate 7 0)) :: u64)"
    and w: "(1 :: nat) = unat (bytes_le (take 8 (drop 8 ([0, 4] @ replicate 6 0 @ [1] @ replicate 7 0))) :: u64)"
    by code_simp+
  show "load ([0, 4] @ replicate 6 0 @ [1] @ replicate 7 0) empty_code = Inl (Runtime_error ''plaintext'')"
    using load_result [OF _ n w refl refl, of empty_code] by simp
qed

subsection \<open>Encoding\<close>

lemmas encode_loaded = encode_words [OF load_code_ok]

text \<open>
  C7: the table driven encoder, on each of its paths (one block wide, two, up to four, up to
  eight, wider), writes the product of the plaintext bits with the generator into the first
  bytes of the codeword, leaves the others, and does not depend on the part of its local buffer
  that it never sets.
\<close>

theorem encode_product:
  assumes "load data c0 = Inr c" and "mCodewordBitSize c + 127 < 2 ^ 64"
    and "mPlaintextU8Size c \<le> length input" and "codewordU8Size c \<le> length codeword"
  shows "encode c junk input codeword =
    memcpy codeword (blocks_bytes (map (\<lambda>w. xsum (\<lambda>r. if bit_at input r
        then mG c ! (r * codewordBlkSize c + w) else 0) [0..<plaintextBitSize c]) [0..<codewordBlkSize c]))
      (codewordU8Size c)"
  using encode_loaded [OF assms] unfolding code_words_def code_word_def [abs_def] .

text \<open>A code of the protocol: 65 input bits, 448 bits of codeword.\<close>

lemma mx65_loaded:
  obtains c where "load mx65by448 empty_code = Inr c" and "code_ok c" and "mCodewordBitSize c = 448"
    and "plaintextBitSize c = 65" and "mPlaintextU8Size c = 9" and "codewordU8Size c = 56"
    and "codewordBlkSize c = 4"
proof -
  obtain c where c: "load mx65by448 empty_code = Inr c" "code_ok c"
    and s: "mCodewordBitSize c = 448" "plaintextBitSize c = 65"
    using mx65by448_code by blast
  moreover from c(2) s have "mPlaintextU8Size c = 9" by (simp add: code_ok_def)
  moreover have "codewordU8Size c = 56" "codewordBlkSize c = 4"
    using s by (simp_all add: codewordU8Size_def codewordBlkSize_def)
  ultimately show ?thesis using that by blast
qed

theorem encode_product_witness:
  "\<exists>c. load mx65by448 empty_code = Inr c \<and>
     encode c (replicate 64 7) (replicate 9 0) (replicate 160 1) = replicate 56 0 @ replicate 104 1"
proof -
  obtain c where c: "load mx65by448 empty_code = Inr c" "mCodewordBitSize c = 448"
      "mPlaintextU8Size c = 9" "codewordU8Size c = 56" "codewordBlkSize c = 4" "plaintextBitSize c = 65"
    by (rule mx65_loaded)
  have z: "bit_at (replicate 9 0) r = False" if "r < 65" for r
  proof -
    have "r div 8 < 9" using that by linarith
    then show ?thesis by (simp add: bit_at_def)
  qed
  have "encode c (replicate 64 7) (replicate 9 0) (replicate 160 1) =
      memcpy (replicate 160 1) (blocks_bytes (map (\<lambda>w. 0) [0..<4])) 56"
    unfolding encode_product [OF c(1), of "replicate 9 0" "replicate 160 1" "replicate 64 7",
        simplified c length_replicate, simplified]
    by (intro arg_cong2 [of _ _ _ _ "\<lambda>x y. memcpy x y 56"] arg_cong [of _ _ blocks_bytes] refl map_cong xsum_eq_zero)
      (simp add: z)
  also have "\<dots> = replicate 56 0 @ replicate 104 1" by code_simp
  finally show ?thesis using c(1) by blast
qed

text \<open>C28: the encoder that is unrolled for the BCH code computes what the general one does.\<close>

theorem encode_bch511_encode:
  assumes "load data c0 = Inr c" and "mCodewordBitSize c + 127 < 2 ^ 64"
    and "mPlaintextU8Size c = 10" and "mPow2CodeSize c = 4"
    and "10 \<le> length input" and "codewordU8Size c \<le> length codeword"
  shows "encode_bch511 c input codeword = Some (encode c junk input codeword)"
  using encode_bch511_words [OF load_code_ok [OF assms(1,2)]] encode_loaded [OF assms(1,2)] assms by simp

text \<open>Encoding is linear over exclusive or, byte for byte.\<close>

theorem encode_linear:
  assumes "load data c0 = Inr c" and "mCodewordBitSize c + 127 < 2 ^ 64"
    and "mPlaintextU8Size c \<le> length a" and "length a = length b"
    and "codewordU8Size c \<le> length x" and "length x = length y"
  shows "encode c junk (map2 (XOR) a b) (map2 (XOR) x y) =
    map2 (XOR) (encode c junk1 a x) (encode c junk2 b y)"
proof -
  note ok = load_code_ok [OF assms(1,2)]
  have "plaintextBitSize c \<le> 8 * length a" using ok assms(3) unfolding code_ok_def by linarith
  then have w: "code_words c (map2 (XOR) a b) = map2 (XOR) (code_words c a) (code_words c b)"
    using code_word_xor [OF assms(4)] by (simp add: code_words_def list_eq_iff_nth_eq)
  have bytes: "blocks_bytes (map2 (XOR) u v) = map2 (XOR) (blocks_bytes u) (blocks_bytes v)"
    if "length u = length v" for u v :: "block list"
    using that
    by (intro nth_equalityI) (simp_all add: nth_blocks_bytes block_byte_def less_mult_imp_div_less
        drop_bit_xor unsigned_xor_eq mult.commute)
  have sz: "codewordU8Size c \<le> 16 * codewordBlkSize c" by (rule code_sizes(2) [OF ok])
  show ?thesis
    using assms sz
    by (simp add: encode_loaded [OF assms(1,2)] w bytes memcpy_def take_map drop_map take_zip drop_zip
        zip_append map_append)
qed

theorem encode_linear_witness:
  "\<exists>c. load mx65by448 empty_code = Inr c \<and>
     encode c [] (map2 (XOR) (replicate 9 5) (replicate 9 6)) (map2 (XOR) (replicate 56 0) (replicate 56 0)) =
     map2 (XOR) (encode c [] (replicate 9 5) (replicate 56 0)) (encode c [] (replicate 9 6) (replicate 56 0))"
proof -
  obtain c where c: "load mx65by448 empty_code = Inr c" "mCodewordBitSize c = 448"
      "mPlaintextU8Size c = 9" "codewordU8Size c = 56"
    by (rule mx65_loaded)
  show ?thesis
    by (rule exI [of _ c], intro conjI, rule c(1), rule encode_linear [OF c(1)]) (simp_all add: c)
qed

text \<open>A BCH shaped code, eighty rows of four blocks.\<close>

theorem encode_bch511_encode_witness:
  "\<exists>c. load ([64, 1] @ replicate 6 0 @ [255, 1] @ replicate 6 0 @ replicate 5120 3) empty_code = Inr c \<and>
     encode_bch511 c (replicate 10 9) (replicate 64 0) = Some (encode c [] (replicate 10 9) (replicate 64 0))"
proof -
  let ?d = "[64, 1] @ replicate 6 0 @ [255, 1] @ replicate 6 0 @ replicate 5120 (3 :: u8)"
  have t: "take 8 ?d = [64, 1] @ replicate 6 0" "take 8 (drop 8 ?d) = [255, 1] @ replicate 6 0"
    by (simp_all add: numeral_eq_Suc)
  have n: "320 = unat (bytes_le (take 8 ?d) :: u64)" and w: "511 = unat (bytes_le (take 8 (drop 8 ?d)) :: u64)"
    unfolding t by code_simp+
  obtain c where c: "load ?d empty_code = Inr c" "mCodewordBitSize c = 511" "plaintextBitSize c = 80"
    using load_result [OF _ n w refl refl, of empty_code] by auto
  then have ok: "code_ok c" using load_code_ok by simp
  have b: "codewordBlkSize c = 4" "codewordU8Size c = 64"
    using c(2) by (simp_all add: codewordBlkSize_def codewordU8Size_def)
  from ok have "mPlaintextU8Size c = 10" "mPow2CodeSize c = 4"
    using c(3) b(1) by (simp_all add: code_ok_def pow2_code_size_def)
  then show ?thesis
    by (intro exI [of _ c] conjI c(1) encode_bch511_encode [OF c(1)]) (simp_all add: c b)
qed

subsection \<open>The matrices of the protocol\<close>

lemma table_case:
  assumes "code_table n = Some t" and "384 < cw" and "cw \<le> 896"
    and "\<exists>c'. load t empty_code = Inr c' \<and> code_ok c' \<and> mCodewordBitSize c' = cw \<and> plaintextBitSize c' = n"
  shows "\<exists>t c'. code_table n = Some t \<and> load t empty_code = Inr c' \<and> code_ok c' \<and> plaintextBitSize c' = n \<and>
    mPlaintextU8Size c' = (n + 7) div 8 \<and> codewordBlkSize c' \<in> {4..7} \<and> codewordU8Size c' \<le> 160"
proof -
  from assms(4) obtain c' where c: "load t empty_code = Inr c'" "code_ok c'" "mCodewordBitSize c' = cw"
    "plaintextBitSize c' = n" by blast
  have "codewordBlkSize c' = (cw + 127) div 128" "codewordU8Size c' = (cw + 7) div 8"
    using c(3) assms(3) by (simp_all add: codewordBlkSize_def codewordU8Size_def)
  moreover have "(cw + 127) div 128 \<in> {4..7}" "(cw + 7) div 8 \<le> 160" using assms(2,3) by auto
  ultimately show ?thesis using c assms(1) by (auto simp: code_ok_def)
qed

text \<open>
  C31: for every supported input size but 168 the matrix that is loaded has exactly that many
  rows, and its codewords fit the ten blocks that the code reserves for them.
\<close>

theorem code_table_sizes:
  assumes "n \<in> {65, 72, 84, 90, 132, 138, 144, 150, 156, 162, 174, 210, 217, 231, 238}"
  shows "\<exists>t c'. code_table n = Some t \<and> load t empty_code = Inr c' \<and> code_ok c' \<and> plaintextBitSize c' = n \<and>
    mPlaintextU8Size c' = (n + 7) div 8 \<and> codewordBlkSize c' \<in> {4..7} \<and> codewordU8Size c' \<le> 160"
    (is "?P n")
proof -
  have c65: "?P 65" by (rule table_case [OF _ _ _ mx65by448_code]) (simp_all add: code_table_def)
  have c72: "?P 72" by (rule table_case [OF _ _ _ mx72by462_code]) (simp_all add: code_table_def)
  have c84: "?P 84" by (rule table_case [OF _ _ _ mx84by495_code]) (simp_all add: code_table_def)
  have c90: "?P 90" by (rule table_case [OF _ _ _ mx90by495_code]) (simp_all add: code_table_def)
  have c132: "?P 132" by (rule table_case [OF _ _ _ mx132by583_code]) (simp_all add: code_table_def)
  have c138: "?P 138" by (rule table_case [OF _ _ _ mx138by594_code]) (simp_all add: code_table_def)
  have c144: "?P 144" by (rule table_case [OF _ _ _ mx144by605_code]) (simp_all add: code_table_def)
  have c150: "?P 150" by (rule table_case [OF _ _ _ mx150by616_code]) (simp_all add: code_table_def)
  have c156: "?P 156" by (rule table_case [OF _ _ _ mx156by627_code]) (simp_all add: code_table_def)
  have c162: "?P 162" by (rule table_case [OF _ _ _ mx162by638_code]) (simp_all add: code_table_def)
  have c174: "?P 174" by (rule table_case [OF _ _ _ mx174by660_code]) (simp_all add: code_table_def)
  have c210: "?P 210" by (rule table_case [OF _ _ _ mx210by732_code]) (simp_all add: code_table_def)
  have c217: "?P 217" by (rule table_case [OF _ _ _ mx217by744_code]) (simp_all add: code_table_def)
  have c231: "?P 231" by (rule table_case [OF _ _ _ mx231by768_code]) (simp_all add: code_table_def)
  have c238: "?P 238" by (rule table_case [OF _ _ _ mx238by776_code]) (simp_all add: code_table_def)
  from assms show ?thesis
    by (elim insertE emptyE) (simp_all only: c65 c72 c84 c90 c132 c138 c144 c150 c156 c162 c174 c210 c217 c231 c238)
qed

theorem code_table_sizes_witness:
  "\<exists>t c'. code_table 65 = Some t \<and> load t empty_code = Inr c' \<and> code_ok c' \<and> plaintextBitSize c' = 65 \<and>
    mPlaintextU8Size c' = (65 + 7) div 8 \<and> codewordBlkSize c' \<in> {4..7} \<and> codewordU8Size c' \<le> 160"
  by (rule code_table_sizes) simp

text \<open>
  C32: the table for 168 input bits is, byte for byte, the one for 162: its code has 162 rows, so
  the six upper bits of the last of the 21 bytes of a value never reach the codeword. Two values that agree
  in the first 162 bits have the same codeword.
\<close>

theorem code_168_is_162:
  "mx168by649 = mx162by638 \<and>
   (\<exists>c. load mx168by649 empty_code = Inr c \<and> mCodewordBitSize c = 638 \<and> plaintextBitSize c = 162 \<and>
     (\<forall>a b codeword. length a = 21 \<longrightarrow> length b = 21 \<longrightarrow> 80 \<le> length codeword \<longrightarrow>
       (\<forall>r < 162. bit_at a r = bit_at b r) \<longrightarrow> encode c junk a codeword = encode c junk' b codeword))"
proof -
  obtain c where c: "load mx168by649 empty_code = Inr c" "code_ok c"
    and s: "mCodewordBitSize c = 638" "plaintextBitSize c = 162"
    using mx168by649_code by blast
  have sz: "mPlaintextU8Size c = 21" "codewordU8Size c = 80"
    using s c(2) by (simp_all add: codewordU8Size_def code_ok_def)
  have "encode c junk a codeword = encode c junk' b codeword"
    if "length a = 21" "length b = 21" "80 \<le> length codeword" and eq: "\<forall>r < 162. bit_at a r = bit_at b r"
    for a b codeword
  proof -
    have "code_words c a = code_words c b"
      unfolding code_words_def code_word_def s(2)
      by (intro map_cong refl xsum_cong) (simp add: eq)
    then show ?thesis using encode_words [OF c(2)] that by (simp add: sz)
  qed
  moreover have "mx168by649 = mx162by638"
    by (simp only: mx168by649_def mx162by638_def mx168by649_part1_def mx162by638_part1_def
        mx168by649_part2_def mx162by638_part2_def mx168by649_part3_def mx162by638_part3_def
        mx168by649_part4_def mx162by638_part4_def mx168by649_part5_def mx162by638_part5_def
        mx168by649_part6_def mx162by638_part6_def)
  ultimately show ?thesis using c s by blast
qed

text \<open>Zero, and a value with the upper six bits set.\<close>

theorem code_168_is_162_witness:
  "\<exists>c. load mx168by649 empty_code = Inr c \<and>
     encode c [] (replicate 20 0 @ [252]) (replicate 160 0) = encode c [] (replicate 21 0) (replicate 160 0)"
proof -
  have b: "bit_at (replicate 20 0 @ [252]) r = bit_at (replicate 21 0) r" if "r < 162" for r
  proof (cases "r < 160")
    case True
    then have "r div 8 < 20" by linarith
    then show ?thesis by (simp add: bit_at_def nth_append)
  next
    case False
    with that have "r = 160 \<or> r = 161" by linarith
    then show ?thesis by (auto simp: bit_at_def nth_append bit_simps)
  qed
  have "length (replicate 20 0 @ [252 :: u8]) = 21" "length (replicate 21 (0 :: u8)) = 21"
    "80 \<le> length (replicate 160 (0 :: u8))" by simp_all
  with code_168_is_162 [of "[]" "[]"] b show ?thesis by blast
qed

end
