(* ===== verification/Prty_Receiver.thy ===== *)
theory Prty_Receiver
  imports Prty_Columns Linear_Code_Properties
begin

text \<open>
  The receiver of the OT extension, class \<^verbatim>\<open>PrtyMOtReceiver\<close>
  (\<^verbatim>\<open>libPSI/PRTY2/PrtyMOtReceiver.cpp\<close>, \<^verbatim>\<open>.h\<close>), in the build with \<^verbatim>\<open>NDEBUG\<close>. Members whose name the
  sender has too carry the suffix \<open>_r\<close>.
\<close>

subsection \<open>The class\<close>

record prty_receiver =
  mHasBase :: bool
  mMalicious_r :: bool
  mStatSecParam_r :: nat
  mCode_r :: linear_code
  mCorrectionIdx_r :: nat
  mInputByteCount_r :: nat
  mGens_r :: "(prng \<times> prng) list"
  mT0 :: matrix
  mRy :: matrix
  mT1 :: matrix
  mW :: matrix

text \<open>The members that the constructor does not set are arguments.\<close>

definition PrtyMOtReceiver :: "bool \<Rightarrow> nat \<Rightarrow> prty_receiver" where
  "PrtyMOtReceiver malicious corrections =
     \<lparr>mHasBase = False, mMalicious_r = malicious, mStatSecParam_r = 0, mCode_r = empty_code,
      mCorrectionIdx_r = corrections, mInputByteCount_r = 0, mGens_r = [], mT0 = empty_matrix,
      mRy = empty_matrix, mT1 = empty_matrix, mW = empty_matrix\<rparr>"

definition configure_r :: "bool \<Rightarrow> nat \<Rightarrow> nat \<Rightarrow> prty_receiver \<Rightarrow> prty_receiver res" where
  "configure_r maliciousSecure statSecParam inputBitCount r =
     res_bind (case code_table inputBitCount of None \<Rightarrow> Inr (mCode_r r) | Some t \<Rightarrow> load t (mCode_r r))
       (\<lambda>code. Inr (r\<lparr>mCode_r := code, mInputByteCount_r := (inputBitCount + 7) div 8,
          mStatSecParam_r := statSecParam, mMalicious_r := maliciousSecure,
          mGens_r := vec_resize (roundUpTo (mCodewordBitSize code) 128) (unkeyed_prng, unkeyed_prng) (mGens_r r)\<rparr>))"

definition getBaseOTCount_r :: "prty_receiver \<Rightarrow> nat res" where
  "getBaseOTCount_r r =
     (if mGens_r r \<noteq> [] then Inr (length (mGens_r r))
      else Inl (Runtime_error ''must call configure(...) before getBaseOTCount()''))"

text \<open>The buffer of a generator has 256 blocks by default (\<^verbatim>\<open>PRNG::SetSeed\<close>).\<close>

definition defaultBufferSize :: nat where
  "defaultBufferSize = 256"

definition setBaseOts_r :: "(block \<times> block) list \<Rightarrow> prty_receiver \<Rightarrow> prty_receiver res" where
  "setBaseOts_r baseRecvOts r =
     (if length baseRecvOts \<noteq> length (mGens_r r) then Inl (Runtime_error ''rt error'')
      else
        res_bind (foldl (\<lambda>gs i. res_bind gs (\<lambda>gs.
              res_bind (SetSeed (fst (baseRecvOts ! i)) defaultBufferSize (fst (gs ! i))) (\<lambda>g0.
              res_bind (SetSeed (snd (baseRecvOts ! i)) defaultBufferSize (snd (gs ! i))) (\<lambda>g1.
              Inr (gs[i := (g0, g1)])))))
            (Inr (vec_resize (length baseRecvOts) (unkeyed_prng, unkeyed_prng) (mGens_r r)))
            [0..<length (mGens_r r)])
          (\<lambda>gs. Inr (r\<lparr>mGens_r := gs, mHasBase := True\<rparr>)))"

subsection \<open>Initialisation\<close>

definition recv_step :: "nat \<Rightarrow> block list list \<times> block list list \<times> (prng \<times> prng) list \<Rightarrow> nat \<Rightarrow>
    block list list \<times> block list list \<times> (prng \<times> prng) list" where
  "recv_step i st tIdx =
     (let (t0, t1, gs) = st;
          colIdx = i * 128 + tIdx;
          (t0, g0) = gen_column tIdx t0 (fst (gs ! colIdx));
          (t1, g1) = gen_column tIdx t1 (snd (gs ! colIdx))
      in (t0, t1, gs[colIdx := (g0, g1)]))"

definition recv_group :: "nat \<Rightarrow> nat \<Rightarrow> block list list \<times> block list list \<times> (prng \<times> prng) list \<times> matrix \<times> matrix \<Rightarrow> nat \<Rightarrow>
    block list list \<times> block list list \<times> (prng \<times> prng) list \<times> matrix \<times> matrix" where
  "recv_group doneIdx stopIdx st i =
     (let (t0, t1, gs, M0, M1) = st;
          (t0, t1, gs) = foldl (recv_step i) (t0, t1, gs) [0..<128];
          t0 = sse_transpose128x1024 t0;
          t1 = sse_transpose128x1024 t1
      in (t0, t1, gs,
          copy_rows (mStride M0 * doneIdx + i) (mStride M0) doneIdx stopIdx t0 M0,
          copy_rows (mStride M1 * doneIdx + i) (mStride M0) doneIdx stopIdx t1 M1))"

definition recv_super :: "nat \<Rightarrow> nat \<Rightarrow> (block list list \<times> block list list \<times> (prng \<times> prng) list \<times> matrix \<times> matrix) \<times> nat \<Rightarrow>
    (block list list \<times> block list list \<times> (prng \<times> prng) list \<times> matrix \<times> matrix) \<times> nat" where
  "recv_super numOtExt numCols st =
     (let (st, doneIdx) = st; stopIdx = stop_idx numOtExt doneIdx
      in (foldl (recv_group doneIdx stopIdx) st [0..<numCols div 128], stopIdx))"

text \<open>The two local buffers are overwritten before they are read; here they start as zeros.\<close>

definition zero_columns :: "block list list" where
  "zero_columns = replicate 128 (replicate superBlkSize 0)"

definition init_r :: "nat \<Rightarrow> prty_receiver \<Rightarrow> prty_receiver res" where
  "init_r numOtExt r =
     (if \<not> mHasBase r then Inl (Runtime_error ''rt error'')
      else if mInputByteCount_r r = 0 then Inl (Runtime_error ''configure must be called first'')
      else
        let numOtExt = roundUpTo (numOtExt + mStatSecParam_r r) 128;
            numCols = length (mGens_r r);
            M0 = matrix_resize numOtExt (numCols div 128) (matrix_assign empty_matrix (mT0 r));
            M1 = matrix_resize numOtExt (numCols div 128) (matrix_assign empty_matrix (mT1 r));
            (t0, t1, gs, M0, M1) = fst ((recv_super numOtExt numCols ^^ numSuperBlocks numOtExt)
              ((zero_columns, zero_columns, mGens_r r, M0, M1), 0))
        in Inr (r\<lparr>mCorrectionIdx_r := 0,
              mW := matrix_resize numOtExt (plaintextBlkSize (mCode_r r)) (matrix_assign empty_matrix (mW r)),
              mT0 := M0, mT1 := M1, mRy := matrix_assign empty_matrix (mRy r), mGens_r := gs\<rparr>))"

subsection \<open>Corrections\<close>

text \<open>\<open>n\<close> bytes are written from block \<open>at\<close> on, and read from there.\<close>

definition matrix_write :: "nat \<Rightarrow> u8 list \<Rightarrow> nat \<Rightarrow> matrix \<Rightarrow> matrix" where
  "matrix_write at bs n M =
     M\<lparr>mStore := bytes_blocks (length (mStore M)) (copy_at (blocks_bytes (mStore M)) (16 * at) bs n)\<rparr>"

definition matrix_bytes :: "nat \<Rightarrow> matrix \<Rightarrow> u8 list" where
  "matrix_bytes at M = drop (16 * at) (blocks_bytes (mStore M))"

text \<open>The codeword of a word: ten blocks, zero where the encoder does not write.\<close>

definition codeword_of :: "linear_code \<Rightarrow> u8 list \<Rightarrow> u8 list \<Rightarrow> block list" where
  "codeword_of code junk input = bytes_blocks 10 (encode code junk input (blocks_bytes (replicate 10 0)))"

definition otCorrection_r :: "u8 list \<Rightarrow> nat \<Rightarrow> u8 list \<Rightarrow> prty_receiver \<Rightarrow> prty_receiver" where
  "otCorrection_r junk otIdx input r =
     (let t0 = (\<lambda>i. mStore (mT0 r) ! (mStride (mT0 r) * otIdx + i));
          t1Val = mStride (mT0 r) * otIdx;
          wVal = mStride (mW r) * otIdx;
          W = matrix_write wVal input (mInputByteCount_r r) (mW r);
          codeword = codeword_of (mCode_r r) junk (matrix_bytes wVal W);
          T1 = (if mStride (mT0 r) = 4
                then let T1 = foldl (\<lambda>T1 i. matrix_set (t1Val + i) (mStore T1 ! (t1Val + i) XOR codeword ! i) T1)
                                (mT1 r) [0..<4]
                     in foldl (\<lambda>T1 i. matrix_set (t1Val + i) (mStore T1 ! (t1Val + i) XOR t0 i) T1) T1 [0..<4]
                else foldl (\<lambda>T1 i. matrix_set (t1Val + i) (codeword ! i XOR t0 i XOR mStore T1 ! (t1Val + i)) T1)
                       (mT1 r) [0..<mStride (mT0 r)])
      in r\<lparr>mW := W, mT1 := T1\<rparr>)"

definition zeroEncode_r :: "nat \<Rightarrow> prty_receiver \<Rightarrow> prty_receiver" where
  "zeroEncode_r otIdx r =
     (let t0 = (\<lambda>i. mStore (mT0 r) ! (mStride (mT0 r) * otIdx + i));
          t1Val = mStride (mT0 r) * otIdx;
          wVal = mStride (mW r) * otIdx
      in r\<lparr>mW := foldl (\<lambda>W i. matrix_set (wVal + i) 0 W) (mW r) [0..<mStride (mW r)],
           mT1 := foldl (\<lambda>T1 i. matrix_set (t1Val + i) (t0 i XOR mStore T1 ! (t1Val + i)) T1)
                    (mT1 r) [0..<mStride (mT0 r)]\<rparr>)"

text \<open>
  The correction values are handed to the channel by address; the model sends what they hold at the
  time of the call (the protocol does not write the rows again).
\<close>

definition sendCorrection :: "nat \<Rightarrow> prty_receiver \<Rightarrow> channel \<Rightarrow> (prty_receiver \<times> channel) option" where
  "sendCorrection sendCount r chl =
     (let dest = mCorrectionIdx_r r * mStride (mT1 r);
          buff = blocks_bytes (take (mStride (mT1 r) * sendCount) (drop dest (mStore (mT1 r))))
      in map_option (\<lambda>chl. (r\<lparr>mCorrectionIdx_r := mCorrectionIdx_r r + sendCount\<rparr>, chl)) (asyncSend buff chl))"

text \<open>A copy with fresh base OTs drawn from the generators.\<close>

definition split_draw :: "((block \<times> block) list \<times> (prng \<times> prng) list) res option \<Rightarrow> nat \<Rightarrow>
    ((block \<times> block) list \<times> (prng \<times> prng) list) res option" where
  "split_draw st i =
     Option.bind st (\<lambda>st. case st of Inl e \<Rightarrow> Some (Inl e) | Inr (base, gs) \<Rightarrow>
       Option.bind (prng_get (fst (gs ! i)) 16) (\<lambda>r0. Option.bind (prng_get (snd (gs ! i)) 16) (\<lambda>r1.
         Some (res_bind r0 (\<lambda>(b0, g0). res_bind r1 (\<lambda>(b1, g1).
           Inr (base[i := (bytes_block b0, bytes_block b1)], gs[i := (g0, g1)])))))))"

definition split_r :: "prty_receiver \<Rightarrow> bool \<Rightarrow> nat \<Rightarrow> (prty_receiver \<times> prty_receiver) res option" where
  "split_r r malicious corrections =
     (let raw = (PrtyMOtReceiver malicious corrections)\<lparr>mCode_r := mCode_r r, mHasBase := mHasBase r,
            mMalicious_r := mMalicious_r r, mStatSecParam_r := mStatSecParam_r r,
            mInputByteCount_r := mInputByteCount_r r,
            mGens_r := vec_resize (length (mGens_r r)) (unkeyed_prng, unkeyed_prng) []\<rparr>
      in if mHasBase r
         then Option.bind (foldl split_draw (Some (Inr (replicate (length (mGens_r r)) (0, 0), mGens_r r)))
                  [0..<length (mGens_r r)])
                (\<lambda>st. Some (res_bind st (\<lambda>(base, gs). res_bind (setBaseOts_r base raw) (\<lambda>raw.
                   Inr (r\<lparr>mGens_r := gs\<rparr>, raw)))))
         else Some (Inr (r, raw)))"

subsection \<open>The two halves of the receiver\<close>

text \<open>One of the two matrices with its buffer and generators, \<open>f\<close> the projection of a pair.\<close>

lemma recv_step_half:
  assumes "i * 128 + tIdx < length gs"
  shows "(\<lambda>(t0, t1, gs). (t0, map fst gs)) (recv_step i (t0, t1, gs) tIdx) = gen_step i (t0, map fst gs) tIdx"
    and "(\<lambda>(t0, t1, gs). (t1, map snd gs)) (recv_step i (t0, t1, gs) tIdx) = gen_step i (t1, map snd gs) tIdx"
  using assms by (auto simp: recv_step_def gen_step_def Let_def gen_column_def map_update)

lemma recv_step_length: "length (snd (snd (recv_step i st tIdx))) = length (snd (snd st))"
  by (auto simp: recv_step_def Let_def gen_column_def split: prod.splits)

lemma recv_steps_half:
  assumes "i * 128 + n \<le> length gs"
  obtains t0' t1' gs' where "foldl (recv_step i) (t0, t1, gs) [0..<n] = (t0', t1', gs')" and "length gs' = length gs"
    and "foldl (gen_step i) (t0, map fst gs) [0..<n] = (t0', map fst gs')"
    and "foldl (gen_step i) (t1, map snd gs) [0..<n] = (t1', map snd gs')"
proof -
  have "length (snd (snd (foldl (recv_step i) (t0, t1, gs) [0..<m]))) = length gs \<and>
    foldl (gen_step i) (t0, map fst gs) [0..<m] = (\<lambda>(t0, t1, gs). (t0, map fst gs)) (foldl (recv_step i) (t0, t1, gs) [0..<m]) \<and>
    foldl (gen_step i) (t1, map snd gs) [0..<m] = (\<lambda>(t0, t1, gs). (t1, map snd gs)) (foldl (recv_step i) (t0, t1, gs) [0..<m])"
    if "i * 128 + m \<le> length gs" for m
    using that
  proof (induction m)
    case (Suc m)
    obtain a b c where "foldl (recv_step i) (t0, t1, gs) [0..<m] = (a, b, c)" by (metis prod_cases3)
    then show ?case using Suc recv_step_half [of i m c a b] recv_step_length [of i "(a, b, c)" m] by simp
  qed simp
  from this [OF assms] show ?thesis
    by (cases "foldl (recv_step i) (t0, t1, gs) [0..<n]") (auto intro: that)
qed

end
