(* ===== verification/Prty_Sender.thy ===== *)
theory Prty_Sender
  imports Prty_Receiver
begin

text \<open>
  The sender of the OT extension, class \<^verbatim>\<open>PrtyMOtSender\<close> (\<^verbatim>\<open>libPSI/PRTY2/PrtyMOtSender.cpp\<close>,
  \<^verbatim>\<open>.h\<close>), in the build with \<^verbatim>\<open>NDEBUG\<close>. Members whose name the receiver has too carry the
  suffix \<open>_s\<close>.
\<close>

subsection \<open>The class\<close>

record prty_sender =
  mCode_s :: linear_code
  mStatSecParam_s :: nat
  mMalicious_s :: bool
  mGens_s :: "prng list"
  mBaseChoiceBits :: bit_vector
  mChoiceBlks :: "block list"
  mT :: matrix
  mCorrectionVals :: matrix
  mQx :: matrix
  mCorrectionIdx_s :: nat
  mInputByteCount_s :: nat

definition PrtyMOtSender :: "bool \<Rightarrow> nat \<Rightarrow> prty_sender" where
  "PrtyMOtSender malicious corrections =
     \<lparr>mCode_s = empty_code, mStatSecParam_s = 0, mMalicious_s = malicious, mGens_s = [],
      mBaseChoiceBits = empty_bits, mChoiceBlks = [], mT = empty_matrix, mCorrectionVals = empty_matrix,
      mQx = empty_matrix, mCorrectionIdx_s = corrections, mInputByteCount_s = 0\<rparr>"

definition configure_s :: "bool \<Rightarrow> nat \<Rightarrow> nat \<Rightarrow> prty_sender \<Rightarrow> prty_sender res" where
  "configure_s maliciousSecure statSecParam inputBitCount s =
     res_bind (case code_table inputBitCount of None \<Rightarrow> Inr (mCode_s s) | Some t \<Rightarrow> load t (mCode_s s))
       (\<lambda>code. Inr (s\<lparr>mCode_s := code, mInputByteCount_s := (inputBitCount + 7) div 8,
          mStatSecParam_s := statSecParam, mMalicious_s := maliciousSecure,
          mGens_s := vec_resize (roundUpTo (mCodewordBitSize code) 128) unkeyed_prng (mGens_s s)\<rparr>))"

definition getBaseOTCount_s :: "prty_sender \<Rightarrow> nat res" where
  "getBaseOTCount_s s =
     (if mGens_s s \<noteq> [] then Inr (length (mGens_s s))
      else Inl (Runtime_error ''must call configure(...) before getBaseOTCount()''))"

definition hasBaseOts_s :: "prty_sender \<Rightarrow> bool" where
  "hasBaseOts_s s \<longleftrightarrow> mNumBits (mBaseChoiceBits s) > 0"

definition setBaseOts_s :: "block list \<Rightarrow> bit_vector \<Rightarrow> prty_sender \<Rightarrow> prty_sender res" where
  "setBaseOts_s baseRecvOts choices s =
     (if mNumBits choices \<noteq> length baseRecvOts then Inl (Runtime_error ''size mismatch'')
      else if mNumBits choices mod 128 \<noteq> 0 then Inl (Runtime_error ''only multiples of 128 are supported'')
      else
        let s = s\<lparr>mBaseChoiceBits := bv_assign choices (mBaseChoiceBits s)\<rparr>
        in res_bind (foldl (\<lambda>gs i. res_bind gs (\<lambda>gs.
              res_bind (SetSeed (baseRecvOts ! i) defaultBufferSize (gs ! i)) (\<lambda>g. Inr (gs[i := g]))))
            (Inr (vec_resize (mNumBits choices) unkeyed_prng (mGens_s s))) [0..<length baseRecvOts])
          (\<lambda>gs. Inr (s\<lparr>mGens_s := gs,
             mChoiceBlks := map (\<lambda>i. bytes_block (take 16 (drop (i * 16) (mData (mBaseChoiceBits s)))))
               [0..<mNumBits choices div 128]\<rparr>)))"

subsection \<open>Initialisation\<close>

definition init_s :: "nat \<Rightarrow> prty_sender \<Rightarrow> prty_sender res" where
  "init_s numOTExt s =
     (if mInputByteCount_s s = 0 then Inl (Runtime_error ''configure must be called first'')
      else
        let numOTExt = ((numOTExt + 127 + mStatSecParam_s s) div 128) * 128;
            numCols = length (mGens_s s);
            M = matrix_resize numOTExt (numCols div 128) (matrix_assign empty_matrix (mT s));
            (t, gs, M) = fst ((expand_super (mStride M) (matrix_rows M) numCols ^^ numSuperBlocks numOTExt)
              ((zero_columns, mGens_s s, M), 0))
        in Inr (s\<lparr>mCorrectionVals := matrix_resize numOTExt (numCols div 128) (matrix_assign empty_matrix (mCorrectionVals s)),
              mT := M, mQx := matrix_assign empty_matrix (mQx s), mCorrectionIdx_s := 0, mGens_s := gs\<rparr>))"

subsection \<open>Corrections\<close>

definition otCorrection_s :: "nat \<Rightarrow> prty_sender \<Rightarrow> prty_sender" where
  "otCorrection_s otIdx s =
     (let corVal = (\<lambda>i. mStore (mCorrectionVals s) ! (otIdx * mStride (mCorrectionVals s) + i));
          tVal = otIdx * mStride (mT s);
          M = (if mStride (mT s) = 4
               then let t = map (\<lambda>i. corVal i AND mChoiceBlks s ! i) [0..<4]
                    in foldl (\<lambda>M i. matrix_set (tVal + i) (mStore M ! (tVal + i) XOR t ! i) M) (mT s) [0..<4]
               else foldl (\<lambda>M i. matrix_set (tVal + i) (mStore M ! (tVal + i) XOR (corVal i AND mChoiceBlks s ! i)) M)
                      (mT s) [0..<mStride (mT s)])
      in s\<lparr>mT := M\<rparr>)"

text \<open>
  The offset is cast to a 32-bit signed integer: from \<open>2 ^ 31\<close> blocks on it is negative and the
  write is outside the buffer, which has no defined result (\<open>None\<close>).
\<close>

definition correction_offset :: "prty_sender \<Rightarrow> int" where
  "correction_offset s = sint (of_nat (mCorrectionIdx_s s * mStride (mCorrectionVals s)) :: 32 word)"

definition recvCorrection :: "nat \<Rightarrow> prty_sender \<Rightarrow> channel \<Rightarrow> (prty_sender \<times> channel) res option" where
  "recvCorrection recvCount s chl =
     (if correction_offset s < 0 then None
      else
        let dest = nat (correction_offset s);
            n = recvCount * mStride (mCorrectionVals s) * 16
        in Option.bind (channel_recv n chl) (\<lambda>r. Some (res_bind r (\<lambda>(bs, chl).
             Inr (s\<lparr>mCorrectionVals := matrix_write dest bs n (mCorrectionVals s),
                    mCorrectionIdx_s := mCorrectionIdx_s s + recvCount\<rparr>, chl)))))"

text \<open>The other overload takes as many corrections as were sent, at most those that are missing.\<close>

definition recvCorrection_any :: "prty_sender \<Rightarrow> channel \<Rightarrow> (nat \<times> prty_sender \<times> channel) res option" where
  "recvCorrection_any s chl =
     (if correction_offset s < 0 then None
      else
        let dest = nat (correction_offset s);
            stride = mStride (mCorrectionVals s);
            maxReceiveCount = (matrix_rows (mCorrectionVals s) - mCorrectionIdx_s s) * stride
        in Option.bind (channel_recv_atMost maxReceiveCount chl) (\<lambda>r. Some (res_bind r (\<lambda>(bs, chl).
             let receivedSize = length bs div 16
             in if receivedSize mod stride \<noteq> 0
                then Inl (Runtime_error ''An even number of correction blocks were not sent.'')
                else
                  let numCorrections = receivedSize div stride
                  in Inr (numCorrections,
                       s\<lparr>mCorrectionVals := matrix_write dest bs (length bs) (mCorrectionVals s),
                         mCorrectionIdx_s := mCorrectionIdx_s s + numCorrections\<rparr>, chl)))))"

text \<open>A copy with fresh base OTs drawn from the generators.\<close>

definition split_draw_s :: "(block list \<times> prng list) res option \<Rightarrow> nat \<Rightarrow> (block list \<times> prng list) res option" where
  "split_draw_s st i =
     Option.bind st (\<lambda>st. case st of Inl e \<Rightarrow> Some (Inl e) | Inr (base, gs) \<Rightarrow>
       Option.bind (prng_get (gs ! i) 16) (\<lambda>r. Some (res_bind r (\<lambda>(b, g).
         Inr (base[i := bytes_block b], gs[i := g])))))"

definition split_s :: "prty_sender \<Rightarrow> bool \<Rightarrow> nat \<Rightarrow> (prty_sender \<times> prty_sender) res option" where
  "split_s s malicious corrections =
     (let raw = (PrtyMOtSender malicious corrections)\<lparr>mCode_s := mCode_s s,
            mInputByteCount_s := mInputByteCount_s s, mStatSecParam_s := mStatSecParam_s s,
            mGens_s := vec_resize (length (mGens_s s)) unkeyed_prng [], mMalicious_s := mMalicious_s s\<rparr>
      in if hasBaseOts_s s
         then Option.bind (foldl split_draw_s (Some (Inr (replicate (length (mGens_s s)) 0, mGens_s s)))
                  [0..<length (mGens_s s)])
                (\<lambda>st. Some (res_bind st (\<lambda>(base, gs). res_bind (setBaseOts_s base (mBaseChoiceBits s) raw) (\<lambda>raw.
                   Inr (s\<lparr>mGens_s := gs\<rparr>, raw)))))
         else Some (Inr (s, raw)))"

end
