(* ===== verification/Prty_Init.thy ===== *)
theory Prty_Init
  imports Prty_Sender
begin

text \<open>
  What \<open>init\<close> leaves in the matrices of the receiver and the sender of the OT extension: row \<open>r\<close> holds
  bit \<open>r\<close> of the columns of the generators. The loop of the receiver, which works on pairs of generators,
  is shown to refine that of the sender on each half.
\<close>

subsection \<open>The two halves of the receiver\<close>

lemma copy_rows_frame [simp]:
  "mStride (copy_rows start step doneIdx stopIdx t M) = mStride M"
  "mSize (copy_rows start step doneIdx stopIdx t M) = mSize M"
  "length (mStore (copy_rows start step doneIdx stopIdx t M)) = length (mStore M)"
proof -
  have "mStride (foldl (\<lambda>M q. matrix_set (f q) (g q) M) M xs) = mStride M \<and>
    mSize (foldl (\<lambda>M q. matrix_set (f q) (g q) M) M xs) = mSize M \<and>
    length (mStore (foldl (\<lambda>M q. matrix_set (f q) (g q) M) M xs)) = length (mStore M)"
    for f :: "nat \<Rightarrow> nat" and g :: "nat \<Rightarrow> block" and xs
    by (induction xs arbitrary: M) simp_all
  then show "mStride (copy_rows start step doneIdx stopIdx t M) = mStride M"
    "mSize (copy_rows start step doneIdx stopIdx t M) = mSize M"
    "length (mStore (copy_rows start step doneIdx stopIdx t M)) = length (mStore M)"
    unfolding copy_rows_single by simp_all
qed

type_synonym recv_state = "block list list \<times> block list list \<times> (prng \<times> prng) list \<times> matrix \<times> matrix"

text \<open>The simulation relation: the state of the receiver is the two states of the sender side by side.\<close>

definition halves :: "nat \<Rightarrow> nat \<Rightarrow> recv_state \<Rightarrow> block list list \<times> prng list \<times> matrix \<Rightarrow>
    block list list \<times> prng list \<times> matrix \<Rightarrow> bool" where
  "halves W n st x0 x1 \<longleftrightarrow> (case st of (t0, t1, gs, M0, M1) \<Rightarrow>
     x0 = (t0, map fst gs, M0) \<and> x1 = (t1, map snd gs, M1) \<and> length gs = n \<and> mStride M0 = W \<and> mStride M1 = W)"

lemma recv_group_halves:
  assumes "halves W n st x0 x1" and "(i + 1) * 128 \<le> n"
  shows "halves W n (recv_group doneIdx stopIdx st i) (expand_group W doneIdx stopIdx x0 i) (expand_group W doneIdx stopIdx x1 i)"
proof -
  obtain t0 t1 gs M0 M1 where st: "st = (t0, t1, gs, M0, M1)" by (cases st) auto
  have h: "x0 = (t0, map fst gs, M0)" "x1 = (t1, map snd gs, M1)" "length gs = n" "mStride M0 = W" "mStride M1 = W"
    using assms(1) by (simp_all add: halves_def st)
  have "i * 128 + 128 \<le> length gs" using assms(2) h(3) by simp
  then obtain t0' t1' gs' where s: "foldl (recv_step i) (t0, t1, gs) [0..<128] = (t0', t1', gs')" "length gs' = length gs"
    "foldl (gen_step i) (t0, map fst gs) [0..<128] = (t0', map fst gs')"
    "foldl (gen_step i) (t1, map snd gs) [0..<128] = (t1', map snd gs')"
    by (rule recv_steps_half)
  show ?thesis
    using h s(2) by (simp add: halves_def st recv_group_def expand_group_def gen_columns_def Let_def s(1,3,4) del: upt_Suc)
qed

lemma recv_super_halves:
  fixes rows :: nat
  assumes "halves W n (fst st) (fst y0) (fst y1)" and "snd y0 = snd st" and "snd y1 = snd st"
  defines "st' \<equiv> recv_super rows n st" and "y0' \<equiv> expand_super W rows n y0" and "y1' \<equiv> expand_super W rows n y1"
  shows "halves W n (fst st') (fst y0') (fst y1') \<and> snd y0' = snd st' \<and> snd y1' = snd st'"
proof -
  obtain x d where st: "st = (x, d)" by (cases st)
  obtain x0 x1 where y: "y0 = (x0, d)" "y1 = (x1, d)" using assms(2,3) st by (metis prod.collapse snd_conv)
  have "halves W n (foldl (recv_group d s) x [0..<m]) (foldl (expand_group W d s) x0 [0..<m]) (foldl (expand_group W d s) x1 [0..<m])"
    if "m \<le> n div 128" for m s
    using that
  proof (induction m)
    case (Suc m)
    then have "(m + 1) * 128 \<le> n" by simp
    with Suc show ?case by (auto intro: recv_group_halves)
  qed (use assms(1) in \<open>simp add: st y\<close>)
  from this [OF order_refl] show ?thesis
    by (simp add: st'_def y0'_def y1'_def st y recv_super_def expand_super_def Let_def)
qed

lemma recv_all_halves:
  assumes "halves W n st x0 x1"
  shows "halves W n (fst ((recv_super rows n ^^ numSuperBlocks rows) (st, 0)))
    (expand_all W rows n x0) (expand_all W rows n x1)"
proof -
  have "halves W n (fst ((recv_super rows n ^^ k) (st, 0))) (fst ((expand_super W rows n ^^ k) (x0, 0)))
      (fst ((expand_super W rows n ^^ k) (x1, 0))) \<and>
    snd ((expand_super W rows n ^^ k) (x0, 0)) = snd ((recv_super rows n ^^ k) (st, 0)) \<and>
    snd ((expand_super W rows n ^^ k) (x1, 0)) = snd ((recv_super rows n ^^ k) (st, 0))" for k
  proof (induction k)
    case (Suc k)
    then show ?case
      using recv_super_halves [of W n "(recv_super rows n ^^ k) (st, 0)" "(expand_super W rows n ^^ k) (x0, 0)"
          "(expand_super W rows n ^^ k) (x1, 0)" rows]
      by simp
  qed (simp add: assms)
  then show ?thesis by (simp add: expand_all_def)
qed

subsection \<open>\<open>init\<close>\<close>

lemma wide_zero_columns: "wide zero_columns"
  by (simp add: wide_def zero_columns_def superBlkSize_def)

definition advance2 :: "nat \<Rightarrow> prng \<times> prng \<Rightarrow> prng \<times> prng" where
  "advance2 s p = (advance s (fst p), advance s (snd p))"

text \<open>The matrices of a receiver and of a sender are well formed, and the columns come in groups of 128.\<close>

definition recv_ok :: "prty_receiver \<Rightarrow> bool" where
  "recv_ok r \<longleftrightarrow> matrix_ok (mT0 r) \<and> matrix_ok (mT1 r) \<and> matrix_ok (mW r) \<and> matrix_ok (mRy r) \<and>
     128 dvd length (mGens_r r)"

definition send_ok :: "prty_sender \<Rightarrow> bool" where
  "send_ok s \<longleftrightarrow> matrix_ok (mT s) \<and> matrix_ok (mCorrectionVals s) \<and> matrix_ok (mQx s) \<and>
     128 dvd length (mGens_s s)"

lemma init_r_result:
  fixes n :: nat
  assumes "recv_ok r" and "mHasBase r" and "mInputByteCount_r r \<noteq> 0"
  defines "N \<equiv> roundUpTo (n + mStatSecParam_r r) 128" and "W \<equiv> length (mGens_r r) div 128"
  obtains M0 M1 where "init_r n r = Inr (r\<lparr>mCorrectionIdx_r := 0,
      mW := matrix_resize N (plaintextBlkSize (mCode_r r)) (matrix_assign empty_matrix (mW r)),
      mT0 := M0, mT1 := M1, mRy := matrix_assign empty_matrix (mRy r),
      mGens_r := map (advance2 (numSuperBlocks N)) (mGens_r r)\<rparr>)"
    and "mStride M0 = W" and "mStride M1 = W" and "W * N \<le> length (mStore M0)" and "W * N \<le> length (mStore M1)"
    and "mSize M0 = N * W" and "mSize M1 = N * W"
    and "expanded (map fst (mGens_r r)) N M0" and "expanded (map snd (mGens_r r)) N M1"
proof -
  let ?gs = "mGens_r r"
  obtain m where m: "length ?gs = 128 * m" using assms(1) by (auto simp: recv_ok_def)
  then have W: "length ?gs = 128 * W" by (simp add: W_def)
  define A0 where "A0 = matrix_resize N W (matrix_assign empty_matrix (mT0 r))"
  define A1 where "A1 = matrix_resize N W (matrix_assign empty_matrix (mT1 r))"
  have ok: "matrix_ok (mT0 r)" "matrix_ok (mT1 r)" using assms(1) by (simp_all add: recv_ok_def)
  note C0 = matrix_clear_resize [OF ok(1), where rows = N and columns = W, folded A0_def]
  note C1 = matrix_clear_resize [OF ok(2), where rows = N and columns = W, folded A1_def]
  have dvd: "128 dvd N" by (simp add: N_def)
  have l0: "length (map fst ?gs) = 128 * mStride A0" and b0: "mStride A0 * N \<le> length (mStore A0)"
    using W C0 by (simp_all add: mult.commute)
  have l1: "length (map snd ?gs) = 128 * mStride A1" and b1: "mStride A1 * N \<le> length (mStore A1)"
    using W C1 by (simp_all add: mult.commute)
  obtain t0 M0 where E0: "expand_all (mStride A0) N (length (map fst ?gs)) (zero_columns, map fst ?gs, A0) =
      (t0, map (advance (numSuperBlocks N)) (map fst ?gs), M0)"
    "length (mStore M0) = length (mStore A0)" "mStride M0 = mStride A0" "mSize M0 = mSize A0"
    "expanded (map fst ?gs) N M0"
    by (rule expand_all_expanded [OF wide_zero_columns l0 b0], rule that, assumption+) (use dvd in blast)
  obtain t1 M1 where E1: "expand_all (mStride A1) N (length (map snd ?gs)) (zero_columns, map snd ?gs, A1) =
      (t1, map (advance (numSuperBlocks N)) (map snd ?gs), M1)"
    "length (mStore M1) = length (mStore A1)" "mStride M1 = mStride A1" "mSize M1 = mSize A1"
    "expanded (map snd ?gs) N M1"
    by (rule expand_all_expanded [OF wide_zero_columns l1 b1], rule that, assumption+) (use dvd in blast)
  have "halves W (length ?gs) (zero_columns, zero_columns, ?gs, A0, A1) (zero_columns, map fst ?gs, A0) (zero_columns, map snd ?gs, A1)"
    using C0(2) C1(2) by (simp add: halves_def)
  from recv_all_halves [OF this, of N]
  obtain gs' where f: "fst ((recv_super N (length ?gs) ^^ numSuperBlocks N) ((zero_columns, zero_columns, ?gs, A0, A1), 0)) =
      (t0, t1, gs', M0, M1)"
    and "map fst gs' = map (advance (numSuperBlocks N)) (map fst ?gs)"
    and "map snd gs' = map (advance (numSuperBlocks N)) (map snd ?gs)" and "length gs' = length ?gs"
    using E0(1) E1(1) C0(2) C1(2) by (auto simp: halves_def)
  then have "gs' = map (advance2 (numSuperBlocks N)) ?gs"
    by (intro nth_equalityI prod_eqI) (simp_all add: advance2_def list_eq_iff_nth_eq)
  with f have "init_r n r = Inr (r\<lparr>mCorrectionIdx_r := 0,
      mW := matrix_resize N (plaintextBlkSize (mCode_r r)) (matrix_assign empty_matrix (mW r)),
      mT0 := M0, mT1 := M1, mRy := matrix_assign empty_matrix (mRy r),
      mGens_r := map (advance2 (numSuperBlocks N)) (mGens_r r)\<rparr>)"
    using assms(2,3) unfolding init_r_def Let_def N_def [symmetric] W_def [symmetric] A0_def [symmetric] A1_def [symmetric]
    by simp
  then show ?thesis
    using that E0 E1 C0 C1 dvd by (simp add: mult.commute)
qed

lemma init_s_result:
  fixes n :: nat
  assumes "send_ok s" and "mInputByteCount_s s \<noteq> 0"
  defines "N \<equiv> roundUpTo (n + mStatSecParam_s s) 128" and "W \<equiv> length (mGens_s s) div 128"
  assumes "0 < W"
  obtains M where "init_s n s = Inr (s\<lparr>
      mCorrectionVals := matrix_resize N W (matrix_assign empty_matrix (mCorrectionVals s)),
      mT := M, mQx := matrix_assign empty_matrix (mQx s), mCorrectionIdx_s := 0,
      mGens_s := map (advance (numSuperBlocks N)) (mGens_s s)\<rparr>)"
    and "mStride M = W" and "W * N \<le> length (mStore M)" and "mSize M = N * W" and "expanded (mGens_s s) N M"
proof -
  let ?gs = "mGens_s s"
  have "128 dvd length ?gs" using assms(1) by (simp add: send_ok_def)
  then have W: "length ?gs = 128 * W" by (simp add: W_def)
  define A where "A = matrix_resize N W (matrix_assign empty_matrix (mT s))"
  have ok: "matrix_ok (mT s)" using assms(1) by (simp add: send_ok_def)
  note C = matrix_clear_resize [OF ok, where rows = N and columns = W, folded A_def]
  have rows: "matrix_rows A = N" using matrix_rows_clear [OF ok assms(5), where rows = N] by (simp add: A_def)
  have l: "length ?gs = 128 * mStride A" and b: "mStride A * N \<le> length (mStore A)"
    using W C by (simp_all add: mult.commute)
  have N: "N = ((n + 127 + mStatSecParam_s s) div 128) * 128"
    by (simp add: N_def roundUpTo_def add.commute add.left_commute)
  have dvd: "128 dvd N" by (simp add: N_def)
  obtain t M where E: "expand_all (mStride A) N (length ?gs) (zero_columns, ?gs, A) =
      (t, map (advance (numSuperBlocks N)) ?gs, M)"
    "length (mStore M) = length (mStore A)" "mStride M = mStride A" "mSize M = mSize A"
    "expanded ?gs N M"
    by (rule expand_all_expanded [OF wide_zero_columns l b], rule that, assumption+) (use dvd in blast)
  have "init_s n s = Inr (s\<lparr>
      mCorrectionVals := matrix_resize N W (matrix_assign empty_matrix (mCorrectionVals s)),
      mT := M, mQx := matrix_assign empty_matrix (mQx s), mCorrectionIdx_s := 0,
      mGens_s := map (advance (numSuperBlocks N)) (mGens_s s)\<rparr>)"
    using assms(2) E(1) rows
    unfolding init_s_def Let_def N [symmetric] W_def [symmetric] A_def [symmetric] expand_all_def
    by simp
  then show ?thesis
    using that E C by (simp add: mult.commute)
qed

end
