(* ===== verification/Prty_Correct.thy ===== *)
theory Prty_Correct
  imports Prty_Init
begin

text \<open>
  The relation that the OT extension establishes: after the corrections of the receiver have reached the
  sender, the sender's row is the receiver's row plus the codeword of the receiver's choice, masked by
  the choice bits of the sender.
\<close>

subsection \<open>Codewords\<close>

lemma code_word_cong:
  assumes "\<And>r. r < plaintextBitSize c \<Longrightarrow> bit_at a r = bit_at b r"
  shows "code_word c a w = code_word c b w"
  unfolding code_word_def using assms by (intro xsum_cong) auto

lemma bit_codeword_of:
  assumes "code_ok c" and "mPlaintextU8Size c \<le> length input" and "codewordU8Size c \<le> 160"
    and "i < codewordBlkSize c" and "i < 10" and "n < 128"
  shows "bit (codeword_of c junk input ! i) n \<longleftrightarrow> 16 * i + n div 8 < codewordU8Size c \<and> bit (code_word c input i) n"
proof -
  let ?z = "blocks_bytes (replicate 10 0)" and ?w = "blocks_bytes (code_words c input)"
  have U: "codewordU8Size c \<le> 16 * codewordBlkSize c" by (rule code_sizes(2) [OF assms(1)])
  have n: "n div 8 < 16" using assms(6) by (simp add: less_mult_imp_div_less)
  have p: "16 * i + n div 8 < 160" using assms(5) n by simp
  have e: "codeword_of c junk input = bytes_blocks 10 (memcpy ?z ?w (codewordU8Size c))"
    using assms(3) by (simp add: codeword_of_def encode_words [OF assms(1,2)])
  have len: "length (memcpy ?z ?w (codewordU8Size c)) = 160" using U assms(3) by simp
  have nth: "memcpy ?z ?w (codewordU8Size c) ! (16 * i + n div 8) =
      (if 16 * i + n div 8 < codewordU8Size c then block_byte (code_word c input i) (n div 8) else 0)"
    using U assms(3,4) p n by (simp add: nth_memcpy nth_blocks_bytes code_words_def block_byte_def)
  have "bit (codeword_of c junk input ! i) n \<longleftrightarrow> bit (memcpy ?z ?w (codewordU8Size c) ! (16 * i + n div 8)) (n mod 8)"
    using assms(5,6) n len by (simp add: e nth_bytes_blocks bit_bytes_block)
  then show ?thesis unfolding nth using assms(6) by (simp add: bit_block_byte)
qed

lemma codeword_of_prefix:
  assumes "code_ok c" and "mPlaintextU8Size c \<le> length a" and "take (mPlaintextU8Size c) a = take (mPlaintextU8Size c) b"
    and "codewordU8Size c \<le> 160" and "i < codewordBlkSize c" and "i < 10"
  shows "codeword_of c junk a ! i = codeword_of c junk' b ! i"
proof (rule bit_word_eqI)
  fix n assume "n < LENGTH(128)"
  then have n: "n < 128" by simp
  have b: "mPlaintextU8Size c \<le> length b"
    using arg_cong [OF assms(3), of length] assms(2) by simp
  have "bit_at a r = bit_at b r" if "r < plaintextBitSize c" for r
  proof -
    have "r div 8 < mPlaintextU8Size c" using that assms(1) unfolding code_ok_def by linarith
    then have "a ! (r div 8) = b ! (r div 8)" using arg_cong [OF assms(3), of "\<lambda>x. x ! (r div 8)"] by simp
    then show ?thesis by (simp add: bit_at_def)
  qed
  then have "code_word c a i = code_word c b i" by (rule code_word_cong)
  then show "bit (codeword_of c junk a ! i) n = bit (codeword_of c junk' b ! i) n"
    using bit_codeword_of [OF assms(1,2,4-6) n] bit_codeword_of [OF assms(1) b assms(4-6) n] by simp
qed

lemma codeword_of_xor:
  assumes "code_ok c" and "mPlaintextU8Size c \<le> length a" and "length a = length b"
    and "codewordU8Size c \<le> 160" and "i < codewordBlkSize c" and "i < 10"
  shows "codeword_of c junk (map2 (XOR) a b) ! i = codeword_of c junk1 a ! i XOR codeword_of c junk2 b ! i"
proof (rule bit_word_eqI)
  fix n assume "n < LENGTH(128)"
  then have n: "n < 128" by simp
  have m: "mPlaintextU8Size c \<le> length (map2 (XOR) a b)" "mPlaintextU8Size c \<le> length b" using assms(2,3) by simp_all
  have "plaintextBitSize c \<le> 8 * length a" using assms(1,2) unfolding code_ok_def by linarith
  then have "code_word c (map2 (XOR) a b) i = code_word c a i XOR code_word c b i"
    by (rule code_word_xor [OF assms(3)])
  then show "bit (codeword_of c junk (map2 (XOR) a b) ! i) n =
      bit (codeword_of c junk1 a ! i XOR codeword_of c junk2 b ! i) n"
    using bit_codeword_of [OF assms(1) m(1) assms(4-6) n] bit_codeword_of [OF assms(1,2,4-6) n]
      bit_codeword_of [OF assms(1) m(2) assms(4-6) n]
    by (auto simp: bit_xor_iff)
qed

subsection \<open>Updating a row\<close>

text \<open>A loop that combines the blocks of one row with given values.\<close>

lemma row_update:
  assumes "n \<le> m" and "at + m \<le> length (mStore M)"
    and "f = (\<lambda>M i. matrix_set (at + i) (g (mStore M ! (at + i)) i) M)"
  shows "foldl f M [0..<n] = M\<lparr>mStore := take at (mStore M) @ map (\<lambda>i. g (mStore M ! (at + i)) i) [0..<n] @
      drop (at + n) (mStore M)\<rparr>"
  using assms(1)
proof (induction n)
  case (Suc n)
  have n: "at + n < length (mStore M)" using Suc.prems assms(2) by linarith
  have "foldl f M [0..<Suc n] = f (foldl f M [0..<n]) n" by simp
  also have "\<dots> = M\<lparr>mStore := take at (mStore M) @ map (\<lambda>i. g (mStore M ! (at + i)) i) [0..<Suc n] @
      drop (at + Suc n) (mStore M)\<rparr>"
    using Suc n by (simp add: assms(3) matrix_set_def nth_append list_update_append Cons_nth_drop_Suc [symmetric])
  finally show ?case .
qed simp

lemma row_update_nth:
  assumes "at + n \<le> length (mStore M)"
    and "f = (\<lambda>M i. matrix_set (at + i) (g (mStore M ! (at + i)) i) M)"
  shows "mStride (foldl f M [0..<n]) = mStride M \<and> mSize (foldl f M [0..<n]) = mSize M \<and>
    length (mStore (foldl f M [0..<n])) = length (mStore M)"
    and "i < n \<Longrightarrow> mStore (foldl f M [0..<n]) ! (at + i) = g (mStore M ! (at + i)) i"
    and "p < at \<or> at + n \<le> p \<Longrightarrow> mStore (foldl f M [0..<n]) ! p = mStore M ! p"
  using row_update [OF order_refl assms] assms(1) by (auto simp: nth_append)

text \<open>Block \<open>i\<close> of row \<open>k\<close>.\<close>

definition cell :: "matrix \<Rightarrow> nat \<Rightarrow> nat \<Rightarrow> block" where
  "cell M k i = mStore M ! (mStride M * k + i)"

lemma other_row:
  fixes W :: nat
  assumes "i < W" and "k' \<noteq> k"
  shows "W * k' + i < W * k \<or> W * k + W \<le> W * k' + i"
proof (cases "k' < k")
  case True
  then have "W * Suc k' \<le> W * k" by (intro mult_le_mono2) simp
  then show ?thesis using assms(1) by simp
next
  case False
  then have "W * Suc k \<le> W * k'" using assms(2) by (intro mult_le_mono2) simp
  then show ?thesis by simp
qed

lemma row_in: "k < n \<Longrightarrow> W * n \<le> (l :: nat) \<Longrightarrow> W * k + W \<le> l"
  using mult_le_mono2 [of "Suc k" n W] by simp

subsection \<open>A correction of the receiver\<close>

lemma matrix_write_facts:
  assumes "n \<le> length bs" and "16 * at + n \<le> 16 * length (mStore M)"
  shows "take n (matrix_bytes at (matrix_write at bs n M)) = take n bs"
    and "length (mStore (matrix_write at bs n M)) = length (mStore M)"
    and "mStride (matrix_write at bs n M) = mStride M" and "mSize (matrix_write at bs n M) = mSize M"
    and "16 * at \<le> 16 * length (mStore M)"
  using assms by (simp_all add: matrix_write_def matrix_bytes_def copy_at_def memcpy_def)

text \<open>Where the receiver stands: the strides, the code, and room for \<open>n\<close> rows.\<close>

definition recv_ready :: "nat \<Rightarrow> prty_receiver \<Rightarrow> bool" where
  "recv_ready n r \<longleftrightarrow> (let W = mStride (mT0 r); c = mCode_r r in
     code_ok c \<and> W = codewordBlkSize c \<and> W \<le> 10 \<and> codewordU8Size c \<le> 160 \<and> mStride (mT1 r) = W \<and>
     mPlaintextU8Size c \<le> mInputByteCount_r r \<and> mInputByteCount_r r \<le> 16 * mStride (mW r) \<and>
     W * n \<le> length (mStore (mT0 r)) \<and> W * n \<le> length (mStore (mT1 r)) \<and>
     mStride (mW r) * n \<le> length (mStore (mW r)))"

text \<open>The codeword of a choice.\<close>

definition choice_word :: "linear_code \<Rightarrow> u8 list \<Rightarrow> nat \<Rightarrow> block" where
  "choice_word c input i = codeword_of c [] input ! i"

text \<open>The first \<open>n\<close> bytes of row \<open>k\<close>.\<close>

definition row_bytes :: "nat \<Rightarrow> nat \<Rightarrow> matrix \<Rightarrow> u8 list" where
  "row_bytes n k M = take n (matrix_bytes (mStride M * k) M)"

lemma take_drop_memcpy_other:
  assumes "i + n \<le> j \<or> j + n \<le> i" and "n \<le> length src" and "j + n \<le> length dst"
  shows "take n (drop i (copy_at dst j src n)) = take n (drop i dst)"
proof -
  have e: "copy_at dst j src n = take j dst @ take n src @ drop (n + j) dst" by (simp add: copy_at_def memcpy_def)
  show ?thesis
  proof (cases "i + n \<le> j")
    case True
    then have "n - (j - i) = 0" "min (length dst) j = j" using assms(3) by simp_all
    with True show ?thesis by (simp add: e drop_take min_absorb1)
  next
    case False
    then have i: "j + n \<le> i" using assms(1) by simp
    then have "drop i (take j dst @ take n src @ drop (n + j) dst) = drop i dst"
      using assms(2,3) by (simp add: min_absorb2 add.commute)
    then show ?thesis by (simp add: e)
  qed
qed

lemma row_bytes_write_other:
  assumes "k' \<noteq> k" and "n \<le> length bs" and "n \<le> 16 * mStride M" and "16 * (mStride M * k) + n \<le> 16 * length (mStore M)"
  shows "row_bytes n k' (matrix_write (mStride M * k) bs n M) = row_bytes n k' M"
proof -
  let ?W = "mStride M"
  have "16 * (?W * k') + n \<le> 16 * (?W * k) \<or> 16 * (?W * k) + n \<le> 16 * (?W * k')"
  proof (cases "k' < k")
    case True
    then have "?W * Suc k' \<le> ?W * k" by (intro mult_le_mono2) simp
    then have "16 * (?W * k') + 16 * ?W \<le> 16 * (?W * k)" by simp
    then show ?thesis using assms(3) by linarith
  next
    case False
    then have "?W * Suc k \<le> ?W * k'" using assms(1) by (intro mult_le_mono2) simp
    then have "16 * (?W * k) + 16 * ?W \<le> 16 * (?W * k')" by simp
    then show ?thesis using assms(3) by linarith
  qed
  then have "take n (drop (16 * (?W * k')) (copy_at (blocks_bytes (mStore M)) (16 * (?W * k)) bs n)) =
      take n (drop (16 * (?W * k')) (blocks_bytes (mStore M)))"
    using assms(2,4) by (intro take_drop_memcpy_other) auto
  then show ?thesis using assms(2,4)
    by (simp add: row_bytes_def matrix_bytes_def matrix_write_def copy_at_def)
qed

lemma otCorrection_r_result:
  fixes r :: prty_receiver and junk :: "u8 list"
  assumes ready: "recv_ready n r" and k: "k < n" and input: "mInputByteCount_r r \<le> length input"
  defines "r' \<equiv> otCorrection_r junk k input r" and "W \<equiv> mStride (mT0 r)"
  obtains T1 Wm where "r' = r\<lparr>mW := Wm, mT1 := T1\<rparr>"
    and "mStride Wm = mStride (mW r)" and "length (mStore Wm) = length (mStore (mW r))"
    and "row_bytes (mInputByteCount_r r) k Wm = take (mInputByteCount_r r) input"
    and "\<And>k'. k' \<noteq> k \<Longrightarrow> row_bytes (mInputByteCount_r r) k' Wm = row_bytes (mInputByteCount_r r) k' (mW r)"
    and "mStride T1 = W" and "length (mStore T1) = length (mStore (mT1 r))"
    and "\<And>i. i < W \<Longrightarrow> cell T1 k i = choice_word (mCode_r r) input i XOR cell (mT0 r) k i XOR cell (mT1 r) k i"
    and "\<And>i k'. i < W \<Longrightarrow> k' \<noteq> k \<Longrightarrow> cell T1 k' i = cell (mT1 r) k' i"
proof -
  let ?c = "mCode_r r" and ?b = "mInputByteCount_r r" and ?w = "mStride (mW r) * k" and ?t = "W * k"
  note R = ready [unfolded recv_ready_def Let_def W_def [symmetric]]
  define Wm where "Wm = matrix_write ?w input ?b (mW r)"
  have "?w + mStride (mW r) \<le> length (mStore (mW r))" using R k by (intro row_in) auto
  then have room: "16 * ?w + ?b \<le> 16 * length (mStore (mW r))" using R by linarith
  note M = matrix_write_facts [OF input room, folded Wm_def]
  define cw where "cw = codeword_of ?c junk (matrix_bytes ?w Wm)"
  have len: "mPlaintextU8Size ?c \<le> length (matrix_bytes ?w Wm)"
  proof -
    have "length (matrix_bytes ?w Wm) = 16 * length (mStore (mW r)) - 16 * ?w" using M by (simp add: matrix_bytes_def)
    then show ?thesis using room R by linarith
  qed
  have pre: "take (mPlaintextU8Size ?c) (matrix_bytes ?w Wm) = take (mPlaintextU8Size ?c) input"
    using arg_cong [OF M(1), of "take (mPlaintextU8Size ?c)"] R by (simp add: min_absorb1)
  have cw: "cw ! i = choice_word ?c input i" if "i < W" for i
    unfolding cw_def choice_word_def using R that len pre by (intro codeword_of_prefix) auto
  have t: "?t + W \<le> length (mStore (mT1 r))" using R k by (intro row_in) auto
  define t0 where "t0 = (\<lambda>i. mStore (mT0 r) ! (?t + i))"
  define T1 where "T1 = (if W = 4
      then foldl (\<lambda>T1 i. matrix_set (?t + i) (mStore T1 ! (?t + i) XOR t0 i) T1)
        (foldl (\<lambda>T1 i. matrix_set (?t + i) (mStore T1 ! (?t + i) XOR cw ! i) T1) (mT1 r) [0..<4]) [0..<4]
      else foldl (\<lambda>T1 i. matrix_set (?t + i) (cw ! i XOR t0 i XOR mStore T1 ! (?t + i)) T1) (mT1 r) [0..<W])"
  have r': "r' = r\<lparr>mW := Wm, mT1 := T1\<rparr>"
    by (simp add: r'_def otCorrection_r_def Let_def W_def [symmetric] Wm_def [symmetric] cw_def [symmetric]
        t0_def [symmetric] T1_def del: upt_Suc)
  have U: "mStride T1 = W \<and> length (mStore T1) = length (mStore (mT1 r)) \<and>
    (\<forall>i < W. mStore T1 ! (?t + i) = cw ! i XOR t0 i XOR mStore (mT1 r) ! (?t + i)) \<and>
    (\<forall>p. p < ?t \<or> ?t + W \<le> p \<longrightarrow> mStore T1 ! p = mStore (mT1 r) ! p)"
  proof (cases "W = 4")
    case True
    define A where "A = foldl (\<lambda>T1 i. matrix_set (?t + i) (mStore T1 ! (?t + i) XOR cw ! i) T1) (mT1 r) [0..<4]"
    have "?t + 4 \<le> length (mStore (mT1 r))" using t True by simp
    note 1 = row_update_nth [OF this, where f = "\<lambda>T1 i. matrix_set (?t + i) (mStore T1 ! (?t + i) XOR cw ! i) T1"
        and g = "\<lambda>x i. x XOR cw ! i", OF refl, folded A_def]
    have "?t + 4 \<le> length (mStore A)" using 1(1) t True by simp
    note 2 = row_update_nth [OF this, where f = "\<lambda>T1 i. matrix_set (?t + i) (mStore T1 ! (?t + i) XOR t0 i) T1"
        and g = "\<lambda>x i. x XOR t0 i", OF refl]
    show ?thesis
      unfolding T1_def A_def [symmetric] using True 1 2 R by (simp add: ac_simps)
  next
    case False
    note 1 = row_update_nth [OF t, where f = "\<lambda>T1 i. matrix_set (?t + i) (cw ! i XOR t0 i XOR mStore T1 ! (?t + i)) T1"
        and g = "\<lambda>x i. cw ! i XOR t0 i XOR x", OF refl]
    show ?thesis unfolding T1_def using False 1 R by simp
  qed
  show ?thesis
  proof (rule that [OF r'])
    show "mStride Wm = mStride (mW r)" "length (mStore Wm) = length (mStore (mW r))" using M by simp_all
    show "row_bytes ?b k Wm = take ?b input" using M(1,3) by (simp add: row_bytes_def)
    show "row_bytes ?b k' Wm = row_bytes ?b k' (mW r)" if "k' \<noteq> k" for k'
      unfolding Wm_def using that input room R by (intro row_bytes_write_other) auto
    show "mStride T1 = W" "length (mStore T1) = length (mStore (mT1 r))" using U by simp_all
    show "cell T1 k i = choice_word ?c input i XOR cell (mT0 r) k i XOR cell (mT1 r) k i" if "i < W" for i
      using U R that cw [OF that] by (simp add: cell_def t0_def W_def)
    show "cell T1 k' i = cell (mT1 r) k' i" if "i < W" "k' \<noteq> k" for i k'
    proof -
      have "mStore T1 ! (W * k' + i) = mStore (mT1 r) ! (W * k' + i)" using U other_row [OF that] by blast
      moreover have "mStride T1 = W" "mStride (mT1 r) = W" using U R by simp_all
      ultimately show ?thesis by (simp only: cell_def)
    qed
  qed
qed


subsection \<open>A correction of the sender\<close>

lemma otCorrection_s_result:
  fixes s :: prty_sender
  assumes "mStride (mCorrectionVals s) = mStride (mT s)" and "k < n" and "mStride (mT s) * n \<le> length (mStore (mT s))"
    and "mStride (mT s) \<le> length (mChoiceBlks s)"
  defines "s' \<equiv> otCorrection_s k s" and "W \<equiv> mStride (mT s)"
  obtains M where "s' = s\<lparr>mT := M\<rparr>" and "mStride M = W" and "length (mStore M) = length (mStore (mT s))"
    and "\<And>i. i < W \<Longrightarrow> cell M k i = cell (mT s) k i XOR (cell (mCorrectionVals s) k i AND mChoiceBlks s ! i)"
    and "\<And>i k'. i < W \<Longrightarrow> k' \<noteq> k \<Longrightarrow> cell M k' i = cell (mT s) k' i"
proof -
  let ?t = "k * W" and ?u = "\<lambda>i. mStore (mCorrectionVals s) ! (k * W + i) AND mChoiceBlks s ! i"
  have t: "?t + W \<le> length (mStore (mT s))"
    using row_in [OF assms(2,3)] by (simp add: W_def mult.commute)
  define M where "M = foldl (\<lambda>M i. matrix_set (?t + i) (mStore M ! (?t + i) XOR ?u i) M) (mT s) [0..<W]"
  have four: "foldl (\<lambda>M i. matrix_set (?t + i) (mStore M ! (?t + i) XOR map ?u [0..<4] ! i) M) (mT s) [0..<4] =
      foldl (\<lambda>M i. matrix_set (?t + i) (mStore M ! (?t + i) XOR ?u i) M) (mT s) [0..<4]"
    by (intro foldl_cong refl) (simp del: upt_Suc)
  have s': "s' = s\<lparr>mT := M\<rparr>"
    using assms(1) four by (auto simp: s'_def otCorrection_s_def Let_def W_def [symmetric] M_def simp del: upt_Suc)
  note U = row_update_nth [OF t, where f = "\<lambda>M i. matrix_set (?t + i) (mStore M ! (?t + i) XOR ?u i) M"
      and g = "\<lambda>x i. x XOR ?u i", OF refl, folded M_def]
  show ?thesis
  proof (rule that [OF s'])
    show st: "mStride M = W" and "length (mStore M) = length (mStore (mT s))" using U(1) by (simp_all add: W_def)
    show "cell M k i = cell (mT s) k i XOR (cell (mCorrectionVals s) k i AND mChoiceBlks s ! i)" if "i < W" for i
      using U(2) [OF that] st assms(1) by (simp add: cell_def W_def mult.commute)
    show "cell M k' i = cell (mT s) k' i" if "i < W" "k' \<noteq> k" for i k'
    proof -
      have "W * k' + i < ?t \<or> ?t + W \<le> W * k' + i" using other_row [OF that] by (simp add: mult.commute)
      then have "mStore M ! (W * k' + i) = mStore (mT s) ! (W * k' + i)" by (rule U(3))
      then show ?thesis using st by (simp only: cell_def W_def)
    qed
  qed
qed

subsection \<open>Batches\<close>

text \<open>
  The corrections that the receiver has made: \<open>r0\<close> is its state after \<open>init\<close>, \<open>word k\<close> the choice of
  row \<open>k\<close>, and the rows below \<open>m\<close> are corrected and their choices stored.
\<close>

definition corrected :: "prty_receiver \<Rightarrow> (nat \<Rightarrow> u8 list) \<Rightarrow> nat \<Rightarrow> nat \<Rightarrow> prty_receiver \<Rightarrow> bool" where
  "corrected r0 word n m r \<longleftrightarrow>
     recv_ready n r \<and> mT0 r = mT0 r0 \<and> mCode_r r = mCode_r r0 \<and> mInputByteCount_r r = mInputByteCount_r r0 \<and>
     (\<forall>k < m. row_bytes (mInputByteCount_r r0) k (mW r) = take (mInputByteCount_r r0) (word k)) \<and>
     (\<forall>k < n. \<forall>i < mStride (mT0 r0). cell (mT1 r) k i =
        (if k < m then choice_word (mCode_r r0) (word k) i XOR cell (mT0 r0) k i XOR cell (mT1 r0) k i
         else cell (mT1 r0) k i))"

lemma corrected_start: "recv_ready n r \<Longrightarrow> corrected r word n 0 r"
  by (simp add: corrected_def)

lemma corrected_step:
  assumes "corrected r0 word n m r" and "m < n" and "mInputByteCount_r r0 \<le> length (word m)"
  shows "corrected r0 word n (Suc m) (otCorrection_r junk m (word m) r)"
    and "mCorrectionIdx_r (otCorrection_r junk m (word m) r) = mCorrectionIdx_r r"
proof -
  have ready: "recv_ready n r" and e: "mT0 r = mT0 r0" "mCode_r r = mCode_r r0" "mInputByteCount_r r = mInputByteCount_r r0"
    and cells: "\<And>k i. k < n \<Longrightarrow> i < mStride (mT0 r0) \<Longrightarrow> cell (mT1 r) k i =
        (if k < m then choice_word (mCode_r r0) (word k) i XOR cell (mT0 r0) k i XOR cell (mT1 r0) k i
         else cell (mT1 r0) k i)"
    and words: "\<And>k. k < m \<Longrightarrow> row_bytes (mInputByteCount_r r0) k (mW r) = take (mInputByteCount_r r0) (word k)"
    using assms(1) by (auto simp: corrected_def)
  have inp: "mInputByteCount_r r \<le> length (word m)" using assms(3) e(3) by simp
  obtain T1 Wm where c: "otCorrection_r junk m (word m) r = r\<lparr>mW := Wm, mT1 := T1\<rparr>"
    "mStride Wm = mStride (mW r)" "length (mStore Wm) = length (mStore (mW r))"
    "mStride T1 = mStride (mT0 r)" "length (mStore T1) = length (mStore (mT1 r))"
    and bytes: "row_bytes (mInputByteCount_r r) m Wm = take (mInputByteCount_r r) (word m)"
      "\<And>k'. k' \<noteq> m \<Longrightarrow> row_bytes (mInputByteCount_r r) k' Wm = row_bytes (mInputByteCount_r r) k' (mW r)"
    and new: "\<And>i. i < mStride (mT0 r) \<Longrightarrow> cell T1 m i = choice_word (mCode_r r) (word m) i XOR cell (mT0 r) m i XOR cell (mT1 r) m i"
    and old: "\<And>i k'. i < mStride (mT0 r) \<Longrightarrow> k' \<noteq> m \<Longrightarrow> cell T1 k' i = cell (mT1 r) k' i"
    by (rule otCorrection_r_result [OF ready assms(2) inp, where junk = junk], rule that)
  have "recv_ready n (r\<lparr>mW := Wm, mT1 := T1\<rparr>)"
    using ready c(2-5) unfolding recv_ready_def Let_def by - (elim conjE, simp)
  moreover have "row_bytes (mInputByteCount_r r0) k Wm = take (mInputByteCount_r r0) (word k)" if "k < Suc m" for k
    using that bytes words [of k] e(3) by (cases "k = m") auto
  moreover have "cell T1 k i =
        (if k < Suc m then choice_word (mCode_r r0) (word k) i XOR cell (mT0 r0) k i XOR cell (mT1 r0) k i
         else cell (mT1 r0) k i)" if "k < n" "i < mStride (mT0 r0)" for k i
    using new [of i] old [of i k] cells [OF that] that(2) e by (cases "k = m") (auto simp: less_Suc_eq)
  ultimately show "corrected r0 word n (Suc m) (otCorrection_r junk m (word m) r)"
    using e by (simp add: corrected_def c(1))
  show "mCorrectionIdx_r (otCorrection_r junk m (word m) r) = mCorrectionIdx_r r" by (simp add: c(1))
qed

end
