(* ===== verification/Ot_Phase.thy ===== *)
theory Ot_Phase
  imports Prty_Correct
begin

text \<open>
  The OT phase of the protocol (\<^verbatim>\<open>runOOS\<close> of both parties in \<^verbatim>\<open>frontend/ProtocolParty.cpp\<close>): the receiver
  corrects the rows batch by batch and sends each batch, the sender receives and applies them. The
  two run concurrently over the channel; their interleavings are a step relation.
\<close>

subsection \<open>One batch\<close>

definition stepSize :: nat where
  "stepSize = 1024"

definition recv_batch :: "u8 list \<Rightarrow> u8 list \<Rightarrow> nat \<Rightarrow> nat \<Rightarrow> nat \<Rightarrow> prty_receiver \<Rightarrow> channel \<Rightarrow>
    (prty_receiver \<times> channel) option" where
  "recv_batch junk sigma fieldSizeBytes numOTs i r chl =
     (let curStepSize = min stepSize (numOTs - i);
          r = foldl (\<lambda>r k. otCorrection_r junk (i + k) (drop (fieldSizeBytes * (k + i)) sigma) r) r [0..<curStepSize]
      in sendCorrection curStepSize r chl)"

definition send_batch :: "nat \<Rightarrow> nat \<Rightarrow> prty_sender \<Rightarrow> channel \<Rightarrow> (prty_sender \<times> channel) res option" where
  "send_batch numOTs i s chl =
     (let curStepSize = min stepSize (numOTs - i)
      in Option.bind (recvCorrection curStepSize s chl) (\<lambda>x. Some (res_bind x (\<lambda>(s, chl).
           Inr (foldl (\<lambda>s k. otCorrection_s (i + k) s) s [0..<curStepSize], chl)))))"

subsection \<open>The two parties\<close>

text \<open>The loop indices and states of both parties, and the messages in flight.\<close>

record ot_config =
  recv_next :: nat
  recv_party :: prty_receiver
  send_next :: nat
  send_party :: prty_sender
  wire :: channel

inductive ot_step :: "u8 list \<Rightarrow> u8 list \<Rightarrow> nat \<Rightarrow> nat \<Rightarrow> ot_config \<Rightarrow> ot_config \<Rightarrow> bool"
  for junk sigma :: "u8 list" and fieldSizeBytes numOTs :: nat where
  receiver_batch: "recv_next x < numOTs \<Longrightarrow>
     recv_batch junk sigma fieldSizeBytes numOTs (recv_next x) (recv_party x) (wire x) = Some (r, q) \<Longrightarrow>
     ot_step junk sigma fieldSizeBytes numOTs x (x\<lparr>recv_next := recv_next x + stepSize, recv_party := r, wire := q\<rparr>)"
| sender_batch: "send_next x < numOTs \<Longrightarrow>
     send_batch numOTs (send_next x) (send_party x) (wire x) = Some (Inr (s, q)) \<Longrightarrow>
     ot_step junk sigma fieldSizeBytes numOTs x (x\<lparr>send_next := send_next x + stepSize, send_party := s, wire := q\<rparr>)"

inductive ot_reach :: "u8 list \<Rightarrow> u8 list \<Rightarrow> nat \<Rightarrow> nat \<Rightarrow> ot_config \<Rightarrow> ot_config \<Rightarrow> bool"
  for junk sigma :: "u8 list" and fieldSizeBytes numOTs :: nat where
  ot_refl: "ot_reach junk sigma fieldSizeBytes numOTs x x"
| ot_trans: "ot_reach junk sigma fieldSizeBytes numOTs x y \<Longrightarrow> ot_step junk sigma fieldSizeBytes numOTs y z \<Longrightarrow>
     ot_reach junk sigma fieldSizeBytes numOTs x z"

text \<open>Both loops have ended.\<close>

definition ot_done :: "nat \<Rightarrow> ot_config \<Rightarrow> bool" where
  "ot_done numOTs x \<longleftrightarrow> numOTs \<le> recv_next x \<and> numOTs \<le> send_next x"

subsection \<open>The start of the phase\<close>

text \<open>
  The rows of the sender after \<open>init\<close>: the row of the receiver that its choice bits select, bit by bit.
\<close>

definition base_row :: "block \<Rightarrow> block \<Rightarrow> block \<Rightarrow> block" where
  "base_row t0 t1 b = t0 XOR ((t0 XOR t1) AND b)"

definition ot_start :: "nat \<Rightarrow> nat \<Rightarrow> prty_receiver \<Rightarrow> prty_sender \<Rightarrow> bool" where
  "ot_start rows numOTs r s \<longleftrightarrow> (let W = mStride (mT0 r) in
     0 < W \<and> numOTs \<le> rows \<and> numOTs * W < 2 ^ 31 \<and> recv_ready rows r \<and> mCorrectionIdx_r r = 0 \<and> mCorrectionIdx_s s = 0 \<and>
     mStride (mT s) = W \<and> mStride (mCorrectionVals s) = W \<and> W \<le> length (mChoiceBlks s) \<and>
     W * rows \<le> length (mStore (mT s)) \<and> W * rows \<le> length (mStore (mCorrectionVals s)) \<and>
     (\<forall>k < rows. \<forall>i < W. cell (mT s) k i = base_row (cell (mT0 r) k i) (cell (mT1 r) k i) (mChoiceBlks s ! i)))"

text \<open>What the phase is for: the sender's row for a choice.\<close>

definition masked_row :: "prty_receiver \<Rightarrow> prty_sender \<Rightarrow> u8 list \<Rightarrow> nat \<Rightarrow> nat \<Rightarrow> block" where
  "masked_row r s w k i = cell (mT0 r) k i XOR (choice_word (mCode_r r) w i AND mChoiceBlks s ! i)"

definition correction :: "prty_receiver \<Rightarrow> u8 list \<Rightarrow> nat \<Rightarrow> nat \<Rightarrow> block" where
  "correction r w k i = choice_word (mCode_r r) w i XOR cell (mT0 r) k i XOR cell (mT1 r) k i"

lemma masked_row_correction:
  "base_row (cell (mT0 r) k i) (cell (mT1 r) k i) b XOR (correction r w k i AND b) =
   cell (mT0 r) k i XOR (choice_word (mCode_r r) w i AND b)"
  by (rule bit_word_eqI) (auto simp: base_row_def correction_def bit_simps)

subsection \<open>Blocks on the wire\<close>

lemma matrix_write_blocks:
  assumes "at + length bs \<le> length (mStore M)"
  shows "matrix_write at (blocks_bytes bs) (16 * length bs) M =
    M\<lparr>mStore := take at (mStore M) @ bs @ drop (at + length bs) (mStore M)\<rparr>"
proof -
  have "copy_at (blocks_bytes (mStore M)) (16 * at) (blocks_bytes bs) (16 * length bs) =
      blocks_bytes (take at (mStore M) @ bs @ drop (length bs) (drop at (mStore M)))"
    by (simp only: copy_at_def memcpy_def take_blocks_bytes [symmetric] drop_blocks_bytes [symmetric] blocks_bytes_append [symmetric]) simp
  moreover have "length (take at (mStore M) @ bs @ drop (length bs) (drop at (mStore M))) = length (mStore M)"
    using assms by simp
  ultimately show ?thesis
    using bytes_blocks_inverse [of "take at (mStore M) @ bs @ drop (length bs) (drop at (mStore M))"]
    by (simp add: matrix_write_def add.commute)
qed

text \<open>The blocks of \<open>n\<close> rows from \<open>i\<close> on.\<close>

definition rows_from :: "nat \<Rightarrow> (nat \<Rightarrow> nat \<Rightarrow> block) \<Rightarrow> nat \<Rightarrow> nat \<Rightarrow> block list" where
  "rows_from W f i n = map (\<lambda>p. f (i + p div W) (p mod W)) [0..<W * n]"

lemma rows_from_store:
  assumes "mStride M = W" and "0 < W" and "W * (i + n) \<le> length (mStore M)"
    and "\<And>k w. i \<le> k \<Longrightarrow> k < i + n \<Longrightarrow> w < W \<Longrightarrow> cell M k w = f k w"
  shows "take (W * n) (drop (i * W) (mStore M)) = rows_from W f i n"
proof (rule nth_equalityI)
  have room: "W * n + i * W \<le> length (mStore M)" using assms(3) by (simp add: distrib_left mult.commute)
  then show "length (take (W * n) (drop (i * W) (mStore M))) = length (rows_from W f i n)"
    by (simp add: rows_from_def)
  fix p assume "p < length (take (W * n) (drop (i * W) (mStore M)))"
  then have p: "p < W * n" by simp
  then have "p div W < n" by (simp add: less_mult_imp_div_less mult.commute)
  moreover have "i * W + p = W * (i + p div W) + p mod W" by (simp add: distrib_left mult.commute)
  ultimately show "take (W * n) (drop (i * W) (mStore M)) ! p = rows_from W f i n ! p"
    using assms(4) [of "i + p div W" "p mod W"] assms(1,2) p room by (simp add: rows_from_def cell_def)
qed

lemma rows_from_write:
  fixes f :: "nat \<Rightarrow> nat \<Rightarrow> block"
  assumes "mStride M = W" and "0 < W" and "W * (i + n) \<le> length (mStore M)"
  defines "M' \<equiv> matrix_write (i * W) (blocks_bytes (rows_from W f i n)) (n * W * 16) M"
  shows "mStride M' = W \<and> length (mStore M') = length (mStore M)"
    and "i \<le> k \<Longrightarrow> k < i + n \<Longrightarrow> w < W \<Longrightarrow> cell M' k w = f k w"
    and "k < i \<Longrightarrow> w < W \<Longrightarrow> cell M' k w = cell M k w"
proof -
  have len: "length (rows_from W f i n) = W * n" by (simp add: rows_from_def)
  have room: "i * W + length (rows_from W f i n) \<le> length (mStore M)"
    using assms(3) by (simp add: len distrib_left mult.commute)
  have "M' = M\<lparr>mStore := take (i * W) (mStore M) @ rows_from W f i n @ drop (i * W + W * n) (mStore M)\<rparr>"
    using matrix_write_blocks [OF room] by (simp add: M'_def len ac_simps)
  then have store: "mStore M' = take (i * W) (mStore M) @ rows_from W f i n @ drop (i * W + W * n) (mStore M)"
    and stride: "mStride M' = W" using assms(1) by simp_all
  show "mStride M' = W \<and> length (mStore M') = length (mStore M)"
    using room len by (simp add: store stride)
  show "cell M' k w = cell M k w" if "k < i" "w < W"
  proof -
    have "W * k + w < i * W" using row_in [of k i W "i * W"] that by (simp add: mult.commute)
    then show ?thesis using room assms(1) by (simp add: cell_def store stride nth_append)
  qed
  show "cell M' k w = f k w" if k: "i \<le> k" "k < i + n" "w < W"
  proof -
    obtain q where q: "k = i + q" using k(1) le_Suc_ex by blast
    have "W * q + w < W * n" using k(2,3) mult_le_mono2 [of "Suc q" n W] by (simp add: q)
    moreover have "(W * q + w) div W = q" "(W * q + w) mod W = w" using k(3) by simp_all
    ultimately have "rows_from W f i n ! (W * q + w) = f k w" by (simp add: rows_from_def q)
    moreover have "W * k + w = i * W + (W * q + w)" by (simp add: q distrib_left mult.commute)
    moreover have "i * W \<le> length (mStore M)" using room by simp
    ultimately show ?thesis
      using \<open>W * q + w < W * n\<close> by (simp add: cell_def store stride nth_append len)
  qed
qed

subsection \<open>The batch of the receiver\<close>

definition word_at :: "u8 list \<Rightarrow> nat \<Rightarrow> nat \<Rightarrow> u8 list" where
  "word_at sigma fieldSizeBytes k = drop (fieldSizeBytes * k) sigma"

text \<open>There is a choice for every row below \<open>n\<close>.\<close>

definition words_ok :: "prty_receiver \<Rightarrow> u8 list \<Rightarrow> nat \<Rightarrow> nat \<Rightarrow> bool" where
  "words_ok r sigma fieldSizeBytes n \<longleftrightarrow> (\<forall>k < n. mInputByteCount_r r \<le> length (word_at sigma fieldSizeBytes k))"

lemma corrected_batch:
  fixes junk :: "u8 list"
  assumes "corrected r0 (word_at sigma fsb) rows i r" and "i + n \<le> rows" and "words_ok r0 sigma fsb (i + n)"
  defines "r' \<equiv> foldl (\<lambda>r k. otCorrection_r junk (i + k) (drop (fsb * (k + i)) sigma) r) r [0..<n]"
  shows "corrected r0 (word_at sigma fsb) rows (i + n) r' \<and> mCorrectionIdx_r r' = mCorrectionIdx_r r"
  unfolding r'_def using assms(2,3)
proof (induction n)
  case (Suc n)
  let ?r = "foldl (\<lambda>r k. otCorrection_r junk (i + k) (drop (fsb * (k + i)) sigma) r) r [0..<n]"
  have w: "drop (fsb * (n + i)) sigma = word_at sigma fsb (i + n)" by (simp add: word_at_def add.commute)
  have IH: "corrected r0 (word_at sigma fsb) rows (i + n) ?r" "mCorrectionIdx_r ?r = mCorrectionIdx_r r"
    using Suc by (auto simp: words_ok_def)
  have "mInputByteCount_r r0 \<le> length (word_at sigma fsb (i + n))" using Suc.prems(2) by (simp add: words_ok_def)
  from corrected_step [OF IH(1) _ this, of junk] Suc.prems(1) IH(2) show ?case by (simp add: w)
qed (use assms(1) in simp)

text \<open>The message of the batch that starts at row \<open>i\<close>.\<close>

definition batch_message :: "prty_receiver \<Rightarrow> u8 list \<Rightarrow> nat \<Rightarrow> nat \<Rightarrow> nat \<Rightarrow> u8 list" where
  "batch_message r sigma fsb n i =
     blocks_bytes (rows_from (mStride (mT0 r)) (\<lambda>k. correction r (word_at sigma fsb k) k) i (min stepSize (n - i)))"

lemma recv_ready_index [simp]: "recv_ready n (r\<lparr>mCorrectionIdx_r := i\<rparr>) = recv_ready n r"
  by (simp add: recv_ready_def)

lemma corrected_index [simp]: "corrected r0 word n m (r\<lparr>mCorrectionIdx_r := i\<rparr>) = corrected r0 word n m r"
  by (simp add: corrected_def)

lemma batch_sendable:
  assumes "0 < W" and "W \<le> 10" and "0 < n" and "n \<le> stepSize"
  shows "sendable_size (16 * (W * n))"
proof -
  define p where "p = W * n"
  have "p \<le> 10 * 1024" using mult_le_mono [OF assms(2), of n 1024] assms(4) by (simp add: stepSize_def p_def)
  moreover have "0 < p" using assms(1,3) by (simp add: p_def)
  ultimately have "16 * p < 2 ^ 64" "0 < 16 * p \<and> 16 * p < 2 ^ 32 - 1" by simp_all
  then show ?thesis using sendable_size_iff [of "16 * p"] by (simp add: p_def)
qed

text \<open>The message of \<open>m\<close> corrected rows.\<close>

lemma sendCorrection_result:
  assumes c: "corrected r0 word rows (i + m) r" and idx: "mCorrectionIdx_r r = i" and i: "i + m \<le> rows"
    and W: "0 < mStride (mT0 r0)" and size: "sendable_size (16 * (mStride (mT0 r0) * m))"
  shows "sendCorrection m r q = Some (r\<lparr>mCorrectionIdx_r := i + m\<rparr>,
    q @ [blocks_bytes (rows_from (mStride (mT0 r0)) (\<lambda>k. correction r0 (word k) k) i m)])"
proof -
  let ?W = "mStride (mT0 r0)"
  have T: "mStride (mT1 r) = ?W" "?W * rows \<le> length (mStore (mT1 r))"
    and cells: "\<And>k w. k < rows \<Longrightarrow> w < ?W \<Longrightarrow> k < i + m \<Longrightarrow> cell (mT1 r) k w = correction r0 (word k) k w"
    using c by (auto simp: corrected_def recv_ready_def Let_def correction_def)
  have "?W * (i + m) \<le> length (mStore (mT1 r))"
    using order_trans [OF mult_le_mono2 [of "i + m" rows ?W] T(2)] i by simp
  then have "take (?W * m) (drop (i * ?W) (mStore (mT1 r))) = rows_from ?W (\<lambda>k. correction r0 (word k) k) i m"
    using T(1) W cells i by (intro rows_from_store) auto
  moreover have "length (blocks_bytes (rows_from ?W (\<lambda>k. correction r0 (word k) k) i m)) = 16 * (?W * m)"
    by (simp add: rows_from_def)
  ultimately show ?thesis
    using size by (simp only: sendCorrection_def Let_def idx T(1) asyncSend_def) simp
qed

lemma recv_batch_result:
  assumes c: "corrected r0 (word_at sigma fsb) rows i r" and idx: "mCorrectionIdx_r r = i"
    and i: "i < n" "n \<le> rows" and words: "words_ok r0 sigma fsb n" and W: "0 < mStride (mT0 r0)"
  defines "i' \<equiv> min n (i + stepSize)"
  obtains r' where "recv_batch junk sigma fsb n i r q = Some (r', q @ [batch_message r0 sigma fsb n i])"
    and "corrected r0 (word_at sigma fsb) rows i' r'" and "mCorrectionIdx_r r' = i'"
proof -
  define m where "m = min stepSize (n - i)"
  have m: "0 < m" "m \<le> stepSize" "i + m = i'" "i + m \<le> n" using i(1) by (auto simp: m_def i'_def stepSize_def)
  define r1 where "r1 = foldl (\<lambda>r k. otCorrection_r junk (i + k) (drop (fsb * (k + i)) sigma) r) r [0..<m]"
  have "words_ok r0 sigma fsb (i + m)" using words m(4) by (simp add: words_ok_def)
  with corrected_batch [OF c _ this, of junk] m(4) i(2)
  have r1: "corrected r0 (word_at sigma fsb) rows (i + m) r1" "mCorrectionIdx_r r1 = i"
    by (simp_all add: r1_def idx)
  have "mStride (mT0 r0) \<le> 10" using r1(1) by (auto simp: corrected_def recv_ready_def Let_def)
  then have "sendable_size (16 * (mStride (mT0 r0) * m))" using batch_sendable [OF W _ m(1,2)] by simp
  then have "sendCorrection m r1 q = Some (r1\<lparr>mCorrectionIdx_r := i + m\<rparr>, q @ [batch_message r0 sigma fsb n i])"
    using sendCorrection_result [OF r1 _ W] m(4) i(2) by (simp add: batch_message_def m_def)
  then have "recv_batch junk sigma fsb n i r q = Some (r1\<lparr>mCorrectionIdx_r := i'\<rparr>, q @ [batch_message r0 sigma fsb n i])"
    by (simp add: recv_batch_def Let_def m_def [symmetric] r1_def [symmetric] m(3))
  moreover have "corrected r0 (word_at sigma fsb) rows i' (r1\<lparr>mCorrectionIdx_r := i'\<rparr>)"
    using r1(1) m(3) by simp
  ultimately show ?thesis by (intro that [of "r1\<lparr>mCorrectionIdx_r := i'\<rparr>"]) simp_all
qed

subsection \<open>The batch of the sender\<close>

text \<open>The rows below \<open>m\<close> are masked, the others are as they were; \<open>s0\<close> is the state after \<open>init\<close>.\<close>

definition masked :: "prty_receiver \<Rightarrow> prty_sender \<Rightarrow> (nat \<Rightarrow> u8 list) \<Rightarrow> nat \<Rightarrow> nat \<Rightarrow> prty_sender \<Rightarrow> bool" where
  "masked r0 s0 word rows m s \<longleftrightarrow> (let W = mStride (mT0 r0) in
     mChoiceBlks s = mChoiceBlks s0 \<and> mStride (mT s) = W \<and> mStride (mCorrectionVals s) = W \<and>
     length (mStore (mT s)) = length (mStore (mT s0)) \<and>
     length (mStore (mCorrectionVals s)) = length (mStore (mCorrectionVals s0)) \<and>
     (\<forall>k < rows. \<forall>i < W. cell (mT s) k i =
        (if k < m then masked_row r0 s0 (word k) k i
         else base_row (cell (mT0 r0) k i) (cell (mT1 r0) k i) (mChoiceBlks s0 ! i))))"

lemma masked_step:
  assumes ms: "masked r0 s0 word rows m s" and m: "m < rows"
    and len: "mStride (mT0 r0) * rows \<le> length (mStore (mT s0))" "mStride (mT0 r0) \<le> length (mChoiceBlks s0)"
    and cor: "\<And>i. i < mStride (mT0 r0) \<Longrightarrow> cell (mCorrectionVals s) m i = correction r0 (word m) m i"
  shows "masked r0 s0 word rows (Suc m) (otCorrection_s m s)"
    and "mCorrectionVals (otCorrection_s m s) = mCorrectionVals s"
    and "mCorrectionIdx_s (otCorrection_s m s) = mCorrectionIdx_s s"
proof -
  let ?W = "mStride (mT0 r0)"
  have M: "mChoiceBlks s = mChoiceBlks s0" "mStride (mT s) = ?W" "mStride (mCorrectionVals s) = ?W"
    "length (mStore (mT s)) = length (mStore (mT s0))"
    "length (mStore (mCorrectionVals s)) = length (mStore (mCorrectionVals s0))"
    and cells: "\<And>k i. k < rows \<Longrightarrow> i < ?W \<Longrightarrow> cell (mT s) k i =
        (if k < m then masked_row r0 s0 (word k) k i
         else base_row (cell (mT0 r0) k i) (cell (mT1 r0) k i) (mChoiceBlks s0 ! i))"
    using ms by (auto simp: masked_def Let_def)
  have pre: "mStride (mCorrectionVals s) = mStride (mT s)" "mStride (mT s) * rows \<le> length (mStore (mT s))"
    "mStride (mT s) \<le> length (mChoiceBlks s)" using M len by simp_all
  obtain T where T: "otCorrection_s m s = s\<lparr>mT := T\<rparr>" "mStride T = mStride (mT s)" "length (mStore T) = length (mStore (mT s))"
    and new: "\<And>i. i < mStride (mT s) \<Longrightarrow> cell T m i = cell (mT s) m i XOR (cell (mCorrectionVals s) m i AND mChoiceBlks s ! i)"
    and old: "\<And>i k'. i < mStride (mT s) \<Longrightarrow> k' \<noteq> m \<Longrightarrow> cell T k' i = cell (mT s) k' i"
    by (rule otCorrection_s_result [OF pre(1) m pre(2,3)], rule that)
  have "cell T k i = (if k < Suc m then masked_row r0 s0 (word k) k i
       else base_row (cell (mT0 r0) k i) (cell (mT1 r0) k i) (mChoiceBlks s0 ! i))" if "k < rows" "i < ?W" for k i
    using new [of i] old [of i k] cells [OF that] cor [OF that(2)] that(2) M(1,2)
    by (cases "k = m") (auto simp: less_Suc_eq masked_row_correction masked_row_def)
  then show "masked r0 s0 word rows (Suc m) (otCorrection_s m s)"
    using M T by (simp add: masked_def Let_def)
  show "mCorrectionVals (otCorrection_s m s) = mCorrectionVals s" "mCorrectionIdx_s (otCorrection_s m s) = mCorrectionIdx_s s"
    by (simp_all add: T(1))
qed

lemma masked_batch:
  assumes "masked r0 s0 word rows i s" and "i + n \<le> rows"
    and "mStride (mT0 r0) * rows \<le> length (mStore (mT s0))" "mStride (mT0 r0) \<le> length (mChoiceBlks s0)"
    and "\<And>k w. i \<le> k \<Longrightarrow> k < i + n \<Longrightarrow> w < mStride (mT0 r0) \<Longrightarrow> cell (mCorrectionVals s) k w = correction r0 (word k) k w"
  defines "s' \<equiv> foldl (\<lambda>s k. otCorrection_s (i + k) s) s [0..<n]"
  shows "masked r0 s0 word rows (i + n) s' \<and> mCorrectionVals s' = mCorrectionVals s \<and> mCorrectionIdx_s s' = mCorrectionIdx_s s"
  unfolding s'_def using assms(2,5)
proof (induction n)
  case (Suc n)
  let ?s = "foldl (\<lambda>s k. otCorrection_s (i + k) s) s [0..<n]"
  have IH: "masked r0 s0 word rows (i + n) ?s" "mCorrectionVals ?s = mCorrectionVals s" "mCorrectionIdx_s ?s = mCorrectionIdx_s s"
    using Suc by auto
  have "cell (mCorrectionVals ?s) (i + n) w = correction r0 (word (i + n)) (i + n) w" if "w < mStride (mT0 r0)" for w
    using Suc.prems(2) [of "i + n" w] that IH(2) by simp
  from masked_step [OF IH(1) _ assms(3,4) this] Suc.prems(1) IH(2,3) show ?case by simp
qed (use assms(1) in simp)

lemma sint_small: "k < 2 ^ 31 \<Longrightarrow> sint (of_nat k :: 32 word) = int k"
  by (simp add: signed_of_nat signed_take_bit_int_eq_self)

lemma recvCorrection_result:
  fixes f :: "nat \<Rightarrow> nat \<Rightarrow> block"
  assumes idx: "mCorrectionIdx_s s = i" and W: "mStride (mCorrectionVals s) = W" "0 < W"
    and small: "i * W < 2 ^ 31" and room: "W * (i + m) \<le> length (mStore (mCorrectionVals s))"
    and size: "sendable_size (16 * (W * m))"
  obtains C where "recvCorrection m s (blocks_bytes (rows_from W f i m) # q) =
      Some (Inr (s\<lparr>mCorrectionVals := C, mCorrectionIdx_s := i + m\<rparr>, q))"
    and "mStride C = W" and "length (mStore C) = length (mStore (mCorrectionVals s))"
    and "\<And>k w. i \<le> k \<Longrightarrow> k < i + m \<Longrightarrow> w < W \<Longrightarrow> cell C k w = f k w"
    and "\<And>k w. k < i \<Longrightarrow> w < W \<Longrightarrow> cell C k w = cell (mCorrectionVals s) k w"
proof -
  have off: "correction_offset s = int (i * W)"
    using small by (simp only: correction_offset_def idx W(1) sint_small)
  have "channel_recv (m * W * 16) (blocks_bytes (rows_from W f i m) # q) = Some (Inr (blocks_bytes (rows_from W f i m), q))"
    using size by (simp add: channel_recv_def rows_from_def mult.commute mult.left_commute)
  then have "recvCorrection m s (blocks_bytes (rows_from W f i m) # q) = Some (Inr
      (s\<lparr>mCorrectionVals := matrix_write (i * W) (blocks_bytes (rows_from W f i m)) (m * W * 16) (mCorrectionVals s),
         mCorrectionIdx_s := i + m\<rparr>, q))"
    by (simp add: recvCorrection_def Let_def off W(1) idx del: of_nat_mult)
  then show ?thesis
    by (rule that) (use rows_from_write [OF W room, where f = f] in blast)+
qed

lemma send_batch_result:
  assumes ms: "masked r0 s0 (word_at sigma fsb) rows i s" and idx: "mCorrectionIdx_s s = i"
    and start: "ot_start rows n r0 s0" and i: "i < n" and q: "q = batch_message r0 sigma fsb n i # q'"
  defines "i' \<equiv> min n (i + stepSize)"
  obtains s' where "send_batch n i s q = Some (Inr (s', q'))"
    and "masked r0 s0 (word_at sigma fsb) rows i' s'" and "mCorrectionIdx_s s' = i'"
proof -
  let ?W = "mStride (mT0 r0)"
  note S = start [unfolded ot_start_def Let_def]
  define m where "m = min stepSize (n - i)"
  have m: "0 < m" "m \<le> stepSize" "i + m = i'" "i + m \<le> n" using i by (auto simp: m_def i'_def stepSize_def)
  have W: "0 < ?W" "?W \<le> 10" and n: "n \<le> rows" using S by (simp_all add: recv_ready_def Let_def)
  have M: "mStride (mCorrectionVals s) = ?W" "length (mStore (mCorrectionVals s)) = length (mStore (mCorrectionVals s0))"
    using ms by (simp_all add: masked_def Let_def)
  have "i * ?W \<le> n * ?W" using i by simp
  then have small: "i * ?W < 2 ^ 31" using S by linarith
  have room: "?W * (i + m) \<le> length (mStore (mCorrectionVals s))"
    using order_trans [OF mult_le_mono2 [of "i + m" rows ?W]] m(4) n S M(2) by simp
  have msg: "q = blocks_bytes (rows_from ?W (\<lambda>k. correction r0 (word_at sigma fsb k) k) i m) # q'"
    by (simp only: q batch_message_def m_def)
  obtain C where recv: "recvCorrection m s q = Some (Inr (s\<lparr>mCorrectionVals := C, mCorrectionIdx_s := i + m\<rparr>, q'))"
    and C: "mStride C = ?W" "length (mStore C) = length (mStore (mCorrectionVals s))"
    and cells: "\<And>k w. i \<le> k \<Longrightarrow> k < i + m \<Longrightarrow> w < ?W \<Longrightarrow> cell C k w = correction r0 (word_at sigma fsb k) k w"
    by (rule recvCorrection_result [OF idx M(1) W(1) small room batch_sendable [OF W m(1,2)], where q = q'
          and f = "\<lambda>k. correction r0 (word_at sigma fsb k) k", folded msg])
      (rule that)
  define s1 where "s1 = s\<lparr>mCorrectionVals := C, mCorrectionIdx_s := i + m\<rparr>"
  define s2 where "s2 = foldl (\<lambda>s k. otCorrection_s (i + k) s) s1 [0..<m]"
  have "masked r0 s0 (word_at sigma fsb) rows i s1"
    using ms C M by (simp add: masked_def Let_def s1_def)
  moreover have "cell (mCorrectionVals s1) k w = correction r0 (word_at sigma fsb k) k w"
    if "i \<le> k" "k < i + m" "w < ?W" for k w
    using cells [OF that] by (simp add: s1_def)
  ultimately have "masked r0 s0 (word_at sigma fsb) rows (i + m) s2 \<and> mCorrectionVals s2 = mCorrectionVals s1 \<and>
      mCorrectionIdx_s s2 = mCorrectionIdx_s s1"
    unfolding s2_def using m(4) n S by (intro masked_batch) auto
  moreover have "send_batch n i s q = Some (Inr (s2, q'))"
    by (simp only: send_batch_def Let_def m_def [symmetric] recv bind.bind_lunit res_bind_simps case_prod_conv s2_def s1_def)
  ultimately show ?thesis using that m(3) by (simp add: s1_def)
qed

subsection \<open>The invariant of the phase\<close>

text \<open>
  After \<open>a\<close> batches of the receiver and \<open>b\<close> of the sender, the messages of the batches \<open>b\<close> to \<open>a\<close>
  are on the wire.
\<close>

definition ot_inv :: "prty_receiver \<Rightarrow> prty_sender \<Rightarrow> u8 list \<Rightarrow> nat \<Rightarrow> nat \<Rightarrow> nat \<Rightarrow> ot_config \<Rightarrow> bool" where
  "ot_inv r0 s0 sigma fsb rows n x \<longleftrightarrow> (\<exists>a b. b \<le> a \<and> recv_next x = stepSize * a \<and> send_next x = stepSize * b \<and>
     (a = 0 \<or> stepSize * (a - 1) < n) \<and>
     corrected r0 (word_at sigma fsb) rows (min n (stepSize * a)) (recv_party x) \<and>
     mCorrectionIdx_r (recv_party x) = min n (stepSize * a) \<and>
     masked r0 s0 (word_at sigma fsb) rows (min n (stepSize * b)) (send_party x) \<and>
     mCorrectionIdx_s (send_party x) = min n (stepSize * b) \<and>
     wire x = map (\<lambda>c. batch_message r0 sigma fsb n (stepSize * c)) [b..<a])"

definition ot_initial :: "prty_receiver \<Rightarrow> prty_sender \<Rightarrow> ot_config" where
  "ot_initial r s = \<lparr>recv_next = 0, recv_party = r, send_next = 0, send_party = s, wire = []\<rparr>"

lemma ot_inv_initial:
  "ot_start rows n r0 s0 \<Longrightarrow> ot_inv r0 s0 sigma fsb rows n (ot_initial r0 s0)"
  unfolding ot_inv_def ot_initial_def
  by (rule exI [of _ 0], rule exI [of _ 0]) (simp add: ot_start_def Let_def corrected_start masked_def)

lemma ot_inv_step:
  assumes start: "ot_start rows n r0 s0" and words: "words_ok r0 sigma fsb n"
    and inv: "ot_inv r0 s0 sigma fsb rows n x" and step: "ot_step junk sigma fsb n x y"
  shows "ot_inv r0 s0 sigma fsb rows n y"
proof -
  obtain a b where ab: "b \<le> a" "recv_next x = stepSize * a" "send_next x = stepSize * b"
      "a = 0 \<or> stepSize * (a - 1) < n"
    and r: "corrected r0 (word_at sigma fsb) rows (min n (stepSize * a)) (recv_party x)"
      "mCorrectionIdx_r (recv_party x) = min n (stepSize * a)"
    and s: "masked r0 s0 (word_at sigma fsb) rows (min n (stepSize * b)) (send_party x)"
      "mCorrectionIdx_s (send_party x) = min n (stepSize * b)"
    and w: "wire x = map (\<lambda>c. batch_message r0 sigma fsb n (stepSize * c)) [b..<a]"
    using inv unfolding ot_inv_def by blast
  have W: "0 < mStride (mT0 r0)" "n \<le> rows" using start by (simp_all add: ot_start_def Let_def)
  from step show ?thesis
  proof (cases rule: ot_step.cases)
    case (receiver_batch r' q)
    have lt: "stepSize * a < n" using receiver_batch ab(2) by simp
    then have min: "min n (stepSize * a) = stepSize * a" by simp
    obtain r'' where R: "recv_batch junk sigma fsb n (stepSize * a) (recv_party x) (wire x) =
        Some (r'', wire x @ [batch_message r0 sigma fsb n (stepSize * a)])"
      "corrected r0 (word_at sigma fsb) rows (min n (stepSize * a + stepSize)) r''"
      "mCorrectionIdx_r r'' = min n (stepSize * a + stepSize)"
      by (rule recv_batch_result [OF r [unfolded min] lt W(2) words W(1)])
    then have "r' = r''" "q = wire x @ [batch_message r0 sigma fsb n (stepSize * a)]"
      using receiver_batch ab(2) by simp_all
    then show ?thesis
      unfolding ot_inv_def using ab R(2,3) s w lt receiver_batch(1)
      by (intro exI [of _ "Suc a"] exI [of _ b]) (simp add: add.commute)
  next
    case (sender_batch s' q)
    have lt: "stepSize * b < n" using sender_batch ab(3) by simp
    then have min: "min n (stepSize * b) = stepSize * b" by simp
    have "b \<noteq> a"
    proof
      assume "b = a"
      then have "wire x = []" using w by simp
      then show False using sender_batch(3)
        by (auto simp: send_batch_def recvCorrection_def channel_recv_def Let_def split: if_splits)
    qed
    then have "wire x = batch_message r0 sigma fsb n (stepSize * b) #
        map (\<lambda>c. batch_message r0 sigma fsb n (stepSize * c)) [Suc b..<a]"
      using ab(1) w by (simp add: upt_conv_Cons)
    from send_batch_result [OF s [unfolded min] start lt this]
    obtain s'' where S: "send_batch n (stepSize * b) (send_party x) (wire x) =
        Some (Inr (s'', map (\<lambda>c. batch_message r0 sigma fsb n (stepSize * c)) [Suc b..<a]))"
      "masked r0 s0 (word_at sigma fsb) rows (min n (stepSize * b + stepSize)) s''"
      "mCorrectionIdx_s s'' = min n (stepSize * b + stepSize)"
      by blast
    then have "s' = s''" "q = map (\<lambda>c. batch_message r0 sigma fsb n (stepSize * c)) [Suc b..<a]"
      using sender_batch ab(3) by simp_all
    then show ?thesis
      unfolding ot_inv_def using ab r S(2,3) \<open>b \<noteq> a\<close> sender_batch(1)
      by (intro exI [of _ a] exI [of _ "Suc b"]) (simp add: add.commute)
  qed
qed

lemma ot_inv_reach:
  assumes "ot_start rows n r0 s0" and "words_ok r0 sigma fsb n"
    and "ot_reach junk sigma fsb n (ot_initial r0 s0) x"
  shows "ot_inv r0 s0 sigma fsb rows n x"
  using assms(3)
proof (induction "ot_initial r0 s0" x rule: ot_reach.induct)
  case ot_refl
  show ?case by (rule ot_inv_initial [OF assms(1)])
next
  case (ot_trans y z)
  then show ?case using ot_inv_step [OF assms(1,2)] by blast
qed

end
