(* ===== verification/Ot_Setup.thy ===== *)
theory Ot_Setup
  imports Ot_Phase
begin

text \<open>
  The start of \<^verbatim>\<open>runOOS\<close> of both parties (\<^verbatim>\<open>frontend/ProtocolParty.cpp\<close>): the base OTs, simulated from a
  seed that both know, and the initialisation of the OT extension; it gives the state from which
  the OT phase starts.
\<close>

subsection \<open>The simulated base OTs\<close>

text \<open>The next call after one that may fail or not return.\<close>

definition call_bind :: "'a res option \<Rightarrow> ('a \<Rightarrow> 'b res option) \<Rightarrow> 'b res option" where
  "call_bind m f = Option.bind m (\<lambda>r. case r of Inl e \<Rightarrow> Some (Inl e) | Inr x \<Rightarrow> f x)"

lemma call_bind_simps [simp]:
  "call_bind (Some (Inr x)) f = f x"
  "call_bind (Some (Inl e)) f = Some (Inl e)"
  "call_bind None f = None"
  by (simp_all add: call_bind_def)

text \<open>\<^verbatim>\<open>_mm_set_epi32(4253465, 3434565, 234435, 23987045)\<close>: the last argument is the lowest lane.\<close>

definition base_seed :: block where
  "base_seed = lanes32 23987045 234435 3434565 4253465"

text \<open>\<^verbatim>\<open>baseRecv[i] = baseSend[i][baseChoice[i]]\<close>\<close>

definition base_recv :: "(block \<times> block) list \<Rightarrow> bit_vector \<Rightarrow> block list res" where
  "base_recv baseSend baseChoice =
     foldl (\<lambda>r i. res_bind r (\<lambda>r. res_bind (bv_get baseChoice i) (\<lambda>b.
         Inr (r[i := if b = 0 then fst (baseSend ! i) else snd (baseSend ! i)]))))
       (Inr (replicate (length baseSend) 0)) [0..<length baseSend]"

definition block_pairs :: "nat \<Rightarrow> u8 list \<Rightarrow> (block \<times> block) list" where
  "block_pairs n bs = (let blks = bytes_blocks (2 * n) bs in map (\<lambda>i. (blks ! (2 * i), blks ! (2 * i + 1))) [0..<n])"

lemma length_block_pairs [simp]: "length (block_pairs n bs) = n"
  by (simp add: block_pairs_def Let_def)

definition base_ots :: "nat \<Rightarrow> bit_vector \<Rightarrow> ((block \<times> block) list \<times> block list \<times> bit_vector \<times> prng) res option" where
  "base_ots baseCount baseChoice =
     call_bind (Some (SetSeed base_seed defaultBufferSize unkeyed_prng)) (\<lambda>prng0.
     call_bind (bv_randomize prng0 baseChoice) (\<lambda>(baseChoice, prng0).
     call_bind (prng_get prng0 (16 * 2 * baseCount)) (\<lambda>(bs, prng0).
       let baseSend = block_pairs baseCount bs
       in Some (res_bind (base_recv baseSend baseChoice) (\<lambda>baseRecv. Inr (baseSend, baseRecv, baseChoice, prng0))))))"

definition recv_setup :: "bool \<Rightarrow> nat \<Rightarrow> nat \<Rightarrow> prty_receiver \<Rightarrow> prty_receiver res option" where
  "recv_setup isMalicious fieldSize numOTs recv =
     call_bind (Some (configure_r isMalicious 40 fieldSize recv)) (\<lambda>recv.
     call_bind (Some (getBaseOTCount_r recv)) (\<lambda>baseCount.
     call_bind (base_ots baseCount (bv_reset baseCount empty_bits)) (\<lambda>(baseSend, baseRecv, baseChoice, prng0).
     call_bind (Some (setBaseOts_r baseSend recv)) (\<lambda>recv.
     Some (init_r numOTs recv)))))"

text \<open>The choice bits of the sender are a member of \<^verbatim>\<open>Sender\<close>.\<close>

definition send_setup :: "bool \<Rightarrow> nat \<Rightarrow> nat \<Rightarrow> bit_vector \<Rightarrow> prty_sender \<Rightarrow> (bit_vector \<times> prty_sender) res option" where
  "send_setup isMalicious fieldSize numOTs baseChoice sender =
     call_bind (Some (configure_s isMalicious 40 fieldSize sender)) (\<lambda>sender.
     call_bind (Some (getBaseOTCount_s sender)) (\<lambda>baseCount.
     call_bind (base_ots baseCount (bv_resize baseCount baseChoice)) (\<lambda>(baseSend, baseRecv, baseChoice, prng0).
     call_bind (Some (setBaseOts_s baseRecv baseChoice sender)) (\<lambda>sender.
     Some (res_bind (init_s numOTs sender) (\<lambda>sender. Inr (baseChoice, sender)))))))"

subsection \<open>What the base OTs are\<close>

text \<open>The blocks and the choice bits, as the stream of the seed gives them.\<close>

definition seed_byte :: "nat \<Rightarrow> u8" where
  "seed_byte = stream_byte (setKey base_seed) 0"

definition base_choice :: "nat \<Rightarrow> bool" where
  "base_choice i = bit (seed_byte (i div 8)) (i mod 8)"

definition base_send :: "nat \<Rightarrow> (block \<times> block) list" where
  "base_send n = block_pairs n (map (\<lambda>j. seed_byte ((n + 7) div 8 + j)) [0..<32 * n])"

lemma length_base_send [simp]: "length (base_send n) = n"
  by (simp add: base_send_def)

definition chosen :: "(block \<times> block) list \<Rightarrow> nat \<Rightarrow> block" where
  "chosen base i = (if base_choice i then snd (base ! i) else fst (base ! i))"

lemma base_recv_loop:
  assumes "mNumBits v = length base" and "\<And>i. i < length base \<Longrightarrow> bit_at (mData v) i = base_choice i"
  shows "base_recv base v = Inr (map (chosen base) [0..<length base])"
proof -
  let ?f = "\<lambda>r i. res_bind r (\<lambda>r. res_bind (bv_get v i) (\<lambda>b.
         Inr (r[i := if b = 0 then fst (base ! i) else snd (base ! i)])))"
  have "foldl ?f (Inr (replicate (length base) 0)) [0..<n] = Inr (map (chosen base) [0..<n] @ replicate (length base - n) 0)"
    if "n \<le> length base" for n
    using that
  proof (induction n)
    case (Suc n)
    have "drop_bit (n mod 8) (mData v ! (n div 8) AND push_bit (n mod 8) 1) \<noteq> 0 \<longleftrightarrow> base_choice n"
    proof -
      have "drop_bit (n mod 8) (mData v ! (n div 8) AND push_bit (n mod 8) 1) = of_bool (bit_at (mData v) n)"
        by (rule bit_word_eqI) (auto simp: bit_at_def bit_simps)
      then show ?thesis using assms(2) [of n] Suc.prems by simp
    qed
    then have "bv_get v n = Inr (drop_bit (n mod 8) (mData v ! (n div 8) AND push_bit (n mod 8) 1))"
      "drop_bit (n mod 8) (mData v ! (n div 8) AND push_bit (n mod 8) 1) = 0 \<longleftrightarrow> \<not> base_choice n"
      using Suc.prems assms(1) by (simp add: bv_get_def, blast)
    moreover have "replicate (length base - n) (0 :: block) = 0 # replicate (length base - Suc n) 0"
      using Suc.prems by (simp add: Suc_diff_Suc flip: replicate_Suc)
    ultimately show ?case using Suc by (simp add: list_update_append chosen_def del: bit_and_iff)
  qed simp
  from this [of "length base"] show ?thesis by (simp add: base_recv_def)
qed

lemma base_ots_result:
  assumes "mNumBits v = n" and "sizeBytes v \<le> length (mData v)"
  obtains v' g where "base_ots n v = Some (Inr (base_send n, map (chosen (base_send n)) [0..<n], v', g))"
    and "mNumBits v' = n" and "length (mData v') = length (mData v)"
    and "\<And>i. i < n \<Longrightarrow> bit_at (mData v') i = base_choice i"
proof -
  obtain g0 where g0: "SetSeed base_seed defaultBufferSize unkeyed_prng = Inr g0" "prng_ok g0"
    "\<And>j. next_byte g0 j = seed_byte j"
    using SetSeed_ok [of defaultBufferSize unkeyed_prng base_seed]
    by (auto simp: unkeyed_prng_def defaultBufferSize_def seed_byte_def)
  have sz: "sizeBytes v = (n + 7) div 8" using assms(1) by (simp add: sizeBytes_def)
  obtain g1 where g1: "prng_get g0 (sizeBytes v) = Some (Inr (map (next_byte g0) [0..<sizeBytes v], g1))" "prng_ok g1"
    "\<And>j. next_byte g1 j = next_byte g0 (sizeBytes v + j)"
    using prng_get_stream [OF g0(2)] by blast
  obtain g2 where g2: "prng_get g1 (16 * 2 * n) = Some (Inr (map (next_byte g1) [0..<16 * 2 * n], g2))"
    using prng_get_stream [OF g1(2)] by blast
  define v' where "v' = v\<lparr>mData := memcpy (mData v) (map (next_byte g0) [0..<sizeBytes v]) (sizeBytes v)\<rparr>"
  have choice: "bit_at (mData v') i = base_choice i" if "i < n" for i
  proof -
    have "i div 8 < sizeBytes v" using that unfolding sz by linarith
    then show ?thesis using assms(2) by (simp add: v'_def bit_at_def base_choice_def memcpy_def nth_append g0(3))
  qed
  have stream: "map (next_byte g1) [0..<16 * 2 * n] = map (\<lambda>j. seed_byte ((n + 7) div 8 + j)) [0..<32 * n]"
    by (simp add: g1(3) g0(3) sz)
  have recv: "base_recv (base_send n) v' = Inr (map (chosen (base_send n)) [0..<n])"
    using base_recv_loop [of v' "base_send n"] choice assms(1) by (simp add: v'_def)
  have "bv_randomize g0 v = Some (Inr (v', g1))"
    using g1(1) by (simp add: bv_randomize_def v'_def)
  then have "base_ots n v = Some (Inr (base_send n, map (chosen (base_send n)) [0..<n], v', g2))"
    using g2 recv unfolding base_ots_def g0(1) call_bind_simps
    by (simp only: call_bind_simps case_prod_conv stream base_send_def [symmetric] Let_def res_bind_simps)
  then show ?thesis using that choice assms by (simp add: v'_def)
qed

subsection \<open>Seeding the generators\<close>

lemma res_bind_assoc: "res_bind (res_bind r f) g = res_bind r (\<lambda>x. res_bind (f x) g)"
  by (cases r) simp_all

lemma vec_resize_self [simp]: "vec_resize (length xs) x xs = xs"
  by (simp add: vec_resize_def)

lemma foldl_res_update:
  assumes "\<And>i. i < n \<Longrightarrow> \<exists>y. F i (gs ! i) = Inr y \<and> P i y" and "n \<le> length gs"
  shows "\<exists>gs'. foldl (\<lambda>r i. res_bind r (\<lambda>gs. res_bind (F i (gs ! i)) (\<lambda>y. Inr (gs[i := y])))) (Inr gs) [0..<n] = Inr gs' \<and>
    length gs' = length gs \<and> (\<forall>i < n. P i (gs' ! i)) \<and> (\<forall>i. n \<le> i \<longrightarrow> gs' ! i = gs ! i)"
  using assms
proof (induction n)
  case (Suc n)
  then obtain gs' where gs': "foldl (\<lambda>r i. res_bind r (\<lambda>gs. res_bind (F i (gs ! i)) (\<lambda>y. Inr (gs[i := y])))) (Inr gs) [0..<n] = Inr gs'"
    "length gs' = length gs" "\<forall>i < n. P i (gs' ! i)" "\<forall>i. n \<le> i \<longrightarrow> gs' ! i = gs ! i"
    by (auto simp: less_Suc_eq)
  obtain y where "F n (gs ! n) = Inr y" "P n y" using Suc.prems(1) by blast
  with gs' Suc.prems(2) show ?case by (auto simp: nth_list_update less_Suc_eq)
qed simp

text \<open>A generator that \<open>SetSeed\<close> gives the default buffer, and what it is then.\<close>

definition seedable :: "prng \<Rightarrow> bool" where
  "seedable g \<longleftrightarrow> mBuffer g = [] \<or> length (mBuffer g) = defaultBufferSize \<and> mBufferByteCapacity g = 16 * defaultBufferSize"

definition seeded :: "block \<Rightarrow> prng \<Rightarrow> bool" where
  "seeded k g \<longleftrightarrow> mAes g = setKey k \<and> mBlockIdx g = of_nat defaultBufferSize"

lemma seedable_unkeyed [simp]: "seedable unkeyed_prng"
  by (simp add: seedable_def unkeyed_prng_def)

lemma SetSeed_seeded: "seedable g \<Longrightarrow> \<exists>g'. SetSeed k defaultBufferSize g = Inr g' \<and> seeded k g'"
  using SetSeed_ok [of defaultBufferSize g k] by (auto simp: seedable_def seeded_def defaultBufferSize_def)

lemma setBaseOts_r_result:
  assumes "length base = length (mGens_r r)" and "\<And>g. g \<in> set (mGens_r r) \<Longrightarrow> seedable (fst g) \<and> seedable (snd g)"
  obtains gs where "setBaseOts_r base r = Inr (r\<lparr>mGens_r := gs, mHasBase := True\<rparr>)" and "length gs = length base"
    and "\<And>i. i < length base \<Longrightarrow> seeded (fst (base ! i)) (fst (gs ! i)) \<and> seeded (snd (base ! i)) (snd (gs ! i))"
proof -
  let ?F = "\<lambda>i g. res_bind (SetSeed (fst (base ! i)) defaultBufferSize (fst g)) (\<lambda>g0.
      res_bind (SetSeed (snd (base ! i)) defaultBufferSize (snd g)) (\<lambda>g1. Inr (g0, g1)))"
    and ?P = "\<lambda>i g. seeded (fst (base ! i)) (fst g) \<and> seeded (snd (base ! i)) (snd g)"
  have "\<exists>y. ?F i (mGens_r r ! i) = Inr y \<and> ?P i y" if "i < length (mGens_r r)" for i
    using SetSeed_seeded [of "fst (mGens_r r ! i)" "fst (base ! i)"] SetSeed_seeded [of "snd (mGens_r r ! i)" "snd (base ! i)"]
      assms(2) [of "mGens_r r ! i"] that by auto
  from foldl_res_update [of "length (mGens_r r)" ?F "mGens_r r" ?P, OF this order_refl]
  obtain gs where "foldl (\<lambda>r i. res_bind r (\<lambda>gs. res_bind (?F i (gs ! i)) (\<lambda>y. Inr (gs[i := y]))))
      (Inr (mGens_r r)) [0..<length (mGens_r r)] = Inr gs" "length gs = length (mGens_r r)"
    "\<forall>i < length (mGens_r r). ?P i (gs ! i)" by blast
  then show ?thesis using assms(1) that
    by (simp add: setBaseOts_r_def res_bind_assoc)
qed

lemma setBaseOts_s_result:
  assumes "mNumBits v = length base" and "length base = length (mGens_s s)" and "128 dvd length base"
    and "\<And>g. g \<in> set (mGens_s s) \<Longrightarrow> seedable g" and "bits_ok v"
  obtains gs where "setBaseOts_s base v s = Inr (s\<lparr>mBaseChoiceBits := bv_assign v (mBaseChoiceBits s), mGens_s := gs,
      mChoiceBlks := bytes_blocks (length base div 128) (mData v)\<rparr>)" and "length gs = length base"
    and "\<And>i. i < length base \<Longrightarrow> seeded (base ! i) (gs ! i)"
proof -
  let ?F = "\<lambda>i g. SetSeed (base ! i) defaultBufferSize g" and ?P = "\<lambda>i g. seeded (base ! i) g"
  have "\<exists>y. ?F i (mGens_s s ! i) = Inr y \<and> ?P i y" if "i < length base" for i
    using SetSeed_seeded [of "mGens_s s ! i" "base ! i"] assms(2,4) that by auto
  from foldl_res_update [of "length base" ?F "mGens_s s" ?P, OF this] assms(2)
  obtain gs where gs: "foldl (\<lambda>r i. res_bind r (\<lambda>gs. res_bind (?F i (gs ! i)) (\<lambda>y. Inr (gs[i := y]))))
      (Inr (mGens_s s)) [0..<length base] = Inr gs" "length gs = length (mGens_s s)"
    "\<forall>i < length base. ?P i (gs ! i)" by auto
  define w where "w = bv_assign v (mBaseChoiceBits s)"
  have w: "take (sizeBytes v) (mData w) = take (sizeBytes v) (mData v)"
    using assms(5) by (auto simp: w_def bv_assign_def bv_reset_def Let_def memcpy_def sizeBytes_def bits_ok_def)
  have "map (\<lambda>i. bytes_block (take 16 (drop (i * 16) (mData w)))) [0..<length base div 128] =
      bytes_blocks (length base div 128) (mData v)"
  proof (rule nth_equalityI)
    fix i assume "i < length (map (\<lambda>i. bytes_block (take 16 (drop (i * 16) (mData w)))) [0..<length base div 128])"
    then have i: "i < length base div 128" by simp
    then have "i * 16 + 16 \<le> sizeBytes v" using assms(1,3) by (auto simp: sizeBytes_def elim!: dvdE)
    then have "take 16 (drop (i * 16) (mData w)) = take 16 (drop (i * 16) (take (sizeBytes v) (mData w)))"
      "take 16 (drop (i * 16) (mData v)) = take 16 (drop (i * 16) (take (sizeBytes v) (mData v)))"
      by (simp_all add: drop_take min_absorb1)
    then show "map (\<lambda>i. bytes_block (take 16 (drop (i * 16) (mData w)))) [0..<length base div 128] ! i =
      bytes_blocks (length base div 128) (mData v) ! i"
      using i w by (simp add: nth_bytes_blocks mult.commute)
  qed simp
  then show ?thesis using assms(1,3) that [of gs] gs assms(2)
    by (simp add: setBaseOts_s_def Let_def w_def [symmetric] dvd_eq_mod_eq_0)
qed

subsection \<open>Configuration\<close>

text \<open>What the code that is loaded for an input size satisfies.\<close>

definition code_for :: "nat \<Rightarrow> linear_code \<Rightarrow> bool" where
  "code_for n c \<longleftrightarrow> code_ok c \<and> mPlaintextU8Size c = (n + 7) div 8 \<and> (n + 7) div 8 \<le> 16 * plaintextBlkSize c \<and>
     4 \<le> codewordBlkSize c \<and> codewordBlkSize c \<le> 7 \<and> codewordU8Size c \<le> 160 \<and>
     (codewordBlkSize c = 4 \<longleftrightarrow> n \<le> 90) \<and> (plaintextBlkSize c = 1 \<longleftrightarrow> n \<le> 90) \<and>
     roundUpTo (mCodewordBitSize c) 128 = 128 * codewordBlkSize c"

lemma table_code_for:
  fixes n cw m :: nat
  assumes "\<exists>c'. load t c = Inr c' \<and> code_ok c' \<and> mCodewordBitSize c' = cw \<and> plaintextBitSize c' = m"
    and "384 < cw" "cw \<le> 896" and "(m + 7) div 8 = (n + 7) div 8" and "(n + 7) div 8 \<le> 16 * ((m + 127) div 128)"
    and "(cw + 127) div 128 = 4 \<longleftrightarrow> n \<le> 90" "(m + 127) div 128 = 1 \<longleftrightarrow> n \<le> 90"
  shows "\<exists>c'. load t c = Inr c' \<and> code_for n c'"
proof -
  obtain c' where c: "load t c = Inr c'" "code_ok c'" "mCodewordBitSize c' = cw" "plaintextBitSize c' = m"
    using assms(1) by blast
  have w: "codewordBlkSize c' = (cw + 127) div 128" "codewordU8Size c' = (cw + 7) div 8" "plaintextBlkSize c' = (m + 127) div 128"
    using c(3,4) assms(3) by (simp_all add: codewordBlkSize_def codewordU8Size_def plaintextBlkSize_def)
  moreover have "4 \<le> (cw + 127) div 128" "(cw + 127) div 128 \<le> 7" "(cw + 7) div 8 \<le> 160"
    using assms(2,3) by simp_all
  moreover have "mPlaintextU8Size c' = (n + 7) div 8" using c(2,4) assms(4) by (simp add: code_ok_def)
  moreover have "roundUpTo (mCodewordBitSize c') 128 = 128 * codewordBlkSize c'"
    by (simp add: roundUpTo_def w c(3))
  ultimately have "code_for n c'" using c(2) assms(5-7) unfolding code_for_def by simp
  then show ?thesis using c(1) by blast
qed

lemma code_table_loads:
  assumes "code_table n = Some t"
  shows "\<exists>c'. load t c = Inr c' \<and> code_for n c'" (is "?P n t")
proof -
  have c65: "?P 65 mx65by448" by (rule table_code_for [OF mx65by448_code]) simp_all
  have c72: "?P 72 mx72by462" by (rule table_code_for [OF mx72by462_code]) simp_all
  have c84: "?P 84 mx84by495" by (rule table_code_for [OF mx84by495_code]) simp_all
  have c90: "?P 90 mx90by495" by (rule table_code_for [OF mx90by495_code]) simp_all
  have c132: "?P 132 mx132by583" by (rule table_code_for [OF mx132by583_code]) simp_all
  have c138: "?P 138 mx138by594" by (rule table_code_for [OF mx138by594_code]) simp_all
  have c144: "?P 144 mx144by605" by (rule table_code_for [OF mx144by605_code]) simp_all
  have c150: "?P 150 mx150by616" by (rule table_code_for [OF mx150by616_code]) simp_all
  have c156: "?P 156 mx156by627" by (rule table_code_for [OF mx156by627_code]) simp_all
  have c162: "?P 162 mx162by638" by (rule table_code_for [OF mx162by638_code]) simp_all
  have c168: "?P 168 mx168by649" by (rule table_code_for [OF mx168by649_code]) simp_all
  have c174: "?P 174 mx174by660" by (rule table_code_for [OF mx174by660_code]) simp_all
  have c210: "?P 210 mx210by732" by (rule table_code_for [OF mx210by732_code]) simp_all
  have c217: "?P 217 mx217by744" by (rule table_code_for [OF mx217by744_code]) simp_all
  have c231: "?P 231 mx231by768" by (rule table_code_for [OF mx231by768_code]) simp_all
  have c238: "?P 238 mx238by776" by (rule table_code_for [OF mx238by776_code]) simp_all
  from assms show ?thesis
    unfolding code_table_def
    by (auto simp only: option.inject option.distinct c65 c72 c84 c90 c132 c138 c144 c150 c156 c162 c168 c174
        c210 c217 c231 c238 split: if_split_asm)
qed

subsection \<open>The two setups\<close>

text \<open>
  What the setup needs of a party, and keeps: its matrices are well formed and its generators have no
  buffer or the default one.
\<close>

definition recv_fit :: "prty_receiver \<Rightarrow> bool" where
  "recv_fit r \<longleftrightarrow> matrix_ok (mT0 r) \<and> matrix_ok (mT1 r) \<and> matrix_ok (mW r) \<and> matrix_ok (mRy r) \<and>
     (\<forall>g \<in> set (mGens_r r). seedable (fst g) \<and> seedable (snd g))"

definition send_fit :: "prty_sender \<Rightarrow> bool" where
  "send_fit s \<longleftrightarrow> matrix_ok (mT s) \<and> matrix_ok (mCorrectionVals s) \<and> matrix_ok (mQx s) \<and>
     (\<forall>g \<in> set (mGens_s s). seedable g)"

lemma matrix_ok_empty [simp]: "matrix_ok empty_matrix"
  by (simp add: matrix_ok_def empty_matrix_def)

lemma fit_new [simp]: "recv_fit (PrtyMOtReceiver m i)" "send_fit (PrtyMOtSender m j)"
  by (simp_all add: recv_fit_def PrtyMOtReceiver_def send_fit_def PrtyMOtSender_def)

lemma set_vec_resize: "x \<in> set (vec_resize n y xs) \<Longrightarrow> x = y \<or> x \<in> set xs"
  by (auto simp: vec_resize_def dest: in_set_takeD)

text \<open>The rows of a matrix are the columns of the generators with the seeds \<open>f\<close>.\<close>

definition columns_of :: "(nat \<Rightarrow> block) \<Rightarrow> nat \<Rightarrow> nat \<Rightarrow> matrix \<Rightarrow> bool" where
  "columns_of f W N M \<longleftrightarrow> (\<forall>k < N. \<forall>i < W. \<forall>b < 128.
     bit (cell M k i) b \<longleftrightarrow> column_bit (setKey (f (128 * i + b))) (of_nat defaultBufferSize) k)"

lemma expanded_columns:
  assumes "expanded gs N M" and "mStride M = W" and "\<And>j. j < 128 * W \<Longrightarrow> seeded (f j) (gs ! j)"
  shows "columns_of f W N M"
  unfolding columns_of_def
proof (intro allI impI)
  fix k i b :: nat assume k: "k < N" "i < W" "b < 128"
  then have "128 * i + b < 128 * W" using mult_le_mono2 [of "Suc i" W 128] by simp
  from assms(3) [OF this] show "bit (cell M k i) b \<longleftrightarrow> column_bit (setKey (f (128 * i + b))) (of_nat defaultBufferSize) k"
    using assms(1,2) k by (simp add: expanded_def cell_def seeded_def)
qed

lemma columns_base_row:
  assumes "columns_of (\<lambda>j. fst (base ! j)) W N M0" and "columns_of (\<lambda>j. snd (base ! j)) W N M1"
    and "columns_of (chosen base) W N M"
    and "\<And>b. b < 128 \<Longrightarrow> bit c b \<longleftrightarrow> base_choice (128 * i + b)" and "k < N" "i < W"
  shows "cell M k i = base_row (cell M0 k i) (cell M1 k i) c"
proof (rule bit_word_eqI)
  fix b assume "b < LENGTH(128)"
  then have b: "b < 128" by simp
  have "bit (cell M k i) b \<longleftrightarrow> (if base_choice (128 * i + b) then bit (cell M1 k i) b else bit (cell M0 k i) b)"
    using assms(1-3,5,6) b by (simp add: columns_of_def chosen_def)
  then show "bit (cell M k i) b = bit (base_row (cell M0 k i) (cell M1 k i) c) b"
    using assms(4) [OF b] by (auto simp: base_row_def bit_simps)
qed

text \<open>The state of the receiver and of the sender when the OT phase starts.\<close>

definition recv_started :: "nat \<Rightarrow> nat \<Rightarrow> prty_receiver \<Rightarrow> bool" where
  "recv_started fieldSize N r \<longleftrightarrow> (let W = codewordBlkSize (mCode_r r) in
     code_for fieldSize (mCode_r r) \<and> recv_ready N r \<and> mCorrectionIdx_r r = 0 \<and>
     mInputByteCount_r r = (fieldSize + 7) div 8 \<and> length (mGens_r r) = 128 * W \<and>
     columns_of (\<lambda>j. fst (base_send (128 * W) ! j)) W N (mT0 r) \<and>
     columns_of (\<lambda>j. snd (base_send (128 * W) ! j)) W N (mT1 r))"

lemma configure_r_result:
  assumes "code_table fs = Some t" and "recv_fit r"
  obtains c gs where "load t (mCode_r r) = Inr c" and "code_for fs c"
    and "configure_r m 40 fs r = Inr (r\<lparr>mCode_r := c, mInputByteCount_r := (fs + 7) div 8, mStatSecParam_r := 40,
      mMalicious_r := m, mGens_r := gs\<rparr>)"
    and "length gs = 128 * codewordBlkSize c" and "\<And>g. g \<in> set gs \<Longrightarrow> seedable (fst g) \<and> seedable (snd g)"
proof -
  obtain c where c: "load t (mCode_r r) = Inr c" "code_for fs c" using code_table_loads [OF assms(1)] by blast
  have n: "roundUpTo (mCodewordBitSize c) 128 = 128 * codewordBlkSize c" using c(2) by (simp add: code_for_def)
  show ?thesis
  proof (rule that [OF c])
    show "configure_r m 40 fs r = Inr (r\<lparr>mCode_r := c, mInputByteCount_r := (fs + 7) div 8, mStatSecParam_r := 40,
      mMalicious_r := m, mGens_r := vec_resize (128 * codewordBlkSize c) (unkeyed_prng, unkeyed_prng) (mGens_r r)\<rparr>)"
      by (simp add: configure_r_def assms(1) c(1) n)
  qed (use assms(2) in \<open>auto simp: recv_fit_def dest: set_vec_resize\<close>)
qed

lemma recv_setup_result:
  assumes t: "code_table fs = Some t" and fit: "recv_fit r"
  obtains r0 where "recv_setup m fs n r = Some (Inr r0)" and "load t (mCode_r r) = Inr (mCode_r r0)"
    and "recv_started fs (roundUpTo (n + 40) 128) r0"
proof -
  obtain c gs where c: "load t (mCode_r r) = Inr c" "code_for fs c"
    and conf: "configure_r m 40 fs r = Inr (r\<lparr>mCode_r := c, mInputByteCount_r := (fs + 7) div 8, mStatSecParam_r := 40,
      mMalicious_r := m, mGens_r := gs\<rparr>)"
    and gs: "length gs = 128 * codewordBlkSize c" "\<And>g. g \<in> set gs \<Longrightarrow> seedable (fst g) \<and> seedable (snd g)"
    by (rule configure_r_result [OF t fit, of m], rule that)
  define W where "W = codewordBlkSize c"
  define r1 where "r1 = r\<lparr>mCode_r := c, mInputByteCount_r := (fs + 7) div 8, mStatSecParam_r := 40,
      mMalicious_r := m, mGens_r := gs\<rparr>"
  have W: "4 \<le> W" "W \<le> 7" using c(2) by (simp_all add: code_for_def W_def)
  have count: "getBaseOTCount_r r1 = Inr (128 * W)"
    using gs(1) W by (auto simp: getBaseOTCount_r_def r1_def W_def)
  obtain v g where base: "base_ots (128 * W) (bv_reset (128 * W) empty_bits) =
      Some (Inr (base_send (128 * W), map (chosen (base_send (128 * W))) [0..<128 * W], v, g))"
    by (rule base_ots_result [of "bv_reset (128 * W) empty_bits" "128 * W"])
      (simp_all add: bv_reset_def empty_bits_def sizeBytes_def Let_def)
  have "length (base_send (128 * W)) = length (mGens_r r1)" using gs(1) by (simp add: r1_def W_def)
  from setBaseOts_r_result [OF this] gs(2)
  obtain hs where set: "setBaseOts_r (base_send (128 * W)) r1 = Inr (r1\<lparr>mGens_r := hs, mHasBase := True\<rparr>)"
    and hs: "length hs = 128 * W" and seeds: "\<And>i. i < 128 * W \<Longrightarrow> seeded (fst (base_send (128 * W) ! i)) (fst (hs ! i)) \<and>
      seeded (snd (base_send (128 * W) ! i)) (snd (hs ! i))"
    by (auto simp: r1_def)
  define r2 where "r2 = r1\<lparr>mGens_r := hs, mHasBase := True\<rparr>"
  define N where "N = roundUpTo (n + 40) 128"
  have byte: "0 < (fs + 7) div 8" using t by (auto simp: code_table_def split: if_splits)
  have r2: "recv_ok r2" "mHasBase r2" "mInputByteCount_r r2 \<noteq> 0" "mStatSecParam_r r2 = 40"
    "length (mGens_r r2) div 128 = W" "mCode_r r2 = c" "mInputByteCount_r r2 = (fs + 7) div 8"
    using fit hs byte by (simp_all add: r2_def r1_def recv_ok_def recv_fit_def)
  obtain M0 M1 where I: "init_r n r2 = Inr (r2\<lparr>mCorrectionIdx_r := 0,
      mW := matrix_resize N (plaintextBlkSize c) (matrix_assign empty_matrix (mW r2)),
      mT0 := M0, mT1 := M1, mRy := matrix_assign empty_matrix (mRy r2),
      mGens_r := map (advance2 (numSuperBlocks N)) (mGens_r r2)\<rparr>)"
    and M: "mStride M0 = W" "mStride M1 = W" "W * N \<le> length (mStore M0)" "W * N \<le> length (mStore M1)"
    and E: "expanded (map fst (mGens_r r2)) N M0" "expanded (map snd (mGens_r r2)) N M1"
    by (rule init_r_result [OF r2(1-3), where n = n, unfolded r2(4-6), folded N_def], rule that)
  define r0 where "r0 = r2\<lparr>mCorrectionIdx_r := 0,
      mW := matrix_resize N (plaintextBlkSize c) (matrix_assign empty_matrix (mW r2)),
      mT0 := M0, mT1 := M1, mRy := matrix_assign empty_matrix (mRy r2),
      mGens_r := map (advance2 (numSuperBlocks N)) (mGens_r r2)\<rparr>"
  have gens: "mGens_r r2 = hs" by (simp add: r2_def)
  have "columns_of (\<lambda>j. fst (base_send (128 * W) ! j)) W N M0"
    by (rule expanded_columns [OF E(1) M(1)]) (simp add: gens hs seeds)
  moreover have "columns_of (\<lambda>j. snd (base_send (128 * W) ! j)) W N M1"
    by (rule expanded_columns [OF E(2) M(2)]) (simp add: gens hs seeds)
  moreover have "matrix_ok (mW r2)" using fit by (simp add: r2_def r1_def recv_fit_def)
  note Wm = matrix_clear_resize [OF this, where rows = N and columns = "plaintextBlkSize c"]
  have "recv_ready N r0"
    using c(2) M Wm W r2(7) unfolding recv_ready_def Let_def code_for_def
    by (simp add: r0_def r2(6) W_def mult.commute)
  ultimately have "recv_started fs N r0"
    using c(2) hs r2(6,7) by (simp add: recv_started_def Let_def r0_def W_def [symmetric] gens)
  moreover have "recv_setup m fs n r = Some (Inr r0)"
    unfolding recv_setup_def conf r1_def [symmetric] count call_bind_simps base case_prod_conv set r2_def [symmetric]
    by (simp only: I r0_def)
  moreover have "mCode_r r0 = c" by (simp add: r0_def r2(6))
  ultimately show ?thesis using c(1) that [of r0] by (simp add: N_def)
qed

definition send_started :: "nat \<Rightarrow> nat \<Rightarrow> bit_vector \<Rightarrow> prty_sender \<Rightarrow> bool" where
  "send_started fieldSize N v s \<longleftrightarrow> (let W = codewordBlkSize (mCode_s s) in
     code_for fieldSize (mCode_s s) \<and> mCorrectionIdx_s s = 0 \<and> length (mGens_s s) = 128 * W \<and>
     mInputByteCount_s s = (fieldSize + 7) div 8 \<and> mStride (mQx s) = 0 \<and> mStride (mT s) = W \<and> mStride (mCorrectionVals s) = W \<and>
     W * N \<le> length (mStore (mT s)) \<and> W * N \<le> length (mStore (mCorrectionVals s)) \<and>
     mNumBits v = 128 * W \<and> bits_ok v \<and> mChoiceBlks s = bytes_blocks W (mData v) \<and>
     (\<forall>i < 128 * W. bit_at (mData v) i = base_choice i) \<and>
     columns_of (chosen (base_send (128 * W))) W N (mT s))"

lemma configure_s_result:
  assumes "code_table fs = Some t" and "send_fit s"
  obtains c gs where "load t (mCode_s s) = Inr c" and "code_for fs c"
    and "configure_s m 40 fs s = Inr (s\<lparr>mCode_s := c, mInputByteCount_s := (fs + 7) div 8, mStatSecParam_s := 40,
      mMalicious_s := m, mGens_s := gs\<rparr>)"
    and "length gs = 128 * codewordBlkSize c" and "\<And>g. g \<in> set gs \<Longrightarrow> seedable g"
proof -
  obtain c where c: "load t (mCode_s s) = Inr c" "code_for fs c" using code_table_loads [OF assms(1)] by blast
  have n: "roundUpTo (mCodewordBitSize c) 128 = 128 * codewordBlkSize c" using c(2) by (simp add: code_for_def)
  show ?thesis
  proof (rule that [OF c])
    show "configure_s m 40 fs s = Inr (s\<lparr>mCode_s := c, mInputByteCount_s := (fs + 7) div 8, mStatSecParam_s := 40,
      mMalicious_s := m, mGens_s := vec_resize (128 * codewordBlkSize c) unkeyed_prng (mGens_s s)\<rparr>)"
      by (simp add: configure_s_def assms(1) c(1) n)
  qed (use assms(2) in \<open>auto simp: send_fit_def dest: set_vec_resize\<close>)
qed

lemma assigned_stride: "mStride (matrix_assign empty_matrix M) = 0"
  by (simp add: matrix_assign_def matrix_resize_def empty_matrix_def Let_def)

lemma send_setup_result:
  assumes t: "code_table fs = Some t" and fit: "send_fit s" and v0: "bits_ok v0"
  obtains v s0 where "send_setup m fs n v0 s = Some (Inr (v, s0))" and "load t (mCode_s s) = Inr (mCode_s s0)"
    and "send_started fs (roundUpTo (n + 40) 128) v s0"
proof -
  obtain c gs where c: "load t (mCode_s s) = Inr c" "code_for fs c"
    and conf: "configure_s m 40 fs s = Inr (s\<lparr>mCode_s := c, mInputByteCount_s := (fs + 7) div 8, mStatSecParam_s := 40,
      mMalicious_s := m, mGens_s := gs\<rparr>)"
    and gs: "length gs = 128 * codewordBlkSize c" "\<And>g. g \<in> set gs \<Longrightarrow> seedable g"
    by (rule configure_s_result [OF t fit, of m], rule that)
  define W where "W = codewordBlkSize c"
  define s1 where "s1 = s\<lparr>mCode_s := c, mInputByteCount_s := (fs + 7) div 8, mStatSecParam_s := 40,
      mMalicious_s := m, mGens_s := gs\<rparr>"
  have W: "4 \<le> W" "W \<le> 7" using c(2) by (simp_all add: code_for_def W_def)
  have count: "getBaseOTCount_s s1 = Inr (128 * W)"
    using gs(1) W by (auto simp: getBaseOTCount_s_def s1_def W_def)
  define v1 where "v1 = bv_resize (128 * W) v0"
  have v1: "mNumBits v1 = 128 * W" "sizeBytes v1 \<le> length (mData v1)"
    using v0 by (auto simp: v1_def bv_resize_def sizeBytes_def Let_def bits_ok_def memcpy_def)
  define base where "base = map (chosen (base_send (128 * W))) [0..<128 * W]"
  obtain v g where ots: "base_ots (128 * W) v1 = Some (Inr (base_send (128 * W), base, v, g))"
    and v: "mNumBits v = 128 * W" "length (mData v) = length (mData v1)"
    and choice: "\<And>i. i < 128 * W \<Longrightarrow> bit_at (mData v) i = base_choice i"
    by (rule base_ots_result [OF v1, folded base_def], rule that)
  have vok: "bits_ok v" using v v1 by (simp add: bits_ok_def sizeBytes_def)
  have pre: "mNumBits v = length base" "length base = length (mGens_s s1)" "128 dvd length base"
    "\<And>g. g \<in> set (mGens_s s1) \<Longrightarrow> seedable g"
    using gs v(1) by (simp_all add: base_def s1_def W_def)
  obtain hs where set: "setBaseOts_s base v s1 = Inr (s1\<lparr>mBaseChoiceBits := bv_assign v (mBaseChoiceBits s1), mGens_s := hs,
      mChoiceBlks := bytes_blocks (length base div 128) (mData v)\<rparr>)"
    and hs: "length hs = length base" and seeds: "\<And>i. i < length base \<Longrightarrow> seeded (base ! i) (hs ! i)"
    by (rule setBaseOts_s_result [OF pre(1-3) _ vok], rule pre(4), assumption, rule that)
  define s2 where "s2 = s1\<lparr>mBaseChoiceBits := bv_assign v (mBaseChoiceBits s1), mGens_s := hs,
      mChoiceBlks := bytes_blocks (length base div 128) (mData v)\<rparr>"
  define N where "N = roundUpTo (n + 40) 128"
  have byte: "0 < (fs + 7) div 8" using t by (auto simp: code_table_def split: if_splits)
  have s2: "send_ok s2" "mInputByteCount_s s2 \<noteq> 0" "mStatSecParam_s s2 = 40" "length (mGens_s s2) div 128 = W"
    "mCode_s s2 = c" "mGens_s s2 = hs" "matrix_ok (mCorrectionVals s2)"
    using fit hs byte by (simp_all add: s2_def s1_def send_ok_def send_fit_def base_def)
  have "0 < length (mGens_s s2) div 128" using W s2(4) by simp
  note init = init_s_result [OF s2(1,2) this, where n = n, unfolded s2(3,4), folded N_def]
  obtain M where I: "init_s n s2 = Inr (s2\<lparr>
      mCorrectionVals := matrix_resize N W (matrix_assign empty_matrix (mCorrectionVals s2)),
      mT := M, mQx := matrix_assign empty_matrix (mQx s2), mCorrectionIdx_s := 0,
      mGens_s := map (advance (numSuperBlocks N)) (mGens_s s2)\<rparr>)"
    and M: "mStride M = W" "W * N \<le> length (mStore M)" and E: "expanded (mGens_s s2) N M"
    by (rule init, rule that)
  define s0 where "s0 = s2\<lparr>
      mCorrectionVals := matrix_resize N W (matrix_assign empty_matrix (mCorrectionVals s2)),
      mT := M, mQx := matrix_assign empty_matrix (mQx s2), mCorrectionIdx_s := 0,
      mGens_s := map (advance (numSuperBlocks N)) (mGens_s s2)\<rparr>"
  note C = matrix_clear_resize [OF s2(7), where rows = N and columns = W]
  have "columns_of (chosen (base_send (128 * W))) W N M"
    by (rule expanded_columns [OF E M(1)]) (use seeds in \<open>simp add: s2(6) base_def\<close>)
  then have "send_started fs N v s0"
    using c(2) hs s2(5,6) M C v choice vok
    by (simp add: send_started_def Let_def s0_def W_def [symmetric] base_def s2_def s1_def assigned_stride mult.commute)
  moreover have "send_setup m fs n v0 s = Some (Inr (v, s0))"
    unfolding send_setup_def conf s1_def [symmetric] count call_bind_simps v1_def [symmetric] ots case_prod_conv set s2_def [symmetric]
    by (simp only: I s0_def res_bind_simps)
  moreover have "mCode_s s0 = c" by (simp add: s0_def s2(5))
  ultimately show ?thesis using c(1) that [of v s0] by (simp add: N_def)
qed

subsection \<open>The OT phase can start\<close>

lemma setups_start:
  assumes "recv_started fs N r0" and "send_started fs N v s0" and "mCode_r r0 = mCode_s s0" and "n \<le> N"
    and "n * codewordBlkSize (mCode_r r0) < 2 ^ 31"
  shows "ot_start N n r0 s0"
proof -
  define W where "W = codewordBlkSize (mCode_r r0)"
  note R = assms(1) [unfolded recv_started_def Let_def, folded W_def]
    and S = assms(2) [unfolded send_started_def assms(3) [symmetric] Let_def, folded W_def]
  have st: "mStride (mT0 r0) = W" "W \<noteq> 0"
    using R by (simp_all add: recv_ready_def Let_def W_def [symmetric] code_for_def)
  have "cell (mT s0) k i = base_row (cell (mT0 r0) k i) (cell (mT1 r0) k i) (mChoiceBlks s0 ! i)" if k: "k < N" "i < W" for k i
  proof (rule columns_base_row)
    show "columns_of (\<lambda>j. fst (base_send (128 * W) ! j)) W N (mT0 r0)"
      "columns_of (\<lambda>j. snd (base_send (128 * W) ! j)) W N (mT1 r0)" using R by simp_all
    show "columns_of (chosen (base_send (128 * W))) W N (mT s0)" using S by simp
    fix b :: nat assume b: "b < 128"
    have len: "16 * W \<le> length (mData v)" using S by (auto simp: bits_ok_def sizeBytes_def)
    have "b div 8 < 16" using b by (simp add: less_mult_imp_div_less)
    moreover have "16 * i + 16 \<le> length (mData v)" using k(2) len by simp
    ultimately have "bit (bytes_blocks W (mData v) ! i) b \<longleftrightarrow> bit (mData v ! (16 * i + b div 8)) (b mod 8)"
      using b k(2) by (simp add: nth_bytes_blocks bit_bytes_block)
    moreover have "(128 * i + b) div 8 = 16 * i + b div 8" "(128 * i + b) mod 8 = b mod 8" by presburger+
    moreover have "128 * i + b < 128 * W" using b k(2) by simp
    then have "bit_at (mData v) (128 * i + b) = base_choice (128 * i + b)" using S by blast
    moreover have "mChoiceBlks s0 = bytes_blocks W (mData v)" using S by simp
    ultimately show "bit (mChoiceBlks s0 ! i) b \<longleftrightarrow> base_choice (128 * i + b)"
      by (simp add: bit_at_def)
  qed (use k in simp_all)
  then show ?thesis
    using R S assms(4,5) st unfolding ot_start_def Let_def st W_def [symmetric] by simp
qed

end
