(* ===== verification/Ot_Properties.thy ===== *)
theory Ot_Properties
  imports Ot_Setup
begin

text \<open>
  The properties of the OT phase: what the rows of the two parties are in every state that can be
  reached, that the parties do not block each other, and that no message is misread.
\<close>

subsection \<open>Progress\<close>

lemma ot_inv_next:
  assumes start: "ot_start rows n r0 s0" and words: "words_ok r0 sigma fsb n"
    and inv: "ot_inv r0 s0 sigma fsb rows n x"
  shows "recv_next x < n \<Longrightarrow> \<exists>r q. recv_batch junk sigma fsb n (recv_next x) (recv_party x) (wire x) = Some (r, q)"
    and "send_next x < n \<Longrightarrow> wire x \<noteq> [] \<Longrightarrow>
      \<exists>s q. send_batch n (send_next x) (send_party x) (wire x) = Some (Inr (s, q))"
    and "n \<le> recv_next x \<Longrightarrow> send_next x < n \<Longrightarrow> wire x \<noteq> []"
proof -
  obtain a b where ab: "b \<le> a" "recv_next x = stepSize * a" "send_next x = stepSize * b"
    and r: "corrected r0 (word_at sigma fsb) rows (min n (stepSize * a)) (recv_party x)"
      "mCorrectionIdx_r (recv_party x) = min n (stepSize * a)"
    and s: "masked r0 s0 (word_at sigma fsb) rows (min n (stepSize * b)) (send_party x)"
      "mCorrectionIdx_s (send_party x) = min n (stepSize * b)"
    and w: "wire x = map (\<lambda>c. batch_message r0 sigma fsb n (stepSize * c)) [b..<a]"
    using inv unfolding ot_inv_def by blast
  have W: "0 < mStride (mT0 r0)" "n \<le> rows" using start by (simp_all add: ot_start_def Let_def)
  show "\<exists>r q. recv_batch junk sigma fsb n (recv_next x) (recv_party x) (wire x) = Some (r, q)" if "recv_next x < n"
  proof -
    have lt: "stepSize * a < n" using that ab(2) by simp
    then have m: "min n (stepSize * a) = stepSize * a" by simp
    show ?thesis
      by (rule recv_batch_result [OF r [unfolded m] lt W(2) words W(1), of junk "wire x"]) (use ab(2) in auto)
  qed
  show "\<exists>s q. send_batch n (send_next x) (send_party x) (wire x) = Some (Inr (s, q))"
    if "send_next x < n" "wire x \<noteq> []"
  proof -
    have lt: "stepSize * b < n" using that ab(3) by simp
    then have m: "min n (stepSize * b) = stepSize * b" by simp
    have "wire x = batch_message r0 sigma fsb n (stepSize * b) #
        map (\<lambda>c. batch_message r0 sigma fsb n (stepSize * c)) [Suc b..<a]"
      using that(2) w ab(1) by (cases "b = a") (simp_all add: upt_conv_Cons)
    from send_batch_result [OF s [unfolded m] start lt this] ab(3) show ?thesis by metis
  qed
  show "wire x \<noteq> []" if "n \<le> recv_next x" "send_next x < n"
  proof -
    have "stepSize * b < stepSize * a" using that ab(2,3) by linarith
    then show ?thesis using w by simp
  qed
qed

lemma ot_inv_progress:
  assumes "ot_start rows n r0 s0" and "words_ok r0 sigma fsb n" and "ot_inv r0 s0 sigma fsb rows n x" and "\<not> ot_done n x"
  shows "\<exists>y. ot_step junk sigma fsb n x y"
proof (cases "recv_next x < n")
  case True
  then show ?thesis using ot_inv_next(1) [OF assms(1-3)] receiver_batch by blast
next
  case False
  then have "send_next x < n" "wire x \<noteq> []"
    using assms(4) ot_inv_next(3) [OF assms(1-3)] by (auto simp: ot_done_def)
  then show ?thesis using ot_inv_next(2) [OF assms(1-3)] sender_batch by blast
qed

definition ot_left :: "nat \<Rightarrow> ot_config \<Rightarrow> nat" where
  "ot_left n x = (n - recv_next x) + (n - send_next x)"

lemma ot_step_left: "ot_step junk sigma fsb n x y \<Longrightarrow> ot_left n y < ot_left n x"
  by (auto elim!: ot_step.cases simp: ot_left_def stepSize_def)

lemma ot_reach_step:
  "ot_reach junk sigma fsb n y z \<Longrightarrow> ot_step junk sigma fsb n x y \<Longrightarrow> ot_reach junk sigma fsb n x z"
  by (induction rule: ot_reach.induct) (blast intro: ot_reach.intros)+

lemma ot_inv_ends:
  assumes "ot_start rows n r0 s0" and "words_ok r0 sigma fsb n" and "ot_inv r0 s0 sigma fsb rows n x"
  shows "\<exists>y. ot_reach junk sigma fsb n x y \<and> ot_done n y"
  using assms(3)
proof (induction "ot_left n x" arbitrary: x rule: less_induct)
  case less
  show ?case
  proof (cases "ot_done n x")
    case True
    then show ?thesis by (blast intro: ot_refl)
  next
    case False
    then obtain y where y: "ot_step junk sigma fsb n x y" using ot_inv_progress [OF assms(1,2) less.prems] by blast
    have "ot_inv r0 s0 sigma fsb rows n y" by (rule ot_inv_step [OF assms(1,2) less.prems y])
    with less.hyps ot_step_left [OF y] show ?thesis using y ot_reach_step by blast
  qed
qed

subsection \<open>The rows of the parties\<close>

lemma ot_inv_rows:
  assumes "ot_inv r0 s0 sigma fsb rows n x" and "n \<le> rows" and "k < min n (send_next x)" and "i < mStride (mT0 r0)"
  shows "cell (mT (send_party x)) k i = masked_row r0 s0 (word_at sigma fsb k) k i"
    and "mT0 (recv_party x) = mT0 r0" and "mChoiceBlks (send_party x) = mChoiceBlks s0" and "mCode_r (recv_party x) = mCode_r r0"
  using assms by (auto simp: ot_inv_def masked_def corrected_def Let_def)

text \<open>The two setups on new objects, and the state the phase starts from.\<close>

lemma new_parties_start:
  assumes "code_table fs = Some t" and "7 * n < 2 ^ 31" and "n * fsb \<le> length sigma" and "fsb = (fs + 7) div 8"
  obtains r0 v s0 where "recv_setup mal fs n (PrtyMOtReceiver a i) = Some (Inr r0)"
    and "send_setup mal fs n empty_bits (PrtyMOtSender b j) = Some (Inr (v, s0))"
    and "ot_start (roundUpTo (n + 40) 128) n r0 s0" and "words_ok r0 sigma fsb n" and "n \<le> roundUpTo (n + 40) 128"
    and "mStride (mT0 r0) = codewordBlkSize (mCode_r r0)" and "load t empty_code = Inr (mCode_r r0)"
    and "code_for fs (mCode_r r0)" and "mChoiceBlks s0 = bytes_blocks (codewordBlkSize (mCode_r r0)) (mData v)"
    and "length (mGens_r r0) = 128 * codewordBlkSize (mCode_r r0)" and "length (mGens_s s0) = 128 * codewordBlkSize (mCode_r r0)"
    and "mCode_s s0 = mCode_r r0" and "mInputByteCount_s s0 = (fs + 7) div 8" and "mStride (mQx s0) = 0"
proof -
  let ?N = "roundUpTo (n + 40) 128"
  obtain r0 where r0: "recv_setup mal fs n (PrtyMOtReceiver a i) = Some (Inr r0)"
    "load t empty_code = Inr (mCode_r r0)" "recv_started fs ?N r0"
    by (rule recv_setup_result [OF assms(1) fit_new(1)], rule that) (simp_all add: PrtyMOtReceiver_def)
  have "bits_ok empty_bits" by (simp add: bits_ok_def empty_bits_def sizeBytes_def)
  from send_setup_result [OF assms(1) fit_new(2) this] obtain v s0 where
    s0: "send_setup mal fs n empty_bits (PrtyMOtSender b j) = Some (Inr (v, s0))"
    "load t empty_code = Inr (mCode_s s0)" "send_started fs ?N v s0"
    by (metis (no_types) PrtyMOtSender_def prty_sender.select_convs(1))
  have code: "mCode_r r0 = mCode_s s0" using r0(2) s0(2) by simp
  have c: "code_for fs (mCode_r r0)" "mStride (mT0 r0) = codewordBlkSize (mCode_r r0)" "mInputByteCount_r r0 = (fs + 7) div 8"
    using r0(3) by (simp_all add: recv_started_def recv_ready_def Let_def)
  have n: "n \<le> ?N" using roundUpTo_ge [of 128 "n + 40"] by simp
  have "n * codewordBlkSize (mCode_r r0) \<le> n * 7" using c(1) by (intro mult_le_mono2) (simp add: code_for_def)
  then have "n * codewordBlkSize (mCode_r r0) < 2 ^ 31" using assms(2) by (metis mult.commute order_le_less_trans)
  from setups_start [OF r0(3) s0(3) code n this] have start: "ot_start ?N n r0 s0" .
  have "fsb * k + fsb \<le> length sigma" if "k < n" for k
    using row_in [OF that, of fsb "length sigma"] assms(3) by (simp add: mult.commute)
  moreover have "(fs + 7) div 8 = fsb" using assms(4) by simp
  ultimately have "words_ok r0 sigma fsb n" using c(3) by (fastforce simp: words_ok_def word_at_def)
  with r0 s0 start n c(1,2) show ?thesis using that by (simp add: recv_started_def send_started_def code Let_def)
qed

text \<open>
  C4: what the OT extension is for. On new parties, for every supported field size, both setups
  succeed, and in every state that the interleaved phase can reach, each row that the sender has
  corrected is the receiver's row plus the codeword of the receiver's choice masked by the choice
  bits of the sender.
\<close>

theorem ot_rows:
  assumes "code_table fs = Some t" and "7 * n < 2 ^ 31" and "n * fsb \<le> length sigma" and "fsb = (fs + 7) div 8"
  shows "\<exists>r0 v s0. recv_setup mal fs n (PrtyMOtReceiver a i) = Some (Inr r0) \<and>
    send_setup mal fs n empty_bits (PrtyMOtSender b j) = Some (Inr (v, s0)) \<and>
    (\<forall>x. ot_reach junk sigma fsb n (ot_initial r0 s0) x \<longrightarrow>
      (\<forall>k < min n (send_next x). \<forall>w < codewordBlkSize (mCode_r r0).
        cell (mT (send_party x)) k w = cell (mT0 (recv_party x)) k w XOR
          (choice_word (mCode_r (recv_party x)) (drop (fsb * k) sigma) w AND mChoiceBlks (send_party x) ! w)))"
proof -
  obtain r0 v s0 where S: "recv_setup mal fs n (PrtyMOtReceiver a i) = Some (Inr r0)"
    "send_setup mal fs n empty_bits (PrtyMOtSender b j) = Some (Inr (v, s0))"
    and start: "ot_start (roundUpTo (n + 40) 128) n r0 s0" and words: "words_ok r0 sigma fsb n"
    and N: "n \<le> roundUpTo (n + 40) 128" and W: "mStride (mT0 r0) = codewordBlkSize (mCode_r r0)"
    by (rule new_parties_start [OF assms(1,2) assms(3) assms(4)], rule that)
  have "cell (mT (send_party x)) k w = cell (mT0 (recv_party x)) k w XOR
      (choice_word (mCode_r (recv_party x)) (drop (fsb * k) sigma) w AND mChoiceBlks (send_party x) ! w)"
    if "ot_reach junk sigma fsb n (ot_initial r0 s0) x" "k < min n (send_next x)" "w < codewordBlkSize (mCode_r r0)" for x k w
    using ot_inv_rows [OF ot_inv_reach [OF start words that(1)] N that(2)] that(3) W
    by (simp add: masked_row_def word_at_def)
  with S show ?thesis by blast
qed

theorem ot_rows_witness:
  "\<exists>r0 v s0. recv_setup True 65 2 (PrtyMOtReceiver False 0) = Some (Inr r0) \<and>
    send_setup True 65 2 empty_bits (PrtyMOtSender False 0) = Some (Inr (v, s0)) \<and>
    (\<forall>x. ot_reach [] (replicate 18 3) 9 2 (ot_initial r0 s0) x \<longrightarrow>
      (\<forall>k < min 2 (send_next x). \<forall>w < codewordBlkSize (mCode_r r0).
        cell (mT (send_party x)) k w = cell (mT0 (recv_party x)) k w XOR
          (choice_word (mCode_r (recv_party x)) (drop (9 * k) (replicate 18 3)) w AND mChoiceBlks (send_party x) ! w)))"
  by (rule ot_rows [where t = mx65by448]) (simp_all add: code_table_def)

text \<open>
  C6: the OT phase cannot get stuck. From every state that can be reached, both parties can
  finish, whatever the order in which their batches ran so far.
\<close>

theorem ot_finishes:
  assumes "code_table fs = Some t" and "7 * n < 2 ^ 31" and "n * fsb \<le> length sigma" and "fsb = (fs + 7) div 8"
  shows "\<exists>r0 v s0. recv_setup mal fs n (PrtyMOtReceiver a i) = Some (Inr r0) \<and>
    send_setup mal fs n empty_bits (PrtyMOtSender b j) = Some (Inr (v, s0)) \<and>
    (\<forall>x. ot_reach junk sigma fsb n (ot_initial r0 s0) x \<longrightarrow>
      (\<exists>y. ot_reach junk sigma fsb n x y \<and> ot_done n y) \<and>
      (send_next x < n \<longrightarrow> wire x \<noteq> [] \<longrightarrow>
        (\<exists>s q. send_batch n (send_next x) (send_party x) (wire x) = Some (Inr (s, q)))))"
proof -
  obtain r0 v s0 where S: "recv_setup mal fs n (PrtyMOtReceiver a i) = Some (Inr r0)"
    "send_setup mal fs n empty_bits (PrtyMOtSender b j) = Some (Inr (v, s0))"
    and start: "ot_start (roundUpTo (n + 40) 128) n r0 s0" and words: "words_ok r0 sigma fsb n"
    by (rule new_parties_start [OF assms(1,2) assms(3) assms(4)], rule that)
  have "(\<exists>y. ot_reach junk sigma fsb n x y \<and> ot_done n y) \<and> (send_next x < n \<longrightarrow> wire x \<noteq> [] \<longrightarrow>
      (\<exists>s q. send_batch n (send_next x) (send_party x) (wire x) = Some (Inr (s, q))))"
    if "ot_reach junk sigma fsb n (ot_initial r0 s0) x" for x
    using ot_inv_ends [OF start words ot_inv_reach [OF start words that]]
      ot_inv_next(2) [OF start words ot_inv_reach [OF start words that]] by blast
  with S show ?thesis by blast
qed

theorem ot_finishes_witness:
  "\<exists>r0 v s0. recv_setup False 238 1 (PrtyMOtReceiver False 0) = Some (Inr r0) \<and>
    send_setup False 238 1 empty_bits (PrtyMOtSender False 0) = Some (Inr (v, s0)) \<and>
    (\<forall>x. ot_reach [] (replicate 30 1) 30 1 (ot_initial r0 s0) x \<longrightarrow>
      (\<exists>y. ot_reach [] (replicate 30 1) 30 1 x y \<and> ot_done 1 y) \<and>
      (send_next x < 1 \<longrightarrow> wire x \<noteq> [] \<longrightarrow>
        (\<exists>s q. send_batch 1 (send_next x) (send_party x) (wire x) = Some (Inr (s, q)))))"
  by (rule ot_finishes [where t = mx238by776]) (simp_all add: code_table_def)

lemma ot_step_wfp: "wfp (\<lambda>y x. ot_step junk sigma fsb n x y)"
  by (rule wfp_if_convertible_to_nat [where f = "ot_left n"]) (rule ot_step_left)

lemma ot_inv_done_wire:
  assumes "ot_inv r0 s0 sigma fsb rows n x" and "ot_done n x"
  shows "wire x = []"
proof -
  obtain a b where ab: "b \<le> a" "send_next x = stepSize * b" "a = 0 \<or> stepSize * (a - 1) < n"
    and w: "wire x = map (\<lambda>c. batch_message r0 sigma fsb n (stepSize * c)) [b..<a]"
    using assms(1) unfolding ot_inv_def by blast
  have "b = a"
  proof (rule ccontr)
    assume "b \<noteq> a"
    then have "b \<le> a - 1" "a \<noteq> 0" using ab(1) by simp_all
    then have "stepSize * b \<le> stepSize * (a - 1)" by (intro mult_le_mono2)
    also have "\<dots> < n" using \<open>a \<noteq> 0\<close> ab(3) by blast
    also have "n \<le> stepSize * b" using assms(2) ab(2) by (simp add: ot_done_def)
    finally show False by simp
  qed
  then show ?thesis using w by simp
qed

text \<open>
  C10: every run of the OT phase ends, and none ends early. From new parties there is no infinite
  sequence of batches, and a state that can be reached and from which no batch can run, because the one
  party has nothing to do, waits for a message or got an error, is one in which both
  parties are through with all rows and no message is left.
\<close>

theorem ot_terminates:
  assumes "code_table fs = Some t" and "7 * n < 2 ^ 31" and "n * fsb \<le> length sigma" and "fsb = (fs + 7) div 8"
  shows "\<exists>r0 v s0. recv_setup mal fs n (PrtyMOtReceiver a i) = Some (Inr r0) \<and>
    send_setup mal fs n empty_bits (PrtyMOtSender b j) = Some (Inr (v, s0)) \<and>
    wfp (\<lambda>y x. ot_step junk sigma fsb n x y) \<and>
    (\<forall>x. ot_reach junk sigma fsb n (ot_initial r0 s0) x \<longrightarrow> (\<nexists>y. ot_step junk sigma fsb n x y) \<longrightarrow>
      ot_done n x \<and> wire x = [])"
proof -
  obtain r0 v s0 where S: "recv_setup mal fs n (PrtyMOtReceiver a i) = Some (Inr r0)"
    "send_setup mal fs n empty_bits (PrtyMOtSender b j) = Some (Inr (v, s0))"
    and start: "ot_start (roundUpTo (n + 40) 128) n r0 s0" and words: "words_ok r0 sigma fsb n"
    by (rule new_parties_start [OF assms(1,2) assms(3) assms(4)], rule that)
  have "ot_done n x \<and> wire x = []"
    if "ot_reach junk sigma fsb n (ot_initial r0 s0) x" "\<nexists>y. ot_step junk sigma fsb n x y" for x
  proof -
    note inv = ot_inv_reach [OF start words that(1)]
    have "ot_done n x" using ot_inv_progress [OF start words inv] that(2) by blast
    with ot_inv_done_wire [OF inv] show ?thesis by blast
  qed
  with S ot_step_wfp show ?thesis by blast
qed

theorem ot_terminates_witness:
  "\<exists>r0 v s0. recv_setup False 72 3 (PrtyMOtReceiver False 0) = Some (Inr r0) \<and>
    send_setup False 72 3 empty_bits (PrtyMOtSender False 0) = Some (Inr (v, s0)) \<and>
    wfp (\<lambda>y x. ot_step [] (replicate 27 1) 9 3 x y) \<and>
    (\<forall>x. ot_reach [] (replicate 27 1) 9 3 (ot_initial r0 s0) x \<longrightarrow> (\<nexists>y. ot_step [] (replicate 27 1) 9 3 x y) \<longrightarrow>
      ot_done 3 x \<and> wire x = [])"
  by (rule ot_terminates [where t = mx72by462]) (simp_all add: code_table_def)

end
