(* ===== verification/Hash_Table.thy ===== *)
theory Hash_Table
  imports Xxhash
begin

text \<open>
  The keyed hash of \<^verbatim>\<open>frontend/Hasher.h\<close> and the part of \<^verbatim>\<open>std::unordered_set\<close> that the
  dictionary uses: buckets, \<open>bucket\<close>, \<open>bucket_size\<close>, \<open>begin(i)\<close>, \<open>insert\<close>, \<open>erase\<close>,
  \<open>clear\<close>, and the growth of the bucket count when the load factor 1.0 is exceeded. The bucket
  counts that the standard library picks are the field \<open>rehash_policy\<close> of the container. The
  locale \<open>key_table\<close> states what a client relies on.
\<close>

subsection \<open>Hasher\<close>

type_synonym hasher = u64

definition Hasher_call :: "hasher \<Rightarrow> u64 \<Rightarrow> u64" where
  "Hasher_call seed key = XXH64 False (word_bytes 8 key) seed"

text \<open>For the eight bytes of a key no stripe is consumed: one \<open>PROCESS8_64\<close> step.\<close>

lemma Hasher_call_eq:
  "Hasher_call seed key =
   XXH64_avalanche (fst (PROCESS8_64 (seed + PRIME64_5 + 8, word_bytes 8 key)))"
  by (simp add: Hasher_call_def XXH64_def Let_def XXH64_finalize_def XXH64_switch_def word_bytes_def)

subsection \<open>The set of keys with its buckets\<close>

record uset =
  us_hash :: hasher
  rehash_policy :: "nat \<Rightarrow> nat"
  bucket_count :: nat
  us_elems :: "u64 list"

definition uset_new :: "(nat \<Rightarrow> nat) \<Rightarrow> nat \<Rightarrow> hasher \<Rightarrow> uset" where
  "uset_new policy n h =
     \<lparr>us_hash = h, rehash_policy = policy, bucket_count = policy n, us_elems = []\<rparr>"

definition uset_bucket :: "uset \<Rightarrow> u64 \<Rightarrow> nat" where
  "uset_bucket s k = unat (Hasher_call (us_hash s) k) mod bucket_count s"

text \<open>For evaluation: the reduction on integers.\<close>

lemma uset_bucket_code [code]:
  "uset_bucket s k = nat (uint (Hasher_call (us_hash s) k) mod int (bucket_count s))"
  using nat_mod_distrib [of "uint (Hasher_call (us_hash s) k)" "int (bucket_count s)"]
  by (simp add: uset_bucket_def)

definition uset_bucket_list :: "uset \<Rightarrow> nat \<Rightarrow> u64 list" where
  "uset_bucket_list s i = filter (\<lambda>k. uset_bucket s k = i) (us_elems s)"

definition uset_bucket_size :: "uset \<Rightarrow> nat \<Rightarrow> nat" where
  "uset_bucket_size s i = length (uset_bucket_list s i)"

definition uset_insert :: "u64 \<Rightarrow> uset \<Rightarrow> uset" where
  "uset_insert k s =
     (if k \<in> set (us_elems s) then s
      else let n = Suc (length (us_elems s));
               s = (if bucket_count s < n
                    then s\<lparr>bucket_count := rehash_policy s (max n (2 * bucket_count s))\<rparr> else s)
           in s\<lparr>us_elems := k # us_elems s\<rparr>)"

definition uset_erase :: "u64 \<Rightarrow> uset \<Rightarrow> uset" where
  "uset_erase k s = s\<lparr>us_elems := removeAll k (us_elems s)\<rparr>"

definition uset_clear :: "uset \<Rightarrow> uset" where
  "uset_clear s = s\<lparr>us_elems := []\<rparr>"

lemma uset_erase_fields [simp]:
  "us_hash (uset_erase k s) = us_hash s"
  "bucket_count (uset_erase k s) = bucket_count s"
  "us_elems (uset_erase k s) = removeAll k (us_elems s)"
  by (simp_all add: uset_erase_def)

lemma uset_bucket_erase [simp]: "uset_bucket (uset_erase k s) = uset_bucket s"
  by (rule ext) (simp add: uset_bucket_def)

lemma uset_bucket_less: "0 < bucket_count s \<Longrightarrow> uset_bucket s k < bucket_count s"
  by (simp add: uset_bucket_def)

subsection \<open>The interface of a table of keys\<close>

locale key_table =
  fixes contents :: "'t \<Rightarrow> u64 list"
    and erase :: "u64 \<Rightarrow> 't \<Rightarrow> 't"
    and bucket :: "'t \<Rightarrow> u64 \<Rightarrow> nat"
    and bucket_list :: "'t \<Rightarrow> nat \<Rightarrow> u64 list"
  assumes set_erase: "set (contents (erase k t)) = set (contents t) - {k}"
    and distinct_erase: "distinct (contents t) \<Longrightarrow> distinct (contents (erase k t))"
    and bucket_erase: "bucket (erase k t) = bucket t"
    and set_bucket_list: "set (bucket_list t i) = {k \<in> set (contents t). bucket t k = i}"
    and distinct_bucket_list: "distinct (contents t) \<Longrightarrow> distinct (bucket_list t i)"
begin

lemma size_card:
  "distinct (contents t) \<Longrightarrow>
   length (bucket_list t i) = card {k \<in> set (contents t). bucket t k = i}"
  using distinct_bucket_list set_bucket_list distinct_card by metis

text \<open>A bucket of size one holds exactly its first element.\<close>

lemma size_one:
  assumes "distinct (contents t)" and "length (bucket_list t i) = 1"
  shows "hd (bucket_list t i) \<in> set (contents t)"
    and "bucket t (hd (bucket_list t i)) = i"
    and "x \<in> set (contents t) \<Longrightarrow> bucket t x = i \<Longrightarrow> x = hd (bucket_list t i)"
proof -
  from assms(2) obtain k where k: "bucket_list t i = [k]"
    by (metis One_nat_def length_0_conv length_Suc_conv)
  with set_bucket_list [of t i] have s: "{k \<in> set (contents t). bucket t k = i} = {k}" by simp
  with k show "hd (bucket_list t i) \<in> set (contents t)" "bucket t (hd (bucket_list t i)) = i"
    by auto
  from s k show "x \<in> set (contents t) \<Longrightarrow> bucket t x = i \<Longrightarrow> x = hd (bucket_list t i)"
    by auto
qed

lemma size_erase_same:
  assumes "distinct (contents t)" and "k \<in> set (contents t)"
  shows "length (bucket_list (erase k t) (bucket t k)) = length (bucket_list t (bucket t k)) - 1"
proof -
  let ?A = "{x \<in> set (contents t). bucket t x = bucket t k}"
  have "{x \<in> set (contents (erase k t)). bucket (erase k t) x = bucket t k} = ?A - {k}"
    by (auto simp: set_erase bucket_erase)
  with assms show ?thesis
    by (simp add: size_card distinct_erase)
qed

lemma size_erase_other:
  assumes "distinct (contents t)" and "bucket t k \<noteq> i"
  shows "length (bucket_list (erase k t) i) = length (bucket_list t i)"
proof -
  have "{x \<in> set (contents (erase k t)). bucket (erase k t) x = i}
      = {x \<in> set (contents t). bucket t x = i}"
    using assms(2) by (auto simp: set_erase bucket_erase)
  with assms(1) show ?thesis by (simp add: size_card distinct_erase)
qed

lemma size_pos:
  assumes "distinct (contents t)" and "k \<in> set (contents t)"
  shows "0 < length (bucket_list t (bucket t k))"
  using assms by (simp add: size_card card_gt_0_iff) blast

end

interpretation tab: key_table us_elems uset_erase uset_bucket uset_bucket_list
  by unfold_locales (auto simp: uset_bucket_list_def distinct_removeAll)

lemmas bucket_size_simps =
  tab.size_erase_same [folded uset_bucket_size_def]
  tab.size_erase_other [folded uset_bucket_size_def]

lemma uset_new_simps [simp]:
  "us_elems (uset_new p n h) = []" "bucket_count (uset_new p n h) = p n"
  "us_hash (uset_new p n h) = h"
  by (simp_all add: uset_new_def)

lemma uset_insert_fits:
  assumes "distinct (us_elems s)" and "length (us_elems s) < bucket_count s"
  shows "set (us_elems (uset_insert k s)) = insert k (set (us_elems s)) \<and>
    distinct (us_elems (uset_insert k s)) \<and>
    bucket_count (uset_insert k s) = bucket_count s \<and>
    us_hash (uset_insert k s) = us_hash s"
  using assms by (auto simp: uset_insert_def Let_def)

text \<open>Inserting keys one after the other never rehashes while they fit.\<close>

lemma uset_insert_all:
  assumes "us_elems s = []" and "length ks \<le> bucket_count s"
  shows "set (us_elems (fold uset_insert ks s)) = set ks \<and>
    distinct (us_elems (fold uset_insert ks s)) \<and>
    bucket_count (fold uset_insert ks s) = bucket_count s \<and>
    us_hash (fold uset_insert ks s) = us_hash s"
  using assms(2)
proof (induction ks rule: rev_induct)
  case Nil
  then show ?case using assms(1) by simp
next
  case (snoc k ks)
  let ?s = "fold uset_insert ks s"
  from snoc have IH: "set (us_elems ?s) = set ks" "distinct (us_elems ?s)"
    "bucket_count ?s = bucket_count s" "us_hash ?s = us_hash s" by simp_all
  have "length (us_elems ?s) \<le> length ks"
    using IH(1,2) by (metis card_length distinct_card)
  with snoc.prems IH uset_insert_fits [of ?s k] show ?case by simp
qed

end
