(* ===== verification/Oblivious_Dictionary.thy ===== *)
theory Oblivious_Dictionary
  imports Hash_Table
begin

text \<open>
  The class \<^verbatim>\<open>ObliviousDictionary\<close> (\<^verbatim>\<open>frontend/ObliviousDictionary.cpp\<close>, \<^verbatim>\<open>.h\<close>) and the
  wrapper of the linear solver it calls (\<^verbatim>\<open>frontend/gf2e_mat_solve.cpp\<close>): the PaXoS encoding of
  a map from keys to field elements into a vector of variables, such that the value of a key
  is the sum of two variables picked by hashing and of the variables picked by the \<open>gamma\<close>
  hash bits.

  The field type of NTL (\<^verbatim>\<open>GF2E\<close>) is the type parameter \<open>'f\<close>; the code adds field elements,
  compares them with zero and converts them from and to bytes, so \<open>'f\<close> is an additive group and
  the conversions \<open>of_bytes\<close> (\<^verbatim>\<open>GF2XFromBytes\<close> then \<^verbatim>\<open>to_GF2E\<close>) and \<open>to_bytes\<close>
  (\<^verbatim>\<open>BytesFromGF2X\<close> of \<^verbatim>\<open>rep\<close>) are arguments. So are the LinBox solver \<open>solve\<close> and the byte
  stream \<open>prg\<close> of the OpenSSL generator, which is read from position \<open>prg_pos\<close>.
\<close>

record 'f oblivious_dictionary =
  hashSize :: nat
  tableRealSize :: nat
  fieldSize :: nat
  fieldSizeBytes :: nat
  gamma :: nat
  keys :: "u64 list"
  "values" :: "u8 list"
  firstSeed :: u64
  secondSeed :: u64
  dhSeed :: u64
  vals :: "u64 \<rightharpoonup> 'f"
  peelingVector :: "u64 list"
  peelingCounter :: nat
  first :: uset
  second :: uset
  DH :: hasher
  variables :: "'f list"
  sign :: "u8 list"
  prg_pos :: nat

subsection \<open>Construction\<close>

text \<open>\<^verbatim>\<open>hashSize*1.2\<close> truncated to an integer.\<close>

definition scaled_size :: "nat \<Rightarrow> nat" where
  "scaled_size n = (12 * n) div 10"

definition createSets :: "(nat \<Rightarrow> nat) \<Rightarrow> 'f oblivious_dictionary \<Rightarrow> 'f oblivious_dictionary" where
  "createSets policy d =
     (let d = d\<lparr>first := uset_new policy (scaled_size (hashSize d)) (firstSeed d)\<rparr>;
          d = d\<lparr>second := uset_new policy (scaled_size (hashSize d)) (secondSeed d)\<rparr>
      in d\<lparr>tableRealSize := bucket_count (first d)\<rparr>)"

definition bytes_of_bits :: "nat \<Rightarrow> nat" where
  "bytes_of_bits n = (if n mod 8 = 0 then n div 8 else n div 8 + 1)"

definition ObliviousDictionary ::
  "(nat \<Rightarrow> nat) \<Rightarrow> nat \<Rightarrow> nat \<Rightarrow> nat \<Rightarrow> 'f::ab_group_add oblivious_dictionary" where
  "ObliviousDictionary policy hsize fsize g =
     (let d = \<lparr>hashSize = hsize, tableRealSize = 0, fieldSize = fsize,
               fieldSizeBytes = bytes_of_bits fsize, gamma = g,
               keys = [], values = [], firstSeed = 1, secondSeed = 2, dhSeed = 3,
               vals = Map.empty, peelingVector = [], peelingCounter = 0,
               first = uset_new policy 0 0, second = uset_new policy 0 0, DH = 0,
               variables = [], sign = [], prg_pos = 0\<rparr>;
          d = d\<lparr>DH := dhSeed d\<rparr>;
          d = createSets policy d
      in d\<lparr>variables := replicate (2 * tableRealSize d + gamma d) 0,
           sign := replicate (2 * tableRealSize d) 0\<rparr>)"

definition setKeysAndVals ::
  "u64 list \<Rightarrow> u8 list \<Rightarrow> 'f oblivious_dictionary \<Rightarrow> 'f oblivious_dictionary" where
  "setKeysAndVals ks vs d = d\<lparr>keys := ks, values := vs\<rparr>"

text \<open>
  \<open>init\<close>: \<^verbatim>\<open>unordered_map::insert\<close> keeps the value of a key that is already there. The
  vector \<open>sign\<close> is not touched.
\<close>

definition insert_val ::
  "(u8 list \<Rightarrow> 'f) \<Rightarrow> 'f oblivious_dictionary \<Rightarrow> nat \<Rightarrow> 'f oblivious_dictionary" where
  "insert_val of_bytes d i =
     (let temp = of_bytes (take (fieldSizeBytes d) (drop (i * fieldSizeBytes d) (values d)));
          key = keys d ! i
      in if vals d key = None then d\<lparr>vals := (vals d)(key \<mapsto> temp)\<rparr> else d)"

definition init ::
  "(u8 list \<Rightarrow> 'f) \<Rightarrow> 'f::ab_group_add oblivious_dictionary \<Rightarrow> 'f oblivious_dictionary" where
  "init of_bytes d =
     (let d = d\<lparr>vals := Map.empty, peelingVector := [], peelingCounter := 0\<rparr>;
          d = foldl (insert_val of_bytes) d [0..<hashSize d];
          d = d\<lparr>first := uset_clear (first d), second := uset_clear (second d)\<rparr>
      in d\<lparr>variables := replicate (2 * tableRealSize d + gamma d) 0\<rparr>)"

subsection \<open>Indices of a key\<close>

definition getDHBits :: "'f oblivious_dictionary \<Rightarrow> u64 \<Rightarrow> u64" where
  "getDHBits d key = drop_bit (64 - gamma d) (Hasher_call (DH d) key)"

fun dh_loop :: "nat \<Rightarrow> nat \<Rightarrow> u64 \<Rightarrow> nat list" where
  "dh_loop j 0 dhBits = []"
| "dh_loop j (Suc n) dhBits =
     (if dhBits AND 1 = 1 then j # dh_loop (Suc j) n (drop_bit 1 dhBits)
      else dh_loop (Suc j) n (drop_bit 1 dhBits))"

text \<open>\<open>dec\<close> fills \<^verbatim>\<open>indices\<close> and returns how many entries it set: the list of these entries.\<close>

definition dec :: "'f oblivious_dictionary \<Rightarrow> u64 \<Rightarrow> nat list" where
  "dec d key =
     uset_bucket (first d) key # uset_bucket (second d) key # dh_loop 0 (gamma d) (getDHBits d key)"

subsection \<open>Filling and peeling\<close>

definition fillTables :: "'f oblivious_dictionary \<Rightarrow> 'f oblivious_dictionary" where
  "fillTables d =
     foldl (\<lambda>d i. d\<lparr>first := uset_insert (keys d ! i) (first d),
                    second := uset_insert (keys d ! i) (second d)\<rparr>) d [0..<hashSize d]"

text \<open>\<^verbatim>\<open>peelingVector[peelingCounter++] = key\<close>\<close>

definition push_peeled :: "u64 \<Rightarrow> 'f oblivious_dictionary \<Rightarrow> 'f oblivious_dictionary" where
  "push_peeled key d =
     d\<lparr>peelingVector := (peelingVector d)[peelingCounter d := key],
       peelingCounter := Suc (peelingCounter d)\<rparr>"

definition peel_first_step :: "'f oblivious_dictionary \<Rightarrow> nat \<Rightarrow> 'f oblivious_dictionary" where
  "peel_first_step d position =
     (if uset_bucket_size (first d) position = 1
      then let key = hd (uset_bucket_list (first d) position);
               d = push_peeled key d;
               d = d\<lparr>first := uset_erase key (first d)\<rparr>
           in d\<lparr>second := uset_erase key (second d)\<rparr>
      else d)"

text \<open>The \<^verbatim>\<open>while(secondBucket <= position)\<close> loop; \<open>None\<close> is a loop that does not end.\<close>

partial_function (option) peel_chain ::
  "nat \<Rightarrow> nat \<Rightarrow> u64 \<Rightarrow> 'f oblivious_dictionary \<Rightarrow> 'f oblivious_dictionary option" where
  "peel_chain position secondBucket key d =
     (if secondBucket \<le> position
      then let d = push_peeled key d;
               d = d\<lparr>second := uset_erase key (second d)\<rparr>;
               bucket = uset_bucket (first d) key;
               d = d\<lparr>first := uset_erase key (first d)\<rparr>
           in if uset_bucket_size (first d) bucket = 1
              then let key = hd (uset_bucket_list (first d) bucket);
                       d = push_peeled key d;
                       d = d\<lparr>first := uset_erase key (first d)\<rparr>;
                       secondBucket = uset_bucket (second d) key;
                       d = d\<lparr>second := uset_erase key (second d)\<rparr>
                   in if uset_bucket_size (second d) secondBucket = 1
                      then peel_chain position secondBucket
                             (hd (uset_bucket_list (second d) secondBucket)) d
                      else peel_chain position (position + 1) key d
              else peel_chain position (position + 1) key d
      else Some d)"

declare peel_chain.simps [code]

definition peel_second_step ::
  "'f oblivious_dictionary \<Rightarrow> nat \<Rightarrow> 'f oblivious_dictionary option" where
  "peel_second_step d position =
     (if uset_bucket_size (second d) position = 1
      then peel_chain position 0 (hd (uset_bucket_list (second d) position)) d
      else Some d)"

fun peel_second ::
  "'f oblivious_dictionary \<Rightarrow> nat list \<Rightarrow> 'f oblivious_dictionary option" where
  "peel_second d [] = Some d"
| "peel_second d (position # ps) =
     (case peel_second_step d position of None \<Rightarrow> None | Some d \<Rightarrow> peel_second d ps)"

definition peeling :: "'f oblivious_dictionary \<Rightarrow> 'f oblivious_dictionary option" where
  "peeling d =
     (let d = d\<lparr>peelingVector := vec_resize (hashSize d) 0 (peelingVector d), peelingCounter := 0\<rparr>;
          d = foldl peel_first_step d [0..<tableRealSize d]
      in peel_second d [0..<tableRealSize d])"

definition hasLoop :: "'f oblivious_dictionary \<Rightarrow> bool" where
  "hasLoop d = list_ex (\<lambda>position. 1 < uset_bucket_size (first d) position) [0..<tableRealSize d]"

subsection \<open>The linear system of the keys that remain\<close>

text \<open>
  \<^verbatim>\<open>solve_api\<close>: the entries of the matrix are \<^verbatim>\<open>to_GF2E(0)\<close> or \<^verbatim>\<open>to_GF2E(1)\<close>; the model
  keeps the bit. The failing exits leave \<open>X\<close> as it was.
\<close>

definition solve_api ::
  "(bool list list \<Rightarrow> 'f list \<Rightarrow> nat \<Rightarrow> 'f list) \<Rightarrow>
   bool list list \<Rightarrow> 'f list \<Rightarrow> 'f list \<Rightarrow> int \<times> 'f list" where
  "solve_api solve A B X =
     (let rows = length A
      in if rows = 0 then (-26, X)
         else if length B \<noteq> rows then (-29, X)
         else let cols = length (A ! 0)
              in if cols = 0 then (-33, X)
                 else let mA = map (\<lambda>i. map (\<lambda>j. A ! i ! j) [0..<cols]) [0..<rows];
                          vX = solve mA B cols
                      in (0, map (\<lambda>k. vX ! k) [0..<cols]))"

record 'f system_build =
  matrix :: "bool list list"
  rhs :: "'f list"
  firstTableCols :: "nat \<rightharpoonup> nat"
  secondTableCols :: "nat \<rightharpoonup> nat"
  firstColsCounter :: nat
  secondColsCounter :: nat
  rowCounter :: nat
  sb_sign :: "u8 list"

text \<open>The two nested loops visit the keys of the buckets of \<open>first\<close> that hold several keys.\<close>

definition cycle_keys :: "'f oblivious_dictionary \<Rightarrow> (nat \<times> u64) list" where
  "cycle_keys d =
     concat (map (\<lambda>i. if 1 < uset_bucket_size (first d) i
                      then map (Pair i) (uset_bucket_list (first d) i) else [])
               [0..<tableRealSize d])"

definition lookup0 :: "('a \<rightharpoonup> 'f::zero) \<Rightarrow> 'a \<Rightarrow> 'f" where
  "lookup0 m k = (case m k of None \<Rightarrow> 0 | Some v \<Rightarrow> v)"

fun dh_row :: "nat \<Rightarrow> u64 \<Rightarrow> bool list" where
  "dh_row 0 dhBits = []"
| "dh_row (Suc n) dhBits = (dhBits AND 1 = 1) # dh_row n (drop_bit 1 dhBits)"

definition add_equation ::
  "'f::ab_group_add oblivious_dictionary \<Rightarrow> nat \<Rightarrow> 'f system_build \<Rightarrow> nat \<times> u64 \<Rightarrow> 'f system_build" where
  "add_equation d matrixSize sb = (\<lambda>(i, key).
     let row = replicate (2 * matrixSize + gamma d) False;
         sb = (if firstTableCols sb i = None
               then sb\<lparr>firstTableCols := (firstTableCols sb)(i \<mapsto> firstColsCounter sb),
                       firstColsCounter := firstColsCounter sb + 1\<rparr> else sb);
         secondIndex = uset_bucket (second d) key;
         sb = (if secondTableCols sb secondIndex = None
               then sb\<lparr>secondTableCols := (secondTableCols sb)(secondIndex \<mapsto> secondColsCounter sb),
                       secondColsCounter := secondColsCounter sb + 1\<rparr> else sb);
         firstPos = lookup0 (firstTableCols sb) i;
         secondPos = lookup0 (secondTableCols sb) secondIndex;
         row = row[firstPos := True];
         row = row[matrixSize + secondPos := True];
         row = take (2 * matrixSize) row @ dh_row (gamma d) (getDHBits d key)
     in sb\<lparr>matrix := (matrix sb)[rowCounter sb := row],
           rhs := (rhs sb)[rowCounter sb := lookup0 (vals d) key],
           sb_sign := (sb_sign sb)[i := 1, tableRealSize d + secondIndex := 1],
           rowCounter := rowCounter sb + 1\<rparr>)"

definition build_system :: "'f::ab_group_add oblivious_dictionary \<Rightarrow> 'f system_build" where
  "build_system d =
     (let matrixSize = hashSize d - peelingCounter d
      in foldl (add_equation d matrixSize)
           \<lparr>matrix = replicate matrixSize [], rhs = replicate matrixSize 0,
            firstTableCols = Map.empty, secondTableCols = Map.empty,
            firstColsCounter = 0, secondColsCounter = 0, rowCounter = 0, sb_sign = sign d\<rparr>
           (cycle_keys d))"

definition write_back ::
  "'f::ab_group_add oblivious_dictionary \<Rightarrow> 'f system_build \<Rightarrow> nat \<Rightarrow> 'f list \<Rightarrow> 'f list" where
  "write_back d sb matrixSize variablesSlim =
     (let vs = foldl (\<lambda>vs (i, key).
                 let secondIndex = uset_bucket (second d) key
                 in vs[i := variablesSlim ! lookup0 (firstTableCols sb) i,
                       tableRealSize d + secondIndex :=
                         variablesSlim ! (matrixSize + lookup0 (secondTableCols sb) secondIndex)])
               (variables d) (cycle_keys d)
      in foldl (\<lambda>vs i. vs[2 * tableRealSize d + i := variablesSlim ! (2 * matrixSize + i)])
           vs [0..<gamma d])"

definition generateExternalToolValues ::
  "(bool list list \<Rightarrow> 'f list \<Rightarrow> nat \<Rightarrow> 'f list) \<Rightarrow>
   'f::ab_group_add oblivious_dictionary \<Rightarrow> 'f oblivious_dictionary" where
  "generateExternalToolValues solve d =
     (let matrixSize = hashSize d - peelingCounter d;
          sb = build_system d;
          variablesSlim = replicate (2 * matrixSize + gamma d) 0;
          variablesSlim = snd (solve_api solve (matrix sb) (rhs sb) variablesSlim)
      in d\<lparr>sign := sb_sign sb, variables := write_back d sb matrixSize variablesSlim\<rparr>)"

subsection \<open>Unpeeling and the output\<close>

definition dh_sum :: "'f::ab_group_add oblivious_dictionary \<Rightarrow> nat list \<Rightarrow> 'f" where
  "dh_sum d idxs = foldl (\<lambda>acc j. acc + variables d ! (2 * tableRealSize d + j)) 0 idxs"

definition unpeel_step ::
  "(u8 list \<Rightarrow> 'f) \<Rightarrow> (nat \<Rightarrow> u8) \<Rightarrow> u64 \<Rightarrow>
   'f::ab_group_add oblivious_dictionary \<Rightarrow> 'f oblivious_dictionary" where
  "unpeel_step of_bytes prg key d =
     (let indices = dec d key;
          a = indices ! 0;
          b = tableRealSize d + indices ! 1;
          dhBitsVal = dh_sum d (drop 2 indices);
          d = (if variables d ! a = 0 \<and> variables d ! b = 0 \<and> sign d ! a = 0 \<and> sign d ! b = 0
               then let randomVal = map (\<lambda>i. prg (prg_pos d + i)) [0..<fieldSizeBytes d]
                    in d\<lparr>prg_pos := prg_pos d + fieldSizeBytes d,
                         variables := (variables d)[a := of_bytes randomVal]\<rparr>
               else d);
          d = (if variables d ! a = 0 \<and> sign d ! a = 0
               then d\<lparr>variables := (variables d)[a := lookup0 (vals d) key + variables d ! b + dhBitsVal]\<rparr>
               else d)
      in if variables d ! b = 0 \<and> sign d ! b = 0
         then d\<lparr>variables := (variables d)[b := lookup0 (vals d) key + variables d ! a + dhBitsVal]\<rparr>
         else d)"

fun unpeel_loop ::
  "(u8 list \<Rightarrow> 'f) \<Rightarrow> (nat \<Rightarrow> u8) \<Rightarrow> nat \<Rightarrow>
   'f::ab_group_add oblivious_dictionary \<Rightarrow> 'f oblivious_dictionary" where
  "unpeel_loop of_bytes prg 0 d = d"
| "unpeel_loop of_bytes prg (Suc n) d =
     (let d = d\<lparr>peelingCounter := n\<rparr>;
          key = peelingVector d ! n
      in unpeel_loop of_bytes prg n (unpeel_step of_bytes prg key d))"

definition unpeeling ::
  "(u8 list \<Rightarrow> 'f) \<Rightarrow> (nat \<Rightarrow> u8) \<Rightarrow>
   'f::ab_group_add oblivious_dictionary \<Rightarrow> 'f oblivious_dictionary" where
  "unpeeling of_bytes prg d = unpeel_loop of_bytes prg (peelingCounter d) d"

text \<open>The value a holder of the variables computes for a key.\<close>

definition decode :: "'f::ab_group_add oblivious_dictionary \<Rightarrow> u64 \<Rightarrow> 'f" where
  "decode d key =
     (let indices = dec d key
      in variables d ! (indices ! 0) + variables d ! (tableRealSize d + indices ! 1) +
         dh_sum d (drop 2 indices))"

text \<open>
  \<open>checkOutput\<close> only prints: a line for every key with a bad value, and for some of the good
  ones. The model is the list of the outcomes of its comparison.
\<close>

definition checkOutput :: "'f::ab_group_add oblivious_dictionary \<Rightarrow> bool list" where
  "checkOutput d = map (\<lambda>i. decode d (keys d ! i) = lookup0 (vals d) (keys d ! i)) [0..<hashSize d]"

definition getVariables :: "(nat \<Rightarrow> 'f \<Rightarrow> u8 list) \<Rightarrow> 'f oblivious_dictionary \<Rightarrow> u8 list" where
  "getVariables to_bytes d = concat (map (to_bytes (fieldSizeBytes d)) (variables d))"

end
