(* ===== verification/Peeling.thy ===== *)
theory Peeling
  imports Oblivious_Dictionary
begin

text \<open>
  Correctness of \<open>ObliviousDictionary::peeling\<close>: the loops end, the peeled keys and the
  remaining keys split the key set, no bucket of either table is left with exactly one key, and
  what remains is the 2-core of the graph (the largest set of keys in which every key shares
  both of its buckets), whatever the order of peeling. The peeling order is such that every
  peeled key has a bucket that no later key touches, which is what unpeeling relies on.
\<close>

subsection \<open>Peeling orders\<close>

primrec peel_ok :: "('k \<Rightarrow> nat) \<Rightarrow> ('k \<Rightarrow> nat) \<Rightarrow> 'k list \<Rightarrow> 'k set \<Rightarrow> bool" where
  "peel_ok h1 h2 [] R = True"
| "peel_ok h1 h2 (k # ks) R =
     (((\<forall>x \<in> set ks \<union> R. h1 x \<noteq> h1 k) \<or> (\<forall>x \<in> set ks \<union> R. h2 x \<noteq> h2 k)) \<and> peel_ok h1 h2 ks R)"

lemma peel_ok_snoc:
  assumes "peel_ok h1 h2 P R" and "k \<in> R"
    and "(\<forall>x \<in> R - {k}. h1 x \<noteq> h1 k) \<or> (\<forall>x \<in> R - {k}. h2 x \<noteq> h2 k)"
  shows "peel_ok h1 h2 (P @ [k]) (R - {k})"
  using assms
proof (induction P)
  case Nil
  then show ?case by simp
next
  case (Cons a P)
  have "set (P @ [k]) \<union> (R - {k}) = set P \<union> R" using Cons.prems(2) by auto
  with Cons show ?case by simp
qed

text \<open>A set of keys is closed when every member shares both buckets with another member.\<close>

definition closed_keys :: "('k \<Rightarrow> nat) \<Rightarrow> ('k \<Rightarrow> nat) \<Rightarrow> 'k set \<Rightarrow> bool" where
  "closed_keys h1 h2 S \<longleftrightarrow>
     (\<forall>k \<in> S. (\<exists>x \<in> S - {k}. h1 x = h1 k) \<and> (\<exists>x \<in> S - {k}. h2 x = h2 k))"

lemma peel_ok_core:
  assumes "peel_ok h1 h2 P R" and "distinct P" and "set P \<inter> R = {}"
    and "closed_keys h1 h2 S" and "S \<subseteq> set P \<union> R"
  shows "S \<subseteq> R"
  using assms(1,2,3,5)
proof (induction P)
  case Nil
  then show ?case by simp
next
  case (Cons k P)
  have "k \<notin> S"
  proof
    assume "k \<in> S"
    with assms(4) obtain x y where "x \<in> S - {k}" "h1 x = h1 k" "y \<in> S - {k}" "h2 y = h2 k"
      unfolding closed_keys_def by blast
    moreover from this Cons.prems(4) have "x \<in> set P \<union> R" "y \<in> set P \<union> R" by auto
    ultimately show False using Cons.prems(1) by auto
  qed
  with Cons show ?case by auto
qed

subsection \<open>The invariant of the dictionary while it is peeled\<close>

definition peeled :: "'f oblivious_dictionary \<Rightarrow> u64 list" where
  "peeled d = take (peelingCounter d) (peelingVector d)"

definition remaining :: "'f oblivious_dictionary \<Rightarrow> u64 set" where
  "remaining d = set (us_elems (first d))"

abbreviation h1 :: "'f oblivious_dictionary \<Rightarrow> u64 \<Rightarrow> nat" where
  "h1 d \<equiv> uset_bucket (first d)"

abbreviation h2 :: "'f oblivious_dictionary \<Rightarrow> u64 \<Rightarrow> nat" where
  "h2 d \<equiv> uset_bucket (second d)"

definition peel_inv :: "'f oblivious_dictionary \<Rightarrow> u64 set \<Rightarrow> bool" where
  "peel_inv d K \<longleftrightarrow>
     set (us_elems (second d)) = remaining d \<and>
     distinct (us_elems (first d)) \<and> distinct (us_elems (second d)) \<and>
     length (peelingVector d) = card K \<and> peelingCounter d \<le> card K \<and> finite K \<and>
     distinct (peeled d) \<and> set (peeled d) \<inter> remaining d = {} \<and>
     set (peeled d) \<union> remaining d = K \<and>
     peel_ok (h1 d) (h2 d) (peeled d) (remaining d)"

text \<open>The fields peeling does not write.\<close>

definition frame :: "'f oblivious_dictionary \<Rightarrow> 'f oblivious_dictionary \<Rightarrow> bool" where
  "frame d d' \<longleftrightarrow>
     d' = d\<lparr>peelingVector := peelingVector d', peelingCounter := peelingCounter d',
            first := (first d)\<lparr>us_elems := us_elems (first d')\<rparr>,
            second := (second d)\<lparr>us_elems := us_elems (second d')\<rparr>\<rparr>"

lemma frame_refl [simp]: "frame d d"
  by (simp add: frame_def)

lemma frame_trans: "frame a b \<Longrightarrow> frame b c \<Longrightarrow> frame a c"
proof -
  assume ab: "frame a b" and bc: "frame b c"
  obtain pv pc f s where b: "b = a\<lparr>peelingVector := pv, peelingCounter := pc,
      first := (first a)\<lparr>us_elems := f\<rparr>, second := (second a)\<lparr>us_elems := s\<rparr>\<rparr>"
    using ab unfolding frame_def by blast
  obtain pv' pc' f' s' where c: "c = b\<lparr>peelingVector := pv', peelingCounter := pc',
      first := (first b)\<lparr>us_elems := f'\<rparr>, second := (second b)\<lparr>us_elems := s'\<rparr>\<rparr>"
    using bc unfolding frame_def by blast
  show ?thesis unfolding frame_def by (simp add: b c)
qed

lemma frameE:
  assumes "frame d d'"
  obtains pv pc f s where "d' = d\<lparr>peelingVector := pv, peelingCounter := pc,
      first := (first d)\<lparr>us_elems := f\<rparr>, second := (second d)\<lparr>us_elems := s\<rparr>\<rparr>"
  using assms unfolding frame_def by blast

lemma uset_bucket_elems [simp]: "uset_bucket (s\<lparr>us_elems := x\<rparr>) = uset_bucket s"
  by (rule ext) (simp add: uset_bucket_def)

lemma frame_h [simp]: "frame d d' \<Longrightarrow> h1 d' = h1 d" "frame d d' \<Longrightarrow> h2 d' = h2 d"
  by (auto elim!: frameE)

lemma frame_size [simp]: "frame d d' \<Longrightarrow> tableRealSize d' = tableRealSize d"
  by (auto elim!: frameE)

text \<open>Peeling one key: the common effect of the two passes.\<close>

definition remove_key :: "u64 \<Rightarrow> 'f oblivious_dictionary \<Rightarrow> 'f oblivious_dictionary" where
  "remove_key k d =
     (push_peeled k d)\<lparr>first := uset_erase k (first d), second := uset_erase k (second d)\<rparr>"

lemma remove_key_fields [simp]:
  "first (remove_key k d) = uset_erase k (first d)"
  "second (remove_key k d) = uset_erase k (second d)"
  "peelingVector (remove_key k d) = (peelingVector d)[peelingCounter d := k]"
  "peelingCounter (remove_key k d) = Suc (peelingCounter d)"
  "tableRealSize (remove_key k d) = tableRealSize d"
  by (simp_all add: remove_key_def push_peeled_def)

lemma remaining_remove_key [simp]: "remaining (remove_key k d) = remaining d - {k}"
  by (simp add: remaining_def)

lemma frame_remove_key: "frame d (remove_key k d)"
  by (simp add: frame_def remove_key_def push_peeled_def uset_erase_def)

lemma peel_inv_room:
  assumes "peel_inv d K" and "k \<in> remaining d"
  shows "peelingCounter d < card K"
proof -
  have "card (set (peeled d)) < card K"
    using assms by (intro psubset_card_mono) (auto simp: peel_inv_def)
  moreover have "card (set (peeled d)) = peelingCounter d"
    using assms(1) by (simp add: peel_inv_def distinct_card peeled_def)
  ultimately show ?thesis by simp
qed

lemma remove_key_inv:
  assumes "peel_inv d K" and "k \<in> remaining d"
    and "(\<forall>x \<in> remaining d - {k}. h1 d x \<noteq> h1 d k) \<or> (\<forall>x \<in> remaining d - {k}. h2 d x \<noteq> h2 d k)"
  shows "peel_inv (remove_key k d) K"
proof -
  have room: "peelingCounter d < length (peelingVector d)"
    using peel_inv_room [OF assms(1,2)] assms(1) by (simp add: peel_inv_def)
  have p: "peeled (remove_key k d) = peeled d @ [k]"
    using room by (simp add: peeled_def take_Suc_conv_app_nth)
  have "peel_ok (h1 d) (h2 d) (peeled d @ [k]) (remaining d - {k})"
    using assms by (intro peel_ok_snoc) (simp_all add: peel_inv_def)
  moreover have "set (us_elems (second (remove_key k d))) = remaining d - {k}"
    using assms(1) by (simp add: peel_inv_def)
  ultimately show ?thesis
    using assms(1,2) room
    unfolding peel_inv_def p
    by (auto simp: distinct_removeAll)
qed

lemma remaining_first: "remaining d = set (us_elems (first d))"
  by (simp add: remaining_def)

lemma peel_inv_simps:
  assumes "peel_inv d K"
  shows "distinct (us_elems (first d))" "distinct (us_elems (second d))"
    "set (us_elems (second d)) = remaining d"
  using assms by (simp_all add: peel_inv_def)

text \<open>A bucket with one key, as the code finds it.\<close>

lemma single_first:
  assumes "peel_inv d K" and "uset_bucket_size (first d) i = 1"
  defines "k \<equiv> hd (uset_bucket_list (first d) i)"
  shows "k \<in> remaining d" and "h1 d k = i" and "\<forall>x \<in> remaining d - {k}. h1 d x \<noteq> h1 d k"
proof -
  have d: "distinct (us_elems (first d))" using assms(1) by (simp add: peel_inv_def)
  have l: "length (uset_bucket_list (first d) i) = 1"
    using assms(2) by (simp add: uset_bucket_size_def)
  show "k \<in> remaining d" unfolding k_def remaining_def by (rule tab.size_one(1) [OF d l])
  show hk: "h1 d k = i" unfolding k_def by (rule tab.size_one(2) [OF d l])
  show "\<forall>x \<in> remaining d - {k}. h1 d x \<noteq> h1 d k"
  proof
    fix x assume "x \<in> remaining d - {k}"
    with tab.size_one(3) [OF d l, of x] show "h1 d x \<noteq> h1 d k"
      unfolding hk by (auto simp: remaining_def k_def)
  qed
qed

lemma single_second:
  assumes "peel_inv d K" and "uset_bucket_size (second d) i = 1"
  defines "k \<equiv> hd (uset_bucket_list (second d) i)"
  shows "k \<in> remaining d" and "h2 d k = i" and "\<forall>x \<in> remaining d - {k}. h2 d x \<noteq> h2 d k"
proof -
  have d: "distinct (us_elems (second d))" and r: "set (us_elems (second d)) = remaining d"
    using assms(1) by (simp_all add: peel_inv_def)
  have l: "length (uset_bucket_list (second d) i) = 1"
    using assms(2) by (simp add: uset_bucket_size_def)
  show "k \<in> remaining d" unfolding k_def r [symmetric] by (rule tab.size_one(1) [OF d l])
  show hk: "h2 d k = i" unfolding k_def by (rule tab.size_one(2) [OF d l])
  show "\<forall>x \<in> remaining d - {k}. h2 d x \<noteq> h2 d k"
  proof
    fix x assume "x \<in> remaining d - {k}"
    with tab.size_one(3) [OF d l, of x] show "h2 d x \<noteq> h2 d k"
      unfolding hk by (auto simp: r k_def)
  qed
qed

lemma size_first_remove:
  assumes "peel_inv d K" and "k \<in> remaining d"
  shows "uset_bucket_size (first (remove_key k d)) i =
    (if i = h1 d k then uset_bucket_size (first d) i - 1 else uset_bucket_size (first d) i)"
  using assms peel_inv_simps [OF assms(1)]
  by (auto simp: bucket_size_simps remaining_def)

lemma size_second_remove:
  assumes "peel_inv d K" and "k \<in> remaining d"
  shows "uset_bucket_size (second (remove_key k d)) i =
    (if i = h2 d k then uset_bucket_size (second d) i - 1 else uset_bucket_size (second d) i)"
  using assms peel_inv_simps [OF assms(1)]
  by (auto simp: bucket_size_simps)

lemma size_first_pos:
  "peel_inv d K \<Longrightarrow> k \<in> remaining d \<Longrightarrow> 0 < uset_bucket_size (first d) (h1 d k)"
  using tab.size_pos [of "first d" k] by (auto simp: peel_inv_def remaining_def uset_bucket_size_def)

lemma size_second_pos:
  "peel_inv d K \<Longrightarrow> k \<in> remaining d \<Longrightarrow> 0 < uset_bucket_size (second d) (h2 d k)"
  using tab.size_pos [of "second d" k] by (auto simp: peel_inv_def remaining_def uset_bucket_size_def)

subsection \<open>The first pass\<close>

lemma peel_first_step_eq:
  "peel_first_step d i =
   (if uset_bucket_size (first d) i = 1
    then remove_key (hd (uset_bucket_list (first d) i)) d else d)"
  by (simp add: peel_first_step_def remove_key_def push_peeled_def Let_def)

lemma peel_first_pass:
  fixes n :: nat
  assumes "peel_inv d K"
  defines "d' \<equiv> foldl peel_first_step d [0..<n]"
  shows "peel_inv d' K \<and> frame d d' \<and> (\<forall>i<n. uset_bucket_size (first d') i \<noteq> 1)"
  unfolding d'_def
proof (induction n)
  case 0
  show ?case using assms(1) by simp
next
  case (Suc n)
  let ?d = "foldl peel_first_step d [0..<n]"
  show ?case
  proof (cases "uset_bucket_size (first ?d) n = 1")
    case True
    let ?k = "hd (uset_bucket_list (first ?d) n)"
    note k = single_first [OF conjunct1 [OF Suc] True]
    have "peel_inv (remove_key ?k ?d) K"
      using Suc k by (intro remove_key_inv) simp_all
    moreover have "frame d (remove_key ?k ?d)"
      using Suc frame_remove_key frame_trans by blast
    moreover have "\<forall>i<Suc n. uset_bucket_size (first (remove_key ?k ?d)) i \<noteq> 1"
      using Suc k True size_first_remove [of ?d K ?k] by (auto simp: less_Suc_eq)
    ultimately show ?thesis using True by (simp add: peel_first_step_eq [of ?d n] del: remove_key_fields)
  next
    case False
    with Suc show ?thesis by (auto simp: peel_first_step_eq [of ?d n] less_Suc_eq)
  qed
qed

subsection \<open>The second pass\<close>

text \<open>No bucket of \<open>first\<close> holds one key, and no bucket of \<open>second\<close> up to \<open>p\<close> but \<open>e\<close> does.\<close>

definition clean :: "'f oblivious_dictionary \<Rightarrow> nat set \<Rightarrow> bool" where
  "clean d A \<longleftrightarrow>
     (\<forall>i. i < tableRealSize d \<longrightarrow> uset_bucket_size (first d) i \<noteq> 1) \<and>
     (\<forall>i \<in> A. uset_bucket_size (second d) i \<noteq> 1)"

definition small_buckets :: "'f oblivious_dictionary \<Rightarrow> bool" where
  "small_buckets d \<longleftrightarrow>
     0 < tableRealSize d \<and>
     bucket_count (first d) = tableRealSize d \<and> bucket_count (second d) = tableRealSize d"

lemma frame_small: "frame d d' \<Longrightarrow> small_buckets d \<Longrightarrow> small_buckets d'"
  by (auto elim!: frameE simp: small_buckets_def)

text \<open>The body of the chain, in terms of \<open>remove_key\<close>.\<close>

lemma peel_chain_unfold:
  "peel_chain p e k d =
   (if e \<le> p
    then let d1 = remove_key k d; b = h1 d k
         in if uset_bucket_size (first d1) b = 1
            then let k' = hd (uset_bucket_list (first d1) b);
                     d2 = remove_key k' d1; e' = h2 d k'
                 in if uset_bucket_size (second d2) e' = 1
                    then peel_chain p e' (hd (uset_bucket_list (second d2) e')) d2
                    else Some d2
            else Some d1
    else Some d)"
  by (subst peel_chain.simps)
     (simp add: Let_def remove_key_def push_peeled_def peel_chain.simps [of p "Suc p"])

lemma peel_chain_correct:
  assumes "peel_inv d K" and "small_buckets d"
    and "e \<le> p \<Longrightarrow> k \<in> remaining d \<and> h2 d k \<le> p \<and> uset_bucket_size (second d) (h2 d k) = 1 \<and>
           clean d ({..p} - {h2 d k})"
    and "\<not> e \<le> p \<Longrightarrow> clean d {..p}"
  shows "\<exists>d'. peel_chain p e k d = Some d' \<and> peel_inv d' K \<and> frame d d' \<and> clean d' {..p}"
  using assms
proof (induction "card (remaining d)" arbitrary: d e k rule: less_induct)
  case less
  note inv = less.prems(1)
  show ?case
  proof (cases "e \<le> p")
    case False
    with less.prems show ?thesis by (auto simp: peel_chain_unfold)
  next
    case True
    with less.prems(3) have kr: "k \<in> remaining d" and kp: "h2 d k \<le> p"
      and ks: "uset_bucket_size (second d) (h2 d k) = 1" and cl: "clean d ({..p} - {h2 d k})"
      by simp_all
    define d1 where "d1 = remove_key k d"
    have uniq: "\<forall>x \<in> remaining d - {k}. h2 d x \<noteq> h2 d k"
      using single_second(3) [OF inv ks] single_second(2) [OF inv ks]
      by (metis DiffD1 DiffD2 DiffI inv kr ks singletonD singletonI single_second(1,3))
    have inv1: "peel_inv d1 K" unfolding d1_def
      by (rule remove_key_inv [OF inv kr]) (use uniq in blast)
    have sm1: "small_buckets d1" unfolding d1_def
      by (rule frame_small [OF frame_remove_key less.prems(2)])
    have f1: "frame d d1" by (simp add: d1_def frame_remove_key)
    have h1k: "h1 d k < tableRealSize d"
      using less.prems(2) uset_bucket_less [of "first d" k] by (simp add: small_buckets_def)
    have s2: "\<forall>i \<in> {..p}. uset_bucket_size (second d1) i \<noteq> 1"
      using cl ks size_second_remove [OF inv kr] by (auto simp: clean_def d1_def)
    have s1: "uset_bucket_size (first d1) i \<noteq> 1" if "i < tableRealSize d" "i \<noteq> h1 d k" for i
      using cl that size_first_remove [OF inv kr] by (auto simp: clean_def d1_def)
    show ?thesis
    proof (cases "uset_bucket_size (first d1) (h1 d k) = 1")
      case False
      with s1 s2 have "clean d1 {..p}" by (auto simp: clean_def d1_def)
      with False True inv1 f1 show ?thesis
        by (simp add: peel_chain_unfold [of p e k d] Let_def d1_def)
    next
      case one: True
      define k' where "k' = hd (uset_bucket_list (first d1) (h1 d k))"
      define d2 where "d2 = remove_key k' d1"
      note sf = single_first [OF inv1 one, folded k'_def]
      have hh: "h1 d1 = h1 d" "h2 d1 = h2 d" using f1 by simp_all
      have inv2: "peel_inv d2 K" unfolding d2_def
        by (rule remove_key_inv [OF inv1 sf(1)]) (use sf(3) in blast)
      have f2: "frame d d2" using f1 frame_remove_key frame_trans unfolding d2_def by blast
      have sm2: "small_buckets d2" by (rule frame_small [OF f2 less.prems(2)])
      have ff: "uset_bucket_size (first d2) i \<noteq> 1" if "i < tableRealSize d" for i
        using s1 [OF that] one sf(2) size_first_remove [OF inv1 sf(1)] by (auto simp: d2_def)
      have ss: "uset_bucket_size (second d2) i \<noteq> 1" if "i \<le> p" "i \<noteq> h2 d k'" for i
        using s2 that size_second_remove [OF inv1 sf(1)] hh by (auto simp: d2_def)
      have tr: "tableRealSize d2 = tableRealSize d" by (simp add: d2_def d1_def)
      have hd2: "h2 d2 = h2 d" "h1 d2 = h1 d" using f2 by simp_all
      show ?thesis
      proof (cases "uset_bucket_size (second d2) (h2 d k') = 1")
        case False
        with ss have "\<forall>i\<in>{..p}. uset_bucket_size (second d2) i \<noteq> 1" by (metis atMost_iff)
        with ff tr have "clean d2 {..p}" by (simp add: clean_def)
        with False one True inv2 f2 show ?thesis
          by (simp add: peel_chain_unfold [of p e k d] Let_def d1_def d2_def k'_def)
      next
        case again: True
        define k'' where "k'' = hd (uset_bucket_list (second d2) (h2 d k'))"
        note sg = single_second [OF inv2 again, folded k''_def]
        have less2: "card (remaining d2) < card (remaining d)"
          by (rule psubset_card_mono) (use kr in \<open>auto simp: d2_def d1_def remaining_def\<close>)
        have "\<exists>d'. peel_chain p (h2 d k') k'' d2 = Some d' \<and> peel_inv d' K \<and> frame d2 d' \<and> clean d' {..p}"
        proof (rule less.hyps [OF less2 inv2 sm2])
          assume "h2 d k' \<le> p"
          with sg hd2 again ff ss tr
          show "k'' \<in> remaining d2 \<and> h2 d2 k'' \<le> p \<and> uset_bucket_size (second d2) (h2 d2 k'') = 1 \<and>
            clean d2 ({..p} - {h2 d2 k''})"
            by (auto simp: clean_def)
        next
          assume "\<not> h2 d k' \<le> p"
          with ff ss tr show "clean d2 {..p}" by (auto simp: clean_def)
        qed
        then obtain d' where "peel_chain p (h2 d k') k'' d2 = Some d'" "peel_inv d' K"
          "frame d2 d'" "clean d' {..p}" by blast
        moreover have "peel_chain p e k d = peel_chain p (h2 d k') k'' d2"
          using True one again
          by (simp add: peel_chain_unfold [of p e k d] Let_def d1_def d2_def k'_def k''_def)
        ultimately show ?thesis using frame_trans [OF f2] by metis
      qed
    qed
  qed
qed

lemma peel_second_step_correct:
  assumes "peel_inv d K" and "small_buckets d" and "clean d {..<p}"
  shows "\<exists>d'. peel_second_step d p = Some d' \<and> peel_inv d' K \<and> frame d d' \<and> clean d' {..<Suc p}"
proof (cases "uset_bucket_size (second d) p = 1")
  case True
  note s = single_second [OF assms(1) True]
  have "{..p} - {p} = {..<p}" by auto
  then have "\<exists>d'. peel_chain p 0 (hd (uset_bucket_list (second d) p)) d = Some d' \<and>
      peel_inv d' K \<and> frame d d' \<and> clean d' {..p}"
    using s(1) s(2) True assms(3) by (intro peel_chain_correct [OF assms(1,2)]) (simp_all only: simp_thms le0 order_refl)
  with True show ?thesis by (simp add: peel_second_step_def lessThan_Suc_atMost)
next
  case False
  with assms show ?thesis by (auto simp: peel_second_step_def clean_def less_Suc_eq)
qed

lemma peel_second_correct:
  assumes "peel_inv d K" and "small_buckets d" and "clean d {..<m}"
  shows "\<exists>d'. peel_second d [m..<n] = Some d' \<and> peel_inv d' K \<and> frame d d' \<and> clean d' {..<max m n}"
  using assms
proof (induction "n - m" arbitrary: m d)
  case 0
  then show ?case by (simp add: max_absorb1)
next
  case (Suc x)
  then have mn: "m < n" by simp
  from peel_second_step_correct [OF Suc.prems] obtain d1 where
    d1: "peel_second_step d m = Some d1" "peel_inv d1 K" "frame d d1" "clean d1 {..<Suc m}" by blast
  have "x = n - Suc m" using Suc.hyps(2) by simp
  from Suc.hyps(1) [OF this d1(2) frame_small [OF d1(3) Suc.prems(2)] d1(4)] obtain d' where
    d': "peel_second d1 [Suc m..<n] = Some d'" "peel_inv d' K" "frame d1 d'" "clean d' {..<max (Suc m) n}"
    by blast
  have "max (Suc m) n = max m n" using mn by simp
  with d1 d' mn frame_trans [OF d1(3) d'(3)] show ?case by (auto simp: upt_conv_Cons)
qed

subsection \<open>Peeling as a whole\<close>

text \<open>The state after \<open>init\<close> and \<open>fillTables\<close>: both tables hold the keys.\<close>

definition filled :: "'f oblivious_dictionary \<Rightarrow> u64 set \<Rightarrow> bool" where
  "filled d K \<longleftrightarrow>
     finite K \<and> card K = hashSize d \<and> small_buckets d \<and>
     distinct (us_elems (first d)) \<and> distinct (us_elems (second d)) \<and>
     set (us_elems (first d)) = K \<and> set (us_elems (second d)) = K"

lemma peeling_correct:
  assumes "filled d K"
  shows "\<exists>d'. peeling d = Some d' \<and> peel_inv d' K \<and>
    frame d d' \<and> clean d' {..<tableRealSize d}"
proof -
  define d0 where
    "d0 = d\<lparr>peelingVector := vec_resize (hashSize d) 0 (peelingVector d), peelingCounter := 0\<rparr>"
  have len: "length (peelingVector d0) = hashSize d" by (simp add: d0_def vec_resize_def)
  have inv0: "peel_inv d0 K"
    using assms len by (simp add: filled_def peel_inv_def peeled_def remaining_def) (simp add: d0_def)
  have f0: "frame d d0" by (simp add: frame_def d0_def)
  define d1 where "d1 = foldl peel_first_step d0 [0..<tableRealSize d0]"
  have d1: "peel_inv d1 K" "frame d0 d1" "\<forall>i<tableRealSize d0. uset_bucket_size (first d1) i \<noteq> 1"
    using peel_first_pass [OF inv0, of "tableRealSize d0"] by (simp_all add: d1_def)
  have sm: "small_buckets d1"
    using frame_small [OF frame_trans [OF f0 d1(2)]] assms by (simp add: filled_def)
  have t: "tableRealSize d1 = tableRealSize d" "tableRealSize d0 = tableRealSize d"
    using frame_size [OF frame_trans [OF f0 d1(2)]] frame_size [OF f0] by simp_all
  have "clean d1 {..<0}" using d1(3) t by (simp add: clean_def)
  from peel_second_correct [OF d1(1) sm this, of "tableRealSize d"] obtain d' where
    "peel_second d1 [0..<tableRealSize d] = Some d'" "peel_inv d' K" "frame d1 d'"
    "clean d' {..<tableRealSize d}" by auto
  moreover have "peeling d = peel_second d1 [0..<tableRealSize d]"
    using t by (simp add: peeling_def Let_def d1_def d0_def)
  ultimately show ?thesis
    using frame_trans [OF frame_trans [OF f0 d1(2)]] by metis
qed

text \<open>What is left is closed, hence the 2-core.\<close>

lemma card_1_other: "x \<in> A \<Longrightarrow> card A \<noteq> 1 \<Longrightarrow> finite A \<Longrightarrow> \<exists>y \<in> A. y \<noteq> x"
  by (metis card_1_singleton_iff insertI1 is_singletonI' is_singleton_altdef empty_iff)

lemma clean_closed:
  assumes "peel_inv d K" and "small_buckets d" and "clean d {..<tableRealSize d}"
  shows "closed_keys (h1 d) (h2 d) (remaining d)"
  unfolding closed_keys_def
proof
  fix k assume k: "k \<in> remaining d"
  have b: "h1 d k < tableRealSize d" "h2 d k < tableRealSize d"
    using assms(2) uset_bucket_less [of "first d" k] uset_bucket_less [of "second d" k]
    by (simp_all add: small_buckets_def)
  have d: "distinct (us_elems (first d))" "distinct (us_elems (second d))"
    and r: "set (us_elems (second d)) = remaining d"
    using assms(1) by (simp_all add: peel_inv_def)
  have "uset_bucket_size (first d) (h1 d k) \<noteq> 1" "uset_bucket_size (second d) (h2 d k) \<noteq> 1"
    using assms(3) b by (simp_all add: clean_def)
  then have c: "card {x \<in> remaining d. h1 d x = h1 d k} \<noteq> 1"
    "card {x \<in> remaining d. h2 d x = h2 d k} \<noteq> 1"
    unfolding uset_bucket_size_def tab.size_card [OF d(1)] tab.size_card [OF d(2)] r
      remaining_def [symmetric] by simp_all
  have fin: "finite {x \<in> remaining d. P x}" for P by (simp add: remaining_def)
  show "(\<exists>x \<in> remaining d - {k}. h1 d x = h1 d k) \<and> (\<exists>x \<in> remaining d - {k}. h2 d x = h2 d k)"
    using card_1_other [OF _ c(1) fin, of k] card_1_other [OF _ c(2) fin, of k] k by auto
qed

end
