(* ===== verification/Dictionary_Correct.thy ===== *)
theory Dictionary_Correct
  imports Peeling
begin

text \<open>
  Correctness of the encoding: the linear system built for the keys that peeling leaves,
  writing its solution back, and unpeeling. The result is that the variables decode every key
  to its value, provided the system is solvable, the solver solves it, and no variable that is
  written happens to be zero (the code takes a zero variable for one not yet written).
\<close>

subsection \<open>Solutions of a system over bits\<close>

definition row_dot :: "bool list \<Rightarrow> 'f::ab_group_add list \<Rightarrow> 'f" where
  "row_dot row X = (\<Sum>j<length row. if row ! j then X ! j else 0)"

definition solves :: "bool list list \<Rightarrow> 'f::ab_group_add list \<Rightarrow> 'f list \<Rightarrow> bool" where
  "solves A B X \<longleftrightarrow> (\<forall>i<length A. row_dot (A ! i) X = B ! i)"

text \<open>What the code relies on: LinBox returns a solution of a system that has one.\<close>

definition solver_ok :: "(bool list list \<Rightarrow> 'f::ab_group_add list \<Rightarrow> nat \<Rightarrow> 'f list) \<Rightarrow> bool" where
  "solver_ok solve \<longleftrightarrow>
     (\<forall>A B cols. length B = length A \<longrightarrow> (\<forall>r \<in> set A. length r = cols) \<longrightarrow>
        (\<exists>X. length X = cols \<and> solves A B X) \<longrightarrow>
        length (solve A B cols) = cols \<and> solves A B (solve A B cols))"

lemma solve_api_correct:
  assumes "solver_ok solve" and "A \<noteq> []" and "length B = length A"
    and "\<forall>r \<in> set A. length r = cols" and "0 < cols"
    and "\<exists>X. length X = cols \<and> solves A B X"
  shows "\<exists>X'. solve_api solve A B X = (0, X') \<and> length X' = cols \<and> solves A B X'"
proof -
  have c: "length (A ! 0) = cols" using assms(2,4) by simp
  have "map (\<lambda>i. map (\<lambda>j. A ! i ! j) [0..<cols]) [0..<length A] = A"
    using assms(4) by (intro nth_equalityI) (auto intro: nth_equalityI)
  moreover have s: "length (solve A B cols) = cols" "solves A B (solve A B cols)"
    using assms unfolding solver_ok_def by blast+
  moreover have "map (\<lambda>k. solve A B cols ! k) [0..<cols] = solve A B cols"
    using s(1) by (metis map_nth)
  ultimately show ?thesis
    using assms(2,3,5) c by (simp add: solve_api_def Let_def)
qed

subsection \<open>Hash bits\<close>

lemma set_dh_loop: "set (dh_loop j n w) = {j + i |i. i < n \<and> bit w i}"
proof (induction n arbitrary: j w)
  case 0
  then show ?case by simp
next
  case (Suc n)
  have "{j + i |i. i < Suc n \<and> bit w i} =
      (if bit w 0 then {j} else {}) \<union> {Suc j + i |i. i < n \<and> bit w (Suc i)}"
    by (auto simp: less_Suc_eq_0_disj)
  moreover have "w AND 1 = 1 \<longleftrightarrow> bit w 0"
    by (simp add: and_one_eq bit_0 mod_2_eq_odd)
  ultimately show ?case by (simp add: Suc.IH bit_simps bit_0)
qed

lemma dh_loop_ge: "x \<in> set (dh_loop j n w) \<Longrightarrow> j \<le> x \<and> x < j + n"
  by (auto simp: set_dh_loop)

lemma distinct_dh_loop: "distinct (dh_loop j n w)"
  by (induction n arbitrary: j w) (auto dest: dh_loop_ge)

lemma length_dh_row [simp]: "length (dh_row n w) = n"
  by (induction n arbitrary: w) simp_all

lemma nth_dh_row: "i < n \<Longrightarrow> dh_row n w ! i = bit w i"
proof (induction n arbitrary: w i)
  case 0
  then show ?case by simp
next
  case (Suc n)
  have "w AND 1 = 1 \<longleftrightarrow> bit w 0"
    by (simp add: and_one_eq bit_0 mod_2_eq_odd)
  with Suc show ?case by (cases i) (simp_all add: bit_simps bit_0)
qed

lemma foldl_plus: "foldl (\<lambda>acc j. acc + f j) a xs = a + sum_list (map f xs)"
  for a :: "'f::ab_group_add"
  by (induction xs arbitrary: a) (simp_all add: add.assoc)

lemma dh_sum_eq:
  "dh_sum d (dh_loop 0 g w) =
   (\<Sum>j<g. if bit w j then variables d ! (2 * tableRealSize d + j) else 0)"
proof -
  have "dh_sum d (dh_loop 0 g w) = sum (\<lambda>j. variables d ! (2 * tableRealSize d + j)) (set (dh_loop 0 g w))"
    by (simp add: dh_sum_def foldl_plus sum_list_distinct_conv_sum_set distinct_dh_loop)
  also have "set (dh_loop 0 g w) = {..<g} \<inter> {j. bit w j}" by (auto simp: set_dh_loop)
  finally show ?thesis by (simp add: sum.inter_restrict)
qed

lemma dec_simps [simp]:
  "dec d key ! 0 = h1 d key" "dec d key ! Suc 0 = h2 d key" "dec d key ! 1 = h2 d key"
  "drop 2 (dec d key) = dh_loop 0 (gamma d) (getDHBits d key)"
  by (simp_all add: dec_def)

lemma decode_eq:
  "decode d key = variables d ! h1 d key + variables d ! (tableRealSize d + h2 d key) +
     (\<Sum>j<gamma d. if bit (getDHBits d key) j then variables d ! (2 * tableRealSize d + j) else 0)"
  by (simp add: decode_def Let_def dh_sum_eq)

subsection \<open>The keys of the system\<close>

lemma h1_less: "small_buckets d \<Longrightarrow> h1 d k < tableRealSize d"
  using uset_bucket_less [of "first d" k] by (simp add: small_buckets_def)

lemma h2_less: "small_buckets d \<Longrightarrow> h2 d k < tableRealSize d"
  using uset_bucket_less [of "second d" k] by (simp add: small_buckets_def)

lemma set_cycle_keys:
  assumes "peel_inv d K" and "small_buckets d" and "clean d A"
  shows "set (cycle_keys d) = (\<lambda>k. (h1 d k, k)) ` remaining d"
proof -
  have "uset_bucket_size (first d) (h1 d k) \<noteq> 1" for k
    using assms(3) h1_less [OF assms(2), of k] by (simp add: clean_def)
  then have big: "1 < uset_bucket_size (first d) (h1 d k)" if "k \<in> remaining d" for k
    using size_first_pos [OF assms(1) that] by (metis less_one linorder_neqE_nat not_gr_zero)
  show ?thesis
  proof (intro set_eqI iffI)
    fix x
    assume "x \<in> set (cycle_keys d)"
    then show "x \<in> (\<lambda>k. (h1 d k, k)) ` remaining d"
      by (auto simp: cycle_keys_def tab.set_bucket_list remaining_def split: if_splits)
  next
    fix x
    assume "x \<in> (\<lambda>k. (h1 d k, k)) ` remaining d"
    then obtain k where x: "x = (h1 d k, k)" and k: "k \<in> remaining d" by auto
    from k have "k \<in> set (uset_bucket_list (first d) (h1 d k))"
      by (simp add: tab.set_bucket_list remaining_def)
    with big [OF k] h1_less [OF assms(2), of k] show "x \<in> set (cycle_keys d)"
      by (auto simp: cycle_keys_def x intro!: bexI [of _ "h1 d k"])
  qed
qed

lemma distinct_keyed_concat:
  assumes "\<And>i. distinct (f i)" and "\<And>i x. x \<in> set (f i) \<Longrightarrow> g x = i" and "distinct is"
  shows "distinct (concat (map f is))"
  using assms(3)
proof (induction "is")
  case (Cons i js)
  then have "x \<notin> set (f i)" if "j \<in> set js" "x \<in> set (f j)" for j x
    using assms(2) [of x i] assms(2) [OF that(2)] that(1) by auto
  then have "set (f i) \<inter> (\<Union>j \<in> set js. set (f j)) = {}" by blast
  with Cons assms(1) show ?case by simp
qed simp

lemma distinct_cycle_keys:
  assumes "distinct (us_elems (first d))"
  shows "distinct (cycle_keys d)"
  unfolding cycle_keys_def
  by (rule distinct_keyed_concat [where g = fst])
     (use assms in \<open>auto simp: distinct_map tab.distinct_bucket_list inj_on_def split: if_splits\<close>)

lemma length_cycle_keys:
  assumes "peel_inv d K" and "small_buckets d" and "clean d A" and "card K = hashSize d"
  shows "length (cycle_keys d) = hashSize d - peelingCounter d"
proof -
  have "length (cycle_keys d) = card ((\<lambda>k. (h1 d k, k)) ` remaining d)"
    using distinct_card [OF distinct_cycle_keys, of d] set_cycle_keys [OF assms(1-3)] assms(1)
    by (simp add: peel_inv_def)
  also have "\<dots> = card (remaining d)" by (intro card_image) (simp add: inj_on_def)
  also have "\<dots> = card K - card (set (peeled d))"
    using assms(1) card_Un_disjoint [of "set (peeled d)" "remaining d"]
    by (simp add: peel_inv_def remaining_def)
  also have "card (set (peeled d)) = peelingCounter d"
    using assms(1) distinct_card [of "peeled d"] by (simp add: peel_inv_def) (simp add: peeled_def)
  finally show ?thesis using assms(4) by simp
qed

subsection \<open>Building the system\<close>

text \<open>The row of a key whose cells have the columns \<open>p\<close> and \<open>q\<close>.\<close>

definition sys_row :: "'f oblivious_dictionary \<Rightarrow> nat \<Rightarrow> nat \<Rightarrow> nat \<Rightarrow> u64 \<Rightarrow> bool list" where
  "sys_row d m p q key =
     take (2 * m) ((replicate (2 * m + gamma d) False)[p := True, m + q := True]) @
     dh_row (gamma d) (getDHBits d key)"

lemma length_sys_row [simp]: "length (sys_row d m p q key) = 2 * m + gamma d"
  by (simp add: sys_row_def)

lemma sum_split_at: "(\<Sum>j<a + b. f j) = (\<Sum>j<a. f j) + (\<Sum>j<b. f (a + j :: nat))"
  for f :: "nat \<Rightarrow> 'f::ab_group_add"
  by (induction b) (simp_all add: add.assoc)

lemma sum_delta: "p < (a::nat) \<Longrightarrow> (\<Sum>j<a. if j = p then f j else 0) = (f p :: 'f::ab_group_add)"
  by (simp add: sum.delta)

lemma row_dot_sys_row:
  assumes "p < m" and "q < m"
  shows "row_dot (sys_row d m p q key) X = X ! p + X ! (m + q) +
    (\<Sum>j<gamma d. if bit (getDHBits d key) j then X ! (2 * m + j) else 0)"
proof -
  let ?r = "sys_row d m p q key"
  have low: "?r ! j = (j = p)" if "j < m" for j
    using that assms by (simp add: sys_row_def nth_append nth_list_update)
  have mid: "?r ! (m + j) = (j = q)" if "j < m" for j
    using that assms by (simp add: sys_row_def nth_append nth_list_update)
  have high: "?r ! (2 * m + j) = bit (getDHBits d key) j" if "j < gamma d" for j
    using that by (simp add: sys_row_def nth_append nth_dh_row)
  have "row_dot ?r X = (\<Sum>j<m. if ?r ! j then X ! j else 0) +
      (\<Sum>j<m. if ?r ! (m + j) then X ! (m + j) else 0) +
      (\<Sum>j<gamma d. if ?r ! (2 * m + j) then X ! (2 * m + j) else 0)"
    by (simp only: row_dot_def length_sys_row mult_2 sum_split_at)
  also have "(\<Sum>j<m. if ?r ! j then X ! j else 0) = (\<Sum>j<m. if j = p then X ! j else 0)"
    by (intro sum.cong) (simp_all add: low)
  also have "(\<Sum>j<m. if ?r ! (m + j) then X ! (m + j) else 0) =
      (\<Sum>j<m. if j = q then X ! (m + j) else 0)"
    by (intro sum.cong) (simp_all add: mid)
  also have "(\<Sum>j<gamma d. if ?r ! (2 * m + j) then X ! (2 * m + j) else 0) =
      (\<Sum>j<gamma d. if bit (getDHBits d key) j then X ! (2 * m + j) else 0)"
    by (intro sum.cong) (simp_all add: high)
  finally show ?thesis using assms by (simp add: sum_delta)
qed

text \<open>The columns a table of cells has been given: distinct numbers below the counter.\<close>

definition cols_inv :: "(nat \<rightharpoonup> nat) \<Rightarrow> nat \<Rightarrow> nat set \<Rightarrow> nat \<Rightarrow> bool" where
  "cols_inv cols counter cells len \<longleftrightarrow>
     dom cols = cells \<and> inj_on cols cells \<and> (\<forall>c v. cols c = Some v \<longrightarrow> v < counter) \<and> counter \<le> len"

lemma cols_inv_step:
  assumes "cols_inv cols counter cells len"
  shows "cols_inv (if cols c = None then cols(c \<mapsto> counter) else cols)
    (if cols c = None then counter + 1 else counter) (insert c cells) (Suc len)"
proof (cases "cols c")
  case None
  then have "c \<notin> cells" using assms by (auto simp: cols_inv_def)
  moreover have "cols x \<noteq> Some counter" for x using assms by (auto simp: cols_inv_def)
  ultimately show ?thesis
    using assms None unfolding cols_inv_def
    by (auto simp: inj_on_def less_Suc_eq split: if_splits)
next
  case (Some v)
  then have "insert c cells = cells" using assms by (auto simp: cols_inv_def)
  then show ?thesis using assms Some by (simp add: cols_inv_def)
qed

lemma cols_inv_less: "cols_inv cols counter cells len \<Longrightarrow> c \<in> cells \<Longrightarrow> lookup0 cols c < len"
  by (fastforce simp: cols_inv_def lookup0_def dom_def)

subsection \<open>The invariant of the loop that builds the system\<close>

definition sys_inv :: "'f::ab_group_add oblivious_dictionary \<Rightarrow> nat \<Rightarrow> u64 list \<Rightarrow> 'f system_build \<Rightarrow> bool" where
  "sys_inv d m ks sb \<longleftrightarrow>
     length (matrix sb) = m \<and> length (rhs sb) = m \<and> rowCounter sb = length ks \<and>
     cols_inv (firstTableCols sb) (firstColsCounter sb) (h1 d ` set ks) (length ks) \<and>
     cols_inv (secondTableCols sb) (secondColsCounter sb) (h2 d ` set ks) (length ks) \<and>
     (\<forall>r<length ks.
        matrix sb ! r = sys_row d m (lookup0 (firstTableCols sb) (h1 d (ks ! r)))
          (lookup0 (secondTableCols sb) (h2 d (ks ! r))) (ks ! r) \<and>
        rhs sb ! r = lookup0 (vals d) (ks ! r)) \<and>
     length (sb_sign sb) = length (sign d) \<and>
     (\<forall>j<length (sign d). sb_sign sb ! j =
        (if j \<in> h1 d ` set ks \<or> j \<in> (\<lambda>k. tableRealSize d + h2 d k) ` set ks then 1 else sign d ! j))"

lemma nth_two_updates:
  "j < length xs \<Longrightarrow> (xs[a := u, b := v]) ! j = (if j = b then v else if j = a then u else xs ! j)"
  by (simp add: nth_list_update)

lemma lookup0_step:
  assumes "cols_inv cols counter cells len" and "x \<in> cells"
  shows "lookup0 (if cols c = None then cols(c \<mapsto> v) else cols) x = lookup0 cols x"
  using assms by (auto simp: cols_inv_def lookup0_def dom_def)

lemma add_equation_eq:
  "add_equation d m sb (h1 d k, k) =
     (let fc = (if firstTableCols sb (h1 d k) = None
                then (firstTableCols sb)(h1 d k \<mapsto> firstColsCounter sb) else firstTableCols sb);
          sc = (if secondTableCols sb (h2 d k) = None
                then (secondTableCols sb)(h2 d k \<mapsto> secondColsCounter sb) else secondTableCols sb)
      in sb\<lparr>matrix := (matrix sb)[rowCounter sb :=
               sys_row d m (lookup0 fc (h1 d k)) (lookup0 sc (h2 d k)) k],
            rhs := (rhs sb)[rowCounter sb := lookup0 (vals d) k],
            firstTableCols := fc, secondTableCols := sc,
            firstColsCounter := (if firstTableCols sb (h1 d k) = None
              then firstColsCounter sb + 1 else firstColsCounter sb),
            secondColsCounter := (if secondTableCols sb (h2 d k) = None
              then secondColsCounter sb + 1 else secondColsCounter sb),
            rowCounter := rowCounter sb + 1,
            sb_sign := (sb_sign sb)[h1 d k := 1, tableRealSize d + h2 d k := 1]\<rparr>)"
  by (simp add: add_equation_def Let_def sys_row_def)

lemma add_equation_inv:
  assumes inv: "sys_inv d m ks sb" and room: "length ks < m"
  shows "sys_inv d m (ks @ [k]) (add_equation d m sb (h1 d k, k))"
proof -
  define fc where "fc = (if firstTableCols sb (h1 d k) = None
    then (firstTableCols sb)(h1 d k \<mapsto> firstColsCounter sb) else firstTableCols sb)"
  define sc where "sc = (if secondTableCols sb (h2 d k) = None
    then (secondTableCols sb)(h2 d k \<mapsto> secondColsCounter sb) else secondTableCols sb)"
  have c1: "cols_inv (firstTableCols sb) (firstColsCounter sb) (h1 d ` set ks) (length ks)"
    and c2: "cols_inv (secondTableCols sb) (secondColsCounter sb) (h2 d ` set ks) (length ks)"
    and rc: "rowCounter sb = length ks" "length (matrix sb) = m" "length (rhs sb) = m"
    and sg: "length (sb_sign sb) = length (sign d)"
    using inv by (simp_all add: sys_inv_def)
  have old: "lookup0 fc (h1 d x) = lookup0 (firstTableCols sb) (h1 d x)"
    "lookup0 sc (h2 d x) = lookup0 (secondTableCols sb) (h2 d x)" if "x \<in> set ks" for x
    unfolding fc_def sc_def using lookup0_step [OF c1] lookup0_step [OF c2] that by simp_all
  have rows: "\<forall>r<length (ks @ [k]).
      ((matrix sb)[length ks := sys_row d m (lookup0 fc (h1 d k)) (lookup0 sc (h2 d k)) k]) ! r =
        sys_row d m (lookup0 fc (h1 d ((ks @ [k]) ! r))) (lookup0 sc (h2 d ((ks @ [k]) ! r))) ((ks @ [k]) ! r) \<and>
      ((rhs sb)[length ks := lookup0 (vals d) k]) ! r = lookup0 (vals d) ((ks @ [k]) ! r)"
    (is "\<forall>r<_. ?row r")
  proof (intro allI impI)
    fix r assume "r < length (ks @ [k])"
    then consider "r < length ks" | "r = length ks" by fastforce
    then show "?row r"
    proof cases
      case 1
      then have "ks ! r \<in> set ks" by simp
      note o = old [OF this]
      from 1 inv have "matrix sb ! r = sys_row d m (lookup0 (firstTableCols sb) (h1 d (ks ! r)))
          (lookup0 (secondTableCols sb) (h2 d (ks ! r))) (ks ! r)" "rhs sb ! r = lookup0 (vals d) (ks ! r)"
        by (simp_all add: sys_inv_def)
      with 1 show ?thesis by (simp add: nth_append o)
    next
      case 2
      with room rc show ?thesis by simp
    qed
  qed
  have sgn: "\<forall>j<length (sign d). ((sb_sign sb)[h1 d k := 1, tableRealSize d + h2 d k := 1]) ! j =
      (if j \<in> h1 d ` set (ks @ [k]) \<or> j \<in> (\<lambda>k. tableRealSize d + h2 d k) ` set (ks @ [k])
       then 1 else sign d ! j)"
  proof (intro allI impI)
    fix j assume "j < length (sign d)"
    moreover from this inv have "sb_sign sb ! j =
        (if j \<in> h1 d ` set ks \<or> j \<in> (\<lambda>k. tableRealSize d + h2 d k) ` set ks then 1 else sign d ! j)"
      by (simp add: sys_inv_def)
    ultimately show "((sb_sign sb)[h1 d k := 1, tableRealSize d + h2 d k := 1]) ! j =
      (if j \<in> h1 d ` set (ks @ [k]) \<or> j \<in> (\<lambda>k. tableRealSize d + h2 d k) ` set (ks @ [k])
       then 1 else sign d ! j)"
      using sg by (simp add: nth_two_updates)
  qed
  show ?thesis
    using cols_inv_step [OF c1, of "h1 d k"] cols_inv_step [OF c2, of "h2 d k"] rows sgn rc sg
    unfolding fc_def [symmetric] sc_def [symmetric]
    by (simp only: add_equation_eq Let_def sys_inv_def fc_def [symmetric] sc_def [symmetric]) simp
qed

lemma build_system_fold:
  assumes "sys_inv d m ps sb" and "length ps + length ks \<le> m"
  shows "sys_inv d m (ps @ ks) (foldl (add_equation d m) sb (map (\<lambda>k. (h1 d k, k)) ks))"
  using assms
proof (induction ks arbitrary: ps sb)
  case (Cons k ks)
  then have "sys_inv d m (ps @ [k]) (add_equation d m sb (h1 d k, k))"
    by (intro add_equation_inv) simp_all
  from Cons.IH [OF this] Cons.prems(2) show ?case by simp
qed simp

lemma build_system_inv:
  assumes "peel_inv d K" and "small_buckets d" and "clean d A" and "card K = hashSize d"
  defines "m \<equiv> hashSize d - peelingCounter d"
  obtains ks where "sys_inv d m ks (build_system d)" and "length ks = m" and "set ks = remaining d"
    and "cycle_keys d = map (\<lambda>k. (h1 d k, k)) ks"
proof
  let ?ks = "map snd (cycle_keys d)"
  have "fst x = h1 d (snd x)" if "x \<in> set (cycle_keys d)" for x
    using that by (auto simp: set_cycle_keys [OF assms(1-3)])
  then show c: "cycle_keys d = map (\<lambda>k. (h1 d k, k)) ?ks"
    by (intro nth_equalityI) (simp_all, metis nth_mem prod.collapse)
  show l: "length ?ks = m" using length_cycle_keys [OF assms(1-4)] by (simp add: m_def)
  show "set ?ks = remaining d" by (simp add: set_cycle_keys [OF assms(1-3)] image_image)
  let ?sb = "\<lparr>matrix = replicate m [], rhs = replicate m 0, firstTableCols = Map.empty,
    secondTableCols = Map.empty, firstColsCounter = 0, secondColsCounter = 0, rowCounter = 0,
    sb_sign = sign d\<rparr>"
  have "sys_inv d m [] ?sb" by (simp add: sys_inv_def cols_inv_def)
  from build_system_fold [OF this, of ?ks] l
  have "sys_inv d m ?ks (foldl (add_equation d m) ?sb (map (\<lambda>k. (h1 d k, k)) ?ks))"
    by (simp only: append_Nil list.size add_0 order_refl)
  then show "sys_inv d m ?ks (build_system d)"
    by (simp only: build_system_def Let_def m_def [symmetric] c [symmetric])
qed

text \<open>An assignment \<open>V\<close> of the variables that gives the keys of \<open>K\<close> their values.\<close>

definition encodes :: "'f::ab_group_add oblivious_dictionary \<Rightarrow> 'f list \<Rightarrow> u64 set \<Rightarrow> bool" where
  "encodes d V K \<longleftrightarrow> (\<forall>k \<in> K. decode (d\<lparr>variables := V\<rparr>) k = lookup0 (vals d) k)"

lemma getDHBits_variables [simp]: "getDHBits (d\<lparr>variables := V\<rparr>) k = getDHBits d k"
  by (simp add: getDHBits_def)

text \<open>An encoding gives a solution of the system, and a solution encodes the remaining keys.\<close>

lemma cols_inverse:
  assumes "cols_inv cols counter cells len" and "c \<in> cells"
  shows "(SOME x. cols x = Some (lookup0 cols c)) = c"
proof -
  obtain v where v: "cols c = Some v" using assms by (auto simp: cols_inv_def)
  have "x = c" if "cols x = Some v" for x
  proof -
    have "inj_on cols (dom cols)" using assms(1) by (simp add: cols_inv_def)
    moreover have "cols x = cols c" "x \<in> dom cols" "c \<in> dom cols" using v that by auto
    ultimately show ?thesis by (rule inj_onD)
  qed
  note u = this
  have e: "lookup0 cols c = v" using v by (simp add: lookup0_def)
  show ?thesis unfolding e by (rule some_equality [where P = "\<lambda>x. cols x = Some v", OF v u])
qed

lemma sys_row_solved:
  assumes "sys_inv d m ks sb" and "length ks = m" and "k \<in> set ks"
  shows "row_dot (sys_row d m (lookup0 (firstTableCols sb) (h1 d k))
      (lookup0 (secondTableCols sb) (h2 d k)) k) X =
    X ! lookup0 (firstTableCols sb) (h1 d k) + X ! (m + lookup0 (secondTableCols sb) (h2 d k)) +
    (\<Sum>j<gamma d. if bit (getDHBits d k) j then X ! (2 * m + j) else 0)"
  using assms by (intro row_dot_sys_row) (auto simp: sys_inv_def intro!: cols_inv_less)

lemma system_solvable:
  assumes inv: "sys_inv d m ks sb" and len: "length ks = m" and V: "encodes d V (set ks)"
  shows "\<exists>X. length X = 2 * m + gamma d \<and> solves (matrix sb) (rhs sb) X"
proof -
  define f where "f = (\<lambda>j. if j < m then V ! (SOME c. firstTableCols sb c = Some j)
    else if j < 2 * m then V ! (tableRealSize d + (SOME c. secondTableCols sb c = Some (j - m)))
    else V ! (2 * tableRealSize d + (j - 2 * m)))"
  define X where "X = map f [0..<2 * m + gamma d]"
  have c1: "cols_inv (firstTableCols sb) (firstColsCounter sb) (h1 d ` set ks) m"
    and c2: "cols_inv (secondTableCols sb) (secondColsCounter sb) (h2 d ` set ks) m"
    using inv len by (simp_all add: sys_inv_def)
  have "row_dot (matrix sb ! r) X = rhs sb ! r" if "r < m" for r
  proof -
    define k where "k = ks ! r"
    have k: "k \<in> set ks" using that len by (simp add: k_def)
    let ?p = "lookup0 (firstTableCols sb) (h1 d k)" and ?q = "lookup0 (secondTableCols sb) (h2 d k)"
    have b: "?p < m" "?q < m" using cols_inv_less [OF c1] cols_inv_less [OF c2] k by auto
    have "X ! ?p = V ! h1 d k" using b k by (simp add: X_def f_def cols_inverse [OF c1])
    moreover have "X ! (m + ?q) = V ! (tableRealSize d + h2 d k)"
      using b k by (simp add: X_def f_def cols_inverse [OF c2])
    moreover have "(\<Sum>j<gamma d. if bit (getDHBits d k) j then X ! (2 * m + j) else 0) =
        (\<Sum>j<gamma d. if bit (getDHBits d k) j then V ! (2 * tableRealSize d + j) else 0)"
      by (intro sum.cong) (simp_all add: X_def f_def)
    ultimately have "row_dot (sys_row d m ?p ?q k) X = lookup0 (vals d) k"
      using V k by (simp add: sys_row_solved [OF inv len k] encodes_def decode_eq cong: if_cong)
    then show ?thesis using inv that len by (simp add: sys_inv_def k_def)
  qed
  then have "solves (matrix sb) (rhs sb) X" using inv by (simp add: solves_def sys_inv_def)
  moreover have "length X = 2 * m + gamma d" by (simp add: X_def)
  ultimately show ?thesis by blast
qed

lemma solution_value:
  assumes inv: "sys_inv d m ks sb" and len: "length ks = m" and k: "k \<in> set ks"
    and sol: "solves (matrix sb) (rhs sb) X"
  shows "X ! lookup0 (firstTableCols sb) (h1 d k) + X ! (m + lookup0 (secondTableCols sb) (h2 d k)) +
    (\<Sum>j<gamma d. if bit (getDHBits d k) j then X ! (2 * m + j) else 0) = lookup0 (vals d) k"
proof -
  obtain r where "r < m" and r: "k = ks ! r" using k len by (metis in_set_conv_nth)
  with inv sol len have "row_dot (matrix sb ! r) X = lookup0 (vals d) k"
    "matrix sb ! r = sys_row d m (lookup0 (firstTableCols sb) (h1 d k))
      (lookup0 (secondTableCols sb) (h2 d k)) k"
    unfolding r by (simp_all add: sys_inv_def solves_def)
  then show ?thesis using sys_row_solved [OF inv len k, of X] by simp
qed

subsection \<open>Writing the solution back\<close>

lemma foldl_update_nth:
  fixes F :: "nat \<Rightarrow> 'f" and ca cb :: "'k \<Rightarrow> nat"
  shows "j < length vs \<Longrightarrow>
    foldl (\<lambda>vs k. vs[ca k := F (ca k), cb k := F (cb k)]) vs ks ! j =
    (if j \<in> ca ` set ks \<union> cb ` set ks then F j else vs ! j)"
proof (induction ks arbitrary: vs)
  case (Cons k ks)
  then show ?case by (simp add: nth_two_updates)
qed simp

lemma length_foldl_update [simp]:
  "length (foldl (\<lambda>vs k. vs[c1 k := u k, c2 k := v k]) vs ks) = length vs"
  by (induction ks arbitrary: vs) simp_all

lemma length_foldl_update1 [simp]: "length (foldl (\<lambda>vs i. vs[c i := u i]) vs is) = length vs"
  by (induction "is" arbitrary: vs) simp_all

lemma foldl_update1_nth:
  "j < length vs \<Longrightarrow> foldl (\<lambda>vs i. vs[a + i := f i]) vs [0..<n] ! j =
    (if a \<le> j \<and> j < a + n then f (j - a) else vs ! j)"
  by (induction n) (auto simp: nth_list_update less_Suc_eq)

definition slim_value :: "'f::ab_group_add oblivious_dictionary \<Rightarrow> 'f system_build \<Rightarrow> nat \<Rightarrow> 'f list \<Rightarrow> nat \<Rightarrow> 'f" where
  "slim_value d sb m X j =
     (if j < tableRealSize d then X ! lookup0 (firstTableCols sb) j
      else X ! (m + lookup0 (secondTableCols sb) (j - tableRealSize d)))"

lemma write_back_eq:
  assumes "cycle_keys d = map (\<lambda>k. (h1 d k, k)) ks" and "small_buckets d"
  shows "write_back d sb m X =
    foldl (\<lambda>vs i. vs[2 * tableRealSize d + i := X ! (2 * m + i)])
      (foldl (\<lambda>vs k. vs[h1 d k := slim_value d sb m X (h1 d k),
          tableRealSize d + h2 d k := slim_value d sb m X (tableRealSize d + h2 d k)])
        (variables d) ks) [0..<gamma d]"
  by (simp add: write_back_def Let_def assms(1) foldl_map slim_value_def h1_less [OF assms(2)])

lemma write_back_nth:
  assumes "cycle_keys d = map (\<lambda>k. (h1 d k, k)) ks" and sm: "small_buckets d"
    and len: "length (variables d) = 2 * tableRealSize d + gamma d"
    and j: "j < 2 * tableRealSize d + gamma d"
  shows "write_back d sb m X ! j =
    (if 2 * tableRealSize d \<le> j then X ! (2 * m + (j - 2 * tableRealSize d))
     else if j \<in> h1 d ` set ks \<union> (\<lambda>k. tableRealSize d + h2 d k) ` set ks then slim_value d sb m X j
     else variables d ! j)"
  using j by (simp add: write_back_eq [OF assms(1,2)] foldl_update1_nth len
    foldl_update_nth [where ca = "h1 d" and cb = "\<lambda>k. tableRealSize d + h2 d k" and F = "slim_value d sb m X"])

lemma length_write_back [simp]: "length (write_back d sb m X) = length (variables d)"
proof -
  have "length (foldl (\<lambda>vs (i, key). vs[f i := u i, g key := v key]) vs xs) = length vs"
    for f g u v xs and vs :: "'a list"
    by (induction xs arbitrary: vs) auto
  then show ?thesis by (simp add: write_back_def Let_def case_prod_unfold)
qed

text \<open>The cells of a set of keys, as positions among the variables.\<close>

definition cells :: "'f oblivious_dictionary \<Rightarrow> u64 set \<Rightarrow> nat set" where
  "cells d K = h1 d ` K \<union> (\<lambda>k. tableRealSize d + h2 d k) ` K"

lemma cells_simps [simp]: "cells d {} = {}"
  "cells d (insert k K) = {h1 d k, tableRealSize d + h2 d k} \<union> cells d K"
  by (auto simp: cells_def)

definition sized :: "'f oblivious_dictionary \<Rightarrow> bool" where
  "sized d \<longleftrightarrow> small_buckets d \<and> length (variables d) = 2 * tableRealSize d + gamma d \<and>
     length (sign d) = 2 * tableRealSize d"

definition fresh :: "'f::zero oblivious_dictionary \<Rightarrow> nat \<Rightarrow> bool" where
  "fresh d j \<longleftrightarrow> variables d ! j = 0 \<and> sign d ! j = 0"

lemma generate_correct:
  assumes inv: "peel_inv d K" and cl: "clean d A" and K: "card K = hashSize d" and sz: "sized d"
    and slv: "solver_ok solve" and V: "encodes d V (remaining d)"
    and fresh: "\<forall>j < 2 * tableRealSize d. j \<notin> cells d (remaining d) \<longrightarrow> fresh d j"
  defines "d' \<equiv> generateExternalToolValues solve d"
  shows "sized d'" and "\<forall>k \<in> remaining d. decode d' k = lookup0 (vals d) k"
    and "\<forall>j < 2 * tableRealSize d. fresh d' j \<longleftrightarrow> j \<notin> cells d (remaining d)"
proof -
  have sm: "small_buckets d" and ls: "length (sign d) = 2 * tableRealSize d"
    and lv: "length (variables d) = 2 * tableRealSize d + gamma d" using sz by (simp_all add: sized_def)
  define m where "m = hashSize d - peelingCounter d"
  obtain ks where sys: "sys_inv d m ks (build_system d)" and lk: "length ks = m"
    and ks: "set ks = remaining d" and ck: "cycle_keys d = map (\<lambda>k. (h1 d k, k)) ks"
    by (rule build_system_inv [OF inv sm cl K, folded m_def])
  define sb where "sb = build_system d"
  define X where "X = snd (solve_api solve (matrix sb) (rhs sb) (replicate (2 * m + gamma d) 0))"
  have d': "d' = d\<lparr>sign := sb_sign sb, variables := write_back d sb m X\<rparr>"
    by (simp add: d'_def generateExternalToolValues_def Let_def sb_def m_def X_def)
  have sys: "sys_inv d m ks sb" using sys by (simp add: sb_def)
  have sgl: "length (sb_sign sb) = length (sign d)" using sys by (simp add: sys_inv_def)
  show sz': "sized d'"
    using sz sgl by (simp add: sized_def d' small_buckets_def)
  have sol: "solves (matrix sb) (rhs sb) X"
  proof (cases "m = 0")
    case True
    then show ?thesis using sys by (simp add: solves_def sys_inv_def)
  next
    case False
    obtain Y where Y: "length Y = 2 * m + gamma d \<and> solves (matrix sb) (rhs sb) Y"
      using system_solvable [OF sys lk] V ks by auto
    have rows: "\<forall>r \<in> set (matrix sb). length r = 2 * m + gamma d"
      using sys lk by (auto simp: sys_inv_def in_set_conv_nth)
    have "matrix sb \<noteq> []" "length (rhs sb) = length (matrix sb)"
      using False sys by (auto simp: sys_inv_def)
    then obtain X' where "solve_api solve (matrix sb) (rhs sb) (replicate (2 * m + gamma d) 0) = (0, X')"
      "solves (matrix sb) (rhs sb) X'"
      using solve_api_correct [OF slv _ _ rows] False Y by (metis add_gr_0 mult_pos_pos zero_less_numeral neq0_conv)
    then show ?thesis by (simp add: X_def)
  qed
  have c: "cells d (remaining d) = h1 d ` set ks \<union> (\<lambda>k. tableRealSize d + h2 d k) ` set ks"
    by (simp add: cells_def ks)
  have nth: "j < 2 * tableRealSize d + gamma d \<Longrightarrow> variables d' ! j =
      (if 2 * tableRealSize d \<le> j then X ! (2 * m + (j - 2 * tableRealSize d))
       else if j \<in> cells d (remaining d) then slim_value d sb m X j else variables d ! j)" for j
    by (simp add: d' write_back_nth [OF ck sm lv] c)
  show "\<forall>k \<in> remaining d. decode d' k = lookup0 (vals d) k"
  proof
    fix k assume k: "k \<in> remaining d"
    have "variables d' ! h1 d k = X ! lookup0 (firstTableCols sb) (h1 d k)"
      using h1_less [OF sm, of k] k by (simp add: nth cells_def slim_value_def)
    moreover have "variables d' ! (tableRealSize d + h2 d k) =
        X ! (m + lookup0 (secondTableCols sb) (h2 d k))"
      using h2_less [OF sm, of k] k by (simp add: nth cells_def slim_value_def)
    moreover have "(\<Sum>j<gamma d. if bit (getDHBits d k) j then variables d' ! (2 * tableRealSize d + j) else 0) =
        (\<Sum>j<gamma d. if bit (getDHBits d k) j then X ! (2 * m + j) else 0)"
      by (intro sum.cong) (simp_all add: nth)
    moreover have "first d' = first d" "second d' = second d" "tableRealSize d' = tableRealSize d"
      "gamma d' = gamma d" "getDHBits d' k = getDHBits d k"
      by (simp_all add: d' getDHBits_def)
    ultimately show "decode d' k = lookup0 (vals d) k"
      using solution_value [OF sys lk _ sol, of k] k ks by (simp add: decode_eq cong: if_cong)
  qed
  show "\<forall>j < 2 * tableRealSize d. fresh d' j \<longleftrightarrow> j \<notin> cells d (remaining d)"
  proof (intro allI impI)
    fix j assume j: "j < 2 * tableRealSize d"
    have "sign d' ! j = (if j \<in> cells d (remaining d) then 1 else sign d ! j)"
      using sys j ls by (simp add: d' sys_inv_def c)
    with j fresh show "fresh d' j \<longleftrightarrow> j \<notin> cells d (remaining d)"
      by (simp add: fresh_def nth)
  qed
qed

subsection \<open>Unpeeling\<close>

text \<open>
  No cell unpeeling settles comes out zero. The code takes a zero variable whose sign is not
  set for one that has no value yet, so it needs this.
\<close>

fun unpeel_nonzero ::
  "(u8 list \<Rightarrow> 'f) \<Rightarrow> (nat \<Rightarrow> u8) \<Rightarrow> nat \<Rightarrow> 'f::ab_group_add oblivious_dictionary \<Rightarrow> bool" where
  "unpeel_nonzero of_bytes prg 0 d = True"
| "unpeel_nonzero of_bytes prg (Suc n) d =
     (let d = d\<lparr>peelingCounter := n\<rparr>;
          key = peelingVector d ! n;
          d = unpeel_step of_bytes prg key d
      in \<not> fresh d (h1 d key) \<and> \<not> fresh d (tableRealSize d + h2 d key) \<and>
         unpeel_nonzero of_bytes prg n d)"

definition unpeel_inv :: "'f::ab_group_add oblivious_dictionary \<Rightarrow> u64 set \<Rightarrow> bool" where
  "unpeel_inv d P \<longleftrightarrow> sized d \<and> (\<forall>k \<in> P. decode d k = lookup0 (vals d) k) \<and>
     (\<forall>j < 2 * tableRealSize d. fresh d j \<longleftrightarrow> j \<notin> cells d P)"

text \<open>The fields unpeeling does not write, and what a step does to the two cells of its key.\<close>

definition uframe :: "'f oblivious_dictionary \<Rightarrow> 'f oblivious_dictionary \<Rightarrow> bool" where
  "uframe d d' \<longleftrightarrow> d' = d\<lparr>variables := variables d', prg_pos := prg_pos d', peelingCounter := peelingCounter d'\<rparr>"

lemma uframe_refl [simp]: "uframe d d"
  by (simp add: uframe_def)

lemma uframeE:
  assumes "uframe d d'"
  obtains v p c where "d' = d\<lparr>variables := v, prg_pos := p, peelingCounter := c\<rparr>"
  using assms by (auto simp: uframe_def)

lemma uframe_fields:
  assumes "uframe d d'"
  shows "first d' = first d" "second d' = second d" "tableRealSize d' = tableRealSize d"
    "gamma d' = gamma d" "vals d' = vals d" "sign d' = sign d" "DH d' = DH d" "keys d' = keys d"
    "hashSize d' = hashSize d" "peelingVector d' = peelingVector d" "getDHBits d' = getDHBits d"
    "cells d' = cells d" "fieldSizeBytes d' = fieldSizeBytes d" "values d' = values d"
  using assms by (auto elim!: uframeE simp: fun_eq_iff getDHBits_def cells_def)

lemma uframe_trans: "uframe a b \<Longrightarrow> uframe b c \<Longrightarrow> uframe a c"
  by (cases a; cases b; cases c) (simp add: uframe_def)

lemma dh_sum_update:
  assumes "a < 2 * tableRealSize d"
  shows "dh_sum (d\<lparr>variables := (variables d)[a := v]\<rparr>) (dh_loop 0 g w) = dh_sum d (dh_loop 0 g w)"
  unfolding dh_sum_eq using assms by (intro sum.cong) (auto simp: nth_list_update)

text \<open>The three assignments of a step, on the list of variables.\<close>

definition unpeel_vars :: "'f::ab_group_add list \<Rightarrow> u8 list \<Rightarrow> nat \<Rightarrow> nat \<Rightarrow> 'f \<Rightarrow> 'f \<Rightarrow> 'f \<Rightarrow> 'f list" where
  "unpeel_vars V sg a b r e dh =
     (let V = (if V ! a = 0 \<and> V ! b = 0 \<and> sg ! a = 0 \<and> sg ! b = 0 then V[a := r] else V);
          V = (if V ! a = 0 \<and> sg ! a = 0 then V[a := e + V ! b + dh] else V)
      in if V ! b = 0 \<and> sg ! b = 0 then V[b := e + V ! a + dh] else V)"

lemma if_update:
  "(if c then d\<lparr>prg_pos := p, variables := V\<rparr> else d) =
    d\<lparr>prg_pos := if c then p else prg_pos d, variables := if c then V else variables d\<rparr>"
  "(if c then d\<lparr>variables := V\<rparr> else d) = d\<lparr>variables := if c then V else variables d\<rparr>"
  by simp_all

lemma unpeel_step_eq:
  fixes d :: "'f::ab_group_add oblivious_dictionary"
  shows "\<exists>r p. unpeel_step of_bytes prg k d = d\<lparr>prg_pos := p, variables :=
    unpeel_vars (variables d) (sign d) (h1 d k) (tableRealSize d + h2 d k) r (lookup0 (vals d) k)
      (dh_sum d (dh_loop 0 (gamma d) (getDHBits d k)))\<rparr>"
  unfolding unpeel_step_def unpeel_vars_def Let_def dec_simps if_update
  by (simp split del: if_split cong: if_cong) (rule exI, rule exI, rule refl)

lemma unpeel_vars_spec:
  fixes V :: "'f::ab_group_add list" and e dh r :: 'f
  assumes "a < length V" and "b < length V" and "a \<noteq> b" and two: "\<forall>x::'f. x + x = 0"
    and "V ! a = 0 \<and> sg ! a = 0 \<or> V ! b = 0 \<and> sg ! b = 0"
  defines "V' \<equiv> unpeel_vars V sg a b r e dh"
  shows "length V' = length V" and "V' ! a + V' ! b + dh = e"
    and "\<forall>j. \<not> (V ! j = 0 \<and> sg ! j = 0 \<and> (j = a \<or> j = b)) \<longrightarrow> V' ! j = V ! j"
proof -
  have cancel: "x + (y + (y + z)) = x + z" "y + (y + z) = z" "x + (y + y) = x" "y + y = 0" for x y z :: 'f
    using two by (simp_all flip: add.assoc)
  show "length V' = length V" by (simp add: V'_def unpeel_vars_def Let_def)
  consider "V ! a = 0" "sg ! a = 0" "V ! b = 0" "sg ! b = 0" | "V ! a = 0" "sg ! a = 0" "\<not> (V ! b = 0 \<and> sg ! b = 0)"
    | "\<not> (V ! a = 0 \<and> sg ! a = 0)" "V ! b = 0" "sg ! b = 0"
    using assms(5) by blast
  then have "V' ! a + V' ! b + dh = e \<and>
    (\<forall>j. \<not> (V ! j = 0 \<and> sg ! j = 0 \<and> (j = a \<or> j = b)) \<longrightarrow> V' ! j = V ! j)"
  proof cases
    case 1
    define x where "x = (if r = 0 then e + dh else r)"
    have "V' = V[a := x, b := e + x + dh]"
      using 1 assms(1-3) by (simp add: V'_def unpeel_vars_def Let_def x_def)
    with 1 assms(1-3) show ?thesis by (auto simp: ac_simps cancel nth_list_update)
  next
    case 2
    with assms(1-3) have "V' = V[a := e + V ! b + dh]"
      by (auto simp: V'_def unpeel_vars_def Let_def)
    with 2 assms(1-3) show ?thesis by (auto simp: ac_simps cancel nth_list_update)
  next
    case 3
    with assms(1-3) have "V' = V[b := e + V ! a + dh]"
      by (auto simp: V'_def unpeel_vars_def Let_def)
    with 3 assms(1-3) show ?thesis by (auto simp: ac_simps cancel nth_list_update)
  qed
  then show "V' ! a + V' ! b + dh = e"
    and "\<forall>j. \<not> (V ! j = 0 \<and> sg ! j = 0 \<and> (j = a \<or> j = b)) \<longrightarrow> V' ! j = V ! j" by blast+
qed

lemma unpeel_step_spec:
  fixes d :: "'f::ab_group_add oblivious_dictionary" and of_bytes :: "u8 list \<Rightarrow> 'f" and prg :: "nat \<Rightarrow> u8"
  assumes sz: "sized d" and two: "\<forall>x::'f. x + x = 0"
    and fr: "fresh d (h1 d k) \<or> fresh d (tableRealSize d + h2 d k)"
  defines "d' \<equiv> unpeel_step of_bytes prg k d"
  shows "uframe d d'" and "length (variables d') = length (variables d)"
    and "decode d' k = lookup0 (vals d) k"
    and "\<forall>j. \<not> (fresh d j \<and> (j = h1 d k \<or> j = tableRealSize d + h2 d k)) \<longrightarrow> variables d' ! j = variables d ! j"
proof -
  let ?a = "h1 d k" and ?b = "tableRealSize d + h2 d k"
  have sm: "small_buckets d" using sz by (simp add: sized_def)
  have ab: "?a < length (variables d)" "?b < length (variables d)" "?a \<noteq> ?b"
    "?a < 2 * tableRealSize d" "?b < 2 * tableRealSize d"
    using h1_less [OF sm, of k] h2_less [OF sm, of k] sz by (simp_all add: sized_def)
  let ?dh = "dh_sum d (dh_loop 0 (gamma d) (getDHBits d k))"
  obtain r p where d': "d' = d\<lparr>prg_pos := p, variables :=
      unpeel_vars (variables d) (sign d) ?a ?b r (lookup0 (vals d) k) ?dh\<rparr>"
    using unpeel_step_eq [of of_bytes prg k d] by (auto simp: d'_def)
  note spec = unpeel_vars_spec [OF ab(1-3) two fr [unfolded fresh_def]]
  show u: "uframe d d'" by (simp add: uframe_def d')
  note f = uframe_fields [OF u]
  show "length (variables d') = length (variables d)" by (simp add: d' spec(1))
  show other: "\<forall>j. \<not> (fresh d j \<and> (j = ?a \<or> j = ?b)) \<longrightarrow> variables d' ! j = variables d ! j"
    using spec(3) by (simp add: d' fresh_def)
  have "variables d' ! (2 * tableRealSize d + j) = variables d ! (2 * tableRealSize d + j)" for j
    using other ab(4,5) by auto
  then have "dh_sum d' (dh_loop 0 (gamma d) (getDHBits d k)) = ?dh" by (simp add: dh_sum_eq f cong: if_cong)
  then show "decode d' k = lookup0 (vals d) k"
    using spec(2) by (simp add: decode_def Let_def f) (simp add: d')
qed

lemma peel_ok_nth:
  assumes "peel_ok f g ps R" and "n < length ps"
  shows "(\<forall>x \<in> set (drop (Suc n) ps) \<union> R. f x \<noteq> f (ps ! n)) \<or>
    (\<forall>x \<in> set (drop (Suc n) ps) \<union> R. g x \<noteq> g (ps ! n))"
  using assms
proof (induction ps arbitrary: n)
  case (Cons k ps)
  then show ?case by (cases n) auto
qed simp

lemma unpeel_step_inv:
  fixes d :: "'f::ab_group_add oblivious_dictionary" and of_bytes :: "u8 list \<Rightarrow> 'f" and prg :: "nat \<Rightarrow> u8"
  assumes inv: "unpeel_inv d P" and two: "\<forall>x::'f. x + x = 0"
    and ok: "(\<forall>x \<in> P. h1 d x \<noteq> h1 d k) \<or> (\<forall>x \<in> P. h2 d x \<noteq> h2 d k)"
  defines "d' \<equiv> unpeel_step of_bytes prg k d"
  assumes nz: "\<not> fresh d' (h1 d k)" "\<not> fresh d' (tableRealSize d + h2 d k)"
  shows "unpeel_inv d' (insert k P)"
proof -
  let ?a = "h1 d k" and ?b = "tableRealSize d + h2 d k"
  have sz: "sized d" and sm: "small_buckets d" using inv by (simp_all add: unpeel_inv_def sized_def)
  have b: "h1 d x < tableRealSize d" "h2 d x < tableRealSize d" for x
    using h1_less [OF sm] h2_less [OF sm] by simp_all
  have fc: "fresh d j \<longleftrightarrow> j \<notin> cells d P" if "j < 2 * tableRealSize d" for j
    using inv that by (simp add: unpeel_inv_def)
  have ne: "tableRealSize d + y \<noteq> h1 d x" for x y using b(1) [of x] by linarith
  have "?a \<notin> cells d P \<or> ?b \<notin> cells d P"
    using ok
  proof
    assume *: "\<forall>x \<in> P. h1 d x \<noteq> h1 d k"
    have "?a \<notin> cells d P"
    proof
      assume "?a \<in> cells d P"
      then obtain x where "x \<in> P" "?a = h1 d x \<or> ?a = tableRealSize d + h2 d x"
        by (auto simp: cells_def)
      with * ne show False by metis
    qed
    then show ?thesis ..
  next
    assume *: "\<forall>x \<in> P. h2 d x \<noteq> h2 d k"
    have "?b \<notin> cells d P"
    proof
      assume "?b \<in> cells d P"
      then obtain x where "x \<in> P" "?b = h1 d x \<or> ?b = tableRealSize d + h2 d x"
        by (auto simp: cells_def)
      with * ne show False by (metis add_left_cancel)
    qed
    then show ?thesis ..
  qed
  moreover have "?a < 2 * tableRealSize d" "?b < 2 * tableRealSize d" using b [of k] by linarith+
  ultimately have fr: "fresh d ?a \<or> fresh d ?b" using fc by blast
  note spec = unpeel_step_spec [OF sz two fr, of of_bytes prg, folded d'_def]
  note fld = uframe_fields [OF spec(1)]
  have sz': "sized d'" using sz spec(2) by (simp add: sized_def small_buckets_def fld)
  have keep: "variables d' ! j = variables d ! j" if "j \<in> cells d P \<or> 2 * tableRealSize d \<le> j" for j
  proof (cases "j < 2 * tableRealSize d")
    case True
    with that fc spec(4) show ?thesis by simp
  next
    case False
    with b [of k] have "j \<noteq> ?a \<and> j \<noteq> ?b" by auto
    with spec(4) show ?thesis by blast
  qed
  have "decode d' x = decode d x" if "x \<in> P" for x
  proof -
    have "variables d' ! h1 d x = variables d ! h1 d x"
      "variables d' ! (tableRealSize d + h2 d x) = variables d ! (tableRealSize d + h2 d x)"
      using that keep by (simp_all add: cells_def)
    moreover have "(\<Sum>j<gamma d. if bit (getDHBits d x) j then variables d' ! (2 * tableRealSize d + j) else 0) =
        (\<Sum>j<gamma d. if bit (getDHBits d x) j then variables d ! (2 * tableRealSize d + j) else 0)"
      by (intro sum.cong) (simp_all add: keep)
    ultimately show ?thesis by (simp add: decode_eq fld cong: if_cong)
  qed
  then have dec: "\<forall>x \<in> insert k P. decode d' x = lookup0 (vals d') x"
    using inv spec(3) by (simp add: unpeel_inv_def fld)
  have "fresh d' j \<longleftrightarrow> j \<notin> cells d (insert k P)" if j: "j < 2 * tableRealSize d" for j
  proof (cases "j = ?a \<or> j = ?b")
    case True
    then show ?thesis using nz by auto
  next
    case False
    with spec(4) have "fresh d' j = fresh d j" by (simp add: fresh_def fld)
    with False fc [OF j] show ?thesis by simp
  qed
  with sz' dec show ?thesis by (simp add: unpeel_inv_def fld)
qed

lemma unpeel_inv_counter [simp]: "unpeel_inv (d\<lparr>peelingCounter := n\<rparr>) P = unpeel_inv d P"
proof -
  have "uframe d (d\<lparr>peelingCounter := n\<rparr>)" by (simp add: uframe_def)
  note f = uframe_fields [OF this]
  show ?thesis by (simp add: unpeel_inv_def sized_def small_buckets_def fresh_def decode_eq f cong: if_cong)
qed

lemma unpeel_loop_correct:
  fixes d :: "'f::ab_group_add oblivious_dictionary" and of_bytes :: "u8 list \<Rightarrow> 'f" and prg :: "nat \<Rightarrow> u8"
  assumes two: "\<forall>x::'f. x + x = 0"
  shows "unpeel_inv d (set (drop n ps) \<union> R) \<Longrightarrow> peel_ok (h1 d) (h2 d) ps R \<Longrightarrow> n \<le> length ps \<Longrightarrow>
    (\<forall>i<length ps. peelingVector d ! i = ps ! i) \<Longrightarrow> unpeel_nonzero of_bytes prg n d \<Longrightarrow>
    unpeel_inv (unpeel_loop of_bytes prg n d) (set ps \<union> R) \<and> uframe d (unpeel_loop of_bytes prg n d)"
proof (induction n arbitrary: d)
  case (Suc n)
  define d0 where "d0 = d\<lparr>peelingCounter := n\<rparr>"
  define d1 where "d1 = unpeel_step of_bytes prg (ps ! n) d0"
  have u0: "uframe d d0" by (simp add: uframe_def d0_def)
  note f0 = uframe_fields [OF u0]
  have pv: "peelingVector d0 ! n = ps ! n" using Suc.prems(3,4) by (simp add: f0)
  have inv: "unpeel_inv d0 (set (drop (Suc n) ps) \<union> R)" using Suc.prems(1) by (simp add: d0_def)
  have ok: "(\<forall>x \<in> set (drop (Suc n) ps) \<union> R. h1 d0 x \<noteq> h1 d0 (ps ! n)) \<or>
      (\<forall>x \<in> set (drop (Suc n) ps) \<union> R. h2 d0 x \<noteq> h2 d0 (ps ! n))"
    using peel_ok_nth [OF Suc.prems(2), of n] Suc.prems(3) by (simp add: f0)
  have u1: "uframe d0 d1" by (simp add: d1_def unpeel_step_def Let_def uframe_def)
  note f1 = uframe_fields [OF u1]
  have nz: "\<not> fresh d1 (h1 d0 (ps ! n))" "\<not> fresh d1 (tableRealSize d0 + h2 d0 (ps ! n))"
    "unpeel_nonzero of_bytes prg n d1"
    using Suc.prems(5) by (simp_all add: Let_def flip: d0_def) (simp_all add: pv f1 flip: d1_def)
  have "insert (ps ! n) (set (drop (Suc n) ps) \<union> R) = set (drop n ps) \<union> R"
    using Suc.prems(3) by (simp flip: Cons_nth_drop_Suc)
  with unpeel_step_inv [OF inv two ok, of of_bytes prg] nz
  have "unpeel_inv d1 (set (drop n ps) \<union> R)" by (simp add: d1_def)
  from Suc.IH [OF this _ _ _ nz(3)] Suc.prems(2-4)
  have "unpeel_inv (unpeel_loop of_bytes prg n d1) (set ps \<union> R) \<and>
      uframe d1 (unpeel_loop of_bytes prg n d1)" by (simp add: f0 f1)
  moreover have "unpeel_loop of_bytes prg (Suc n) d = unpeel_loop of_bytes prg n d1"
    by (simp add: Let_def d1_def pv flip: d0_def)
  ultimately show ?case using u0 u1 uframe_trans by metis
qed (simp add: Un_commute)

end
