(* ===== verification/Create_Dictionary.thy ===== *)
theory Create_Dictionary
  imports Dictionary_Correct
begin

text \<open>
  The whole encoding, in the order \<open>Receiver::createDictionary\<close> runs it: \<open>init\<close>, \<open>fillTables\<close>,
  \<open>peeling\<close>, \<open>generateExternalToolValues\<close>, \<open>unpeeling\<close>. The encoding ends for every key set,
  and every key decodes to its value.
\<close>

definition createDictionary ::
  "(u8 list \<Rightarrow> 'f) \<Rightarrow> (bool list list \<Rightarrow> 'f list \<Rightarrow> nat \<Rightarrow> 'f list) \<Rightarrow> (nat \<Rightarrow> u8) \<Rightarrow>
   'f::ab_group_add oblivious_dictionary \<Rightarrow> 'f oblivious_dictionary option" where
  "createDictionary of_bytes solve prg d =
     (let d = init of_bytes d;
          d = fillTables d
      in case peeling d of None \<Rightarrow> None
         | Some d \<Rightarrow> Some (unpeeling of_bytes prg (generateExternalToolValues solve d)))"

subsection \<open>\<open>init\<close> and \<open>fillTables\<close>\<close>

definition value_at :: "(u8 list \<Rightarrow> 'f) \<Rightarrow> 'f oblivious_dictionary \<Rightarrow> nat \<Rightarrow> 'f" where
  "value_at of_bytes d i = of_bytes (take (fieldSizeBytes d) (drop (i * fieldSizeBytes d) (values d)))"

lemma map_add_single: "[k \<mapsto> v] ++ m = (if m k = None then m(k \<mapsto> v) else m)"
  by (auto simp: map_add_def fun_eq_iff split: option.splits)

lemma insert_val_eq:
  "insert_val of_bytes d i = d\<lparr>vals := [keys d ! i \<mapsto> value_at of_bytes d i] ++ vals d\<rparr>"
  by (simp add: insert_val_def Let_def value_at_def map_add_single)

lemma insert_vals_fold:
  "vals d = Map.empty \<Longrightarrow> foldl (insert_val of_bytes) d [0..<n] =
   d\<lparr>vals := map_of (map (\<lambda>i. (keys d ! i, value_at of_bytes d i)) [0..<n])\<rparr>"
proof (induction n)
  case (Suc n)
  let ?m = "\<lambda>n. map_of (map (\<lambda>i. (keys d ! i, value_at of_bytes d i)) [0..<n])"
  have "foldl (insert_val of_bytes) d [0..<Suc n] = insert_val of_bytes (d\<lparr>vals := ?m n\<rparr>) n"
    using Suc by simp
  also have "\<dots> = d\<lparr>vals := [keys d ! n \<mapsto> value_at of_bytes d n] ++ ?m n\<rparr>"
    by (simp add: insert_val_eq value_at_def)
  also have "[keys d ! n \<mapsto> value_at of_bytes d n] ++ ?m n = ?m (Suc n)"
    by (simp only: upt_Suc_append map_append map_of_append list.map map_of.simps) simp
  finally show ?case .
qed simp

definition start_state ::
  "(u8 list \<Rightarrow> 'f) \<Rightarrow> 'f::ab_group_add oblivious_dictionary \<Rightarrow> 'f oblivious_dictionary" where
  "start_state of_bytes d = fillTables (init of_bytes d)"

lemma init_eq:
  "init of_bytes d = d\<lparr>vals := map_of (map (\<lambda>i. (keys d ! i, value_at of_bytes d i)) [0..<hashSize d]),
    peelingVector := [], peelingCounter := 0, first := uset_clear (first d),
    second := uset_clear (second d), variables := replicate (2 * tableRealSize d + gamma d) 0\<rparr>"
proof -
  let ?d = "d\<lparr>vals := Map.empty, peelingVector := [], peelingCounter := 0\<rparr>"
  have "foldl (insert_val of_bytes) ?d [0..<hashSize d] =
      ?d\<lparr>vals := map_of (map (\<lambda>i. (keys d ! i, value_at of_bytes d i)) [0..<hashSize d])\<rparr>"
    by (subst insert_vals_fold) (simp_all add: value_at_def)
  then show ?thesis by (simp add: init_def Let_def)
qed

lemma fillTables_fold:
  "foldl (\<lambda>d i. d\<lparr>first := uset_insert (keys d ! i) (first d),
      second := uset_insert (keys d ! i) (second d)\<rparr>) d is =
   d\<lparr>first := fold uset_insert (map ((!) (keys d)) is) (first d),
     second := fold uset_insert (map ((!) (keys d)) is) (second d)\<rparr>"
  by (induction "is" arbitrary: d) simp_all

lemma fillTables_eq:
  "length (keys d) = hashSize d \<Longrightarrow> fillTables d =
   d\<lparr>first := fold uset_insert (keys d) (first d), second := fold uset_insert (keys d) (second d)\<rparr>"
  using map_nth [of "keys d"] by (simp add: fillTables_def fillTables_fold)

text \<open>The states \<open>createDictionary\<close> starts from: the keys fit the tables.\<close>

definition prepared :: "'f oblivious_dictionary \<Rightarrow> bool" where
  "prepared d \<longleftrightarrow> distinct (keys d) \<and> length (keys d) = hashSize d \<and> small_buckets d \<and>
     hashSize d \<le> tableRealSize d \<and> length (sign d) = 2 * tableRealSize d"

lemma start_state_filled:
  fixes d :: "'f::ab_group_add oblivious_dictionary" and of_bytes :: "u8 list \<Rightarrow> 'f"
  assumes "prepared d"
  defines "e \<equiv> start_state of_bytes d"
  shows "filled e (set (keys d))" and "sized e" and "sign e = sign d" and "keys e = keys d"
    and "hashSize e = hashSize d" and "tableRealSize e = tableRealSize d"
    and "variables e = replicate (2 * tableRealSize d + gamma d) 0"
    and "i < hashSize d \<Longrightarrow> lookup0 (vals e) (keys d ! i) = value_at of_bytes d i"
    and "h1 e = h1 d" and "h2 e = h2 d" and "values e = values d"
    and "fieldSizeBytes e = fieldSizeBytes d" and "gamma e = gamma d" and "DH e = DH d"
proof -
  let ?f = "uset_clear (first d)" and ?s = "uset_clear (second d)"
  have len: "length (keys d) \<le> bucket_count ?f" "length (keys d) \<le> bucket_count ?s"
    using assms(1) by (simp_all add: prepared_def small_buckets_def uset_clear_def)
  have e: "e = d\<lparr>vals := map_of (map (\<lambda>i. (keys d ! i, value_at of_bytes d i)) [0..<hashSize d]),
      peelingVector := [], peelingCounter := 0, first := fold uset_insert (keys d) ?f,
      second := fold uset_insert (keys d) ?s, variables := replicate (2 * tableRealSize d + gamma d) 0\<rparr>"
    using assms(1) by (simp add: e_def start_state_def prepared_def init_eq fillTables_eq)
  note ins = uset_insert_all [OF _ len(1)] uset_insert_all [OF _ len(2)]
  have elems: "us_elems ?f = []" "us_elems ?s = []" by (simp_all add: uset_clear_def)
  note ins = ins(1) [OF elems(1)] ins(2) [OF elems(2)]
  have c: "bucket_count ?f = bucket_count (first d)" "bucket_count ?s = bucket_count (second d)"
    by (simp_all add: uset_clear_def)
  show "filled e (set (keys d))" "sized e"
    using assms(1) ins distinct_card [of "keys d"]
    by (simp_all add: filled_def sized_def prepared_def small_buckets_def e c)
  show "sign e = sign d" "keys e = keys d" "hashSize e = hashSize d"
    "tableRealSize e = tableRealSize d" "variables e = replicate (2 * tableRealSize d + gamma d) 0"
    "values e = values d" "fieldSizeBytes e = fieldSizeBytes d" "gamma e = gamma d"
    "DH e = DH d"
    by (simp_all add: e)
  have "us_hash ?f = us_hash (first d)" "us_hash ?s = us_hash (second d)"
    by (simp_all add: uset_clear_def)
  then show "h1 e = h1 d" "h2 e = h2 d"
    using ins by (simp_all add: e c uset_bucket_def fun_eq_iff)
  let ?ps = "map (\<lambda>i. (keys d ! i, value_at of_bytes d i)) [0..<hashSize d]"
  have "map fst ?ps = keys d"
    using assms(1) by (simp add: prepared_def comp_def) (metis map_nth)
  then have "distinct (map fst ?ps)" using assms(1) by (simp add: prepared_def)
  then have "map_of ?ps (keys d ! i) = Some (value_at of_bytes d i)" if "i < hashSize d"
    using that by (intro map_of_is_SomeI) auto
  then show "lookup0 (vals e) (keys d ! i) = value_at of_bytes d i" if "i < hashSize d"
    using that by (simp add: e lookup0_def del: map_of_map)
qed

subsection \<open>The 2-core\<close>

definition core :: "'f oblivious_dictionary \<Rightarrow> u64 set" where
  "core d = \<Union> {C. C \<subseteq> set (keys d) \<and> closed_keys (h1 d) (h2 d) C}"

lemma remaining_core:
  assumes "peel_inv d (set (keys d))" and "small_buckets d" and "clean d {..<tableRealSize d}"
  shows "remaining d = core d"
proof
  have "remaining d \<subseteq> set (keys d)" using assms(1) by (auto simp: peel_inv_def)
  with clean_closed [OF assms] show "remaining d \<subseteq> core d" by (auto simp: core_def)
  have "C \<subseteq> remaining d" if "C \<subseteq> set (keys d)" "closed_keys (h1 d) (h2 d) C" for C
  proof (rule peel_ok_core)
    show "peel_ok (h1 d) (h2 d) (peeled d) (remaining d)" using assms(1) by (simp add: peel_inv_def)
    show "C \<subseteq> set (peeled d) \<union> remaining d" using assms(1) that(1) by (simp add: peel_inv_def)
  qed (use that assms(1) in \<open>simp_all add: peel_inv_def\<close>)
  then show "core d \<subseteq> remaining d" by (auto simp: core_def)
qed

text \<open>The cells marked by an earlier run over the same keys are those of the 2-core.\<close>

definition sign_ok :: "'f oblivious_dictionary \<Rightarrow> bool" where
  "sign_ok d \<longleftrightarrow> (\<forall>j < 2 * tableRealSize d. sign d ! j \<noteq> 0 \<longrightarrow> j \<in> cells d (core d))"

lemma same_core:
  assumes "h1 d' = h1 d" and "h2 d' = h2 d" and "keys d' = keys d" and "tableRealSize d' = tableRealSize d"
  shows "core d' = core d" and "cells d' = cells d"
  by (simp_all add: core_def cells_def assms ext)

subsection \<open>Peeling the start state\<close>

lemma peel_start:
  fixes d :: "'f::ab_group_add oblivious_dictionary" and of_bytes :: "u8 list \<Rightarrow> 'f"
  assumes "prepared d"
  defines "e \<equiv> start_state of_bytes d"
  obtains d1 where "peeling e = Some d1" and "peel_inv d1 (set (keys d))" and "frame e d1"
    and "clean d1 {..<tableRealSize d1}" and "remaining d1 = core d1" and "sized d1"
proof -
  note st = start_state_filled [OF assms(1), where of_bytes = of_bytes, folded e_def]
  obtain d1 where d1: "peeling e = Some d1" "peel_inv d1 (set (keys d))" "frame e d1"
    "clean d1 {..<tableRealSize e}" using peeling_correct [OF st(1)] by auto
  have fr: "keys d1 = keys e" "tableRealSize d1 = tableRealSize e" "variables d1 = variables e"
    "sign d1 = sign e" "gamma d1 = gamma e"
    using d1(3) by (auto elim!: frameE)
  have sz: "sized d1"
    using st(2) frame_small [OF d1(3)] by (simp add: sized_def fr)
  have "remaining d1 = core d1"
    using d1 sz by (intro remaining_core) (simp_all add: fr st(4) sized_def)
  with d1 sz show thesis by (intro that [of d1]) (simp_all add: fr)
qed

definition no_zero_variable ::
  "(u8 list \<Rightarrow> 'f) \<Rightarrow> (bool list list \<Rightarrow> 'f list \<Rightarrow> nat \<Rightarrow> 'f list) \<Rightarrow> (nat \<Rightarrow> u8) \<Rightarrow>
   'f::ab_group_add oblivious_dictionary \<Rightarrow> bool" where
  "no_zero_variable of_bytes solve prg d =
     (case peeling (start_state of_bytes d) of None \<Rightarrow> True
      | Some d1 \<Rightarrow> unpeel_nonzero of_bytes prg (peelingCounter d1) (generateExternalToolValues solve d1))"

text \<open>Some assignment of the variables gives every key its value.\<close>

definition encodable :: "(u8 list \<Rightarrow> 'f) \<Rightarrow> 'f::ab_group_add oblivious_dictionary \<Rightarrow> bool" where
  "encodable of_bytes d \<longleftrightarrow> (\<exists>V. encodes (start_state of_bytes d) V (set (keys d)))"

lemma encodes_frame:
  assumes "frame e d1" and "encodes e V K" and "R \<subseteq> K"
  shows "encodes d1 V R"
proof -
  have "decode (d1\<lparr>variables := V\<rparr>) k = decode (e\<lparr>variables := V\<rparr>) k" "vals d1 = vals e" for k
    using assms(1) by (auto elim!: frameE simp: decode_eq getDHBits_def cong: if_cong)
  with assms(2,3) show ?thesis by (auto simp: encodes_def)
qed

lemma generate_fields:
  "peelingCounter (generateExternalToolValues solve d) = peelingCounter d"
  "peelingVector (generateExternalToolValues solve d) = peelingVector d"
  "first (generateExternalToolValues solve d) = first d"
  "second (generateExternalToolValues solve d) = second d"
  "vals (generateExternalToolValues solve d) = vals d"
  "keys (generateExternalToolValues solve d) = keys d"
  "values (generateExternalToolValues solve d) = values d"
  "hashSize (generateExternalToolValues solve d) = hashSize d"
  "tableRealSize (generateExternalToolValues solve d) = tableRealSize d"
  "gamma (generateExternalToolValues solve d) = gamma d"
  "fieldSizeBytes (generateExternalToolValues solve d) = fieldSizeBytes d"
  "DH (generateExternalToolValues solve d) = DH d"
  by (simp_all add: generateExternalToolValues_def Let_def)

text \<open>The fields a run of \<open>createDictionary\<close> does not change.\<close>

definition same_setup :: "'f oblivious_dictionary \<Rightarrow> 'f oblivious_dictionary \<Rightarrow> bool" where
  "same_setup d d' \<longleftrightarrow> keys d' = keys d \<and> values d' = values d \<and>
     fieldSizeBytes d' = fieldSizeBytes d \<and> hashSize d' = hashSize d \<and> h1 d' = h1 d \<and> h2 d' = h2 d \<and>
     tableRealSize d' = tableRealSize d \<and> gamma d' = gamma d \<and> DH d' = DH d"

lemma createDictionary_main:
  fixes d :: "'f::ab_group_add oblivious_dictionary" and of_bytes :: "u8 list \<Rightarrow> 'f"
  assumes pre: "prepared d" and sg: "sign_ok d" and two: "\<forall>x::'f. x + x = 0"
    and slv: "solver_ok solve" and enc: "encodable of_bytes d"
    and nz: "no_zero_variable of_bytes solve prg d"
  shows "\<exists>d'. createDictionary of_bytes solve prg d = Some d' \<and> prepared d' \<and> sign_ok d' \<and> sized d' \<and>
    same_setup d d' \<and>
    (\<forall>i<hashSize d. lookup0 (vals d') (keys d ! i) = value_at of_bytes d i \<and>
       decode d' (keys d ! i) = value_at of_bytes d i)"
proof -
  define e where "e = start_state of_bytes d"
  note st = start_state_filled [OF pre, where of_bytes = of_bytes, folded e_def]
  obtain d1 where d1: "peeling e = Some d1" "peel_inv d1 (set (keys d))" "frame e d1"
    "clean d1 {..<tableRealSize d1}" "remaining d1 = core d1" "sized d1"
    using peel_start [OF pre, where of_bytes = of_bytes, folded e_def] by metis
  have fe: "keys d1 = keys e" "variables d1 = variables e" "sign d1 = sign e" "hashSize d1 = hashSize e"
    "vals d1 = vals e" "values d1 = values e" "fieldSizeBytes d1 = fieldSizeBytes e"
    "gamma d1 = gamma e" "DH d1 = DH e"
    using d1(3) by (auto elim!: frameE)
  note f1 = fe [unfolded st(3,4,5,11,12,13,14)] frame_h [OF d1(3), unfolded st(9,10)]
    frame_size [OF d1(3), unfolded st(6)]
  have cd: "core d1 = core d" "cells d1 = cells d" by (rule same_core; simp add: f1)+
  define d2 where "d2 = generateExternalToolValues solve d1"
  have fresh: "\<forall>j < 2 * tableRealSize d1. j \<notin> cells d1 (remaining d1) \<longrightarrow> fresh d1 j"
    using sg by (auto simp: fresh_def f1 st(7) d1(5) cd sign_ok_def)
  have sub: "remaining d1 \<subseteq> set (keys d)" using d1(2) by (auto simp: peel_inv_def)
  obtain V where V: "encodes d1 V (remaining d1)"
    using enc encodes_frame [OF d1(3) _ sub] by (auto simp: encodable_def e_def)
  have K: "card (set (keys d)) = hashSize d1"
    using pre by (simp add: prepared_def f1 distinct_card)
  note gen = generate_correct [OF d1(2,4) K d1(6) slv V fresh, folded d2_def]
  note g = generate_fields [of solve d1, folded d2_def]
  have c2: "cells d2 = cells d1" by (rule same_core; simp add: g)
  have inv2: "unpeel_inv d2 (remaining d1)"
    using gen by (simp add: unpeel_inv_def g c2)
  let ?ps = "peeled d1"
  have lp: "length ?ps = peelingCounter d1"
    using d1(2) by (simp add: peel_inv_def peeled_def)
  have "unpeel_inv (unpeel_loop of_bytes prg (peelingCounter d1) d2) (set ?ps \<union> remaining d1) \<and>
      uframe d2 (unpeel_loop of_bytes prg (peelingCounter d1) d2)"
  proof (rule unpeel_loop_correct [OF two])
    show "unpeel_inv d2 (set (drop (peelingCounter d1) ?ps) \<union> remaining d1)" using inv2 lp by simp
    show "peel_ok (h1 d2) (h2 d2) ?ps (remaining d1)" using d1(2) by (simp add: g peel_inv_def)
    show "\<forall>i<length ?ps. peelingVector d2 ! i = ?ps ! i" by (simp add: g peeled_def)
    show "unpeel_nonzero of_bytes prg (peelingCounter d1) d2"
      using nz d1(1) by (simp add: no_zero_variable_def d2_def e_def)
  qed (simp add: lp)
  moreover have "set ?ps \<union> remaining d1 = set (keys d)" using d1(2) by (simp add: peel_inv_def)
  moreover define d' where "d' = unpeel_loop of_bytes prg (peelingCounter d1) d2"
  ultimately have d': "unpeel_inv d' (set (keys d))" "uframe d2 d'" by simp_all
  note u = uframe_fields [OF d'(2)]
  have run: "createDictionary of_bytes solve prg d = Some d'"
    using d1(1) by (simp add: createDictionary_def Let_def d'_def d2_def e_def start_state_def unpeeling_def generate_fields(1))
  note all = u g f1
  have core': "core d' = core d" "cells d' = cells d" by (rule same_core; simp add: all)+
  have "sized d'" using d'(1) by (simp add: unpeel_inv_def)
  then have "prepared d'" using pre by (simp add: prepared_def sized_def all)
  moreover note \<open>sized d'\<close>
  moreover have "sign_ok d'"
    using gen(3) by (auto simp: sign_ok_def all core' fresh_def d1(5) cd c2)
  moreover have "\<forall>i<hashSize d. decode d' (keys d ! i) = value_at of_bytes d i"
    using d'(1) pre st(8) by (auto simp: unpeel_inv_def prepared_def all)
  ultimately show ?thesis using run st(8) by (simp add: same_setup_def all)
qed

subsection \<open>A dictionary as \<open>ProtocolParty\<close> makes it\<close>

definition new_dictionary ::
  "(nat \<Rightarrow> nat) \<Rightarrow> u64 list \<Rightarrow> u8 list \<Rightarrow> nat \<Rightarrow> nat \<Rightarrow> 'f::ab_group_add oblivious_dictionary" where
  "new_dictionary policy ks vs fsize g =
     setKeysAndVals ks vs (ObliviousDictionary policy (length ks) fsize g)"

text \<open>What is relied on of the bucket counts of the standard library.\<close>

definition policy_ok :: "(nat \<Rightarrow> nat) \<Rightarrow> bool" where
  "policy_ok policy \<longleftrightarrow> (\<forall>n. n \<le> policy n \<and> 0 < policy n)"

lemma new_dictionary_fields [simp]:
  "keys (new_dictionary policy ks vs fsize g) = ks"
  "values (new_dictionary policy ks vs fsize g) = vs"
  "hashSize (new_dictionary policy ks vs fsize g) = length ks"
  "fieldSizeBytes (new_dictionary policy ks vs fsize g) = bytes_of_bits fsize"
  "tableRealSize (new_dictionary policy ks vs fsize g) = policy (scaled_size (length ks))"
  "sign (new_dictionary policy ks vs fsize g) = replicate (2 * policy (scaled_size (length ks))) 0"
  by (simp_all add: new_dictionary_def setKeysAndVals_def ObliviousDictionary_def createSets_def Let_def)

lemma new_dictionary_prepared:
  assumes "distinct ks" and "policy_ok policy"
  shows "prepared (new_dictionary policy ks vs fsize g)" and "sign_ok (new_dictionary policy ks vs fsize g)"
proof -
  have "length ks \<le> scaled_size (length ks)" by (simp add: scaled_size_def)
  also have "scaled_size (length ks) \<le> policy (scaled_size (length ks))"
    using assms(2) by (simp add: policy_ok_def)
  finally have "length ks \<le> policy (scaled_size (length ks))" .
  moreover have "small_buckets (new_dictionary policy ks vs fsize g)"
    using assms(2)
    by (simp add: small_buckets_def policy_ok_def)
      (simp add: new_dictionary_def setKeysAndVals_def ObliviousDictionary_def createSets_def Let_def)
  ultimately show "prepared (new_dictionary policy ks vs fsize g)"
    using assms(1) by (simp add: prepared_def)
  show "sign_ok (new_dictionary policy ks vs fsize g)" by (simp add: sign_ok_def)
qed

definition chunk :: "u8 list \<Rightarrow> nat \<Rightarrow> nat \<Rightarrow> u8 list" where
  "chunk vs n i = take n (drop (i * n) vs)"

lemma value_at_chunk: "value_at of_bytes d i = of_bytes (chunk (values d) (fieldSizeBytes d) i)"
  by (simp add: value_at_def chunk_def)

lemma checkOutput_all:
  assumes "\<forall>i<hashSize d. decode d (keys d ! i) = lookup0 (vals d) (keys d ! i)"
  shows "checkOutput d = replicate (hashSize d) True"
  using assms by (intro nth_equalityI) (simp_all add: checkOutput_def)

lemma encodable_again:
  fixes d :: "'f::ab_group_add oblivious_dictionary"
  assumes pre: "prepared d" "prepared d'" and "encodable of_bytes d"
    and same: "same_setup d d'"
  shows "encodable of_bytes d'"
proof -
  note eq = same [unfolded same_setup_def]
  note s = start_state_filled [OF pre(1), where of_bytes = of_bytes]
  note s' = start_state_filled [OF pre(2), where of_bytes = of_bytes]
  obtain V where V: "encodes (start_state of_bytes d) V (set (keys d))"
    using assms(3) by (auto simp: encodable_def)
  have "encodes (start_state of_bytes d') V (set (keys d'))"
    unfolding encodes_def
  proof
    fix k assume "k \<in> set (keys d')"
    then obtain i where i: "i < hashSize d" "k = keys d ! i"
      using pre(1) eq(1) by (metis in_set_conv_nth prepared_def)
    then have "k \<in> set (keys d)" using pre(1) by (simp add: prepared_def)
    with V have v: "decode ((start_state of_bytes d)\<lparr>variables := V\<rparr>) k = value_at of_bytes d i"
      using s(8) i by (simp add: encodes_def)
    have "value_at of_bytes d' i = value_at of_bytes d i" by (simp add: value_at_def eq)
    moreover have "lookup0 (vals (start_state of_bytes d')) k = value_at of_bytes d' i"
      using s'(8) i eq by simp
    moreover have "getDHBits (start_state of_bytes d') k = getDHBits (start_state of_bytes d) k"
      by (simp add: getDHBits_def s s' eq)
    ultimately show "decode ((start_state of_bytes d')\<lparr>variables := V\<rparr>) k =
        lookup0 (vals (start_state of_bytes d')) k"
      using v by (simp add: decode_eq s s' eq cong: if_cong)
  qed
  then show ?thesis by (auto simp: encodable_def)
qed

end
