(* ===== verification/Protocol_Party.thy ===== *)
theory Protocol_Party
  imports Ot_Properties Create_Dictionary
begin

text \<open>
  The two parties (\<^verbatim>\<open>frontend/ProtocolParty.cpp\<close>, \<^verbatim>\<open>.h\<close>): the classes \<^verbatim>\<open>ProtocolParty\<close>,
  \<^verbatim>\<open>Receiver\<close> and \<^verbatim>\<open>Sender\<close>, without the reading of the command line, the set-up of the connections
  and the timing. The members of \<^verbatim>\<open>ProtocolParty\<close> carry the prefix \<open>pp_\<close>.

  Of the libraries that are not part of the repository, the byte stream \<open>prg\<close> of the OpenSSL generator
  with a zero key and the encryption \<open>evp\<close> (\<^verbatim>\<open>EVP_aes_128_ecb\<close>, from a key and a plaintext) are arguments;
  so are \<open>policy\<close>, \<open>of_bytes\<close>, \<open>to_bytes\<close> and \<open>solve\<close>, as for the dictionary.
\<close>

subsection \<open>The parties\<close>

record 'f protocol_party =
  pp_numOTs :: nat
  pp_tableRealSize :: nat
  pp_hashSize :: nat
  pp_fieldSize :: nat
  pp_fieldSizeBytes :: nat
  pp_gamma :: nat
  pp_isMalicious :: bool
  pp_keys :: "u64 list"
  pp_vals :: "u8 list"
  pp_dic :: "'f oblivious_dictionary"
  pp_code :: linear_code
  pp_fixedKey :: "u8 list"

record 'f receiver_party = "'f protocol_party" +
  recv :: prty_receiver
  xorsSet :: "u64 set"

record 'f sender_party = "'f protocol_party" +
  sender :: prty_sender
  baseChoice :: bit_vector
  xors :: "u64 list"

text \<open>The last byte of every value is shifted by \<^verbatim>\<open>zeroBits\<close>.\<close>

definition mask_vals :: "nat \<Rightarrow> nat \<Rightarrow> nat \<Rightarrow> u8 list \<Rightarrow> u8 list" where
  "mask_vals zeroBits fsb n vs =
     foldl (\<lambda>vs i. vs[(i + 1) * fsb - 1 := drop_bit zeroBits (vs ! ((i + 1) * fsb - 1))]) vs [0..<n]"

definition ProtocolParty :: "(nat \<Rightarrow> nat) \<Rightarrow> (nat \<Rightarrow> u8) \<Rightarrow> nat \<Rightarrow> nat \<Rightarrow> bool \<Rightarrow> 'f::ab_group_add protocol_party res" where
  "ProtocolParty policy prg hsize fsize malicious =
     (let fsb = bytes_of_bits fsize;
          zeroBits = 8 - fsize mod 8;
          dic = ObliviousDictionary policy hsize fsize 60;
          hsize = hashSize dic;
          vs = map prg [0..<hsize * fsb];
          vs = mask_vals zeroBits fsb hsize vs;
          fixedKey = map (\<lambda>j. prg (hsize * fsb + j)) [0..<128]
      in res_bind (case code_table fsize of None \<Rightarrow> Inr empty_code | Some t \<Rightarrow> load t empty_code) (\<lambda>code.
         Inr \<lparr>pp_numOTs = tableRealSize dic * 2 + 60, pp_tableRealSize = tableRealSize dic, pp_hashSize = hsize,
           pp_fieldSize = fsize, pp_fieldSizeBytes = fsb, pp_gamma = 60, pp_isMalicious = malicious,
           pp_keys = map of_nat [0..<hsize], pp_vals = vs, pp_dic = dic, pp_code = code, pp_fixedKey = fixedKey\<rparr>))"

text \<open>The members of the OT extension that its constructor does not set are arguments here too.\<close>

definition Receiver :: "prty_receiver \<Rightarrow> 'f protocol_party \<Rightarrow> 'f receiver_party" where
  "Receiver r p = protocol_party.extend (p\<lparr>pp_dic := setKeysAndVals (pp_keys p) (pp_vals p) (pp_dic p)\<rparr>)
     (receiver_party.fields r {})"

definition Sender :: "prty_sender \<Rightarrow> 'f protocol_party \<Rightarrow> 'f sender_party" where
  "Sender s p = protocol_party.extend p (sender_party.fields s empty_bits (replicate (pp_hashSize p) 0))"

subsection \<open>The receiver\<close>

definition recv_createDictionary :: "(u8 list \<Rightarrow> 'f) \<Rightarrow> (bool list list \<Rightarrow> 'f list \<Rightarrow> nat \<Rightarrow> 'f list) \<Rightarrow> (nat \<Rightarrow> u8) \<Rightarrow>
    'f::ab_group_add receiver_party \<Rightarrow> 'f receiver_party option" where
  "recv_createDictionary of_bytes solve prg p =
     map_option (\<lambda>d. p\<lparr>pp_dic := d\<rparr>) (createDictionary of_bytes solve prg (pp_dic p))"

text \<open>
  \<^verbatim>\<open>runOOS\<close> up to its loop, with the code that it loads and does not use, and the bytes that the loop
  takes its choices from.
\<close>

definition recv_runOOS :: "'f receiver_party \<Rightarrow> 'f receiver_party res option" where
  "recv_runOOS p =
     call_bind (Some (case code_table (pp_fieldSize p) of None \<Rightarrow> Inr empty_code | Some t \<Rightarrow> load t empty_code)) (\<lambda>code.
     call_bind (recv_setup (pp_isMalicious p) (pp_fieldSize p) (pp_numOTs p) (recv p)) (\<lambda>r. Some (Inr (p\<lparr>recv := r\<rparr>))))"

definition recv_sigma :: "(nat \<Rightarrow> 'f \<Rightarrow> u8 list) \<Rightarrow> 'f receiver_party \<Rightarrow> u8 list" where
  "recv_sigma to_bytes p = getVariables to_bytes (pp_dic p)"

text \<open>The sum of the rows of a key.\<close>

definition row_xors :: "matrix \<Rightarrow> nat \<Rightarrow> nat \<Rightarrow> nat list \<Rightarrow> block list" where
  "row_xors M table blockSize indices =
     (let row = (\<lambda>r j. mStore M ! (r * mStride M + j));
          output = map (\<lambda>j. row (indices ! 0) j XOR row (table + indices ! 1) j) [0..<blockSize]
      in foldl (\<lambda>output k. map (\<lambda>j. output ! j XOR row (2 * table + indices ! k) j) [0..<blockSize])
           output [2..<length indices])"

text \<open>The first eight bytes of the encryption.\<close>

definition xor_value :: "(u8 list \<Rightarrow> u8 list \<Rightarrow> u8 list) \<Rightarrow> u8 list \<Rightarrow> block list \<Rightarrow> u64" where
  "xor_value evp key output = bytes_le (take 8 (evp key (blocks_bytes output)))"

definition recv_computeXors :: "(u8 list \<Rightarrow> u8 list \<Rightarrow> u8 list) \<Rightarrow> 'f receiver_party \<Rightarrow> 'f receiver_party res" where
  "recv_computeXors evp p =
     res_bind (getBaseOTCount_r (recv p)) (\<lambda>baseCount.
       let blockSize = baseCount div 128
       in Inr (foldl (\<lambda>p i.
            let indices = dec (pp_dic p) (pp_keys p ! i);
                output = row_xors (mT0 (recv p)) (pp_tableRealSize p) blockSize indices
            in p\<lparr>xorsSet := insert (xor_value evp (pp_fixedKey p) output) (xorsSet p)\<rparr>) p [0..<pp_hashSize p]))"

text \<open>
  The bytes that arrive are read as a count and as many 64-bit values; the code then looks at the
  first \<open>hashSize\<close> of them, whatever the count (\<open>None\<close> when that is outside the vector).
\<close>

definition read_words :: "nat \<Rightarrow> u8 list \<Rightarrow> u64 list" where
  "read_words n bs = map (\<lambda>i. bytes_le (take 8 (drop (8 * i) bs))) [0..<n]"

definition receiveSenderXors :: "u8 list \<Rightarrow> 'f receiver_party \<Rightarrow> nat option" where
  "receiveSenderXors bs p =
     (let size = unat (bytes_le (take 8 bs) :: u64);
          senderOutputs = read_words size (drop 8 bs)
      in if pp_hashSize p \<le> size
         then Some (foldl (\<lambda>count i. if senderOutputs ! i \<in> xorsSet p then count + 1 else count) 0 [0..<pp_hashSize p])
         else None)"

text \<open>
  \<open>checkVariables\<close> compares the sum of the choices of each key with its value; it only prints, and the
  model keeps whether it prints that there was no error.
\<close>

definition check_key :: "u8 list \<Rightarrow> 'f receiver_party \<Rightarrow> nat \<Rightarrow> bool" where
  "check_key vars p i =
     (let n = pp_fieldSizeBytes p;
          indices = dec (pp_dic p) (pp_keys p ! i);
          check = map (\<lambda>j. vars ! (indices ! 0 * n + j) XOR vars ! (pp_tableRealSize p * n + indices ! 1 * n + j)) [0..<n];
          check = foldl (\<lambda>check k. map (\<lambda>j. check ! j XOR vars ! (2 * pp_tableRealSize p * n + indices ! k * n + j)) [0..<n])
            check [2..<length indices]
      in list_all (\<lambda>j. check ! j = pp_vals p ! (i * n + j)) [0..<n])"

definition checkVariables :: "u8 list \<Rightarrow> 'f receiver_party \<Rightarrow> (bool \<times> 'f receiver_party) res" where
  "checkVariables vars p =
     res_bind (configure_r (pp_isMalicious p) 40 (pp_fieldSize p) (recv p)) (\<lambda>r.
     res_bind (getBaseOTCount_r r) (\<lambda>baseCount.
       Inr (list_all (check_key vars p) [0..<pp_hashSize p], p\<lparr>recv := r\<rparr>)))"

subsection \<open>The sender\<close>

definition send_runOOS :: "'f sender_party \<Rightarrow> 'f sender_party res option" where
  "send_runOOS p = call_bind (send_setup (pp_isMalicious p) (pp_fieldSize p) (pp_numOTs p) (baseChoice p) (sender p))
     (\<lambda>(v, s). Some (Inr (p\<lparr>baseChoice := v, sender := s\<rparr>)))"

text \<open>The codeword of a value; the encoder reads and writes the same ten blocks.\<close>

definition value_codeword :: "linear_code \<Rightarrow> u8 list \<Rightarrow> u8 list \<Rightarrow> nat \<Rightarrow> block list" where
  "value_codeword code junk val n =
     (let codeword = memcpy (blocks_bytes (replicate 10 0)) val n
      in bytes_blocks 10 (encode code junk codeword codeword))"

definition send_output :: "u8 list \<Rightarrow> nat \<Rightarrow> 'f sender_party \<Rightarrow> nat \<Rightarrow> block list" where
  "send_output junk blockSize p i =
     (let indices = dec (pp_dic p) (pp_keys p ! i);
          output = row_xors (mT (sender p)) (pp_tableRealSize p) blockSize indices;
          codeword = value_codeword (pp_code p) junk (drop (i * pp_fieldSizeBytes p) (pp_vals p)) (pp_fieldSizeBytes p);
          codeword = map (\<lambda>j. codeword ! j AND bytes_block (take 16 (drop (16 * j) (mData (baseChoice p))))) [0..<blockSize]
      in map (\<lambda>j. output ! j XOR codeword ! j) [0..<blockSize])"

definition send_computeXors :: "(u8 list \<Rightarrow> u8 list \<Rightarrow> u8 list) \<Rightarrow> u8 list \<Rightarrow> 'f sender_party \<Rightarrow> 'f sender_party res" where
  "send_computeXors evp junk p =
     res_bind (getBaseOTCount_s (sender p)) (\<lambda>baseCount.
       let blockSize = baseCount div 128;
           p = p\<lparr>xors := vec_resize (pp_hashSize p) 0 (xors p)\<rparr>
       in Inr (foldl (\<lambda>p i.
            p\<lparr>xors := (xors p)[i := xor_value evp (pp_fixedKey p) (send_output junk blockSize p i)]\<rparr>) p [0..<pp_hashSize p]))"

definition sendXors :: "'f sender_party \<Rightarrow> u8 list" where
  "sendXors p = word_bytes 8 (of_nat (length (xors p)) :: u64) @ concat (map (word_bytes 8) (xors p))"

subsection \<open>Sums of rows\<close>

text \<open>The rows of a key.\<close>

definition key_rows :: "nat \<Rightarrow> nat list \<Rightarrow> nat list" where
  "key_rows table indices = indices ! 0 # (table + indices ! 1) # map (\<lambda>k. 2 * table + k) (drop 2 indices)"

lemma foldl_map_xor:
  assumes "length out = b" and "j < b"
  shows "foldl (\<lambda>out k. map (\<lambda>j. out ! j XOR f k j) [0..<b]) out ks ! j = out ! j XOR xsum (\<lambda>k. f k j) ks"
  using assms by (induction ks arbitrary: out) (simp_all add: xor.assoc)

lemma length_foldl_map: "length out = b \<Longrightarrow> length (foldl (\<lambda>out k. map (f out k) [0..<b]) out ks) = b"
  by (induction ks arbitrary: out) simp_all

lemma map_nth_drop: "map (\<lambda>k. g (xs ! k)) [m..<length xs] = map g (drop m xs)"
  by (rule nth_equalityI) simp_all

lemma row_xors_result:
  shows "length (row_xors M table b indices) = b"
    and "j < b \<Longrightarrow> row_xors M table b indices ! j = xsum (\<lambda>k. cell M k j) (key_rows table indices)"
proof -
  define row where "row = (\<lambda>r j. mStore M ! (r * mStride M + j))"
  have r: "row_xors M table b indices = foldl (\<lambda>output k. map (\<lambda>j. output ! j XOR row (2 * table + indices ! k) j) [0..<b])
      (map (\<lambda>j. row (indices ! 0) j XOR row (table + indices ! 1) j) [0..<b]) [2..<length indices]"
    by (simp add: row_xors_def Let_def row_def)
  show "length (row_xors M table b indices) = b"
    by (simp add: r length_foldl_map)
  assume "j < b"
  then have "row_xors M table b indices ! j = row (indices ! 0) j XOR row (table + indices ! 1) j XOR
      xsum (\<lambda>k. row (2 * table + indices ! k) j) [2..<length indices]"
    by (simp add: r foldl_map_xor xor.assoc)
  also have "xsum (\<lambda>k. row (2 * table + indices ! k) j) [2..<length indices] =
      xsum (\<lambda>r. row r j) (map (\<lambda>k. 2 * table + indices ! k) [2..<length indices])"
    by (simp add: o_def)
  also have "map (\<lambda>k. 2 * table + indices ! k) [2..<length indices] = map (\<lambda>k. 2 * table + k) (drop 2 indices)"
    by (rule map_nth_drop)
  finally show "row_xors M table b indices ! j = xsum (\<lambda>k. cell M k j) (key_rows table indices)"
    by (simp add: key_rows_def cell_def row_def mult.commute xor.assoc o_def)
qed

subsection \<open>Values and field elements\<close>

text \<open>
  What is relied on of the conversions of the field library, for elements of \<open>fsize\<close> bits: a fixed
  number of bytes, addition is the exclusive or of the bytes, and bytes without bits from \<open>fsize\<close> on
  come back as they were.
\<close>

definition field_bytes_ok :: "nat \<Rightarrow> (u8 list \<Rightarrow> 'f::ab_group_add) \<Rightarrow> (nat \<Rightarrow> 'f \<Rightarrow> u8 list) \<Rightarrow> bool" where
  "field_bytes_ok fsize of_bytes to_bytes \<longleftrightarrow> (let n = bytes_of_bits fsize in
     (\<forall>x. length (to_bytes n x) = n) \<and> (\<forall>x y. to_bytes n (x + y) = map2 (XOR) (to_bytes n x) (to_bytes n y)) \<and>
     (\<forall>bs. length bs = n \<and> (\<forall>i. fsize \<le> i \<and> i < 8 * n \<longrightarrow> \<not> bit_at bs i) \<longrightarrow> to_bytes n (of_bytes bs) = bs))"

lemma bytes_of_bits_eq: "bytes_of_bits n = (n + 7) div 8"
proof (cases "n mod 8 = 0")
  case False
  then have "(n mod 8 + 7) div 8 = 1" by (intro div_nat_eqI) (simp_all add: Suc_leI less_imp_le)
  then show ?thesis using False by (simp add: bytes_of_bits_def div_add1_eq [of n 7])
qed (simp add: bytes_of_bits_def div_add1_eq [of n 7])

lemma last_index [simp]: "0 < b \<Longrightarrow> (m * b + b - Suc 0) mod b = b - Suc 0"
proof -
  assume b: "0 < b"
  then have "m * b + b - Suc 0 = (b - Suc 0) + m * b" by simp
  then show ?thesis using b by (simp only: mod_mult_self1) simp
qed

lemma mask_vals_nth:
  assumes "0 < fsb" and "n * fsb \<le> length vs" and "p < length vs"
  shows "length (mask_vals zb fsb n vs) = length vs"
    and "mask_vals zb fsb n vs ! p = (if p < n * fsb \<and> p mod fsb = fsb - 1 then drop_bit zb (vs ! p) else vs ! p)"
proof -
  let ?f = "\<lambda>vs i. vs[(i + 1) * fsb - 1 := drop_bit zb (vs ! ((i + 1) * fsb - 1))]"
  have "length (foldl ?f vs [0..<m]) = length vs \<and> (\<forall>p < length vs. foldl ?f vs [0..<m] ! p =
      (if p < m * fsb \<and> p mod fsb = fsb - 1 then drop_bit zb (vs ! p) else vs ! p))" if "m * fsb \<le> length vs" for m
    using that
  proof (induction m)
    case (Suc m)
    then have IH: "length (foldl ?f vs [0..<m]) = length vs"
      "\<And>p. p < length vs \<Longrightarrow> foldl ?f vs [0..<m] ! p =
        (if p < m * fsb \<and> p mod fsb = fsb - 1 then drop_bit zb (vs ! p) else vs ! p)" by simp_all
    have at: "(m + 1) * fsb - 1 = m * fsb + (fsb - 1)" using assms(1) by (simp add: algebra_simps)
    have last: "(m * fsb + (fsb - 1)) mod fsb = fsb - 1" using assms(1) by simp
    have room: "m * fsb + (fsb - 1) < length vs" using assms(1) Suc.prems by simp
    have iff: "p < Suc m * fsb \<and> p mod fsb = fsb - 1 \<longleftrightarrow> p = m * fsb + (fsb - 1) \<or> p < m * fsb \<and> p mod fsb = fsb - 1" for p
    proof (cases "p < m * fsb")
      case True
      then show ?thesis using assms(1) by auto
    next
      case False
      then obtain q where q: "p = m * fsb + q" using le_Suc_ex not_less by blast
      then show ?thesis using assms(1) last by (auto simp: mod_less)
    qed
    show ?case
      using IH last room unfolding upt_Suc_append [OF le0] foldl_append foldl.simps at iff
      by (auto simp: nth_list_update)
  qed simp
  from this [OF assms(2)] assms(3) show "length (mask_vals zb fsb n vs) = length vs"
    "mask_vals zb fsb n vs ! p = (if p < n * fsb \<and> p mod fsb = fsb - 1 then drop_bit zb (vs ! p) else vs ! p)"
    by (simp_all add: mask_vals_def)
qed

lemma masked_chunk:
  assumes "length vs = n * bytes_of_bits fsize" and "i < n" and "0 < fsize"
  defines "bs \<equiv> chunk (mask_vals (8 - fsize mod 8) (bytes_of_bits fsize) n vs) (bytes_of_bits fsize) i"
  shows "length bs = bytes_of_bits fsize" and "fsize \<le> j \<Longrightarrow> j < 8 * bytes_of_bits fsize \<Longrightarrow> \<not> bit_at bs j"
proof -
  let ?b = "bytes_of_bits fsize"
  have b: "0 < ?b" using assms(3) by (simp add: bytes_of_bits_eq)
  have room: "i * ?b + ?b \<le> length vs" using assms(1,2) mult_le_mono1 [of "Suc i" n ?b] by simp
  have len: "length (mask_vals (8 - fsize mod 8) ?b n vs) = length vs"
    using mask_vals_nth(1) [OF b, of n vs 0] assms(1,2) room b by simp
  then show l: "length bs = ?b" using room by (simp add: bs_def chunk_def)
  assume j: "fsize \<le> j" "j < 8 * ?b"
  have f: "fsize mod 8 \<noteq> 0" "j div 8 = ?b - 1" "fsize mod 8 \<le> j mod 8"
  proof -
    show "fsize mod 8 \<noteq> 0" using j unfolding bytes_of_bits_def by (auto split: if_splits)
    then have "?b = fsize div 8 + 1" by (simp add: bytes_of_bits_def)
    then show d: "j div 8 = ?b - 1" using j div_le_mono [OF j(1), of 8] by (simp add: less_mult_imp_div_less Suc_leI le_antisym)
    have "fsize = 8 * (?b - 1) + fsize mod 8" using \<open>?b = fsize div 8 + 1\<close> by simp
    moreover have "j = 8 * (?b - 1) + j mod 8" using d by (metis mult_div_mod_eq)
    ultimately show "fsize mod 8 \<le> j mod 8" using j(1) by linarith
  qed
  have at: "bs ! (j div 8) = mask_vals (8 - fsize mod 8) ?b n vs ! (i * ?b + (?b - 1))"
    using b room len by (simp add: f(2) bs_def chunk_def)
  have pos: "i * ?b + (?b - 1) < n * ?b" using room b assms(1) by simp
  have "bs ! (j div 8) = drop_bit (8 - fsize mod 8) (vs ! (i * ?b + (?b - 1)))"
    unfolding at using mask_vals_nth(2) [OF b, of n vs "i * ?b + (?b - 1)"] assms(1) pos b by simp
  moreover have "\<not> bit (vs ! (i * ?b + (?b - 1))) (j mod 8 + (8 - fsize mod 8))"
    using f(3) by (intro notI) (drule bit_imp_le_length, simp)
  ultimately show "\<not> bit_at bs j"
    by (simp add: bit_at_def bit_drop_bit_eq add.commute)
qed

end
