(* ===== verification/Dictionary_Properties.thy ===== *)
theory Dictionary_Properties
  imports Create_Dictionary
begin

text \<open>
  The properties of the oblivious dictionary, each with an input it applies to. The inputs use
  the field with two elements, a solver that searches all vectors, and tables of three buckets,
  in which the keys 7 and 14 have the same two buckets (so they are left by peeling and go
  through the linear system, where their hash bits differ) and the key 5 shares one of them.
\<close>

subsection \<open>Inputs\<close>

definition all_vectors :: "nat \<Rightarrow> 1 word list list" where
  "all_vectors n = List.n_lists n [0, 1]"

definition search_solver :: "bool list list \<Rightarrow> 1 word list \<Rightarrow> nat \<Rightarrow> 1 word list" where
  "search_solver A B cols =
     (case find (solves A B) (all_vectors cols) of Some X \<Rightarrow> X | None \<Rightarrow> replicate cols 0)"

lemma one_bit_cases: "(x :: 1 word) = 0 \<or> x = 1"
proof -
  have "uint x < 2" using uint_lt2p [of x] by simp
  then have "uint x = 0 \<or> uint x = 1" using uint_ge_0 [of x] by linarith
  then show ?thesis by (metis uint_0_iff word_uint_eq_iff uint_1)
qed

lemma one_bit_twice: "\<forall>x :: 1 word. x + x = 0"
proof
  fix x :: "1 word"
  show "x + x = 0" using one_bit_cases [of x] by auto
qed

lemma all_vectors_complete: "X \<in> set (all_vectors n) \<longleftrightarrow> length X = n"
  using one_bit_cases by (auto simp: all_vectors_def set_n_lists)

lemma search_solver_ok: "solver_ok search_solver"
  unfolding solver_ok_def
proof (intro allI impI)
  fix A :: "bool list list" and B :: "1 word list" and cols
  assume "\<exists>X. length X = cols \<and> solves A B X"
  then obtain X where X: "X \<in> set (all_vectors cols)" "solves A B X"
    by (auto simp: all_vectors_complete)
  show "length (search_solver A B cols) = cols \<and> solves A B (search_solver A B cols)"
  proof (cases "find (solves A B) (all_vectors cols)")
    case None
    with X show ?thesis by (auto simp: find_None_iff)
  next
    case (Some Y)
    then have "Y \<in> set (all_vectors cols) \<and> solves A B Y" by (auto simp: find_Some_iff)
    with Some show ?thesis by (simp add: search_solver_def all_vectors_complete)
  qed
qed

definition bit_value :: "u8 list \<Rightarrow> 1 word" where
  "bit_value bs = (if bs \<noteq> [] \<and> bit (hd bs) 0 then 1 else 0)"

text \<open>The hash values of these keys, so that the inputs evaluate quickly.\<close>

lemmas hash_eval = Hasher_call_eq PROCESS8_64_def XXH64_avalanche_def XXH64_round_def
  word_bytes_def Let_def XXH_rotl64_def XXH_readLE64_def bytes_le_def
  PRIME64_1_def PRIME64_2_def PRIME64_3_def PRIME64_4_def PRIME64_5_def upt_rec [of _ "numeral n" for n]

definition hash_cache :: "((u64 \<times> u64) \<times> u64) list" where
  "hash_cache =
     [((1, 5), 0x7a8404aa7c6c4db), ((1, 7), 0x64fae65ddbfac0c8), ((1, 14), 0x8adaa775171676ec),
      ((2, 5), 0x2214188dba96e83c), ((2, 7), 0xeff81508d70d8ca5), ((2, 14), 0x67e10b75ce1ddbbe),
      ((3, 5), 0x693b1d6c4e6f721c), ((3, 7), 0x4f8c3de271988eeb), ((3, 14), 0x86b17a17def2dc3e)]"

lemma hash_values_1:
  "Hasher_call 1 5 = 0x7a8404aa7c6c4db" "Hasher_call 1 7 = 0x64fae65ddbfac0c8"
  "Hasher_call 1 14 = 0x8adaa775171676ec"
  by (simp_all add: hash_eval)

lemma hash_values_2:
  "Hasher_call 2 5 = 0x2214188dba96e83c" "Hasher_call 2 7 = 0xeff81508d70d8ca5"
  "Hasher_call 2 14 = 0x67e10b75ce1ddbbe"
  by (simp_all add: hash_eval)

lemma hash_values_3:
  "Hasher_call 3 5 = 0x693b1d6c4e6f721c" "Hasher_call 3 7 = 0x4f8c3de271988eeb"
  "Hasher_call 3 14 = 0x86b17a17def2dc3e"
  by (simp_all add: hash_eval)

lemma hash_cache_correct: "list_all (\<lambda>((s, k), v). Hasher_call s k = v) hash_cache"
  by (simp add: hash_cache_def hash_values_1 hash_values_2 hash_values_3)

lemma Hasher_call_cached [code]:
  "Hasher_call s k =
     (case map_of hash_cache (s, k) of Some v \<Rightarrow> v | None \<Rightarrow> XXH64 False (word_bytes 8 k) s)"
  using hash_cache_correct
  by (auto simp: list_all_iff Hasher_call_def split: option.split dest!: map_of_SomeD)

text \<open>
  States hold functions, so their equality is not executable; \<open>evaluates_to\<close> compares the
  normal forms.
\<close>

definition evaluates_to :: "'a \<Rightarrow> 'a \<Rightarrow> bool" where
  [code del]: "evaluates_to a b \<longleftrightarrow> a = b"

lemma evaluates_to_refl: "evaluates_to a a"
  by (simp add: evaluates_to_def)

definition three_keys :: "1 word oblivious_dictionary" where
  "three_keys = new_dictionary (max 1) [7, 14, 5] [1, 0, 0] 1 1"

text \<open>The state after peeling, and after the linear system.\<close>

definition three_peeled :: "1 word oblivious_dictionary" where
  "three_peeled =
     \<lparr>hashSize = 3, tableRealSize = 3, fieldSize = 1, fieldSizeBytes = 1, gamma = 1,
      keys = [7, 14, 5], values = [1, 0, 0], firstSeed = 1, secondSeed = 2, dhSeed = 3,
      vals = [7 \<mapsto> 1, 14 \<mapsto> 0, 5 \<mapsto> 0], peelingVector = [5, 0, 0], peelingCounter = 1,
      first = \<lparr>us_hash = 1, rehash_policy = max 1, bucket_count = 3, us_elems = [14, 7]\<rparr>,
      second = \<lparr>us_hash = 2, rehash_policy = max 1, bucket_count = 3, us_elems = [14, 7]\<rparr>,
      DH = 3, variables = [0, 0, 0, 0, 0, 0, 0], sign = [0, 0, 0, 0, 0, 0], prg_pos = 0\<rparr>"

definition three_solved :: "1 word oblivious_dictionary" where
  "three_solved = three_peeled\<lparr>variables := [0, 1, 0, 0, 0, 0, 1], sign := [0, 1, 0, 0, 0, 1]\<rparr>"

lemma three_keys_peeling: "peeling (start_state bit_value three_keys) = Some three_peeled"
  by (rule evaluates_to_def [THEN iffD1]) (code_simp, rule evaluates_to_refl)

lemma three_keys_system: "generateExternalToolValues search_solver three_peeled = three_solved"
  by (rule evaluates_to_def [THEN iffD1]) (code_simp, rule evaluates_to_refl)

lemma three_keys_nonzero: "no_zero_variable bit_value search_solver (\<lambda>_. 1) three_keys"
proof -
  have "unpeel_nonzero bit_value (\<lambda>_. 1) (peelingCounter three_peeled) three_solved" by code_simp
  then show ?thesis by (simp add: no_zero_variable_def three_keys_peeling three_keys_system)
qed

lemma three_keys_encodable: "encodable bit_value three_keys"
proof -
  have "list_all (\<lambda>k. decode ((start_state bit_value three_keys)\<lparr>variables := [0, 1, 0, 0, 1, 0, 1]\<rparr>) k =
      lookup0 (vals (start_state bit_value three_keys)) k) [7, 14, 5]" by code_simp
  then have "encodes (start_state bit_value three_keys) [0, 1, 0, 0, 1, 0, 1] (set [7, 14, 5])"
    by (simp add: encodes_def list_all_iff)
  then show ?thesis by (auto simp: encodable_def three_keys_def)
qed

text \<open>The state at the end, and the second run from there.\<close>

definition three_done :: "1 word oblivious_dictionary" where
  "three_done = three_solved\<lparr>variables := [0, 1, 0, 0, 1, 0, 1], peelingCounter := 0\<rparr>"

definition three_peeled_again :: "1 word oblivious_dictionary" where
  "three_peeled_again = three_peeled\<lparr>sign := [0, 1, 0, 0, 0, 1]\<rparr>"

lemma three_keys_done: "unpeeling bit_value (\<lambda>_. 1) three_solved = three_done"
  by (rule evaluates_to_def [THEN iffD1]) (code_simp, rule evaluates_to_refl)

lemma three_keys_run: "createDictionary bit_value search_solver (\<lambda>_. 1) three_keys = Some three_done"
  using three_keys_peeling three_keys_system three_keys_done
  by (simp add: createDictionary_def start_state_def Let_def)

lemma three_again_peeling: "peeling (start_state bit_value three_done) = Some three_peeled_again"
  by (rule evaluates_to_def [THEN iffD1]) (code_simp, rule evaluates_to_refl)

lemma three_again_system: "generateExternalToolValues search_solver three_peeled_again = three_solved"
  by (rule evaluates_to_def [THEN iffD1]) (code_simp, rule evaluates_to_refl)

lemma three_again_nonzero: "no_zero_variable bit_value search_solver (\<lambda>_. 0) three_done"
proof -
  have "unpeel_nonzero bit_value (\<lambda>_. 0) (peelingCounter three_peeled_again) three_solved" by code_simp
  then show ?thesis by (simp add: no_zero_variable_def three_again_peeling three_again_system)
qed

text \<open>Two keys that share a bucket of the second table.\<close>

definition two_keys :: "1 word oblivious_dictionary" where
  "two_keys = new_dictionary (max 1) [14, 5] [0, 1] 1 1"

definition two_peeled :: "1 word oblivious_dictionary" where
  "two_peeled =
     \<lparr>hashSize = 2, tableRealSize = 2, fieldSize = 1, fieldSizeBytes = 1, gamma = 1,
      keys = [14, 5], values = [0, 1], firstSeed = 1, secondSeed = 2, dhSeed = 3,
      vals = [14 \<mapsto> 0, 5 \<mapsto> 1], peelingVector = [14, 5], peelingCounter = 2,
      first = \<lparr>us_hash = 1, rehash_policy = max 1, bucket_count = 2, us_elems = []\<rparr>,
      second = \<lparr>us_hash = 2, rehash_policy = max 1, bucket_count = 2, us_elems = []\<rparr>,
      DH = 3, variables = [0, 0, 0, 0, 0], sign = [0, 0, 0, 0], prg_pos = 0\<rparr>"

lemma two_keys_run:
  "peeling (start_state bit_value two_keys) = Some two_peeled"
  "generateExternalToolValues search_solver two_peeled = two_peeled"
  by (rule evaluates_to_def [THEN iffD1], code_simp, rule evaluates_to_refl)+

lemma two_keys_unpeeled: "checkOutput (unpeeling bit_value (\<lambda>_. 1) two_peeled) = [True, False]"
  by code_simp

lemma two_keys_encodable: "encodable bit_value two_keys"
proof -
  have "list_all (\<lambda>k. decode ((start_state bit_value two_keys)\<lparr>variables := [0, 1, 0, 0, 0]\<rparr>) k =
      lookup0 (vals (start_state bit_value two_keys)) k) [14, 5]" by code_simp
  then have "encodes (start_state bit_value two_keys) [0, 1, 0, 0, 0] (set [14, 5])"
    by (simp add: encodes_def list_all_iff)
  then show ?thesis by (auto simp: encodable_def two_keys_def)
qed

lemma max1_policy: "policy_ok (max 1)"
  by (simp add: policy_ok_def less_max_iff_disj)

lemma three_distinct: "distinct [7, 14, 5 :: u64]"
  by simp

subsection \<open>Correctness of the encoding\<close>

lemma createDictionary_new:
  fixes of_bytes :: "u8 list \<Rightarrow> 'f::ab_group_add"
  assumes "distinct ks" and "policy_ok policy" and "\<forall>x::'f. x + x = 0" and "solver_ok solve"
    and "encodable of_bytes (new_dictionary policy ks vs fsize g)"
    and "no_zero_variable of_bytes solve prg (new_dictionary policy ks vs fsize g)"
  defines "d \<equiv> new_dictionary policy ks vs fsize g"
  shows "\<exists>d'. createDictionary of_bytes solve prg d = Some d' \<and> prepared d' \<and> sign_ok d' \<and> sized d' \<and>
    same_setup d d' \<and>
    (\<forall>i<length ks. decode d' (ks ! i) = of_bytes (chunk vs (bytes_of_bits fsize) i)) \<and>
    checkOutput d' = replicate (length ks) True"
proof -
  obtain d' where d': "createDictionary of_bytes solve prg d = Some d'" "prepared d'" "sign_ok d'"
    "sized d'" "same_setup d d'" and dec: "\<forall>i<hashSize d. lookup0 (vals d') (keys d ! i) = value_at of_bytes d i \<and>
       decode d' (keys d ! i) = value_at of_bytes d i"
    using createDictionary_main [OF new_dictionary_prepared [OF assms(1,2)] assms(3-6)]
    unfolding d_def by metis
  have "checkOutput d' = replicate (length ks) True"
    using checkOutput_all [of d'] dec d'(5) by (simp add: same_setup_def d_def)
  with d' dec show ?thesis by (intro exI [of _ d']) (simp add: value_at_chunk d_def)
qed

text \<open>
  C3: \<open>Receiver::createDictionary\<close> on a new dictionary with distinct keys: it ends, and the
  variables decode every key to the field element given by its bytes (so \<open>checkOutput\<close> prints
  no bad value). It relies on the field having characteristic two, on the solver solving the
  systems that can be solved, on the values being encodable at all, and on no variable that
  unpeeling sets being zero.
\<close>

theorem createDictionary_decodes:
  fixes of_bytes :: "u8 list \<Rightarrow> 'f::ab_group_add"
  assumes "distinct ks" and "policy_ok policy" and "\<forall>x::'f. x + x = 0" and "solver_ok solve"
    and "encodable of_bytes (new_dictionary policy ks vs fsize g)"
    and "no_zero_variable of_bytes solve prg (new_dictionary policy ks vs fsize g)"
  shows "\<exists>d'. createDictionary of_bytes solve prg (new_dictionary policy ks vs fsize g) = Some d' \<and>
    (\<forall>i<length ks. decode d' (ks ! i) = of_bytes (chunk vs (bytes_of_bits fsize) i)) \<and>
    checkOutput d' = replicate (length ks) True"
  using createDictionary_new [OF assms] by blast

theorem createDictionary_decodes_witness:
  "\<exists>d'. createDictionary bit_value search_solver (\<lambda>_. 1) (new_dictionary (max 1) [7, 14, 5] [1, 0, 0] 1 1) = Some d' \<and>
    (\<forall>i<length [7, 14, 5 :: u64]. decode d' ([7, 14, 5] ! i) = bit_value (chunk [1, 0, 0] (bytes_of_bits 1) i)) \<and>
    checkOutput d' = replicate (length [7, 14, 5 :: u64]) True"
  by (rule createDictionary_decodes [OF three_distinct max1_policy one_bit_twice search_solver_ok
        three_keys_encodable [unfolded three_keys_def] three_keys_nonzero [unfolded three_keys_def]])

text \<open>
  C9: a further run over the same dictionary (the protocol repeats the online phase) decodes
  every key again, although the signs of the earlier run are still set: they are those of the
  2-core, which is the same.
\<close>

theorem createDictionary_again:
  fixes of_bytes :: "u8 list \<Rightarrow> 'f::ab_group_add"
  assumes "distinct ks" and "policy_ok policy" and "\<forall>x::'f. x + x = 0" and "solver_ok solve"
    and "encodable of_bytes (new_dictionary policy ks vs fsize g)"
    and "no_zero_variable of_bytes solve prg (new_dictionary policy ks vs fsize g)"
    and "createDictionary of_bytes solve prg (new_dictionary policy ks vs fsize g) = Some d'"
    and "no_zero_variable of_bytes solve prg' d'"
  shows "\<exists>d''. createDictionary of_bytes solve prg' d' = Some d'' \<and>
    (\<forall>i<length ks. decode d'' (ks ! i) = of_bytes (chunk vs (bytes_of_bits fsize) i))"
proof -
  let ?d = "new_dictionary policy ks vs fsize g :: 'f oblivious_dictionary"
  have d': "prepared d'" "sign_ok d'" "same_setup ?d d'"
    using createDictionary_new [OF assms(1-6)] assms(7) by auto
  have "encodable of_bytes d'"
    by (rule encodable_again [OF new_dictionary_prepared(1) [OF assms(1,2)] d'(1) assms(5) d'(3)])
  from createDictionary_main [OF d'(1,2) assms(3,4) this assms(8)] d'(3)
  show ?thesis by (auto simp: same_setup_def value_at_chunk)
qed

theorem createDictionary_again_witness:
  "\<exists>d''. createDictionary bit_value search_solver (\<lambda>_. 0) three_done = Some d'' \<and>
    (\<forall>i<length [7, 14, 5 :: u64]. decode d'' ([7, 14, 5] ! i) = bit_value (chunk [1, 0, 0] (bytes_of_bits 1) i))"
  by (rule createDictionary_again [OF three_distinct max1_policy one_bit_twice search_solver_ok
        three_keys_encodable [unfolded three_keys_def] three_keys_nonzero [unfolded three_keys_def]
        three_keys_run [unfolded three_keys_def] three_again_nonzero])

subsection \<open>Peeling\<close>

lemma hasLoop_remaining:
  assumes "peel_inv d K" and "small_buckets d" and "clean d A"
  shows "hasLoop d \<longleftrightarrow> remaining d \<noteq> {}"
proof
  assume "hasLoop d"
  then obtain i where "1 < uset_bucket_size (first d) i" by (auto simp: hasLoop_def list_ex_iff)
  then show "remaining d \<noteq> {}"
    by (auto simp: remaining_def uset_bucket_size_def uset_bucket_list_def)
next
  assume "remaining d \<noteq> {}"
  then obtain k where k: "k \<in> remaining d" by auto
  have "uset_bucket_size (first d) (h1 d k) \<noteq> 1"
    using assms(3) h1_less [OF assms(2)] by (simp add: clean_def)
  with size_first_pos [OF assms(1) k] have "1 < uset_bucket_size (first d) (h1 d k)" by linarith
  with h1_less [OF assms(2), of k] show "hasLoop d" by (auto simp: hasLoop_def list_ex_iff)
qed

text \<open>
  C5: \<open>peeling\<close> ends on every set of distinct keys, and what it leaves in the tables is the
  2-core: the largest set of keys in which every key shares each of its two buckets with another
  key, whatever the order in which keys are peeled. The peeled keys are the others, each once,
  and \<open>hasLoop\<close> says whether the 2-core is empty.
\<close>

theorem peeling_two_core:
  fixes of_bytes :: "u8 list \<Rightarrow> 'f::ab_group_add"
  assumes "distinct ks" and "policy_ok policy"
  shows "\<exists>d'. peeling (start_state of_bytes (new_dictionary policy ks vs fsize g)) = Some d' \<and>
    remaining d' = core d' \<and> closed_keys (h1 d') (h2 d') (remaining d') \<and>
    (\<forall>C \<subseteq> set ks. closed_keys (h1 d') (h2 d') C \<longrightarrow> C \<subseteq> remaining d') \<and>
    distinct (peeled d') \<and> set (peeled d') = set ks - remaining d' \<and>
    peelingCounter d' = length (peeled d') \<and> (hasLoop d' \<longleftrightarrow> remaining d' \<noteq> {})"
proof -
  let ?d = "new_dictionary policy ks vs fsize g :: 'f oblivious_dictionary"
  obtain d' where d': "peeling (start_state of_bytes ?d) = Some d'" "peel_inv d' (set ks)"
    "frame (start_state of_bytes ?d) d'" "clean d' {..<tableRealSize d'}" "remaining d' = core d'" "sized d'"
    by (rule peel_start [OF new_dictionary_prepared(1) [OF assms], where of_bytes = of_bytes,
          unfolded new_dictionary_fields])
  have sm: "small_buckets d'" using d'(6) by (simp add: sized_def)
  have "keys d' = ks"
    using d'(3) start_state_filled(4) [OF new_dictionary_prepared(1) [OF assms], where of_bytes = of_bytes]
    by (auto elim!: frameE)
  then have "\<forall>C \<subseteq> set ks. closed_keys (h1 d') (h2 d') C \<longrightarrow> C \<subseteq> remaining d'"
    unfolding d'(5) core_def by blast
  moreover have "distinct (peeled d')" "set (peeled d') = set ks - remaining d'"
    "peelingCounter d' = length (peeled d')"
    using d'(2) by (auto simp: peel_inv_def) (simp add: peeled_def)
  ultimately show ?thesis
    using d'(1,5) clean_closed [OF d'(2) sm d'(4)] hasLoop_remaining [OF d'(2) sm d'(4)] by blast
qed

theorem peeling_two_core_witness:
  "\<exists>d'. peeling (start_state bit_value (new_dictionary (max 1) [7, 14, 5] [1, 0, 0] 1 1)) = Some d' \<and>
    remaining d' = core d' \<and> closed_keys (h1 d') (h2 d') (remaining d') \<and>
    (\<forall>C \<subseteq> set [7, 14, 5]. closed_keys (h1 d') (h2 d') C \<longrightarrow> C \<subseteq> remaining d') \<and>
    distinct (peeled d') \<and> set (peeled d') = set [7, 14, 5] - remaining d' \<and>
    peelingCounter d' = length (peeled d') \<and> (hasLoop d' \<longleftrightarrow> remaining d' \<noteq> {})"
  by (rule peeling_two_core [OF three_distinct max1_policy])

text \<open>
  C26: filling the tables with the distinct keys never makes them grow, so the number of buckets
  that the variables were sized with stays valid, and each bucket holds exactly the keys whose
  hash with the seed of the table (1 and 2) falls into it.
\<close>

theorem fillTables_buckets:
  fixes of_bytes :: "u8 list \<Rightarrow> 'f::ab_group_add"
  assumes "distinct ks" and "policy_ok policy"
  shows "let e = fillTables (init of_bytes (new_dictionary policy ks vs fsize g));
      n = policy (scaled_size (length ks))
    in tableRealSize e = n \<and> bucket_count (first e) = n \<and> bucket_count (second e) = n \<and>
    set (uset_bucket_list (first e) i) = {k \<in> set ks. unat (Hasher_call 1 k) mod n = i} \<and>
    set (uset_bucket_list (second e) i) = {k \<in> set ks. unat (Hasher_call 2 k) mod n = i} \<and>
    distinct (uset_bucket_list (first e) i) \<and> distinct (uset_bucket_list (second e) i)"
proof -
  define e where "e = fillTables (init of_bytes (new_dictionary policy ks vs fsize g))"
  define n where "n = policy (scaled_size (length ks))"
  let ?d = "new_dictionary policy ks vs fsize g :: 'f oblivious_dictionary"
  note st = start_state_filled [OF new_dictionary_prepared(1) [OF assms(1,2)], where of_bytes = of_bytes]
  have e: "e = start_state of_bytes ?d" by (simp add: e_def start_state_def)
  have "us_hash (first ?d) = 1" "us_hash (second ?d) = 2" "bucket_count (first ?d) = n" "bucket_count (second ?d) = n"
    by (simp_all add: new_dictionary_def setKeysAndVals_def ObliviousDictionary_def createSets_def Let_def n_def)
  then have "h1 e k = unat (Hasher_call 1 k) mod n" "h2 e k = unat (Hasher_call 2 k) mod n" for k
    using fun_cong [OF st(9), where x = k] fun_cong [OF st(10), where x = k] by (simp_all add: e uset_bucket_def)
  moreover have "filled e (set ks)" using st(1) by (simp add: e)
  moreover have "tableRealSize e = n" using st(6) by (simp add: e n_def)
  ultimately show ?thesis unfolding Let_def e_def [symmetric] n_def [symmetric]
    by (auto simp: filled_def small_buckets_def uset_bucket_list_def)
qed

theorem fillTables_buckets_witness:
  "let e = fillTables (init bit_value (new_dictionary (max 1) [7, 14, 5] [1, 0, 0] 1 1));
       n = max 1 (scaled_size (length [7, 14, 5 :: u64]))
   in tableRealSize e = n \<and> bucket_count (first e) = n \<and> bucket_count (second e) = n \<and>
    set (uset_bucket_list (first e) 1) = {k \<in> set [7, 14, 5]. unat (Hasher_call 1 k) mod n = 1} \<and>
    set (uset_bucket_list (second e) 1) = {k \<in> set [7, 14, 5]. unat (Hasher_call 2 k) mod n = 1} \<and>
    distinct (uset_bucket_list (first e) 1) \<and> distinct (uset_bucket_list (second e) 1)"
  by (rule fillTables_buckets [OF three_distinct max1_policy])

subsection \<open>Where the encoding fails\<close>

text \<open>
  An example: two keys share a bucket of the second table; the values are encodable, but
  unpeeling the key 5 sets the shared variable to zero, takes it for an unset one when it comes to
  the key 14, and overwrites it: the value of the key 5 is lost.
\<close>

lemma two_keys_lost:
  "encodable bit_value (new_dictionary (max 1) [14, 5] [0, 1] 1 1) \<and>
   (\<exists>d'. createDictionary bit_value search_solver (\<lambda>_. 1) (new_dictionary (max 1) [14, 5] [0, 1] 1 1) = Some d' \<and>
      checkOutput d' = [True, False])"
  using two_keys_encodable two_keys_run two_keys_unpeeled
  by (simp add: two_keys_def createDictionary_def start_state_def Let_def)



end
