(* ===== verification/Protocol_Correct.thy ===== *)
theory Protocol_Correct
  imports Protocol_Party Dictionary_Properties
begin

text \<open>
  One run of the protocol, from the construction of the parties to the comparison: the sum of the
  sender's rows for a key, without the masked codeword of its value, is the sum of the receiver's rows
  when the receiver's dictionary holds that value for the key.
\<close>

subsection \<open>One run\<close>

text \<open>
  \<^verbatim>\<open>Receiver::runOnline\<close> and \<^verbatim>\<open>Sender::runOnline\<close> up to the exchange of the results: the two OT phases
  are interleaved in any order that the messages allow.
\<close>

record 'f libs =
  lib_of_bytes :: "u8 list \<Rightarrow> 'f"
  lib_to_bytes :: "nat \<Rightarrow> 'f \<Rightarrow> u8 list"
  lib_solve :: "bool list list \<Rightarrow> 'f list \<Rightarrow> nat \<Rightarrow> 'f list"
  lib_prg :: "nat \<Rightarrow> u8"
  lib_evp :: "u8 list \<Rightarrow> u8 list \<Rightarrow> u8 list"

inductive online :: "'f::ab_group_add libs \<Rightarrow> u8 list \<Rightarrow> 'f receiver_party \<Rightarrow> 'f sender_party \<Rightarrow>
    'f receiver_party \<Rightarrow> 'f sender_party \<Rightarrow> bool"
  for L :: "'f libs" and junk :: "u8 list" where
  online: "recv_createDictionary (lib_of_bytes L) (lib_solve L) (lib_prg L) p = Some p1 \<Longrightarrow>
    recv_runOOS p1 = Some (Inr p2) \<Longrightarrow> send_runOOS q = Some (Inr q1) \<Longrightarrow>
    ot_reach junk (recv_sigma (lib_to_bytes L) p2) (pp_fieldSizeBytes p2) (pp_numOTs p2)
      (ot_initial (recv p2) (sender q1)) x \<Longrightarrow>
    ot_done (pp_numOTs p2) x \<Longrightarrow>
    recv_computeXors (lib_evp L) (p2\<lparr>recv := recv_party x\<rparr>) = Inr p3 \<Longrightarrow>
    send_computeXors (lib_evp L) junk (q1\<lparr>sender := send_party x\<rparr>) = Inr q2 \<Longrightarrow>
    online L junk p q p3 q2"

subsection \<open>Codewords of sums\<close>

lemma decode_rows:
  "decode d key = sum_list (map (\<lambda>k. variables d ! k) (key_rows (tableRealSize d) (dec d key)))"
  by (simp add: decode_def key_rows_def dh_sum_def foldl_plus o_def Let_def add.assoc)

lemma map2_xor_self: "map2 (XOR) a a = replicate (length a) (0 :: u8)"
  by (induction a) simp_all

lemma choice_sum:
  fixes of_bytes :: "u8 list \<Rightarrow> 'f::ab_group_add"
  assumes c: "code_for fs c" and f: "field_bytes_ok fs of_bytes to_bytes" and j: "j < codewordBlkSize c"
  defines "n \<equiv> bytes_of_bits fs"
  shows "choice_word c (to_bytes n (sum_list xs)) j = xsum (\<lambda>x. choice_word c (to_bytes n x) j) xs"
proof -
  have len: "\<And>x. length (to_bytes n x) = n"
    and add: "\<And>x y. to_bytes n (x + y) = map2 (XOR) (to_bytes n x) (to_bytes n y)"
    using f by (simp_all add: field_bytes_ok_def Let_def n_def)
  have ok: "code_ok c" "mPlaintextU8Size c = n" "codewordU8Size c \<le> 160" "j < 10"
    using c j by (simp_all add: code_for_def n_def bytes_of_bits_eq)
  have plus: "choice_word c (to_bytes n (x + y)) j = choice_word c (to_bytes n x) j XOR choice_word c (to_bytes n y) j" for x y
    unfolding choice_word_def add using ok len j by (intro codeword_of_xor) simp_all
  have "choice_word c (to_bytes n 0) j = 0" using plus [of 0 0] by simp
  then show ?thesis by (induction xs) (simp_all add: plus)
qed

lemma concat_chunk:
  assumes "\<And>x. x \<in> set xs \<Longrightarrow> length (f x) = n" and "k < length xs"
  shows "take n (drop (n * k) (concat (map f xs))) = f (xs ! k)"
  using assms
proof (induction xs arbitrary: k)
  case (Cons x xs)
  then show ?case by (cases k) simp_all
qed simp

lemma choice_of_sigma:
  fixes of_bytes :: "u8 list \<Rightarrow> 'f::ab_group_add"
  assumes c: "code_for fs c" and f: "field_bytes_ok fs of_bytes to_bytes" and j: "j < codewordBlkSize c"
    and k: "k < length vs"
  defines "n \<equiv> bytes_of_bits fs"
  shows "choice_word c (drop (n * k) (concat (map (to_bytes n) vs))) j = choice_word c (to_bytes n (vs ! k)) j"
proof -
  have len: "\<And>x. length (to_bytes n x) = n" using f by (simp add: field_bytes_ok_def Let_def n_def)
  have ok: "code_ok c" "mPlaintextU8Size c = n" "codewordU8Size c \<le> 160" "j < 10"
    using c j by (simp_all add: code_for_def n_def bytes_of_bits_eq)
  have t: "take n (drop (n * k) (concat (map (to_bytes n) vs))) = to_bytes n (vs ! k)"
    by (rule concat_chunk) (simp_all add: len k)
  have "n \<le> length (drop (n * k) (concat (map (to_bytes n) vs)))"
    using arg_cong [OF t, of length] by (simp add: len)
  then show ?thesis unfolding choice_word_def
    using ok t j len by (intro codeword_of_prefix) simp_all
qed

lemma value_codeword_choice:
  assumes c: "code_for fs c" and n: "n = (fs + 7) div 8" "n \<le> 48" "n \<le> length val" and j: "j < codewordBlkSize c"
  shows "value_codeword c junk val n ! j = choice_word c (take n val) j"
proof -
  have ok: "code_ok c" "mPlaintextU8Size c = n" "codewordU8Size c \<le> 160" "j < 10" "4 \<le> codewordBlkSize c"
    using c j n(1) by (simp_all add: code_for_def)
  define cw where "cw = memcpy (blocks_bytes (replicate 10 0)) val n"
  have len: "length cw = 160" using n by (simp add: cw_def)
  have U: "n \<le> codewordU8Size c" using code_sizes(3) [OF ok(1)] ok(5) n(2) by linarith
  have "drop (codewordU8Size c) cw = drop (codewordU8Size c) (blocks_bytes (replicate 10 0))"
    using U n by (simp add: cw_def memcpy_def)
  then have "encode c junk cw cw = encode c junk cw (blocks_bytes (replicate 10 0))"
    using ok n(2) len encode_words [OF ok(1), of cw cw junk] encode_words [OF ok(1), of cw "blocks_bytes (replicate 10 0)" junk]
    by (simp add: memcpy_def)
  then have "value_codeword c junk val n = codeword_of c junk cw"
    by (simp only: value_codeword_def Let_def cw_def [symmetric] codeword_of_def)
  moreover have "take n cw = take n val" using n by (simp add: cw_def memcpy_def)
  moreover have "codeword_of c junk cw ! j = codeword_of c [] (take n val) ! j"
    if "take n cw = take n val"
    using ok j len n(2) that by (intro codeword_of_prefix) simp_all
  ultimately show ?thesis by (simp only: choice_word_def)
qed

text \<open>The sums of the rows of a key, in terms of the sum of the choices.\<close>

lemma rows_match:
  fixes of_bytes :: "u8 list \<Rightarrow> 'f::ab_group_add"
  assumes c: "code_for fs c" and f: "field_bytes_ok fs of_bytes to_bytes" and j: "j < codewordBlkSize c"
    and rel: "\<And>k. k < length vs \<Longrightarrow> cell M k j = cell M0 k j XOR
      (choice_word c (drop (n * k) (concat (map (to_bytes n) vs))) j AND b)"
    and ks: "\<And>k. k \<in> set ks \<Longrightarrow> k < length vs" and n: "n = bytes_of_bits fs"
  shows "xsum (\<lambda>k. cell M k j) ks XOR (choice_word c (to_bytes n (sum_list (map (\<lambda>k. vs ! k) ks))) j AND b) =
    xsum (\<lambda>k. cell M0 k j) ks"
proof -
  have "xsum (\<lambda>k. cell M k j) ks = xsum (\<lambda>k. cell M0 k j XOR (choice_word c (to_bytes n (vs ! k)) j AND b)) ks"
    using rel ks choice_of_sigma [OF c f j] n by (intro xsum_cong) auto
  also have "\<dots> = xsum (\<lambda>k. cell M0 k j) ks XOR (xsum (\<lambda>k. choice_word c (to_bytes n (vs ! k)) j) ks AND b)"
    by (simp add: xsum_simps)
  also have "xsum (\<lambda>k. choice_word c (to_bytes n (vs ! k)) j) ks = choice_word c (to_bytes n (sum_list (map (\<lambda>k. vs ! k) ks))) j"
    unfolding n by (simp add: choice_sum [OF c f j] o_def)
  finally show ?thesis by (simp add: xor.assoc)
qed

subsection \<open>The generators during the OT phase\<close>

lemma gens_frame:
  "mGens_r (otCorrection_r junk k w r) = mGens_r r" "mGens_s (otCorrection_s k s) = mGens_s s"
  by (simp_all add: otCorrection_r_def otCorrection_s_def Let_def)

lemma ot_step_gens:
  assumes "ot_step junk sigma fsb n x y"
  shows "mGens_r (recv_party y) = mGens_r (recv_party x) \<and> mGens_s (send_party y) = mGens_s (send_party x)"
proof -
  have r: "mGens_r (foldl (\<lambda>r k. otCorrection_r junk (i + k) (drop (f (k + i)) sigma) r) r ks) = mGens_r r" for i f r ks
    by (induction ks arbitrary: r) (simp_all add: gens_frame)
  have s: "mGens_s (foldl (\<lambda>s k. otCorrection_s (i + k) s) s ks) = mGens_s s" for i s ks
    by (induction ks arbitrary: s) (simp_all add: gens_frame)
  from assms show ?thesis
  proof (cases rule: ot_step.cases)
    case (receiver_batch r' q)
    then show ?thesis
      by (auto simp: recv_batch_def sendCorrection_def Let_def r)
  next
    case (sender_batch s' q)
    then show ?thesis
      by (auto simp: send_batch_def recvCorrection_def Let_def s res_bind_Inr_iff bind_eq_Some_conv split: if_splits)
  qed
qed

lemma ot_reach_gens:
  "ot_reach junk sigma fsb n x y \<Longrightarrow>
   mGens_r (recv_party y) = mGens_r (recv_party x) \<and> mGens_s (send_party y) = mGens_s (send_party x)"
  by (induction rule: ot_reach.induct) (simp_all add: ot_step_gens)

subsection \<open>The results of the two parties\<close>

lemma foldl_insert:
  assumes "\<And>p i l. g (p\<lparr>xorsSet := l\<rparr>) i = g p i"
  shows "foldl (\<lambda>p i. p\<lparr>xorsSet := insert (g p i) (xorsSet p)\<rparr>) p is = p\<lparr>xorsSet := g p ` set is \<union> xorsSet p\<rparr>"
  by (induction "is" arbitrary: p) (auto simp: assms)

lemma recv_computeXors_result:
  assumes "mGens_r (recv p) \<noteq> []"
  shows "recv_computeXors evp p = Inr (p\<lparr>xorsSet := (\<lambda>i. xor_value evp (pp_fixedKey p) (row_xors (mT0 (recv p))
      (pp_tableRealSize p) (length (mGens_r (recv p)) div 128) (dec (pp_dic p) (pp_keys p ! i)))) ` {..<pp_hashSize p} \<union> xorsSet p\<rparr>)"
  using assms
  by (simp add: recv_computeXors_def getBaseOTCount_r_def Let_def foldl_insert atLeast0LessThan del: upt_Suc)

lemma send_output_xors [simp]: "send_output junk b (p\<lparr>xors := l\<rparr>) i = send_output junk b p i"
  by (simp add: send_output_def)

lemma send_computeXors_result:
  assumes "mGens_s (sender p) \<noteq> []"
  shows "send_computeXors evp junk p = Inr (p\<lparr>xors := map (\<lambda>i. xor_value evp (pp_fixedKey p)
      (send_output junk (length (mGens_s (sender p)) div 128) p i)) [0..<pp_hashSize p]\<rparr>)"
proof -
  let ?b = "length (mGens_s (sender p)) div 128"
  let ?v = "\<lambda>i. xor_value evp (pp_fixedKey p) (send_output junk ?b p i)"
  have "foldl (\<lambda>p i. p\<lparr>xors := (xors p)[i := xor_value evp (pp_fixedKey p) (send_output junk ?b p i)]\<rparr>)
      (p\<lparr>xors := l\<rparr>) [0..<m] = p\<lparr>xors := map ?v [0..<m] @ drop m l\<rparr>" if "m \<le> length l" for l m
    using that
  proof (induction m)
    case (Suc m)
    then show ?case by (simp add: list_update_append flip: Cons_nth_drop_Suc)
  qed simp
  from this [of "pp_hashSize p" "vec_resize (pp_hashSize p) 0 (xors p)"] assms show ?thesis
    by (simp add: send_computeXors_def getBaseOTCount_s_def Let_def del: upt_Suc)
qed

subsection \<open>The parties of a run\<close>

text \<open>The keys and values that the constructor makes, and the dictionary of the receiver.\<close>

definition party_keys :: "nat \<Rightarrow> u64 list" where
  "party_keys h = map of_nat [0..<h]"

definition party_vals :: "(nat \<Rightarrow> u8) \<Rightarrow> nat \<Rightarrow> nat \<Rightarrow> u8 list" where
  "party_vals prg h fs = mask_vals (8 - fs mod 8) (bytes_of_bits fs) h (map prg [0..<h * bytes_of_bits fs])"

definition party_dictionary :: "(nat \<Rightarrow> nat) \<Rightarrow> (nat \<Rightarrow> u8) \<Rightarrow> nat \<Rightarrow> nat \<Rightarrow> 'f::ab_group_add oblivious_dictionary" where
  "party_dictionary policy prg h fs = new_dictionary policy (party_keys h) (party_vals prg h fs) fs 60"

text \<open>
  What a run relies on: a field size with a code, sizes that fit the 32-bit offset of the sender, a
  field of characteristic two whose conversions are those of its bytes, a solver that solves what can be
  solved, values that can be encoded and an encoding in which unpeeling sets no variable to zero.
\<close>

definition psi_ok :: "(nat \<Rightarrow> nat) \<Rightarrow> (nat \<Rightarrow> u8) \<Rightarrow> 'f::ab_group_add libs \<Rightarrow> nat \<Rightarrow> nat \<Rightarrow> bool" where
  "psi_ok policy prg L h fs \<longleftrightarrow> code_table fs \<noteq> None \<and> policy_ok policy \<and> h \<le> 2 ^ 64 \<and>
     7 * (2 * policy (scaled_size h) + 60) < 2 ^ 31 \<and> (\<forall>x::'f. x + x = 0) \<and> solver_ok (lib_solve L) \<and>
     field_bytes_ok fs (lib_of_bytes L) (lib_to_bytes L) \<and>
     encodable (lib_of_bytes L) (party_dictionary policy prg h fs) \<and>
     no_zero_variable (lib_of_bytes L) (lib_solve L) (lib_prg L) (party_dictionary policy prg h fs)"

lemma distinct_party_keys: "h \<le> 2 ^ 64 \<Longrightarrow> distinct (party_keys h)"
  by (auto simp: party_keys_def distinct_map inj_on_def word_of_nat_eq_iff take_bit_nat_eq_self)

lemma length_party_keys [simp]: "length (party_keys h) = h"
  by (simp add: party_keys_def)

lemma party_fields:
  "hashSize (ObliviousDictionary policy h fs g) = h"
  "tableRealSize (ObliviousDictionary policy h fs g) = policy (scaled_size h)"
  by (simp_all add: ObliviousDictionary_def createSets_def Let_def)

lemma ProtocolParty_result:
  assumes "code_table fs = Some t"
  obtains c where "load t empty_code = Inr c" and "code_for fs c"
    and "ProtocolParty policy prg h fs mal = Inr \<lparr>pp_numOTs = 2 * policy (scaled_size h) + 60,
      pp_tableRealSize = policy (scaled_size h), pp_hashSize = h, pp_fieldSize = fs, pp_fieldSizeBytes = bytes_of_bits fs,
      pp_gamma = 60, pp_isMalicious = mal, pp_keys = party_keys h, pp_vals = party_vals prg h fs,
      pp_dic = ObliviousDictionary policy h fs 60, pp_code = c,
      pp_fixedKey = map (\<lambda>j. prg (h * bytes_of_bits fs + j)) [0..<128]\<rparr>"
proof -
  obtain c where c: "load t empty_code = Inr c" "code_for fs c" using code_table_loads [OF assms] by blast
  then show ?thesis using assms that
    by (simp add: ProtocolParty_def Let_def party_fields party_keys_def party_vals_def mult.commute del: upt_Suc)
qed

lemma Receiver_fields [simp]:
  "recv (Receiver r p) = r" "xorsSet (Receiver r p) = {}" "pp_dic (Receiver r p) = setKeysAndVals (pp_keys p) (pp_vals p) (pp_dic p)"
  "pp_numOTs (Receiver r p) = pp_numOTs p" "pp_tableRealSize (Receiver r p) = pp_tableRealSize p"
  "pp_hashSize (Receiver r p) = pp_hashSize p" "pp_fieldSize (Receiver r p) = pp_fieldSize p"
  "pp_fieldSizeBytes (Receiver r p) = pp_fieldSizeBytes p" "pp_isMalicious (Receiver r p) = pp_isMalicious p"
  "pp_keys (Receiver r p) = pp_keys p" "pp_vals (Receiver r p) = pp_vals p" "pp_fixedKey (Receiver r p) = pp_fixedKey p"
  by (simp_all add: Receiver_def protocol_party.extend_def receiver_party.fields_def)

lemma Sender_fields [simp]:
  "sender (Sender s p) = s" "baseChoice (Sender s p) = empty_bits" "pp_dic (Sender s p) = pp_dic p"
  "pp_numOTs (Sender s p) = pp_numOTs p" "pp_tableRealSize (Sender s p) = pp_tableRealSize p"
  "pp_hashSize (Sender s p) = pp_hashSize p" "pp_fieldSize (Sender s p) = pp_fieldSize p" "pp_code (Sender s p) = pp_code p"
  "pp_fieldSizeBytes (Sender s p) = pp_fieldSizeBytes p" "pp_isMalicious (Sender s p) = pp_isMalicious p"
  "pp_keys (Sender s p) = pp_keys p" "pp_vals (Sender s p) = pp_vals p" "pp_fixedKey (Sender s p) = pp_fixedKey p"
  by (simp_all add: Sender_def protocol_party.extend_def sender_party.fields_def)

subsection \<open>The dictionary of a run\<close>

lemma key_rows_less:
  assumes "sized d" and "k \<in> set (key_rows (tableRealSize d) (dec d key))"
  shows "k < length (variables d)"
  using assms uset_bucket_less [of "first d" key] uset_bucket_less [of "second d" key] dh_loop_ge [of _ 0 "gamma d" "getDHBits d key"]
  by (auto simp: key_rows_def sized_def small_buckets_def)

lemma dec_same: "same_setup d d' \<Longrightarrow> dec d' = dec d"
  by (simp add: same_setup_def dec_def getDHBits_def fun_eq_iff)

lemma dec_setKeysAndVals [simp]: "dec (setKeysAndVals ks vs d) = dec d"
  by (simp add: dec_def getDHBits_def setKeysAndVals_def fun_eq_iff)

lemma party_value:
  assumes "field_bytes_ok fs of_bytes to_bytes" and "j < h" and "0 < fs"
  shows "to_bytes (bytes_of_bits fs) (of_bytes (chunk (party_vals prg h fs) (bytes_of_bits fs) j)) =
    chunk (party_vals prg h fs) (bytes_of_bits fs) j"
  using assms(1) masked_chunk [of "map prg [0..<h * bytes_of_bits fs]" h fs j] assms(2,3)
  by (simp add: field_bytes_ok_def Let_def party_vals_def)

lemma party_dictionary_result:
  fixes L :: "'f::ab_group_add libs"
  assumes "psi_ok policy prg L h fs"
  obtains d where "createDictionary (lib_of_bytes L) (lib_solve L) (lib_prg L)
      (setKeysAndVals (party_keys h) (party_vals prg h fs) (ObliviousDictionary policy h fs 60)) = Some d"
    and "tableRealSize d = policy (scaled_size h)" and "sized d" and "length (variables d) = 2 * policy (scaled_size h) + 60"
    and "dec d = dec (ObliviousDictionary policy h fs 60 :: 'f oblivious_dictionary)"
    and "fieldSizeBytes d = bytes_of_bits fs"
    and "\<And>j. j < h \<Longrightarrow> decode d (party_keys h ! j) = lib_of_bytes L (chunk (party_vals prg h fs) (bytes_of_bits fs) j)"
proof -
  let ?D = "new_dictionary policy (party_keys h) (party_vals prg h fs) fs 60 :: 'f oblivious_dictionary"
  note ok = assms [unfolded psi_ok_def party_dictionary_def]
  have D: "?D = setKeysAndVals (party_keys h) (party_vals prg h fs) (ObliviousDictionary policy h fs 60)"
    by (simp add: new_dictionary_def)
  have "distinct (party_keys h)" using ok distinct_party_keys by blast
  from createDictionary_new [OF this, of policy "lib_solve L" "lib_of_bytes L" "party_vals prg h fs" fs 60 "lib_prg L"] ok
  obtain d where d: "createDictionary (lib_of_bytes L) (lib_solve L) (lib_prg L) ?D = Some d" "sized d" "same_setup ?D d"
    "\<forall>i<length (party_keys h). decode d (party_keys h ! i) = lib_of_bytes L (chunk (party_vals prg h fs) (bytes_of_bits fs) i)"
    by blast
  have g: "gamma ?D = 60" by (simp add: new_dictionary_def setKeysAndVals_def ObliviousDictionary_def createSets_def Let_def)
  have "tableRealSize d = policy (scaled_size h)" "fieldSizeBytes d = bytes_of_bits fs" "gamma d = 60"
    using d(3) g by (simp_all add: same_setup_def)
  moreover have "dec d = dec (ObliviousDictionary policy h fs 60 :: 'f oblivious_dictionary)"
    using dec_same [OF d(3)] by (simp add: D)
  moreover have "length (variables d) = 2 * policy (scaled_size h) + 60"
    using d(2) \<open>tableRealSize d = _\<close> \<open>gamma d = 60\<close> by (simp add: sized_def)
  moreover have "\<And>j. j < h \<Longrightarrow> decode d (party_keys h ! j) = lib_of_bytes L (chunk (party_vals prg h fs) (bytes_of_bits fs) j)"
    using d(4) by simp
  ultimately show ?thesis using that [of d] d(1,2) unfolding D by blast
qed

subsection \<open>The run\<close>

lemma codes_small:
  assumes "code_table fs = Some t"
  shows "0 < fs" and "bytes_of_bits fs \<le> 48"
proof -
  have "0 < fs \<and> fs \<le> 238" using assms by (auto simp: code_table_def split: if_splits)
  then show "0 < fs" "bytes_of_bits fs \<le> 48"
    using div_le_mono [of "fs + 7" 245 8] by (simp_all add: bytes_of_bits_eq)
qed

text \<open>The states of the parties before the OT phase.\<close>

definition recv_before :: "prty_receiver \<Rightarrow> 'f oblivious_dictionary \<Rightarrow> 'f receiver_party \<Rightarrow> 'f receiver_party" where
  "recv_before r0 d p = p\<lparr>pp_dic := d, recv := r0\<rparr>"

lemma psi_start:
  fixes L :: "'f::ab_group_add libs"
  assumes ok: "psi_ok policy prg L h fs"
  obtains pp d r0 v s0 where "ProtocolParty policy prg h fs mal = Inr pp"
    and "pp_numOTs pp = 2 * policy (scaled_size h) + 60" and "pp_tableRealSize pp = policy (scaled_size h)"
    and "pp_hashSize pp = h" and "pp_fieldSizeBytes pp = bytes_of_bits fs" and "pp_keys pp = party_keys h"
    and "pp_vals pp = party_vals prg h fs" and "pp_dic pp = ObliviousDictionary policy h fs 60" and "pp_code pp = mCode_r r0"
    and "\<exists>p1. recv_createDictionary (lib_of_bytes L) (lib_solve L) (lib_prg L) (Receiver (PrtyMOtReceiver a i) pp) = Some p1 \<and>
      recv_runOOS p1 = Some (Inr (recv_before r0 d (Receiver (PrtyMOtReceiver a i) pp)))"
    and "\<And>ks vs. send_runOOS ((Sender (PrtyMOtSender b j) pp)\<lparr>pp_keys := ks, pp_vals := vs\<rparr>) =
      Some (Inr ((Sender (PrtyMOtSender b j) pp)\<lparr>pp_keys := ks, pp_vals := vs, baseChoice := v, sender := s0\<rparr>))"
    and "ot_start (roundUpTo (pp_numOTs pp + 40) 128) (pp_numOTs pp) r0 s0"
    and "words_ok r0 (getVariables (lib_to_bytes L) d) (bytes_of_bits fs) (pp_numOTs pp)"
    and "pp_numOTs pp \<le> roundUpTo (pp_numOTs pp + 40) 128"
    and "mStride (mT0 r0) = codewordBlkSize (mCode_r r0)" and "code_for fs (mCode_r r0)"
    and "mChoiceBlks s0 = bytes_blocks (codewordBlkSize (mCode_r r0)) (mData v)"
    and "length (mGens_r r0) = 128 * codewordBlkSize (mCode_r r0)" and "length (mGens_s s0) = 128 * codewordBlkSize (mCode_r r0)"
    and "tableRealSize d = policy (scaled_size h)" and "sized d" and "length (variables d) = pp_numOTs pp"
    and "dec d = dec (pp_dic pp)" and "getVariables (lib_to_bytes L) d = concat (map (lib_to_bytes L (bytes_of_bits fs)) (variables d))"
    and "\<And>j. j < h \<Longrightarrow> decode d (party_keys h ! j) = lib_of_bytes L (chunk (party_vals prg h fs) (bytes_of_bits fs) j)"
proof -
  obtain t where t: "code_table fs = Some t" using ok by (auto simp: psi_ok_def)
  let ?n = "2 * policy (scaled_size h) + 60"
  obtain c where c: "load t empty_code = Inr c" "code_for fs c"
    and P: "ProtocolParty policy prg h fs mal = Inr \<lparr>pp_numOTs = ?n,
      pp_tableRealSize = policy (scaled_size h), pp_hashSize = h, pp_fieldSize = fs, pp_fieldSizeBytes = bytes_of_bits fs,
      pp_gamma = 60, pp_isMalicious = mal, pp_keys = party_keys h, pp_vals = party_vals prg h fs,
      pp_dic = ObliviousDictionary policy h fs 60 :: 'f oblivious_dictionary, pp_code = c,
      pp_fixedKey = map (\<lambda>j. prg (h * bytes_of_bits fs + j)) [0..<128]\<rparr>" (is "_ = Inr ?pp")
    by (rule ProtocolParty_result [OF t])
  obtain d where D: "createDictionary (lib_of_bytes L) (lib_solve L) (lib_prg L)
      (setKeysAndVals (party_keys h) (party_vals prg h fs) (ObliviousDictionary policy h fs 60)) = Some d"
    and d: "tableRealSize d = policy (scaled_size h)" "sized d" "length (variables d) = ?n"
    "dec d = dec (ObliviousDictionary policy h fs 60 :: 'f oblivious_dictionary)" "fieldSizeBytes d = bytes_of_bits fs"
    and dec: "\<And>j. j < h \<Longrightarrow> decode d (party_keys h ! j) = lib_of_bytes L (chunk (party_vals prg h fs) (bytes_of_bits fs) j)"
    by (rule party_dictionary_result [OF ok], rule that)
  define sigma where "sigma = getVariables (lib_to_bytes L) d"
  have sigma: "sigma = concat (map (lib_to_bytes L (bytes_of_bits fs)) (variables d))"
    by (simp add: sigma_def getVariables_def d(5))
  have "length (lib_to_bytes L (bytes_of_bits fs) x) = bytes_of_bits fs" for x
    using ok by (simp add: psi_ok_def field_bytes_ok_def Let_def)
  then have len: "?n * bytes_of_bits fs \<le> length sigma"
    by (simp add: sigma length_concat o_def sum_list_triv d(3))
  have n: "7 * ?n < 2 ^ 31" using ok by (simp add: psi_ok_def)
  obtain r0 v s0 where S: "recv_setup mal fs ?n (PrtyMOtReceiver a i) = Some (Inr r0)"
    "send_setup mal fs ?n empty_bits (PrtyMOtSender b j) = Some (Inr (v, s0))"
    and R: "ot_start (roundUpTo (?n + 40) 128) ?n r0 s0" "words_ok r0 sigma (bytes_of_bits fs) ?n" "?n \<le> roundUpTo (?n + 40) 128"
    "mStride (mT0 r0) = codewordBlkSize (mCode_r r0)" "load t empty_code = Inr (mCode_r r0)" "code_for fs (mCode_r r0)"
    "mChoiceBlks s0 = bytes_blocks (codewordBlkSize (mCode_r r0)) (mData v)"
    "length (mGens_r r0) = 128 * codewordBlkSize (mCode_r r0)" "length (mGens_s s0) = 128 * codewordBlkSize (mCode_r r0)"
    by (rule new_parties_start [OF t n len bytes_of_bits_eq], rule that)
  have code: "c = mCode_r r0" using c(1) R(5) by simp
  show ?thesis
  proof (rule that [OF P])
    show "\<exists>p1. recv_createDictionary (lib_of_bytes L) (lib_solve L) (lib_prg L) (Receiver (PrtyMOtReceiver a i) ?pp) = Some p1 \<and>
      recv_runOOS p1 = Some (Inr (recv_before r0 d (Receiver (PrtyMOtReceiver a i) ?pp)))"
      using D S(1) t c(1) by (simp add: recv_createDictionary_def recv_runOOS_def recv_before_def)
    show "send_runOOS ((Sender (PrtyMOtSender b j) ?pp)\<lparr>pp_keys := ks, pp_vals := vs\<rparr>) =
      Some (Inr ((Sender (PrtyMOtSender b j) ?pp)\<lparr>pp_keys := ks, pp_vals := vs, baseChoice := v, sender := s0\<rparr>))" for ks vs
      using S(2) by (simp add: send_runOOS_def)
  qed (use R d dec code sigma in \<open>simp_all add: sigma_def [symmetric]\<close>)
qed

text \<open>The sum of the sender for a key and value of the receiver is the receiver's.\<close>

lemma send_output_match:
  fixes of_bytes :: "u8 list \<Rightarrow> 'f::ab_group_add"
  assumes c: "code_for fs c" and f: "field_bytes_ok fs of_bytes to_bytes" and d: "sized d"
    and q: "dec (pp_dic q) = dec d" "pp_tableRealSize q = tableRealSize d" "pp_code q = c" "pp_fieldSizeBytes q = n"
    and n: "n = bytes_of_bits fs" "n \<le> 48" and key: "pp_keys q ! i = key"
    and val: "n \<le> length (drop (i * n) (pp_vals q))" "take n (drop (i * n) (pp_vals q)) = to_bytes n (decode d key)"
    and rel: "\<And>k w. k < length (variables d) \<Longrightarrow> w < codewordBlkSize c \<Longrightarrow>
      cell (mT (sender q)) k w = cell M0 k w XOR (choice_word c (drop (n * k) (concat (map (to_bytes n) (variables d)))) w AND
        bytes_block (take 16 (drop (16 * w) (mData (baseChoice q)))))"
  shows "send_output junk (codewordBlkSize c) q i = row_xors M0 (tableRealSize d) (codewordBlkSize c) (dec d key)"
proof (rule nth_equalityI)
  let ?W = "codewordBlkSize c" and ?ks = "key_rows (tableRealSize d) (dec d key)"
  show "length (send_output junk ?W q i) = length (row_xors M0 (tableRealSize d) ?W (dec d key))"
    by (simp add: send_output_def row_xors_result(1) Let_def)
  fix w assume "w < length (send_output junk ?W q i)"
  then have w: "w < ?W" by (simp add: send_output_def Let_def)
  have "value_codeword c junk (drop (i * n) (pp_vals q)) n ! w = choice_word c (to_bytes n (decode d key)) w"
    using value_codeword_choice [OF c n(1) [unfolded bytes_of_bits_eq] n(2) val(1) w] val(2) by simp
  then have "send_output junk ?W q i ! w = xsum (\<lambda>k. cell (mT (sender q)) k w) ?ks XOR
      (choice_word c (to_bytes n (sum_list (map (\<lambda>k. variables d ! k) ?ks))) w AND
        bytes_block (take 16 (drop (16 * w) (mData (baseChoice q)))))"
    using w by (simp add: send_output_def Let_def q key row_xors_result(2) decode_rows)
  also have "\<dots> = xsum (\<lambda>k. cell M0 k w) ?ks"
    by (rule rows_match [OF c f w _ key_rows_less [OF d] n(1)]) (rule rel [OF _ w])
  finally show "send_output junk ?W q i ! w = row_xors M0 (tableRealSize d) ?W (dec d key) ! w"
    using w by (simp add: row_xors_result(2))
qed

text \<open>After the OT phase the rows of the two parties are related as this needs.\<close>

lemma sums_after_ot:
  fixes of_bytes :: "u8 list \<Rightarrow> 'f::ab_group_add"
  assumes c: "code_for fs (mCode_r r0)" and f: "field_bytes_ok fs of_bytes to_bytes" and d: "sized d" "length (variables d) = N"
    and inv: "ot_inv r0 s0 (concat (map (to_bytes n) (variables d))) n rows N x" and N: "N \<le> rows" "N \<le> send_next x"
    and r0: "mStride (mT0 r0) = codewordBlkSize (mCode_r r0)"
      "mChoiceBlks s0 = bytes_blocks (codewordBlkSize (mCode_r r0)) (mData (baseChoice q))"
    and q: "dec (pp_dic q) = dec d" "pp_tableRealSize q = tableRealSize d" "pp_code q = mCode_r r0" "pp_fieldSizeBytes q = n"
      "sender q = send_party x"
    and n: "n = bytes_of_bits fs" "n \<le> 48" and key: "pp_keys q ! k = key"
    and val: "n \<le> length (drop (k * n) (pp_vals q))" "take n (drop (k * n) (pp_vals q)) = to_bytes n (decode d key)"
  shows "send_output junk (codewordBlkSize (mCode_r r0)) q k =
    row_xors (mT0 (recv_party x)) (tableRealSize d) (codewordBlkSize (mCode_r r0)) (dec d key)"
proof (rule send_output_match [OF c f d(1) q(1-4) n key val])
  fix r w assume rw: "r < length (variables d)" "w < codewordBlkSize (mCode_r r0)"
  then have "r < min N (send_next x)" "w < mStride (mT0 r0)" using N(2) d(2) r0(1) by simp_all
  from ot_inv_rows [OF inv N(1) this]
  show "cell (mT (sender q)) r w = cell (mT0 (recv_party x)) r w XOR
      (choice_word (mCode_r r0) (drop (n * r) (concat (map (to_bytes n) (variables d)))) w AND
       bytes_block (take 16 (drop (16 * w) (mData (baseChoice q)))))"
    using rw(2) by (simp add: q(5) masked_row_def word_at_def r0(2) nth_bytes_blocks)
qed

lemma online_result:
  fixes L :: "'f::ab_group_add libs"
  assumes ok: "psi_ok policy prg L h fs" and vs: "length vs = h * bytes_of_bits fs"
  obtains pp where "ProtocolParty policy prg h fs mal = Inr pp" and "pp_keys pp = party_keys h" and "pp_vals pp = party_vals prg h fs"
    and "pp_fieldSizeBytes pp = bytes_of_bits fs"
    and "\<exists>p' q'. online L junk (Receiver (PrtyMOtReceiver a i) pp) ((Sender (PrtyMOtSender b j) pp)\<lparr>pp_keys := ks, pp_vals := vs\<rparr>) p' q'"
    and "\<And>p' q'. online L junk (Receiver (PrtyMOtReceiver a i) pp) ((Sender (PrtyMOtSender b j) pp)\<lparr>pp_keys := ks, pp_vals := vs\<rparr>) p' q' \<Longrightarrow>
      pp_hashSize p' = h \<and> length (xors q') = h \<and>
      (\<forall>k < h. \<forall>l < h. ks ! k = party_keys h ! l \<longrightarrow>
        chunk vs (bytes_of_bits fs) k = chunk (party_vals prg h fs) (bytes_of_bits fs) l \<longrightarrow> xors q' ! k \<in> xorsSet p')"
proof -
  let ?n = "bytes_of_bits fs"
  obtain pp d r0 v s0 where P: "ProtocolParty policy prg h fs mal = Inr pp"
    and pp: "pp_numOTs pp = 2 * policy (scaled_size h) + 60" "pp_tableRealSize pp = policy (scaled_size h)"
    "pp_hashSize pp = h" "pp_fieldSizeBytes pp = ?n" "pp_keys pp = party_keys h"
    "pp_vals pp = party_vals prg h fs" "pp_dic pp = ObliviousDictionary policy h fs 60" "pp_code pp = mCode_r r0"
    and before: "\<exists>p1. recv_createDictionary (lib_of_bytes L) (lib_solve L) (lib_prg L) (Receiver (PrtyMOtReceiver a i) pp) = Some p1 \<and>
      recv_runOOS p1 = Some (Inr (recv_before r0 d (Receiver (PrtyMOtReceiver a i) pp)))"
    and sruns: "\<And>ks vs. send_runOOS ((Sender (PrtyMOtSender b j) pp)\<lparr>pp_keys := ks, pp_vals := vs\<rparr>) =
      Some (Inr ((Sender (PrtyMOtSender b j) pp)\<lparr>pp_keys := ks, pp_vals := vs, baseChoice := v, sender := s0\<rparr>))"
    and start: "ot_start (roundUpTo (pp_numOTs pp + 40) 128) (pp_numOTs pp) r0 s0"
      "words_ok r0 (getVariables (lib_to_bytes L) d) ?n (pp_numOTs pp)" "pp_numOTs pp \<le> roundUpTo (pp_numOTs pp + 40) 128"
    and r0: "mStride (mT0 r0) = codewordBlkSize (mCode_r r0)" "code_for fs (mCode_r r0)"
      "mChoiceBlks s0 = bytes_blocks (codewordBlkSize (mCode_r r0)) (mData v)"
      "length (mGens_r r0) = 128 * codewordBlkSize (mCode_r r0)" "length (mGens_s s0) = 128 * codewordBlkSize (mCode_r r0)"
    and d: "tableRealSize d = policy (scaled_size h)" "sized d" "length (variables d) = pp_numOTs pp" "dec d = dec (pp_dic pp)"
      "getVariables (lib_to_bytes L) d = concat (map (lib_to_bytes L ?n) (variables d))"
    and dec: "\<And>j. j < h \<Longrightarrow> decode d (party_keys h ! j) = lib_of_bytes L (chunk (party_vals prg h fs) ?n j)"
    by (rule psi_start [OF ok, of mal a i b j], rule that)
  note f = ok [unfolded psi_ok_def, THEN conjunct2, THEN conjunct2, THEN conjunct2, THEN conjunct2, THEN conjunct2, THEN conjunct2, THEN conjunct1]
  define W where "W = codewordBlkSize (mCode_r r0)"
  define N where "N = pp_numOTs pp"
  define sigma where "sigma = getVariables (lib_to_bytes L) d"
  define p where "p = Receiver (PrtyMOtReceiver a i) pp"
  define q where "q = (Sender (PrtyMOtSender b j) pp)\<lparr>pp_keys := ks, pp_vals := vs\<rparr>"
  have W: "4 \<le> W" using r0(2) by (simp add: code_for_def W_def)
  obtain t where t: "code_table fs = Some t" using ok by (auto simp: psi_ok_def)
  have small: "0 < fs" "?n \<le> 48" using codes_small [OF t] by simp_all
  define p2 where "p2 = recv_before r0 d p"
  define q1 where "q1 = q\<lparr>baseChoice := v, sender := s0\<rparr>"
  obtain p1 where p1: "recv_createDictionary (lib_of_bytes L) (lib_solve L) (lib_prg L) p = Some p1" "recv_runOOS p1 = Some (Inr p2)"
    using before by (auto simp: p_def p2_def)
  have q1: "send_runOOS q = Some (Inr q1)" using sruns [where ks = ks and vs = vs] by (simp add: q_def q1_def)
  have fields: "pp_numOTs p2 = N" "pp_hashSize p2 = h" "pp_fieldSizeBytes p2 = ?n" "recv p2 = r0" "sender q1 = s0"
    "recv_sigma (lib_to_bytes L) p2 = sigma" "xorsSet p2 = {}" "pp_keys p2 = party_keys h" "pp_dic p2 = d"
    "pp_tableRealSize p2 = tableRealSize d" "pp_fixedKey p2 = pp_fixedKey pp" "pp_fixedKey q1 = pp_fixedKey pp"
    "pp_hashSize q1 = h" "pp_keys q1 = ks" "pp_vals q1 = vs" "pp_dic q1 = pp_dic pp" "pp_tableRealSize q1 = tableRealSize d"
    "pp_code q1 = mCode_r r0" "pp_fieldSizeBytes q1 = ?n" "baseChoice q1 = v"
    by (simp_all add: p2_def p_def q1_def q_def recv_before_def recv_sigma_def sigma_def pp d(1) N_def)
  define reach where "reach x \<longleftrightarrow> ot_reach junk sigma ?n N (ot_initial r0 s0) x \<and> ot_done N x" for x
  define X where "X k = xor_value (lib_evp L) (pp_fixedKey pp) k" for k
  have runs: "recv_computeXors (lib_evp L) (p2\<lparr>recv := recv_party x\<rparr>) = Inr (p2\<lparr>recv := recv_party x, xorsSet :=
        (\<lambda>l. X (row_xors (mT0 (recv_party x)) (tableRealSize d) W (dec d (party_keys h ! l)))) ` {..<h}\<rparr>) \<and>
      send_computeXors (lib_evp L) junk (q1\<lparr>sender := send_party x\<rparr>) = Inr (q1\<lparr>sender := send_party x, xors :=
        map (\<lambda>k. X (send_output junk W (q1\<lparr>sender := send_party x\<rparr>) k)) [0..<h]\<rparr>)" if "reach x" for x
  proof -
    have "mGens_r (recv_party x) = mGens_r r0 \<and> mGens_s (send_party x) = mGens_s s0"
      using ot_reach_gens [of junk sigma ?n N "ot_initial r0 s0" x] that by (simp add: reach_def ot_initial_def)
    moreover have "mGens_r r0 \<noteq> [] \<and> mGens_s s0 \<noteq> []" using r0(4,5) W by (auto simp: W_def)
    ultimately show ?thesis
      using r0(4,5) recv_computeXors_result [of "p2\<lparr>recv := recv_party x\<rparr>" "lib_evp L"]
        send_computeXors_result [of "q1\<lparr>sender := send_party x\<rparr>" "lib_evp L" junk]
      by (simp add: fields W_def X_def del: upt_Suc)
  qed
  have match: "send_output junk W (q1\<lparr>sender := send_party x\<rparr>) k =
      row_xors (mT0 (recv_party x)) (tableRealSize d) W (dec d (party_keys h ! l))"
    if x: "reach x" and kl: "k < h" "l < h" "ks ! k = party_keys h ! l"
      "chunk vs ?n k = chunk (party_vals prg h fs) ?n l" for x k l
    unfolding W_def
  proof (rule sums_after_ot [OF r0(2) f d(2)])
    show "ot_inv r0 s0 (concat (map (lib_to_bytes L ?n) (variables d))) ?n (roundUpTo (N + 40) 128) N x"
      using ot_inv_reach [OF start(1,2), of junk x] x by (simp add: reach_def sigma_def N_def d(5))
    show "take ?n (drop (k * ?n) (pp_vals (q1\<lparr>sender := send_party x\<rparr>))) = lib_to_bytes L ?n (decode d (party_keys h ! l))"
      using kl(4) party_value [OF f kl(2) small(1), of prg] dec [OF kl(2)] by (simp add: fields chunk_def)
    show "?n \<le> length (drop (k * ?n) (pp_vals (q1\<lparr>sender := send_party x\<rparr>)))"
      using vs mult_le_mono1 [of "Suc k" h ?n] kl(1) by (simp add: fields)
  qed (use kl small x start(3) r0 in \<open>simp_all add: fields d(3,4) N_def reach_def ot_done_def\<close>)
  have ex: "\<exists>p' q'. online L junk p q p' q'"
  proof -
    obtain x where x: "reach x"
      using ot_inv_ends [OF start(1,2) ot_inv_initial [OF start(1)]] by (auto simp: reach_def sigma_def N_def)
    obtain p3 q3 where "recv_computeXors (lib_evp L) (p2\<lparr>recv := recv_party x\<rparr>) = Inr p3"
      "send_computeXors (lib_evp L) junk (q1\<lparr>sender := send_party x\<rparr>) = Inr q3" using runs [OF x] by blast
    then have "online L junk p q p3 q3"
      using x by (intro online [OF p1 q1, where x = x]) (simp_all add: reach_def fields)
    then show ?thesis by blast
  qed
  have all: "pp_hashSize p' = h \<and> length (xors q') = h \<and> (\<forall>k < h. \<forall>l < h. ks ! k = party_keys h ! l \<longrightarrow>
      chunk vs ?n k = chunk (party_vals prg h fs) ?n l \<longrightarrow> xors q' ! k \<in> xorsSet p')"
    if "online L junk p q p' q'" for p' q'
    using that
  proof (cases rule: online.cases)
    case (online p1' p2' q1' x)
    then have same: "p2' = p2" "q1' = q1" using p1 q1 by simp_all
    then have x: "reach x" using online by (simp add: reach_def fields)
    then show ?thesis
      using runs [OF x] online(6,7) match [OF x] fields(2) unfolding same by auto
  qed
  show ?thesis
    by (rule that [OF P pp(5,6,4)]) (use ex all in \<open>simp_all add: p_def q_def\<close>)
qed

end
