(* ===== verification/Protocol_Properties.thy ===== *)
theory Protocol_Properties
  imports Protocol_Correct
begin

text \<open>
  The properties of a run of the protocol, each with an input it applies to: one key, a field of 65 bits
  (as bit strings), and a generator of the dictionary that yields ones.
\<close>

subsection \<open>Bit strings as a field of characteristic two\<close>

datatype gf = Gf (gf_word: "72 word")

instantiation gf :: ab_group_add
begin

definition "0 = Gf 0"
definition "a + b = Gf (gf_word a XOR gf_word b)"
definition "- a = (a :: gf)"
definition "a - b = (a + b :: gf)"

instance
  by standard (simp_all add: zero_gf_def plus_gf_def uminus_gf_def minus_gf_def ac_simps)

end

definition gf_of_bytes :: "u8 list \<Rightarrow> gf" where
  "gf_of_bytes bs = Gf (bytes_le bs)"

definition gf_to_bytes :: "nat \<Rightarrow> gf \<Rightarrow> u8 list" where
  "gf_to_bytes n x = word_bytes n (gf_word x)"

lemma gf_twice: "x + x = (0 :: gf)"
  by (simp add: zero_gf_def plus_gf_def)

lemma bit_word_bytes: "i < n \<Longrightarrow> bit (word_bytes n w ! i) j \<longleftrightarrow> j < 8 \<and> bit w (8 * i + j)"
  by (auto simp: word_bytes_def bit_simps dest: bit_imp_le_length)

lemma word_bytes_xor: "word_bytes n (a XOR b) = map2 (XOR) (word_bytes n a) (word_bytes n b)"
  by (rule nth_equalityI) (auto intro!: bit_word_eqI simp: bit_word_bytes bit_xor_iff)

lemma word_bytes_le:
  assumes "length bs = n" and "LENGTH('a::len) = 8 * n"
  shows "word_bytes n (bytes_le bs :: 'a word) = bs"
proof (rule nth_equalityI)
  fix i assume "i < length (word_bytes n (bytes_le bs :: 'a word))"
  then have i: "i < n" by simp
  show "word_bytes n (bytes_le bs :: 'a word) ! i = bs ! i"
    by (rule bit_word_eqI) (use i assms in \<open>simp add: bit_word_bytes bit_bytes_le\<close>)
qed (use assms in simp)

lemma gf_bytes_ok: "field_bytes_ok 65 gf_of_bytes gf_to_bytes"
  by (simp add: field_bytes_ok_def Let_def bytes_of_bits_def gf_of_bytes_def gf_to_bytes_def plus_gf_def word_bytes_xor word_bytes_le)

text \<open>A solver that searches; \<open>n\<close> is the number of elements.\<close>

definition gf_solver :: "nat \<Rightarrow> bool list list \<Rightarrow> gf list \<Rightarrow> nat \<Rightarrow> gf list" where
  "gf_solver n A B cols =
     (case find (solves A B) (List.n_lists cols (map (\<lambda>i. Gf (of_nat i)) [0..<n])) of
        Some X \<Rightarrow> X | None \<Rightarrow> [])"

lemma gf_solver_ok: "solver_ok (gf_solver (2 ^ 72))"
  unfolding solver_ok_def
proof (intro allI impI)
  fix A :: "bool list list" and B :: "gf list" and cols
  define els where "els = map (\<lambda>i. Gf (of_nat i)) [0..<2 ^ 72]"
  have "x \<in> set els" for x
  proof -
    have "x = Gf (of_nat (unat (gf_word x)))" by simp
    moreover have "unat (gf_word x) < 2 ^ 72" by (rule order_less_le_trans [OF unsigned_less]) simp
    ultimately show ?thesis unfolding els_def set_map set_upt by (metis atLeastLessThan_iff image_eqI le0)
  qed
  then have all: "X \<in> set (List.n_lists cols els) \<longleftrightarrow> length X = cols" for X
    by (auto simp: set_n_lists)
  assume "\<exists>X. length X = cols \<and> solves A B X"
  then obtain X where X: "X \<in> set (List.n_lists cols els)" "solves A B X" using all by blast
  have "gf_solver (2 ^ 72) A B cols = (case find (solves A B) (List.n_lists cols els) of Some X \<Rightarrow> X | None \<Rightarrow> [])"
    by (simp only: gf_solver_def els_def)
  moreover obtain Y where Y: "find (solves A B) (List.n_lists cols els) = Some Y"
    using X by (cases "find (solves A B) (List.n_lists cols els)") (auto simp: find_None_iff)
  moreover have "Y \<in> set (List.n_lists cols els)" "solves A B Y"
    using Y [unfolded find_Some_iff] by (auto simp: in_set_conv_nth)
  ultimately show "length (gf_solver (2 ^ 72) A B cols) = cols \<and> solves A B (gf_solver (2 ^ 72) A B cols)"
    using all by simp
qed

subsection \<open>A run with one key\<close>

definition one_libs :: "gf libs" where
  "one_libs = \<lparr>lib_of_bytes = gf_of_bytes, lib_to_bytes = gf_to_bytes, lib_solve = gf_solver (2 ^ 72),
     lib_prg = (\<lambda>_. 1), lib_evp = (\<lambda>key text. map (\<lambda>b. b XOR hd key) text)\<rparr>"

definition one_dictionary :: "gf oblivious_dictionary" where
  "one_dictionary = party_dictionary (max 1) (\<lambda>_. 0) 1 65"


lemma one_vals: "party_vals (\<lambda>_. 0) 1 65 = replicate 9 0"
  by code_simp

lemma one_fields:
  "hashSize one_dictionary = 1" "tableRealSize one_dictionary = 1" "keys one_dictionary = [0]" "gamma one_dictionary = 60"
  "first one_dictionary = uset_new (max 1) 1 1" "second one_dictionary = uset_new (max 1) 1 2"
  "sign one_dictionary = replicate 2 0" "values one_dictionary = replicate 9 0" "fieldSizeBytes one_dictionary = 9"
  by (simp_all add: one_dictionary_def party_dictionary_def party_keys_def new_dictionary_def setKeysAndVals_def
      ObliviousDictionary_def createSets_def Let_def scaled_size_def bytes_of_bits_def one_vals [simplified])

lemma one_value: "value_at gf_of_bytes one_dictionary 0 = 0"
proof -
  have "bytes_le (replicate 9 (0 :: u8)) = (0 :: 72 word)" by (rule bit_word_eqI) (simp add: bit_bytes_le)
  then show ?thesis by (simp add: value_at_def one_fields gf_of_bytes_def zero_gf_def)
qed

definition one_set :: "u64 \<Rightarrow> u64 list \<Rightarrow> uset" where
  "one_set h els = \<lparr>us_hash = h, rehash_policy = max 1, bucket_count = 1, us_elems = els\<rparr>"

lemma one_set_simps [simp]:
  "uset_bucket (one_set h els) k = 0" "uset_bucket_list (one_set h els) 0 = els"
  "uset_erase k (one_set h els) = one_set h (removeAll k els)"
  by (simp_all add: one_set_def uset_bucket_def uset_bucket_list_def uset_erase_def)

lemma one_start: "start_state gf_of_bytes one_dictionary = one_dictionary\<lparr>vals := [0 \<mapsto> 0], peelingVector := [],
    peelingCounter := 0, first := one_set 1 [0], second := one_set 2 [0], variables := replicate 62 0\<rparr>"
  by (simp add: start_state_def init_eq fillTables_def one_fields one_value uset_clear_def uset_new_def uset_insert_def
      one_set_def Let_def)

text \<open>After peeling; the linear system is empty and leaves it as it is.\<close>

definition one_peeled :: "gf oblivious_dictionary" where
  "one_peeled = one_dictionary\<lparr>vals := [0 \<mapsto> 0], peelingVector := [0],
    peelingCounter := 1, first := one_set 1 [], second := one_set 2 [], variables := replicate 62 0\<rparr>"

lemma one_peeling: "peeling (start_state gf_of_bytes one_dictionary) = Some one_peeled"
  by (simp add: one_start one_peeled_def peeling_def one_fields Let_def vec_resize_def peel_first_step_def
      uset_bucket_size_def push_peeled_def peel_second_step_def)

lemma list_update_replicate: "(replicate n z)[i := z] = replicate n z"
  by (rule nth_equalityI; cases "i < n"; simp add: nth_list_update)

lemma foldl_update_zero:
  "(\<And>i. i \<in> set xs \<Longrightarrow> g i = 0) \<Longrightarrow> foldl (\<lambda>vs i. vs[f i := g i]) (replicate n 0) xs = replicate n 0"
  by (induction xs) (simp_all add: list_update_replicate)

lemma one_system: "generateExternalToolValues solve one_peeled = one_peeled"
proof -
  have cycle: "cycle_keys one_peeled = []" by (simp add: cycle_keys_def one_peeled_def one_fields uset_bucket_size_def)
  have size: "hashSize one_peeled - peelingCounter one_peeled = 0" by (simp add: one_peeled_def one_fields)
  have sb: "matrix (build_system one_peeled) = []" "sb_sign (build_system one_peeled) = sign one_peeled"
    by (simp_all add: build_system_def Let_def cycle size)
  have f: "variables one_peeled = replicate 62 0" "gamma one_peeled = 60" "tableRealSize one_peeled = 1"
    by (simp_all add: one_peeled_def one_fields)
  have "write_back one_peeled (build_system one_peeled) 0 (replicate 60 0) = variables one_peeled"
    using foldl_update_zero [of "[0..<60]" "\<lambda>i. replicate 60 (0 :: gf) ! i" "\<lambda>i. Suc (Suc i)" 62]
    by (simp add: write_back_def Let_def cycle f)
  then show ?thesis
    by (simp add: generateExternalToolValues_def Let_def solve_api_def sb size f(2))
qed

lemma one_random: "gf_of_bytes (replicate 9 1) \<noteq> 0"
  by (simp add: gf_of_bytes_def zero_gf_def) code_simp

lemma one_dh: "variables d = x # y # replicate 60 0 \<Longrightarrow> tableRealSize d = 1 \<Longrightarrow> dh_sum d (dh_loop 0 60 w) = 0"
  by (simp add: dh_sum_eq sum.neutral)

lemma one_unpeel:
  assumes "variables d = 0 # 0 # replicate 60 0" and "sign d = replicate 2 0" and "tableRealSize d = 1" and "gamma d = 60"
    and "h1 d 0 = 0" "h2 d 0 = 0" "vals d 0 = Some 0" "fieldSizeBytes d = 9"
  shows "variables (unpeel_step gf_of_bytes (\<lambda>_. 1) 0 d) =
    gf_of_bytes (replicate 9 1) # gf_of_bytes (replicate 9 1) # replicate 60 0"
  using assms one_random by (simp add: unpeel_step_def Let_def lookup0_def one_dh map_replicate_const)

lemma unpeel_step_frame:
  "sign (unpeel_step f prg k d) = sign d" "tableRealSize (unpeel_step f prg k d) = tableRealSize d"
  "first (unpeel_step f prg k d) = first d" "second (unpeel_step f prg k d) = second d"
  by (simp_all add: unpeel_step_def Let_def)

lemma one_nonzero: "no_zero_variable gf_of_bytes solve (\<lambda>_. 1) one_dictionary"
proof -
  define d where "d = one_peeled\<lparr>peelingCounter := 0\<rparr>"
  have "variables d = 0 # 0 # replicate 60 0" by (simp add: d_def one_peeled_def numeral_eq_Suc)
  moreover have d: "sign d = replicate 2 0" "tableRealSize d = 1" "gamma d = 60" "h1 d 0 = 0" "h2 d 0 = 0"
    "vals d 0 = Some 0" "fieldSizeBytes d = 9" by (simp_all add: d_def one_peeled_def one_fields)
  ultimately have v: "variables (unpeel_step gf_of_bytes (\<lambda>_. 1) 0 d) =
      gf_of_bytes (replicate 9 1) # gf_of_bytes (replicate 9 1) # replicate 60 0" by (rule one_unpeel)
  have "peelingVector d ! 0 = 0" "peelingCounter one_peeled = Suc 0" by (simp_all add: d_def one_peeled_def)
  then have "unpeel_nonzero gf_of_bytes (\<lambda>_. 1) (peelingCounter one_peeled) one_peeled"
    using one_random by (simp add: Let_def d_def [symmetric] fresh_def unpeel_step_frame d v)
  then show ?thesis by (simp add: no_zero_variable_def one_peeling one_system)
qed

lemma one_encodable: "encodable gf_of_bytes one_dictionary"
proof -
  have "encodes (start_state gf_of_bytes one_dictionary) (replicate 62 0) {0}"
    by (simp add: encodes_def decode_eq one_start one_fields lookup0_def sum.neutral)
  then show ?thesis by (auto simp: encodable_def one_fields)
qed

lemma one_ok: "psi_ok (max 1) (\<lambda>_. 0) one_libs 1 65"
  using one_encodable one_nonzero gf_solver_ok gf_bytes_ok gf_twice max1_policy
  by (simp add: psi_ok_def one_libs_def one_dictionary_def code_table_def scaled_size_def del: upt_Suc)

subsection \<open>The exchange of the results\<close>

lemma concat_words:
  "i < length ws \<Longrightarrow> take 8 (drop (8 * i) (concat (map (word_bytes 8) ws))) = word_bytes 8 (ws ! i)"
  using concat_chunk [of ws "word_bytes 8" 8 i] by simp

lemma read_words_concat: "read_words (length ws) (concat (map (word_bytes 8) ws)) = ws"
  by (rule nth_equalityI) (simp_all add: read_words_def concat_words bytes_le_word_bytes)

lemma foldl_count: "foldl (\<lambda>n x. if P x then n + 1 else n) a xs = a + length (filter P xs)"
  by (induction xs arbitrary: a) simp_all

lemma filter_upt_take:
  "h \<le> length ws \<Longrightarrow> length (filter (\<lambda>i. ws ! i \<in> S) [0..<h]) = length (filter (\<lambda>w. w \<in> S) (take h ws))"
  by (induction h) (simp_all add: take_Suc_conv_app_nth)

lemma exchange:
  assumes "length (xors q) < 2 ^ 64"
  shows "receiveSenderXors (sendXors q) p = (if pp_hashSize p \<le> length (xors q)
    then Some (length (filter (\<lambda>w. w \<in> xorsSet p) (take (pp_hashSize p) (xors q)))) else None)"
proof -
  have "unat (of_nat (length (xors q)) :: u64) = length (xors q)" using assms by (simp add: unat_of_nat)
  moreover have "bytes_le (word_bytes 8 (of_nat (length (xors q)) :: u64)) = (of_nat (length (xors q)) :: u64)"
    by (rule bytes_le_word_bytes) simp
  ultimately show ?thesis
    by (simp add: receiveSenderXors_def sendXors_def Let_def read_words_concat foldl_count filter_upt_take del: upt_Suc)
qed

text \<open>
  C15: the receiver counts how many of the first \<open>hashSize\<close> values of the sender are among its own; with
  fewer values than keys of the receiver it reads outside the vector.
\<close>

theorem xors_exchange:
  assumes "length (xors q) < 2 ^ 64"
  shows "receiveSenderXors (sendXors q) p = (if pp_hashSize p \<le> length (xors q)
    then Some (length (filter (\<lambda>w. w \<in> xorsSet p) (take (pp_hashSize p) (xors q)))) else None)"
  using assms by (rule exchange)

definition two_sender :: "gf sender_party" where
  "two_sender = Sender (PrtyMOtSender False 0) \<lparr>pp_numOTs = 0, pp_tableRealSize = 0, pp_hashSize = 2, pp_fieldSize = 65,
     pp_fieldSizeBytes = 9, pp_gamma = 60, pp_isMalicious = False, pp_keys = [], pp_vals = [], pp_dic = one_dictionary,
     pp_code = empty_code, pp_fixedKey = []\<rparr>"

definition three_receiver :: "gf receiver_party" where
  "three_receiver = Receiver (PrtyMOtReceiver False 0) \<lparr>pp_numOTs = 0, pp_tableRealSize = 0, pp_hashSize = 3, pp_fieldSize = 65,
     pp_fieldSizeBytes = 9, pp_gamma = 60, pp_isMalicious = False, pp_keys = [], pp_vals = [], pp_dic = one_dictionary,
     pp_code = empty_code, pp_fixedKey = []\<rparr>"

theorem xors_exchange_witness:
  "receiveSenderXors (sendXors (two_sender\<lparr>xors := [5, 6]\<rparr>)) three_receiver = None \<and>
   receiveSenderXors (sendXors (two_sender\<lparr>xors := [5, 6, 7]\<rparr>)) (three_receiver\<lparr>xorsSet := {6, 7, 8}\<rparr>) = Some 2"
  using xors_exchange [of "two_sender\<lparr>xors := [5, 6]\<rparr>" three_receiver]
    xors_exchange [of "two_sender\<lparr>xors := [5, 6, 7]\<rparr>" "three_receiver\<lparr>xorsSet := {6, 7, 8}\<rparr>"]
  by (simp add: three_receiver_def)

subsection \<open>The protocol\<close>

text \<open>
  C1: the protocol finds what the parties share. Whatever keys and values the sender has, a run exists,
  and after every run, in whatever order the batches of the OT phase went, the value that the sender
  sends for a key and value that the receiver has too is among the values of the receiver.
\<close>

theorem psi_match:
  fixes L :: "'f::ab_group_add libs"
  assumes "psi_ok policy prg L h fs" and "length vs = h * bytes_of_bits fs"
  shows "\<exists>pp. ProtocolParty policy prg h fs mal = Inr pp \<and>
    (let p = Receiver (PrtyMOtReceiver a i) pp; q = (Sender (PrtyMOtSender b j) pp)\<lparr>pp_keys := ks, pp_vals := vs\<rparr>;
         n = pp_fieldSizeBytes pp
     in (\<exists>p' q'. online L junk p q p' q') \<and>
        (\<forall>p' q'. online L junk p q p' q' \<longrightarrow> (\<forall>k < h. \<forall>l < h.
           ks ! k = pp_keys pp ! l \<and> chunk vs n k = chunk (pp_vals pp) n l \<longrightarrow> xors q' ! k \<in> xorsSet p')))"
  by (rule online_result [OF assms, where mal = mal and junk = junk and a = a and i = i and b = b and j = j and ks = ks]) (force simp: Let_def)

theorem psi_match_witness:
  "\<exists>pp. ProtocolParty (max 1) (\<lambda>_. 0) 1 65 True = Inr pp \<and>
    (let p = Receiver (PrtyMOtReceiver False 0) pp;
         q = (Sender (PrtyMOtSender False 0) pp)\<lparr>pp_keys := [0], pp_vals := replicate 9 0\<rparr>;
         n = pp_fieldSizeBytes pp
     in (\<exists>p' q'. online one_libs [] p q p' q') \<and>
        (\<forall>p' q'. online one_libs [] p q p' q' \<longrightarrow> (\<forall>k < 1. \<forall>l < 1.
           [0] ! k = pp_keys pp ! l \<and> chunk (replicate 9 0) n k = chunk (pp_vals pp) n l \<longrightarrow> xors q' ! k \<in> xorsSet p')))"
  by (rule psi_match [OF one_ok]) (simp add: bytes_of_bits_def)

lemma psi_ok_small: "psi_ok policy prg L h fs \<Longrightarrow> h < 2 ^ 64"
proof -
  assume ok: "psi_ok policy prg L h fs"
  have "scaled_size h \<le> policy (scaled_size h)" using ok by (simp add: psi_ok_def policy_ok_def)
  moreover have "7 * (2 * policy (scaled_size h) + 60) < 2 ^ 31" using ok by (simp add: psi_ok_def)
  moreover have "h \<le> scaled_size h" by (simp add: scaled_size_def less_eq_div_iff_mult_less_eq)
  ultimately have "h < 2147483648" by simp
  then show ?thesis by (rule less_trans) simp
qed

text \<open>
  C2: the two parties as they are constructed hold the same keys and values; at the end of every run
  the receiver reports that all of them match.
\<close>

theorem psi_counts_all:
  fixes L :: "'f::ab_group_add libs"
  assumes "psi_ok policy prg L h fs"
  shows "\<exists>pp. ProtocolParty policy prg h fs mal = Inr pp \<and>
    (\<exists>p' q'. online L junk (Receiver (PrtyMOtReceiver a i) pp) (Sender (PrtyMOtSender b j) pp) p' q') \<and>
    (\<forall>p' q'. online L junk (Receiver (PrtyMOtReceiver a i) pp) (Sender (PrtyMOtSender b j) pp) p' q' \<longrightarrow>
       receiveSenderXors (sendXors q') p' = Some h)"
proof -
  have fs: "0 < fs" using assms codes_small(1) by (auto simp: psi_ok_def)
  have len: "length (party_vals prg h fs) = h * bytes_of_bits fs"
  proof (cases h)
    case (Suc h')
    then show ?thesis
      using mask_vals_nth(1) [of "bytes_of_bits fs" h "map prg [0..<h * bytes_of_bits fs]" 0] fs
      by (simp add: party_vals_def bytes_of_bits_eq)
  qed (simp add: party_vals_def mask_vals_def)
  obtain pp where pp: "ProtocolParty policy prg h fs mal = Inr pp" "pp_keys pp = party_keys h" "pp_vals pp = party_vals prg h fs"
    and ex: "\<exists>p' q'. online L junk (Receiver (PrtyMOtReceiver a i) pp)
      ((Sender (PrtyMOtSender b j) pp)\<lparr>pp_keys := party_keys h, pp_vals := party_vals prg h fs\<rparr>) p' q'"
    and run: "\<And>p' q'. online L junk (Receiver (PrtyMOtReceiver a i) pp)
      ((Sender (PrtyMOtSender b j) pp)\<lparr>pp_keys := party_keys h, pp_vals := party_vals prg h fs\<rparr>) p' q' \<Longrightarrow>
      pp_hashSize p' = h \<and> length (xors q') = h \<and>
      (\<forall>k < h. \<forall>l < h. party_keys h ! k = party_keys h ! l \<longrightarrow>
        chunk (party_vals prg h fs) (bytes_of_bits fs) k = chunk (party_vals prg h fs) (bytes_of_bits fs) l \<longrightarrow> xors q' ! k \<in> xorsSet p')"
    by (rule online_result [OF assms len, where mal = mal and junk = junk and a = a and i = i and b = b and j = j and ks = "party_keys h"], rule that)
  have q: "(Sender (PrtyMOtSender b j) pp)\<lparr>pp_keys := party_keys h, pp_vals := party_vals prg h fs\<rparr> = Sender (PrtyMOtSender b j) pp"
    using pp(2,3) by (simp add: Sender_def protocol_party.extend_def sender_party.fields_def)
  have "receiveSenderXors (sendXors q') p' = Some h"
    if "online L junk (Receiver (PrtyMOtReceiver a i) pp) (Sender (PrtyMOtSender b j) pp) p' q'" for p' q'
  proof -
    note r = run [unfolded q, OF that]
    then have "filter (\<lambda>w. w \<in> xorsSet p') (xors q') = xors q'" by (auto simp: filter_id_conv in_set_conv_nth)
    then show ?thesis using exchange [of q' p'] r psi_ok_small [OF assms] by simp
  qed
  with pp(1) ex [unfolded q] show ?thesis by blast
qed

theorem psi_counts_all_witness:
  "\<exists>pp. ProtocolParty (max 1) (\<lambda>_. 0) 1 65 False = Inr pp \<and>
    (\<exists>p' q'. online one_libs [] (Receiver (PrtyMOtReceiver False 0) pp) (Sender (PrtyMOtSender False 0) pp) p' q') \<and>
    (\<forall>p' q'. online one_libs [] (Receiver (PrtyMOtReceiver False 0) pp) (Sender (PrtyMOtSender False 0) pp) p' q' \<longrightarrow>
       receiveSenderXors (sendXors q') p' = Some 1)"
  by (rule psi_counts_all [OF one_ok])

subsection \<open>The check of the variables\<close>

lemma byte_sum:
  fixes of_bytes :: "u8 list \<Rightarrow> 'f::ab_group_add"
  assumes "field_bytes_ok fs of_bytes to_bytes" and "j < bytes_of_bits fs"
  shows "to_bytes (bytes_of_bits fs) (sum_list xs) ! j = xsum (\<lambda>x. to_bytes (bytes_of_bits fs) x ! j) xs"
proof -
  have plus: "to_bytes (bytes_of_bits fs) (x + y) ! j = to_bytes (bytes_of_bits fs) x ! j XOR to_bytes (bytes_of_bits fs) y ! j" for x y
    using assms by (simp add: field_bytes_ok_def Let_def)
  have "to_bytes (bytes_of_bits fs) 0 ! j = 0" using plus [of 0 0] by simp
  then show ?thesis by (induction xs) (simp_all add: plus)
qed

lemma concat_chunk_nth:
  assumes "\<And>x. x \<in> set xs \<Longrightarrow> length (f x) = n" and "k < length xs" and "j < n"
  shows "concat (map f xs) ! (k * n + j) = f (xs ! k) ! j"
proof -
  have "f (xs ! k) ! j = take n (drop (n * k) (concat (map f xs))) ! j"
    using concat_chunk [OF assms(1,2)] by simp
  moreover have "length (take n (drop (n * k) (concat (map f xs)))) = n"
    using concat_chunk [OF assms(1,2)] assms(1) [of "xs ! k"] assms(2) by simp
  then have "n * k + n \<le> length (concat (map f xs))" using assms(3) by simp
  ultimately show ?thesis using assms(3) by (simp add: mult.commute)
qed

lemma check_key_sum:
  assumes "pp_fieldSizeBytes p = n" and "dec (pp_dic p) (pp_keys p ! i) = indices"
    and "\<And>j. j < n \<Longrightarrow> xsum (\<lambda>k. vars ! (k * n + j)) (key_rows (pp_tableRealSize p) indices) = pp_vals p ! (i * n + j)"
  shows "check_key vars p i"
proof -
  let ?T = "pp_tableRealSize p"
  have "foldl (\<lambda>check k. map (\<lambda>j. check ! j XOR vars ! (2 * ?T * n + indices ! k * n + j)) [0..<n])
      (map (\<lambda>j. vars ! (indices ! 0 * n + j) XOR vars ! (?T * n + indices ! 1 * n + j)) [0..<n]) [2..<length indices] ! j =
      pp_vals p ! (i * n + j)" if "j < n" for j
  proof -
    have "map (\<lambda>k. 2 * ?T + indices ! k) [2..<length indices] = map (\<lambda>k. 2 * ?T + k) (drop 2 indices)"
      by (rule map_nth_drop)
    then have "xsum (\<lambda>k. vars ! ((2 * ?T + indices ! k) * n + j)) [2..<length indices] =
        xsum (\<lambda>k. vars ! (k * n + j)) (map (\<lambda>k. 2 * ?T + k) (drop 2 indices))"
      using xsum_map [of "\<lambda>k. vars ! (k * n + j)" "\<lambda>k. 2 * ?T + indices ! k" "[2..<length indices]"] by (simp add: o_def)
    then show ?thesis
      using assms(3) [OF that] that by (simp add: foldl_map_xor key_rows_def distrib_right xor.assoc)
  qed
  then show ?thesis by (simp add: check_key_def Let_def assms(1,2) list_all_iff)
qed

text \<open>
  C11: the check that the receiver can run on its variables finds no error after the dictionary was
  created: for every key the bytes of the variables of the key add up to the bytes of its value.
\<close>

theorem checkVariables_success:
  fixes L :: "'f::ab_group_add libs"
  assumes "psi_ok policy prg L h fs"
  shows "\<exists>pp p1 p2. ProtocolParty policy prg h fs mal = Inr pp \<and>
    recv_createDictionary (lib_of_bytes L) (lib_solve L) (lib_prg L) (Receiver (PrtyMOtReceiver a i) pp) = Some p1 \<and>
    checkVariables (recv_sigma (lib_to_bytes L) p1) p1 = Inr (True, p2)"
proof -
  let ?n = "bytes_of_bits fs"
  obtain t where t: "code_table fs = Some t" using assms by (auto simp: psi_ok_def)
  note f = assms [unfolded psi_ok_def, THEN conjunct2, THEN conjunct2, THEN conjunct2, THEN conjunct2, THEN conjunct2, THEN conjunct2, THEN conjunct1]
  obtain pp :: "'f protocol_party" where P: "ProtocolParty policy prg h fs mal = Inr pp" and pp: "pp_tableRealSize pp = policy (scaled_size h)"
    "pp_hashSize pp = h" "pp_fieldSize pp = fs" "pp_fieldSizeBytes pp = ?n" "pp_keys pp = party_keys h"
    "pp_vals pp = party_vals prg h fs" "pp_dic pp = ObliviousDictionary policy h fs 60"
    by (rule ProtocolParty_result [OF t, of policy prg h mal]) force
  obtain d where D: "createDictionary (lib_of_bytes L) (lib_solve L) (lib_prg L)
      (setKeysAndVals (party_keys h) (party_vals prg h fs) (ObliviousDictionary policy h fs 60)) = Some d"
    and d: "tableRealSize d = policy (scaled_size h)" "sized d" "length (variables d) = 2 * policy (scaled_size h) + 60"
    "dec d = dec (ObliviousDictionary policy h fs 60 :: 'f oblivious_dictionary)" "fieldSizeBytes d = ?n"
    and dec: "\<And>j. j < h \<Longrightarrow> decode d (party_keys h ! j) = lib_of_bytes L (chunk (party_vals prg h fs) ?n j)"
    by (rule party_dictionary_result [OF assms], rule that)
  define p1 where "p1 = (Receiver (PrtyMOtReceiver a i) pp)\<lparr>pp_dic := d\<rparr>"
  define vars where "vars = concat (map (lib_to_bytes L ?n) (variables d))"
  have vars: "recv_sigma (lib_to_bytes L) p1 = vars" by (simp add: recv_sigma_def p1_def getVariables_def d(5) vars_def)
  have len: "length (lib_to_bytes L ?n x) = ?n" for x using f by (simp add: field_bytes_ok_def Let_def)
  have key: "check_key vars p1 k" if k: "k < h" for k
  proof (rule check_key_sum)
    let ?ks = "key_rows (pp_tableRealSize p1) (dec d (party_keys h ! k))"
    have T: "pp_tableRealSize p1 = tableRealSize d" by (simp add: p1_def pp d(1))
    fix j assume j: "j < ?n"
    have "xsum (\<lambda>k. vars ! (k * ?n + j)) ?ks = xsum (\<lambda>k. lib_to_bytes L ?n (variables d ! k) ! j) ?ks"
      unfolding vars_def using key_rows_less [OF d(2)] j len T by (intro xsum_cong refl concat_chunk_nth) simp_all
    also have "\<dots> = lib_to_bytes L ?n (decode d (party_keys h ! k)) ! j"
      using byte_sum [OF f j, of "map (\<lambda>k. variables d ! k) ?ks"] by (simp add: decode_rows T o_def)
    also have "\<dots> = party_vals prg h fs ! (k * ?n + j)"
      using party_value [OF f k codes_small(1) [OF t], of prg] dec [OF k] len [of "decode d (party_keys h ! k)"] j
      by (auto simp: chunk_def min_def split: if_splits)
    finally show "xsum (\<lambda>k. vars ! (k * ?n + j)) ?ks = pp_vals p1 ! (k * ?n + j)" by (simp add: p1_def pp)
  qed (simp_all add: p1_def pp d(4))
  obtain c gs where "configure_r (pp_isMalicious p1) 40 fs (PrtyMOtReceiver a i) = Inr (PrtyMOtReceiver a i\<lparr>mCode_r := c,
      mInputByteCount_r := (fs + 7) div 8, mStatSecParam_r := 40, mMalicious_r := pp_isMalicious p1, mGens_r := gs\<rparr>)"
    and "length gs = 128 * codewordBlkSize c" and "code_for fs c"
    by (rule configure_r_result [OF t fit_new(1)], rule that)
  then have "\<exists>p2. checkVariables vars p1 = Inr (True, p2)"
    using key by (auto simp: checkVariables_def p1_def pp getBaseOTCount_r_def list_all_iff code_for_def)
  then show ?thesis using P D vars by (auto simp: p1_def recv_createDictionary_def pp)
qed

theorem checkVariables_success_witness:
  "\<exists>pp p1 p2. ProtocolParty (max 1) (\<lambda>_. 0) 1 65 False = Inr pp \<and>
    recv_createDictionary (lib_of_bytes one_libs) (lib_solve one_libs) (lib_prg one_libs) (Receiver (PrtyMOtReceiver False 0) pp) = Some p1 \<and>
    checkVariables (recv_sigma (lib_to_bytes one_libs) p1) p1 = Inr (True, p2)"
  by (rule checkVariables_success [OF one_ok])

subsection \<open>Where the protocol falls short\<close>

text \<open>
  C17: when the field size is a multiple of eight, \<^verbatim>\<open>zeroBits\<close> is eight and not zero: the masking of the
  padding bits, of which there are none, clears the last byte of every value.
\<close>

theorem last_byte_cleared:
  assumes "ProtocolParty policy prg h fs mal = Inr pp" and "fs mod 8 = 0" and "0 < fs" and "k < h"
  shows "pp_vals pp ! ((k + 1) * pp_fieldSizeBytes pp - 1) = 0"
proof -
  let ?n = "bytes_of_bits fs"
  have n: "0 < ?n" using assms(3) by (simp add: bytes_of_bits_eq)
  have pp: "pp_vals pp = party_vals prg h fs" "pp_fieldSizeBytes pp = ?n"
    using assms(1) by (auto simp: ProtocolParty_def Let_def party_fields party_vals_def res_bind_Inr_iff)
  have at: "(k + 1) * ?n - 1 = k * ?n + ?n - Suc 0" by (simp add: algebra_simps)
  have "k * ?n + ?n \<le> h * ?n" using mult_le_mono1 [of "Suc k" h ?n] assms(4) by simp
  then have "k * ?n + ?n - Suc 0 < h * ?n" using n by linarith
  then have "party_vals prg h fs ! (k * ?n + ?n - Suc 0) = drop_bit 8 (prg (k * ?n + ?n - Suc 0))"
    unfolding party_vals_def
    using mask_vals_nth(2) [OF n, of h "map prg [0..<h * ?n]" "k * ?n + ?n - Suc 0"] last_index [OF n, of k] assms(2) by simp
  moreover have "drop_bit 8 (b :: u8) = 0" for b by (rule bit_word_eqI) (simp add: bit_simps)
  ultimately show ?thesis by (simp only: pp at)
qed

theorem last_byte_cleared_witness:
  "\<exists>pp :: gf protocol_party. ProtocolParty (max 1) (\<lambda>_. 0xFF) 2 72 False = Inr pp \<and>
    pp_vals pp ! ((1 + 1) * pp_fieldSizeBytes pp - 1) = 0"
proof -
  have "code_table 72 = Some mx72by462" by (simp add: code_table_def)
  then obtain pp :: "gf protocol_party" where "ProtocolParty (max 1) (\<lambda>_. 0xFF) 2 72 False = Inr pp"
    by (rule ProtocolParty_result)
  then show ?thesis using last_byte_cleared [of "max 1" "\<lambda>_. 0xFF" 2 72 False pp 1] by auto
qed

text \<open>The encryption is block by block.\<close>

definition ecb_ok :: "(u8 list \<Rightarrow> u8 list \<Rightarrow> u8 list) \<Rightarrow> bool" where
  "ecb_ok evp \<longleftrightarrow> (\<exists>enc. \<forall>key bs. evp key (blocks_bytes bs) = concat (map (\<lambda>b. block_bytes (enc key b)) bs))"

text \<open>
  C16: the values that are compared depend on the first block of a sum of rows only, so two sums that
  differ in the other blocks of the codeword count as equal.
\<close>

theorem first_block_decides:
  assumes "ecb_ok evp"
  shows "xor_value evp key (b # bs) = xor_value evp key (b # bs')"
  using assms by (auto simp: ecb_ok_def xor_value_def simp del: blocks_bytes_simps)

theorem first_block_decides_witness:
  "xor_value (lib_evp one_libs) [7] [1, 2, 3, 4] = xor_value (lib_evp one_libs) [7] [1, 0, 0, 0]"
proof (rule first_block_decides)
  have "map (\<lambda>b. b XOR hd key) (blocks_bytes bs) =
      concat (map (\<lambda>b. block_bytes (bytes_block (map (\<lambda>b. b XOR hd key) (block_bytes b)))) bs)" for key bs
    by (induction bs) simp_all
  then show "ecb_ok (lib_evp one_libs)"
    unfolding ecb_ok_def one_libs_def
    by (intro exI [of _ "\<lambda>key b. bytes_block (map (\<lambda>b. b XOR hd key) (block_bytes b))"]) simp
qed

end
