(* ===== verification/Sha1.thy ===== *)
theory Sha1
  imports Prelude
begin

text \<open>
  The class \<^verbatim>\<open>SHA1\<close> of \<^verbatim>\<open>cryptoTools/Crypto/sha1.h\<close>, the random oracle of the library unless a
  build option asks for BLAKE2, and the compression function of \<^verbatim>\<open>sha1.cpp\<close> in its C form. The
  class takes the compression function as a parameter: the default build links an assembly
  version of it (\<^verbatim>\<open>sha1_update_intel\<close>), which is not modelled.
\<close>

subsection \<open>The compression function\<close>

definition ROTL32 :: "u32 \<Rightarrow> nat \<Rightarrow> u32" where
  "ROTL32 x n = push_bit n x OR drop_bit (32 - n) x"

definition LOADSCHEDULE :: "u8 list \<Rightarrow> nat \<Rightarrow> u32 list \<Rightarrow> u32 list" where
  "LOADSCHEDULE block i schedule = schedule[i :=
     push_bit 24 (ucast (block ! (i * 4 + 0))) OR push_bit 16 (ucast (block ! (i * 4 + 1))) OR
     push_bit 8 (ucast (block ! (i * 4 + 2))) OR ucast (block ! (i * 4 + 3))]"

definition SCHEDULE :: "nat \<Rightarrow> u32 list \<Rightarrow> u32 list" where
  "SCHEDULE i schedule =
     (let temp = schedule ! ((i - 3) mod 16) XOR schedule ! ((i - 8) mod 16) XOR
            schedule ! ((i - 14) mod 16) XOR schedule ! ((i - 16) mod 16)
      in schedule[i mod 16 := ROTL32 temp 1])"

text \<open>
  The five variables \<open>a\<close> .. \<open>e\<close> are the entries of a list; a macro gets its arguments as
  positions, and round \<open>i\<close> is called with the names rotated by \<open>i\<close>.
\<close>

definition ROUNDTAIL :: "nat \<Rightarrow> nat \<Rightarrow> nat \<Rightarrow> u32 \<Rightarrow> nat \<Rightarrow> u32 \<Rightarrow> u32 list \<Rightarrow> u32 list \<Rightarrow> u32 list" where
  "ROUNDTAIL a b e f i k schedule v =
     (let v = v[e := v ! e + ROTL32 (v ! a) 5 + f + k + schedule ! (i mod 16)]
      in v[b := ROTL32 (v ! b) 30])"

definition round_vars :: "nat \<Rightarrow> nat list" where
  "round_vars i = map (\<lambda>p. (p + 4 * i) mod 5) [0..<5]"

definition sha1_round :: "u8 list \<Rightarrow> u32 list \<times> u32 list \<Rightarrow> nat \<Rightarrow> u32 list \<times> u32 list" where
  "sha1_round block st i =
     (let (v, schedule) = st;
          a = round_vars i ! 0; b = round_vars i ! 1; c = round_vars i ! 2; d = round_vars i ! 3; e = round_vars i ! 4;
          schedule = (if i < 16 then LOADSCHEDULE block i schedule else SCHEDULE i schedule);
          ch = (v ! b AND v ! c) OR (NOT (v ! b) AND v ! d);
          parity = v ! b XOR v ! c XOR v ! d;
          maj = (v ! b AND v ! c) XOR (v ! b AND v ! d) XOR (v ! c AND v ! d)
      in (if i < 20 then ROUNDTAIL a b e ch i 0x5A827999 schedule v
          else if i < 40 then ROUNDTAIL a b e parity i 0x6ED9EBA1 schedule v
          else if i < 60 then ROUNDTAIL a b e maj i 0x8F1BBCDC schedule v
          else ROUNDTAIL a b e parity i 0xCA62C1D6 schedule v, schedule))"

text \<open>The schedule is not initialised by the code; every entry is loaded before it is read.\<close>

definition sha1_compress :: "u32 list \<Rightarrow> u8 list \<Rightarrow> u32 list" where
  "sha1_compress state block =
     (let (v, schedule) = foldl (sha1_round block) (state, replicate 16 0) [0..<80]
      in map (\<lambda>i. state ! i + v ! i) [0..<5])"

subsection \<open>The class\<close>

record sha1 =
  sha_state :: "u32 list"
  sha_buffer :: "u8 list"
  sha_idx :: nat
  sha_outputLength :: nat

definition HashSize :: nat where
  "HashSize = 20"

text \<open>\<^verbatim>\<open>Reset(digestByteLenght)\<close>: the whole object is cleared, the chaining value with it.\<close>

definition sha1_Reset :: "nat \<Rightarrow> sha1" where
  "sha1_Reset digestByteLength =
     \<lparr>sha_state = replicate 5 0, sha_buffer = replicate 64 0, sha_idx = 0,
      sha_outputLength = digestByteLength mod 2 ^ 32\<rparr>"

text \<open>
  One turn of the loop of \<^verbatim>\<open>Update\<close>, which takes as many bytes as the buffer has room for. The
  index is below 64 at every turn (\<open>sha1_ok\<close>).
\<close>

definition sha1_step :: "(u32 list \<Rightarrow> u8 list \<Rightarrow> u32 list) \<Rightarrow> sha1 \<Rightarrow> u8 list \<Rightarrow> sha1" where
  "sha1_step compress s dataIn =
     (let step = min (length dataIn) (64 - sha_idx s);
          buffer = take (sha_idx s) (sha_buffer s) @ take step dataIn @ drop (sha_idx s + step) (sha_buffer s)
      in if sha_idx s + step = 64
         then s\<lparr>sha_buffer := buffer, sha_state := compress (sha_state s) buffer, sha_idx := 0\<rparr>
         else s\<lparr>sha_buffer := buffer, sha_idx := sha_idx s + step\<rparr>)"

function sha1_Update :: "(u32 list \<Rightarrow> u8 list \<Rightarrow> u32 list) \<Rightarrow> u8 list \<Rightarrow> sha1 \<Rightarrow> sha1" where
  "sha1_Update compress dataIn s =
     (if dataIn = [] \<or> 64 \<le> sha_idx s then s
      else sha1_Update compress (drop (64 - sha_idx s) dataIn) (sha1_step compress s dataIn))"
  by pat_completeness auto
termination
  by (relation "measure (\<lambda>(c, d, s). length d)") (auto simp flip: length_greater_0_conv)

declare sha1_Update.simps [simp del]

text \<open>
  \<^verbatim>\<open>Final\<close> copies \<^verbatim>\<open>outputLength()\<close> bytes from the start of the chaining value. What follows it
  in the object is the buffer; the last two members end it, and a longer copy leaves the object.
\<close>

definition sha1_memory :: "sha1 \<Rightarrow> u8 list" where
  "sha1_memory s = concat (map (word_bytes 4) (sha_state s)) @ sha_buffer s @
     word_bytes 4 (of_nat (sha_idx s) :: u32) @ word_bytes 4 (of_nat (sha_outputLength s) :: u32)"

definition sha1_Final :: "(u32 list \<Rightarrow> u8 list \<Rightarrow> u32 list) \<Rightarrow> sha1 \<Rightarrow> (u8 list \<times> sha1) option" where
  "sha1_Final compress s =
     (let s = (if sha_idx s \<noteq> 0 then s\<lparr>sha_state := compress (sha_state s) (sha_buffer s)\<rparr> else s);
          s = s\<lparr>sha_idx := 0\<rparr>
      in if sha_outputLength s \<le> length (sha1_memory s)
         then Some (take (sha_outputLength s) (sha1_memory s), s) else None)"

text \<open>A message hashed at once, as every client does.\<close>

definition sha1_hash :: "(u32 list \<Rightarrow> u8 list \<Rightarrow> u32 list) \<Rightarrow> nat \<Rightarrow> u8 list \<Rightarrow> u8 list option" where
  "sha1_hash compress outputLength m =
     map_option fst (sha1_Final compress (sha1_Update compress m (sha1_Reset outputLength)))"

subsection \<open>The standard\<close>

text \<open>
  The hash computation of FIPS 180-4, section 6.1.2: the message schedule \<open>W\<close>, the functions and
  constants of the eighty rounds, and the registers \<open>a\<close> .. \<open>e\<close> that move down a place each round.
\<close>

fun sha1_W :: "u8 list \<Rightarrow> nat \<Rightarrow> u32" where
  "sha1_W block t =
     (if t < 16 then bytes_le (rev (map (\<lambda>k. block ! (4 * t + k)) [0..<4]))
      else ROTL32 (sha1_W block (t - 3) XOR sha1_W block (t - 8) XOR sha1_W block (t - 14) XOR sha1_W block (t - 16)) 1)"

declare sha1_W.simps [simp del]

definition sha1_f :: "nat \<Rightarrow> u32 \<Rightarrow> u32 \<Rightarrow> u32 \<Rightarrow> u32" where
  "sha1_f t x y z =
     (if t < 20 then (x AND y) XOR (NOT x AND z)
      else if 40 \<le> t \<and> t < 60 then (x AND y) XOR (x AND z) XOR (y AND z)
      else x XOR y XOR z)"

definition sha1_K :: "nat \<Rightarrow> u32" where
  "sha1_K t = (if t < 20 then 0x5A827999 else if t < 40 then 0x6ED9EBA1
     else if t < 60 then 0x8F1BBCDC else 0xCA62C1D6)"

definition sha1_spec_round :: "u8 list \<Rightarrow> u32 \<times> u32 \<times> u32 \<times> u32 \<times> u32 \<Rightarrow> nat \<Rightarrow> u32 \<times> u32 \<times> u32 \<times> u32 \<times> u32" where
  "sha1_spec_round block v t =
     (let (a, b, c, d, e) = v
      in (ROTL32 a 5 + sha1_f t b c d + e + sha1_K t + sha1_W block t, a, ROTL32 b 30, c, d))"

definition sha1_spec :: "u32 list \<Rightarrow> u8 list \<Rightarrow> u32 list" where
  "sha1_spec H block =
     (let (a, b, c, d, e) = foldl (sha1_spec_round block) (H ! 0, H ! 1, H ! 2, H ! 3, H ! 4) [0..<80]
      in [a + H ! 0, b + H ! 1, c + H ! 2, d + H ! 3, e + H ! 4])"

subsection \<open>The compression function is that of the standard\<close>

lemma ch_forms: "(x AND y) OR (NOT x AND z) = (x AND y) XOR (NOT x AND z)" for x y z :: u32
  by (rule bit_word_eqI) (auto simp: bit_simps)

text \<open>The registers in the order of their names in round \<open>i\<close>.\<close>

definition registers :: "nat \<Rightarrow> u32 list \<Rightarrow> u32 \<times> u32 \<times> u32 \<times> u32 \<times> u32" where
  "registers i v = (v ! (round_vars i ! 0), v ! (round_vars i ! 1), v ! (round_vars i ! 2),
     v ! (round_vars i ! 3), v ! (round_vars i ! 4))"

lemma mod_5_cases:
  obtains "i mod 5 = 0" | "i mod 5 = 1" | "i mod 5 = 2" | "i mod 5 = 3" | "i mod 5 = (4::nat)"
  by linarith

lemma round_vars_mod: "round_vars i = round_vars (i mod 5)"
  unfolding round_vars_def by (rule map_cong [OF refl]) (metis mod_add_right_eq mod_mult_right_eq)

lemma length_5: "length v = 5 \<longleftrightarrow> (\<exists>a b c d e. v = [a, b, c, d, e])"
  by (auto simp: numeral_eq_Suc length_Suc_conv)

lemma round_vars_list:
  "i mod 5 = 0 \<Longrightarrow> round_vars i = [0, 1, 2, 3, 4]"
  "i mod 5 = 1 \<Longrightarrow> round_vars i = [4, 0, 1, 2, 3]"
  "i mod 5 = 2 \<Longrightarrow> round_vars i = [3, 4, 0, 1, 2]"
  "i mod 5 = 3 \<Longrightarrow> round_vars i = [2, 3, 4, 0, 1]"
  "i mod 5 = 4 \<Longrightarrow> round_vars i = [1, 2, 3, 4, 0]"
  by (subst round_vars_mod, simp add: round_vars_def upt_rec)+

lemma ROUNDTAIL_registers:
  assumes "length v = 5" and "registers i v = (a, b, c, d, e)"
  shows "registers (Suc i) (ROUNDTAIL (round_vars i ! 0) (round_vars i ! 1) (round_vars i ! 4) f i k schedule v) =
    (e + ROTL32 a 5 + f + k + schedule ! (i mod 16), a, ROTL32 b 30, c, d)"
proof -
  obtain p q r s t where v: "v = [p, q, r, s, t]" using assms(1) by (auto simp: length_5)
  have "Suc i mod 5 = Suc (i mod 5) mod 5" by (simp add: mod_Suc)
  then show ?thesis using assms(2)
    by (cases i rule: mod_5_cases) (auto simp: v registers_def ROUNDTAIL_def round_vars_list)
qed

text \<open>The schedule holds the last sixteen words.\<close>

definition schedule_holds :: "u8 list \<Rightarrow> nat \<Rightarrow> u32 list \<Rightarrow> bool" where
  "schedule_holds block i schedule \<longleftrightarrow> length schedule = 16 \<and>
     (\<forall>j < i. i \<le> j + 16 \<longrightarrow> schedule ! (j mod 16) = sha1_W block j)"

lemma mod_16_inj:
  fixes i j :: nat
  assumes "j mod 16 = i mod 16" and "j < i" and "i < j + 16"
  shows False
proof -
  have "16 dvd i - j" using assms(1,2) by (metis mod_eq_dvd_iff_nat less_imp_le)
  then show False using assms(2,3) by (auto dest: dvd_imp_le)
qed

lemma LOADSCHEDULE_W:
  assumes "i < 16"
  shows "LOADSCHEDULE block i schedule = schedule[i mod 16 := sha1_W block i]"
proof -
  have "push_bit 24 (ucast w) OR push_bit 16 (ucast x) OR push_bit 8 (ucast y) OR ucast z =
      (bytes_le [z, y, x, w] :: u32)" for w x y z :: u8
    by (simp add: bytes_le_def push_bit_or ac_simps)
  then show ?thesis using assms
    by (simp add: LOADSCHEDULE_def sha1_W.simps [of block i] upt_rec mult.commute numeral_3_eq_3)
qed

lemma SCHEDULE_W:
  assumes "16 \<le> i" and "schedule_holds block i schedule"
  shows "SCHEDULE i schedule = schedule[i mod 16 := sha1_W block i]"
proof -
  have "schedule ! ((i - k) mod 16) = sha1_W block (i - k)" if "0 < k" "k \<le> 16" for k
    using assms that by (auto simp: schedule_holds_def)
  from this [of 3] this [of 8] this [of 14] this [of 16] show ?thesis using assms(1)
    by (simp add: SCHEDULE_def sha1_W.simps [of block i])
qed

lemma schedule_holds_Suc:
  assumes "schedule_holds block i schedule"
  shows "schedule_holds block (Suc i) (schedule[i mod 16 := sha1_W block i])"
proof -
  have "schedule[i mod 16 := sha1_W block i] ! (j mod 16) = sha1_W block j"
    if "j < Suc i" "Suc i \<le> j + 16" for j
  proof (cases "j = i")
    case True
    then show ?thesis using assms by (simp add: schedule_holds_def)
  next
    case False
    then have "j < i" and "i < j + 16" using that by simp_all
    then have "j mod 16 \<noteq> i mod 16" using mod_16_inj by blast
    with \<open>j < i\<close> \<open>i < j + 16\<close> assms show ?thesis by (simp add: schedule_holds_def)
  qed
  then show ?thesis using assms by (simp add: schedule_holds_def)
qed

lemma sha1_round_step:
  assumes "length v = 5" and "schedule_holds block i schedule"
  obtains v' schedule' where "sha1_round block (v, schedule) i = (v', schedule')" and "length v' = 5"
    and "schedule_holds block (Suc i) schedule'"
    and "registers (Suc i) v' = sha1_spec_round block (registers i v) i"
proof -
  let ?schedule = "schedule[i mod 16 := sha1_W block i]"
  obtain a b c d e where r: "registers i v = (a, b, c, d, e)" by (cases "registers i v")
  have l: "(if i < 16 then LOADSCHEDULE block i schedule else SCHEDULE i schedule) = ?schedule"
    using assms(2) by (simp add: LOADSCHEDULE_W SCHEDULE_W)
  have w: "?schedule ! (i mod 16) = sha1_W block i" using assms(2) by (simp add: schedule_holds_def)
  let ?v = "ROUNDTAIL (round_vars i ! 0) (round_vars i ! 1) (round_vars i ! 4) (sha1_f i b c d) i (sha1_K i) ?schedule v"
  have vars: "v ! (round_vars i ! 1) = b" "v ! (round_vars i ! 2) = c" "v ! (round_vars i ! 3) = d"
    using r by (simp_all add: registers_def)
  have "sha1_round block (v, schedule) i = (?v, ?schedule)"
    unfolding sha1_round_def Let_def case_prod_conv l vars
    by (simp add: sha1_f_def sha1_K_def ch_forms)
  moreover have "length ?v = 5" using assms(1) by (simp add: ROUNDTAIL_def Let_def)
  moreover have "registers (Suc i) ?v = sha1_spec_round block (registers i v) i"
    unfolding ROUNDTAIL_registers [OF assms(1) r] w r by (simp add: sha1_spec_round_def ac_simps)
  ultimately show ?thesis using that schedule_holds_Suc [OF assms(2)] by blast
qed

lemma sha1_rounds:
  assumes "length v = 5"
  shows "\<exists>v' schedule. foldl (sha1_round block) (v, replicate 16 0) [0..<n] = (v', schedule) \<and> length v' = 5 \<and>
    schedule_holds block n schedule \<and> registers n v' = foldl (sha1_spec_round block) (registers 0 v) [0..<n]"
proof (induction n)
  case 0
  then show ?case using assms by (simp add: schedule_holds_def)
next
  case (Suc n)
  then obtain v' schedule where "foldl (sha1_round block) (v, replicate 16 0) [0..<n] = (v', schedule)"
    and l: "length v' = 5" and h: "schedule_holds block n schedule"
    and "registers n v' = foldl (sha1_spec_round block) (registers 0 v) [0..<n]" by blast
  moreover obtain v'' schedule' where "sha1_round block (v', schedule) n = (v'', schedule')" and "length v'' = 5"
    and "schedule_holds block (Suc n) schedule'"
    and "registers (Suc n) v'' = sha1_spec_round block (registers n v') n"
    by (rule sha1_round_step [OF l h])
  ultimately show ?case by simp
qed

text \<open>C23: compressing a block with the macros of \<^verbatim>\<open>sha1.cpp\<close>, which rotate the names of the
  variables and keep sixteen words of the schedule, is the hash computation of FIPS 180-4.\<close>
theorem sha1_compress_standard: "sha1_compress [a, b, c, d, e] block = sha1_spec [a, b, c, d, e] block"
proof -
  let ?H = "[a, b, c, d, e]"
  obtain v schedule where F: "foldl (sha1_round block) (?H, replicate 16 0) [0..<80] = (v, schedule)"
    and R: "registers 80 v = foldl (sha1_spec_round block) (registers 0 ?H) [0..<80]"
    using sha1_rounds [where v = ?H and block = block and n = 80, OF length_5 [THEN iffD2]] by blast
  have r: "registers 80 v = (v ! 0, v ! 1, v ! 2, v ! 3, v ! 4)"
    "registers 0 ?H = (?H ! 0, ?H ! 1, ?H ! 2, ?H ! 3, ?H ! 4)"
    by (simp_all add: registers_def round_vars_list)
  have "[0..<5] = [0, 1, 2, 3, 4::nat]" by (simp add: upt_rec)
  then show ?thesis
    unfolding sha1_compress_def sha1_spec_def F R [unfolded r, symmetric] Let_def case_prod_conv
    by (simp only: list.map add.commute)
qed

subsection \<open>The class hashes without padding\<close>

definition sha1_ok :: "sha1 \<Rightarrow> bool" where
  "sha1_ok s \<longleftrightarrow> length (sha_state s) = 5 \<and> length (sha_buffer s) = 64 \<and> sha_idx s < 64"

lemma sha1_Reset_ok [simp]: "sha1_ok (sha1_Reset n)"
  by (simp add: sha1_ok_def sha1_Reset_def)

lemma sha1_step_ok:
  assumes "\<And>h b. length (compress h b) = 5" and "sha1_ok s"
  shows "sha1_ok (sha1_step compress s m)"
    and "sha_idx (sha1_step compress s m) = (sha_idx s + min (length m) (64 - sha_idx s)) mod 64"
  using assms by (auto simp: sha1_ok_def sha1_step_def Let_def min_def)

lemma sha1_Update_Nil [simp]: "sha1_Update compress [] s = s"
  by (simp add: sha1_Update.simps)

lemma sha1_Update_ok:
  assumes "\<And>h b. length (compress h b) = 5" and "sha1_ok s"
  shows "sha1_ok (sha1_Update compress m s)"
    and "sha_idx (sha1_Update compress m s) = (sha_idx s + length m) mod 64"
proof -
  have "sha1_ok (sha1_Update compress m s) \<and> sha_idx (sha1_Update compress m s) = (sha_idx s + length m) mod 64"
    using assms(2)
  proof (induction "length m" arbitrary: m s rule: less_induct)
    case less
    show ?case
    proof (cases "m = []")
      case True
      then show ?thesis using less.prems by (simp add: sha1_ok_def)
    next
      case False
      have i: "sha_idx s < 64" using less.prems by (simp add: sha1_ok_def)
      let ?m = "drop (64 - sha_idx s) m" and ?s = "sha1_step compress s m"
      have "length ?m < length m" using False i by (simp flip: length_greater_0_conv)
      note IH = less.hyps [OF this sha1_step_ok(1) [OF assms(1) less.prems]]
      have "(sha_idx s + min (length m) (64 - sha_idx s) + length ?m) mod 64 = (sha_idx s + length m) mod 64"
        using i by (intro arg_cong [of _ _ "\<lambda>x. x mod 64"]) (simp add: min_def)
      then show ?thesis
        using IH False i sha1_step_ok(2) [OF assms(1) less.prems, where m = m]
        by (simp add: sha1_Update.simps [where dataIn = m and s = s] mod_simps)
    qed
  qed
  then show "sha1_ok (sha1_Update compress m s)"
    and "sha_idx (sha1_Update compress m s) = (sha_idx s + length m) mod 64" by simp_all
qed

lemma min_room: "x < 64 - i \<Longrightarrow> min (x + y) (64 - i) = x + min y (64 - (i + x))" for i x y :: nat
  by linarith

lemma sha1_step_append:
  assumes "sha1_ok s"
  shows "64 - sha_idx s \<le> length x \<Longrightarrow> sha1_step compress s (x @ y) = sha1_step compress s x"
    and "length x < 64 - sha_idx s \<Longrightarrow> sha1_step compress (sha1_step compress s x) y = sha1_step compress s (x @ y)"
proof -
  have i: "sha_idx s < 64" and l: "length (sha_buffer s) = 64" using assms by (simp_all add: sha1_ok_def)
  show "64 - sha_idx s \<le> length x \<Longrightarrow> sha1_step compress s (x @ y) = sha1_step compress s x"
    by (simp add: sha1_step_def Let_def min_absorb2)
  assume x: "length x < 64 - sha_idx s"
  define k where "k = min (length y) (64 - (sha_idx s + length x))"
  have m: "min (length x + length y) (64 - sha_idx s) = length x + k"
    unfolding k_def by (rule min_room [OF x])
  have e: "sha1_step compress s x = s\<lparr>sha_buffer := take (sha_idx s) (sha_buffer s) @ x @
      drop (sha_idx s + length x) (sha_buffer s), sha_idx := sha_idx s + length x\<rparr>"
    using x by (simp add: sha1_step_def Let_def min_def)
  have d: "k + (sha_idx s + length x) = sha_idx s + (length x + k)" by simp
  have t: "min (length (sha_buffer s)) (sha_idx s) = sha_idx s" using i l by simp
  show "sha1_step compress (sha1_step compress s x) y = sha1_step compress s (x @ y)"
    unfolding e by (simp add: sha1_step_def Let_def m k_def [symmetric] t d)
qed

lemma sha1_Update_append:
  assumes "\<And>h b. length (compress h b) = 5" and "sha1_ok s"
  shows "sha1_Update compress (x @ y) s = sha1_Update compress y (sha1_Update compress x s)"
  using assms(2)
proof (induction "length x" arbitrary: x s rule: less_induct)
  case less
  have i: "sha_idx s < 64" using less.prems by (simp add: sha1_ok_def)
  let ?n = "64 - sha_idx s"
  consider "x = []" | "x \<noteq> []" "?n \<le> length x" | "x \<noteq> []" "length x < ?n" by linarith
  then show ?case
  proof cases
    case 1
    then show ?thesis by simp
  next
    case 2
    have "length (drop ?n x) < length x" using 2 i by (simp flip: length_greater_0_conv)
    from less.hyps [OF this sha1_step_ok(1) [OF assms(1) less.prems]] 2 i show ?thesis
      by (simp add: sha1_Update.simps [where dataIn = "x @ y" and s = s] sha1_Update.simps [where dataIn = x and s = s]
          sha1_step_append(1) [OF less.prems])
  next
    case 3
    let ?s = "sha1_step compress s x"
    have "sha1_Update compress x s = ?s"
      using 3 i by (simp add: sha1_Update.simps [where dataIn = x and s = s])
    moreover have "sha_idx ?s = sha_idx s + length x"
      using sha1_step_ok(2) [OF assms(1) less.prems, where m = x] 3 by simp
    ultimately show ?thesis using 3 i
      by (cases "y = []")
         (simp_all add: sha1_Update.simps [where dataIn = "x @ y" and s = s] sha1_Update.simps [where dataIn = y and s = ?s]
          sha1_step_append(2) [OF less.prems] add.commute)
  qed
qed

text \<open>What \<^verbatim>\<open>Final\<close> compresses after the last bytes of a message is left from the block before.\<close>

definition stale :: "(u32 list \<Rightarrow> u8 list \<Rightarrow> u32 list) \<Rightarrow> u8 list \<Rightarrow> u8 list" where
  "stale compress m =
     (let s = sha1_Update compress m (sha1_Reset HashSize) in drop (sha_idx s) (sha_buffer s))"

lemma sha1_Final_stale:
  assumes "sha1_ok s" and "sha_idx s \<noteq> 0"
  shows "sha1_Final compress (sha1_Update compress (drop (sha_idx s) (sha_buffer s)) s) = sha1_Final compress s"
proof -
  have i: "sha_idx s < 64" "length (sha_buffer s) = 64" using assms(1) by (simp_all add: sha1_ok_def)
  then have "sha1_step compress s (drop (sha_idx s) (sha_buffer s)) =
      s\<lparr>sha_state := compress (sha_state s) (sha_buffer s), sha_idx := 0\<rparr>"
    by (simp add: sha1_step_def Let_def)
  with i have "sha1_Update compress (drop (sha_idx s) (sha_buffer s)) s =
      s\<lparr>sha_state := compress (sha_state s) (sha_buffer s), sha_idx := 0\<rparr>"
    by (simp add: sha1_Update.simps [where s = s])
  then show ?thesis using assms(2) by (simp add: sha1_Final_def Let_def)
qed

lemma sha1_Update_outputLength:
  "sha1_Update compress m (s\<lparr>sha_outputLength := n\<rparr>) = (sha1_Update compress m s)\<lparr>sha_outputLength := n\<rparr>"
proof (induction compress m s rule: sha1_Update.induct)
  case (1 compress m s)
  have "sha1_step compress (s\<lparr>sha_outputLength := n\<rparr>) m = (sha1_step compress s m)\<lparr>sha_outputLength := n\<rparr>"
    by (simp add: sha1_step_def Let_def)
  with 1 show ?case
    by (cases "m = [] \<or> 64 \<le> sha_idx s")
       (simp_all add: sha1_Update.simps [where dataIn = m and s = s]
         sha1_Update.simps [where dataIn = m and s = "s\<lparr>sha_outputLength := n\<rparr>"])
qed

lemma stale_Reset:
  "stale compress m = (let s = sha1_Update compress m (sha1_Reset n) in drop (sha_idx s) (sha_buffer s))"
proof -
  have "sha1_Reset n = (sha1_Reset HashSize)\<lparr>sha_outputLength := n mod 2 ^ 32\<rparr>"
    by (simp add: sha1_Reset_def)
  then show ?thesis by (simp add: stale_def Let_def sha1_Update_outputLength)
qed

lemma stale_short:
  assumes "m \<noteq> []" and "length m < 64"
  shows "stale compress m = replicate (64 - length m) 0"
proof -
  have "sha1_Update compress m (sha1_Reset HashSize) =
      (sha1_Reset HashSize)\<lparr>sha_buffer := m @ replicate (64 - length m) 0, sha_idx := length m\<rparr>"
    using assms by (subst sha1_Update.simps) (simp add: sha1_step_def sha1_Reset_def min_def Let_def)
  then show ?thesis by (simp add: stale_def)
qed

text \<open>C25: the class has no padding. A message whose length is not a multiple of 64 bytes collides
  with a longer one, its own continuation by what the buffer still holds: the zeros of
  \<^verbatim>\<open>Reset\<close> for a message shorter than a block. This holds for every compression function and
  every output length.\<close>
theorem sha1_collision:
  assumes "\<And>h b. length (compress h b) = 5" and "length m mod 64 \<noteq> 0"
  shows "length (stale compress m) = 64 - length m mod 64 \<and>
    sha1_hash compress n (m @ stale compress m) = sha1_hash compress n m \<and>
    (length m < 64 \<longrightarrow> stale compress m = replicate (64 - length m) 0)"
proof (intro conjI impI)
  let ?s = "sha1_Update compress m (sha1_Reset n)"
  have s: "sha1_ok ?s" and i: "sha_idx ?s = length m mod 64"
    using sha1_Update_ok [OF assms(1) sha1_Reset_ok, where m = m] by (simp_all add: sha1_Reset_def)
  show "length (stale compress m) = 64 - length m mod 64"
    using s i by (simp add: stale_Reset [of _ _ n] sha1_ok_def Let_def)
  have "sha1_Update compress (m @ stale compress m) (sha1_Reset n) =
      sha1_Update compress (drop (sha_idx ?s) (sha_buffer ?s)) ?s"
    by (simp add: sha1_Update_append [OF assms(1) sha1_Reset_ok] stale_Reset [of _ _ n] Let_def)
  then show "sha1_hash compress n (m @ stale compress m) = sha1_hash compress n m"
    using sha1_Final_stale [OF s] i assms(2) by (simp add: sha1_hash_def)
  show "stale compress m = replicate (64 - length m) 0" if "length m < 64"
    using that assms(2) by (intro stale_short) auto
qed

lemma length_sha1_compress [simp]: "length (sha1_compress h b) = 5"
  by (simp add: sha1_compress_def split_beta)

theorem sha1_collision_witness:
  "sha1_hash sha1_compress 20 ([1, 2, 3] @ replicate 61 0) = sha1_hash sha1_compress 20 [1, 2, 3]"
  using sha1_collision [of sha1_compress "[1, 2, 3]" 20] by auto

end
