(* ===== verification/Blake2.thy ===== *)
theory Blake2
  imports Sse
begin

text \<open>
  BLAKE2b as \<^verbatim>\<open>cryptoTools/Crypto/blake2\<close> computes it with SSE4.1 (\<^verbatim>\<open>blake2b.c\<close>,
  \<^verbatim>\<open>blake2b-round.h\<close>, \<^verbatim>\<open>blake2b-load-sse41.h\<close>), and the class \<^verbatim>\<open>Blake2\<close> of \<^verbatim>\<open>Crypto/Blake2.h\<close>,
  the random oracle of the library when a build option asks for it. The standard is RFC 7693.
\<close>

subsection \<open>The instructions\<close>

definition mm_add_epi64 :: "block \<Rightarrow> block \<Rightarrow> block" where
  "mm_add_epi64 a b = lanes64 (lane64 a 0 + lane64 b 0) (lane64 a 1 + lane64 b 1)"

definition mm_srli_epi64 :: "block \<Rightarrow> nat \<Rightarrow> block" where
  "mm_srli_epi64 b n = lanes64 (drop_bit n (lane64 b 0)) (drop_bit n (lane64 b 1))"

definition mm_unpacklo_epi64 :: "block \<Rightarrow> block \<Rightarrow> block" where
  "mm_unpacklo_epi64 a b = lanes64 (lane64 a 0) (lane64 b 0)"

definition mm_unpackhi_epi64 :: "block \<Rightarrow> block \<Rightarrow> block" where
  "mm_unpackhi_epi64 a b = lanes64 (lane64 a 1) (lane64 b 1)"

text \<open>The concatenation of \<open>a\<close> (high) and \<open>b\<close> shifted right by \<open>n\<close> bytes, \<open>n\<close> at most 16.\<close>

definition mm_alignr_epi8 :: "block \<Rightarrow> block \<Rightarrow> nat \<Rightarrow> block" where
  "mm_alignr_epi8 a b n = drop_bit (8 * n) b OR push_bit (8 * (16 - n)) a"

definition mm_blend_epi16 :: "block \<Rightarrow> block \<Rightarrow> u8 \<Rightarrow> block" where
  "mm_blend_epi16 a b imm =
     bytes_block (map (\<lambda>i. if bit imm (i div 2) then block_byte b i else block_byte a i) [0..<16])"

definition mm_shuffle_epi8 :: "block \<Rightarrow> u8 list \<Rightarrow> block" where
  "mm_shuffle_epi8 b idx =
     bytes_block (map (\<lambda>x. if bit x 7 then 0 else block_byte b (unat x mod 16)) idx)"

subsection \<open>The rounds\<close>

definition r16 :: "u8 list" where
  "r16 = [2, 3, 4, 5, 6, 7, 0, 1, 10, 11, 12, 13, 14, 15, 8, 9]"

definition r24 :: "u8 list" where
  "r24 = [3, 4, 5, 6, 7, 0, 1, 2, 11, 12, 13, 14, 15, 8, 9, 10]"

text \<open>\<^verbatim>\<open>_mm_roti_epi64(x, -c)\<close>, a rotation of both lanes to the right.\<close>

definition mm_roti_epi64 :: "block \<Rightarrow> nat \<Rightarrow> block" where
  "mm_roti_epi64 x c =
     (if c = 32 then mm_shuffle_epi32 x 2 3 0 1
      else if c = 24 then mm_shuffle_epi8 x r24
      else if c = 16 then mm_shuffle_epi8 x r16
      else if c = 63 then mm_srli_epi64 x c XOR mm_add_epi64 x x
      else mm_srli_epi64 x c XOR mm_slli_epi64 x (64 - c))"

record rows =
  row1l :: block row1h :: block
  row2l :: block row2h :: block
  row3l :: block row3h :: block
  row4l :: block row4h :: block

text \<open>The two halves of the mixing, which differ in the rotations.\<close>

definition G_half :: "nat \<Rightarrow> nat \<Rightarrow> block \<times> block \<Rightarrow> rows \<Rightarrow> rows" where
  "G_half c1 c2 m v =
     (let (b0, b1) = m;
          v = v\<lparr>row1l := mm_add_epi64 (mm_add_epi64 (row1l v) b0) (row2l v),
                row1h := mm_add_epi64 (mm_add_epi64 (row1h v) b1) (row2h v)\<rparr>;
          v = v\<lparr>row4l := row4l v XOR row1l v, row4h := row4h v XOR row1h v\<rparr>;
          v = v\<lparr>row4l := mm_roti_epi64 (row4l v) c1, row4h := mm_roti_epi64 (row4h v) c1\<rparr>;
          v = v\<lparr>row3l := mm_add_epi64 (row3l v) (row4l v), row3h := mm_add_epi64 (row3h v) (row4h v)\<rparr>;
          v = v\<lparr>row2l := row2l v XOR row3l v, row2h := row2h v XOR row3h v\<rparr>
      in v\<lparr>row2l := mm_roti_epi64 (row2l v) c2, row2h := mm_roti_epi64 (row2h v) c2\<rparr>)"

definition G1 :: "block \<times> block \<Rightarrow> rows \<Rightarrow> rows" where
  "G1 = G_half 32 24"

definition G2 :: "block \<times> block \<Rightarrow> rows \<Rightarrow> rows" where
  "G2 = G_half 16 63"

definition DIAGONALIZE :: "rows \<Rightarrow> rows" where
  "DIAGONALIZE v =
     (let t0 = mm_alignr_epi8 (row2h v) (row2l v) 8; t1 = mm_alignr_epi8 (row2l v) (row2h v) 8;
          v = v\<lparr>row2l := t0, row2h := t1\<rparr>;
          t0 = row3l v; v = v\<lparr>row3l := row3h v, row3h := t0\<rparr>;
          t0 = mm_alignr_epi8 (row4h v) (row4l v) 8; t1 = mm_alignr_epi8 (row4l v) (row4h v) 8
      in v\<lparr>row4l := t1, row4h := t0\<rparr>)"

definition UNDIAGONALIZE :: "rows \<Rightarrow> rows" where
  "UNDIAGONALIZE v =
     (let t0 = mm_alignr_epi8 (row2l v) (row2h v) 8; t1 = mm_alignr_epi8 (row2h v) (row2l v) 8;
          v = v\<lparr>row2l := t0, row2h := t1\<rparr>;
          t0 = row3l v; v = v\<lparr>row3l := row3h v, row3h := t0\<rparr>;
          t0 = mm_alignr_epi8 (row4l v) (row4h v) 8; t1 = mm_alignr_epi8 (row4h v) (row4l v) 8
      in v\<lparr>row4l := t1, row4h := t0\<rparr>)"

text \<open>The words of the message that round \<open>r\<close> reads, the eight blocks of the message in \<open>m\<close>.\<close>

definition LOAD_MSG_0 :: "block list \<Rightarrow> (block \<times> block) list" where
  "LOAD_MSG_0 m =
    [(mm_unpacklo_epi64 (m ! 0) (m ! 1), mm_unpacklo_epi64 (m ! 2) (m ! 3)),
     (mm_unpackhi_epi64 (m ! 0) (m ! 1), mm_unpackhi_epi64 (m ! 2) (m ! 3)),
     (mm_unpacklo_epi64 (m ! 4) (m ! 5), mm_unpacklo_epi64 (m ! 6) (m ! 7)),
     (mm_unpackhi_epi64 (m ! 4) (m ! 5), mm_unpackhi_epi64 (m ! 6) (m ! 7))]"

definition LOAD_MSG_1 :: "block list \<Rightarrow> (block \<times> block) list" where
  "LOAD_MSG_1 m =
    [(mm_unpacklo_epi64 (m ! 7) (m ! 2), mm_unpackhi_epi64 (m ! 4) (m ! 6)),
     (mm_unpacklo_epi64 (m ! 5) (m ! 4), mm_alignr_epi8 (m ! 3) (m ! 7) 8),
     (mm_shuffle_epi32 (m ! 0) 1 0 3 2, mm_unpackhi_epi64 (m ! 5) (m ! 2)),
     (mm_unpacklo_epi64 (m ! 6) (m ! 1), mm_unpackhi_epi64 (m ! 3) (m ! 1))]"

definition LOAD_MSG_2 :: "block list \<Rightarrow> (block \<times> block) list" where
  "LOAD_MSG_2 m =
    [(mm_alignr_epi8 (m ! 6) (m ! 5) 8, mm_unpackhi_epi64 (m ! 2) (m ! 7)),
     (mm_unpacklo_epi64 (m ! 4) (m ! 0), mm_blend_epi16 (m ! 1) (m ! 6) 0xF0),
     (mm_blend_epi16 (m ! 5) (m ! 1) 0xF0, mm_unpackhi_epi64 (m ! 3) (m ! 4)),
     (mm_unpacklo_epi64 (m ! 7) (m ! 3), mm_alignr_epi8 (m ! 2) (m ! 0) 8)]"

definition LOAD_MSG_3 :: "block list \<Rightarrow> (block \<times> block) list" where
  "LOAD_MSG_3 m =
    [(mm_unpackhi_epi64 (m ! 3) (m ! 1), mm_unpackhi_epi64 (m ! 6) (m ! 5)),
     (mm_unpackhi_epi64 (m ! 4) (m ! 0), mm_unpacklo_epi64 (m ! 6) (m ! 7)),
     (mm_blend_epi16 (m ! 1) (m ! 2) 0xF0, mm_blend_epi16 (m ! 2) (m ! 7) 0xF0),
     (mm_unpacklo_epi64 (m ! 3) (m ! 5), mm_unpacklo_epi64 (m ! 0) (m ! 4))]"

definition LOAD_MSG_4 :: "block list \<Rightarrow> (block \<times> block) list" where
  "LOAD_MSG_4 m =
    [(mm_unpackhi_epi64 (m ! 4) (m ! 2), mm_unpacklo_epi64 (m ! 1) (m ! 5)),
     (mm_blend_epi16 (m ! 0) (m ! 3) 0xF0, mm_blend_epi16 (m ! 2) (m ! 7) 0xF0),
     (mm_blend_epi16 (m ! 7) (m ! 5) 0xF0, mm_blend_epi16 (m ! 3) (m ! 1) 0xF0),
     (mm_alignr_epi8 (m ! 6) (m ! 0) 8, mm_blend_epi16 (m ! 4) (m ! 6) 0xF0)]"

definition LOAD_MSG_5 :: "block list \<Rightarrow> (block \<times> block) list" where
  "LOAD_MSG_5 m =
    [(mm_unpacklo_epi64 (m ! 1) (m ! 3), mm_unpacklo_epi64 (m ! 0) (m ! 4)),
     (mm_unpacklo_epi64 (m ! 6) (m ! 5), mm_unpackhi_epi64 (m ! 5) (m ! 1)),
     (mm_blend_epi16 (m ! 2) (m ! 3) 0xF0, mm_unpackhi_epi64 (m ! 7) (m ! 0)),
     (mm_unpackhi_epi64 (m ! 6) (m ! 2), mm_blend_epi16 (m ! 7) (m ! 4) 0xF0)]"

definition LOAD_MSG_6 :: "block list \<Rightarrow> (block \<times> block) list" where
  "LOAD_MSG_6 m =
    [(mm_blend_epi16 (m ! 6) (m ! 0) 0xF0, mm_unpacklo_epi64 (m ! 7) (m ! 2)),
     (mm_unpackhi_epi64 (m ! 2) (m ! 7), mm_alignr_epi8 (m ! 5) (m ! 6) 8),
     (mm_unpacklo_epi64 (m ! 0) (m ! 3), mm_shuffle_epi32 (m ! 4) 1 0 3 2),
     (mm_unpackhi_epi64 (m ! 3) (m ! 1), mm_blend_epi16 (m ! 1) (m ! 5) 0xF0)]"

definition LOAD_MSG_7 :: "block list \<Rightarrow> (block \<times> block) list" where
  "LOAD_MSG_7 m =
    [(mm_unpackhi_epi64 (m ! 6) (m ! 3), mm_blend_epi16 (m ! 6) (m ! 1) 0xF0),
     (mm_alignr_epi8 (m ! 7) (m ! 5) 8, mm_unpackhi_epi64 (m ! 0) (m ! 4)),
     (mm_unpackhi_epi64 (m ! 2) (m ! 7), mm_unpacklo_epi64 (m ! 4) (m ! 1)),
     (mm_unpacklo_epi64 (m ! 0) (m ! 2), mm_unpacklo_epi64 (m ! 3) (m ! 5))]"

definition LOAD_MSG_8 :: "block list \<Rightarrow> (block \<times> block) list" where
  "LOAD_MSG_8 m =
    [(mm_unpacklo_epi64 (m ! 3) (m ! 7), mm_alignr_epi8 (m ! 0) (m ! 5) 8),
     (mm_unpackhi_epi64 (m ! 7) (m ! 4), mm_alignr_epi8 (m ! 4) (m ! 1) 8),
     (m ! 6, mm_alignr_epi8 (m ! 5) (m ! 0) 8),
     (mm_blend_epi16 (m ! 1) (m ! 3) 0xF0, m ! 2)]"

definition LOAD_MSG_9 :: "block list \<Rightarrow> (block \<times> block) list" where
  "LOAD_MSG_9 m =
    [(mm_unpacklo_epi64 (m ! 5) (m ! 4), mm_unpackhi_epi64 (m ! 3) (m ! 0)),
     (mm_unpacklo_epi64 (m ! 1) (m ! 2), mm_blend_epi16 (m ! 3) (m ! 2) 0xF0),
     (mm_unpackhi_epi64 (m ! 7) (m ! 4), mm_unpackhi_epi64 (m ! 1) (m ! 6)),
     (mm_alignr_epi8 (m ! 7) (m ! 5) 8, mm_unpacklo_epi64 (m ! 6) (m ! 0))]"

definition LOAD_MSG_10 :: "block list \<Rightarrow> (block \<times> block) list" where
  "LOAD_MSG_10 m =
    [(mm_unpacklo_epi64 (m ! 0) (m ! 1), mm_unpacklo_epi64 (m ! 2) (m ! 3)),
     (mm_unpackhi_epi64 (m ! 0) (m ! 1), mm_unpackhi_epi64 (m ! 2) (m ! 3)),
     (mm_unpacklo_epi64 (m ! 4) (m ! 5), mm_unpacklo_epi64 (m ! 6) (m ! 7)),
     (mm_unpackhi_epi64 (m ! 4) (m ! 5), mm_unpackhi_epi64 (m ! 6) (m ! 7))]"

definition LOAD_MSG_11 :: "block list \<Rightarrow> (block \<times> block) list" where
  "LOAD_MSG_11 m =
    [(mm_unpacklo_epi64 (m ! 7) (m ! 2), mm_unpackhi_epi64 (m ! 4) (m ! 6)),
     (mm_unpacklo_epi64 (m ! 5) (m ! 4), mm_alignr_epi8 (m ! 3) (m ! 7) 8),
     (mm_shuffle_epi32 (m ! 0) 1 0 3 2, mm_unpackhi_epi64 (m ! 5) (m ! 2)),
     (mm_unpacklo_epi64 (m ! 6) (m ! 1), mm_unpackhi_epi64 (m ! 3) (m ! 1))]"

definition LOAD_MSG :: "nat \<Rightarrow> block list \<Rightarrow> (block \<times> block) list" where
  "LOAD_MSG r m =
     [LOAD_MSG_0 m, LOAD_MSG_1 m, LOAD_MSG_2 m, LOAD_MSG_3 m, LOAD_MSG_4 m, LOAD_MSG_5 m,
      LOAD_MSG_6 m, LOAD_MSG_7 m, LOAD_MSG_8 m, LOAD_MSG_9 m, LOAD_MSG_10 m, LOAD_MSG_11 m] ! r"

definition ROUND :: "block list \<Rightarrow> rows \<Rightarrow> nat \<Rightarrow> rows" where
  "ROUND m v r =
     (let b = LOAD_MSG r m;
          v = G1 (b ! 0) v; v = G2 (b ! 1) v;
          v = DIAGONALIZE v;
          v = G1 (b ! 2) v; v = G2 (b ! 3) v
      in UNDIAGONALIZE v)"

subsection \<open>The state\<close>

definition blake2b_IV :: "u64 list" where
  "blake2b_IV =
     [0x6a09e667f3bcc908, 0xbb67ae8584caa73b, 0x3c6ef372fe94f82b, 0xa54ff53a5f1d36f1,
      0x510e527fade682d1, 0x9b05688c2b3e6c1f, 0x1f83d9abfb41bd6b, 0x5be0cd19137e2179]"

record blake2b_state =
  b2_h :: "u64 list"
  b2_t :: "u64 list"
  b2_f :: "u64 list"
  b2_buf :: "u8 list"
  b2_buflen :: nat
  b2_outlen :: nat
  b2_last_node :: u8

definition blake2b_set_lastnode :: "blake2b_state \<Rightarrow> blake2b_state" where
  "blake2b_set_lastnode S = S\<lparr>b2_f := (b2_f S)[1 := - 1]\<rparr>"

definition blake2b_is_lastblock :: "blake2b_state \<Rightarrow> bool" where
  "blake2b_is_lastblock S \<longleftrightarrow> b2_f S ! 0 \<noteq> 0"

definition blake2b_set_lastblock :: "blake2b_state \<Rightarrow> blake2b_state" where
  "blake2b_set_lastblock S =
     (let S = (if b2_last_node S \<noteq> 0 then blake2b_set_lastnode S else S) in S\<lparr>b2_f := (b2_f S)[0 := - 1]\<rparr>)"

definition blake2b_increment_counter :: "blake2b_state \<Rightarrow> u64 \<Rightarrow> blake2b_state" where
  "blake2b_increment_counter S inc =
     (let S = S\<lparr>b2_t := (b2_t S)[0 := b2_t S ! 0 + inc]\<rparr>
      in S\<lparr>b2_t := (b2_t S)[1 := b2_t S ! 1 + (if b2_t S ! 0 < inc then 1 else 0)]\<rparr>)"

text \<open>\<^verbatim>\<open>LOADU\<close> of two neighbours of an array of 64-bit words, and \<^verbatim>\<open>STOREU\<close>.\<close>

definition LOADU :: "u64 list \<Rightarrow> nat \<Rightarrow> block" where
  "LOADU xs i = lanes64 (xs ! i) (xs ! (i + 1))"

definition STOREU :: "u64 list \<Rightarrow> nat \<Rightarrow> block \<Rightarrow> u64 list" where
  "STOREU xs i b = xs[i := lane64 b 0, i + 1 := lane64 b 1]"

definition blake2b_compress :: "blake2b_state \<Rightarrow> u8 list \<Rightarrow> blake2b_state" where
  "blake2b_compress S block =
     (let m = bytes_blocks 8 block;
          v = \<lparr>row1l = LOADU (b2_h S) 0, row1h = LOADU (b2_h S) 2,
               row2l = LOADU (b2_h S) 4, row2h = LOADU (b2_h S) 6,
               row3l = LOADU blake2b_IV 0, row3h = LOADU blake2b_IV 2,
               row4l = LOADU blake2b_IV 4 XOR LOADU (b2_t S) 0,
               row4h = LOADU blake2b_IV 6 XOR LOADU (b2_f S) 0\<rparr>;
          v = foldl (ROUND m) v [0..<12];
          v = v\<lparr>row1l := row3l v XOR row1l v, row1h := row3h v XOR row1h v\<rparr>;
          h = STOREU (b2_h S) 0 (LOADU (b2_h S) 0 XOR row1l v);
          h = STOREU h 2 (LOADU h 2 XOR row1h v);
          v = v\<lparr>row2l := row4l v XOR row2l v, row2h := row4h v XOR row2h v\<rparr>;
          h = STOREU h 4 (LOADU h 4 XOR row2l v);
          h = STOREU h 6 (LOADU h 6 XOR row2h v)
      in S\<lparr>b2_h := h\<rparr>)"

subsection \<open>Initialising, updating, finishing\<close>

definition blake2b_cleared :: blake2b_state where
  "blake2b_cleared = \<lparr>b2_h = replicate 8 0, b2_t = [0, 0], b2_f = [0, 0], b2_buf = replicate 128 0,
     b2_buflen = 0, b2_outlen = 0, b2_last_node = 0\<rparr>"

text \<open>The parameter block is the 64 bytes of the packed structure.\<close>

definition blake2b_init_param :: "u8 list \<Rightarrow> blake2b_state" where
  "blake2b_init_param P =
     (let v = concat (map (word_bytes 8) blake2b_IV)
      in blake2b_cleared\<lparr>b2_h := map (\<lambda>i. bytes_le (map (\<lambda>k. v ! (8 * i + k) XOR P ! (8 * i + k)) [0..<8])) [0..<8],
           b2_outlen := unat (P ! 0)\<rparr>)"

definition default_param :: "nat \<Rightarrow> nat \<Rightarrow> u8 list" where
  "default_param outlen keylen = [of_nat outlen, of_nat keylen, 1, 1] @ replicate 60 0"

text \<open>A return code of \<open>- 1\<close> is an error.\<close>

definition code_failed :: err where
  "code_failed = Runtime_error ''-1''"

definition blake2b_init :: "nat \<Rightarrow> blake2b_state res" where
  "blake2b_init outlen =
     (if outlen = 0 \<or> 64 < outlen then Inl code_failed else Inr (blake2b_init_param (default_param outlen 0)))"

function blake2b_blocks :: "blake2b_state \<Rightarrow> u8 list \<Rightarrow> blake2b_state \<times> u8 list" where
  "blake2b_blocks S input =
     (if 128 < length input
      then blake2b_blocks (blake2b_compress (blake2b_increment_counter S 128) (take 128 input)) (drop 128 input)
      else (S, input))"
  by pat_completeness auto
termination
  by (relation "measure (\<lambda>(S, input). length input)") auto

declare blake2b_blocks.simps [simp del]

definition blake2b_update :: "u8 list \<Rightarrow> blake2b_state \<Rightarrow> blake2b_state" where
  "blake2b_update input S =
     (if input = [] then S
      else
        let left = b2_buflen S; fill = 128 - left;
            (S, input) = (if fill < length input
              then
                let S = S\<lparr>b2_buflen := 0, b2_buf := take left (b2_buf S) @ take fill input\<rparr>;
                    S = blake2b_increment_counter S 128;
                    S = blake2b_compress S (b2_buf S)
                in blake2b_blocks S (drop fill input)
              else (S, input))
        in S\<lparr>b2_buf := take (b2_buflen S) (b2_buf S) @ input @ drop (b2_buflen S + length input) (b2_buf S),
             b2_buflen := b2_buflen S + length input\<rparr>)"

text \<open>The copy of more than the 64 bytes of the chaining value has no defined result.\<close>

definition blake2b_final :: "nat \<Rightarrow> blake2b_state \<Rightarrow> (u8 list \<times> blake2b_state) res option" where
  "blake2b_final outlen S =
     (if outlen < b2_outlen S \<or> blake2b_is_lastblock S then Some (Inl code_failed)
      else
        let S = blake2b_increment_counter S (of_nat (b2_buflen S));
            S = blake2b_set_lastblock S;
            S = S\<lparr>b2_buf := take (b2_buflen S) (b2_buf S) @ replicate (128 - b2_buflen S) 0\<rparr>;
            S = blake2b_compress S (b2_buf S)
        in if 64 < b2_outlen S then None
           else Some (Inr (take (b2_outlen S) (concat (map (word_bytes 8) (b2_h S))), S)))"

definition blake2b_init_key :: "nat \<Rightarrow> u8 list \<Rightarrow> blake2b_state res" where
  "blake2b_init_key outlen key =
     (if outlen = 0 \<or> 64 < outlen then Inl code_failed
      else if key = [] \<or> 64 < length key then Inl code_failed
      else Inr (blake2b_update (key @ replicate (128 - length key) 0)
             (blake2b_init_param (default_param outlen (length key)))))"

text \<open>What a client reads.\<close>

definition digest_of :: "(u8 list \<times> blake2b_state) res option \<Rightarrow> u8 list res option" where
  "digest_of r = map_option (\<lambda>r. res_bind r (\<lambda>(out, S). Inr out)) r"

text \<open>The function that hashes a message at once; no pointer is null.\<close>

definition blake2b :: "nat \<Rightarrow> u8 list \<Rightarrow> u8 list \<Rightarrow> u8 list res option" where
  "blake2b outlen input key =
     (if outlen = 0 \<or> 64 < outlen then Some (Inl code_failed)
      else if 64 < length key then Some (Inl code_failed)
      else case (if key \<noteq> [] then blake2b_init_key outlen key else blake2b_init outlen) of
          Inl e \<Rightarrow> Some (Inl e)
        | Inr S \<Rightarrow> digest_of (blake2b_final outlen (blake2b_update input S)))"

text \<open>The class \<^verbatim>\<open>Blake2\<close>, without \<^verbatim>\<open>TRUE_BLAKE2_INIT\<close>: there is no parameter block.\<close>

definition Blake2_Reset :: "nat \<Rightarrow> blake2b_state" where
  "Blake2_Reset outputLength = blake2b_cleared\<lparr>b2_outlen := outputLength, b2_h := blake2b_IV\<rparr>"

definition Blake2_hash :: "nat \<Rightarrow> u8 list \<Rightarrow> u8 list res option" where
  "Blake2_hash outputLength m =
     (let S = blake2b_update m (Blake2_Reset outputLength) in digest_of (blake2b_final (b2_outlen S) S))"

end
