(* ===== verification/Blake2_Correct.thy ===== *)
theory Blake2_Correct
  imports Blake2
begin

text \<open>
  BLAKE2b of RFC 7693 as a function of the key and the message, and the proof that the SSE code
  computes it: the rounds on the four rows of two registers are the mixing of the sixteen words,
  and the buffered updates hash the concatenation of their inputs.
\<close>

subsection \<open>The standard\<close>

definition ROTR64 :: "u64 \<Rightarrow> nat \<Rightarrow> u64" where
  "ROTR64 x n = drop_bit n x XOR push_bit (64 - n) x"

definition rfc_G :: "u64 \<Rightarrow> u64 \<Rightarrow> u64 \<Rightarrow> u64 \<Rightarrow> u64 \<Rightarrow> u64 \<Rightarrow> u64 \<times> u64 \<times> u64 \<times> u64" where
  "rfc_G a b c d x y =
     (let a = a + b + x; d = ROTR64 (d XOR a) 32; c = c + d; b = ROTR64 (b XOR c) 24;
          a = a + b + y; d = ROTR64 (d XOR a) 16; c = c + d; b = ROTR64 (b XOR c) 63
      in (a, b, c, d))"

definition rfc_sigma :: "nat list list" where
  "rfc_sigma =
     [[0, 1, 2, 3, 4, 5, 6, 7, 8, 9, 10, 11, 12, 13, 14, 15],
      [14, 10, 4, 8, 9, 15, 13, 6, 1, 12, 0, 2, 11, 7, 5, 3],
      [11, 8, 12, 0, 5, 2, 15, 13, 10, 14, 3, 6, 7, 1, 9, 4],
      [7, 9, 3, 1, 13, 12, 11, 14, 2, 6, 5, 10, 4, 0, 15, 8],
      [9, 0, 5, 7, 2, 4, 10, 15, 14, 1, 11, 12, 6, 8, 3, 13],
      [2, 12, 6, 10, 0, 11, 8, 3, 4, 13, 7, 5, 15, 14, 1, 9],
      [12, 5, 1, 15, 14, 13, 4, 10, 0, 7, 6, 3, 9, 2, 8, 11],
      [13, 11, 7, 14, 12, 1, 3, 9, 5, 0, 15, 4, 8, 6, 2, 10],
      [6, 15, 14, 9, 11, 3, 0, 8, 12, 2, 13, 7, 1, 4, 10, 5],
      [10, 2, 8, 4, 7, 6, 1, 5, 15, 11, 9, 14, 3, 12, 13, 0]]"

definition rfc_mix :: "nat \<Rightarrow> nat \<Rightarrow> nat \<Rightarrow> nat \<Rightarrow> u64 \<Rightarrow> u64 \<Rightarrow> u64 list \<Rightarrow> u64 list" where
  "rfc_mix i j k l x y v =
     (let (a, b, c, d) = rfc_G (v ! i) (v ! j) (v ! k) (v ! l) x y in v[i := a, j := b, k := c, l := d])"

definition rfc_round :: "u64 list \<Rightarrow> u64 list \<Rightarrow> nat \<Rightarrow> u64 list" where
  "rfc_round m v r =
     (let s = rfc_sigma ! (r mod 10);
          v = rfc_mix 0 4 8 12 (m ! (s ! 0)) (m ! (s ! 1)) v;
          v = rfc_mix 1 5 9 13 (m ! (s ! 2)) (m ! (s ! 3)) v;
          v = rfc_mix 2 6 10 14 (m ! (s ! 4)) (m ! (s ! 5)) v;
          v = rfc_mix 3 7 11 15 (m ! (s ! 6)) (m ! (s ! 7)) v;
          v = rfc_mix 0 5 10 15 (m ! (s ! 8)) (m ! (s ! 9)) v;
          v = rfc_mix 1 6 11 12 (m ! (s ! 10)) (m ! (s ! 11)) v;
          v = rfc_mix 2 7 8 13 (m ! (s ! 12)) (m ! (s ! 13)) v
      in rfc_mix 3 4 9 14 (m ! (s ! 14)) (m ! (s ! 15)) v)"

text \<open>\<open>t\<close> is the count of bytes, a number of 128 bits, and \<open>f\<close> marks the last block.\<close>

definition rfc_F :: "u64 list \<Rightarrow> u8 list \<Rightarrow> nat \<Rightarrow> bool \<Rightarrow> u64 list" where
  "rfc_F h block t f =
     (let m = map (\<lambda>i. bytes_le (take 8 (drop (8 * i) block))) [0..<16];
          v = h @ take 4 blake2b_IV @
              [blake2b_IV ! 4 XOR of_nat t, blake2b_IV ! 5 XOR of_nat (t div 2 ^ 64),
               blake2b_IV ! 6 XOR (if f then - 1 else 0), blake2b_IV ! 7];
          v = foldl (rfc_round m) v [0..<12]
      in map (\<lambda>i. h ! i XOR v ! i XOR v ! (i + 8)) [0..<8])"

function rfc_blocks :: "u64 list \<Rightarrow> nat \<Rightarrow> u8 list \<Rightarrow> u64 list" where
  "rfc_blocks h t d =
     (if 128 < length d then rfc_blocks (rfc_F h (take 128 d) (t + 128) False) (t + 128) (drop 128 d)
      else rfc_F h (d @ replicate (128 - length d) 0) (t + length d) True)"
  by pat_completeness auto
termination
  by (relation "measure (\<lambda>(h, t, d). length d)") auto

declare rfc_blocks.simps [simp del]

definition rfc_blake2b :: "nat \<Rightarrow> u8 list \<Rightarrow> u8 list \<Rightarrow> u8 list" where
  "rfc_blake2b nn key m =
     (let kk = length key;
          h = blake2b_IV[0 := blake2b_IV ! 0 XOR 0x01010000 XOR push_bit 8 (of_nat kk) XOR of_nat nn];
          d = (if kk = 0 then m else key @ replicate (128 - kk) 0 @ m)
      in take nn (concat (map (word_bytes 8) (rfc_blocks h 0 d))))"

subsection \<open>Lanes\<close>

lemma lane64_lanes64 [simp]:
  "lane64 (lanes64 a b) 0 = a" "lane64 (lanes64 a b) 1 = b" "lane64 (lanes64 a b) (Suc 0) = b"
  by (rule bit_word_eqI; auto simp: lane64_def bit_simps bit_lanes64 ac_simps)+

lemma lanes64_lane64: "lanes64 (lane64 b 0) (lane64 b 1) = b"
  by (rule bit_word_eqI) (auto simp: bit_lanes64 lane64_def bit_simps)

lemma lanes64_eq_iff [simp]: "lanes64 a b = lanes64 c d \<longleftrightarrow> a = c \<and> b = d"
  by (metis lane64_lanes64(1,2))

lemma lanes64_xor [simp]: "lanes64 a b XOR lanes64 c d = lanes64 (a XOR c) (b XOR d)"
  by (rule bit_word_eqI) (auto simp: bit_lanes64 bit_simps)

lemma lanes64_ops [simp]:
  "mm_add_epi64 (lanes64 a b) (lanes64 c d) = lanes64 (a + c) (b + d)"
  "mm_srli_epi64 (lanes64 a b) n = lanes64 (drop_bit n a) (drop_bit n b)"
  "mm_unpacklo_epi64 (lanes64 a b) (lanes64 c d) = lanes64 a c"
  "mm_unpackhi_epi64 (lanes64 a b) (lanes64 c d) = lanes64 b d"
  by (simp_all add: mm_add_epi64_def mm_srli_epi64_def mm_unpacklo_epi64_def mm_unpackhi_epi64_def)

lemma lanes64_alignr [simp]: "mm_alignr_epi8 (lanes64 a b) (lanes64 c d) 8 = lanes64 d a"
  by (rule bit_word_eqI) (auto simp: mm_alignr_epi8_def bit_lanes64 bit_simps)

lemma lanes64_swap [simp]: "mm_shuffle_epi32 (lanes64 a b) 1 0 3 2 = lanes64 b a"
proof (rule bit_word_eqI)
  fix k assume "k < LENGTH(128)"
  then consider "k < 32" | "32 \<le> k" "k < 64" | "64 \<le> k" "k < 96" | "96 \<le> k" "k < 128" by fastforce
  then show "bit (mm_shuffle_epi32 (lanes64 a b) 1 0 3 2) k = bit (lanes64 b a) k"
    by cases (auto simp: mm_shuffle_epi32_def byte_simps div_if mod_if)
qed

lemma less_16_cases: "q < 16 \<Longrightarrow> q \<in> {0, 1, 2, 3, 4, 5, 6, 7, 8, 9, 10, 11, 12, 13, 14, 15::nat}"
proof -
  assume "q < 16"
  then have "q \<in> set [0..<16]" by simp
  also have "[0..<16] = [0, 1, 2, 3, 4, 5, 6, 7, 8, 9, 10, 11, 12, 13, 14, 15::nat]" by (simp add: upt_rec)
  finally show ?thesis by (simp only: list.set)
qed

lemma lanes64_blend [simp]: "mm_blend_epi16 (lanes64 a b) (lanes64 c d) 0xF0 = lanes64 a d"
proof (rule bit_word_eqI)
  fix k assume "k < LENGTH(128)"
  then have k: "k < 128" "k div 8 < 16" by auto
  have "bit (0xF0 :: u8) (k div 8 div 2) \<longleftrightarrow> 64 \<le> k"
  proof -
    have "bit (0xF0 :: u8) (q div 2) \<longleftrightarrow> 8 \<le> q" if "q < 16" for q
      using less_16_cases [OF that] by (elim insertE emptyE; simp)
    moreover have "8 \<le> k div 8 \<longleftrightarrow> 64 \<le> k" by linarith
    ultimately show ?thesis using k(2) by blast
  qed
  then show "bit (mm_blend_epi16 (lanes64 a b) (lanes64 c d) 0xF0) k = bit (lanes64 a d) k"
    using k by (simp add: mm_blend_epi16_def bit_bytes_block bit_block_byte bit_lanes64)
qed

lemma bit_ROTR64:
  assumes "0 < n" and "n < 64"
  shows "bit (ROTR64 x n) k \<longleftrightarrow> k < 64 \<and> bit x ((k + n) mod 64)"
proof (cases "k + n < 64")
  case True
  then show ?thesis by (auto simp: ROTR64_def bit_simps add.commute)
next
  case False
  then have "k < 64 \<Longrightarrow> (k + n) mod 64 = k + n - 64" using assms by (simp add: mod_if)
  moreover have "\<not> bit x (k + n)" using False bit_imp_le_length [of x "k + n"] by auto
  ultimately show ?thesis using False assms
    by (auto simp: ROTR64_def bit_simps add.commute dest: bit_imp_le_length)
qed

text \<open>A shuffle that takes byte \<open>8 p + (q + s) mod 8\<close> for byte \<open>8 p + q\<close> rotates the lanes.\<close>

lemma shuffle_rotates:
  assumes "length idx = 16" and s: "0 < s" "s < 8"
    and idx: "\<And>q. q < 16 \<Longrightarrow> \<not> bit (idx ! q) 7 \<and> unat (idx ! q) mod 16 = 8 * (q div 8) + (q + s) mod 8"
  shows "mm_shuffle_epi8 (lanes64 a b) idx = lanes64 (ROTR64 a (8 * s)) (ROTR64 b (8 * s))"
proof (rule bit_word_eqI)
  fix k assume "k < LENGTH(128)"
  then have k: "k < 128" "k div 8 < 16" by auto
  define p q r where "p = k div 64" and "q = k div 8 mod 8" and "r = k mod 8"
  have "k div 64 = k div 8 div 8" using div_mult2_eq [of k 8 8] by simp
  then have e: "k = 64 * p + 8 * q + r" and pqr: "p < 2" "q < 8" "r < 8"
    unfolding p_def q_def r_def using k(1) mult_div_mod_eq [of 8 k] mult_div_mod_eq [of 8 "k div 8"]
    by - (linarith, simp_all)
  have d: "k div 8 = 8 * p + q" using e pqr by simp
  have m: "(8 * q + r + 8 * s) mod 64 = 8 * ((q + s) mod 8) + r"
    using pqr s by (cases "q + s < 8") (auto simp: mod_if)
  have "(8 * p + q + s) mod 8 = (q + s) mod 8" by (simp add: add.assoc)
  then have "bit (mm_shuffle_epi8 (lanes64 a b) idx) k \<longleftrightarrow> bit (lanes64 a b) (8 * (8 * p + (q + s) mod 8) + r)"
    using k idx [OF k(2)] assms(1) pqr
    by (simp add: mm_shuffle_epi8_def bit_bytes_block bit_block_byte d r_def)
  also have "\<dots> \<longleftrightarrow> bit (lanes64 (ROTR64 a (8 * s)) (ROTR64 b (8 * s))) k"
  proof (cases "p = 0")
    case True
    then show ?thesis using pqr s m by (auto simp: bit_lanes64 bit_ROTR64 e)
  next
    case False
    then have "p = 1" using pqr by simp
    then show ?thesis using pqr s m by (auto simp: bit_lanes64 bit_ROTR64 e)
  qed
  finally show "bit (mm_shuffle_epi8 (lanes64 a b) idx) k = bit (lanes64 (ROTR64 a (8 * s)) (ROTR64 b (8 * s))) k" .
qed

lemma lanes64_roti [simp]:
  "mm_roti_epi64 (lanes64 a b) 32 = lanes64 (ROTR64 a 32) (ROTR64 b 32)"
  "mm_roti_epi64 (lanes64 a b) 24 = lanes64 (ROTR64 a 24) (ROTR64 b 24)"
  "mm_roti_epi64 (lanes64 a b) 16 = lanes64 (ROTR64 a 16) (ROTR64 b 16)"
  "mm_roti_epi64 (lanes64 a b) 63 = lanes64 (ROTR64 a 63) (ROTR64 b 63)"
proof -
  have "mm_shuffle_epi8 (lanes64 a b) r24 = lanes64 (ROTR64 a (8 * 3)) (ROTR64 b (8 * 3))"
    by (rule shuffle_rotates, simp_all add: r24_def, drule less_16_cases) (elim insertE emptyE; simp)
  then show "mm_roti_epi64 (lanes64 a b) 24 = lanes64 (ROTR64 a 24) (ROTR64 b 24)"
    by (simp add: mm_roti_epi64_def)
  have "mm_shuffle_epi8 (lanes64 a b) r16 = lanes64 (ROTR64 a (8 * 2)) (ROTR64 b (8 * 2))"
    by (rule shuffle_rotates, simp_all add: r16_def, drule less_16_cases) (elim insertE emptyE; simp)
  then show "mm_roti_epi64 (lanes64 a b) 16 = lanes64 (ROTR64 a 16) (ROTR64 b 16)"
    by (simp add: mm_roti_epi64_def)
  show "mm_roti_epi64 (lanes64 a b) 32 = lanes64 (ROTR64 a 32) (ROTR64 b 32)"
  proof (rule bit_word_eqI)
    fix k assume "k < LENGTH(128)"
    then consider "k < 32" | "32 \<le> k" "k < 64" | "64 \<le> k" "k < 96" | "96 \<le> k" "k < 128" by fastforce
    then show "bit (mm_roti_epi64 (lanes64 a b) 32) k = bit (lanes64 (ROTR64 a 32) (ROTR64 b 32)) k"
      by cases (auto simp: mm_roti_epi64_def mm_shuffle_epi32_def bit_lanes32 bit_lane32 bit_lanes64 bit_ROTR64 div_if mod_if add.commute)
  qed
  have "x + x = push_bit 1 x" for x :: u64 by (simp add: push_bit_eq_mult)
  then show "mm_roti_epi64 (lanes64 a b) 63 = lanes64 (ROTR64 a 63) (ROTR64 b 63)"
    by (simp add: mm_roti_epi64_def ROTR64_def mult.commute)
qed

subsection \<open>The rounds on the rows\<close>

text \<open>The rows that hold the sixteen words.\<close>

definition rows_of :: "u64 list \<Rightarrow> rows" where
  "rows_of v =
     \<lparr>row1l = LOADU v 0, row1h = LOADU v 2, row2l = LOADU v 4, row2h = LOADU v 6,
      row3l = LOADU v 8, row3h = LOADU v 10, row4l = LOADU v 12, row4h = LOADU v 14\<rparr>"

lemma mix_columns:
  assumes "rfc_G a0 b0 c0 d0 x0 y0 = (a0', b0', c0', d0')" and "rfc_G a1 b1 c1 d1 x1 y1 = (a1', b1', c1', d1')"
    and "rfc_G a2 b2 c2 d2 x2 y2 = (a2', b2', c2', d2')" and "rfc_G a3 b3 c3 d3 x3 y3 = (a3', b3', c3', d3')"
  shows "G2 (lanes64 y0 y1, lanes64 y2 y3) (G1 (lanes64 x0 x1, lanes64 x2 x3)
      \<lparr>row1l = lanes64 a0 a1, row1h = lanes64 a2 a3, row2l = lanes64 b0 b1, row2h = lanes64 b2 b3,
       row3l = lanes64 c0 c1, row3h = lanes64 c2 c3, row4l = lanes64 d0 d1, row4h = lanes64 d2 d3\<rparr>) =
    \<lparr>row1l = lanes64 a0' a1', row1h = lanes64 a2' a3', row2l = lanes64 b0' b1', row2h = lanes64 b2' b3',
     row3l = lanes64 c0' c1', row3h = lanes64 c2' c3', row4l = lanes64 d0' d1', row4h = lanes64 d2' d3'\<rparr>"
  using assms by (auto simp: rfc_G_def Let_def G1_def G2_def G_half_def ac_simps)

lemma mix_rows:
  assumes v: "v = [a0, a1, a2, a3, b0, b1, b2, b3, c0, c1, c2, c3, d0, d1, d2, d3]"
  shows "G2 (lanes64 y0 y1, lanes64 y2 y3) (G1 (lanes64 x0 x1, lanes64 x2 x3) (rows_of v)) =
    rows_of (rfc_mix 3 7 11 15 x3 y3 (rfc_mix 2 6 10 14 x2 y2 (rfc_mix 1 5 9 13 x1 y1 (rfc_mix 0 4 8 12 x0 y0 v))))"
proof -
  obtain a0' b0' c0' d0' where 0: "rfc_G a0 b0 c0 d0 x0 y0 = (a0', b0', c0', d0')" by (cases "rfc_G a0 b0 c0 d0 x0 y0")
  obtain a1' b1' c1' d1' where 1: "rfc_G a1 b1 c1 d1 x1 y1 = (a1', b1', c1', d1')" by (cases "rfc_G a1 b1 c1 d1 x1 y1")
  obtain a2' b2' c2' d2' where 2: "rfc_G a2 b2 c2 d2 x2 y2 = (a2', b2', c2', d2')" by (cases "rfc_G a2 b2 c2 d2 x2 y2")
  obtain a3' b3' c3' d3' where 3: "rfc_G a3 b3 c3 d3 x3 y3 = (a3', b3', c3', d3')" by (cases "rfc_G a3 b3 c3 d3 x3 y3")
  have "rows_of v =
      \<lparr>row1l = lanes64 a0 a1, row1h = lanes64 a2 a3, row2l = lanes64 b0 b1, row2h = lanes64 b2 b3,
       row3l = lanes64 c0 c1, row3h = lanes64 c2 c3, row4l = lanes64 d0 d1, row4h = lanes64 d2 d3\<rparr>"
    by (simp add: v rows_of_def LOADU_def)
  moreover have "rfc_mix 3 7 11 15 x3 y3 (rfc_mix 2 6 10 14 x2 y2 (rfc_mix 1 5 9 13 x1 y1 (rfc_mix 0 4 8 12 x0 y0 v))) =
      [a0', a1', a2', a3', b0', b1', b2', b3', c0', c1', c2', c3', d0', d1', d2', d3']"
    by (simp add: v rfc_mix_def 0 1 2 3)
  ultimately show ?thesis
    by (simp add: mix_columns [OF 0 1 2 3]) (simp add: rows_of_def LOADU_def)
qed

text \<open>Turning the rows brings the diagonals into columns.\<close>

definition turn :: "u64 list \<Rightarrow> u64 list" where
  "turn v = map (\<lambda>i. v ! i) [0, 1, 2, 3, 5, 6, 7, 4, 10, 11, 8, 9, 15, 12, 13, 14]"

definition turn_back :: "u64 list \<Rightarrow> u64 list" where
  "turn_back v = map (\<lambda>i. v ! i) [0, 1, 2, 3, 7, 4, 5, 6, 10, 11, 8, 9, 13, 14, 15, 12]"

lemma DIAGONALIZE_rows: "DIAGONALIZE (rows_of v) = rows_of (turn v)"
  by (simp add: DIAGONALIZE_def rows_of_def LOADU_def turn_def)

lemma length_turn [simp]: "length (turn v) = 16"
  by (simp add: turn_def)

lemma UNDIAGONALIZE_rows: "UNDIAGONALIZE (rows_of v) = rows_of (turn_back v)"
  by (simp add: UNDIAGONALIZE_def rows_of_def LOADU_def turn_back_def)

lemma length_16:
  assumes "length v = 16"
  shows "v = [v ! 0, v ! 1, v ! 2, v ! 3, v ! 4, v ! 5, v ! 6, v ! 7,
    v ! 8, v ! 9, v ! 10, v ! 11, v ! 12, v ! 13, v ! 14, v ! 15]"
proof -
  have "v = map ((!) v) [0..<16]" using assms map_nth [of v] by simp
  also have "[0..<16] = [0, 1, 2, 3, 4, 5, 6, 7, 8, 9, 10, 11, 12, 13, 14, 15::nat]" by (simp add: upt_rec)
  finally show ?thesis by (simp only: list.map)
qed

lemma length_16E:
  assumes "length v = 16"
  obtains a0 a1 a2 a3 b0 b1 b2 b3 c0 c1 c2 c3 d0 d1 d2 d3
  where "v = [a0, a1, a2, a3, b0, b1, b2, b3, c0, c1, c2, c3, d0, d1, d2, d3]"
  using length_16 [OF assms] that by blast

lemma length_rfc_mix [simp]: "length (rfc_mix i j k l x y v) = length v"
  by (simp add: rfc_mix_def split_beta)

lemma diagonal_mix:
  assumes "length v = 16"
  shows "turn_back (rfc_mix 3 7 11 15 x3 y3 (rfc_mix 2 6 10 14 x2 y2 (rfc_mix 1 5 9 13 x1 y1 (rfc_mix 0 4 8 12 x0 y0 (turn v))))) =
    rfc_mix 3 4 9 14 x3 y3 (rfc_mix 2 7 8 13 x2 y2 (rfc_mix 1 6 11 12 x1 y1 (rfc_mix 0 5 10 15 x0 y0 v)))"
  by (rule length_16E [OF assms]) (simp add: turn_def turn_back_def rfc_mix_def split_beta)

lemma LOAD_MSG_words:
  assumes "r < 12"
  defines "s \<equiv> rfc_sigma ! (r mod 10)"
  shows "LOAD_MSG r (map (LOADU w) [0, 2, 4, 6, 8, 10, 12, 14]) =
    [(lanes64 (w ! (s ! 0)) (w ! (s ! 2)), lanes64 (w ! (s ! 4)) (w ! (s ! 6))),
     (lanes64 (w ! (s ! 1)) (w ! (s ! 3)), lanes64 (w ! (s ! 5)) (w ! (s ! 7))),
     (lanes64 (w ! (s ! 8)) (w ! (s ! 10)), lanes64 (w ! (s ! 12)) (w ! (s ! 14))),
     (lanes64 (w ! (s ! 9)) (w ! (s ! 11)), lanes64 (w ! (s ! 13)) (w ! (s ! 15)))]"
proof -
  have "r \<in> {0, 1, 2, 3, 4, 5, 6, 7, 8, 9, 10, 11}"
    using assms(1) less_16_cases [of r] by auto
  then show ?thesis unfolding s_def
    by (elim insertE emptyE)
       (simp_all add: LOAD_MSG_def LOAD_MSG_0_def LOAD_MSG_1_def LOAD_MSG_2_def LOAD_MSG_3_def LOAD_MSG_4_def
         LOAD_MSG_5_def LOAD_MSG_6_def LOAD_MSG_7_def LOAD_MSG_8_def LOAD_MSG_9_def LOAD_MSG_10_def
         LOAD_MSG_11_def LOADU_def rfc_sigma_def
         lanes64_swap [unfolded One_nat_def])
qed

lemma ROUND_rows:
  assumes "length v = 16" and "r < 12"
  shows "ROUND (map (LOADU w) [0, 2, 4, 6, 8, 10, 12, 14]) (rows_of v) r = rows_of (rfc_round w v r)"
proof -
  have mix: "G2 (lanes64 y0 y1, lanes64 y2 y3) (G1 (lanes64 x0 x1, lanes64 x2 x3) (rows_of v)) =
    rows_of (rfc_mix 3 7 11 15 x3 y3 (rfc_mix 2 6 10 14 x2 y2 (rfc_mix 1 5 9 13 x1 y1 (rfc_mix 0 4 8 12 x0 y0 v))))"
    if "length v = 16" for v x0 x1 x2 x3 y0 y1 y2 y3
    using mix_rows by (rule length_16E [OF that])
  show ?thesis
    unfolding ROUND_def LOAD_MSG_words [OF assms(2)] Let_def
    by (simp add: mix assms(1) DIAGONALIZE_rows UNDIAGONALIZE_rows diagonal_mix [unfolded One_nat_def]
        rfc_round_def Let_def)
qed
subsection \<open>The compression function is that of the standard\<close>

lemma ROUNDS_rows:
  assumes "length v = 16" and "n \<le> 12"
  shows "foldl (ROUND (map (LOADU w) [0, 2, 4, 6, 8, 10, 12, 14])) (rows_of v) [0..<n] =
      rows_of (foldl (rfc_round w) v [0..<n]) \<and> length (foldl (rfc_round w) v [0..<n]) = 16"
  using assms(2)
proof (induction n)
  case (Suc n)
  then have IH: "foldl (ROUND (map (LOADU w) [0, 2, 4, 6, 8, 10, 12, 14])) (rows_of v) [0..<n] =
      rows_of (foldl (rfc_round w) v [0..<n])" "length (foldl (rfc_round w) v [0..<n]) = 16" by simp_all
  have "length (rfc_round w u n) = length u" for u by (simp add: rfc_round_def Let_def)
  with IH Suc.prems ROUND_rows [OF IH(2)] show ?case by simp
qed (use assms in simp)

lemma bytes_block_lanes:
  assumes "length bs = 16"
  shows "bytes_block bs = lanes64 (bytes_le (take 8 bs)) (bytes_le (drop 8 bs))"
proof (rule bit_word_eqI)
  fix k assume "k < LENGTH(128)"
  then have k: "k < 128" "k div 8 < 16" by auto
  show "bit (bytes_block bs) k = bit (lanes64 (bytes_le (take 8 bs)) (bytes_le (drop 8 bs))) k"
  proof (cases "k < 64")
    case True
    then have "k div 8 < 8" by auto
    with True k assms show ?thesis by (simp add: bit_bytes_block bit_lanes64 bit_bytes_le)
  next
    case False
    then obtain j where "k = 64 + j" by (metis le_Suc_ex not_less)
    moreover have "(64 + j) div 8 = 8 + j div 8" and "(64 + j) mod 8 = j mod 8" by presburger+
    moreover have "j div 8 < 8" using k \<open>k = 64 + j\<close> by auto
    ultimately show ?thesis using k assms by (simp add: bit_bytes_block bit_lanes64 bit_bytes_le)
  qed
qed

text \<open>The sixteen words of a block.\<close>

definition message_words :: "u8 list \<Rightarrow> u64 list" where
  "message_words block = map (\<lambda>i. bytes_le (take 8 (drop (8 * i) block))) [0..<16]"

lemma message_blocks:
  assumes "length block = 128"
  shows "bytes_blocks 8 block = map (LOADU (message_words block)) [0, 2, 4, 6, 8, 10, 12, 14]"
proof -
  have "bytes_block (take 16 (drop (16 * i) block)) = LOADU (message_words block) (2 * i)" if "i < 8" for i
    using that assms bytes_block_lanes [of "take 16 (drop (16 * i) block)"]
    by (simp add: LOADU_def message_words_def drop_take add.commute)
  then have "bytes_blocks 8 block = map (\<lambda>i. LOADU (message_words block) (2 * i)) [0..<8]"
    by (intro nth_equalityI) (simp_all add: nth_bytes_blocks)
  also have "\<dots> = map (LOADU (message_words block)) [0, 2, 4, 6, 8, 10, 12, 14]" by (simp add: upt_rec)
  finally show ?thesis .
qed

lemma length_8: 
  assumes "length h = 8"
  shows "h = [h ! 0, h ! 1, h ! 2, h ! 3, h ! 4, h ! 5, h ! 6, h ! 7]"
proof -
  have "h = map ((!) h) [0..<8]" using assms map_nth [of h] by simp
  also have "[0..<8] = [0, 1, 2, 3, 4, 5, 6, 7::nat]" by (simp add: upt_rec)
  finally show ?thesis by (simp only: list.map)
qed

text \<open>The counters stand for the number \<open>t\<close> of bytes and for the last-block flag \<open>f\<close>.\<close>

definition counts :: "nat \<Rightarrow> bool \<Rightarrow> blake2b_state \<Rightarrow> bool" where
  "counts t f S \<longleftrightarrow> length (b2_h S) = 8 \<and> b2_t S = [of_nat t, of_nat (t div 2 ^ 64)] \<and>
     b2_f S = [if f then - 1 else 0, 0] \<and> b2_last_node S = 0"

lemma blake2b_compress_rfc:
  assumes "counts t f S" and "length block = 128"
  shows "blake2b_compress S block = S\<lparr>b2_h := rfc_F (b2_h S) block t f\<rparr>"
proof -
  define w where "w = message_words block"
  define v where "v = b2_h S @ take 4 blake2b_IV @
    [blake2b_IV ! 4 XOR of_nat t, blake2b_IV ! 5 XOR of_nat (t div 2 ^ 64),
     blake2b_IV ! 6 XOR (if f then - 1 else 0), blake2b_IV ! 7]"
  define u where "u = foldl (rfc_round w) v [0..<12]"
  obtain h0 h1 h2 h3 h4 h5 h6 h7 where h: "b2_h S = [h0, h1, h2, h3, h4, h5, h6, h7]"
    using assms(1) length_8 [of "b2_h S"] by (auto simp: counts_def)
  have l: "length v = 16" by (simp add: v_def h blake2b_IV_def)
  have rows: "\<lparr>row1l = LOADU (b2_h S) 0, row1h = LOADU (b2_h S) 2, row2l = LOADU (b2_h S) 4, row2h = LOADU (b2_h S) 6,
      row3l = LOADU blake2b_IV 0, row3h = LOADU blake2b_IV 2, row4l = LOADU blake2b_IV 4 XOR LOADU (b2_t S) 0,
      row4h = LOADU blake2b_IV 6 XOR LOADU (b2_f S) 0\<rparr> = rows_of v"
    using assms(1) by (simp add: v_def h rows_of_def LOADU_def blake2b_IV_def counts_def)
  have loop: "foldl (ROUND (bytes_blocks 8 block)) (rows_of v) [0..<12] = rows_of u"
    unfolding message_blocks [OF assms(2)] w_def [symmetric] u_def using ROUNDS_rows [OF l order_refl] by blast
  have e: "[0..<8] = [0, 1, 2, 3, 4, 5, 6, 7::nat]" by (simp add: upt_rec)
  have F: "rfc_F (b2_h S) block t f = map (\<lambda>i. b2_h S ! i XOR u ! i XOR u ! (i + 8)) [0, 1, 2, 3, 4, 5, 6, 7]"
    unfolding rfc_F_def Let_def v_def [symmetric] message_words_def [symmetric] w_def [symmetric] u_def [symmetric] e
    by (rule refl)
  show ?thesis
    unfolding blake2b_compress_def Let_def rows loop F
    by (simp add: h rows_of_def LOADU_def STOREU_def numeral_3_eq_3 ac_simps)
qed

lemma div_carry:
  fixes t n B :: nat
  assumes "n < B"
  shows "(t + n) div B = t div B + (if (t + n) mod B < n then 1 else 0)"
proof -
  define q a where "q = t div B" and "a = t mod B"
  have t: "t = B * q + a" and a: "a < B" using assms by (simp_all add: q_def a_def)
  show ?thesis
  proof (cases "a + n < B")
    case True
    then show ?thesis using a by (simp add: t add.assoc)
  next
    case False
    then obtain c where c: "a + n = B + c" by (metis le_Suc_ex not_less)
    then have e: "t + n = B * (q + 1) + c" and cn: "c < n" and cB: "c < B" using t a assms by simp_all
    have "(t + n) mod B = c" and "(t + n) div B = q + 1"
      using cB by (simp_all only: e mod_mult_self4 div_mult_self4 mod_less div_less)
    then show ?thesis using cn by (simp add: q_def)
  qed
qed

lemma blake2b_increment_counter_counts:
  assumes "counts t f S" and "n < 2 ^ 64"
  shows "counts (t + n) f (blake2b_increment_counter S (of_nat n))"
proof -
  have "(of_nat (t + n) :: u64) < of_nat n \<longleftrightarrow> (t + n) mod 2 ^ 64 < n"
    using assms(2) by (simp only: word_less_nat_alt unat_of_nat) simp
  then show ?thesis using assms(1) div_carry [OF assms(2), of t]
    by (simp add: counts_def blake2b_increment_counter_def Let_def)
qed
subsection \<open>Updates hash the concatenation of their inputs\<close>

text \<open>
  The state without its buffer, and the bytes that wait in the buffer. What lies behind them
  differs between ways to cut the input into pieces, and is never read.
\<close>

definition core :: "blake2b_state \<Rightarrow> blake2b_state" where
  "core S = S\<lparr>b2_buf := [], b2_buflen := 0\<rparr>"

definition pending :: "blake2b_state \<Rightarrow> u8 list" where
  "pending S = take (b2_buflen S) (b2_buf S)"

definition blake2b_ok :: "blake2b_state \<Rightarrow> bool" where
  "blake2b_ok S \<longleftrightarrow> length (b2_buf S) = 128 \<and> b2_buflen S \<le> 128"

lemma core_simps [simp]:
  "blake2b_compress (core S) b = core (blake2b_compress S b)"
  "blake2b_increment_counter (core S) n = core (blake2b_increment_counter S n)"
  "b2_h (core S) = b2_h S" "b2_t (core S) = b2_t S" "b2_f (core S) = b2_f S"
  "b2_outlen (core S) = b2_outlen S" "b2_last_node (core S) = b2_last_node S"
  "core (core S) = core S" "core (S\<lparr>b2_buf := x\<rparr>) = core S" "core (S\<lparr>b2_buflen := l\<rparr>) = core S"
  by (simp_all add: core_def blake2b_compress_def blake2b_increment_counter_def Let_def)

lemma buffer_kept [simp]:
  "b2_buf (blake2b_compress S b) = b2_buf S" "b2_buflen (blake2b_compress S b) = b2_buflen S"
  "b2_buf (blake2b_increment_counter S n) = b2_buf S" "b2_buflen (blake2b_increment_counter S n) = b2_buflen S"
  by (simp_all add: blake2b_compress_def blake2b_increment_counter_def Let_def)

lemma core_block_step:
  "core S = core S' \<Longrightarrow> core (blake2b_compress (blake2b_increment_counter S n) b) =
     core (blake2b_compress (blake2b_increment_counter S' n) b)"
  by (metis core_simps(1,2))

lemma blake2b_blocks_core:
  assumes "core S = core S'"
  shows "core (fst (blake2b_blocks S d)) = core (fst (blake2b_blocks S' d)) \<and>
    snd (blake2b_blocks S d) = snd (blake2b_blocks S' d) \<and>
    b2_buf (fst (blake2b_blocks S d)) = b2_buf S \<and> b2_buflen (fst (blake2b_blocks S d)) = b2_buflen S \<and>
    length (snd (blake2b_blocks S d)) \<le> 128"
  using assms
proof (induction S d arbitrary: S' rule: blake2b_blocks.induct)
  case (1 S d)
  show ?case
  proof (cases "128 < length d")
    case True
    from "1.IH" [OF True core_block_step [OF "1.prems"]] True show ?thesis
      by (auto simp: blake2b_blocks.simps [where S = S] blake2b_blocks.simps [where S = S'])
  next
    case False
    then show ?thesis using "1.prems"
      by (simp add: blake2b_blocks.simps [where S = S] blake2b_blocks.simps [where S = S'])
  qed
qed

lemma blake2b_blocks_short: "length d \<le> 128 \<Longrightarrow> blake2b_blocks S d = (S, d)"
  by (simp add: blake2b_blocks.simps)

lemma blake2b_blocks_append:
  "blake2b_blocks S (x @ y) = (let (S', r) = blake2b_blocks S x in blake2b_blocks S' (r @ y))"
proof (induction S x rule: blake2b_blocks.induct)
  case (1 S x)
  show ?case
  proof (cases "128 < length x")
    case True
    then show ?thesis using "1.IH"
      by (simp add: blake2b_blocks.simps [where S = S and input = "x @ y"] blake2b_blocks.simps [where S = S and input = x])
  next
    case False
    then show ?thesis by (simp add: blake2b_blocks_short)
  qed
qed

lemma blake2b_update_view:
  assumes "blake2b_ok S"
  shows "core (blake2b_update m S) = core (fst (blake2b_blocks S (pending S @ m)))"
    and "pending (blake2b_update m S) = snd (blake2b_blocks S (pending S @ m))"
    and "blake2b_ok (blake2b_update m S)"
proof -
  have l: "length (b2_buf S) = 128" "b2_buflen S \<le> 128" "length (pending S) = b2_buflen S"
    using assms by (auto simp: blake2b_ok_def pending_def)
  have "core (blake2b_update m S) = core (fst (blake2b_blocks S (pending S @ m))) \<and>
    pending (blake2b_update m S) = snd (blake2b_blocks S (pending S @ m)) \<and> blake2b_ok (blake2b_update m S)"
  proof (cases "128 - b2_buflen S < length m")
    case False
    then show ?thesis using l
      by (auto simp: blake2b_update_def blake2b_blocks_short pending_def blake2b_ok_def Let_def)
  next
    case True
    let ?fill = "128 - b2_buflen S"
    define b where "b = pending S @ take ?fill m"
    define S1 where "S1 = S\<lparr>b2_buflen := 0, b2_buf := b\<rparr>"
    define S2 where "S2 = blake2b_compress (blake2b_increment_counter S1 128) b"
    have b: "take 128 (pending S @ m) = b" "drop 128 (pending S @ m) = drop ?fill m" "length b = 128"
      using l True by (simp_all add: b_def)
    have c: "128 < length (pending S @ m)" using True l by simp
    have "blake2b_blocks S (pending S @ m) =
        blake2b_blocks (blake2b_compress (blake2b_increment_counter S 128) b) (drop ?fill m)"
      using c by (subst blake2b_blocks.simps) (simp only: b if_True)
    moreover have "core (blake2b_compress (blake2b_increment_counter S 128) b) = core S2"
      unfolding S2_def by (rule core_block_step) (simp add: S1_def)
    moreover have S2: "b2_buf S2 = b" "b2_buflen S2 = 0" by (simp_all add: S2_def S1_def)
    moreover obtain S3 r where r: "blake2b_blocks S2 (drop ?fill m) = (S3, r)" by (cases "blake2b_blocks S2 (drop ?fill m)")
    moreover have "blake2b_update m S = S3\<lparr>b2_buf := take (b2_buflen S3) (b2_buf S3) @ r @ drop (b2_buflen S3 + length r) (b2_buf S3),
        b2_buflen := b2_buflen S3 + length r\<rparr>"
      using True r l unfolding blake2b_update_def b_def S1_def S2_def pending_def
      by (auto simp: Let_def)
    ultimately show ?thesis
      using blake2b_blocks_core [of S2 S2 "drop ?fill m"]
        blake2b_blocks_core [of "blake2b_compress (blake2b_increment_counter S 128) b" S2 "drop ?fill m"] b(3)
      by (auto simp: blake2b_ok_def pending_def)
  qed
  then show "core (blake2b_update m S) = core (fst (blake2b_blocks S (pending S @ m)))"
    and "pending (blake2b_update m S) = snd (blake2b_blocks S (pending S @ m))"
    and "blake2b_ok (blake2b_update m S)" by simp_all
qed

lemma b2_outlen_blocks [simp]: "b2_outlen (fst (blake2b_blocks S d)) = b2_outlen S"
proof (induction S d rule: blake2b_blocks.induct)
  case (1 S d)
  then show ?case
    by (cases "128 < length d")
       (simp_all add: blake2b_blocks.simps [where S = S and input = d] blake2b_compress_def
         blake2b_increment_counter_def Let_def)
qed

lemma b2_outlen_update [simp]: "b2_outlen (blake2b_update m S) = b2_outlen S"
proof -
  have "b2_outlen (blake2b_compress S b) = b2_outlen S" "b2_outlen (blake2b_increment_counter S n) = b2_outlen S"
    for S b n by (simp_all add: blake2b_compress_def blake2b_increment_counter_def Let_def)
  moreover have "b2_outlen S1 = b2_outlen S" if "blake2b_blocks S d = (S1, r)" for S S1 d r
    using that b2_outlen_blocks [of S d] by simp
  ultimately show ?thesis by (auto simp: blake2b_update_def Let_def split: prod.splits dest!: sym [of "(_, _)"])
qed

lemma blake2b_update_append:
  assumes "blake2b_ok S"
  shows "core (blake2b_update y (blake2b_update x S)) = core (blake2b_update (x @ y) S)"
    and "pending (blake2b_update y (blake2b_update x S)) = pending (blake2b_update (x @ y) S)"
proof -
  note x = blake2b_update_view [OF assms, of x] and xy = blake2b_update_view [OF assms, of "x @ y"]
  note y = blake2b_update_view [OF x(3), of y]
  have "blake2b_blocks S (pending S @ x @ y) =
      blake2b_blocks (fst (blake2b_blocks S (pending S @ x))) (snd (blake2b_blocks S (pending S @ x)) @ y)"
    using blake2b_blocks_append [of S "pending S @ x" y] by (simp add: split_beta)
  with blake2b_blocks_core [OF x(1), of "pending (blake2b_update x S) @ y"] x y xy
  show "core (blake2b_update y (blake2b_update x S)) = core (blake2b_update (x @ y) S)"
    and "pending (blake2b_update y (blake2b_update x S)) = pending (blake2b_update (x @ y) S)" by simp_all
qed
lemma blake2b_update_fold:
  assumes "blake2b_ok S"
  shows "core (fold blake2b_update ms S) = core (fst (blake2b_blocks S (pending S @ concat ms))) \<and>
    pending (fold blake2b_update ms S) = snd (blake2b_blocks S (pending S @ concat ms)) \<and>
    blake2b_ok (fold blake2b_update ms S)"
  using assms
proof (induction ms arbitrary: S)
  case Nil
  then show ?case by (auto simp: blake2b_blocks_short pending_def blake2b_ok_def)
next
  case (Cons m ms)
  note u = blake2b_update_view [OF Cons.prems, of m]
  show ?case
    using Cons.IH [OF u(3)] blake2b_update_view [OF u(3), of "concat ms"]
      blake2b_update_append [OF Cons.prems, of "concat ms" m] blake2b_update_view [OF Cons.prems, of "m @ concat ms"]
    by simp
qed

subsection \<open>The digest\<close>

lemma blake2b_blocks_rfc:
  assumes "counts t False S" and "blake2b_blocks S d = (S', r)"
  obtains t' where "counts t' False S'" and "b2_outlen S' = b2_outlen S"
    and "rfc_blocks (b2_h S) t d = rfc_F (b2_h S') (r @ replicate (128 - length r) 0) (t' + length r) True"
proof -
  have "\<exists>t'. counts t' False S' \<and> b2_outlen S' = b2_outlen S \<and>
    rfc_blocks (b2_h S) t d = rfc_F (b2_h S') (r @ replicate (128 - length r) 0) (t' + length r) True"
    using assms
  proof (induction S d arbitrary: t rule: blake2b_blocks.induct)
    case (1 S d)
    show ?case
    proof (cases "128 < length d")
      case True
      let ?S = "blake2b_increment_counter S 128"
      have i: "counts (t + 128) False ?S"
        using blake2b_increment_counter_counts [OF "1.prems"(1), of 128] by simp
      have b: "blake2b_compress ?S (take 128 d) = ?S\<lparr>b2_h := rfc_F (b2_h S) (take 128 d) (t + 128) False\<rparr>"
        using blake2b_compress_rfc [OF i, of "take 128 d"] True by (simp add: blake2b_increment_counter_def)
      have "counts (t + 128) False (blake2b_compress ?S (take 128 d))"
        using i by (simp add: b counts_def rfc_F_def Let_def)
      from "1.IH" [OF True this] "1.prems"(2) True show ?thesis
        by (simp add: blake2b_blocks.simps [where S = S] rfc_blocks.simps [where h = "b2_h S"] b)
           (simp add: blake2b_increment_counter_def)
    next
      case False
      with "1.prems" show ?thesis
        by (intro exI [of _ t], subst rfc_blocks.simps) (auto simp: blake2b_blocks_short)
    qed
  qed
  then show ?thesis using that by blast
qed

lemma blake2b_final_digest:
  assumes "blake2b_ok S" and "counts t False S" and "b2_outlen S \<le> 64" and "b2_outlen S \<le> outlen"
  shows "digest_of (blake2b_final outlen S) =
    Some (Inr (take (b2_outlen S) (concat (map (word_bytes 8)
      (rfc_F (b2_h S) (pending S @ replicate (128 - b2_buflen S) 0) (t + b2_buflen S) True)))))"
proof -
  let ?buf = "pending S @ replicate (128 - b2_buflen S) 0"
  define S' where "S' = (blake2b_set_lastblock (blake2b_increment_counter S (of_nat (b2_buflen S))))\<lparr>b2_buf := ?buf\<rparr>"
  have l: "length (b2_buf S) = 128" "b2_buflen S \<le> 128" "length ?buf = 128"
    using assms(1) by (auto simp: blake2b_ok_def pending_def)
  have "counts (t + b2_buflen S) False (blake2b_increment_counter S (of_nat (b2_buflen S)))"
    using blake2b_increment_counter_counts [OF assms(2), of "b2_buflen S"] l by simp
  then have "counts (t + b2_buflen S) True S'"
    by (simp add: S'_def counts_def blake2b_set_lastblock_def)
  note C = blake2b_compress_rfc [OF this l(3)]
  have "b2_h S' = b2_h S" "b2_outlen S' = b2_outlen S"
    by (simp_all add: S'_def blake2b_set_lastblock_def blake2b_set_lastnode_def blake2b_increment_counter_def Let_def)
  moreover have "blake2b_final outlen S = Some (Inr (take (b2_outlen S) (concat (map (word_bytes 8)
      (b2_h (blake2b_compress S' ?buf)))), blake2b_compress S' ?buf))"
    using assms(2,3,4) C
    by (simp add: blake2b_final_def Let_def blake2b_is_lastblock_def counts_def pending_def S'_def
        blake2b_set_lastblock_def blake2b_increment_counter_def)
  ultimately show ?thesis by (simp add: C digest_of_def)
qed

lemma blake2b_stream_digest:
  assumes "blake2b_ok S" and "counts 0 False S" and "b2_outlen S \<le> 64" and "b2_outlen S \<le> outlen"
  shows "digest_of (blake2b_final outlen (fold blake2b_update ms S)) =
    Some (Inr (take (b2_outlen S) (concat (map (word_bytes 8) (rfc_blocks (b2_h S) 0 (pending S @ concat ms))))))"
proof -
  let ?S = "fold blake2b_update ms S"
  obtain S' r where r: "blake2b_blocks S (pending S @ concat ms) = (S', r)"
    by (cases "blake2b_blocks S (pending S @ concat ms)")
  obtain t where t: "counts t False S'" "b2_outlen S' = b2_outlen S"
    and e: "rfc_blocks (b2_h S) 0 (pending S @ concat ms) =
      rfc_F (b2_h S') (r @ replicate (128 - length r) 0) (t + length r) True"
    using blake2b_blocks_rfc [OF assms(2) r] by blast
  have v: "core ?S = core S'" "pending ?S = r" "blake2b_ok ?S"
    using blake2b_update_fold [OF assms(1), of ms] by (simp_all add: r)
  have h: "b2_h ?S = b2_h S'" "b2_t ?S = b2_t S'" "b2_f ?S = b2_f S'" "b2_outlen ?S = b2_outlen S'"
    "b2_last_node ?S = b2_last_node S'"
    using v(1) by (metis core_simps)+
  have "counts t False ?S" using t(1) by (simp add: counts_def h)
  moreover have "length r = b2_buflen ?S" using v(2,3) by (auto simp: pending_def blake2b_ok_def)
  ultimately show ?thesis
    using blake2b_final_digest [OF v(3)] assms(3,4) by (simp add: h t(2) v(2) e)
qed
subsection \<open>The parameter block\<close>

lemma concat_word_bytes:
  "i < length ws \<Longrightarrow> k < n \<Longrightarrow> concat (map (word_bytes n) ws) ! (n * i + k) = word_bytes n (ws ! i) ! k"
proof (induction ws arbitrary: i)
  case (Cons w ws)
  then show ?case by (cases i) (simp_all add: nth_append)
qed simp

lemma bytes_le_xor:
  "bytes_le (map (\<lambda>k. word_bytes 8 w ! k XOR p k) [0..<8]) = (w XOR bytes_le (map p [0..<8]) :: u64)"
proof (rule bit_word_eqI)
  fix k assume "k < LENGTH(64)"
  then have "k < 64" "k div 8 < 8" by auto
  then show "bit (bytes_le (map (\<lambda>k. word_bytes 8 w ! k XOR p k) [0..<8]) :: u64) k =
      bit (w XOR bytes_le (map p [0..<8])) k"
    by (auto simp: bit_bytes_le bit_simps word_bytes_def)
qed

lemma default_param_words:
  assumes "nn \<le> 64" and "kk \<le> 64" and "i < 8"
  shows "(bytes_le (map (\<lambda>k. default_param nn kk ! (8 * i + k)) [0..<8]) :: u64) =
    (if i = 0 then 0x01010000 XOR push_bit 8 (of_nat kk) XOR of_nat nn else 0)"
proof (cases "i = 0")
  case True
  have small: "n \<le> 64 \<Longrightarrow> ucast (of_nat n :: u8) = (of_nat n :: u64)" for n
    by (simp add: unsigned_of_nat take_bit_nat_eq_self)
  have bound: "n \<le> 64 \<Longrightarrow> bit (of_nat n :: u64) b \<Longrightarrow> b < 8" for n b
  proof -
    assume n: "n \<le> 64" and b: "bit (of_nat n :: u64) b"
    have "bit (ucast (of_nat n :: u8) :: u64) b" using b by (simp only: small [OF n])
    then show "b < 8" using bit_imp_le_length [of "of_nat n :: u8" b] by (simp add: bit_simps)
  qed
  have l: "map (\<lambda>k. default_param nn kk ! (8 * i + k)) [0..<8] = [of_nat nn, of_nat kk, 1, 1, 0, 0, 0, 0]"
    using True by (simp add: default_param_def upt_rec numeral_eq_Suc)
  have "(bytes_le [of_nat nn, of_nat kk, 1, 1, 0, 0, 0, 0] :: u64) =
      of_nat nn OR push_bit 8 (of_nat kk) OR 0x01010000"
    using assms by (simp add: bytes_le_def small push_bit_or)
  also have "\<dots> = 0x01010000 XOR push_bit 8 (of_nat kk) XOR of_nat nn"
  proof -
    have c: "bit (0x01010000 :: u64) n \<Longrightarrow> 16 \<le> n" for n
      using bit_push_bit_iff [of 16 "0x0101 :: u64" n] by simp
    have b: "bit (push_bit 8 (of_nat kk) :: u64) n \<Longrightarrow> 8 \<le> n \<and> n < 16" for n
      using bound [OF assms(2), of "n - 8"] by (auto simp: bit_push_bit_iff)
    have disjoint: "\<not> (bit (of_nat nn :: u64) n \<and> bit (push_bit 8 (of_nat kk) :: u64) n)"
      "\<not> (bit (of_nat nn :: u64) n \<and> bit (0x01010000 :: u64) n)"
      "\<not> (bit (push_bit 8 (of_nat kk) :: u64) n \<and> bit (0x01010000 :: u64) n)" for n
      using b [of n] c [of n] bound [OF assms(1), of n] by linarith+
    show ?thesis
    proof (rule bit_word_eqI)
      fix n
      show "bit (of_nat nn OR push_bit 8 (of_nat kk) OR 0x01010000 :: u64) n =
          bit (0x01010000 XOR push_bit 8 (of_nat kk) XOR of_nat nn :: u64) n"
        unfolding bit_or_iff bit_xor_iff using disjoint [of n] by blast
    qed
  qed
  finally show ?thesis unfolding l using True by simp
next
  case False
  then have "map (\<lambda>k. default_param nn kk ! (8 * i + k)) [0..<8] = replicate 8 0"
    using assms(3) by (intro nth_equalityI) (auto simp: default_param_def nth_append)
  then show ?thesis using False by (simp add: bytes_le_def numeral_eq_Suc)
qed
text \<open>The state that a fresh hash starts from.\<close>

definition rfc_start :: "nat \<Rightarrow> nat \<Rightarrow> u64 list" where
  "rfc_start nn kk = blake2b_IV[0 := blake2b_IV ! 0 XOR 0x01010000 XOR push_bit 8 (of_nat kk) XOR of_nat nn]"

lemma blake2b_init_param_default:
  assumes "nn \<le> 64" and "kk \<le> 64"
  shows "blake2b_init_param (default_param nn kk) = blake2b_cleared\<lparr>b2_h := rfc_start nn kk, b2_outlen := nn\<rparr>"
proof -
  have l: "length blake2b_IV = 8" by (simp add: blake2b_IV_def)
  have n: "unat (default_param nn kk ! 0) = nn" using assms(1) by (simp add: default_param_def unat_of_nat)
  have "bytes_le (map (\<lambda>k. concat (map (word_bytes 8) blake2b_IV) ! (8 * i + k) XOR default_param nn kk ! (8 * i + k)) [0..<8]) =
      rfc_start nn kk ! i" if i: "i < 8" for i
  proof -
    have e: "map (\<lambda>k. concat (map (word_bytes 8) blake2b_IV) ! (8 * i + k) XOR default_param nn kk ! (8 * i + k)) [0..<8] =
        map (\<lambda>k. word_bytes 8 (blake2b_IV ! i) ! k XOR default_param nn kk ! (8 * i + k)) [0..<8]"
      using i by (simp add: concat_word_bytes l)
    show ?thesis
      unfolding e bytes_le_xor default_param_words [OF assms i]
      using i l by (auto simp: rfc_start_def nth_list_update ac_simps)
  qed
  then have "map (\<lambda>i. bytes_le (map (\<lambda>k. concat (map (word_bytes 8) blake2b_IV) ! (8 * i + k) XOR
      default_param nn kk ! (8 * i + k)) [0..<8])) [0..<8] = rfc_start nn kk"
    by (intro nth_equalityI) (simp_all add: rfc_start_def blake2b_IV_def)
  then show ?thesis by (simp add: blake2b_init_param_def Let_def n)
qed

lemma fresh_state:
  assumes "length h = 8"
  shows "blake2b_ok (blake2b_cleared\<lparr>b2_h := h, b2_outlen := nn\<rparr>)"
    and "counts 0 False (blake2b_cleared\<lparr>b2_h := h, b2_outlen := nn\<rparr>)"
    and "pending (blake2b_cleared\<lparr>b2_h := h, b2_outlen := nn\<rparr>) = []"
  using assms by (simp_all add: blake2b_ok_def counts_def pending_def blake2b_cleared_def)

text \<open>The two ways to start, with and without a key, as one update of a fresh state.\<close>

definition blake2b_start :: "nat \<Rightarrow> u8 list \<Rightarrow> blake2b_state res" where
  "blake2b_start nn key = (if key \<noteq> [] then blake2b_init_key nn key else blake2b_init nn)"

lemma blake2b_start_digest:
  assumes "0 < nn" and "nn \<le> 64" and "length key \<le> 64"
  shows "\<exists>S. blake2b_start nn key = Inr S \<and>
    digest_of (blake2b_final nn (fold blake2b_update ms S)) =
    Some (Inr (rfc_blake2b nn key (concat ms)))"
proof -
  let ?h = "rfc_start nn (length key)" and ?k = "key @ replicate (128 - length key) 0"
  let ?S = "blake2b_cleared\<lparr>b2_h := ?h, b2_outlen := nn\<rparr>"
  have l: "length ?h = 8" by (simp add: rfc_start_def blake2b_IV_def)
  have digest: "digest_of (blake2b_final nn (fold blake2b_update ms' ?S)) =
      Some (Inr (take nn (concat (map (word_bytes 8) (rfc_blocks ?h 0 (concat ms'))))))" for ms'
    using blake2b_stream_digest [OF fresh_state(1,2) [OF l], of nn nn ms'] assms(2)
    by (simp add: fresh_state(3) [OF l])
  show ?thesis
  proof (cases "key = []")
    case True
    then have "blake2b_start nn key = Inr ?S"
      using assms blake2b_init_param_default [of nn 0] by (simp add: blake2b_start_def blake2b_init_def)
    then show ?thesis using digest [of ms] True by (simp add: rfc_blake2b_def rfc_start_def Let_def)
  next
    case False
    then have "blake2b_start nn key = Inr (blake2b_update ?k ?S)"
      using assms blake2b_init_param_default [of nn "length key"]
      by (simp add: blake2b_start_def blake2b_init_key_def)
    then show ?thesis using digest [of "?k # ms"] False by (simp add: rfc_blake2b_def rfc_start_def Let_def)
  qed
qed

text \<open>C22: for every output length from 1 to 64 and every key of at most 64 bytes, initialising,
  updating with any pieces and finishing with the SSE code gives the hash of RFC 7693 of the
  concatenated pieces, and so does the function that takes the whole message.\<close>
theorem blake2b_rfc7693:
  assumes "0 < nn" and "nn \<le> 64" and "length key \<le> 64"
  shows "(\<exists>S. blake2b_start nn key = Inr S \<and>
      digest_of (blake2b_final nn (fold blake2b_update ms S)) =
      Some (Inr (rfc_blake2b nn key (concat ms)))) \<and>
    blake2b nn m key = Some (Inr (rfc_blake2b nn key m))"
proof
  show "\<exists>S. blake2b_start nn key = Inr S \<and>
      digest_of (blake2b_final nn (fold blake2b_update ms S)) =
      Some (Inr (rfc_blake2b nn key (concat ms)))"
    by (rule blake2b_start_digest [OF assms])
  obtain S where "blake2b_start nn key = Inr S"
    and "digest_of (blake2b_final nn (blake2b_update m S)) = Some (Inr (rfc_blake2b nn key m))"
    using blake2b_start_digest [OF assms, of "[m]"] by auto
  then show "blake2b nn m key = Some (Inr (rfc_blake2b nn key m))"
    using assms by (simp add: blake2b_def blake2b_start_def split: if_splits)
qed

theorem blake2b_rfc7693_witness:
  "blake2b 20 [0x61, 0x62, 0x63] [] = Some (Inr (rfc_blake2b 20 [] [0x61, 0x62, 0x63]))"
  using blake2b_rfc7693 [of 20 "[]" "[]" "[0x61, 0x62, 0x63]"] by simp

text \<open>The class starts without a parameter block, so that its digests of one message are the
  prefixes of one string: the output length does not separate the hashes.\<close>

lemma Blake2_hash_prefix:
  assumes "n \<le> 64"
  shows "Blake2_hash n m = Some (Inr (take n (concat (map (word_bytes 8) (rfc_blocks blake2b_IV 0 m)))))"
proof -
  have "length blake2b_IV = 8" by (simp add: blake2b_IV_def)
  note fresh_state [OF this, of n]
  moreover have "Blake2_Reset n = blake2b_cleared\<lparr>b2_h := blake2b_IV, b2_outlen := n\<rparr>"
    by (simp add: Blake2_Reset_def)
  ultimately have "digest_of (blake2b_final n (blake2b_update m (Blake2_Reset n))) =
      Some (Inr (take n (concat (map (word_bytes 8) (rfc_blocks blake2b_IV 0 m)))))"
    using blake2b_stream_digest [of "Blake2_Reset n" n "[m]"] assms by simp
  moreover have "b2_outlen (blake2b_update m (Blake2_Reset n)) = n"
    by (simp add: Blake2_Reset_def)
  ultimately show ?thesis by (simp add: Blake2_hash_def Let_def)
qed

end
