(* ===== verification/Random_Oracle.thy ===== *)
theory Random_Oracle
  imports Sha1 Blake2_Correct
begin

text \<open>
  The random oracle of the library (\<^verbatim>\<open>cryptoTools/Crypto/RandomOracle.h\<close>): a name for \<^verbatim>\<open>SHA1\<close> or for
  \<^verbatim>\<open>Blake2\<close>, chosen by a build option. What its clients use of it is stated as a locale: digests of
  at most twenty bytes are prefixes of the one of twenty bytes. Both classes provide it.
\<close>

subsection \<open>The interface\<close>

locale prefix_oracle =
  fixes ro :: "nat \<Rightarrow> u8 list \<Rightarrow> u8 list option"
  assumes digest: "n \<le> HashSize \<Longrightarrow>
    \<exists>d. length d = HashSize \<and> ro HashSize m = Some d \<and> ro n m = Some (take n d)"
begin

lemma oracle_prefix: "n \<le> HashSize \<Longrightarrow> ro n m = map_option (take n) (ro HashSize m)"
  using digest [of n m] by auto

lemma oracle_defined: "n \<le> HashSize \<Longrightarrow> \<exists>d. ro n m = Some d \<and> length d = n"
  using digest [of n m] by auto

text \<open>A digest of the default length cut to the size of the destination, and one of that length.\<close>

lemma cut_digest: "n \<le> HashSize \<Longrightarrow> map_option (take (min HashSize n)) (ro HashSize m) = ro n m"
  using oracle_prefix [of n m] by (simp add: min_absorb2)

end

subsection \<open>The two providers\<close>

locale sha1_class =
  fixes compress :: "u32 list \<Rightarrow> u8 list \<Rightarrow> u32 list"
  assumes words: "length (compress h b) = 5"

lemma length_word_bytes_concat: "length (concat (map (word_bytes n) ws)) = n * length ws"
  by (induction ws) simp_all

lemma sha1_hash_digest:
  assumes "\<And>h b. length (compress h b) = 5" and "n \<le> HashSize"
  shows "\<exists>d. length d = HashSize \<and> sha1_hash compress HashSize m = Some d \<and> sha1_hash compress n m = Some (take n d)"
proof -
  define s where "s = sha1_Update compress m (sha1_Reset HashSize)"
  define h where "h = (if sha_idx s \<noteq> 0 then compress (sha_state s) (sha_buffer s) else sha_state s)"
  have s: "sha1_ok s" unfolding s_def by (rule sha1_Update_ok(1) [OF assms(1) sha1_Reset_ok])
  have l: "length (sha_state s) = 5" using s by (simp add: sha1_ok_def)
  then have h: "length (concat (map (word_bytes 4) h)) = 20"
    using assms(1) by (simp add: length_word_bytes_concat h_def)
  have "sha1_Update compress m (sha1_Reset k) = s\<lparr>sha_outputLength := k\<rparr>" if "k \<le> 20" for k
  proof -
    have "sha1_Reset k = (sha1_Reset HashSize)\<lparr>sha_outputLength := k\<rparr>" using that by (simp add: sha1_Reset_def)
    then show ?thesis by (simp add: s_def sha1_Update_outputLength)
  qed
  then have "sha1_hash compress k m = Some (take k (concat (map (word_bytes 4) h)))" if "k \<le> 20" for k
    using that assms(1) l
    by (simp add: sha1_hash_def sha1_Final_def sha1_memory_def h_def Let_def length_word_bytes_concat)
  then show ?thesis using assms(2) h
    by (intro exI [of _ "concat (map (word_bytes 4) h)"]) (simp add: HashSize_def)
qed

sublocale sha1_class \<subseteq> prefix_oracle "sha1_hash compress"
  using sha1_hash_digest words by unfold_locales blast

interpretation sha1_c: sha1_class sha1_compress
  by unfold_locales simp

definition blake2_oracle :: "nat \<Rightarrow> u8 list \<Rightarrow> u8 list option" where
  "blake2_oracle n m = (case Blake2_hash n m of Some (Inr d) \<Rightarrow> Some d | _ \<Rightarrow> None)"

interpretation blake2: prefix_oracle blake2_oracle
proof
  fix n m assume n: "n \<le> HashSize"
  let ?d = "concat (map (word_bytes 8) (rfc_blocks blake2b_IV 0 m))"
  have "length (rfc_blocks h t d) = 8" for h t d
    by (induction h t d rule: rfc_blocks.induct) (simp add: rfc_blocks.simps rfc_F_def Let_def)
  then have "length ?d = 64" by (simp add: length_word_bytes_concat)
  then show "\<exists>d. length d = HashSize \<and> blake2_oracle HashSize m = Some d \<and> blake2_oracle n m = Some (take n d)"
    using n by (intro exI [of _ "take HashSize ?d"])
      (simp add: blake2_oracle_def Blake2_hash_prefix HashSize_def min_absorb1)
qed

text \<open>\<^verbatim>\<open>RandomOracle\<close>: \<open>blake\<close> is the build option.\<close>

definition RandomOracle :: "bool \<Rightarrow> (u32 list \<Rightarrow> u8 list \<Rightarrow> u32 list) \<Rightarrow> nat \<Rightarrow> u8 list \<Rightarrow> u8 list option" where
  "RandomOracle blake compress = (if blake then blake2_oracle else sha1_hash compress)"

lemma RandomOracle_prefix:
  assumes "\<And>h b. length (compress h b) = 5"
  shows "prefix_oracle (RandomOracle blake compress)"
proof (cases blake)
  case True
  then show ?thesis by (simp add: RandomOracle_def blake2.prefix_oracle_axioms)
next
  case False
  then show ?thesis
    using sha1_hash_digest [OF assms] by (simp add: RandomOracle_def prefix_oracle_def)
qed

end
