(* ===== verification/Prty_Encode.thy ===== *)
theory Prty_Encode
  imports Protocol_Correct Random_Oracle
begin

text \<open>
  The encodings of the OT extension (\<^verbatim>\<open>encode\<close> and \<^verbatim>\<open>encode_prty\<close> of \<^verbatim>\<open>PrtyMOtReceiver.cpp\<close> and
  \<^verbatim>\<open>PrtyMOtSender.cpp\<close>, with \<^verbatim>\<open>OOS_SHA_HASH\<close> and \<^verbatim>\<open>PRTY_SHA_HASH\<close>): the random values that the
  receiver gets for its choice and the sender for every choice. The random oracle \<open>ro\<close> takes the
  length of the digest and the message. The result is what is written to \<open>dest\<close>, \<open>None\<close> where
  memory outside an object is read.
\<close>

subsection \<open>The receiver\<close>

definition encode_r :: "(nat \<Rightarrow> u8 list \<Rightarrow> u8 list option) \<Rightarrow> nat \<Rightarrow> nat \<Rightarrow> prty_receiver \<Rightarrow> u8 list option" where
  "encode_r ro otIdx destSize r =
     (let t0Val = map (\<lambda>i. mStore (mT0 r) ! (mStride (mT0 r) * otIdx + i)) [0..<mStride (mT0 r)]
      in map_option (take (min HashSize destSize)) (ro HashSize (blocks_bytes t0Val)))"

definition encode_prty_r :: "(nat \<Rightarrow> u8 list \<Rightarrow> u8 list option) \<Rightarrow> nat \<Rightarrow> u8 list \<Rightarrow> nat \<Rightarrow> prty_receiver \<Rightarrow> u8 list option" where
  "encode_prty_r ro idx input destSize r =
     (let stride = mStride (mRy r)
      in if stride * idx + stride \<le> length (mStore (mRy r))
         then ro destSize (take 16 input @
                blocks_bytes (map (\<lambda>i. mStore (mRy r) ! (stride * idx + i)) [0..<stride]))
         else None)"

subsection \<open>The sender\<close>

definition encode_s :: "(nat \<Rightarrow> u8 list \<Rightarrow> u8 list option) \<Rightarrow> u8 list \<Rightarrow> nat \<Rightarrow> u8 list \<Rightarrow> nat \<Rightarrow> prty_sender \<Rightarrow> u8 list option" where
  "encode_s ro junk otIdx plaintext destSize s =
     (let codeword = memcpy (blocks_bytes (replicate 10 0)) plaintext (mInputByteCount_s s);
          codeword = bytes_blocks 10 (encode (mCode_s s) junk codeword codeword);
          stride = mStride (mT s);
          tVal = (\<lambda>i. mStore (mT s) ! (otIdx * stride + i))
      in if stride = 4
         then
           let t = map (\<lambda>i. codeword ! i AND mChoiceBlks s ! i) [0..<4];
               codeword = foldl (\<lambda>codeword i. codeword[i := tVal i XOR t ! i]) codeword [0..<4]
           in ro destSize (blocks_bytes (take stride codeword))
         else
           let codeword = foldl (\<lambda>codeword i. codeword[i := tVal i XOR (codeword ! i AND mChoiceBlks s ! i)])
                 codeword [0..<stride]
           in ro destSize (blocks_bytes (take stride codeword)))"

text \<open>
  \<^verbatim>\<open>encode_prty\<close> takes the rows of \<open>mQx\<close>, the loop and the hashed length the stride of that matrix.
\<close>

definition encode_prty_s :: "(nat \<Rightarrow> u8 list \<Rightarrow> u8 list option) \<Rightarrow> u8 list \<Rightarrow> nat \<Rightarrow> u8 list \<Rightarrow> nat \<Rightarrow> prty_sender \<Rightarrow> u8 list option" where
  "encode_prty_s ro junk idx plaintext destSize s =
     (let codeword = memcpy (blocks_bytes (replicate 10 0)) plaintext (mInputByteCount_s s);
          codeword = bytes_blocks 10 (encode (mCode_s s) junk codeword codeword);
          stride = mStride (mQx s);
          qxVal = (\<lambda>i. mStore (mQx s) ! (idx * stride + i))
      in if mStride (mT s) = 4
         then if length (mStore (mQx s)) < idx * stride + 4 then None
           else
             let t = map (\<lambda>i. codeword ! i AND mChoiceBlks s ! i) [0..<4];
                 codeword = foldl (\<lambda>codeword i. codeword[i := qxVal i XOR t ! i]) codeword [0..<4]
             in ro destSize (blocks_bytes (take stride codeword))
         else if length (mStore (mQx s)) < idx * stride + stride then None
           else
             let codeword = foldl (\<lambda>codeword i. codeword[i := qxVal i XOR (codeword ! i AND mChoiceBlks s ! i)])
                   codeword [0..<stride]
             in ro destSize (take 16 plaintext @ blocks_bytes (take stride codeword)))"
subsection \<open>What is hashed\<close>

lemma xor_loop:
  assumes "n \<le> length cw"
  shows "length (foldl (\<lambda>cw i. cw[i := f i (cw ! i)]) cw [0..<n]) = length cw \<and>
    take n (foldl (\<lambda>cw i. cw[i := f i (cw ! i)]) cw [0..<n]) = map (\<lambda>i. f i (cw ! i)) [0..<n] \<and>
    drop n (foldl (\<lambda>cw i. cw[i := f i (cw ! i)]) cw [0..<n]) = drop n cw"
  using assms
proof (induction n)
  case (Suc n)
  let ?c = "foldl (\<lambda>cw i. cw[i := f i (cw ! i)]) cw [0..<n]"
  have IH: "length ?c = length cw" "take n ?c = map (\<lambda>i. f i (cw ! i)) [0..<n]" "drop n ?c = drop n cw"
    using Suc by auto
  have "?c ! n = cw ! n" using arg_cong [OF IH(3), of hd] Suc.prems IH(1) by (simp add: hd_drop_conv_nth)
  moreover have "drop (Suc n) ?c = drop (Suc n) cw" using IH(3) by (metis drop_drop plus_1_eq_Suc)
  ultimately show ?case using IH Suc.prems by (simp add: take_Suc_conv_app_nth)
qed simp

text \<open>The blocks that the sender hashes for a plaintext.\<close>

definition masked_blocks :: "prty_sender \<Rightarrow> u8 list \<Rightarrow> nat \<Rightarrow> block list" where
  "masked_blocks s w k =
     map (\<lambda>i. cell (mT s) k i XOR (choice_word (mCode_s s) w i AND mChoiceBlks s ! i)) [0..<mStride (mT s)]"

lemma encode_s_hash:
  assumes c: "code_for fs (mCode_s s)" and n: "mInputByteCount_s s = (fs + 7) div 8" "(fs + 7) div 8 \<le> 48"
    "(fs + 7) div 8 \<le> length w" and W: "mStride (mT s) = codewordBlkSize (mCode_s s)"
  shows "encode_s ro junk k w destSize s = ro destSize (blocks_bytes (masked_blocks s w k))"
proof -
  let ?n = "(fs + 7) div 8" and ?W = "mStride (mT s)"
  define cw where "cw = value_codeword (mCode_s s) junk w ?n"
  have ok: "code_ok (mCode_s s)" "mPlaintextU8Size (mCode_s s) = ?n" "codewordU8Size (mCode_s s) \<le> 160"
    "4 \<le> ?W" "?W \<le> 7" using c W by (simp_all add: code_for_def)
  have len: "length cw = 10" by (simp add: cw_def value_codeword_def Let_def)
  have cw: "cw ! i = choice_word (mCode_s s) w i" if "i < ?W" for i
  proof -
    have "cw ! i = choice_word (mCode_s s) (take ?n w) i"
      unfolding cw_def using value_codeword_choice [OF c refl n(2,3)] that W by simp
    also have "\<dots> = choice_word (mCode_s s) w i"
      unfolding choice_word_def using ok that n(3) W by (intro codeword_of_prefix) auto
    finally show ?thesis .
  qed
  define f where "f = (\<lambda>i b. mStore (mT s) ! (k * ?W + i) XOR (b AND mChoiceBlks s ! i))"
  have row: "map (\<lambda>i. f i (cw ! i)) [0..<?W] = masked_blocks s w k"
    using cw by (simp add: masked_blocks_def f_def cell_def mult.commute)
  have loop: "take ?W (foldl (\<lambda>cw i. cw[i := f i (cw ! i)]) cw [0..<?W]) = masked_blocks s w k"
    using xor_loop [of ?W cw f] ok(5) len row by simp
  have four: "take ?W (foldl (\<lambda>c i. c[i := mStore (mT s) ! (k * ?W + i) XOR
      map (\<lambda>i. cw ! i AND mChoiceBlks s ! i) [0..<4] ! i]) cw [0..<4]) = masked_blocks s w k" if "?W = 4"
  proof -
    have "foldl (\<lambda>c i. c[i := mStore (mT s) ! (k * ?W + i) XOR map (\<lambda>i. cw ! i AND mChoiceBlks s ! i) [0..<4] ! i]) cw [0..<4] =
        foldl (\<lambda>c i. c[i := f i (cw ! i)]) cw [0..<4]"
      by (intro foldl_cong refl) (simp add: f_def del: upt_Suc)
    then show ?thesis
      using xor_loop [of 4 cw "\<lambda>i b. f i (cw ! i)"] ok(5) len row that by simp
  qed
  show ?thesis
    using loop four
    unfolding encode_s_def Let_def value_codeword_def [unfolded Let_def, symmetric] n(1) cw_def [symmetric] f_def [symmetric]
    by (simp add: f_def del: upt_Suc)
qed

lemma encode_r_hash:
  "encode_r ro k destSize r =
    map_option (take (min HashSize destSize)) (ro HashSize (blocks_bytes (map (cell (mT0 r) k) [0..<mStride (mT0 r)])))"
  by (simp add: encode_r_def Let_def cell_def [abs_def])

text \<open>The phase leaves the code and the input size of the sender alone.\<close>

lemma otCorrection_s_frame: "mCode_s (otCorrection_s k s) = mCode_s s \<and> mInputByteCount_s (otCorrection_s k s) = mInputByteCount_s s"
  by (simp add: otCorrection_s_def Let_def)

lemma otCorrections_s_frame:
  "mCode_s (foldl (\<lambda>s k. otCorrection_s (i + k) s) s ks) = mCode_s s \<and>
   mInputByteCount_s (foldl (\<lambda>s k. otCorrection_s (i + k) s) s ks) = mInputByteCount_s s"
  by (induction ks arbitrary: s) (simp_all add: otCorrection_s_frame)

lemma send_batch_frame:
  "send_batch n i s q = Some (Inr (s', q')) \<Longrightarrow> mCode_s s' = mCode_s s \<and> mInputByteCount_s s' = mInputByteCount_s s"
  by (auto simp: send_batch_def Let_def recvCorrection_def otCorrections_s_frame res_bind_def
      split: if_splits option.splits sum.splits bind_splits)

lemma ot_reach_frame:
  "ot_reach junk sigma fsb n (ot_initial r0 s0) x \<Longrightarrow>
    mCode_s (send_party x) = mCode_s s0 \<and> mInputByteCount_s (send_party x) = mInputByteCount_s s0"
proof (induction "ot_initial r0 s0" x rule: ot_reach.induct)
  case ot_refl
  then show ?case by (simp add: ot_initial_def)
next
  case (ot_trans y z)
  then show ?case by (auto elim!: ot_step.cases dest!: send_batch_frame)
qed

subsection \<open>The two encodings of a choice\<close>

lemma choice_word_xor:
  assumes "code_for fs c" and "(fs + 7) div 8 \<le> length u" and "length u = length w" and "j < codewordBlkSize c"
  shows "choice_word c (map2 (XOR) u w) j = choice_word c u j XOR choice_word c w j"
proof -
  have "code_ok c" "mPlaintextU8Size c \<le> length u" "codewordU8Size c \<le> 160" "j < 10"
    using assms by (simp_all add: code_for_def)
  then show ?thesis using assms(3,4) unfolding choice_word_def by (intro codeword_of_xor)
qed

lemma encode_row:
  assumes code: "code_for fs (mCode_s s)" "mInputByteCount_s s = (fs + 7) div 8" "(fs + 7) div 8 \<le> 48"
    "(fs + 7) div 8 \<le> length u" "mStride (mT s) = codewordBlkSize (mCode_s s)" "mStride (mT0 r) = mStride (mT s)"
    and rel: "\<And>j. j < mStride (mT s) \<Longrightarrow> cell (mT s) k j =
      cell (mT0 r) k j XOR (choice_word (mCode_s s) u j AND mChoiceBlks s ! j)"
    and ro: "prefix_oracle ro" "destSize \<le> HashSize"
  shows "\<exists>d. length d = destSize \<and> encode_r ro k destSize r = Some d \<and> encode_s ro junk k u destSize s = Some d"
    and "length w = length u \<Longrightarrow> encode_s ro junk k w destSize s = ro destSize (blocks_bytes
      (map (\<lambda>j. cell (mT0 r) k j XOR (choice_word (mCode_s s) (map2 (XOR) u w) j AND mChoiceBlks s ! j))
        [0..<mStride (mT s)]))"
proof -
  have "masked_blocks s u k = map (cell (mT0 r) k) [0..<mStride (mT s)]"
    using rel by (simp add: masked_blocks_def xor.assoc)
  moreover have "encode_s ro junk k u destSize s = ro destSize (blocks_bytes (masked_blocks s u k))"
    using code by (intro encode_s_hash)
  moreover have "encode_r ro k destSize r = ro destSize (blocks_bytes (map (cell (mT0 r) k) [0..<mStride (mT s)]))"
    using prefix_oracle.cut_digest [OF ro] by (simp add: encode_r_hash code(6))
  ultimately show "\<exists>d. length d = destSize \<and> encode_r ro k destSize r = Some d \<and> encode_s ro junk k u destSize s = Some d"
    using prefix_oracle.oracle_defined [OF ro] by fastforce
  assume w: "length w = length u"
  have "masked_blocks s w k =
      map (\<lambda>j. cell (mT0 r) k j XOR (choice_word (mCode_s s) (map2 (XOR) u w) j AND mChoiceBlks s ! j)) [0..<mStride (mT s)]"
  proof -
    have "cell (mT s) k j XOR (choice_word (mCode_s s) w j AND mChoiceBlks s ! j) =
        cell (mT0 r) k j XOR (choice_word (mCode_s s) (map2 (XOR) u w) j AND mChoiceBlks s ! j)" if "j < mStride (mT s)" for j
      using rel [OF that] choice_word_xor [OF code(1,4) w [symmetric]] that code(5)
      by (simp add: bit_xor_distrib_and xor.assoc)
    then show ?thesis by (simp add: masked_blocks_def)
  qed
  moreover have "encode_s ro junk k w destSize s = ro destSize (blocks_bytes (masked_blocks s w k))"
    using code w by (intro encode_s_hash) auto
  ultimately show "encode_s ro junk k w destSize s = ro destSize (blocks_bytes
      (map (\<lambda>j. cell (mT0 r) k j XOR (choice_word (mCode_s s) (map2 (XOR) u w) j AND mChoiceBlks s ! j))
        [0..<mStride (mT s)]))" by simp
qed

text \<open>C19: on new parties, in every state that the interleaved OT phase can reach and for every row
  that the sender has corrected: with either random oracle, a destination of at most twenty bytes
  gets the same bytes from the sender, asked for the choice of the receiver, as from the receiver,
  and what the sender hashes for another word differs by the masked codeword of the difference.\<close>
theorem encode_match:
  assumes "code_table fs = Some t" and "7 * n < 2 ^ 31" and "n * fsb \<le> length sigma" and "fsb = (fs + 7) div 8"
    and "\<And>h b. length (compress h b) = 5" and "destSize \<le> 20"
  shows "\<exists>r0 v s0. recv_setup mal fs n (PrtyMOtReceiver a i) = Some (Inr r0) \<and>
    send_setup mal fs n empty_bits (PrtyMOtSender b j) = Some (Inr (v, s0)) \<and>
    (\<forall>x. ot_reach junk sigma fsb n (ot_initial r0 s0) x \<longrightarrow> (\<forall>k < min n (send_next x).
      (\<exists>d. length d = destSize \<and>
        encode_r (RandomOracle blake compress) k destSize (recv_party x) = Some d \<and>
        encode_s (RandomOracle blake compress) junk' k (drop (fsb * k) sigma) destSize (send_party x) = Some d) \<and>
      (\<forall>w. length w = length (drop (fsb * k) sigma) \<longrightarrow>
        encode_s (RandomOracle blake compress) junk' k w destSize (send_party x) =
        RandomOracle blake compress destSize (blocks_bytes
          (map (\<lambda>j. cell (mT0 (recv_party x)) k j XOR
             (choice_word (mCode_r r0) (map2 (XOR) (drop (fsb * k) sigma) w) j AND mChoiceBlks s0 ! j))
           [0..<codewordBlkSize (mCode_r r0)])))))"
proof -
  obtain r0 v s0 where S: "recv_setup mal fs n (PrtyMOtReceiver a i) = Some (Inr r0)"
    "send_setup mal fs n empty_bits (PrtyMOtSender b j) = Some (Inr (v, s0))"
    and start: "ot_start (roundUpTo (n + 40) 128) n r0 s0" and words: "words_ok r0 sigma fsb n"
    and N: "n \<le> roundUpTo (n + 40) 128" and W: "mStride (mT0 r0) = codewordBlkSize (mCode_r r0)"
    and code: "code_for fs (mCode_r r0)" "mCode_s s0 = mCode_r r0" "mInputByteCount_s s0 = (fs + 7) div 8"
    by (rule new_parties_start [OF assms(1,2) assms(3) assms(4)], rule that)
  have fs: "fsb \<le> 48" using assms(1,4) by (auto simp: code_table_def split: if_splits)
  let ?ro = "RandomOracle blake compress"
  have ro: "prefix_oracle ?ro" by (rule RandomOracle_prefix) (rule assms(5))
  have "(\<exists>d. length d = destSize \<and> encode_r ?ro k destSize (recv_party x) = Some d \<and>
        encode_s ?ro junk' k (drop (fsb * k) sigma) destSize (send_party x) = Some d) \<and>
      (\<forall>w. length w = length (drop (fsb * k) sigma) \<longrightarrow>
        encode_s ?ro junk' k w destSize (send_party x) = ?ro destSize (blocks_bytes
          (map (\<lambda>j. cell (mT0 (recv_party x)) k j XOR
             (choice_word (mCode_r r0) (map2 (XOR) (drop (fsb * k) sigma) w) j AND mChoiceBlks s0 ! j))
           [0..<codewordBlkSize (mCode_r r0)])))"
    if x: "ot_reach junk sigma fsb n (ot_initial r0 s0) x" and k: "k < min n (send_next x)" for x k
  proof -
    let ?s = "send_party x"
    note inv = ot_inv_reach [OF start words x] and frame = ot_reach_frame [OF x]
    note rows = ot_inv_rows [OF inv N k]
    have W': "mStride (mT ?s) = codewordBlkSize (mCode_r r0)" "0 < codewordBlkSize (mCode_r r0)"
      using inv code(1) W by (auto simp: ot_inv_def masked_def Let_def code_for_def)
    have e: "mT0 (recv_party x) = mT0 r0" "mChoiceBlks ?s = mChoiceBlks s0"
      using rows(2,3) [of 0] W W'(2) by simp_all
    have c: "mCode_s ?s = mCode_r r0" "mInputByteCount_s ?s = (fs + 7) div 8" using frame code by simp_all
    have len: "(fs + 7) div 8 \<le> length (drop (fsb * k) sigma)"
      using row_in [of k n fsb "length sigma"] k assms(3,4) by (simp add: mult.commute)
    have rel: "cell (mT ?s) k j = cell (mT0 (recv_party x)) k j XOR
        (choice_word (mCode_s ?s) (drop (fsb * k) sigma) j AND mChoiceBlks ?s ! j)" if "j < mStride (mT ?s)" for j
      using rows(1) [of j] that W W' e c by (simp add: masked_row_def word_at_def)
    note E = encode_row [OF code(1) [folded c(1)] c(2) fs [unfolded assms(4)] len, of "recv_party x" k ?ro destSize,
        OF _ _ rel ro]
    show ?thesis using E W W' e c assms(6) by (simp add: HashSize_def)
  qed
  with S show ?thesis by blast
qed
theorem encode_match_witness:
  "\<exists>r0 v s0. recv_setup True 65 2 (PrtyMOtReceiver False 0) = Some (Inr r0) \<and>
    send_setup True 65 2 empty_bits (PrtyMOtSender False 0) = Some (Inr (v, s0)) \<and>
    (\<forall>x. ot_reach [] (replicate 18 3) 9 2 (ot_initial r0 s0) x \<longrightarrow> (\<forall>k < min 2 (send_next x).
      (\<exists>d. length d = 16 \<and>
        encode_r (RandomOracle False sha1_compress) k 16 (recv_party x) = Some d \<and>
        encode_s (RandomOracle False sha1_compress) [] k (drop (9 * k) (replicate 18 3)) 16 (send_party x) = Some d) \<and>
      (\<forall>w. length w = length (drop (9 * k) (replicate 18 (3::u8))) \<longrightarrow>
        encode_s (RandomOracle False sha1_compress) [] k w 16 (send_party x) =
        RandomOracle False sha1_compress 16 (blocks_bytes
          (map (\<lambda>j. cell (mT0 (recv_party x)) k j XOR
             (choice_word (mCode_r r0) (map2 (XOR) (drop (9 * k) (replicate 18 3)) w) j AND mChoiceBlks s0 ! j))
           [0..<codewordBlkSize (mCode_r r0)])))))"
  by (rule encode_match [where t = mx65by448]) (simp_all add: code_table_def)

text \<open>C24: \<^verbatim>\<open>encode_prty\<close> reads a matrix that nothing fills: after the setup of a new sender for
  inputs of more than 90 bits, whose codewords have more than four blocks, the value of a word is the
  digest of its first sixteen bytes, whatever the row, the choice bits and the code.\<close>
theorem encode_prty_unmasked:
  assumes "code_table fs = Some t" and "90 < fs"
  shows "\<exists>v s0. send_setup mal fs n empty_bits (PrtyMOtSender b j) = Some (Inr (v, s0)) \<and>
    (\<forall>idx w destSize. encode_prty_s ro junk idx w destSize s0 = ro destSize (take 16 w))"
proof -
  obtain v s0 where S: "send_setup mal fs n empty_bits (PrtyMOtSender b j) = Some (Inr (v, s0))"
    and q: "mStride (mQx s0) = 0" and st: "send_started fs (roundUpTo (n + 40) 128) v s0"
  proof (rule send_setup_result [OF assms(1) fit_new(2), of empty_bits mal n b j])
    show "bits_ok empty_bits" by (simp add: bits_ok_def empty_bits_def sizeBytes_def)
  qed (auto simp: send_started_def Let_def intro: that)
  have "mStride (mT s0) \<noteq> 4" using st assms(2) by (simp add: send_started_def code_for_def Let_def)
  then have "\<forall>idx w destSize. encode_prty_s ro junk idx w destSize s0 = ro destSize (take 16 w)"
    by (simp add: encode_prty_s_def Let_def q)
  with S show ?thesis by blast
qed

theorem encode_prty_unmasked_witness:
  "\<exists>v s0. send_setup True 132 3 empty_bits (PrtyMOtSender False 0) = Some (Inr (v, s0)) \<and>
    (\<forall>idx w destSize. encode_prty_s blake2_oracle [] idx w destSize s0 = blake2_oracle destSize (take 16 w))"
  by (rule encode_prty_unmasked [where t = mx132by583]) (simp_all add: code_table_def)

end
