(* ===== verification/Prty_Check.thy ===== *)
theory Prty_Check
  imports Ot_Properties
begin

text \<open>
  The check of the OT extension against a malicious receiver (\<^verbatim>\<open>check\<close> of \<^verbatim>\<open>PrtyMOtReceiver.cpp\<close> and
  \<^verbatim>\<open>PrtyMOtSender.cpp\<close>). The receiver corrects some more rows for random words and sends, for
  each of them, that row plus a random sum of its rows, and that word plus the same sum of its
  choices; the sender compares with the same sum of its own rows. The two talk over two
  channels; the calls are cut where a party waits for the other.
\<close>

subsection \<open>The challenge bits\<close>

text \<open>The arithmetic shift of the eight 16-bit lanes.\<close>

definition mm_srai_epi16 :: "block \<Rightarrow> nat \<Rightarrow> block" where
  "mm_srai_epi16 b n =
     xsum (\<lambda>i. push_bit (16 * i) (ucast (signed_drop_bit n (ucast (drop_bit (16 * i) b) :: u16)))) [0..<8]"

text \<open>
  The bits of the 128 rows from \<open>128 * l\<close> on: the AES in counter mode, every bit in a byte of
  its own. The buffers are overwritten whole in every turn.
\<close>

definition challenge_bytes :: "block list \<Rightarrow> nat \<Rightarrow> nat \<Rightarrow> u8 list" where
  "challenge_bytes key statSecParam l =
     (let challengeBuff = ecbEncCounterMode key (of_nat (statSecParam * l)) statSecParam (replicate statSecParam 0);
          mask = bytes_block (replicate 16 1)
      in blocks_bytes (concat (map (\<lambda>c. map (\<lambda>b. mask AND mm_srai_epi16 c b) [0..<8]) challengeBuff)))"

definition zeroAndAllOneBlocks :: "u8 \<Rightarrow> block" where
  "zeroAndAllOneBlocks x = [0, - 1] ! unat x"

subsection \<open>Adding a row to the sums\<close>

text \<open>
  \<open>n\<close> blocks are added to the blocks from \<open>at\<close> on. The iterators of the code are written as the
  positions they stand at: \<open>x\<close> are the bytes of the challenge bits and \<open>i\<close> the row among the 128 that
  they are for, \<open>f b\<close> the blocks to add for the bit \<open>b\<close>. The code for rows of four blocks takes
  two sums at a time, that for the words eight.
\<close>

definition xor_at :: "nat \<Rightarrow> (nat \<Rightarrow> block) \<Rightarrow> nat \<Rightarrow> block list \<Rightarrow> block list" where
  "xor_at at f n s = foldl (\<lambda>s m. s[at + m := s ! (at + m) XOR f m]) s [0..<n]"

definition sum_row_4 :: "nat \<Rightarrow> u8 list \<Rightarrow> (u8 \<Rightarrow> nat \<Rightarrow> block) \<Rightarrow> nat \<Rightarrow> block list \<Rightarrow> block list" where
  "sum_row_4 statSecParam x f i t =
     foldl (\<lambda>t j.
         let xIter = i * (2 * (statSecParam div 2)) + 2 * j; x0 = x ! xIter; x1 = x ! (xIter + 1)
         in xor_at (8 * j) (\<lambda>m. if m < 4 then f x0 m else f x1 (m - 4)) 8 t)
       t [0..<statSecParam div 2]"

definition sum_row :: "nat \<Rightarrow> nat \<Rightarrow> u8 list \<Rightarrow> (u8 \<Rightarrow> nat \<Rightarrow> block) \<Rightarrow> nat \<Rightarrow> block list \<Rightarrow> block list" where
  "sum_row statSecParam codeSize x f i t =
     foldl (\<lambda>t j. xor_at (codeSize * j) (f (x ! (i * statSecParam + j))) codeSize t) t [0..<statSecParam]"

definition sum_word :: "nat \<Rightarrow> u8 list \<Rightarrow> block \<Rightarrow> nat \<Rightarrow> block list \<Rightarrow> block list" where
  "sum_word statSecParam x w i s =
     foldl (\<lambda>s j. xor_at (8 * j)
         (\<lambda>m. w AND zeroAndAllOneBlocks (x ! (i * (8 * (statSecParam div 8)) + 8 * j + m))) 8 s)
       s [0..<statSecParam div 8]"

subsection \<open>The receiver\<close>

text \<open>The random words are written to \<open>wBuff\<close>, and the rows they are encoded with to \<open>tBuff\<close>.\<close>

definition check_word :: "u8 list \<Rightarrow> (prty_receiver \<times> block list \<times> block list \<times> prng) res option \<Rightarrow> nat \<Rightarrow>
    (prty_receiver \<times> block list \<times> block list \<times> prng) res option" where
  "check_word junk st i =
     call_bind st (\<lambda>(r, wBuff, tBuff, prng). call_bind (prng_get prng (mInputByteCount_r r)) (\<lambda>(bs, prng).
       let word = 16 * (plaintextBlkSize (mCode_r r) * i);
           wBuff = bytes_blocks (length wBuff) (copy_at (blocks_bytes wBuff) word bs (mInputByteCount_r r));
           r = otCorrection_r junk (mCorrectionIdx_r r + i) (drop word (blocks_bytes wBuff)) r;
           stride = mStride (mT0 r);
           tBuff = foldl (\<lambda>t j. t[i * stride + j := mStore (mT0 r) ! (stride * (mCorrectionIdx_r r + i) + j)])
             tBuff [0..<stride]
       in Some (Inr (r, wBuff, tBuff, prng))))"

definition check_commit_r :: "u8 list \<Rightarrow> block \<Rightarrow> prty_receiver \<Rightarrow> channel \<Rightarrow>
    (prty_receiver \<times> block list \<times> block list \<times> channel) res option" where
  "check_commit_r junk wordSeed r out =
     (if \<not> mMalicious_r r then Some (Inr (r, [], [], out))
      else
        call_bind (map_option Inr (asyncSend [0] out)) (\<lambda>out.
        call_bind (Some (SetSeed wordSeed defaultBufferSize unkeyed_prng)) (\<lambda>prng.
        let wBuff = replicate (mStatSecParam_r r * mStride (mW r)) 0;
            tBuff = replicate (mStatSecParam_r r * mStride (mT0 r)) 0
        in call_bind (foldl (check_word junk) (Some (Inr (r, wBuff, tBuff, prng))) [0..<mStatSecParam_r r])
             (\<lambda>(r, wBuff, tBuff, prng). map_option (\<lambda>(r, out). Inr (r, wBuff, tBuff, out))
               (sendCorrection (mStatSecParam_r r) r out)))))"

text \<open>One turn of the loop over blocks of 128 rows.\<close>

definition check_block_r :: "prty_receiver \<Rightarrow> block \<Rightarrow> block list \<times> block list \<Rightarrow> nat \<Rightarrow> block list \<times> block list" where
  "check_block_r r seed st l =
     (let (tSum, wSum) = st;
          codeSize = mStride (mT0 r);
          x = challenge_bytes (setKey seed) (mStatSecParam_r r) l;
          k = 128 * l;
          stopIdx = min (mCorrectionIdx_r r - mStatSecParam_r r - k) 128;
          row = (\<lambda>i b m. mStore (mT0 r) ! (codeSize * (k + i) + m) AND zeroAndAllOneBlocks b);
          tSum = foldl (\<lambda>t i. if codeSize = 4 then sum_row_4 (mStatSecParam_r r) x (row i) i t
              else sum_row (mStatSecParam_r r) codeSize x (row i) i t) tSum [0..<stopIdx];
          wSum = foldl (\<lambda>s i. sum_word (mStatSecParam_r r) x (mStore (mW r) ! (k + i)) i s) wSum [0..<stopIdx]
      in (tSum, wSum))"

definition check_reply_r :: "prty_receiver \<Rightarrow> block list \<Rightarrow> block list \<Rightarrow> channel \<Rightarrow> channel \<Rightarrow>
    (channel \<times> channel) res option" where
  "check_reply_r r tBuff wBuff inp out =
     (if \<not> mMalicious_r r then Some (Inr (inp, out))
      else
        call_bind (channel_recv 16 inp) (\<lambda>(seed, inp).
        let lStop = (mCorrectionIdx_r r - mStatSecParam_r r + 127) div 128;
            (tSum, wSum) = foldl (check_block_r r (bytes_block seed)) (tBuff, wBuff) [0..<lStop]
        in call_bind (map_option Inr (asyncSend (blocks_bytes tSum) out)) (\<lambda>out.
           map_option (\<lambda>out. Inr (inp, out)) (asyncSend (blocks_bytes wSum) out))))"

subsection \<open>The sender\<close>

definition check_challenge_s :: "block \<Rightarrow> prty_sender \<Rightarrow> channel \<Rightarrow> channel \<Rightarrow>
    (prty_sender \<times> channel \<times> channel) res option" where
  "check_challenge_s seed s inp out =
     (if \<not> mMalicious_s s then Some (Inr (s, inp, out))
      else
        call_bind (channel_recv 1 inp) (\<lambda>(c, inp).
        if mStatSecParam_s s mod 8 \<noteq> 0 then Some (Inl (Runtime_error ''Must be a multiple of 8.''))
        else
          call_bind (recvCorrection (mStatSecParam_s s) s inp) (\<lambda>(s, inp).
          map_option (\<lambda>out. Inr (s, inp, out)) (asyncSend (block_bytes seed) out))))"

text \<open>
  \<^verbatim>\<open>zeroAndQ\<close> is an array of two arrays of eight blocks. Only 64 bytes of it are cleared, the first
  four blocks of \<^verbatim>\<open>zeroAndQ[0]\<close>; the others hold what was on the \<open>stack\<close>. \<^verbatim>\<open>zeroAndQ[1]\<close> is the row.
\<close>

definition zeroAndQ :: "(nat \<Rightarrow> block) \<Rightarrow> (nat \<Rightarrow> block) \<Rightarrow> u8 \<Rightarrow> nat \<Rightarrow> block" where
  "zeroAndQ stack q x m = [if m < 4 then 0 else stack m, q m] ! unat x"

definition check_block_s :: "(nat \<Rightarrow> block) \<Rightarrow> prty_sender \<Rightarrow> block \<Rightarrow> block list \<Rightarrow> nat \<Rightarrow> block list" where
  "check_block_s stack s seed qSum l =
     (let codeSize = mStride (mT s);
          x = challenge_bytes (setKey seed) (mStatSecParam_s s) l;
          k = 128 * l;
          stopIdx = min (mCorrectionIdx_s s - mStatSecParam_s s - k) 128;
          q = (\<lambda>i m. (mStore (mCorrectionVals s) ! (codeSize * (k + i) + m) AND mChoiceBlks s ! m) XOR
            mStore (mT s) ! (codeSize * (k + i) + m))
      in foldl (\<lambda>t i. if codeSize = 4 then sum_row_4 (mStatSecParam_s s) x (zeroAndQ stack (q i)) i t
             else sum_row (mStatSecParam_s s) codeSize x (zeroAndQ stack (q i)) i t) qSum [0..<stopIdx])"

definition check_sums_s :: "(nat \<Rightarrow> block) \<Rightarrow> prty_sender \<Rightarrow> block \<Rightarrow> block list res option" where
  "check_sums_s stack s seed =
     (let W = mStride (mT s); S = mStatSecParam_s s;
          qSum = foldl (\<lambda>q i. foldl (\<lambda>q j. q[i * W + j :=
                (mStore (mCorrectionVals s) ! (mStride (mCorrectionVals s) * (mCorrectionIdx_s s - S + i) + j) AND mChoiceBlks s ! j) XOR
                mStore (mT s) ! (W * (mCorrectionIdx_s s - S + i) + j)]) q [0..<W]) (replicate (S * W) 0) [0..<S]
      in if W < 2 then Some (Inl (Runtime_error ''Make this bigger.''))
         else if 8 < W then None
         else Some (Inr (foldl (check_block_s stack s seed) qSum [0..<(mCorrectionIdx_s s - S + 127) div 128])))"

text \<open>
  The comparisons: the list of the sums and blocks that differ. The code finds them and goes on, the
  throw is commented out.
\<close>

definition check_relation :: "u8 list \<Rightarrow> linear_code \<Rightarrow> block list \<Rightarrow> nat \<Rightarrow> block list \<Rightarrow> block list \<Rightarrow> block list \<Rightarrow>
    (nat \<times> nat) list" where
  "check_relation junk code choice statSecParam tSum wSum qSum =
     (let W = codewordBlkSize code
      in snd (foldl (\<lambda>(cw, bad) l.
           let word = drop (16 * (l * plaintextBlkSize code)) (blocks_bytes wSum);
               cw = bytes_blocks W (encode code junk word (blocks_bytes cw));
               bad' = filter (\<lambda>j. tSum ! (l * W + j) XOR qSum ! (l * W + j) \<noteq> cw ! j AND choice ! j) [0..<W]
           in (cw, bad @ map (Pair l) bad')) (replicate W 0, []) [0..<statSecParam]))"

definition check_verify_s :: "(nat \<Rightarrow> block) \<Rightarrow> u8 list \<Rightarrow> block \<Rightarrow> prty_sender \<Rightarrow> channel \<Rightarrow>
    ((nat \<times> nat) list \<times> channel) res option" where
  "check_verify_s stack junk seed s inp =
     (if \<not> mMalicious_s s then Some (Inr ([], inp))
      else
        let S = mStatSecParam_s s; nT = S * mStride (mT s); nW = S * plaintextBlkSize (mCode_s s)
        in call_bind (check_sums_s stack s seed) (\<lambda>qSum.
           call_bind (channel_recv (16 * nT) inp) (\<lambda>(t, inp).
           call_bind (channel_recv (16 * nW) inp) (\<lambda>(w, inp).
           Some (Inr (check_relation junk (mCode_s s) (mChoiceBlks s) S (bytes_blocks nT t) (bytes_blocks nW w) qSum, inp))))))"

text \<open>The whole exchange, from empty channels: \<open>up\<close> to the sender, \<open>down\<close> to the receiver.\<close>

definition run_check :: "(nat \<Rightarrow> block) \<Rightarrow> u8 list \<Rightarrow> u8 list \<Rightarrow> block \<Rightarrow> block \<Rightarrow> prty_receiver \<Rightarrow> prty_sender \<Rightarrow>
    (prty_receiver \<times> prty_sender \<times> (nat \<times> nat) list) res option" where
  "run_check stack junk junk' wordSeed seed r s =
     call_bind (check_commit_r junk wordSeed r []) (\<lambda>(r, wBuff, tBuff, up).
     call_bind (check_challenge_s seed s up []) (\<lambda>(s, up, down).
     call_bind (check_reply_r r tBuff wBuff down up) (\<lambda>(down, up).
     call_bind (check_verify_s stack junk' seed s up) (\<lambda>(bad, up).
     Some (Inr (r, s, bad))))))"

subsection \<open>What the challenge bytes are\<close>

lemma bit_mm_srai_epi16:
  "bit (mm_srai_epi16 b n) k \<longleftrightarrow>
    k < 128 \<and> bit (signed_drop_bit n (ucast (drop_bit (16 * (k div 16)) b) :: u16)) (k mod 16)"
proof -
  let ?f = "\<lambda>i. push_bit (16 * i) (ucast (signed_drop_bit n (ucast (drop_bit (16 * i) b) :: u16)) :: block)"
  have "bit (xsum ?f [0..<m]) k \<longleftrightarrow> k < 128 \<and> k div 16 < m \<and> bit (?f (k div 16)) k" if "m \<le> 8" for m
    using that
  proof (induction m)
    case (Suc m)
    have other: "\<not> bit (?f m) k" if "m \<noteq> k div 16"
    proof
      let ?w = "signed_drop_bit n (ucast (drop_bit (16 * m) b)) :: u16"
      assume "bit (?f m) k"
      then have ge: "16 * m \<le> k" and "bit ?w (k - 16 * m)" by (simp_all add: bit_push_bit_iff bit_unsigned_iff)
      from this(2) have "k - 16 * m < LENGTH(16)" by (rule bit_imp_le_length)
      then have "k - 16 * m < 16" by simp
      with ge have "k div 16 = m" by (intro div_nat_eqI) simp_all
      with that show False by simp
    qed
    have l: "bit (?f m) k \<Longrightarrow> k < 128" by (auto dest: bit_imp_le_length)
    show ?case
      using Suc other l by (cases "m = k div 16") (auto simp: bit_xor_iff less_Suc_eq)
  qed simp
  from this [of 8] have "bit (mm_srai_epi16 b n) k \<longleftrightarrow> k < 128 \<and> k div 16 < 8 \<and> bit (?f (k div 16)) k"
    by (simp add: mm_srai_epi16_def del: upt_Suc)
  moreover have "k - 16 * (k div 16) = k mod 16" "16 * (k div 16) \<le> k" by (simp_all add: minus_mult_div_eq_mod)
  moreover have "k < 128 \<Longrightarrow> k div 16 < 8" by simp
  ultimately show ?thesis by (auto simp: bit_simps)
qed

lemma lane_shift:
  assumes "n + r < 16"
  shows "bit (signed_drop_bit n (ucast (drop_bit a (c :: block)) :: u16)) r \<longleftrightarrow> bit c (a + (n + r))"
proof -
  have "\<not> LENGTH(16) - n \<le> r" using assms by simp
  then show ?thesis using assms
    by (simp only: bit_signed_drop_bit_iff bit_unsigned_iff bit_drop_bit_eq o_def simp_thms if_False) simp
qed

text \<open>Byte \<open>y\<close> of a masked shift by \<open>n\<close> is bit \<open>n\<close> of byte \<open>y\<close>.\<close>

lemma masked_shift_byte:
  assumes "y < 16" and "n < 8"
  shows "block_byte (bytes_block (replicate 16 1) AND mm_srai_epi16 c n) y = of_bool (bit c (8 * y + n))"
proof (rule bit_word_eqI)
  fix t assume "t < LENGTH(8)"
  then have t: "t < 8" by simp
  have d: "(8 * y + t) div 8 = y" "(8 * y + t) mod 8 = t" using t by simp_all
  have k: "8 * y + t < 128" using assms(1) t by simp
  have m: "bit (bytes_block (replicate 16 1)) (8 * y + t) \<longleftrightarrow> t = 0"
    using k assms(1) d by (simp add: bit_bytes_block bit_1_iff)
  have "(8 * y) mod 16 \<le> 8" and p: "16 * (8 * y div 16) + (8 * y) mod 16 = 8 * y" by presburger+
  then have "n + 8 * y mod 16 < 16" using assms(2) by linarith
  note lane_shift [OF this, of "16 * (8 * y div 16)" c]
  moreover have "16 * (8 * y div 16) + (n + 8 * y mod 16) = n + 8 * y" using p by linarith
  ultimately have "bit (signed_drop_bit n (ucast (drop_bit (16 * (8 * y div 16)) c) :: u16)) (8 * y mod 16) \<longleftrightarrow> bit c (8 * y + n)"
    by (simp only: add.commute)
  then have "bit (mm_srai_epi16 c n) (8 * y) \<longleftrightarrow> bit c (8 * y + n)" using assms(1) by (simp add: bit_mm_srai_epi16)
  then show "bit (block_byte (bytes_block (replicate 16 1) AND mm_srai_epi16 c n) y) t = bit (of_bool (bit c (8 * y + n)) :: u8) t"
    using m t by (auto simp: bit_block_byte bit_and_iff bit_1_iff)
qed

definition challenge_bit :: "block list \<Rightarrow> nat \<Rightarrow> nat \<Rightarrow> nat \<Rightarrow> bool" where
  "challenge_bit key S l p \<longleftrightarrow>
     bit (ecbEncBlock key (mm_set1_epi64x (of_nat (S * l + p div 128)))) (8 * (p mod 16) + p div 16 mod 8)"

lemma length_concat_eight: "length (concat (map (\<lambda>c. map (f c) [0..<8]) cs)) = 8 * length cs"
  by (induction cs) simp_all

lemma nth_concat_eight: "i < 8 * length cs \<Longrightarrow> concat (map (\<lambda>c. map (f c) [0..<8]) cs) ! i = f (cs ! (i div 8)) (i mod 8)"
proof (induction cs arbitrary: i)
  case (Cons c cs)
  show ?case
  proof (cases "i < 8")
    case False
    then have "i div 8 = Suc ((i - 8) div 8)" "i mod 8 = (i - 8) mod 8" by (simp_all add: div_if mod_if)
    with False Cons show ?thesis by (simp add: nth_append del: upt_rec_numeral)
  qed (simp add: nth_append del: upt_rec_numeral)
qed simp

lemma challenge_bytes_bits:
  "length (challenge_bytes key S l) = 128 * S"
  "p < 128 * S \<Longrightarrow> challenge_bytes key S l ! p = of_bool (challenge_bit key S l p)"
proof -
  let ?cs = "ecbEncCounterMode key (of_nat (S * l)) S (replicate S 0)"
  have c: "?cs = map (\<lambda>i. ecbEncBlock key (mm_set1_epi64x (of_nat (S * l) + of_nat i))) [0..<S]"
    by (simp add: ecbEncCounterMode_map filled_def)
  then have len: "length ?cs = S" by simp
  show "length (challenge_bytes key S l) = 128 * S"
    using len by (simp add: challenge_bytes_def Let_def length_concat_eight)
  show "challenge_bytes key S l ! p = of_bool (challenge_bit key S l p)" if "p < 128 * S"
  proof -
    have q: "p div 16 < 8 * S" "p div 16 div 8 = p div 128" "p div 128 < S" using that by (simp_all add: div_mult2_eq [symmetric])
    have "challenge_bytes key S l ! p = block_byte (bytes_block (replicate 16 1) AND mm_srai_epi16 (?cs ! (p div 128)) (p div 16 mod 8)) (p mod 16)"
      using that q len by (simp add: challenge_bytes_def Let_def nth_blocks_bytes length_concat_eight nth_concat_eight del: upt_rec_numeral)
    also have "\<dots> = of_bool (bit (?cs ! (p div 128)) (8 * (p mod 16) + p div 16 mod 8))" by (rule masked_shift_byte) simp_all
    also have "?cs ! (p div 128) = ecbEncBlock key (mm_set1_epi64x (of_nat (S * l) + of_nat (p div 128)))"
      unfolding c using q(3) by simp
    finally show ?thesis by (simp add: challenge_bit_def)
  qed
qed

subsection \<open>What a row adds to the sums\<close>

lemma xor_at_facts:
  assumes "at + n \<le> length s"
  shows "length (xor_at at f n s) = length s"
    and "p < length s \<Longrightarrow> xor_at at f n s ! p = s ! p XOR (if at \<le> p \<and> p < at + n then f (p - at) else 0)"
proof -
  have "length (xor_at at f m s) = length s \<and>
    (\<forall>p < length s. xor_at at f m s ! p = s ! p XOR (if at \<le> p \<and> p < at + m then f (p - at) else 0))" if "m \<le> n" for m
    using that assms
  proof (induction m)
    case (Suc m)
    then show ?case by (auto simp: xor_at_def nth_list_update)
  qed (auto simp: xor_at_def)
  from this [of n] show "length (xor_at at f n s) = length s"
    and "p < length s \<Longrightarrow> xor_at at f n s ! p = s ! p XOR (if at \<le> p \<and> p < at + n then f (p - at) else 0)" by simp_all
qed

text \<open>Groups of \<open>b\<close> blocks, one after the other.\<close>

lemma xor_groups:
  fixes F :: "nat \<Rightarrow> nat \<Rightarrow> block"
  assumes "b * g \<le> length s"
  defines "r \<equiv> foldl (\<lambda>s j. xor_at (b * j) (F j) b s) s [0..<g]"
  shows "length r = length s"
    and "p < b * g \<Longrightarrow> r ! p = s ! p XOR F (p div b) (p mod b)"
    and "b * g \<le> p \<Longrightarrow> p < length s \<Longrightarrow> r ! p = s ! p"
proof -
  have "length (foldl (\<lambda>s j. xor_at (b * j) (F j) b s) s [0..<n]) = length s \<and>
    (\<forall>p < length s. foldl (\<lambda>s j. xor_at (b * j) (F j) b s) s [0..<n] ! p =
       (if p < b * n then s ! p XOR F (p div b) (p mod b) else s ! p))" if "n \<le> g" for n
    using that
  proof (induction n)
    case (Suc n)
    let ?s = "foldl (\<lambda>s j. xor_at (b * j) (F j) b s) s [0..<n]"
    have "b * Suc n \<le> b * g" using Suc.prems by (rule mult_le_mono2)
    then have room: "b * n + b \<le> length ?s" using Suc assms(1) by simp
    note X = xor_at_facts [OF room, where f = "F n"]
    have "xor_at (b * n) (F n) b ?s ! p = (if p < b * Suc n then s ! p XOR F (p div b) (p mod b) else s ! p)"
      if p: "p < length s" for p
    proof (cases "b * n \<le> p \<and> p < b * n + b")
      case True
      then have d: "p div b = n" by (intro div_nat_eqI) (simp_all add: mult.commute)
      then have "p mod b = p - b * n" by (simp add: minus_mult_div_eq_mod [symmetric])
      with d have "p div b = n" "p mod b = p - b * n" by simp_all
      with True show ?thesis using X(2) [of p] Suc p by simp
    next
      case False
      then show ?thesis using X(2) [of p] Suc p by auto
    qed
    then show ?case using X(1) Suc by simp
  qed simp
  from this [of g] assms(1) show "length r = length s"
    and "p < b * g \<Longrightarrow> r ! p = s ! p XOR F (p div b) (p mod b)"
    and "b * g \<le> p \<Longrightarrow> p < length s \<Longrightarrow> r ! p = s ! p" by (simp_all add: r_def)
qed

lemma sum_row_facts:
  assumes "W * S \<le> length t"
  shows "length (sum_row S W x f i t) = length t"
    and "p < W * S \<Longrightarrow> sum_row S W x f i t ! p = t ! p XOR f (x ! (i * S + p div W)) (p mod W)"
  using xor_groups [OF assms, where F = "\<lambda>j. f (x ! (i * S + j))"] by (simp_all add: sum_row_def)

text \<open>The code for rows of four blocks adds what the general code adds.\<close>

lemma sum_row_4_facts:
  assumes "4 * S \<le> length t" and "even S"
  shows "length (sum_row_4 S x f i t) = length t"
    and "p < 4 * S \<Longrightarrow> sum_row_4 S x f i t ! p = t ! p XOR f (x ! (i * S + p div 4)) (p mod 4)"
proof -
  have S: "2 * (S div 2) = S" "8 * (S div 2) = 4 * S" using assms(2) by simp_all
  have room: "8 * (S div 2) \<le> length t" using S(2) assms(1) by simp
  define F where "F = (\<lambda>j m. if m < 4 then f (x ! (i * S + 2 * j)) m else f (x ! (i * S + 2 * j + 1)) (m - 4))"
  note G = xor_groups [OF room, where F = F]
  have e: "sum_row_4 S x f i t = foldl (\<lambda>s j. xor_at (8 * j) (F j) 8 s) t [0..<S div 2]"
    by (simp only: sum_row_4_def Let_def S(1) F_def)
  show "length (sum_row_4 S x f i t) = length t" using G(1) by (simp only: e)
  show "sum_row_4 S x f i t ! p = t ! p XOR f (x ! (i * S + p div 4)) (p mod 4)" if p: "p < 4 * S"
  proof -
    define u v where "u = p div 8" and "v = p mod 8"
    have v: "p = v + 4 * (2 * u)" "v < 8" by (simp_all add: u_def v_def)
    have d: "p div 4 = 2 * u + v div 4" "p mod 4 = v mod 4"
      unfolding v(1) by (simp_all only: div_mult_self2 mod_mult_self2 zero_neq_numeral not_False_eq_True)
    have "F u v = f (x ! (i * S + p div 4)) (p mod 4)"
    proof (cases "v < 4")
      case True
      then show ?thesis using d by (simp add: F_def)
    next
      case False
      with v(2) have "v div 4 = 1" "v mod 4 = v - 4" by (simp_all add: le_div_geq le_mod_geq)
      with False show ?thesis using d by (simp add: F_def add.assoc)
    qed
    then show ?thesis using G(2) [of p] p S(2) by (simp only: e u_def v_def)
  qed
qed

lemma sum_word_facts:
  assumes "S \<le> length s" and "8 dvd S"
  shows "length (sum_word S x w i s) = length s"
    and "p < S \<Longrightarrow> sum_word S x w i s ! p = s ! p XOR (w AND zeroAndAllOneBlocks (x ! (i * S + p)))"
proof -
  have S: "8 * (S div 8) = S" using assms(2) by simp
  have room: "8 * (S div 8) \<le> length s" using S assms(1) by simp
  note G = xor_groups [OF room, where F = "\<lambda>j m. w AND zeroAndAllOneBlocks (x ! (i * S + 8 * j + m))"]
  have e: "sum_word S x w i s = foldl (\<lambda>s j. xor_at (8 * j)
      (\<lambda>m. w AND zeroAndAllOneBlocks (x ! (i * S + 8 * j + m))) 8 s) s [0..<S div 8]"
    by (simp only: sum_word_def S)
  show "length (sum_word S x w i s) = length s" using G(1) by (simp only: e)
  have "i * S + 8 * (p div 8) + p mod 8 = i * S + p" by simp
  then show "sum_word S x w i s ! p = s ! p XOR (w AND zeroAndAllOneBlocks (x ! (i * S + p)))" if "p < S"
    using G(2) [of p] that S by (simp only: e)
qed

subsection \<open>The sums over all rows\<close>

lemma foldl_xor_facts:
  assumes "\<And>i t. i < n \<Longrightarrow> length t = L \<Longrightarrow> length (g i t) = L \<and> (\<forall>p < m. g i t ! p = t ! p XOR f i p)" and "length t = L"
  shows "length (foldl (\<lambda>t i. g i t) t [0..<n]) = L \<and>
    (\<forall>p < m. foldl (\<lambda>t i. g i t) t [0..<n] ! p = t ! p XOR xsum (\<lambda>i. f i p) [0..<n])"
  using assms(1)
proof (induction n)
  case (Suc n)
  then show ?case by (simp add: xor.assoc)
qed (simp add: assms(2))

text \<open>The rows block by block of 128.\<close>

lemma xsum_blocks:
  "xsum (\<lambda>l. xsum (\<lambda>i. f (128 * l + i)) [0..<min (n - 128 * l) 128]) [0..<(n + 127) div 128] = xsum f [0..<n]"
proof -
  have "xsum (\<lambda>l. xsum (\<lambda>i. f (128 * l + i)) [0..<min (n - 128 * l) 128]) [0..<L] = xsum f [0..<min n (128 * L)]" for L
  proof (induction L)
    case (Suc L)
    have "[0..<min n (128 * Suc L)] = [0..<min n (128 * L)] @ map (\<lambda>i. 128 * L + i) [0..<min (n - 128 * L) 128]"
    proof -
      have "min n (128 * Suc L) = min n (128 * L) + min (n - 128 * L) 128"
        by (cases "n \<le> 128 * L"; cases "n \<le> 128 * Suc L") (auto simp: min_def)
      moreover have "[0..<128 * L + d] = [0..<128 * L] @ map (\<lambda>i. 128 * L + i) [0..<d]" for d
      proof -
        have "map (\<lambda>i. 128 * L + i) [0..<d] = [128 * L..<128 * L + d]"
          using map_add_upt [of "128 * L" d] by (simp only: add.commute)
        then show ?thesis by (simp only: upt_add_eq_append [OF le0])
      qed
      moreover have "min n (128 * L) = 128 * L \<or> min (n - 128 * L) 128 = 0" by linarith
      ultimately show ?thesis by (elim disjE) (simp_all only: add_0_right upt_0 list.map append_Nil2)
    qed
    then have "xsum f [0..<min n (128 * Suc L)] =
        xsum f [0..<min n (128 * L)] XOR xsum (\<lambda>i. f (128 * L + i)) [0..<min (n - 128 * L) 128]"
      by (simp only: xsum_append xsum_map o_def)
    then show ?case by (simp only: xsum_upt_Suc Suc.IH)
  qed simp
  from this [of "(n + 127) div 128"] show ?thesis by (simp add: min_absorb1)
qed

end
