(* ===== verification/Prty_Check_Correct.thy ===== *)
theory Prty_Check_Correct
  imports Prty_Check
begin

text \<open>
  What the check of the OT extension finds, for codewords of four blocks and words of one (inputs of
  at most 90 bits, the sizes for honest parties): between honest parties every comparison holds, as
  long as the sender has not applied the corrections; after it has applied them, as the protocol
  does, a comparison fails exactly when the masked corrections of the challenged rows do not cancel.
\<close>

subsection \<open>The sums of both parties\<close>

text \<open>Row \<open>k\<close> is part of sum \<open>p\<close>.\<close>

definition challenged :: "block \<Rightarrow> nat \<Rightarrow> nat \<Rightarrow> nat \<Rightarrow> bool" where
  "challenged seed S k p \<longleftrightarrow> challenge_bit (setKey seed) S (k div 128) ((k mod 128) * S + p)"

definition row_sum :: "block \<Rightarrow> nat \<Rightarrow> nat \<Rightarrow> nat \<Rightarrow> (nat \<Rightarrow> block) \<Rightarrow> block" where
  "row_sum seed S n p g = xsum (\<lambda>k. if challenged seed S k p then g k else 0) [0..<n]"

lemma challenge_byte:
  assumes "i < 128" and "p < S"
  shows "challenge_bytes (setKey seed) S l ! (i * S + p) = of_bool (challenged seed S (128 * l + i) p)"
proof -
  have "Suc i * S \<le> 128 * S" using assms(1) by (intro mult_le_mono1) simp
  then have "i * S + p < 128 * S" using assms(2) unfolding mult_Suc by linarith
  then show ?thesis using assms by (simp add: challenge_bytes_bits challenged_def)
qed

lemma zeroAndAllOneBlocks_bit: "b AND zeroAndAllOneBlocks (of_bool c) = (if c then b else 0)"
  by (simp add: zeroAndAllOneBlocks_def)

lemma zeroAndQ_bit: "m < 4 \<Longrightarrow> zeroAndQ stack q (of_bool c) m = (if c then q m else 0)"
  by (simp add: zeroAndQ_def)

lemma foldl_pair:
  "(\<And>a b x. F (a, b) x = (G a x, H b x)) \<Longrightarrow> foldl F (a, b) xs = (foldl G a xs, foldl H b xs)"
  by (induction xs arbitrary: a b) simp_all

text \<open>The loops over the blocks of 128 rows and over the rows of a block.\<close>

lemma row_loops:
  fixes f :: "nat \<Rightarrow> nat \<Rightarrow> u8 \<Rightarrow> nat \<Rightarrow> block" and g :: "nat \<Rightarrow> nat \<Rightarrow> block" and seed :: block and n :: nat
  assumes "length t = L" and "4 * S = L" and "8 dvd S"
    and f: "\<And>l i c m. m < 4 \<Longrightarrow> f l i (of_bool c) m = (if c then g (128 * l + i) m else 0)"
  defines "r \<equiv> foldl (\<lambda>t l. foldl (\<lambda>t i. sum_row_4 S (challenge_bytes (setKey seed) S l) (f l i) i t) t
      [0..<min (n - 128 * l) 128]) t [0..<(n + 127) div 128]"
  shows "length r = L \<and> (\<forall>p < L. r ! p = t ! p XOR row_sum seed S n (p div 4) (\<lambda>k. g k (p mod 4)))"
proof -
  let ?h = "\<lambda>p k. if challenged seed S k (p div 4) then g k (p mod 4) else 0"
  have row: "length (sum_row_4 S (challenge_bytes (setKey seed) S l) (f l i) i t) = L \<and>
      (\<forall>p < L. sum_row_4 S (challenge_bytes (setKey seed) S l) (f l i) i t ! p = t ! p XOR ?h p (128 * l + i))"
    if "length t = L" "i < 128" for t l i
  proof -
    have e: "4 * S \<le> length t" "even S" using that(1) assms(2,3) by auto
    have "f l i (challenge_bytes (setKey seed) S l ! (i * S + p div 4)) (p mod 4) = ?h p (128 * l + i)" if "p < L" for p
      using challenge_byte [OF \<open>i < 128\<close>, of "p div 4" S seed l] f [of "p mod 4" l i] that assms(2) by simp
    then show ?thesis using sum_row_4_facts [OF e, where x = "challenge_bytes (setKey seed) S l" and f = "f l i" and i = i] that(1) assms(2) by simp
  qed
  have block: "length (foldl (\<lambda>t i. sum_row_4 S (challenge_bytes (setKey seed) S l) (f l i) i t) t [0..<min (n - 128 * l) 128]) = L \<and>
      (\<forall>p < L. foldl (\<lambda>t i. sum_row_4 S (challenge_bytes (setKey seed) S l) (f l i) i t) t [0..<min (n - 128 * l) 128] ! p =
        t ! p XOR xsum (\<lambda>i. ?h p (128 * l + i)) [0..<min (n - 128 * l) 128])" if "length t = L" for t l
    by (rule foldl_xor_facts [OF _ that]) (use row in auto)
  have "length r = L \<and> (\<forall>p < L. r ! p = t ! p XOR
      xsum (\<lambda>l. xsum (\<lambda>i. ?h p (128 * l + i)) [0..<min (n - 128 * l) 128]) [0..<(n + 127) div 128])"
    unfolding r_def by (rule foldl_xor_facts [OF _ assms(1)]) (rule block)
  moreover have "xsum (\<lambda>l. xsum (\<lambda>i. ?h p (128 * l + i)) [0..<min (n - 128 * l) 128]) [0..<(n + 127) div 128] =
      row_sum seed S n (p div 4) (\<lambda>k. g k (p mod 4))" for p
    unfolding row_sum_def by (rule xsum_blocks)
  ultimately show ?thesis by simp
qed

lemma word_loops:
  fixes w :: "nat \<Rightarrow> block" and seed :: block and n :: nat
  assumes "length s = S" and "8 dvd S"
  defines "r \<equiv> foldl (\<lambda>s l. foldl (\<lambda>s i. sum_word S (challenge_bytes (setKey seed) S l) (w (128 * l + i)) i s) s
      [0..<min (n - 128 * l) 128]) s [0..<(n + 127) div 128]"
  shows "length r = S \<and> (\<forall>p < S. r ! p = s ! p XOR row_sum seed S n p w)"
proof -
  let ?h = "\<lambda>p k. if challenged seed S k p then w k else 0"
  have word: "length (sum_word S (challenge_bytes (setKey seed) S l) (w (128 * l + i)) i s) = S \<and>
      (\<forall>p < S. sum_word S (challenge_bytes (setKey seed) S l) (w (128 * l + i)) i s ! p = s ! p XOR ?h p (128 * l + i))"
    if "length s = S" "i < 128" for s l i
    using sum_word_facts [OF _ assms(2), where s = s and x = "challenge_bytes (setKey seed) S l" and w = "w (128 * l + i)" and i = i] that
      challenge_byte [OF that(2), of _ S seed l] by (simp add: zeroAndAllOneBlocks_bit)
  have block: "length (foldl (\<lambda>s i. sum_word S (challenge_bytes (setKey seed) S l) (w (128 * l + i)) i s) s [0..<min (n - 128 * l) 128]) = S \<and>
      (\<forall>p < S. foldl (\<lambda>s i. sum_word S (challenge_bytes (setKey seed) S l) (w (128 * l + i)) i s) s [0..<min (n - 128 * l) 128] ! p =
        s ! p XOR xsum (\<lambda>i. ?h p (128 * l + i)) [0..<min (n - 128 * l) 128])" if "length s = S" for s l
    by (rule foldl_xor_facts [OF _ that]) (use word in auto)
  have "length r = S \<and> (\<forall>p < S. r ! p = s ! p XOR
      xsum (\<lambda>l. xsum (\<lambda>i. ?h p (128 * l + i)) [0..<min (n - 128 * l) 128]) [0..<(n + 127) div 128])"
    unfolding r_def by (rule foldl_xor_facts [OF _ assms(1)]) (rule block)
  moreover have "xsum (\<lambda>l. xsum (\<lambda>i. ?h p (128 * l + i)) [0..<min (n - 128 * l) 128]) [0..<(n + 127) div 128] =
      row_sum seed S n p w" for p
    unfolding row_sum_def by (rule xsum_blocks)
  ultimately show ?thesis by simp
qed

lemma recv_sums:
  assumes "mStride (mT0 r) = 4" and "mStatSecParam_r r = S" and "8 dvd S" and "mCorrectionIdx_r r - S = n"
    and "length t = 4 * S" and "length w = S"
  shows "\<exists>t' w'. foldl (check_block_r r seed) (t, w) [0..<(n + 127) div 128] = (t', w') \<and> length t' = 4 * S \<and> length w' = S \<and>
    (\<forall>p < 4 * S. t' ! p = t ! p XOR row_sum seed S n (p div 4) (\<lambda>k. cell (mT0 r) k (p mod 4))) \<and>
    (\<forall>p < S. w' ! p = w ! p XOR row_sum seed S n p (\<lambda>k. mStore (mW r) ! k))"
proof -
  let ?f = "\<lambda>l i b m. mStore (mT0 r) ! (4 * (128 * l + i) + m) AND zeroAndAllOneBlocks b"
  let ?t = "foldl (\<lambda>t l. foldl (\<lambda>t i. sum_row_4 S (challenge_bytes (setKey seed) S l) (?f l i) i t) t
      [0..<min (n - 128 * l) 128]) t [0..<(n + 127) div 128]"
  let ?w = "foldl (\<lambda>s l. foldl (\<lambda>s i. sum_word S (challenge_bytes (setKey seed) S l) (mStore (mW r) ! (128 * l + i)) i s) s
      [0..<min (n - 128 * l) 128]) w [0..<(n + 127) div 128]"
  have "foldl (check_block_r r seed) (t, w) [0..<(n + 127) div 128] = (?t, ?w)"
    by (rule foldl_pair) (simp add: check_block_r_def Let_def assms(1-4))
  moreover have "length ?t = 4 * S \<and> (\<forall>p < 4 * S. ?t ! p = t ! p XOR row_sum seed S n (p div 4) (\<lambda>k. cell (mT0 r) k (p mod 4)))"
    by (rule row_loops [OF assms(5) refl assms(3)]) (simp add: zeroAndAllOneBlocks_bit cell_def assms(1))
  moreover note word_loops [OF assms(6,3), where seed = seed and n = n and w = "\<lambda>k. mStore (mW r) ! k"]
  ultimately show ?thesis by blast
qed

text \<open>The row of the sender that a sum takes.\<close>

definition checked_row :: "prty_sender \<Rightarrow> nat \<Rightarrow> nat \<Rightarrow> block" where
  "checked_row s k j = (cell (mCorrectionVals s) k j AND mChoiceBlks s ! j) XOR cell (mT s) k j"

lemma foldl_fill:
  assumes "\<And>i q. i < n \<Longrightarrow> length q = n * W \<Longrightarrow> g i q = foldl (\<lambda>q j. q[i * W + j := F i j]) q [0..<W]"
    and "length q = n * W"
  shows "foldl (\<lambda>q i. g i q) q [0..<n] = map (\<lambda>p. F (p div W) (p mod W)) [0..<n * W]"
proof -
  have row: "foldl (\<lambda>q j. q[a + j := f j]) q [0..<m] = take a q @ map f [0..<m] @ drop (a + m) q"
    if "a + m \<le> length q" for a m q and f :: "nat \<Rightarrow> 'a"
    using that
  proof (induction m)
    case (Suc m)
    then show ?case by (simp add: list_update_append Cons_nth_drop_Suc [symmetric])
  qed simp
  have "foldl (\<lambda>q i. g i q) q [0..<m] = map (\<lambda>p. F (p div W) (p mod W)) [0..<m * W] @ drop (m * W) q" if "m \<le> n" for m
    using that
  proof (induction m)
    case (Suc m)
    let ?q = "map (\<lambda>p. F (p div W) (p mod W)) [0..<m * W] @ drop (m * W) q"
    have "Suc m * W \<le> n * W" using Suc.prems by (rule mult_le_mono1)
    then have room: "m * W + W \<le> n * W" by simp
    then have "length ?q = n * W" using assms(2) by simp
    then have "g m ?q = take (m * W) ?q @ map (F m) [0..<W] @ drop (m * W + W) ?q"
      using assms(1) [of m ?q] Suc.prems row [of "m * W" W ?q "F m"] room by simp
    also have "map (F m) [0..<W] = map (\<lambda>p. F (p div W) (p mod W)) [m * W..<m * W + W]"
      by (rule nth_equalityI) simp_all
    also have "take (m * W) ?q @ map (\<lambda>p. F (p div W) (p mod W)) [m * W..<m * W + W] @ drop (m * W + W) ?q =
        map (\<lambda>p. F (p div W) (p mod W)) [0..<Suc m * W] @ drop (Suc m * W) q"
    proof -
      have "[0..<Suc m * W] = [0..<m * W] @ [m * W..<m * W + W]"
      using upt_add_eq_append [of 0 "m * W" W] by (simp add: add.commute)
      then show ?thesis by (simp add: add.commute)
    qed
    finally show ?case using Suc by simp
  qed simp
  from this [of n] assms(2) show ?thesis by simp
qed

lemma send_sums:
  assumes "mStride (mT s) = 4" and "mStride (mCorrectionVals s) = 4" and "mStatSecParam_s s = S" and "8 dvd S"
    and "mCorrectionIdx_s s - S = n"
  shows "\<exists>q. check_sums_s stack s seed = Some (Inr q) \<and> length q = 4 * S \<and>
    (\<forall>p < 4 * S. q ! p = checked_row s (n + p div 4) (p mod 4) XOR
      row_sum seed S n (p div 4) (\<lambda>k. checked_row s k (p mod 4)))"
proof -
  let ?q = "map (\<lambda>p. checked_row s (n + p div 4) (p mod 4)) [0..<S * 4]"
  let ?f = "\<lambda>l i. zeroAndQ stack (\<lambda>m. (mStore (mCorrectionVals s) ! (4 * (128 * l + i) + m) AND mChoiceBlks s ! m) XOR
      mStore (mT s) ! (4 * (128 * l + i) + m))"
  let ?r = "foldl (\<lambda>t l. foldl (\<lambda>t i. sum_row_4 S (challenge_bytes (setKey seed) S l) (?f l i) i t) t
      [0..<min (n - 128 * l) 128]) ?q [0..<(n + 127) div 128]"
  have "foldl (\<lambda>q i. foldl (\<lambda>q j. q[i * 4 + j := (mStore (mCorrectionVals s) ! (4 * (n + i) + j) AND mChoiceBlks s ! j) XOR
      mStore (mT s) ! (4 * (n + i) + j)]) q [0..<4]) (replicate (S * 4) 0) [0..<S] = ?q"
    by (rule foldl_fill) (simp_all add: checked_row_def cell_def assms(1,2))
  moreover have "check_block_s stack s seed = (\<lambda>t l. foldl (\<lambda>t i. sum_row_4 S (challenge_bytes (setKey seed) S l) (?f l i) i t) t
      [0..<min (n - 128 * l) 128])"
    by (intro ext) (simp add: check_block_s_def Let_def assms)
  ultimately have "check_sums_s stack s seed = Some (Inr ?r)"
    by (simp only: check_sums_s_def Let_def assms) simp
  moreover have "length ?r = 4 * S \<and> (\<forall>p < 4 * S. ?r ! p = ?q ! p XOR row_sum seed S n (p div 4) (\<lambda>k. checked_row s k (p mod 4)))"
    by (rule row_loops [OF _ refl assms(4)]) (simp_all add: zeroAndQ_bit checked_row_def cell_def assms(1,2))
  ultimately show ?thesis by simp
qed

subsection \<open>The random words of the receiver\<close>

lemma write_block_bytes:
  assumes "i < length wB" and "n \<le> length bs" and "n \<le> 16"
  shows "bytes_blocks (length wB) (copy_at (blocks_bytes wB) (16 * i) bs n) =
    wB[i := bytes_block (memcpy (block_bytes (wB ! i)) bs n)]"
proof -
  let ?b = "memcpy (block_bytes (wB ! i)) bs n" and ?r = "blocks_bytes (drop (Suc i) wB)"
  have d: "drop (16 * i) (blocks_bytes wB) = block_bytes (wB ! i) @ ?r"
    using assms(1) by (simp only: drop_blocks_bytes [symmetric] Cons_nth_drop_Suc [symmetric] blocks_bytes_simps)
  have "copy_at (blocks_bytes wB) (16 * i) bs n = blocks_bytes (take i wB) @ ?b @ ?r"
    using assms(3) by (simp add: copy_at_def d memcpy_def take_blocks_bytes)
  also have "\<dots> = blocks_bytes (wB[i := bytes_block ?b])"
    using assms by (simp add: upd_conv_take_nth_drop)
  finally show ?thesis using bytes_blocks_inverse [of "wB[i := bytes_block ?b]"] by simp
qed

lemma otCorrection_r_frame [simp]:
  "mMalicious_r (otCorrection_r junk k w r) = mMalicious_r r"
  "mStatSecParam_r (otCorrection_r junk k w r) = mStatSecParam_r r"
  "mCorrectionIdx_r (otCorrection_r junk k w r) = mCorrectionIdx_r r"
  "mInputByteCount_r (otCorrection_r junk k w r) = mInputByteCount_r r"
  "mStride (mW (otCorrection_r junk k w r)) = mStride (mW r)"
  by (simp_all add: otCorrection_r_def Let_def matrix_write_def)

lemma corrected_words_cong:
  "corrected r0 word rows m r \<Longrightarrow> (\<And>k. k < m \<Longrightarrow> word' k = word k) \<Longrightarrow> corrected r0 word' rows m r"
  by (simp add: corrected_def)

text \<open>
  After \<open>i\<close> of the random words; \<open>word\<close> gives the choices of all rows, \<open>mW\<close> and \<open>wB\<close> hold one block
  for each.
\<close>

definition words_drawn :: "prty_receiver \<Rightarrow> nat \<Rightarrow> nat \<Rightarrow> nat \<Rightarrow> nat \<Rightarrow> (nat \<Rightarrow> u8 list) \<Rightarrow>
    prty_receiver \<Rightarrow> block list \<Rightarrow> block list \<Rightarrow> prng \<Rightarrow> bool" where
  "words_drawn r0 rows n S i word r wB tB g \<longleftrightarrow> corrected r0 word rows (n + i) r \<and> mCorrectionIdx_r r = n \<and>
     mMalicious_r r \<and> mStatSecParam_r r = S \<and> mStride (mW r) = 1 \<and> length wB = S \<and> length tB = S * 4 \<and> prng_ok g \<and>
     (\<forall>l < i. take (mInputByteCount_r r0) (word (n + l)) = take (mInputByteCount_r r0) (block_bytes (wB ! l))) \<and>
     (\<forall>p < i * 4. tB ! p = cell (mT0 r0) (n + p div 4) (p mod 4))"

lemma foldl_row:
  "a + m \<le> length q \<Longrightarrow> foldl (\<lambda>q j. q[a + j := f j]) q [0..<m] = take a q @ map f [0..<m] @ drop (a + m) q"
proof (induction m)
  case (Suc m)
  then show ?case by (simp add: list_update_append Cons_nth_drop_Suc [symmetric])
qed simp

lemma check_word_drawn:
  assumes d: "words_drawn r0 rows n S i word r wB tB g" and i: "i < S" "n + S \<le> rows"
    and four: "mStride (mT0 r0) = 4" "plaintextBlkSize (mCode_r r0) = 1" "mInputByteCount_r r0 \<le> 16"
  obtains word' r' wB' tB' g' where "check_word junk (Some (Inr (r, wB, tB, g))) i = Some (Inr (r', wB', tB', g'))"
    and "words_drawn r0 rows n S (Suc i) word' r' wB' tB' g'" and "\<And>k. k < n + i \<Longrightarrow> word' k = word k"
proof -
  let ?b = "mInputByteCount_r r0"
  note D = d [unfolded words_drawn_def]
  have c0: "corrected r0 word rows (n + i) r" using D by blast
  then have r: "mInputByteCount_r r = ?b" "mCode_r r = mCode_r r0" "mT0 r = mT0 r0" by (simp_all add: corrected_def)
  obtain bs g' where g': "prng_get g ?b = Some (Inr (bs, g'))" "prng_ok g'" "length bs = ?b"
    using prng_get_stream [of g ?b] D by force
  define x where "x = bytes_block (memcpy (block_bytes (wB ! i)) bs ?b)"
  define wB' where "wB' = wB[i := x]"
  define word' where "word' = word(n + i := drop (16 * i) (blocks_bytes wB'))"
  define r' where "r' = otCorrection_r junk (n + i) (drop (16 * i) (blocks_bytes wB')) r"
  define tB' where "tB' = foldl (\<lambda>t j. t[i * 4 + j := cell (mT0 r0) (n + i) j]) tB [0..<4]"
  have W: "bytes_blocks (length wB) (copy_at (blocks_bytes wB) (16 * i) bs ?b) = wB'"
    unfolding wB'_def x_def using D i(1) g'(3) four(3) by (intro write_block_bytes) auto
  have "drop (16 * i) (blocks_bytes wB') = block_bytes x @ blocks_bytes (drop (Suc i) wB')"
    using D i(1) by (simp add: wB'_def drop_blocks_bytes [symmetric] Cons_nth_drop_Suc [symmetric])
  then have w: "take ?b (word' (n + i)) = take ?b (block_bytes x)" "?b \<le> length (word' (n + i))"
    using four(3) by (simp_all add: word'_def)
  have "corrected r0 word' rows (n + i) r"
    by (rule corrected_words_cong [OF c0]) (simp add: word'_def)
  from corrected_step(1) [OF this _ w(2), of junk] i
  have "corrected r0 word' rows (Suc (n + i)) (otCorrection_r junk (n + i) (word' (n + i)) r)" by simp
  moreover have "word' (n + i) = drop (16 * i) (blocks_bytes wB')" by (simp add: word'_def)
  ultimately have c: "corrected r0 word' rows (n + Suc i) r'" by (simp only: r'_def add_Suc_right)
  have room: "i * 4 + 4 \<le> length tB"
    using mult_le_mono1 [of "Suc i" S 4] i(1) D by simp
  have T: "tB' = take (i * 4) tB @ map (cell (mT0 r0) (n + i)) [0..<4] @ drop (i * 4 + 4) tB"
    unfolding tB'_def by (rule foldl_row [OF room])
  have "tB' ! p = cell (mT0 r0) (n + p div 4) (p mod 4)" if "p < Suc i * 4" for p
  proof (cases "p < i * 4")
    case True
    then show ?thesis using D room by (simp add: T nth_append)
  next
    case False
    then have q: "p = i * 4 + (p - i * 4)" "p - i * 4 < 4" using that by simp_all
    then obtain q where q: "p = i * 4 + q" "q < 4" by blast
    then show ?thesis using room by (simp add: T nth_append del: upt_rec_numeral)
  qed
  moreover have "take ?b (word' (n + l)) = take ?b (block_bytes (wB' ! l))" if "l < Suc i" for l
    using that D w(1) i(1) by (cases "l = i") (simp_all add: wB'_def word'_def)
  ultimately have "words_drawn r0 rows n S (Suc i) word' r' wB' tB' g'"
    using c D g'(2) room unfolding words_drawn_def by (simp add: r'_def wB'_def T)
  moreover have "check_word junk (Some (Inr (r, wB, tB, g))) i = Some (Inr (r', wB', tB', g'))"
  proof -
    have "foldl (\<lambda>t j. t[i * 4 + j := mStore (mT0 r0) ! (4 * (n + i) + j)]) tB [0..<4] = tB'"
      unfolding tB'_def cell_def four(1) by (rule refl)
    moreover have "mCorrectionIdx_r r = n" "mT0 r' = mT0 r0" "mCorrectionIdx_r r' = n"
      using D c by (simp_all add: r'_def corrected_def)
    ultimately show ?thesis
      by (simp only: check_word_def call_bind_simps case_prod_conv r g'(1) Let_def four mult_1 W r'_def [symmetric])
  qed
  ultimately show ?thesis using that [of r' wB' tB' g' word'] by (auto simp: word'_def)
qed

lemma check_words_drawn:
  assumes "words_drawn r0 rows n S 0 word r wB tB g" and "n + S \<le> rows"
    and four: "mStride (mT0 r0) = 4" "plaintextBlkSize (mCode_r r0) = 1" "mInputByteCount_r r0 \<le> 16"
  obtains word' r' wB' tB' g' where "foldl (check_word junk) (Some (Inr (r, wB, tB, g))) [0..<S] = Some (Inr (r', wB', tB', g'))"
    and "words_drawn r0 rows n S S word' r' wB' tB' g'" and "\<And>k. k < n \<Longrightarrow> word' k = word k"
proof -
  have "\<exists>word' r' wB' tB' g'. foldl (check_word junk) (Some (Inr (r, wB, tB, g))) [0..<i] = Some (Inr (r', wB', tB', g')) \<and>
      words_drawn r0 rows n S i word' r' wB' tB' g' \<and> (\<forall>k < n. word' k = word k)" if "i \<le> S" for i
    using that
  proof (induction i)
    case 0
    show ?case using assms(1) by (intro exI [of _ word] exI [of _ r] exI [of _ wB] exI [of _ tB] exI [of _ g]) simp
  next
    case (Suc i)
    then obtain word1 r1 wB1 tB1 g1 where 1: "foldl (check_word junk) (Some (Inr (r, wB, tB, g))) [0..<i] = Some (Inr (r1, wB1, tB1, g1))"
      "words_drawn r0 rows n S i word1 r1 wB1 tB1 g1" "\<And>k. k < n \<Longrightarrow> word1 k = word k" by auto
    obtain word2 r2 wB2 tB2 g2 where 2: "check_word junk (Some (Inr (r1, wB1, tB1, g1))) i = Some (Inr (r2, wB2, tB2, g2))"
      "words_drawn r0 rows n S (Suc i) word2 r2 wB2 tB2 g2" "\<And>k. k < n + i \<Longrightarrow> word2 k = word1 k"
      by (rule check_word_drawn [OF 1(2) _ assms(2) four, where junk = junk]) (use Suc.prems in auto)
    show ?case
      using 1 2 by (intro exI [of _ word2] exI [of _ r2] exI [of _ wB2] exI [of _ tB2] exI [of _ g2]) simp
  qed
  from this [of S] show ?thesis using that by blast
qed

text \<open>The first half of the receiver: the two messages, and the buffers for the reply.\<close>

lemma check_commit_result:
  assumes c: "corrected r0 word rows n r" and idx: "mCorrectionIdx_r r = n" and room: "n + S \<le> rows"
    and par: "mMalicious_r r" "mStatSecParam_r r = S" "mStride (mW r) = 1"
    and four: "mStride (mT0 r0) = 4" "plaintextBlkSize (mCode_r r0) = 1" "mInputByteCount_r r0 \<le> 16"
    and size: "sendable_size (16 * (4 * S))"
  obtains word' r' wB tB g where "check_commit_r junk wordSeed r [] = Some (Inr (r'\<lparr>mCorrectionIdx_r := n + S\<rparr>, wB, tB,
      [[0], blocks_bytes (rows_from 4 (\<lambda>k. correction r0 (word' k) k) n S)]))"
    and "words_drawn r0 rows n S S word' r' wB tB g" and "\<And>k. k < n \<Longrightarrow> word' k = word k"
proof -
  obtain g where g: "SetSeed wordSeed defaultBufferSize unkeyed_prng = Inr g" "prng_ok g"
    using SetSeed_ok [of defaultBufferSize unkeyed_prng wordSeed] by (auto simp: unkeyed_prng_def defaultBufferSize_def)
  have T0: "mT0 r = mT0 r0" using c by (simp add: corrected_def)
  have start: "words_drawn r0 rows n S 0 word r (replicate S 0) (replicate (S * 4) 0) g"
    using c idx par g(2) by (simp add: words_drawn_def)
  obtain word' r' wB tB g' where w: "foldl (check_word junk) (Some (Inr (r, replicate S 0, replicate (S * 4) 0, g))) [0..<S] =
      Some (Inr (r', wB, tB, g'))" "words_drawn r0 rows n S S word' r' wB tB g'" "\<And>k. k < n \<Longrightarrow> word' k = word k"
    by (rule check_words_drawn [OF start room four, where junk = junk], rule that)
  have c': "corrected r0 word' rows (n + S) r'" "mCorrectionIdx_r r' = n" "mStatSecParam_r r' = S"
    using w(2) by (simp_all add: words_drawn_def)
  have sent: "sendCorrection S r' [[0]] = Some (r'\<lparr>mCorrectionIdx_r := n + S\<rparr>,
      [[0], blocks_bytes (rows_from 4 (\<lambda>k. correction r0 (word' k) k) n S)])"
    using sendCorrection_result [OF c'(1,2) room, of "[[0]]"] four(1) size by simp
  have "asyncSend [0] [] = Some [[0]]" by (simp add: asyncSend_def sendable_size_iff)
  then have "check_commit_r junk wordSeed r [] = Some (Inr (r'\<lparr>mCorrectionIdx_r := n + S\<rparr>, wB, tB,
      [[0], blocks_bytes (rows_from 4 (\<lambda>k. correction r0 (word' k) k) n S)]))"
    using par(1) by (simp add: check_commit_r_def g(1) Let_def T0 four(1) par(2,3) w(1) c'(3) sent)
  with w(2,3) show ?thesis using that by blast
qed

subsection \<open>The comparisons\<close>

lemma encode_four:
  fixes junk :: "u8 list"
  assumes "code_ok c" and "mPlaintextU8Size c \<le> length w" and "codewordU8Size c \<le> 64" and "codewordBlkSize c = 4"
    and "length cw = 4" and "drop (codewordU8Size c) (blocks_bytes cw) = replicate (64 - codewordU8Size c) 0"
  defines "cw' \<equiv> bytes_blocks 4 (encode c junk w (blocks_bytes cw))"
  shows "cw' = map (choice_word c w) [0..<4]"
    and "drop (codewordU8Size c) (blocks_bytes cw') = replicate (64 - codewordU8Size c) 0"
proof -
  let ?U = "codewordU8Size c" and ?A = "take (codewordU8Size c) (blocks_bytes (code_words c w))"
  have A: "length ?A = ?U" using assms(3,4) by (simp add: code_words_def)
  have e: "encode c junk w (blocks_bytes cw) = ?A @ replicate (64 - ?U) 0"
    using assms(3,5,6) by (simp add: encode_words [OF assms(1,2)] memcpy_def)
  have b: "blocks_bytes (replicate 10 0) = replicate 160 (0 :: u8)"
    by (rule nth_equalityI) (simp_all add: nth_blocks_bytes block_byte_def)
  have ten: "encode c [] w (blocks_bytes (replicate 10 0)) = (?A @ replicate (64 - ?U) 0) @ replicate 96 0"
    using assms(3) by (simp add: b encode_words [OF assms(1,2)] memcpy_def replicate_add [symmetric])
  show "cw' = map (choice_word c w) [0..<4]"
  proof (rule nth_equalityI)
    fix i assume "i < length cw'"
    then have i: "i < 4" by (simp add: cw'_def)
    let ?X = "?A @ replicate (64 - ?U) 0"
    have "length ?X = 64" using A assms(3) by simp
    then have "take 16 (drop (16 * i) (?X @ replicate 96 0)) = take 16 (drop (16 * i) ?X)"
      using i by (simp del: append_assoc)
    then show "cw' ! i = map (choice_word c w) [0..<4] ! i"
      using i by (simp add: cw'_def e ten choice_word_def codeword_of_def nth_bytes_blocks del: append_assoc upt_rec_numeral)
  qed (simp add: cw'_def)
  show "drop ?U (blocks_bytes cw') = replicate (64 - ?U) 0"
    using A assms(3) by (simp add: cw'_def e)
qed

definition mismatches :: "linear_code \<Rightarrow> block list \<Rightarrow> block list \<Rightarrow> block list \<Rightarrow> block list \<Rightarrow> nat \<Rightarrow> (nat \<times> nat) list" where
  "mismatches c choice tSum wSum qSum l =
     map (Pair l) (filter (\<lambda>j. tSum ! (l * 4 + j) XOR qSum ! (l * 4 + j) \<noteq>
       choice_word c (drop (16 * l) (blocks_bytes wSum)) j AND choice ! j) [0..<4])"

lemma check_relation_mismatches:
  assumes c: "code_ok c" "codewordBlkSize c = 4" "plaintextBlkSize c = 1" "codewordU8Size c \<le> 64" "mPlaintextU8Size c \<le> 16"
    and len: "length wSum = S"
  shows "check_relation junk c choice S tSum wSum qSum = concat (map (mismatches c choice tSum wSum qSum) [0..<S])"
proof -
  let ?U = "codewordU8Size c"
  define F where "F = (\<lambda>(cw, bad) l.
       let word = drop (16 * (l * 1)) (blocks_bytes wSum);
           cw = bytes_blocks 4 (encode c junk word (blocks_bytes cw));
           bad' = filter (\<lambda>j. tSum ! (l * 4 + j) XOR qSum ! (l * 4 + j) \<noteq> cw ! j AND choice ! j) [0..<4]
       in (cw, bad @ map (Pair l) bad'))"
  have "\<exists>cw. foldl F (replicate 4 0, []) [0..<m] = (cw, concat (map (mismatches c choice tSum wSum qSum) [0..<m])) \<and>
      length cw = 4 \<and> drop ?U (blocks_bytes cw) = replicate (64 - ?U) 0" if "m \<le> S" for m
    using that
  proof (induction m)
    case 0
    have "blocks_bytes (replicate 4 0) = replicate 64 (0 :: u8)"
      by (rule nth_equalityI) (simp_all add: nth_blocks_bytes block_byte_def)
    then show ?case using c(4) by simp
  next
    case (Suc m)
    then obtain cw where cw: "foldl F (replicate 4 0, []) [0..<m] = (cw, concat (map (mismatches c choice tSum wSum qSum) [0..<m]))"
      "length cw = 4" "drop ?U (blocks_bytes cw) = replicate (64 - ?U) 0" by auto
    let ?w = "drop (16 * m) (blocks_bytes wSum)"
    define cw' where "cw' = bytes_blocks 4 (encode c junk ?w (blocks_bytes cw))"
    have "mPlaintextU8Size c \<le> length ?w" using Suc.prems len c(5) by simp
    note E = encode_four [OF c(1) this c(4,2) cw(2,3), of junk, folded cw'_def]
    have "filter (\<lambda>j. tSum ! (m * 4 + j) XOR qSum ! (m * 4 + j) \<noteq> cw' ! j AND choice ! j) [0..<4] =
        filter (\<lambda>j. tSum ! (m * 4 + j) XOR qSum ! (m * 4 + j) \<noteq> choice_word c ?w j AND choice ! j) [0..<4]"
      by (rule filter_cong) (auto simp: E(1) simp del: upt_rec_numeral)
    then have "F (cw, bad) m = (cw', bad @ mismatches c choice tSum wSum qSum m)" for bad
      by (simp add: F_def cw'_def [symmetric] mismatches_def del: upt_rec_numeral)
    then show ?case using cw(1) E(2) by (simp add: cw'_def)
  qed
  from this [of S] have "snd (foldl F (replicate 4 0, []) [0..<S]) = concat (map (mismatches c choice tSum wSum qSum) [0..<S])"
    by auto
  then show ?thesis unfolding check_relation_def Let_def c(2,3) F_def [symmetric, unfolded Let_def] by simp
qed

subsection \<open>The linear relation\<close>

text \<open>The codeword of a word of one block.\<close>

definition word_code :: "linear_code \<Rightarrow> block \<Rightarrow> nat \<Rightarrow> block" where
  "word_code c b j = choice_word c (block_bytes b) j"

definition short_code :: "linear_code \<Rightarrow> bool" where
  "short_code c \<longleftrightarrow> code_ok c \<and> codewordBlkSize c = 4 \<and> plaintextBlkSize c = 1 \<and> codewordU8Size c \<le> 64 \<and>
     mPlaintextU8Size c \<le> 16"

lemma word_code_bytes:
  assumes "short_code c" and "mPlaintextU8Size c \<le> n" and "n \<le> 16"
    and "take n w = take n (block_bytes b)" and "j < 4"
  shows "choice_word c w j = word_code c b j"
proof -
  have "n \<le> length w" using arg_cong [OF assms(4), of length] assms(3) by simp
  moreover have "take (mPlaintextU8Size c) w = take (mPlaintextU8Size c) (block_bytes b)"
    using arg_cong [OF assms(4), of "take (mPlaintextU8Size c)"] assms(2) by (simp add: min_absorb1)
  ultimately show ?thesis
    using assms unfolding choice_word_def word_code_def short_code_def by (intro codeword_of_prefix) auto
qed

lemma word_code_xor:
  assumes "short_code c" and "j < 4"
  shows "word_code c (a XOR b) j = word_code c a j XOR word_code c b j"
proof -
  have "block_bytes (a XOR b) = map2 (XOR) (block_bytes a) (block_bytes b)"
    by (rule nth_equalityI) (auto simp: nth_block_bytes block_byte_def drop_bit_xor unsigned_xor_eq)
  then show ?thesis
    using assms unfolding word_code_def choice_word_def short_code_def by (simp add: codeword_of_xor)
qed

lemma word_code_zero: "short_code c \<Longrightarrow> j < 4 \<Longrightarrow> word_code c 0 j = 0"
  using word_code_xor [of c j 0 0] by simp

lemma word_code_sum:
  assumes "short_code c" and "j < 4"
  shows "word_code c (row_sum seed S n l g) j = row_sum seed S n l (\<lambda>k. word_code c (g k) j)"
  unfolding row_sum_def
  by (induction n) (simp_all add: assms word_code_zero word_code_xor del: upt_Suc xsum_upt_Suc add: xsum_upt_Suc)

lemma row_sum_xor: "row_sum seed S n l (\<lambda>k. f k XOR g k) = row_sum seed S n l f XOR row_sum seed S n l g"
  unfolding row_sum_def xsum_xor [symmetric] by (intro xsum_cong refl) simp

lemma row_sum_and: "row_sum seed S n l (\<lambda>k. f k AND m) = row_sum seed S n l f AND m"
  unfolding row_sum_def xsum_and [symmetric] by (intro xsum_cong refl) simp

lemma row_sum_cong: "(\<And>k. k < n \<Longrightarrow> f k = g k) \<Longrightarrow> row_sum seed S n l f = row_sum seed S n l g"
  unfolding row_sum_def by (intro xsum_cong refl) auto

text \<open>
  One comparison: \<open>E k\<close> is by how much row \<open>k\<close> of the sender differs from the row of the receiver plus
  its masked codeword.
\<close>

lemma comparison:
  fixes T C E Q :: "nat \<Rightarrow> block" and V w :: "nat \<Rightarrow> block"
  assumes "short_code c" and j: "j < 4"
    and row: "\<And>k. k < n \<Longrightarrow> Q k = E k XOR T k XOR (word_code c (w k) j AND m)"
    and own: "Q0 = T0 XOR (word_code c v j AND m)"
  shows "(T0 XOR row_sum seed S n l T) XOR (Q0 XOR row_sum seed S n l Q) = word_code c (v XOR row_sum seed S n l w) j AND m
    \<longleftrightarrow> row_sum seed S n l E = 0"
proof -
  have "row_sum seed S n l Q = row_sum seed S n l (\<lambda>k. E k XOR T k XOR (word_code c (w k) j AND m))"
    by (rule row_sum_cong) (rule row)
  also have "\<dots> = row_sum seed S n l E XOR row_sum seed S n l T XOR (word_code c (row_sum seed S n l w) j AND m)"
    by (simp add: row_sum_xor row_sum_and word_code_sum assms(1) j)
  finally have sum: "row_sum seed S n l Q = row_sum seed S n l E XOR row_sum seed S n l T XOR (word_code c (row_sum seed S n l w) j AND m)" .
  have alg: "(t XOR r) XOR ((t XOR a) XOR (e XOR r XOR b)) = (a XOR b) XOR e" for t r a e b :: block
    by (simp add: ac_simps)
  have "(T0 XOR row_sum seed S n l T) XOR (Q0 XOR row_sum seed S n l Q) =
      ((word_code c v j AND m) XOR (word_code c (row_sum seed S n l w) j AND m)) XOR row_sum seed S n l E"
    unfolding own sum by (rule alg)
  also have "(word_code c v j AND m) XOR (word_code c (row_sum seed S n l w) j AND m) =
      word_code c (v XOR row_sum seed S n l w) j AND m"
    by (simp only: word_code_xor [OF assms(1) j] bit_xor_distrib_and)
  finally have eq: "(T0 XOR row_sum seed S n l T) XOR (Q0 XOR row_sum seed S n l Q) =
      (word_code c (v XOR row_sum seed S n l w) j AND m) XOR row_sum seed S n l E" .
  have "a XOR e = a \<longleftrightarrow> e = 0" for a e :: block
  proof
    assume "a XOR e = a"
    then have "a XOR (a XOR e) = 0" by simp
    then show "e = 0" by (simp add: xor.assoc [symmetric])
  qed simp
  then show ?thesis unfolding eq .
qed

subsection \<open>The whole exchange\<close>

text \<open>
  What the check needs of the two states: the receiver has corrected \<open>n\<close> rows and the sender has
  received them, there is room for \<open>S\<close> more, and the codes are short.
\<close>

definition check_ready :: "prty_receiver \<Rightarrow> nat \<Rightarrow> nat \<Rightarrow> nat \<Rightarrow> (nat \<Rightarrow> u8 list) \<Rightarrow> prty_receiver \<Rightarrow> prty_sender \<Rightarrow> bool" where
  "check_ready r0 rows n S word r s \<longleftrightarrow>
     corrected r0 word rows n r \<and> mCorrectionIdx_r r = n \<and> n + S \<le> rows \<and> mMalicious_r r \<and> mStatSecParam_r r = S \<and>
     mStride (mW r) = 1 \<and> short_code (mCode_r r0) \<and> mPlaintextU8Size (mCode_r r0) \<le> mInputByteCount_r r0 \<and>
     mInputByteCount_r r0 \<le> 16 \<and> (\<forall>k < n. mInputByteCount_r r0 \<le> length (word k)) \<and>
     mStride (mT0 r0) = 4 \<and> 0 < S \<and> S \<le> 1024 \<and> 8 dvd S \<and>
     mMalicious_s s \<and> mStatSecParam_s s = S \<and> mCode_s s = mCode_r r0 \<and> mCorrectionIdx_s s = n \<and> n * 4 < 2 ^ 31 \<and>
     mStride (mT s) = 4 \<and> mStride (mCorrectionVals s) = 4 \<and> 4 * rows \<le> length (mStore (mCorrectionVals s)) \<and>
     (\<forall>k j. n \<le> k \<longrightarrow> k < rows \<longrightarrow> j < 4 \<longrightarrow>
        cell (mT s) k j = base_row (cell (mT0 r0) k j) (cell (mT1 r0) k j) (mChoiceBlks s ! j))"

text \<open>By how much row \<open>k\<close> of the sender is off.\<close>

definition row_error :: "prty_receiver \<Rightarrow> prty_sender \<Rightarrow> (nat \<Rightarrow> u8 list) \<Rightarrow> nat \<Rightarrow> nat \<Rightarrow> block" where
  "row_error r0 s word k j = checked_row s k j XOR cell (mT0 r0) k j XOR (choice_word (mCode_r r0) (word k) j AND mChoiceBlks s ! j)"

definition failures :: "block \<Rightarrow> nat \<Rightarrow> nat \<Rightarrow> (nat \<Rightarrow> nat \<Rightarrow> block) \<Rightarrow> (nat \<times> nat) list" where
  "failures seed S n E =
     concat (map (\<lambda>l. map (Pair l) (filter (\<lambda>j. row_sum seed S n l (\<lambda>k. E k j) \<noteq> 0) [0..<4])) [0..<S])"

lemma checked_row_own:
  assumes "cell (mCorrectionVals s) k j = correction r0 w k j"
    and "cell (mT s) k j = base_row (cell (mT0 r0) k j) (cell (mT1 r0) k j) (mChoiceBlks s ! j)"
  shows "checked_row s k j = cell (mT0 r0) k j XOR (choice_word (mCode_r r0) w j AND mChoiceBlks s ! j)"
  using masked_row_correction [of r0 k j "mChoiceBlks s ! j" w] by (simp add: checked_row_def assms xor.commute)

lemma run_check_result:
  assumes ready: "check_ready r0 rows n S word r s"
  shows "\<exists>r' s'. run_check stack junk junk' wordSeed seed r s =
    Some (Inr (r', s', failures seed S n (row_error r0 s word)))"
proof -
  note R = ready [unfolded check_ready_def]
  let ?c = "mCode_r r0" and ?b = "mInputByteCount_r r0"
  have S: "0 < S" "S \<le> 1024" "8 dvd S" using R by simp_all
  have sz: "sendable_size (16 * (4 * S))" "sendable_size (16 * S)" "sendable_size 16" "sendable_size 1"
    using S by (simp_all add: sendable_size_iff)
  have par: "corrected r0 word rows n r" "mCorrectionIdx_r r = n" "n + S \<le> rows" "mMalicious_r r" "mStatSecParam_r r = S"
    "mStride (mW r) = 1" "mStride (mT0 r0) = 4" "plaintextBlkSize ?c = 1" "?b \<le> 16"
    using R by (simp_all add: short_code_def)
  have short: "short_code ?c" and b: "mPlaintextU8Size ?c \<le> ?b" using R by simp_all
  obtain word' r1 wB tB g where commit: "check_commit_r junk wordSeed r [] = Some (Inr (r1\<lparr>mCorrectionIdx_r := n + S\<rparr>, wB, tB,
      [[0], blocks_bytes (rows_from 4 (\<lambda>k. correction r0 (word' k) k) n S)]))"
    and drawn: "words_drawn r0 rows n S S word' r1 wB tB g" and old: "\<And>k. k < n \<Longrightarrow> word' k = word k"
    by (rule check_commit_result [OF par sz(1), where junk = junk and wordSeed = wordSeed], rule that)
  let ?r = "r1\<lparr>mCorrectionIdx_r := n + S\<rparr>"
  note D = drawn [unfolded words_drawn_def]
  have c1: "corrected r0 word' rows (n + S) r1" using D by blast
  have snd: "mCorrectionIdx_s s = n" "mStride (mCorrectionVals s) = 4" "n * 4 < 2 ^ 31"
    "4 * rows \<le> length (mStore (mCorrectionVals s))" using R by blast+
  have room: "4 * (n + S) \<le> length (mStore (mCorrectionVals s))"
    using mult_le_mono2 [OF par(3), of 4] snd(4) by (rule order_trans)
  obtain C where recv: "recvCorrection S s [blocks_bytes (rows_from 4 (\<lambda>k. correction r0 (word' k) k) n S)] =
      Some (Inr (s\<lparr>mCorrectionVals := C, mCorrectionIdx_s := n + S\<rparr>, []))"
    and C: "mStride C = 4" and new: "\<And>k w. n \<le> k \<Longrightarrow> k < n + S \<Longrightarrow> w < 4 \<Longrightarrow> cell C k w = correction r0 (word' k) k w"
    and kept: "\<And>k w. k < n \<Longrightarrow> w < 4 \<Longrightarrow> cell C k w = cell (mCorrectionVals s) k w"
    by (rule recvCorrection_result [OF snd(1,2) _ snd(3) room, of "\<lambda>k. correction r0 (word' k) k" "[]"]) (use sz in auto)
  define s1 where "s1 = s\<lparr>mCorrectionVals := C, mCorrectionIdx_s := n + S\<rparr>"
  have challenge: "check_challenge_s seed s [[0], blocks_bytes (rows_from 4 (\<lambda>k. correction r0 (word' k) k) n S)] [] =
      Some (Inr (s1, [], [block_bytes seed]))"
    using R sz recv by (simp add: check_challenge_s_def channel_recv_def asyncSend_def s1_def)
  have recv_pre: "mStride (mT0 ?r) = 4" "mStatSecParam_r ?r = S" "mCorrectionIdx_r ?r - S = n" "length tB = 4 * S" "length wB = S"
    using D c1 par(7) by (simp_all add: corrected_def)
  from recv_sums [OF recv_pre(1,2) S(3) recv_pre(3-5), of seed]
  obtain tS wS where sums: "foldl (check_block_r ?r seed) (tB, wB) [0..<(n + 127) div 128] = (tS, wS)"
    and len: "length tS = 4 * S" "length wS = S"
    and tS: "\<And>p. p < 4 * S \<Longrightarrow> tS ! p = tB ! p XOR row_sum seed S n (p div 4) (\<lambda>k. cell (mT0 ?r) k (p mod 4))"
    and wS: "\<And>p. p < S \<Longrightarrow> wS ! p = wB ! p XOR row_sum seed S n p (\<lambda>k. mStore (mW ?r) ! k)"
    by blast
  have reply: "check_reply_r ?r tB wB [block_bytes seed] [] = Some (Inr ([], [blocks_bytes tS, blocks_bytes wS]))"
    using D sz sums len by (simp add: check_reply_r_def channel_recv_def asyncSend_def Let_def)
  have send_pre: "mStride (mT s1) = 4" "mStride (mCorrectionVals s1) = 4" "mStatSecParam_s s1 = S" "mCorrectionIdx_s s1 - S = n"
    using R C by (simp_all add: s1_def)
  from send_sums [OF send_pre(1-3) S(3) send_pre(4), of stack seed]
  obtain q where q: "check_sums_s stack s1 seed = Some (Inr q)"
    and qS: "\<And>p. p < 4 * S \<Longrightarrow> q ! p = checked_row s1 (n + p div 4) (p mod 4) XOR
      row_sum seed S n (p div 4) (\<lambda>k. checked_row s1 k (p mod 4))"
    by blast
  have verify: "check_verify_s stack junk' seed s1 [blocks_bytes tS, blocks_bytes wS] =
      Some (Inr (check_relation junk' ?c (mChoiceBlks s) S tS wS q, []))"
    using R sz q len bytes_blocks_inverse [of tS] bytes_blocks_inverse [of wS] par(8)
    by (simp add: check_verify_s_def Let_def channel_recv_def s1_def mult.commute)
  have run: "run_check stack junk junk' wordSeed seed r s = Some (Inr (?r, s1, check_relation junk' ?c (mChoiceBlks s) S tS wS q))"
    unfolding run_check_def commit challenge reply verify call_bind_simps case_prod_conv ..
  have "mismatches ?c (mChoiceBlks s) tS wS q l =
      map (Pair l) (filter (\<lambda>j. row_sum seed S n l (\<lambda>k. row_error r0 s word k j) \<noteq> 0) [0..<4])" if l: "l < S" for l
    unfolding mismatches_def
  proof (rule arg_cong [where f = "map (Pair l)"], rule filter_cong [OF refl])
    fix j assume "j \<in> set [0..<4]"
    then have j: "j < 4" by simp
    have "Suc l * 4 \<le> S * 4" using l by (intro mult_le_mono1) simp
    then have p: "l * 4 + j < 4 * S" "(l * 4 + j) div 4 = l" "(l * 4 + j) mod 4 = j" using j by simp_all
    let ?m = "mChoiceBlks s ! j"
    have w: "choice_word ?c (drop (16 * l) (blocks_bytes wS)) j = word_code ?c (wS ! l) j"
    proof (rule word_code_bytes [OF short b par(9) _ j])
      have "drop (16 * l) (blocks_bytes wS) = block_bytes (wS ! l) @ blocks_bytes (drop (Suc l) wS)"
        using l len(2) by (simp add: drop_blocks_bytes [symmetric] Cons_nth_drop_Suc [symmetric])
      then show "take ?b (drop (16 * l) (blocks_bytes wS)) = take ?b (block_bytes (wS ! l))" using par(9) by simp
    qed
    show "(tS ! (l * 4 + j) XOR q ! (l * 4 + j) \<noteq> choice_word ?c (drop (16 * l) (blocks_bytes wS)) j AND ?m) =
        (row_sum seed S n l (\<lambda>k. row_error r0 s word k j) \<noteq> 0)"
    proof -
      let ?Q = "\<lambda>k. checked_row s1 k j" and ?T = "\<lambda>k. cell (mT0 r0) k j" and ?W = "\<lambda>k. mStore (mW r1) ! k"
      have row: "?Q k = row_error r0 s word k j XOR ?T k XOR (word_code ?c (?W k) j AND ?m)" if k: "k < n" for k
      proof -
        have "k < length (mStore (mW r1))" using c1 D k par(3) by (simp add: corrected_def recv_ready_def Let_def)
        then have "drop (16 * k) (blocks_bytes (mStore (mW r1))) = block_bytes (?W k) @ blocks_bytes (drop (Suc k) (mStore (mW r1)))"
          by (simp add: drop_blocks_bytes [symmetric] Cons_nth_drop_Suc [symmetric])
        then have "row_bytes ?b k (mW r1) = take ?b (block_bytes (?W k))"
          using D par(9) by (simp add: row_bytes_def matrix_bytes_def)
        moreover have "row_bytes ?b k (mW r1) = take ?b (word k)" using c1 k old by (simp add: corrected_def)
        ultimately have "choice_word ?c (word k) j = word_code ?c (?W k) j"
          by (intro word_code_bytes [OF short b par(9) _ j]) simp
        moreover have "?Q k = checked_row s k j" using kept [OF k j] by (simp add: checked_row_def s1_def)
        ultimately show ?thesis by (simp add: row_error_def xor.assoc)
      qed
      have "cell (mCorrectionVals s1) (n + l) j = correction r0 (word' (n + l)) (n + l) j"
        using new [of "n + l" j] l j by (simp add: s1_def)
      moreover have "cell (mT s1) (n + l) j = base_row (cell (mT0 r0) (n + l) j) (cell (mT1 r0) (n + l) j) (mChoiceBlks s1 ! j)"
        using R l j by (simp add: s1_def)
      ultimately have "?Q (n + l) = ?T (n + l) XOR (choice_word ?c (word' (n + l)) j AND ?m)"
        using checked_row_own [of s1 "n + l" j r0 "word' (n + l)"] by (simp add: s1_def)
      moreover have "choice_word ?c (word' (n + l)) j = word_code ?c (wB ! l) j"
        using D l by (intro word_code_bytes [OF short b par(9) _ j]) simp
      ultimately have own: "?Q (n + l) = ?T (n + l) XOR (word_code ?c (wB ! l) j AND ?m)" by simp
      have "tS ! (l * 4 + j) = ?T (n + l) XOR row_sum seed S n l ?T"
        using tS [OF p(1)] D p c1 by (simp add: corrected_def mult.commute)
      moreover have "q ! (l * 4 + j) = ?Q (n + l) XOR row_sum seed S n l ?Q" using qS [OF p(1)] p by simp
      moreover have "wS ! l = wB ! l XOR row_sum seed S n l ?W" using wS [OF l] by simp
      ultimately show ?thesis unfolding w using comparison [OF short j row own, where seed = seed and S = S and l = l] by simp
    qed
  qed
  then have "map (mismatches ?c (mChoiceBlks s) tS wS q) [0..<S] =
      map (\<lambda>l. map (Pair l) (filter (\<lambda>j. row_sum seed S n l (\<lambda>k. row_error r0 s word k j) \<noteq> 0) [0..<4])) [0..<S]"
    by (intro map_cong refl) simp
  then have "check_relation junk' ?c (mChoiceBlks s) S tS wS q = failures seed S n (row_error r0 s word)"
    using check_relation_mismatches [of ?c wS S junk' "mChoiceBlks s" tS q] short len(2)
    by (simp only: short_code_def failures_def)
  with run show ?thesis by metis
qed

subsection \<open>From new parties\<close>

lemma call_bind_iff:
  "call_bind m f = Some (Inr y) \<longleftrightarrow> (\<exists>x. m = Some (Inr x) \<and> f x = Some (Inr y))"
  by (auto simp: call_bind_def split: sum.splits bind_splits)

lemma recv_steps_frame:
  "configure_r m p fs r = Inr r' \<Longrightarrow> mMalicious_r r' = m \<and> mStatSecParam_r r' = p \<and> mInputByteCount_r r' = (fs + 7) div 8"
  "setBaseOts_r base r = Inr r' \<Longrightarrow> mMalicious_r r' = mMalicious_r r \<and> mStatSecParam_r r' = mStatSecParam_r r \<and>
     mInputByteCount_r r' = mInputByteCount_r r"
  by (auto simp: configure_r_def setBaseOts_r_def res_bind_Inr_iff split: if_splits)

lemma init_r_frame:
  assumes "init_r k r = Inr r'"
  shows "mMalicious_r r' = mMalicious_r r \<and> mStatSecParam_r r' = mStatSecParam_r r \<and>
     mInputByteCount_r r' = mInputByteCount_r r \<and> mStride (mW r') = plaintextBlkSize (mCode_r r')"
proof -
  have "mStride (matrix_resize a c M) = c" for a c M by (simp add: matrix_resize_def Let_def)
  then show ?thesis using assms by (auto simp: init_r_def Let_def split: if_splits prod.splits)
qed

lemma recv_setup_frame:
  assumes "recv_setup m fs n r = Some (Inr r0)"
  shows "mMalicious_r r0 = m \<and> mStatSecParam_r r0 = 40 \<and>
    mInputByteCount_r r0 = (fs + 7) div 8 \<and> mStride (mW r0) = plaintextBlkSize (mCode_r r0)"
proof -
  obtain r1 base r2 where "configure_r m 40 fs r = Inr r1" "setBaseOts_r base r1 = Inr r2" "init_r n r2 = Inr r0"
    using assms unfolding recv_setup_def by (auto simp: call_bind_iff split: prod.splits)
  from recv_steps_frame(1) [OF this(1)] recv_steps_frame(2) [OF this(2)] init_r_frame [OF this(3)] show ?thesis by simp
qed

lemma send_steps_frame:
  "configure_s m p fs s = Inr s' \<Longrightarrow> mMalicious_s s' = m \<and> mStatSecParam_s s' = p"
  "setBaseOts_s base v s = Inr s' \<Longrightarrow> mMalicious_s s' = mMalicious_s s \<and> mStatSecParam_s s' = mStatSecParam_s s"
  "init_s k s = Inr s' \<Longrightarrow> mMalicious_s s' = mMalicious_s s \<and> mStatSecParam_s s' = mStatSecParam_s s"
  by (auto simp: configure_s_def setBaseOts_s_def init_s_def Let_def res_bind_Inr_iff split: if_splits prod.splits)

lemma send_setup_frame:
  "send_setup m fs n v s = Some (Inr (v', s0)) \<Longrightarrow> mMalicious_s s0 = m \<and> mStatSecParam_s s0 = 40"
  unfolding send_setup_def call_bind_iff res_bind_Inr_iff option.inject
  by (clarsimp split: prod.splits simp: res_bind_Inr_iff call_bind_iff dest!: send_steps_frame)

definition recv_frame :: "prty_receiver \<Rightarrow> bool \<times> nat \<times> nat" where
  "recv_frame r = (mMalicious_r r, mStatSecParam_r r, mStride (mW r))"

definition send_frame :: "prty_sender \<Rightarrow> bool \<times> nat \<times> linear_code" where
  "send_frame s = (mMalicious_s s, mStatSecParam_s s, mCode_s s)"

lemma otCorrections_r_frame [simp]:
  "recv_frame (foldl (\<lambda>r k. otCorrection_r junk (f k) (g k) r) r ks) = recv_frame r"
  by (induction ks arbitrary: r) (simp_all add: recv_frame_def)

lemma otCorrections_s_frame' [simp]:
  "send_frame (foldl (\<lambda>s k. otCorrection_s (f k) s) s ks) = send_frame s"
  by (induction ks arbitrary: s) (simp_all add: send_frame_def otCorrection_s_def Let_def)

lemma ot_reach_frames:
  "ot_reach junk sigma fsb n (ot_initial r0 s0) x \<Longrightarrow>
    recv_frame (recv_party x) = recv_frame r0 \<and> send_frame (send_party x) = send_frame s0"
proof (induction "ot_initial r0 s0" x rule: ot_reach.induct)
  case ot_refl
  then show ?case by (simp add: ot_initial_def)
next
  case (ot_trans y z)
  have "recv_batch junk sigma fsb n i r q = Some (r', q') \<Longrightarrow> recv_frame r' = recv_frame r" for i r q r' q'
  proof -
    have "recv_frame (r\<lparr>mCorrectionIdx_r := i\<rparr>) = recv_frame r" for r i by (simp add: recv_frame_def)
    then show "recv_batch junk sigma fsb n i r q = Some (r', q') \<Longrightarrow> recv_frame r' = recv_frame r"
      by (auto simp: recv_batch_def sendCorrection_def Let_def)
  qed
  moreover have "send_batch n i s q = Some (Inr (s', q')) \<Longrightarrow> send_frame s' = send_frame s" for i s q s' q'
  proof -
    have "send_frame (s\<lparr>mCorrectionVals := C, mCorrectionIdx_s := i\<rparr>) = send_frame s" for s i C by (simp add: send_frame_def)
    then show "send_batch n i s q = Some (Inr (s', q')) \<Longrightarrow> send_frame s' = send_frame s"
      by (auto simp: send_batch_def Let_def recvCorrection_def res_bind_def split: if_splits sum.splits bind_splits)
  qed
  ultimately show ?case using ot_trans by (auto elim!: ot_step.cases)
qed

text \<open>What holds of the codes and sizes after the setups with a short code.\<close>

lemma setups_check_ready:
  assumes sets: "recv_setup True fs n (PrtyMOtReceiver a i) = Some (Inr r0)"
      "send_setup True fs n empty_bits (PrtyMOtSender b j) = Some (Inr (v, s0))"
    and start: "ot_start rows n r0 s0" "words_ok r0 sigma fsb n" "rows = roundUpTo (n + 40) 128"
    and code: "code_for fs (mCode_r r0)" "mStride (mT0 r0) = codewordBlkSize (mCode_r r0)" "mCode_s s0 = mCode_r r0" "fs \<le> 90"
    and r: "corrected r0 (word_at sigma fsb) rows n r" "mCorrectionIdx_r r = n" "recv_frame r = recv_frame r0"
    and s: "masked r0 s0 (word_at sigma fsb) rows m s" "m \<le> n" "mCorrectionIdx_s s = n" "send_frame s = send_frame s0"
  shows "check_ready r0 rows n 40 (word_at sigma fsb) r s"
proof -
  note F = recv_setup_frame [OF sets(1)] send_setup_frame [OF sets(2)]
  have blk: "codewordBlkSize (mCode_r r0) = 4" "plaintextBlkSize (mCode_r r0) = 1" "code_ok (mCode_r r0)"
    "mPlaintextU8Size (mCode_r r0) = (fs + 7) div 8" using code(1,4) by (simp_all add: code_for_def)
  have b: "(fs + 7) div 8 \<le> 16" using code(4) by linarith
  have U: "codewordU8Size (mCode_r r0) \<le> 64" using code_sizes(2) [OF blk(3)] blk(1) by simp
  have short: "short_code (mCode_r r0)" using blk b U by (simp add: short_code_def)
  have n: "n + 40 \<le> rows" using roundUpTo_ge [of 128 "n + 40"] start(3) by simp
  have W: "mStride (mT0 r0) = 4" using code(2) blk(1) by simp
  have base: "n * 4 < 2 ^ 31" "4 * rows \<le> length (mStore (mCorrectionVals s0))" "4 * rows \<le> length (mStore (mT s0))"
    using start(1) W by (simp_all add: ot_start_def Let_def)
  have "cell (mT s) k j = base_row (cell (mT0 r0) k j) (cell (mT1 r0) k j) (mChoiceBlks s ! j)"
    if "n \<le> k" "k < rows" "j < 4" for k j
    using s(1,2) that W by (auto simp: masked_def Let_def)
  moreover have "mStride (mT s) = 4" "mStride (mCorrectionVals s) = 4" "4 * rows \<le> length (mStore (mCorrectionVals s))"
    using s(1) W base by (simp_all add: masked_def Let_def)
  moreover have "\<forall>k < n. (fs + 7) div 8 \<le> length (word_at sigma fsb k)" using start(2) F(1) by (simp add: words_ok_def)
  ultimately show ?thesis
    using r s(3,4) F blk b short n W base code(3) unfolding check_ready_def
    by (simp add: recv_frame_def send_frame_def dvd_def)
qed

lemma failures_cong: "(\<And>k j. k < n \<Longrightarrow> j < 4 \<Longrightarrow> E k j = E' k j) \<Longrightarrow> failures seed S n E = failures seed S n E'"
proof -
  assume E: "\<And>k j. k < n \<Longrightarrow> j < 4 \<Longrightarrow> E k j = E' k j"
  have "row_sum seed S n l (\<lambda>k. E k j) = row_sum seed S n l (\<lambda>k. E' k j)" if "j < 4" for l j
    using E that by (intro row_sum_cong) simp
  then have "filter (\<lambda>j. row_sum seed S n l (\<lambda>k. E k j) \<noteq> 0) [0..<4] = filter (\<lambda>j. row_sum seed S n l (\<lambda>k. E' k j) \<noteq> 0) [0..<4]" for l
    by (intro filter_cong refl) (simp del: upt_rec_numeral)
  then show ?thesis unfolding failures_def by (simp only:)
qed

lemma failures_none: "failures seed S n (\<lambda>k j. 0) = []"
proof -
  have "row_sum seed S n l (\<lambda>k. 0) = 0" for l by (simp add: row_sum_def cong: if_cong)
  then show ?thesis by (simp add: failures_def del: upt_rec_numeral)
qed

text \<open>
  C20: the check of honest parties. On new parties, for field sizes of at most 90 bits, the receiver
  corrects its rows, the sender receives the corrections without applying them, and the
  check ends without an error and without a comparison that fails, for every challenge and every
  random words, whatever was on the stack of the sender.
\<close>

theorem check_honest:
  assumes "code_table fs = Some t" and "fs \<le> 90" and "0 < n" and "n < 2 ^ 26" and "n * fsb \<le> length sigma" and "fsb = (fs + 7) div 8"
  shows "\<exists>r0 v s0 r q s r' s'. recv_setup True fs n (PrtyMOtReceiver a i) = Some (Inr r0) \<and>
    send_setup True fs n empty_bits (PrtyMOtSender b j) = Some (Inr (v, s0)) \<and>
    sendCorrection n (foldl (\<lambda>r k. otCorrection_r junk k (drop (fsb * k) sigma) r) r0 [0..<n]) [] = Some (r, q) \<and>
    recvCorrection n s0 q = Some (Inr (s, [])) \<and>
    run_check stack junk junk' wordSeed seed r s = Some (Inr (r', s', []))"
proof -
  let ?N = "roundUpTo (n + 40) 128" and ?word = "word_at sigma fsb"
  have n: "7 * n < 2 ^ 31" using assms(4) by simp
  obtain r0 v s0 where sets: "recv_setup True fs n (PrtyMOtReceiver a i) = Some (Inr r0)"
    "send_setup True fs n empty_bits (PrtyMOtSender b j) = Some (Inr (v, s0))"
    and start: "ot_start ?N n r0 s0" "words_ok r0 sigma fsb n" and N: "n \<le> ?N"
    and W: "mStride (mT0 r0) = codewordBlkSize (mCode_r r0)" and code: "code_for fs (mCode_r r0)" "mCode_s s0 = mCode_r r0"
    by (rule new_parties_start [OF assms(1) n assms(5,6)], rule that)
  have four: "mStride (mT0 r0) = 4" using code(1) W assms(2) by (simp add: code_for_def)
  note S = start(1) [unfolded ot_start_def Let_def four]
  define r1 where "r1 = foldl (\<lambda>r k. otCorrection_r junk k (drop (fsb * k) sigma) r) r0 [0..<n]"
  have "corrected r0 ?word ?N 0 r0" using S by (intro corrected_start) simp
  from corrected_batch [OF this, of n junk] N start(2)
  have r1: "corrected r0 ?word ?N n r1" "mCorrectionIdx_r r1 = 0" using S by (simp_all add: r1_def)
  have size: "sendable_size (16 * (4 * n))" using assms(3,4) by (simp add: sendable_size_iff)
  have c1: "corrected r0 ?word ?N (0 + n) r1" using r1(1) by simp
  define q where "q = [blocks_bytes (rows_from 4 (\<lambda>k. correction r0 (?word k) k) 0 n)]"
  define r where "r = r1\<lparr>mCorrectionIdx_r := n\<rparr>"
  have sent: "sendCorrection n r1 [] = Some (r, q)"
    using sendCorrection_result [OF c1 r1(2), of "[]"] N four size by (simp add: q_def r_def)
  have idx: "mCorrectionIdx_s s0 = 0" "mStride (mCorrectionVals s0) = 4" "0 * 4 < (2 :: nat) ^ 31"
    and room: "4 * (0 + n) \<le> length (mStore (mCorrectionVals s0))"
    using S N by simp_all
  obtain C where recv: "recvCorrection n s0 q = Some (Inr (s0\<lparr>mCorrectionVals := C, mCorrectionIdx_s := 0 + n\<rparr>, []))"
    and C: "mStride C = 4" "length (mStore C) = length (mStore (mCorrectionVals s0))"
    and cells: "\<And>k w. 0 \<le> k \<Longrightarrow> k < 0 + n \<Longrightarrow> w < 4 \<Longrightarrow> cell C k w = correction r0 (?word k) k w"
    unfolding q_def by (rule recvCorrection_result [OF idx(1,2) _ idx(3) room size, of "\<lambda>k. correction r0 (?word k) k" "[]"])
      (use that in auto)
  define s where "s = s0\<lparr>mCorrectionVals := C, mCorrectionIdx_s := n\<rparr>"
  have m: "masked r0 s0 ?word ?N 0 s" using S C by (simp add: masked_def Let_def s_def four)
  have "recv_frame r = recv_frame r0" unfolding r_def r1_def
    using otCorrections_r_frame [of junk "\<lambda>k. k" "\<lambda>k. drop (fsb * k) sigma" r0 "[0..<n]"] by (simp add: recv_frame_def)
  then have ready: "check_ready r0 ?N n 40 ?word r s"
    by (intro setups_check_ready [OF sets start refl code(1) W code(2) assms(2) _ _ _ m])
      (use r1 in \<open>simp_all add: r_def s_def send_frame_def\<close>)
  have "row_error r0 s ?word k j = 0" if "k < n" "j < 4" for k j
  proof -
    have "checked_row s k j = cell (mT0 r0) k j XOR (choice_word (mCode_r r0) (?word k) j AND mChoiceBlks s ! j)"
      using cells [of k j] that m N by (intro checked_row_own) (simp_all add: s_def masked_def Let_def four)
    then show ?thesis by (simp add: row_error_def)
  qed
  then have "failures seed 40 n (row_error r0 s ?word) = []"
    using failures_cong [of n "row_error r0 s ?word" "\<lambda>k j. 0" seed 40] by (simp add: failures_none)
  with run_check_result [OF ready, of stack junk junk' wordSeed seed] sets sent recv show ?thesis
    unfolding r1_def s_def by fastforce
qed

theorem check_honest_witness:
  "\<exists>r0 v s0 r q s r' s'. recv_setup True 65 2 (PrtyMOtReceiver False 0) = Some (Inr r0) \<and>
    send_setup True 65 2 empty_bits (PrtyMOtSender False 0) = Some (Inr (v, s0)) \<and>
    sendCorrection 2 (foldl (\<lambda>r k. otCorrection_r [] k (drop (9 * k) (replicate 18 3)) r) r0 [0..<2]) [] = Some (r, q) \<and>
    recvCorrection 2 s0 q = Some (Inr (s, [])) \<and>
    run_check (\<lambda>i. 5) [] [] 1 2 r s = Some (Inr (r', s', []))"
  by (rule check_honest [where t = mx65by448]) (simp_all add: code_table_def)

text \<open>
  C21: the check after the OT phase of the protocol, in which the sender has applied the
  corrections, again for field sizes of at most 90 bits. It ends without an error too, but a comparison fails exactly when the
  corrections of the challenged rows, masked by the choice bits, do not cancel: the check adds the
  corrections to rows that already hold them. The failures are not reported, the throw is
  commented out.
\<close>

theorem check_after_phase:
  assumes "code_table fs = Some t" and "fs \<le> 90" and "n * fsb \<le> length sigma" and "fsb = (fs + 7) div 8" and "7 * n < 2 ^ 31"
  shows "\<exists>r0 v s0. recv_setup True fs n (PrtyMOtReceiver a i) = Some (Inr r0) \<and>
    send_setup True fs n empty_bits (PrtyMOtSender b j) = Some (Inr (v, s0)) \<and>
    (\<forall>x. ot_reach junk sigma fsb n (ot_initial r0 s0) x \<longrightarrow> ot_done n x \<longrightarrow>
      (\<exists>r' s'. run_check stack junk' junk'' wordSeed seed (recv_party x) (send_party x) = Some (Inr (r', s',
        failures seed 40 n (\<lambda>k w. cell (mCorrectionVals (send_party x)) k w AND mChoiceBlks (send_party x) ! w)))))"
proof -
  let ?N = "roundUpTo (n + 40) 128" and ?word = "word_at sigma fsb"
  obtain r0 v s0 where sets: "recv_setup True fs n (PrtyMOtReceiver a i) = Some (Inr r0)"
    "send_setup True fs n empty_bits (PrtyMOtSender b j) = Some (Inr (v, s0))"
    and start: "ot_start ?N n r0 s0" "words_ok r0 sigma fsb n" and N: "n \<le> ?N"
    and W: "mStride (mT0 r0) = codewordBlkSize (mCode_r r0)" and code: "code_for fs (mCode_r r0)" "mCode_s s0 = mCode_r r0"
    by (rule new_parties_start [OF assms(1,5,3,4)], rule that)
  have four: "mStride (mT0 r0) = 4" using code(1) W assms(2) by (simp add: code_for_def)
  have "\<exists>r' s'. run_check stack junk' junk'' wordSeed seed (recv_party x) (send_party x) = Some (Inr (r', s',
        failures seed 40 n (\<lambda>k w. cell (mCorrectionVals (send_party x)) k w AND mChoiceBlks (send_party x) ! w)))"
    if x: "ot_reach junk sigma fsb n (ot_initial r0 s0) x" and fin: "ot_done n x" for x
  proof -
    let ?r = "recv_party x" and ?s = "send_party x"
    have inv: "corrected r0 ?word ?N n ?r" "mCorrectionIdx_r ?r = n" "masked r0 s0 ?word ?N n ?s" "mCorrectionIdx_s ?s = n"
      using ot_inv_reach [OF start x] fin by (auto simp: ot_inv_def ot_done_def min_absorb1)
    have ready: "check_ready r0 ?N n 40 ?word ?r ?s"
      using inv ot_reach_frames [OF x] by (intro setups_check_ready [OF sets start refl code(1) W code(2) assms(2)]) auto
    have "row_error r0 ?s ?word k w = cell (mCorrectionVals ?s) k w AND mChoiceBlks ?s ! w" if "k < n" "w < 4" for k w
    proof -
      have "cell (mT ?s) k w = cell (mT0 r0) k w XOR (choice_word (mCode_r r0) (?word k) w AND mChoiceBlks ?s ! w)"
        using inv(3) that N by (simp add: masked_def Let_def four masked_row_def)
      then show ?thesis by (simp add: row_error_def checked_row_def xor.assoc)
    qed
    then have "failures seed 40 n (row_error r0 ?s ?word) =
        failures seed 40 n (\<lambda>k w. cell (mCorrectionVals ?s) k w AND mChoiceBlks ?s ! w)"
      by (intro failures_cong)
    with run_check_result [OF ready, of stack junk' junk'' wordSeed seed] show ?thesis by simp
  qed
  with sets show ?thesis by blast
qed

theorem check_after_phase_witness:
  "\<exists>r0 v s0. recv_setup True 90 3 (PrtyMOtReceiver False 0) = Some (Inr r0) \<and>
    send_setup True 90 3 empty_bits (PrtyMOtSender False 0) = Some (Inr (v, s0)) \<and>
    (\<forall>x. ot_reach [] (replicate 36 3) 12 3 (ot_initial r0 s0) x \<longrightarrow> ot_done 3 x \<longrightarrow>
      (\<exists>r' s'. run_check (\<lambda>i. 0) [] [] 1 2 (recv_party x) (send_party x) = Some (Inr (r', s',
        failures 2 40 3 (\<lambda>k w. cell (mCorrectionVals (send_party x)) k w AND mChoiceBlks (send_party x) ! w)))))"
  by (rule check_after_phase [where t = mx90by495]) (simp_all add: code_table_def)

end
