(* ===== verification/Eklundh.thy ===== *)
theory Eklundh
  imports Transpose
begin

text \<open>
  \<^verbatim>\<open>eklundh_transpose128\<close> of \<^verbatim>\<open>libOTe/libOTe/Tools/Tools.cpp\<close>: the transposition of 128 rows of
  one block by Eklundh's method, seven levels that exchange the off-diagonal squares of half the
  size of the level before, a pair of rows at a time and with 64-bit operations on the two halves
  of a row. It computes what \<open>sse_transpose128\<close> computes.
\<close>

subsection \<open>The routine\<close>

definition TRANSPOSE_MASKS128 :: "(u64 \<times> u64) list" where
  "TRANSPOSE_MASKS128 =
     [(0x0000000000000000, 0xFFFFFFFFFFFFFFFF),
      (0x00000000FFFFFFFF, 0x00000000FFFFFFFF),
      (0x0000FFFF0000FFFF, 0x0000FFFF0000FFFF),
      (0x00FF00FF00FF00FF, 0x00FF00FF00FF00FF),
      (0x0F0F0F0F0F0F0F0F, 0x0F0F0F0F0F0F0F0F),
      (0x3333333333333333, 0x3333333333333333),
      (0x5555555555555555, 0x5555555555555555)]"

text \<open>A pair of rows on the levels of \<^verbatim>\<open>width < 64\<close>, and on the first level.\<close>

definition eklundh_narrow :: "nat \<Rightarrow> u64 \<Rightarrow> u64 \<Rightarrow> block \<Rightarrow> block \<Rightarrow> block \<times> block" where
  "eklundh_narrow width mask1 mask2 b bb =
     (let t1 = lane64 b 0; t2 = lane64 b 1; tt1 = lane64 bb 0; tt2 = lane64 bb 1;
          inv_mask1 = NOT mask1; inv_mask2 = NOT mask2;
          d1 = (t1 AND mask1) XOR push_bit width (tt1 AND mask1);
          d2 = (t2 AND mask2) XOR push_bit width (tt2 AND mask2) XOR drop_bit (64 - width) (tt1 AND mask1);
          dd1 = (tt1 AND inv_mask1) XOR drop_bit width (t1 AND inv_mask1)
                  XOR push_bit (64 - width) (t2 AND inv_mask2);
          dd2 = (tt2 AND inv_mask2) XOR drop_bit width (t2 AND inv_mask2)
      in (lanes64 d1 d2, lanes64 dd1 dd2))"

definition eklundh_wide :: "nat \<Rightarrow> u64 \<Rightarrow> u64 \<Rightarrow> block \<Rightarrow> block \<Rightarrow> block \<times> block" where
  "eklundh_wide width mask1 mask2 b bb =
     (let d1 = lane64 b 0; t2 = lane64 b 1; dd1 = lane64 bb 0; dd2 = lane64 bb 1;
          inv_mask1 = NOT mask1; inv_mask2 = NOT mask2;
          d1 = d1 AND mask1;
          d2 = (t2 AND mask2) XOR drop_bit (64 - width) (dd1 AND mask1);
          dd1 = (dd1 AND inv_mask1) XOR push_bit (64 - width) (t2 AND inv_mask2);
          dd2 = dd2 AND inv_mask2
      in (lanes64 d1 d2, lanes64 dd1 dd2))"

definition eklundh_pair ::
  "(block \<Rightarrow> block \<Rightarrow> block \<times> block) \<Rightarrow> nat \<Rightarrow> nat \<Rightarrow> block list \<Rightarrow> nat \<Rightarrow> block list" where
  "eklundh_pair f width j M k =
     (let i1 = k + 2 * width * j; i2 = k + width + 2 * width * j; (d, dd) = f (M ! i1) (M ! i2)
      in M[i1 := d, i2 := dd])"

definition eklundh_level :: "block list \<times> nat \<times> nat \<Rightarrow> nat \<Rightarrow> block list \<times> nat \<times> nat" where
  "eklundh_level = (\<lambda>(M, nswaps, width) i.
     let (mask2, mask1) = TRANSPOSE_MASKS128 ! i;
         f = (if width < 64 then eklundh_narrow else eklundh_wide) width mask1 mask2;
         M = foldl (\<lambda>M j. foldl (eklundh_pair f width j) M [0..<width]) M [0..<nswaps]
     in (M, nswaps * 2, width div 2))"

definition eklundh_transpose128 :: "block list \<Rightarrow> block list" where
  "eklundh_transpose128 inOut = fst (foldl eklundh_level (inOut, 1, 64) [0..<7])"

subsection \<open>A pair of rows\<close>

text \<open>
  A function on a pair of rows exchanges the squares of side \<open>w\<close>: where the upper row has an odd
  square it takes the even one of the lower row, and the other way round.
\<close>

definition exchanges :: "nat \<Rightarrow> (block \<Rightarrow> block \<Rightarrow> block \<times> block) \<Rightarrow> bool" where
  "exchanges w f \<longleftrightarrow> (\<forall>b bb. \<forall>c < 128.
     (bit (fst (f b bb)) c \<longleftrightarrow> (if even (c div w) then bit b c else bit bb (c - w))) \<and>
     (bit (snd (f b bb)) c \<longleftrightarrow> (if even (c div w) then bit b (c + w) else bit bb c)))"

definition stripes :: "nat \<Rightarrow> u64 \<Rightarrow> bool" where
  "stripes w m \<longleftrightarrow> (\<forall>c < 64. bit m c \<longleftrightarrow> even (c div w))"

lemma even_next_square: "0 < w \<Longrightarrow> even ((i + w) div w) \<longleftrightarrow> odd (i div w :: nat)"
  using div_add_self2 [of w i] by simp

lemma stripe_parity:
  assumes "w dvd 32" "0 < w"
  shows "even ((64 + c) div w) \<longleftrightarrow> even (c div w :: nat)"
    and "even ((c + w) div w) \<longleftrightarrow> odd (c div w)"
    and "w \<le> c \<Longrightarrow> even ((c - w) div w) \<longleftrightarrow> odd (c div w)"
    and "odd (c div w) \<Longrightarrow> w \<le> c"
    and "k < w \<Longrightarrow> odd ((64 - w + k) div w)"
    and "64 - w \<le> c \<Longrightarrow> c < 64 \<Longrightarrow> odd (c div w)"
    and "even (c div w) \<Longrightarrow> c < 64 \<Longrightarrow> c + w < 64"
proof -
  from assms(1) obtain q where q: "32 = w * q" ..
  have wq: "w \<le> 32" using assms(1) by (auto dest: dvd_imp_le)
  show e: "even ((64 + c) div w) \<longleftrightarrow> even (c div w)" for c
  proof -
    have "64 + c = (2 * q) * w + c" using q by (simp add: mult.commute)
    then have "(64 + c) div w = 2 * q + c div w" using assms(2) by (simp only: div_mult_self3)
    then show ?thesis by simp
  qed
  show "even ((c + w) div w) \<longleftrightarrow> odd (c div w)" by (rule even_next_square [OF assms(2)])
  show m: "even ((c - w) div w) \<longleftrightarrow> odd (c div w)" if "w \<le> c" for c
    using that assms(2) by (simp add: le_div_geq)
  show "odd (c div w) \<Longrightarrow> w \<le> c" by (rule ccontr) simp
  show top: "odd ((64 - w + k) div w)" if "k < w" for k
  proof -
    have "(64 + k) div w = (64 + k - w) div w + 1"
      using assms(2) wq by (simp add: le_div_geq)
    moreover have "64 + k - w = 64 - w + k" using wq by simp
    ultimately show ?thesis using e [of k] that by simp
  qed
  show last: "odd (c div w)" if "64 - w \<le> c" "c < 64" for c
    using top [of "c - (64 - w)"] that by simp
  show "c + w < 64" if "even (c div w)" "c < 64"
    using last [of c] that by (cases "64 - w \<le> c") auto
qed

lemma eklundh_narrow_exchanges:
  assumes "w dvd 32" "0 < w" "stripes w m"
  shows "exchanges w (eklundh_narrow w m m)"
  unfolding exchanges_def
proof (intro allI impI)
  fix b bb :: block and c :: nat
  assume c: "c < 128"
  note P = stripe_parity [OF assms(1,2)]
  have w: "w \<le> 32" using assms by (auto dest: dvd_imp_le)
  have m: "k < 64 \<Longrightarrow> bit m k \<longleftrightarrow> even (k div w)" for k using assms(3) by (simp add: stripes_def)
  show "(bit (fst (eklundh_narrow w m m b bb)) c \<longleftrightarrow> (if even (c div w) then bit b c else bit bb (c - w))) \<and>
     (bit (snd (eklundh_narrow w m m b bb)) c \<longleftrightarrow> (if even (c div w) then bit b (c + w) else bit bb c))"
  proof (cases "c < 64")
    case True
    have 1: "\<not> (64 - w \<le> c \<and> bit (NOT m) (c - (64 - w)))"
      using m [of "c - (64 - w)"] True w by (auto simp: bit_simps)
    show ?thesis
      using True m [of c] m [of "c - w"] m [of "c + w"] P(2) [of c] P(3) [of c] P(4) [of c] P(7) [of c] w 1
      by (auto simp: eklundh_narrow_def Let_def bit_lanes64 bit_lane64 bit_simps ac_simps)
  next
    case False
    define d where "d = c - 64"
    have d: "c = 64 + d" "d < 64" using False c by (simp_all add: d_def)
    have 1: "\<not> (d < w \<and> bit m (64 - w + d))"
    proof
      assume a: "d < w \<and> bit m (64 - w + d)"
      then have "64 - w + d < 64" using w by linarith
      with a show False using m [of "64 - w + d"] P(5) [of d] by blast
    qed
    have 2: "64 + d - w = 64 + (d - w)" if "w \<le> d" using that by simp
    show ?thesis
      using d m [of d] m [of "d - w"] m [of "d + w"] P(1) [of d] P(2) [of d] P(3) [of d] P(4) [of d] P(7) [of d] w 1 2
      by (auto simp: eklundh_narrow_def Let_def bit_lanes64 bit_lane64 bit_simps ac_simps)
  qed
qed

lemma eklundh_wide_exchanges: "exchanges 64 (eklundh_wide 64 (- 1) 0)"
  unfolding exchanges_def
proof (intro allI impI)
  fix b bb :: block and c :: nat
  assume c: "c < 128"
  show "(bit (fst (eklundh_wide 64 (- 1) 0 b bb)) c \<longleftrightarrow> (if even (c div 64) then bit b c else bit bb (c - 64))) \<and>
     (bit (snd (eklundh_wide 64 (- 1) 0 b bb)) c \<longleftrightarrow> (if even (c div 64) then bit b (c + 64) else bit bb c))"
  proof (cases "c < 64")
    case True
    then show ?thesis by (auto simp: eklundh_wide_def Let_def bit_lanes64 bit_lane64 bit_simps ac_simps)
  next
    case False
    then have "c div 64 = 1" using c by (simp add: div_if)
    then show ?thesis using False c
      by (auto simp: eklundh_wide_def Let_def bit_lanes64 bit_lane64 bit_simps ac_simps)
  qed
qed

lemma first_level_exchanges: "exchanges 64 (eklundh_wide 64 0xFFFFFFFFFFFFFFFF 0)"
proof -
  have "(0xFFFFFFFFFFFFFFFF :: u64) = - 1" by simp
  then show ?thesis using eklundh_wide_exchanges by (simp only:)
qed

lemma stripes_all:
  assumes "\<forall>c \<in> set [0..<64]. bit m c \<longleftrightarrow> even (c div w)"
  shows "stripes w m"
  using assms by (auto simp: stripes_def)

lemma level_masks:
  "stripes 32 0x00000000FFFFFFFF" "stripes 16 0x0000FFFF0000FFFF" "stripes 8 0x00FF00FF00FF00FF"
  "stripes 4 0x0F0F0F0F0F0F0F0F" "stripes 2 0x3333333333333333" "stripes 1 0x5555555555555555"
  by (rule stripes_all, code_simp)+

subsection \<open>A level\<close>

text \<open>The upper row of the pair that a row belongs to, and the bit that a level puts into a row.\<close>

definition upper_row :: "nat \<Rightarrow> nat \<Rightarrow> nat" where
  "upper_row w r = (if even (r div w) then r else r - w)"

definition exchanged_bit :: "nat \<Rightarrow> block list \<Rightarrow> nat \<Rightarrow> nat \<Rightarrow> bool" where
  "exchanged_bit w M r c \<longleftrightarrow>
     (if even (r div w) \<longleftrightarrow> even (c div w) then bit (M ! r) c
      else if even (r div w) then bit (M ! (r + w)) (c - w) else bit (M ! (r - w)) (c + w))"

definition exchanged :: "nat \<Rightarrow> nat set \<Rightarrow> block list \<Rightarrow> block list \<Rightarrow> bool" where
  "exchanged w P M M' \<longleftrightarrow> length M = 128 \<and> length M' = 128 \<and>
     (\<forall>r < 128. \<forall>c < 128. bit (M' ! r) c \<longleftrightarrow>
       (if upper_row w r \<in> P then exchanged_bit w M r c else bit (M ! r) c))"

lemma upper_row_iff:
  assumes "even (i div w)" "0 < w"
  shows "upper_row w r = i \<longleftrightarrow> r = i \<or> r = i + w"
proof -
  have "odd (r div w) \<Longrightarrow> w \<le> r" by (rule ccontr) simp
  then show ?thesis using assms by (auto simp: upper_row_def even_next_square)
qed

lemma exchanged_pair:
  assumes f: "exchanges w f" and M: "exchanged w P M M'"
    and k: "k < w" "k + w + 2 * w * j < 128" "k + 2 * w * j \<notin> P"
  shows "exchanged w (insert (k + 2 * w * j) P) M (eklundh_pair f w j M' k)"
proof -
  define i where "i = k + 2 * w * j"
  have w: "0 < w" using k by simp
  have "i div w = 2 * j" using k(1) w by (simp add: i_def mult.assoc mult.commute [of 2] mult.left_commute [of 2])
  then have ev: "even (i div w)" "odd ((i + w) div w)" using w by (simp_all add: even_next_square)
  have i: "i < 128" "i + w < 128" "i \<notin> P" using k by (simp_all add: i_def)
  have u: "upper_row w i = i" "upper_row w (i + w) = i" using upper_row_iff [OF ev(1) w] by simp_all
  obtain d dd where fd: "f (M' ! i) (M' ! (i + w)) = (d, dd)" by fastforce
  have e: "eklundh_pair f w j M' k = M'[i := d, i + w := dd]"
    using fd by (simp add: eklundh_pair_def i_def algebra_simps)
  have old: "c < 128 \<Longrightarrow> bit (M' ! i) c \<longleftrightarrow> bit (M ! i) c" "c < 128 \<Longrightarrow> bit (M' ! (i + w)) c \<longleftrightarrow> bit (M ! (i + w)) c" for c
    using M i u by (simp_all add: exchanged_def)
  have b: "bit (M'[i := d, i + w := dd] ! r) c \<longleftrightarrow>
      (if upper_row w r \<in> insert i P then exchanged_bit w M r c else bit (M ! r) c)"
    if rc: "r < 128" "c < 128" for r c
  proof -
    have F: "bit d c \<longleftrightarrow> (if even (c div w) then bit (M' ! i) c else bit (M' ! (i + w)) (c - w))"
      "bit dd c \<longleftrightarrow> (if even (c div w) then bit (M' ! i) (c + w) else bit (M' ! (i + w)) c)"
      using f rc(2) fd unfolding exchanges_def by (metis fst_conv, metis snd_conv)
    have lt: "bit (M' ! i) (c + w) \<longleftrightarrow> bit (M ! i) (c + w)"
      using old(1) [of "c + w"] bit_imp_le_length [of "M' ! i" "c + w"] bit_imp_le_length [of "M ! i" "c + w"] by auto
    consider "r = i" | "r = i + w" | "r \<noteq> i" "r \<noteq> i + w" by blast
    then show ?thesis
    proof cases
      case 1
      then show ?thesis using rc i ev u F old M w by (simp add: exchanged_def exchanged_bit_def)
    next
      case 2
      then show ?thesis using rc i ev u F old lt M w by (simp add: exchanged_def exchanged_bit_def)
    next
      case 3
      then have "upper_row w r \<noteq> i" using upper_row_iff [OF ev(1) w] by blast
      then show ?thesis using 3 rc M by (simp add: exchanged_def)
    qed
  qed
  have "length M = 128" "length M' = 128" using M by (simp_all add: exchanged_def)
  with b show ?thesis unfolding e exchanged_def i_def [symmetric] by simp
qed

lemma exchanged_refl: "length M = 128 \<Longrightarrow> exchanged w {} M M"
  by (simp add: exchanged_def)

lemma exchanged_block:
  assumes f: "exchanges w f" and M: "exchanged w {i. i div (2 * w) < j} M M'"
    and j: "0 < w" "2 * w * Suc j \<le> 128"
  shows "exchanged w {i. i div (2 * w) < Suc j} M (foldl (eklundh_pair f w j) M' [0..<w])"
proof -
  have "exchanged w ({i. i div (2 * w) < j} \<union> {2 * w * j..<2 * w * j + n}) M (foldl (eklundh_pair f w j) M' [0..<n])"
    if "n \<le> w" for n
    using that
  proof (induction n)
    case 0
    then show ?case using M by simp
  next
    case (Suc n)
    let ?P = "{i. i div (2 * w) < j} \<union> {2 * w * j..<2 * w * j + n}"
    have d: "(n + 2 * w * j) div (2 * w) = j" using Suc.prems by simp
    have "exchanged w (insert (n + 2 * w * j) ?P) M (eklundh_pair f w j (foldl (eklundh_pair f w j) M' [0..<n]) n)"
    proof (rule exchanged_pair [OF f Suc.IH])
      show "n + w + 2 * w * j < 128" using Suc.prems j by simp
      show "n + 2 * w * j \<notin> ?P" using d by simp
    qed (use Suc.prems in simp_all)
    moreover have "insert (n + 2 * w * j) ?P = {i. i div (2 * w) < j} \<union> {2 * w * j..<2 * w * j + Suc n}" by auto
    ultimately show ?case by simp
  qed
  note this [of w]
  moreover have "upper_row w r \<in> {i. i div (2 * w) < j} \<union> {2 * w * j..<2 * w * j + w} \<longleftrightarrow>
      upper_row w r \<in> {i. i div (2 * w) < Suc j}" for r
  proof -
    define i where "i = upper_row w r"
    have "odd (r div w) \<Longrightarrow> w \<le> r" by (rule ccontr) simp
    then have ev: "even (i div w)" using j(1) by (auto simp: i_def upper_row_def le_div_geq)
    have "i div (2 * w) = i div w div 2" by (metis div_mult2_eq mult.commute)
    then have "i div w = 2 * (i div (2 * w))" using ev by simp
    moreover have "i = w * (i div w) + i mod w" "i mod w < w" using j(1) by simp_all
    ultimately have i: "i = 2 * w * (i div (2 * w)) + i mod w" "i mod w < w" by (simp_all add: ac_simps)
    have "i div (2 * w) = j \<longleftrightarrow> i \<in> {2 * w * j..<2 * w * j + w}"
    proof
      assume "i div (2 * w) = j"
      then show "i \<in> {2 * w * j..<2 * w * j + w}" using i by auto
    next
      assume a: "i \<in> {2 * w * j..<2 * w * j + w}"
      show "i div (2 * w) = j"
      proof (rule div_nat_eqI)
        show "2 * w * j \<le> i" using a by simp
        show "i < 2 * w * Suc j" using a by simp
      qed
    qed
    then show ?thesis unfolding i_def [symmetric] by auto
  qed
  ultimately show ?thesis by (simp add: exchanged_def)
qed

lemma exchanged_level:
  assumes f: "exchanges w f" and "0 < w" "2 * w * n = 128" "length M = 128"
  shows "exchanged w UNIV M (foldl (\<lambda>M j. foldl (eklundh_pair f w j) M [0..<w]) M [0..<n])"
proof -
  have "exchanged w {i. i div (2 * w) < j} M (foldl (\<lambda>M j. foldl (eklundh_pair f w j) M [0..<w]) M [0..<j])"
    if "j \<le> n" for j
    using that
  proof (induction j)
    case 0
    then show ?case using assms by (simp add: exchanged_refl)
  next
    case (Suc j)
    have "2 * w * Suc j \<le> 2 * w * n" using Suc.prems by (rule mult_le_mono2)
    then have le: "2 * w * Suc j \<le> 128" unfolding assms(3) .
    have "exchanged w {i. i div (2 * w) < j} M (foldl (\<lambda>M j. foldl (eklundh_pair f w j) M [0..<w]) M [0..<j])"
      using Suc by simp
    from exchanged_block [OF f this assms(2) le] show ?case by simp
  qed
  from this [of n] have e: "exchanged w {i. i div (2 * w) < n} M (foldl (\<lambda>M j. foldl (eklundh_pair f w j) M [0..<w]) M [0..<n])"
    by simp
  have "upper_row w r div (2 * w) < n" if "r < 128" for r
  proof (rule less_mult_imp_div_less)
    have "upper_row w r \<le> r" by (simp add: upper_row_def)
    then have "upper_row w r < 128" using that by simp
    then show "upper_row w r < n * (2 * w)" using assms(3) by (simp add: ac_simps)
  qed
  with e show ?thesis by (simp add: exchanged_def)
qed

subsection \<open>The seven levels\<close>

text \<open>
  After the levels down to width \<open>v\<close> an entry is that of the first matrix whose row and column
  have exchanged their parts above \<open>v\<close>.
\<close>

definition turned_index :: "nat \<Rightarrow> nat \<Rightarrow> nat \<Rightarrow> nat" where
  "turned_index v r c = c div v * v + r mod v"

definition turned :: "nat \<Rightarrow> block list \<Rightarrow> block list \<Rightarrow> bool" where
  "turned v M M' \<longleftrightarrow> length M = 128 \<and> length M' = 128 \<and>
     (\<forall>r < 128. \<forall>c < 128. bit (M' ! r) c \<longleftrightarrow> bit (M ! turned_index v r c) (turned_index v c r))"

lemma split_index:
  assumes "0 < w"
  obtains a p x where "c = 2 * w * a + w * p + x" "p = 0 \<or> p = Suc 0" "x < (w :: nat)" "c div w = 2 * a + p"
proof -
  have "c div w = 2 * (c div w div 2) + c div w mod 2" by simp
  moreover have "c = w * (c div w) + c mod w" by simp
  ultimately have "c = w * (2 * (c div w div 2) + c div w mod 2) + c mod w" by simp
  then have "c = 2 * w * (c div w div 2) + w * (c div w mod 2) + c mod w" by (simp only: algebra_simps)
  moreover have "c div w mod 2 = 0 \<or> c div w mod 2 = Suc 0" by auto
  ultimately show thesis using that assms by simp
qed

lemma turned_index_split:
  assumes "x < w" "y < (w :: nat)" "p = 0 \<or> p = Suc 0" "q = 0 \<or> q = Suc 0"
  shows "turned_index w (2 * w * b + w * q + y) (2 * w * a + w * p + x) = 2 * w * a + w * p + y"
    and "turned_index (2 * w) (2 * w * b + w * q + y) (2 * w * a + w * p + x) = 2 * w * a + w * q + y"
proof -
  have "2 * w * a + w * p + x = x + w * (2 * a + p)" "2 * w * b + w * q + y = y + w * (2 * b + q)"
    by (simp_all add: algebra_simps)
  then have "(2 * w * a + w * p + x) div w = 2 * a + p" "(2 * w * b + w * q + y) mod w = y"
    using assms by simp_all
  then show "turned_index w (2 * w * b + w * q + y) (2 * w * a + w * p + x) = 2 * w * a + w * p + y"
    by (simp add: turned_index_def algebra_simps)
  have "w * p + x < 2 * w" "w * q + y < 2 * w" using assms by auto
  then have "(2 * w * a + w * p + x) div (2 * w) = a" "(2 * w * b + w * q + y) mod (2 * w) = w * q + y"
    by (simp_all only: add.assoc div_mult_self4 mod_mult_self4) auto
  then show "turned_index (2 * w) (2 * w * b + w * q + y) (2 * w * a + w * p + x) = 2 * w * a + w * q + y"
    by (simp add: turned_index_def)
qed

lemma square_room:
  assumes "2 * w * b + y < 128" "y < w" "2 * w * n = (128 :: nat)"
  shows "2 * w * b + w + y < 128"
proof -
  have "2 * w * b < 2 * w * n" unfolding assms(3) using assms(1) by linarith
  then have "b < n" unfolding mult_less_cancel1 by (rule conjunct2)
  then have "2 * w * Suc b \<le> 2 * w * n" by (intro mult_le_mono2) simp
  then show ?thesis using assms by simp
qed

lemma turned_step:
  assumes T: "turned (2 * w) M0 M" and E: "exchanged w UNIV M M'" and n: "2 * w * n = 128" "0 < w"
  shows "turned w M0 M'"
proof -
  have "bit (M' ! r) c \<longleftrightarrow> bit (M0 ! turned_index w r c) (turned_index w c r)" if rc: "r < 128" "c < 128" for r c
  proof -
    obtain b q y where r: "r = 2 * w * b + w * q + y" "q = 0 \<or> q = Suc 0" "y < w" "r div w = 2 * b + q"
      by (rule split_index [OF n(2), of r])
    obtain a p x where c: "c = 2 * w * a + w * p + x" "p = 0 \<or> p = Suc 0" "x < w" "c div w = 2 * a + p"
      by (rule split_index [OF n(2), of c])
    have M': "bit (M' ! r) c \<longleftrightarrow> exchanged_bit w M r c" using E rc by (simp add: exchanged_def)
    have M: "bit (M ! r') c' \<longleftrightarrow> bit (M0 ! turned_index (2 * w) r' c') (turned_index (2 * w) c' r')"
      if "r' < 128" "c' < 128" for r' c'
      using T that by (simp add: turned_def)
    have w0: "0 = Suc 0 \<or> 0 = (0 :: nat)" by simp
    have R: "bit (M ! (2 * w * b + w * p + y)) (2 * w * a + w * q + x) \<longleftrightarrow>
        bit (M0 ! (2 * w * a + w * p + y)) (2 * w * b + w * q + x)"
      if "2 * w * b + w * p + y < 128" "2 * w * a + w * q + x < 128"
      using M [OF that] turned_index_split(2) [OF c(3) r(3) r(2) c(2), of b a]
        turned_index_split(2) [OF r(3) c(3) c(2) r(2), of a b] by simp
    have room: "2 * w * b + w * p + y < 128" "2 * w * a + w * q + x < 128"
      using r c rc square_room [OF _ r(3) n(1), of b] square_room [OF _ c(3) n(1), of a] by auto
    have "exchanged_bit w M r c \<longleftrightarrow> bit (M ! (2 * w * b + w * p + y)) (2 * w * a + w * q + x)"
    proof -
      consider "q = p" | "q = 0" "p = Suc 0" | "q = Suc 0" "p = 0" using r(2) c(2) by blast
      then show ?thesis
      proof cases
        case 1
        then have "even (r div w) \<longleftrightarrow> even (c div w)" using r(4) c(4) by simp
        then show ?thesis using 1 r(1) c(1) by (simp add: exchanged_bit_def)
      next
        case 2
        then have "r + w = 2 * w * b + w * p + y" "c - w = 2 * w * a + w * q + x"
          and "even (r div w)" "odd (c div w)" using r(1,4) c(1,4) by simp_all
        then show ?thesis by (simp only: exchanged_bit_def) simp
      next
        case 3
        then have "r - w = 2 * w * b + w * p + y" "c + w = 2 * w * a + w * q + x"
          and "odd (r div w)" "even (c div w)" using r(1,4) c(1,4) by simp_all
        then show ?thesis by (simp only: exchanged_bit_def) simp
      qed
    qed
    also have "\<dots> \<longleftrightarrow> bit (M0 ! turned_index w r c) (turned_index w c r)"
      using R [OF room] turned_index_split(1) [OF c(3) r(3) c(2) r(2), of b a]
        turned_index_split(1) [OF r(3) c(3) r(2) c(2), of a b] r(1) c(1) by simp
    finally show ?thesis using M' by simp
  qed
  then show ?thesis using T E by (simp add: turned_def exchanged_def)
qed

lemma eklundh_level_turned:
  assumes "turned (2 * w) M0 M" "2 * w * n = 128" "TRANSPOSE_MASKS128 ! i = (m, m)" "stripes w m" "w dvd 32" "0 < w"
  shows "\<exists>M'. eklundh_level (M, n, w) i = (M', n * 2, w div 2) \<and> turned w M0 M'"
proof -
  have "w \<le> 32" using assms(5) by (auto dest: dvd_imp_le)
  then have l: "w < 64" by simp
  have "length M = 128" using assms(1) by (simp add: turned_def)
  from turned_step [OF assms(1) exchanged_level [OF eklundh_narrow_exchanges [OF assms(5,6,4)] assms(6,2) this] assms(2,6)]
  show ?thesis using l assms(3) by (simp add: eklundh_level_def)
qed

lemma eklundh_level_first:
  assumes "length M = 128"
  shows "\<exists>M'. eklundh_level (M, 1, 64) 0 = (M', 2, 32) \<and> turned 64 M M'"
proof -
  have "turned (2 * 64) M M" using assms by (simp add: turned_def turned_index_def)
  from turned_step [OF this exchanged_level [OF first_level_exchanges _ _ assms, of 1], of 1]
  show ?thesis by (simp add: eklundh_level_def TRANSPOSE_MASKS128_def)
qed

text \<open>
  C33: Eklundh's transposition and the one by squares of 16 x 16 bits compute the same matrix from
  every 128 rows.
\<close>

theorem eklundh_is_sse_transpose:
  assumes "length inOut = 128"
  shows "eklundh_transpose128 inOut = sse_transpose128 inOut"
proof -
  note L = eklundh_level_turned [where ?M0.0 = inOut, unfolded TRANSPOSE_MASKS128_def]
  obtain M1 where 1: "eklundh_level (inOut, 1, 64) 0 = (M1, 2, 32)" "turned 64 inOut M1"
    using eklundh_level_first [OF assms] by blast
  obtain M2 where 2: "eklundh_level (M1, 2, 32) 1 = (M2, 4, 16)" "turned 32 inOut M2"
    using L [of 32 M1 2 1] 1(2) level_masks by auto
  obtain M3 where 3: "eklundh_level (M2, 4, 16) 2 = (M3, 8, 8)" "turned 16 inOut M3"
    using L [of 16 M2 4 2] 2(2) level_masks by auto
  obtain M4 where 4: "eklundh_level (M3, 8, 8) 3 = (M4, 16, 4)" "turned 8 inOut M4"
    using L [of 8 M3 8 3] 3(2) level_masks by auto
  obtain M5 where 5: "eklundh_level (M4, 16, 4) 4 = (M5, 32, 2)" "turned 4 inOut M5"
    using L [of 4 M4 16 4] 4(2) level_masks by auto
  obtain M6 where 6: "eklundh_level (M5, 32, 2) 5 = (M6, 64, 1)" "turned 2 inOut M6"
    using L [of 2 M5 32 5] 5(2) level_masks by auto
  obtain M7 where 7: "eklundh_level (M6, 64, 1) 6 = (M7, 128, 0)" "turned 1 inOut M7"
    using L [of 1 M6 64 6] 6(2) level_masks by auto
  have "[0..<7] = [0, 1, 2, 3, 4, 5, 6 :: nat]" by (simp add: upt_rec)
  then have e: "eklundh_transpose128 inOut = M7"
    using 1 2 3 4 5 6 7 by (simp add: eklundh_transpose128_def del: One_nat_def)
  show ?thesis
    unfolding e
  proof (rule nth_equalityI)
    show "length M7 = length (sse_transpose128 inOut)"
      using 7(2) sse_transpose128_bits(1) [OF assms] by (simp add: turned_def)
  next
    fix r assume "r < length M7"
    then have r: "r < 128" using 7(2) by (simp add: turned_def)
    show "M7 ! r = sse_transpose128 inOut ! r"
    proof (rule bit_word_eqI)
      fix c assume "c < LENGTH(128)"
      then have c: "c < 128" by simp
      have "bit (M7 ! r) c \<longleftrightarrow> bit (inOut ! c) r"
        using 7(2) r c by (simp add: turned_def turned_index_def)
      then show "bit (M7 ! r) c \<longleftrightarrow> bit (sse_transpose128 inOut ! r) c"
        using sse_transpose128_bits(2) [OF assms r c] by simp
    qed
  qed
qed

theorem eklundh_is_sse_transpose_witness:
  "length (map of_nat [0..<128] :: block list) = 128 \<and>
   bit (eklundh_transpose128 (map of_nat [0..<128]) ! 0) 5 \<and> \<not> bit (eklundh_transpose128 (map of_nat [0..<128]) ! 0) 6"
proof -
  let ?M = "map of_nat [0..<128] :: block list"
  have l: "length ?M = 128" by simp
  have "bit (?M ! 5) 0" "\<not> bit (?M ! 6) 0" by (simp_all add: bit_0)
  then show ?thesis
    unfolding eklundh_is_sse_transpose [OF l] using sse_transpose128_bits(2) [OF l, of 0 5] sse_transpose128_bits(2) [OF l, of 0 6]
    by simp
qed

end
