(* ===== verification/Transpose_View.thy ===== *)
theory Transpose_View
  imports Transpose
begin

text \<open>
  The transposition of a bit matrix of any size, \<^verbatim>\<open>sse_transpose\<close> of
  \<^verbatim>\<open>libOTe/libOTe/Tools/Tools.cpp\<close>, on two views of bytes (\<^verbatim>\<open>MatrixView<u8>\<close>): squares of 64
  rows of the output and 16 columns as in the fixed-size routines, then the rows that are left
  over, a byte of the input at a time, and then the columns that are left over. The memory of the
  two views is disjoint. Addresses are indices into the bytes of a view; a pointer that is stepped
  below the first row is not used any more, so that the subtraction may stop at zero.
\<close>

subsection \<open>Views\<close>

record u8_view =
  vData :: "u8 list"
  vStride :: nat

definition view_rows :: "u8_view \<Rightarrow> nat" where
  "view_rows v = (if vStride v \<noteq> 0 then length (vData v) div vStride v else 0)"

text \<open>What the constructor with a number of rows makes.\<close>

definition view_ok :: "u8_view \<Rightarrow> bool" where
  "view_ok v \<longleftrightarrow> length (vData v) = view_rows v * vStride v"

subsection \<open>The routine\<close>

definition store_u16 :: "u8 list \<Rightarrow> nat \<Rightarrow> u16 \<Rightarrow> u8 list" where
  "store_u16 out p v = out[p := ucast v, p + 1 := ucast (drop_bit 8 v)]"

definition store_u8 :: "u8 list \<Rightarrow> nat \<Rightarrow> u16 \<Rightarrow> u8 list" where
  "store_u8 out p v = out[p := ucast v]"

text \<open>\<^verbatim>\<open>t.bytes[b]\<close>: byte \<open>b\<close> after the starts of \<open>n\<close> rows, the others zero.\<close>

definition load_bytes :: "u8 list \<Rightarrow> nat \<Rightarrow> nat \<Rightarrow> nat \<Rightarrow> nat \<Rightarrow> block" where
  "load_bytes inn start step n b =
     bytes_block (map (\<lambda>i. inn ! (start + i * step + b)) [0..<n] @ replicate (16 - n) 0)"

text \<open>The top bits of the bytes, eight times, written from the last of eight rows upwards.\<close>

definition write_rows8 ::
  "(u8 list \<Rightarrow> nat \<Rightarrow> u16 \<Rightarrow> u8 list) \<Rightarrow> nat \<Rightarrow> nat list \<Rightarrow> block list \<Rightarrow> u8 list \<Rightarrow> u8 list" where
  "write_rows8 st stride ps blks out =
     fst (foldl (\<lambda>(out, ps, blks) j.
         (foldl (\<lambda>out (p, b). st out p (mm_movemask_epi8 b)) out (zip ps blks),
          map (\<lambda>p. p - stride) ps, map (\<lambda>b. mm_slli_epi64 b 1) blks))
       (out, ps, blks) [0..<8])"

definition write_rows ::
  "(u8 list \<Rightarrow> nat \<Rightarrow> u16 \<Rightarrow> u8 list) \<Rightarrow> nat \<Rightarrow> nat \<Rightarrow> nat \<Rightarrow> block \<Rightarrow> u8 list \<Rightarrow> u8 list" where
  "write_rows st stride rem p blk out =
     fst (foldl (\<lambda>(out, p, blk) j. (st out p (mm_movemask_epi8 blk), p - stride, mm_slli_epi64 blk 1))
       (out, p, blk) [0..<rem])"

text \<open>The four loops: the squares, the rows left over, and the columns left over of both.\<close>

definition square_step :: "u8 list \<Rightarrow> nat \<Rightarrow> nat \<Rightarrow> nat \<Rightarrow> u8 list \<Rightarrow> nat \<Rightarrow> u8 list" where
  "square_step inn step stride h out w =
     (let start = h * 8 + w * (16 * step);
          blks = map (load_bytes inn start step 16) [0..<8];
          ps = map (\<lambda>b. 7 * stride + (8 * h + b) * (8 * stride) + w * 2) [0..<8]
      in write_rows8 store_u16 stride ps blks out)"

definition rows_step :: "u8 list \<Rightarrow> nat \<Rightarrow> nat \<Rightarrow> nat \<Rightarrow> nat \<Rightarrow> nat \<Rightarrow> u8 list \<Rightarrow> nat \<Rightarrow> u8 list" where
  "rows_step inn step stride subBlockHight skip hh out w =
     (let rem = 8 - skip;
          start = subBlockHight * 8 + hh + w * (16 * step);
          blk = load_bytes inn start step 16 0;
          out0 = 7 * stride + (8 * subBlockHight + hh) * 8 * stride + w * 2 - stride * skip
      in write_rows store_u16 stride rem out0 (mm_slli_epi64 blk skip) out)"

definition columns_step :: "u8 list \<Rightarrow> nat \<Rightarrow> nat \<Rightarrow> nat \<Rightarrow> nat \<Rightarrow> u8 list \<Rightarrow> nat \<Rightarrow> u8 list" where
  "columns_step inn step stride subBlockWidth leftOverWidth out h =
     (let start = h * 8 + subBlockWidth * (16 * step);
          blks = map (load_bytes inn start step leftOverWidth) [0..<8];
          ps = map (\<lambda>b. 7 * stride + (8 * h + b) * (8 * stride) + subBlockWidth * 2) [0..<8]
      in if leftOverWidth \<le> 8 then write_rows8 store_u8 stride ps blks out
         else write_rows8 store_u16 stride ps blks out)"

definition corner_step ::
  "u8 list \<Rightarrow> nat \<Rightarrow> nat \<Rightarrow> nat \<Rightarrow> nat \<Rightarrow> nat \<Rightarrow> nat \<Rightarrow> u8 list \<Rightarrow> nat \<Rightarrow> u8 list" where
  "corner_step inn step stride subBlockHight w leftOverWidth skip out hh =
     (let rem = 8 - skip;
          start = subBlockHight * 8 + hh + w * (16 * step);
          blk = load_bytes inn start step leftOverWidth 0;
          out0 = 7 * stride + (8 * subBlockHight + hh) * 8 * stride + w * 2 - stride * skip
      in write_rows (if leftOverWidth > 8 then store_u16 else store_u8) stride rem out0
           (mm_slli_epi64 blk skip) out)"

definition sse_transpose :: "u8_view \<Rightarrow> u8_view \<Rightarrow> u8_view res" where
  "sse_transpose inn out =
     (let bitWidth = view_rows inn;
          step = vStride inn; stride = vStride out;
          subBlockWidth = bitWidth div 16;
          subBlockHight = view_rows out div (8 * 8);
          leftOverHeight = view_rows out mod (8 * 8);
          leftOverWidth = bitWidth mod 16
      in if stride < (bitWidth + 7) div 8 then Inl (Runtime_error ''LOCATION'')
         else if view_rows out > step * 8 then Inl (Runtime_error ''LOCATION'')
         else let hhEnd = (leftOverHeight + 7) div 8;
                  lastSkip = (8 - leftOverHeight mod 8) mod 8;
                  skip = (\<lambda>hh. if hh = hhEnd - 1 then lastSkip else 0);
                  data = foldl (\<lambda>data h. foldl (square_step (vData inn) step stride h) data [0..<subBlockWidth])
                           (vData out) [0..<subBlockHight];
                  data = foldl (\<lambda>data hh. foldl (rows_step (vData inn) step stride subBlockHight (skip hh) hh)
                                            data [0..<subBlockWidth]) data [0..<hhEnd];
                  data = (if leftOverWidth \<noteq> 0
                          then let data = foldl (columns_step (vData inn) step stride subBlockWidth leftOverWidth)
                                            data [0..<subBlockHight]
                               in foldl (\<lambda>data hh. corner_step (vData inn) step stride subBlockHight subBlockWidth
                                                     leftOverWidth (skip hh) data hh) data [0..<hhEnd]
                          else data)
              in Inr (out\<lparr>vData := data\<rparr>))"

subsection \<open>The bits of a view\<close>

definition row_bit :: "nat \<Rightarrow> u8 list \<Rightarrow> nat \<Rightarrow> nat \<Rightarrow> bool" where
  "row_bit stride bs r c \<longleftrightarrow> bit (bs ! (r * stride + c div 8)) (c mod 8)"

definition view_bit :: "u8_view \<Rightarrow> nat \<Rightarrow> nat \<Rightarrow> bool" where
  "view_bit v = row_bit (vStride v) (vData v)"

text \<open>A store to lane \<open>w\<close> of 16 bits, of the first \<open>W\<close> of them.\<close>

definition stores :: "nat \<Rightarrow> (u8 list \<Rightarrow> nat \<Rightarrow> u16 \<Rightarrow> u8 list) \<Rightarrow> bool" where
  "stores W st \<longleftrightarrow> (\<forall>n stride out r w v.
     length out = n * stride \<longrightarrow> r < n \<longrightarrow> 2 * w + W div 8 \<le> stride \<longrightarrow>
     length (st out (r * stride + 2 * w) v) = n * stride \<and>
     (\<forall>r' < n. \<forall>c < 8 * stride. row_bit stride (st out (r * stride + 2 * w) v) r' c \<longleftrightarrow>
        (if r' = r \<and> 16 * w \<le> c \<and> c < 16 * w + W then bit v (c - 16 * w) else row_bit stride out r' c)))"

lemma index_inj:
  assumes "x < s" "y < (s :: nat)" "r * s + x = r' * s + y"
  shows "r = r' \<and> x = y"
proof -
  have "(r * s + x) div s = r" "(r' * s + y) div s = r'" using assms(1,2) by simp_all
  with assms(3) show ?thesis by simp
qed

lemma row_byte_update:
  assumes "length out = n * stride" "r < n" "x < stride" "r' < n" "c < 8 * stride"
  shows "row_bit stride (out[r * stride + x := v]) r' c \<longleftrightarrow>
    (if r' = r \<and> c div 8 = x then bit v (c mod 8) else row_bit stride out r' c)"
proof -
  have c: "c div 8 < stride" using assms(5) by (simp add: less_mult_imp_div_less mult.commute)
  have "r * stride + x < n * stride"
  proof -
    have "r * stride + x < Suc r * stride" using assms(3) by simp
    also have "\<dots> \<le> n * stride" using assms(2) by (intro mult_le_mono1) simp
    finally show ?thesis .
  qed
  moreover have "r' * stride + c div 8 = r * stride + x \<longleftrightarrow> r' = r \<and> c div 8 = x"
    using index_inj [OF c assms(3)] by auto
  ultimately show ?thesis using assms(1) by (auto simp: row_bit_def nth_list_update)
qed

lemma stores_u8: "stores 8 store_u8"
  unfolding stores_def store_u8_def
proof (intro allI impI conjI)
  fix n stride r w r' c :: nat and out :: "u8 list" and v :: u16
  assume a: "length out = n * stride" "r < n" "2 * w + 8 div 8 \<le> stride" "r' < n" "c < 8 * stride"
  have "c div 8 = 2 * w \<longleftrightarrow> 16 * w \<le> c \<and> c < 16 * w + 8" by auto
  moreover have "c div 8 = 2 * w \<Longrightarrow> c mod 8 = c - 16 * w"
    using minus_mod_eq_mult_div [of c 8] by auto
  moreover have "bit (ucast v :: u8) (c mod 8) \<longleftrightarrow> bit (v :: u16) (c mod 8)" by (simp add: bit_simps)
  ultimately show "row_bit stride (out[r * stride + 2 * w := ucast v]) r' c \<longleftrightarrow>
      (if r' = r \<and> 16 * w \<le> c \<and> c < 16 * w + 8 then bit v (c - 16 * w) else row_bit stride out r' c)"
    using row_byte_update [OF a(1,2) _ a(4,5), of "2 * w" "ucast v"] a(3) by auto
qed simp

lemma stores_u16: "stores 16 store_u16"
  unfolding stores_def store_u16_def
proof (intro allI impI conjI)
  fix n stride r w r' c :: nat and out :: "u8 list" and v :: u16
  assume a: "length out = n * stride" "r < n" "2 * w + 16 div 8 \<le> stride" "r' < n" "c < 8 * stride"
  let ?o = "out[r * stride + 2 * w := ucast v]"
  have l: "length ?o = n * stride" using a(1) by simp
  have 1: "c div 8 = 2 * w \<longleftrightarrow> 16 * w \<le> c \<and> c < 16 * w + 8"
    and 2: "c div 8 = 2 * w + 1 \<longleftrightarrow> 16 * w + 8 \<le> c \<and> c < 16 * w + 16" by auto
  have 3: "c div 8 = 2 * w \<Longrightarrow> c mod 8 = c - 16 * w"
    and 4: "c div 8 = 2 * w + 1 \<Longrightarrow> 8 + c mod 8 = c - 16 * w"
    using minus_mod_eq_mult_div [of c 8] by auto
  have 5: "bit (ucast v :: u8) (c mod 8) \<longleftrightarrow> bit (v :: u16) (c mod 8)"
    "bit (ucast (drop_bit 8 v) :: u8) (c mod 8) \<longleftrightarrow> bit v (8 + c mod 8)" by (simp_all add: bit_simps)
  have "row_bit stride (?o[r * stride + (2 * w + 1) := ucast (drop_bit 8 v)]) r' c \<longleftrightarrow>
      (if r' = r \<and> c div 8 = 2 * w + 1 then bit v (8 + c mod 8)
       else if r' = r \<and> c div 8 = 2 * w then bit v (c mod 8) else row_bit stride out r' c)"
    using row_byte_update [OF a(1,2) _ a(4,5), of "2 * w" "ucast v"]
      row_byte_update [OF l a(2) _ a(4,5), of "2 * w + 1" "ucast (drop_bit 8 v)"] a(3) 5 by auto
  also have "\<dots> \<longleftrightarrow> (if r' = r \<and> 16 * w \<le> c \<and> c < 16 * w + 16 then bit v (c - 16 * w) else row_bit stride out r' c)"
    using 1 2 3 4 by (cases "c < 16 * w + 8") auto
  finally show "row_bit stride (?o[r * stride + 2 * w + 1 := ucast (drop_bit 8 v)]) r' c \<longleftrightarrow>
      (if r' = r \<and> 16 * w \<le> c \<and> c < 16 * w + 16 then bit v (c - 16 * w) else row_bit stride out r' c)"
    by (simp add: add.assoc)
qed simp

subsection \<open>Positions that hold the transposed bit\<close>

text \<open>The bit of the input at a position of the output, past the last row zero.\<close>

definition source_bit :: "u8 list \<Rightarrow> nat \<Rightarrow> nat \<Rightarrow> nat \<Rightarrow> nat \<Rightarrow> bool" where
  "source_bit inn step bitWidth r c \<longleftrightarrow> c < bitWidth \<and> row_bit step inn c r"

definition filled ::
  "(nat \<Rightarrow> nat \<Rightarrow> bool) \<Rightarrow> nat \<Rightarrow> nat \<Rightarrow> (nat \<times> nat) set \<Rightarrow> u8 list \<Rightarrow> u8 list \<Rightarrow> bool" where
  "filled src n stride S out out' \<longleftrightarrow> length out' = n * stride \<and>
     (\<forall>r < n. \<forall>c < 8 * stride. row_bit stride out' r c \<longleftrightarrow>
        (if (r, c) \<in> S then src r c else row_bit stride out r c))"

abbreviation lane :: "nat \<Rightarrow> nat \<Rightarrow> nat set" where
  "lane W w \<equiv> {16 * w..<16 * w + W}"

lemma filled_store:
  assumes "stores W st" "filled src n stride S out out'" "r < n" "2 * w + W div 8 \<le> stride"
    and "\<And>t. t < W \<Longrightarrow> bit v t \<longleftrightarrow> src r (16 * w + t)"
  shows "filled src n stride (S \<union> {r} \<times> lane W w) out (st out' (r * stride + 2 * w) v)"
proof -
  let ?o = "st out' (r * stride + 2 * w) v"
  have l: "length out' = n * stride" using assms(2) by (simp add: filled_def)
  have s: "length ?o = n * stride"
    "r' < n \<Longrightarrow> c < 8 * stride \<Longrightarrow> row_bit stride ?o r' c \<longleftrightarrow>
      (if r' = r \<and> 16 * w \<le> c \<and> c < 16 * w + W then bit v (c - 16 * w) else row_bit stride out' r' c)" for r' c
    using assms(1) l assms(3,4) unfolding stores_def by blast+
  have "row_bit stride ?o r' c \<longleftrightarrow> (if (r', c) \<in> S \<union> {r} \<times> lane W w then src r' c else row_bit stride out r' c)"
    if rc: "r' < n" "c < 8 * stride" for r' c
  proof (cases "r' = r \<and> 16 * w \<le> c \<and> c < 16 * w + W")
    case True
    then have "bit v (c - 16 * w) \<longleftrightarrow> src r c" using assms(5) [of "c - 16 * w"] by auto
    then show ?thesis using s(2) [OF rc] True by simp
  next
    case False
    then show ?thesis using s(2) [OF rc] assms(2) rc by (auto simp: filled_def)
  qed
  with s(1) show ?thesis by (simp add: filled_def)
qed

text \<open>The bytes of a register that hold the columns of lane \<open>w\<close> for eight rows from \<open>R\<close> on.\<close>

definition holds :: "(nat \<Rightarrow> nat \<Rightarrow> bool) \<Rightarrow> nat \<Rightarrow> nat \<Rightarrow> nat \<Rightarrow> block \<Rightarrow> bool" where
  "holds src W w R b \<longleftrightarrow> (\<forall>t < W. \<forall>i < 8. bit b (8 * t + i) \<longleftrightarrow> src (R + i) (16 * w + t))"

lemma filled_movemask:
  assumes "stores W st" "filled src n stride S out out'" "2 * w + W div 8 \<le> stride" "W \<le> 16"
    and "holds src W w R b" "shifted k b b'" "k < 8" "R + (7 - k) < n"
  shows "filled src n stride (S \<union> {R + (7 - k)} \<times> lane W w) out
    (st out' ((R + (7 - k)) * stride + 2 * w) (mm_movemask_epi8 b'))"
proof (rule filled_store [OF assms(1,2,8,3)])
  fix t assume "t < W"
  then show "bit (mm_movemask_epi8 b') t \<longleftrightarrow> src (R + (7 - k)) (16 * w + t)"
    using movemask_shifted [OF assms(6,7), of t] assms(4,5) by (simp add: holds_def)
qed

lemma shifted_slli: "shifted n v (mm_slli_epi64 v n)"
  by (simp add: shifted_def bit_mm_slli_epi64)

lemma stepped_pointer:
  "j \<le> r \<Longrightarrow> r * stride + x - j * stride = (r - j) * stride + (x :: nat)"
  by (simp add: diff_mult_distrib)

lemma filled_write_rows:
  assumes st: "stores W st" "2 * w + W div 8 \<le> stride" "W \<le> 16"
    and S: "filled src n stride S out out'" and b: "holds src W w R b"
    and skip: "skip < 8" "R + (8 - skip) \<le> n"
  shows "filled src n stride (S \<union> {R..<R + (8 - skip)} \<times> lane W w) out
    (write_rows st stride (8 - skip) ((R + (7 - skip)) * stride + 2 * w) (mm_slli_epi64 b skip) out')"
proof -
  let ?p = "(R + (7 - skip)) * stride + 2 * w"
  let ?step = "\<lambda>(out, p, blk) j. (st out p (mm_movemask_epi8 blk), p - stride, mm_slli_epi64 blk 1)"
  have "\<exists>o' b'. foldl ?step (out', ?p, mm_slli_epi64 b skip) [0..<j] = (o', ?p - j * stride, b') \<and>
      filled src n stride (S \<union> {R + (8 - skip - j)..<R + (8 - skip)} \<times> lane W w) out o' \<and> shifted (skip + j) b b'"
    if "j \<le> 8 - skip" for j
    using that
  proof (induction j)
    case 0
    then show ?case using S shifted_slli by simp
  next
    case (Suc j)
    then obtain o' b' where IH: "foldl ?step (out', ?p, mm_slli_epi64 b skip) [0..<j] = (o', ?p - j * stride, b')"
      and f: "filled src n stride (S \<union> {R + (8 - skip - j)..<R + (8 - skip)} \<times> lane W w) out o'"
      and sh: "shifted (skip + j) b b'" by auto
    have e: "8 - skip - Suc j = 7 - (skip + j)" "8 - skip - j = Suc (7 - (skip + j))"
      and k: "skip + j < 8" using Suc.prems by auto
    have p: "?p - j * stride = (R + (7 - (skip + j))) * stride + 2 * w"
    proof -
      have "R + (7 - skip) - j = R + (7 - (skip + j))" using k by simp
      then show ?thesis using stepped_pointer [of j "R + (7 - skip)" stride "2 * w"] k by simp
    qed
    have r: "R + (7 - (skip + j)) < n" using skip k by simp
    have S': "(S \<union> {R + (8 - skip - j)..<R + (8 - skip)} \<times> lane W w) \<union> {R + (7 - (skip + j))} \<times> lane W w =
        S \<union> {R + (8 - skip - Suc j)..<R + (8 - skip)} \<times> lane W w"
      using e k by auto
    have "filled src n stride (S \<union> {R + (8 - skip - Suc j)..<R + (8 - skip)} \<times> lane W w) out
        (st o' (?p - j * stride) (mm_movemask_epi8 b'))"
      using filled_movemask [OF st(1) f st(2,3) b sh k r] unfolding p S' .
    moreover have "?p - j * stride - stride = ?p - Suc j * stride" by simp
    moreover have "shifted (skip + Suc j) b (mm_slli_epi64 b' 1)" using shifted_Suc [OF sh] by simp
    ultimately show ?case by (simp only: upt_Suc le0 if_True foldl_append IH foldl_Cons foldl_Nil case_prod_conv) blast
  qed
  from this [of "8 - skip"] show ?thesis by (auto simp: write_rows_def)
qed

lemma filled_write_rows8:
  assumes st: "stores W st" "2 * w + W div 8 \<le> stride" "W \<le> 16"
    and S: "filled src n stride S out out'"
    and b: "\<And>k. k < 8 \<Longrightarrow> holds src W w (R + 8 * k) (blk k)" and n: "R + 64 \<le> n"
  shows "filled src n stride (S \<union> {R..<R + 64} \<times> lane W w) out
    (write_rows8 st stride (map (\<lambda>k. (R + 8 * k + 7) * stride + 2 * w) [0..<8]) (map blk [0..<8]) out')"
proof -
  let ?p = "\<lambda>k. (R + 8 * k + 7) * stride + 2 * w"
  let ?step = "\<lambda>(out, ps, blks) j.
         (foldl (\<lambda>out (p, b). st out p (mm_movemask_epi8 b)) out (zip ps blks),
          map (\<lambda>p. p - stride) ps, map (\<lambda>b. mm_slli_epi64 b 1) blks)"
  define rows where "rows = (\<lambda>j. {r. R \<le> r \<and> r < R + 64 \<and> 8 - j \<le> (r - R) mod 8})"
  have "\<exists>o' B. foldl ?step (out', map ?p [0..<8], map blk [0..<8]) [0..<j] =
        (o', map (\<lambda>k. ?p k - j * stride) [0..<8], map B [0..<8]) \<and>
      filled src n stride (S \<union> rows j \<times> lane W w) out o' \<and> (\<forall>k < 8. shifted j (blk k) (B k))"
    if "j \<le> 8" for j
    using that
  proof (induction j)
    case 0
    have "rows 0 = {}" using mod_less_divisor [of 8] by (auto simp: rows_def not_le)
    then show ?case using S shifted_0 by (intro exI [of _ out'] exI [of _ blk]) simp
  next
    case (Suc j)
    then obtain o' B where IH: "foldl ?step (out', map ?p [0..<8], map blk [0..<8]) [0..<j] =
        (o', map (\<lambda>k. ?p k - j * stride) [0..<8], map B [0..<8])"
      and f: "filled src n stride (S \<union> rows j \<times> lane W w) out o'"
      and sh: "\<forall>k < 8. shifted j (blk k) (B k)" by auto
    have j: "j < 8" using Suc.prems by simp
    have p: "?p k - j * stride = (R + 8 * k + (7 - j)) * stride + 2 * w" for k
    proof -
      have "R + 8 * k + 7 - j = R + 8 * k + (7 - j)" using j by simp
      then show ?thesis using stepped_pointer [of j "R + 8 * k + 7" stride "2 * w"] j by simp
    qed
    let ?put = "\<lambda>out k. st out ((R + 8 * k + (7 - j)) * stride + 2 * w) (mm_movemask_epi8 (B k))"
    have inner: "filled src n stride (S \<union> rows j \<times> lane W w \<union> {R + 8 * k + (7 - j) |k. k < m} \<times> lane W w) out
        (foldl ?put o' [0..<m])" if "m \<le> 8" for m
      using that
    proof (induction m)
      case 0
      then show ?case using f by simp
    next
      case (Suc m)
      let ?S = "S \<union> rows j \<times> lane W w \<union> {R + 8 * k + (7 - j) |k. k < m} \<times> lane W w"
      have "m < 8" using Suc.prems by simp
      then have "R + 8 * m + (7 - j) < n" using n by simp
      have "filled src n stride ?S out (foldl ?put o' [0..<m])" using Suc by simp
      from filled_movemask [OF st(1) this st(2,3) b [OF \<open>m < 8\<close>] _ j \<open>R + 8 * m + (7 - j) < n\<close>, of "B m"] sh \<open>m < 8\<close>
      have "filled src n stride (?S \<union> {R + 8 * m + (7 - j)} \<times> lane W w) out (?put (foldl ?put o' [0..<m]) m)" by simp
      moreover have "?S \<union> {R + 8 * m + (7 - j)} \<times> lane W w =
          S \<union> rows j \<times> lane W w \<union> {R + 8 * k + (7 - j) |k. k < Suc m} \<times> lane W w"
        by (auto simp: less_Suc_eq)
      ultimately show ?case by simp
    qed
    have "foldl (\<lambda>out (p, b). st out p (mm_movemask_epi8 b)) o'
        (zip (map (\<lambda>k. ?p k - j * stride) [0..<8]) (map B [0..<8])) = foldl ?put o' [0..<8]"
    proof -
      have "zip (map (\<lambda>k. ?p k - j * stride) [0..<8]) (map B [0..<8]) = map (\<lambda>k. (?p k - j * stride, B k)) [0..<8]"
        by (simp add: zip_map1 zip_map2 zip_same_conv_map)
      then show ?thesis by (simp add: foldl_map p)
    qed
    moreover have "rows j \<times> lane W w \<union> {R + 8 * k + (7 - j) |k. k < 8} \<times> lane W w = rows (Suc j) \<times> lane W w"
    proof -
      have "r \<in> rows (Suc j) \<longleftrightarrow> r \<in> rows j \<or> (\<exists>k < 8. r = R + 8 * k + (7 - j))" for r
      proof
        assume r: "r \<in> rows (Suc j)"
        define d where "d = r - R"
        have d: "r = R + d" "d < 64" "8 - Suc j \<le> d mod 8" using r by (auto simp: rows_def d_def)
        have "d div 8 < 8" using d(2) by simp
        moreover have "r = R + 8 * (d div 8) + (7 - j)" if "\<not> 8 - j \<le> d mod 8"
        proof -
          have "d mod 8 = 7 - j" using that d(3) by simp
          moreover have "d = 8 * (d div 8) + d mod 8" by simp
          ultimately show ?thesis using d(1) by linarith
        qed
        ultimately have "\<not> 8 - j \<le> d mod 8 \<Longrightarrow> \<exists>k < 8. r = R + 8 * k + (7 - j)" by blast
        moreover have "8 - j \<le> d mod 8 \<Longrightarrow> r \<in> rows j" using d by (simp add: rows_def)
        ultimately show "r \<in> rows j \<or> (\<exists>k < 8. r = R + 8 * k + (7 - j))" by blast
      next
        assume "r \<in> rows j \<or> (\<exists>k < 8. r = R + 8 * k + (7 - j))"
        then show "r \<in> rows (Suc j)"
        proof
          assume "\<exists>k < 8. r = R + 8 * k + (7 - j)"
          then obtain k where k: "k < 8" "r = R + 8 * k + (7 - j)" by blast
          then have "r - R = 7 - j + 8 * k" by simp
          then have "(r - R) mod 8 = 7 - j" by (simp only: mod_mult_self2) simp
          then show ?thesis using k by (simp add: rows_def)
        qed (auto simp: rows_def)
      qed
      then show ?thesis by blast
    qed
    ultimately have "filled src n stride (S \<union> rows (Suc j) \<times> lane W w) out
        (foldl (\<lambda>out (p, b). st out p (mm_movemask_epi8 b)) o'
          (zip (map (\<lambda>k. ?p k - j * stride) [0..<8]) (map B [0..<8])))"
      using inner [of 8] by (simp add: Un_assoc)
    moreover have "map (\<lambda>p. p - stride) (map (\<lambda>k. ?p k - j * stride) [0..<8]) = map (\<lambda>k. ?p k - Suc j * stride) [0..<8]"
      by (simp only: list.map_comp o_def) (simp add: add.commute)
    moreover have "map (\<lambda>b. mm_slli_epi64 b 1) (map B [0..<8]) = map (\<lambda>k. mm_slli_epi64 (B k) 1) [0..<8]"
      by (simp only: list.map_comp o_def)
    moreover have "\<forall>k < 8. shifted (Suc j) (blk k) (mm_slli_epi64 (B k) 1)" using sh shifted_Suc by blast
    ultimately show ?case
      by (simp only: upt_Suc le0 if_True foldl_append IH foldl_Cons foldl_Nil case_prod_conv) blast
  qed
  from this [of 8] have "filled src n stride (S \<union> rows 8 \<times> lane W w) out
      (write_rows8 st stride (map ?p [0..<8]) (map blk [0..<8]) out')"
    by (auto simp: write_rows8_def)
  moreover have "rows 8 = {R..<R + 64}" by (auto simp: rows_def)
  ultimately show ?thesis by simp
qed

subsection \<open>The four loops\<close>

lemma load_holds:
  assumes "n \<le> 16" "W \<le> 16" "start + b = q + w * (16 * step)" "\<And>t. t < W \<Longrightarrow> 16 * w + t < bitWidth \<longleftrightarrow> t < n"
  shows "holds (source_bit inn step bitWidth) W w (8 * q) (load_bytes inn start step n b)"
  unfolding holds_def
proof (intro allI impI)
  fix t i :: nat assume t: "t < W" and i: "i < 8"
  have k: "(8 * t + i) div 8 = t" "(8 * t + i) mod 8 = i" "8 * t + i < 128"
    "(8 * q + i) div 8 = q" "(8 * q + i) mod 8 = i" using t i assms(2) by auto
  have "(16 * w + t) * step + q = start + t * step + b" using assms(3) by (simp add: algebra_simps)
  then show "bit (load_bytes inn start step n b) (8 * t + i) \<longleftrightarrow> source_bit inn step bitWidth (8 * q + i) (16 * w + t)"
    using k t assms(1,2,4) by (simp add: load_bytes_def bit_bytes_block source_bit_def row_bit_def nth_append)
qed

lemma filled_foldl:
  assumes "filled src n stride (S 0) out out'"
    and "\<And>k o'. k < m \<Longrightarrow> filled src n stride (S k) out o' \<Longrightarrow> filled src n stride (S (Suc k)) out (f o' k)"
  shows "filled src n stride (S m) out (foldl f out' [0..<m])"
  using assms(2)
proof (induction m)
  case 0
  then show ?case using assms(1) by simp
next
  case (Suc m)
  then have "filled src n stride (S m) out (foldl f out' [0..<m])" by simp
  with Suc.prems [of m] show ?case by simp
qed

text \<open>The addresses in the form that the lemmas on the writing loops have.\<close>

lemma square_addresses:
  "map (\<lambda>b. 7 * stride + (8 * h + b) * (8 * stride) + w * 2) [0..<8] =
   map (\<lambda>k. (64 * h + 8 * k + 7) * stride + 2 * w) [0..<8]"
  by (simp add: algebra_simps)

lemma rows_address:
  assumes "skip < 8"
  shows "7 * stride + (8 * sb + hh) * 8 * stride + w * 2 - stride * skip =
    (8 * (8 * sb + hh) + (7 - skip)) * stride + 2 * (w :: nat)"
proof -
  have "7 * stride + (8 * sb + hh) * 8 * stride + w * 2 = (8 * (8 * sb + hh) + 7) * stride + 2 * w"
    by (simp add: algebra_simps)
  then have "7 * stride + (8 * sb + hh) * 8 * stride + w * 2 - stride * skip =
      (8 * (8 * sb + hh) + 7 - skip) * stride + 2 * w"
    using stepped_pointer [of skip "8 * (8 * sb + hh) + 7" stride "2 * w"] assms by (simp only: mult.commute [of skip])
  moreover have "8 * (8 * sb + hh) + 7 - skip = 8 * (8 * sb + hh) + (7 - skip)" using assms by simp
  ultimately show ?thesis by (simp only:)
qed

lemma square_step_filled:
  assumes "filled (source_bit inn step bw) n stride S out out'" "64 * h + 64 \<le> n" "16 * w + 16 \<le> bw" "2 * w + 2 \<le> stride"
  shows "filled (source_bit inn step bw) n stride (S \<union> {64 * h..<64 * h + 64} \<times> lane 16 w) out
    (square_step inn step stride h out' w)"
proof -
  have H: "holds (source_bit inn step bw) 16 w (64 * h + 8 * k) (load_bytes inn (h * 8 + w * (16 * step)) step 16 k)" for k
    using load_holds [of 16 16 "h * 8 + w * (16 * step)" k "8 * h + k" w step bw inn] assms(3)
    by (simp add: algebra_simps)
  show ?thesis
    unfolding square_step_def Let_def square_addresses
    by (rule filled_write_rows8 [OF stores_u16 _ _ assms(1) H assms(2)]) (use assms(4) in simp_all)
qed

lemma rows_step_filled:
  assumes "filled (source_bit inn step bw) n stride S out out'" "16 * w + 16 \<le> bw" "2 * w + 2 \<le> stride"
    and "skip < 8" "8 * (8 * sb + hh) + (8 - skip) \<le> n"
  shows "filled (source_bit inn step bw) n stride
    (S \<union> {8 * (8 * sb + hh)..<8 * (8 * sb + hh) + (8 - skip)} \<times> lane 16 w) out
    (rows_step inn step stride sb skip hh out' w)"
proof -
  have H: "holds (source_bit inn step bw) 16 w (8 * (8 * sb + hh))
      (load_bytes inn (sb * 8 + hh + w * (16 * step)) step 16 0)"
    using load_holds [of 16 16 "sb * 8 + hh + w * (16 * step)" 0 "8 * sb + hh" w step bw inn] assms(2) by simp
  show ?thesis
    unfolding rows_step_def Let_def rows_address [OF assms(4)]
    by (rule filled_write_rows [OF stores_u16 _ _ assms(1) H assms(4,5)]) (use assms(3) in simp_all)
qed

text \<open>The number of bits that are written for the columns left over.\<close>

definition last_lane :: "nat \<Rightarrow> nat" where
  "last_lane lw = (if lw \<le> 8 then 8 else 16)"

lemma columns_step_filled:
  assumes "filled (source_bit inn step (16 * w + lw)) n stride S out out'" "64 * h + 64 \<le> n"
    and "2 * w + last_lane lw div 8 \<le> stride" "lw < 16"
  shows "filled (source_bit inn step (16 * w + lw)) n stride (S \<union> {64 * h..<64 * h + 64} \<times> lane (last_lane lw) w) out
    (columns_step inn step stride w lw out' h)"
proof -
  have H: "holds (source_bit inn step (16 * w + lw)) (last_lane lw) w (64 * h + 8 * k)
      (load_bytes inn (h * 8 + w * (16 * step)) step lw k)" for k
    using load_holds [of lw "last_lane lw" "h * 8 + w * (16 * step)" k "8 * h + k" w step "16 * w + lw" inn] assms(4)
    by (simp add: algebra_simps last_lane_def)
  have st: "stores (last_lane lw) (if lw \<le> 8 then store_u8 else store_u16)"
    by (simp add: last_lane_def stores_u8 stores_u16)
  have "filled (source_bit inn step (16 * w + lw)) n stride (S \<union> {64 * h..<64 * h + 64} \<times> lane (last_lane lw) w) out
      (write_rows8 (if lw \<le> 8 then store_u8 else store_u16) stride
        (map (\<lambda>k. (64 * h + 8 * k + 7) * stride + 2 * w) [0..<8])
        (map (load_bytes inn (h * 8 + w * (16 * step)) step lw) [0..<8]) out')"
    by (rule filled_write_rows8 [OF st assms(3) _ assms(1) H assms(2)]) (simp add: last_lane_def)
  then show ?thesis by (simp add: columns_step_def Let_def square_addresses split: if_splits)
qed

lemma corner_step_filled:
  assumes "filled (source_bit inn step (16 * w + lw)) n stride S out out'" "lw < 16"
    and "2 * w + last_lane lw div 8 \<le> stride" "skip < 8" "8 * (8 * sb + hh) + (8 - skip) \<le> n"
  shows "filled (source_bit inn step (16 * w + lw)) n stride
    (S \<union> {8 * (8 * sb + hh)..<8 * (8 * sb + hh) + (8 - skip)} \<times> lane (last_lane lw) w) out
    (corner_step inn step stride sb w lw skip out' hh)"
proof -
  have H: "holds (source_bit inn step (16 * w + lw)) (last_lane lw) w (8 * (8 * sb + hh))
      (load_bytes inn (sb * 8 + hh + w * (16 * step)) step lw 0)"
    using load_holds [of lw "last_lane lw" "sb * 8 + hh + w * (16 * step)" 0 "8 * sb + hh" w step "16 * w + lw" inn] assms(2)
    by (simp add: last_lane_def)
  have st: "stores (last_lane lw) (if lw > 8 then store_u16 else store_u8)"
    by (simp add: last_lane_def stores_u8 stores_u16)
  show ?thesis
    unfolding corner_step_def Let_def rows_address [OF assms(4)]
    by (rule filled_write_rows [OF st assms(3) _ assms(1) H assms(4,5)]) (simp add: last_lane_def)
qed

text \<open>The rows that are left over: the last byte of the input may be one in part.\<close>

lemma left_over_rows:
  fixes n hh :: nat
  assumes "hh < (n mod 64 + 7) div 8"
  defines "skip \<equiv> (if hh = (n mod 64 + 7) div 8 - 1 then (8 - n mod 64 mod 8) mod 8 else 0)"
  shows "skip < 8" and "8 * (8 * (n div 64) + hh) + (8 - skip) = min n (8 * (8 * (n div 64) + hh) + 8)"
    and "8 * (8 * (n div 64) + hh) < n"
proof -
  define a l b where "a = n div 64" and "l = n mod 64 div 8" and "b = n mod 64 mod 8"
  have m: "n mod 64 = 8 * l + b" and b: "b < 8" and n: "n = 64 * a + (8 * l + b)"
    by (simp_all add: l_def b_def a_def)
  have e: "(n mod 64 + 7) div 8 = (if b = 0 then l else Suc l)"
  proof -
    have "(8 * l + b + 7) div 8 = l + (b + 7) div 8" using div_mult_self4 [of 8 l "b + 7"] by (simp add: add.assoc)
    moreover have "(b + 7) div 8 = (if b = 0 then 0 else 1)" using b by (cases b) simp_all
    ultimately show ?thesis unfolding m by simp
  qed
  show "skip < 8" by (simp add: skip_def)
  have "hh < l \<or> hh = l \<and> 0 < b" using assms(1) unfolding e by (auto split: if_splits)
  then have "8 * (8 * a + hh) < n" using n by auto
  then show "8 * (8 * (n div 64) + hh) < n" unfolding a_def .
  show "8 * (8 * (n div 64) + hh) + (8 - skip) = min n (8 * (8 * (n div 64) + hh) + 8)"
    unfolding a_def [symmetric]
  proof (cases "b = 0 \<or> hh \<noteq> l")
    case True
    then have "skip = 0" unfolding skip_def e b_def [symmetric] by auto
    moreover have "hh < l" using True assms(1) unfolding e by (auto split: if_splits)
    then have "8 * Suc hh \<le> 8 * l" by simp
    then have "8 * (8 * a + hh) + 8 \<le> n" using n by simp
    ultimately show "8 * (8 * a + hh) + (8 - skip) = min n (8 * (8 * a + hh) + 8)" by simp
  next
    case False
    then have "skip = 8 - b" unfolding skip_def e b_def [symmetric] by simp
    then have "8 - skip = b" using b by simp
    moreover have h: "n = 8 * (8 * a + hh) + b" using False n by simp
    then have "n \<le> 8 * (8 * a + hh) + 8" using b by linarith
    then have "min n (8 * (8 * a + hh) + 8) = n" by (rule min_absorb1)
    moreover note h
    ultimately show "8 * (8 * a + hh) + (8 - skip) = min n (8 * (8 * a + hh) + 8)" by simp
  qed
qed

text \<open>Loops over lanes and over bands of rows.\<close>

lemma filled_lanes:
  assumes "filled src n stride S out out'"
    and "\<And>k S o'. k < m \<Longrightarrow> filled src n stride S out o' \<Longrightarrow>
      filled src n stride (S \<union> rows \<times> lane 16 k) out (f o' k)"
  shows "filled src n stride (S \<union> rows \<times> {..<16 * m}) out (foldl f out' [0..<m])"
proof (rule filled_foldl)
  show "filled src n stride (S \<union> rows \<times> {..<16 * 0}) out out'" using assms(1) by simp
next
  fix k o' assume "k < m" "filled src n stride (S \<union> rows \<times> {..<16 * k}) out o'"
  then have "filled src n stride (S \<union> rows \<times> {..<16 * k} \<union> rows \<times> lane 16 k) out (f o' k)" by (rule assms(2))
  moreover have "S \<union> rows \<times> {..<16 * k} \<union> rows \<times> lane 16 k = S \<union> rows \<times> {..<16 * Suc k}"
    by auto
  ultimately show "filled src n stride (S \<union> rows \<times> {..<16 * Suc k}) out (f o' k)" by simp
qed

lemma filled_bands:
  assumes "filled src n stride S out out'" "64 * m \<le> n"
    and "\<And>k S o'. 64 * k + 64 \<le> n \<Longrightarrow> filled src n stride S out o' \<Longrightarrow>
      filled src n stride (S \<union> {64 * k..<64 * k + 64} \<times> C) out (f o' k)"
  shows "filled src n stride (S \<union> {..<64 * m} \<times> C) out (foldl f out' [0..<m])"
proof (rule filled_foldl)
  show "filled src n stride (S \<union> {..<64 * 0} \<times> C) out out'" using assms(1) by simp
next
  fix k o' assume k: "k < m" "filled src n stride (S \<union> {..<64 * k} \<times> C) out o'"
  then have "filled src n stride (S \<union> {..<64 * k} \<times> C \<union> {64 * k..<64 * k + 64} \<times> C) out (f o' k)"
    using assms(2) by (intro assms(3)) auto
  moreover have "S \<union> {..<64 * k} \<times> C \<union> {64 * k..<64 * k + 64} \<times> C = S \<union> {..<64 * Suc k} \<times> C" by auto
  ultimately show "filled src n stride (S \<union> {..<64 * Suc k} \<times> C) out (f o' k)" by simp
qed

lemma filled_left_over:
  fixes n :: nat
  defines "m \<equiv> (n mod 64 + 7) div 8"
  defines "skip \<equiv> (\<lambda>hh. if hh = m - 1 then (8 - n mod 64 mod 8) mod 8 else 0)"
  assumes "filled src n stride (S \<union> {..<64 * (n div 64)} \<times> C) out out'"
    and "\<And>hh S o'. skip hh < 8 \<Longrightarrow> 8 * (8 * (n div 64) + hh) + (8 - skip hh) \<le> n \<Longrightarrow> filled src n stride S out o' \<Longrightarrow>
      filled src n stride (S \<union> {8 * (8 * (n div 64) + hh)..<8 * (8 * (n div 64) + hh) + (8 - skip hh)} \<times> C) out (f o' hh)"
  shows "filled src n stride (S \<union> {..<n} \<times> C) out (foldl f out' [0..<m])"
proof -
  have "filled src n stride (S \<union> {..<min n (8 * (8 * (n div 64) + m))} \<times> C) out (foldl f out' [0..<m])"
  proof (rule filled_foldl)
    have "min n (8 * (8 * (n div 64) + 0)) = 64 * (n div 64)" by simp
    then show "filled src n stride (S \<union> {..<min n (8 * (8 * (n div 64) + 0))} \<times> C) out out'" using assms(3) by (simp only:)
  next
    fix k o' assume k: "k < m" and f: "filled src n stride (S \<union> {..<min n (8 * (8 * (n div 64) + k))} \<times> C) out o'"
    note L = left_over_rows [of k n, folded m_def, OF k, folded skip_def]
    have s: "skip k = (if k = m - 1 then (8 - n mod 64 mod 8) mod 8 else 0)" by (simp add: skip_def)
    have u: "8 * (8 * (n div 64) + k) + (8 - skip k) = min n (8 * (8 * (n div 64) + k) + 8)"
      using L(2) unfolding s .
    have "8 * (8 * (n div 64) + k) + (8 - skip k) \<le> n" unfolding u by simp
    from assms(4) [OF _ this f] L(1) [folded s]
    have "filled src n stride (S \<union> {..<min n (8 * (8 * (n div 64) + k))} \<times> C \<union>
        {8 * (8 * (n div 64) + k)..<min n (8 * (8 * (n div 64) + k) + 8)} \<times> C) out (f o' k)"
      unfolding u by blast
    moreover have "{..<min n (8 * (8 * (n div 64) + k))} \<union> {8 * (8 * (n div 64) + k)..<min n (8 * (8 * (n div 64) + k) + 8)} =
        {..<min n (8 * (8 * (n div 64) + Suc k))}" using L(3) by auto
    then have "S \<union> {..<min n (8 * (8 * (n div 64) + k))} \<times> C \<union>
        {8 * (8 * (n div 64) + k)..<min n (8 * (8 * (n div 64) + k) + 8)} \<times> C =
        S \<union> {..<min n (8 * (8 * (n div 64) + Suc k))} \<times> C" by blast
    ultimately show "filled src n stride (S \<union> {..<min n (8 * (8 * (n div 64) + Suc k))} \<times> C) out (f o' k)"
      by (simp only:)
  qed
  moreover have "n \<le> 8 * (8 * (n div 64) + m)"
  proof -
    have "d \<le> 8 * e \<Longrightarrow> 64 * a + d \<le> 8 * (8 * a + e)" for a d e :: nat by simp
    moreover have "n mod 64 \<le> 8 * m" unfolding m_def by linarith
    ultimately have "64 * (n div 64) + n mod 64 \<le> 8 * (8 * (n div 64) + m)" by blast
    moreover have "64 * (n div 64) + n mod 64 = n" by (rule mult_div_mod_eq)
    ultimately show ?thesis by (simp only:)
  qed
  ultimately show ?thesis by (simp add: min_absorb1)
qed

subsection \<open>The transposition\<close>

lemma written_columns:
  fixes bw :: nat
  shows "8 * ((bw + 7) div 8) = 16 * (bw div 16) + (if bw mod 16 = 0 then 0 else last_lane (bw mod 16))"
proof -
  define w l where "w = bw div 16" and "l = bw mod 16"
  have bw: "bw = 16 * w + l" and l: "l < 16" by (simp_all add: w_def l_def)
  have "(bw + 7) div 8 = 2 * w + (l + 7) div 8"
    unfolding bw using div_mult_self4 [of 8 "2 * w" "l + 7"] by (simp add: add.assoc)
  moreover have "8 * ((l + 7) div 8) = (if l = 0 then 0 else last_lane l)"
  proof -
    consider "l = 0" | "0 < l" "l \<le> 8" | "8 < l" by linarith
    then show ?thesis
    proof cases
      case 2
      then have "(l + 7) div 8 = 1" by (intro div_nat_eqI) simp_all
      then show ?thesis using 2 by (simp add: last_lane_def)
    next
      case 3
      then have "(l + 7) div 8 = 2" using l by (intro div_nat_eqI) simp_all
      then show ?thesis using 3 by (simp add: last_lane_def)
    qed simp
  qed
  ultimately show ?thesis unfolding w_def [symmetric] l_def [symmetric] by simp
qed

lemma squares_filled:
  assumes "length out = n * stride" "(bw + 7) div 8 \<le> stride"
  shows "filled (source_bit inn step bw) n stride ({} \<union> {..<64 * (n div 64)} \<times> {..<16 * (bw div 16)}) out
    (foldl (\<lambda>data h. foldl (square_step inn step stride h) data [0..<bw div 16]) out [0..<n div 64])"
proof (rule filled_bands)
  show "filled (source_bit inn step bw) n stride {} out out" using assms(1) by (simp add: filled_def)
  fix k S o' assume k: "64 * k + 64 \<le> n" and f: "filled (source_bit inn step bw) n stride S out o'"
  show "filled (source_bit inn step bw) n stride (S \<union> {64 * k..<64 * k + 64} \<times> {..<16 * (bw div 16)}) out
      (foldl (square_step inn step stride k) o' [0..<bw div 16])"
  proof (rule filled_lanes [OF f])
    fix w S o' assume w: "w < bw div 16" and f: "filled (source_bit inn step bw) n stride S out o'"
    have "16 * Suc w \<le> 16 * (bw div 16)" using w by simp
    then have "16 * w + 16 \<le> bw" using times_div_less_eq_dividend [of 16 bw] by simp
    moreover have "2 * w + 2 \<le> stride" using assms(2) written_columns [of bw] w by auto
    ultimately show "filled (source_bit inn step bw) n stride (S \<union> {64 * k..<64 * k + 64} \<times> lane 16 w) out
        (square_step inn step stride k o' w)"
      by (rule square_step_filled [OF f k])
  qed
qed simp

lemma left_rows_filled:
  assumes "filled (source_bit inn step bw) n stride (S \<union> {..<64 * (n div 64)} \<times> {..<16 * (bw div 16)}) out out'"
    and "(bw + 7) div 8 \<le> stride"
  shows "filled (source_bit inn step bw) n stride (S \<union> {..<n} \<times> {..<16 * (bw div 16)}) out
    (foldl (\<lambda>data hh. foldl (rows_step inn step stride (n div 64)
        (if hh = (n mod 64 + 7) div 8 - 1 then (8 - n mod 64 mod 8) mod 8 else 0) hh)
      data [0..<bw div 16]) out' [0..<(n mod 64 + 7) div 8])"
proof (rule filled_left_over [OF assms(1)])
  let ?skip = "\<lambda>hh. if hh = (n mod 64 + 7) div 8 - 1 then (8 - n mod 64 mod 8) mod 8 else 0"
  fix hh S o' assume s: "?skip hh < 8" "8 * (8 * (n div 64) + hh) + (8 - ?skip hh) \<le> n"
    and f: "filled (source_bit inn step bw) n stride S out o'"
  show "filled (source_bit inn step bw) n stride
     (S \<union> {8 * (8 * (n div 64) + hh)..<8 * (8 * (n div 64) + hh) + (8 - ?skip hh)} \<times> {..<16 * (bw div 16)}) out
     (foldl (rows_step inn step stride (n div 64) (?skip hh) hh) o' [0..<bw div 16])"
  proof (rule filled_lanes [OF f])
    fix w S o' assume w: "w < bw div 16" and f: "filled (source_bit inn step bw) n stride S out o'"
    have "16 * Suc w \<le> 16 * (bw div 16)" using w by simp
    then have "16 * w + 16 \<le> bw" using times_div_less_eq_dividend [of 16 bw] by simp
    moreover have "2 * w + 2 \<le> stride" using assms(2) written_columns [of bw] w by auto
    ultimately show "filled (source_bit inn step bw) n stride
       (S \<union> {8 * (8 * (n div 64) + hh)..<8 * (8 * (n div 64) + hh) + (8 - ?skip hh)} \<times> lane 16 w) out
       (rows_step inn step stride (n div 64) (?skip hh) hh o' w)"
      by (rule rows_step_filled [OF f _ _ s])
  qed
qed

lemma left_columns_filled:
  assumes "filled (source_bit inn step bw) n stride S out out'" "(bw + 7) div 8 \<le> stride" "bw mod 16 \<noteq> 0"
  shows "filled (source_bit inn step bw) n stride (S \<union> {..<n} \<times> lane (last_lane (bw mod 16)) (bw div 16)) out
    (foldl (\<lambda>data hh. corner_step inn step stride (n div 64) (bw div 16) (bw mod 16)
        (if hh = (n mod 64 + 7) div 8 - 1 then (8 - n mod 64 mod 8) mod 8 else 0) data hh)
      (foldl (columns_step inn step stride (bw div 16) (bw mod 16)) out' [0..<n div 64])
      [0..<(n mod 64 + 7) div 8])"
proof -
  define w lw where "w = bw div 16" and "lw = bw mod 16"
  have bw: "bw = 16 * w + lw" and lw: "lw < 16" by (simp_all add: w_def lw_def)
  have "8 * (2 * w + last_lane lw div 8) = 8 * ((bw + 7) div 8)"
    using written_columns [of bw] assms(3) by (simp add: w_def lw_def last_lane_def)
  then have le: "2 * w + last_lane lw div 8 \<le> stride" using assms(2) by simp
  have "filled (source_bit inn step (16 * w + lw)) n stride (S \<union> {..<64 * (n div 64)} \<times> lane (last_lane lw) w) out
      (foldl (columns_step inn step stride w lw) out' [0..<n div 64])"
  proof (rule filled_bands)
    show "filled (source_bit inn step (16 * w + lw)) n stride S out out'" using assms(1) unfolding bw .
    show "64 * (n div 64) \<le> n" by simp
  qed (rule columns_step_filled [OF _ _ le lw])
  then show ?thesis
    unfolding w_def [symmetric] lw_def [symmetric] unfolding bw
    by (rule filled_left_over) (rule corner_step_filled [OF _ lw le])
qed

text \<open>
  C13: the transposition of a matrix of any size: it is an error when a row of the output is too
  short for the rows of the input, or when the output has more rows than the input has columns;
  otherwise bit \<open>c\<close> of row \<open>r\<close> of the output is bit \<open>r\<close> of row \<open>c\<close> of the input, the last byte is
  padded with zeros, and the bytes behind it are as they were.
\<close>

theorem sse_transpose_bits:
  assumes "view_ok out"
  shows "(sse_transpose inn out = Inl (Runtime_error ''LOCATION'') \<and>
      (8 * vStride out < view_rows inn \<or> 8 * vStride inn < view_rows out)) \<or>
    (\<exists>out'. sse_transpose inn out = Inr out' \<and> vStride out' = vStride out \<and> length (vData out') = length (vData out) \<and>
      view_rows inn \<le> 8 * vStride out \<and> view_rows out \<le> 8 * vStride inn \<and>
      (\<forall>r < view_rows out. \<forall>c < 8 * vStride out. view_bit out' r c \<longleftrightarrow>
        (if c < view_rows inn then view_bit inn c r
         else \<not> c < roundUpTo (view_rows inn) 8 \<and> view_bit out r c)))"
proof -
  define n bw stride step where "n = view_rows out" and "bw = view_rows inn" and "stride = vStride out" and "step = vStride inn"
  note defs = n_def [symmetric] bw_def [symmetric] stride_def [symmetric] step_def [symmetric]
  have n: "length (vData out) = n * stride" using assms by (simp add: view_ok_def n_def stride_def)
  have up: "roundUpTo bw 8 = 8 * ((bw + 7) div 8)" by (simp add: roundUpTo_def)
  consider "stride < (bw + 7) div 8" | "(bw + 7) div 8 \<le> stride" "step * 8 < n"
    | "(bw + 7) div 8 \<le> stride" "n \<le> step * 8" by linarith
  then show ?thesis
  proof cases
    case 1
    then have "8 * stride < bw" by linarith
    moreover have "sse_transpose inn out = Inl (Runtime_error ''LOCATION'')"
      using 1 by (simp add: sse_transpose_def Let_def defs)
    ultimately show ?thesis by (simp add: defs)
  next
    case 2
    then have "sse_transpose inn out = Inl (Runtime_error ''LOCATION'')"
      by (simp add: sse_transpose_def Let_def defs)
    then show ?thesis using 2 by (simp add: defs mult.commute)
  next
    case 3
    let ?skip = "\<lambda>hh. if hh = (n mod 64 + 7) div 8 - 1 then (8 - n mod 64 mod 8) mod 8 else 0"
    define d1 where "d1 = foldl (\<lambda>data h. foldl (square_step (vData inn) step stride h) data [0..<bw div 16])
      (vData out) [0..<n div 64]"
    define d2 where "d2 = foldl (\<lambda>data hh. foldl (rows_step (vData inn) step stride (n div 64) (?skip hh) hh)
      data [0..<bw div 16]) d1 [0..<(n mod 64 + 7) div 8]"
    define d3 where "d3 = foldl (\<lambda>data hh. corner_step (vData inn) step stride (n div 64) (bw div 16) (bw mod 16)
        (?skip hh) data hh)
      (foldl (columns_step (vData inn) step stride (bw div 16) (bw mod 16)) d2 [0..<n div 64])
      [0..<(n mod 64 + 7) div 8]"
    define d where "d = (if bw mod 16 \<noteq> 0 then d3 else d2)"
    have e: "sse_transpose inn out = Inr (out\<lparr>vData := d\<rparr>)"
      using 3 by (simp add: sse_transpose_def Let_def defs d_def d3_def d2_def d1_def)
    let ?src = "source_bit (vData inn) step bw"
    have f1: "filled ?src n stride ({} \<union> {..<64 * (n div 64)} \<times> {..<16 * (bw div 16)}) (vData out) d1"
      unfolding d1_def by (rule squares_filled [OF n 3(1)])
    have f2: "filled ?src n stride ({} \<union> {..<n} \<times> {..<16 * (bw div 16)}) (vData out) d2"
      unfolding d2_def by (rule left_rows_filled [OF f1 3(1)])
    have f: "filled ?src n stride ({..<n} \<times> {..<roundUpTo bw 8}) (vData out) d"
    proof (cases "bw mod 16 = 0")
      case True
      then show ?thesis using f2 unfolding up written_columns by (simp add: d_def)
    next
      case False
      have "filled ?src n stride ({} \<union> {..<n} \<times> {..<16 * (bw div 16)} \<union> {..<n} \<times> lane (last_lane (bw mod 16)) (bw div 16))
          (vData out) d3"
        unfolding d3_def by (rule left_columns_filled [OF f2 3(1) False])
      moreover have "{} \<union> {..<n} \<times> {..<16 * (bw div 16)} \<union> {..<n} \<times> lane (last_lane (bw mod 16)) (bw div 16) =
          {..<n} \<times> {..<roundUpTo bw 8}"
        unfolding up written_columns using False by auto
      ultimately show ?thesis using False by (simp add: d_def)
    qed
    have "bw \<le> 8 * stride" using 3(1) by linarith
    moreover have "view_bit (out\<lparr>vData := d\<rparr>) r c \<longleftrightarrow>
        (if c < bw then view_bit inn c r else \<not> c < roundUpTo bw 8 \<and> view_bit out r c)"
      if "r < n" "c < 8 * stride" for r c
      using f that roundUpTo_ge [of 8 bw]
      by (auto simp: filled_def source_bit_def view_bit_def defs)
    moreover have "length d = length (vData out)" using f n by (simp add: filled_def)
    ultimately show ?thesis using e 3(2)
      by (intro disjI2 exI [of _ "out\<lparr>vData := d\<rparr>"]) (simp add: defs mult.commute)
  qed
qed

theorem sse_transpose_bits_witness:
  "\<exists>out'. sse_transpose \<lparr>vData = [1, 3, 7], vStride = 1\<rparr> \<lparr>vData = replicate 8 0xFF, vStride = 1\<rparr> = Inr out' \<and>
     view_bit out' 0 2 \<and> view_bit out' 1 1 \<and> \<not> view_bit out' 1 0 \<and> \<not> view_bit out' 0 7"
proof -
  define inn :: u8_view where "inn = \<lparr>vData = [1, 3, 7], vStride = 1\<rparr>"
  define out :: u8_view where "out = \<lparr>vData = replicate 8 0xFF, vStride = 1\<rparr>"
  have rows: "view_rows inn = 3" "view_rows out = 8" "vStride inn = 1" "vStride out = 1" "length (vData out) = 8"
    by (simp_all add: view_rows_def inn_def out_def)
  have "view_ok out" by (simp add: view_ok_def rows)
  from sse_transpose_bits [OF this, of inn] obtain out' where
    o: "sse_transpose inn out = Inr out'" and
    b: "\<forall>r < 8. \<forall>c < 8. view_bit out' r c \<longleftrightarrow>
      (if c < 3 then view_bit inn c r else \<not> c < roundUpTo 3 8 \<and> view_bit out r c)"
    by (auto simp: rows)
  have "view_bit inn 2 0" "view_bit inn 1 1" "\<not> view_bit inn 0 1" "7 < roundUpTo 3 8"
    by (simp_all add: view_bit_def row_bit_def roundUpTo_def bit_iff_odd inn_def)
  with o b show ?thesis unfolding inn_def out_def by (intro exI [of _ out']) simp
qed

subsection \<open>Views of blocks\<close>

text \<open>The other overload casts the blocks to bytes.\<close>

definition sse_transpose_blocks :: "block list \<Rightarrow> nat \<Rightarrow> block list \<Rightarrow> nat \<Rightarrow> block list res" where
  "sse_transpose_blocks inn in_stride out out_stride =
     res_bind (sse_transpose \<lparr>vData = blocks_bytes inn, vStride = in_stride * 16\<rparr>
                             \<lparr>vData = blocks_bytes out, vStride = out_stride * 16\<rparr>)
       (\<lambda>v. Inr (bytes_blocks (length out) (vData v)))"

lemma row_bit_blocks:
  assumes "r < length bs" "c < 128"
  shows "row_bit 16 (blocks_bytes bs) r c \<longleftrightarrow> bit (bs ! r) c"
proof -
  have c: "c div 8 < 16" using assms(2) by (simp add: less_mult_imp_div_less)
  then have "16 * r + c div 8 < 16 * length bs" using assms(1) by linarith
  moreover have "(r * 16 + c div 8) div 16 = r" "(r * 16 + c div 8) mod 16 = c div 8" using c by simp_all
  ultimately show ?thesis by (simp add: row_bit_def nth_blocks_bytes byte_simps mult.commute)
qed

lemma sse_transpose_blocks_128:
  assumes "length inn = 128" "length out = 128"
  shows "sse_transpose_blocks inn 1 out 1 = Inr (sse_transpose128 inn)"
proof -
  let ?in = "\<lparr>vData = blocks_bytes inn, vStride = 16\<rparr>" and ?out = "\<lparr>vData = blocks_bytes out, vStride = 16\<rparr>"
  have rows: "view_rows ?in = 128" "view_rows ?out = 128" using assms by (simp_all add: view_rows_def)
  have "view_ok ?out" using assms by (simp add: view_ok_def rows(2))
  from sse_transpose_bits [OF this, of ?in] obtain out' where
    o: "sse_transpose ?in ?out = Inr out'" "vStride out' = 16" "length (vData out') = 2048" and
    b: "\<And>r c. r < 128 \<Longrightarrow> c < 128 \<Longrightarrow> view_bit out' r c \<longleftrightarrow> view_bit ?in c r"
    using assms by (auto simp: rows)
  have "bytes_blocks 128 (vData out') = sse_transpose128 inn"
  proof (rule nth_equalityI)
    show "length (bytes_blocks 128 (vData out')) = length (sse_transpose128 inn)"
      using sse_transpose128_bits(1) [OF assms(1)] by simp
  next
    fix r assume "r < length (bytes_blocks 128 (vData out'))"
    then have r: "r < 128" by simp
    show "bytes_blocks 128 (vData out') ! r = sse_transpose128 inn ! r"
    proof (rule bit_word_eqI)
      fix c assume "c < LENGTH(128)"
      then have c: "c < 128" by simp
      have v: "blocks_bytes (bytes_blocks 128 (vData out')) = vData out'"
        using o(3) by (intro blocks_bytes_inverse) simp
      have "bit (bytes_blocks 128 (vData out') ! r) c \<longleftrightarrow> view_bit out' r c"
        using row_bit_blocks [of r "bytes_blocks 128 (vData out')" c] r c by (simp add: v view_bit_def o(2))
      also have "\<dots> \<longleftrightarrow> bit (inn ! c) r"
        using b [OF r c] row_bit_blocks [of c inn r] assms(1) r c by (simp add: view_bit_def)
      also have "\<dots> \<longleftrightarrow> bit (sse_transpose128 inn ! r) c" using sse_transpose128_bits(2) [OF assms(1) r c] by simp
      finally show "bit (bytes_blocks 128 (vData out') ! r) c \<longleftrightarrow> bit (sse_transpose128 inn ! r) c" .
    qed
  qed
  then show ?thesis using o(1) assms(2) by (simp add: sse_transpose_blocks_def)
qed

end
