(* ===== verification/Spsc_Queue.thy ===== *)
theory Spsc_Queue
  imports Prelude
begin

text \<open>
  The queue of operations of a channel, \<^verbatim>\<open>SpscQueue\<close> of \<^verbatim>\<open>cryptoTools/Network/IoBuffer.h\<close>: a list of
  ring buffers, each four times as large as the one before, of which the first is read
  and the last is written. Its calls are serialised by a mutex, so they are functions on the state. The
  indices are 64-bit integers that count all operations and wrap around. Reading a cell that holds
  no object is \<open>None\<close>.
\<close>

subsection \<open>The interface\<close>

locale fifo_queue =
  fixes new :: 'q
    and push_back :: "'a \<Rightarrow> 'q \<Rightarrow> 'q res"
    and front :: "'q \<Rightarrow> 'a res option"
    and pop_front :: "'q \<Rightarrow> 'q res"
    and isEmpty :: "'q \<Rightarrow> bool"
    and elems :: "'q \<Rightarrow> 'a list"
    and ok :: "'q \<Rightarrow> bool"
    and room :: nat
  assumes new_ok: "ok new" "elems new = []"
    and isEmpty_iff: "ok q \<Longrightarrow> isEmpty q \<longleftrightarrow> elems q = []"
    and push_ok: "ok q \<Longrightarrow> length (elems q) < room \<Longrightarrow>
      \<exists>q'. push_back v q = Inr q' \<and> ok q' \<and> elems q' = elems q @ [v]"
    and front_ok: "ok q \<Longrightarrow> elems q = v # vs \<Longrightarrow> front q = Some (Inr v)"
    and pop_ok: "ok q \<Longrightarrow> elems q = v # vs \<Longrightarrow> \<exists>q'. pop_front q = Inr q' \<and> ok q' \<and> elems q' = vs"
    and empty_throws: "ok q \<Longrightarrow> elems q = [] \<Longrightarrow>
      front q = Some (Inl (Runtime_error ''queue is empty'')) \<and> pop_front q = Inl (Runtime_error ''queue is empty'')"
begin

lemma nonempty_elim:
  assumes "ok q" and "\<not> isEmpty q"
  obtains v q' where "front q = Some (Inr v)" and "pop_front q = Inr q'" and "ok q'" and "elems q = v # elems q'"
proof -
  obtain v vs where e: "elems q = v # vs" using assms isEmpty_iff by (cases "elems q") auto
  with pop_ok [OF assms(1) e] front_ok [OF assms(1) e] that show ?thesis by metis
qed

lemma push_elim:
  assumes "ok q" and "length (elems q) < room"
  obtains q' where "push_back v q = Inr q'" and "ok q'" and "elems q' = elems q @ [v]" and "\<not> isEmpty q'"
  using push_ok [OF assms, of v] isEmpty_iff that by fastforce

end

subsection \<open>A ring buffer\<close>

record 'a base_queue =
  mPopIdx :: u64
  mPushIdx :: u64
  mStorage :: "'a option list"

definition BaseQueue :: "nat \<Rightarrow> 'a base_queue" where
  "BaseQueue cap = \<lparr>mPopIdx = 0, mPushIdx = 0, mStorage = replicate cap None\<rparr>"

definition base_capacity :: "'a base_queue \<Rightarrow> nat" where
  "base_capacity q = length (mStorage q)"

definition base_size :: "'a base_queue \<Rightarrow> nat" where
  "base_size q = unat (mPushIdx q - mPopIdx q)"

definition base_isFull :: "'a base_queue \<Rightarrow> bool" where
  "base_isFull q \<longleftrightarrow> base_size q = base_capacity q"

definition base_isEmpty :: "'a base_queue \<Rightarrow> bool" where
  "base_isEmpty q \<longleftrightarrow> base_size q = 0"

definition base_push_back :: "'a \<Rightarrow> 'a base_queue \<Rightarrow> 'a base_queue res" where
  "base_push_back v q =
     (if base_isFull q then Inl (Runtime_error ''Queue is full'')
      else let pushIdx = unat (mPushIdx q) mod base_capacity q
           in Inr (q\<lparr>mStorage := (mStorage q)[pushIdx := Some v], mPushIdx := mPushIdx q + 1\<rparr>))"

definition base_front :: "'a base_queue \<Rightarrow> 'a res option" where
  "base_front q =
     (if mPopIdx q = mPushIdx q then Some (Inl (Runtime_error ''queue is empty''))
      else map_option Inr (mStorage q ! (unat (mPopIdx q) mod base_capacity q)))"

definition base_pop_front :: "'a base_queue \<Rightarrow> 'a base_queue res" where
  "base_pop_front q =
     (if base_isEmpty q then Inl (Runtime_error ''queue is empty'')
      else let popIdx = unat (mPopIdx q)
           in Inr (q\<lparr>mStorage := (mStorage q)[popIdx mod base_capacity q := None], mPopIdx := mPopIdx q + 1\<rparr>))"

subsection \<open>The list of ring buffers\<close>

definition SpscQueue :: "'a base_queue list" where
  "SpscQueue = [BaseQueue 64]"

definition spsc_isEmpty :: "'a base_queue list \<Rightarrow> bool" where
  "spsc_isEmpty qs = base_isEmpty (last qs)"

definition spsc_push_back :: "'a \<Rightarrow> 'a base_queue list \<Rightarrow> 'a base_queue list res" where
  "spsc_push_back v qs =
     (let qs = (if base_isFull (last qs) then qs @ [BaseQueue (base_capacity (last qs) * 4)] else qs)
      in res_bind (base_push_back v (last qs)) (\<lambda>q. Inr (butlast qs @ [q])))"

definition spsc_front :: "'a base_queue list \<Rightarrow> 'a res option" where
  "spsc_front qs = base_front (hd qs)"

definition spsc_pop_front :: "'a base_queue list \<Rightarrow> 'a base_queue list res" where
  "spsc_pop_front qs =
     res_bind (base_pop_front (hd qs)) (\<lambda>q. Inr (if base_size q = 0 \<and> length qs > 1 then tl qs else q # tl qs))"

subsection \<open>The invariant and the elements\<close>

definition base_elems :: "'a base_queue \<Rightarrow> 'a list" where
  "base_elems q = map (\<lambda>i. the (mStorage q ! ((unat (mPopIdx q) + i) mod base_capacity q))) [0..<base_size q]"

definition base_ok :: "'a base_queue \<Rightarrow> bool" where
  "base_ok q \<longleftrightarrow> (\<exists>j \<le> 62. base_capacity q = 2 ^ j) \<and> base_size q \<le> base_capacity q \<and>
     (\<forall>i < base_size q. mStorage q ! ((unat (mPopIdx q) + i) mod base_capacity q) \<noteq> None)"

definition spsc_elems :: "'a base_queue list \<Rightarrow> 'a list" where
  "spsc_elems qs = concat (map base_elems qs)"

definition spsc_ok :: "'a base_queue list \<Rightarrow> bool" where
  "spsc_ok qs \<longleftrightarrow> qs \<noteq> [] \<and> (\<forall>q \<in> set qs. base_ok q) \<and> (length qs > 1 \<longrightarrow> (\<forall>q \<in> set qs. base_size q \<noteq> 0))"

lemma length_base_elems [simp]: "length (base_elems q) = base_size q"
  by (simp add: base_elems_def)

lemma base_elems_eq_Nil [simp]: "base_elems q = [] \<longleftrightarrow> base_size q = 0"
  by (simp add: base_elems_def)

text \<open>The capacity divides the modulus of the indices, so that an index may wrap around.\<close>

lemma unat_mod_capacity:
  assumes "(cap :: nat) dvd 2 ^ 62"
  shows "unat (a + b :: u64) mod cap = (unat a + unat b) mod cap"
proof -
  have "cap dvd 2 ^ 64" using assms dvd_trans [of cap "2 ^ 62" "2 ^ 64"] by (simp add: le_imp_power_dvd)
  then show ?thesis by (simp add: unat_word_ariths(1) mod_mod_cancel)
qed

lemma base_ok_dvd: "base_ok q \<Longrightarrow> base_capacity q dvd 2 ^ 62"
proof -
  assume "base_ok q"
  then obtain j where j: "j \<le> 62" "base_capacity q = 2 ^ j" by (auto simp: base_ok_def)
  show ?thesis unfolding j(2) by (rule le_imp_power_dvd [OF j(1)])
qed

lemma capacity_bounds:
  assumes "base_capacity q dvd 2 ^ 62"
  shows "0 < base_capacity q" "base_capacity q \<le> 2 ^ 62"
  using assms by (auto dest: dvd_imp_le intro: gr0I)

lemma ring_index_neq:
  fixes cap :: nat
  assumes "i < j" "j < cap + i"
  shows "(p + i) mod cap \<noteq> (p + j) mod cap"
proof
  assume "(p + i) mod cap = (p + j) mod cap"
  then have "cap dvd (p + j) - (p + i)" using assms(1) by (intro mod_eq_dvd_iff_nat [THEN iffD1]) simp_all
  then have "cap dvd j - i" by simp
  then show False using assms by (auto dest: dvd_imp_le)
qed

lemma base_push_back_ok:
  assumes "base_ok q" and "\<not> base_isFull q"
  obtains q' where "base_push_back v q = Inr q'" and "base_ok q'" and "base_elems q' = base_elems q @ [v]"
    and "base_capacity q' = base_capacity q"
proof -
  let ?cap = "base_capacity q" and ?p = "unat (mPopIdx q)" and ?n = "base_size q"
  define q' where "q' = q\<lparr>mStorage := (mStorage q)[unat (mPushIdx q) mod ?cap := Some v], mPushIdx := mPushIdx q + 1\<rparr>"
  have cap: "?cap dvd 2 ^ 62" using assms(1) by (rule base_ok_dvd)
  have lt: "?n < ?cap" using assms by (auto simp: base_ok_def base_isFull_def)
  note cb = capacity_bounds [OF cap]
  have "unat (mPushIdx q - mPopIdx q + 1) = ?n + 1"
    using lt cb unfolding base_size_def by (subst unat_word_ariths(1)) (simp add: unat_1)
  then have n: "base_size q' = Suc ?n" by (simp add: q'_def base_size_def algebra_simps)
  have "unat (mPopIdx q + (mPushIdx q - mPopIdx q)) mod ?cap = (?p + ?n) mod ?cap"
    unfolding unat_mod_capacity [OF cap] base_size_def ..
  then have at: "unat (mPushIdx q) mod ?cap = (?p + ?n) mod ?cap" by simp
  have c: "base_capacity q' = ?cap" by (simp add: q'_def base_capacity_def)
  have cell: "mStorage q' ! ((?p + i) mod ?cap) = (if i = ?n then Some v else mStorage q ! ((?p + i) mod ?cap))"
    if "i \<le> ?n" for i
  proof (cases "i = ?n")
    case True
    have "(?p + ?n) mod ?cap < length (mStorage q)" using cb(1) by (simp add: base_capacity_def)
    then show ?thesis using True by (simp add: q'_def at)
  next
    case False
    then have "(?p + i) mod ?cap \<noteq> (?p + ?n) mod ?cap" using that lt by (intro ring_index_neq) auto
    then show ?thesis using False by (simp add: q'_def at)
  qed
  have p: "mPopIdx q' = mPopIdx q" by (simp add: q'_def)
  have "base_ok q'"
    using assms(1) cell lt by (auto simp: base_ok_def n c p less_Suc_eq)
  moreover have "base_elems q' = base_elems q @ [v]"
    using cell by (simp add: base_elems_def n c p)
  moreover have "base_push_back v q = Inr q'"
    using assms(2) by (simp add: base_push_back_def q'_def)
  ultimately show ?thesis using that c by blast
qed

lemma base_pop_front_ok:
  assumes "base_ok q" and "base_elems q = v # vs"
  obtains q' where "base_front q = Some (Inr v)" and "base_pop_front q = Inr q'" and "base_ok q'" and "base_elems q' = vs"
proof -
  let ?cap = "base_capacity q" and ?p = "unat (mPopIdx q)" and ?n = "base_size q"
  define q' where "q' = q\<lparr>mStorage := (mStorage q)[?p mod ?cap := None], mPopIdx := mPopIdx q + 1\<rparr>"
  have cap: "?cap dvd 2 ^ 62" using assms(1) by (rule base_ok_dvd)
  have le: "?n \<le> ?cap" and pow: "\<exists>j \<le> 62. ?cap = 2 ^ j" using assms(1) by (auto simp: base_ok_def)
  note cb = capacity_bounds [OF cap]
  have n0: "?n = Suc (length vs)" using arg_cong [OF assms(2), of length] by simp
  then have d: "mPushIdx q - mPopIdx q \<noteq> 0" "mPopIdx q \<noteq> mPushIdx q" by (auto simp: base_size_def)
  have "unat (mPushIdx q - mPopIdx q - 1) = ?n - 1" using d by (simp add: base_size_def unat_minus_one)
  then have n: "base_size q' = length vs" using n0 by (simp add: q'_def base_size_def algebra_simps)
  have c: "base_capacity q' = ?cap" by (simp add: q'_def base_capacity_def)
  have p: "(unat (mPopIdx q') + i) mod ?cap = (?p + Suc i) mod ?cap" for i
    using unat_mod_capacity [OF cap, of "mPopIdx q" 1] by (simp add: q'_def) (metis add.commute add_Suc_right mod_add_left_eq plus_1_eq_Suc)
  have cell: "mStorage q' ! ((?p + Suc i) mod ?cap) = mStorage q ! ((?p + Suc i) mod ?cap)" if "i < length vs" for i
  proof -
    have "(?p + 0) mod ?cap \<noteq> (?p + Suc i) mod ?cap" using that n0 le by (intro ring_index_neq) auto
    then show ?thesis by (simp add: q'_def)
  qed
  have some: "\<forall>i < Suc (length vs). mStorage q ! ((?p + i) mod ?cap) \<noteq> None"
    using assms(1) n0 by (simp add: base_ok_def)
  have vs: "v # vs = map (\<lambda>i. the (mStorage q ! ((?p + i) mod ?cap))) (0 # map Suc [0..<length vs])"
  proof -
    have "[0..<Suc (length vs)] = 0 # map Suc [0..<length vs]"
      by (simp add: upt_conv_Cons map_Suc_upt del: upt_Suc)
    then show ?thesis using assms(2) unfolding base_elems_def n0 by (simp only:)
  qed
  then have "the (mStorage q ! (?p mod ?cap)) = v" by simp
  moreover have "mStorage q ! (?p mod ?cap) \<noteq> None" using some by force
  ultimately have "mStorage q ! (?p mod ?cap) = Some v" by force
  then have "base_front q = Some (Inr v)" using d by (simp add: base_front_def)
  moreover have "base_pop_front q = Inr q'" using n0 by (simp add: base_pop_front_def base_isEmpty_def q'_def)
  moreover have "base_ok q'"
    using pow le n0 some cell by (auto simp: base_ok_def n c p)
  moreover have "base_elems q' = vs"
  proof -
    have "base_elems q' = map (\<lambda>i. the (mStorage q ! ((?p + Suc i) mod ?cap))) [0..<length vs]"
      using cell by (simp add: base_elems_def n c p)
    also have "\<dots> = vs" using vs by (simp add: o_def)
    finally show ?thesis .
  qed
  ultimately show ?thesis using that by blast
qed

lemma base_empty:
  assumes "base_size q = 0"
  shows "base_front q = Some (Inl (Runtime_error ''queue is empty''))" "base_pop_front q = Inl (Runtime_error ''queue is empty'')"
proof -
  have "mPushIdx q - mPopIdx q = 0" using assms by (simp add: base_size_def unat_eq_0)
  then show "base_front q = Some (Inl (Runtime_error ''queue is empty''))" by (simp add: base_front_def)
  show "base_pop_front q = Inl (Runtime_error ''queue is empty'')" using assms by (simp add: base_pop_front_def base_isEmpty_def)
qed

lemma BaseQueue_ok: "cap = 2 ^ j \<Longrightarrow> j \<le> 62 \<Longrightarrow> base_ok (BaseQueue cap)"
  by (auto simp: base_ok_def BaseQueue_def base_size_def base_capacity_def)

lemma BaseQueue_simps [simp]: "base_size (BaseQueue cap) = 0"
  "base_capacity (BaseQueue cap) = cap" "base_elems (BaseQueue cap) = []"
  by (simp_all add: BaseQueue_def base_size_def base_capacity_def base_elems_def)

subsection \<open>The properties of the queue\<close>

lemma spsc_push_ok:
  assumes "spsc_ok qs" and "length (spsc_elems qs) < 2 ^ 60"
  shows "\<exists>qs'. spsc_push_back v qs = Inr qs' \<and> spsc_ok qs' \<and> spsc_elems qs' = spsc_elems qs @ [v]"
proof -
  obtain ps q where qs: "qs = ps @ [q]" using assms(1) by (metis rev_exhaust spsc_ok_def)
  have q: "base_ok q" and ps: "\<forall>p \<in> set ps. base_ok p \<and> base_size p \<noteq> 0"
    and q0: "ps \<noteq> [] \<longrightarrow> base_size q \<noteq> 0"
    using assms(1) by (auto simp: spsc_ok_def qs)
  show ?thesis
  proof (cases "base_isFull q")
    case False
    obtain q' where q': "base_push_back v q = Inr q'" "base_ok q'" "base_elems q' = base_elems q @ [v]"
      by (rule base_push_back_ok [OF q False])
    then have "base_size q' \<noteq> 0" using base_elems_eq_Nil [of q'] by simp
    then show ?thesis using False q' ps
      by (auto simp: spsc_push_back_def qs spsc_ok_def spsc_elems_def)
  next
    case True
    let ?cap = "base_capacity q" and ?b = "BaseQueue (base_capacity q * 4) :: 'a base_queue"
    have cap: "?cap dvd 2 ^ 62" using q by (rule base_ok_dvd)
    obtain j where j: "?cap = 2 ^ j" using q by (auto simp: base_ok_def)
    have "?cap \<le> length (spsc_elems qs)" using True by (simp add: spsc_elems_def qs base_isFull_def)
    then have "2 ^ j < (2 :: nat) ^ 60" using assms(2) unfolding j by linarith
    then have "j < 60" by (rule power_less_imp_less_exp [rotated]) simp
    then have B: "base_ok ?b" by (intro BaseQueue_ok [of _ "j + 2"]) (simp_all only: j power_add, simp_all)
    have "\<not> base_isFull ?b" using capacity_bounds(1) [OF cap] by (simp add: base_isFull_def)
    then obtain q' where q': "base_push_back v ?b = Inr q'" "base_ok q'" "base_elems q' = base_elems ?b @ [v]"
      by (rule base_push_back_ok [OF B])
    then have n: "base_size q' \<noteq> 0" using base_elems_eq_Nil [of q'] by simp
    have "base_size q \<noteq> 0" using True capacity_bounds(1) [OF cap] by (simp add: base_isFull_def)
    then have "spsc_ok (ps @ [q, q'])" using n q q'(2) ps by (simp add: spsc_ok_def)
    moreover have "spsc_push_back v qs = Inr (ps @ [q, q'])"
      using True q'(1) by (simp add: spsc_push_back_def qs butlast_append)
    moreover have "spsc_elems (ps @ [q, q']) = spsc_elems qs @ [v]"
      using q'(3) by (simp add: spsc_elems_def qs)
    ultimately show ?thesis by blast
  qed
qed

lemma spsc_isEmpty_iff:
  assumes "spsc_ok qs"
  shows "spsc_isEmpty qs \<longleftrightarrow> spsc_elems qs = []"
proof (cases "length qs > 1")
  case True
  then have "\<forall>q \<in> set qs. base_size q \<noteq> 0" "last qs \<in> set qs" using assms by (auto simp: spsc_ok_def)
  then show ?thesis by (auto simp: spsc_isEmpty_def base_isEmpty_def spsc_elems_def)
next
  case False
  then obtain q where "qs = [q]" using assms by (cases qs) (auto simp: spsc_ok_def)
  then show ?thesis by (simp add: spsc_isEmpty_def base_isEmpty_def spsc_elems_def)
qed

lemma spsc_front_pop:
  assumes "spsc_ok qs" and "spsc_elems qs = v # vs"
  shows "spsc_front qs = Some (Inr v)"
    and "\<exists>qs'. spsc_pop_front qs = Inr qs' \<and> spsc_ok qs' \<and> spsc_elems qs' = vs"
proof -
  obtain q ps where qs: "qs = q # ps" using assms(1) by (cases qs) (auto simp: spsc_ok_def)
  have q: "base_ok q" and ps: "\<forall>p \<in> set ps. base_ok p \<and> base_size p \<noteq> 0"
    and q0: "ps \<noteq> [] \<longrightarrow> base_size q \<noteq> 0"
    using assms(1) by (auto simp: spsc_ok_def qs)
  have "base_elems q \<noteq> []"
  proof
    assume e: "base_elems q = []"
    with q0 have "ps = []" by auto
    then have "spsc_elems qs = base_elems q" by (simp add: spsc_elems_def qs)
    with e assms(2) show False by (metis list.distinct(1))
  qed
  then obtain us where us: "base_elems q = v # us" "vs = us @ concat (map base_elems ps)"
    using assms(2) by (cases "base_elems q") (auto simp: spsc_elems_def qs)
  obtain q' where q': "base_front q = Some (Inr v)" "base_pop_front q = Inr q'" "base_ok q'" "base_elems q' = us"
    by (rule base_pop_front_ok [OF q us(1)])
  show "spsc_front qs = Some (Inr v)" using q'(1) by (simp add: spsc_front_def qs)
  show "\<exists>qs'. spsc_pop_front qs = Inr qs' \<and> spsc_ok qs' \<and> spsc_elems qs' = vs"
  proof (cases "base_size q' = 0 \<and> ps \<noteq> []")
    case True
    then have "us = []" using q'(4) base_elems_eq_Nil [of q'] by simp
    with True show ?thesis using q'(2) ps us(2) by (auto simp: spsc_pop_front_def qs spsc_ok_def spsc_elems_def)
  next
    case False
    then show ?thesis using q' ps us(2) by (auto simp: spsc_pop_front_def qs spsc_ok_def spsc_elems_def)
  qed
qed

lemma spsc_empty_throws:
  assumes "spsc_ok qs" and "spsc_elems qs = []"
  shows "spsc_front qs = Some (Inl (Runtime_error ''queue is empty'')) \<and> spsc_pop_front qs = Inl (Runtime_error ''queue is empty'')"
proof -
  have "base_size (hd qs) = 0" using assms hd_in_set [of qs] by (auto simp: spsc_ok_def spsc_elems_def)
  from base_empty [OF this] show ?thesis by (simp add: spsc_front_def spsc_pop_front_def)
qed

lemma SpscQueue_ok: "spsc_ok SpscQueue" "spsc_elems SpscQueue = []"
proof -
  have "base_ok (BaseQueue 64)" by (rule BaseQueue_ok [of _ 6]) simp_all
  then show "spsc_ok SpscQueue" "spsc_elems SpscQueue = []"
    by (simp_all add: spsc_ok_def spsc_elems_def SpscQueue_def)
qed

interpretation spsc: fifo_queue SpscQueue spsc_push_back spsc_front spsc_pop_front spsc_isEmpty spsc_elems spsc_ok "2 ^ 60"
  by unfold_locales
    (rule SpscQueue_ok | erule spsc_isEmpty_iff | erule (1) spsc_push_ok spsc_front_pop spsc_empty_throws)+

text \<open>
  C38: the list of ring buffers is a first-in first-out queue. A new queue is empty, and while the
  invariant holds, which every operation keeps, \<open>isEmpty\<close>, which only looks at the last buffer, tells
  whether there are elements at all, a push, also one that finds the last buffer full, appends, \<open>front\<close>
  and \<open>pop_front\<close> read and remove the oldest element, or throw when there is none. The indices may
  wrap around.
\<close>

theorem spsc_fifo:
  fixes qs :: "'a base_queue list"
  assumes "spsc_ok qs"
  shows "spsc_ok (SpscQueue :: 'a base_queue list) \<and> spsc_elems (SpscQueue :: 'a base_queue list) = [] \<and>
    (spsc_isEmpty qs \<longleftrightarrow> spsc_elems qs = []) \<and>
    (length (spsc_elems qs) < 2 ^ 60 \<longrightarrow>
      (\<exists>qs'. spsc_push_back v qs = Inr qs' \<and> spsc_ok qs' \<and> spsc_elems qs' = spsc_elems qs @ [v])) \<and>
    (case spsc_elems qs of
       [] \<Rightarrow> spsc_front qs = Some (Inl (Runtime_error ''queue is empty'')) \<and>
             spsc_pop_front qs = Inl (Runtime_error ''queue is empty'')
     | u # us \<Rightarrow> spsc_front qs = Some (Inr u) \<and>
             (\<exists>qs'. spsc_pop_front qs = Inr qs' \<and> spsc_ok qs' \<and> spsc_elems qs' = us))"
  using spsc_isEmpty_iff [OF assms] spsc_push_ok [OF assms] spsc_front_pop [OF assms]
    spsc_empty_throws [OF assms]
  by (simp add: SpscQueue_ok split: list.split)

text \<open>A buffer of two cells that is full and whose indices are about to wrap around.\<close>

theorem spsc_fifo_witness:
  "\<exists>qs. spsc_push_back 9 [\<lparr>mPopIdx = 0xFFFFFFFFFFFFFFFE, mPushIdx = 0, mStorage = [Some 7, Some (8 :: nat)]\<rparr>] = Inr qs \<and>
     spsc_elems qs = [7, 8, 9]"
proof -
  let ?q = "\<lparr>mPopIdx = 0xFFFFFFFFFFFFFFFE, mPushIdx = 0, mStorage = [Some 7, Some (8 :: nat)]\<rparr>"
  have s: "base_size ?q = 2" "base_capacity ?q = 2" by (simp_all add: base_size_def base_capacity_def)
  have p: "unat (mPopIdx ?q) = 0xFFFFFFFFFFFFFFFE" by simp
  have two: "[0..<2] = [0, 1 :: nat]" by (simp add: upt_rec)
  have e: "base_elems ?q = [7, 8]" unfolding base_elems_def s p two by simp
  have "\<forall>i \<in> set [0..<2]. mStorage ?q ! ((unat (mPopIdx ?q) + i) mod 2) \<noteq> None" unfolding p two by simp
  then have "\<forall>i < 2. mStorage ?q ! ((unat (mPopIdx ?q) + i) mod 2) \<noteq> None"
    by (simp only: set_upt atLeastLessThan_iff Ball_def) simp
  then have "base_ok ?q" unfolding base_ok_def s by (intro conjI exI [of _ 1]) simp_all
  then have "spsc_ok [?q]" by (simp add: spsc_ok_def)
  from spsc_fifo [OF this, of 9] show ?thesis by (auto simp: spsc_elems_def e)
qed

end
