(* ===== verification/Channel_Queue.thy ===== *)
theory Channel_Queue
  imports Message_Channel Spsc_Queue
begin

text \<open>
  One direction of a channel, from the calls of \<^verbatim>\<open>asyncSend\<close> on the one side to the completed
  receive operations on the other: the queues of operations of both sides, the handlers that the
  strands run (\<^verbatim>\<open>ChannelBase\<close> in \<^verbatim>\<open>cryptoTools/Network/Channel.cpp\<close>), and the operations that are performed,
  \<^verbatim>\<open>FixedSendBuff\<close> and \<^verbatim>\<open>FixedRecvBuff\<close> of \<^verbatim>\<open>IoBuffer.cpp\<close>, with the header of four bytes that
  every message has on the wire. A handler that is posted or dispatched is a step of its own, so that a run
  is any interleaving of the handlers of both sides and of the calls of the clients. The socket is a stream of bytes: a
  write appends, a read waits for the number of bytes it asks for. Operations refer to the buffers
  of the clients by address; the bytes are read when the operation is performed. A new channel
  has been given its socket, and the two handlers of \<^verbatim>\<open>startSocket\<close> are still to run. Its status stays
  \<^verbatim>\<open>Normal\<close>: errors of the socket, closing, cancelling and the recovery from a buffer of the wrong size are left out. A step that is not
  enabled is \<open>None\<close>, one that throws is an error.
\<close>

subsection \<open>State\<close>

datatype send_phase = Send_closed | Send_idle | Send_dispatched | Send_written

datatype recv_phase = Recv_closed | Recv_idle | Recv_dispatched | Recv_header | Recv_body | Recv_bad | Recv_done

text \<open>
  An operation is the address and the size of its buffer. The last three fields are the history of the calls: the
  contents of the buffers as they were when \<^verbatim>\<open>asyncSend\<close> was called, the sizes of the receive
  operations, and the bytes that the completed ones wrote to their buffers.
\<close>

record channel_ends =
  sendMem :: "nat \<Rightarrow> u8 list"
  mSendQueue :: "(nat \<times> nat) base_queue list"
  sendPosts :: nat
  mSendSocketAvailable :: bool
  sendPhase :: send_phase
  socket :: "u8 list"
  recvMem :: "nat \<Rightarrow> u8 list"
  mRecvQueue :: "(nat \<times> nat) base_queue list"
  recvPosts :: nat
  mRecvSocketAvailable :: bool
  recvPhase :: recv_phase
  mHeaderSize :: nat
  sent :: "u8 list list"
  asked :: "nat list"
  got :: "u8 list list"

definition new_channel :: "(nat \<Rightarrow> u8 list) \<Rightarrow> (nat \<Rightarrow> u8 list) \<Rightarrow> channel_ends" where
  "new_channel smem rmem =
     \<lparr>sendMem = smem, mSendQueue = SpscQueue, sendPosts = 0, mSendSocketAvailable = False, sendPhase = Send_closed,
      socket = [],
      recvMem = rmem, mRecvQueue = SpscQueue, recvPosts = 0, mRecvSocketAvailable = False, recvPhase = Recv_closed,
      mHeaderSize = 0, sent = [], asked = [], got = []\<rparr>"

subsection \<open>Sending\<close>

definition sendEnque :: "nat \<times> nat \<Rightarrow> channel_ends \<Rightarrow> channel_ends res" where
  "sendEnque op c =
     res_bind (spsc_push_back op (mSendQueue c)) (\<lambda>q. Inr (c\<lparr>mSendQueue := q, sendPosts := sendPosts c + 1\<rparr>))"

definition asyncSend_op :: "nat \<Rightarrow> nat \<Rightarrow> channel_ends \<Rightarrow> channel_ends res option" where
  "asyncSend_op buff len c =
     (if sendable_size len
      then Some (sendEnque (buff, len) (c\<lparr>sent := sent c @ [take len (sendMem c buff)]\<rparr>)) else None)"

definition asyncPerformSend :: "channel_ends \<Rightarrow> channel_ends res" where
  "asyncPerformSend c =
     (if \<not> mSendSocketAvailable c then Inl (Runtime_error ''LOCATION'')
      else Inr (c\<lparr>mSendSocketAvailable := False, sendPhase := Send_dispatched\<rparr>))"

text \<open>The handlers that \<^verbatim>\<open>startSocket\<close> and \<^verbatim>\<open>sendEnque\<close> post.\<close>

definition startSocket_send :: "channel_ends \<Rightarrow> channel_ends res option" where
  "startSocket_send c =
     (if sendPhase c \<noteq> Send_closed then None
      else let c = c\<lparr>mSendSocketAvailable := True, sendPhase := Send_idle\<rparr>
           in Some (if \<not> spsc_isEmpty (mSendQueue c) then asyncPerformSend c else Inr c))"

definition send_posted :: "channel_ends \<Rightarrow> channel_ends res option" where
  "send_posted c =
     (if sendPosts c = 0 then None
      else let c = c\<lparr>sendPosts := sendPosts c - 1\<rparr>
           in Some (if \<not> spsc_isEmpty (mSendQueue c) \<and> mSendSocketAvailable c then asyncPerformSend c else Inr c))"

text \<open>\<^verbatim>\<open>FixedSendBuff::asyncPerform\<close>: the header and the buffer are handed to the socket.\<close>

definition send_perform :: "channel_ends \<Rightarrow> channel_ends res option" where
  "send_perform c =
     (if sendPhase c \<noteq> Send_dispatched then None
      else map_option (\<lambda>op. res_bind op (\<lambda>(buff, len).
               Inr (c\<lparr>socket := socket c @ word_bytes 4 (of_nat len :: u32) @ take len (sendMem c buff),
                      sendPhase := Send_written\<rparr>)))
             (spsc_front (mSendQueue c)))"

definition send_complete :: "channel_ends \<Rightarrow> channel_ends res option" where
  "send_complete c =
     (if sendPhase c \<noteq> Send_written then None
      else let c = c\<lparr>mSendSocketAvailable := True, sendPhase := Send_idle\<rparr>
           in Some (res_bind (spsc_pop_front (mSendQueue c)) (\<lambda>q.
                let c = c\<lparr>mSendQueue := q\<rparr>
                in if \<not> spsc_isEmpty q then asyncPerformSend c else Inr c)))"

subsection \<open>Receiving\<close>

definition recvEnque :: "nat \<times> nat \<Rightarrow> channel_ends \<Rightarrow> channel_ends res" where
  "recvEnque op c =
     res_bind (spsc_push_back op (mRecvQueue c)) (\<lambda>q. Inr (c\<lparr>mRecvQueue := q, recvPosts := recvPosts c + 1\<rparr>))"

definition asyncRecv_op :: "nat \<Rightarrow> nat \<Rightarrow> channel_ends \<Rightarrow> channel_ends res option" where
  "asyncRecv_op buff len c =
     (if sendable_size len then Some (recvEnque (buff, len) (c\<lparr>asked := asked c @ [len]\<rparr>)) else None)"

definition asyncPerformRecv :: "channel_ends \<Rightarrow> channel_ends res" where
  "asyncPerformRecv c =
     (if \<not> mRecvSocketAvailable c then Inl (Runtime_error ''LOCATION'')
      else Inr (c\<lparr>mRecvSocketAvailable := False, recvPhase := Recv_dispatched\<rparr>))"

definition startSocket_recv :: "channel_ends \<Rightarrow> channel_ends res option" where
  "startSocket_recv c =
     (if recvPhase c \<noteq> Recv_closed then None
      else let c = c\<lparr>mRecvSocketAvailable := True, recvPhase := Recv_idle\<rparr>
           in Some (if \<not> spsc_isEmpty (mRecvQueue c) then asyncPerformRecv c else Inr c))"

definition recv_posted :: "channel_ends \<Rightarrow> channel_ends res option" where
  "recv_posted c =
     (if recvPosts c = 0 then None
      else let c = c\<lparr>recvPosts := recvPosts c - 1\<rparr>
           in Some (if \<not> spsc_isEmpty (mRecvQueue c) \<and> mRecvSocketAvailable c then asyncPerformRecv c else Inr c))"

text \<open>
  \<^verbatim>\<open>FixedRecvBuff::asyncPerform\<close>: it asks the socket for a header; when that has arrived it is compared with
  the size of the buffer, which cannot be resized, and the body is asked for, or the promise of the operation gets
  the exception \<^verbatim>\<open>BadReceiveBufferSize\<close> and the operation stays at the front of the queue.
\<close>

definition recv_perform :: "channel_ends \<Rightarrow> channel_ends res option" where
  "recv_perform c = (if recvPhase c \<noteq> Recv_dispatched then None else Some (Inr (c\<lparr>recvPhase := Recv_header\<rparr>)))"

definition recv_header :: "channel_ends \<Rightarrow> channel_ends res option" where
  "recv_header c =
     (if recvPhase c \<noteq> Recv_header \<or> length (socket c) < 4 then None
      else map_option (\<lambda>op. res_bind op (\<lambda>(buff, len).
             let n = unat (bytes_le (take 4 (socket c)) :: u32)
             in Inr (c\<lparr>socket := drop 4 (socket c), mHeaderSize := n,
                       recvPhase := (if n \<noteq> len then Recv_bad else Recv_body)\<rparr>)))
           (spsc_front (mRecvQueue c)))"

definition recv_body :: "channel_ends \<Rightarrow> channel_ends res option" where
  "recv_body c =
     (if recvPhase c \<noteq> Recv_body then None
      else Option.bind (spsc_front (mRecvQueue c)) (\<lambda>op. case op of
             Inl e \<Rightarrow> Some (Inl e)
           | Inr (buff, len) \<Rightarrow>
               if length (socket c) < len then None
               else Some (Inr (c\<lparr>socket := drop len (socket c),
                                 recvMem := (recvMem c)(buff := take len (socket c) @ drop len (recvMem c buff)),
                                 got := got c @ [take len (socket c)], recvPhase := Recv_done\<rparr>))))"

definition recv_complete :: "channel_ends \<Rightarrow> channel_ends res option" where
  "recv_complete c =
     (if recvPhase c \<noteq> Recv_done then None
      else let c = c\<lparr>mRecvSocketAvailable := True, recvPhase := Recv_idle\<rparr>
           in Some (res_bind (spsc_pop_front (mRecvQueue c)) (\<lambda>q.
                let c = c\<lparr>mRecvQueue := q\<rparr>
                in if \<not> spsc_isEmpty q then asyncPerformRecv c else Inr c)))"

subsection \<open>Runs\<close>

definition handlers :: "(channel_ends \<Rightarrow> channel_ends res option) list" where
  "handlers = [startSocket_send, startSocket_recv, send_posted, send_perform, send_complete, recv_posted,
     recv_perform, recv_header, recv_body, recv_complete]"

definition chan_internal :: "channel_ends \<Rightarrow> channel_ends \<Rightarrow> bool" where
  "chan_internal c c' \<longleftrightarrow> (\<exists>f \<in> set handlers. f c = Some (Inr c'))"

text \<open>
  A client may call the two operations, with a buffer that is there, and may write to a buffer that no queued
  operation refers to. The queues do not get as long as \<open>2 ^ 60\<close>, which would not fit the memory.
\<close>

inductive chan_step :: "channel_ends \<Rightarrow> channel_ends \<Rightarrow> bool" where
  handler: "chan_internal c c' \<Longrightarrow> chan_step c c'"
| call_send: "n < 2 ^ 64 \<Longrightarrow> n \<le> length (sendMem c buff) \<Longrightarrow> length (spsc_elems (mSendQueue c)) < 2 ^ 60 \<Longrightarrow>
    asyncSend_op buff n c = Some (Inr c') \<Longrightarrow> chan_step c c'"
| call_recv: "n < 2 ^ 64 \<Longrightarrow> length (spsc_elems (mRecvQueue c)) < 2 ^ 60 \<Longrightarrow>
    asyncRecv_op buff n c = Some (Inr c') \<Longrightarrow> chan_step c c'"
| write_buffer: "buff \<notin> fst ` set (spsc_elems (mSendQueue c)) \<Longrightarrow>
    chan_step c (c\<lparr>sendMem := (sendMem c)(buff := bytes)\<rparr>)"

inductive chan_reach :: "channel_ends \<Rightarrow> channel_ends \<Rightarrow> bool" for c where
  chan_refl: "chan_reach c c"
| chan_trans: "chan_reach c x \<Longrightarrow> chan_step x y \<Longrightarrow> chan_reach c y"

subsection \<open>The invariant\<close>

definition send_ok :: "channel_ends \<Rightarrow> bool" where
  "send_ok c \<longleftrightarrow> spsc_ok (mSendQueue c) \<and> (mSendSocketAvailable c \<longleftrightarrow> sendPhase c = Send_idle) \<and>
     (sendPhase c \<noteq> Send_idle \<and> sendPhase c \<noteq> Send_closed \<longrightarrow> spsc_elems (mSendQueue c) \<noteq> []) \<and>
     (sendPhase c = Send_idle \<longrightarrow> spsc_elems (mSendQueue c) \<noteq> [] \<longrightarrow> 0 < sendPosts c) \<and>
     (\<forall>(a, n) \<in> set (spsc_elems (mSendQueue c)). 0 < n \<and> n < 2 ^ 32 - 1 \<and> n \<le> length (sendMem c a))"

definition recv_ok :: "channel_ends \<Rightarrow> bool" where
  "recv_ok c \<longleftrightarrow> spsc_ok (mRecvQueue c) \<and> (mRecvSocketAvailable c \<longleftrightarrow> recvPhase c = Recv_idle) \<and>
     (recvPhase c \<noteq> Recv_idle \<and> recvPhase c \<noteq> Recv_closed \<longrightarrow> spsc_elems (mRecvQueue c) \<noteq> []) \<and>
     (recvPhase c = Recv_idle \<longrightarrow> spsc_elems (mRecvQueue c) \<noteq> [] \<longrightarrow> 0 < recvPosts c) \<and>
     (recvPhase c = Recv_body \<longrightarrow> mHeaderSize c = snd (hd (spsc_elems (mRecvQueue c)))) \<and>
     (recvPhase c = Recv_bad \<longrightarrow> mHeaderSize c \<noteq> snd (hd (spsc_elems (mRecvQueue c)))) \<and>
     mHeaderSize c < 2 ^ 32 \<and> (\<forall>(a, n) \<in> set (spsc_elems (mRecvQueue c)). sendable_size n)"

text \<open>The operations whose bytes are not yet in the socket, and those that did not get their bytes.\<close>

definition unsent :: "channel_ends \<Rightarrow> (nat \<times> nat) list" where
  "unsent c = (if sendPhase c = Send_written then tl (spsc_elems (mSendQueue c)) else spsc_elems (mSendQueue c))"

definition unanswered :: "channel_ends \<Rightarrow> (nat \<times> nat) list" where
  "unanswered c = (if recvPhase c = Recv_done then tl (spsc_elems (mRecvQueue c)) else spsc_elems (mRecvQueue c))"

definition frame_bytes :: "u8 list \<Rightarrow> u8 list" where
  "frame_bytes m = word_bytes 4 (of_nat (length m) :: u32) @ m"

definition header_read :: "channel_ends \<Rightarrow> u8 list" where
  "header_read c = (if recvPhase c = Recv_body \<or> recvPhase c = Recv_bad then word_bytes 4 (of_nat (mHeaderSize c) :: u32) else [])"

definition op_bytes :: "channel_ends \<Rightarrow> nat \<times> nat \<Rightarrow> u8 list" where
  "op_bytes c op = take (snd op) (sendMem c (fst op))"

text \<open>The messages that are on the wire, \<open>mid\<close>, are in the socket, but for a header that has been read.\<close>

definition wire_ok :: "channel_ends \<Rightarrow> u8 list list \<Rightarrow> bool" where
  "wire_ok c mid \<longleftrightarrow> sent c = got c @ mid @ map (op_bytes c) (unsent c) \<and>
     concat (map frame_bytes mid) = header_read c @ socket c \<and> (\<forall>m \<in> set mid. length m < 2 ^ 32)"

definition chan_ok :: "channel_ends \<Rightarrow> bool" where
  "chan_ok c \<longleftrightarrow> send_ok c \<and> recv_ok c \<and> (\<exists>mid. wire_ok c mid) \<and>
     asked c = map length (got c) @ map snd (unanswered c)"

text \<open>Every handler brings the channel closer to rest.\<close>

fun send_rank :: "send_phase \<Rightarrow> nat" where
  "send_rank Send_closed = 4"
| "send_rank Send_idle = 3"
| "send_rank Send_dispatched = 2"
| "send_rank Send_written = 1"

fun recv_rank :: "recv_phase \<Rightarrow> nat" where
  "recv_rank Recv_closed = 6"
| "recv_rank Recv_idle = 5"
| "recv_rank Recv_dispatched = 4"
| "recv_rank Recv_header = 3"
| "recv_rank Recv_body = 2"
| "recv_rank Recv_bad = 2"
| "recv_rank Recv_done = 1"

definition chan_rank :: "channel_ends \<Rightarrow> nat" where
  "chan_rank c = sendPosts c + 3 * length (spsc_elems (mSendQueue c)) + send_rank (sendPhase c) +
     recvPosts c + 5 * length (spsc_elems (mRecvQueue c)) + recv_rank (recvPhase c)"

subsection \<open>The handlers keep the invariant\<close>

lemma unsent_simps [simp]:
  "sendPhase c = Send_closed \<Longrightarrow> unsent c = spsc_elems (mSendQueue c)"
  "sendPhase c = Send_idle \<Longrightarrow> unsent c = spsc_elems (mSendQueue c)"
  "sendPhase c = Send_dispatched \<Longrightarrow> unsent c = spsc_elems (mSendQueue c)"
  "sendPhase c = Send_written \<Longrightarrow> unsent c = tl (spsc_elems (mSendQueue c))"
  by (simp_all add: unsent_def)

lemma unanswered_simps [simp]:
  "recvPhase c = Recv_done \<Longrightarrow> unanswered c = tl (spsc_elems (mRecvQueue c))"
  "recvPhase c \<noteq> Recv_done \<Longrightarrow> unanswered c = spsc_elems (mRecvQueue c)"
  by (simp_all add: unanswered_def)

lemma header_read_simps [simp]:
  "recvPhase c \<noteq> Recv_body \<Longrightarrow> recvPhase c \<noteq> Recv_bad \<Longrightarrow> header_read c = []"
  "recvPhase c = Recv_body \<Longrightarrow> header_read c = word_bytes 4 (of_nat (mHeaderSize c) :: u32)"
  "recvPhase c = Recv_bad \<Longrightarrow> header_read c = word_bytes 4 (of_nat (mHeaderSize c) :: u32)"
  by (simp_all add: header_read_def)

text \<open>The receiving side does not see the steps of the sending side but for the socket, and conversely.\<close>

lemma recv_frame [simp]:
  "recv_ok (c\<lparr>sendMem := m\<rparr>) = recv_ok c" "recv_ok (c\<lparr>mSendQueue := q\<rparr>) = recv_ok c" "recv_ok (c\<lparr>sendPosts := k\<rparr>) = recv_ok c"
  "recv_ok (c\<lparr>mSendSocketAvailable := b\<rparr>) = recv_ok c" "recv_ok (c\<lparr>sendPhase := sp\<rparr>) = recv_ok c" "recv_ok (c\<lparr>sent := ms\<rparr>) = recv_ok c"
  "recv_ok (c\<lparr>socket := bs\<rparr>) = recv_ok c"
  "unanswered (c\<lparr>sendMem := m\<rparr>) = unanswered c" "unanswered (c\<lparr>mSendQueue := q\<rparr>) = unanswered c" "unanswered (c\<lparr>sendPosts := k\<rparr>) = unanswered c"
  "unanswered (c\<lparr>mSendSocketAvailable := b\<rparr>) = unanswered c" "unanswered (c\<lparr>sendPhase := sp\<rparr>) = unanswered c" "unanswered (c\<lparr>sent := ms\<rparr>) = unanswered c"
  "unanswered (c\<lparr>socket := bs\<rparr>) = unanswered c"
  "header_read (c\<lparr>sendMem := m\<rparr>) = header_read c" "header_read (c\<lparr>mSendQueue := q\<rparr>) = header_read c" "header_read (c\<lparr>sendPosts := k\<rparr>) = header_read c"
  "header_read (c\<lparr>mSendSocketAvailable := b\<rparr>) = header_read c" "header_read (c\<lparr>sendPhase := sp\<rparr>) = header_read c" "header_read (c\<lparr>sent := ms\<rparr>) = header_read c"
  "header_read (c\<lparr>socket := bs\<rparr>) = header_read c"
  by (simp_all add: recv_ok_def unanswered_def header_read_def)

lemma send_frame [simp]:
  "send_ok (c\<lparr>recvMem := m\<rparr>) = send_ok c" "send_ok (c\<lparr>mRecvQueue := q\<rparr>) = send_ok c" "send_ok (c\<lparr>recvPosts := k\<rparr>) = send_ok c"
  "send_ok (c\<lparr>mRecvSocketAvailable := b\<rparr>) = send_ok c" "send_ok (c\<lparr>recvPhase := p\<rparr>) = send_ok c" "send_ok (c\<lparr>mHeaderSize := k\<rparr>) = send_ok c"
  "send_ok (c\<lparr>asked := ns\<rparr>) = send_ok c" "send_ok (c\<lparr>got := ms\<rparr>) = send_ok c" "send_ok (c\<lparr>socket := bs\<rparr>) = send_ok c"
  "unsent (c\<lparr>recvMem := m\<rparr>) = unsent c" "unsent (c\<lparr>mRecvQueue := q\<rparr>) = unsent c" "unsent (c\<lparr>recvPosts := k\<rparr>) = unsent c"
  "unsent (c\<lparr>mRecvSocketAvailable := b\<rparr>) = unsent c" "unsent (c\<lparr>recvPhase := p\<rparr>) = unsent c" "unsent (c\<lparr>mHeaderSize := k\<rparr>) = unsent c"
  "unsent (c\<lparr>asked := ns\<rparr>) = unsent c" "unsent (c\<lparr>got := ms\<rparr>) = unsent c" "unsent (c\<lparr>socket := bs\<rparr>) = unsent c"
  "op_bytes (c\<lparr>recvMem := m\<rparr>) = op_bytes c" "op_bytes (c\<lparr>mRecvQueue := q\<rparr>) = op_bytes c" "op_bytes (c\<lparr>recvPosts := k\<rparr>) = op_bytes c"
  "op_bytes (c\<lparr>mRecvSocketAvailable := b\<rparr>) = op_bytes c" "op_bytes (c\<lparr>recvPhase := p\<rparr>) = op_bytes c" "op_bytes (c\<lparr>mHeaderSize := k\<rparr>) = op_bytes c"
  "op_bytes (c\<lparr>asked := ns\<rparr>) = op_bytes c" "op_bytes (c\<lparr>got := ms\<rparr>) = op_bytes c" "op_bytes (c\<lparr>socket := bs\<rparr>) = op_bytes c"
  "op_bytes (c\<lparr>mSendQueue := q\<rparr>) = op_bytes c" "op_bytes (c\<lparr>sendPosts := k\<rparr>) = op_bytes c" "op_bytes (c\<lparr>mSendSocketAvailable := b\<rparr>) = op_bytes c"
  "op_bytes (c\<lparr>sendPhase := sp\<rparr>) = op_bytes c" "op_bytes (c\<lparr>sent := ms\<rparr>) = op_bytes c"
  by (simp_all add: send_ok_def unsent_def op_bytes_def fun_eq_iff)

text \<open>A handler never throws, keeps the invariant and lowers the rank.\<close>

definition step_ok :: "channel_ends \<Rightarrow> channel_ends res \<Rightarrow> bool" where
  "step_ok c r \<longleftrightarrow> (\<exists>c'. r = Inr c' \<and> chan_ok c' \<and> chan_rank c' < chan_rank c)"

lemma step_okI:
  assumes "send_ok c'" "recv_ok c'" "wire_ok c' mid" "asked c' = map length (got c') @ map snd (unanswered c')"
    "chan_rank c' < chan_rank c"
  shows "step_ok c (Inr c')"
  using assms by (auto simp: step_ok_def chan_ok_def)

lemma chan_okE:
  assumes "chan_ok c"
  obtains mid where "send_ok c" "recv_ok c" "wire_ok c mid" "asked c = map length (got c) @ map snd (unanswered c)"
    "spsc_ok (mSendQueue c)" "spsc_ok (mRecvQueue c)"
    "spsc_isEmpty (mSendQueue c) \<longleftrightarrow> spsc_elems (mSendQueue c) = []"
    "spsc_isEmpty (mRecvQueue c) \<longleftrightarrow> spsc_elems (mRecvQueue c) = []"
proof -
  have "spsc_ok (mSendQueue c)" "spsc_ok (mRecvQueue c)"
    using assms by (simp_all add: chan_ok_def send_ok_def recv_ok_def)
  moreover from this [THEN spsc.isEmpty_iff]
  have "spsc_isEmpty (mSendQueue c) \<longleftrightarrow> spsc_elems (mSendQueue c) = []"
    "spsc_isEmpty (mRecvQueue c) \<longleftrightarrow> spsc_elems (mRecvQueue c) = []" .
  ultimately show ?thesis using assms that by (auto simp: chan_ok_def)
qed

lemma startSocket_send_ok:
  assumes "chan_ok c" and "sendPhase c = Send_closed"
  shows "\<exists>r. startSocket_send c = Some r \<and> step_ok c r"
  using assms(1)
proof (cases rule: chan_okE)
  case (1 mid)
  let ?c = "c\<lparr>mSendSocketAvailable := True, sendPhase := Send_idle\<rparr>"
  let ?d = "?c\<lparr>mSendSocketAvailable := False, sendPhase := Send_dispatched\<rparr>"
  show ?thesis
  proof (cases "spsc_elems (mSendQueue c) = []")
    case False
    have "startSocket_send c = Some (Inr ?d)"
      using 1(7) False assms(2) by (simp add: startSocket_send_def asyncPerformSend_def)
    moreover have "send_ok ?d" using 1(1) False by (simp add: send_ok_def)
    moreover have "wire_ok ?d mid" using 1(3) assms(2) by (simp add: wire_ok_def)
    moreover have "chan_rank ?d < chan_rank c" using assms(2) by (simp add: chan_rank_def)
    ultimately show ?thesis using step_okI [of ?d mid c] 1(2,4) by simp
  next
    case True
    have "startSocket_send c = Some (Inr ?c)" using 1(7) True assms(2) by (simp add: startSocket_send_def)
    moreover have "send_ok ?c" using 1(1) True by (simp add: send_ok_def)
    moreover have "wire_ok ?c mid" using 1(3) assms(2) by (simp add: wire_ok_def)
    moreover have "chan_rank ?c < chan_rank c" using assms(2) by (simp add: chan_rank_def)
    ultimately show ?thesis using step_okI [of ?c mid c] 1(2,4) by simp
  qed
qed

lemma startSocket_recv_ok:
  assumes "chan_ok c" and "recvPhase c = Recv_closed"
  shows "\<exists>r. startSocket_recv c = Some r \<and> step_ok c r"
  using assms(1)
proof (cases rule: chan_okE)
  case (1 mid)
  let ?c = "c\<lparr>mRecvSocketAvailable := True, recvPhase := Recv_idle\<rparr>"
  let ?d = "?c\<lparr>mRecvSocketAvailable := False, recvPhase := Recv_dispatched\<rparr>"
  show ?thesis
  proof (cases "spsc_elems (mRecvQueue c) = []")
    case False
    have "startSocket_recv c = Some (Inr ?d)"
      using 1(8) False assms(2) by (simp add: startSocket_recv_def asyncPerformRecv_def)
    moreover have "recv_ok ?d" using 1(2) False by (simp add: recv_ok_def)
    moreover have "wire_ok ?d mid" using 1(3) assms(2) by (simp add: wire_ok_def)
    moreover have "chan_rank ?d < chan_rank c" using assms(2) by (simp add: chan_rank_def)
    ultimately show ?thesis using step_okI [of ?d mid c] 1(1,4) assms(2) by simp
  next
    case True
    have "startSocket_recv c = Some (Inr ?c)" using 1(8) True assms(2) by (simp add: startSocket_recv_def)
    moreover have "recv_ok ?c" using 1(2) True by (simp add: recv_ok_def)
    moreover have "wire_ok ?c mid" using 1(3) assms(2) by (simp add: wire_ok_def)
    moreover have "chan_rank ?c < chan_rank c" using assms(2) by (simp add: chan_rank_def)
    ultimately show ?thesis using step_okI [of ?c mid c] 1(1,4) assms(2) by simp
  qed
qed

lemma send_posted_ok:
  assumes "chan_ok c" and "send_posted c = Some r"
  shows "step_ok c r"
  using assms(1)
proof (cases rule: chan_okE)
  case (1 mid)
  have p: "0 < sendPosts c" using assms(2) by (simp add: send_posted_def split: if_splits)
  let ?c = "c\<lparr>sendPosts := sendPosts c - 1\<rparr>"
  let ?d = "?c\<lparr>mSendSocketAvailable := False, sendPhase := Send_dispatched\<rparr>"
  show ?thesis
  proof (cases "spsc_elems (mSendQueue c) \<noteq> [] \<and> sendPhase c = Send_idle")
    case True
    then have "r = Inr ?d" using assms(2) p 1 by (auto simp: send_posted_def asyncPerformSend_def send_ok_def)
    moreover have "send_ok ?d" using 1(1) True by (simp add: send_ok_def)
    moreover have "wire_ok ?d mid" using 1(3) True by (simp add: wire_ok_def)
    moreover have "chan_rank ?d < chan_rank c" using True p by (simp add: chan_rank_def)
    ultimately show ?thesis using step_okI [of ?d mid c] 1(2,4) by simp
  next
    case False
    then have "r = Inr ?c" using assms(2) p 1 by (auto simp: send_posted_def send_ok_def)
    moreover have "send_ok ?c" using 1(1) False by (auto simp: send_ok_def)
    moreover have "wire_ok ?c mid" using 1(3) by (simp add: wire_ok_def unsent_def)
    moreover have "chan_rank ?c < chan_rank c" using p by (simp add: chan_rank_def)
    ultimately show ?thesis using step_okI [of ?c mid c] 1(2,4) by simp
  qed
qed

lemma send_perform_ok:
  assumes "chan_ok c" and "sendPhase c = Send_dispatched"
  shows "\<exists>r. send_perform c = Some r \<and> step_ok c r"
  using assms(1)
proof (cases rule: chan_okE)
  case (1 mid)
  obtain a n ops where q: "spsc_elems (mSendQueue c) = (a, n) # ops"
    using 1(1) assms(2) by (cases "spsc_elems (mSendQueue c)") (auto simp: send_ok_def)
  then have n: "n < 2 ^ 32" "n \<le> length (sendMem c a)" using 1(1) by (auto simp: send_ok_def)
  let ?m = "take n (sendMem c a)"
  let ?c = "c\<lparr>socket := socket c @ word_bytes 4 (of_nat n :: u32) @ ?m, sendPhase := Send_written\<rparr>"
  have "send_perform c = Some (Inr ?c)"
    using spsc.front_ok [OF 1(5) q] assms(2) by (simp add: send_perform_def)
  moreover have "send_ok ?c" using 1(1) assms(2) by (simp add: send_ok_def)
  moreover have "wire_ok ?c (mid @ [?m])"
    using 1(3) assms(2) n by (simp add: wire_ok_def q op_bytes_def [abs_def] frame_bytes_def)
  moreover have "chan_rank ?c < chan_rank c" using assms(2) by (simp add: chan_rank_def)
  ultimately show ?thesis using step_okI [of ?c "mid @ [?m]" c] 1(2,4) by simp
qed

lemma send_complete_ok:
  assumes "chan_ok c" and "sendPhase c = Send_written"
  shows "\<exists>r. send_complete c = Some r \<and> step_ok c r"
  using assms(1)
proof (cases rule: chan_okE)
  case (1 mid)
  obtain op ops where q: "spsc_elems (mSendQueue c) = op # ops"
    using 1(1) assms(2) by (cases "spsc_elems (mSendQueue c)") (auto simp: send_ok_def)
  obtain qs where qs: "spsc_pop_front (mSendQueue c) = Inr qs" "spsc_ok qs" "spsc_elems qs = ops"
    using spsc.pop_ok [OF 1(5) q] by blast
  have e: "spsc_isEmpty qs \<longleftrightarrow> ops = []" using spsc.isEmpty_iff [OF qs(2)] qs(3) by simp
  let ?c = "c\<lparr>mSendSocketAvailable := True, sendPhase := Send_idle, mSendQueue := qs\<rparr>"
  let ?d = "?c\<lparr>mSendSocketAvailable := False, sendPhase := Send_dispatched\<rparr>"
  show ?thesis
  proof (cases "ops = []")
    case False
    have "send_complete c = Some (Inr ?d)"
      using qs(1) e False assms(2) by (simp add: send_complete_def asyncPerformSend_def)
    moreover have "send_ok ?d" using 1(1) False q qs(2,3) by (simp add: send_ok_def)
    moreover have "wire_ok ?d mid" using 1(3) assms(2) q qs(3) by (simp add: wire_ok_def)
    moreover have "chan_rank ?d < chan_rank c" using assms(2) q qs(3) by (simp add: chan_rank_def)
    ultimately show ?thesis using step_okI [of ?d "mid" c] 1(2,4) by simp
  next
    case True
    have "send_complete c = Some (Inr ?c)" using qs(1) e True assms(2) by (simp add: send_complete_def)
    moreover have "send_ok ?c" using 1(1) True q qs(2,3) by (simp add: send_ok_def)
    moreover have "wire_ok ?c mid" using 1(3) assms(2) q qs(3) by (simp add: wire_ok_def)
    moreover have "chan_rank ?c < chan_rank c" using assms(2) q qs(3) by (simp add: chan_rank_def)
    ultimately show ?thesis using step_okI [of ?c "mid" c] 1(2,4) by simp
  qed
qed

lemma recv_posted_ok:
  assumes "chan_ok c" and "recv_posted c = Some r"
  shows "step_ok c r"
  using assms(1)
proof (cases rule: chan_okE)
  case (1 mid)
  have p: "0 < recvPosts c" using assms(2) by (simp add: recv_posted_def split: if_splits)
  let ?c = "c\<lparr>recvPosts := recvPosts c - 1\<rparr>"
  let ?d = "?c\<lparr>mRecvSocketAvailable := False, recvPhase := Recv_dispatched\<rparr>"
  show ?thesis
  proof (cases "spsc_elems (mRecvQueue c) \<noteq> [] \<and> recvPhase c = Recv_idle")
    case True
    then have "r = Inr ?d" using assms(2) p 1 by (auto simp: recv_posted_def asyncPerformRecv_def recv_ok_def)
    moreover have "recv_ok ?d" using 1(2) True by (simp add: recv_ok_def)
    moreover have "wire_ok ?d mid" using 1(3) True by (simp add: wire_ok_def)
    moreover have "chan_rank ?d < chan_rank c" using True p by (simp add: chan_rank_def)
    ultimately show ?thesis using step_okI [of ?d mid c] 1(1,4) True by simp
  next
    case False
    then have "r = Inr ?c" using assms(2) p 1 by (auto simp: recv_posted_def recv_ok_def)
    moreover have "recv_ok ?c" using 1(2) False by (auto simp: recv_ok_def)
    moreover have "wire_ok ?c mid" using 1(3) by (simp add: wire_ok_def header_read_def)
    moreover have "chan_rank ?c < chan_rank c" using p by (simp add: chan_rank_def)
    moreover have "unanswered ?c = unanswered c" by (simp add: unanswered_def)
    ultimately show ?thesis using step_okI [of ?c mid c] 1(1,4) by simp
  qed
qed

lemma recv_perform_ok:
  assumes "chan_ok c" and "recvPhase c = Recv_dispatched"
  shows "\<exists>r. recv_perform c = Some r \<and> step_ok c r"
  using assms(1)
proof (cases rule: chan_okE)
  case (1 mid)
  let ?c = "c\<lparr>recvPhase := Recv_header\<rparr>"
  have "recv_ok ?c" using 1(2) assms(2) by (simp add: recv_ok_def)
  moreover have "wire_ok ?c mid" using 1(3) assms(2) by (simp add: wire_ok_def)
  moreover have "chan_rank ?c < chan_rank c" using assms(2) by (simp add: chan_rank_def)
  moreover have "recv_perform c = Some (Inr ?c)" using assms(2) by (simp add: recv_perform_def)
  ultimately show ?thesis using step_okI [of ?c mid c] 1(1,4) assms(2) by simp
qed

text \<open>What waits on the wire when the receiver asks for a header, and when it asks for a body.\<close>

lemma wire_header:
  assumes "wire_ok c mid" and "recvPhase c = Recv_header" and "4 \<le> length (socket c)"
  obtains m ms where "mid = m # ms" and "length m < 2 ^ 32" and "take 4 (socket c) = word_bytes 4 (of_nat (length m) :: u32)"
    and "drop 4 (socket c) = m @ concat (map frame_bytes ms)"
proof -
  have w: "concat (map frame_bytes mid) = socket c" and l: "\<forall>m \<in> set mid. length m < 2 ^ 32"
    using assms(1,2) by (simp_all add: wire_ok_def)
  then obtain m ms where m: "mid = m # ms" using assms(3) by (cases mid) auto
  have "socket c = word_bytes 4 (of_nat (length m) :: u32) @ m @ concat (map frame_bytes ms)"
    unfolding w [symmetric] m by (simp add: frame_bytes_def)
  then show ?thesis using that m l by simp
qed

lemma wire_body:
  assumes "wire_ok c mid" and "recv_ok c" and "recvPhase c = Recv_body \<or> recvPhase c = Recv_bad"
  obtains m ms where "mid = m # ms" and "length m = mHeaderSize c" and "socket c = m @ concat (map frame_bytes ms)"
proof -
  have h: "header_read c = word_bytes 4 (of_nat (mHeaderSize c) :: u32)" using assms(3) by (auto simp: header_read_def)
  have w: "concat (map frame_bytes mid) = word_bytes 4 (of_nat (mHeaderSize c) :: u32) @ socket c"
    and l: "\<forall>m \<in> set mid. length m < 2 ^ 32"
    using assms(1) by (simp_all add: wire_ok_def h)
  have "mid \<noteq> []" using arg_cong [OF w, of length] by auto
  then obtain m ms where m: "mid = m # ms" by (cases mid) auto
  have e: "word_bytes 4 (of_nat (length m) :: u32) = word_bytes 4 (of_nat (mHeaderSize c) :: u32) \<and>
      m @ concat (map frame_bytes ms) = socket c"
    using w unfolding m by (simp add: frame_bytes_def append_eq_append_conv)
  have "(of_nat (length m) :: u32) = of_nat (mHeaderSize c)"
    using arg_cong [OF e [THEN conjunct1], of "bytes_le :: _ \<Rightarrow> u32"] by (simp add: bytes_le_word_bytes)
  then have "unat (of_nat (length m) :: u32) = unat (of_nat (mHeaderSize c) :: u32)" by simp
  then have "length m = mHeaderSize c" using l assms(2) m by (simp add: recv_ok_def unat_of_nat)
  then show ?thesis using that m e by simp
qed

lemma recv_queue_nonempty:
  assumes "recv_ok c" and "recvPhase c \<noteq> Recv_idle \<and> recvPhase c \<noteq> Recv_closed"
  obtains a n ops where "spsc_elems (mRecvQueue c) = (a, n) # ops"
proof -
  have "spsc_elems (mRecvQueue c) \<noteq> []" using assms by (simp add: recv_ok_def)
  then show ?thesis using that by (cases "spsc_elems (mRecvQueue c)") auto
qed

lemma recv_header_ok:
  assumes "chan_ok c" and "recvPhase c = Recv_header" and "4 \<le> length (socket c)"
  shows "\<exists>r. recv_header c = Some r \<and> step_ok c r"
  using assms(1)
proof (cases rule: chan_okE)
  case (1 mid)
  obtain a n ops where q: "spsc_elems (mRecvQueue c) = (a, n) # ops"
    by (rule recv_queue_nonempty [OF 1(2)]) (simp add: assms(2))
  obtain m ms where m: "mid = m # ms" "length m < 2 ^ 32" "take 4 (socket c) = word_bytes 4 (of_nat (length m) :: u32)"
      "drop 4 (socket c) = m @ concat (map frame_bytes ms)"
    by (rule wire_header [OF 1(3) assms(2,3)])
  let ?c = "c\<lparr>socket := drop 4 (socket c), mHeaderSize := length m,
              recvPhase := (if length m \<noteq> n then Recv_bad else Recv_body)\<rparr>"
  have "unat (bytes_le (take 4 (socket c)) :: u32) = length m"
    using m(2) by (simp add: m(3) bytes_le_word_bytes unat_of_nat)
  then have "recv_header c = Some (Inr ?c)"
    using spsc.front_ok [OF 1(6) q] assms(2,3) by (simp add: recv_header_def)
  moreover have "recv_ok ?c" using 1(2) assms(2) q m(2) by (simp add: recv_ok_def)
  moreover have "header_read ?c = word_bytes 4 (of_nat (length m) :: u32)" by (simp add: header_read_def)
  then have "wire_ok ?c mid" using 1(3) m by (simp add: wire_ok_def frame_bytes_def)
  moreover have "chan_rank ?c < chan_rank c" using assms(2) by (simp add: chan_rank_def)
  moreover have "unanswered ?c = unanswered c" using assms(2) by (simp add: unanswered_def)
  ultimately show ?thesis using step_okI [of ?c mid c] 1(1,4) by simp
qed

lemma recv_body_ok:
  assumes "chan_ok c" and "recvPhase c = Recv_body"
  shows "\<exists>r. recv_body c = Some r \<and> step_ok c r"
  using assms(1)
proof (cases rule: chan_okE)
  case (1 mid)
  obtain a n ops where q: "spsc_elems (mRecvQueue c) = (a, n) # ops"
    by (rule recv_queue_nonempty [OF 1(2)]) (simp add: assms(2))
  obtain m ms where m: "mid = m # ms" "length m = mHeaderSize c" "socket c = m @ concat (map frame_bytes ms)"
    by (rule wire_body [OF 1(3,2)]) (simp add: assms(2))
  have n: "length m = n" using 1(2) assms(2) q m(2) by (simp add: recv_ok_def)
  let ?c = "c\<lparr>socket := concat (map frame_bytes ms), recvMem := (recvMem c)(a := m @ drop n (recvMem c a)),
              got := got c @ [m], recvPhase := Recv_done\<rparr>"
  have "recv_body c = Some (Inr ?c)"
    using spsc.front_ok [OF 1(6) q] assms(2) m(3) n by (simp add: recv_body_def)
  moreover have "recv_ok ?c" using 1(2) assms(2) by (simp add: recv_ok_def)
  moreover have "wire_ok ?c ms" using 1(3) m(1) by (simp add: wire_ok_def)
  moreover have "chan_rank ?c < chan_rank c" using assms(2) by (simp add: chan_rank_def)
  moreover have "asked c = map length (got c @ [m]) @ map snd (tl (spsc_elems (mRecvQueue c)))"
    using 1(4) assms(2) q n by simp
  ultimately show ?thesis using step_okI [of ?c ms c] 1(1) by simp
qed

lemma recv_complete_ok:
  assumes "chan_ok c" and "recvPhase c = Recv_done"
  shows "\<exists>r. recv_complete c = Some r \<and> step_ok c r"
  using assms(1)
proof (cases rule: chan_okE)
  case (1 mid)
  obtain a n ops where q: "spsc_elems (mRecvQueue c) = (a, n) # ops"
    by (rule recv_queue_nonempty [OF 1(2)]) (simp add: assms(2))
  obtain qs where qs: "spsc_pop_front (mRecvQueue c) = Inr qs" "spsc_ok qs" "spsc_elems qs = ops"
    using spsc.pop_ok [OF 1(6) q] by blast
  have e: "spsc_isEmpty qs \<longleftrightarrow> ops = []" using spsc.isEmpty_iff [OF qs(2)] qs(3) by simp
  let ?c = "c\<lparr>mRecvSocketAvailable := True, recvPhase := Recv_idle, mRecvQueue := qs\<rparr>"
  let ?d = "?c\<lparr>mRecvSocketAvailable := False, recvPhase := Recv_dispatched\<rparr>"
  show ?thesis
  proof (cases "ops = []")
    case False
    have "recv_complete c = Some (Inr ?d)"
      using qs(1) e False assms(2) by (simp add: recv_complete_def asyncPerformRecv_def)
    moreover have "recv_ok ?d" using 1(2) False q qs(2,3) by (simp add: recv_ok_def)
    moreover have "wire_ok ?d mid" using 1(3) assms(2) by (simp add: wire_ok_def)
    moreover have "chan_rank ?d < chan_rank c" using assms(2) q qs(3) by (simp add: chan_rank_def)
    ultimately show ?thesis using step_okI [of ?d mid c] 1(1,4) assms(2) q qs(3) by simp
  next
    case True
    have "recv_complete c = Some (Inr ?c)" using qs(1) e True assms(2) by (simp add: recv_complete_def)
    moreover have "recv_ok ?c" using 1(2) True q qs(2,3) by (simp add: recv_ok_def)
    moreover have "wire_ok ?c mid" using 1(3) assms(2) by (simp add: wire_ok_def)
    moreover have "chan_rank ?c < chan_rank c" using assms(2) q qs(3) by (simp add: chan_rank_def)
    ultimately show ?thesis using step_okI [of ?c mid c] 1(1,4) assms(2) q qs(3) by simp
  qed
qed

lemma handler_ok:
  assumes "chan_ok c" and "f \<in> set handlers" and "f c = Some r"
  shows "step_ok c r"
proof -
  consider "f = send_posted" | "f = send_perform" | "f = send_complete" | "f = recv_posted" | "f = recv_perform"
    | "f = recv_header" | "f = recv_body" | "f = recv_complete"
      | "f = startSocket_send" | "f = startSocket_recv"
    using assms(2) by (auto simp: handlers_def)
  then show ?thesis
  proof cases
    case 9
    then have "sendPhase c = Send_closed" using assms(3) by (simp add: startSocket_send_def split: if_splits)
    from startSocket_send_ok [OF assms(1) this] show ?thesis using 9 assms(3) by auto
  next
    case 10
    then have "recvPhase c = Recv_closed" using assms(3) by (simp add: startSocket_recv_def split: if_splits)
    from startSocket_recv_ok [OF assms(1) this] show ?thesis using 10 assms(3) by auto
  next
    case 1
    then show ?thesis using send_posted_ok [OF assms(1)] assms(3) by simp
  next
    case 2
    then have "sendPhase c = Send_dispatched" using assms(3) by (simp add: send_perform_def split: if_splits)
    from send_perform_ok [OF assms(1) this] show ?thesis using 2 assms(3) by auto
  next
    case 3
    then have "sendPhase c = Send_written" using assms(3) by (simp add: send_complete_def split: if_splits)
    from send_complete_ok [OF assms(1) this] show ?thesis using 3 assms(3) by auto
  next
    case 4
    then show ?thesis using recv_posted_ok [OF assms(1)] assms(3) by simp
  next
    case 5
    then have "recvPhase c = Recv_dispatched" using assms(3) by (simp add: recv_perform_def split: if_splits)
    from recv_perform_ok [OF assms(1) this] show ?thesis using 5 assms(3) by auto
  next
    case 6
    then have "recvPhase c = Recv_header" "4 \<le> length (socket c)"
      using assms(3) by (auto simp: recv_header_def split: if_splits)
    from recv_header_ok [OF assms(1) this] show ?thesis using 6 assms(3) by auto
  next
    case 7
    then have "recvPhase c = Recv_body" using assms(3) by (simp add: recv_body_def split: if_splits)
    from recv_body_ok [OF assms(1) this] show ?thesis using 7 assms(3) by auto
  next
    case 8
    then have "recvPhase c = Recv_done" using assms(3) by (simp add: recv_complete_def split: if_splits)
    from recv_complete_ok [OF assms(1) this] show ?thesis using 8 assms(3) by auto
  qed
qed

lemma chan_internal_ok:
  assumes "chan_ok c" and "chan_internal c c'"
  shows "chan_ok c'" and "chan_rank c' < chan_rank c"
  using assms handler_ok [OF assms(1)] by (auto simp: chan_internal_def step_ok_def)

subsection \<open>The calls of the clients\<close>

lemma call_send_ok:
  assumes "chan_ok c" "n < 2 ^ 64" "n \<le> length (sendMem c buff)" "length (spsc_elems (mSendQueue c)) < 2 ^ 60"
    "asyncSend_op buff n c = Some (Inr c')"
  shows "chan_ok c'"
  using assms(1)
proof (cases rule: chan_okE)
  case (1 mid)
  obtain qs where qs: "spsc_push_back (buff, n) (mSendQueue c) = Inr qs" "spsc_ok qs"
      "spsc_elems qs = spsc_elems (mSendQueue c) @ [(buff, n)]"
    by (rule spsc.push_elim [OF 1(5) assms(4)])
  have "sendable_size n" using assms(5) by (simp add: asyncSend_op_def split: if_splits)
  then have n: "0 < n" "n < 2 ^ 32 - 1" using sendable_size_iff [OF assms(2)] by auto
  have c': "c' = c\<lparr>sent := sent c @ [take n (sendMem c buff)], mSendQueue := qs, sendPosts := sendPosts c + 1\<rparr>"
    using assms(5) qs(1) by (auto simp: asyncSend_op_def sendEnque_def split: if_splits)
  have "send_ok c'" using 1(1) n assms(3) qs(2,3) by (simp add: c' send_ok_def)
  moreover have "sendPhase c = Send_written \<Longrightarrow> spsc_elems (mSendQueue c) \<noteq> []" using 1(1) by (simp add: send_ok_def)
  then have "unsent c' = unsent c @ [(buff, n)]" by (auto simp: c' unsent_def qs(3))
  then have "wire_ok c' mid" using 1(3) by (simp add: c' wire_ok_def) (simp add: op_bytes_def)
  ultimately show ?thesis using 1(2,4) by (auto simp: chan_ok_def c')
qed

lemma call_recv_ok:
  assumes "chan_ok c" "length (spsc_elems (mRecvQueue c)) < 2 ^ 60" "asyncRecv_op buff n c = Some (Inr c')"
  shows "chan_ok c'"
  using assms(1)
proof (cases rule: chan_okE)
  case (1 mid)
  obtain qs where qs: "spsc_push_back (buff, n) (mRecvQueue c) = Inr qs" "spsc_ok qs"
      "spsc_elems qs = spsc_elems (mRecvQueue c) @ [(buff, n)]"
    by (rule spsc.push_elim [OF 1(6) assms(2)])
  have c': "c' = c\<lparr>asked := asked c @ [n], mRecvQueue := qs, recvPosts := recvPosts c + 1\<rparr>"
    using assms(3) qs(1) by (auto simp: asyncRecv_op_def recvEnque_def split: if_splits)
  have ne: "recvPhase c \<noteq> Recv_idle \<Longrightarrow> recvPhase c \<noteq> Recv_closed \<Longrightarrow> spsc_elems (mRecvQueue c) \<noteq> []" using 1(2) by (simp add: recv_ok_def)
  have "sendable_size n" using assms(3) by (simp add: asyncRecv_op_def split: if_splits)
  then have "recv_ok c'" using 1(2) ne qs(2,3) by (auto simp: c' recv_ok_def hd_append)
  moreover have "unanswered c' = unanswered c @ [(buff, n)]" using ne by (auto simp: c' unanswered_def qs(3))
  moreover have "wire_ok c' mid" using 1(3) by (simp add: c' wire_ok_def header_read_def)
  ultimately show ?thesis using 1(1,4) by (auto simp: chan_ok_def c')
qed

lemma write_buffer_ok:
  assumes "chan_ok c" and "buff \<notin> fst ` set (spsc_elems (mSendQueue c))"
  shows "chan_ok (c\<lparr>sendMem := (sendMem c)(buff := bytes)\<rparr>)"
  using assms(1)
proof (cases rule: chan_okE)
  case (1 mid)
  let ?c = "c\<lparr>sendMem := (sendMem c)(buff := bytes)\<rparr>"
  have other: "fst op \<noteq> buff" if "op \<in> set (spsc_elems (mSendQueue c))" for op using assms(2) that by force
  have "send_ok ?c" using 1(1) other by (fastforce simp: send_ok_def)
  moreover have "set (unsent c) \<subseteq> set (spsc_elems (mSendQueue c))" by (cases "spsc_elems (mSendQueue c)") (auto simp: unsent_def)
  then have "map (op_bytes ?c) (unsent c) = map (op_bytes c) (unsent c)"
    using other by (auto simp: op_bytes_def)
  then have "wire_ok ?c mid" using 1(3) by (simp add: wire_ok_def unsent_def)
  ultimately show ?thesis using 1(2,4) by (auto simp: chan_ok_def)
qed

lemma chan_step_ok: "chan_step c c' \<Longrightarrow> chan_ok c \<Longrightarrow> chan_ok c'"
  by (induction rule: chan_step.induct) (auto intro: chan_internal_ok call_send_ok call_recv_ok write_buffer_ok)

lemma new_channel_ok: "chan_ok (new_channel smem rmem)"
proof -
  let ?c = "new_channel smem rmem"
  have "send_ok ?c" "recv_ok ?c" by (simp_all add: new_channel_def send_ok_def recv_ok_def spsc.new_ok)
  moreover have "wire_ok ?c []" by (simp add: new_channel_def wire_ok_def spsc.new_ok)
  ultimately show ?thesis by (auto simp: chan_ok_def new_channel_def spsc.new_ok)
qed

lemma chan_reach_ok: "chan_reach c x \<Longrightarrow> chan_ok c \<Longrightarrow> chan_ok x"
  by (induction rule: chan_reach.induct) (auto intro: chan_step_ok)

subsection \<open>At rest\<close>

lemma finitely_many_handlers:
  assumes "chan_ok x" and "run 0 = x" and "\<And>i :: nat. chan_internal (run i) (run (Suc i))"
  shows False
proof -
  have ok: "chan_ok (run i)" for i using assms by (induction i) (auto intro: chan_internal_ok)
  have "\<forall>i. (run (Suc i), run i) \<in> measure chan_rank" using chan_internal_ok(2) [OF ok assms(3)] by simp
  then show False using wf_iff_no_infinite_down_chain [of "measure chan_rank"] by blast
qed

lemma rest_cases:
  assumes "chan_ok c" and rest: "\<nexists>c'. chan_internal c c'"
  shows "length (got c) = min (length (sent c)) (length (asked c)) \<or>
    length (got c) < min (length (sent c)) (length (asked c)) \<and>
      recvPhase c = Recv_bad \<and> asked c ! length (got c) \<noteq> length (sent c ! length (got c))"
  using assms(1)
proof (cases rule: chan_okE)
  case (1 mid)
  have no: "f c = None" if "f \<in> set handlers" for f
  proof (rule ccontr)
    assume "f c \<noteq> None"
    then obtain r where "f c = Some r" by blast
    with handler_ok [OF assms(1) that this] rest that show False by (auto simp: step_ok_def chan_internal_def)
  qed
  then have none: "send_posted c = None" "send_perform c = None" "send_complete c = None" "recv_posted c = None"
      "recv_perform c = None" "recv_header c = None" "recv_body c = None" "recv_complete c = None"
      "startSocket_send c = None" "startSocket_recv c = None"
    by (simp_all add: handlers_def)
  have "sendPosts c = 0" using none(1) by (simp add: send_posted_def Let_def split: if_splits)
  moreover have "sendPhase c = Send_idle"
    using none(2,3,9) send_perform_ok [OF assms(1)] send_complete_ok [OF assms(1)] startSocket_send_ok [OF assms(1)]
    by (cases "sendPhase c") auto
  ultimately have "unsent c = []" using 1(1) by (simp add: send_ok_def)
  then have sent: "sent c = got c @ mid" using 1(3) by (simp add: wire_ok_def)
  have "recvPosts c = 0" using none(4) by (simp add: recv_posted_def Let_def split: if_splits)
  then have idle: "recvPhase c = Recv_idle \<Longrightarrow> spsc_elems (mRecvQueue c) = []" using 1(2) by (simp add: recv_ok_def)
  consider "recvPhase c = Recv_idle" | "recvPhase c = Recv_header" | "recvPhase c = Recv_bad"
    using none(5,7,8,10) startSocket_recv_ok [OF assms(1)] recv_perform_ok [OF assms(1)] recv_body_ok [OF assms(1)] recv_complete_ok [OF assms(1)]
    by (cases "recvPhase c") auto
  then show ?thesis
  proof cases
    case idle_now: 1
    then have "asked c = map length (got c)" using 1(4) idle by simp
    then show ?thesis using sent by simp
  next
    case header: 2
    have "\<not> 4 \<le> length (socket c)" using none(6) recv_header_ok [OF assms(1) header] by auto
    moreover have "concat (map frame_bytes mid) = socket c" using 1(3) header by (simp add: wire_ok_def)
    ultimately have "mid = []" by (cases mid) (auto simp: frame_bytes_def dest: arg_cong [of _ _ length])
    then show ?thesis using sent 1(4) by simp
  next
    case bad: 3
    obtain a n ops where q: "spsc_elems (mRecvQueue c) = (a, n) # ops"
      by (rule recv_queue_nonempty [OF 1(2)]) (simp add: bad)
    obtain m ms where m: "mid = m # ms" "length m = mHeaderSize c" by (rule wire_body [OF 1(3,2)]) (simp add: bad)
    have "asked c ! length (got c) = n" using 1(4) bad q by (simp add: nth_append)
    moreover have "sent c ! length (got c) = m" using sent m(1) by (simp add: nth_append)
    moreover have "mHeaderSize c \<noteq> n" using 1(2) bad q by (simp add: recv_ok_def)
    moreover have "length (got c) < length (sent c)" "length (got c) < length (asked c)"
      using sent m(1) 1(4) bad q by simp_all
    ultimately show ?thesis using m(2) bad by simp
  qed
qed

subsection \<open>The channel that the clients see\<close>

text \<open>
  Every step of the two sides is invisible, or is \<open>asyncSend\<close> or a successful \<open>channel_recv\<close> on the list of the
  messages that were sent and not received; a receive operation that has gone bad is the error of \<open>channel_recv\<close>.
\<close>

definition pending_messages :: "channel_ends \<Rightarrow> channel" where
  "pending_messages c = drop (length (got c)) (sent c)"

lemma internal_history:
  assumes "chan_internal c c'"
  shows "sent c' = sent c \<and> asked c' = asked c \<and>
    (got c' = got c \<or> (\<exists>m. got c' = got c @ [m] \<and> recvPhase c = Recv_body))"
proof -
  obtain f where f: "f \<in> set handlers" "f c = Some (Inr c')" using assms by (auto simp: chan_internal_def)
  consider "f = send_posted" | "f = send_perform" | "f = send_complete" | "f = recv_posted" | "f = recv_perform"
    | "f = recv_header" | "f = recv_body" | "f = recv_complete"
      | "f = startSocket_send" | "f = startSocket_recv"
    using f(1) by (auto simp: handlers_def)
  then show ?thesis
  proof cases
    case 9
    then show ?thesis using f(2) by (auto simp: startSocket_send_def asyncPerformSend_def Let_def split: if_splits)
  next
    case 10
    then show ?thesis using f(2) by (auto simp: startSocket_recv_def asyncPerformRecv_def Let_def split: if_splits)
  next
    case 1
    then show ?thesis using f(2) by (auto simp: send_posted_def asyncPerformSend_def Let_def split: if_splits)
  next
    case 2
    then show ?thesis using f(2) by (auto simp: send_perform_def res_bind_Inr_iff split: if_splits)
  next
    case 3
    then show ?thesis using f(2) by (auto simp: send_complete_def asyncPerformSend_def Let_def res_bind_Inr_iff split: if_splits)
  next
    case 4
    then show ?thesis using f(2) by (auto simp: recv_posted_def asyncPerformRecv_def Let_def split: if_splits)
  next
    case 5
    then show ?thesis using f(2) by (auto simp: recv_perform_def split: if_splits)
  next
    case 6
    then show ?thesis using f(2) by (auto simp: recv_header_def Let_def res_bind_Inr_iff split: if_splits)
  next
    case 7
    then show ?thesis using f(2)
      by (cases "spsc_front (mRecvQueue c)"; cases "the (spsc_front (mRecvQueue c))")
        (auto simp: recv_body_def split: if_splits)
  next
    case 8
    then show ?thesis using f(2) by (auto simp: recv_complete_def asyncPerformRecv_def Let_def res_bind_Inr_iff split: if_splits)
  qed
qed

lemma channel_recv_front:
  assumes "sendable_size n"
  shows "channel_recv n (m # q) =
    Some (if length m \<noteq> n then Inl (Runtime_error ''Bad receive buffer size'') else Inr (m, q))"
  using assms by (simp add: channel_recv_def)

lemma next_receive:
  assumes "chan_ok c" and "recvPhase c = Recv_body \<or> recvPhase c = Recv_bad"
  obtains m ms where "pending_messages c = m # ms" and "sendable_size (asked c ! length (got c))"
    and "length m = asked c ! length (got c) \<longleftrightarrow> recvPhase c = Recv_body"
  using assms(1)
proof (cases rule: chan_okE)
  case (1 mid)
  obtain a n ops where q: "spsc_elems (mRecvQueue c) = (a, n) # ops"
    by (rule recv_queue_nonempty [OF 1(2)]) (use assms(2) in auto)
  obtain m ms where m: "mid = m # ms" "length m = mHeaderSize c" by (rule wire_body [OF 1(3,2) assms(2)])
  have "recvPhase c \<noteq> Recv_done" using assms(2) by auto
  then have n: "asked c ! length (got c) = n" using 1(4) q by (simp add: nth_append)
  have "pending_messages c = m # ms @ map (op_bytes c) (unsent c)"
    using 1(3) m(1) by (simp add: pending_messages_def wire_ok_def)
  moreover have "sendable_size n" "length m = n \<longleftrightarrow> recvPhase c = Recv_body"
    using 1(2) q m(2) assms(2) by (auto simp: recv_ok_def)
  ultimately show ?thesis using that n by simp
qed

theorem channel_refines:
  assumes "chan_reach (new_channel smem rmem) x" and "chan_step x y"
  shows "pending_messages y = pending_messages x \<or>
      (\<exists>m. asyncSend m (pending_messages x) = Some (pending_messages y)) \<or>
      (\<exists>m n. channel_recv n (pending_messages x) = Some (Inr (m, pending_messages y)) \<and> got y = got x @ [m])"
    and "recvPhase x = Recv_bad \<Longrightarrow> channel_recv (asked x ! length (got x)) (pending_messages x) =
      Some (Inl (Runtime_error ''Bad receive buffer size''))"
proof -
  have ok: "chan_ok x" using chan_reach_ok [OF assms(1) new_channel_ok] .
  have ok': "chan_ok y" using chan_step_ok [OF assms(2) ok] .
  have le: "length (got x) \<le> length (sent x)" using ok by (auto simp: chan_ok_def wire_ok_def)
  show "recvPhase x = Recv_bad \<Longrightarrow> channel_recv (asked x ! length (got x)) (pending_messages x) =
      Some (Inl (Runtime_error ''Bad receive buffer size''))"
    by (rule next_receive [OF ok]) (auto simp: channel_recv_front)
  show "pending_messages y = pending_messages x \<or>
      (\<exists>m. asyncSend m (pending_messages x) = Some (pending_messages y)) \<or>
      (\<exists>m n. channel_recv n (pending_messages x) = Some (Inr (m, pending_messages y)) \<and> got y = got x @ [m])"
    using assms(2)
  proof cases
    case handler
    then consider "pending_messages y = pending_messages x"
      | m where "got y = got x @ [m]" "sent y = sent x" "asked y = asked x" "recvPhase x = Recv_body"
      using internal_history [OF handler] by (auto simp: pending_messages_def)
    then show ?thesis
    proof cases
      case (2 m)
      obtain m' ms where m': "pending_messages x = m' # ms" "sendable_size (asked x ! length (got x))"
        "length m' = asked x ! length (got x)"
        by (rule next_receive [OF ok]) (use 2(4) in auto)
      have "\<exists>rest. sent y = got y @ rest" using ok' by (auto simp: chan_ok_def wire_ok_def)
      then have "m' = m" "pending_messages y = ms" using m'(1) 2 by (auto simp: pending_messages_def)
      then have "channel_recv (asked x ! length (got x)) (pending_messages x) = Some (Inr (m, pending_messages y))"
        using m' by (simp add: channel_recv_front)
      then show ?thesis using 2(1) by blast
    qed blast
  next
    case (call_send n buff)
    then have "sendable_size n" and "sent y = sent x @ [take n (sendMem x buff)]" "got y = got x"
      by (auto simp: asyncSend_op_def sendEnque_def res_bind_Inr_iff split: if_splits)
    then have "asyncSend (take n (sendMem x buff)) (pending_messages x) = Some (pending_messages y)"
      using call_send(2) le by (simp add: asyncSend_def pending_messages_def)
    then show ?thesis by blast
  next
    case (call_recv n buff)
    then have "pending_messages y = pending_messages x"
      by (auto simp: asyncRecv_op_def recvEnque_def res_bind_Inr_iff pending_messages_def split: if_splits)
    then show ?thesis ..
  qed (simp add: pending_messages_def)
qed

subsection \<open>The property\<close>

text \<open>
  C37: whatever the interleaving of the calls of the two clients with the handlers of both sides, what the completed
  receive operations got is, in order, what was in the buffers when \<^verbatim>\<open>asyncSend\<close> was called, each in
  a buffer of its length, provided no buffer is written while an operation refers to it. No handler
  throws, only finitely many handlers run between two calls, and when none is left to run then all
  that was sent and asked for has arrived, or the next receive operation has a buffer that is not as long
  as the next message, and fails.
\<close>

theorem channel_delivers:
  assumes "chan_reach (new_channel smem rmem) x"
  shows "(\<exists>rest. sent x = got x @ rest) \<and> map length (got x) = take (length (got x)) (asked x) \<and>
    (\<forall>f \<in> set handlers. \<forall>e. f x \<noteq> Some (Inl e)) \<and>
    \<not> (\<exists>run. run 0 = x \<and> (\<forall>i :: nat. chan_internal (run i) (run (Suc i)))) \<and>
    ((\<nexists>y. chan_internal x y) \<longrightarrow>
       length (got x) = min (length (sent x)) (length (asked x)) \<or>
       length (got x) < min (length (sent x)) (length (asked x)) \<and>
         recvPhase x = Recv_bad \<and> asked x ! length (got x) \<noteq> length (sent x ! length (got x)))"
proof -
  have ok: "chan_ok x" using chan_reach_ok [OF assms new_channel_ok] .
  then have "\<exists>rest. sent x = got x @ rest" "map length (got x) = take (length (got x)) (asked x)"
    by (auto simp: chan_ok_def wire_ok_def)
  moreover have "\<forall>f \<in> set handlers. \<forall>e. f x \<noteq> Some (Inl e)"
    using handler_ok [OF ok] by (fastforce simp: step_ok_def)
  moreover have "\<not> (\<exists>run. run 0 = x \<and> (\<forall>i :: nat. chan_internal (run i) (run (Suc i))))"
    using finitely_many_handlers [OF ok] by blast
  ultimately show ?thesis using rest_cases [OF ok] by simp
qed

text \<open>One message of two bytes and one receive operation, run until the channel is at rest.\<close>

lemma comes_to_rest:
  assumes "chan_ok c" and "chan_reach s c"
  shows "\<exists>x. chan_reach s x \<and> (\<nexists>y. chan_internal x y) \<and> sent x = sent c \<and> asked x = asked c"
  using assms
proof (induction "chan_rank c" arbitrary: c rule: less_induct)
  case less
  show ?case
  proof (cases "\<exists>y. chan_internal c y")
    case True
    then obtain y where y: "chan_internal c y" ..
    have "\<exists>x. chan_reach s x \<and> (\<nexists>z. chan_internal x z) \<and> sent x = sent y \<and> asked x = asked y"
      using chan_internal_ok [OF less.prems(1) y] less.prems(2) y
      by (intro less.hyps) (auto intro: chan_trans handler)
    then show ?thesis using internal_history [OF y] by simp
  qed (use less.prems(2) in auto)
qed

theorem channel_delivers_witness:
  "\<exists>x. chan_reach (new_channel (\<lambda>_. [1, 2, 3]) (\<lambda>_. [0, 0])) x \<and> sent x = [[1, 2]] \<and> asked x = [2] \<and> got x = [[1, 2]]"
proof -
  let ?c = "new_channel (\<lambda>_. [1, 2, 3]) (\<lambda>_. [0, 0])"
  have room: "length (spsc_elems (SpscQueue :: (nat \<times> nat) base_queue list)) < 2 ^ 60" by (simp add: spsc.new_ok)
  obtain q where q: "spsc_push_back (5, 2) SpscQueue = Inr (q :: (nat \<times> nat) base_queue list)"
    using spsc.push_elim [OF spsc.new_ok(1) room] by blast
  have two: "sendable_size 2" by (simp add: sendable_size_iff)
  obtain c where c: "asyncSend_op 5 2 ?c = Some (Inr c)" "sent c = [[1, 2]]" "asked c = []" "mRecvQueue c = SpscQueue"
    using q two by (simp add: asyncSend_op_def sendEnque_def new_channel_def)
  obtain d where d: "asyncRecv_op 5 2 c = Some (Inr d)" "sent d = [[1, 2]]" "asked d = [2]"
    using q two c(2-4) by (simp add: asyncRecv_op_def recvEnque_def)
  have "chan_step ?c c"
    using room by (intro call_send [OF _ _ _ c(1)]) (simp_all add: new_channel_def)
  moreover have "chan_step c d"
    using room by (intro call_recv [OF _ _ d(1)]) (simp_all add: c(4))
  ultimately have reach: "chan_reach ?c d" by (blast intro: chan_refl chan_trans)
  obtain x where x: "chan_reach ?c x" "\<nexists>y. chan_internal x y" "sent x = [[1, 2]]" "asked x = [2]"
    using comes_to_rest [OF chan_reach_ok [OF reach new_channel_ok] reach] d(2,3) by auto
  have "length (sent x ! 0) = 2" "length (sent x) = 1" "length (asked x) = 1" "asked x ! 0 = 2"
    by (simp_all add: x(3,4))
  then have "\<exists>rest. sent x = got x @ rest" "length (got x) = 1"
    using channel_delivers [OF x(1)] x(2) by auto
  then have "got x = [[1, 2]]" using x(3) by (cases "got x") auto
  then show ?thesis using x by blast
qed

end
